(* ===== verification/XBase.thy ===== *)
theory XBase
  imports Main "HOL-Library.AList" "HOL-Library.Multiset" "HOL-Library.List_Lexorder"
    "HOL-Library.Char_ord" "HOL-Library.Sublist"
begin

text \<open>
  The prelude of the development.  It holds the types every service shares (instants and
  durations in nanoseconds, tables keyed by a row id), the parts of Go's standard library the
  services lean on (\<open>strings.TrimSpace\<close>, \<open>strconv.Atoi\<close>, \<open>sort.Slice\<close>), and the two
  interfaces that several services implement: a tenant-scoped row store and a newest-first
  keyset listing.  Both interfaces are locales; each service interprets them on its own storage
  operations.
\<close>

named_theorems table_simps \<open>characteristic equations of the tables' reads and writes\<close>

section \<open>Instants and durations\<close>

text \<open>
  A \<open>time.Time\<close> is the number of nanoseconds since Go's zero instant (January 1, year 1, UTC), so
  that \<open>IsZero\<close> is equality with 0; a \<open>time.Duration\<close> is a number of nanoseconds.
\<close>

type_synonym time = int
type_synonym duration = int

definition Second :: duration where "Second = 1000000000"
definition Minute :: duration where "Minute = 60 * Second"
definition Hour :: duration where "Hour = 60 * Minute"

lemmas duration_defs = Second_def Minute_def Hour_def

lemma Second_pos [simp]: "0 < Second"
  by (simp add: Second_def)

definition IsZero :: "time \<Rightarrow> bool" where
  "IsZero t \<longleftrightarrow> t = 0"

section \<open>Strings of the standard library\<close>

text \<open>
  The byte sequences that UTF-8 decodes to a rune \<open>c\<close> with \<open>unicode.IsSpace(c)\<close>: the six ASCII
  ones, NEL and NBSP, and the space separators beyond Latin-1.
\<close>

definition white_runes :: "string list" where
  "white_runes =
     [[CHR 0x09], [CHR 0x0A], [CHR 0x0B], [CHR 0x0C], [CHR 0x0D], [CHR 0x20],
      [CHR 0xC2, CHR 0x85], [CHR 0xC2, CHR 0xA0], [CHR 0xE1, CHR 0x9A, CHR 0x80],
      [CHR 0xE2, CHR 0x80, CHR 0x80], [CHR 0xE2, CHR 0x80, CHR 0x81],
      [CHR 0xE2, CHR 0x80, CHR 0x82], [CHR 0xE2, CHR 0x80, CHR 0x83],
      [CHR 0xE2, CHR 0x80, CHR 0x84], [CHR 0xE2, CHR 0x80, CHR 0x85],
      [CHR 0xE2, CHR 0x80, CHR 0x86], [CHR 0xE2, CHR 0x80, CHR 0x87],
      [CHR 0xE2, CHR 0x80, CHR 0x88], [CHR 0xE2, CHR 0x80, CHR 0x89],
      [CHR 0xE2, CHR 0x80, CHR 0x8A], [CHR 0xE2, CHR 0x80, CHR 0xA8],
      [CHR 0xE2, CHR 0x80, CHR 0xA9], [CHR 0xE2, CHR 0x80, CHR 0xAF],
      [CHR 0xE2, CHR 0x81, CHR 0x9F], [CHR 0xE3, CHR 0x80, CHR 0x80]]"

lemma white_runes_nonempty: "w \<in> set white_runes \<Longrightarrow> w \<noteq> []"
  by (auto simp: white_runes_def)

definition starts_with :: "string \<Rightarrow> string \<Rightarrow> bool" where
  "starts_with s p \<longleftrightarrow> take (length p) s = p"

definition ends_with :: "string \<Rightarrow> string \<Rightarrow> bool" where
  "ends_with s p \<longleftrightarrow> starts_with (rev s) (rev p)"

text \<open>Drop runes of \<open>ws\<close> from the front for as long as one of them leads.\<close>

function drop_runes :: "string list \<Rightarrow> string \<Rightarrow> string" where
  "drop_runes ws s =
     (case find (\<lambda>w. w \<noteq> [] \<and> starts_with s w) ws of
        None \<Rightarrow> s
      | Some w \<Rightarrow> drop_runes ws (drop (length w) s))"
  by pat_completeness auto
termination
proof (relation "measure (\<lambda>(ws, s). length s)")
  fix ws s w
  assume "find (\<lambda>w. w \<noteq> [] \<and> starts_with s w) ws = Some w"
  then have "w \<noteq> []" "take (length w) s = w"
    by (auto simp: find_Some_iff starts_with_def)
  then have "s \<noteq> []" by (metis take_Nil)
  with \<open>w \<noteq> []\<close> show "((ws, drop (length w) s), ws, s) \<in> measure (\<lambda>(ws, s). length s)"
    by (simp add: diff_less)
qed simp

declare drop_runes.simps [simp del]

definition TrimSpace :: "string \<Rightarrow> string" where
  "TrimSpace s = rev (drop_runes (map rev white_runes) (rev (drop_runes white_runes s)))"

lemma drop_runes_Nil [simp]: "drop_runes ws [] = []"
proof -
  have "find (\<lambda>w. w \<noteq> [] \<and> starts_with [] w) ws = None"
    by (simp add: find_None_iff starts_with_def)
  then show ?thesis by (subst drop_runes.simps) simp
qed

lemma TrimSpace_Nil [simp]: "TrimSpace [] = []"
  by (simp add: TrimSpace_def)

text \<open>\<open>strings.Contains\<close>, and the part of \<open>strings.ToLower\<close> that acts on ASCII letters.\<close>

fun has_substring :: "string \<Rightarrow> string \<Rightarrow> bool" where
  "has_substring [] p \<longleftrightarrow> p = []"
| "has_substring (c # s) p \<longleftrightarrow> starts_with (c # s) p \<or> has_substring s p"

definition lower_char :: "char \<Rightarrow> char" where
  "lower_char c = (if CHR ''A'' \<le> c \<and> c \<le> CHR ''Z'' then char_of (of_char c + 32 :: int) else c)"

text \<open>\<open>strconv.Atoi\<close>: an optional sign and decimal digits, within the range of a 64-bit \<open>int\<close>.\<close>

definition is_digit :: "char \<Rightarrow> bool" where
  "is_digit c \<longleftrightarrow> CHR ''0'' \<le> c \<and> c \<le> CHR ''9''"

definition digit_val :: "char \<Rightarrow> int" where
  "digit_val c = of_char c - 48"

fun digits_val :: "int \<Rightarrow> string \<Rightarrow> int option" where
  "digits_val acc [] = Some acc"
| "digits_val acc (c # cs) = (if is_digit c then digits_val (10 * acc + digit_val c) cs else None)"

definition Atoi :: "string \<Rightarrow> int option" where
  "Atoi s =
     (let (neg, ds) = (case s of [] \<Rightarrow> (False, [])
                       | c # cs \<Rightarrow> if c = CHR ''-'' then (True, cs)
                                  else if c = CHR ''+'' then (False, cs) else (False, s))
      in if ds = [] then None
         else case digits_val 0 ds of
                None \<Rightarrow> None
              | Some n \<Rightarrow> (let v = (if neg then - n else n)
                           in if - (2 ^ 63) \<le> v \<and> v < 2 ^ 63 then Some v else None))"

text \<open>\<open>strings.Join\<close>.\<close>

fun join :: "string \<Rightarrow> string list \<Rightarrow> string" where
  "join sep [] = []"
| "join sep [s] = s"
| "join sep (s # ss) = s @ sep @ join sep ss"

text \<open>\<open>%d\<close> of a natural number.\<close>

fun show_nat :: "nat \<Rightarrow> string" where
  "show_nat n = (if n < 10 then [char_of (48 + n)] else show_nat (n div 10) @ [char_of (48 + n mod 10)])"

declare show_nat.simps [simp del]

text \<open>A query parameter holding an RFC 3339 instant: absent, unparsable, or an instant.\<close>

datatype cursor_param = NoCursor | BadCursor | CursorAt time

definition cursor_time :: "cursor_param \<Rightarrow> time option" where
  "cursor_time q = (case q of NoCursor \<Rightarrow> Some 0 | BadCursor \<Rightarrow> None | CursorAt t \<Rightarrow> Some t)"

text \<open>
  The page size of a listing: the default when the parameter is absent, at most the maximum, and
  \<open>None\<close> when it is not a positive integer.
\<close>

definition page_limit :: "int \<Rightarrow> int \<Rightarrow> string \<Rightarrow> int option" where
  "page_limit default_limit max_limit q =
     (if q = [] then Some default_limit
      else case Atoi q of
        None \<Rightarrow> None
      | Some n \<Rightarrow> if n \<le> 0 then None else Some (if max_limit < n then max_limit else n))"

lemma page_limit_pos: "page_limit d m q = Some l \<Longrightarrow> 0 < d \<Longrightarrow> 0 < m \<Longrightarrow> 0 < l"
  by (auto simp: page_limit_def split: if_splits option.splits)

section \<open>Tables and the tenant-scoped row store\<close>

text \<open>
  A Go map keyed by row id is an association list: its order is the (unspecified) iteration
  order, a write is \<open>AList.update\<close>, \<open>delete\<close> is \<open>AList.delete\<close> and a lookup is \<open>map_of\<close>.
\<close>

type_synonym 'r table = "(string \<times> 'r) list"

definition tab_put :: "string \<Rightarrow> 'r \<Rightarrow> 'r table \<Rightarrow> 'r table" where
  "tab_put k r m = AList.update k r m"

definition tab_get :: "'r table \<Rightarrow> string \<Rightarrow> 'r option" where
  "tab_get m k = map_of m k"

definition tab_del :: "string \<Rightarrow> 'r table \<Rightarrow> 'r table" where
  "tab_del k m = AList.delete k m"

definition tab_rows :: "'r table \<Rightarrow> 'r list" where
  "tab_rows m = map snd m"

definition tab_wf :: "('r \<Rightarrow> string) \<Rightarrow> 'r table \<Rightarrow> bool" where
  "tab_wf rid m \<longleftrightarrow> distinct (map fst m) \<and> (\<forall>(k, r) \<in> set m. rid r = k)"

lemma tab_get_put [table_simps]: "tab_get (tab_put k r m) k' = (if k' = k then Some r else tab_get m k')"
  by (simp add: tab_get_def tab_put_def update_conv')

lemma tab_get_del [table_simps]: "tab_get (tab_del k m) k' = (if k' = k then None else tab_get m k')"
  by (simp add: tab_get_def tab_del_def delete_conv')

lemma tab_get_Nil [table_simps]: "tab_get [] k = None"
  by (simp add: tab_get_def)

lemma tab_wf_Nil [simp]: "tab_wf rid []"
  by (simp add: tab_wf_def)

lemma tab_wf_put: "tab_wf rid m \<Longrightarrow> rid r = k \<Longrightarrow> tab_wf rid (tab_put k r m)"
proof -
  assume wf: "tab_wf rid m" and k: "rid r = k"
  have "set (AList.update k r m) \<subseteq> insert (k, r) (set m)"
    by (induction m) auto
  with wf k show ?thesis
    by (auto simp: tab_wf_def tab_put_def distinct_update)
qed

lemma tab_wf_del: "tab_wf rid m \<Longrightarrow> tab_wf rid (tab_del k m)"
  using AList.distinct_delete [of m k] by (auto simp: tab_wf_def tab_del_def AList.delete_eq)

lemma tab_wf_get: "tab_wf rid m \<Longrightarrow> tab_get m k = Some r \<longleftrightarrow> r \<in> set (tab_rows m) \<and> rid r = k"
  by (force simp: tab_wf_def tab_get_def tab_rows_def dest: map_of_SomeD intro!: map_of_is_SomeI)

lemma tab_wf_distinct: "tab_wf rid m \<Longrightarrow> distinct (map rid (tab_rows m))"
proof -
  assume wf: "tab_wf rid m"
  then have "map rid (tab_rows m) = map fst m"
    by (auto simp: tab_wf_def tab_rows_def)
  with wf show ?thesis by (simp add: tab_wf_def)
qed

text \<open>Writing or deleting a row that a listing does not select leaves the listing as it was.\<close>

lemma tab_rows_put_unselected:
  assumes "\<not> P r" "\<And>old. tab_get m k = Some old \<Longrightarrow> \<not> P old"
  shows "filter P (tab_rows (tab_put k r m)) = filter P (tab_rows m)"
  using assms
proof (induction m)
  case (Cons kr m)
  then show ?case by (cases kr) (auto simp: tab_put_def tab_rows_def tab_get_def split: if_splits)
qed (simp add: tab_put_def tab_rows_def)

lemma tab_rows_del_unselected:
  assumes "distinct (map fst m)" "\<And>old. tab_get m k = Some old \<Longrightarrow> \<not> P old"
  shows "filter P (tab_rows (tab_del k m)) = filter P (tab_rows m)"
  using assms
proof (induction m)
  case (Cons kr m)
  then show ?case
    by (cases kr) (auto simp: tab_del_def tab_rows_def tab_get_def delete_id split: if_splits)
qed (simp add: tab_del_def tab_rows_def)

text \<open>
  The storage contract of every service: rows carry an id and a tenant, and a read under tenant
  \<open>t\<close> sees a row only when it is \<open>t\<close>'s.  \<open>None\<close> is the code's \<open>ErrNotFound\<close>.
\<close>

locale tenant_rows =
  fixes rid :: "'r \<Rightarrow> string"
    and rtenant :: "'r \<Rightarrow> string"
    and put :: "'r \<Rightarrow> 's \<Rightarrow> 's"
    and get :: "string \<Rightarrow> string \<Rightarrow> 's \<Rightarrow> 'r option"
  assumes get_put_same: "get (rtenant r) (rid r) (put r s) = Some r"
    and get_put_other: "i \<noteq> rid r \<Longrightarrow> get t i (put r s) = get t i s"
    and get_put_foreign: "t \<noteq> rtenant r \<Longrightarrow> get t (rid r) (put r s) = None"
    and get_tenant: "get t i s = Some r \<Longrightarrow> rtenant r = t"
begin

lemma get_put:
  "get t i (put r s) = (if i = rid r then if t = rtenant r then Some r else None else get t i s)"
  using get_put_same get_put_other get_put_foreign by auto

lemma get_puts:
  "get t i (fold put rs s) =
     (case find (\<lambda>r. rid r = i) (rev rs) of
        Some r \<Rightarrow> if rtenant r = t then Some r else None
      | None \<Rightarrow> get t i s)"
proof (induction rs rule: rev_induct)
  case Nil
  then show ?case by simp
next
  case (snoc r rs)
  then show ?case by (auto simp: get_put)
qed

lemma foreign_puts_invisible:
  assumes "\<And>r. r \<in> set rs \<Longrightarrow> rtenant r \<noteq> t \<and> rid r \<noteq> i"
  shows "get t i (fold put rs s) = get t i s"
proof -
  have "find (\<lambda>r. rid r = i) (rev rs) = None"
    using assms by (auto simp: find_None_iff)
  then show ?thesis by (simp add: get_puts)
qed

end

text \<open>
  Stores whose rows can also be replaced in place.  The replacement is refused, \<open>None\<close>, unless
  the row exists under the tenant named by the new row; \<open>keep\<close> says which fields survive from
  the old row.
\<close>

locale tenant_rows_update = tenant_rows rid rtenant put get
  for rid :: "'r \<Rightarrow> string"
    and rtenant :: "'r \<Rightarrow> string"
    and put :: "'r \<Rightarrow> 's \<Rightarrow> 's"
    and get :: "string \<Rightarrow> string \<Rightarrow> 's \<Rightarrow> 'r option" +
  fixes upd :: "'r \<Rightarrow> 's \<Rightarrow> ('r \<times> 's) option"
    and keep :: "'r \<Rightarrow> 'r \<Rightarrow> 'r"
  assumes upd_missing: "get (rtenant r) (rid r) s = None \<Longrightarrow> upd r s = None"
    and upd_present: "get (rtenant r) (rid r) s = Some old \<Longrightarrow>
      upd r s = Some (keep old r, put (keep old r) s)"
    and keep_id: "rid (keep old r) = rid r"
    and keep_tenant: "rtenant (keep old r) = rtenant r"
begin

lemma upd_SomeE:
  assumes "upd r s = Some (r', s')"
  obtains old where "get (rtenant r) (rid r) s = Some old" "r' = keep old r" "s' = put r' s"
proof (cases "get (rtenant r) (rid r) s")
  case None
  with assms show ?thesis by (simp add: upd_missing)
next
  case (Some old)
  with assms that show ?thesis by (auto simp: upd_present)
qed

lemma upd_get:
  assumes "upd r s = Some (r', s')"
  shows "get t i s' = (if i = rid r \<and> t = rtenant r then Some r'
    else if i = rid r then None else get t i s)"
  using assms by (elim upd_SomeE) (auto simp: get_put keep_id keep_tenant)

lemma upd_never_creates:
  assumes "upd r s = Some (r', s')" "get t i s = None"
  shows "get t i s' = None"
  using assms by (elim upd_SomeE) (auto simp: get_put keep_id keep_tenant split: if_splits)

end

section \<open>Newest-first listings with a keyset cursor\<close>

text \<open>
  \<open>sort.Slice\<close> with a comparison that is a strict total order on the rows has one possible
  result; it is computed here by insertion.
\<close>

fun insert_by :: "('r \<Rightarrow> 'r \<Rightarrow> bool) \<Rightarrow> 'r \<Rightarrow> 'r list \<Rightarrow> 'r list" where
  "insert_by before r [] = [r]"
| "insert_by before r (x # xs) = (if before r x then r # x # xs else x # insert_by before r xs)"

definition sort_slice :: "('r \<Rightarrow> 'r \<Rightarrow> bool) \<Rightarrow> 'r list \<Rightarrow> 'r list" where
  "sort_slice before rs = foldr (insert_by before) rs []"

lemma mset_insert_by [simp]: "mset (insert_by before r xs) = add_mset r (mset xs)"
  by (induction xs) auto

lemma mset_sort_slice [simp]: "mset (sort_slice before rs) = mset rs"
  by (induction rs) (auto simp: sort_slice_def)

lemma set_insert_by [simp]: "set (insert_by before r xs) = insert r (set xs)"
  by (metis mset_insert_by set_mset_add_mset_insert set_mset_mset)

lemma set_sort_slice [simp]: "set (sort_slice before rs) = set rs"
  by (metis mset_sort_slice set_mset_mset)

lemma length_sort_slice [simp]: "length (sort_slice before rs) = length rs"
  by (metis mset_sort_slice size_mset)

text \<open>
  A page: the rows not yet passed by the cursor (the zero instant is "no cursor"), newest first,
  cut to the limit when there is one.
\<close>

definition after_cursor :: "time \<Rightarrow> time \<Rightarrow> bool" where
  "after_cursor cursor created \<longleftrightarrow> \<not> (\<not> IsZero cursor \<and> \<not> created < cursor)"

definition cut_page :: "int \<Rightarrow> 'r list \<Rightarrow> 'r list" where
  "cut_page limit out = (if 0 < limit \<and> limit < int (length out) then take (nat limit) out else out)"

lemma cut_page_take: "0 < limit \<Longrightarrow> cut_page limit out = take (nat limit) out"
  by (simp add: cut_page_def)

locale row_order =
  fixes rid :: "'r \<Rightarrow> string"
    and before :: "'r \<Rightarrow> 'r \<Rightarrow> bool"
  assumes before_irrefl: "\<not> before a a"
    and before_trans: "before a b \<Longrightarrow> before b c \<Longrightarrow> before a c"
    and before_total: "rid a \<noteq> rid b \<Longrightarrow> before a b \<or> before b a"
begin

lemma before_asym: "before a b \<Longrightarrow> \<not> before b a"
  using before_irrefl before_trans by blast

lemma sorted_insert:
  assumes "sorted_wrt before xs" "rid r \<notin> rid ` set xs"
  shows "sorted_wrt before (insert_by before r xs)"
  using assms
proof (induction xs)
  case Nil
  then show ?case by simp
next
  case (Cons x xs)
  then have "before r x \<or> before x r" using before_total by auto
  with Cons show ?case by (auto intro: before_trans)
qed

lemma sorted_sort_slice:
  "distinct (map rid rs) \<Longrightarrow> sorted_wrt before (sort_slice before rs)"
proof (induction rs)
  case Nil
  then show ?case by (simp add: sort_slice_def)
next
  case (Cons r rs)
  then have "rid r \<notin> rid ` set (sort_slice before rs)" by simp
  with Cons show ?case using sorted_insert by (simp add: sort_slice_def)
qed

lemma sorted_distinct: "sorted_wrt before xs \<Longrightarrow> distinct xs"
  using before_irrefl by (induction xs) auto

lemma sorted_unique:
  assumes "sorted_wrt before xs" "sorted_wrt before ys" "set xs = set ys"
  shows "xs = ys"
  using assms
proof (induction xs arbitrary: ys)
  case Nil
  then show ?case by simp
next
  case (Cons x xs)
  from Cons.prems(3) obtain y ys' where ys: "ys = y # ys'" by (cases ys) auto
  have "x = y"
  proof (rule ccontr)
    assume "x \<noteq> y"
    with Cons.prems(3) ys have "x \<in> set ys'" "y \<in> set xs" by auto
    with Cons.prems ys have "before y x" "before x y" by auto
    then show False using before_asym by blast
  qed
  moreover have "x \<notin> set xs" "y \<notin> set ys'"
    using Cons.prems ys before_irrefl by auto
  ultimately have "set xs = set ys'" using Cons.prems(3) ys by auto
  with Cons ys \<open>x = y\<close> show ?case by auto
qed

lemma sort_slice_unique:
  assumes "distinct (map rid rs)" "mset rs = mset rs'"
  shows "sort_slice before rs = sort_slice before rs'"
proof -
  have "mset (map rid rs') = mset (map rid rs)" using assms(2) by simp
  then have "distinct (map rid rs')" using assms(1) by (metis mset_eq_imp_distinct_iff)
  with assms show ?thesis
    by (intro sorted_unique sorted_sort_slice) (auto dest: mset_eq_setD)
qed

lemma sort_slice_id: "sorted_wrt before rs \<Longrightarrow> sort_slice before rs = rs"
proof (induction rs)
  case Nil
  then show ?case by (simp add: sort_slice_def)
next
  case (Cons r rs)
  then have "sort_slice before (r # rs) = insert_by before r rs" by (simp add: sort_slice_def)
  also have "\<dots> = r # rs" using Cons.prems by (cases rs) auto
  finally show ?case .
qed

lemma sort_slice_filter:
  assumes "distinct (map rid rs)"
  shows "sort_slice before (filter P rs) = filter P (sort_slice before rs)"
proof (rule sorted_unique)
  show "sorted_wrt before (sort_slice before (filter P rs))"
    using assms by (intro sorted_sort_slice) (simp add: distinct_map_filter)
  show "sorted_wrt before (filter P (sort_slice before rs))"
    using assms sorted_sort_slice sorted_wrt_filter by blast
qed auto

end

text \<open>
  A listing whose order puts later creation instants first.  \<open>created\<close> is also the cursor, so a
  page that ends inside a group of rows created at one instant loses the rest of the group: the
  pages cover the rows when the instants are pairwise distinct.
\<close>

locale keyset_listing = row_order rid before
  for rid :: "'r \<Rightarrow> string" and before :: "'r \<Rightarrow> 'r \<Rightarrow> bool" +
  fixes created :: "'r \<Rightarrow> time"
  assumes newer_before: "created b < created a \<Longrightarrow> before a b"
begin

lemma before_created: "before a b \<Longrightarrow> created b \<le> created a"
  using newer_before before_asym by (meson not_le)

lemma page_after_nth:
  assumes sorted: "sorted_wrt before rows" and d: "distinct (map created rows)"
    and n: "n < length rows" and c: "0 < created (rows ! n)"
  shows "filter (\<lambda>r. after_cursor (created (rows ! n)) (created r)) rows = drop (Suc n) rows"
proof -
  let ?P = "\<lambda>r. created r < created (rows ! n)"
  have split: "rows = take (Suc n) rows @ drop (Suc n) rows" by simp
  have early: "\<not> ?P r" if "r \<in> set (take (Suc n) rows)" for r
  proof -
    from that n obtain i where i: "i \<le> n" "r = rows ! i"
      by (auto simp: in_set_conv_nth less_Suc_eq_le)
    show ?thesis
    proof (cases "i = n")
      case False
      with i have "i < n" by simp
      with sorted n i have "before r (rows ! n)" by (simp add: sorted_wrt_nth_less)
      then show ?thesis using before_created by fastforce
    qed (simp add: i)
  qed
  have late: "?P r" if "r \<in> set (drop (Suc n) rows)" for r
  proof -
    from that obtain i where "i < length rows - Suc n" "r = rows ! (Suc n + i)"
      by (auto simp: in_set_conv_nth)
    then obtain j where j: "n < j" "j < length rows" "r = rows ! j"
      by (intro that [of "Suc n + i"]) auto
    with sorted have "before (rows ! n) r" by (simp add: sorted_wrt_nth_less)
    then have "created r \<le> created (rows ! n)" by (rule before_created)
    moreover have "created r \<noteq> created (rows ! n)"
      using d j n by (metis length_map less_irrefl_nat nth_eq_iff_index_eq nth_map)
    ultimately show ?thesis by simp
  qed
  have "filter ?P rows = filter ?P (take (Suc n) rows) @ filter ?P (drop (Suc n) rows)"
    by (metis filter_append split)
  also have "\<dots> = drop (Suc n) rows"
    using early late by (simp add: filter_empty_conv filter_id_conv)
  finally show ?thesis using c by (simp add: after_cursor_def IsZero_def)
qed

end

text \<open>
  The client of a listing: ask for a page, follow \<open>next_cursor\<close> while there is one.  The fuel
  bounds the number of requests.
\<close>

fun walk_pages :: "nat \<Rightarrow> (time \<Rightarrow> 'r list \<times> time option) \<Rightarrow> time \<Rightarrow> 'r list" where
  "walk_pages 0 ask cursor = []"
| "walk_pages (Suc n) ask cursor =
     (let (items, next) = ask cursor
      in items @ (case next of None \<Rightarrow> [] | Some c \<Rightarrow> walk_pages n ask c))"

definition next_cursor :: "('r \<Rightarrow> time) \<Rightarrow> int \<Rightarrow> 'r list \<Rightarrow> time option" where
  "next_cursor created limit items =
     (if int (length items) = limit \<and> 0 < limit then Some (created (last items)) else None)"

context keyset_listing
begin

lemma walk_pages_from:
  assumes sorted: "sorted_wrt before rows" and d: "distinct (map created rows)"
    and pos: "\<And>r. r \<in> set rows \<Longrightarrow> 0 < created r" and limit: "0 < limit"
    and ask: "\<And>c. ask c =
      (let items = cut_page limit (filter (\<lambda>r. after_cursor c (created r)) rows)
       in (items, next_cursor created limit items))"
    and k: "k \<le> length rows" and cur: "filter (\<lambda>r. after_cursor c (created r)) rows = drop k rows"
    and fuel: "length rows - k < fuel"
  shows "walk_pages fuel ask c = drop k rows"
  using k cur fuel
proof (induction fuel arbitrary: k c)
  case 0
  then show ?case by simp
next
  case (Suc n)
  let ?items = "take (nat limit) (drop k rows)"
  have ask_c: "ask c = (?items, next_cursor created limit ?items)"
    using Suc.prems(2) limit by (simp add: ask cut_page_take Let_def)
  show ?case
  proof (cases "int (length ?items) = limit")
    case False
    with limit have "?items = drop k rows" by (auto simp: min_def split: if_splits)
    with False ask_c show ?thesis by (simp add: next_cursor_def)
  next
    case True
    let ?m = "k + nat limit - 1"
    from True limit have m: "?m < length rows" "?items \<noteq> []" by (auto simp: min_def split: if_splits)
    have last: "last ?items = rows ! ?m"
    proof -
      have "length ?items = nat limit" using True by linarith
      moreover have "last ?items = ?items ! (length ?items - 1)" by (rule last_conv_nth) (rule m(2))
      moreover have "k \<le> length rows" using Suc.prems by simp
      ultimately show ?thesis using limit by (simp add: add_diff_eq)
    qed
    have "filter (\<lambda>r. after_cursor (created (rows ! ?m)) (created r)) rows = drop (Suc ?m) rows"
      using sorted d m pos by (intro page_after_nth) auto
    moreover have "length rows - Suc ?m < n" using Suc.prems limit m by auto
    ultimately have "walk_pages n ask (created (rows ! ?m)) = drop (Suc ?m) rows"
      using m by (intro Suc.IH) auto
    moreover have "Suc ?m = k + nat limit" using limit by simp
    moreover have "drop k rows = ?items @ drop (k + nat limit) rows"
      by (metis append_take_drop_id drop_drop add.commute)
    ultimately show ?thesis
      using True limit ask_c last by (simp add: next_cursor_def)
  qed
qed

lemma walk_pages_complete:
  assumes "sorted_wrt before rows" "distinct (map created rows)"
    and "\<And>r. r \<in> set rows \<Longrightarrow> 0 < created r" "0 < limit"
    and "\<And>c. ask c =
      (let items = cut_page limit (filter (\<lambda>r. after_cursor c (created r)) rows)
       in (items, next_cursor created limit items))"
    and "length rows < fuel"
  shows "walk_pages fuel ask 0 = rows"
  using walk_pages_from [OF assms(1-5), of 0 0] assms(6)
  by (simp add: after_cursor_def IsZero_def)

text \<open>A page as the stores compute it: select the rows, sort them, cut.\<close>

lemma walk_listing:
  assumes ids: "distinct (map rid rs)" and d: "distinct (map created (filter P rs))"
    and pos: "\<And>r. r \<in> set rs \<Longrightarrow> P r \<Longrightarrow> 0 < created r" and limit: "0 < limit"
    and ask: "\<And>c. ask c =
      (let items = cut_page limit (sort_slice before (filter (\<lambda>r. P r \<and> after_cursor c (created r)) rs))
       in (items, next_cursor created limit items))"
    and fuel: "length (filter P rs) < fuel"
  shows "walk_pages fuel ask 0 = sort_slice before (filter P rs)"
proof (rule walk_pages_complete)
  let ?rows = "sort_slice before (filter P rs)"
  have ids': "distinct (map rid (filter P rs))" using ids by (simp add: distinct_map_filter)
  then show "sorted_wrt before ?rows" by (rule sorted_sort_slice)
  have "mset (map created ?rows) = mset (map created (filter P rs))" by (simp only: mset_map mset_sort_slice)
  then show "distinct (map created ?rows)" using d by (metis mset_eq_imp_distinct_iff)
  show "0 < created r" if "r \<in> set ?rows" for r using that pos by simp
  show "ask c = (let items = cut_page limit (filter (\<lambda>r. after_cursor c (created r)) ?rows)
      in (items, next_cursor created limit items))" for c
    using sort_slice_filter [OF ids', of "\<lambda>r. after_cursor c (created r)"]
    by (simp add: ask filter_filter conj_commute)
  show "length ?rows < fuel" using fuel by simp
qed (rule limit)

text \<open>What the walk amounts to: every selected row once, latest first.\<close>

lemma walk_listing_spec:
  assumes ids: "distinct (map rid rs)" and d: "distinct (map created (filter P rs))"
    and pos: "\<And>r. r \<in> set rs \<Longrightarrow> P r \<Longrightarrow> 0 < created r" and limit: "0 < limit"
    and ask: "\<And>c. ask c =
      (let items = cut_page limit (sort_slice before (filter (\<lambda>r. P r \<and> after_cursor c (created r)) rs))
       in (items, next_cursor created limit items))"
    and fuel: "length (filter P rs) < fuel"
  shows "mset (walk_pages fuel ask 0) = mset (filter P rs) \<and>
    sorted_wrt (\<lambda>a b. created b < created a) (walk_pages fuel ask 0)"
proof -
  have walk: "walk_pages fuel ask 0 = sort_slice before (filter P rs)"
    by (rule walk_listing [OF ids d pos limit ask fuel])
  have "distinct (map rid (filter P rs))" using ids by (simp add: distinct_map_filter)
  then have "sorted_wrt before (sort_slice before (filter P rs))" by (rule sorted_sort_slice)
  moreover have "created b < created a"
    if "before a b" "a \<in> set (sort_slice before (filter P rs))" "b \<in> set (sort_slice before (filter P rs))" for a b
  proof -
    have "a \<noteq> b" using that(1) before_irrefl by blast
    then have "created a \<noteq> created b" using d that(2,3) by (auto simp: distinct_map dest: inj_onD)
    with before_created [OF that(1)] show ?thesis by simp
  qed
  ultimately show ?thesis by (auto simp: walk intro!: sorted_wrt_mono_rel [of _ before])
qed

end

section \<open>Lifecycles\<close>

text \<open>
  Rows that move through a finite lifecycle: every step uses up some of the row's \<open>rank\<close>, so a row
  of rank 0 is final and a row changes at most \<open>rank\<close> times, however many requests look at it.
\<close>

fun changes :: "'a list \<Rightarrow> nat" where
  "changes (x # y # xs) = (if y = x then 0 else 1) + changes (y # xs)"
| "changes _ = 0"

locale lifecycle =
  fixes step :: "'a \<Rightarrow> 'a \<Rightarrow> bool"
    and good :: "'a \<Rightarrow> bool"
    and rank :: "'a \<Rightarrow> nat"
  assumes step_good: "step x y \<Longrightarrow> good x \<Longrightarrow> good y"
    and step_rank: "step x y \<Longrightarrow> good x \<Longrightarrow> rank y < rank x"
begin

lemma final_stuck: "good x \<Longrightarrow> rank x = 0 \<Longrightarrow> \<not> step x y"
  using step_rank by fastforce

lemma rank_mono: "step x y \<or> y = x \<Longrightarrow> good x \<Longrightarrow> good y \<and> rank y \<le> rank x"
  using step_good step_rank by (metis less_imp_le order_refl)

lemma changes_bounded:
  assumes "successively (\<lambda>x y. step x y \<or> y = x) (x # xs)" "good x"
  shows "changes (x # xs) \<le> rank x \<and> (\<forall>y\<in>set xs. good y \<and> rank y \<le> rank x)"
  using assms
proof (induction xs arbitrary: x)
  case Nil
  then show ?case by simp
next
  case (Cons y ys)
  then have y: "step x y \<or> y = x" "successively (\<lambda>x y. step x y \<or> y = x) (y # ys)" by auto
  have g: "good y" "rank y \<le> rank x" using rank_mono [OF y(1) Cons.prems(2)] by auto
  have "changes (y # ys) \<le> rank y \<and> (\<forall>z\<in>set ys. good z \<and> rank z \<le> rank y)"
    using Cons.IH [OF y(2) g(1)] .
  moreover have "y \<noteq> x \<Longrightarrow> rank y < rank x" using y(1) step_rank Cons.prems(2) by auto
  ultimately show ?case using g by fastforce
qed

lemma final_frozen:
  assumes "successively (\<lambda>x y. step x y \<or> y = x) (x # xs)" "good x" "rank x = 0"
  shows "\<forall>y\<in>set xs. y = x"
  using assms
proof (induction xs)
  case (Cons y ys)
  then have "y = x" using final_stuck by auto
  with Cons show ?case by simp
qed simp

end

end
