(* ===== verification/XWire.thy ===== *)
theory XWire
  imports Complex_Main XBase
begin

text \<open>
  What crosses a service boundary: JSON bodies as \<open>encoding/json\<close> decodes them (\<open>ReadJSON\<close> of
  pkg/httpx/middleware.go, which refuses unknown fields, and the lenient decoding of the
  inter-service clients), HTTP replies (\<open>WriteJSON\<close>, \<open>WriteError\<close>), the internal-auth gate of
  pkg/httpx and the tenant gate of pkg/tenantx.
\<close>

section \<open>JSON values and decoding\<close>

text \<open>
  A number is a \<open>float64\<close>: its value, and the text Go's \<open>%v\<close> prints for it.  An object keeps its
  members in document order, duplicates included.
\<close>

datatype json = JNull | JBool bool | JNum rat string | JStr string
  | JArr "json list" | JObj "(string \<times> json) list"

text \<open>\<open>io.EOF\<close>, a syntax error, the size cap, and the two errors of decoding into a struct.\<close>

datatype json_err = EndOfBody | SyntaxErr | TooLarge | UnknownField string | TypeMismatch string

text \<open>
  Member names match field names up to case (\<open>foldName\<close>).  Besides the ASCII letters, two runes
  fold to ASCII: U+017F to s and U+212A to k.
\<close>

fun fold_name :: "string \<Rightarrow> string" where
  "fold_name [] = []"
| "fold_name [c] = [lower_char c]"
| "fold_name [c, d] = (if c = CHR 0xC5 \<and> d = CHR 0xBF then [CHR ''s''] else lower_char c # fold_name [d])"
| "fold_name (c # d # e # s) =
     (if c = CHR 0xC5 \<and> d = CHR 0xBF then CHR ''s'' # fold_name (e # s)
      else if c = CHR 0xE2 \<and> d = CHR 0x84 \<and> e = CHR 0xAA then CHR ''k'' # fold_name s
      else lower_char c # fold_name (d # e # s))"

definition obj_get :: "(string \<times> json) list \<Rightarrow> string \<Rightarrow> json option" where
  "obj_get ms k = map_of (rev ms) k"

text \<open>A type assertion \<open>m[k].(string)\<close> with the comma-ok result dropped: "" unless a string.\<close>

definition obj_str :: "(string \<times> json) list \<Rightarrow> string \<Rightarrow> string" where
  "obj_str ms k = (case obj_get ms k of Some (JStr s) \<Rightarrow> s | _ \<Rightarrow> [])"

fun dec_string :: "string \<Rightarrow> json \<Rightarrow> string \<Rightarrow> json_err + string" where
  "dec_string f (JStr s) old = Inr s"
| "dec_string f JNull old = Inr old"
| "dec_string f _ old = Inl (TypeMismatch f)"

fun dec_bool :: "string \<Rightarrow> json \<Rightarrow> bool \<Rightarrow> json_err + bool" where
  "dec_bool f (JBool b) old = Inr b"
| "dec_bool f JNull old = Inr old"
| "dec_bool f _ old = Inl (TypeMismatch f)"

fun dec_float :: "string \<Rightarrow> json \<Rightarrow> rat \<Rightarrow> json_err + rat" where
  "dec_float f (JNum r t) old = Inr r"
| "dec_float f JNull old = Inr old"
| "dec_float f _ old = Inl (TypeMismatch f)"

fun dec_elems :: "string \<Rightarrow> json list \<Rightarrow> json_err + string list" where
  "dec_elems f [] = Inr []"
| "dec_elems f (j # js) =
     (case dec_string f j [] of Inl e \<Rightarrow> Inl e
      | Inr s \<Rightarrow> (case dec_elems f js of Inl e \<Rightarrow> Inl e | Inr ss \<Rightarrow> Inr (s # ss)))"

fun dec_strings :: "string \<Rightarrow> json \<Rightarrow> string list \<Rightarrow> json_err + string list" where
  "dec_strings f (JArr js) old = dec_elems f js"
| "dec_strings f JNull old = Inr []"
| "dec_strings f _ old = Inl (TypeMismatch f)"

text \<open>A \<open>map[string]any\<close>: a second occurrence of the field adds to the map already there.\<close>

fun dec_map :: "string \<Rightarrow> json \<Rightarrow> (string \<times> json) list \<Rightarrow> json_err + (string \<times> json) list" where
  "dec_map f (JObj ms) old = Inr (old @ ms)"
| "dec_map f JNull old = Inr []"
| "dec_map f _ old = Inl (TypeMismatch f)"

text \<open>A struct's fields: the JSON name and how a value is stored into the struct.\<close>

type_synonym 'r field = "string \<times> (json \<Rightarrow> 'r \<Rightarrow> json_err + 'r)"

definition into :: "(string \<Rightarrow> json \<Rightarrow> 'v \<Rightarrow> json_err + 'v) \<Rightarrow> string \<Rightarrow> ('r \<Rightarrow> 'v) \<Rightarrow>
    (('v \<Rightarrow> 'v) \<Rightarrow> 'r \<Rightarrow> 'r) \<Rightarrow> 'r field" where
  "into dec f get upd =
     (f, \<lambda>j r. case dec f j (get r) of Inl e \<Rightarrow> Inl e | Inr v \<Rightarrow> Inr (upd (\<lambda>_. v) r))"

text \<open>Fields holding a nested struct, a slice of structs, a pointer to a string, or an \<open>any\<close>.\<close>

definition dec_pointer :: "string \<Rightarrow> json \<Rightarrow> string option \<Rightarrow> json_err + string option" where
  "dec_pointer f j old =
     (if j = JNull then Inr None
      else case dec_string f j (case old of None \<Rightarrow> [] | Some s \<Rightarrow> s) of Inl e \<Rightarrow> Inl e | Inr s \<Rightarrow> Inr (Some s))"

definition dec_any :: "string \<Rightarrow> json \<Rightarrow> json \<Rightarrow> json_err + json" where
  "dec_any f j old = Inr j"

definition find_field :: "'r field list \<Rightarrow> string \<Rightarrow> (json \<Rightarrow> 'r \<Rightarrow> json_err + 'r) option" where
  "find_field fs k = map_option snd (find (\<lambda>f. fold_name (fst f) = fold_name k) fs)"

text \<open>
  Members are decoded in document order.  Go keeps decoding after the first error but returns
  that error, and every caller discards the value then, so stopping at it is equivalent.
  \<open>strict\<close> is \<open>DisallowUnknownFields\<close>.
\<close>

fun dec_members :: "bool \<Rightarrow> 'r field list \<Rightarrow> (string \<times> json) list \<Rightarrow> 'r \<Rightarrow> json_err + 'r" where
  "dec_members strict fs [] r = Inr r"
| "dec_members strict fs ((k, j) # ms) r =
     (case find_field fs k of
        None \<Rightarrow> if strict then Inl (UnknownField k) else dec_members strict fs ms r
      | Some dec \<Rightarrow> (case dec j r of Inl e \<Rightarrow> Inl e | Inr r' \<Rightarrow> dec_members strict fs ms r'))"

fun dec_struct :: "bool \<Rightarrow> 'r field list \<Rightarrow> json \<Rightarrow> 'r \<Rightarrow> json_err + 'r" where
  "dec_struct strict fs (JObj ms) r = dec_members strict fs ms r"
| "dec_struct strict fs JNull r = Inr r"
| "dec_struct strict fs _ r = Inl (TypeMismatch [])"

definition dec_nested :: "bool \<Rightarrow> 'v field list \<Rightarrow> string \<Rightarrow> json \<Rightarrow> 'v \<Rightarrow> json_err + 'v" where
  "dec_nested strict fs f j old = dec_struct strict fs j old"

fun dec_items :: "bool \<Rightarrow> 'v field list \<Rightarrow> 'v \<Rightarrow> json list \<Rightarrow> json_err + 'v list" where
  "dec_items strict fs zero [] = Inr []"
| "dec_items strict fs zero (j # js) =
     (case dec_struct strict fs j zero of Inl e \<Rightarrow> Inl e
      | Inr v \<Rightarrow> (case dec_items strict fs zero js of Inl e \<Rightarrow> Inl e | Inr vs \<Rightarrow> Inr (v # vs)))"

fun dec_slice :: "bool \<Rightarrow> 'v field list \<Rightarrow> 'v \<Rightarrow> string \<Rightarrow> json \<Rightarrow> 'v list \<Rightarrow> json_err + 'v list" where
  "dec_slice strict fs zero f (JArr js) old = dec_items strict fs zero js"
| "dec_slice strict fs zero f JNull old = Inr []"
| "dec_slice strict fs zero f _ old = Inl (TypeMismatch f)"

text \<open>Decoding strictly fails as soon as one member is not a field of the struct.\<close>

lemma dec_members_unknown:
  assumes "(k, j) \<in> set ms" "find_field fs k = None"
  shows "\<exists>e. dec_members True fs ms r = Inl e"
  using assms(1)
proof (induction ms arbitrary: r)
  case Nil
  then show ?case by simp
next
  case (Cons m ms)
  show ?case
  proof (cases "find_field fs (fst m)")
    case None
    then show ?thesis by (cases m) auto
  next
    case (Some dec)
    with Cons.prems assms(2) have "(k, j) \<in> set ms" by auto
    with Cons.IH Some show ?thesis by (cases m) (auto split: sum.splits)
  qed
qed

section \<open>Request bodies\<close>

text \<open>\<open>Body j off\<close> is a body whose first JSON value is \<open>j\<close>, ending at byte offset \<open>off\<close>.\<close>

datatype body = NoBody | BadBody | Body json int

definition MaxBodyBytes :: int where "MaxBodyBytes = 2 ^ 20"

definition ReadJSON :: "'r field list \<Rightarrow> 'r \<Rightarrow> body \<Rightarrow> json_err + 'r" where
  "ReadJSON fs zero b =
     (case b of
        NoBody \<Rightarrow> Inl EndOfBody
      | BadBody \<Rightarrow> Inl SyntaxErr
      | Body j off \<Rightarrow>
          (case dec_struct True fs j zero of
             Inl e \<Rightarrow> Inl e
           | Inr r \<Rightarrow> if MaxBodyBytes < off then Inl TooLarge else Inr r))"

lemma ReadJSON_unknown:
  assumes "(k, j) \<in> set ms" "find_field fs k = None"
  shows "\<exists>e. ReadJSON fs zero (Body (JObj ms) off) = Inl e"
  using dec_members_unknown [OF assms, of zero] by (auto simp: ReadJSON_def)

lemma ReadJSON_InrE:
  assumes "ReadJSON fs zero b = Inr r"
  obtains j off where "b = Body j off" "dec_struct True fs j zero = Inr r" "off \<le> MaxBodyBytes"
  using assms by (auto simp: ReadJSON_def split: body.splits sum.splits if_splits)

section \<open>Encoding\<close>

text \<open>Members of a struct tagged \<open>omitempty\<close>, and of one that is always present.\<close>

definition put_str :: "string \<Rightarrow> string \<Rightarrow> (string \<times> json) list" where
  "put_str k s = [(k, JStr s)]"

definition omit_str :: "string \<Rightarrow> string \<Rightarrow> (string \<times> json) list" where
  "omit_str k s = (if s = [] then [] else [(k, JStr s)])"

definition omit_bool :: "string \<Rightarrow> bool \<Rightarrow> (string \<times> json) list" where
  "omit_bool k b = (if b then [(k, JBool b)] else [])"

definition omit_obj :: "string \<Rightarrow> (string \<times> json) list \<Rightarrow> (string \<times> json) list" where
  "omit_obj k ms = (if ms = [] then [] else [(k, JObj ms)])"

definition put_strs :: "string \<Rightarrow> string list \<Rightarrow> (string \<times> json) list" where
  "put_strs k ss = [(k, JArr (map JStr ss))]"

lemmas put_defs = put_str_def omit_str_def omit_bool_def omit_obj_def put_strs_def

lemma dec_elems_strings [simp]: "dec_elems f (map JStr ss) = Inr ss"
  by (induction ss) auto

section \<open>Replies\<close>

text \<open>
  The message of an error reply is a literal, the text of the decoding error (\<open>err.Error()\<close>), or
  a format with its arguments.  \<open>RetryAfter\<close> is an error reply that also carries a \<open>Retry-After\<close> header; its
  message is the literal followed by "; retry after \<open>n\<close>s".
\<close>

datatype msg = Lit string | ErrText json_err | Fmt string "string list"

datatype 'p reply =
    WriteJSON nat 'p
  | WriteError nat string msg
  | RetryAfter nat string string int
  | NoContent

fun status :: "'p reply \<Rightarrow> nat" where
  "status (WriteJSON n p) = n"
| "status (WriteError n code m) = n"
| "status (RetryAfter n code m secs) = n"
| "status NoContent = 204"

definition StatusOK :: nat where "StatusOK = 200"
definition StatusCreated :: nat where "StatusCreated = 201"
definition StatusAccepted :: nat where "StatusAccepted = 202"
definition StatusBadRequest :: nat where "StatusBadRequest = 400"
definition StatusUnauthorized :: nat where "StatusUnauthorized = 401"
definition StatusForbidden :: nat where "StatusForbidden = 403"
definition StatusNotFound :: nat where "StatusNotFound = 404"
definition StatusConflict :: nat where "StatusConflict = 409"
definition StatusGone :: nat where "StatusGone = 410"
definition StatusUnprocessableEntity :: nat where "StatusUnprocessableEntity = 422"
definition StatusLocked :: nat where "StatusLocked = 423"
definition StatusTooManyRequests :: nat where "StatusTooManyRequests = 429"
definition StatusInternalServerError :: nat where "StatusInternalServerError = 500"
definition StatusBadGateway :: nat where "StatusBadGateway = 502"
definition StatusServiceUnavailable :: nat where "StatusServiceUnavailable = 503"

lemmas status_defs = StatusOK_def StatusCreated_def StatusAccepted_def StatusBadRequest_def
  StatusUnauthorized_def StatusForbidden_def StatusNotFound_def StatusConflict_def StatusGone_def
  StatusUnprocessableEntity_def StatusLocked_def StatusTooManyRequests_def
  StatusInternalServerError_def StatusBadGateway_def StatusServiceUnavailable_def

text \<open>The 400 replies, and the ones every handler makes of a body that does not decode.\<close>

definition bad_request :: "string \<Rightarrow> string \<Rightarrow> 'p reply" where
  "bad_request code m = WriteError StatusBadRequest code (Lit m)"

definition json_error :: "json_err \<Rightarrow> 'p reply" where
  "json_error err =
     (if err = EndOfBody then bad_request ''empty_body'' ''request body required''
      else WriteError StatusBadRequest ''invalid_json'' (ErrText err))"

section \<open>The gates in front of the handlers\<close>

text \<open>
  A request as the gates see it: whether TLS verified a peer certificate, and the two headers
  they read ("" when a header is absent).
\<close>

record gate_request =
  peer_certificates :: nat
  internal_auth_header :: string
  tenant_header :: string

text \<open>\<open>secret\<close> is the value of INTERNAL_AUTH_SECRET when the middleware was built.\<close>

definition InternalAuth :: "string \<Rightarrow> (gate_request \<Rightarrow> 's \<Rightarrow> 'p reply \<times> 's) \<Rightarrow>
    gate_request \<Rightarrow> 's \<Rightarrow> 'p reply \<times> 's" where
  "InternalAuth secret serve r s =
     (if 0 < peer_certificates r then serve r s
      else if secret \<noteq> [] then
        (if internal_auth_header r \<noteq> secret
         then (WriteError StatusUnauthorized ''internal_auth_required''
                 (Lit ''service-to-service authentication required''), s)
         else serve r s)
      else serve r s)"

definition SetInternalAuth :: "string \<Rightarrow> gate_request \<Rightarrow> gate_request" where
  "SetInternalAuth secret r = (if secret \<noteq> [] then r\<lparr>internal_auth_header := secret\<rparr> else r)"

text \<open>\<open>tenantx.From\<close> and \<open>tenantx.Middleware\<close>; the handler gets \<open>FromContext\<close>'s result.\<close>

definition From :: "gate_request \<Rightarrow> string option" where
  "From r = (let id = tenant_header r in if id = [] then None else Some id)"

definition TenantMiddleware :: "(string option \<Rightarrow> 's \<Rightarrow> 'p reply \<times> 's) \<Rightarrow>
    gate_request \<Rightarrow> 's \<Rightarrow> 'p reply \<times> 's" where
  "TenantMiddleware serve r s =
     (case From r of
        None \<Rightarrow> (WriteError StatusBadRequest ''missing_tenant'' (Lit ''missing X-Tenant-Id header''), s)
      | Some tenant \<Rightarrow> serve (Some tenant) s)"

text \<open>The outcome of a storage call that may also fail for reasons of its own.\<close>

datatype 'a got = Got 'a | ErrNotFound | ErrOther

definition store_call :: "bool \<Rightarrow> 'a option \<Rightarrow> 'a got" where
  "store_call fails res = (if fails then ErrOther else case res of None \<Rightarrow> ErrNotFound | Some a \<Rightarrow> Got a)"

lemma store_call_simps [simp]:
  "store_call True res = ErrOther" "store_call False None = ErrNotFound" "store_call False (Some a) = Got a"
  by (simp_all add: store_call_def)

lemma store_call_Got [simp]: "store_call f res = Got a \<longleftrightarrow> \<not> f \<and> res = Some a"
  by (auto simp: store_call_def split: option.splits)

lemma store_call_NotFound [simp]: "store_call f res = ErrNotFound \<longleftrightarrow> \<not> f \<and> res = None"
  by (auto simp: store_call_def split: option.splits)

lemma store_call_Other [simp]: "store_call f res = ErrOther \<longleftrightarrow> f"
  by (auto simp: store_call_def split: option.splits)

text \<open>
  The internal-auth gate is closed to a caller without a verified certificate or the secret once a
  secret is configured, and a caller that went through \<open>SetInternalAuth\<close> passes it.
\<close>

lemma internal_auth_passes:
  "InternalAuth secret serve (SetInternalAuth secret r) s = serve (SetInternalAuth secret r) s"
  by (auto simp: InternalAuth_def SetInternalAuth_def)

lemma internal_auth_refuses:
  "secret \<noteq> [] \<Longrightarrow> peer_certificates r = 0 \<Longrightarrow> internal_auth_header r \<noteq> secret \<Longrightarrow>
   snd (InternalAuth secret serve r s) = s \<and> status (fst (InternalAuth secret serve r s)) = 401"
  by (simp add: InternalAuth_def status_defs)

end
