(* ===== verification/RateLimit.thy ===== *)
theory RateLimit
  imports XWire
begin

text \<open>
  The sliding-window rate limiter of pkg/ratex (ratex.go): its state, one \<open>Allow\<close> call, the idle
  sweep and the HTTP middleware, with the window bound, the exactness of \<open>retryAfter\<close> and the
  independence of keys.  The interface \<open>Allower\<close> is the locale \<open>allower\<close>, interpreted on the
  limiter; the account lockout of authenticator-service is its client.  The Redis-backed limiter
  (redis.go) is modelled around the result of its script.
\<close>

section \<open>The limiter\<close>

record limiter =
  lim_limit :: int
  lim_window :: duration
  lim_hits :: "time list table"
  lim_calls :: int

definition sweepEvery :: int where "sweepEvery = 4096"

definition New :: "int \<Rightarrow> duration \<Rightarrow> limiter" where
  "New limit window = \<lparr>lim_limit = limit, lim_window = window, lim_hits = [], lim_calls = 0\<rparr>"

definition sweepLocked :: "time \<Rightarrow> time list table \<Rightarrow> time list table" where
  "sweepLocked cutoff hits = filter (\<lambda>(key, window). list_ex (\<lambda>t. cutoff < t) window) hits"

definition key_hits :: "time list table \<Rightarrow> string \<Rightarrow> time list" where
  "key_hits hits key = (case tab_get hits key of None \<Rightarrow> [] | Some window \<Rightarrow> window)"

text \<open>One call at the clock reading \<open>now\<close>: the decision with \<open>retryAfter\<close>, and the new state.\<close>

definition Allow :: "time \<Rightarrow> string \<Rightarrow> limiter \<Rightarrow> (bool \<times> duration) \<times> limiter" where
  "Allow now key l =
     (if lim_limit l \<le> 0 then ((True, 0), l)
      else
        let cutoff = now - lim_window l;
            calls = lim_calls l + 1;
            hits = (if calls mod sweepEvery = 0 then sweepLocked cutoff (lim_hits l) else lim_hits l);
            window = filter (\<lambda>t. cutoff < t) (key_hits hits key)
        in if lim_limit l \<le> int (length window)
           then ((False, hd window - cutoff),
                 l\<lparr>lim_calls := calls, lim_hits := tab_put key window hits\<rparr>)
           else ((True, 0),
                 l\<lparr>lim_calls := calls, lim_hits := tab_put key (window @ [now]) hits\<rparr>))"

text \<open>\<open>Allow\<close> through a pointer that may be nil.\<close>

definition AllowPtr :: "time \<Rightarrow> string \<Rightarrow> limiter option \<Rightarrow> (bool \<times> duration) \<times> limiter option" where
  "AllowPtr now key lp =
     (case lp of
        None \<Rightarrow> ((True, 0), None)
      | Some l \<Rightarrow> (let (d, l') = Allow now key l in (d, Some l')))"

text \<open>
  \<open>Middleware\<close>: an empty key or a nil limiter bypasses it.  \<open>int(retryAfter.Seconds()) + 1\<close> is
  integer division of the nanoseconds (exact for the windows in use, which are far below the
  \<open>2\<^sup>2\<^sup>2\<close> seconds from which a \<open>float64\<close> no longer separates nanoseconds from a whole second).
\<close>

definition Middleware :: "time \<Rightarrow> string \<Rightarrow> ('s \<Rightarrow> 'p reply \<times> 's) \<Rightarrow>
    limiter option \<times> 's \<Rightarrow> 'p reply \<times> (limiter option \<times> 's)" where
  "Middleware now key serve ls =
     (let (lp, s) = ls
      in if key = [] \<or> lp = None then (let (rep, s') = serve s in (rep, lp, s'))
         else let ((ok, retryAfter), lp') = AllowPtr now key lp
              in if \<not> ok
                 then (RetryAfter StatusTooManyRequests ''rate_limited'' ''rate limit exceeded''
                         (retryAfter div Second + 1), lp', s)
                 else (let (rep, s') = serve s in (rep, lp', s')))"

section \<open>The Redis limiter\<close>

text \<open>
  \<open>res\<close> is what running the counter script returned: \<open>None\<close> when Redis failed, otherwise the
  integers of its reply.  The decision fails open.
\<close>

record redis_limiter =
  rl_limit :: int
  rl_window :: duration
  rl_prefix :: string

definition RedisAllow :: "redis_limiter option \<Rightarrow> int list option \<Rightarrow> bool \<times> duration" where
  "RedisAllow lp res =
     (case lp of
        None \<Rightarrow> (True, 0)
      | Some l \<Rightarrow>
          if rl_limit l \<le> 0 then (True, 0)
          else (case res of
                  None \<Rightarrow> (True, 0)
                | Some rs \<Rightarrow>
                    if length rs \<noteq> 2 then (True, 0)
                    else if rs ! 0 = 1 then (True, 0)
                    else (False, rs ! 1 * (Second div 1000))))"

lemma redis_fails_open: "RedisAllow lp None = (True, 0)"
  by (simp add: RedisAllow_def split: option.splits)

section \<open>What one call does to the hits of a key\<close>

lemma key_hits_put: "key_hits (tab_put k ts hits) k' = (if k' = k then ts else key_hits hits k')"
  by (simp add: key_hits_def table_simps)

text \<open>The sweep only forgets keys whose hits have all left the window.\<close>

lemma key_hits_sweep:
  assumes "distinct (map fst hits)"
  shows "filter (\<lambda>t. cutoff < t) (key_hits (sweepLocked cutoff hits) k)
       = filter (\<lambda>t. cutoff < t) (key_hits hits k)"
proof -
  have "map_of (filter (\<lambda>(key, window). list_ex (\<lambda>t. cutoff < t) window) hits) k =
    (case map_of hits k of None \<Rightarrow> None
     | Some ts \<Rightarrow> if list_ex (\<lambda>t. cutoff < t) ts then Some ts else None)"
    using assms by (induction hits) (auto simp: map_of_eq_None_iff split: option.splits)
  then show ?thesis
    by (auto simp: key_hits_def sweepLocked_def tab_get_def list_ex_iff filter_empty_conv
        split: option.splits)
qed

lemma distinct_sweep: "distinct (map fst hits) \<Longrightarrow> distinct (map fst (sweepLocked c hits))"
  by (simp add: sweepLocked_def distinct_map_filter)

text \<open>The state of a limiter as seen at \<open>now\<close>: per key, the hits still inside the window.\<close>

definition live :: "time \<Rightarrow> limiter \<Rightarrow> string \<Rightarrow> time list" where
  "live now l k = filter (\<lambda>t. now - lim_window l < t) (key_hits (lim_hits l) k)"

text \<open>
  Well-formed at \<open>now\<close>: one entry per key, its hits in order, none in the future, and no more of
  them than the limit.
\<close>

definition lim_wf :: "time \<Rightarrow> limiter \<Rightarrow> bool" where
  "lim_wf now l \<longleftrightarrow> distinct (map fst (lim_hits l)) \<and>
     (\<forall>k. sorted (key_hits (lim_hits l) k) \<and> (\<forall>t\<in>set (key_hits (lim_hits l) k). t \<le> now) \<and>
          (0 < lim_limit l \<longrightarrow> int (length (key_hits (lim_hits l) k)) \<le> lim_limit l))"

lemma live_later: "now \<le> t \<Longrightarrow> live t l k = filter (\<lambda>x. t - lim_window l < x) (live now l k)"
  by (auto simp: live_def intro: filter_cong)

text \<open>The outcome of a call and its effect, in terms of the live hits alone.\<close>

lemma Allow_outcome:
  assumes "0 < lim_limit l" "distinct (map fst (lim_hits l))"
  shows "fst (Allow now k l) =
    (if lim_limit l \<le> int (length (live now l k))
     then (False, hd (live now l k) - (now - lim_window l)) else (True, 0))"
  using assms by (simp add: Allow_def Let_def live_def key_hits_sweep)

lemma Allow_disabled: "lim_limit l \<le> 0 \<Longrightarrow> Allow now k l = ((True, 0), l)"
  by (simp add: Allow_def)

lemma Allow_config [simp]:
  "lim_limit (snd (Allow now k l)) = lim_limit l" "lim_window (snd (Allow now k l)) = lim_window l"
  by (auto simp: Allow_def Let_def)

lemma Allow_live_same:
  assumes "0 < lim_limit l" "distinct (map fst (lim_hits l))"
  shows "key_hits (lim_hits (snd (Allow now k l))) k =
    live now l k @ (if fst (fst (Allow now k l)) then [now] else [])"
  using assms by (simp add: Allow_def Let_def live_def key_hits_sweep key_hits_put)

lemma Allow_live_other:
  assumes "0 < lim_limit l" "distinct (map fst (lim_hits l))" "k' \<noteq> k" "now \<le> t"
  shows "live t (snd (Allow now k l)) k' = live t l k'"
proof -
  have sw: "filter (\<lambda>x. t - lim_window l < x) (key_hits (sweepLocked (now - lim_window l) (lim_hits l)) k')
      = filter (\<lambda>x. t - lim_window l < x) (key_hits (lim_hits l) k')"
  proof -
    have le: "now - lim_window l \<le> t - lim_window l" using assms(4) by simp
    have "filter (\<lambda>x. t - lim_window l < x) xs
        = filter (\<lambda>x. t - lim_window l < x) (filter (\<lambda>x. now - lim_window l < x) xs)" for xs
      using le by (auto intro!: filter_cong)
    then show ?thesis using key_hits_sweep [OF assms(2)] by metis
  qed
  show ?thesis
    using assms by (simp add: Allow_def Let_def live_def key_hits_put sw)
qed

lemma Allow_distinct:
  assumes "distinct (map fst (lim_hits l))"
  shows "distinct (map fst (lim_hits (snd (Allow now k l))))"
  using assms by (simp add: Allow_def Let_def tab_put_def distinct_update distinct_sweep)

lemma key_hits_sweep_cases:
  assumes "distinct (map fst hits)"
  shows "key_hits (sweepLocked c hits) k = key_hits hits k \<or> key_hits (sweepLocked c hits) k = []"
proof -
  have "map_of (filter (\<lambda>(key, window). list_ex (\<lambda>t. c < t) window) hits) k =
    (case map_of hits k of None \<Rightarrow> None
     | Some ts \<Rightarrow> if list_ex (\<lambda>t. c < t) ts then Some ts else None)"
    using assms by (induction hits) (auto simp: map_of_eq_None_iff split: option.splits)
  then show ?thesis
    by (auto simp: key_hits_def sweepLocked_def tab_get_def split: option.splits)
qed

lemma Allow_hits_other:
  assumes "distinct (map fst (lim_hits l))" "k' \<noteq> k"
  shows "key_hits (lim_hits (snd (Allow now k l))) k' \<in> {key_hits (lim_hits l) k', []}"
  using assms key_hits_sweep_cases [OF assms(1)]
  by (auto simp: Allow_def Let_def key_hits_put)

text \<open>Being well-formed is kept by every call of a clock that does not go back.\<close>

lemma lim_wf_New: "lim_wf now (New limit window)"
  by (simp add: lim_wf_def New_def key_hits_def table_simps)

lemma lim_wf_Allow:
  assumes wf: "lim_wf now l" and t: "now \<le> t"
  shows "lim_wf t (snd (Allow t k l))"
proof (cases "0 < lim_limit l")
  case False
  with wf t show ?thesis by (force simp: Allow_disabled lim_wf_def)
next
  case True
  from wf have d: "distinct (map fst (lim_hits l))" by (simp add: lim_wf_def)
  let ?hits = "key_hits (lim_hits l)"
  have old: "sorted (?hits j)" "\<forall>x\<in>set (?hits j). x \<le> t" "int (length (?hits j)) \<le> lim_limit l" for j
    using wf t True by (force simp: lim_wf_def)+
  have live_sub: "set (live t l k) \<subseteq> set (?hits k)" "length (live t l k) \<le> length (?hits k)"
    by (auto simp: live_def)
  have new: "sorted (key_hits (lim_hits (snd (Allow t k l))) j) \<and>
      (\<forall>x\<in>set (key_hits (lim_hits (snd (Allow t k l))) j). x \<le> t) \<and>
      int (length (key_hits (lim_hits (snd (Allow t k l))) j)) \<le> lim_limit l" for j
  proof (cases "j = k")
    case True
    have "sorted (live t l k)" using old(1) by (simp add: live_def sorted_wrt_filter)
    moreover have "int (length (live t l k)) < lim_limit l" if "fst (fst (Allow t k l))"
      using that Allow_outcome [OF \<open>0 < lim_limit l\<close> d] by (auto split: if_splits)
    moreover have "int (length (live t l k)) \<le> lim_limit l" using old(3) [of k] live_sub(2) by linarith
    ultimately show ?thesis
      using True old(2) [of k] live_sub(1) Allow_live_same [OF \<open>0 < lim_limit l\<close> d, of t k]
      by (auto simp: sorted_append)
  next
    case False
    have "0 \<le> lim_limit l" using \<open>0 < lim_limit l\<close> by simp
    with Allow_hits_other [OF d False, of t] old show ?thesis by auto
  qed
  with Allow_distinct [OF d] show ?thesis by (simp add: lim_wf_def)
qed

section \<open>The interface\<close>

text \<open>
  \<open>Allower\<close> (ratex.go) as its clients rely on it.  \<open>live t l k\<close> are the instants of the granted
  events of key \<open>k\<close> that still count at \<open>t\<close>; a call is granted exactly when they are fewer than
  the limit, a grant is counted, a refusal is not, and keys do not influence each other.
\<close>

locale allower =
  fixes allow :: "time \<Rightarrow> string \<Rightarrow> 'l \<Rightarrow> (bool \<times> duration) \<times> 'l"
    and wf :: "time \<Rightarrow> 'l \<Rightarrow> bool"
    and live :: "time \<Rightarrow> 'l \<Rightarrow> string \<Rightarrow> time list"
    and limit :: "'l \<Rightarrow> int"
    and window :: "'l \<Rightarrow> duration"
  assumes grant: "wf now l \<Longrightarrow> now \<le> t \<Longrightarrow>
      fst (fst (allow t k l)) \<longleftrightarrow> int (length (live t l k)) < limit l"
    and counted: "wf now l \<Longrightarrow> now \<le> t \<Longrightarrow>
      live t (snd (allow t k l)) k = live t l k @ (if fst (fst (allow t k l)) then [t] else [])"
    and other_keys: "wf now l \<Longrightarrow> now \<le> t \<Longrightarrow> k' \<noteq> k \<Longrightarrow>
      live t (snd (allow t k l)) k' = live t l k'"
    and expire: "wf now l \<Longrightarrow> now \<le> t \<Longrightarrow>
      live t l k = filter (\<lambda>x. t - window l < x) (live now l k)"
    and retry: "wf now l \<Longrightarrow> now \<le> t \<Longrightarrow> \<not> fst (fst (allow t k l)) \<Longrightarrow>
      snd (fst (allow t k l)) = hd (live t l k) - (t - window l)"
    and live_ordered: "wf now l \<Longrightarrow> sorted (live now l k)"
    and live_bounded: "wf now l \<Longrightarrow> int (length (live now l k)) \<le> limit l"
    and limit_pos: "wf now l \<Longrightarrow> 0 < limit l"
    and wf_allow: "wf now l \<Longrightarrow> now \<le> t \<Longrightarrow> wf t (snd (allow t k l))"
    and wf_later: "wf now l \<Longrightarrow> now \<le> t \<Longrightarrow> wf t l"
    and config: "limit (snd (allow t k l)) = limit l" "window (snd (allow t k l)) = window l"

definition usable :: "time \<Rightarrow> limiter \<Rightarrow> bool" where
  "usable now l \<longleftrightarrow> lim_wf now l \<and> 0 < lim_limit l \<and> 0 < lim_window l"

lemma usable_New: "0 < limit \<Longrightarrow> 0 < window \<Longrightarrow> usable now (New limit window)"
  using lim_wf_New [of now limit window] by (simp add: usable_def New_def)

interpretation sliding: allower Allow usable live lim_limit lim_window
proof unfold_locales
  fix now t :: time and l :: limiter and k k' :: string
  assume u: "usable now l" and t: "now \<le> t"
  then have pos: "0 < lim_limit l" "0 < lim_window l" and d: "distinct (map fst (lim_hits l))"
    by (auto simp: usable_def lim_wf_def)
  show grant: "fst (fst (Allow t k l)) \<longleftrightarrow> int (length (live t l k)) < lim_limit l"
    using Allow_outcome [OF pos(1) d] by auto
  show "live t (snd (Allow t k l)) k = live t l k @ (if fst (fst (Allow t k l)) then [t] else [])"
    using Allow_live_same [OF pos(1) d, of t k] pos(2) by (simp add: live_def)
  show "k' \<noteq> k \<Longrightarrow> live t (snd (Allow t k l)) k' = live t l k'"
    using Allow_live_other [OF pos(1) d] by simp
  show "live t l k = filter (\<lambda>x. t - lim_window l < x) (live now l k)"
    using t by (rule live_later)
  show "\<not> fst (fst (Allow t k l)) \<Longrightarrow> snd (fst (Allow t k l)) = hd (live t l k) - (t - lim_window l)"
    using Allow_outcome [OF pos(1) d, of t k] by (auto split: if_splits)
  show "usable t (snd (Allow t k l))"
    using u t lim_wf_Allow [of now l t k] by (simp add: usable_def)
  show "usable t l"
    using u t by (force simp: usable_def lim_wf_def)
next
  fix now :: time and l :: limiter and k :: string
  assume u: "usable now l"
  show "sorted (live now l k)"
    using u by (simp add: usable_def lim_wf_def live_def sorted_wrt_filter)
  show "int (length (live now l k)) \<le> lim_limit l"
  proof -
    have "length (live now l k) \<le> length (key_hits (lim_hits l) k)" by (simp add: live_def)
    moreover have "int (length (key_hits (lim_hits l) k)) \<le> lim_limit l"
      using u by (simp add: usable_def lim_wf_def)
    ultimately show ?thesis by linarith
  qed
  show "0 < lim_limit l" using u by (simp add: usable_def)
qed simp_all

section \<open>Runs of calls\<close>

text \<open>A sequence of calls, each a clock reading and a key, with the decision of each.\<close>

fun allow_run :: "(time \<Rightarrow> string \<Rightarrow> 'l \<Rightarrow> (bool \<times> duration) \<times> 'l) \<Rightarrow> 'l \<Rightarrow> (time \<times> string) list \<Rightarrow>
    (time \<times> string \<times> bool) list" where
  "allow_run allow l [] = []"
| "allow_run allow l ((t, k) # es) =
     (let ((ok, _), l') = allow t k l in (t, k, ok) # allow_run allow l' es)"

definition granted :: "string \<Rightarrow> (time \<times> string \<times> bool) list \<Rightarrow> time list" where
  "granted k outs = map fst (filter (\<lambda>(t, k', ok). k' = k \<and> ok) outs)"

definition in_window :: "duration \<Rightarrow> time \<Rightarrow> time list \<Rightarrow> time list" where
  "in_window w x ts = filter (\<lambda>t. x - w < t \<and> t \<le> x) ts"

lemma granted_Nil [simp]: "granted k [] = []"
  by (simp add: granted_def)

lemma granted_Cons [simp]:
  "granted k ((t, k', ok) # outs) = (if k' = k \<and> ok then t # granted k outs else granted k outs)"
  by (simp add: granted_def)

lemma in_window_append [simp]: "in_window w x (ts @ us) = in_window w x ts @ in_window w x us"
  by (simp add: in_window_def)

lemma in_window_length: "length (in_window w x ts) \<le> length ts"
  by (simp add: in_window_def)

lemma allow_run_times: "map fst (allow_run allow l es) = map fst es"
  by (induction allow l es rule: allow_run.induct) (auto split: prod.splits)

lemma granted_times: "set (granted k (allow_run allow l es)) \<subseteq> fst ` set es"
proof -
  have "set (granted k (allow_run allow l es)) \<subseteq> set (map fst (allow_run allow l es))"
    by (auto simp: granted_def)
  then show ?thesis by (simp add: allow_run_times)
qed

context allower
begin

lemma run_window_bound:
  assumes "wf now l" "sorted (now # map fst es)"
  shows "int (length (in_window (window l) x (live now l k @ granted k (allow_run allow l es)))) \<le> limit l"
  using assms
proof (induction es arbitrary: now l)
  case Nil
  then show ?case
    using live_bounded [of now l k] in_window_length [of "window l" x "live now l k"] by simp
next
  case (Cons e es)
  obtain t j where e: "e = (t, j)" by (cases e)
  let ?l = "snd (allow t j l)"
  let ?rest = "granted k (allow_run allow ?l es)"
  from Cons.prems e have nt: "now \<le> t" and srt: "sorted (t # map fst es)" by auto
  have wf': "wf t ?l" using Cons.prems(1) nt by (rule wf_allow)
  have IH: "int (length (in_window (window l) x (live t ?l k @ ?rest))) \<le> limit l"
    using Cons.IH [OF wf' srt] by (simp add: config)
  have run: "granted k (allow_run allow l (e # es)) =
      (if j = k \<and> fst (fst (allow t j l)) then [t] else []) @ ?rest"
    by (auto simp: e split: prod.splits)
  have live': "live t ?l k = filter (\<lambda>y. t - window l < y) (live now l k) @
      (if j = k \<and> fst (fst (allow t j l)) then [t] else [])"
    using counted [OF Cons.prems(1) nt, of k] other_keys [OF Cons.prems(1) nt, of k j]
      expire [OF Cons.prems(1) nt, of k] by (cases "j = k") auto
  show ?case
  proof (cases "t \<le> x")
    case True
    then have "in_window (window l) x (filter (\<lambda>y. t - window l < y) (live now l k))
        = in_window (window l) x (live now l k)"
      by (auto simp: in_window_def intro!: filter_cong)
    then show ?thesis using IH by (simp add: run live')
  next
    case False
    have "set ?rest \<subseteq> fst ` set es" by (rule granted_times)
    then have "\<forall>y\<in>set ?rest. t \<le> y" using srt by auto
    with False have "in_window (window l) x ?rest = []"
      by (auto simp: in_window_def filter_empty_conv)
    moreover have "in_window (window l) x (if j = k \<and> fst (fst (allow t j l)) then [t] else []) = []"
      using False by (simp add: in_window_def)
    ultimately show ?thesis
      using live_bounded [OF Cons.prems(1), of k] in_window_length [of "window l" x "live now l k"]
      by (simp add: run)
  qed
qed

lemma live_ordered_at:
  assumes "wf now l" "now \<le> t"
  shows "sorted (live t l k)"
  using live_ordered [OF wf_later [OF assms]] .

text \<open>A refused key is granted again exactly once \<open>retryAfter\<close> has passed.\<close>

lemma retry_exact:
  assumes wf: "wf now l" and t: "now \<le> t" and denied: "\<not> fst (fst (allow t k l))" and u: "t \<le> u"
  shows "fst (fst (allow u k (snd (allow t k l)))) \<longleftrightarrow> t + snd (fst (allow t k l)) \<le> u"
proof -
  let ?l = "snd (allow t k l)"
  let ?ts = "live t l k"
  have wf': "wf t ?l" using wf t by (rule wf_allow)
  have full: "limit l \<le> int (length ?ts)" using grant [OF wf t] denied by simp
  then obtain y ys where ts: "?ts = y # ys"
    using limit_pos [OF wf] by (cases ?ts) auto
  have "sorted (y # ys)" using live_ordered_at [OF wf t, of k] ts by simp
  then have least: "\<forall>z\<in>set ys. y \<le> z" by simp
  have "live t ?l k = ?ts" using counted [OF wf t] denied by simp
  then have "live u ?l k = filter (\<lambda>x. u - window l < x) (y # ys)"
    using expire [OF wf' u, of k] ts by (simp add: config)
  moreover have bound: "int (length (y # ys)) \<le> limit l"
    using live_bounded [OF wf_later [OF wf t], of k] ts by simp
  ultimately have "fst (fst (allow u k ?l)) \<longleftrightarrow>
      length (filter (\<lambda>x. u - window l < x) (y # ys)) < length (y # ys)"
    using grant [OF wf' u, of k] full ts by (simp add: config) linarith
  also have "\<dots> \<longleftrightarrow> \<not> (\<forall>x\<in>set (y # ys). u - window l < x)"
    using length_filter_less [of _ "y # ys"] by (metis filter_True less_irrefl)
  also have "\<dots> \<longleftrightarrow> y \<le> u - window l"
    using least by force
  also have "\<dots> \<longleftrightarrow> t + snd (fst (allow t k l)) \<le> u"
    using retry [OF wf t denied] ts by auto
  finally show ?thesis .
qed

lemma other_key_decides_same:
  assumes "wf now l" "now \<le> t" "t \<le> u" "k' \<noteq> k"
  shows "fst (fst (allow u k' (snd (allow t k l)))) \<longleftrightarrow> fst (fst (allow u k' l))"
proof -
  have wf': "wf t (snd (allow t k l))" using assms(1,2) by (rule wf_allow)
  have "live u (snd (allow t k l)) k' = filter (\<lambda>x. u - window l < x) (live t l k')"
    using expire [OF wf' assms(3)] other_keys [OF assms(1,2,4)] by (simp add: config)
  also have "\<dots> = live u l k'"
    using expire [OF wf_later [OF assms(1,2)] assms(3)] by simp
  finally show ?thesis
    using grant [OF wf' assms(3)] grant [OF wf_later [OF assms(1,2)] assms(3)] by (simp add: config)
qed

end

section \<open>Properties of the limiter\<close>

text \<open>
  C21. For every sequence of calls whose clock readings do not go back, a fresh limiter grants a key
  at most \<open>limit\<close> events in any window \<open>(x - window, x]\<close>, whatever the other keys do and however
  often the idle sweep runs.
\<close>

theorem limiter_window_bound:
  assumes "0 < limit" "0 < window" "sorted (map fst es)"
  shows "length (in_window window x (granted k (allow_run Allow (New limit window) es))) \<le> nat limit"
proof -
  define now where "now = (case es of [] \<Rightarrow> 0 | e # _ \<Rightarrow> fst e)"
  have srt: "sorted (now # map fst es)" using assms(3) by (cases es) (auto simp: now_def)
  have "int (length (in_window (lim_window (New limit window)) x
      (live now (New limit window) k @ granted k (allow_run Allow (New limit window) es))))
    \<le> lim_limit (New limit window)"
    by (rule sliding.run_window_bound [OF usable_New [OF assms(1,2)] srt])
  then show ?thesis by (simp add: New_def in_window_def)
qed

theorem limiter_window_bound_witness:
  "length (in_window 10 2 (granted ''a'' (allow_run Allow (New 2 10)
      [(0, ''a''), (1, ''a''), (2, ''a''), (2, ''b''), (10, ''a'')]))) \<le> 2 \<and>
   granted ''a'' (allow_run Allow (New 2 10)
      [(0, ''a''), (1, ''a''), (2, ''a''), (2, ''b''), (10, ''a'')]) = [0, 1, 10]"
proof
  show "length (in_window 10 2 (granted ''a'' (allow_run Allow (New 2 10)
      [(0, ''a''), (1, ''a''), (2, ''a''), (2, ''b''), (10, ''a'')]))) \<le> 2"
    using limiter_window_bound [of 2 10 "[(0, ''a''), (1, ''a''), (2, ''a''), (2, ''b''), (10, ''a'')]"
      2 "''a''"] by simp
  show "granted ''a'' (allow_run Allow (New 2 10)
      [(0, ''a''), (1, ''a''), (2, ''a''), (2, ''b''), (10, ''a'')]) = [0, 1, 10]"
    by code_simp
qed

text \<open>
  \<open>retryAfter\<close> is exact: a refusal at \<open>t\<close> promises a positive wait of at most the window, and
  the next call for that key is granted if and only if the wait is over.
\<close>

theorem retry_after_exact:
  assumes u: "usable now l" and t: "now \<le> t" and A: "Allow t k l = ((False, d), l')" and later: "t \<le> u"
  shows "0 < d \<and> d \<le> lim_window l \<and> (fst (fst (Allow u k l')) \<longleftrightarrow> t + d \<le> u)"
proof -
  have denied: "\<not> fst (fst (Allow t k l))" using A by simp
  have full: "lim_limit l \<le> int (length (live t l k))"
    using sliding.grant [OF u t, of k] denied by simp
  moreover have "0 < lim_limit l" using u by (rule sliding.limit_pos)
  ultimately have ne: "live t l k \<noteq> []" by auto
  have d: "d = hd (live t l k) - (t - lim_window l)"
    using sliding.retry [OF u t denied] A by simp
  have "hd (live t l k) \<in> set (live t l k)" using ne by simp
  then have "t - lim_window l < hd (live t l k)" "hd (live t l k) \<le> t"
    using sliding.wf_later [OF u t] by (auto simp: live_def usable_def lim_wf_def)
  then show ?thesis
    using sliding.retry_exact [OF u t denied later] A d by simp
qed

theorem retry_after_exact_witness:
  "Allow 2 ''a'' (New 1 10\<lparr>lim_hits := [(''a'', [0])]\<rparr>)
     = ((False, 8), New 1 10\<lparr>lim_hits := [(''a'', [0])], lim_calls := 1\<rparr>) \<and>
   fst (fst (Allow 10 ''a'' (New 1 10\<lparr>lim_hits := [(''a'', [0])], lim_calls := 1\<rparr>))) \<and>
   \<not> fst (fst (Allow 9 ''a'' (New 1 10\<lparr>lim_hits := [(''a'', [0])], lim_calls := 1\<rparr>)))"
proof -
  let ?l = "New 1 10\<lparr>lim_hits := [(''a'', [0])]\<rparr>"
  let ?l' = "New 1 10\<lparr>lim_hits := [(''a'', [0])], lim_calls := 1\<rparr>"
  have A: "Allow 2 ''a'' ?l = ((False, 8), ?l')" by code_simp
  have u: "usable 0 ?l"
    by (simp add: usable_def lim_wf_def New_def key_hits_def tab_get_def)
  show ?thesis
    using A retry_after_exact [OF u _ A, of 10] retry_after_exact [OF u _ A, of 9] by simp
qed

text \<open>
  Keys do not share budget: a call for one key, granted or refused, never changes whether a
  later call for another key is granted.
\<close>

theorem keys_independent:
  assumes "usable now l" "now \<le> t" "t \<le> u" "k' \<noteq> k"
  shows "fst (fst (Allow u k' (snd (Allow t k l)))) \<longleftrightarrow> fst (fst (Allow u k' l))"
  using assms by (rule sliding.other_key_decides_same)

theorem keys_independent_witness:
  "fst (fst (Allow 3 ''b'' (snd (Allow 2 ''a'' (New 1 10))))) \<longleftrightarrow> fst (fst (Allow 3 ''b'' (New 1 10)))"
  by (rule keys_independent [of 0]) (simp_all add: usable_New)

end
