(* ===== verification/AuthrModel.thy ===== *)
theory AuthrModel
  imports XWire
begin

text \<open>
  The records and the in-memory store of authenticator-service (models.go, storage.go):
  enrolments, challenges, their storage operations and the background purge.  Both tables
  implement the tenant-scoped row store of the prelude.
\<close>

section \<open>Models\<close>

definition MethodFIDO2 :: string where "MethodFIDO2 = ''fido2''"
definition MethodTOTP :: string where "MethodTOTP = ''totp''"
definition MethodPush :: string where "MethodPush = ''push''"
definition MethodSMS :: string where "MethodSMS = ''sms''"
definition MethodMagicLink :: string where "MethodMagicLink = ''magic_link''"

lemmas method_defs = MethodFIDO2_def MethodTOTP_def MethodPush_def MethodSMS_def MethodMagicLink_def

definition AuthenticatorStatusActive :: string where "AuthenticatorStatusActive = ''active''"
definition AuthenticatorStatusDisabled :: string where "AuthenticatorStatusDisabled = ''disabled''"

definition ChallengeStatusPending :: string where "ChallengeStatusPending = ''pending''"
definition ChallengeStatusCompleted :: string where "ChallengeStatusCompleted = ''completed''"
definition ChallengeStatusFailed :: string where "ChallengeStatusFailed = ''failed''"
definition ChallengeStatusExpired :: string where "ChallengeStatusExpired = ''expired''"

lemmas cstatus_defs = ChallengeStatusPending_def ChallengeStatusCompleted_def
  ChallengeStatusFailed_def ChallengeStatusExpired_def

definition ChallengeTTL :: duration where "ChallengeTTL = 5 * Minute"
definition MaxChallengeAttempts :: int where "MaxChallengeAttempts = 3"

definition IsValidMethod :: "string \<Rightarrow> bool" where
  "IsValidMethod m \<longleftrightarrow>
     m = MethodFIDO2 \<or> m = MethodTOTP \<or> m = MethodPush \<or> m = MethodSMS \<or> m = MethodMagicLink"

record EnrollRequest =
  enr_UserID :: string
  enr_Method :: string
  enr_Metadata :: "(string \<times> json) list"

record ChallengeRequest =
  chq_UserID :: string
  chq_Methods :: "string list"

record ChallengeDispatched =
  cd_ChallengeID :: string
  cd_Method :: string
  cd_Prompt :: string
  cd_ExpiresAt :: time
  cd_Options :: string

record VerifyRequest =
  vq_Response :: "(string \<times> json) list"

record VerifyResponse =
  vr_Verified :: bool
  vr_AuthenticatorID :: string
  vr_Reason :: string
  vr_AMR :: "string list"

text \<open>
  A value of a \<open>map[string]any\<close> in an enrolment: a decoded JSON value, or one the service itself put
  there, a number or a \<open>[]string\<close>.
\<close>

datatype any = AnyJSON json | AnyFloat rat | AnyStrings "string list"

record Authenticator =
  a_ID :: string
  a_TenantID :: string
  a_UserID :: string
  a_Method :: string
  a_Metadata :: "(string \<times> any) list"
  a_Status :: string
  a_CreatedAt :: time
  a_UpdatedAt :: time

record Challenge =
  c_ID :: string
  c_TenantID :: string
  c_UserID :: string
  c_Method :: string
  c_AuthenticatorID :: string
  c_Prompt :: string
  c_Status :: string
  c_Attempts :: int
  c_CreatedAt :: time
  c_ExpiresAt :: time
  c_CompletedAt :: "time option"
  c_LastAttemptAt :: "time option"
  c_OptionsJSON :: string
  c_SessionData :: string

section \<open>Storage\<close>

record authr_store =
  st_authenticators :: "Authenticator table"
  st_challenges :: "Challenge table"

definition NewStore :: authr_store where
  "NewStore = \<lparr>st_authenticators = [], st_challenges = []\<rparr>"

definition PutAuthenticator :: "Authenticator \<Rightarrow> authr_store \<Rightarrow> authr_store" where
  "PutAuthenticator a s = s\<lparr>st_authenticators := tab_put (a_ID a) a (st_authenticators s)\<rparr>"

definition GetAuthenticator :: "string \<Rightarrow> string \<Rightarrow> authr_store \<Rightarrow> Authenticator option" where
  "GetAuthenticator tenantID rid s =
     (case tab_get (st_authenticators s) rid of
        None \<Rightarrow> None
      | Some a \<Rightarrow> if a_TenantID a \<noteq> tenantID then None else Some a)"

definition ListAuthenticators :: "string \<Rightarrow> string \<Rightarrow> authr_store \<Rightarrow> Authenticator list" where
  "ListAuthenticators tenantID userID s =
     filter (\<lambda>a. a_TenantID a = tenantID \<and> a_UserID a = userID) (tab_rows (st_authenticators s))"

definition ListActiveAuthenticators :: "string \<Rightarrow> string \<Rightarrow> authr_store \<Rightarrow> Authenticator list" where
  "ListActiveAuthenticators tenantID userID s =
     filter (\<lambda>a. a_TenantID a = tenantID \<and> a_UserID a = userID \<and> a_Status a = AuthenticatorStatusActive)
       (tab_rows (st_authenticators s))"

definition DisableAuthenticator :: "time \<Rightarrow> string \<Rightarrow> string \<Rightarrow> authr_store \<Rightarrow> authr_store option" where
  "DisableAuthenticator now tenantID rid s =
     (case tab_get (st_authenticators s) rid of
        None \<Rightarrow> None
      | Some a \<Rightarrow>
          if a_TenantID a \<noteq> tenantID then None
          else if a_Status a \<noteq> AuthenticatorStatusDisabled
            then (let a' = a\<lparr>a_Status := AuthenticatorStatusDisabled, a_UpdatedAt := now\<rparr>
                  in Some (s\<lparr>st_authenticators := tab_put rid a' (st_authenticators s)\<rparr>))
            else Some s)"

definition PutChallenge :: "Challenge \<Rightarrow> authr_store \<Rightarrow> authr_store" where
  "PutChallenge c s = s\<lparr>st_challenges := tab_put (c_ID c) c (st_challenges s)\<rparr>"

definition GetChallenge :: "string \<Rightarrow> string \<Rightarrow> authr_store \<Rightarrow> Challenge option" where
  "GetChallenge tenantID rid s =
     (case tab_get (st_challenges s) rid of
        None \<Rightarrow> None
      | Some c \<Rightarrow> if c_TenantID c \<noteq> tenantID then None else Some c)"

text \<open>The mutator may not move the row; if it does, nothing is stored and the call fails.\<close>

definition UpdateChallenge :: "string \<Rightarrow> string \<Rightarrow> (Challenge \<Rightarrow> Challenge) \<Rightarrow> authr_store \<Rightarrow>
    (Challenge \<times> authr_store) got" where
  "UpdateChallenge tenantID rid mutator s =
     (case tab_get (st_challenges s) rid of
        None \<Rightarrow> ErrNotFound
      | Some c \<Rightarrow>
          if c_TenantID c \<noteq> tenantID then ErrNotFound
          else let c' = mutator c
               in if c_ID c' \<noteq> rid \<or> c_TenantID c' \<noteq> tenantID then ErrOther
                  else Got (c', s\<lparr>st_challenges := tab_put rid c' (st_challenges s)\<rparr>))"

definition purgeable :: "time \<Rightarrow> Challenge \<Rightarrow> bool" where
  "purgeable now c \<longleftrightarrow> c_Status c = ChallengeStatusExpired \<or>
     (c_Status c = ChallengeStatusPending \<and> \<not> now < c_ExpiresAt c)"

definition PurgeExpired :: "time \<Rightarrow> authr_store \<Rightarrow> nat \<times> authr_store" where
  "PurgeExpired now s =
     (length (filter (\<lambda>(rid, c). purgeable now c) (st_challenges s)),
      s\<lparr>st_challenges := filter (\<lambda>(rid, c). \<not> purgeable now c) (st_challenges s)\<rparr>)"

definition store_wf :: "authr_store \<Rightarrow> bool" where
  "store_wf s \<longleftrightarrow> tab_wf a_ID (st_authenticators s) \<and> tab_wf c_ID (st_challenges s)"

section \<open>The two tables are tenant-scoped row stores\<close>

interpretation authenticators: tenant_rows a_ID a_TenantID PutAuthenticator GetAuthenticator
  by unfold_locales
    (auto simp: PutAuthenticator_def GetAuthenticator_def table_simps split: option.splits if_splits)

interpretation challenges: tenant_rows c_ID c_TenantID PutChallenge GetChallenge
  by unfold_locales
    (auto simp: PutChallenge_def GetChallenge_def table_simps split: option.splits if_splits)

lemma UpdateChallenge_Got:
  assumes "UpdateChallenge t i f s = Got (c', s')"
  obtains c where "GetChallenge t i s = Some c" "c' = f c" "c_ID c' = i" "c_TenantID c' = t"
    "s' = PutChallenge c' s"
  using assms
  by (auto simp: UpdateChallenge_def GetChallenge_def PutChallenge_def Let_def
      split: option.splits if_splits)

lemma UpdateChallenge_present:
  assumes "GetChallenge t i s = Some c" "c_ID (f c) = i" "c_TenantID (f c) = t"
  shows "UpdateChallenge t i f s = Got (f c, PutChallenge (f c) s)"
  using assms by (auto simp: UpdateChallenge_def GetChallenge_def PutChallenge_def Let_def
      split: option.splits if_splits)

lemma UpdateChallenge_missing: "GetChallenge t i s = None \<Longrightarrow> UpdateChallenge t i f s = ErrNotFound"
  by (auto simp: UpdateChallenge_def GetChallenge_def split: option.splits if_splits)

lemma GetChallenge_id: "store_wf s \<Longrightarrow> GetChallenge t i s = Some c \<Longrightarrow> c_ID c = i"
  by (auto simp: store_wf_def GetChallenge_def tab_wf_get split: option.splits if_splits)

lemma store_wf_New [simp]: "store_wf NewStore"
  by (simp add: store_wf_def NewStore_def)

lemma store_wf_PutChallenge [intro]: "store_wf s \<Longrightarrow> store_wf (PutChallenge c s)"
  by (simp add: store_wf_def PutChallenge_def tab_wf_put)

lemma store_wf_PutAuthenticator [intro]: "store_wf s \<Longrightarrow> store_wf (PutAuthenticator a s)"
  by (simp add: store_wf_def PutAuthenticator_def tab_wf_put)

lemma store_wf_Disable: "store_wf s \<Longrightarrow> DisableAuthenticator now t i s = Some s' \<Longrightarrow> store_wf s'"
  by (auto simp: store_wf_def DisableAuthenticator_def Let_def tab_wf_get intro!: tab_wf_put
      split: option.splits if_splits)

lemma Put_frames [simp]:
  "GetChallenge t i (PutAuthenticator a s) = GetChallenge t i s"
  "GetAuthenticator t i (PutChallenge c s) = GetAuthenticator t i s"
  "st_authenticators (PutChallenge c s) = st_authenticators s"
  "st_challenges (PutAuthenticator a s) = st_challenges s"
  by (auto simp: PutAuthenticator_def PutChallenge_def GetChallenge_def GetAuthenticator_def)

end
