(* ===== verification/AuthrAbuse.thy ===== *)
theory AuthrAbuse
  imports RateLimit AuthrModel "HOL-Library.Signed_Division"
begin

text \<open>
  The abuse controls of authenticator-service (abuse.go): the account lockout, a client of the
  \<open>Allower\<close> interface that counts failed verifications, the exponential backoff derived from a
  challenge row, and the rendering of waiting times.  The lemmas bound how many failures a key can
  accumulate in a window.
\<close>

section \<open>The lockout\<close>

definition abuseKey :: "string \<Rightarrow> string \<Rightarrow> string" where
  "abuseKey tenantID userID = tenantID @ ''|'' @ userID"

text \<open>\<open>lo_failures = None\<close> is the nil counter of a threshold of one.\<close>

record 'l lockout =
  lo_window :: duration
  lo_failures :: "'l option"
  lo_lockedUntil :: "time table"

definition newLockout :: "'l option \<Rightarrow> duration \<Rightarrow> 'l lockout" where
  "newLockout counter window = \<lparr>lo_window = window, lo_failures = counter, lo_lockedUntil = []\<rparr>"

definition NewLockout :: "int \<Rightarrow> duration \<Rightarrow> limiter lockout option" where
  "NewLockout threshold window =
     (if threshold \<le> 0 \<or> window \<le> 0 then None
      else let counter = (if 1 < threshold then Some (New (threshold - 1) window) else None)
           in Some (newLockout counter window))"

definition lock :: "time \<Rightarrow> string \<Rightarrow> duration \<Rightarrow> 'l lockout \<Rightarrow> 'l lockout" where
  "lock now key d l = l\<lparr>lo_lockedUntil := tab_put key (now + d) (lo_lockedUntil l)\<rparr>"

text \<open>\<open>t_allow\<close> and \<open>t_lock\<close> are the two clock readings: the counter's and the lock's.\<close>

definition RecordFailure :: "(time \<Rightarrow> string \<Rightarrow> 'l \<Rightarrow> (bool \<times> duration) \<times> 'l) \<Rightarrow> time \<Rightarrow> time \<Rightarrow>
    string \<Rightarrow> 'l lockout option \<Rightarrow> 'l lockout option" where
  "RecordFailure allow t_allow t_lock key lp =
     (case lp of
        None \<Rightarrow> None
      | Some l \<Rightarrow>
          (case lo_failures l of
             None \<Rightarrow> Some (lock t_lock key (lo_window l) l)
           | Some f \<Rightarrow>
               let ((ok, retryAfter), f') = allow t_allow key f;
                   l' = l\<lparr>lo_failures := Some f'\<rparr>
               in Some (if \<not> ok then lock t_lock key retryAfter l' else l')))"

text \<open>Whether the key is locked at \<open>now\<close> and for how long; an expired entry is dropped.\<close>

definition Locked :: "time \<Rightarrow> string \<Rightarrow> 'l lockout option \<Rightarrow> (bool \<times> duration) \<times> 'l lockout option" where
  "Locked now key lp =
     (case lp of
        None \<Rightarrow> ((False, 0), None)
      | Some l \<Rightarrow>
          (case tab_get (lo_lockedUntil l) key of
             None \<Rightarrow> ((False, 0), Some l)
           | Some until \<Rightarrow>
               if now < until then ((True, until - now), Some l)
               else ((False, 0), Some (l\<lparr>lo_lockedUntil := tab_del key (lo_lockedUntil l)\<rparr>))))"

section \<open>The backoff\<close>

definition maxBackoffShift :: int where "maxBackoffShift = 30"

definition backoffRemaining :: "Challenge \<Rightarrow> time \<Rightarrow> duration" where
  "backoffRemaining c now =
     (if c_Attempts c \<le> 0 then 0
      else case c_LastAttemptAt c of
        None \<Rightarrow> 0
      | Some lastAt \<Rightarrow>
          let shift = (if maxBackoffShift < c_Attempts c then maxBackoffShift else c_Attempts c);
              next = lastAt + 2 ^ nat shift * Second
          in if now < next then next - now else 0)"

section \<open>Error replies with a waiting time\<close>

definition retryAfterSeconds :: "duration \<Rightarrow> int" where
  "retryAfterSeconds d =
     (let secs = d sdiv Second
      in if d smod Second \<noteq> 0 \<or> secs < 1 then secs + 1 else secs)"

definition writeRetryAfterError :: "nat \<Rightarrow> string \<Rightarrow> string \<Rightarrow> duration \<Rightarrow> 'p reply" where
  "writeRetryAfterError st code m retryAfter = RetryAfter st code m (retryAfterSeconds retryAfter)"

definition writeAccountLocked :: "duration \<Rightarrow> 'p reply" where
  "writeAccountLocked retryAfter =
     writeRetryAfterError StatusLocked ''account_locked''
       ''account temporarily locked after repeated failed verifications'' retryAfter"

section \<open>Attempts under the lockout\<close>

text \<open>
  What the verify handler does around one credential check, for one key: ask \<open>Locked\<close>; when the
  key is free run the check, and record a failure.  The three readings are those of \<open>Locked\<close>, of
  the counter and of the lock.  The result is the failures that got past the lockout.
\<close>

record attempt =
  at_key :: string
  at_check :: time
  at_allow :: time
  at_lock :: time
  at_ok :: bool

fun guarded :: "(time \<Rightarrow> string \<Rightarrow> 'l \<Rightarrow> (bool \<times> duration) \<times> 'l) \<Rightarrow> 'l lockout option \<Rightarrow>
    attempt list \<Rightarrow> (time \<times> string) list" where
  "guarded allow lo [] = []"
| "guarded allow lo (a # as) =
     (let ((locked, _), lo') = Locked (at_check a) (at_key a) lo
      in if locked \<or> at_ok a then guarded allow lo' as
         else (at_allow a, at_key a) #
           guarded allow (RecordFailure allow (at_allow a) (at_lock a) (at_key a) lo') as)"

fun clock_ordered :: "time \<Rightarrow> attempt list \<Rightarrow> bool" where
  "clock_ordered now [] \<longleftrightarrow> True"
| "clock_ordered now (a # as) \<longleftrightarrow>
     now \<le> at_check a \<and> at_check a \<le> at_allow a \<and> at_allow a \<le> at_lock a \<and> clock_ordered (at_lock a) as"

definition failures_of :: "string \<Rightarrow> (time \<times> string) list \<Rightarrow> time list" where
  "failures_of k fs = map fst (filter (\<lambda>(t, k'). k' = k) fs)"

lemma guarded_Cons:
  "guarded allow lo (a # as) =
     (let lo' = snd (Locked (at_check a) (at_key a) lo)
      in if fst (fst (Locked (at_check a) (at_key a) lo)) \<or> at_ok a then guarded allow lo' as
         else (at_allow a, at_key a) #
           guarded allow (RecordFailure allow (at_allow a) (at_lock a) (at_key a) lo') as)"
  by (simp split: prod.splits)

declare guarded.simps(2) [simp del]

lemma guarded_sorted: "clock_ordered now as \<Longrightarrow> sorted (now # map fst (guarded allow lo as))"
proof (induction as arbitrary: now lo)
  case Nil
  then show ?case by simp
next
  case (Cons a as)
  then have o: "now \<le> at_check a" "at_check a \<le> at_allow a" "at_allow a \<le> at_lock a"
    "clock_ordered (at_lock a) as" by auto
  have IH: "sorted (at_lock a # map fst (guarded allow lo' as))" for lo'
    using Cons.IH [OF o(4)] .
  have "sorted (at_allow a # map fst (guarded allow lo' as))" "sorted (now # map fst (guarded allow lo' as))" for lo'
    using IH [of lo'] o by fastforce+
  with o show ?case unfolding guarded_Cons Let_def
    by (cases "fst (fst (Locked (at_check a) (at_key a) lo)) \<or> at_ok a") simp_all
qed

text \<open>A list of decisions in which no two refusals are adjacent (\<open>b\<close>: the one before was one).\<close>

fun no_adjacent :: "bool \<Rightarrow> (time \<times> bool) list \<Rightarrow> bool" where
  "no_adjacent b [] \<longleftrightarrow> True"
| "no_adjacent b ((t, g) # gs) \<longleftrightarrow> (b \<longrightarrow> g) \<and> no_adjacent (\<not> g) gs"

definition decisions :: "string \<Rightarrow> (time \<times> string \<times> bool) list \<Rightarrow> (time \<times> bool) list" where
  "decisions k outs = map (\<lambda>(t, _, g). (t, g)) (filter (\<lambda>(t, k', g). k' = k) outs)"

lemma decisions_simps [simp]:
  "decisions k [] = []"
  "decisions k ((t, k', g) # outs) = (if k' = k then (t, g) # decisions k outs else decisions k outs)"
  by (simp_all add: decisions_def)

lemma no_adjacent_refusals:
  assumes "no_adjacent b gs" "sorted (map fst gs)"
  shows "length (filter (\<lambda>(t, g). x - w < t \<and> t \<le> x \<and> \<not> g) gs)
    \<le> length (filter (\<lambda>(t, g). x - w < t \<and> t \<le> x \<and> g) gs) +
       (if b \<and> (\<forall>(t, g)\<in>set gs. x - w < t) then 0 else 1)"
  using assms
proof (induction gs arbitrary: b)
  case Nil
  then show ?case by simp
next
  case (Cons tg gs)
  obtain t g where tg: "tg = (t, g)" by (cases tg)
  from Cons.prems tg have na: "b \<longrightarrow> g" "no_adjacent (\<not> g) gs" and srt: "sorted (map fst gs)"
    and le: "\<forall>(u, _)\<in>set gs. t \<le> u" by auto
  note IH = Cons.IH [OF na(2) srt]
  consider "x < t" | "t \<le> x - w" "t \<le> x" | "x - w < t" "t \<le> x" by linarith
  then show ?case
  proof cases
    case 1
    with le have "filter (\<lambda>(t, g). x - w < t \<and> t \<le> x \<and> \<not> g) (tg # gs) = []"
      by (auto simp: tg filter_empty_conv)
    then show ?thesis by simp
  next
    case 2
    then show ?thesis using IH by (auto simp: tg split: if_splits)
  next
    case 3
    with le have "\<forall>(u, _)\<in>set gs. x - w < u" by fastforce
    with 3 na(1) IH show ?thesis by (cases g; cases b) (auto simp: tg)
  qed
qed

text \<open>From when on a key that was refused can be tried again: the end of its lock.\<close>

definition free_from :: "time \<Rightarrow> string \<Rightarrow> 'l lockout \<Rightarrow> time" where
  "free_from now k lo = (case tab_get (lo_lockedUntil lo) k of None \<Rightarrow> now | Some u \<Rightarrow> max now u)"

lemma Locked_cases:
  obtains (free) "Locked c j (Some lo) = ((False, 0), Some lo)" "tab_get (lo_lockedUntil lo) j = None"
  | (locked) u where "Locked c j (Some lo) = ((True, u - c), Some lo)"
      "tab_get (lo_lockedUntil lo) j = Some u" "c < u"
  | (over) u where "Locked c j (Some lo) = ((False, 0), Some (lo\<lparr>lo_lockedUntil := tab_del j (lo_lockedUntil lo)\<rparr>))"
      "tab_get (lo_lockedUntil lo) j = Some u" "u \<le> c"
proof (cases "tab_get (lo_lockedUntil lo) j")
  case None
  then show ?thesis using free by (simp add: Locked_def)
next
  case (Some u)
  then show ?thesis using locked over by (cases "c < u") (simp_all add: Locked_def)
qed

lemma Locked_state:
  obtains lo' where "snd (Locked c j (Some lo)) = Some lo'" "lo_failures lo' = lo_failures lo"
    "lo_window lo' = lo_window lo"
    "\<not> fst (fst (Locked c j (Some lo))) \<Longrightarrow> tab_get (lo_lockedUntil lo') j = None"
    "\<And>now k. now \<le> c \<Longrightarrow> free_from now k lo \<le> free_from c k lo'"
  by (cases rule: Locked_cases [of c j lo])
    (auto intro!: that simp: free_from_def table_simps split: option.splits)

lemma free_from_mono: "now \<le> t \<Longrightarrow> free_from now k lo \<le> free_from t k lo"
  by (auto simp: free_from_def split: option.splits)

lemma free_from_ge: "now \<le> free_from now k lo"
  by (auto simp: free_from_def split: option.splits)

context allower
begin

lemma live_shrinks:
  assumes "wf now l" "now \<le> t" "t \<le> u"
  shows "length (live u l k) \<le> length (live t l k)"
  using expire [OF wf_later [OF assms(1,2)] assms(3), of k] by simp

lemma live_other_later:
  assumes "wf now l" "now \<le> t" "t \<le> u" "k' \<noteq> k"
  shows "live u (snd (allow t k l)) k' = live u l k'"
  using expire [OF wf_allow [OF assms(1,2)] assms(3), of k k'] other_keys [OF assms(1,2,4)]
    expire [OF wf_later [OF assms(1,2)] assms(3), of k'] by (simp add: config)

text \<open>After a refusal the key stays locked until it will be granted: refusals are never adjacent.\<close>

lemma refusals_not_adjacent:
  assumes "lo_failures lo = Some f" "wf now f" "clock_ordered now as"
    and "b \<Longrightarrow> int (length (live (free_from now k lo) f k)) < limit f"
  shows "no_adjacent b (decisions k (allow_run allow f (guarded allow (Some lo) as)))"
  using assms
proof (induction as arbitrary: now lo f b)
  case Nil
  then show ?case by simp
next
  case (Cons a as)
  let ?c = "at_check a" and ?t = "at_allow a" and ?j = "at_key a"
  from Cons.prems(3) have o: "now \<le> ?c" "?c \<le> ?t" "?t \<le> at_lock a" "clock_ordered (at_lock a) as"
    by auto
  obtain lo' where L: "snd (Locked ?c ?j (Some lo)) = Some lo'" "lo_failures lo' = Some f"
    and free: "\<not> fst (fst (Locked ?c ?j (Some lo))) \<Longrightarrow> tab_get (lo_lockedUntil lo') ?j = None"
    and later: "\<And>now k. now \<le> ?c \<Longrightarrow> free_from now k lo \<le> free_from ?c k lo'"
    using Locked_state [of ?c ?j lo] Cons.prems(1) by metis
  have ready: "int (length (live (free_from t k lo') f k)) < limit f" if b "?c \<le> t" for t
  proof -
    have "free_from now k lo \<le> free_from t k lo'"
      using later [OF o(1), of k] free_from_mono [OF that(2), of k lo'] by linarith
    then have "length (live (free_from t k lo') f k) \<le> length (live (free_from now k lo) f k)"
      using live_shrinks [OF Cons.prems(2) free_from_ge [of now k lo], of "free_from t k lo'" k] by simp
    then show ?thesis using Cons.prems(4) [OF that(1)] by linarith
  qed
  have wf_t: "wf ?t f" "wf (at_lock a) f"
    using wf_later [OF Cons.prems(2)] o by auto
  show ?case
  proof (cases "fst (fst (Locked ?c ?j (Some lo))) \<or> at_ok a")
    case True
    have "no_adjacent b (decisions k (allow_run allow f (guarded allow (Some lo') as)))"
      using Cons.IH [OF L(2) wf_t(2) o(4)] ready o by simp
    with True show ?thesis by (simp add: guarded_Cons L)
  next
    case False
    obtain g d f' where A: "allow ?t ?j f = ((g, d), f')" by (metis prod.collapse)
    define lo2 where "lo2 = (if \<not> g then lock (at_lock a) ?j d (lo'\<lparr>lo_failures := Some f'\<rparr>)
      else lo'\<lparr>lo_failures := Some f'\<rparr>)"
    have R: "RecordFailure allow ?t (at_lock a) ?j (Some lo') = Some lo2"
      by (simp add: RecordFailure_def L A lo2_def)
    have f2: "lo_failures lo2 = Some f'" by (simp add: lo2_def lock_def)
    have wf': "wf ?t f'" using wf_allow [OF Cons.prems(2), of ?t ?j] o A by simp
    have wf2: "wf (at_lock a) f'" by (rule wf_later [OF wf' o(3)])
    note run = guarded_Cons [of allow "Some lo" a as] L(1) R False A
    show ?thesis
    proof (cases "?j = k")
      case False
      have "free_from (at_lock a) k lo2 = free_from (at_lock a) k lo'"
        using False by (simp add: lo2_def lock_def free_from_def table_simps)
      moreover have "live u f' k = live u f k" if "?t \<le> u" for u
        using live_other_later [OF wf_t(1) order_refl that, of k ?j] False A by auto
      moreover have "?t \<le> free_from (at_lock a) k lo'" using o(3) free_from_ge by (meson order_trans)
      moreover have "limit f' = limit f" using config(1) [of ?t ?j f] A by simp
      ultimately have "no_adjacent b (decisions k (allow_run allow f' (guarded allow (Some lo2) as)))"
        using Cons.IH [OF f2 wf2 o(4), of b] ready [of "at_lock a"] o by simp
      with run False show ?thesis by simp
    next
      case True
      have fr: "tab_get (lo_lockedUntil lo') k = None" using free False True by simp
      have bg: "b \<longrightarrow> g"
        using ready [of ?t] grant [OF wf_t(1) order_refl, of k] A o(2) fr True
        by (simp add: free_from_def)
      have "int (length (live (free_from (at_lock a) k lo2) f' k)) < limit f'" if ng: "\<not> g"
      proof -
        have fb: "free_from (at_lock a) k lo2 = max (at_lock a) (at_lock a + d)"
          using ng True by (simp add: lo2_def lock_def free_from_def table_simps)
        have "?t \<le> free_from (at_lock a) k lo2" "?t + d \<le> free_from (at_lock a) k lo2"
          using o(3) by (auto simp: fb)
        then have "fst (fst (allow (free_from (at_lock a) k lo2) k f'))"
          using retry_exact [OF wf_t(1) order_refl, of k "free_from (at_lock a) k lo2"] A ng True by simp
        then show ?thesis
          using grant [OF wf' \<open>?t \<le> free_from (at_lock a) k lo2\<close>] by simp
      qed
      then have "no_adjacent (\<not> g) (decisions k (allow_run allow f' (guarded allow (Some lo2) as)))"
        by (intro Cons.IH [OF f2 wf2 o(4)]) simp
      with run bg True show ?thesis by simp
    qed
  qed
qed

lemma failures_split:
  "length (in_window w x (failures_of k es)) =
   length (filter (\<lambda>(t, g). x - w < t \<and> t \<le> x \<and> g) (decisions k (allow_run allow f es))) +
   length (filter (\<lambda>(t, g). x - w < t \<and> t \<le> x \<and> \<not> g) (decisions k (allow_run allow f es)))"
  by (induction allow f es rule: allow_run.induct)
    (auto simp: failures_of_def in_window_def split: prod.splits)

lemma granted_decisions:
  "length (in_window w x (granted k outs)) =
   length (filter (\<lambda>(t, g). x - w < t \<and> t \<le> x \<and> g) (decisions k outs))"
  by (induction outs) (auto simp: granted_def in_window_def decisions_def)

lemma decisions_sorted:
  "sorted (map fst es) \<Longrightarrow> sorted (map fst (decisions k (allow_run allow f es)))"
proof -
  assume srt: "sorted (map fst es)"
  have "map fst (decisions k outs) = map fst (filter (\<lambda>(t, k', g). k' = k) outs)" for outs
    by (simp add: decisions_def comp_def case_prod_beta)
  moreover have "sorted (map fst (allow_run allow f es))" using srt by (simp add: allow_run_times)
  ultimately show ?thesis by (metis sorted_map sorted_wrt_filter)
qed

text \<open>
  Hence the failures a key can accumulate in a window: the granted ones are bounded by the
  counter's limit, and there is at most one refusal between two of them and one at either end.
\<close>

lemma failures_bounded:
  assumes lo: "lo_failures lo = Some f" "wf now f" "clock_ordered now as"
  shows "int (length (in_window (window f) x (failures_of k (guarded allow (Some lo) as)))) \<le> 2 * limit f + 1"
proof -
  let ?es = "guarded allow (Some lo) as"
  let ?outs = "allow_run allow f ?es"
  have srt: "sorted (now # map fst ?es)" using lo(3) by (rule guarded_sorted)
  have "in_window (window f) x (live now f k @ granted k ?outs)
      = in_window (window f) x (live now f k) @ in_window (window f) x (granted k ?outs)" by simp
  then have "int (length (in_window (window f) x (granted k ?outs))) \<le> limit f"
    using run_window_bound [OF lo(2) srt, of x k] by simp
  moreover have "length (filter (\<lambda>(t, g). x - window f < t \<and> t \<le> x \<and> \<not> g) (decisions k ?outs))
      \<le> length (filter (\<lambda>(t, g). x - window f < t \<and> t \<le> x \<and> g) (decisions k ?outs)) + 1"
    using no_adjacent_refusals [of False "decisions k ?outs" x "window f"]
      refusals_not_adjacent [OF lo, of False k] decisions_sorted [of ?es k f] srt by simp
  ultimately show ?thesis
    using failures_split [of "window f" x k ?es f] granted_decisions [of "window f" x k ?outs] by linarith
qed

end

section \<open>Bounds on failures and waiting times\<close>

text \<open>A threshold of one has no counter: every failure locks the key for the whole window.\<close>

lemma nil_counter_separates:
  assumes "lo_failures lo = None" "lo_window lo = w" "clock_ordered now as"
  shows "sorted_wrt (\<lambda>s t. s + w \<le> t) (failures_of k (guarded allow (Some lo) as)) \<and>
    (\<forall>t\<in>set (failures_of k (guarded allow (Some lo) as)). free_from now k lo \<le> t)"
  using assms
proof (induction as arbitrary: now lo)
  case Nil
  then show ?case by (simp add: failures_of_def)
next
  case (Cons a as)
  let ?c = "at_check a" and ?j = "at_key a"
  from Cons.prems(3) have o: "now \<le> ?c" "?c \<le> at_allow a" "at_allow a \<le> at_lock a"
    "clock_ordered (at_lock a) as" by auto
  obtain lo' where L: "snd (Locked ?c ?j (Some lo)) = Some lo'" "lo_failures lo' = None" "lo_window lo' = w"
    and free: "\<not> fst (fst (Locked ?c ?j (Some lo))) \<Longrightarrow> tab_get (lo_lockedUntil lo') ?j = None"
    and later: "\<And>now k. now \<le> ?c \<Longrightarrow> free_from now k lo \<le> free_from ?c k lo'"
    using Locked_state [of ?c ?j lo] Cons.prems(1,2) by metis
  have ft: "free_from now k lo \<le> free_from t k lo'" if "?c \<le> t" for t
    using later [OF o(1), of k] free_from_mono [OF that, of k lo'] by linarith
  show ?case
  proof (cases "fst (fst (Locked ?c ?j (Some lo))) \<or> at_ok a")
    case True
    have "free_from now k lo \<le> free_from (at_lock a) k lo'" using ft o by simp
    with True Cons.IH [OF L(2,3) o(4)] show ?thesis by (force simp: guarded_Cons L)
  next
    case False
    let ?lo2 = "lock (at_lock a) ?j w lo'"
    have R: "RecordFailure allow (at_allow a) (at_lock a) ?j (Some lo') = Some ?lo2"
      by (simp add: RecordFailure_def L)
    have IH: "sorted_wrt (\<lambda>s t. s + w \<le> t) (failures_of k (guarded allow (Some ?lo2) as)) \<and>
      (\<forall>t\<in>set (failures_of k (guarded allow (Some ?lo2) as)). free_from (at_lock a) k ?lo2 \<le> t)"
      by (rule Cons.IH [OF _ _ o(4)]) (simp_all add: lock_def L)
    have step: "failures_of k (guarded allow (Some lo) (a # as)) =
        (if ?j = k then [at_allow a] else []) @ failures_of k (guarded allow (Some ?lo2) as)"
      using False by (simp add: guarded_Cons L R failures_of_def)
    show ?thesis
    proof (cases "?j = k")
      case True
      have "free_from (at_allow a) k lo' = at_allow a" using free False True by (simp add: free_from_def)
      then have "free_from now k lo \<le> at_allow a" using ft o by force
      moreover have "free_from (at_lock a) k ?lo2 = max (at_lock a) (at_lock a + w)"
        using True by (simp add: lock_def free_from_def table_simps)
      then have "at_allow a + w \<le> free_from (at_lock a) k ?lo2"
        "at_allow a \<le> free_from (at_lock a) k ?lo2" using o by auto
      moreover have "\<forall>t\<in>set (failures_of k (guarded allow (Some ?lo2) as)). free_from (at_lock a) k ?lo2 \<le> t"
        using IH by blast
      ultimately have "\<forall>t\<in>set (failures_of k (guarded allow (Some ?lo2) as)).
          at_allow a + w \<le> t \<and> free_from now k lo \<le> t" "free_from now k lo \<le> at_allow a"
        by fastforce+
      then show ?thesis using IH True by (simp add: step)
    next
      case False
      then have "free_from (at_lock a) k ?lo2 = free_from (at_lock a) k lo'"
        by (simp add: lock_def free_from_def table_simps)
      then have "free_from now k lo \<le> free_from (at_lock a) k ?lo2" using ft o by simp
      with IH False show ?thesis by (force simp: step)
    qed
  qed
qed

lemma separated_in_window:
  assumes "sorted_wrt (\<lambda>s t. s + w \<le> t) ts"
  shows "length (in_window w x ts) \<le> 1"
proof -
  have "sorted_wrt (\<lambda>s t. s + w \<le> t) (in_window w x ts)"
    using assms by (simp add: in_window_def sorted_wrt_filter)
  moreover have "\<forall>t\<in>set (in_window w x ts). x - w < t \<and> t \<le> x" by (auto simp: in_window_def)
  ultimately show ?thesis by (cases "in_window w x ts" rule: list.exhaust; cases "tl (in_window w x ts)") auto
qed

text \<open>
  C22. The account lockout bounds guessing: over any sequence of attempts, on any keys and with
  clock readings that do not go back, at most \<open>2 * threshold - 1\<close> failures of one key get past the
  lockout in any window.
\<close>

theorem lockout_bounds_failures:
  assumes "NewLockout threshold window = Some lo" "clock_ordered now as"
  shows "int (length (in_window window x (failures_of k (guarded Allow (Some lo) as)))) \<le> 2 * threshold - 1"
proof (cases "1 < threshold")
  case True
  have w: "0 < window" using assms(1) by (auto simp: NewLockout_def split: if_splits)
  have lo: "lo_failures lo = Some (New (threshold - 1) window)"
    using assms(1) True by (auto simp: NewLockout_def newLockout_def split: if_splits)
  have "usable now (New (threshold - 1) window)" using True w by (intro usable_New) auto
  from sliding.failures_bounded [OF lo this assms(2), of x k] show ?thesis by (simp add: New_def)
next
  case False
  then have t: "threshold = 1" and lo: "lo_failures lo = None" "lo_window lo = window"
    using assms(1) by (auto simp: NewLockout_def newLockout_def split: if_splits)
  from nil_counter_separates [OF lo assms(2), of k Allow]
  have "length (in_window window x (failures_of k (guarded Allow (Some lo) as))) \<le> 1"
    by (intro separated_in_window) simp
  with t show ?thesis by simp
qed

definition four_attempts :: "attempt list" where
  "four_attempts = map (\<lambda>t. \<lparr>at_key = ''t|u'', at_check = t, at_allow = t, at_lock = t, at_ok = False\<rparr>) [0, 1, 10, 10]"

text \<open>The bound is reached: a threshold of two lets three failures through within a window.\<close>

theorem lockout_bounds_failures_witness:
  "length (in_window 10 10 (failures_of ''t|u'' (guarded Allow (Some (the (NewLockout 2 10))) four_attempts))) \<le> 3 \<and>
   in_window 10 10 (failures_of ''t|u'' (guarded Allow (Some (the (NewLockout 2 10))) four_attempts)) = [1, 10, 10]"
proof
  have N: "NewLockout 2 10 = Some (the (NewLockout 2 10))" by (simp add: NewLockout_def)
  have "clock_ordered 0 four_attempts" by (simp add: four_attempts_def)
  from lockout_bounds_failures [OF N this, of 10 "''t|u''"]
  show "length (in_window 10 10 (failures_of ''t|u'' (guarded Allow (Some (the (NewLockout 2 10))) four_attempts))) \<le> 3"
    by simp
  show "in_window 10 10 (failures_of ''t|u'' (guarded Allow (Some (the (NewLockout 2 10))) four_attempts)) = [1, 10, 10]"
    by code_simp
qed

lemma backoffRemaining_bounds:
  "0 \<le> backoffRemaining c now"
  "0 < c_Attempts c \<Longrightarrow> c_LastAttemptAt c = Some t \<Longrightarrow> t \<le> now \<Longrightarrow>
     backoffRemaining c now = max 0 (2 ^ nat (min maxBackoffShift (c_Attempts c)) * Second - (now - t))"
  by (auto simp: backoffRemaining_def Let_def min_def split: option.splits)

lemma backoffRemaining_later:
  assumes "now \<le> t"
  shows "backoffRemaining c t = max 0 (backoffRemaining c now - (t - now))"
  using assms by (auto simp: backoffRemaining_def Let_def split: option.splits)

lemma retryAfterSeconds_ceiling:
  assumes "0 < d"
  shows "d \<le> retryAfterSeconds d * Second \<and> (retryAfterSeconds d - 1) * Second < d \<and> 1 \<le> retryAfterSeconds d"
proof -
  have q: "d sdiv Second = d div Second" "d smod Second = d mod Second"
    using assms by (simp_all add: signed_divide_int_def signed_modulo_int_def Second_def)
  have e: "d = d div Second * Second + d mod Second" by simp
  have r: "0 \<le> d mod Second" "d mod Second < Second" "0 \<le> d div Second"
    using assms by (simp_all add: pos_imp_zdiv_nonneg_iff)
  show ?thesis
  proof (cases "d mod Second = 0")
    case True
    with e have e': "d = d div Second * Second" by simp
    then have "0 < d div Second" using assms by (metis Second_pos zero_less_mult_pos2)
    then show ?thesis using True e' by (simp add: retryAfterSeconds_def q left_diff_distrib)
  next
    case False
    then have "retryAfterSeconds d = d div Second + 1" by (simp add: retryAfterSeconds_def q)
    moreover have "0 < d mod Second" using r(1) False by linarith
    moreover have "(d div Second + 1) * Second = d - d mod Second + Second"
      by (simp add: distrib_right minus_mod_eq_div_mult)
    moreover have "d div Second * Second = d - d mod Second" by (simp only: minus_mod_eq_div_mult)
    ultimately show ?thesis using r(2,3) by (simp add: less_imp_le)
  qed
qed

text \<open>
  The \<open>Retry-After\<close> of a premature attempt is exact in seconds: it is at least one and at most
  \<open>2\<^sup>3\<^sup>0\<close>, an attempt made after that many seconds is not refused by the backoff, and one made a
  second earlier still is.  No delay exceeds the nanoseconds a 64-bit duration can hold.
\<close>

theorem backoff_retry_after_exact:
  assumes d: "backoffRemaining c now = d" "0 < d" and past: "c_LastAttemptAt c = Some t" "t \<le> now"
  shows "1 \<le> retryAfterSeconds d \<and> retryAfterSeconds d \<le> 2 ^ 30 \<and> d < 2 ^ 63 \<and>
    backoffRemaining c (now + retryAfterSeconds d * Second) = 0 \<and>
    0 < backoffRemaining c (now + (retryAfterSeconds d - 1) * Second)"
proof -
  note ceil = retryAfterSeconds_ceiling [OF d(2)]
  have "0 < c_Attempts c" using d by (auto simp: backoffRemaining_def split: if_splits)
  note eq = backoffRemaining_bounds(2) [OF this past]
  have "nat (min maxBackoffShift (c_Attempts c)) \<le> 30" by (simp add: maxBackoffShift_def)
  then have p: "(2::int) ^ nat (min maxBackoffShift (c_Attempts c)) \<le> 2 ^ 30" by (rule power_increasing) simp
  have "d \<le> 2 ^ nat (min maxBackoffShift (c_Attempts c)) * Second" using eq d past(2) by simp
  also have "\<dots> \<le> 2 ^ 30 * Second" using p by (intro mult_right_mono) (auto simp: Second_def)
  finally have up: "d \<le> 2 ^ 30 * Second" .
  then have "(retryAfterSeconds d - 1) * Second < 2 ^ 30 * Second" using ceil by linarith
  then have "retryAfterSeconds d - 1 < 2 ^ 30" using Second_pos by (metis mult_less_cancel_right_pos)
  moreover have "d < 2 ^ 63" using up by (simp add: Second_def)
  moreover have "0 \<le> (retryAfterSeconds d - 1) * Second" "0 \<le> retryAfterSeconds d * Second"
    using ceil by (simp_all add: Second_def)
  moreover have "backoffRemaining c (now + x) = max 0 (d - x)" if "0 \<le> x" for x
    using backoffRemaining_later [of now "now + x" c] d(1) that by simp
  ultimately show ?thesis using ceil by simp
qed

definition tried_once :: Challenge where
  "tried_once = \<lparr>c_ID = ''c'', c_TenantID = ''t'', c_UserID = ''u'', c_Method = ''totp'',
     c_AuthenticatorID = ''a'', c_Prompt = [], c_Status = ChallengeStatusPending, c_Attempts = 1,
     c_CreatedAt = 1, c_ExpiresAt = 1 + ChallengeTTL, c_CompletedAt = None, c_LastAttemptAt = Some 100,
     c_OptionsJSON = [], c_SessionData = []\<rparr>"

theorem backoff_retry_after_exact_witness:
  "backoffRemaining tried_once 100 = 2000000000 \<and> retryAfterSeconds 2000000000 = 2 \<and>
   backoffRemaining tried_once (100 + 2 * Second) = 0 \<and> 0 < backoffRemaining tried_once (100 + 1 * Second)"
proof -
  have b: "backoffRemaining tried_once 100 = 2000000000" by code_simp
  moreover have r: "retryAfterSeconds 2000000000 = 2" by code_simp
  moreover have "c_LastAttemptAt tried_once = Some 100" by (simp add: tried_once_def)
  ultimately show ?thesis using backoff_retry_after_exact [OF b, of 100] by simp
qed

end
