(* ===== verification/XCodec.thy ===== *)
theory XCodec
  imports Main "HOL-Library.List_Lexorder" "HOL-Library.Char_ord"
begin

text \<open>
  \<open>base64.RawURLEncoding\<close> of Go's standard library, as the services use it: encoding of a byte
  string and decoding, with the round trip.  Decoding skips line breaks and, like the library in
  its default mode, ignores the unused bits of the last character.  Also \<open>hex.EncodeToString\<close>.
\<close>

definition b64_alphabet :: string where
  "b64_alphabet = ''ABCDEFGHIJKLMNOPQRSTUVWXYZabcdefghijklmnopqrstuvwxyz0123456789-_''"

definition b64_char :: "nat \<Rightarrow> char" where
  "b64_char n = b64_alphabet ! n"

definition b64_val :: "char \<Rightarrow> nat option" where
  "b64_val c = map_of (zip b64_alphabet [0..<64]) c"

definition byte_val :: "char \<Rightarrow> nat" where "byte_val c = of_char c"
definition byte_of :: "nat \<Rightarrow> char" where "byte_of n = char_of n"

fun b64_encode :: "string \<Rightarrow> string" where
  "b64_encode [] = []"
| "b64_encode [a] =
     (let n = byte_val a in [b64_char (n div 4), b64_char (n mod 4 * 16)])"
| "b64_encode [a, b] =
     (let n = byte_val a * 256 + byte_val b
      in [b64_char (n div 1024), b64_char (n div 16 mod 64), b64_char (n mod 16 * 4)])"
| "b64_encode (a # b # c # s) =
     (let n = byte_val a * 65536 + byte_val b * 256 + byte_val c
      in b64_char (n div 262144) # b64_char (n div 4096 mod 64) # b64_char (n div 64 mod 64) #
         b64_char (n mod 64) # b64_encode s)"

fun b64_groups :: "nat list \<Rightarrow> string option" where
  "b64_groups [] = Some []"
| "b64_groups [p] = None"
| "b64_groups [p, q] = Some [byte_of (p * 4 + q div 16)]"
| "b64_groups [p, q, r] =
     (let n = p * 1024 + q * 16 + r div 4 in Some [byte_of (n div 256), byte_of (n mod 256)])"
| "b64_groups (p # q # r # t # ns) =
     (let n = p * 262144 + q * 4096 + r * 64 + t
      in case b64_groups ns of None \<Rightarrow> None
         | Some s \<Rightarrow> Some (byte_of (n div 65536) # byte_of (n div 256 mod 256) # byte_of (n mod 256) # s))"

fun b64_vals :: "string \<Rightarrow> nat list option" where
  "b64_vals [] = Some []"
| "b64_vals (c # s) =
     (case b64_val c of None \<Rightarrow> None
      | Some n \<Rightarrow> (case b64_vals s of None \<Rightarrow> None | Some ns \<Rightarrow> Some (n # ns)))"

definition b64_decode :: "string \<Rightarrow> string option" where
  "b64_decode s =
     (case b64_vals (filter (\<lambda>c. c \<noteq> CHR 0x0A \<and> c \<noteq> CHR 0x0D) s) of
        None \<Rightarrow> None | Some ns \<Rightarrow> b64_groups ns)"

lemma b64_val_char [simp]: "n < 64 \<Longrightarrow> b64_val (b64_char n) = Some n"
proof -
  assume n: "n < 64"
  have len: "length b64_alphabet = 64" by (simp add: b64_alphabet_def)
  have "distinct b64_alphabet" by (simp add: b64_alphabet_def)
  then have "distinct (map fst (zip b64_alphabet [0..<64]))" using len by simp
  moreover have "(b64_char n, n) \<in> set (zip b64_alphabet [0..<64])"
    using n len by (auto simp: b64_char_def set_zip intro!: exI [of _ n])
  ultimately show ?thesis by (simp add: b64_val_def)
qed

lemma b64_char_printable [simp]: "n < 64 \<Longrightarrow> b64_char n \<noteq> CHR 0x0A \<and> b64_char n \<noteq> CHR 0x0D"
proof -
  assume "n < 64"
  moreover have "length b64_alphabet = 64" by (simp add: b64_alphabet_def)
  ultimately have "b64_char n \<in> set b64_alphabet" by (simp add: b64_char_def)
  then show ?thesis by (auto simp: b64_alphabet_def)
qed

lemma byte_val_less [simp]: "byte_val c < 256"
  by (simp add: byte_val_def)

lemma byte_of_val [simp]: "byte_of (byte_val c) = c"
  by (simp add: byte_of_def byte_val_def)

text \<open>The sextets of an encoding, without the detour over characters.\<close>

fun b64_sextets :: "string \<Rightarrow> nat list" where
  "b64_sextets [] = []"
| "b64_sextets [a] = (let n = byte_val a in [n div 4, n mod 4 * 16])"
| "b64_sextets [a, b] =
     (let n = byte_val a * 256 + byte_val b in [n div 1024, n div 16 mod 64, n mod 16 * 4])"
| "b64_sextets (a # b # c # s) =
     (let n = byte_val a * 65536 + byte_val b * 256 + byte_val c
      in n div 262144 # n div 4096 mod 64 # n div 64 mod 64 # n mod 64 # b64_sextets s)"

lemma b64_encode_sextets: "b64_encode s = map b64_char (b64_sextets s)"
  by (induction s rule: b64_encode.induct) (simp_all add: Let_def)

lemma b64_sextets_bound: "\<forall>n\<in>set (b64_sextets s). n < 64"
proof (induction s rule: b64_sextets.induct)
  case (2 a)
  then show ?case using byte_val_less [of a] by (simp add: Let_def less_mult_imp_div_less)
next
  case (3 a b)
  have "byte_val a * 256 + byte_val b < 64 * 1024"
    using byte_val_less [of a] byte_val_less [of b] by linarith
  then have "(byte_val a * 256 + byte_val b) div 1024 < 64" by (rule less_mult_imp_div_less)
  then show ?case by (simp add: Let_def less_mult_imp_div_less)
next
  case (4 a b c s)
  have "byte_val a * 65536 + byte_val b * 256 + byte_val c < 64 * 262144"
    using byte_val_less [of a] byte_val_less [of b] byte_val_less [of c] by linarith
  then have "(byte_val a * 65536 + byte_val b * 256 + byte_val c) div 262144 < 64"
    by (rule less_mult_imp_div_less)
  with 4 show ?case by (simp add: Let_def)
qed simp

lemma b64_vals_chars: "\<forall>n\<in>set ns. n < 64 \<Longrightarrow> b64_vals (map b64_char ns) = Some ns"
  by (induction ns) auto

lemma byte_sum: "(m * 256 + byte_val c) div 256 = m" "(m * 256 + byte_val c) mod 256 = byte_val c"
  by simp_all

lemma sextets_sum:
  "m * 64 + r = n \<Longrightarrow> m' * 64 + r' = m \<Longrightarrow> m'' * 64 + r'' = m' \<Longrightarrow>
   m'' * 262144 + r'' * 4096 + r' * 64 + r = (n::nat)"
  by simp

lemma b64_groups_sextets: "b64_groups (b64_sextets s) = Some s"
proof (induction s rule: b64_sextets.induct)
  case (2 a)
  have "byte_val a div 4 * 4 + byte_val a mod 4 * 16 div 16 = byte_val a" by simp
  then show ?case by (simp add: Let_def del: div_mult_self1_is_m)
next
  case (3 a b)
  define n where "n = byte_val a * 256 + byte_val b"
  have "n div 1024 * 1024 + n div 16 mod 64 * 16 + n mod 16 * 4 div 4 = n"
  proof -
    have "n div 1024 = n div 16 div 64" by (simp add: div_mult2_eq [symmetric])
    moreover have "n div 16 * 16 + n mod 16 = n" "n div 16 div 64 * 64 + n div 16 mod 64 = n div 16"
      by (simp_all only: div_mult_mod_eq)
    moreover have "n mod 16 * 4 div 4 = n mod 16" by simp
    ultimately show ?thesis by linarith
  qed
  moreover have "n div 256 = byte_val a" "n mod 256 = byte_val b" by (simp_all add: n_def)
  ultimately show ?case by (simp add: Let_def n_def [symmetric])
next
  case (4 a b c s)
  define n where "n = byte_val a * 65536 + byte_val b * 256 + byte_val c"
  have "n div 262144 = n div 64 div 64 div 64" "n div 4096 = n div 64 div 64"
    by (simp_all add: div_mult2_eq [symmetric])
  then have "n div 262144 * 262144 + n div 4096 mod 64 * 4096 + n div 64 mod 64 * 64 + n mod 64 = n"
    using sextets_sum [OF div_mult_mod_eq [of n 64] div_mult_mod_eq [of "n div 64" 64]
        div_mult_mod_eq [of "n div 64 div 64" 64]] by simp
  moreover have n': "n = (byte_val a * 256 + byte_val b) * 256 + byte_val c" by (simp add: n_def)
  have "n div 256 = byte_val a * 256 + byte_val b" "n mod 256 = byte_val c" unfolding n' by (rule byte_sum)+
  moreover from this have "n div 65536 = byte_val a" "n div 256 mod 256 = byte_val b"
    using div_mult2_eq [of n 256 256] by simp_all
  moreover have "b64_sextets (a # b # c # s) = n div 262144 # n div 4096 mod 64 # n div 64 mod 64 # n mod 64 # b64_sextets s"
    by (simp only: b64_sextets.simps Let_def n_def)
  moreover have "byte_of (byte_val x) = x" for x by (simp add: byte_of_def byte_val_def)
  ultimately show ?case using 4 by (simp only: b64_groups.simps Let_def option.case)
qed simp

lemma b64_roundtrip: "b64_decode (b64_encode s) = Some s"
proof -
  have "filter (\<lambda>c. c \<noteq> CHR 0x0A \<and> c \<noteq> CHR 0x0D) (b64_encode s) = b64_encode s"
    using b64_sextets_bound [of s] by (auto simp: b64_encode_sextets filter_id_conv)
  then show ?thesis
    using b64_sextets_bound [of s]
    by (simp add: b64_decode_def b64_encode_sextets b64_vals_chars b64_groups_sextets)
qed

lemma b64_encode_nonempty: "s \<noteq> [] \<Longrightarrow> b64_encode s \<noteq> []"
  by (cases s rule: b64_encode.cases) (simp_all add: Let_def)

section \<open>Hexadecimal\<close>

definition hex_digit :: "nat \<Rightarrow> char" where
  "hex_digit n = ''0123456789abcdef'' ! n"

text \<open>\<open>hex.EncodeToString\<close>.\<close>

definition hex_encode :: "string \<Rightarrow> string" where
  "hex_encode s = concat (map (\<lambda>c. [hex_digit (of_char c div 16), hex_digit (of_char c mod 16)]) s)"

end
