(* ===== verification/AuthrAdapters.thy ===== *)
theory AuthrAdapters
  imports AuthrModel XCodec "HOL-Library.Word"
begin

text \<open>
  The vendor boundary of authenticator-service: the SMS verifier of pkg/smsx, the adapter registry
  with its five adapters (adapters.go, webauthn.go) and the metadata encoding of passkeys.  Twilio's
  API and the go-webauthn library are parameters: records of functions whose results the code
  branches on.
\<close>

section \<open>Clock, identifiers and storage faults\<close>

text \<open>
  What one request draws from its surroundings: the successive readings of the clock, a fresh uuid,
  and which storage operations fail for reasons of their own.
\<close>

datatype storage_op = OpPutAuthenticator | OpGetAuthenticator | OpListAuthenticators
  | OpListActiveAuthenticators | OpDisableAuthenticator | OpPutChallenge | OpGetChallenge
  | OpUpdateChallenge

record authr_env =
  ev_now :: "nat \<Rightarrow> time"
  ev_uuid :: string
  ev_fails :: "storage_op \<Rightarrow> bool"

section \<open>The SMS verifier\<close>

datatype sms_err = ErrInvalidNumber | ErrProvider

record sms_verifier =
  sms_Start :: "string \<Rightarrow> sms_err option"
  sms_Check :: "string \<Rightarrow> string \<Rightarrow> sms_err + bool"
  sms_Lookup :: "string \<Rightarrow> sms_err + bool"

definition StubCode :: string where "StubCode = ''123456''"

definition Stub :: sms_verifier where
  "Stub = \<lparr>sms_Start = \<lambda>phone. None, sms_Check = \<lambda>phone code. Inr (code = StubCode),
           sms_Lookup = \<lambda>phone. Inr True\<rparr>"

text \<open>
  \<open>post path to code\<close> is the answer of Twilio's Verify API, the decoded status and the HTTP code,
  or \<open>None\<close> when the transport failed; \<open>lookup\<close> is the answer of the Lookup API, the HTTP code and
  the decoded flag (\<open>None\<close> when the body does not decode).
\<close>

definition TwilioStart :: "(string \<Rightarrow> string \<Rightarrow> string \<Rightarrow> (string \<times> int) option) \<Rightarrow> string \<Rightarrow> sms_err option" where
  "TwilioStart post phone =
     (case post ''/Verifications'' phone ''sms'' of
        None \<Rightarrow> Some ErrProvider
      | Some (_, httpCode) \<Rightarrow>
          if httpCode = 400 then Some ErrInvalidNumber
          else if httpCode < 200 \<or> httpCode \<ge> 300 then Some ErrProvider
          else None)"

definition TwilioLookup :: "(string \<Rightarrow> (int \<times> bool option) option) \<Rightarrow> string \<Rightarrow> sms_err + bool" where
  "TwilioLookup lookup phone =
     (case lookup phone of
        None \<Rightarrow> Inl ErrProvider
      | Some (httpCode, valid) \<Rightarrow>
          if httpCode = 404 then Inr False
          else if httpCode < 200 \<or> httpCode \<ge> 300 then Inl ErrProvider
          else (case valid of None \<Rightarrow> Inl ErrProvider | Some v \<Rightarrow> Inr v))"

definition TwilioCheck :: "(string \<Rightarrow> string \<Rightarrow> string \<Rightarrow> (string \<times> int) option) \<Rightarrow> string \<Rightarrow> string \<Rightarrow>
    sms_err + bool" where
  "TwilioCheck post phone code =
     (case post ''/VerificationCheck'' phone code of
        None \<Rightarrow> Inl ErrProvider
      | Some (st, httpCode) \<Rightarrow>
          if httpCode = 404 then Inr False
          else if httpCode < 200 \<or> httpCode \<ge> 300 then Inl ErrProvider
          else Inr (st = ''approved''))"

definition TwilioVerify :: "(string \<Rightarrow> string \<Rightarrow> string \<Rightarrow> (string \<times> int) option) \<Rightarrow>
    (string \<Rightarrow> (int \<times> bool option) option) \<Rightarrow> sms_verifier" where
  "TwilioVerify post lookup =
     \<lparr>sms_Start = TwilioStart post, sms_Check = TwilioCheck post, sms_Lookup = TwilioLookup lookup\<rparr>"

section \<open>Adapters\<close>

record DispatchResult =
  dr_Prompt :: string
  dr_Options :: string
  dr_SessionData :: string

record VerifyResult =
  ver_OK :: bool
  ver_AMR :: "string list"

text \<open>The errors \<open>Create\<close> tells apart, and any other one.\<close>

datatype adapter_err = NoCredential | InvalidNumber | AdapterFault

record adapter =
  ad_Dispatch :: "authr_env \<Rightarrow> authr_store \<Rightarrow> Challenge \<Rightarrow> adapter_err + DispatchResult"
  ad_Verify :: "authr_env \<Rightarrow> authr_store \<Rightarrow> Challenge \<Rightarrow> (string \<times> json) list \<Rightarrow>
    (adapter_err + VerifyResult) \<times> authr_store"

definition getString :: "(string \<times> json) list \<Rightarrow> string \<Rightarrow> string \<times> bool" where
  "getString m key =
     (case obj_get m key of
        None \<Rightarrow> ([], False)
      | Some v \<Rightarrow> (case v of JStr s \<Rightarrow> (s, True) | _ \<Rightarrow> ([], False)))"

definition getBool :: "(string \<times> json) list \<Rightarrow> string \<Rightarrow> bool \<times> bool" where
  "getBool m key =
     (case obj_get m key of
        None \<Rightarrow> (False, False)
      | Some v \<Rightarrow> (case v of JBool b \<Rightarrow> (b, True) | _ \<Rightarrow> (False, False)))"

definition prompt_only :: "string \<Rightarrow> DispatchResult" where
  "prompt_only p = \<lparr>dr_Prompt = p, dr_Options = [], dr_SessionData = []\<rparr>"

definition totpAdapter :: adapter where
  "totpAdapter =
     \<lparr>ad_Dispatch = \<lambda>e s chal. Inr (prompt_only ''Enter 6-digit code from your authenticator app''),
      ad_Verify = \<lambda>e s chal response.
        (let (code, _) = getString response ''code''
         in (Inr \<lparr>ver_OK = (code = ''000000''), ver_AMR = []\<rparr>, s))\<rparr>"

definition pushAdapter :: adapter where
  "pushAdapter =
     \<lparr>ad_Dispatch = \<lambda>e s chal. Inr (prompt_only ''Push notification sent (stub)''),
      ad_Verify = \<lambda>e s chal response.
        (let (approved, _) = getBool response ''approved''
         in (Inr \<lparr>ver_OK = approved, ver_AMR = []\<rparr>, s))\<rparr>"

definition magicLinkAdapter :: adapter where
  "magicLinkAdapter =
     \<lparr>ad_Dispatch = \<lambda>e s chal. Inr (prompt_only ''Magic link sent to user@example.com (stub)''),
      ad_Verify = \<lambda>e s chal response.
        (let (tok, _) = getString response ''token''
         in (Inr \<lparr>ver_OK = (tok = ''stub_magic_token''), ver_AMR = []\<rparr>, s))\<rparr>"

text \<open>Values of an enrolment's metadata.  A later member of a decoded object wins.\<close>

definition meta_get :: "(string \<times> any) list \<Rightarrow> string \<Rightarrow> any option" where
  "meta_get m k = map_of (rev m) k"

definition meta_set :: "string \<Rightarrow> any \<Rightarrow> (string \<times> any) list \<Rightarrow> (string \<times> any) list" where
  "meta_set k v m = filter (\<lambda>(k', _). k' \<noteq> k) m @ [(k, v)]"

definition meta_str :: "(string \<times> any) list \<Rightarrow> string \<Rightarrow> string" where
  "meta_str m k = (case meta_get m k of Some (AnyJSON (JStr s)) \<Rightarrow> s | _ \<Rightarrow> [])"

definition meta_bool :: "(string \<times> any) list \<Rightarrow> string \<Rightarrow> bool" where
  "meta_bool m k = (case meta_get m k of Some (AnyJSON (JBool b)) \<Rightarrow> b | _ \<Rightarrow> False)"

definition phone :: "authr_env \<Rightarrow> authr_store \<Rightarrow> Challenge \<Rightarrow> string option" where
  "phone e s chal =
     (case store_call (ev_fails e OpGetAuthenticator)
             (GetAuthenticator (c_TenantID chal) (c_AuthenticatorID chal) s) of
        ErrNotFound \<Rightarrow> None
      | ErrOther \<Rightarrow> None
      | Got authr \<Rightarrow>
          let p = meta_str (a_Metadata authr) ''phone_number''
          in if p = [] then None else Some p)"

definition smsAdapter :: "sms_verifier \<Rightarrow> adapter" where
  "smsAdapter verifier =
     \<lparr>ad_Dispatch = \<lambda>e s chal.
        (case phone e s chal of
           None \<Rightarrow> Inl AdapterFault
         | Some p \<Rightarrow>
             (case sms_Start verifier p of
                Some err \<Rightarrow> Inl (if err = ErrInvalidNumber then InvalidNumber else AdapterFault)
              | None \<Rightarrow> Inr (prompt_only ''We texted a verification code to your phone''))),
      ad_Verify = \<lambda>e s chal response.
        (case phone e s chal of
           None \<Rightarrow> (Inl AdapterFault, s)
         | Some p \<Rightarrow>
             let (code, _) = getString response ''code''
             in (case sms_Check verifier p code of
                   Inl err \<Rightarrow> (Inl (if err = ErrInvalidNumber then InvalidNumber else AdapterFault), s)
                 | Inr ok \<Rightarrow> (Inr \<lparr>ver_OK = ok, ver_AMR = []\<rparr>, s)))\<rparr>"

section \<open>Passkeys\<close>

text \<open>The fields of a go-webauthn \<open>Credential\<close> the service reads or writes; bytes are strings.\<close>

record Credential =
  cr_ID :: string
  cr_PublicKey :: string
  cr_AttestationType :: string
  cr_Transport :: "string list"
  cr_UserVerified :: bool
  cr_BackupEligible :: bool
  cr_BackupState :: bool
  cr_AAGUID :: string
  cr_SignCount :: "32 word"
  cr_CloneWarning :: bool
  cr_Attachment :: string

record webauthnUser =
  wu_id :: string
  wu_name :: string
  wu_displayName :: string
  wu_creds :: "Credential list"

text \<open>
  The relying party, \<open>*webauthn.WebAuthn\<close>.  Ceremony sessions and parsed responses are opaque: a
  session is a JSON value, and \<open>rp_Marshal\<close>/\<open>rp_Unmarshal\<close> are \<open>encoding/json\<close> on the library's types.
\<close>

record relying_party =
  rp_BeginLogin :: "webauthnUser \<Rightarrow> (json \<times> json) option"
  rp_ParseRequest :: "json \<Rightarrow> json option"
  rp_ValidateLogin :: "webauthnUser \<Rightarrow> json \<Rightarrow> json \<Rightarrow> Credential option"
  rp_BeginRegistration :: "webauthnUser \<Rightarrow> Credential list \<Rightarrow> (json \<times> json) option"
  rp_ParseCreation :: "json \<Rightarrow> json option"
  rp_CreateCredential :: "webauthnUser \<Rightarrow> json \<Rightarrow> json \<Rightarrow> Credential option"
  rp_Marshal :: "json \<Rightarrow> string option"
  rp_Unmarshal :: "string \<Rightarrow> json option"

text \<open>
  \<open>uint32\<close> of a \<open>float64\<close>: the fraction is dropped and, as on amd64, the integer is reduced modulo
  \<open>2\<^sup>3\<^sup>2\<close> (the language leaves out-of-range conversions to the implementation).
\<close>

definition uint32_of_float :: "rat \<Rightarrow> 32 word" where
  "uint32_of_float r = word_of_int (if 0 \<le> r then \<lfloor>r\<rfloor> else \<lceil>r\<rceil>)"

definition asUint32 :: "any option \<Rightarrow> 32 word" where
  "asUint32 v =
     (case v of
        Some (AnyFloat r) \<Rightarrow> uint32_of_float r
      | Some (AnyJSON (JNum r _)) \<Rightarrow> uint32_of_float r
      | _ \<Rightarrow> 0)"

definition float_of_uint32 :: "32 word \<Rightarrow> rat" where
  "float_of_uint32 w = of_nat (unat w)"

definition credentialToMetadata :: "Credential \<Rightarrow> (string \<times> any) list" where
  "credentialToMetadata c =
     [(''credential_id'', AnyJSON (JStr (b64_encode (cr_ID c)))),
      (''public_key'', AnyJSON (JStr (b64_encode (cr_PublicKey c)))),
      (''attestation_type'', AnyJSON (JStr (cr_AttestationType c))),
      (''transports'', AnyStrings (cr_Transport c)),
      (''aaguid'', AnyJSON (JStr (b64_encode (cr_AAGUID c)))),
      (''sign_count'', AnyFloat (float_of_uint32 (cr_SignCount c))),
      (''backup_eligible'', AnyJSON (JBool (cr_BackupEligible c))),
      (''backup_state'', AnyJSON (JBool (cr_BackupState c))),
      (''attachment'', AnyJSON (JStr (cr_Attachment c))),
      (''enrolled_by'', AnyJSON (JStr ''authorize-fido2-register''))]"

definition decodeB64 :: "(string \<times> any) list \<Rightarrow> string \<Rightarrow> string option" where
  "decodeB64 m key =
     (let s = meta_str m key in if s = [] then None else b64_decode s)"

text \<open>A \<open>[]any\<close> keeps its strings; anything else, a \<open>[]string\<close> too, gives no transports.\<close>

definition json_strings :: "any option \<Rightarrow> string list" where
  "json_strings v =
     (case v of
        Some (AnyJSON (JArr ts)) \<Rightarrow>
          concat (map (\<lambda>t. case t of JStr s \<Rightarrow> [s] | _ \<Rightarrow> []) ts)
      | _ \<Rightarrow> [])"

definition credentialFromMetadata :: "(string \<times> any) list \<Rightarrow> Credential option" where
  "credentialFromMetadata m =
     (case decodeB64 m ''credential_id'' of
        None \<Rightarrow> None
      | Some cid \<Rightarrow>
          (case decodeB64 m ''public_key'' of
             None \<Rightarrow> None
           | Some pub \<Rightarrow>
               let aaguid = (case decodeB64 m ''aaguid'' of None \<Rightarrow> [] | Some b \<Rightarrow> b)
               in Some \<lparr>cr_ID = cid, cr_PublicKey = pub,
                        cr_AttestationType = meta_str m ''attestation_type'',
                        cr_Transport = json_strings (meta_get m ''transports''),
                        cr_UserVerified = False,
                        cr_BackupEligible = meta_bool m ''backup_eligible'',
                        cr_BackupState = meta_bool m ''backup_state'',
                        cr_AAGUID = aaguid,
                        cr_SignCount = asUint32 (meta_get m ''sign_count''),
                        cr_CloneWarning = False,
                        cr_Attachment = meta_str m ''attachment''\<rparr>))"

definition amrFor :: "bool \<Rightarrow> string list" where
  "amrFor userVerified = (if userVerified then [''user'', ''pin''] else [''user'', ''swk''])"

definition loadWebAuthnUser :: "authr_env \<Rightarrow> authr_store \<Rightarrow> string \<Rightarrow> string \<Rightarrow> string \<Rightarrow> string \<Rightarrow>
    webauthnUser option" where
  "loadWebAuthnUser e s tenantID userID name displayName =
     (if ev_fails e OpListActiveAuthenticators then None
      else
        let auths = filter (\<lambda>authr. a_Method authr = MethodFIDO2) (ListActiveAuthenticators tenantID userID s);
            creds = List.map_filter (\<lambda>authr. credentialFromMetadata (a_Metadata authr)) auths;
            name' = (if name = [] then userID else name);
            displayName' = (if displayName = [] then name' else displayName)
        in Some \<lparr>wu_id = userID, wu_name = name', wu_displayName = displayName', wu_creds = creds\<rparr>)"

text \<open>
  Writing the sign counter back.  The metadata map is shared with the stored row; the write to it
  and the \<open>PutAuthenticator\<close> that follows leave the same row.  The result says whether it failed.
\<close>

definition updateCounter :: "authr_env \<Rightarrow> authr_store \<Rightarrow> string \<Rightarrow> string \<Rightarrow> Credential \<Rightarrow> bool \<times> authr_store" where
  "updateCounter e s tenantID userID cred =
     (if ev_fails e OpListActiveAuthenticators then (False, s)
      else
        let want = b64_encode (cr_ID cred)
        in case find (\<lambda>authr. a_Method authr = MethodFIDO2 \<and> meta_str (a_Metadata authr) ''credential_id'' = want)
                  (ListActiveAuthenticators tenantID userID s) of
             None \<Rightarrow> (True, s)
           | Some authr \<Rightarrow>
               let authr' = authr\<lparr>a_Metadata := meta_set ''sign_count'' (AnyFloat (float_of_uint32 (cr_SignCount cred)))
                                    (a_Metadata authr), a_UpdatedAt := ev_now e 3\<rparr>
               in if ev_fails e OpPutAuthenticator then (False, s)
                  else (True, PutAuthenticator authr' s))"

definition webauthnDispatch :: "relying_party \<Rightarrow> authr_env \<Rightarrow> authr_store \<Rightarrow> Challenge \<Rightarrow>
    adapter_err + DispatchResult" where
  "webauthnDispatch wa e s chal =
     (case loadWebAuthnUser e s (c_TenantID chal) (c_UserID chal) [] [] of
        None \<Rightarrow> Inl AdapterFault
      | Some user \<Rightarrow>
          if wu_creds user = [] then Inl NoCredential
          else (case rp_BeginLogin wa user of
                  None \<Rightarrow> Inl AdapterFault
                | Some (assertion, session) \<Rightarrow>
                    (case rp_Marshal wa assertion of
                       None \<Rightarrow> Inl AdapterFault
                     | Some options \<Rightarrow>
                         (case rp_Marshal wa session of
                            None \<Rightarrow> Inl AdapterFault
                          | Some sd \<Rightarrow> Inr \<lparr>dr_Prompt = ''Use your passkey to continue'',
                                           dr_Options = options, dr_SessionData = sd\<rparr>))))"

text \<open>Re-marshalling the decoded \<open>assertion\<close> member gives its JSON text back, so it cannot fail.\<close>

definition webauthnVerify :: "relying_party \<Rightarrow> authr_env \<Rightarrow> authr_store \<Rightarrow> Challenge \<Rightarrow> (string \<times> json) list \<Rightarrow>
    (adapter_err + VerifyResult) \<times> authr_store" where
  "webauthnVerify wa e s chal response =
     (let rejected = Inr \<lparr>ver_OK = False, ver_AMR = []\<rparr>
      in if c_SessionData chal = [] then (Inl AdapterFault, s)
         else case rp_Unmarshal wa (c_SessionData chal) of
           None \<Rightarrow> (Inl AdapterFault, s)
         | Some session \<Rightarrow>
             (case obj_get response ''assertion'' of
                None \<Rightarrow> (rejected, s)
              | Some raw \<Rightarrow>
                  (case rp_ParseRequest wa raw of
                     None \<Rightarrow> (rejected, s)
                   | Some parsed \<Rightarrow>
                       (case loadWebAuthnUser e s (c_TenantID chal) (c_UserID chal) [] [] of
                          None \<Rightarrow> (Inl AdapterFault, s)
                        | Some user \<Rightarrow>
                            (case rp_ValidateLogin wa user session parsed of
                               None \<Rightarrow> (rejected, s)
                             | Some cred \<Rightarrow>
                                 if cr_CloneWarning cred then (rejected, s)
                                 else (Inr \<lparr>ver_OK = True, ver_AMR = amrFor (cr_UserVerified cred)\<rparr>,
                                       snd (updateCounter e s (c_TenantID chal) (c_UserID chal) cred)))))))"

definition webauthnAdapter :: "relying_party \<Rightarrow> adapter" where
  "webauthnAdapter wa = \<lparr>ad_Dispatch = webauthnDispatch wa, ad_Verify = webauthnVerify wa\<rparr>"

section \<open>The registry\<close>

definition NewRegistry :: "sms_verifier \<Rightarrow> relying_party \<Rightarrow> (string \<times> adapter) list" where
  "NewRegistry verifier wa =
     [(MethodFIDO2, webauthnAdapter wa), (MethodTOTP, totpAdapter), (MethodPush, pushAdapter),
      (MethodSMS, smsAdapter verifier), (MethodMagicLink, magicLinkAdapter)]"

definition Lookup :: "(string \<times> adapter) list \<Rightarrow> string \<Rightarrow> adapter option" where
  "Lookup r method = map_of r method"

lemma Lookup_valid: "IsValidMethod m \<longleftrightarrow> Lookup (NewRegistry v wa) m \<noteq> None"
  by (auto simp: Lookup_def NewRegistry_def IsValidMethod_def)

section \<open>What the adapters may change\<close>

text \<open>A verification never touches a challenge, nor any tenant's enrolments but the challenge's.\<close>

lemma ListActive_mem:
  "a \<in> set (ListActiveAuthenticators t u s) \<Longrightarrow>
   a_TenantID a = t \<and> a_UserID a = u \<and> a_Status a = AuthenticatorStatusActive \<and> a \<in> set (tab_rows (st_authenticators s))"
  by (simp add: ListActiveAuthenticators_def)

lemma updateCounter_cases:
  obtains "snd (updateCounter e s t u c) = s"
  | a where "a \<in> set (ListActiveAuthenticators t u s)"
      "snd (updateCounter e s t u c) =
        PutAuthenticator (a\<lparr>a_Metadata := meta_set ''sign_count'' (AnyFloat (float_of_uint32 (cr_SignCount c)))
          (a_Metadata a), a_UpdatedAt := ev_now e 3\<rparr>) s"
proof (cases "find (\<lambda>authr. a_Method authr = MethodFIDO2 \<and>
    meta_str (a_Metadata authr) ''credential_id'' = b64_encode (cr_ID c)) (ListActiveAuthenticators t u s)")
  case None
  then show ?thesis using that(1) by (simp add: updateCounter_def)
next
  case (Some a)
  then have "a \<in> set (ListActiveAuthenticators t u s)" by (auto simp: find_Some_iff)
  with Some that show ?thesis
    by (cases "ev_fails e OpListActiveAuthenticators"; cases "ev_fails e OpPutAuthenticator")
      (auto simp: updateCounter_def)
qed

lemma updateCounter_challenges [simp]: "st_challenges (snd (updateCounter e s t u c)) = st_challenges s"
  by (rule updateCounter_cases [of e s t u c]) auto

lemma updateCounter_wf: "store_wf s \<Longrightarrow> store_wf (snd (updateCounter e s t u c))"
  by (rule updateCounter_cases [of e s t u c]) auto

lemma webauthnVerify_store:
  "snd (webauthnVerify wa e s chal r) = s \<or>
   (\<exists>c. snd (webauthnVerify wa e s chal r) = snd (updateCounter e s (c_TenantID chal) (c_UserID chal) c))"
  unfolding webauthnVerify_def Let_def by (simp split: option.splits) blast

lemma registry_verify_cases:
  assumes "Lookup (NewRegistry v wa) m = Some ad"
  obtains "snd (ad_Verify ad e s chal r) = s"
  | c where "snd (ad_Verify ad e s chal r) = snd (updateCounter e s (c_TenantID chal) (c_UserID chal) c)"
proof -
  have "ad \<in> {webauthnAdapter wa, totpAdapter, pushAdapter, smsAdapter v, magicLinkAdapter}"
    using assms by (auto simp: Lookup_def NewRegistry_def split: if_splits)
  then show ?thesis
  proof (elim insertE emptyE)
    assume "ad = webauthnAdapter wa"
    then show ?thesis using that webauthnVerify_store [of wa e s chal r] by (auto simp: webauthnAdapter_def)
  qed (use that in \<open>auto simp: totpAdapter_def pushAdapter_def smsAdapter_def magicLinkAdapter_def
    case_prod_beta split: option.splits sum.splits\<close>)
qed

lemma registry_verify_challenges:
  assumes "Lookup (NewRegistry v wa) m = Some ad"
  shows "st_challenges (snd (ad_Verify ad e s chal r)) = st_challenges s"
  by (rule registry_verify_cases [OF assms, of e s chal r]) auto

lemma registry_verify_foreign:
  assumes "Lookup (NewRegistry v wa) m = Some ad" "t \<noteq> c_TenantID chal" "store_wf s"
  shows "GetAuthenticator t i (snd (ad_Verify ad e s chal r)) = GetAuthenticator t i s"
proof (rule registry_verify_cases [OF assms(1), of e s chal r])
  fix c
  assume *: "snd (ad_Verify ad e s chal r) = snd (updateCounter e s (c_TenantID chal) (c_UserID chal) c)"
  show ?thesis
  proof (rule updateCounter_cases [of e s "c_TenantID chal" "c_UserID chal" c])
    fix a
    assume a: "a \<in> set (ListActiveAuthenticators (c_TenantID chal) (c_UserID chal) s)"
      and u: "snd (updateCounter e s (c_TenantID chal) (c_UserID chal) c) =
        PutAuthenticator (a\<lparr>a_Metadata := meta_set ''sign_count'' (AnyFloat (float_of_uint32 (cr_SignCount c)))
          (a_Metadata a), a_UpdatedAt := ev_now e 3\<rparr>) s"
    have "a \<in> set (tab_rows (st_authenticators s))" "a_TenantID a = c_TenantID chal"
      using ListActive_mem [OF a] by auto
    moreover from this have "tab_get (st_authenticators s) (a_ID a) = Some a"
      using assms(3) by (simp add: store_wf_def tab_wf_get [of a_ID])
    ultimately have "GetAuthenticator t (a_ID a) s = None"
      using assms(2) by (simp add: GetAuthenticator_def)
    with assms(2) \<open>a_TenantID a = c_TenantID chal\<close> show ?thesis
      by (simp add: * u authenticators.get_put)
  qed (simp add: *)
qed simp

lemma registry_verify_wf:
  assumes "Lookup (NewRegistry v wa) m = Some ad" "store_wf s"
  shows "store_wf (snd (ad_Verify ad e s chal r))"
  by (rule registry_verify_cases [OF assms(1), of e s chal r]) (auto simp: assms(2) updateCounter_wf)

section \<open>The metadata round trip\<close>

text \<open>
  What the SQL store hands back: metadata goes through \<open>encoding/json\<close>, so a \<open>[]string\<close> returns as a
  \<open>[]any\<close> (\<open>txt\<close> is how Go prints a number).
\<close>

definition through_json :: "(rat \<Rightarrow> string) \<Rightarrow> (string \<times> any) list \<Rightarrow> (string \<times> any) list" where
  "through_json txt m =
     map (\<lambda>(k, v). (k, case v of AnyJSON j \<Rightarrow> AnyJSON j | AnyFloat r \<Rightarrow> AnyJSON (JNum r (txt r))
                      | AnyStrings ss \<Rightarrow> AnyJSON (JArr (map JStr ss)))) m"

lemma uint32_of_float_of_uint32 [simp]: "uint32_of_float (float_of_uint32 w) = w"
proof -
  have "\<lfloor>of_nat (unat w) :: rat\<rfloor> = int (unat w)" by (rule floor_of_nat)
  moreover have "(0::rat) \<le> of_nat (unat w)" by (rule of_nat_0_le_iff)
  ultimately show ?thesis unfolding uint32_of_float_def float_of_uint32_def by (simp del: of_nat_unat) simp
qed

lemma decodeB64_encoded:
  "meta_str m k = b64_encode b \<Longrightarrow> decodeB64 m k = (if b = [] then None else Some b)"
  using b64_encode_nonempty [of b] by (auto simp: decodeB64_def Let_def b64_roundtrip)

lemma concat_JStr [simp]: "concat (map (\<lambda>t. case t of JStr s \<Rightarrow> [s] | _ \<Rightarrow> []) (map JStr ss)) = ss"
  by (induction ss) auto

text \<open>
  A passkey survives its encoding: with a non-empty id and key, decoding the metadata gives the
  credential back.  Through the SQL store it is complete (up to the two flags of a single ceremony,
  which are not stored); from the in-memory store the transports are lost.
\<close>

theorem credential_roundtrip:
  assumes "cr_ID c \<noteq> []" "cr_PublicKey c \<noteq> []"
  shows "credentialFromMetadata (through_json txt (credentialToMetadata c))
       = Some (c\<lparr>cr_UserVerified := False, cr_CloneWarning := False\<rparr>) \<and>
    credentialFromMetadata (credentialToMetadata c)
       = Some (c\<lparr>cr_UserVerified := False, cr_CloneWarning := False, cr_Transport := []\<rparr>)"
proof -
  let ?m = "credentialToMetadata c"
  let ?j = "through_json txt ?m"
  have s: "meta_str m ''credential_id'' = b64_encode (cr_ID c)"
    "meta_str m ''public_key'' = b64_encode (cr_PublicKey c)" "meta_str m ''aaguid'' = b64_encode (cr_AAGUID c)"
    "meta_str m ''attestation_type'' = cr_AttestationType c" "meta_str m ''attachment'' = cr_Attachment c"
    "meta_bool m ''backup_eligible'' = cr_BackupEligible c" "meta_bool m ''backup_state'' = cr_BackupState c"
    "asUint32 (meta_get m ''sign_count'') = cr_SignCount c" if "m = ?m \<or> m = ?j" for m
    using that by (auto simp: meta_str_def meta_bool_def meta_get_def credentialToMetadata_def
      through_json_def asUint32_def)
  have "json_strings (meta_get ?j ''transports'') = cr_Transport c" "json_strings (meta_get ?m ''transports'') = []"
    by (simp_all add: json_strings_def meta_get_def credentialToMetadata_def through_json_def del: map_map)
  then show ?thesis
    using assms by (simp add: credentialFromMetadata_def s decodeB64_encoded Let_def)
qed

definition sample_credential :: Credential where
  "sample_credential = \<lparr>cr_ID = ''id'', cr_PublicKey = ''key'', cr_AttestationType = ''none'',
     cr_Transport = [''usb'', ''nfc''], cr_UserVerified = True, cr_BackupEligible = True,
     cr_BackupState = False, cr_AAGUID = [], cr_SignCount = 7, cr_CloneWarning = False,
     cr_Attachment = ''platform''\<rparr>"

theorem credential_roundtrip_witness:
  "credentialFromMetadata (credentialToMetadata sample_credential)
     = Some (sample_credential\<lparr>cr_UserVerified := False, cr_CloneWarning := False, cr_Transport := []\<rparr>)"
  using credential_roundtrip [of sample_credential "\<lambda>_. []"] by (simp add: sample_credential_def)

end
