(* ===== verification/AuthrService.thy ===== *)
theory AuthrService
  imports AuthrAbuse AuthrAdapters
begin

text \<open>
  The HTTP surface of authenticator-service (authenticators.go, challenges.go, webauthn_register.go,
  handlers.go): every handler with its branches in order, the parked registration sessions, and the
  router with its two gates.  A verification is modelled in its three stages, admission, adapter and
  commit, because requests run concurrently between them.
\<close>

section \<open>Service state and replies\<close>

record regSession =
  rs_data :: json
  rs_tenantID :: string
  rs_userID :: string
  rs_name :: string
  rs_displayName :: string
  rs_createdAt :: time

record authr_svc =
  sv_store :: authr_store
  sv_create :: "limiter option"
  sv_lockout :: "limiter lockout option"
  sv_sessions :: "regSession table"

record authr_lib =
  lib_verifier :: sms_verifier
  lib_wa :: relying_party

datatype authr_payload =
    PAuthenticator Authenticator
  | PAuthenticators "Authenticator list"
  | PDispatched ChallengeDispatched
  | PChallenge Challenge
  | PVerify VerifyResponse
  | PRegistration string string
  | PHealth

type_synonym authr_reply = "authr_payload reply"

definition registry :: "authr_lib \<Rightarrow> (string \<times> adapter) list" where
  "registry lib = NewRegistry (lib_verifier lib) (lib_wa lib)"

definition missing_tenant :: "'p reply" where
  "missing_tenant = WriteError StatusBadRequest ''missing_tenant'' (Lit ''X-Tenant-Id required'')"

definition invalid_request :: "string \<Rightarrow> 'p reply" where
  "invalid_request m = WriteError StatusBadRequest ''invalid_request'' (Lit m)"

definition internal_error :: "string \<Rightarrow> 'p reply" where
  "internal_error m = WriteError StatusInternalServerError ''internal_error'' (Lit m)"

definition not_found :: "string \<Rightarrow> 'p reply" where
  "not_found m = WriteError StatusNotFound ''not_found'' (Lit m)"

lemmas reply_defs = missing_tenant_def invalid_request_def internal_error_def not_found_def
  writeAccountLocked_def writeRetryAfterError_def

definition EnrollRequest_fields :: "EnrollRequest field list" where
  "EnrollRequest_fields =
     [into dec_string ''user_id'' enr_UserID enr_UserID_update,
      into dec_string ''method'' enr_Method enr_Method_update,
      into dec_map ''metadata'' enr_Metadata enr_Metadata_update]"

definition ChallengeRequest_fields :: "ChallengeRequest field list" where
  "ChallengeRequest_fields =
     [into dec_string ''user_id'' chq_UserID chq_UserID_update,
      into dec_strings ''methods'' chq_Methods chq_Methods_update]"

definition VerifyRequest_fields :: "VerifyRequest field list" where
  "VerifyRequest_fields = [into dec_map ''response'' vq_Response vq_Response_update]"

section \<open>Enrolments\<close>

definition Enroll :: "authr_env \<Rightarrow> string option \<Rightarrow> body \<Rightarrow> authr_svc \<Rightarrow> authr_reply \<times> authr_svc" where
  "Enroll e tenant b v =
     (case tenant of
        None \<Rightarrow> (missing_tenant, v)
      | Some tenantID \<Rightarrow>
          (case ReadJSON EnrollRequest_fields \<lparr>enr_UserID = [], enr_Method = [], enr_Metadata = []\<rparr> b of
             Inl err \<Rightarrow> (invalid_request ''malformed json body'', v)
           | Inr req \<Rightarrow>
               if TrimSpace (enr_UserID req) = [] then (invalid_request ''user_id is required'', v)
               else if \<not> IsValidMethod (enr_Method req)
                 then (invalid_request ''method must be one of fido2, totp, push, sms, magic_link'', v)
               else if enr_Method req = MethodFIDO2
                 then (WriteError StatusBadRequest ''use_registration_ceremony''
                         (Lit ''fido2 must be enrolled via /authenticators/webauthn/register/begin + finish''), v)
               else
                 let now = ev_now e 0;
                     a = \<lparr>a_ID = ''authr_'' @ ev_uuid e, a_TenantID = tenantID, a_UserID = enr_UserID req,
                          a_Method = enr_Method req, a_Metadata = map (\<lambda>(k, j). (k, AnyJSON j)) (enr_Metadata req),
                          a_Status = AuthenticatorStatusActive, a_CreatedAt = now, a_UpdatedAt = now\<rparr>
                 in if ev_fails e OpPutAuthenticator then (internal_error ''failed to store authenticator'', v)
                    else (WriteJSON StatusCreated (PAuthenticator a),
                          v\<lparr>sv_store := PutAuthenticator a (sv_store v)\<rparr>)))"

definition ListHandler :: "authr_env \<Rightarrow> string option \<Rightarrow> string \<Rightarrow> string \<Rightarrow> authr_svc \<Rightarrow> authr_reply \<times> authr_svc" where
  "ListHandler e tenant q_user q_tenant v =
     (case tenant of
        None \<Rightarrow> (missing_tenant, v)
      | Some tenantID \<Rightarrow>
          let userID = TrimSpace q_user
          in if userID = [] then (invalid_request ''user_id query param is required'', v)
             else let qt = TrimSpace q_tenant
             in if qt \<noteq> [] \<and> qt \<noteq> tenantID
                then (invalid_request ''tenant_id query param does not match X-Tenant-Id header'', v)
                else if ev_fails e OpListAuthenticators
                then (internal_error ''failed to list authenticators'', v)
                else (WriteJSON StatusOK (PAuthenticators (ListAuthenticators tenantID userID (sv_store v))), v))"

definition GetHandler :: "authr_env \<Rightarrow> string option \<Rightarrow> string \<Rightarrow> authr_svc \<Rightarrow> authr_reply \<times> authr_svc" where
  "GetHandler e tenant rid v =
     (case tenant of
        None \<Rightarrow> (missing_tenant, v)
      | Some tenantID \<Rightarrow>
          if rid = [] then (invalid_request ''id is required'', v)
          else (case store_call (ev_fails e OpGetAuthenticator) (GetAuthenticator tenantID rid (sv_store v)) of
                  ErrNotFound \<Rightarrow> (not_found ''authenticator not found'', v)
                | ErrOther \<Rightarrow> (internal_error ''failed to read authenticator'', v)
                | Got a \<Rightarrow> (WriteJSON StatusOK (PAuthenticator a), v)))"

definition Delete :: "authr_env \<Rightarrow> string option \<Rightarrow> string \<Rightarrow> authr_svc \<Rightarrow> authr_reply \<times> authr_svc" where
  "Delete e tenant rid v =
     (case tenant of
        None \<Rightarrow> (missing_tenant, v)
      | Some tenantID \<Rightarrow>
          if rid = [] then (invalid_request ''id is required'', v)
          else (case store_call (ev_fails e OpDisableAuthenticator)
                       (DisableAuthenticator (ev_now e 0) tenantID rid (sv_store v)) of
                  ErrNotFound \<Rightarrow> (not_found ''authenticator not found'', v)
                | ErrOther \<Rightarrow> (internal_error ''failed to disable authenticator'', v)
                | Got s' \<Rightarrow> (NoContent, v\<lparr>sv_store := s'\<rparr>)))"

section \<open>Creating a challenge\<close>

text \<open>The first of the oldest: \<open>best\<close> is replaced only by a strictly earlier candidate.\<close>

definition older :: "Authenticator \<Rightarrow> Authenticator \<Rightarrow> bool" where
  "older c best \<longleftrightarrow> a_CreatedAt c < a_CreatedAt best \<or>
     (a_CreatedAt c = a_CreatedAt best \<and> a_ID c < a_ID best)"

definition oldest :: "Authenticator \<Rightarrow> Authenticator list \<Rightarrow> Authenticator" where
  "oldest a as = fold (\<lambda>c best. if older c best then c else best) as a"

fun selectAuthenticator :: "string list \<Rightarrow> Authenticator list \<Rightarrow> (string \<times> Authenticator) option" where
  "selectAuthenticator [] active = None"
| "selectAuthenticator (m # preferred) active =
     (case filter (\<lambda>a. a_Method a = m) active of
        [] \<Rightarrow> selectAuthenticator preferred active
      | a # as \<Rightarrow> Some (m, oldest a as))"

definition new_challenge :: "string \<Rightarrow> string \<Rightarrow> string \<Rightarrow> string \<Rightarrow> string \<Rightarrow> time \<Rightarrow> Challenge" where
  "new_challenge cid tenantID userID method authrID now =
     \<lparr>c_ID = cid, c_TenantID = tenantID, c_UserID = userID, c_Method = method,
      c_AuthenticatorID = authrID, c_Prompt = [], c_Status = ChallengeStatusPending, c_Attempts = 0,
      c_CreatedAt = now, c_ExpiresAt = now + ChallengeTTL, c_CompletedAt = None, c_LastAttemptAt = None,
      c_OptionsJSON = [], c_SessionData = []\<rparr>"

text \<open>The part of \<open>Create\<close> after validation and the abuse controls.\<close>

definition create_dispatch :: "authr_lib \<Rightarrow> authr_env \<Rightarrow> string \<Rightarrow> ChallengeRequest \<Rightarrow> authr_svc \<Rightarrow>
    authr_reply \<times> authr_svc" where
  "create_dispatch lib e tenantID req v =
     (if ev_fails e OpListActiveAuthenticators then (internal_error ''failed to list authenticators'', v)
      else case selectAuthenticator (chq_Methods req)
                  (ListActiveAuthenticators tenantID (chq_UserID req) (sv_store v)) of
        None \<Rightarrow> (WriteError StatusConflict ''no_authenticator_available''
                   (Lit ''user has no active authenticator for the requested methods''), v)
      | Some (method, authr) \<Rightarrow>
          (case Lookup (registry lib) method of
             None \<Rightarrow> (internal_error ''no adapter for method'', v)
           | Some adapter \<Rightarrow>
               let chal = new_challenge (''ch_'' @ ev_uuid e) tenantID (chq_UserID req) method (a_ID authr) (ev_now e 2)
               in case ad_Dispatch adapter e (sv_store v) chal of
                    Inl NoCredential \<Rightarrow> (WriteError StatusConflict ''no_credential''
                      (Lit ''user has no credential for this method''), v)
                  | Inl InvalidNumber \<Rightarrow> (WriteError StatusUnprocessableEntity ''invalid_number''
                      (Lit ''the number on file is not a valid phone number''), v)
                  | Inl AdapterFault \<Rightarrow> (WriteError StatusBadGateway ''dispatch_failed''
                      (Lit ''adapter failed to dispatch challenge''), v)
                  | Inr res \<Rightarrow>
                      let chal' = chal\<lparr>c_Prompt := dr_Prompt res, c_OptionsJSON := dr_Options res,
                                       c_SessionData := dr_SessionData res\<rparr>
                      in if ev_fails e OpPutChallenge then (internal_error ''failed to store challenge'', v)
                         else (WriteJSON StatusCreated (PDispatched
                                 \<lparr>cd_ChallengeID = c_ID chal', cd_Method = c_Method chal', cd_Prompt = c_Prompt chal',
                                  cd_ExpiresAt = c_ExpiresAt chal', cd_Options = c_OptionsJSON chal'\<rparr>),
                               v\<lparr>sv_store := PutChallenge chal' (sv_store v)\<rparr>)))"

definition Create :: "authr_lib \<Rightarrow> authr_env \<Rightarrow> string option \<Rightarrow> body \<Rightarrow> authr_svc \<Rightarrow> authr_reply \<times> authr_svc" where
  "Create lib e tenant b v =
     (case tenant of
        None \<Rightarrow> (missing_tenant, v)
      | Some tenantID \<Rightarrow>
          (case ReadJSON ChallengeRequest_fields \<lparr>chq_UserID = [], chq_Methods = []\<rparr> b of
             Inl err \<Rightarrow> (invalid_request ''malformed json body'', v)
           | Inr req \<Rightarrow>
               if TrimSpace (chq_UserID req) = [] then (invalid_request ''user_id is required'', v)
               else if chq_Methods req = [] then (invalid_request ''methods must be a non-empty list'', v)
               else (case find (\<lambda>m. \<not> IsValidMethod m) (chq_Methods req) of
                 Some m \<Rightarrow> (invalid_request (''unsupported method: '' @ m), v)
               | None \<Rightarrow>
                   let key = abuseKey tenantID (chq_UserID req);
                       ((locked, wait), lo) = Locked (ev_now e 0) key (sv_lockout v);
                       v = v\<lparr>sv_lockout := lo\<rparr>
                   in if locked then (writeAccountLocked wait, v)
                      else let ((ok, retryAfter), lim) = AllowPtr (ev_now e 1) key (sv_create v);
                               v = v\<lparr>sv_create := lim\<rparr>
                      in if \<not> ok then (writeRetryAfterError StatusTooManyRequests ''rate_limited''
                                        ''challenge creation rate limit exceeded for user'' retryAfter, v)
                         else create_dispatch lib e tenantID req v)))"

definition GetChallengeHandler :: "authr_env \<Rightarrow> string option \<Rightarrow> string \<Rightarrow> authr_svc \<Rightarrow> authr_reply \<times> authr_svc" where
  "GetChallengeHandler e tenant rid v =
     (case tenant of
        None \<Rightarrow> (missing_tenant, v)
      | Some tenantID \<Rightarrow>
          if rid = [] then (invalid_request ''id is required'', v)
          else (case store_call (ev_fails e OpGetChallenge) (GetChallenge tenantID rid (sv_store v)) of
                  ErrNotFound \<Rightarrow> (not_found ''challenge not found'', v)
                | ErrOther \<Rightarrow> (internal_error ''failed to read challenge'', v)
                | Got c \<Rightarrow> (WriteJSON StatusOK (PChallenge (c\<lparr>c_SessionData := []\<rparr>)), v)))"

section \<open>Verifying a challenge\<close>

text \<open>What a request that passed every check before the adapter carries along.\<close>

record admitted =
  ad_tenantID :: string
  ad_chal :: Challenge
  ad_response :: "(string \<times> json) list"

definition update_call :: "bool \<Rightarrow> 'a got \<Rightarrow> 'a got" where
  "update_call fails res = (if fails then ErrOther else res)"

definition expire_flip :: "authr_env \<Rightarrow> string \<Rightarrow> string \<Rightarrow> authr_store \<Rightarrow> authr_store" where
  "expire_flip e tenantID rid s =
     (case update_call (ev_fails e OpUpdateChallenge)
             (UpdateChallenge tenantID rid (\<lambda>ch. ch\<lparr>c_Status := ChallengeStatusExpired\<rparr>) s) of
        Got (_, s') \<Rightarrow> s'
      | _ \<Rightarrow> s)"

definition verify_admit :: "authr_lib \<Rightarrow> authr_env \<Rightarrow> string option \<Rightarrow> string \<Rightarrow> body \<Rightarrow> authr_svc \<Rightarrow>
    (authr_reply + admitted) \<times> authr_svc" where
  "verify_admit lib e tenant rid b v =
     (case tenant of
        None \<Rightarrow> (Inl missing_tenant, v)
      | Some tenantID \<Rightarrow>
          if rid = [] then (Inl (invalid_request ''id is required''), v)
          else (case ReadJSON VerifyRequest_fields \<lparr>vq_Response = []\<rparr> b of
            Inl err \<Rightarrow> (Inl (invalid_request ''malformed json body''), v)
          | Inr req \<Rightarrow>
              (case store_call (ev_fails e OpGetChallenge) (GetChallenge tenantID rid (sv_store v)) of
                 ErrNotFound \<Rightarrow> (Inl (not_found ''challenge not found''), v)
               | ErrOther \<Rightarrow> (Inl (internal_error ''failed to read challenge''), v)
               | Got c \<Rightarrow>
                   let lockKey = abuseKey tenantID (c_UserID c);
                       ((locked, wait), lo) = Locked (ev_now e 0) lockKey (sv_lockout v);
                       v = v\<lparr>sv_lockout := lo\<rparr>
                   in if locked then (Inl (writeAccountLocked wait), v)
                      else if c_Status c \<noteq> ChallengeStatusPending
                      then (Inl (WriteError StatusGone ''challenge_closed''
                              (Lit (''challenge is '' @ c_Status c @ '' and cannot be verified''))), v)
                      else if \<not> ev_now e 1 < c_ExpiresAt c
                      then (Inl (WriteError StatusGone ''challenge_expired'' (Lit ''challenge has expired'')),
                            v\<lparr>sv_store := expire_flip e tenantID rid (sv_store v)\<rparr>)
                      else let wait = backoffRemaining c (ev_now e 2)
                      in if 0 < wait
                      then (Inl (writeRetryAfterError StatusTooManyRequests ''retry_backoff''
                              ''verification retried too soon after a failed attempt'' wait), v)
                      else (case Lookup (registry lib) (c_Method c) of
                              None \<Rightarrow> (Inl (internal_error ''no adapter for method''), v)
                            | Some adapter \<Rightarrow>
                                (Inr \<lparr>ad_tenantID = tenantID, ad_chal = c, ad_response = vq_Response req\<rparr>, v)))))"

definition verify_adapter :: "authr_lib \<Rightarrow> authr_env \<Rightarrow> admitted \<Rightarrow> authr_svc \<Rightarrow>
    (adapter_err + VerifyResult) \<times> authr_svc" where
  "verify_adapter lib e adm v =
     (case Lookup (registry lib) (c_Method (ad_chal adm)) of
        None \<Rightarrow> (Inl AdapterFault, v)
      | Some adapter \<Rightarrow>
          (let (res, s') = ad_Verify adapter e (sv_store v) (ad_chal adm) (ad_response adm)
           in (res, v\<lparr>sv_store := s'\<rparr>)))"

definition verify_mutator :: "bool \<Rightarrow> time \<Rightarrow> Challenge \<Rightarrow> Challenge" where
  "verify_mutator verified t ch =
     (if verified then ch\<lparr>c_Status := ChallengeStatusCompleted, c_CompletedAt := Some t\<rparr>
      else
        let ch = ch\<lparr>c_Attempts := c_Attempts ch + 1\<rparr>;
            ch = ch\<lparr>c_LastAttemptAt := Some t\<rparr>
        in if MaxChallengeAttempts \<le> c_Attempts ch then ch\<lparr>c_Status := ChallengeStatusFailed\<rparr> else ch)"

definition verify_response :: "VerifyResult \<Rightarrow> Challenge \<Rightarrow> VerifyResponse" where
  "verify_response res updated =
     (if ver_OK res
      then \<lparr>vr_Verified = True, vr_AuthenticatorID = c_AuthenticatorID updated, vr_Reason = [], vr_AMR = ver_AMR res\<rparr>
      else \<lparr>vr_Verified = False, vr_AuthenticatorID = [],
            vr_Reason = (if c_Status updated = ChallengeStatusFailed then ''max_attempts_exceeded''
                         else ''invalid_response''), vr_AMR = []\<rparr>)"

definition verify_commit :: "authr_env \<Rightarrow> string \<Rightarrow> admitted \<Rightarrow> VerifyResult \<Rightarrow> authr_svc \<Rightarrow> authr_reply \<times> authr_svc" where
  "verify_commit e rid adm res v =
     (let verified = ver_OK res;
          tenantID = ad_tenantID adm
      in case update_call (ev_fails e OpUpdateChallenge)
                (UpdateChallenge tenantID rid (verify_mutator verified (ev_now e 4)) (sv_store v)) of
           ErrNotFound \<Rightarrow> (not_found ''challenge not found'', v)
         | ErrOther \<Rightarrow> (internal_error ''failed to update challenge'', v)
         | Got (updated, s') \<Rightarrow>
             let v = v\<lparr>sv_store := s'\<rparr>;
                 v = (if \<not> verified
                      then v\<lparr>sv_lockout := RecordFailure Allow (ev_now e 5) (ev_now e 6)
                               (abuseKey tenantID (c_UserID (ad_chal adm))) (sv_lockout v)\<rparr>
                      else v)
             in (WriteJSON (if verified then StatusOK else StatusUnauthorized)
                   (PVerify (verify_response res updated)), v))"

definition Verify :: "authr_lib \<Rightarrow> authr_env \<Rightarrow> string option \<Rightarrow> string \<Rightarrow> body \<Rightarrow> authr_svc \<Rightarrow> authr_reply \<times> authr_svc" where
  "Verify lib e tenant rid b v =
     (case verify_admit lib e tenant rid b v of
        (Inl rep, v) \<Rightarrow> (rep, v)
      | (Inr adm, v) \<Rightarrow>
          (case verify_adapter lib e adm v of
             (Inl err, v) \<Rightarrow> (WriteError StatusBadGateway ''verify_failed'' (Lit ''adapter failed to verify''), v)
           | (Inr res, v) \<Rightarrow> verify_commit e rid adm res v))"

section \<open>Registering a passkey\<close>

record RegisterBeginRequest =
  rb_UserID :: string
  rb_Name :: string
  rb_DisplayName :: string

record RegisterFinishRequest =
  rf_UserID :: string
  rf_RegistrationID :: string
  rf_Attestation :: "json option"

definition webauthnRegTTL :: duration where "webauthnRegTTL = 10 * Minute"

definition RegisterBegin_fields :: "RegisterBeginRequest field list" where
  "RegisterBegin_fields =
     [into dec_string ''user_id'' rb_UserID rb_UserID_update,
      into dec_string ''name'' rb_Name rb_Name_update,
      into dec_string ''display_name'' rb_DisplayName rb_DisplayName_update]"

text \<open>A \<open>json.RawMessage\<close> takes any value as it stands; \<open>None\<close> is the empty message.\<close>

definition RegisterFinish_fields :: "RegisterFinishRequest field list" where
  "RegisterFinish_fields =
     [into dec_string ''user_id'' rf_UserID rf_UserID_update,
      into dec_string ''registration_id'' rf_RegistrationID rf_RegistrationID_update,
      (''attestation'', \<lambda>j r. Inr (r\<lparr>rf_Attestation := Some j\<rparr>))]"

definition park :: "time \<Rightarrow> string \<Rightarrow> regSession \<Rightarrow> regSession table \<Rightarrow> regSession table" where
  "park now rid r sessions =
     (let cutoff = now - webauthnRegTTL
      in tab_put rid r (filter (\<lambda>(k, v). \<not> rs_createdAt v < cutoff) sessions))"

definition take_session :: "time \<Rightarrow> string \<Rightarrow> regSession table \<Rightarrow> regSession option \<times> regSession table" where
  "take_session now rid sessions =
     (case tab_get sessions rid of
        None \<Rightarrow> (None, sessions)
      | Some r \<Rightarrow>
          let sessions' = tab_del rid sessions
          in if webauthnRegTTL < now - rs_createdAt r then (None, sessions') else (Some r, sessions'))"

definition RegisterBegin :: "authr_lib \<Rightarrow> authr_env \<Rightarrow> string option \<Rightarrow> body \<Rightarrow> authr_svc \<Rightarrow> authr_reply \<times> authr_svc" where
  "RegisterBegin lib e tenant b v =
     (case tenant of
        None \<Rightarrow> (missing_tenant, v)
      | Some tenantID \<Rightarrow>
          (case ReadJSON RegisterBegin_fields \<lparr>rb_UserID = [], rb_Name = [], rb_DisplayName = []\<rparr> b of
             Inl err \<Rightarrow> (invalid_request ''malformed json body'', v)
           | Inr req \<Rightarrow>
               if TrimSpace (rb_UserID req) = [] then (invalid_request ''user_id is required'', v)
               else (case loadWebAuthnUser e (sv_store v) tenantID (rb_UserID req) (rb_Name req) (rb_DisplayName req) of
                 None \<Rightarrow> (internal_error ''could not load user'', v)
               | Some user \<Rightarrow>
                   (case rp_BeginRegistration (lib_wa lib) user (wu_creds user) of
                      None \<Rightarrow> (WriteError StatusBadGateway ''registration_failed'' (Lit ''could not begin registration''), v)
                    | Some (creation, session) \<Rightarrow>
                        (case rp_Marshal (lib_wa lib) creation of
                           None \<Rightarrow> (internal_error ''could not encode options'', v)
                         | Some options \<Rightarrow>
                             let regID = ''reg_'' @ ev_uuid e;
                                 r = \<lparr>rs_data = session, rs_tenantID = tenantID, rs_userID = rb_UserID req,
                                      rs_name = rb_Name req, rs_displayName = rb_DisplayName req,
                                      rs_createdAt = ev_now e 0\<rparr>
                             in (WriteJSON StatusOK (PRegistration regID options),
                                 v\<lparr>sv_sessions := park (ev_now e 1) regID r (sv_sessions v)\<rparr>))))))"

definition RegisterFinish :: "authr_lib \<Rightarrow> authr_env \<Rightarrow> string option \<Rightarrow> body \<Rightarrow> authr_svc \<Rightarrow> authr_reply \<times> authr_svc" where
  "RegisterFinish lib e tenant b v =
     (case tenant of
        None \<Rightarrow> (missing_tenant, v)
      | Some tenantID \<Rightarrow>
          (case ReadJSON RegisterFinish_fields
                  \<lparr>rf_UserID = [], rf_RegistrationID = [], rf_Attestation = None\<rparr> b of
             Inl err \<Rightarrow> (invalid_request ''malformed json body'', v)
           | Inr req \<Rightarrow>
               (case rf_Attestation req of
                  None \<Rightarrow> (invalid_request ''user_id, registration_id and attestation are required'', v)
                | Some attestation \<Rightarrow>
                    if rf_UserID req = [] \<or> rf_RegistrationID req = []
                    then (invalid_request ''user_id, registration_id and attestation are required'', v)
                    else
                      let (session, sessions) = take_session (ev_now e 0) (rf_RegistrationID req) (sv_sessions v);
                          v = v\<lparr>sv_sessions := sessions\<rparr>;
                          unknown = WriteError StatusBadRequest ''invalid_registration''
                                      (Lit ''unknown or expired registration session'')
                      in case session of
                           None \<Rightarrow> (unknown, v)
                         | Some r \<Rightarrow>
                             if rs_tenantID r \<noteq> tenantID \<or> rs_userID r \<noteq> rf_UserID req then (unknown, v)
                             else (case rp_ParseCreation (lib_wa lib) attestation of
                               None \<Rightarrow> (WriteError StatusBadRequest ''invalid_attestation''
                                         (Lit ''could not parse attestation''), v)
                             | Some parsed \<Rightarrow>
                                 (case loadWebAuthnUser e (sv_store v) tenantID (rf_UserID req)
                                         (rs_name r) (rs_displayName r) of
                                    None \<Rightarrow> (internal_error ''could not load user'', v)
                                  | Some user \<Rightarrow>
                                      (case rp_CreateCredential (lib_wa lib) user (rs_data r) parsed of
                                         None \<Rightarrow> (WriteError StatusBadRequest ''invalid_attestation''
                                                   (Lit ''attestation verification failed''), v)
                                       | Some cred \<Rightarrow>
                                           let now = ev_now e 1;
                                               authr = \<lparr>a_ID = ''authr_'' @ ev_uuid e, a_TenantID = tenantID,
                                                 a_UserID = rf_UserID req, a_Method = MethodFIDO2,
                                                 a_Metadata = credentialToMetadata cred,
                                                 a_Status = AuthenticatorStatusActive, a_CreatedAt = now, a_UpdatedAt = now\<rparr>
                                           in if ev_fails e OpPutAuthenticator
                                              then (internal_error ''could not store credential'', v)
                                              else (WriteJSON StatusCreated (PAuthenticator authr),
                                                    v\<lparr>sv_store := PutAuthenticator authr (sv_store v)\<rparr>)))))))"

section \<open>The router\<close>

text \<open>A request after the mux matched it: the handler with its path and query values and body.\<close>

datatype authr_route =
    REnroll body
  | RList string string
  | RGet string
  | RDelete string
  | RRegisterBegin body
  | RRegisterFinish body
  | RCreate body
  | RGetChallenge string
  | RVerify string body

fun tenanted :: "authr_lib \<Rightarrow> authr_env \<Rightarrow> authr_route \<Rightarrow> string option \<Rightarrow> authr_svc \<Rightarrow> authr_reply \<times> authr_svc" where
  "tenanted lib e (REnroll b) t v = Enroll e t b v"
| "tenanted lib e (RList u q) t v = ListHandler e t u q v"
| "tenanted lib e (RGet i) t v = GetHandler e t i v"
| "tenanted lib e (RDelete i) t v = Delete e t i v"
| "tenanted lib e (RRegisterBegin b) t v = RegisterBegin lib e t b v"
| "tenanted lib e (RRegisterFinish b) t v = RegisterFinish lib e t b v"
| "tenanted lib e (RCreate b) t v = Create lib e t b v"
| "tenanted lib e (RGetChallenge i) t v = GetChallengeHandler e t i v"
| "tenanted lib e (RVerify i b) t v = Verify lib e t i b v"

text \<open>
  \<open>v1_only\<close> and \<open>secret\<close> are V1_INTERNAL_ONLY and INTERNAL_AUTH_SECRET; \<open>internal\<close> tells the two
  mounts of the tree apart, and a request for no tenanted route is the health probe.
\<close>

definition Router :: "string \<Rightarrow> string \<Rightarrow> authr_lib \<Rightarrow> authr_env \<Rightarrow> bool \<Rightarrow> authr_route option \<Rightarrow>
    gate_request \<Rightarrow> authr_svc \<Rightarrow> authr_reply \<times> authr_svc" where
  "Router v1_only secret lib e internal route r v =
     (case route of
        None \<Rightarrow> (WriteJSON StatusOK PHealth, v)
      | Some rt \<Rightarrow>
          let tree = TenantMiddleware (tenanted lib e rt)
          in if internal then InternalAuth secret tree r v
             else if fold_name v1_only = ''true'' then InternalAuth secret tree r v
             else tree r v)"

end
