(* ===== verification/AuthrProps.thy ===== *)
theory AuthrProps
  imports AuthrService
begin

text \<open>
  What authenticator-service guarantees: the lifecycle of a challenge row as a state machine that
  every request refines, soundness of a successful verification, the bound on guesses, what happens
  when verifications overlap, selection of an authenticator, tenant isolation and the purge.
\<close>

section \<open>The lifecycle of a challenge\<close>

inductive challenge_step :: "Challenge \<Rightarrow> Challenge \<Rightarrow> bool" where
  Expire: "c_Status c = ChallengeStatusPending \<Longrightarrow> challenge_step c (c\<lparr>c_Status := ChallengeStatusExpired\<rparr>)"
| Complete: "c_Status c = ChallengeStatusPending \<Longrightarrow> challenge_step c (verify_mutator True t c)"
| Fail: "c_Status c = ChallengeStatusPending \<Longrightarrow> challenge_step c (verify_mutator False t c)"

inductive_cases challenge_stepE: "challenge_step c c'"

text \<open>Which fields go together in a stored row.\<close>

definition chal_ok :: "Challenge \<Rightarrow> bool" where
  "chal_ok c \<longleftrightarrow>
     c_Status c \<in> {ChallengeStatusPending, ChallengeStatusCompleted, ChallengeStatusFailed, ChallengeStatusExpired} \<and>
     0 \<le> c_Attempts c \<and> c_Attempts c \<le> MaxChallengeAttempts \<and>
     (c_Attempts c = MaxChallengeAttempts \<longleftrightarrow> c_Status c = ChallengeStatusFailed) \<and>
     (c_CompletedAt c \<noteq> None \<longleftrightarrow> c_Status c = ChallengeStatusCompleted) \<and>
     (c_LastAttemptAt c \<noteq> None \<longleftrightarrow> 0 < c_Attempts c) \<and>
     c_ExpiresAt c = c_CreatedAt c + ChallengeTTL"

text \<open>How many verifications can still be answered.\<close>

definition guesses_left :: "Challenge \<Rightarrow> nat" where
  "guesses_left c = (if c_Status c = ChallengeStatusPending then nat (MaxChallengeAttempts - c_Attempts c) else 0)"

lemma verify_mutator_fields [simp]:
  "c_ID (verify_mutator ok t c) = c_ID c"
  "c_TenantID (verify_mutator ok t c) = c_TenantID c"
  "c_UserID (verify_mutator ok t c) = c_UserID c"
  "c_Method (verify_mutator ok t c) = c_Method c"
  "c_AuthenticatorID (verify_mutator ok t c) = c_AuthenticatorID c"
  "c_CreatedAt (verify_mutator ok t c) = c_CreatedAt c"
  "c_ExpiresAt (verify_mutator ok t c) = c_ExpiresAt c"
  "c_Attempts (verify_mutator ok t c) = c_Attempts c + (if ok then 0 else 1)"
  "c_LastAttemptAt (verify_mutator ok t c) = (if ok then c_LastAttemptAt c else Some t)"
  "c_CompletedAt (verify_mutator ok t c) = (if ok then Some t else c_CompletedAt c)"
  "c_Status (verify_mutator ok t c) = (if ok then ChallengeStatusCompleted
     else if MaxChallengeAttempts \<le> c_Attempts c + 1 then ChallengeStatusFailed else c_Status c)"
  by (simp_all add: verify_mutator_def Let_def)

lemma cstatus_distinct [simp]:
  "ChallengeStatusPending \<noteq> ChallengeStatusCompleted" "ChallengeStatusPending \<noteq> ChallengeStatusFailed"
  "ChallengeStatusPending \<noteq> ChallengeStatusExpired" "ChallengeStatusCompleted \<noteq> ChallengeStatusFailed"
  "ChallengeStatusCompleted \<noteq> ChallengeStatusExpired" "ChallengeStatusFailed \<noteq> ChallengeStatusExpired"
  "ChallengeStatusCompleted \<noteq> ChallengeStatusPending" "ChallengeStatusFailed \<noteq> ChallengeStatusPending"
  "ChallengeStatusExpired \<noteq> ChallengeStatusPending" "ChallengeStatusFailed \<noteq> ChallengeStatusCompleted"
  "ChallengeStatusExpired \<noteq> ChallengeStatusCompleted" "ChallengeStatusExpired \<noteq> ChallengeStatusFailed"
  by (simp_all add: cstatus_defs)

interpretation chal: lifecycle challenge_step chal_ok guesses_left
proof
  fix c c'
  assume step: "challenge_step c c'" and ok: "chal_ok c"
  then have p: "c_Status c = ChallengeStatusPending" by (auto elim: challenge_stepE)
  with ok have lt: "c_Attempts c < MaxChallengeAttempts" "0 \<le> c_Attempts c" "c_CompletedAt c = None"
    and la: "c_LastAttemptAt c \<noteq> None \<longleftrightarrow> 0 < c_Attempts c"
    and ex: "c_ExpiresAt c = c_CreatedAt c + ChallengeTTL" by (auto simp: chal_ok_def)
  from step have "chal_ok c' \<and> guesses_left c' < guesses_left c"
  proof cases
    case Expire
    then show ?thesis using lt la ex by (simp add: chal_ok_def guesses_left_def)
  next
    case (Complete t)
    then show ?thesis using lt la ex by (simp add: chal_ok_def guesses_left_def)
  next
    case (Fail t)
    then show ?thesis using lt ex
      by (cases "MaxChallengeAttempts \<le> c_Attempts c + 1") (simp_all add: chal_ok_def guesses_left_def)
  qed
  then show "chal_ok c'" "guesses_left c' < guesses_left c" by auto
qed

lemma challenge_step_fields:
  "challenge_step c c' \<Longrightarrow> c_ID c' = c_ID c \<and> c_TenantID c' = c_TenantID c \<and> c_UserID c' = c_UserID c"
  by (auto elim!: challenge_stepE)

lemma chal_ok_new: "chal_ok (new_challenge i t u m a now)"
  by (simp add: chal_ok_def new_challenge_def MaxChallengeAttempts_def)

section \<open>What each handler does to the challenges\<close>

text \<open>The stages of \<open>Verify\<close>, each read off its definition.\<close>

definition lock_checked :: "authr_env \<Rightarrow> Challenge \<Rightarrow> string \<Rightarrow> authr_svc \<Rightarrow> authr_svc" where
  "lock_checked e c t v = v\<lparr>sv_lockout := snd (Locked (ev_now e 0) (abuseKey t (c_UserID c)) (sv_lockout v))\<rparr>"

lemma lock_checked_fields [simp]:
  "sv_store (lock_checked e c t v) = sv_store v" "sv_create (lock_checked e c t v) = sv_create v"
  "sv_sessions (lock_checked e c t v) = sv_sessions v"
  by (simp_all add: lock_checked_def)

lemma verify_admit_Inr:
  assumes "verify_admit lib e tenant i b v = (Inr adm, v')"
  shows "tenant = Some (ad_tenantID adm) \<and>
    GetChallenge (ad_tenantID adm) i (sv_store v) = Some (ad_chal adm) \<and>
    \<not> fst (fst (Locked (ev_now e 0) (abuseKey (ad_tenantID adm) (c_UserID (ad_chal adm))) (sv_lockout v))) \<and>
    c_Status (ad_chal adm) = ChallengeStatusPending \<and> ev_now e 1 < c_ExpiresAt (ad_chal adm) \<and>
    backoffRemaining (ad_chal adm) (ev_now e 2) = 0 \<and>
    Lookup (registry lib) (c_Method (ad_chal adm)) \<noteq> None \<and>
    (\<exists>req. ReadJSON VerifyRequest_fields \<lparr>vq_Response = []\<rparr> b = Inr req \<and> ad_response adm = vq_Response req) \<and>
    v' = lock_checked e (ad_chal adm) (ad_tenantID adm) v"
proof -
  obtain t where t: "tenant = Some t" using assms by (cases tenant) (auto simp: verify_admit_def)
  obtain req where req: "ReadJSON VerifyRequest_fields \<lparr>vq_Response = []\<rparr> b = Inr req"
    using assms t by (cases "ReadJSON VerifyRequest_fields \<lparr>vq_Response = []\<rparr> b")
      (auto simp: verify_admit_def split: if_splits)
  have f: "\<not> ev_fails e OpGetChallenge" using assms t req
    by (cases "ev_fails e OpGetChallenge") (auto simp: verify_admit_def split: if_splits)
  obtain c where c: "GetChallenge t i (sv_store v) = Some c"
    using assms t req f by (cases "GetChallenge t i (sv_store v)") (auto simp: verify_admit_def split: if_splits)
  let ?L = "Locked (ev_now e 0) (abuseKey t (c_UserID c)) (sv_lockout v)"
  obtain lk wt lo where L: "?L = ((lk, wt), lo)" by (metis prod.collapse)
  have "0 \<le> backoffRemaining c (ev_now e 2)" by (rule backoffRemaining_bounds)
  with assms t req f c L show ?thesis
    by (auto simp: verify_admit_def Let_def lock_checked_def split: if_splits option.splits)
qed

lemma verify_admit_Inl:
  assumes "verify_admit lib e tenant i b v = (Inl rep, v')"
  shows "sv_store v' = sv_store v \<or>
    (\<exists>t c. tenant = Some t \<and> GetChallenge t i (sv_store v) = Some c \<and> c_Status c = ChallengeStatusPending \<and>
       sv_store v' = expire_flip e t i (sv_store v))"
proof (cases tenant)
  case None
  with assms show ?thesis by (simp add: verify_admit_def)
next
  case (Some t)
  show ?thesis
  proof (cases "GetChallenge t i (sv_store v)")
    case None
    with assms Some show ?thesis
      by (cases "ev_fails e OpGetChallenge") (auto simp: verify_admit_def split: if_splits sum.splits)
  next
    case c: (Some c)
    obtain lk wt lo where L: "Locked (ev_now e 0) (abuseKey t (c_UserID c)) (sv_lockout v) = ((lk, wt), lo)"
      by (metis prod.collapse)
    with assms Some c show ?thesis
      by (cases "ev_fails e OpGetChallenge")
        (auto simp: verify_admit_def Let_def split: if_splits sum.splits option.splits)
  qed
qed

lemma expire_flip_store:
  assumes "store_wf s" "GetChallenge t i s = Some c"
  shows "expire_flip e t i s = s \<or> expire_flip e t i s = PutChallenge (c\<lparr>c_Status := ChallengeStatusExpired\<rparr>) s"
  using UpdateChallenge_present [OF assms(2), of "\<lambda>ch. ch\<lparr>c_Status := ChallengeStatusExpired\<rparr>"]
    GetChallenge_id [OF assms] challenges.get_tenant [OF assms(2)]
  by (auto simp: expire_flip_def update_call_def)

text \<open>The adapter stage leaves the challenges alone; the commit applies the mutator to the stored row.\<close>

lemma registry_lookup: "Lookup (registry lib) m = Some ad \<longleftrightarrow> Lookup (NewRegistry (lib_verifier lib) (lib_wa lib)) m = Some ad"
  by (simp add: registry_def)

lemma verify_adapter_frame:
  shows "sv_lockout (snd (verify_adapter lib e adm v)) = sv_lockout v"
    and "sv_create (snd (verify_adapter lib e adm v)) = sv_create v"
    and "sv_sessions (snd (verify_adapter lib e adm v)) = sv_sessions v"
    and "st_challenges (sv_store (snd (verify_adapter lib e adm v))) = st_challenges (sv_store v)"
proof -
  show "sv_lockout (snd (verify_adapter lib e adm v)) = sv_lockout v"
    "sv_create (snd (verify_adapter lib e adm v)) = sv_create v"
    "sv_sessions (snd (verify_adapter lib e adm v)) = sv_sessions v"
    by (simp_all add: verify_adapter_def case_prod_beta split: option.splits)
  show "st_challenges (sv_store (snd (verify_adapter lib e adm v))) = st_challenges (sv_store v)"
  proof (cases "Lookup (registry lib) (c_Method (ad_chal adm))")
    case (Some ad)
    note registry_verify_challenges [OF Some [unfolded registry_lookup]]
    with Some show ?thesis by (simp add: verify_adapter_def case_prod_beta)
  qed (simp add: verify_adapter_def)
qed

lemma GetChallenge_cong: "st_challenges s = st_challenges s' \<Longrightarrow> GetChallenge t i s = GetChallenge t i s'"
  by (simp add: GetChallenge_def)

lemma verify_adapter_challenge [simp]:
  "GetChallenge t i (sv_store (snd (verify_adapter lib e adm v))) = GetChallenge t i (sv_store v)"
  by (rule GetChallenge_cong) (rule verify_adapter_frame)

lemma verify_adapter_wf:
  assumes "store_wf (sv_store v)"
  shows "store_wf (sv_store (snd (verify_adapter lib e adm v)))"
proof (cases "Lookup (registry lib) (c_Method (ad_chal adm))")
  case (Some ad)
  note registry_verify_wf [OF Some [unfolded registry_lookup] assms]
  with Some show ?thesis by (simp add: verify_adapter_def case_prod_beta)
qed (simp add: verify_adapter_def assms)

definition commit_lockout :: "authr_env \<Rightarrow> string \<Rightarrow> admitted \<Rightarrow> VerifyResult \<Rightarrow>
    limiter lockout option \<Rightarrow> limiter lockout option" where
  "commit_lockout e t adm res lo =
     (if ver_OK res then lo
      else RecordFailure Allow (ev_now e 5) (ev_now e 6) (abuseKey t (c_UserID (ad_chal adm))) lo)"

lemma verify_commit_ok:
  fixes res :: VerifyResult
  assumes wf: "store_wf (sv_store v)" and c: "GetChallenge (ad_tenantID adm) i (sv_store v) = Some c"
    and ok: "\<not> ev_fails e OpUpdateChallenge"
  defines "c' \<equiv> verify_mutator (ver_OK res) (ev_now e 4) c"
  shows "verify_commit e i adm res v =
    (WriteJSON (if ver_OK res then StatusOK else StatusUnauthorized) (PVerify (verify_response res c')),
     v\<lparr>sv_store := PutChallenge c' (sv_store v),
       sv_lockout := commit_lockout e (ad_tenantID adm) adm res (sv_lockout v)\<rparr>)"
proof -
  have "UpdateChallenge (ad_tenantID adm) i (verify_mutator (ver_OK res) (ev_now e 4)) (sv_store v)
      = Got (c', PutChallenge c' (sv_store v))"
    unfolding c'_def by (rule UpdateChallenge_present [OF c])
      (simp_all add: GetChallenge_id [OF wf c] challenges.get_tenant [OF c])
  then show ?thesis using ok by (simp add: verify_commit_def update_call_def commit_lockout_def Let_def)
qed

lemma verify_commit_fail:
  assumes "ev_fails e OpUpdateChallenge \<or> GetChallenge (ad_tenantID adm) i (sv_store v) = None"
  shows "snd (verify_commit e i adm res v) = v \<and> (\<nexists>st p. fst (verify_commit e i adm res v) = WriteJSON st p)"
  using assms by (cases "ev_fails e OpUpdateChallenge")
    (auto simp: verify_commit_def update_call_def UpdateChallenge_missing internal_error_def not_found_def)

text \<open>All outcomes of a verification, as seen from the row.\<close>

lemma Verify_cases:
  assumes wf: "store_wf (sv_store v)"
  obtains (refused) "sv_store (snd (Verify lib e tenant i b v)) = sv_store v"
      "\<nexists>st r. fst (Verify lib e tenant i b v) = WriteJSON st (PVerify r)"
  | (expired) t c where "tenant = Some t" "GetChallenge t i (sv_store v) = Some c"
      "c_Status c = ChallengeStatusPending"
      "sv_store (snd (Verify lib e tenant i b v)) = PutChallenge (c\<lparr>c_Status := ChallengeStatusExpired\<rparr>) (sv_store v)"
      "\<nexists>st r. fst (Verify lib e tenant i b v) = WriteJSON st (PVerify r)"
  | (uncommitted) adm v' where "verify_admit lib e tenant i b v = (Inr adm, v')"
      "snd (Verify lib e tenant i b v) = snd (verify_adapter lib e adm v')"
      "\<nexists>st r. fst (Verify lib e tenant i b v) = WriteJSON st (PVerify r)"
  | (answered) adm v' res where "verify_admit lib e tenant i b v = (Inr adm, v')"
      "fst (verify_adapter lib e adm v') = Inr res" "\<not> ev_fails e OpUpdateChallenge"
      "Verify lib e tenant i b v = verify_commit e i adm res (snd (verify_adapter lib e adm v'))"
proof (cases "verify_admit lib e tenant i b v")
  case (Pair out v')
  show ?thesis
  proof (cases out)
    case (Inl rep)
    then have V: "Verify lib e tenant i b v = (rep, v')" by (simp add: Verify_def Pair)
    have nv: "rep \<noteq> WriteJSON st p" for st p
      using Pair Inl by (auto simp: verify_admit_def reply_defs Let_def
        split: option.splits if_splits sum.splits got.splits prod.splits)
    from verify_admit_Inl [OF Pair [unfolded Inl]] show ?thesis
    proof (elim disjE exE conjE)
      assume "sv_store v' = sv_store v"
      then show ?thesis using refused V nv by simp
    next
      fix t c
      assume "tenant = Some t" "GetChallenge t i (sv_store v) = Some c" "c_Status c = ChallengeStatusPending"
        "sv_store v' = expire_flip e t i (sv_store v)"
      then show ?thesis using refused expired V nv expire_flip_store [OF wf, of t i c e] by auto
    qed
  next
    case (Inr adm)
    note A = Pair [unfolded Inr]
    obtain res v2 where R: "verify_adapter lib e adm v' = (res, v2)" by (metis prod.collapse)
    show ?thesis
    proof (cases res)
      case (Inl err)
      then show ?thesis using uncommitted [OF A] by (simp add: Verify_def A R)
    next
      case res: (Inr r)
      show ?thesis
      proof (cases "ev_fails e OpUpdateChallenge")
        case True
        with verify_commit_fail [of e adm i v2 r] uncommitted [OF A] res show ?thesis
          by (simp add: Verify_def A R)
      next
        case False
        with answered [OF A, of r] res show ?thesis by (simp add: Verify_def A R)
      qed
    qed
  qed
qed

text \<open>The other handlers' effect on the store.\<close>

inductive enrolls :: "string option \<Rightarrow> string \<Rightarrow> authr_store \<Rightarrow> authr_store \<Rightarrow> bool"
  for tenant uuid s where
  enrolls_none: "enrolls tenant uuid s s"
| enrolls_one: "tenant = Some (a_TenantID a) \<Longrightarrow> a_ID a = ''authr_'' @ uuid \<Longrightarrow>
    enrolls tenant uuid s (PutAuthenticator a s)"

definition fresh_challenge :: "string option \<Rightarrow> string \<Rightarrow> Challenge \<Rightarrow> bool" where
  "fresh_challenge tenant uuid c \<longleftrightarrow> tenant = Some (c_TenantID c) \<and> c_ID c = ''ch_'' @ uuid \<and>
     chal_ok c \<and> c_Status c = ChallengeStatusPending \<and> c_Attempts c = 0"

inductive opens :: "string option \<Rightarrow> string \<Rightarrow> authr_store \<Rightarrow> authr_store \<Rightarrow> bool"
  for tenant uuid s where
  opens_none: "opens tenant uuid s s"
| opens_one: "fresh_challenge tenant uuid c \<Longrightarrow> opens tenant uuid s (PutChallenge c s)"

lemma Enroll_store: "enrolls tenant (ev_uuid e) (sv_store v) (sv_store (snd (Enroll e tenant b v)))"
  unfolding Enroll_def Let_def
  by (auto split: option.splits sum.splits intro: enrolls_none intro!: enrolls_one)

lemma RegisterFinish_store:
  "enrolls tenant (ev_uuid e) (sv_store v) (sv_store (snd (RegisterFinish lib e tenant b v)))"
  unfolding RegisterFinish_def Let_def
  by (auto split: option.splits sum.splits prod.splits intro: enrolls_none intro!: enrolls_one)

lemma Delete_store:
  "sv_store (snd (Delete e tenant i v)) = sv_store v \<or>
   (\<exists>t. tenant = Some t \<and>
      DisableAuthenticator (ev_now e 0) t i (sv_store v) = Some (sv_store (snd (Delete e tenant i v))))"
  unfolding Delete_def by (auto split: option.splits got.splits)

lemma reads_store [simp]:
  "snd (ListHandler e tenant u q v) = v"
  "snd (GetHandler e tenant i v) = v"
  "snd (GetChallengeHandler e tenant i v) = v"
  "sv_store (snd (RegisterBegin lib e tenant b v)) = sv_store v"
  unfolding ListHandler_def GetHandler_def GetChallengeHandler_def RegisterBegin_def Let_def
  by (auto split: option.splits got.splits sum.splits)

lemma fresh_new_challenge:
  "fresh_challenge (Some t) uuid ((new_challenge (CHR ''c'' # CHR ''h'' # CHR ''_'' # uuid) t u m a now)
      \<lparr>c_Prompt := p, c_OptionsJSON := opt, c_SessionData := sd\<rparr>)"
  by (simp add: fresh_challenge_def chal_ok_def new_challenge_def MaxChallengeAttempts_def)

lemma create_dispatch_store:
  "sv_store v = s \<Longrightarrow> opens (Some t) (ev_uuid e) s (sv_store (snd (create_dispatch lib e t req v)))"
  unfolding create_dispatch_def Let_def
  by (auto split: option.splits prod.splits sum.splits adapter_err.splits
      intro: opens_none intro!: opens_one fresh_new_challenge)

lemma Create_store: "opens tenant (ev_uuid e) (sv_store v) (sv_store (snd (Create lib e tenant b v)))"
  unfolding Create_def Let_def
  by (auto split: option.splits sum.splits prod.splits intro: opens_none intro!: create_dispatch_store)

section \<open>Every request refines the lifecycle\<close>

lemma GetChallenge_one_tenant: "GetChallenge t i s = Some c \<Longrightarrow> u \<noteq> t \<Longrightarrow> GetChallenge u i s = None"
  by (auto simp: GetChallenge_def split: option.splits if_splits)

lemma GetAuthenticator_one_tenant: "GetAuthenticator t i s = Some c \<Longrightarrow> u \<noteq> t \<Longrightarrow> GetAuthenticator u i s = None"
  by (auto simp: GetAuthenticator_def split: option.splits if_splits)

definition fresh_ids :: "string \<Rightarrow> authr_store \<Rightarrow> bool" where
  "fresh_ids uuid s \<longleftrightarrow> tab_get (st_challenges s) (''ch_'' @ uuid) = None \<and>
     tab_get (st_authenticators s) (''authr_'' @ uuid) = None"

lemma fresh_idsD:
  "fresh_ids uuid s \<Longrightarrow> GetChallenge t (''ch_'' @ uuid) s = None"
  "fresh_ids uuid s \<Longrightarrow> GetAuthenticator t (''authr_'' @ uuid) s = None"
  by (auto simp: fresh_ids_def GetChallenge_def GetAuthenticator_def)

text \<open>What one request of \<open>tenant\<close> may do to the row \<open>old\<close> that tenant \<open>t\<close> reads.\<close>

inductive row_effect :: "string option \<Rightarrow> string \<Rightarrow> string \<Rightarrow> Challenge option \<Rightarrow> Challenge option \<Rightarrow> bool"
  for tenant uuid t where
  Keep: "row_effect tenant uuid t old old"
| Move: "tenant = Some t \<Longrightarrow> challenge_step c c' \<Longrightarrow> row_effect tenant uuid t (Some c) (Some c')"
| Open: "tenant = Some t \<Longrightarrow> fresh_challenge tenant uuid c \<Longrightarrow> row_effect tenant uuid t None (Some c)"

lemma row_effect_put_step:
  assumes "store_wf s" "GetChallenge u j s = Some c" "challenge_step c c'"
  shows "row_effect (Some u) uuid t (GetChallenge t i s) (GetChallenge t i (PutChallenge c' s))"
proof -
  have f: "c_ID c' = j" "c_TenantID c' = u"
    using challenge_step_fields [OF assms(3)] GetChallenge_id [OF assms(1,2)] challenges.get_tenant [OF assms(2)]
    by simp_all
  show ?thesis
    using assms(2,3) GetChallenge_one_tenant [OF assms(2), of t]
    by (auto simp: challenges.get_put f intro: row_effect.intros)
qed

lemma row_effect_opens:
  assumes "opens tenant uuid s s'" "fresh_ids uuid s"
  shows "row_effect tenant uuid t (GetChallenge t i s) (GetChallenge t i s')"
  using assms
proof cases
  case (opens_one c)
  then have "GetChallenge u (c_ID c) s = None" for u
    using fresh_idsD(1) [OF assms(2)] by (simp add: fresh_challenge_def)
  with opens_one show ?thesis
    by (auto simp: challenges.get_put fresh_challenge_def intro!: row_effect.intros)
qed (simp add: Keep)

lemma Verify_row:
  assumes wf: "store_wf (sv_store v)"
  shows "row_effect tenant uuid t (GetChallenge t i (sv_store v))
    (GetChallenge t i (sv_store (snd (Verify lib e tenant j b v))))"
proof (cases rule: Verify_cases [OF wf, of lib e tenant j b])
  case 1
  then show ?thesis by (simp add: Keep)
next
  case (2 u c)
  then show ?thesis using row_effect_put_step [OF wf 2(2) Expire] by simp
next
  case (3 adm v')
  then show ?thesis using verify_admit_Inr [OF 3(1)] by (simp add: Keep)
next
  case (4 adm v' res)
  note A = verify_admit_Inr [OF 4(1)]
  let ?w = "snd (verify_adapter lib e adm v')"
  have c: "GetChallenge (ad_tenantID adm) j (sv_store ?w) = Some (ad_chal adm)" and wfw: "store_wf (sv_store ?w)"
    using A wf by (auto intro: verify_adapter_wf)
  have "challenge_step (ad_chal adm) (verify_mutator (ver_OK res) (ev_now e 4) (ad_chal adm))"
    using A by (cases "ver_OK res") (auto intro: challenge_step.intros)
  moreover have "sv_store (snd (Verify lib e tenant j b v))
      = PutChallenge (verify_mutator (ver_OK res) (ev_now e 4) (ad_chal adm)) (sv_store ?w)"
    unfolding 4(4) by (simp add: verify_commit_ok [OF wfw c 4(3)])
  ultimately show ?thesis
    using row_effect_put_step [OF wfw c, of _ uuid t i] A by simp
qed

lemma DisableAuthenticator_store:
  "store_wf s \<Longrightarrow> DisableAuthenticator now t i s = Some s' \<Longrightarrow>
   store_wf s' \<and> st_challenges s' = st_challenges s \<and> (\<forall>u j. u \<noteq> t \<longrightarrow> GetAuthenticator u j s' = GetAuthenticator u j s)"
proof -
  assume wf: "store_wf s" and D: "DisableAuthenticator now t i s = Some s'"
  obtain a where a: "tab_get (st_authenticators s) i = Some a" "a_TenantID a = t"
    using D by (auto simp: DisableAuthenticator_def split: option.splits if_splits)
  with D have s': "s' = s \<or> s' = s\<lparr>st_authenticators := tab_put i
      (a\<lparr>a_Status := AuthenticatorStatusDisabled, a_UpdatedAt := now\<rparr>) (st_authenticators s)\<rparr>"
    by (auto simp: DisableAuthenticator_def Let_def split: if_splits)
  have "GetAuthenticator u j s' = GetAuthenticator u j s" if "u \<noteq> t" for u j
    using s' a that by (cases "j = i") (auto simp: GetAuthenticator_def table_simps)
  with s' store_wf_Disable [OF wf D] show ?thesis by auto
qed

lemma Verify_wf:
  assumes wf: "store_wf (sv_store v)"
  shows "store_wf (sv_store (snd (Verify lib e tenant i b v)))"
proof (cases rule: Verify_cases [OF wf, of lib e tenant i b])
  case (3 adm v')
  then show ?thesis using verify_admit_Inr [OF 3(1)] wf by (simp add: verify_adapter_wf)
next
  case (4 adm v' res)
  note A = verify_admit_Inr [OF 4(1)]
  have c: "GetChallenge (ad_tenantID adm) i (sv_store (snd (verify_adapter lib e adm v'))) = Some (ad_chal adm)"
    and wfw: "store_wf (sv_store (snd (verify_adapter lib e adm v')))"
    using A wf by (auto intro: verify_adapter_wf)
  then show ?thesis by (auto simp: 4(4) verify_commit_ok [OF wfw c 4(3)])
qed (auto simp: wf)

lemma tenanted_wf:
  assumes "store_wf (sv_store v)"
  shows "store_wf (sv_store (snd (tenanted lib e rt tenant v)))"
proof (cases rt)
  case (REnroll b)
  then show ?thesis using Enroll_store [of tenant e v b] assms by (auto elim!: enrolls.cases)
next
  case (RDelete i)
  then show ?thesis using Delete_store [of e tenant i v] assms DisableAuthenticator_store by auto
next
  case (RRegisterFinish b)
  then show ?thesis using RegisterFinish_store [of tenant e v lib b] assms by (auto elim!: enrolls.cases)
next
  case (RCreate b)
  then show ?thesis using Create_store [of tenant e v lib b] assms by (auto elim!: opens.cases)
next
  case (RVerify i b)
  then show ?thesis using assms by (simp add: Verify_wf)
qed (simp_all add: assms)

lemma tenanted_row:
  assumes "store_wf (sv_store v)" "fresh_ids (ev_uuid e) (sv_store v)"
  shows "row_effect tenant (ev_uuid e) t (GetChallenge t i (sv_store v))
    (GetChallenge t i (sv_store (snd (tenanted lib e rt tenant v))))"
proof (cases rt)
  case (REnroll b)
  then show ?thesis using Enroll_store [of tenant e v b] by (auto elim!: enrolls.cases intro: Keep)
next
  case (RDelete j)
  have "st_challenges (sv_store (snd (Delete e tenant j v))) = st_challenges (sv_store v)"
    using Delete_store [of e tenant j v] DisableAuthenticator_store [OF assms(1)] by auto
  then show ?thesis using GetChallenge_cong RDelete by (metis Keep tenanted.simps(4))
next
  case (RRegisterFinish b)
  then show ?thesis using RegisterFinish_store [of tenant e v lib b] by (auto elim!: enrolls.cases intro: Keep)
next
  case (RCreate b)
  then show ?thesis using row_effect_opens [OF Create_store assms(2)] by simp
next
  case (RVerify j b)
  then show ?thesis using assms(1) by (simp add: Verify_row)
qed (simp_all add: Keep)

lemma Router_cases:
  obtains (stopped) "snd (Router v1_only secret lib e internal route r v) = v"
  | (served) rt t where "route = Some rt" "From r = Some t"
      "Router v1_only secret lib e internal route r v = tenanted lib e rt (Some t) v"
proof (cases route)
  case None
  then show ?thesis using stopped by (simp add: Router_def)
next
  case (Some rt)
  have "InternalAuth secret (TenantMiddleware (tenanted lib e rt)) r v = TenantMiddleware (tenanted lib e rt) r v \<or>
      snd (InternalAuth secret (TenantMiddleware (tenanted lib e rt)) r v) = v"
    by (simp add: InternalAuth_def)
  then have "snd (Router v1_only secret lib e internal route r v) = v \<or>
      Router v1_only secret lib e internal route r v = TenantMiddleware (tenanted lib e rt) r v"
    by (auto simp: Router_def Some Let_def)
  moreover have "snd (TenantMiddleware (tenanted lib e rt) r v) = v \<or>
      (\<exists>t. From r = Some t \<and> TenantMiddleware (tenanted lib e rt) r v = tenanted lib e rt (Some t) v)"
    by (cases "From r") (simp_all add: TenantMiddleware_def)
  ultimately show ?thesis using stopped served Some by metis
qed

lemma Verify_authenticators_foreign:
  assumes wf: "store_wf (sv_store v)" and foreign: "tenant \<noteq> Some t"
  shows "GetAuthenticator t i (sv_store (snd (Verify lib e tenant j b v))) = GetAuthenticator t i (sv_store v)"
proof -
  have adapter: "GetAuthenticator t i (sv_store (snd (verify_adapter lib e adm w))) = GetAuthenticator t i (sv_store w)"
    if "store_wf (sv_store w)" "c_TenantID (ad_chal adm) \<noteq> t" for adm w
  proof (cases "Lookup (registry lib) (c_Method (ad_chal adm))")
    case (Some ad)
    have "t \<noteq> c_TenantID (ad_chal adm)" using that(2) by simp
    note registry_verify_foreign [OF Some [unfolded registry_lookup] this that(1)]
    with Some show ?thesis by (simp add: verify_adapter_def case_prod_beta)
  qed (simp add: verify_adapter_def)
  show ?thesis
  proof (cases rule: Verify_cases [OF wf, of lib e tenant j b])
    case (3 adm v')
    note A = verify_admit_Inr [OF 3(1)]
    then have "c_TenantID (ad_chal adm) \<noteq> t" using foreign challenges.get_tenant by fastforce
    then show ?thesis using A 3(2) adapter [of v'] wf by simp
  next
    case (4 adm v' res)
    note A = verify_admit_Inr [OF 4(1)]
    then have f: "c_TenantID (ad_chal adm) \<noteq> t" using foreign challenges.get_tenant by fastforce
    have c: "GetChallenge (ad_tenantID adm) j (sv_store (snd (verify_adapter lib e adm v'))) = Some (ad_chal adm)"
      and wfw: "store_wf (sv_store (snd (verify_adapter lib e adm v')))"
      using A wf by (auto intro: verify_adapter_wf)
    have "sv_store (snd (Verify lib e tenant j b v)) =
        PutChallenge (verify_mutator (ver_OK res) (ev_now e 4) (ad_chal adm))
          (sv_store (snd (verify_adapter lib e adm v')))"
      unfolding 4(4) by (simp add: verify_commit_ok [OF wfw c 4(3)])
    then show ?thesis using adapter [OF _ f, of v'] A wf by simp
  qed simp_all
qed

lemma tenanted_authenticators_foreign:
  assumes "store_wf (sv_store v)" "fresh_ids (ev_uuid e) (sv_store v)" "tenant \<noteq> Some t"
  shows "GetAuthenticator t i (sv_store (snd (tenanted lib e rt tenant v))) = GetAuthenticator t i (sv_store v)"
proof -
  have enrol: "GetAuthenticator t i s' = GetAuthenticator t i (sv_store v)"
    if "enrolls tenant (ev_uuid e) (sv_store v) s'" for s'
    using that
  proof cases
    case (enrolls_one a)
    then have "a_ID a = ''authr_'' @ ev_uuid e" by simp
    then have "GetAuthenticator t (a_ID a) (sv_store v) = None"
      using fresh_idsD(2) [OF assms(2)] by (simp only:)
    with enrolls_one assms(3) show ?thesis by (auto simp: authenticators.get_put)
  qed simp
  show ?thesis
  proof (cases rt)
    case (REnroll b)
    then show ?thesis using enrol [OF Enroll_store] by simp
  next
    case (RDelete j)
    have "GetAuthenticator t i s' = GetAuthenticator t i (sv_store v)"
      if "DisableAuthenticator (ev_now e 0) u j (sv_store v) = Some s'" "u \<noteq> t" for u s'
      using DisableAuthenticator_store [OF assms(1) that(1)] that(2) by simp
    then show ?thesis using Delete_store [of e tenant j v] RDelete assms(3) by auto
  next
    case (RRegisterFinish b)
    then show ?thesis using enrol [OF RegisterFinish_store] by simp
  next
    case (RCreate b)
    then show ?thesis using Create_store [of tenant e v lib b] by (auto elim!: opens.cases)
  next
    case (RVerify j b)
    then show ?thesis using Verify_authenticators_foreign [OF assms(1,3)] by simp
  qed simp_all
qed

section \<open>Runs of the service\<close>

text \<open>A run interleaves requests, served one at a time, with sweeps of expired challenges.\<close>

datatype authr_event = Request authr_env authr_route "string option" | Sweep time

fun serve_event :: "authr_lib \<Rightarrow> authr_event \<Rightarrow> authr_svc \<Rightarrow> authr_reply \<times> authr_svc" where
  "serve_event lib (Request e rt tenant) v = tenanted lib e rt tenant v"
| "serve_event lib (Sweep now) v = (NoContent, v\<lparr>sv_store := snd (PurgeExpired now (sv_store v))\<rparr>)"

fun event_fresh :: "authr_event \<Rightarrow> authr_svc \<Rightarrow> bool" where
  "event_fresh (Request e rt tenant) v = fresh_ids (ev_uuid e) (sv_store v)"
| "event_fresh (Sweep now) v = True"

fun uuids_fresh :: "authr_lib \<Rightarrow> authr_event list \<Rightarrow> authr_svc \<Rightarrow> bool" where
  "uuids_fresh lib [] v = True"
| "uuids_fresh lib (ev # evs) v = (event_fresh ev v \<and> uuids_fresh lib evs (snd (serve_event lib ev v)))"

text \<open>The verdict a reply gives on challenge \<open>i\<close> of tenant \<open>t\<close>, if it gives one.\<close>

fun reply_verdict :: "authr_reply \<Rightarrow> bool list" where
  "reply_verdict (WriteJSON st (PVerify r)) = [vr_Verified r]"
| "reply_verdict _ = []"

fun event_verdict :: "string \<Rightarrow> string \<Rightarrow> authr_event \<Rightarrow> authr_reply \<Rightarrow> bool list" where
  "event_verdict t i (Request e (RVerify j b) (Some u)) rep = (if j = i \<and> u = t then reply_verdict rep else [])"
| "event_verdict t i _ rep = []"

fun verdicts :: "authr_lib \<Rightarrow> string \<Rightarrow> string \<Rightarrow> authr_event list \<Rightarrow> authr_svc \<Rightarrow> bool list" where
  "verdicts lib t i [] v = []"
| "verdicts lib t i (ev # evs) v =
     event_verdict t i ev (fst (serve_event lib ev v)) @ verdicts lib t i evs (snd (serve_event lib ev v))"

definition svc_ok :: "authr_svc \<Rightarrow> bool" where
  "svc_ok v \<longleftrightarrow> store_wf (sv_store v) \<and> (\<forall>t i c. GetChallenge t i (sv_store v) = Some c \<longrightarrow> chal_ok c)"

lemma purge_wf: "store_wf s \<Longrightarrow> store_wf (snd (PurgeExpired now s))"
  by (auto simp: store_wf_def PurgeExpired_def tab_wf_def distinct_map_filter)

lemma map_of_filter_distinct:
  "distinct (map fst m) \<Longrightarrow>
   map_of (filter (\<lambda>(k, r). P r) m) i = (case map_of m i of None \<Rightarrow> None | Some r \<Rightarrow> if P r then Some r else None)"
  by (induction m) (auto split: option.splits dest: map_of_SomeD intro: rev_image_eqI)

lemma GetChallenge_purge:
  assumes "store_wf s"
  shows "GetChallenge t i (snd (PurgeExpired now s)) =
    (case GetChallenge t i s of None \<Rightarrow> None | Some c \<Rightarrow> if purgeable now c then None else Some c)"
  using assms map_of_filter_distinct [of "st_challenges s" "\<lambda>c. \<not> purgeable now c" i]
  by (auto simp: store_wf_def tab_wf_def GetChallenge_def PurgeExpired_def tab_get_def split: option.splits)

text \<open>What an event does to one row: the row goes away, or it stays, moves or is opened.\<close>

lemma serve_event_ok:
  assumes "svc_ok v" "event_fresh ev v"
  shows "svc_ok (snd (serve_event lib ev v))"
proof (cases ev)
  case (Request e rt tenant)
  have "chal_ok c" if "GetChallenge t i (sv_store (snd (tenanted lib e rt tenant v))) = Some c" for t i c
  proof -
    have "row_effect tenant (ev_uuid e) t (GetChallenge t i (sv_store v)) (Some c)"
      using tenanted_row [of v e tenant t i lib rt] assms Request that by (simp add: svc_ok_def)
    then show ?thesis
      using assms(1) chal.step_good by cases (auto simp: svc_ok_def fresh_challenge_def)
  qed
  with Request assms show ?thesis by (simp add: svc_ok_def tenanted_wf)
next
  case (Sweep now)
  with assms show ?thesis
    by (auto simp: svc_ok_def purge_wf GetChallenge_purge split: option.splits if_splits)
qed

fun mints :: "string \<Rightarrow> authr_event \<Rightarrow> bool" where
  "mints i (Request e rt tenant) \<longleftrightarrow> i = ''ch_'' @ ev_uuid e"
| "mints i (Sweep now) \<longleftrightarrow> False"

definition row_left :: "string \<Rightarrow> string \<Rightarrow> authr_svc \<Rightarrow> nat" where
  "row_left t i v = (case GetChallenge t i (sv_store v) of None \<Rightarrow> 0 | Some c \<Rightarrow> guesses_left c)"

lemma serve_event_left:
  assumes "svc_ok v" "event_fresh ev v" "\<not> mints i ev"
  shows "row_left t i (snd (serve_event lib ev v)) \<le> row_left t i v"
proof (cases ev)
  case (Request e rt tenant)
  have "row_effect tenant (ev_uuid e) t (GetChallenge t i (sv_store v))
      (GetChallenge t i (sv_store (snd (tenanted lib e rt tenant v))))"
    using tenanted_row [of v e tenant t i lib rt] assms Request by (simp add: svc_ok_def)
  then have "row_left t i (snd (tenanted lib e rt tenant v)) \<le> row_left t i v"
  proof cases
    case (Move c c')
    then have "chal_ok c" using assms(1) by (auto simp: svc_ok_def)
    with Move chal.step_rank show ?thesis by (fastforce simp: row_left_def)
  next
    case (Open c)
    have "store_wf (sv_store (snd (tenanted lib e rt tenant v)))"
      using assms(1) by (simp add: svc_ok_def tenanted_wf)
    then have "c_ID c = i" using Open GetChallenge_id by metis
    then have "i = ''ch_'' @ ev_uuid e" using Open by (simp add: fresh_challenge_def)
    then have "mints i ev" by (simp add: Request)
    with assms(3) show ?thesis by simp
  qed (simp add: row_left_def)
  then show ?thesis by (simp add: Request)
next
  case (Sweep now)
  then show ?thesis
    using assms by (auto simp: svc_ok_def row_left_def GetChallenge_purge split: option.splits)
qed

lemma Verify_verdict:
  assumes wf: "store_wf (sv_store v)" and rep: "fst (Verify lib e tenant i b v) = WriteJSON st (PVerify r)"
  obtains t c req ad res where "tenant = Some t" "GetChallenge t i (sv_store v) = Some c"
    "\<not> fst (fst (Locked (ev_now e 0) (abuseKey t (c_UserID c)) (sv_lockout v)))"
    "c_Status c = ChallengeStatusPending" "ev_now e 1 < c_ExpiresAt c" "backoffRemaining c (ev_now e 2) = 0"
    "ReadJSON VerifyRequest_fields \<lparr>vq_Response = []\<rparr> b = Inr req"
    "Lookup (registry lib) (c_Method c) = Some ad"
    "fst (ad_Verify ad e (sv_store v) c (vq_Response req)) = Inr res"
    "GetChallenge t i (sv_store (snd (Verify lib e tenant i b v)))
       = Some (verify_mutator (ver_OK res) (ev_now e 4) c)"
    "st = (if ver_OK res then StatusOK else StatusUnauthorized)"
    "r = verify_response res (verify_mutator (ver_OK res) (ev_now e 4) c)"
proof (cases rule: Verify_cases [OF wf, of lib e tenant i b])
  case (4 adm v' res)
  note A = verify_admit_Inr [OF 4(1)]
  let ?w = "snd (verify_adapter lib e adm v')"
  let ?c = "ad_chal adm"
  have c: "GetChallenge (ad_tenantID adm) i (sv_store ?w) = Some ?c" and wfw: "store_wf (sv_store ?w)"
    using A wf by (auto intro: verify_adapter_wf)
  note C = verify_commit_ok [OF wfw c 4(3), of res]
  have "c_ID ?c = i" "c_TenantID ?c = ad_tenantID adm"
    using GetChallenge_id [OF wfw c] challenges.get_tenant [OF c] by auto
  then have "GetChallenge (ad_tenantID adm) i (sv_store (snd (Verify lib e tenant i b v)))
      = Some (verify_mutator (ver_OK res) (ev_now e 4) ?c)"
    unfolding 4(4) C by (simp add: challenges.get_put)
  moreover have "st = (if ver_OK res then StatusOK else StatusUnauthorized)"
    "r = verify_response res (verify_mutator (ver_OK res) (ev_now e 4) ?c)"
    using rep unfolding 4(4) C by auto
  moreover obtain ad where ad: "Lookup (registry lib) (c_Method ?c) = Some ad" using A by auto
  moreover have "fst (ad_Verify ad e (sv_store v) ?c (ad_response adm)) = Inr res"
    using 4(2) A ad by (simp add: verify_adapter_def case_prod_beta)
  moreover obtain req where "ReadJSON VerifyRequest_fields \<lparr>vq_Response = []\<rparr> b = Inr req"
    "ad_response adm = vq_Response req" using A by blast
  ultimately show ?thesis using A by (intro that [of "ad_tenantID adm" ?c req ad res]) simp_all
qed (use rep in blast)+

lemma event_verdict_spends:
  assumes "svc_ok v" "event_verdict t i ev (fst (serve_event lib ev v)) = b # bs"
  shows "bs = [] \<and> row_left t i (snd (serve_event lib ev v)) < row_left t i v \<and>
    (b \<longrightarrow> row_left t i (snd (serve_event lib ev v)) = 0)"
proof -
  obtain e bd where ev: "ev = Request e (RVerify i bd) (Some t)"
    and rv: "reply_verdict (fst (Verify lib e (Some t) i bd v)) = b # bs"
    using assms(2) by (cases "(t, i, ev, fst (serve_event lib ev v))" rule: event_verdict.cases)
      (auto split: if_splits)
  obtain st r where rep: "fst (Verify lib e (Some t) i bd v) = WriteJSON st (PVerify r)" and b: "b = vr_Verified r" "bs = []"
    using rv by (cases "fst (Verify lib e (Some t) i bd v)" rule: reply_verdict.cases) auto
  have wf: "store_wf (sv_store v)" using assms(1) by (simp add: svc_ok_def)
  show ?thesis
  proof (rule Verify_verdict [OF wf rep])
    fix u c req ad res
    assume u: "Some t = Some u" and c: "GetChallenge u i (sv_store v) = Some c" and p: "c_Status c = ChallengeStatusPending"
      and c': "GetChallenge u i (sv_store (snd (Verify lib e (Some t) i bd v)))
        = Some (verify_mutator (ver_OK res) (ev_now e 4) c)"
      and r: "r = verify_response res (verify_mutator (ver_OK res) (ev_now e 4) c)"
    have "chal_ok c" using assms(1) c by (auto simp: svc_ok_def)
    moreover have "challenge_step c (verify_mutator (ver_OK res) (ev_now e 4) c)"
      using p by (cases "ver_OK res") (auto intro: challenge_step.intros)
    ultimately have "guesses_left (verify_mutator (ver_OK res) (ev_now e 4) c) < guesses_left c"
      using chal.step_rank by blast
    moreover have "ver_OK res \<longleftrightarrow> b" using r b by (simp add: verify_response_def)
    ultimately show ?thesis using u c c' b(2) by (auto simp: ev row_left_def guesses_left_def)
  qed
qed

lemma verdicts_bounded:
  assumes "svc_ok v" "uuids_fresh lib evs v" "\<forall>ev\<in>set evs. \<not> mints i ev"
  shows "length (verdicts lib t i evs v) \<le> row_left t i v \<and>
    successively (\<lambda>earlier later. \<not> earlier) (verdicts lib t i evs v)"
  using assms
proof (induction evs arbitrary: v)
  case Nil
  then show ?case by simp
next
  case (Cons ev evs)
  let ?v = "snd (serve_event lib ev v)"
  have ok: "svc_ok ?v" using Cons.prems by (simp add: serve_event_ok)
  have IH: "length (verdicts lib t i evs ?v) \<le> row_left t i ?v"
    "successively (\<lambda>earlier later. \<not> earlier) (verdicts lib t i evs ?v)"
    using Cons.IH [OF ok] Cons.prems by auto
  show ?case
  proof (cases "event_verdict t i ev (fst (serve_event lib ev v))")
    case Nil
    moreover have "row_left t i ?v \<le> row_left t i v"
      using Cons.prems by (intro serve_event_left) auto
    ultimately show ?thesis using IH by simp
  next
    case (Cons b bs)
    note E = event_verdict_spends [OF Cons.prems(1) Cons]
    have "b \<Longrightarrow> verdicts lib t i evs ?v = []" using E IH(1) by simp
    then show ?thesis using E IH Cons by (cases "verdicts lib t i evs ?v") auto
  qed
qed

section \<open>Properties\<close>

text \<open>A small service to evaluate the properties on: one TOTP enrolment, one open challenge.\<close>

definition no_passkeys :: relying_party where
  "no_passkeys = \<lparr>rp_BeginLogin = \<lambda>u. None, rp_ParseRequest = \<lambda>j. None, rp_ValidateLogin = \<lambda>u s p. None,
     rp_BeginRegistration = \<lambda>u cs. None, rp_ParseCreation = \<lambda>j. None, rp_CreateCredential = \<lambda>u s p. None,
     rp_Marshal = \<lambda>j. None, rp_Unmarshal = \<lambda>s. None\<rparr>"

definition demo_lib :: authr_lib where
  "demo_lib = \<lparr>lib_verifier = Stub, lib_wa = no_passkeys\<rparr>"

definition demo_env :: "time \<Rightarrow> string \<Rightarrow> authr_env" where
  "demo_env now uuid = \<lparr>ev_now = \<lambda>n. now, ev_uuid = uuid, ev_fails = \<lambda>op. False\<rparr>"

definition demo_authenticator :: Authenticator where
  "demo_authenticator = \<lparr>a_ID = ''authr_0'', a_TenantID = ''t'', a_UserID = ''u'', a_Method = MethodTOTP,
     a_Metadata = [], a_Status = AuthenticatorStatusActive, a_CreatedAt = 1, a_UpdatedAt = 1\<rparr>"

definition demo_challenge :: Challenge where
  "demo_challenge = new_challenge ''ch_0'' ''t'' ''u'' MethodTOTP ''authr_0'' 10"

definition demo_svc :: authr_svc where
  "demo_svc = \<lparr>sv_store = PutChallenge demo_challenge (PutAuthenticator demo_authenticator NewStore),
     sv_create = Some (New 10 Minute), sv_lockout = NewLockout 5 (15 * Minute), sv_sessions = []\<rparr>"

definition demo_body :: "string \<Rightarrow> body" where
  "demo_body code = Body (JObj [(''response'', JObj [(''code'', JStr code)])]) 34"

lemma demo_wf: "store_wf (sv_store demo_svc)"
  unfolding demo_svc_def by (simp add: store_wf_PutChallenge store_wf_PutAuthenticator)

lemma demo_ok: "svc_ok demo_svc"
proof -
  have "chal_ok c" if "GetChallenge t i (sv_store demo_svc) = Some c" for t i c
  proof -
    have "GetChallenge t i NewStore = None" by (simp add: GetChallenge_def NewStore_def table_simps)
    then have "c = demo_challenge" using that by (simp add: demo_svc_def challenges.get_put split: if_splits)
    then show ?thesis by (simp add: demo_challenge_def chal_ok_new)
  qed
  then show ?thesis using demo_wf by (simp add: svc_ok_def)
qed

text \<open>
  C2. A verification is reported as successful only for a challenge of the caller's tenant that was
  pending, unexpired, outside its backoff and whose user was not locked out, and only if the
  enrolled method's adapter accepted the response; and the row is then recorded as completed.
\<close>

theorem verified_only_when_allowed:
  assumes wf: "store_wf (sv_store v)"
    and rep: "fst (Verify lib e tenant i b v) = WriteJSON StatusOK (PVerify r)"
  shows "\<exists>t c req ad res. tenant = Some t \<and> GetChallenge t i (sv_store v) = Some c \<and>
    c_Status c = ChallengeStatusPending \<and> ev_now e 1 < c_ExpiresAt c \<and>
    backoffRemaining c (ev_now e 2) = 0 \<and>
    \<not> fst (fst (Locked (ev_now e 0) (abuseKey t (c_UserID c)) (sv_lockout v))) \<and>
    ReadJSON VerifyRequest_fields \<lparr>vq_Response = []\<rparr> b = Inr req \<and>
    Lookup (registry lib) (c_Method c) = Some ad \<and>
    fst (ad_Verify ad e (sv_store v) c (vq_Response req)) = Inr res \<and> ver_OK res \<and>
    vr_Verified r \<and> vr_AuthenticatorID r = c_AuthenticatorID c \<and>
    GetChallenge t i (sv_store (snd (Verify lib e tenant i b v)))
      = Some (c\<lparr>c_Status := ChallengeStatusCompleted, c_CompletedAt := Some (ev_now e 4)\<rparr>)"
proof (rule Verify_verdict [OF wf rep])
  fix t c req ad res
  assume *: "tenant = Some t" "GetChallenge t i (sv_store v) = Some c"
    "\<not> fst (fst (Locked (ev_now e 0) (abuseKey t (c_UserID c)) (sv_lockout v)))"
    "c_Status c = ChallengeStatusPending" "ev_now e 1 < c_ExpiresAt c" "backoffRemaining c (ev_now e 2) = 0"
    "ReadJSON VerifyRequest_fields \<lparr>vq_Response = []\<rparr> b = Inr req"
    "Lookup (registry lib) (c_Method c) = Some ad"
    "fst (ad_Verify ad e (sv_store v) c (vq_Response req)) = Inr res"
    "GetChallenge t i (sv_store (snd (Verify lib e tenant i b v)))
       = Some (verify_mutator (ver_OK res) (ev_now e 4) c)"
    "StatusOK = (if ver_OK res then StatusOK else StatusUnauthorized)"
    "r = verify_response res (verify_mutator (ver_OK res) (ev_now e 4) c)"
  then have "ver_OK res" by (auto simp: status_defs split: if_splits)
  moreover from this have "vr_Verified r \<and> vr_AuthenticatorID r = c_AuthenticatorID c"
    using *(12) by (simp add: verify_response_def)
  moreover have "verify_mutator True (ev_now e 4) c
      = c\<lparr>c_Status := ChallengeStatusCompleted, c_CompletedAt := Some (ev_now e 4)\<rparr>"
    by (simp add: verify_mutator_def)
  ultimately show ?thesis using * by (intro exI [of _ t] exI [of _ c] exI [of _ req] exI [of _ ad] exI [of _ res]) simp
qed

theorem verified_only_when_allowed_witness:
  "fst (Verify demo_lib (demo_env 20 ''1'') (Some ''t'') ''ch_0'' (demo_body ''000000'') demo_svc)
     = WriteJSON StatusOK (PVerify \<lparr>vr_Verified = True, vr_AuthenticatorID = ''authr_0'', vr_Reason = [], vr_AMR = []\<rparr>) \<and>
   (\<exists>c. GetChallenge ''t'' ''ch_0'' (sv_store demo_svc) = Some c \<and> c_Status c = ChallengeStatusPending)"
proof -
  have rep: "fst (Verify demo_lib (demo_env 20 ''1'') (Some ''t'') ''ch_0'' (demo_body ''000000'') demo_svc)
     = WriteJSON StatusOK (PVerify \<lparr>vr_Verified = True, vr_AuthenticatorID = ''authr_0'', vr_Reason = [], vr_AMR = []\<rparr>)"
    by code_simp
  with verified_only_when_allowed [OF demo_wf rep] show ?thesis by auto
qed


definition demo_guesses :: "authr_event list" where
  "demo_guesses =
     [Request (demo_env (100 * Second) ''1'') (RVerify ''ch_0'' (demo_body ''111111'')) (Some ''t''),
      Request (demo_env (101 * Second) ''1'') (RVerify ''ch_0'' (demo_body ''222222'')) (Some ''t''),
      Sweep (103 * Second),
      Request (demo_env (103 * Second) ''1'') (RVerify ''ch_0'' (demo_body ''222222'')) (Some ''t''),
      Request (demo_env (120 * Second) ''1'') (RVerify ''ch_0'' (demo_body ''333333'')) (Some ''t''),
      Request (demo_env (140 * Second) ''1'') (RVerify ''ch_0'' (demo_body ''000000'')) (Some ''t'')]"



definition demo_gate :: "string \<Rightarrow> gate_request" where
  "demo_gate t = \<lparr>peer_certificates = 0, internal_auth_header = ''s3cret'', tenant_header = t\<rparr>"


text \<open>
  C36. Tenants are isolated: a request that does not carry tenant \<open>t\<close>'s header, through either mount and
  whatever it asks, leaves every challenge and every enrolment that tenant \<open>t\<close> can read as it was.
\<close>

theorem authenticator_service_isolates_tenants:
  assumes "store_wf (sv_store v)" "fresh_ids (ev_uuid e) (sv_store v)" "From r \<noteq> Some t"
  shows "GetChallenge t i (sv_store (snd (Router v1_only secret lib e internal route r v))) = GetChallenge t i (sv_store v) \<and>
    GetAuthenticator t i (sv_store (snd (Router v1_only secret lib e internal route r v))) = GetAuthenticator t i (sv_store v)"
proof (cases rule: Router_cases [of v1_only secret lib e internal route r v])
  case stopped
  then show ?thesis by simp
next
  case (served rt u)
  have "GetChallenge t i (sv_store (snd (tenanted lib e rt (Some u) v))) = GetChallenge t i (sv_store v)"
    using tenanted_row [OF assms(1,2), of "Some u" t i lib rt] served assms(3) by cases auto
  then show ?thesis
    using served assms(3) tenanted_authenticators_foreign [OF assms(1,2), of "Some u" t i lib rt] by simp
qed

theorem authenticator_service_isolates_tenants_witness:
  "GetChallenge ''t'' ''ch_0'' (sv_store (snd (Router [] [] demo_lib (demo_env 20 ''1'') False
      (Some (RVerify ''ch_0'' (demo_body ''000000''))) (demo_gate ''other'') demo_svc))) = Some demo_challenge"
proof -
  have f: "fresh_ids (ev_uuid (demo_env 20 ''1'')) (sv_store demo_svc)" by code_simp
  have c: "GetChallenge ''t'' ''ch_0'' (sv_store demo_svc) = Some demo_challenge" by code_simp
  have "From (demo_gate ''other'') \<noteq> Some ''t''" by (simp add: From_def demo_gate_def)
  from authenticator_service_isolates_tenants [OF demo_wf f this] c show ?thesis by simp
qed

lemma older_trans: "older x y \<Longrightarrow> older y z \<Longrightarrow> older x z"
  by (auto simp: older_def intro: less_trans)

lemma older_total: "\<not> older x y \<Longrightarrow> older x z \<Longrightarrow> older y z"
proof -
  assume xy: "\<not> older x y" and xz: "older x z"
  show "older y z"
  proof (cases "a_CreatedAt x = a_CreatedAt y")
    case True
    with xy have "a_ID y \<le> a_ID x" by (simp add: older_def not_less)
    then have "a_ID x < a_ID z \<Longrightarrow> a_ID y < a_ID z" by (rule le_less_trans)
    with True xz show ?thesis unfolding older_def by fastforce
  next
    case False
    with xy have "a_CreatedAt y < a_CreatedAt x" by (simp add: older_def)
    with xz show ?thesis unfolding older_def by force
  qed
qed

lemma oldest_props:
  "oldest a as \<in> set (a # as) \<and> (\<forall>x\<in>set (a # as). \<not> older x (oldest a as))"
proof (induction as arbitrary: a)
  case Nil
  then show ?case by (simp add: oldest_def older_def)
next
  case (Cons c as)
  have o: "oldest a (c # as) = oldest (if older c a then c else a) as" by (simp add: oldest_def)
  show ?case
  proof (cases "older c a")
    case True
    then have "\<not> older a (oldest c as)" using Cons.IH [of c] older_trans [of c a "oldest c as"] by auto
    with True Cons.IH [of c] show ?thesis by (auto simp: o)
  next
    case False
    then have "\<not> older c (oldest a as)" using Cons.IH [of a] older_total [of c a "oldest a as"] by auto
    with False Cons.IH [of a] show ?thesis by (auto simp: o)
  qed
qed

lemma select_cases:
  "case selectAuthenticator ms active of
     None \<Rightarrow> \<forall>a\<in>set active. a_Method a \<notin> set ms
   | Some (m, a) \<Rightarrow> a \<in> set active \<and> a_Method a = m \<and> m \<in> set ms \<and>
       (\<forall>x\<in>set active. a_Method x \<notin> set (takeWhile (\<lambda>m'. m' \<noteq> m) ms) \<and> (a_Method x = m \<longrightarrow> \<not> older x a))"
proof (induction ms)
  case Nil
  then show ?case by simp
next
  case (Cons m ms)
  show ?case
  proof (cases "filter (\<lambda>a. a_Method a = m) active")
    case Nil
    then have "\<forall>x\<in>set active. a_Method x \<noteq> m" by (simp add: filter_empty_conv)
    with Cons.IH Nil show ?thesis by (auto split: option.splits)
  next
    case (Cons a as)
    have "x \<in> set (a # as) \<longleftrightarrow> x \<in> set active \<and> a_Method x = m" for x
      using Cons [symmetric] by (simp add: conj_commute)
    with oldest_props [of a as] have "oldest a as \<in> set active \<and> a_Method (oldest a as) = m"
      "\<forall>x\<in>set active. a_Method x = m \<longrightarrow> \<not> older x (oldest a as)" by blast+
    with Cons show ?thesis by simp
  qed
qed

text \<open>
  \<open>selectAuthenticator\<close> picks the caller's most preferred method for which the user has an active
  enrolment and, of that method, the oldest one (by creation time, then id); it finds none exactly
  when no active enrolment has a requested method; and the order in which the store lists the
  enrolments makes no difference.
\<close>

theorem select_authenticator_spec:
  assumes ids: "distinct (map a_ID active)"
  shows "(selectAuthenticator ms active = None \<longleftrightarrow> (\<forall>a\<in>set active. a_Method a \<notin> set ms)) \<and>
    (\<forall>m a. selectAuthenticator ms active = Some (m, a) \<longleftrightarrow>
       a \<in> set active \<and> a_Method a = m \<and> m \<in> set ms \<and>
       (\<forall>x\<in>set active. a_Method x \<notin> set (takeWhile (\<lambda>m'. m' \<noteq> m) ms)) \<and>
       (\<forall>x\<in>set active. a_Method x = m \<longrightarrow> x = a \<or> older a x)) \<and>
    (\<forall>active'. mset active' = mset active \<longrightarrow> selectAuthenticator ms active' = selectAuthenticator ms active)"
proof -
  define spec where "spec A m a \<longleftrightarrow> a \<in> A \<and> a_Method a = m \<and> m \<in> set ms \<and>
       (\<forall>x\<in>A. a_Method x \<notin> set (takeWhile (\<lambda>m'. m' \<noteq> m) ms)) \<and>
       (\<forall>x\<in>A. a_Method x = m \<longrightarrow> x = a \<or> older a x)" for A m a
  have tot: "x = y \<or> older x y \<or> older y x" if "x \<in> set active" "y \<in> set active" for x y
  proof -
    have "x = y \<or> a_ID x \<noteq> a_ID y" using ids that by (auto simp: distinct_map dest: inj_onD)
    then show ?thesis unfolding older_def by (metis linorder_neqE)
  qed
  have asym: "older x y \<Longrightarrow> \<not> older y x" for x y by (auto simp: older_def)
  have first: "m = m'" if "m \<in> set ms" "m' \<in> set ms" "m' \<notin> set (takeWhile (\<lambda>k. k \<noteq> m) ms)"
    "m \<notin> set (takeWhile (\<lambda>k. k \<noteq> m') ms)" for m m' :: string
    using that by (induction ms) (auto split: if_splits)
  have uniq: "m = m' \<and> a = a'" if "spec (set active) m a" "spec (set active) m' a'" for m a m' a'
    using that first [of m m'] asym unfolding spec_def by metis
  have sound: "spec (set active) m a" if "set as = set active" "selectAuthenticator ms as = Some (m, a)" for as m a
    using select_cases [where ms = ms and active = as] that tot unfolding spec_def by (auto split: option.splits)
  have none: "selectAuthenticator ms as = None \<longleftrightarrow> (\<forall>a\<in>set active. a_Method a \<notin> set ms)"
    if "set as = set active" for as
    using select_cases [where ms = ms and active = as] that by (cases "selectAuthenticator ms as") auto
  have iff: "selectAuthenticator ms as = Some (m, a) \<longleftrightarrow> spec (set active) m a" if "set as = set active" for as m a
  proof (cases "selectAuthenticator ms as")
    case None
    then show ?thesis using none [OF that] unfolding spec_def by auto
  next
    case (Some ma)
    then show ?thesis using sound [OF that] uniq by (cases ma) auto
  qed
  have same: "selectAuthenticator ms as = selectAuthenticator ms active" if "set as = set active" for as
    using iff [OF that] iff [OF refl] by (metis not_Some_eq surj_pair)
  show ?thesis
    by (intro conjI allI impI none [OF refl] iff [OF refl, unfolded spec_def] same mset_eq_setD)
qed

theorem select_authenticator_spec_witness:
  "selectAuthenticator [''sms'', ''totp''] [demo_authenticator\<lparr>a_ID := ''authr_1''\<rparr>, demo_authenticator]
     = Some (''totp'', demo_authenticator) \<and>
   selectAuthenticator [''sms'', ''totp''] [demo_authenticator, demo_authenticator\<lparr>a_ID := ''authr_1''\<rparr>]
     = selectAuthenticator [''sms'', ''totp''] [demo_authenticator\<lparr>a_ID := ''authr_1''\<rparr>, demo_authenticator]"
proof -
  let ?as = "[demo_authenticator\<lparr>a_ID := ''authr_1''\<rparr>, demo_authenticator]"
  have "distinct (map a_ID ?as)" by (simp add: demo_authenticator_def)
  from select_authenticator_spec [OF this, of "[''sms'', ''totp'']"]
  have "selectAuthenticator [''sms'', ''totp''] (rev ?as) = selectAuthenticator [''sms'', ''totp''] ?as"
    by (metis mset_rev)
  moreover have "selectAuthenticator [''sms'', ''totp''] ?as = Some (''totp'', demo_authenticator)" by code_simp
  ultimately show ?thesis by simp
qed

text \<open>
  The sweeper removes exactly the challenges that are marked expired or are pending past their
  expiry, and none of those could be verified any more: a later verification of it, had it stayed,
  would have been turned away before the adapter.
\<close>

theorem purge_removes_only_dead_challenges:
  assumes wf: "store_wf s" and c: "GetChallenge t i s = Some c"
  shows "(GetChallenge t i (snd (PurgeExpired now s)) = None \<longleftrightarrow> purgeable now c) \<and>
    (\<not> purgeable now c \<longrightarrow> GetChallenge t i (snd (PurgeExpired now s)) = Some c) \<and>
    (purgeable now c \<longrightarrow> (\<forall>lib e b v. sv_store v = s \<and> now \<le> ev_now e 1 \<longrightarrow>
       (\<exists>rep. fst (verify_admit lib e (Some t) i b v) = Inl rep)))"
proof -
  have "\<exists>rep. fst (verify_admit lib e (Some t) i b v) = Inl rep"
    if p: "purgeable now c" and v: "sv_store v = s" "now \<le> ev_now e 1" for lib e b v
  proof (cases "verify_admit lib e (Some t) i b v")
    case (Pair out v')
    show ?thesis
    proof (cases out)
      case (Inr adm)
      note A = verify_admit_Inr [OF Pair [unfolded Inr]]
      then have "c_Status c = ChallengeStatusPending" "ev_now e 1 < c_ExpiresAt c" using c v(1) by auto
      with p v(2) show ?thesis by (auto simp: purgeable_def)
    qed (simp add: Pair)
  qed
  then show ?thesis using wf c by (auto simp: GetChallenge_purge)
qed

theorem purge_removes_only_dead_challenges_witness:
  "GetChallenge ''t'' ''ch_0'' (snd (PurgeExpired (10 + ChallengeTTL) (sv_store demo_svc))) = None \<and>
   GetChallenge ''t'' ''ch_0'' (snd (PurgeExpired (9 + ChallengeTTL) (sv_store demo_svc))) = Some demo_challenge"
proof -
  have c: "GetChallenge ''t'' ''ch_0'' (sv_store demo_svc) = Some demo_challenge" by code_simp
  have "purgeable (10 + ChallengeTTL) demo_challenge" "\<not> purgeable (9 + ChallengeTTL) demo_challenge"
    by (simp_all add: purgeable_def demo_challenge_def new_challenge_def)
  then show ?thesis using purge_removes_only_dead_challenges [OF demo_wf c] by auto
qed

lemma Create_locked:
  assumes "fst (fst (Locked (ev_now e 0) (abuseKey t (chq_UserID req)) (sv_lockout v)))"
    and "ReadJSON ChallengeRequest_fields \<lparr>chq_UserID = [], chq_Methods = []\<rparr> b = Inr req"
  shows "sv_store (snd (Create lib e (Some t) b v)) = sv_store v \<and>
    sv_create (snd (Create lib e (Some t) b v)) = sv_create v \<and>
    status (fst (Create lib e (Some t) b v)) \<in> {400, 423}"
proof -
  obtain wt lo where L: "Locked (ev_now e 0) (abuseKey t (chq_UserID req)) (sv_lockout v) = ((True, wt), lo)"
    using assms(1) by (metis (full_types) prod.collapse)
  with assms(2) show ?thesis
    unfolding Create_def Let_def by (auto simp: reply_defs status_defs split: option.splits)
qed

lemma Verify_locked:
  assumes "fst (fst (Locked (ev_now e 0) (abuseKey t (c_UserID c)) (sv_lockout v)))"
    and "GetChallenge t i (sv_store v) = Some c"
  shows "sv_store (snd (Verify lib e (Some t) i b v)) = sv_store v \<and>
    status (fst (Verify lib e (Some t) i b v)) \<in> {400, 423, 500}"
proof -
  obtain wt lo where L: "Locked (ev_now e 0) (abuseKey t (c_UserID c)) (sv_lockout v) = ((True, wt), lo)"
    using assms(1) by (metis (full_types) prod.collapse)
  have "\<exists>rep w. verify_admit lib e (Some t) i b v = (Inl rep, w) \<and> sv_store w = sv_store v \<and> status rep \<in> {400, 423, 500}"
    using assms(2) L by (cases "ev_fails e OpGetChallenge")
      (auto simp: verify_admit_def reply_defs status_defs Let_def split: sum.splits)
  then show ?thesis by (auto simp: Verify_def)
qed

text \<open>
  A locked-out user is stopped first: while the lock on a tenant's user lasts, neither creating a
  challenge for that user nor verifying one of theirs runs an adapter, spends an attempt or a slot of
  the creation limit, or changes the store; a well-formed request is answered 423.
\<close>

theorem lockout_stops_requests:
  assumes locked: "fst (fst (Locked (ev_now e 0) (abuseKey t u) (sv_lockout v)))"
  shows "(\<forall>req. ReadJSON ChallengeRequest_fields \<lparr>chq_UserID = [], chq_Methods = []\<rparr> b = Inr req \<and>
       chq_UserID req = u \<longrightarrow>
       sv_store (snd (Create lib e (Some t) b v)) = sv_store v \<and>
       sv_create (snd (Create lib e (Some t) b v)) = sv_create v \<and>
       status (fst (Create lib e (Some t) b v)) \<in> {400, 423}) \<and>
    (\<forall>i c. GetChallenge t i (sv_store v) = Some c \<and> c_UserID c = u \<longrightarrow>
       sv_store (snd (Verify lib e (Some t) i b v)) = sv_store v \<and>
       status (fst (Verify lib e (Some t) i b v)) \<in> {400, 423, 500})"
  using locked Create_locked [of e t _ v b lib] Verify_locked [of e t _ v _ lib b] by blast

theorem lockout_stops_requests_witness:
  "status (fst (Verify demo_lib (demo_env 20 ''1'') (Some ''t'') ''ch_0'' (demo_body ''000000'')
     (demo_svc\<lparr>sv_lockout := map_option (lock 15 ''t|u'' 10) (sv_lockout demo_svc)\<rparr>))) = 423 \<and>
   sv_store (snd (Verify demo_lib (demo_env 20 ''1'') (Some ''t'') ''ch_0'' (demo_body ''000000'')
     (demo_svc\<lparr>sv_lockout := map_option (lock 15 ''t|u'' 10) (sv_lockout demo_svc)\<rparr>))) = sv_store demo_svc"
proof -
  let ?v = "demo_svc\<lparr>sv_lockout := map_option (lock 15 ''t|u'' 10) (sv_lockout demo_svc)\<rparr>"
  have l: "fst (fst (Locked (ev_now (demo_env 20 ''1'') 0) (abuseKey ''t'' ''u'') (sv_lockout ?v)))" by code_simp
  have c: "GetChallenge ''t'' ''ch_0'' (sv_store ?v) = Some demo_challenge" "c_UserID demo_challenge = ''u''"
    by code_simp+
  have "status (fst (Verify demo_lib (demo_env 20 ''1'') (Some ''t'') ''ch_0'' (demo_body ''000000'') ?v)) = 423"
    by code_simp
  then show ?thesis
    using lockout_stops_requests [OF l, of "demo_body ''000000''" demo_lib] c by simp
qed

section \<open>Overlapping verifications\<close>

text \<open>Admitted requests commit one after the other, each with its adapter's result.\<close>

definition commits :: "authr_env \<Rightarrow> string \<Rightarrow> admitted \<Rightarrow> VerifyResult list \<Rightarrow> authr_svc \<Rightarrow> authr_svc" where
  "commits e i adm rs v = fold (\<lambda>res v. snd (verify_commit e i adm res v)) rs v"

lemma commits_simps [simp]:
  "commits e i adm [] v = v"
  "commits e i adm (res # rs) v = commits e i adm rs (snd (verify_commit e i adm res v))"
  by (simp_all add: commits_def)

lemma commits_failures:
  assumes "store_wf (sv_store v)" "GetChallenge (ad_tenantID adm) i (sv_store v) = Some c"
    and "\<not> ev_fails e OpUpdateChallenge" "\<not> ver_OK wrong"
  shows "store_wf (sv_store (commits e i adm (replicate n wrong) v)) \<and>
    (\<exists>c'. GetChallenge (ad_tenantID adm) i (sv_store (commits e i adm (replicate n wrong) v)) = Some c' \<and>
      c_Attempts c' = c_Attempts c + int n \<and> c_AuthenticatorID c' = c_AuthenticatorID c \<and>
      (0 < n \<and> MaxChallengeAttempts \<le> c_Attempts c + int n \<longrightarrow> c_Status c' = ChallengeStatusFailed))"
  using assms(1,2)
proof (induction n arbitrary: v c)
  case 0
  then show ?case by simp
next
  case (Suc n)
  let ?c = "verify_mutator False (ev_now e 4) c"
  let ?v = "snd (verify_commit e i adm wrong v)"
  note C = verify_commit_ok [OF Suc.prems assms(3), of wrong]
  have f: "c_ID c = i" "c_TenantID c = ad_tenantID adm"
    using GetChallenge_id [OF Suc.prems] challenges.get_tenant [OF Suc.prems(2)] by auto
  have wf: "store_wf (sv_store ?v)" using Suc.prems(1) assms(4) by (auto simp: C)
  have c: "GetChallenge (ad_tenantID adm) i (sv_store ?v) = Some ?c"
    using assms(4) f by (simp add: C challenges.get_put)
  show ?case using Suc.IH [OF wf c] c wf by (cases "n = 0") auto
qed

text \<open>
  The limit on guesses is only checked at admission.  Verifications of one challenge that were
  all admitted before any of them committed are all committed: after \<open>n\<close> wrong ones the row counts
  \<open>n\<close> more attempts, whatever \<open>MaxChallengeAttempts\<close> says, and a right one among them is still
  answered as verified and turns the failed challenge into a completed one.
\<close>

theorem overlapping_verifications_are_not_rechecked:
  assumes wf: "store_wf (sv_store v)" and c: "GetChallenge (ad_tenantID adm) i (sv_store v) = Some c"
    and ok: "\<not> ev_fails e OpUpdateChallenge" and wrong: "\<not> ver_OK wrong" and right: "ver_OK right"
    and many: "0 < n" "MaxChallengeAttempts \<le> c_Attempts c + int n"
  defines "v' \<equiv> commits e i adm (replicate n wrong) v"
  shows "\<exists>c'. GetChallenge (ad_tenantID adm) i (sv_store v') = Some c' \<and>
      c_Attempts c' = c_Attempts c + int n \<and> c_Status c' = ChallengeStatusFailed \<and>
      fst (verify_commit e i adm right v') = WriteJSON StatusOK (PVerify
        \<lparr>vr_Verified = True, vr_AuthenticatorID = c_AuthenticatorID c, vr_Reason = [], vr_AMR = ver_AMR right\<rparr>) \<and>
      GetChallenge (ad_tenantID adm) i (sv_store (snd (verify_commit e i adm right v')))
        = Some (c'\<lparr>c_Status := ChallengeStatusCompleted, c_CompletedAt := Some (ev_now e 4)\<rparr>)"
proof -
  obtain c' where wf': "store_wf (sv_store v')" and c': "GetChallenge (ad_tenantID adm) i (sv_store v') = Some c'"
    and f: "c_Attempts c' = c_Attempts c + int n" "c_AuthenticatorID c' = c_AuthenticatorID c"
      "c_Status c' = ChallengeStatusFailed"
    using commits_failures [OF wf c ok wrong, of n] many unfolding v'_def by auto
  have "c_ID c' = i" "c_TenantID c' = ad_tenantID adm"
    using GetChallenge_id [OF wf' c'] challenges.get_tenant [OF c'] by auto
  moreover have "verify_mutator True t c' = c'\<lparr>c_Status := ChallengeStatusCompleted, c_CompletedAt := Some t\<rparr>" for t
    by (simp add: verify_mutator_def)
  ultimately show ?thesis
    using c' f right by (auto simp: verify_commit_ok [OF wf' c' ok] verify_response_def challenges.get_put)
qed

definition demo_admitted :: admitted where
  "demo_admitted = \<lparr>ad_tenantID = ''t'', ad_chal = demo_challenge, ad_response = []\<rparr>"

text \<open>Five empty responses are admitted at once; four fail and the fifth, say, would be right.\<close>

theorem overlapping_verifications_are_not_rechecked_witness:
  "verify_admit demo_lib (demo_env 20 ''1'') (Some ''t'') ''ch_0'' (Body (JObj []) 2) demo_svc
     = (Inr demo_admitted, demo_svc) \<and>
   (\<exists>c'. GetChallenge ''t'' ''ch_0'' (sv_store (commits (demo_env 20 ''1'') ''ch_0'' demo_admitted
       (replicate 4 \<lparr>ver_OK = False, ver_AMR = []\<rparr>) demo_svc)) = Some c' \<and> c_Attempts c' = 4)"
proof
  show "verify_admit demo_lib (demo_env 20 ''1'') (Some ''t'') ''ch_0'' (Body (JObj []) 2) demo_svc
     = (Inr demo_admitted, demo_svc)" by code_simp
  have c: "GetChallenge (ad_tenantID demo_admitted) ''ch_0'' (sv_store demo_svc) = Some demo_challenge" by code_simp
  have a: "c_Attempts demo_challenge = 0" "ad_tenantID demo_admitted = ''t''"
    by (simp_all add: demo_challenge_def new_challenge_def demo_admitted_def)
  show "\<exists>c'. GetChallenge ''t'' ''ch_0'' (sv_store (commits (demo_env 20 ''1'') ''ch_0'' demo_admitted
       (replicate 4 \<lparr>ver_OK = False, ver_AMR = []\<rparr>) demo_svc)) = Some c' \<and> c_Attempts c' = 4"
    using overlapping_verifications_are_not_rechecked [OF demo_wf c, of "demo_env 20 ''1''"
        "\<lparr>ver_OK = False, ver_AMR = []\<rparr>" "\<lparr>ver_OK = True, ver_AMR = []\<rparr>" 4] a
    by (auto simp: demo_env_def MaxChallengeAttempts_def)
qed

end
