(* ===== verification/RiskModel.thy ===== *)
theory RiskModel
  imports XWire
begin

text \<open>
  The records of risk-service and its in-memory storage (models.go, storage.go): evaluations,
  policies, the posture a CAEP event leaves behind and completed transactions.  Evaluations and
  policies implement the tenant-scoped row store, policies also the newest-first listing.
\<close>

section \<open>Tiers and sensitivities\<close>

definition TierLow :: string where "TierLow = ''low''"
definition TierMedium :: string where "TierMedium = ''medium''"
definition TierHigh :: string where "TierHigh = ''high''"

definition DecisionAllow :: string where "DecisionAllow = ''allow''"
definition DecisionDeny :: string where "DecisionDeny = ''deny''"

definition SensitivityLow :: string where "SensitivityLow = ''low''"
definition SensitivityMedium :: string where "SensitivityMedium = ''medium''"
definition SensitivityHigh :: string where "SensitivityHigh = ''high''"

lemmas tier_defs = TierLow_def TierMedium_def TierHigh_def
lemmas sensitivity_defs = SensitivityLow_def SensitivityMedium_def SensitivityHigh_def

text \<open>Scores are exact rationals; the constants are the decimals of the source.\<close>

definition TierLowMax :: rat where "TierLowMax = 35 / 100"
definition TierMediumMax :: rat where "TierMediumMax = 70 / 100"

definition WeightDevice :: rat where "WeightDevice = 25 / 100"
definition WeightBehavior :: rat where "WeightBehavior = 20 / 100"
definition WeightNetwork :: rat where "WeightNetwork = 30 / 100"
definition WeightUser :: rat where "WeightUser = 25 / 100"

definition SensitivityMultLow :: rat where "SensitivityMultLow = 1"
definition SensitivityMultMedium :: rat where "SensitivityMultMedium = 115 / 100"
definition SensitivityMultHigh :: rat where "SensitivityMultHigh = 130 / 100"

lemmas risk_constants = TierLowMax_def TierMediumMax_def WeightDevice_def WeightBehavior_def
  WeightNetwork_def WeightUser_def SensitivityMultLow_def SensitivityMultMedium_def
  SensitivityMultHigh_def

definition ValidTier :: "string \<Rightarrow> bool" where
  "ValidTier s \<longleftrightarrow> s = TierLow \<or> s = TierMedium \<or> s = TierHigh"

definition ValidSensitivity :: "string \<Rightarrow> bool" where
  "ValidSensitivity s \<longleftrightarrow> s = SensitivityLow \<or> s = SensitivityMedium \<or> s = SensitivityHigh"

definition tierRank :: "string \<Rightarrow> int" where
  "tierRank t = (if t = TierHigh then 3 else if t = TierMedium then 2 else if t = TierLow then 1 else 0)"

section \<open>Records\<close>

record EvaluateCtx =
  ec_DeviceFingerprint :: string
  ec_IPAddress :: string
  ec_Country :: string
  ec_UserAgent :: string

record EvaluateRequest =
  er_UserID :: string
  er_SessionID :: string
  er_Action :: string
  er_Resource :: string
  er_ResourceSensitivity :: string
  er_Context :: EvaluateCtx
  er_Signals :: "(string \<times> json) list"

record ScorerResult =
  sc_Score :: rat
  sc_Flags :: "string list"

record SignalsBreakdown =
  sb_Device :: ScorerResult
  sb_Behavior :: ScorerResult
  sb_Network :: ScorerResult
  sb_User :: ScorerResult

record RiskEvaluation =
  re_ID :: string
  re_TenantID :: string
  re_UserID :: string
  re_SessionID :: string
  re_Action :: string
  re_Resource :: string
  re_ResourceSensitivity :: string
  re_Tier :: string
  re_Score :: rat
  re_Signals :: SignalsBreakdown
  re_Flags :: "string list"
  re_PolicyDecision :: string
  re_MatchedPolicies :: "string list"
  re_CreatedAt :: time

record PolicyCondition =
  pc_Field :: string
  pc_Op :: string
  pc_Value :: json

record PolicyAction =
  pa_TierFloor :: string
  pa_Deny :: bool

record PolicyRule =
  pr_Condition :: PolicyCondition
  pr_Action :: PolicyAction

record Policy =
  p_ID :: string
  p_TenantID :: string
  p_Name :: string
  p_Rules :: "PolicyRule list"
  p_CreatedAt :: time
  p_UpdatedAt :: time

record CreatePolicyRequest =
  cp_Name :: string
  cp_Rules :: "PolicyRule list"

record UpdatePolicyRequest =
  up_Name :: "string option"
  up_Rules :: "PolicyRule list option"

definition MaxNameLen :: nat where "MaxNameLen = 100"
definition MaxRulesPerPolicy :: nat where "MaxRulesPerPolicy = 50"
definition DefaultListLimit :: int where "DefaultListLimit = 100"
definition MaxListLimit :: int where "MaxListLimit = 500"

record CAEPEvent =
  ce_ID :: string
  ce_TenantID :: string
  ce_SubjectUserID :: string
  ce_SubjectSessionID :: string
  ce_EventType :: string
  ce_Payload :: "(string \<times> json) list"
  ce_ReceivedAt :: time

record AssuranceState =
  as_TenantID :: string
  as_UserID :: string
  as_Level :: string
  as_Compliant :: bool
  as_UpdatedAt :: time

record TransactionCompletion =
  tc_TransactionID :: string
  tc_TenantID :: string
  tc_UserID :: string
  tc_ACR :: string
  tc_Rank :: int
  tc_CompletedAt :: time

section \<open>Storage\<close>

record risk_store =
  rk_evaluations :: "RiskEvaluation table"
  rk_policies :: "Policy table"
  rk_caepEvents :: "CAEPEvent list"
  rk_assurance :: "AssuranceState table"
  rk_txnDone :: "TransactionCompletion table"

definition NewMemStorage :: risk_store where
  "NewMemStorage = \<lparr>rk_evaluations = [], rk_policies = [], rk_caepEvents = [], rk_assurance = [], rk_txnDone = []\<rparr>"

definition RecordCAEPEvent :: "CAEPEvent \<Rightarrow> risk_store \<Rightarrow> risk_store" where
  "RecordCAEPEvent e s = s\<lparr>rk_caepEvents := rk_caepEvents s @ [e]\<rparr>"

definition UpsertAssurance :: "AssuranceState \<Rightarrow> risk_store \<Rightarrow> risk_store" where
  "UpsertAssurance a s = s\<lparr>rk_assurance := tab_put (as_TenantID a @ ''|'' @ as_UserID a) a (rk_assurance s)\<rparr>"

definition GetAssurance :: "string \<Rightarrow> string \<Rightarrow> risk_store \<Rightarrow> AssuranceState option" where
  "GetAssurance tenantID userID s = tab_get (rk_assurance s) (tenantID @ ''|'' @ userID)"

definition RecordTransactionCompletion :: "TransactionCompletion \<Rightarrow> risk_store \<Rightarrow> risk_store" where
  "RecordTransactionCompletion tc s =
     s\<lparr>rk_txnDone := tab_put (tc_TenantID tc @ ''|'' @ tc_TransactionID tc) tc (rk_txnDone s)\<rparr>"

definition GetTransactionCompletion :: "string \<Rightarrow> string \<Rightarrow> risk_store \<Rightarrow> TransactionCompletion option" where
  "GetTransactionCompletion tenantID transactionID s = tab_get (rk_txnDone s) (tenantID @ ''|'' @ transactionID)"

definition PutEvaluation :: "RiskEvaluation \<Rightarrow> risk_store \<Rightarrow> risk_store" where
  "PutEvaluation e s = s\<lparr>rk_evaluations := tab_put (re_ID e) e (rk_evaluations s)\<rparr>"

definition GetEvaluation :: "string \<Rightarrow> string \<Rightarrow> risk_store \<Rightarrow> RiskEvaluation option" where
  "GetEvaluation tenantID rid s =
     (case tab_get (rk_evaluations s) rid of
        None \<Rightarrow> None
      | Some e \<Rightarrow> if re_TenantID e \<noteq> tenantID then None else Some e)"

definition UserHasPriorEvaluation :: "string \<Rightarrow> string \<Rightarrow> risk_store \<Rightarrow> bool" where
  "UserHasPriorEvaluation tenantID userID s =
     list_ex (\<lambda>e. re_TenantID e = tenantID \<and> re_UserID e = userID) (tab_rows (rk_evaluations s))"

definition CreatePolicy :: "Policy \<Rightarrow> risk_store \<Rightarrow> risk_store" where
  "CreatePolicy p s = s\<lparr>rk_policies := tab_put (p_ID p) p (rk_policies s)\<rparr>"

definition GetPolicy :: "string \<Rightarrow> string \<Rightarrow> risk_store \<Rightarrow> Policy option" where
  "GetPolicy tenantID rid s =
     (case tab_get (rk_policies s) rid of
        None \<Rightarrow> None
      | Some p \<Rightarrow> if p_TenantID p \<noteq> tenantID then None else Some p)"

definition policy_before :: "Policy \<Rightarrow> Policy \<Rightarrow> bool" where
  "policy_before a b = (if p_CreatedAt a = p_CreatedAt b then p_ID b < p_ID a else p_CreatedAt b < p_CreatedAt a)"

definition ListPolicies :: "string \<Rightarrow> int \<Rightarrow> time \<Rightarrow> risk_store \<Rightarrow> Policy list" where
  "ListPolicies tenantID limit cursor s =
     cut_page limit (sort_slice policy_before
       (filter (\<lambda>p. p_TenantID p = tenantID \<and> after_cursor cursor (p_CreatedAt p)) (tab_rows (rk_policies s))))"

definition UpdatePolicy :: "time \<Rightarrow> Policy \<Rightarrow> risk_store \<Rightarrow> (Policy \<times> risk_store) option" where
  "UpdatePolicy now p s =
     (case tab_get (rk_policies s) (p_ID p) of
        None \<Rightarrow> None
      | Some existing \<Rightarrow>
          if p_TenantID existing \<noteq> p_TenantID p then None
          else let p' = p\<lparr>p_CreatedAt := p_CreatedAt existing, p_UpdatedAt := now\<rparr>
               in Some (p', s\<lparr>rk_policies := tab_put (p_ID p) p' (rk_policies s)\<rparr>))"

definition DeletePolicy :: "string \<Rightarrow> string \<Rightarrow> risk_store \<Rightarrow> risk_store option" where
  "DeletePolicy tenantID rid s =
     (case tab_get (rk_policies s) rid of
        None \<Rightarrow> None
      | Some p \<Rightarrow> if p_TenantID p \<noteq> tenantID then None
                  else Some (s\<lparr>rk_policies := tab_del rid (rk_policies s)\<rparr>))"

definition risk_wf :: "risk_store \<Rightarrow> bool" where
  "risk_wf s \<longleftrightarrow> tab_wf re_ID (rk_evaluations s) \<and> tab_wf p_ID (rk_policies s)"

section \<open>The stores implement the shared interfaces\<close>

interpretation evaluations: tenant_rows re_ID re_TenantID PutEvaluation GetEvaluation
  by unfold_locales
    (auto simp: PutEvaluation_def GetEvaluation_def table_simps split: option.splits if_splits)

interpretation policies: tenant_rows_update p_ID p_TenantID CreatePolicy GetPolicy "UpdatePolicy now"
    "\<lambda>old p. p\<lparr>p_CreatedAt := p_CreatedAt old, p_UpdatedAt := now\<rparr>"
  for now
  by unfold_locales
    (auto simp: CreatePolicy_def GetPolicy_def UpdatePolicy_def Let_def table_simps split: option.splits if_splits)

interpretation policy_pages: keyset_listing p_ID policy_before p_CreatedAt
  by unfold_locales (auto simp: policy_before_def split: if_splits)

lemma GetPolicy_id: "risk_wf s \<Longrightarrow> GetPolicy t i s = Some p \<Longrightarrow> p_ID p = i"
  by (auto simp: risk_wf_def GetPolicy_def tab_wf_get split: option.splits if_splits)

lemma risk_wf_New [simp]: "risk_wf NewMemStorage"
  by (simp add: risk_wf_def NewMemStorage_def)

lemma risk_wf_updates:
  "risk_wf s \<Longrightarrow> risk_wf (PutEvaluation e s)"
  "risk_wf s \<Longrightarrow> risk_wf (CreatePolicy p s)"
  "risk_wf s \<Longrightarrow> UpdatePolicy now p s = Some (p', s') \<Longrightarrow> risk_wf s'"
  "risk_wf s \<Longrightarrow> DeletePolicy t i s = Some s' \<Longrightarrow> risk_wf s'"
  by (auto simp: risk_wf_def PutEvaluation_def CreatePolicy_def UpdatePolicy_def DeletePolicy_def Let_def
      intro!: tab_wf_put tab_wf_del split: option.splits if_splits)

lemma ListPolicies_all:
  assumes "risk_wf s"
  shows "set (ListPolicies t 0 0 s) = {p \<in> set (tab_rows (rk_policies s)). p_TenantID p = t}"
  by (auto simp: ListPolicies_def cut_page_def after_cursor_def IsZero_def)

end
