(* ===== verification/RiskEngine.thy ===== *)
theory RiskEngine
  imports RiskModel
begin

text \<open>
  The scoring pipeline and the policy engine of risk-service (scorers.go, aggregator.go, policy.go):
  the four scorers, the weighted aggregate with the sensitivity overlay, the tier it derives, rule
  matching, the policy overlay and rule validation.  The theorems bound what a score can be, show
  that rounding cannot move it across a threshold, and relate the overlay to its specification.
\<close>

section \<open>Scorers\<close>

definition clamp01 :: "rat \<Rightarrow> rat" where
  "clamp01 x = (if x < 0 then 0 else if 1 < x then 1 else x)"

definition DeviceScorer :: "EvaluateRequest \<Rightarrow> ScorerResult" where
  "DeviceScorer req =
     (let fp = TrimSpace (ec_DeviceFingerprint (er_Context req))
      in if fp = [] then \<lparr>sc_Score = 5 / 10, sc_Flags = [''no_fingerprint'']\<rparr>
         else if starts_with fp ''fp_known_'' then \<lparr>sc_Score = 2 / 10, sc_Flags = []\<rparr>
         else \<lparr>sc_Score = 5 / 10, sc_Flags = [''unknown_device'']\<rparr>)"

text \<open>\<open>time.Time.Hour\<close> of a UTC instant.\<close>

definition hour_of :: "time \<Rightarrow> int" where
  "hour_of now = now div Hour mod 24"

definition highVelocityStub :: bool where "highVelocityStub = False"

definition BehaviorScorer :: "time \<Rightarrow> ScorerResult" where
  "BehaviorScorer now =
     (let score = 1 / 10; flags = [];
          hour = hour_of now;
          (score, flags) = (if hour < 6 \<or> 22 < hour then (score + 5 / 10, flags @ [''unusual_time'']) else (score, flags));
          (score, flags) = (if highVelocityStub then (score + 3 / 10, flags @ [''high_velocity'']) else (score, flags))
      in \<lparr>sc_Score = clamp01 score, sc_Flags = flags\<rparr>)"

definition NetworkScorer :: "EvaluateRequest \<Rightarrow> ScorerResult" where
  "NetworkScorer req =
     (let score = 1 / 10; flags = [];
          ip = TrimSpace (ec_IPAddress (er_Context req));
          (score, flags) = (if starts_with ip ''203.0.113.'' then (score + 4 / 10, flags @ [''flagged_ip'']) else (score, flags));
          (score, flags) = (if ends_with ip ''.100'' then (score + 3 / 10, flags @ [''vpn_detected'']) else (score, flags))
      in \<lparr>sc_Score = clamp01 score, sc_Flags = flags\<rparr>)"

text \<open>
  \<open>strings.ToLower\<close> also folds letters beyond ASCII, but to none of the letters of the two
  namespaces, so lowering the ASCII letters decides the test.
\<close>

definition isHighValueAction :: "string \<Rightarrow> bool" where
  "isHighValueAction action =
     (let a = map lower_char action in has_substring a ''transfer.'' \<or> has_substring a ''payment.'')"

definition UserScorer :: "EvaluateRequest \<Rightarrow> string \<Rightarrow> risk_store \<Rightarrow> ScorerResult" where
  "UserScorer req tenantID store =
     (let score = 2 / 10; flags = [];
          (score, flags) =
            (if isHighValueAction (er_Action req) then
               (if tenantID \<noteq> [] \<and> er_UserID req \<noteq> [] \<and> \<not> UserHasPriorEvaluation tenantID (er_UserID req) store
                then (score + 3 / 10, flags @ [''first_high_value_action'']) else (score, flags))
             else (score, flags))
      in \<lparr>sc_Score = clamp01 score, sc_Flags = flags\<rparr>)"

section \<open>Aggregation\<close>

definition applySensitivity :: "rat \<Rightarrow> string \<Rightarrow> rat" where
  "applySensitivity score level =
     (let m = (if level = SensitivityLow then SensitivityMultLow
               else if level = SensitivityMedium then SensitivityMultMedium
               else if level = SensitivityHigh then SensitivityMultHigh
               else SensitivityMultLow)
      in clamp01 (score * m))"

definition Aggregate :: "EvaluateRequest \<Rightarrow> string \<Rightarrow> risk_store \<Rightarrow> time \<Rightarrow> SignalsBreakdown \<times> rat" where
  "Aggregate req tenantID store now =
     (let signals = \<lparr>sb_Device = DeviceScorer req, sb_Behavior = BehaviorScorer now,
                     sb_Network = NetworkScorer req, sb_User = UserScorer req tenantID store\<rparr>;
          weighted = sc_Score (sb_Device signals) * WeightDevice + sc_Score (sb_Behavior signals) * WeightBehavior +
                     sc_Score (sb_Network signals) * WeightNetwork + sc_Score (sb_User signals) * WeightUser;
          weighted = clamp01 weighted;
          weighted = applySensitivity weighted (er_ResourceSensitivity req)
      in (signals, weighted))"

definition DeriveTier :: "rat \<Rightarrow> string" where
  "DeriveTier score =
     (if score < TierLowMax then TierLow else if score \<le> TierMediumMax then TierMedium else TierHigh)"

definition collectFlags :: "SignalsBreakdown \<Rightarrow> string list" where
  "collectFlags s = sc_Flags (sb_Device s) @ sc_Flags (sb_Behavior s) @ sc_Flags (sb_Network s) @ sc_Flags (sb_User s)"

section \<open>Policy rules\<close>

definition FieldAction :: string where "FieldAction = ''action''"
definition FieldResource :: string where "FieldResource = ''resource''"
definition FieldResourceSensitivity :: string where "FieldResourceSensitivity = ''resource_sensitivity''"
definition FieldUserID :: string where "FieldUserID = ''user_id''"
definition FieldContextIPAddress :: string where "FieldContextIPAddress = ''context.ip_address''"
definition FieldContextCountry :: string where "FieldContextCountry = ''context.country''"

definition OpEq :: string where "OpEq = ''eq''"
definition OpIn :: string where "OpIn = ''in''"
definition OpGt :: string where "OpGt = ''gt''"
definition OpContains :: string where "OpContains = ''contains''"

lemmas field_defs = FieldAction_def FieldResource_def FieldResourceSensitivity_def FieldUserID_def
  FieldContextIPAddress_def FieldContextCountry_def
lemmas op_defs = OpEq_def OpIn_def OpGt_def OpContains_def

text \<open>\<open>fmt.Sprintf("%v", v)\<close> of a decoded JSON value; maps print with their keys sorted.\<close>

definition go_map :: "(string \<times> 'v) list \<Rightarrow> (string \<times> 'v) list" where
  "go_map ms = fold (\<lambda>(k, v) m. AList.update k v m) ms []"

fun sprint_v :: "json \<Rightarrow> string" where
  "sprint_v JNull = ''<nil>''"
| "sprint_v (JBool b) = (if b then ''true'' else ''false'')"
| "sprint_v (JNum r txt) = txt"
| "sprint_v (JStr s) = s"
| "sprint_v (JArr js) = ''['' @ join '' '' (map sprint_v js) @ '']''"
| "sprint_v (JObj ms) =
     ''map['' @ join '' '' (map (\<lambda>(k, s). k @ '':'' @ s)
        (sort_key fst (go_map (map (\<lambda>(k, j). (k, sprint_v j)) ms)))) @ '']''"

fun toNumber :: "json \<Rightarrow> rat option" where
  "toNumber (JNum r txt) = Some r"
| "toNumber _ = None"

definition equalAny :: "json \<Rightarrow> json \<Rightarrow> bool" where
  "equalAny a b =
     (if a = JNull \<or> b = JNull then a = JNull \<and> b = JNull
      else case (a, b) of
        (JStr sa, JStr sb) \<Rightarrow> sa = sb
      | _ \<Rightarrow> (case (toNumber a, toNumber b) of
               (Some na, Some nb) \<Rightarrow> na = nb
             | _ \<Rightarrow> sprint_v a = sprint_v b))"

definition inList :: "json \<Rightarrow> json \<Rightarrow> bool" where
  "inList a list = (case list of JArr arr \<Rightarrow> list_ex (\<lambda>v. equalAny a v) arr | _ \<Rightarrow> False)"

definition fieldValue :: "EvaluateRequest \<Rightarrow> string \<Rightarrow> json" where
  "fieldValue req field =
     (if field = FieldAction then JStr (er_Action req)
      else if field = FieldResource then JStr (er_Resource req)
      else if field = FieldResourceSensitivity then JStr (er_ResourceSensitivity req)
      else if field = FieldUserID then JStr (er_UserID req)
      else if field = FieldContextIPAddress then JStr (ec_IPAddress (er_Context req))
      else if field = FieldContextCountry then JStr (ec_Country (er_Context req))
      else JStr [])"

definition matchesCondition :: "EvaluateRequest \<Rightarrow> PolicyCondition \<Rightarrow> bool" where
  "matchesCondition req c =
     (let got = fieldValue req (pc_Field c)
      in if pc_Op c = OpEq then equalAny got (pc_Value c)
         else if pc_Op c = OpIn then inList got (pc_Value c)
         else if pc_Op c = OpContains then
           (case (got, pc_Value c) of (JStr s, JStr sub) \<Rightarrow> has_substring s sub | _ \<Rightarrow> False)
         else if pc_Op c = OpGt then
           (case (toNumber got, toNumber (pc_Value c)) of (Some gotN, Some wantN) \<Rightarrow> wantN < gotN | _ \<Rightarrow> False)
         else False)"

section \<open>The policy overlay\<close>

record PolicyEvalResult =
  pe_DerivedTier :: string
  pe_EffectiveTier :: string
  pe_Decision :: string
  pe_MatchedPolicies :: "string list"

text \<open>The variables of the two loops.\<close>

record overlay =
  ov_decision :: string
  ov_rank :: int
  ov_floor :: string
  ov_matched :: "string list"

definition apply_rule :: "EvaluateRequest \<Rightarrow> PolicyRule \<Rightarrow> bool \<times> overlay \<Rightarrow> bool \<times> overlay" where
  "apply_rule req rule pm_o =
     (if \<not> matchesCondition req (pr_Condition rule) then pm_o
      else
        let ov = snd pm_o;
            ov = (if pa_Deny (pr_Action rule) then ov\<lparr>ov_decision := DecisionDeny\<rparr> else ov);
            ov = (if pa_TierFloor (pr_Action rule) \<noteq> [] then
                   (let rank = tierRank (pa_TierFloor (pr_Action rule))
                    in if ov_rank ov < rank then ov\<lparr>ov_rank := rank, ov_floor := pa_TierFloor (pr_Action rule)\<rparr> else ov)
                  else ov)
        in (True, ov))"

definition apply_policy :: "EvaluateRequest \<Rightarrow> Policy \<Rightarrow> overlay \<Rightarrow> overlay" where
  "apply_policy req p ov =
     (let (policyMatched, ov) = fold (apply_rule req) (p_Rules p) (False, ov)
      in if policyMatched then ov\<lparr>ov_matched := ov_matched ov @ [p_ID p]\<rparr> else ov)"

definition EvaluatePolicies :: "EvaluateRequest \<Rightarrow> string \<Rightarrow> Policy list \<Rightarrow> PolicyEvalResult" where
  "EvaluatePolicies req derivedTier policies =
     (let ov = fold (apply_policy req) policies
                 \<lparr>ov_decision = DecisionAllow, ov_rank = tierRank derivedTier, ov_floor = derivedTier, ov_matched = []\<rparr>
      in \<lparr>pe_DerivedTier = derivedTier, pe_EffectiveTier = ov_floor ov, pe_Decision = ov_decision ov,
          pe_MatchedPolicies = ov_matched ov\<rparr>)"

section \<open>Rule validation\<close>

text \<open>\<open>None\<close> is a nil error; otherwise the error's format and arguments.\<close>

definition validateRule :: "PolicyRule \<Rightarrow> (string \<times> string list) option" where
  "validateRule r =
     (let c = pr_Condition r; a = pr_Action r
      in if pc_Field c \<notin> {FieldAction, FieldResource, FieldResourceSensitivity, FieldUserID,
                          FieldContextIPAddress, FieldContextCountry}
         then Some (''unsupported field %q'', [pc_Field c])
         else if pc_Op c \<notin> {OpEq, OpIn, OpContains, OpGt} then Some (''unsupported op %q'', [pc_Op c])
         else if pc_Op c = OpIn \<and> \<not> (case pc_Value c of JArr _ \<Rightarrow> True | _ \<Rightarrow> False)
         then Some (''op \"in\" requires an array value'', [])
         else if \<not> pa_Deny a \<and> pa_TierFloor a = [] then Some (''rule action must set either deny or tier_floor'', [])
         else if pa_TierFloor a \<noteq> [] \<and> \<not> ValidTier (pa_TierFloor a)
         then Some (''invalid tier_floor %q'', [pa_TierFloor a])
         else None)"

fun validate_from :: "nat \<Rightarrow> PolicyRule list \<Rightarrow> (string \<times> string list) option" where
  "validate_from i [] = None"
| "validate_from i (r # rs) =
     (case validateRule r of
        Some (m, args) \<Rightarrow> Some (''rule[%d]: '' @ m, show_nat i # args)
      | None \<Rightarrow> validate_from (Suc i) rs)"

definition ValidateRules :: "PolicyRule list \<Rightarrow> (string \<times> string list) option" where
  "ValidateRules rules =
     (if rules = [] then Some (''at least one rule is required'', [])
      else if MaxRulesPerPolicy < length rules
      then Some (''a policy may have at most %d rules'', [show_nat MaxRulesPerPolicy])
      else validate_from 0 rules)"

section \<open>The scores that can occur\<close>

lemma DeviceScorer_cases:
  "DeviceScorer req \<in> {\<lparr>sc_Score = 1 / 2, sc_Flags = [''no_fingerprint'']\<rparr>,
     \<lparr>sc_Score = 1 / 5, sc_Flags = []\<rparr>, \<lparr>sc_Score = 1 / 2, sc_Flags = [''unknown_device'']\<rparr>}"
  by (simp add: DeviceScorer_def Let_def)

lemma BehaviorScorer_cases:
  "BehaviorScorer now \<in> {\<lparr>sc_Score = 3 / 5, sc_Flags = [''unusual_time'']\<rparr>, \<lparr>sc_Score = 1 / 10, sc_Flags = []\<rparr>}"
  by (simp add: BehaviorScorer_def highVelocityStub_def clamp01_def Let_def)

lemma NetworkScorer_cases:
  "NetworkScorer req \<in> {\<lparr>sc_Score = 4 / 5, sc_Flags = [''flagged_ip'', ''vpn_detected'']\<rparr>,
     \<lparr>sc_Score = 1 / 2, sc_Flags = [''flagged_ip'']\<rparr>, \<lparr>sc_Score = 2 / 5, sc_Flags = [''vpn_detected'']\<rparr>,
     \<lparr>sc_Score = 1 / 10, sc_Flags = []\<rparr>}"
  by (simp add: NetworkScorer_def Let_def clamp01_def)

lemma UserScorer_cases:
  "UserScorer req t s \<in> {\<lparr>sc_Score = 1 / 2, sc_Flags = [''first_high_value_action'']\<rparr>,
     \<lparr>sc_Score = 1 / 5, sc_Flags = []\<rparr>}"
  by (simp add: UserScorer_def clamp01_def Let_def)

text \<open>The same, as score and alarm.\<close>

lemma device_values:
  "sc_Score (DeviceScorer req) \<in> {1 / 2, 1 / 5}"
  "sc_Flags (DeviceScorer req) \<noteq> [] \<longleftrightarrow> sc_Score (DeviceScorer req) = 1 / 2"
  using DeviceScorer_cases [of req] by auto

lemma behavior_values:
  "sc_Score (BehaviorScorer now) \<in> {3 / 5, 1 / 10}"
  "sc_Flags (BehaviorScorer now) \<noteq> [] \<longleftrightarrow> sc_Score (BehaviorScorer now) = 3 / 5"
  using BehaviorScorer_cases [of now] by auto

lemma network_values:
  "sc_Score (NetworkScorer req) \<in> {4 / 5, 1 / 2, 2 / 5, 1 / 10}"
  "sc_Flags (NetworkScorer req) = [''flagged_ip'', ''vpn_detected''] \<longleftrightarrow> sc_Score (NetworkScorer req) = 4 / 5"
  using NetworkScorer_cases [of req] by auto

lemma user_values:
  "sc_Score (UserScorer req t s) \<in> {1 / 2, 1 / 5}"
  "sc_Flags (UserScorer req t s) \<noteq> [] \<longleftrightarrow> sc_Score (UserScorer req t s) = 1 / 2"
  using UserScorer_cases [of req t s] by auto

lemmas scorer_values = device_values behavior_values network_values user_values

definition multiplier :: "string \<Rightarrow> rat" where
  "multiplier level = (if level = SensitivityHigh then 13 / 10 else if level = SensitivityMedium then 23 / 20 else 1)"

lemma multiplier_values:
  "multiplier level \<in> {1, 23 / 20, 13 / 10}"
  "level \<in> {SensitivityMedium, SensitivityHigh} \<longleftrightarrow> multiplier level \<noteq> 1"
  by (auto simp: multiplier_def)

text \<open>Every combination of scores the pipeline can weigh, and its result.\<close>

definition total :: "rat \<times> rat \<times> rat \<times> rat \<times> rat \<Rightarrow> rat" where
  "total dbnum = (case dbnum of (d, b, n, u, m) \<Rightarrow> (d / 4 + b / 5 + n * (3 / 10) + u / 4) * m)"

definition score_grid :: "(rat \<times> rat \<times> rat \<times> rat \<times> rat) list" where
  "score_grid = List.product [1 / 2, 1 / 5] (List.product [3 / 5, 1 / 10]
     (List.product [4 / 5, 1 / 2, 2 / 5, 1 / 10] (List.product [1 / 2, 1 / 5] [1, 23 / 20, 13 / 10])))"

lemma grid_high:
  "list_all (\<lambda>(d, b, n, u, m). 7 / 10 < total (d, b, n, u, m) \<longleftrightarrow> d = 1 / 2 \<and> b = 3 / 5 \<and> n = 4 / 5 \<and> u = 1 / 2 \<and> m \<noteq> 1)
     score_grid"
  by (simp add: score_grid_def total_def)

lemma grid_gap:
  "list_all (\<lambda>g. 1 / 1000 \<le> \<bar>total g - 35 / 100\<bar> \<and> 1 / 1000 \<le> \<bar>total g - 70 / 100\<bar>) score_grid"
  by (simp add: score_grid_def total_def)

text \<open>The sensitivity overlay only sees three multipliers.\<close>

lemma applySensitivity_eq:
  "0 \<le> w \<Longrightarrow> w \<le> 61 / 100 \<Longrightarrow>
   applySensitivity w level = w * multiplier level"
  by (auto simp: multiplier_def applySensitivity_def clamp01_def risk_constants sensitivity_defs)

lemma Aggregate_score:
  "snd (Aggregate req t s now) =
     (sc_Score (DeviceScorer req) / 4 + sc_Score (BehaviorScorer now) / 5 +
      sc_Score (NetworkScorer req) * (3 / 10) + sc_Score (UserScorer req t s) / 4) *
     multiplier (er_ResourceSensitivity req)"
proof -
  let ?w = "sc_Score (DeviceScorer req) / 4 + sc_Score (BehaviorScorer now) / 5 +
      sc_Score (NetworkScorer req) * (3 / 10) + sc_Score (UserScorer req t s) / 4"
  have w: "0 \<le> ?w" "?w \<le> 61 / 100"
    using scorer_values(1,5) [of req] scorer_values(3) [of now] scorer_values(7) [of req t s] by auto
  moreover have "snd (Aggregate req t s now) = applySensitivity (clamp01 ?w) (er_ResourceSensitivity req)"
    by (simp add: Aggregate_def Let_def risk_constants)
  moreover have "clamp01 ?w = ?w" using w by (simp add: clamp01_def)
  ultimately show ?thesis using applySensitivity_eq [OF w] by simp
qed

definition grid_point :: "EvaluateRequest \<Rightarrow> string \<Rightarrow> risk_store \<Rightarrow> time \<Rightarrow> rat \<times> rat \<times> rat \<times> rat \<times> rat" where
  "grid_point req t s now =
     (sc_Score (DeviceScorer req), sc_Score (BehaviorScorer now), sc_Score (NetworkScorer req),
      sc_Score (UserScorer req t s), multiplier (er_ResourceSensitivity req))"

lemma Aggregate_grid:
  "snd (Aggregate req t s now) = total (grid_point req t s now)" "grid_point req t s now \<in> set score_grid"
proof -
  show "snd (Aggregate req t s now) = total (grid_point req t s now)"
    by (simp add: Aggregate_score total_def grid_point_def)
  show "grid_point req t s now \<in> set score_grid"
    using scorer_values(1,5) [of req] scorer_values(3) [of now] scorer_values(7) [of req t s]
      multiplier_values(1) [of "er_ResourceSensitivity req"]
    unfolding grid_point_def score_grid_def by (simp only: set_product list.set mem_Sigma_iff)
qed

lemma derives_high_iff:
  "DeriveTier (snd (Aggregate req t s now)) = TierHigh \<longleftrightarrow>
     sc_Flags (DeviceScorer req) \<noteq> [] \<and> sc_Flags (BehaviorScorer now) \<noteq> [] \<and>
     sc_Flags (NetworkScorer req) = [''flagged_ip'', ''vpn_detected''] \<and>
     sc_Flags (UserScorer req t s) \<noteq> [] \<and>
     er_ResourceSensitivity req \<in> {SensitivityMedium, SensitivityHigh}"
proof -
  have "TierLowMax < TierMediumMax" by (simp add: risk_constants)
  then have "DeriveTier x = TierHigh \<longleftrightarrow> TierMediumMax < x" for x
    by (auto simp: DeriveTier_def tier_defs)
  moreover have "TierMediumMax = 7 / 10" by (simp add: risk_constants)
  moreover have "7 / 10 < total (grid_point req t s now) \<longleftrightarrow>
      sc_Score (DeviceScorer req) = 1 / 2 \<and> sc_Score (BehaviorScorer now) = 3 / 5 \<and>
      sc_Score (NetworkScorer req) = 4 / 5 \<and> sc_Score (UserScorer req t s) = 1 / 2 \<and>
      multiplier (er_ResourceSensitivity req) \<noteq> 1"
    using Aggregate_grid(2) [of req t s now] grid_high by (auto simp: list_all_iff grid_point_def)
  ultimately show ?thesis
    by (simp only: Aggregate_grid(1) scorer_values(2,4,6,8) multiplier_values(2))
qed

text \<open>
  The high tier takes every signal at once: the score exceeds \<open>TierMediumMax\<close> exactly when the
  device is not a recognised one, the hour is unusual, the address is both blocklisted and in the
  VPN range, it is the user's first high-value action, and the resource is not of low sensitivity.
\<close>

theorem high_tier_needs_every_signal:
  "DeriveTier (snd (Aggregate req t s now)) = TierHigh \<longleftrightarrow>
     sc_Flags (DeviceScorer req) \<noteq> [] \<and> sc_Flags (BehaviorScorer now) \<noteq> [] \<and>
     sc_Flags (NetworkScorer req) = [''flagged_ip'', ''vpn_detected''] \<and>
     sc_Flags (UserScorer req t s) \<noteq> [] \<and>
     er_ResourceSensitivity req \<in> {SensitivityMedium, SensitivityHigh}"
  by (rule derives_high_iff)

lemma near_side:
  fixes y v bound bound' :: rat
  assumes "\<bar>y - v\<bar> \<le> 1 / 4000" "\<bar>bound' - bound\<bar> \<le> 1 / 4000" "1 / 1000 \<le> \<bar>v - bound\<bar>"
  shows "(y < bound' \<longleftrightarrow> v < bound) \<and> (y \<le> bound' \<longleftrightarrow> v \<le> bound)"
proof -
  define e :: rat where "e = 1 / 4000"
  have e: "0 < e" "1 / 1000 = 4 * e" by (simp_all add: e_def)
  have n: "y - v \<le> e" "v - y \<le> e" "bound' - bound \<le> e" "bound - bound' \<le> e"
    using assms(1,2) unfolding e_def [symmetric] abs_le_iff by simp_all
  have "4 * e \<le> v - bound \<or> 4 * e \<le> bound - v"
    using assms(3) unfolding e(2) abs_if by (metis minus_diff_eq)
  then show ?thesis
  proof
    assume "4 * e \<le> v - bound"
    with n e(1) have "bound' < y" "bound < v" by linarith+
    then show ?thesis by simp
  next
    assume "4 * e \<le> bound - v"
    with n e(1) have "y < bound'" "v < bound" by linarith+
    then show ?thesis by simp
  qed
qed

text \<open>
  Rounding is harmless: every reachable score keeps such a distance from both thresholds that
  evaluating score and thresholds with errors of up to 1/4000 each, far above what \<open>float64\<close>
  arithmetic on these constants loses, derives the same tier.
\<close>

theorem tier_is_robust:
  assumes "\<bar>x - snd (Aggregate req t s now)\<bar> \<le> 1 / 4000" "\<bar>lo - TierLowMax\<bar> \<le> 1 / 4000"
    "\<bar>hi - TierMediumMax\<bar> \<le> 1 / 4000"
  shows "(if x < lo then TierLow else if x \<le> hi then TierMedium else TierHigh) = DeriveTier (snd (Aggregate req t s now))"
proof -
  have "1 / 1000 \<le> \<bar>snd (Aggregate req t s now) - TierLowMax\<bar> \<and> 1 / 1000 \<le> \<bar>snd (Aggregate req t s now) - TierMediumMax\<bar>"
    using Aggregate_grid(2) [of req t s now] grid_gap
    unfolding Aggregate_grid(1) TierLowMax_def TierMediumMax_def list_all_iff by blast
  then have "x < lo \<longleftrightarrow> snd (Aggregate req t s now) < TierLowMax" "x \<le> hi \<longleftrightarrow> snd (Aggregate req t s now) \<le> TierMediumMax"
    using near_side [OF assms(1,2)] near_side [OF assms(1,3)] by blast+
  then show ?thesis by (simp only: DeriveTier_def)
qed

definition risky_request :: EvaluateRequest where
  "risky_request = \<lparr>er_UserID = ''u'', er_SessionID = [], er_Action = ''Payment.send'', er_Resource = [],
     er_ResourceSensitivity = SensitivityMedium,
     er_Context = \<lparr>ec_DeviceFingerprint = [], ec_IPAddress = ''203.0.113.100'', ec_Country = [], ec_UserAgent = []\<rparr>,
     er_Signals = []\<rparr>"

theorem tier_is_robust_witness:
  "(if (70149 / 100000 :: rat) < 35 / 100 then TierLow else if (70149 / 100000 :: rat) \<le> 7001 / 10000 then TierMedium else TierHigh)
     = DeriveTier (snd (Aggregate risky_request ''t'' NewMemStorage 0)) \<and>
   DeriveTier (snd (Aggregate risky_request ''t'' NewMemStorage 0)) = TierHigh"
proof -
  have s: "snd (Aggregate risky_request ''t'' NewMemStorage 0) = 7015 / 10000" by code_simp
  show ?thesis
    using tier_is_robust [of "70149 / 100000" risky_request "''t''" NewMemStorage 0 "35 / 100" "7001 / 10000"]
    unfolding s by (simp add: risk_constants DeriveTier_def)
qed

section \<open>The overlay against its specification\<close>

text \<open>Tiers as a linear order.\<close>

datatype level = Low | Medium | High

fun level_rank :: "level \<Rightarrow> int" where
  "level_rank Low = 1" | "level_rank Medium = 2" | "level_rank High = 3"

instantiation level :: linorder
begin
definition less_eq_level :: "level \<Rightarrow> level \<Rightarrow> bool" where "less_eq_level a b \<longleftrightarrow> level_rank a \<le> level_rank b"
definition less_level :: "level \<Rightarrow> level \<Rightarrow> bool" where "less_level a b \<longleftrightarrow> level_rank a < level_rank b"
instance
proof
  show "a = b" if "a \<le> b" "b \<le> a" for a b :: level
    using that by (cases a; cases b) (simp_all add: less_eq_level_def)
qed (auto simp: less_eq_level_def less_level_def)
end

fun tier_name :: "level \<Rightarrow> string" where
  "tier_name Low = TierLow" | "tier_name Medium = TierMedium" | "tier_name High = TierHigh"

definition level_of :: "string \<Rightarrow> level" where
  "level_of t = (if t = TierHigh then High else if t = TierMedium then Medium else Low)"

lemma tier_name_simps [simp]:
  "level_of (tier_name l) = l" "tierRank (tier_name l) = level_rank l" "ValidTier (tier_name l)" "tier_name l \<noteq> []"
  by (cases l; simp add: level_of_def tierRank_def ValidTier_def tier_defs)+

lemma ValidTier_level: "ValidTier t \<Longrightarrow> tier_name (level_of t) = t"
  by (auto simp: ValidTier_def level_of_def tier_defs)

lemma level_least [simp]: "max l Low = l" "max Low l = l" "Low \<le> l"
  by (cases l; simp add: max_def less_eq_level_def)+

text \<open>What one rule asks for, and the specification of the overlay.\<close>

definition rule_level :: "EvaluateRequest \<Rightarrow> PolicyRule \<Rightarrow> level" where
  "rule_level req r =
     (if matchesCondition req (pr_Condition r) \<and> pa_TierFloor (pr_Action r) \<noteq> []
      then level_of (pa_TierFloor (pr_Action r)) else Low)"

definition rule_denies :: "EvaluateRequest \<Rightarrow> PolicyRule \<Rightarrow> bool" where
  "rule_denies req r \<longleftrightarrow> matchesCondition req (pr_Condition r) \<and> pa_Deny (pr_Action r)"

definition all_rules :: "Policy list \<Rightarrow> PolicyRule list" where
  "all_rules ps = concat (map p_Rules ps)"

definition overlay_spec :: "EvaluateRequest \<Rightarrow> string \<Rightarrow> Policy list \<Rightarrow> PolicyEvalResult" where
  "overlay_spec req derivedTier ps =
     \<lparr>pe_DerivedTier = derivedTier,
      pe_EffectiveTier = tier_name (Max (insert (level_of derivedTier) (rule_level req ` set (all_rules ps)))),
      pe_Decision = (if \<exists>r\<in>set (all_rules ps). rule_denies req r then DecisionDeny else DecisionAllow),
      pe_MatchedPolicies =
        map p_ID (filter (\<lambda>p. \<exists>r\<in>set (p_Rules p). matchesCondition req (pr_Condition r)) ps)\<rparr>"

definition floors_valid :: "PolicyRule list \<Rightarrow> bool" where
  "floors_valid rs \<longleftrightarrow> (\<forall>r\<in>set rs. pa_TierFloor (pr_Action r) \<noteq> [] \<longrightarrow> ValidTier (pa_TierFloor (pr_Action r)))"

text \<open>The loop variables, seen through the specification's.\<close>

definition overlay_of :: "bool \<Rightarrow> level \<Rightarrow> string list \<Rightarrow> overlay" where
  "overlay_of deny l matched =
     \<lparr>ov_decision = (if deny then DecisionDeny else DecisionAllow), ov_rank = level_rank l,
      ov_floor = tier_name l, ov_matched = matched\<rparr>"

lemma apply_rule_spec:
  assumes "pa_TierFloor (pr_Action r) \<noteq> [] \<longrightarrow> ValidTier (pa_TierFloor (pr_Action r))"
  shows "apply_rule req r (pm, overlay_of d l m) =
    (pm \<or> matchesCondition req (pr_Condition r), overlay_of (d \<or> rule_denies req r) (max l (rule_level req r)) m)"
proof (cases "pa_TierFloor (pr_Action r) = []")
  case True
  then show ?thesis by (simp add: apply_rule_def overlay_of_def rule_denies_def rule_level_def Let_def)
next
  case False
  with assms have t: "pa_TierFloor (pr_Action r) = tier_name (level_of (pa_TierFloor (pr_Action r)))"
    by (simp add: ValidTier_level)
  obtain f where f: "pa_TierFloor (pr_Action r) = tier_name f" using t by metis
  show ?thesis
    by (simp add: apply_rule_def overlay_of_def rule_denies_def rule_level_def Let_def f max_def less_eq_level_def)
      (cases l; cases f; simp)
qed

lemma apply_rules_spec:
  "floors_valid rs \<Longrightarrow> fold (apply_rule req) rs (pm, overlay_of d l m) =
    (pm \<or> (\<exists>r\<in>set rs. matchesCondition req (pr_Condition r)),
     overlay_of (d \<or> (\<exists>r\<in>set rs. rule_denies req r)) (fold max (map (rule_level req) rs) l) m)"
proof (induction rs arbitrary: pm d l)
  case Nil
  then show ?case by simp
next
  case (Cons r rs)
  then have "floors_valid rs" "pa_TierFloor (pr_Action r) \<noteq> [] \<longrightarrow> ValidTier (pa_TierFloor (pr_Action r))"
    by (auto simp: floors_valid_def)
  with Cons.IH apply_rule_spec [of r req pm d l m] show ?case
    by (simp add: max.commute disj_assoc)
qed

lemma apply_policies_spec:
  "floors_valid (all_rules ps) \<Longrightarrow> fold (apply_policy req) ps (overlay_of d l m) =
    overlay_of (d \<or> (\<exists>r\<in>set (all_rules ps). rule_denies req r))
      (fold max (map (rule_level req) (all_rules ps)) l)
      (m @ map p_ID (filter (\<lambda>p. \<exists>r\<in>set (p_Rules p). matchesCondition req (pr_Condition r)) ps))"
proof (induction ps arbitrary: d l m)
  case Nil
  then show ?case by (simp add: all_rules_def)
next
  case (Cons p ps)
  then have v: "floors_valid (p_Rules p)" "floors_valid (all_rules ps)"
    by (auto simp: floors_valid_def all_rules_def)
  have "apply_policy req p (overlay_of d l m) =
      overlay_of (d \<or> (\<exists>r\<in>set (p_Rules p). rule_denies req r)) (fold max (map (rule_level req) (p_Rules p)) l)
        (m @ (if \<exists>r\<in>set (p_Rules p). matchesCondition req (pr_Condition r) then [p_ID p] else []))"
    using apply_rules_spec [OF v(1), of req False d l m] by (simp add: apply_policy_def) (simp add: overlay_of_def)
  then show ?case using Cons.IH [OF v(2)] by (simp add: all_rules_def bex_Un disj_assoc)
qed

lemma fold_max_Max: "fold max xs (x :: level) = Max (insert x (set xs))"
  by (metis Max.set_eq_fold list.simps(15))

lemma validate_from_None: "validate_from i rs = None \<longleftrightarrow> (\<forall>r\<in>set rs. validateRule r = None)"
  by (induction rs arbitrary: i) (auto split: option.splits)

lemma ValidateRules_floors: "ValidateRules rs = None \<Longrightarrow> floors_valid rs"
  by (auto simp: ValidateRules_def validate_from_None floors_valid_def validateRule_def Let_def split: if_splits)

lemma refines_overlay:
  assumes "ValidTier derivedTier" "\<forall>p\<in>set ps. ValidateRules (p_Rules p) = None"
  shows "EvaluatePolicies req derivedTier ps = overlay_spec req derivedTier ps"
proof -
  have "floors_valid (p_Rules p)" if "p \<in> set ps" for p using assms(2) that ValidateRules_floors by blast
  then have v: "floors_valid (all_rules ps)" by (auto simp: floors_valid_def all_rules_def)
  have d: "derivedTier = tier_name (level_of derivedTier)" using assms(1) by (simp add: ValidTier_level)
  have "\<lparr>ov_decision = DecisionAllow, ov_rank = tierRank derivedTier, ov_floor = derivedTier, ov_matched = []\<rparr>
      = overlay_of False (level_of derivedTier) []"
    using d by (metis overlay_of_def tier_name_simps(2))
  then show ?thesis
    by (simp add: EvaluatePolicies_def apply_policies_spec [OF v] overlay_spec_def Let_def fold_max_Max)
      (simp add: overlay_of_def)
qed

text \<open>
  C24. The policy overlay implements its specification on every tenant's stored rules: the effective
  tier is the highest of the derived tier and the floors of the matching rules, the decision is deny
  exactly if a matching rule denies, the matched policies are those with a matching rule, in listing
  order; so tier and decision do not depend on the order of the policies.
\<close>

theorem overlay_refines_spec:
  assumes "ValidTier derivedTier" "\<forall>p\<in>set ps. ValidateRules (p_Rules p) = None"
  shows "EvaluatePolicies req derivedTier ps = overlay_spec req derivedTier ps \<and>
    (\<forall>ps'. mset ps' = mset ps \<longrightarrow>
       pe_EffectiveTier (EvaluatePolicies req derivedTier ps') = pe_EffectiveTier (EvaluatePolicies req derivedTier ps) \<and>
       pe_Decision (EvaluatePolicies req derivedTier ps') = pe_Decision (EvaluatePolicies req derivedTier ps))"
proof -
  have refines: "EvaluatePolicies req derivedTier qs = overlay_spec req derivedTier qs" if "set qs = set ps" for qs
    using assms that by (intro refines_overlay) simp_all
  moreover have "pe_EffectiveTier (overlay_spec req derivedTier qs) = pe_EffectiveTier (overlay_spec req derivedTier ps)"
    "pe_Decision (overlay_spec req derivedTier qs) = pe_Decision (overlay_spec req derivedTier ps)"
    if "set qs = set ps" for qs
  proof -
    have "set (all_rules qs) = set (all_rules ps)" using that by (auto simp: all_rules_def)
    then show "pe_EffectiveTier (overlay_spec req derivedTier qs) = pe_EffectiveTier (overlay_spec req derivedTier ps)"
      "pe_Decision (overlay_spec req derivedTier qs) = pe_Decision (overlay_spec req derivedTier ps)"
      by (simp_all add: overlay_spec_def)
  qed
  ultimately show ?thesis by (metis mset_eq_setD)
qed

definition rule :: "string \<Rightarrow> string \<Rightarrow> json \<Rightarrow> string \<Rightarrow> bool \<Rightarrow> PolicyRule" where
  "rule field op val tier deny =
     \<lparr>pr_Condition = \<lparr>pc_Field = field, pc_Op = op, pc_Value = val\<rparr>,
      pr_Action = \<lparr>pa_TierFloor = tier, pa_Deny = deny\<rparr>\<rparr>"

definition sample_policies :: "Policy list" where
  "sample_policies =
     [\<lparr>p_ID = ''pol_1'', p_TenantID = ''t'', p_Name = ''payments'',
       p_Rules = [rule ''action'' ''contains'' (JStr ''Payment'') ''medium'' False,
                  rule ''context.country'' ''in'' (JArr [JStr ''KP'']) [] True], p_CreatedAt = 2, p_UpdatedAt = 2\<rparr>,
      \<lparr>p_ID = ''pol_0'', p_TenantID = ''t'', p_Name = ''no agents'',
       p_Rules = [rule ''context.country'' ''eq'' (JStr []) ''high'' False], p_CreatedAt = 1, p_UpdatedAt = 1\<rparr>]"

theorem overlay_refines_spec_witness:
  "EvaluatePolicies risky_request TierLow sample_policies
     = \<lparr>pe_DerivedTier = TierLow, pe_EffectiveTier = TierHigh, pe_Decision = DecisionAllow,
        pe_MatchedPolicies = [''pol_1'', ''pol_0'']\<rparr> \<and>
   EvaluatePolicies risky_request TierLow sample_policies = overlay_spec risky_request TierLow sample_policies"
proof
  show "EvaluatePolicies risky_request TierLow sample_policies
     = \<lparr>pe_DerivedTier = TierLow, pe_EffectiveTier = TierHigh, pe_Decision = DecisionAllow,
        pe_MatchedPolicies = [''pol_1'', ''pol_0'']\<rparr>" by code_simp
  have "ValidTier TierLow" by (simp add: ValidTier_def)
  moreover have "\<forall>p\<in>set sample_policies. ValidateRules (p_Rules p) = None" by code_simp
  ultimately show "EvaluatePolicies risky_request TierLow sample_policies = overlay_spec risky_request TierLow sample_policies"
    using overlay_refines_spec by blast
qed

text \<open>
  A rule with the operator \<open>gt\<close> never matches, although \<open>ValidateRules\<close> accepts it: every field a
  rule can name holds a string, and \<open>gt\<close> compares numbers only.
\<close>

theorem gt_rules_never_match:
  "(pc_Op c = OpGt \<longrightarrow> \<not> matchesCondition req c) \<and>
   ValidateRules [rule FieldUserID OpGt (JNum 0 ''0'') TierHigh True] = None"
proof
  have "fieldValue req (pc_Field c) = JStr s" if "s = (case fieldValue req (pc_Field c) of JStr x \<Rightarrow> x | _ \<Rightarrow> [])" for s
    using that by (auto simp: fieldValue_def)
  then have "toNumber (fieldValue req (pc_Field c)) = None" by (metis toNumber.simps(4))
  then show "pc_Op c = OpGt \<longrightarrow> \<not> matchesCondition req c"
    by (auto simp: matchesCondition_def op_defs Let_def)
  show "ValidateRules [rule FieldUserID OpGt (JNum 0 ''0'') TierHigh True] = None"
    by (simp add: ValidateRules_def validateRule_def rule_def op_defs field_defs tier_defs ValidTier_def MaxRulesPerPolicy_def)
qed

theorem gt_rules_never_match_witness:
  "\<not> matchesCondition risky_request \<lparr>pc_Field = FieldUserID, pc_Op = OpGt, pc_Value = JNum 0 ''0''\<rparr>"
  using gt_rules_never_match [of "\<lparr>pc_Field = FieldUserID, pc_Op = OpGt, pc_Value = JNum 0 ''0''\<rparr>" risky_request] by simp

end
