(* ===== verification/RiskService.thy ===== *)
theory RiskService
  imports RiskEngine
begin

text \<open>
  The HTTP surface of risk-service (handlers.go, caep.go): evaluations, policy CRUD with its paged
  listing, the CAEP receiver and the router.  Verification of a security event token is a parameter.
\<close>

section \<open>Environment and replies\<close>

datatype risk_op = OpPutEvaluation | OpGetEvaluation | OpCreatePolicy | OpGetPolicy | OpListPolicies
  | OpUpdatePolicy | OpDeletePolicy | OpRecordCAEPEvent | OpGetAssurance | OpUpsertAssurance
  | OpRecordTransactionCompletion

record risk_env =
  rv_now :: "nat \<Rightarrow> time"
  rv_uuid :: "nat \<Rightarrow> string"
  rv_fails :: "risk_op \<Rightarrow> bool"

datatype risk_payload =
    QEvaluation RiskEvaluation
  | QPolicy Policy
  | QPolicies "Policy list" "time option"
  | QReceived nat
  | QHealth

type_synonym risk_reply = "risk_payload reply"

definition risk_no_tenant :: "'p reply" where
  "risk_no_tenant = bad_request ''missing_tenant'' ''X-Tenant-Id required''"

definition risk_internal :: "string \<Rightarrow> 'p reply" where
  "risk_internal m = WriteError StatusInternalServerError ''internal_error'' (Lit m)"

definition risk_not_found :: "string \<Rightarrow> 'p reply" where
  "risk_not_found m = WriteError StatusNotFound ''not_found'' (Lit m)"

lemmas risk_reply_defs = bad_request_def risk_no_tenant_def risk_internal_def risk_not_found_def json_error_def

section \<open>Request bodies\<close>

definition no_ctx :: EvaluateCtx where
  "no_ctx = \<lparr>ec_DeviceFingerprint = [], ec_IPAddress = [], ec_Country = [], ec_UserAgent = []\<rparr>"

definition EvaluateCtx_fields :: "EvaluateCtx field list" where
  "EvaluateCtx_fields =
     [into dec_string ''device_fingerprint'' ec_DeviceFingerprint ec_DeviceFingerprint_update,
      into dec_string ''ip_address'' ec_IPAddress ec_IPAddress_update,
      into dec_string ''country'' ec_Country ec_Country_update,
      into dec_string ''user_agent'' ec_UserAgent ec_UserAgent_update]"

definition EvaluateRequest_fields :: "EvaluateRequest field list" where
  "EvaluateRequest_fields =
     [into dec_string ''user_id'' er_UserID er_UserID_update,
      into dec_string ''session_id'' er_SessionID er_SessionID_update,
      into dec_string ''action'' er_Action er_Action_update,
      into dec_string ''resource'' er_Resource er_Resource_update,
      into dec_string ''resource_sensitivity'' er_ResourceSensitivity er_ResourceSensitivity_update,
      into (dec_nested True EvaluateCtx_fields) ''context'' er_Context er_Context_update,
      into dec_map ''signals'' er_Signals er_Signals_update]"

definition no_evaluate_request :: EvaluateRequest where
  "no_evaluate_request = \<lparr>er_UserID = [], er_SessionID = [], er_Action = [], er_Resource = [],
     er_ResourceSensitivity = [], er_Context = no_ctx, er_Signals = []\<rparr>"

definition PolicyRule_fields :: "PolicyRule field list" where
  "PolicyRule_fields =
     [into (dec_nested True
        [into dec_string ''field'' pc_Field pc_Field_update,
         into dec_string ''op'' pc_Op pc_Op_update,
         into dec_any ''value'' pc_Value pc_Value_update]) ''condition'' pr_Condition pr_Condition_update,
      into (dec_nested True
        [into dec_string ''tier_floor'' pa_TierFloor pa_TierFloor_update,
         into dec_bool ''deny'' pa_Deny pa_Deny_update]) ''action'' pr_Action pr_Action_update]"

definition no_rule :: PolicyRule where
  "no_rule = \<lparr>pr_Condition = \<lparr>pc_Field = [], pc_Op = [], pc_Value = JNull\<rparr>,
     pr_Action = \<lparr>pa_TierFloor = [], pa_Deny = False\<rparr>\<rparr>"

definition CreatePolicyRequest_fields :: "CreatePolicyRequest field list" where
  "CreatePolicyRequest_fields =
     [into dec_string ''name'' cp_Name cp_Name_update,
      into (dec_slice True PolicyRule_fields no_rule) ''rules'' cp_Rules cp_Rules_update]"

definition dec_rules_pointer :: "string \<Rightarrow> json \<Rightarrow> PolicyRule list option \<Rightarrow> json_err + PolicyRule list option" where
  "dec_rules_pointer f j old =
     (if j = JNull then Inr None
      else case dec_slice True PolicyRule_fields no_rule f j [] of Inl e \<Rightarrow> Inl e | Inr rs \<Rightarrow> Inr (Some rs))"

definition UpdatePolicyRequest_fields :: "UpdatePolicyRequest field list" where
  "UpdatePolicyRequest_fields =
     [into dec_pointer ''name'' up_Name up_Name_update,
      into dec_rules_pointer ''rules'' up_Rules up_Rules_update]"

section \<open>Evaluations\<close>

definition CreateEvaluation :: "risk_env \<Rightarrow> string option \<Rightarrow> body \<Rightarrow> risk_store \<Rightarrow> risk_reply \<times> risk_store" where
  "CreateEvaluation e tenant b s =
     (case tenant of
        None \<Rightarrow> (risk_no_tenant, s)
      | Some tenantID \<Rightarrow>
          (case ReadJSON EvaluateRequest_fields no_evaluate_request b of
             Inl err \<Rightarrow> (json_error err, s)
           | Inr req \<Rightarrow>
               if TrimSpace (er_UserID req) = [] then (bad_request ''invalid_user_id'' ''user_id is required'', s)
               else if TrimSpace (er_Action req) = [] then (bad_request ''invalid_action'' ''action is required'', s)
               else if \<not> ValidSensitivity (er_ResourceSensitivity req)
               then (bad_request ''invalid_resource_sensitivity''
                       ''resource_sensitivity must be one of: low, medium, high'', s)
               else
                 let (signals, score) = Aggregate req tenantID s (rv_now e 0);
                     derivedTier = DeriveTier score
                 in if rv_fails e OpListPolicies then (risk_internal ''failed to load policies'', s)
                    else
                      let policies = ListPolicies tenantID 0 0 s;
                          policyResult = EvaluatePolicies req derivedTier policies;
                          ev = \<lparr>re_ID = ''rev_'' @ rv_uuid e 0, re_TenantID = tenantID, re_UserID = er_UserID req,
                                re_SessionID = er_SessionID req, re_Action = er_Action req,
                                re_Resource = er_Resource req, re_ResourceSensitivity = er_ResourceSensitivity req,
                                re_Tier = pe_EffectiveTier policyResult, re_Score = score, re_Signals = signals,
                                re_Flags = collectFlags signals, re_PolicyDecision = pe_Decision policyResult,
                                re_MatchedPolicies = pe_MatchedPolicies policyResult, re_CreatedAt = rv_now e 1\<rparr>
                      in if rv_fails e OpPutEvaluation then (risk_internal ''failed to persist evaluation'', s)
                         else (WriteJSON StatusCreated (QEvaluation ev), PutEvaluation ev s)))"

definition GetEvaluationHandler :: "risk_env \<Rightarrow> string option \<Rightarrow> string \<Rightarrow> risk_store \<Rightarrow> risk_reply \<times> risk_store" where
  "GetEvaluationHandler e tenant rid s =
     (case tenant of
        None \<Rightarrow> (risk_no_tenant, s)
      | Some tenantID \<Rightarrow>
          if rid = [] then (bad_request ''invalid_id'' ''id is required'', s)
          else (case store_call (rv_fails e OpGetEvaluation) (GetEvaluation tenantID rid s) of
                  ErrNotFound \<Rightarrow> (risk_not_found ''evaluation not found'', s)
                | ErrOther \<Rightarrow> (risk_internal ''failed to read evaluation'', s)
                | Got ev \<Rightarrow> (WriteJSON StatusOK (QEvaluation ev), s)))"

section \<open>Policies\<close>

definition invalid_name :: "'p reply" where
  "invalid_name = bad_request ''invalid_name'' ''name must be 1-100 characters''"

definition invalid_rules :: "string \<times> string list \<Rightarrow> 'p reply" where
  "invalid_rules err = WriteError StatusBadRequest ''invalid_rules'' (Fmt (fst err) (snd err))"

definition CreatePolicyHandler :: "risk_env \<Rightarrow> string option \<Rightarrow> body \<Rightarrow> risk_store \<Rightarrow> risk_reply \<times> risk_store" where
  "CreatePolicyHandler e tenant b s =
     (case tenant of
        None \<Rightarrow> (risk_no_tenant, s)
      | Some tenantID \<Rightarrow>
          (case ReadJSON CreatePolicyRequest_fields \<lparr>cp_Name = [], cp_Rules = []\<rparr> b of
             Inl err \<Rightarrow> (json_error err, s)
           | Inr req \<Rightarrow>
               let name = TrimSpace (cp_Name req)
               in if name = [] \<or> MaxNameLen < length name then (invalid_name, s)
                  else (case ValidateRules (cp_Rules req) of
                    Some err \<Rightarrow> (invalid_rules err, s)
                  | None \<Rightarrow>
                      let now = rv_now e 0;
                          p = \<lparr>p_ID = ''pol_'' @ rv_uuid e 0, p_TenantID = tenantID, p_Name = name,
                               p_Rules = cp_Rules req, p_CreatedAt = now, p_UpdatedAt = now\<rparr>
                      in if rv_fails e OpCreatePolicy then (risk_internal ''failed to create policy'', s)
                         else (WriteJSON StatusCreated (QPolicy p), CreatePolicy p s))))"

text \<open>\<open>q_limit\<close> is the raw parameter, "" when absent.\<close>

definition ListPoliciesHandler :: "risk_env \<Rightarrow> string option \<Rightarrow> string \<Rightarrow> cursor_param \<Rightarrow> risk_store \<Rightarrow>
    risk_reply \<times> risk_store" where
  "ListPoliciesHandler e tenant q_limit q_cursor s =
     (case tenant of
        None \<Rightarrow> (risk_no_tenant, s)
      | Some tenantID \<Rightarrow>
          (case page_limit DefaultListLimit MaxListLimit q_limit of
             None \<Rightarrow> (bad_request ''invalid_limit'' ''limit must be a positive integer'', s)
           | Some limit \<Rightarrow>
               (case cursor_time q_cursor of
                  None \<Rightarrow> (bad_request ''invalid_cursor'' ''cursor must be an RFC3339 timestamp'', s)
                | Some cursor \<Rightarrow>
                    if rv_fails e OpListPolicies then (risk_internal ''failed to list policies'', s)
                    else let items = ListPolicies tenantID limit cursor s
                         in (WriteJSON StatusOK (QPolicies items (next_cursor p_CreatedAt limit items)), s))))"

definition GetPolicyHandler :: "risk_env \<Rightarrow> string option \<Rightarrow> string \<Rightarrow> risk_store \<Rightarrow> risk_reply \<times> risk_store" where
  "GetPolicyHandler e tenant rid s =
     (case tenant of
        None \<Rightarrow> (risk_no_tenant, s)
      | Some tenantID \<Rightarrow>
          if rid = [] then (bad_request ''invalid_id'' ''id is required'', s)
          else (case store_call (rv_fails e OpGetPolicy) (GetPolicy tenantID rid s) of
                  ErrNotFound \<Rightarrow> (risk_not_found ''policy not found'', s)
                | ErrOther \<Rightarrow> (risk_internal ''failed to read policy'', s)
                | Got p \<Rightarrow> (WriteJSON StatusOK (QPolicy p), s)))"

text \<open>The two optional parts of a patch: an error reply, or the changed policy.\<close>

definition patch_name :: "string option \<Rightarrow> Policy \<Rightarrow> 'p reply + Policy" where
  "patch_name n existing =
     (case n of
        None \<Rightarrow> Inr existing
      | Some raw \<Rightarrow>
          let name = TrimSpace raw
          in if name = [] \<or> MaxNameLen < length name then Inl invalid_name
             else Inr (existing\<lparr>p_Name := name\<rparr>))"

definition patch_rules :: "PolicyRule list option \<Rightarrow> Policy \<Rightarrow> 'p reply + Policy" where
  "patch_rules rs existing =
     (case rs of
        None \<Rightarrow> Inr existing
      | Some rules \<Rightarrow>
          (case ValidateRules rules of
             Some err \<Rightarrow> Inl (invalid_rules err)
           | None \<Rightarrow> Inr (existing\<lparr>p_Rules := rules\<rparr>)))"

definition UpdatePolicyHandler :: "risk_env \<Rightarrow> string option \<Rightarrow> string \<Rightarrow> body \<Rightarrow> risk_store \<Rightarrow> risk_reply \<times> risk_store" where
  "UpdatePolicyHandler e tenant rid b s =
     (case tenant of
        None \<Rightarrow> (risk_no_tenant, s)
      | Some tenantID \<Rightarrow>
          if rid = [] then (bad_request ''invalid_id'' ''id is required'', s)
          else (case ReadJSON UpdatePolicyRequest_fields \<lparr>up_Name = None, up_Rules = None\<rparr> b of
            Inl err \<Rightarrow> (json_error err, s)
          | Inr req \<Rightarrow>
              (case store_call (rv_fails e OpGetPolicy) (GetPolicy tenantID rid s) of
                 ErrNotFound \<Rightarrow> (risk_not_found ''policy not found'', s)
               | ErrOther \<Rightarrow> (risk_internal ''failed to read policy'', s)
               | Got existing \<Rightarrow>
                   (case patch_name (up_Name req) existing of
                      Inl rep \<Rightarrow> (rep, s)
                    | Inr existing \<Rightarrow>
                        (case patch_rules (up_Rules req) existing of
                           Inl rep \<Rightarrow> (rep, s)
                         | Inr existing \<Rightarrow>
                             (case store_call (rv_fails e OpUpdatePolicy) (UpdatePolicy (rv_now e 0) existing s) of
                                ErrNotFound \<Rightarrow> (risk_not_found ''policy not found'', s)
                              | ErrOther \<Rightarrow> (risk_internal ''failed to update policy'', s)
                              | Got (saved, s') \<Rightarrow> (WriteJSON StatusOK (QPolicy saved), s')))))))"

definition DeletePolicyHandler :: "risk_env \<Rightarrow> string option \<Rightarrow> string \<Rightarrow> risk_store \<Rightarrow> risk_reply \<times> risk_store" where
  "DeletePolicyHandler e tenant rid s =
     (case tenant of
        None \<Rightarrow> (risk_no_tenant, s)
      | Some tenantID \<Rightarrow>
          if rid = [] then (bad_request ''invalid_id'' ''id is required'', s)
          else (case store_call (rv_fails e OpDeletePolicy) (DeletePolicy tenantID rid s) of
                  ErrNotFound \<Rightarrow> (risk_not_found ''policy not found'', s)
                | ErrOther \<Rightarrow> (risk_internal ''failed to delete policy'', s)
                | Got s' \<Rightarrow> (NoContent, s')))"

section \<open>The CAEP receiver\<close>

definition CAEPAssuranceLevelChange :: string where
  "CAEPAssuranceLevelChange = ''https://schemas.openid.net/secevent/caep/event-type/assurance-level-change''"
definition CAEPDeviceComplianceChange :: string where
  "CAEPDeviceComplianceChange = ''https://schemas.openid.net/secevent/caep/event-type/device-compliance-change''"
definition CAEPSessionRevoked :: string where
  "CAEPSessionRevoked = ''https://schemas.openid.net/secevent/caep/event-type/session-revoked''"
definition AAL1 :: string where "AAL1 = ''nist-aal1''"

record set_claims =
  scl_Sub :: string
  scl_TenantID :: string
  scl_SessionID :: string

definition int_of_float :: "rat \<Rightarrow> int" where
  "int_of_float r = (if 0 \<le> r then \<lfloor>r\<rfloor> else \<lceil>r\<rceil>)"

text \<open>
  Event number \<open>k\<close> of a token reads the clock up to three times: when it is received, when the
  posture is written and when a completion is recorded.
\<close>

definition clock_of :: "risk_env \<Rightarrow> nat \<Rightarrow> nat \<Rightarrow> time" where
  "clock_of e k j = rv_now e (3 * k + j + 1)"

definition apply_assurance :: "risk_env \<Rightarrow> nat \<Rightarrow> set_claims \<Rightarrow> (string \<times> json) list \<Rightarrow>
    AssuranceState option \<Rightarrow> risk_store \<Rightarrow> risk_store" where
  "apply_assurance e k claims payload cur s =
     (let level = obj_str payload ''current_level''
      in if level = [] then s
         else
           let compliant = (case cur of None \<Rightarrow> True | Some a \<Rightarrow> if as_Level a \<noteq> [] then as_Compliant a else True)
           in if rv_fails e OpUpsertAssurance then s
              else
                let s = UpsertAssurance \<lparr>as_TenantID = scl_TenantID claims, as_UserID = scl_Sub claims,
                          as_Level = level, as_Compliant = compliant, as_UpdatedAt = clock_of e k 1\<rparr> s;
                    txnID = obj_str payload ''transaction_id''
                in if txnID = [] then s
                   else
                     let rank = (case obj_get payload ''rank'' of Some (JNum f _) \<Rightarrow> int_of_float f | _ \<Rightarrow> 0);
                         tc = \<lparr>tc_TransactionID = txnID, tc_TenantID = scl_TenantID claims, tc_UserID = scl_Sub claims,
                               tc_ACR = obj_str payload ''acr'', tc_Rank = rank, tc_CompletedAt = clock_of e k 2\<rparr>
                     in if rv_fails e OpRecordTransactionCompletion then s else RecordTransactionCompletion tc s)"

definition applyEvent :: "risk_env \<Rightarrow> nat \<Rightarrow> set_claims \<Rightarrow> string \<Rightarrow> (string \<times> json) list \<Rightarrow> risk_store \<Rightarrow> risk_store" where
  "applyEvent e k claims uri payload s =
     (if scl_TenantID claims = [] \<or> scl_Sub claims = [] then s
      else
        let cur = (if rv_fails e OpGetAssurance then None
                   else GetAssurance (scl_TenantID claims) (scl_Sub claims) s)
        in if uri = CAEPAssuranceLevelChange then apply_assurance e k claims payload cur s
           else if uri = CAEPDeviceComplianceChange then
             (let level = (case cur of None \<Rightarrow> [] | Some a \<Rightarrow> as_Level a);
                  level = (if level = [] then AAL1 else level)
              in if rv_fails e OpUpsertAssurance then s
                 else UpsertAssurance \<lparr>as_TenantID = scl_TenantID claims, as_UserID = scl_Sub claims, as_Level = level,
                        as_Compliant = (obj_str payload ''current_status'' = ''compliant''),
                        as_UpdatedAt = clock_of e k 1\<rparr> s)
           else s)"

definition event_payload :: "json \<Rightarrow> (string \<times> json) list" where
  "event_payload raw = (case raw of JObj ms \<Rightarrow> ms | _ \<Rightarrow> [])"

fun receive_events :: "risk_env \<Rightarrow> nat \<Rightarrow> set_claims \<Rightarrow> (string \<times> json) list \<Rightarrow> risk_store \<Rightarrow> risk_store" where
  "receive_events e k claims [] s = s"
| "receive_events e k claims ((uri, raw) # evs) s =
     (let payload = event_payload raw;
          ev = \<lparr>ce_ID = ''cev_'' @ rv_uuid e k, ce_TenantID = scl_TenantID claims, ce_SubjectUserID = scl_Sub claims,
                ce_SubjectSessionID = scl_SessionID claims, ce_EventType = uri, ce_Payload = payload,
                ce_ReceivedAt = clock_of e k 0\<rparr>;
          s = (if rv_fails e OpRecordCAEPEvent then s else RecordCAEPEvent ev s)
      in receive_events e (Suc k) claims evs (applyEvent e k claims uri payload s))"

definition MaxSetBytes :: nat where "MaxSetBytes = 1048576"

text \<open>
  \<open>verifier\<close> is the configured \<open>jwtx.Verifier\<close>, if any: the claims and the extra members of a valid
  token.  \<open>order\<close> is the iteration order of the events map, which Go leaves open.  \<open>sent\<close> is the
  request body, \<open>None\<close> when it cannot be read.
\<close>

definition ReceiveSET :: "(string \<Rightarrow> time \<Rightarrow> (set_claims \<times> (string \<times> json) list) option) option \<Rightarrow>
    ((string \<times> json) list \<Rightarrow> (string \<times> json) list) \<Rightarrow> risk_env \<Rightarrow> string option \<Rightarrow> risk_store \<Rightarrow>
    risk_reply \<times> risk_store" where
  "ReceiveSET verifier order e sent s =
     (case verifier of
        None \<Rightarrow> (WriteError StatusServiceUnavailable ''caep_unconfigured'' (Lit ''SET receiver is not configured''), s)
      | Some verify \<Rightarrow>
          (case sent of
             None \<Rightarrow> (bad_request ''read_error'' ''could not read SET'', s)
           | Some text \<Rightarrow>
               (case verify (TrimSpace (take MaxSetBytes text)) (rv_now e 0) of
                  None \<Rightarrow> (WriteError StatusUnauthorized ''invalid_set'' (Lit ''SET signature or claims invalid''), s)
                | Some (claims, extra) \<Rightarrow>
                    (case obj_get extra ''events'' of
                       Some (JObj ms) \<Rightarrow>
                         let events = go_map ms
                         in if events = [] then (bad_request ''no_events'' ''SET carries no events'', s)
                            else (WriteJSON StatusAccepted (QReceived (length events)),
                                  receive_events e 0 claims (order events) s)
                     | _ \<Rightarrow> (bad_request ''no_events'' ''SET carries no events'', s)))))"

section \<open>The router\<close>

datatype risk_route =
    QCreateEvaluation body
  | QGetEvaluation string
  | QCreatePolicy body
  | QListPolicies string cursor_param
  | QGetPolicy string
  | QUpdatePolicy string body
  | QDeletePolicy string

fun risk_v1 :: "risk_env \<Rightarrow> risk_route \<Rightarrow> string option \<Rightarrow> risk_store \<Rightarrow> risk_reply \<times> risk_store" where
  "risk_v1 e (QCreateEvaluation b) t s = CreateEvaluation e t b s"
| "risk_v1 e (QGetEvaluation i) t s = GetEvaluationHandler e t i s"
| "risk_v1 e (QCreatePolicy b) t s = CreatePolicyHandler e t b s"
| "risk_v1 e (QListPolicies l c) t s = ListPoliciesHandler e t l c s"
| "risk_v1 e (QGetPolicy i) t s = GetPolicyHandler e t i s"
| "risk_v1 e (QUpdatePolicy i b) t s = UpdatePolicyHandler e t i b s"
| "risk_v1 e (QDeletePolicy i) t s = DeletePolicyHandler e t i s"

datatype risk_path = RiskHealth | RiskV1 risk_route | RiskInternalV1 risk_route | RiskSSF "string option"

definition RiskRouter :: "string \<Rightarrow> string \<Rightarrow>
    (string \<Rightarrow> time \<Rightarrow> (set_claims \<times> (string \<times> json) list) option) option \<Rightarrow>
    ((string \<times> json) list \<Rightarrow> (string \<times> json) list) \<Rightarrow> risk_env \<Rightarrow> risk_path \<Rightarrow> gate_request \<Rightarrow> risk_store \<Rightarrow>
    risk_reply \<times> risk_store" where
  "RiskRouter v1_only secret verifier order e path r s =
     (case path of
        RiskHealth \<Rightarrow> (WriteJSON StatusOK QHealth, s)
      | RiskV1 rt \<Rightarrow>
          if fold_name v1_only = ''true'' then InternalAuth secret (TenantMiddleware (risk_v1 e rt)) r s
          else TenantMiddleware (risk_v1 e rt) r s
      | RiskInternalV1 rt \<Rightarrow> InternalAuth secret (TenantMiddleware (risk_v1 e rt)) r s
      | RiskSSF sent \<Rightarrow> InternalAuth secret (\<lambda>r. ReceiveSET verifier order e sent) r s)"

end
