(* ===== verification/RiskProps.thy ===== *)
theory RiskProps
  imports RiskService
begin

text \<open>
  What risk-service guarantees: its store invariant and the permanence of evaluations, what an
  evaluation records, tenant isolation, completeness of the paged policy listing, and the posture
  that a security event token leaves, whatever the order of its events.
\<close>

section \<open>The store invariant\<close>

definition policy_ok :: "Policy \<Rightarrow> bool" where
  "policy_ok p \<longleftrightarrow> ValidateRules (p_Rules p) = None \<and> p_Name p \<noteq> [] \<and> length (p_Name p) \<le> MaxNameLen"

definition risk_ok :: "risk_store \<Rightarrow> bool" where
  "risk_ok s \<longleftrightarrow> risk_wf s \<and> (\<forall>p\<in>set (tab_rows (rk_policies s)). policy_ok p)"

definition risk_fresh :: "risk_env \<Rightarrow> risk_store \<Rightarrow> bool" where
  "risk_fresh e s \<longleftrightarrow> tab_get (rk_evaluations s) (''rev_'' @ rv_uuid e 0) = None \<and>
     tab_get (rk_policies s) (''pol_'' @ rv_uuid e 0) = None"

text \<open>How one request of tenant \<open>t\<close> can change the store.\<close>

inductive risk_effect :: "string option \<Rightarrow> risk_env \<Rightarrow> risk_store \<Rightarrow> risk_store \<Rightarrow> bool"
  for tenant e s where
  None: "risk_effect tenant e s s"
| Eval: "tenant = Some (re_TenantID ev) \<Longrightarrow> re_ID ev = ''rev_'' @ rv_uuid e 0 \<Longrightarrow>
    risk_effect tenant e s (PutEvaluation ev s)"
| Create: "tenant = Some (p_TenantID p) \<Longrightarrow> p_ID p = ''pol_'' @ rv_uuid e 0 \<Longrightarrow> policy_ok p \<Longrightarrow>
    risk_effect tenant e s (CreatePolicy p s)"
| Update: "tenant = Some t \<Longrightarrow> GetPolicy t i s = Some old \<Longrightarrow> p_ID p = p_ID old \<Longrightarrow> p_TenantID p = t \<Longrightarrow>
    policy_ok old \<Longrightarrow> policy_ok p \<Longrightarrow> UpdatePolicy (rv_now e 0) p s = Some (p', s') \<Longrightarrow> risk_effect tenant e s s'"
| Delete: "tenant = Some t \<Longrightarrow> DeletePolicy t i s = Some s' \<Longrightarrow> risk_effect tenant e s s'"

lemma CreateEvaluation_effect: "risk_effect tenant e s (snd (CreateEvaluation e tenant b s))"
  unfolding CreateEvaluation_def Let_def
  by (auto split: option.splits sum.splits prod.splits intro: None intro!: Eval)

lemma CreatePolicyHandler_effect: "risk_effect tenant e s (snd (CreatePolicyHandler e tenant b s))"
  unfolding CreatePolicyHandler_def Let_def
  by (auto simp: policy_ok_def split: option.splits sum.splits intro: None intro!: Create)

lemma DeletePolicyHandler_effect: "risk_effect tenant e s (snd (DeletePolicyHandler e tenant i s))"
  unfolding DeletePolicyHandler_def
  by (auto split: option.splits got.splits intro: None Delete)

lemma reads_effect [simp]:
  "snd (GetEvaluationHandler e tenant i s) = s" "snd (ListPoliciesHandler e tenant l c s) = s"
  "snd (GetPolicyHandler e tenant i s) = s"
  unfolding GetEvaluationHandler_def ListPoliciesHandler_def GetPolicyHandler_def Let_def
  by (auto split: option.splits got.splits)

lemma patches_ok:
  assumes "patch_name n p = Inr p1" "patch_rules rs p1 = Inr p2" "policy_ok p"
  shows "policy_ok p2 \<and> p_ID p2 = p_ID p \<and> p_TenantID p2 = p_TenantID p"
proof -
  have "policy_ok p1 \<and> p_ID p1 = p_ID p \<and> p_TenantID p1 = p_TenantID p"
    using assms(1,3) by (auto simp: patch_name_def policy_ok_def Let_def split: option.splits if_splits)
  then show ?thesis
    using assms(2) by (auto simp: patch_rules_def policy_ok_def split: option.splits)
qed

lemma UpdatePolicyHandler_cases:
  "snd (UpdatePolicyHandler e tenant i b s) = s \<or>
   (\<exists>t old n rs p1 p p' s'. tenant = Some t \<and> GetPolicy t i s = Some old \<and>
      patch_name n old = (Inr p1 :: risk_reply + Policy) \<and> patch_rules rs p1 = (Inr p :: risk_reply + Policy) \<and>
      UpdatePolicy (rv_now e 0) p s = Some (p', s') \<and> snd (UpdatePolicyHandler e tenant i b s) = s')"
  unfolding UpdatePolicyHandler_def by (simp split: option.splits sum.splits got.splits) blast

lemma UpdatePolicyHandler_effect:
  assumes "risk_ok s"
  shows "risk_effect tenant e s (snd (UpdatePolicyHandler e tenant i b s))"
  using UpdatePolicyHandler_cases [of e tenant i b s]
proof (elim disjE exE conjE)
  fix t old n rs p1 p p' s'
  assume t: "tenant = Some t" and old: "GetPolicy t i s = Some old"
    and p: "patch_name n old = (Inr p1 :: risk_reply + Policy)" "patch_rules rs p1 = (Inr p :: risk_reply + Policy)"
    and u: "UpdatePolicy (rv_now e 0) p s = Some (p', s')" "snd (UpdatePolicyHandler e tenant i b s) = s'"
  have "policy_ok old"
    using old assms by (auto simp: GetPolicy_def risk_ok_def risk_wf_def tab_wf_get [of p_ID] split: option.splits if_splits)
  with patches_ok [OF p] have "policy_ok p" "p_ID p = p_ID old" "p_TenantID p = p_TenantID old" by auto
  with \<open>policy_ok old\<close> show ?thesis
    using Update [OF t old, of p e p' s'] u policies.get_tenant [OF old] by simp
qed (simp add: None)

lemma risk_v1_effect: "risk_ok s \<Longrightarrow> risk_effect tenant e s (snd (risk_v1 e rt tenant s))"
  by (cases rt) (simp_all add: None CreateEvaluation_effect CreatePolicyHandler_effect
      UpdatePolicyHandler_effect DeletePolicyHandler_effect)

lemma GetPolicy_one_tenant: "GetPolicy t i s = Some p \<Longrightarrow> u \<noteq> t \<Longrightarrow> GetPolicy u i s = None"
  by (auto simp: GetPolicy_def split: option.splits if_splits)

lemma update_policies:
  "UpdatePolicy now p s = Some (p', s') \<Longrightarrow>
   p_ID p' = p_ID p \<and> p_TenantID p' = p_TenantID p \<and> p_Name p' = p_Name p \<and> p_Rules p' = p_Rules p \<and>
   p_UpdatedAt p' = now \<and> s' = CreatePolicy p' s"
  by (auto simp: UpdatePolicy_def CreatePolicy_def Let_def split: option.splits if_splits)

lemma policy_rows_put: "set (tab_rows (rk_policies (CreatePolicy p s))) \<subseteq> insert p (set (tab_rows (rk_policies s)))"
proof -
  have "set (AList.update k r m) \<subseteq> insert (k, r) (set m)" for k and r :: Policy and m by (induction m) auto
  then show ?thesis by (force simp: CreatePolicy_def tab_put_def tab_rows_def)
qed

lemma policy_rows_del: "DeletePolicy t i s = Some s' \<Longrightarrow> set (tab_rows (rk_policies s')) \<subseteq> set (tab_rows (rk_policies s))"
  by (auto simp: DeletePolicy_def tab_del_def tab_rows_def AList.delete_eq split: option.splits if_splits)

lemma risk_effect_ok:
  assumes "risk_effect tenant e s s'" "risk_ok s"
  shows "risk_ok s'"
  using assms
proof cases
  case (Eval ev)
  with assms(2) show ?thesis by (simp add: risk_ok_def risk_wf_updates(1)) (simp add: PutEvaluation_def)
next
  case (Create p)
  with assms(2) show ?thesis using policy_rows_put [of p s] by (auto simp: risk_ok_def risk_wf_updates(2))
next
  case (Update t i old p p')
  have "policy_ok p'" using update_policies [OF Update(7)] Update(6) by (simp add: policy_ok_def)
  then show ?thesis
    using assms(2) update_policies [OF Update(7)] policy_rows_put [of p' s] by (auto simp: risk_ok_def risk_wf_updates(2))
next
  case (Delete t i)
  then show ?thesis
    using assms(2) policy_rows_del [OF Delete(2)] risk_wf_updates(4) [OF _ Delete(2)] by (auto simp: risk_ok_def)
qed simp

lemma risk_effect_evaluations:
  assumes "risk_effect tenant e s s'" "risk_fresh e s"
  shows "(GetEvaluation t i s = Some ev \<longrightarrow> GetEvaluation t i s' = Some ev) \<and>
    (tenant \<noteq> Some t \<longrightarrow> GetEvaluation t i s' = GetEvaluation t i s)"
  using assms(1)
proof cases
  case (Eval new)
  have "GetEvaluation u (re_ID new) s = None" for u
    using assms(2) Eval(3) by (simp add: GetEvaluation_def risk_fresh_def)
  with Eval(2) show ?thesis by (auto simp: Eval(1) evaluations.get_put)
next
  case (Update u j old p p')
  have "GetEvaluation t i s' = GetEvaluation t i s"
    using update_policies [OF Update(7)] by (simp add: GetEvaluation_def CreatePolicy_def)
  then show ?thesis by simp
next
  case (Delete u j)
  then have "GetEvaluation t i s' = GetEvaluation t i s"
    by (auto simp: GetEvaluation_def DeletePolicy_def split: option.splits if_splits)
  then show ?thesis by simp
qed (auto simp: GetEvaluation_def CreatePolicy_def)

text \<open>The rows a listing of tenant \<open>t\<close> starts from.\<close>

definition tenant_policies :: "string \<Rightarrow> risk_store \<Rightarrow> Policy list" where
  "tenant_policies t s = filter (\<lambda>p. p_TenantID p = t) (tab_rows (rk_policies s))"

lemma ListPolicies_tenant:
  "ListPolicies t limit cursor s =
     cut_page limit (sort_slice policy_before (filter (\<lambda>p. after_cursor cursor (p_CreatedAt p)) (tenant_policies t s)))"
  by (simp add: ListPolicies_def tenant_policies_def filter_filter conj_commute)

lemma risk_effect_policies_foreign:
  assumes "risk_effect tenant e s s'" "risk_fresh e s" "risk_ok s" "tenant \<noteq> Some t"
  shows "tenant_policies t s' = tenant_policies t s \<and> GetPolicy t i s' = GetPolicy t i s"
proof -
  have put: "tenant_policies t (CreatePolicy p s) = tenant_policies t s \<and> GetPolicy t i (CreatePolicy p s) = GetPolicy t i s"
    if "p_TenantID p \<noteq> t" "GetPolicy t (p_ID p) s = None" for p
  proof -
    have "\<And>old. tab_get (rk_policies s) (p_ID p) = Some old \<Longrightarrow> p_TenantID old \<noteq> t"
      using that(2) by (auto simp: GetPolicy_def split: if_splits)
    with that show ?thesis
      by (auto simp: tenant_policies_def policies.get_put) (simp add: CreatePolicy_def tab_rows_put_unselected)
  qed
  from assms(1) show ?thesis
  proof cases
    case (Eval new)
    then show ?thesis by (simp add: tenant_policies_def GetPolicy_def PutEvaluation_def)
  next
    case (Create p)
    have "GetPolicy t (p_ID p) s = None" using assms(2) Create(3) by (simp add: GetPolicy_def risk_fresh_def)
    then show ?thesis using put [of p] Create(1,2) assms(4) by auto
  next
    case (Update u j old p p')
    note U = update_policies [OF Update(7)]
    have u: "u \<noteq> t" using Update(1) assms(4) by simp
    have "risk_wf s" using assms(3) by (simp add: risk_ok_def)
    then have f: "p_TenantID p' = u" "p_ID p' = j"
      using U Update(3,4) GetPolicy_id [OF _ Update(2)] by auto
    then show ?thesis using put [of p'] U u GetPolicy_one_tenant [OF Update(2), of t] by auto
  next
    case (Delete u j)
    then obtain p where p: "tab_get (rk_policies s) j = Some p" "p_TenantID p = u"
      "s' = s\<lparr>rk_policies := tab_del j (rk_policies s)\<rparr>"
      by (auto simp: DeletePolicy_def split: option.splits if_splits)
    have "u \<noteq> t" using Delete(1) assms(4) by simp
    moreover have "distinct (map fst (rk_policies s))" using assms(3) by (simp add: risk_ok_def risk_wf_def tab_wf_def)
    ultimately show ?thesis using p
      by (auto simp: tenant_policies_def GetPolicy_def table_simps intro!: tab_rows_del_unselected split: option.splits)
  qed simp
qed

text \<open>A security event token writes neither evaluations nor policies.\<close>

lemma applyEvent_frame [simp]:
  "rk_evaluations (applyEvent e k claims uri payload s) = rk_evaluations s"
  "rk_policies (applyEvent e k claims uri payload s) = rk_policies s"
  by (simp_all add: applyEvent_def apply_assurance_def UpsertAssurance_def RecordTransactionCompletion_def Let_def)

lemma receive_events_frame [simp]:
  "rk_evaluations (receive_events e k claims evs s) = rk_evaluations s"
  "rk_policies (receive_events e k claims evs s) = rk_policies s"
  by (induction e k claims evs s rule: receive_events.induct) (simp_all add: Let_def RecordCAEPEvent_def)

lemma ReceiveSET_frame [simp]:
  "rk_evaluations (snd (ReceiveSET vf ord e sent s)) = rk_evaluations s"
  "rk_policies (snd (ReceiveSET vf ord e sent s)) = rk_policies s"
  unfolding ReceiveSET_def Let_def by (auto split: option.splits json.splits)

lemma RiskRouter_cases:
  obtains (stopped) "snd (RiskRouter v1_only secret vf ord e path r s) = s"
  | (served) rt t where "From r = Some t"
      "snd (RiskRouter v1_only secret vf ord e path r s) = snd (risk_v1 e rt (Some t) s)"
  | (ssf) "rk_evaluations (snd (RiskRouter v1_only secret vf ord e path r s)) = rk_evaluations s"
      "rk_policies (snd (RiskRouter v1_only secret vf ord e path r s)) = rk_policies s"
proof -
  have gate: "snd (InternalAuth secret h r s) = s \<or> InternalAuth secret h r s = h r s"
    for h :: "gate_request \<Rightarrow> risk_store \<Rightarrow> risk_reply \<times> risk_store"
    by (simp add: InternalAuth_def)
  have tree: "snd (TenantMiddleware (risk_v1 e rt) r s) = s \<or>
      (\<exists>t. From r = Some t \<and> snd (TenantMiddleware (risk_v1 e rt) r s) = snd (risk_v1 e rt (Some t) s))" for rt
    by (cases "From r") (simp_all add: TenantMiddleware_def)
  show ?thesis
  proof (cases path)
    case RiskHealth
    then show ?thesis using stopped by (simp add: RiskRouter_def)
  next
    case (RiskV1 rt)
    then show ?thesis using stopped served tree [of rt] gate [of "TenantMiddleware (risk_v1 e rt)"]
      by (cases "fold_name v1_only = ''true''") (auto simp: RiskRouter_def)
  next
    case (RiskInternalV1 rt)
    then show ?thesis using stopped served tree [of rt] gate [of "TenantMiddleware (risk_v1 e rt)"]
      by (auto simp: RiskRouter_def)
  next
    case (RiskSSF sent)
    then show ?thesis using stopped ssf gate [of "\<lambda>r. ReceiveSET vf ord e sent"]
      by (auto simp: RiskRouter_def)
  qed
qed

lemma Router_step:
  assumes "risk_ok s"
  shows "risk_ok (snd (RiskRouter v1_only secret vf ord e path r s)) \<and>
    (risk_fresh e s \<longrightarrow>
       (\<forall>t i ev. GetEvaluation t i s = Some ev \<longrightarrow>
          GetEvaluation t i (snd (RiskRouter v1_only secret vf ord e path r s)) = Some ev))"
proof (cases rule: RiskRouter_cases [of v1_only secret vf ord e path r s])
  case (served rt t)
  have "risk_effect (Some t) e s (snd (risk_v1 e rt (Some t) s))" using assms by (rule risk_v1_effect)
  then show ?thesis using risk_effect_ok [OF _ assms] risk_effect_evaluations served by auto
next
  case ssf
  then show ?thesis using assms by (simp add: risk_ok_def risk_wf_def GetEvaluation_def)
qed (simp add: assms)

section \<open>Properties\<close>

definition demo_risk_env :: risk_env where
  "demo_risk_env = \<lparr>rv_now = \<lambda>n. 7 * Hour, rv_uuid = \<lambda>n. ''9'', rv_fails = \<lambda>op. False\<rparr>"

definition demo_evaluate :: "string \<Rightarrow> body" where
  "demo_evaluate sensitivity = Body (JObj [(''user_id'', JStr ''u''), (''action'', JStr ''transfer.send''),
     (''resource_sensitivity'', JStr sensitivity),
     (''context'', JObj [(''ip_address'', JStr ''203.0.113.100'')])]) 100"

definition demo_risk_gate :: "string \<Rightarrow> gate_request" where
  "demo_risk_gate t = \<lparr>peer_certificates = 0, internal_auth_header = [], tenant_header = t\<rparr>"

definition demo_risk_store :: risk_store where
  "demo_risk_store = CreatePolicy (hd sample_policies) NewMemStorage"

lemma demo_risk_ok: "risk_ok demo_risk_store"
proof -
  have "policy_ok (hd sample_policies)" by code_simp
  moreover have "tab_rows (rk_policies demo_risk_store) = [hd sample_policies]" by code_simp
  ultimately show ?thesis
    using risk_wf_updates(2) [OF risk_wf_New, of "hd sample_policies"] by (simp add: risk_ok_def demo_risk_store_def)
qed

text \<open>
  Whatever request arrives, on any path, the store stays well-formed: every stored policy has
  passed validation, and every evaluation ever stored stays readable, unchanged, by its tenant.
\<close>

theorem risk_service_invariant:
  assumes "risk_ok s" "risk_fresh e s"
  shows "risk_ok (snd (RiskRouter v1_only secret vf ord e path r s)) \<and>
    (GetEvaluation t i s = Some ev \<longrightarrow>
       GetEvaluation t i (snd (RiskRouter v1_only secret vf ord e path r s)) = Some ev)"
  using Router_step [OF assms(1), of v1_only secret vf ord e path r] assms(2) by blast

theorem risk_service_invariant_witness:
  "risk_ok (snd (RiskRouter [] [] None (\<lambda>evs. evs) demo_risk_env (RiskV1 (QCreateEvaluation (demo_evaluate ''high'')))
     (demo_risk_gate ''t'') demo_risk_store)) \<and>
   length (rk_evaluations (snd (RiskRouter [] [] None (\<lambda>evs. evs) demo_risk_env
     (RiskV1 (QCreateEvaluation (demo_evaluate ''high''))) (demo_risk_gate ''t'') demo_risk_store))) = 1"
proof
  have "risk_fresh demo_risk_env demo_risk_store" by code_simp
  then show "risk_ok (snd (RiskRouter [] [] None (\<lambda>evs. evs) demo_risk_env (RiskV1 (QCreateEvaluation (demo_evaluate ''high'')))
     (demo_risk_gate ''t'') demo_risk_store))"
    using risk_service_invariant [OF demo_risk_ok] by blast
  show "length (rk_evaluations (snd (RiskRouter [] [] None (\<lambda>evs. evs) demo_risk_env
     (RiskV1 (QCreateEvaluation (demo_evaluate ''high''))) (demo_risk_gate ''t'') demo_risk_store))) = 1"
    by code_simp
qed

text \<open>
  Tenants of risk-service are isolated: a request without tenant \<open>t\<close>'s header leaves what \<open>t\<close> reads,
  its evaluations, its policies and every page of its policy listing, as it was.
\<close>

theorem risk_service_isolates_tenants:
  assumes "risk_ok s" "risk_fresh e s" "From r \<noteq> Some t"
  shows "GetEvaluation t i (snd (RiskRouter v1_only secret vf ord e path r s)) = GetEvaluation t i s \<and>
    GetPolicy t i (snd (RiskRouter v1_only secret vf ord e path r s)) = GetPolicy t i s \<and>
    ListPolicies t limit cursor (snd (RiskRouter v1_only secret vf ord e path r s)) = ListPolicies t limit cursor s"
proof (cases rule: RiskRouter_cases [of v1_only secret vf ord e path r s])
  case (served rt u)
  have E: "risk_effect (Some u) e s (snd (risk_v1 e rt (Some u) s))" using assms(1) by (rule risk_v1_effect)
  have "Some u \<noteq> Some t" using served(1) assms(3) by simp
  with risk_effect_evaluations [OF E assms(2)] risk_effect_policies_foreign [OF E assms(2,1)] served(2)
  show ?thesis by (simp add: ListPolicies_tenant)
next
  case ssf
  then show ?thesis by (simp add: GetEvaluation_def GetPolicy_def ListPolicies_def)
qed simp

theorem risk_service_isolates_tenants_witness:
  "GetPolicy ''t'' ''pol_1'' (snd (RiskRouter [] [] None (\<lambda>evs. evs) demo_risk_env (RiskV1 (QDeletePolicy ''pol_1''))
     (demo_risk_gate ''other'') demo_risk_store)) = Some (hd sample_policies)"
proof -
  have f: "risk_fresh demo_risk_env demo_risk_store" by code_simp
  have "From (demo_risk_gate ''other'') \<noteq> Some ''t''" by (simp add: From_def demo_risk_gate_def)
  from risk_service_isolates_tenants [OF demo_risk_ok f this, of "''pol_1''"]
  show ?thesis by (simp add: demo_risk_store_def policies.get_put sample_policies_def)
qed

lemma CreateEvaluation_OK:
  assumes "fst (CreateEvaluation e tenant b s) = WriteJSON st (QEvaluation ev)"
  obtains t req signals score where "tenant = Some t" "ReadJSON EvaluateRequest_fields no_evaluate_request b = Inr req"
    "ValidSensitivity (er_ResourceSensitivity req)" "Aggregate req t s (rv_now e 0) = (signals, score)"
    "re_TenantID ev = t" "re_UserID ev = er_UserID req" "re_Score ev = score" "re_Signals ev = signals"
    "re_Tier ev = pe_EffectiveTier (EvaluatePolicies req (DeriveTier score) (ListPolicies t 0 0 s))"
    "re_PolicyDecision ev = pe_Decision (EvaluatePolicies req (DeriveTier score) (ListPolicies t 0 0 s))"
    "re_MatchedPolicies ev = pe_MatchedPolicies (EvaluatePolicies req (DeriveTier score) (ListPolicies t 0 0 s))"
    "snd (CreateEvaluation e tenant b s) = PutEvaluation ev s"
proof -
  obtain t where t: "tenant = Some t"
    using assms by (cases tenant) (auto simp: CreateEvaluation_def risk_reply_defs)
  obtain req where req: "ReadJSON EvaluateRequest_fields no_evaluate_request b = Inr req"
    using assms t by (cases "ReadJSON EvaluateRequest_fields no_evaluate_request b")
      (auto simp: CreateEvaluation_def risk_reply_defs split: if_splits)
  obtain signals score where A: "Aggregate req t s (rv_now e 0) = (signals, score)" by (metis prod.collapse)
  show ?thesis
    using assms t req A
    by (intro that [OF t req _ A]) (auto simp: CreateEvaluation_def risk_reply_defs Let_def split: if_splits)
qed

lemma DeriveTier_valid: "ValidTier (DeriveTier x)"
  by (simp add: DeriveTier_def ValidTier_def)

text \<open>
  A reported evaluation is the pipeline's result on record: its score is the aggregate, its tier
  and decision are the overlay specification's on the tenant's policies, so the tier is valid and
  never below the derived one; and it can be read back under the id it was reported with, denied or
  not.
\<close>

theorem evaluation_is_pipeline_result:
  assumes "risk_ok s" "fst (CreateEvaluation e (Some t) b s) = WriteJSON st (QEvaluation ev)"
  shows "\<exists>req. ReadJSON EvaluateRequest_fields no_evaluate_request b = Inr req \<and>
    re_Score ev = snd (Aggregate req t s (rv_now e 0)) \<and>
    (let spec = overlay_spec req (DeriveTier (re_Score ev)) (ListPolicies t 0 0 s)
     in re_Tier ev = pe_EffectiveTier spec \<and> re_PolicyDecision ev = pe_Decision spec \<and>
        re_MatchedPolicies ev = pe_MatchedPolicies spec) \<and>
    ValidTier (re_Tier ev) \<and> level_of (DeriveTier (re_Score ev)) \<le> level_of (re_Tier ev) \<and>
    GetEvaluation t (re_ID ev) (snd (CreateEvaluation e (Some t) b s)) = Some ev"
  using assms(2)
proof (rule CreateEvaluation_OK)
  fix t' req signals score
  let ?ps = "ListPolicies t 0 0 s"
  assume C: "Some t = Some t'" "ReadJSON EvaluateRequest_fields no_evaluate_request b = Inr req"
    "Aggregate req t' s (rv_now e 0) = (signals, score)" "re_TenantID ev = t'" "re_Score ev = score"
    "re_Tier ev = pe_EffectiveTier (EvaluatePolicies req (DeriveTier score) (ListPolicies t' 0 0 s))"
    "re_PolicyDecision ev = pe_Decision (EvaluatePolicies req (DeriveTier score) (ListPolicies t' 0 0 s))"
    "re_MatchedPolicies ev = pe_MatchedPolicies (EvaluatePolicies req (DeriveTier score) (ListPolicies t' 0 0 s))"
    "snd (CreateEvaluation e (Some t) b s) = PutEvaluation ev s"
  have "risk_wf s" using assms(1) by (simp add: risk_ok_def)
  then have "\<forall>p\<in>set ?ps. ValidateRules (p_Rules p) = None"
    using assms(1) by (auto simp: ListPolicies_all risk_ok_def policy_ok_def)
  then have spec: "EvaluatePolicies req (DeriveTier score) ?ps = overlay_spec req (DeriveTier score) ?ps"
    using refines_overlay [OF DeriveTier_valid] by simp
  define l where max: "l = Max (insert (level_of (DeriveTier score)) (rule_level req ` set (all_rules ?ps)))"
  have l: "pe_EffectiveTier (overlay_spec req (DeriveTier score) ?ps) = tier_name l"
    by (simp add: overlay_spec_def max)
  have "level_of (DeriveTier score) \<le> l" unfolding max by (rule Max_ge) auto
  moreover have "GetEvaluation t (re_ID ev) (PutEvaluation ev s) = Some ev"
    using C(1,4) evaluations.get_put_same [of ev s] by simp
  ultimately show ?thesis using C spec l by (intro exI [of _ req]) (simp add: Let_def)
qed

theorem evaluation_is_pipeline_result_witness:
  "\<exists>ev. fst (CreateEvaluation demo_risk_env (Some ''t'') (demo_evaluate ''high'') demo_risk_store)
       = WriteJSON 201 (QEvaluation ev) \<and>
     re_Flags ev = [''no_fingerprint'', ''flagged_ip'', ''vpn_detected'', ''first_high_value_action''] \<and>
     re_Score ev = 663 / 1000 \<and> re_Tier ev = TierMedium \<and>
     GetEvaluation ''t'' (re_ID ev) (snd (CreateEvaluation demo_risk_env (Some ''t'') (demo_evaluate ''high'') demo_risk_store)) = Some ev"
proof -
  have "case fst (CreateEvaluation demo_risk_env (Some ''t'') (demo_evaluate ''high'') demo_risk_store) of
      WriteJSON st p \<Rightarrow> st = 201 \<and> (case p of QEvaluation ev \<Rightarrow>
        re_Flags ev = [''no_fingerprint'', ''flagged_ip'', ''vpn_detected'', ''first_high_value_action''] \<and>
        re_Score ev = 663 / 1000 \<and> re_Tier ev = TierMedium | _ \<Rightarrow> False) | _ \<Rightarrow> False"
    by code_simp
  then obtain ev where ev: "fst (CreateEvaluation demo_risk_env (Some ''t'') (demo_evaluate ''high'') demo_risk_store)
      = WriteJSON 201 (QEvaluation ev)"
    "re_Flags ev = [''no_fingerprint'', ''flagged_ip'', ''vpn_detected'', ''first_high_value_action'']"
    "re_Score ev = 663 / 1000" "re_Tier ev = TierMedium"
    by (auto split: reply.splits risk_payload.splits)
  with evaluation_is_pipeline_result [OF demo_risk_ok ev(1)] show ?thesis by blast
qed

lemma prior_after_evaluation:
  assumes "fst (CreateEvaluation e (Some t) b s) = WriteJSON st (QEvaluation ev)"
  shows "UserHasPriorEvaluation t (re_UserID ev) (snd (CreateEvaluation e (Some t) b s))"
  using assms
proof (rule CreateEvaluation_OK)
  assume *: "snd (CreateEvaluation e (Some t) b s) = PutEvaluation ev s"
  fix t' assume "Some t = Some t'" "re_TenantID ev = t'"
  moreover have "ev \<in> set (tab_rows (rk_evaluations (PutEvaluation ev s)))"
  proof -
    have "map_of (rk_evaluations (PutEvaluation ev s)) (re_ID ev) = Some ev"
      by (simp add: PutEvaluation_def tab_put_def update_conv')
    then show ?thesis by (force simp: tab_rows_def dest: map_of_SomeD)
  qed
  ultimately show "UserHasPriorEvaluation t (re_UserID ev) (snd (CreateEvaluation e (Some t) b s))"
    unfolding * by (auto simp: UserHasPriorEvaluation_def list_ex_iff)
qed

text \<open>
  Only a user's first evaluation can come out high from the signals: once one evaluation of the
  user has been reported, the pipeline derives at most medium for any later request of that user,
  so only a policy can still raise it to high.
\<close>

theorem only_first_evaluation_derives_high:
  assumes "fst (CreateEvaluation e (Some t) b s) = WriteJSON st (QEvaluation ev)" "er_UserID req' = re_UserID ev"
  shows "DeriveTier (snd (Aggregate req' t (snd (CreateEvaluation e (Some t) b s)) now')) \<noteq> TierHigh"
proof -
  let ?s = "snd (CreateEvaluation e (Some t) b s)"
  have "sc_Flags (UserScorer req' t ?s) = []"
    using prior_after_evaluation [OF assms(1)] assms(2) by (simp add: UserScorer_def Let_def)
  then show ?thesis by (simp add: derives_high_iff)
qed

theorem only_first_evaluation_derives_high_witness:
  "\<exists>ev. fst (CreateEvaluation demo_risk_env (Some ''t'') (demo_evaluate ''high'') NewMemStorage)
       = WriteJSON 201 (QEvaluation ev) \<and> re_UserID ev = ''u'' \<and>
     DeriveTier (snd (Aggregate risky_request ''t'' NewMemStorage 0)) = TierHigh \<and>
     DeriveTier (snd (Aggregate risky_request ''t''
       (snd (CreateEvaluation demo_risk_env (Some ''t'') (demo_evaluate ''high'') NewMemStorage)) 0)) \<noteq> TierHigh"
proof -
  have "case fst (CreateEvaluation demo_risk_env (Some ''t'') (demo_evaluate ''high'') NewMemStorage) of
      WriteJSON st p \<Rightarrow> st = 201 \<and> (case p of QEvaluation ev \<Rightarrow> re_UserID ev = ''u'' | _ \<Rightarrow> False) | _ \<Rightarrow> False"
    by code_simp
  then obtain ev where ev: "fst (CreateEvaluation demo_risk_env (Some ''t'') (demo_evaluate ''high'') NewMemStorage)
      = WriteJSON 201 (QEvaluation ev)" "re_UserID ev = ''u''"
    by (auto split: reply.splits risk_payload.splits)
  moreover have "DeriveTier (snd (Aggregate risky_request ''t'' NewMemStorage 0)) = TierHigh" by code_simp
  moreover have "er_UserID risky_request = re_UserID ev" by (simp add: risky_request_def ev(2))
  ultimately show ?thesis using only_first_evaluation_derives_high [OF ev(1)] by blast
qed

section \<open>The paged listing\<close>

text \<open>What a client sees that asks for pages: the items and the cursor of the reply.\<close>

definition policy_page :: "risk_env \<Rightarrow> string \<Rightarrow> string \<Rightarrow> risk_store \<Rightarrow> time \<Rightarrow> Policy list \<times> time option" where
  "policy_page e t q_limit s c =
     (case fst (ListPoliciesHandler e (Some t) q_limit (if c = 0 then NoCursor else CursorAt c) s) of
        WriteJSON st (QPolicies items next) \<Rightarrow> (items, next)
      | _ \<Rightarrow> ([], None))"

lemma policy_page_eq:
  assumes "page_limit DefaultListLimit MaxListLimit q = Some limit" "\<not> rv_fails e OpListPolicies"
  shows "policy_page e t q s c =
    (let items = cut_page limit (sort_slice policy_before
        (filter (\<lambda>p. p_TenantID p = t \<and> after_cursor c (p_CreatedAt p)) (tab_rows (rk_policies s))))
     in (items, next_cursor p_CreatedAt limit items))"
  using assms by (simp add: policy_page_def ListPoliciesHandler_def cursor_time_def ListPolicies_def Let_def)

text \<open>
  Paging through a tenant's policies with any accepted page size lists each of them exactly once,
  newest first, provided no two of them were created at the same instant.
\<close>

theorem policy_paging_complete:
  assumes wf: "risk_wf s" and q: "page_limit DefaultListLimit MaxListLimit q = Some limit" and up: "\<not> rv_fails e OpListPolicies"
    and times: "distinct (map p_CreatedAt (tenant_policies t s))" "\<forall>p\<in>set (tenant_policies t s). 0 < p_CreatedAt p"
    and fuel: "length (tenant_policies t s) < fuel"
  shows "mset (walk_pages fuel (policy_page e t q s) 0) = mset (tenant_policies t s) \<and>
    sorted_wrt (\<lambda>a b. p_CreatedAt b < p_CreatedAt a) (walk_pages fuel (policy_page e t q s) 0)"
proof -
  have ids: "distinct (map p_ID (tab_rows (rk_policies s)))" using wf by (simp add: risk_wf_def tab_wf_distinct)
  have limit: "0 < limit" by (rule page_limit_pos [OF q]) (simp_all add: DefaultListLimit_def MaxListLimit_def)
  show ?thesis
    unfolding tenant_policies_def
    using times(2) fuel
    by (intro policy_pages.walk_listing_spec [OF ids times(1) [unfolded tenant_policies_def] _ limit policy_page_eq [OF q up]])
      (auto simp: tenant_policies_def)
qed

definition two_policies :: "time \<Rightarrow> risk_store" where
  "two_policies t0 = CreatePolicy (sample_policies ! 1) (CreatePolicy ((sample_policies ! 0)\<lparr>p_CreatedAt := t0\<rparr>) NewMemStorage)"

theorem policy_paging_complete_witness:
  "mset (walk_pages 3 (policy_page demo_risk_env ''t'' ''1'' (two_policies 2)) 0)
     = mset (tenant_policies ''t'' (two_policies 2)) \<and> length (tenant_policies ''t'' (two_policies 2)) = 2"
proof -
  have "risk_wf (two_policies 2)" by (simp add: two_policies_def risk_wf_updates(2))
  moreover have "page_limit DefaultListLimit MaxListLimit ''1'' = Some 1" by code_simp
  moreover have "\<not> rv_fails demo_risk_env OpListPolicies" by (simp add: demo_risk_env_def)
  moreover have "map p_CreatedAt (tenant_policies ''t'' (two_policies 2)) = [2, 1]" by code_simp
  moreover from this have "length (tenant_policies ''t'' (two_policies 2)) = 2"
    "\<forall>p\<in>set (tenant_policies ''t'' (two_policies 2)). 0 < p_CreatedAt p"
    by (metis length_map length_Cons list.size(3) One_nat_def Suc_1) (metis (no_types, lifting) \<open>map p_CreatedAt (tenant_policies ''t'' (two_policies 2)) = [2, 1]\<close> list.set_map image_eqI list.set_cases set_ConsD zero_less_one zero_less_numeral empty_iff list.set(1))
  ultimately show ?thesis
    using policy_paging_complete [of "two_policies 2" "''1''" 1 demo_risk_env "''t''" 3] by simp
qed

text \<open>Two policies of one instant and pages of one: the second is never listed.\<close>

lemma policy_paging_loses_ties:
  "map p_ID (walk_pages 10 (policy_page demo_risk_env ''t'' ''1'' (two_policies 1)) 0) = [''pol_1''] \<and>
   map p_ID (tenant_policies ''t'' (two_policies 1)) = [''pol_1'', ''pol_0'']"
  by code_simp

section \<open>The posture that a security event token leaves\<close>

definition posture :: "string \<Rightarrow> string \<Rightarrow> risk_store \<Rightarrow> (string \<times> bool) option" where
  "posture t u s = map_option (\<lambda>a. (as_Level a, as_Compliant a)) (GetAssurance t u s)"

text \<open>What one event does to the posture of its subject.\<close>

definition posture_step :: "string \<times> json \<Rightarrow> (string \<times> bool) option \<Rightarrow> (string \<times> bool) option" where
  "posture_step ev p =
     (let payload = event_payload (snd ev); level = obj_str payload ''current_level''
      in if fst ev = CAEPAssuranceLevelChange then
           (if level = [] then p
            else Some (level, case p of None \<Rightarrow> True | Some (l, c) \<Rightarrow> if l = [] then True else c))
         else if fst ev = CAEPDeviceComplianceChange then
           Some (case p of None \<Rightarrow> AAL1 | Some (l, c) \<Rightarrow> if l = [] then AAL1 else l,
             obj_str payload ''current_status'' = ''compliant'')
         else p)"

lemma caep_uris [simp]: "CAEPDeviceComplianceChange \<noteq> CAEPAssuranceLevelChange"
  by (simp add: CAEPDeviceComplianceChange_def CAEPAssuranceLevelChange_def)

lemma posture_step_commute:
  "fst a \<noteq> fst b \<Longrightarrow> posture_step a (posture_step b p) = posture_step b (posture_step a p)"
  by (auto simp: posture_step_def Let_def AAL1_def split: option.splits)

lemma posture_Upsert:
  "posture t u (UpsertAssurance a s) =
     (if t @ ''|'' @ u = as_TenantID a @ ''|'' @ as_UserID a then Some (as_Level a, as_Compliant a) else posture t u s)"
  by (simp add: posture_def GetAssurance_def UpsertAssurance_def table_simps)

lemma posture_other [simp]:
  "posture t u (RecordTransactionCompletion tc s) = posture t u s" "posture t u (RecordCAEPEvent ev s) = posture t u s"
  by (simp_all add: posture_def GetAssurance_def RecordTransactionCompletion_def RecordCAEPEvent_def)

lemma posture_same_key: "t @ ''|'' @ u = t' @ ''|'' @ u' \<Longrightarrow> posture t u s = posture t' u' s"
  by (simp add: posture_def GetAssurance_def)

lemma applyEvent_posture:
  assumes "\<not> rv_fails e OpGetAssurance" "\<not> rv_fails e OpUpsertAssurance"
  shows "posture t u (applyEvent e k claims uri (event_payload raw) s) =
    (if scl_TenantID claims = [] \<or> scl_Sub claims = [] \<or> t @ ''|'' @ u \<noteq> scl_TenantID claims @ ''|'' @ scl_Sub claims
     then posture t u s else posture_step (uri, raw) (posture t u s))"
proof (cases "scl_TenantID claims = [] \<or> scl_Sub claims = []")
  case True
  then show ?thesis by (auto simp: applyEvent_def)
next
  case False
  let ?t = "scl_TenantID claims" and ?u = "scl_Sub claims"
  have step: "posture ?t ?u (applyEvent e k claims uri (event_payload raw) s) = posture_step (uri, raw) (posture ?t ?u s)"
    using assms False
    by (cases "GetAssurance ?t ?u s")
      (auto simp: applyEvent_def apply_assurance_def posture_Upsert posture_step_def Let_def posture_def [of ?t ?u s])
  have "posture t u (applyEvent e k claims uri (event_payload raw) s) = posture t u s"
    if "t @ ''|'' @ u \<noteq> ?t @ ''|'' @ ?u"
    using that by (auto simp: applyEvent_def apply_assurance_def posture_Upsert Let_def)
  with False step show ?thesis using posture_same_key by (metis (no_types, lifting))
qed

lemma receive_events_posture:
  assumes "\<not> rv_fails e OpGetAssurance" "\<not> rv_fails e OpUpsertAssurance"
  shows "posture t u (receive_events e k claims evs s) =
    (if scl_TenantID claims = [] \<or> scl_Sub claims = [] \<or> t @ ''|'' @ u \<noteq> scl_TenantID claims @ ''|'' @ scl_Sub claims
     then posture t u s else fold posture_step evs (posture t u s))"
proof (induction evs arbitrary: k s)
  case (Cons ev evs)
  obtain uri raw where "ev = (uri, raw)" by (cases ev)
  then show ?case by (simp add: Let_def Cons.IH applyEvent_posture [OF assms])
qed simp

lemma distinct_go_map: "distinct (map fst (go_map ms))"
proof -
  have "distinct (map fst (fold (\<lambda>(k, v) m. AList.update k v m) ms m))" if "distinct (map fst m)" for m
    using that by (induction ms arbitrary: m) (auto simp: distinct_update)
  then show ?thesis by (simp add: go_map_def)
qed

lemma fold_posture_order:
  assumes "distinct (map fst evs)" "mset evs = mset evs'"
  shows "fold posture_step evs p = fold posture_step evs' p"
proof -
  have "fold posture_step evs = fold posture_step evs'"
  proof (rule fold_multiset_equiv)
    fix x y assume "x \<in> set evs" "y \<in> set evs"
    with assms(1) have "x = y \<or> fst x \<noteq> fst y" by (auto simp: distinct_map dest: inj_onD)
    then show "posture_step x \<circ> posture_step y = posture_step y \<circ> posture_step x"
      by (elim disjE) (simp, rule ext, simp add: posture_step_commute)
  qed (rule assms(2))
  then show ?thesis by simp
qed

text \<open>
  The events of a security event token are applied in the order in which Go happens to iterate the
  events map; whatever that order is, the posture they leave for every user, the assurance level and
  the device compliance, is the same.
\<close>

theorem set_event_order_is_irrelevant:
  assumes "\<And>evs. mset (order evs) = mset evs" "\<And>evs. mset (order' evs) = mset evs"
    and up: "\<not> rv_fails e OpGetAssurance" "\<not> rv_fails e OpUpsertAssurance"
  shows "posture t u (snd (ReceiveSET verifier order e sent s)) = posture t u (snd (ReceiveSET verifier order' e sent s))"
proof -
  have "posture t u (receive_events e 0 claims (order (go_map ms)) s) =
      posture t u (receive_events e 0 claims (order' (go_map ms)) s)" for claims ms
  proof -
    have "mset (order (go_map ms)) = mset (order' (go_map ms))" using assms(1,2) by simp
    moreover have "distinct (map fst (order (go_map ms)))"
      using distinct_go_map [of ms] assms(1) by (metis mset_eq_imp_distinct_iff mset_map)
    ultimately show ?thesis
      using fold_posture_order by (simp add: receive_events_posture [OF up])
  qed
  then show ?thesis unfolding ReceiveSET_def Let_def by (auto split: option.splits json.splits)
qed

definition demo_set :: "string \<Rightarrow> time \<Rightarrow> (set_claims \<times> (string \<times> json) list) option" where
  "demo_set text now = Some (\<lparr>scl_Sub = ''u'', scl_TenantID = ''t'', scl_SessionID = []\<rparr>,
     [(''events'', JObj [(CAEPAssuranceLevelChange, JObj [(''current_level'', JStr ''nist-aal2'')]),
        (CAEPDeviceComplianceChange, JObj [(''current_status'', JStr ''not-compliant'')])])])"

theorem set_event_order_is_irrelevant_witness:
  "posture ''t'' ''u'' (snd (ReceiveSET (Some demo_set) rev demo_risk_env (Some ''set'') NewMemStorage))
     = Some (''nist-aal2'', False)"
proof -
  let ?evs = "[(CAEPAssuranceLevelChange, JObj [(''current_level'', JStr ''nist-aal2'')]),
      (CAEPDeviceComplianceChange, JObj [(''current_status'', JStr ''not-compliant'')])]"
  have map: "go_map ?evs = ?evs" by code_simp
  have "posture ''t'' ''u'' (snd (ReceiveSET (Some demo_set) (\<lambda>evs. evs) demo_risk_env (Some ''set'') NewMemStorage))
      = posture ''t'' ''u'' (receive_events demo_risk_env 0 \<lparr>scl_Sub = ''u'', scl_TenantID = ''t'', scl_SessionID = []\<rparr>
          ?evs NewMemStorage)"
    by (simp add: ReceiveSET_def demo_set_def obj_get_def map)
  moreover have "\<dots> = Some (''nist-aal2'', False)" by code_simp
  moreover have "posture ''t'' ''u'' (snd (ReceiveSET (Some demo_set) rev demo_risk_env (Some ''set'') NewMemStorage))
      = posture ''t'' ''u'' (snd (ReceiveSET (Some demo_set) (\<lambda>evs. evs) demo_risk_env (Some ''set'') NewMemStorage))"
    by (rule set_event_order_is_irrelevant) (simp_all add: demo_risk_env_def)
  ultimately show ?thesis by simp
qed

end
