(* ===== verification/XTime.thy ===== *)
theory XTime
  imports XWire "HOL-Library.Monad_Syntax"
begin

text \<open>
  Instants on the wire: \<open>time.Time\<close> decodes from a JSON string in the strict RFC 3339 form
  (\<open>UnmarshalJSON\<close>), into nanoseconds since the zero instant.  The fields that may be absent, and the
  integers, are decoded here too.
\<close>

section \<open>The calendar\<close>

definition is_leap :: "int \<Rightarrow> bool" where
  "is_leap y \<longleftrightarrow> y mod 4 = 0 \<and> (y mod 100 \<noteq> 0 \<or> y mod 400 = 0)"

definition days_in :: "int \<Rightarrow> int \<Rightarrow> int" where
  "days_in y m = (if m = 2 then if is_leap y then 29 else 28 else if m \<in> {4, 6, 9, 11} then 30 else 31)"

definition days_before_month :: "int \<Rightarrow> int \<Rightarrow> int" where
  "days_before_month y m = sum_list (map (days_in y) [1..m - 1])"

text \<open>Days from January 1 of year 1, so that the zero instant is day 0.\<close>

definition days_of :: "int \<Rightarrow> int \<Rightarrow> int \<Rightarrow> int" where
  "days_of y m d = 365 * (y - 1) + (y - 1) div 4 - (y - 1) div 100 + (y - 1) div 400 + days_before_month y m + (d - 1)"

section \<open>Parsing\<close>

fun take_num :: "nat \<Rightarrow> int \<Rightarrow> string \<Rightarrow> (int \<times> string) option" where
  "take_num 0 acc s = Some (acc, s)"
| "take_num (Suc n) acc [] = None"
| "take_num (Suc n) acc (c # s) = (if is_digit c then take_num n (10 * acc + digit_val c) s else None)"

fun expect :: "char \<Rightarrow> string \<Rightarrow> string option" where
  "expect c [] = None"
| "expect c (d # s) = (if d = c then Some s else None)"

definition in_range :: "int \<Rightarrow> int \<Rightarrow> int \<Rightarrow> unit option" where
  "in_range lo hi n = (if lo \<le> n \<and> n \<le> hi then Some () else None)"

text \<open>The fraction of a second: digits beyond the ninth are read and dropped.\<close>

definition nanos_of :: "string \<Rightarrow> int" where
  "nanos_of ds = foldl (\<lambda>acc c. 10 * acc + digit_val c) 0 (take 9 (ds @ ''000000000''))"

definition take_fraction :: "string \<Rightarrow> int \<times> string" where
  "take_fraction s =
     (case s of
        c # d # rest \<Rightarrow> if c = CHR ''.'' \<and> is_digit d
                        then (nanos_of (takeWhile is_digit (d # rest)), dropWhile is_digit rest) else (0, s)
      | _ \<Rightarrow> (0, s))"

text \<open>The zone, in seconds east of UTC; nothing may follow it.\<close>

definition take_zone :: "string \<Rightarrow> int option" where
  "take_zone s =
     (if s = ''Z'' then Some 0
      else case s of
        [] \<Rightarrow> None
      | c # rest \<Rightarrow>
          if c \<noteq> CHR ''+'' \<and> c \<noteq> CHR ''-'' then None
          else do {
            (hh, rest) \<leftarrow> take_num 2 0 rest;
            _ \<leftarrow> in_range 0 23 hh;
            rest \<leftarrow> expect CHR '':'' rest;
            (mm, rest) \<leftarrow> take_num 2 0 rest;
            _ \<leftarrow> in_range 0 59 mm;
            (if rest \<noteq> [] then None
             else Some ((if c = CHR ''-'' then - 1 else 1) * (3600 * hh + 60 * mm)))
          })"

definition parse_RFC3339 :: "string \<Rightarrow> time option" where
  "parse_RFC3339 s = do {
     (y, s) \<leftarrow> take_num 4 0 s;
     s \<leftarrow> expect CHR ''-'' s;
     (mo, s) \<leftarrow> take_num 2 0 s;
     _ \<leftarrow> in_range 1 12 mo;
     s \<leftarrow> expect CHR ''-'' s;
     (d, s) \<leftarrow> take_num 2 0 s;
     _ \<leftarrow> in_range 1 (days_in y mo) d;
     s \<leftarrow> expect CHR ''T'' s;
     (hh, s) \<leftarrow> take_num 2 0 s;
     _ \<leftarrow> in_range 0 23 hh;
     s \<leftarrow> expect CHR '':'' s;
     (mi, s) \<leftarrow> take_num 2 0 s;
     _ \<leftarrow> in_range 0 59 mi;
     s \<leftarrow> expect CHR '':'' s;
     (sec, s) \<leftarrow> take_num 2 0 s;
     _ \<leftarrow> in_range 0 59 sec;
     let (nanos, s) = take_fraction s;
     zone \<leftarrow> take_zone s;
     Some ((86400 * days_of y mo d + 3600 * hh + 60 * mi + sec - zone) * Second + nanos)
   }"

fun dec_time :: "string \<Rightarrow> json \<Rightarrow> time \<Rightarrow> json_err + time" where
  "dec_time f (JStr s) old = (case parse_RFC3339 s of None \<Rightarrow> Inl (TypeMismatch f) | Some t \<Rightarrow> Inr t)"
| "dec_time f JNull old = Inr old"
| "dec_time f _ old = Inl (TypeMismatch f)"

text \<open>A pointer to an instant, and a map of numbers.\<close>

definition dec_time_pointer :: "string \<Rightarrow> json \<Rightarrow> time option \<Rightarrow> json_err + time option" where
  "dec_time_pointer f j old =
     (if j = JNull then Inr None
      else case dec_time f j (case old of None \<Rightarrow> 0 | Some t \<Rightarrow> t) of Inl e \<Rightarrow> Inl e | Inr t \<Rightarrow> Inr (Some t))"

fun dec_float_members :: "string \<Rightarrow> (string \<times> json) list \<Rightarrow> (string \<times> rat) list \<Rightarrow> json_err + (string \<times> rat) list" where
  "dec_float_members f [] acc = Inr acc"
| "dec_float_members f ((k, j) # ms) acc =
     (case dec_float f j 0 of Inl e \<Rightarrow> Inl e | Inr r \<Rightarrow> dec_float_members f ms (AList.update k r acc))"

fun dec_floats :: "string \<Rightarrow> json \<Rightarrow> (string \<times> rat) list \<Rightarrow> json_err + (string \<times> rat) list" where
  "dec_floats f (JObj ms) old = dec_float_members f ms old"
| "dec_floats f JNull old = Inr []"
| "dec_floats f _ old = Inl (TypeMismatch f)"

text \<open>A map whose absence (nil) is kept apart from the empty map.\<close>

definition dec_map_pointer :: "string \<Rightarrow> json \<Rightarrow> (string \<times> json) list option \<Rightarrow>
    json_err + (string \<times> json) list option" where
  "dec_map_pointer f j old =
     (if j = JNull then Inr None
      else case dec_map f j (case old of None \<Rightarrow> [] | Some ms \<Rightarrow> ms) of Inl e \<Rightarrow> Inl e | Inr ms \<Rightarrow> Inr (Some ms))"

text \<open>An \<open>int\<close> and a pointer to one: the number must be whole and in the range of 64 bits.  A number
  literal whose value is whole is taken to be written without fraction and exponent, which Go
  refuses here.\<close>

definition dec_int_pointer :: "string \<Rightarrow> json \<Rightarrow> int option \<Rightarrow> json_err + int option" where
  "dec_int_pointer f j old =
     (case j of
        JNull \<Rightarrow> Inr None
      | JNum r text \<Rightarrow>
          let n = \<lfloor>r\<rfloor> in if of_int n = r \<and> - (2 ^ 63) \<le> n \<and> n < 2 ^ 63 then Inr (Some n) else Inl (TypeMismatch f)
      | _ \<Rightarrow> Inl (TypeMismatch f))"

definition dec_int :: "string \<Rightarrow> json \<Rightarrow> int \<Rightarrow> json_err + int" where
  "dec_int f j old =
     (case dec_int_pointer f j None of Inl e \<Rightarrow> Inl e | Inr None \<Rightarrow> Inr old | Inr (Some n) \<Rightarrow> Inr n)"

text \<open>A pointer to a slice of strings.\<close>

definition dec_strings_pointer :: "string \<Rightarrow> json \<Rightarrow> string list option \<Rightarrow> json_err + string list option" where
  "dec_strings_pointer f j old =
     (if j = JNull then Inr None
      else case dec_strings f j [] of Inl e \<Rightarrow> Inl e | Inr ss \<Rightarrow> Inr (Some ss))"

lemma parse_zero_instant: "parse_RFC3339 ''0001-01-01T00:00:00Z'' = Some 0"
  by code_simp

lemma parse_examples:
  "parse_RFC3339 ''1970-01-01T00:00:00Z'' = Some (62135596800 * Second)"
  "parse_RFC3339 ''2024-02-29T23:59:59.5+01:00'' = Some ((62135596800 + 1709247599) * Second + 500000000)"
  "parse_RFC3339 ''2023-02-29T00:00:00Z'' = None"
  by code_simp+

end
