(* ===== verification/TxnModel.thy ===== *)
theory TxnModel
  imports XTime
begin

text \<open>
  The records of transaction-service and its in-memory storage (models.go, storage.go): requests,
  responses, the transaction with its audit trail, and the tenant-scoped store with its newest-first
  listing.
\<close>

section \<open>Tiers, decisions and bounds\<close>

definition TierLow :: string where "TierLow = ''low''"
definition TierMedium :: string where "TierMedium = ''medium''"
definition TierHigh :: string where "TierHigh = ''high''"

definition DecisionAllow :: string where "DecisionAllow = ''allow''"
definition DecisionDeny :: string where "DecisionDeny = ''deny''"
definition DecisionStepUpRequired :: string where "DecisionStepUpRequired = ''step_up_required''"
definition DecisionStepUpSatisfied :: string where "DecisionStepUpSatisfied = ''step_up_satisfied''"
definition DecisionError :: string where "DecisionError = ''error''"

lemmas decision_defs = DecisionAllow_def DecisionDeny_def DecisionStepUpRequired_def
  DecisionStepUpSatisfied_def DecisionError_def
lemmas txn_tier_defs = TierLow_def TierMedium_def TierHigh_def

definition DefaultListLimit :: int where "DefaultListLimit = 100"
definition MaxListLimit :: int where "MaxListLimit = 500"
definition SessionStaleAfter :: duration where "SessionStaleAfter = 5 * Minute"

section \<open>Requests\<close>

record Geo =
  geo_Lat :: rat
  geo_Lon :: rat

record EvalContext =
  cx_IPAddress :: string
  cx_UserAgent :: string
  cx_DeviceFingerprint :: string
  cx_Geo :: "Geo option"

record AdviceRequest =
  ad_UserID :: string
  ad_SessionID :: string
  ad_Action :: string
  ad_Resource :: string
  ad_ResourceSensitivity :: string
  ad_Context :: EvalContext

record StepUpVerifyRequest =
  su_TransactionID :: string
  su_ChallengeID :: string
  su_Method :: string
  su_Response :: "(string \<times> json) list option"

record AuthorizeRequest =
  az_UserID :: string
  az_SessionID :: string
  az_Action :: string
  az_Resource :: string
  az_Attributes :: "(string \<times> json) list"

definition no_geo :: Geo where "no_geo = \<lparr>geo_Lat = 0, geo_Lon = 0\<rparr>"

definition dec_geo :: "string \<Rightarrow> json \<Rightarrow> Geo option \<Rightarrow> json_err + Geo option" where
  "dec_geo f j old =
     (if j = JNull then Inr None
      else case dec_struct True
          [into dec_float ''lat'' geo_Lat geo_Lat_update, into dec_float ''lon'' geo_Lon geo_Lon_update]
          j (case old of None \<Rightarrow> no_geo | Some g \<Rightarrow> g) of
        Inl e \<Rightarrow> Inl e | Inr g \<Rightarrow> Inr (Some g))"

definition EvalContext_fields :: "EvalContext field list" where
  "EvalContext_fields =
     [into dec_string ''ip_address'' cx_IPAddress cx_IPAddress_update,
      into dec_string ''user_agent'' cx_UserAgent cx_UserAgent_update,
      into dec_string ''device_fingerprint'' cx_DeviceFingerprint cx_DeviceFingerprint_update,
      into dec_geo ''geo'' cx_Geo cx_Geo_update]"

definition AdviceRequest_fields :: "AdviceRequest field list" where
  "AdviceRequest_fields =
     [into dec_string ''user_id'' ad_UserID ad_UserID_update,
      into dec_string ''session_id'' ad_SessionID ad_SessionID_update,
      into dec_string ''action'' ad_Action ad_Action_update,
      into dec_string ''resource'' ad_Resource ad_Resource_update,
      into dec_string ''resource_sensitivity'' ad_ResourceSensitivity ad_ResourceSensitivity_update,
      into (dec_nested True EvalContext_fields) ''context'' ad_Context ad_Context_update]"

definition no_advice :: AdviceRequest where
  "no_advice = \<lparr>ad_UserID = [], ad_SessionID = [], ad_Action = [], ad_Resource = [], ad_ResourceSensitivity = [],
     ad_Context = \<lparr>cx_IPAddress = [], cx_UserAgent = [], cx_DeviceFingerprint = [], cx_Geo = None\<rparr>\<rparr>"

definition StepUpVerifyRequest_fields :: "StepUpVerifyRequest field list" where
  "StepUpVerifyRequest_fields =
     [into dec_string ''transaction_id'' su_TransactionID su_TransactionID_update,
      into dec_string ''challenge_id'' su_ChallengeID su_ChallengeID_update,
      into dec_string ''method'' su_Method su_Method_update,
      into dec_map_pointer ''response'' su_Response su_Response_update]"

definition no_step_up :: StepUpVerifyRequest where
  "no_step_up = \<lparr>su_TransactionID = [], su_ChallengeID = [], su_Method = [], su_Response = None\<rparr>"

definition AuthorizeRequest_fields :: "AuthorizeRequest field list" where
  "AuthorizeRequest_fields =
     [into dec_string ''user_id'' az_UserID az_UserID_update,
      into dec_string ''session_id'' az_SessionID az_SessionID_update,
      into dec_string ''action'' az_Action az_Action_update,
      into dec_string ''resource'' az_Resource az_Resource_update,
      into dec_map ''attributes'' az_Attributes az_Attributes_update]"

definition no_authorize :: AuthorizeRequest where
  "no_authorize = \<lparr>az_UserID = [], az_SessionID = [], az_Action = [], az_Resource = [], az_Attributes = []\<rparr>"

section \<open>Responses\<close>

record SignalSummary =
  ss_Score :: rat
  ss_Flags :: "string list"

record RiskView =
  rw_ID :: string
  rw_Tier :: string
  rw_Score :: rat
  rw_Signals :: "(string \<times> SignalSummary) list"

record StepUpChallenge =
  sc_ChallengeID :: string
  sc_Methods :: "string list"
  sc_ExpiresAt :: time

record AdviceResponse =
  ar_TransactionID :: string
  ar_RiskEvaluation :: RiskView
  ar_Decision :: string
  ar_StepUp :: "StepUpChallenge option"

record SessionView =
  sw_ID :: string
  sw_RiskLevel :: string
  sw_StepUpCompleted :: bool
  sw_ExpiresAt :: time

record StepUpVerifyResponse =
  sr_TransactionID :: string
  sr_Decision :: string
  sr_Session :: "SessionView option"
  sr_Reason :: string

record AuthorizeResponse =
  zr_TransactionID :: string
  zr_Decision :: string
  zr_PolicyID :: string
  zr_MatchedPolicies :: "string list"
  zr_Reason :: string
  zr_EvaluatedAt :: time

section \<open>Transactions\<close>

record HistoryEntry =
  he_At :: time
  he_Event :: string
  he_Detail :: string

record Transaction =
  t_ID :: string
  t_TenantID :: string
  t_UserID :: string
  t_SessionID :: string
  t_Action :: string
  t_Resource :: string
  t_ResourceSensitivity :: string
  t_RiskEvaluationID :: string
  t_RiskTier :: string
  t_RiskScore :: rat
  t_Decision :: string
  t_StepUpUsed :: bool
  t_StepUpMethod :: string
  t_ChallengeID :: string
  t_PolicyID :: string
  t_Reason :: string
  t_History :: "HistoryEntry list"
  t_CreatedAt :: time
  t_DecidedAt :: "time option"

section \<open>Storage\<close>

record txn_store =
  tx_data :: "Transaction table"

definition NewTxnStorage :: txn_store where
  "NewTxnStorage = \<lparr>tx_data = []\<rparr>"

definition CreateTxn :: "Transaction \<Rightarrow> txn_store \<Rightarrow> txn_store" where
  "CreateTxn t s = s\<lparr>tx_data := tab_put (t_ID t) t (tx_data s)\<rparr>"

definition UpdateTxn :: "Transaction \<Rightarrow> txn_store \<Rightarrow> (Transaction \<times> txn_store) option" where
  "UpdateTxn t s =
     (case tab_get (tx_data s) (t_ID t) of
        None \<Rightarrow> None
      | Some existing \<Rightarrow>
          if t_TenantID existing \<noteq> t_TenantID t then None
          else let t' = t\<lparr>t_CreatedAt := t_CreatedAt existing\<rparr>
               in Some (t', s\<lparr>tx_data := tab_put (t_ID t) t' (tx_data s)\<rparr>))"

definition GetTxn :: "string \<Rightarrow> string \<Rightarrow> txn_store \<Rightarrow> Transaction option" where
  "GetTxn tenantID tid s =
     (case tab_get (tx_data s) tid of
        None \<Rightarrow> None
      | Some t \<Rightarrow> if t_TenantID t \<noteq> tenantID then None else Some t)"

definition txn_before :: "Transaction \<Rightarrow> Transaction \<Rightarrow> bool" where
  "txn_before a b = (if t_CreatedAt a = t_CreatedAt b then t_ID b < t_ID a else t_CreatedAt b < t_CreatedAt a)"

definition ListTxns :: "string \<Rightarrow> int \<Rightarrow> time \<Rightarrow> txn_store \<Rightarrow> Transaction list" where
  "ListTxns tenantID limit cursor s =
     cut_page limit (sort_slice txn_before
       (filter (\<lambda>t. t_TenantID t = tenantID \<and> after_cursor cursor (t_CreatedAt t)) (tab_rows (tx_data s))))"

definition AppendHistory :: "string \<Rightarrow> string \<Rightarrow> HistoryEntry \<Rightarrow> txn_store \<Rightarrow> txn_store option" where
  "AppendHistory tenantID tid entry s =
     (case tab_get (tx_data s) tid of
        None \<Rightarrow> None
      | Some t \<Rightarrow>
          if t_TenantID t \<noteq> tenantID then None
          else Some (s\<lparr>tx_data := tab_put tid (t\<lparr>t_History := t_History t @ [entry]\<rparr>) (tx_data s)\<rparr>))"

definition txn_wf :: "txn_store \<Rightarrow> bool" where
  "txn_wf s \<longleftrightarrow> tab_wf t_ID (tx_data s)"

interpretation txns: tenant_rows_update t_ID t_TenantID CreateTxn GetTxn UpdateTxn
    "\<lambda>old t. t\<lparr>t_CreatedAt := t_CreatedAt old\<rparr>"
  by unfold_locales
    (auto simp: CreateTxn_def GetTxn_def UpdateTxn_def Let_def table_simps split: option.splits if_splits)

interpretation txn_pages: keyset_listing t_ID txn_before t_CreatedAt
  by unfold_locales (auto simp: txn_before_def split: if_splits)

lemma txn_wf_updates:
  "txn_wf NewTxnStorage"
  "txn_wf s \<Longrightarrow> txn_wf (CreateTxn t s)"
  "txn_wf s \<Longrightarrow> UpdateTxn t s = Some (t', s') \<Longrightarrow> txn_wf s'"
  by (auto simp: txn_wf_def NewTxnStorage_def CreateTxn_def UpdateTxn_def Let_def
      intro!: tab_wf_put split: option.splits if_splits)

lemma GetTxn_id: "txn_wf s \<Longrightarrow> GetTxn tn i s = Some t \<Longrightarrow> t_ID t = i \<and> t_TenantID t = tn"
  by (auto simp: txn_wf_def GetTxn_def tab_wf_get split: option.splits if_splits)

text \<open>Appending to the trail of a stored row is putting the row back with one more entry.\<close>

lemma AppendHistory_put:
  assumes "txn_wf s" "GetTxn tn i s = Some t"
  shows "AppendHistory tn i entry s = Some (CreateTxn (t\<lparr>t_History := t_History t @ [entry]\<rparr>) s)"
  using assms GetTxn_id [OF assms]
  by (auto simp: AppendHistory_def GetTxn_def CreateTxn_def split: option.splits if_splits)

end
