(* ===== verification/TxnClients.thy ===== *)
theory TxnClients
  imports TxnModel
begin

text \<open>
  The inter-service clients of transaction-service (clients.go): the error they report, the three
  client interfaces, and their HTTP implementation over a transport.
\<close>

section \<open>Errors of a downstream call\<close>

record DownstreamError =
  de_Service :: string
  de_Status :: nat
  de_Body :: string
  de_Err :: "string option"

text \<open>An error value of a client: a \<open>DownstreamError\<close>, or any other error with its text.\<close>

datatype client_err = Downstream DownstreamError | OtherError string

definition ErrorText :: "client_err \<Rightarrow> string" where
  "ErrorText err =
     (case err of
        OtherError text \<Rightarrow> text
      | Downstream e \<Rightarrow>
          (case de_Err e of
             Some cause \<Rightarrow> de_Service e @ '': '' @ cause
           | None \<Rightarrow> de_Service e @ '': '' @ show_nat (de_Status e) @ '' '' @ de_Body e))"

section \<open>What the clients send and return\<close>

text \<open>A value of a \<open>map[string]any\<close> that the service builds itself.\<close>

datatype val = VStr string | VNum rat | VMap "(string \<times> val) list"

record RiskEvaluateRequest =
  rq_TenantID :: string
  rq_UserID :: string
  rq_SessionID :: string
  rq_Action :: string
  rq_Resource :: string
  rq_ResourceSensitivity :: string
  rq_Signals :: "(string \<times> val) list"

record RiskEvaluationResult =
  rr_ID :: string
  rr_Tier :: string
  rr_Score :: rat
  rr_Scores :: "(string \<times> rat) list"
  rr_Flags :: "string list"
  rr_MatchedPolicies :: "string list"
  rr_SensitivityApplied :: bool

record ChallengeMethod =
  cm_Method :: string
  cm_AuthenticatorID :: string
  cm_ChallengeData :: "(string \<times> json) list"
  cm_Status :: string

record Challenge =
  ch_ID :: string
  ch_MethodsAvailable :: "ChallengeMethod list"
  ch_ExpiresAt :: time

record ChallengeCreateRequest =
  cq_TenantID :: string
  cq_UserID :: string
  cq_Methods :: "string list"
  cq_Context :: "(string \<times> val) list"

record ChallengeVerifyResult =
  cv_ChallengeID :: string
  cv_Verified :: bool
  cv_Method :: string
  cv_AuthenticatorID :: string
  cv_Reason :: string
  cv_AttemptsRemaining :: "int option"
  cv_VerifiedAt :: time

record Session =
  ses_ID :: string
  ses_UserID :: string
  ses_RiskLevel :: string
  ses_StepUpCompleted :: bool
  ses_ExpiresAt :: time
  ses_UpdatedAt :: time

record SessionUpdateRequest =
  sq_RiskLevel :: string
  sq_StepUpCompleted :: bool

text \<open>
  The three interfaces, as functions of the world the sister services live in: a call returns an
  error or a result, and leaves a new world.
\<close>

record 'w txn_clients =
  cl_Evaluate :: "string \<Rightarrow> RiskEvaluateRequest \<Rightarrow> 'w \<Rightarrow> (client_err + RiskEvaluationResult) \<times> 'w"
  cl_CreateChallenge :: "string \<Rightarrow> ChallengeCreateRequest \<Rightarrow> 'w \<Rightarrow> (client_err + Challenge) \<times> 'w"
  cl_VerifyChallenge :: "string \<Rightarrow> string \<Rightarrow> string \<Rightarrow> (string \<times> json) list option \<Rightarrow> 'w \<Rightarrow>
    (client_err + ChallengeVerifyResult) \<times> 'w"
  cl_GetSession :: "string \<Rightarrow> string \<Rightarrow> 'w \<Rightarrow> (client_err + Session) \<times> 'w"
  cl_UpdateSession :: "string \<Rightarrow> string \<Rightarrow> SessionUpdateRequest \<Rightarrow> 'w \<Rightarrow> (client_err + Session) \<times> 'w"

section \<open>JSON of the requests and results\<close>

text \<open>\<open>ftext\<close> is the text of a \<open>float64\<close>.\<close>

fun val_json :: "(rat \<Rightarrow> string) \<Rightarrow> val \<Rightarrow> json" where
  "val_json ftext (VStr s) = JStr s"
| "val_json ftext (VNum r) = JNum r (ftext r)"
| "val_json ftext (VMap ms) = JObj (map (\<lambda>(k, v). (k, val_json ftext v)) ms)"

definition RiskEvaluateRequest_json :: "(rat \<Rightarrow> string) \<Rightarrow> RiskEvaluateRequest \<Rightarrow> json" where
  "RiskEvaluateRequest_json ftext q = JObj
     (put_str ''tenant_id'' (rq_TenantID q) @ put_str ''user_id'' (rq_UserID q) @
      omit_str ''session_id'' (rq_SessionID q) @ put_str ''action'' (rq_Action q) @
      omit_str ''resource'' (rq_Resource q) @ omit_str ''resource_sensitivity'' (rq_ResourceSensitivity q) @
      omit_obj ''signals'' (map (\<lambda>(k, v). (k, val_json ftext v)) (rq_Signals q)))"

definition ChallengeCreateRequest_json :: "(rat \<Rightarrow> string) \<Rightarrow> ChallengeCreateRequest \<Rightarrow> json" where
  "ChallengeCreateRequest_json ftext q = JObj
     (put_str ''tenant_id'' (cq_TenantID q) @ put_str ''user_id'' (cq_UserID q) @
      put_strs ''methods'' (cq_Methods q) @
      omit_obj ''context'' (map (\<lambda>(k, v). (k, val_json ftext v)) (cq_Context q)))"

definition SessionUpdateRequest_json :: "SessionUpdateRequest \<Rightarrow> json" where
  "SessionUpdateRequest_json q = JObj
     (omit_str ''risk_level'' (sq_RiskLevel q) @ omit_bool ''step_up_completed'' (sq_StepUpCompleted q))"

definition VerifyChallenge_json :: "string \<Rightarrow> (string \<times> json) list option \<Rightarrow> json" where
  "VerifyChallenge_json method response =
     JObj [(''method'', JStr method), (''response'', case response of None \<Rightarrow> JNull | Some ms \<Rightarrow> JObj ms)]"

text \<open>Results are decoded leniently: members that are not fields are skipped.\<close>

definition RiskEvaluationResult_fields :: "RiskEvaluationResult field list" where
  "RiskEvaluationResult_fields =
     [into dec_string ''id'' rr_ID rr_ID_update,
      into dec_string ''tier'' rr_Tier rr_Tier_update,
      into dec_float ''score'' rr_Score rr_Score_update,
      into dec_floats ''scores'' rr_Scores rr_Scores_update,
      into dec_strings ''flags'' rr_Flags rr_Flags_update,
      into dec_strings ''matched_policies'' rr_MatchedPolicies rr_MatchedPolicies_update,
      into dec_bool ''sensitivity_applied'' rr_SensitivityApplied rr_SensitivityApplied_update]"

definition no_result :: RiskEvaluationResult where
  "no_result = \<lparr>rr_ID = [], rr_Tier = [], rr_Score = 0, rr_Scores = [], rr_Flags = [], rr_MatchedPolicies = [],
     rr_SensitivityApplied = False\<rparr>"

definition ChallengeMethod_fields :: "ChallengeMethod field list" where
  "ChallengeMethod_fields =
     [into dec_string ''method'' cm_Method cm_Method_update,
      into dec_string ''authenticator_id'' cm_AuthenticatorID cm_AuthenticatorID_update,
      into dec_map ''challenge_data'' cm_ChallengeData cm_ChallengeData_update,
      into dec_string ''status'' cm_Status cm_Status_update]"

definition Challenge_fields :: "Challenge field list" where
  "Challenge_fields =
     [into dec_string ''id'' ch_ID ch_ID_update,
      into (dec_slice False ChallengeMethod_fields
          \<lparr>cm_Method = [], cm_AuthenticatorID = [], cm_ChallengeData = [], cm_Status = []\<rparr>)
        ''methods_available'' ch_MethodsAvailable ch_MethodsAvailable_update,
      into dec_time ''expires_at'' ch_ExpiresAt ch_ExpiresAt_update]"

definition no_challenge :: Challenge where
  "no_challenge = \<lparr>ch_ID = [], ch_MethodsAvailable = [], ch_ExpiresAt = 0\<rparr>"

definition ChallengeVerifyResult_fields :: "ChallengeVerifyResult field list" where
  "ChallengeVerifyResult_fields =
     [into dec_string ''challenge_id'' cv_ChallengeID cv_ChallengeID_update,
      into dec_bool ''verified'' cv_Verified cv_Verified_update,
      into dec_string ''method'' cv_Method cv_Method_update,
      into dec_string ''authenticator_id'' cv_AuthenticatorID cv_AuthenticatorID_update,
      into dec_string ''reason'' cv_Reason cv_Reason_update,
      into dec_int_pointer ''attempts_remaining'' cv_AttemptsRemaining cv_AttemptsRemaining_update,
      into dec_time ''verified_at'' cv_VerifiedAt cv_VerifiedAt_update]"

definition no_verify_result :: ChallengeVerifyResult where
  "no_verify_result = \<lparr>cv_ChallengeID = [], cv_Verified = False, cv_Method = [], cv_AuthenticatorID = [],
     cv_Reason = [], cv_AttemptsRemaining = None, cv_VerifiedAt = 0\<rparr>"

definition Session_fields :: "Session field list" where
  "Session_fields =
     [into dec_string ''id'' ses_ID ses_ID_update,
      into dec_string ''user_id'' ses_UserID ses_UserID_update,
      into dec_string ''risk_level'' ses_RiskLevel ses_RiskLevel_update,
      into dec_bool ''step_up_completed'' ses_StepUpCompleted ses_StepUpCompleted_update,
      into dec_time ''expires_at'' ses_ExpiresAt ses_ExpiresAt_update,
      into dec_time ''updated_at'' ses_UpdatedAt ses_UpdatedAt_update]"

definition no_session :: Session where
  "no_session = \<lparr>ses_ID = [], ses_UserID = [], ses_RiskLevel = [], ses_StepUpCompleted = False,
     ses_ExpiresAt = 0, ses_UpdatedAt = 0\<rparr>"

section \<open>The HTTP implementation\<close>

record http_request =
  hq_Method :: string
  hq_URL :: string
  hq_Gate :: gate_request
  hq_Body :: "json option"

record http_response =
  hr_Status :: nat
  hr_Text :: string
  hr_Body :: body

text \<open>
  \<open>send\<close> is \<open>net/http\<close> and the network: it builds the request from method, URL and body and
  carries it to the callee, or reports the text of an error.  \<open>json_text\<close> is the text of a decoding
  error.  The request bodies always marshal: they hold strings, booleans and finite numbers.
\<close>

record 'w http_clients =
  ht_send :: "http_request \<Rightarrow> 'w \<Rightarrow> (string + http_response) \<times> 'w"
  ht_secret :: string
  ht_json_text :: "json_err \<Rightarrow> string"
  ht_float_text :: "rat \<Rightarrow> string"
  ht_RiskURL :: string
  ht_AuthenticationURL :: string
  ht_AuthenticatorURL :: string

definition do_request :: "'w http_clients \<Rightarrow> string \<Rightarrow> string \<Rightarrow> string \<Rightarrow> string \<Rightarrow> json option \<Rightarrow> 'o field list \<Rightarrow> 'o \<Rightarrow>
    'w \<Rightarrow> (client_err + 'o) \<times> 'w" where
  "do_request c service method url tenantID b fs zero w =
     (let req = \<lparr>hq_Method = method, hq_URL = url,
                  hq_Gate = SetInternalAuth (ht_secret c)
                    \<lparr>peer_certificates = 0, internal_auth_header = [], tenant_header = tenantID\<rparr>,
                  hq_Body = b\<rparr>;
          failed = (\<lambda>st text cause.
            Inl (Downstream \<lparr>de_Service = service, de_Status = st, de_Body = text, de_Err = cause\<rparr>));
          (sent, w) = ht_send c req w
      in case sent of
           Inl text \<Rightarrow> (failed 0 [] (Some text), w)
         | Inr resp \<Rightarrow>
             if hr_Status resp < 200 \<or> 300 \<le> hr_Status resp then (failed (hr_Status resp) (hr_Text resp) None, w)
             else if hr_Status resp \<noteq> 204 then
               (case hr_Body resp of
                  NoBody \<Rightarrow> (Inr zero, w)
                | BadBody \<Rightarrow> (failed 0 [] (Some (ht_json_text c SyntaxErr)), w)
                | Body j off \<Rightarrow>
                    (case dec_struct False fs j zero of
                       Inl err \<Rightarrow> (failed 0 [] (Some (ht_json_text c err)), w)
                     | Inr out \<Rightarrow> (Inr out, w)))
             else (Inr zero, w))"

definition Evaluate :: "'w http_clients \<Rightarrow> string \<Rightarrow> RiskEvaluateRequest \<Rightarrow> 'w \<Rightarrow>
    (client_err + RiskEvaluationResult) \<times> 'w" where
  "Evaluate c tenantID req =
     do_request c ''risk-service'' ''POST'' (ht_RiskURL c @ ''/internal/v1/evaluations'') tenantID
       (Some (RiskEvaluateRequest_json (ht_float_text c) req)) RiskEvaluationResult_fields no_result"

definition CreateChallenge :: "'w http_clients \<Rightarrow> string \<Rightarrow> ChallengeCreateRequest \<Rightarrow> 'w \<Rightarrow>
    (client_err + Challenge) \<times> 'w" where
  "CreateChallenge c tenantID req =
     do_request c ''authenticator-service'' ''POST'' (ht_AuthenticatorURL c @ ''/internal/v1/challenges'') tenantID
       (Some (ChallengeCreateRequest_json (ht_float_text c) req)) Challenge_fields no_challenge"

definition VerifyChallenge :: "'w http_clients \<Rightarrow> string \<Rightarrow> string \<Rightarrow> string \<Rightarrow> (string \<times> json) list option \<Rightarrow> 'w \<Rightarrow>
    (client_err + ChallengeVerifyResult) \<times> 'w" where
  "VerifyChallenge c tenantID challengeID method response =
     do_request c ''authenticator-service'' ''POST''
       (ht_AuthenticatorURL c @ ''/internal/v1/challenges/'' @ challengeID @ ''/verify'') tenantID
       (Some (VerifyChallenge_json method response)) ChallengeVerifyResult_fields no_verify_result"

definition GetSession :: "'w http_clients \<Rightarrow> string \<Rightarrow> string \<Rightarrow> 'w \<Rightarrow> (client_err + Session) \<times> 'w" where
  "GetSession c tenantID sessionID =
     do_request c ''authentication-service'' ''GET'' (ht_AuthenticationURL c @ ''/internal/v1/sessions/'' @ sessionID)
       tenantID None Session_fields no_session"

definition UpdateSession :: "'w http_clients \<Rightarrow> string \<Rightarrow> string \<Rightarrow> SessionUpdateRequest \<Rightarrow> 'w \<Rightarrow>
    (client_err + Session) \<times> 'w" where
  "UpdateSession c tenantID sessionID req =
     do_request c ''authentication-service'' ''POST''
       (ht_AuthenticationURL c @ ''/internal/v1/sessions/'' @ sessionID @ ''/upgrade'') tenantID
       (Some (SessionUpdateRequest_json req)) Session_fields no_session"

definition HTTPClients :: "'w http_clients \<Rightarrow> 'w txn_clients" where
  "HTTPClients c =
     \<lparr>cl_Evaluate = Evaluate c, cl_CreateChallenge = CreateChallenge c, cl_VerifyChallenge = VerifyChallenge c,
      cl_GetSession = GetSession c, cl_UpdateSession = UpdateSession c\<rparr>"

text \<open>Every error of the HTTP clients is a \<open>DownstreamError\<close> of the service called.\<close>

lemma do_request_error:
  assumes "fst (do_request c service method url tenantID b fs zero w) = Inl err"
  obtains e where "err = Downstream e" "de_Service e = service"
  using assms by (auto simp: do_request_def Let_def split: prod.splits sum.splits body.splits if_splits)

lemma do_request_refused:
  assumes "fst (ht_send c \<lparr>hq_Method = method, hq_URL = url,
      hq_Gate = SetInternalAuth (ht_secret c)
        \<lparr>peer_certificates = 0, internal_auth_header = [], tenant_header = tenantID\<rparr>, hq_Body = b\<rparr> w) = Inr resp"
    "hr_Status resp < 200 \<or> 300 \<le> hr_Status resp"
  shows "fst (do_request c service method url tenantID b fs zero w) =
    Inl (Downstream \<lparr>de_Service = service, de_Status = hr_Status resp, de_Body = hr_Text resp, de_Err = None\<rparr>)"
  using assms by (auto simp: do_request_def Let_def split: prod.splits)

end
