(* ===== verification/TxnService.thy ===== *)
theory TxnService
  imports TxnClients RateLimit
begin

text \<open>
  The handlers of transaction-service (advice.go, authorize.go, stepup.go, transactions.go), the
  rate-limit key (ratelimit.go) and the router (handlers.go).  The sister services are reached through
  the client interfaces of TxnClients; a request runs against the store and the world they
  live in.
\<close>

section \<open>Environment, state and replies\<close>

datatype txn_op = OpCreate | OpUpdate | OpGet | OpList | OpAppendHistory

text \<open>
  What a request reads from outside: the clock, at its successive readings, a fresh uuid, and which
  storage calls fail for reasons of their own.
\<close>

record txn_env =
  tv_now :: "nat \<Rightarrow> time"
  tv_uuid :: string
  tv_fails :: "txn_op \<Rightarrow> bool"

record 'w txn_sys =
  ts_store :: txn_store
  ts_world :: 'w

datatype txn_payload =
    XAdvice AdviceResponse
  | XVerify StepUpVerifyResponse
  | XAuthorize AuthorizeResponse
  | XTransaction Transaction
  | XTransactions "Transaction list" "time option"
  | XUpstream string string
  | XHealth

type_synonym txn_reply = "txn_payload reply"

definition txn_no_tenant :: "'p reply" where
  "txn_no_tenant = bad_request ''missing_tenant'' ''X-Tenant-Id required''"

definition txn_invalid :: "string \<Rightarrow> 'p reply" where
  "txn_invalid m = bad_request ''invalid_request'' m"

definition txn_internal :: "string \<Rightarrow> 'p reply" where
  "txn_internal m = WriteError StatusInternalServerError ''internal_error'' (Lit m)"

definition writeUpstreamError :: "string \<Rightarrow> string \<Rightarrow> txn_reply" where
  "writeUpstreamError service txnID = WriteJSON StatusBadGateway (XUpstream service txnID)"

lemmas txn_reply_defs = txn_no_tenant_def txn_invalid_def txn_internal_def bad_request_def json_error_def
  writeUpstreamError_def

section \<open>Shared steps\<close>

definition newTransactionID :: "txn_env \<Rightarrow> string" where
  "newTransactionID e = ''txn_'' @ tv_uuid e"

definition methodsForTier :: "string \<Rightarrow> string list" where
  "methodsForTier tier =
     (if tier = TierMedium then [''otp'', ''magic_link'']
      else if tier = TierHigh then [''fido2'', ''push''] else [])"

definition logged :: "(time \<times> string \<times> string) list \<Rightarrow> Transaction \<Rightarrow> Transaction" where
  "logged evs t = t\<lparr>t_History := t_History t @
     map (\<lambda>(now, event, detail). \<lparr>he_At = now, he_Event = event, he_Detail = detail\<rparr>) evs\<rparr>"

text \<open>\<open>Store.Update\<close> whose error is only logged.\<close>

definition best_effort_update :: "txn_env \<Rightarrow> Transaction \<Rightarrow> txn_store \<Rightarrow> txn_store" where
  "best_effort_update e t s =
     (if tv_fails e OpUpdate then s else case UpdateTxn t s of None \<Rightarrow> s | Some (_, s') \<Rightarrow> s')"

definition errored_txn :: "time \<Rightarrow> string \<Rightarrow> string \<Rightarrow> Transaction \<Rightarrow> Transaction" where
  "errored_txn now event detail t =
     logged [(now, event, detail), (now, ''decision'', DecisionError)]
       (t\<lparr>t_Decision := DecisionError, t_DecidedAt := Some now, t_Reason := event\<rparr>)"

definition markError :: "txn_env \<Rightarrow> time \<Rightarrow> Transaction \<Rightarrow> string \<Rightarrow> string \<Rightarrow> txn_store \<Rightarrow> txn_store" where
  "markError e now t event detail s = best_effort_update e (errored_txn now event detail t) s"

definition validateAdvice :: "AdviceRequest \<Rightarrow> string" where
  "validateAdvice req =
     (if TrimSpace (ad_UserID req) = [] then ''user_id is required''
      else if TrimSpace (ad_Action req) = [] then ''action is required''
      else if TrimSpace (cx_IPAddress (ad_Context req)) = [] then ''context.ip_address is required''
      else if ad_ResourceSensitivity req \<noteq> [] \<and>
          ad_ResourceSensitivity req \<notin> {''low'', ''medium'', ''high'', ''critical''}
      then ''resource_sensitivity must be one of low|medium|high|critical''
      else [])"

text \<open>Maps are listed in the order in which they are marshalled, by key.\<close>

definition signalsFromContext :: "EvalContext \<Rightarrow> (string \<times> val) list" where
  "signalsFromContext c =
     (let device =
            (if cx_DeviceFingerprint c \<noteq> [] then [(''fingerprint'', VStr (cx_DeviceFingerprint c))] else []) @
            (if cx_UserAgent c \<noteq> [] then [(''user_agent'', VStr (cx_UserAgent c))] else []);
          network =
            (case cx_Geo c of None \<Rightarrow> []
             | Some g \<Rightarrow> [(''geo'', VMap [(''lat'', VNum (geo_Lat g)), (''lon'', VNum (geo_Lon g))])]) @
            [(''ip_address'', VStr (cx_IPAddress c))]
      in (if device \<noteq> [] then [(''device'', VMap device)] else []) @ [(''network'', VMap network)])"

definition flag_target :: "string \<Rightarrow> string" where
  "flag_target flag =
     (if starts_with flag ''device_'' \<or> flag = ''unknown_device'' then ''device''
      else if starts_with flag ''behavior_'' \<or> flag = ''unusual_time'' \<or> flag = ''anomalous'' then ''behavior''
      else if starts_with flag ''network_'' \<or> flag = ''flagged_ip'' \<or> flag = ''vpn_detected'' \<or> flag = ''tor_exit''
      then ''network'' else ''user'')"

definition add_flag :: "string \<Rightarrow> (string \<times> SignalSummary) list \<Rightarrow> (string \<times> SignalSummary) list" where
  "add_flag flag signals =
     (let target = flag_target flag;
          sum = (case map_of signals target of None \<Rightarrow> \<lparr>ss_Score = 0, ss_Flags = []\<rparr> | Some x \<Rightarrow> x)
      in AList.update target (sum\<lparr>ss_Flags := ss_Flags sum @ [flag]\<rparr>) signals)"

definition buildRiskEvaluation :: "RiskEvaluationResult \<Rightarrow> RiskView" where
  "buildRiskEvaluation result =
     \<lparr>rw_ID = rr_ID result, rw_Tier = rr_Tier result, rw_Score = rr_Score result,
      rw_Signals = fold add_flag (rr_Flags result)
        (map (\<lambda>(name, score). (name, \<lparr>ss_Score = score, ss_Flags = []\<rparr>)) (rr_Scores result))\<rparr>"

definition first_policy :: "string list \<Rightarrow> string" where
  "first_policy ps = (if ps = [] then [] else hd ps)"

section \<open>POST /v1/advice\<close>

definition advice_txn :: "txn_env \<Rightarrow> string \<Rightarrow> AdviceRequest \<Rightarrow> Transaction" where
  "advice_txn e tenantID req =
     \<lparr>t_ID = newTransactionID e, t_TenantID = tenantID, t_UserID = ad_UserID req, t_SessionID = ad_SessionID req,
      t_Action = ad_Action req, t_Resource = ad_Resource req, t_ResourceSensitivity = ad_ResourceSensitivity req,
      t_RiskEvaluationID = [], t_RiskTier = [], t_RiskScore = 0, t_Decision = ''pending'', t_StepUpUsed = False,
      t_StepUpMethod = [], t_ChallengeID = [], t_PolicyID = [], t_Reason = [],
      t_History = [\<lparr>he_At = tv_now e 0, he_Event = ''advice_received'', he_Detail = ad_Action req\<rparr>],
      t_CreatedAt = tv_now e 0, t_DecidedAt = None\<rparr>"

text \<open>The transaction once risk-service has answered.\<close>

definition advice_evaluated :: "txn_env \<Rightarrow> RiskEvaluationResult \<Rightarrow> Transaction \<Rightarrow> Transaction" where
  "advice_evaluated e result t =
     (let t = logged [(tv_now e 1, ''risk_evaluated'', rr_Tier result)]
            (t\<lparr>t_RiskEvaluationID := rr_ID result, t_RiskTier := rr_Tier result, t_RiskScore := rr_Score result\<rparr>)
      in if rr_MatchedPolicies result \<noteq> []
         then logged [(tv_now e 2, ''policies_matched'', join '','' (rr_MatchedPolicies result))]
                (t\<lparr>t_PolicyID := hd (rr_MatchedPolicies result)\<rparr>)
         else t)"

definition advice_allow :: "txn_env \<Rightarrow> RiskEvaluationResult \<Rightarrow> Transaction \<Rightarrow> 'w txn_sys \<Rightarrow> txn_reply \<times> 'w txn_sys" where
  "advice_allow e result t s =
     (let now = tv_now e 3;
          t = logged [(now, ''decision'', DecisionAllow)] (t\<lparr>t_Decision := DecisionAllow, t_DecidedAt := Some now\<rparr>)
      in (WriteJSON StatusOK (XAdvice \<lparr>ar_TransactionID = t_ID t, ar_RiskEvaluation = buildRiskEvaluation result,
            ar_Decision = DecisionAllow, ar_StepUp = None\<rparr>),
          s\<lparr>ts_store := best_effort_update e t (ts_store s)\<rparr>))"

definition advice_step_up :: "'w txn_clients \<Rightarrow> txn_env \<Rightarrow> string \<Rightarrow> AdviceRequest \<Rightarrow> RiskEvaluationResult \<Rightarrow>
    Transaction \<Rightarrow> 'w txn_sys \<Rightarrow> txn_reply \<times> 'w txn_sys" where
  "advice_step_up cl e tenantID req result t s =
     (let methods = methodsForTier (rr_Tier result);
          (res, w) = cl_CreateChallenge cl tenantID
            \<lparr>cq_TenantID = tenantID, cq_UserID = ad_UserID req, cq_Methods = methods,
             cq_Context = [(''action'', VStr (ad_Action req)), (''resource'', VStr (ad_Resource req)),
               (''transaction_id'', VStr (t_ID t))]\<rparr> (ts_world s);
          s = s\<lparr>ts_world := w\<rparr>
      in case res of
           Inl err \<Rightarrow>
             (writeUpstreamError ''authenticator-service'' (t_ID t),
              s\<lparr>ts_store := markError e (tv_now e 3) t ''challenge_create_failed'' (ErrorText err) (ts_store s)\<rparr>)
         | Inr ch \<Rightarrow>
             let now = tv_now e 3;
                 t = logged [(now, ''challenge_issued'', ch_ID ch), (now, ''decision'', DecisionStepUpRequired)]
                   (t\<lparr>t_Decision := DecisionStepUpRequired, t_ChallengeID := ch_ID ch, t_DecidedAt := Some now\<rparr>)
             in (WriteJSON StatusOK (XAdvice \<lparr>ar_TransactionID = t_ID t, ar_RiskEvaluation = buildRiskEvaluation result,
                   ar_Decision = DecisionStepUpRequired,
                   ar_StepUp = Some \<lparr>sc_ChallengeID = ch_ID ch, sc_Methods = methods, sc_ExpiresAt = ch_ExpiresAt ch\<rparr>\<rparr>),
                 s\<lparr>ts_store := best_effort_update e t (ts_store s)\<rparr>))"

definition advice_decide :: "'w txn_clients \<Rightarrow> txn_env \<Rightarrow> string \<Rightarrow> AdviceRequest \<Rightarrow> RiskEvaluationResult \<Rightarrow>
    Transaction \<Rightarrow> 'w txn_sys \<Rightarrow> txn_reply \<times> 'w txn_sys" where
  "advice_decide cl e tenantID req result t s =
     (if rr_Tier result = TierLow then advice_allow e result t s
      else if rr_Tier result = TierMedium \<or> rr_Tier result = TierHigh
      then advice_step_up cl e tenantID req result t s
      else (writeUpstreamError ''risk-service'' (t_ID t),
            s\<lparr>ts_store := markError e (tv_now e 3) t ''unknown_risk_tier'' (rr_Tier result) (ts_store s)\<rparr>))"

definition Advice :: "'w txn_clients \<Rightarrow> txn_env \<Rightarrow> string option \<Rightarrow> body \<Rightarrow> 'w txn_sys \<Rightarrow> txn_reply \<times> 'w txn_sys" where
  "Advice cl e tenant b s =
     (case tenant of
        None \<Rightarrow> (txn_no_tenant, s)
      | Some tenantID \<Rightarrow>
          (case ReadJSON AdviceRequest_fields no_advice b of
             Inl err \<Rightarrow> (json_error err, s)
           | Inr req \<Rightarrow>
               if validateAdvice req \<noteq> [] then (txn_invalid (validateAdvice req), s)
               else if tv_fails e OpCreate then (txn_internal ''failed to create transaction'', s)
               else
                 let t = advice_txn e tenantID req;
                     s = s\<lparr>ts_store := CreateTxn t (ts_store s)\<rparr>;
                     (res, w) = cl_Evaluate cl tenantID
                       \<lparr>rq_TenantID = tenantID, rq_UserID = ad_UserID req, rq_SessionID = ad_SessionID req,
                        rq_Action = ad_Action req, rq_Resource = ad_Resource req,
                        rq_ResourceSensitivity = ad_ResourceSensitivity req,
                        rq_Signals = signalsFromContext (ad_Context req)\<rparr> (ts_world s);
                     s = s\<lparr>ts_world := w\<rparr>
                 in case res of
                      Inl err \<Rightarrow>
                        (writeUpstreamError ''risk-service'' (t_ID t),
                         s\<lparr>ts_store := markError e (tv_now e 3) t ''risk_evaluate_failed'' (ErrorText err) (ts_store s)\<rparr>)
                    | Inr result \<Rightarrow> advice_decide cl e tenantID req result (advice_evaluated e result t) s))"

section \<open>POST /v1/authorize\<close>

definition assumedLifetime :: duration where "assumedLifetime = 8 * Hour"

text \<open>\<open>now\<close> is the clock reading of \<open>time.Since\<close> or \<open>time.Until\<close>.\<close>

definition sessionStale :: "time \<Rightarrow> Session \<Rightarrow> bool" where
  "sessionStale now s =
     (if IsZero (ses_UpdatedAt s)
      then if IsZero (ses_ExpiresAt s) then True
           else ses_ExpiresAt s - now < assumedLifetime - SessionStaleAfter
      else SessionStaleAfter < now - ses_UpdatedAt s)"

definition authorize_txn :: "txn_env \<Rightarrow> string \<Rightarrow> AuthorizeRequest \<Rightarrow> Transaction" where
  "authorize_txn e tenantID req =
     \<lparr>t_ID = newTransactionID e, t_TenantID = tenantID, t_UserID = az_UserID req, t_SessionID = az_SessionID req,
      t_Action = az_Action req, t_Resource = az_Resource req, t_ResourceSensitivity = [],
      t_RiskEvaluationID = [], t_RiskTier = [], t_RiskScore = 0, t_Decision = ''pending'', t_StepUpUsed = False,
      t_StepUpMethod = [], t_ChallengeID = [], t_PolicyID = [], t_Reason = [],
      t_History = [\<lparr>he_At = tv_now e 0, he_Event = ''authorize_received'', he_Detail = az_Action req\<rparr>],
      t_CreatedAt = tv_now e 0, t_DecidedAt = None\<rparr>"

definition attribute_sensitivity :: "AuthorizeRequest \<Rightarrow> string" where
  "attribute_sensitivity req =
     (let s = obj_str (az_Attributes req) ''resource_sensitivity'' in if s \<noteq> [] then s else ''low'')"

text \<open>
  The session's tier may be trusted only when the session was read, is fresh, and the resource is
  not sensitive.  \<open>None\<close> stands for a session that the callee refused with a 4xx.
\<close>

definition needs_fresh :: "time \<Rightarrow> string \<Rightarrow> Session option \<Rightarrow> bool" where
  "needs_fresh now sensitivity sess =
     (sess = None \<or> sensitivity = ''high'' \<or> sensitivity = ''critical'' \<or>
      sessionStale now (case sess of None \<Rightarrow> no_session | Some x \<Rightarrow> x))"

definition authorize_decide :: "txn_env \<Rightarrow> string \<Rightarrow> string list \<Rightarrow> Transaction \<Rightarrow> 'w txn_sys \<Rightarrow>
    txn_reply \<times> 'w txn_sys" where
  "authorize_decide e tier matchedPolicies t s =
     (let decidedAt = tv_now e 3;
          policyID = first_policy matchedPolicies;
          t = t\<lparr>t_RiskTier := tier, t_DecidedAt := Some decidedAt, t_PolicyID := policyID\<rparr>;
          response = (\<lambda>decision reason.
            \<lparr>zr_TransactionID = t_ID t, zr_Decision = decision, zr_PolicyID = policyID,
             zr_MatchedPolicies = matchedPolicies, zr_Reason = reason, zr_EvaluatedAt = decidedAt\<rparr>)
      in if tier = TierLow \<or> tier = TierMedium
         then (WriteJSON StatusOK (XAuthorize (response DecisionAllow [])),
               s\<lparr>ts_store := best_effort_update e
                   (logged [(decidedAt, ''decision'', DecisionAllow)] (t\<lparr>t_Decision := DecisionAllow\<rparr>)) (ts_store s)\<rparr>)
         else if tier = TierHigh
         then (WriteJSON StatusForbidden (XAuthorize (response DecisionDeny ''step_up_required'')),
               s\<lparr>ts_store := best_effort_update e
                   (logged [(decidedAt, ''decision'', DecisionDeny)]
                      (t\<lparr>t_Decision := DecisionDeny, t_Reason := ''step_up_required''\<rparr>)) (ts_store s)\<rparr>)
         else (writeUpstreamError ''risk-service'' (t_ID t),
               s\<lparr>ts_store := markError e (tv_now e 4) t ''unknown_risk_tier'' tier (ts_store s)\<rparr>))"

text \<open>From the session on: re-evaluate or use the cached tier, then decide.\<close>

definition authorize_with :: "'w txn_clients \<Rightarrow> txn_env \<Rightarrow> string \<Rightarrow> AuthorizeRequest \<Rightarrow> Session option \<Rightarrow>
    Transaction \<Rightarrow> 'w txn_sys \<Rightarrow> txn_reply \<times> 'w txn_sys" where
  "authorize_with cl e tenantID req sess t s =
     (if needs_fresh (tv_now e 1) (t_ResourceSensitivity t) sess
      then
        let (res, w) = cl_Evaluate cl tenantID
              \<lparr>rq_TenantID = tenantID, rq_UserID = az_UserID req, rq_SessionID = az_SessionID req,
               rq_Action = az_Action req, rq_Resource = az_Resource req,
               rq_ResourceSensitivity = t_ResourceSensitivity t, rq_Signals = []\<rparr> (ts_world s);
            s = s\<lparr>ts_world := w\<rparr>
        in (case res of
              Inl err \<Rightarrow>
                (writeUpstreamError ''risk-service'' (t_ID t),
                 s\<lparr>ts_store := markError e (tv_now e 4) t ''risk_evaluate_failed'' (ErrorText err) (ts_store s)\<rparr>)
            | Inr result \<Rightarrow>
                authorize_decide e (rr_Tier result) (rr_MatchedPolicies result)
                  (logged [(tv_now e 2, ''risk_reevaluated'', rr_Tier result)]
                     (t\<lparr>t_RiskEvaluationID := rr_ID result, t_RiskScore := rr_Score result\<rparr>)) s)
      else
        let tier = ses_RiskLevel (case sess of None \<Rightarrow> no_session | Some x \<Rightarrow> x)
        in authorize_decide e tier [] (logged [(tv_now e 2, ''cached_tier_used'', tier)] t) s)"

definition Authorize :: "'w txn_clients \<Rightarrow> txn_env \<Rightarrow> string option \<Rightarrow> body \<Rightarrow> 'w txn_sys \<Rightarrow>
    txn_reply \<times> 'w txn_sys" where
  "Authorize cl e tenant b s =
     (case tenant of
        None \<Rightarrow> (txn_no_tenant, s)
      | Some tenantID \<Rightarrow>
          (case ReadJSON AuthorizeRequest_fields no_authorize b of
             Inl err \<Rightarrow> (json_error err, s)
           | Inr req \<Rightarrow>
               if TrimSpace (az_UserID req) = [] then (txn_invalid ''user_id is required'', s)
               else if TrimSpace (az_SessionID req) = [] then (txn_invalid ''session_id is required'', s)
               else if TrimSpace (az_Action req) = [] then (txn_invalid ''action is required'', s)
               else if tv_fails e OpCreate then (txn_internal ''failed to create transaction'', s)
               else
                 let t = authorize_txn e tenantID req;
                     s = s\<lparr>ts_store := CreateTxn t (ts_store s)\<rparr>;
                     t = t\<lparr>t_ResourceSensitivity := attribute_sensitivity req\<rparr>;
                     (res, w) = cl_GetSession cl tenantID (az_SessionID req) (ts_world s);
                     s = s\<lparr>ts_world := w\<rparr>
                 in case res of
                      Inr sess \<Rightarrow> authorize_with cl e tenantID req (Some sess) t s
                    | Inl err \<Rightarrow>
                        if (case err of Downstream de \<Rightarrow> 400 \<le> de_Status de \<and> de_Status de < 500 | _ \<Rightarrow> False)
                        then authorize_with cl e tenantID req None t s
                        else (writeUpstreamError ''authentication-service'' (t_ID t),
                              s\<lparr>ts_store := markError e (tv_now e 4) t ''session_get_failed'' (ErrorText err)
                                  (ts_store s)\<rparr>)))"

section \<open>POST /v1/step-up/verify\<close>

definition verified_txn :: "time \<Rightarrow> string \<Rightarrow> Transaction \<Rightarrow> Transaction" where
  "verified_txn now method t =
     logged [(now, ''challenge_verified'', method), (now, ''decision'', DecisionStepUpSatisfied)]
       (t\<lparr>t_Decision := DecisionStepUpSatisfied, t_StepUpUsed := True, t_StepUpMethod := method,
         t_DecidedAt := Some now\<rparr>)"

definition step_up_satisfied :: "txn_env \<Rightarrow> ChallengeVerifyResult \<Rightarrow> SessionView option \<Rightarrow> Transaction \<Rightarrow>
    'w txn_sys \<Rightarrow> txn_reply \<times> 'w txn_sys" where
  "step_up_satisfied e result view t s =
     (WriteJSON StatusOK (XVerify \<lparr>sr_TransactionID = t_ID t, sr_Decision = DecisionAllow, sr_Session = view,
        sr_Reason = []\<rparr>),
      s\<lparr>ts_store := best_effort_update e (verified_txn (tv_now e 0) (cv_Method result) t) (ts_store s)\<rparr>)"

definition step_up_promote :: "'w txn_clients \<Rightarrow> txn_env \<Rightarrow> string \<Rightarrow> ChallengeVerifyResult \<Rightarrow> Transaction \<Rightarrow>
    'w txn_sys \<Rightarrow> txn_reply \<times> 'w txn_sys" where
  "step_up_promote cl e tenantID result t s =
     (if t_SessionID t = [] then step_up_satisfied e result None t s
      else
        let (res, w) = cl_UpdateSession cl tenantID (t_SessionID t)
              \<lparr>sq_RiskLevel = t_RiskTier t, sq_StepUpCompleted = True\<rparr> (ts_world s);
            s = s\<lparr>ts_world := w\<rparr>
        in case res of
             Inl err \<Rightarrow>
               (writeUpstreamError ''authentication-service'' (t_ID t),
                s\<lparr>ts_store := markError e (tv_now e 0) t ''session_update_failed'' (ErrorText err) (ts_store s)\<rparr>)
           | Inr upgraded \<Rightarrow>
               step_up_satisfied e result
                 (Some \<lparr>sw_ID = ses_ID upgraded, sw_RiskLevel = ses_RiskLevel upgraded, sw_StepUpCompleted = True,
                    sw_ExpiresAt = ses_ExpiresAt upgraded\<rparr>) t s)"

definition step_up_check :: "'w txn_clients \<Rightarrow> txn_env \<Rightarrow> string \<Rightarrow> StepUpVerifyRequest \<Rightarrow> Transaction \<Rightarrow>
    'w txn_sys \<Rightarrow> txn_reply \<times> 'w txn_sys" where
  "step_up_check cl e tenantID req t s =
     (if t_Decision t \<noteq> DecisionStepUpRequired
      then (WriteError StatusConflict ''invalid_state'' (Lit ''transaction is not awaiting step-up''), s)
      else if t_ChallengeID t \<noteq> su_ChallengeID req then (txn_invalid ''challenge_id mismatch'', s)
      else
        let (res, w) = cl_VerifyChallenge cl tenantID (su_ChallengeID req) (su_Method req) (su_Response req) (ts_world s);
            s = s\<lparr>ts_world := w\<rparr>
        in case res of
             Inl err \<Rightarrow>
               (writeUpstreamError ''authenticator-service'' (t_ID t),
                s\<lparr>ts_store := markError e (tv_now e 0) t ''challenge_verify_failed'' (ErrorText err) (ts_store s)\<rparr>)
           | Inr result \<Rightarrow>
               if \<not> cv_Verified result
               then (WriteJSON StatusUnauthorized (XVerify \<lparr>sr_TransactionID = t_ID t,
                       sr_Decision = DecisionStepUpRequired, sr_Session = None, sr_Reason = cv_Reason result\<rparr>),
                     if tv_fails e OpAppendHistory then s
                     else (case AppendHistory tenantID (t_ID t)
                         \<lparr>he_At = tv_now e 0, he_Event = ''challenge_verification_rejected'', he_Detail = cv_Reason result\<rparr>
                         (ts_store s) of
                       None \<Rightarrow> s
                     | Some st \<Rightarrow> s\<lparr>ts_store := st\<rparr>))
               else step_up_promote cl e tenantID result t s)"

definition StepUpVerify :: "'w txn_clients \<Rightarrow> txn_env \<Rightarrow> string option \<Rightarrow> body \<Rightarrow> 'w txn_sys \<Rightarrow>
    txn_reply \<times> 'w txn_sys" where
  "StepUpVerify cl e tenant b s =
     (case tenant of
        None \<Rightarrow> (txn_no_tenant, s)
      | Some tenantID \<Rightarrow>
          (case ReadJSON StepUpVerifyRequest_fields no_step_up b of
             Inl err \<Rightarrow> (json_error err, s)
           | Inr req \<Rightarrow>
               if TrimSpace (su_TransactionID req) = [] then (txn_invalid ''transaction_id is required'', s)
               else if TrimSpace (su_ChallengeID req) = [] then (txn_invalid ''challenge_id is required'', s)
               else if TrimSpace (su_Method req) = [] then (txn_invalid ''method is required'', s)
               else (case store_call (tv_fails e OpGet) (GetTxn tenantID (su_TransactionID req) (ts_store s)) of
                       ErrNotFound \<Rightarrow> (WriteError StatusNotFound ''not_found'' (Lit ''transaction not found''), s)
                     | ErrOther \<Rightarrow> (txn_internal ''failed to read transaction'', s)
                     | Got t \<Rightarrow> step_up_check cl e tenantID req t s)))"

section \<open>Reading transactions\<close>

definition GetTransaction :: "txn_env \<Rightarrow> string option \<Rightarrow> string \<Rightarrow> 'w txn_sys \<Rightarrow> txn_reply \<times> 'w txn_sys" where
  "GetTransaction e tenant tid s =
     (case tenant of
        None \<Rightarrow> (txn_no_tenant, s)
      | Some tenantID \<Rightarrow>
          if tid = [] then (bad_request ''invalid_id'' ''id is required'', s)
          else (case store_call (tv_fails e OpGet) (GetTxn tenantID tid (ts_store s)) of
                  ErrNotFound \<Rightarrow> (WriteError StatusNotFound ''not_found'' (Lit ''transaction not found''), s)
                | ErrOther \<Rightarrow> (txn_internal ''failed to read transaction'', s)
                | Got t \<Rightarrow> (WriteJSON StatusOK (XTransaction t), s)))"

definition ListTransactions :: "txn_env \<Rightarrow> string option \<Rightarrow> string \<Rightarrow> cursor_param \<Rightarrow> 'w txn_sys \<Rightarrow>
    txn_reply \<times> 'w txn_sys" where
  "ListTransactions e tenant q_limit q_cursor s =
     (case tenant of
        None \<Rightarrow> (txn_no_tenant, s)
      | Some tenantID \<Rightarrow>
          (case page_limit DefaultListLimit MaxListLimit q_limit of
             None \<Rightarrow> (bad_request ''invalid_limit'' ''limit must be a positive integer'', s)
           | Some limit \<Rightarrow>
               (case cursor_time q_cursor of
                  None \<Rightarrow> (bad_request ''invalid_cursor'' ''cursor must be an RFC3339 timestamp'', s)
                | Some cursor \<Rightarrow>
                    if tv_fails e OpList then (txn_internal ''failed to list transactions'', s)
                    else let items = ListTxns tenantID limit cursor (ts_store s)
                         in (WriteJSON StatusOK (XTransactions items (next_cursor t_CreatedAt limit items)), s))))"

section \<open>The router\<close>

text \<open>\<open>strings.SplitN\<close> with a one-character separator and \<open>n \<ge> 1\<close>.\<close>

fun SplitN :: "char \<Rightarrow> nat \<Rightarrow> string \<Rightarrow> string list" where
  "SplitN sep (Suc (Suc n)) s =
     (if sep \<in> set s then takeWhile (\<lambda>c. c \<noteq> sep) s # SplitN sep (Suc n) (tl (dropWhile (\<lambda>c. c \<noteq> sep) s)) else [s])"
| "SplitN sep _ s = [s]"

definition endpointClass :: "string \<Rightarrow> string" where
  "endpointClass path =
     (let segs = SplitN CHR ''/'' 3 (if starts_with path ''/'' then tl path else path)
      in CHR ''/'' # join ''/'' (if 2 < length segs then take 2 segs else segs))"

definition rateLimitKey :: "string \<Rightarrow> string \<Rightarrow> gate_request \<Rightarrow> string" where
  "rateLimitKey method path r =
     (let tenant = tenant_header r
      in if tenant = [] then [] else tenant @ ''|'' @ method @ ''|'' @ endpointClass path)"

datatype txn_route =
    TAdvice body
  | TEvaluate body
  | TStepUpVerify body
  | TAuthorize body
  | TList string cursor_param
  | TGet string

fun route_method :: "txn_route \<Rightarrow> string" where
  "route_method (TList l c) = ''GET''"
| "route_method (TGet i) = ''GET''"
| "route_method _ = ''POST''"

fun route_path :: "txn_route \<Rightarrow> string" where
  "route_path (TAdvice b) = ''/v1/advice''"
| "route_path (TEvaluate b) = ''/v1/evaluate''"
| "route_path (TStepUpVerify b) = ''/v1/step-up/verify''"
| "route_path (TAuthorize b) = ''/v1/authorize''"
| "route_path (TList l c) = ''/v1/transactions''"
| "route_path (TGet i) = ''/v1/transactions/'' @ i"

fun txn_v1 :: "'w txn_clients \<Rightarrow> txn_env \<Rightarrow> txn_route \<Rightarrow> string option \<Rightarrow> 'w txn_sys \<Rightarrow> txn_reply \<times> 'w txn_sys" where
  "txn_v1 cl e (TAdvice b) t s = Advice cl e t b s"
| "txn_v1 cl e (TEvaluate b) t s = Advice cl e t b s"
| "txn_v1 cl e (TStepUpVerify b) t s = StepUpVerify cl e t b s"
| "txn_v1 cl e (TAuthorize b) t s = Authorize cl e t b s"
| "txn_v1 cl e (TList l c) t s = ListTransactions e t l c s"
| "txn_v1 cl e (TGet i) t s = GetTransaction e t i s"

text \<open>\<open>None\<close> is the health probe; \<open>now\<close> is the limiter's clock reading.\<close>

definition TxnRouter :: "'w txn_clients \<Rightarrow> txn_env \<Rightarrow> time \<Rightarrow> txn_route option \<Rightarrow> gate_request \<Rightarrow>
    limiter option \<times> 'w txn_sys \<Rightarrow> txn_reply \<times> (limiter option \<times> 'w txn_sys)" where
  "TxnRouter cl e now route r ls =
     (case route of
        None \<Rightarrow> (WriteJSON StatusOK XHealth, ls)
      | Some rt \<Rightarrow>
          Middleware now (rateLimitKey (route_method rt) (route_path rt) r) (TenantMiddleware (txn_v1 cl e rt) r) ls)"

end
