(* ===== verification/TxnLife.thy ===== *)
theory TxnLife
  imports TxnService
begin

text \<open>
  How a request of transaction-service can change its store: the lifecycle of a transaction and its
  audit trail, the one new row of the two decision endpoints, and what a step-up verification can
  leave of a row.
\<close>

section \<open>What a request does to the store\<close>

lemma tab_put_twice [simp]: "tab_put k r (tab_put k r' m) = tab_put k r m"
  by (induction m) (auto simp: tab_put_def)

lemma logged_fields [simp]:
  "t_ID (logged es t) = t_ID t" "t_TenantID (logged es t) = t_TenantID t" "t_UserID (logged es t) = t_UserID t"
  "t_SessionID (logged es t) = t_SessionID t" "t_Action (logged es t) = t_Action t"
  "t_Resource (logged es t) = t_Resource t" "t_ResourceSensitivity (logged es t) = t_ResourceSensitivity t"
  "t_RiskEvaluationID (logged es t) = t_RiskEvaluationID t" "t_RiskTier (logged es t) = t_RiskTier t"
  "t_RiskScore (logged es t) = t_RiskScore t" "t_Decision (logged es t) = t_Decision t"
  "t_StepUpUsed (logged es t) = t_StepUpUsed t" "t_StepUpMethod (logged es t) = t_StepUpMethod t"
  "t_ChallengeID (logged es t) = t_ChallengeID t" "t_PolicyID (logged es t) = t_PolicyID t"
  "t_Reason (logged es t) = t_Reason t" "t_CreatedAt (logged es t) = t_CreatedAt t"
  "t_DecidedAt (logged es t) = t_DecidedAt t"
  by (simp_all add: logged_def)

text \<open>The decisions recorded in the trail, in order.\<close>

definition trail :: "Transaction \<Rightarrow> string list" where
  "trail t = map he_Detail (filter (\<lambda>h. he_Event h = ''decision'') (t_History t))"

lemma trail_updates [simp]:
  "trail (t\<lparr>t_Decision := d\<rparr>) = trail t" "trail (t\<lparr>t_DecidedAt := at'\<rparr>) = trail t" "trail (t\<lparr>t_Reason := r\<rparr>) = trail t"
  "trail (t\<lparr>t_StepUpUsed := b\<rparr>) = trail t" "trail (t\<lparr>t_StepUpMethod := m\<rparr>) = trail t"
  "trail (t\<lparr>t_ChallengeID := c\<rparr>) = trail t" "trail (t\<lparr>t_PolicyID := p\<rparr>) = trail t"
  "trail (t\<lparr>t_RiskTier := tier\<rparr>) = trail t" "trail (t\<lparr>t_RiskScore := x\<rparr>) = trail t"
  "trail (t\<lparr>t_RiskEvaluationID := i\<rparr>) = trail t" "trail (t\<lparr>t_ResourceSensitivity := rs\<rparr>) = trail t"
  by (simp_all add: trail_def)

lemma trail_logged [simp]:
  "trail (logged es t) = trail t @ map (\<lambda>(now, ev, d). d) (filter (\<lambda>(now, ev, d). ev = ''decision'') es)"
  by (induction es) (auto simp: trail_def logged_def)

text \<open>The row a handler leaves when it updates the transaction it has just created.\<close>

definition kept :: "txn_env \<Rightarrow> Transaction \<Rightarrow> Transaction \<Rightarrow> Transaction" where
  "kept e t t' = (if tv_fails e OpUpdate then t else t')"

lemma update_created:
  assumes "t_ID t' = t_ID t" "t_TenantID t' = t_TenantID t" "t_CreatedAt t' = t_CreatedAt t"
  shows "best_effort_update e t' (CreateTxn t s) = CreateTxn (kept e t t') s"
  using assms by (cases t') (simp add: best_effort_update_def kept_def UpdateTxn_def CreateTxn_def table_simps Let_def)

lemma update_stored:
  assumes "txn_wf s" "GetTxn tn i s = Some t"
    "t_ID t' = t_ID t" "t_TenantID t' = t_TenantID t" "t_CreatedAt t' = t_CreatedAt t"
  shows "best_effort_update e t' s = (if tv_fails e OpUpdate then s else CreateTxn t' s)"
proof -
  have "tab_get (tx_data s) (t_ID t) = Some t"
    using assms(2) GetTxn_id [OF assms(1,2)] by (auto simp: GetTxn_def split: option.splits if_splits)
  then show ?thesis
    using assms(3-5) by (cases t') (simp add: best_effort_update_def UpdateTxn_def CreateTxn_def Let_def)
qed

lemma errored_fields [simp]:
  "t_ID (errored_txn now ev d t) = t_ID t" "t_TenantID (errored_txn now ev d t) = t_TenantID t"
  "t_CreatedAt (errored_txn now ev d t) = t_CreatedAt t" "t_Decision (errored_txn now ev d t) = DecisionError"
  "t_RiskTier (errored_txn now ev d t) = t_RiskTier t" "t_StepUpUsed (errored_txn now ev d t) = t_StepUpUsed t"
  "t_DecidedAt (errored_txn now ev d t) = Some now" "t_Reason (errored_txn now ev d t) = ev"
  "trail (errored_txn now ev d t) = trail t @ (if ev = ''decision'' then [d] else []) @ [DecisionError]"
  by (simp_all add: errored_txn_def)

lemma verified_fields [simp]:
  "t_ID (verified_txn now m t) = t_ID t" "t_TenantID (verified_txn now m t) = t_TenantID t"
  "t_CreatedAt (verified_txn now m t) = t_CreatedAt t" "t_Decision (verified_txn now m t) = DecisionStepUpSatisfied"
  "t_RiskTier (verified_txn now m t) = t_RiskTier t" "t_StepUpUsed (verified_txn now m t) = True"
  "t_DecidedAt (verified_txn now m t) = Some now" "t_StepUpMethod (verified_txn now m t) = m"
  "t_ChallengeID (verified_txn now m t) = t_ChallengeID t"
  "trail (verified_txn now m t) = trail t @ [DecisionStepUpSatisfied]"
  by (simp_all add: verified_txn_def)

lemma advice_txn_fields [simp]:
  "t_ID (advice_txn e tn req) = newTransactionID e" "t_TenantID (advice_txn e tn req) = tn"
  "t_CreatedAt (advice_txn e tn req) = tv_now e 0" "t_Decision (advice_txn e tn req) = ''pending''"
  "t_StepUpUsed (advice_txn e tn req) = False" "t_DecidedAt (advice_txn e tn req) = None"
  "t_UserID (advice_txn e tn req) = ad_UserID req" "t_SessionID (advice_txn e tn req) = ad_SessionID req"
  "trail (advice_txn e tn req) = []"
  by (simp_all add: advice_txn_def trail_def)

lemma authorize_txn_fields [simp]:
  "t_ID (authorize_txn e tn req) = newTransactionID e" "t_TenantID (authorize_txn e tn req) = tn"
  "t_CreatedAt (authorize_txn e tn req) = tv_now e 0" "t_Decision (authorize_txn e tn req) = ''pending''"
  "t_StepUpUsed (authorize_txn e tn req) = False" "t_DecidedAt (authorize_txn e tn req) = None"
  "t_UserID (authorize_txn e tn req) = az_UserID req" "t_SessionID (authorize_txn e tn req) = az_SessionID req"
  "trail (authorize_txn e tn req) = []"
  by (simp_all add: authorize_txn_def trail_def)

lemma advice_evaluated_fields [simp]:
  "t_ID (advice_evaluated e r t) = t_ID t" "t_TenantID (advice_evaluated e r t) = t_TenantID t"
  "t_CreatedAt (advice_evaluated e r t) = t_CreatedAt t" "t_Decision (advice_evaluated e r t) = t_Decision t"
  "t_RiskTier (advice_evaluated e r t) = rr_Tier r" "t_StepUpUsed (advice_evaluated e r t) = t_StepUpUsed t"
  "t_DecidedAt (advice_evaluated e r t) = t_DecidedAt t" "t_UserID (advice_evaluated e r t) = t_UserID t"
  "t_SessionID (advice_evaluated e r t) = t_SessionID t"
  "trail (advice_evaluated e r t) = trail t"
  by (simp_all add: advice_evaluated_def Let_def)

section \<open>The lifecycle of a transaction\<close>

text \<open>
  What a stored transaction satisfies: the decision follows from the risk tier, and replaying the
  trail gives the decision.
\<close>

definition txn_ok :: "Transaction \<Rightarrow> bool" where
  "txn_ok t \<longleftrightarrow>
     (t_Decision t = ''pending'' \<and> trail t = [] \<and> t_DecidedAt t = None \<and> \<not> t_StepUpUsed t) \<or>
     (t_DecidedAt t \<noteq> None \<and>
      (t_Decision t = DecisionAllow \<and> trail t = [DecisionAllow] \<and> t_RiskTier t \<in> {TierLow, TierMedium} \<and> \<not> t_StepUpUsed t \<or>
       t_Decision t = DecisionDeny \<and> trail t = [DecisionDeny] \<and> t_RiskTier t = TierHigh \<and> \<not> t_StepUpUsed t \<or>
       t_Decision t = DecisionStepUpRequired \<and> trail t = [DecisionStepUpRequired] \<and>
         t_RiskTier t \<in> {TierMedium, TierHigh} \<and> \<not> t_StepUpUsed t \<or>
       t_Decision t = DecisionStepUpSatisfied \<and> trail t = [DecisionStepUpRequired, DecisionStepUpSatisfied] \<and>
         t_RiskTier t \<in> {TierMedium, TierHigh} \<and> t_StepUpUsed t \<or>
       t_Decision t = DecisionError \<and> trail t \<in> {[DecisionError], [DecisionStepUpRequired, DecisionError]} \<and>
         \<not> t_StepUpUsed t))"

inductive txn_step :: "Transaction \<Rightarrow> Transaction \<Rightarrow> bool" where
  Rejected: "t_Decision x = DecisionStepUpRequired \<Longrightarrow>
    txn_step x (logged [(now, ''challenge_verification_rejected'', reason)] x)"
| Satisfied: "t_Decision x = DecisionStepUpRequired \<Longrightarrow> txn_step x (verified_txn now m x)"
| Failed: "t_Decision x = DecisionStepUpRequired \<Longrightarrow> ev \<in> {''challenge_verify_failed'', ''session_update_failed''} \<Longrightarrow>
    txn_step x (errored_txn now ev d x)"

lemma decision_distinct:
  "DecisionAllow \<noteq> ''pending''" "DecisionDeny \<noteq> ''pending''" "DecisionError \<noteq> ''pending''"
  "DecisionStepUpRequired \<noteq> ''pending''" "DecisionStepUpSatisfied \<noteq> ''pending''"
  "DecisionStepUpRequired \<noteq> DecisionAllow" "DecisionStepUpRequired \<noteq> DecisionDeny"
  "DecisionStepUpRequired \<noteq> DecisionError" "DecisionStepUpRequired \<noteq> DecisionStepUpSatisfied"
  "DecisionStepUpSatisfied \<noteq> DecisionAllow" "DecisionStepUpSatisfied \<noteq> DecisionDeny"
  "DecisionStepUpSatisfied \<noteq> DecisionError" "DecisionStepUpSatisfied \<noteq> DecisionStepUpRequired"
  "DecisionAllow \<noteq> DecisionDeny" "DecisionAllow \<noteq> DecisionError" "DecisionDeny \<noteq> DecisionError"
  by (simp_all add: decision_defs)

lemmas decision_neq [simp] = decision_distinct decision_distinct [symmetric]

lemma txn_step_frame:
  "txn_step x y \<Longrightarrow> t_ID y = t_ID x \<and> t_TenantID y = t_TenantID x \<and> t_UserID y = t_UserID x \<and>
    t_SessionID y = t_SessionID x \<and> t_Action y = t_Action x \<and> t_RiskTier y = t_RiskTier x \<and>
    t_ChallengeID y = t_ChallengeID x \<and> t_CreatedAt y = t_CreatedAt x \<and> prefix (t_History x) (t_History y)"
  by (induction rule: txn_step.induct) (auto simp: logged_def verified_txn_def errored_txn_def)

lemma txn_step_ok: "txn_step x y \<Longrightarrow> txn_ok x \<Longrightarrow> txn_ok y"
  by (induction rule: txn_step.induct) (auto simp: txn_ok_def)

text \<open>
  Seen through its decision, a transaction is decided once, and a required step-up ends once: in
  satisfaction or in an error.
\<close>

inductive decision_step :: "string \<Rightarrow> string \<Rightarrow> bool" where
  "d \<in> {DecisionAllow, DecisionDeny, DecisionStepUpRequired, DecisionError} \<Longrightarrow> decision_step ''pending'' d"
| "d \<in> {DecisionStepUpSatisfied, DecisionError} \<Longrightarrow> decision_step DecisionStepUpRequired d"

definition decisions :: "string list" where
  "decisions = [''pending'', DecisionAllow, DecisionDeny, DecisionStepUpRequired, DecisionStepUpSatisfied, DecisionError]"

definition decision_rank :: "string \<Rightarrow> nat" where
  "decision_rank d = (if d = ''pending'' then 2 else if d = DecisionStepUpRequired then 1 else 0)"

interpretation txn_life: lifecycle decision_step "\<lambda>d. d \<in> set decisions" decision_rank
  by unfold_locales (auto simp: decisions_def decision_rank_def elim!: decision_step.cases)

lemma txn_step_decision: "txn_step x y \<Longrightarrow> t_Decision y = t_Decision x \<or> decision_step (t_Decision x) (t_Decision y)"
  by (induction rule: txn_step.induct) (auto intro: decision_step.intros)

lemma txn_ok_decision: "txn_ok t \<Longrightarrow> t_Decision t \<in> set decisions"
  by (auto simp: txn_ok_def decisions_def)

section \<open>The handlers\<close>

text \<open>\<open>Advice\<close> leaves one new row, whichever branch it takes.\<close>

lemma methods_tiers [simp]: "TierMedium \<noteq> TierLow" "TierHigh \<noteq> TierLow" "TierHigh \<noteq> TierMedium"
  by (simp_all add: txn_tier_defs)

definition created :: "txn_env \<Rightarrow> string \<Rightarrow> Transaction \<Rightarrow> bool" where
  "created e tenantID x \<longleftrightarrow> t_ID x = newTransactionID e \<and> t_TenantID x = tenantID \<and>
     t_CreatedAt x = tv_now e 0 \<and> txn_ok x"

lemma created_update:
  assumes "created e tn t0" "t_ID t = newTransactionID e" "t_TenantID t = tn" "t_CreatedAt t = tv_now e 0" "txn_ok t"
  shows "\<exists>x. created e tn x \<and> best_effort_update e t (CreateTxn t0 st) = CreateTxn x st"
proof (intro exI conjI)
  show "created e tn (kept e t0 t)" using assms by (simp add: created_def kept_def)
  show "best_effort_update e t (CreateTxn t0 st) = CreateTxn (kept e t0 t) st"
    using assms by (intro update_created) (simp_all add: created_def)
qed

text \<open>A transaction of this request on its way to a decision.\<close>

definition undecided :: "txn_env \<Rightarrow> string \<Rightarrow> Transaction \<Rightarrow> bool" where
  "undecided e tn t \<longleftrightarrow> t_ID t = newTransactionID e \<and> t_TenantID t = tn \<and> t_CreatedAt t = tv_now e 0 \<and>
     \<not> t_StepUpUsed t \<and> trail t = []"

lemma advice_decide_row:
  assumes "undecided e tn t" "t_RiskTier t = rr_Tier result" "created e tn t0" "ts_store s = CreateTxn t0 st"
  shows "\<exists>x. created e tn x \<and> ts_store (snd (advice_decide cl e tn req result t s)) = CreateTxn x st"
  unfolding advice_decide_def advice_allow_def advice_step_up_def Let_def markError_def
  using assms(1,2,4) [unfolded undecided_def]
  by (simp split: prod.splits sum.splits)
    (intro conjI impI allI; rule created_update [OF assms(3)]; simp add: txn_ok_def)

lemma advice_created [simp]: "created e tn (advice_txn e tn req)" "created e tn (authorize_txn e tn req')"
  by (simp_all add: created_def txn_ok_def)

lemma advice_undecided [simp]:
  "undecided e tn (advice_txn e tn req)" "undecided e tn (authorize_txn e tn req')"
  "undecided e tn t \<Longrightarrow> undecided e tn (advice_evaluated e r t)"
  "undecided e tn t \<Longrightarrow> undecided e tn (t\<lparr>t_ResourceSensitivity := rs\<rparr>)"
  by (simp_all add: undecided_def)

lemma errored_row:
  assumes "undecided e tn t" "created e tn t0" "ev \<noteq> ''decision''"
  shows "\<exists>x. created e tn x \<and> markError e now t ev d (CreateTxn t0 st) = CreateTxn x st"
  unfolding markError_def using assms(1,3)
  by (intro created_update [OF assms(2)]) (simp_all add: undecided_def txn_ok_def)

lemma Advice_row:
  "ts_store (snd (Advice cl e tenant b s)) = ts_store s \<or>
   (\<exists>tn x. tenant = Some tn \<and> created e tn x \<and> ts_store (snd (Advice cl e tenant b s)) = CreateTxn x (ts_store s))"
proof -
  have "\<exists>x. created e tn x \<and> ts_store (snd (advice_decide cl e tn req result (advice_evaluated e result (advice_txn e tn req))
      (s\<lparr>ts_store := CreateTxn (advice_txn e tn req) (ts_store s), ts_world := w\<rparr>))) = CreateTxn x (ts_store s)"
    for tn req result w
    by (rule advice_decide_row [where ?t0.0 = "advice_txn e tn req"]) simp_all
  moreover have "\<exists>x. created e tn x \<and> markError e now (advice_txn e tn req) ''risk_evaluate_failed'' d
      (CreateTxn (advice_txn e tn req) (ts_store s)) = CreateTxn x (ts_store s)" for tn req now d
    by (rule errored_row) simp_all
  ultimately show ?thesis
    unfolding Advice_def Let_def by (simp split: option.splits sum.splits prod.splits)
qed

lemma authorize_decide_row:
  assumes "undecided e tn t" "created e tn t0" "ts_store s = CreateTxn t0 st"
  shows "\<exists>x. created e tn x \<and> ts_store (snd (authorize_decide e tier ps t s)) = CreateTxn x st"
  unfolding authorize_decide_def Let_def markError_def
  using assms(1,3) [unfolded undecided_def]
  by simp (intro conjI impI; rule created_update [OF assms(2)]; simp add: txn_ok_def)

lemma authorize_with_row:
  assumes t: "undecided e tn t" "created e tn t0" and st: "ts_store s = CreateTxn t0 st"
  shows "\<exists>x. created e tn x \<and> ts_store (snd (authorize_with cl e tn req sess t s)) = CreateTxn x st"
proof -
  have "undecided e tn (logged [(now, ev, d)] t)" if "ev \<noteq> ''decision''" for now ev d
    using t(1) that by (simp add: undecided_def)
  moreover have "undecided e tn (logged [(now, ev, d)] (t\<lparr>t_RiskEvaluationID := i, t_RiskScore := sc\<rparr>))"
    if "ev \<noteq> ''decision''" for now ev d i sc
    using t(1) that by (simp add: undecided_def)
  ultimately show ?thesis
    unfolding authorize_with_def Let_def
    by (auto simp: st split: prod.splits sum.splits intro!: errored_row [OF t] authorize_decide_row [OF _ t(2)])
qed

lemma Authorize_row:
  "ts_store (snd (Authorize cl e tenant b s)) = ts_store s \<or>
   (\<exists>tn x. tenant = Some tn \<and> created e tn x \<and> ts_store (snd (Authorize cl e tenant b s)) = CreateTxn x (ts_store s))"
proof -
  let ?t = "\<lambda>tn req. (authorize_txn e tn req)\<lparr>t_ResourceSensitivity := attribute_sensitivity req\<rparr>"
  have "\<exists>x. created e tn x \<and> ts_store (snd (authorize_with cl e tn req sess (?t tn req)
      (s\<lparr>ts_store := CreateTxn (authorize_txn e tn req) (ts_store s), ts_world := w\<rparr>))) = CreateTxn x (ts_store s)"
    for tn req sess w
    by (rule authorize_with_row [where ?t0.0 = "authorize_txn e tn req"]) simp_all
  moreover have "\<exists>x. created e tn x \<and> markError e now (?t tn req) ''session_get_failed'' d
      (CreateTxn (authorize_txn e tn req) (ts_store s)) = CreateTxn x (ts_store s)" for tn req now d
    by (rule errored_row) simp_all
  ultimately show ?thesis
    unfolding Authorize_def Let_def by (simp split: option.splits sum.splits prod.splits)
qed

text \<open>
  What a step-up verification can leave of the row \<open>x\<close>, with the answers of the sister services it
  rests on; \<open>w\<close> is the world when the request arrives.
\<close>

inductive step_up_effect :: "'w txn_clients \<Rightarrow> string \<Rightarrow> StepUpVerifyRequest \<Rightarrow> 'w \<Rightarrow> Transaction \<Rightarrow> Transaction \<Rightarrow> bool"
  for cl tn req w x where
  Wrong: "cl_VerifyChallenge cl tn (su_ChallengeID req) (su_Method req) (su_Response req) w = (Inr r, w') \<Longrightarrow>
    \<not> cv_Verified r \<Longrightarrow>
    step_up_effect cl tn req w x (logged [(now, ''challenge_verification_rejected'', cv_Reason r)] x)"
| NotVerified: "cl_VerifyChallenge cl tn (su_ChallengeID req) (su_Method req) (su_Response req) w = (Inl err, w') \<Longrightarrow>
    step_up_effect cl tn req w x (errored_txn now ''challenge_verify_failed'' d x)"
| NotPromoted: "cl_VerifyChallenge cl tn (su_ChallengeID req) (su_Method req) (su_Response req) w = (Inr r, w') \<Longrightarrow>
    cv_Verified r \<Longrightarrow> step_up_effect cl tn req w x (errored_txn now ''session_update_failed'' d x)"
| Verified: "cl_VerifyChallenge cl tn (su_ChallengeID req) (su_Method req) (su_Response req) w = (Inr r, w') \<Longrightarrow>
    cv_Verified r \<Longrightarrow>
    (t_SessionID x \<noteq> [] \<Longrightarrow> \<exists>u. fst (cl_UpdateSession cl tn (t_SessionID x)
      \<lparr>sq_RiskLevel = t_RiskTier x, sq_StepUpCompleted = True\<rparr> w') = Inr u) \<Longrightarrow>
    step_up_effect cl tn req w x (verified_txn now (cv_Method r) x)"

lemma step_up_effect_step:
  "step_up_effect cl tn req w x y \<Longrightarrow> t_Decision x = DecisionStepUpRequired \<Longrightarrow> txn_step x y"
  by (induction rule: step_up_effect.induct) (auto intro: txn_step.intros)

lemma step_up_check_row:
  assumes wf: "txn_wf (ts_store s)" and x: "GetTxn tn i (ts_store s) = Some x"
  shows "ts_store (snd (step_up_check cl e tn req x s)) = ts_store s \<or>
    (t_Decision x = DecisionStepUpRequired \<and> t_ChallengeID x = su_ChallengeID req \<and>
     (\<exists>y. step_up_effect cl tn req (ts_world s) x y \<and>
        ts_store (snd (step_up_check cl e tn req x s)) = CreateTxn y (ts_store s)))"
proof -
  let ?S = "\<lambda>st. st = ts_store s \<or> (\<exists>y. step_up_effect cl tn req (ts_world s) x y \<and> st = CreateTxn y (ts_store s))"
  have upd: "?S (best_effort_update e y (ts_store s))"
    if "step_up_effect cl tn req (ts_world s) x y" "t_ID y = t_ID x" "t_TenantID y = t_TenantID x" "t_CreatedAt y = t_CreatedAt x" for y
    using update_stored [OF wf x that(2-4)] that(1) by auto
  have app: "AppendHistory tn (t_ID x) \<lparr>he_At = now, he_Event = ev, he_Detail = d\<rparr> (ts_store s) =
      Some (CreateTxn (logged [(now, ev, d)] x) (ts_store s))" for now ev d
    using AppendHistory_put [OF wf x] GetTxn_id [OF wf x] by (simp add: logged_def)
  obtain res w where v: "cl_VerifyChallenge cl tn (su_ChallengeID req) (su_Method req) (su_Response req) (ts_world s) = (res, w)"
    by fastforce
  have "?S (ts_store (snd (step_up_check cl e tn req x s)))"
    if go: "t_Decision x = DecisionStepUpRequired" "t_ChallengeID x = su_ChallengeID req"
  proof (cases res)
    case (Inl err)
    have "step_up_effect cl tn req (ts_world s) x (errored_txn now ''challenge_verify_failed'' d x)" for now d
      by (rule NotVerified [OF v [unfolded Inl]])
    then show ?thesis using upd go v Inl by (simp add: step_up_check_def markError_def Let_def)
  next
    case (Inr r)
    show ?thesis
    proof (cases "cv_Verified r")
      case False
      have "step_up_effect cl tn req (ts_world s) x (logged [(now, ''challenge_verification_rejected'', cv_Reason r)] x)"
        for now by (rule Wrong [OF v [unfolded Inr] False])
      then show ?thesis using go v Inr False app by (simp add: step_up_check_def Let_def) blast
    next
      case True
      have err: "step_up_effect cl tn req (ts_world s) x (errored_txn now ''session_update_failed'' d x)" for now d
        by (rule NotPromoted [OF v [unfolded Inr] True])
      have ok: "step_up_effect cl tn req (ts_world s) x (verified_txn now (cv_Method r) x)"
        if "t_SessionID x \<noteq> [] \<longrightarrow> (\<exists>u. fst (cl_UpdateSession cl tn (t_SessionID x)
          \<lparr>sq_RiskLevel = t_RiskTier x, sq_StepUpCompleted = True\<rparr> w) = Inr u)" for now
        using that by (intro Verified [OF v [unfolded Inr] True]) blast
      have "ts_store (snd (step_up_check cl e tn req x s)) =
          ts_store (snd (step_up_promote cl e tn r x (s\<lparr>ts_world := w\<rparr>)))"
        using go v Inr True by (simp add: step_up_check_def Let_def)
      then show ?thesis
        using upd [OF err] upd [OF ok]
        by (auto simp: step_up_promote_def step_up_satisfied_def markError_def Let_def split: prod.splits sum.splits)
    qed
  qed
  then show ?thesis by (auto simp: step_up_check_def)
qed

lemma StepUpVerify_row [consumes 1]:
  assumes wf: "txn_wf (ts_store s)"
  obtains (same) "ts_store (snd (StepUpVerify cl e tenant b s)) = ts_store s"
  | (row) tn req x y where "tenant = Some tn" "ReadJSON StepUpVerifyRequest_fields no_step_up b = Inr req"
      "GetTxn tn (su_TransactionID req) (ts_store s) = Some x" "t_Decision x = DecisionStepUpRequired"
      "t_ChallengeID x = su_ChallengeID req" "step_up_effect cl tn req (ts_world s) x y"
      "ts_store (snd (StepUpVerify cl e tenant b s)) = CreateTxn y (ts_store s)"
proof (cases "ts_store (snd (StepUpVerify cl e tenant b s)) = ts_store s")
  case False
  then obtain tn req x where q: "tenant = Some tn" "ReadJSON StepUpVerifyRequest_fields no_step_up b = Inr req"
    "GetTxn tn (su_TransactionID req) (ts_store s) = Some x"
    "StepUpVerify cl e tenant b s = step_up_check cl e tn req x s"
    by (auto simp: StepUpVerify_def split: option.splits sum.splits if_splits got.splits)
  with False show ?thesis using step_up_check_row [OF wf q(3), of cl e req] row [OF q(1-3)] by auto
qed (rule same)

lemma txn_reads [simp]:
  "snd (GetTransaction e tenant i s) = s" "snd (ListTransactions e tenant l c s) = s"
  unfolding GetTransaction_def ListTransactions_def Let_def by (auto split: option.splits got.splits)

text \<open>How one request of tenant \<open>tenant\<close> changes the store.\<close>

inductive txn_effect :: "string option \<Rightarrow> txn_env \<Rightarrow> txn_store \<Rightarrow> txn_store \<Rightarrow> bool" for tenant e s where
  Same: "txn_effect tenant e s s"
| New: "tenant = Some tn \<Longrightarrow> created e tn x \<Longrightarrow> txn_effect tenant e s (CreateTxn x s)"
| Moved: "tenant = Some tn \<Longrightarrow> GetTxn tn i s = Some x \<Longrightarrow> txn_step x y \<Longrightarrow> txn_effect tenant e s (CreateTxn y s)"

lemma txn_v1_effect:
  assumes "txn_wf (ts_store s)"
  shows "txn_effect tenant e (ts_store s) (ts_store (snd (txn_v1 cl e rt tenant s)))"
proof (cases rt)
  case (TAdvice b)
  then show ?thesis using Advice_row [of cl e tenant b s] by (auto intro: txn_effect.intros)
next
  case (TEvaluate b)
  then show ?thesis using Advice_row [of cl e tenant b s] by (auto intro: txn_effect.intros)
next
  case (TStepUpVerify b)
  have "txn_effect tenant e (ts_store s) (ts_store (snd (StepUpVerify cl e tenant b s)))"
    using assms
  proof (cases rule: StepUpVerify_row [of s cl e tenant b])
    case (row tn req x y)
    then show ?thesis using Moved [OF row(1,3) step_up_effect_step [OF row(6,4)]] by simp
  qed (auto intro: Same)
  with TStepUpVerify show ?thesis by simp
next
  case (TAuthorize b)
  then show ?thesis using Authorize_row [of cl e tenant b s] by (auto intro: txn_effect.intros)
qed (simp_all add: Same)

lemma TxnRouter_cases:
  obtains (stopped) "snd (snd (TxnRouter cl e now route r (lp, s))) = s"
  | (served) rt t where "route = Some rt" "From r = Some t"
      "snd (snd (TxnRouter cl e now route r (lp, s))) = snd (txn_v1 cl e rt (Some t) s)"
proof (cases route)
  case None
  then show ?thesis using stopped by (simp add: TxnRouter_def)
next
  case (Some rt)
  have "snd (snd (TxnRouter cl e now route r (lp, s))) = s \<or>
      snd (snd (TxnRouter cl e now route r (lp, s))) = snd (TenantMiddleware (txn_v1 cl e rt) r s)"
    by (simp add: Some TxnRouter_def Middleware_def Let_def split: prod.splits)
  moreover have "snd (TenantMiddleware (txn_v1 cl e rt) r s) = s \<or>
      (\<exists>t. From r = Some t \<and> snd (TenantMiddleware (txn_v1 cl e rt) r s) = snd (txn_v1 cl e rt (Some t) s))"
    by (cases "From r") (simp_all add: TenantMiddleware_def)
  ultimately show ?thesis using stopped served Some by metis
qed

end
