(* ===== verification/TxnProps.thy ===== *)
theory TxnProps
  imports TxnLife
begin

text \<open>
  What transaction-service guarantees: the invariant of its store, the lifecycle of a transaction over
  any run of requests, what a satisfied step-up rests on, the decisions of the two decision endpoints
  against their specifications, agreement of the reply with the record, tenant isolation, paging, and
  the rate-limit keys.
\<close>

section \<open>One request\<close>

definition txn_inv :: "txn_store \<Rightarrow> bool" where
  "txn_inv s \<longleftrightarrow> txn_wf s \<and> (\<forall>x\<in>set (tab_rows (tx_data s)). txn_ok x)"

definition txn_fresh :: "txn_env \<Rightarrow> txn_store \<Rightarrow> bool" where
  "txn_fresh e s \<longleftrightarrow> tab_get (tx_data s) (newTransactionID e) = None"

lemma txn_rows_put: "set (tab_rows (tx_data (CreateTxn x s))) \<subseteq> insert x (set (tab_rows (tx_data s)))"
proof -
  have "set (AList.update k r m) \<subseteq> insert (k, r) (set m)" for k and r :: Transaction and m by (induction m) auto
  then show ?thesis by (force simp: CreateTxn_def tab_put_def tab_rows_def)
qed

lemma txn_inv_put: "txn_inv s \<Longrightarrow> txn_ok x \<Longrightarrow> txn_inv (CreateTxn x s)"
  using txn_rows_put [of x s] by (auto simp: txn_inv_def txn_wf_updates(2))

lemma txn_inv_get: "txn_inv s \<Longrightarrow> GetTxn t i s = Some x \<Longrightarrow> txn_ok x"
  by (auto simp: txn_inv_def txn_wf_def GetTxn_def tab_wf_get [of t_ID] split: option.splits if_splits)

lemma txn_effect_inv: "txn_effect tenant e s s' \<Longrightarrow> txn_inv s \<Longrightarrow> txn_inv s'"
  by (induction rule: txn_effect.induct) (auto intro!: txn_inv_put intro: txn_step_ok txn_inv_get simp: created_def)

lemma GetTxn_one_tenant: "GetTxn t i s = Some x \<Longrightarrow> u \<noteq> t \<Longrightarrow> GetTxn u i s = None"
  by (auto simp: GetTxn_def split: option.splits if_splits)

lemma txn_effect_row:
  assumes "txn_effect tenant e s s'" "txn_wf s" "txn_fresh e s" "GetTxn t i s = Some x"
  obtains y where "GetTxn t i s' = Some y" "y = x \<or> txn_step x y"
  using assms(1)
proof cases
  case (New tn z)
  have "i \<noteq> t_ID z" using New(3) assms(3,4) by (auto simp: created_def txn_fresh_def GetTxn_def)
  then show ?thesis using that New assms(4) by (simp add: txns.get_put)
next
  case (Moved tn j z y)
  have z: "t_ID z = j" "t_TenantID z = tn" using GetTxn_id [OF assms(2) Moved(3)] by auto
  have y: "t_ID y = j" "t_TenantID y = tn" using txn_step_frame [OF Moved(4)] z by auto
  show ?thesis
  proof (cases "j = i")
    case True
    then have "tn = t" using GetTxn_one_tenant [OF Moved(3), of t] assms(4) by auto
    then have "z = x" using Moved(3) assms(4) True by simp
    then show ?thesis using that [of y] Moved y True \<open>tn = t\<close> by (simp add: txns.get_put)
  next
    case False
    then show ?thesis using that [of x] Moved(1) y assms(4) by (simp add: txns.get_put)
  qed
qed (use that assms(4) in auto)

lemma txn_effect_foreign:
  assumes "txn_effect tenant e s s'" "txn_wf s" "txn_fresh e s" "tenant \<noteq> Some t"
  shows "GetTxn t i s' = GetTxn t i s \<and> ListTxns t limit cursor s' = ListTxns t limit cursor s"
proof -
  have put: "GetTxn t i (CreateTxn x s) = GetTxn t i s \<and> ListTxns t limit cursor (CreateTxn x s) = ListTxns t limit cursor s"
    if "t_TenantID x \<noteq> t" "GetTxn t (t_ID x) s = None" for x
  proof -
    have old: "\<And>old. tab_get (tx_data s) (t_ID x) = Some old \<Longrightarrow> t_TenantID old \<noteq> t"
      using that(2) by (auto simp: GetTxn_def split: if_splits)
    have "filter (\<lambda>z. t_TenantID z = t \<and> after_cursor cursor (t_CreatedAt z)) (tab_rows (tx_data (CreateTxn x s)))
        = filter (\<lambda>z. t_TenantID z = t \<and> after_cursor cursor (t_CreatedAt z)) (tab_rows (tx_data s))"
      using that(1) old by (auto simp: CreateTxn_def intro!: tab_rows_put_unselected)
    then show ?thesis using that by (auto simp: txns.get_put ListTxns_def)
  qed
  from assms(1) show ?thesis
  proof cases
    case (New tn x)
    have "GetTxn t (t_ID x) s = None" using New(3) assms(3) by (simp add: created_def GetTxn_def txn_fresh_def)
    then show ?thesis using put [of x] New assms(4) by (auto simp: created_def)
  next
    case (Moved tn j z y)
    have "t_ID y = j" "t_TenantID y = tn"
      using txn_step_frame [OF Moved(4)] GetTxn_id [OF assms(2) Moved(3)] by auto
    then show ?thesis using put [of y] Moved assms(4) GetTxn_one_tenant [OF Moved(3), of t] by auto
  qed simp
qed

lemma TxnRouter_effect:
  assumes "txn_wf (ts_store s)"
  shows "txn_effect (From r) e (ts_store s) (ts_store (snd (snd (TxnRouter cl e now route r (lp, s)))))"
proof (cases rule: TxnRouter_cases [of cl e now route r lp s])
  case (served rt t)
  then show ?thesis using txn_v1_effect [OF assms, of "Some t" e cl rt] by simp
qed (simp add: Same)

section \<open>Demonstration clients\<close>

text \<open>The world is the list of calls made; risk-service answers with the given tier.\<close>

definition demo_result :: "string \<Rightarrow> RiskEvaluationResult" where
  "demo_result tier = no_result\<lparr>rr_ID := ''rev_1'', rr_Tier := tier\<rparr>"

definition demo_clients :: "string \<Rightarrow> bool \<Rightarrow> Session \<Rightarrow> string list txn_clients" where
  "demo_clients tier verified sess =
     \<lparr>cl_Evaluate = \<lambda>t q w. (Inr (demo_result tier), w @ [''evaluate'']),
      cl_CreateChallenge = \<lambda>t q w. (Inr (no_challenge\<lparr>ch_ID := ''chl_1''\<rparr>), w @ [''challenge'']),
      cl_VerifyChallenge = \<lambda>t c m resp w. (Inr (no_verify_result\<lparr>cv_Verified := verified, cv_Method := m\<rparr>), w @ [''verify'']),
      cl_GetSession = \<lambda>t i w. (Inr sess, w @ [''session'']),
      cl_UpdateSession = \<lambda>t i q w. (Inr (no_session\<lparr>ses_ID := i\<rparr>), w @ [''upgrade''])\<rparr>"

definition demo_txn_env :: txn_env where
  "demo_txn_env = \<lparr>tv_now = \<lambda>n. 100 * Hour + int n, tv_uuid = ''1'', tv_fails = \<lambda>op. False\<rparr>"

definition demo_txn_gate :: "string \<Rightarrow> gate_request" where
  "demo_txn_gate t = \<lparr>peer_certificates = 0, internal_auth_header = [], tenant_header = t\<rparr>"

definition demo_advice :: body where
  "demo_advice = Body (JObj [(''user_id'', JStr ''u''), (''session_id'', JStr ''s''), (''action'', JStr ''pay''),
     (''context'', JObj [(''ip_address'', JStr ''10.0.0.1'')])]) 100"

definition demo_verify :: body where
  "demo_verify = Body (JObj [(''transaction_id'', JStr ''txn_1''), (''challenge_id'', JStr ''chl_1''),
     (''method'', JStr ''push'')]) 100"

definition demo_txn_sys :: "string list txn_sys" where
  "demo_txn_sys = \<lparr>ts_store = NewTxnStorage, ts_world = []\<rparr>"

text \<open>The state after one medium-risk advice: the transaction \<open>txn_1\<close> awaits its step-up.\<close>

definition demo_waiting :: "string list txn_sys" where
  "demo_waiting = snd (Advice (demo_clients TierMedium True no_session) demo_txn_env (Some ''t'') demo_advice demo_txn_sys)"

definition demo_env2 :: txn_env where
  "demo_env2 = demo_txn_env\<lparr>tv_uuid := ''2''\<rparr>"

lemma demo_waiting_row:
  "map_option t_Decision (GetTxn ''t'' ''txn_1'' (ts_store demo_waiting)) = Some DecisionStepUpRequired"
  by code_simp

lemma demo_inv: "txn_inv (ts_store demo_txn_sys)"
  by (simp add: demo_txn_sys_def txn_inv_def txn_wf_updates(1)) (simp add: NewTxnStorage_def tab_rows_def)

lemma advice_inv: "txn_inv (ts_store s) \<Longrightarrow> txn_inv (ts_store (snd (Advice cl e t b s)))"
  using txn_effect_inv [OF txn_v1_effect [of s t e cl "TAdvice b"]] by (simp add: txn_inv_def)

lemma demo_waiting_inv: "txn_inv (ts_store demo_waiting)"
  by (simp add: demo_waiting_def advice_inv demo_inv)

lemma demo_fresh2: "txn_fresh demo_env2 (ts_store demo_waiting)"
  by code_simp

section \<open>Properties of a transaction's life\<close>

text \<open>
  Every stored transaction is consistent, whatever requests arrive: its decision follows from its
  risk tier (allow only for low or medium, deny only for high, a step-up only for medium or high), the
  decision events of its trail, read in order, end in its decision, and it is marked as stepped up
  exactly when its step-up was satisfied.
\<close>

theorem transaction_invariant:
  assumes "txn_inv (ts_store s)"
  shows "txn_inv (ts_store (snd (snd (TxnRouter cl e now route r (lp, s)))))"
  using txn_effect_inv [OF TxnRouter_effect assms] assms by (simp add: txn_inv_def)

theorem transaction_invariant_witness:
  "txn_inv (ts_store (snd (snd (TxnRouter (demo_clients TierHigh True no_session) demo_env2 0
     (Some (TAdvice demo_advice)) (demo_txn_gate ''t'') (None, demo_waiting))))) \<and>
   length (tx_data (ts_store (snd (snd (TxnRouter (demo_clients TierHigh True no_session) demo_env2 0
     (Some (TAdvice demo_advice)) (demo_txn_gate ''t'') (None, demo_waiting)))))) = 2"
proof
  show "txn_inv (ts_store (snd (snd (TxnRouter (demo_clients TierHigh True no_session) demo_env2 0
     (Some (TAdvice demo_advice)) (demo_txn_gate ''t'') (None, demo_waiting)))))"
    by (rule transaction_invariant [OF demo_waiting_inv])
  show "length (tx_data (ts_store (snd (snd (TxnRouter (demo_clients TierHigh True no_session) demo_env2 0
     (Some (TAdvice demo_advice)) (demo_txn_gate ''t'') (None, demo_waiting)))))) = 2"
    by code_simp
qed

text \<open>A run of requests, each with its own environment, and the states it passes through.\<close>

type_synonym txn_event = "txn_env \<times> time \<times> txn_route option \<times> gate_request"

fun txn_states :: "'w txn_clients \<Rightarrow> txn_event list \<Rightarrow> limiter option \<times> 'w txn_sys \<Rightarrow> 'w txn_sys list" where
  "txn_states cl [] st = []"
| "txn_states cl ((e, now, route, r) # evs) st =
     (let st' = snd (TxnRouter cl e now route r st) in snd st' # txn_states cl evs st')"

fun fresh_run :: "'w txn_clients \<Rightarrow> txn_event list \<Rightarrow> limiter option \<times> 'w txn_sys \<Rightarrow> bool" where
  "fresh_run cl [] st \<longleftrightarrow> True"
| "fresh_run cl ((e, now, route, r) # evs) st \<longleftrightarrow>
     txn_fresh e (ts_store (snd st)) \<and> fresh_run cl evs (snd (TxnRouter cl e now route r st))"

lemma run_rows:
  assumes "txn_wf (ts_store (snd st))" "fresh_run cl evs st" "GetTxn t i (ts_store (snd st)) = Some x"
  shows "\<exists>ys. map (\<lambda>s. GetTxn t i (ts_store s)) (txn_states cl evs st) = map Some ys \<and>
    successively (\<lambda>a b. b = a \<or> txn_step a b) (x # ys)"
  using assms
proof (induction cl evs st arbitrary: x rule: txn_states.induct)
  case (2 cl e now route r evs st)
  let ?st = "snd (TxnRouter cl e now route r st)"
  have eff: "txn_effect (From r) e (ts_store (snd st)) (ts_store (snd ?st))"
    using TxnRouter_effect [OF 2(2), of r e cl now route "fst st"] by simp
  obtain y where y: "GetTxn t i (ts_store (snd ?st)) = Some y" "y = x \<or> txn_step x y"
    using txn_effect_row [OF eff 2(2) _ 2(4)] 2(3) by auto
  have "txn_wf (ts_store (snd ?st))"
    using eff 2(2) by (induction rule: txn_effect.induct) (auto intro: txn_wf_updates)
  with 2(1) [OF refl _ _ y(1)] 2(3) obtain ys where
    "map (\<lambda>s. GetTxn t i (ts_store s)) (txn_states cl evs ?st) = map Some ys"
    "successively (\<lambda>a b. b = a \<or> txn_step a b) (y # ys)"
    by auto
  with y show ?case by (intro exI [of _ "y # ys"]) (simp add: Let_def)
qed simp

lemma settled_stuck: "successively (\<lambda>a b. b = a \<or> txn_step a b) (x # ys) \<Longrightarrow> t_Decision x \<noteq> DecisionStepUpRequired \<Longrightarrow> \<forall>y\<in>set ys. y = x"
proof (induction ys)
  case (Cons y ys)
  then have "y = x" by (auto elim: txn_step.cases)
  with Cons show ?case by simp
qed simp


definition demo_run :: "bool \<Rightarrow> txn_event list" where
  "demo_run again = [(demo_env2, 0, Some (TStepUpVerify demo_verify), demo_txn_gate ''t''),
     (demo_env2, 0, Some (TStepUpVerify (if again then demo_verify else NoBody)), demo_txn_gate ''t'')]"


text \<open>
  C3. A transaction becomes satisfied only through a verification request of its own tenant that names
  it, presents the challenge it was issued, and that authenticator-service verified; when the
  transaction has a session, authentication-service has also accepted its promotion.
\<close>

theorem satisfied_only_after_verification:
  assumes wf: "txn_wf (ts_store s)" "txn_fresh e (ts_store s)"
    and x: "GetTxn t i (ts_store s) = Some x" "t_Decision x \<noteq> DecisionStepUpSatisfied"
    and y: "GetTxn t i (ts_store (snd (snd (TxnRouter cl e now route r (lp, s))))) = Some y"
      "t_Decision y = DecisionStepUpSatisfied"
  shows "\<exists>b req v w'. route = Some (TStepUpVerify b) \<and> From r = Some t \<and>
    ReadJSON StepUpVerifyRequest_fields no_step_up b = Inr req \<and> su_TransactionID req = i \<and>
    t_Decision x = DecisionStepUpRequired \<and> su_ChallengeID req = t_ChallengeID x \<and>
    cl_VerifyChallenge cl t (t_ChallengeID x) (su_Method req) (su_Response req) (ts_world s) = (Inr v, w') \<and>
    cv_Verified v \<and> t_StepUpMethod y = cv_Method v \<and>
    (t_SessionID x \<noteq> [] \<longrightarrow> (\<exists>u. fst (cl_UpdateSession cl t (t_SessionID x)
       \<lparr>sq_RiskLevel = t_RiskTier x, sq_StepUpCompleted = True\<rparr> w') = Inr u))"
proof (cases rule: TxnRouter_cases [of cl e now route r lp s])
  case stopped
  with x y show ?thesis by simp
next
  case (served rt t')
  have new: "GetTxn t i (CreateTxn z (ts_store s)) = Some x" if "created e tn z" for tn z
  proof -
    have "i \<noteq> t_ID z" using that wf(2) x(1) by (auto simp: created_def txn_fresh_def GetTxn_def)
    with x(1) show ?thesis by (simp add: txns.get_put)
  qed
  have not_new: "\<not> (ts_store (snd (txn_v1 cl e rt (Some t') s)) = ts_store s \<or> (\<exists>tn z. created e tn z \<and>
      ts_store (snd (txn_v1 cl e rt (Some t') s)) = CreateTxn z (ts_store s)))"
    using new x y served(3) by auto
  obtain b where b: "rt = TStepUpVerify b"
    using not_new Advice_row [of cl e "Some t'" _ s] Authorize_row [of cl e "Some t'" _ s] by (cases rt) force+
  show ?thesis
    using wf(1)
  proof (cases rule: StepUpVerify_row [of s cl e "Some t'" b])
    case same
    then show ?thesis using not_new b by simp
  next
    case (row tn req z z')
    have z: "t_ID z = su_TransactionID req" "t_TenantID z = t'" using GetTxn_id [OF wf(1) row(3)] row(1) by auto
    have z': "t_ID z' = t_ID z" "t_TenantID z' = t_TenantID z"
      using txn_step_frame [OF step_up_effect_step [OF row(6,4)]] by auto
    have y': "GetTxn t i (CreateTxn z' (ts_store s)) = Some y" using y(1) served(3) b row(7) by simp
    have i: "i = su_TransactionID req"
    proof (rule ccontr)
      assume "i \<noteq> su_TransactionID req"
      then have "y = x" using y' x(1) z z' by (simp add: txns.get_put)
      with x(2) y(2) show False by simp
    qed
    then have t: "t = t'" "y = z'" using y' z z' by (auto simp: txns.get_put split: if_splits)
    have zx: "z = x" using x(1) row(1,3) i t by simp
    show ?thesis
      using row(6) [unfolded zx]
    proof cases
      case (Verified v w' now')
      then show ?thesis using served b row(1,2,4,5) zx i t by auto
    qed (use y(2) t zx row(4) in auto)
  qed
qed

theorem satisfied_only_after_verification_witness:
  "\<exists>b req v w'. Some (TStepUpVerify demo_verify) = Some (TStepUpVerify b) \<and>
     ReadJSON StepUpVerifyRequest_fields no_step_up b = Inr req \<and> su_ChallengeID req = ''chl_1'' \<and>
     cl_VerifyChallenge (demo_clients TierMedium True no_session) ''t'' ''chl_1'' (su_Method req) (su_Response req)
       (ts_world demo_waiting) = (Inr v, w') \<and> cv_Verified v"
proof -
  let ?cl = "demo_clients TierMedium True no_session"
  have "map_option (\<lambda>x. (t_Decision x, t_ChallengeID x)) (GetTxn ''t'' ''txn_1'' (ts_store demo_waiting))
      = Some (DecisionStepUpRequired, ''chl_1'')" by code_simp
  then obtain x where x: "GetTxn ''t'' ''txn_1'' (ts_store demo_waiting) = Some x"
    "t_Decision x = DecisionStepUpRequired" "t_ChallengeID x = ''chl_1''" by auto
  have "map_option t_Decision (GetTxn ''t'' ''txn_1'' (ts_store (snd (snd (TxnRouter ?cl demo_env2 0
      (Some (TStepUpVerify demo_verify)) (demo_txn_gate ''t'') (None, demo_waiting)))))) = Some DecisionStepUpSatisfied"
    by code_simp
  then obtain y where "GetTxn ''t'' ''txn_1'' (ts_store (snd (snd (TxnRouter ?cl demo_env2 0
      (Some (TStepUpVerify demo_verify)) (demo_txn_gate ''t'') (None, demo_waiting))))) = Some y"
    "t_Decision y = DecisionStepUpSatisfied" by auto
  then show ?thesis
    using satisfied_only_after_verification [OF _ demo_fresh2 x(1) _, of ?cl 0 "Some (TStepUpVerify demo_verify)"
        "demo_txn_gate ''t''" None y] demo_waiting_inv x
    by (auto simp: txn_inv_def)
qed

section \<open>What the caller is told\<close>

text \<open>The transaction a reply names, and the recorded decision it stands for.\<close>

definition reply_claims :: "txn_reply \<Rightarrow> (string \<times> string) option" where
  "reply_claims rep =
     (case rep of
        WriteJSON st (XAdvice a) \<Rightarrow> Some (ar_TransactionID a, ar_Decision a)
      | WriteJSON st (XAuthorize a) \<Rightarrow> Some (zr_TransactionID a, zr_Decision a)
      | WriteJSON st (XVerify v) \<Rightarrow>
          Some (sr_TransactionID v, if sr_Decision v = DecisionAllow then DecisionStepUpSatisfied else sr_Decision v)
      | WriteJSON st (XUpstream service i) \<Rightarrow> Some (i, DecisionError)
      | _ \<Rightarrow> None)"

definition told :: "string \<Rightarrow> txn_reply \<times> 'w txn_sys \<Rightarrow> bool" where
  "told tn out \<longleftrightarrow> (\<forall>i d. reply_claims (fst out) = Some (i, d) \<longrightarrow>
     (\<exists>x. GetTxn tn i (ts_store (snd out)) = Some x \<and> t_Decision x = d))"

lemma claims_simps [simp]:
  "reply_claims (WriteError st c m) = None" "reply_claims (RetryAfter st c m' n) = None"
  "reply_claims NoContent = None" "reply_claims (writeUpstreamError service i) = Some (i, DecisionError)"
  "reply_claims (WriteJSON st (XAdvice a)) = Some (ar_TransactionID a, ar_Decision a)"
  "reply_claims (WriteJSON st (XAuthorize z)) = Some (zr_TransactionID z, zr_Decision z)"
  "reply_claims (WriteJSON st (XVerify v)) =
     Some (sr_TransactionID v, if sr_Decision v = DecisionAllow then DecisionStepUpSatisfied else sr_Decision v)"
  "reply_claims (WriteJSON st (XTransaction t)) = None" "reply_claims (WriteJSON st (XTransactions ts nx)) = None"
  "reply_claims (bad_request c k) = None" "reply_claims (json_error err) = None"
  "reply_claims txn_no_tenant = None" "reply_claims (txn_invalid k) = None" "reply_claims (txn_internal k) = None"
  by (simp_all add: reply_claims_def txn_reply_defs)

lemma update_created_now:
  assumes "\<not> tv_fails e OpUpdate" "t_ID t' = t_ID t" "t_TenantID t' = t_TenantID t" "t_CreatedAt t' = t_CreatedAt t"
  shows "best_effort_update e t' (CreateTxn t s) = CreateTxn t' s"
  using update_created [OF assms(2-4), of e s] assms(1) by (simp add: kept_def)

lemma GetTxn_CreateTxn [simp]: "t_TenantID x = tn \<Longrightarrow> t_ID x = i \<Longrightarrow> GetTxn tn i (CreateTxn x s) = Some x"
  by (simp add: txns.get_put)

text \<open>The common facts of a transaction \<open>t\<close> in flight whose first record \<open>t0\<close> has been stored.\<close>

definition in_flight :: "txn_env \<Rightarrow> string \<Rightarrow> Transaction \<Rightarrow> Transaction \<Rightarrow> bool" where
  "in_flight e tn t0 t \<longleftrightarrow> \<not> tv_fails e OpUpdate \<and> t_ID t = t_ID t0 \<and> t_TenantID t = tn \<and> t_TenantID t0 = tn \<and>
     t_CreatedAt t = t_CreatedAt t0"

lemma errored_in_flight:
  "in_flight e tn t0 t \<Longrightarrow> GetTxn tn (t_ID t) (markError e now t ev d (CreateTxn t0 st)) = Some (errored_txn now ev d t)"
  by (simp add: in_flight_def markError_def update_created_now)

lemma advice_decide_told:
  assumes "in_flight e tn t0 t" "ts_store s = CreateTxn t0 st"
  shows "told tn (advice_decide cl e tn req result t s)"
proof -
  note t = assms(1) [unfolded in_flight_def]
  have "told tn (advice_step_up cl e tn req result t s)"
    unfolding advice_step_up_def Let_def
    using errored_in_flight [OF assms(1)] t assms(2)
    by (simp add: told_def update_created_now split: prod.splits sum.splits)
  then show ?thesis
    using errored_in_flight [OF assms(1)] t assms(2)
    by (simp add: advice_decide_def advice_allow_def Let_def) (simp add: told_def update_created_now)
qed

lemma authorize_decide_told:
  assumes "in_flight e tn t0 t" "ts_store s = CreateTxn t0 st"
  shows "told tn (authorize_decide e tier ps t s)"
proof -
  note t = assms(1) [unfolded in_flight_def]
  have f: "in_flight e tn t0 (t\<lparr>t_RiskTier := tier, t_DecidedAt := d, t_PolicyID := p\<rparr>)" for d p
    using t by (simp add: in_flight_def)
  show ?thesis
    using errored_in_flight [OF f] t assms(2)
    by (simp add: authorize_decide_def Let_def) (simp add: told_def update_created_now)
qed

lemma authorize_with_told:
  assumes "in_flight e tn t0 t" "ts_store s = CreateTxn t0 st"
  shows "told tn (authorize_with cl e tn req sess t s)"
proof -
  note t = assms(1) [unfolded in_flight_def]
  have "in_flight e tn t0 (logged es t)" for es using t by (simp add: in_flight_def)
  moreover have "in_flight e tn t0 (logged es (t\<lparr>t_RiskEvaluationID := i, t_RiskScore := sc\<rparr>))" for es i sc
    using t by (simp add: in_flight_def)
  moreover have "told tn (writeUpstreamError service (t_ID t),
      s'\<lparr>ts_store := markError e now t ev d (CreateTxn t0 st)\<rparr>)" for s' :: "'a txn_sys" and service now ev d
    using errored_in_flight [OF assms(1)] by (simp add: told_def)
  ultimately show ?thesis
    unfolding authorize_with_def Let_def using assms(2)
    by (auto intro!: authorize_decide_told split: prod.splits sum.splits)
qed

lemma Advice_told: "\<not> tv_fails e OpUpdate \<Longrightarrow> told tn (Advice cl e (Some tn) b s)"
proof -
  assume up: "\<not> tv_fails e OpUpdate"
  have f: "in_flight e tn (advice_txn e tn req) (advice_txn e tn req)"
    "in_flight e tn (advice_txn e tn req) (advice_evaluated e r (advice_txn e tn req))" for req r
    using up by (simp_all add: in_flight_def)
  show ?thesis
    unfolding Advice_def Let_def
    using errored_in_flight [OF f(1)]
    by (auto simp: told_def split: prod.splits sum.splits if_splits
        dest: advice_decide_told [OF f(2), unfolded told_def, rule_format, rotated])
qed

lemma Authorize_told: "\<not> tv_fails e OpUpdate \<Longrightarrow> told tn (Authorize cl e (Some tn) b s)"
proof -
  assume up: "\<not> tv_fails e OpUpdate"
  let ?t = "\<lambda>req. (authorize_txn e tn req)\<lparr>t_ResourceSensitivity := attribute_sensitivity req\<rparr>"
  have f: "in_flight e tn (authorize_txn e tn req) (?t req)" for req
    using up by (simp add: in_flight_def)
  show ?thesis
    unfolding Authorize_def Let_def
    using errored_in_flight [OF f]
    by (auto simp: told_def split: prod.splits sum.splits if_splits
        dest: authorize_with_told [OF f, unfolded told_def, rule_format, rotated])
qed

lemma step_up_told:
  assumes wf: "txn_wf (ts_store s)" and x: "GetTxn tn i (ts_store s) = Some x" and up: "\<not> tv_fails e OpUpdate"
  shows "told tn (step_up_check cl e tn req x s)"
proof (cases "t_Decision x = DecisionStepUpRequired \<and> t_ChallengeID x = su_ChallengeID req")
  case False
  then show ?thesis by (auto simp: step_up_check_def told_def)
next
  case True
  note ids = GetTxn_id [OF wf x]
  have upd: "best_effort_update e y (ts_store s) = CreateTxn y (ts_store s)"
    if "t_ID y = t_ID x" "t_TenantID y = t_TenantID x" "t_CreatedAt y = t_CreatedAt x" for y
    using update_stored [OF wf x that] up by simp
  have app: "AppendHistory tn i en (ts_store s) = Some (CreateTxn (x\<lparr>t_History := t_History x @ [en]\<rparr>) (ts_store s))" for en
    by (rule AppendHistory_put [OF wf x])
  show ?thesis
    using True x ids
    by (simp add: step_up_check_def step_up_promote_def step_up_satisfied_def markError_def Let_def split: prod.splits sum.splits)
      (auto simp: told_def upd app)
qed

text \<open>
  What the caller is told is what is recorded: when a reply names a transaction, with a decision or
  as failed upstream, the transaction stored under the caller's tenant has that decision (a verified
  step-up is told as allow and recorded as satisfied), as long as the store accepts updates.
\<close>

theorem reply_agrees_with_record:
  assumes "txn_wf (ts_store s)" "\<not> tv_fails e OpUpdate"
    and "reply_claims (fst (TxnRouter cl e now route r (lp, s))) = Some (i, d)"
  shows "\<exists>t x. From r = Some t \<and> GetTxn t i (ts_store (snd (snd (TxnRouter cl e now route r (lp, s))))) = Some x \<and>
    t_Decision x = d"
proof -
  have v1: "told t (txn_v1 cl e rt (Some t) s)" for rt t
  proof (cases rt)
    case (TStepUpVerify b)
    have "told t (StepUpVerify cl e (Some t) b s)"
      unfolding StepUpVerify_def
      using step_up_told [OF assms(1) _ assms(2)]
      by (auto simp: told_def split: sum.splits got.splits)
    with TStepUpVerify show ?thesis by simp
  next
    case (TList l c)
    then show ?thesis by (auto simp: told_def ListTransactions_def Let_def split: option.splits)
  next
    case (TGet j)
    then show ?thesis by (auto simp: told_def GetTransaction_def split: got.splits)
  qed (simp_all add: Advice_told Authorize_told assms(2))
  obtain rt where rt: "route = Some rt"
    using assms(3) by (cases route) (auto simp: TxnRouter_def reply_claims_def)
  show ?thesis
  proof (cases "From r")
    case None
    then show ?thesis
      using assms(3) by (auto simp: rt TxnRouter_def Middleware_def TenantMiddleware_def Let_def split: prod.splits if_splits)
  next
    case (Some t)
    have "reply_claims (fst (txn_v1 cl e rt (Some t) s)) = Some (i, d) \<and>
        snd (snd (TxnRouter cl e now route r (lp, s))) = snd (txn_v1 cl e rt (Some t) s)"
      using assms(3) Some
      by (auto simp: rt TxnRouter_def Middleware_def TenantMiddleware_def Let_def split: prod.splits if_splits)
    then show ?thesis using v1 [of t rt] Some by (auto simp: told_def)
  qed
qed

theorem reply_agrees_with_record_witness:
  "\<exists>t x. From (demo_txn_gate ''t'') = Some t \<and>
     GetTxn t ''txn_1'' (ts_store (snd (snd (TxnRouter (demo_clients TierMedium True no_session) demo_txn_env 0
       (Some (TAdvice demo_advice)) (demo_txn_gate ''t'') (None, demo_txn_sys))))) = Some x \<and>
     t_Decision x = DecisionStepUpRequired"
proof (rule reply_agrees_with_record)
  show "txn_wf (ts_store demo_txn_sys)" using demo_inv by (simp add: txn_inv_def)
  show "\<not> tv_fails demo_txn_env OpUpdate" by (simp add: demo_txn_env_def)
  show "reply_claims (fst (TxnRouter (demo_clients TierMedium True no_session) demo_txn_env 0
      (Some (TAdvice demo_advice)) (demo_txn_gate ''t'') (None, demo_txn_sys))) = Some (''txn_1'', DecisionStepUpRequired)"
    by code_simp
qed

section \<open>The decision endpoints against their specifications\<close>

text \<open>
  The verdict of an advice, with the calls it makes: allow a low risk; for a medium or high one have a
  challenge issued, with the factors of that tier; anything that goes wrong on the way is an error.
\<close>

definition advice_query :: "string \<Rightarrow> AdviceRequest \<Rightarrow> RiskEvaluateRequest" where
  "advice_query tn req =
     \<lparr>rq_TenantID = tn, rq_UserID = ad_UserID req, rq_SessionID = ad_SessionID req, rq_Action = ad_Action req,
      rq_Resource = ad_Resource req, rq_ResourceSensitivity = ad_ResourceSensitivity req,
      rq_Signals = signalsFromContext (ad_Context req)\<rparr>"

definition challenge_query :: "string \<Rightarrow> string \<Rightarrow> AdviceRequest \<Rightarrow> string \<Rightarrow> ChallengeCreateRequest" where
  "challenge_query tn tid req tier =
     \<lparr>cq_TenantID = tn, cq_UserID = ad_UserID req, cq_Methods = methodsForTier tier,
      cq_Context = [(''action'', VStr (ad_Action req)), (''resource'', VStr (ad_Resource req)),
        (''transaction_id'', VStr tid)]\<rparr>"

definition advice_spec :: "'w txn_clients \<Rightarrow> string \<Rightarrow> string \<Rightarrow> AdviceRequest \<Rightarrow> 'w \<Rightarrow> string \<times> 'w" where
  "advice_spec cl tn tid req w =
     (case cl_Evaluate cl tn (advice_query tn req) w of
        (Inl err, w) \<Rightarrow> (DecisionError, w)
      | (Inr r, w) \<Rightarrow>
          if rr_Tier r = TierLow then (DecisionAllow, w)
          else if rr_Tier r \<in> {TierMedium, TierHigh} then
            (case cl_CreateChallenge cl tn (challenge_query tn tid req (rr_Tier r)) w of
               (Inl err, w) \<Rightarrow> (DecisionError, w)
             | (Inr ch, w) \<Rightarrow> (DecisionStepUpRequired, w))
          else (DecisionError, w))"

lemma advice_implements_spec:
  assumes "ReadJSON AdviceRequest_fields no_advice b = Inr req" "validateAdvice req = []"
    and "\<not> tv_fails e OpCreate" "\<not> tv_fails e OpUpdate"
  shows "\<exists>x. GetTxn t (newTransactionID e) (ts_store (snd (Advice cl e (Some t) b s))) = Some x \<and>
    (t_Decision x, ts_world (snd (Advice cl e (Some t) b s))) = advice_spec cl t (newTransactionID e) req (ts_world s) \<and>
    status (fst (Advice cl e (Some t) b s)) = (if t_Decision x = DecisionError then 502 else 200)"
proof -
  let ?id = "newTransactionID e" and ?t = "advice_txn e t req"
  let ?te = "\<lambda>r. advice_evaluated e r ?t"
  obtain res w where ev: "cl_Evaluate cl t (advice_query t req) (ts_world s) = (res, w)" by fastforce
  define s1 where "s1 = s\<lparr>ts_store := CreateTxn ?t (ts_store s), ts_world := w\<rparr>"
  have s1: "ts_store s1 = CreateTxn ?t (ts_store s)" "ts_world s1 = w" by (simp_all add: s1_def)
  have f: "in_flight e t ?t ?t" "in_flight e t ?t (?te r)" for r
    using assms(4) by (simp_all add: in_flight_def)
  have out: "Advice cl e (Some t) b s = (case res of
      Inl err \<Rightarrow> (writeUpstreamError ''risk-service'' ?id,
        s1\<lparr>ts_store := markError e (tv_now e 3) ?t ''risk_evaluate_failed'' (ErrorText err) (ts_store s1)\<rparr>)
    | Inr r \<Rightarrow> advice_decide cl e t req r (?te r) s1)"
    using assms ev by (simp add: Advice_def Let_def s1_def advice_query_def split: sum.split)
  have errored: "GetTxn t ?id (markError e now u k d (ts_store s1)) = Some (errored_txn now k d u)"
    if "in_flight e t ?t u" for now u k d
    using errored_in_flight [OF that] that by (simp add: s1 in_flight_def)
  note advice_update [simp] = update_created_now [OF assms(4)]
  show ?thesis
  proof (cases res)
    case (Inl err)
    then show ?thesis using out errored [OF f(1)] ev by (simp add: advice_spec_def s1 writeUpstreamError_def status_defs)
  next
    case (Inr r)
    note out = out [unfolded Inr, simplified]
    consider "rr_Tier r = TierLow" | "rr_Tier r \<noteq> TierLow" "rr_Tier r \<in> {TierMedium, TierHigh}"
      | "rr_Tier r \<noteq> TierLow" "rr_Tier r \<notin> {TierMedium, TierHigh}" by blast
    then show ?thesis
    proof cases
      case 1
      then show ?thesis using out Inr ev
        by (simp add: advice_decide_def advice_allow_def advice_spec_def Let_def s1 status_defs)
    next
      case 2
      obtain ch w' where ch: "cl_CreateChallenge cl t (challenge_query t ?id req (rr_Tier r)) w = (ch, w')" by fastforce
      have "advice_decide cl e t req r (?te r) s1 = advice_step_up cl e t req r (?te r) s1"
        using 2 by (auto simp: advice_decide_def)
      then show ?thesis
        using out Inr ev ch 2 errored [OF f(2)]
        by (cases ch) (auto simp: advice_step_up_def advice_spec_def challenge_query_def Let_def s1 writeUpstreamError_def status_defs)
    next
      case 3
      then show ?thesis using out Inr ev errored [OF f(2)]
        by (simp add: advice_decide_def advice_spec_def s1 writeUpstreamError_def status_defs)
    qed
  qed
qed



text \<open>
  The verdict of an authorization.  The session's tier counts when the session was read, was updated
  in the last five minutes (when it carries no update time, has at least 7 hours 55 minutes left)
  and the resource is not sensitive; otherwise risk-service is asked, also when the session was
  refused with a 4xx.  \<open>now\<close> is the clock when the age of the session is taken.
\<close>

definition trusted :: "time \<Rightarrow> string \<Rightarrow> Session \<Rightarrow> bool" where
  "trusted now sensitivity sess \<longleftrightarrow> sensitivity \<notin> {''high'', ''critical''} \<and>
     (if ses_UpdatedAt sess \<noteq> 0 then now - ses_UpdatedAt sess \<le> 5 * Minute
      else ses_ExpiresAt sess \<noteq> 0 \<and> 8 * Hour - 5 * Minute \<le> ses_ExpiresAt sess - now)"

definition tier_verdict :: "string \<Rightarrow> string" where
  "tier_verdict tier =
     (if tier \<in> {TierLow, TierMedium} then DecisionAllow else if tier = TierHigh then DecisionDeny else DecisionError)"

definition authorize_query :: "string \<Rightarrow> AuthorizeRequest \<Rightarrow> RiskEvaluateRequest" where
  "authorize_query tn req =
     \<lparr>rq_TenantID = tn, rq_UserID = az_UserID req, rq_SessionID = az_SessionID req, rq_Action = az_Action req,
      rq_Resource = az_Resource req, rq_ResourceSensitivity = attribute_sensitivity req, rq_Signals = []\<rparr>"

definition fresh_verdict :: "'w txn_clients \<Rightarrow> string \<Rightarrow> AuthorizeRequest \<Rightarrow> 'w \<Rightarrow> string \<times> 'w" where
  "fresh_verdict cl tn req w =
     (case cl_Evaluate cl tn (authorize_query tn req) w of
        (Inl err, w) \<Rightarrow> (DecisionError, w)
      | (Inr r, w) \<Rightarrow> (tier_verdict (rr_Tier r), w))"

definition refused_4xx :: "client_err \<Rightarrow> bool" where
  "refused_4xx err = (case err of Downstream de \<Rightarrow> 400 \<le> de_Status de \<and> de_Status de < 500 | _ \<Rightarrow> False)"

definition authorize_spec :: "'w txn_clients \<Rightarrow> time \<Rightarrow> string \<Rightarrow> AuthorizeRequest \<Rightarrow> 'w \<Rightarrow> string \<times> 'w" where
  "authorize_spec cl now tn req w =
     (case cl_GetSession cl tn (az_SessionID req) w of
        (Inl err, w) \<Rightarrow> if refused_4xx err then fresh_verdict cl tn req w else (DecisionError, w)
      | (Inr sess, w) \<Rightarrow>
          if trusted now (attribute_sensitivity req) sess then (tier_verdict (ses_RiskLevel sess), w)
          else fresh_verdict cl tn req w)"

lemma needs_fresh_trusted: "needs_fresh now sens (Some sess) \<longleftrightarrow> \<not> trusted now sens sess"
  by (auto simp: needs_fresh_def trusted_def sessionStale_def IsZero_def SessionStaleAfter_def assumedLifetime_def)

definition verdict_status :: "string \<Rightarrow> nat" where
  "verdict_status d = (if d = DecisionError then 502 else if d = DecisionDeny then 403 else 200)"

text \<open>The new transaction is recorded with decision \<open>d\<close>, in the world \<open>w\<close>, and the reply has its status.\<close>

definition outcome :: "txn_env \<Rightarrow> string \<Rightarrow> string \<times> 'w \<Rightarrow> txn_reply \<times> 'w txn_sys \<Rightarrow> bool" where
  "outcome e tn dw out \<longleftrightarrow> (\<exists>x. GetTxn tn (newTransactionID e) (ts_store (snd out)) = Some x \<and>
     t_Decision x = fst dw \<and> ts_world (snd out) = snd dw \<and> status (fst out) = verdict_status (fst dw))"

lemma errored_outcome:
  assumes "in_flight e tn t0 t" "t_ID t = newTransactionID e"
  shows "outcome e tn (DecisionError, ts_world s) (writeUpstreamError service i,
    s\<lparr>ts_store := markError e now t ev d (CreateTxn t0 st)\<rparr>)"
  using errored_in_flight [OF assms(1)] assms(2)
  by (simp add: outcome_def verdict_status_def writeUpstreamError_def status_defs)

lemma decide_outcome:
  assumes "in_flight e tn t0 t" "ts_store s = CreateTxn t0 st" "t_ID t = newTransactionID e"
  shows "outcome e tn (tier_verdict tier, ts_world s) (authorize_decide e tier ps t s)"
proof -
  note t = assms(1) [unfolded in_flight_def]
  have f: "in_flight e tn t0 (t\<lparr>t_RiskTier := tier, t_DecidedAt := d, t_PolicyID := p\<rparr>)" for d p
    using t by (simp add: in_flight_def)
  consider "tier \<in> {TierLow, TierMedium}" | "tier = TierHigh" | "tier \<notin> {TierLow, TierMedium, TierHigh}" by blast
  then show ?thesis
  proof cases
    case 1
    then show ?thesis using assms(2,3) t
      by (auto simp: outcome_def authorize_decide_def Let_def update_created_now tier_verdict_def verdict_status_def status_defs)
  next
    case 2
    then show ?thesis using assms(2,3) t
      by (auto simp: outcome_def authorize_decide_def Let_def update_created_now tier_verdict_def verdict_status_def status_defs)
  next
    case 3
    then show ?thesis using assms(2,3) errored_outcome [OF f]
      by (simp add: authorize_decide_def Let_def tier_verdict_def)
  qed
qed

lemma authorize_with_outcome:
  assumes "in_flight e tn t0 t" "ts_store s = CreateTxn t0 st" "t_ID t = newTransactionID e"
    and "t_ResourceSensitivity t = attribute_sensitivity req"
  shows "outcome e tn
    (if needs_fresh (tv_now e 1) (attribute_sensitivity req) sess then fresh_verdict cl tn req (ts_world s)
     else (tier_verdict (ses_RiskLevel (case sess of None \<Rightarrow> no_session | Some x \<Rightarrow> x)), ts_world s))
    (authorize_with cl e tn req sess t s)"
proof (cases "needs_fresh (tv_now e 1) (attribute_sensitivity req) sess")
  case False
  have f: "in_flight e tn t0 (logged es t)" for es using assms(1) by (simp add: in_flight_def)
  then show ?thesis
    using decide_outcome [OF f assms(2)] assms(3,4) False by (simp add: authorize_with_def Let_def)
next
  case True
  obtain res w where ev: "cl_Evaluate cl tn (authorize_query tn req) (ts_world s) = (res, w)" by fastforce
  have f: "in_flight e tn t0 (logged es (t\<lparr>t_RiskEvaluationID := i, t_RiskScore := sc\<rparr>))" for es i sc
    using assms(1) by (simp add: in_flight_def)
  show ?thesis
  proof (cases res)
    case (Inl err)
    then show ?thesis
      using True ev assms(2-4) errored_outcome [OF assms(1), of "s\<lparr>ts_world := w\<rparr>"]
      by (simp add: authorize_with_def fresh_verdict_def authorize_query_def Let_def)
  next
    case (Inr r)
    then show ?thesis
      using True ev assms(2-4) decide_outcome [OF f, of "s\<lparr>ts_world := w\<rparr>"]
      by (simp add: authorize_with_def fresh_verdict_def authorize_query_def Let_def)
  qed
qed


definition demo_authorize :: body where
  "demo_authorize = Body (JObj [(''user_id'', JStr ''u''), (''session_id'', JStr ''s''), (''action'', JStr ''pay''),
     (''resource'', JStr ''r'')]) 100"


section \<open>Isolation, paging, views and keys\<close>

text \<open>
  Tenants of transaction-service are isolated: a request that does not carry tenant \<open>t\<close>'s header
  leaves every transaction of \<open>t\<close> and every page of its listing as it was.
\<close>

theorem transaction_service_isolates_tenants:
  assumes "txn_wf (ts_store s)" "txn_fresh e (ts_store s)" "From r \<noteq> Some t"
  shows "GetTxn t i (ts_store (snd (snd (TxnRouter cl e now route r (lp, s))))) = GetTxn t i (ts_store s) \<and>
    ListTxns t limit cursor (ts_store (snd (snd (TxnRouter cl e now route r (lp, s))))) = ListTxns t limit cursor (ts_store s)"
  using txn_effect_foreign [OF TxnRouter_effect [OF assms(1)] assms] .

theorem transaction_service_isolates_tenants_witness:
  "ListTxns ''t'' 10 0 (ts_store (snd (snd (TxnRouter (demo_clients TierHigh True no_session) demo_env2 0
     (Some (TStepUpVerify demo_verify)) (demo_txn_gate ''u'') (None, demo_waiting))))) = ListTxns ''t'' 10 0 (ts_store demo_waiting)"
  using transaction_service_isolates_tenants [OF _ demo_fresh2, of "demo_txn_gate ''u''" "''t''"] demo_waiting_inv
  by (simp add: txn_inv_def demo_txn_gate_def From_def)

definition txn_page :: "txn_env \<Rightarrow> string \<Rightarrow> string \<Rightarrow> 'w txn_sys \<Rightarrow> time \<Rightarrow> Transaction list \<times> time option" where
  "txn_page e t q_limit s c =
     (case fst (ListTransactions e (Some t) q_limit (if c = 0 then NoCursor else CursorAt c) s) of
        WriteJSON st (XTransactions items next) \<Rightarrow> (items, next)
      | _ \<Rightarrow> ([], None))"

definition tenant_txns :: "string \<Rightarrow> txn_store \<Rightarrow> Transaction list" where
  "tenant_txns t s = filter (\<lambda>x. t_TenantID x = t) (tab_rows (tx_data s))"

lemma txn_page_eq:
  assumes "page_limit DefaultListLimit MaxListLimit q = Some limit" "\<not> tv_fails e OpList"
  shows "txn_page e t q s c =
    (let items = cut_page limit (sort_slice txn_before
        (filter (\<lambda>x. t_TenantID x = t \<and> after_cursor c (t_CreatedAt x)) (tab_rows (tx_data (ts_store s)))))
     in (items, next_cursor t_CreatedAt limit items))"
  using assms by (simp add: txn_page_def ListTransactions_def cursor_time_def ListTxns_def Let_def)

text \<open>
  Paging through a tenant's transactions with any accepted page size lists each of them exactly
  once, newest first, provided no two of them were created at the same instant.
\<close>

theorem transaction_paging_complete:
  assumes wf: "txn_wf (ts_store s)" and q: "page_limit DefaultListLimit MaxListLimit q = Some limit" and up: "\<not> tv_fails e OpList"
    and times: "distinct (map t_CreatedAt (tenant_txns t (ts_store s)))" "\<forall>x\<in>set (tenant_txns t (ts_store s)). 0 < t_CreatedAt x"
    and fuel: "length (tenant_txns t (ts_store s)) < fuel"
  shows "mset (walk_pages fuel (txn_page e t q s) 0) = mset (tenant_txns t (ts_store s)) \<and>
    sorted_wrt (\<lambda>a b. t_CreatedAt b < t_CreatedAt a) (walk_pages fuel (txn_page e t q s) 0)"
proof -
  have ids: "distinct (map t_ID (tab_rows (tx_data (ts_store s))))" using wf by (simp add: txn_wf_def tab_wf_distinct)
  have limit: "0 < limit" by (rule page_limit_pos [OF q]) (simp_all add: DefaultListLimit_def MaxListLimit_def)
  show ?thesis
    unfolding tenant_txns_def
    using times(2) fuel
    by (intro txn_pages.walk_listing_spec [OF ids times(1) [unfolded tenant_txns_def] _ limit txn_page_eq [OF q up]])
      (auto simp: tenant_txns_def)
qed

definition demo_three :: "string list txn_sys" where
  "demo_three = fold (\<lambda>n s. snd (Advice (demo_clients TierLow True no_session)
     (demo_txn_env\<lparr>tv_uuid := show_nat n, tv_now := \<lambda>k. Hour + int n\<rparr>) (Some ''t'') demo_advice s)) [1, 2, 3] demo_txn_sys"

theorem transaction_paging_complete_witness:
  "mset (walk_pages 4 (txn_page demo_txn_env ''t'' ''2'' demo_three) 0) = mset (tenant_txns ''t'' (ts_store demo_three)) \<and>
   map t_ID (walk_pages 4 (txn_page demo_txn_env ''t'' ''2'' demo_three) 0) = [''txn_3'', ''txn_2'', ''txn_1'']"
proof
  have inv: "txn_inv (ts_store demo_three)"
    by (simp add: demo_three_def advice_inv demo_inv)
  have all: "map (\<lambda>x. t_CreatedAt x) (tenant_txns ''t'' (ts_store demo_three)) = [Hour + 1, Hour + 2, Hour + 3]" by code_simp
  show "mset (walk_pages 4 (txn_page demo_txn_env ''t'' ''2'' demo_three) 0) = mset (tenant_txns ''t'' (ts_store demo_three))"
  proof (rule conjunct1 [OF transaction_paging_complete])
    show "txn_wf (ts_store demo_three)" using inv by (simp add: txn_inv_def)
    show "page_limit DefaultListLimit MaxListLimit ''2'' = Some 2" by code_simp
    show "\<not> tv_fails demo_txn_env OpList" by (simp add: demo_txn_env_def)
    show "distinct (map t_CreatedAt (tenant_txns ''t'' (ts_store demo_three)))" using all by simp
    have "\<forall>c\<in>set (map (\<lambda>x. t_CreatedAt x) (tenant_txns ''t'' (ts_store demo_three))). 0 < c"
      unfolding all by (simp add: duration_defs)
    then show "\<forall>x\<in>set (tenant_txns ''t'' (ts_store demo_three)). 0 < t_CreatedAt x" by simp
    have "length (map (\<lambda>x. t_CreatedAt x) (tenant_txns ''t'' (ts_store demo_three))) = 3" unfolding all by simp
    then show "length (tenant_txns ''t'' (ts_store demo_three)) < 4" by simp
  qed
  show "map t_ID (walk_pages 4 (txn_page demo_txn_env ''t'' ''2'' demo_three) 0) = [''txn_3'', ''txn_2'', ''txn_1'']"
    by code_simp
qed

lemma add_flag_effect:
  assumes "distinct (map fst sg)"
  shows "distinct (map fst (add_flag f sg)) \<and>
    mset (concat (map (\<lambda>(n, x). ss_Flags x) (add_flag f sg))) = add_mset f (mset (concat (map (\<lambda>(n, x). ss_Flags x) sg))) \<and>
    (\<forall>n. (case map_of (add_flag f sg) n of None \<Rightarrow> 0 | Some x \<Rightarrow> ss_Score x) = (case map_of sg n of None \<Rightarrow> 0 | Some x \<Rightarrow> ss_Score x))"
proof -
  have "mset (concat (map (\<lambda>(n, x). ss_Flags x) (AList.update k (x\<lparr>ss_Flags := ss_Flags x @ [f]\<rparr>) sg))) =
      add_mset f (mset (concat (map (\<lambda>(n, x). ss_Flags x) sg)))"
    if "x = (case map_of sg k of None \<Rightarrow> \<lparr>ss_Score = 0, ss_Flags = []\<rparr> | Some y \<Rightarrow> y)" for k x
    using that by (induction sg) (auto split: if_splits)
  then show ?thesis
    using assms by (auto simp: add_flag_def Let_def distinct_update update_conv' split: option.splits)
qed

text \<open>
  The view of an evaluation that callers see drops nothing: every flag of risk-service appears in it
  exactly as often, each in one bucket, and every scorer keeps its score.
\<close>

theorem risk_view_keeps_everything:
  assumes "distinct (map fst (rr_Scores result))"
  shows "mset (concat (map (\<lambda>(n, x). ss_Flags x) (rw_Signals (buildRiskEvaluation result)))) = mset (rr_Flags result) \<and>
    distinct (map fst (rw_Signals (buildRiskEvaluation result))) \<and>
    (\<forall>name score. map_of (rr_Scores result) name = Some score \<longrightarrow>
       (\<exists>x. map_of (rw_Signals (buildRiskEvaluation result)) name = Some x \<and> ss_Score x = score))"
proof -
  let ?start = "map (\<lambda>(name, score). (name, \<lparr>ss_Score = score, ss_Flags = []\<rparr>)) (rr_Scores result)"
  have fold: "distinct (map fst (fold add_flag fs sg)) \<and>
      mset (concat (map (\<lambda>(n, x). ss_Flags x) (fold add_flag fs sg))) = mset fs + mset (concat (map (\<lambda>(n, x). ss_Flags x) sg)) \<and>
      (\<forall>n x. map_of sg n = Some x \<longrightarrow> (\<exists>y. map_of (fold add_flag fs sg) n = Some y \<and> ss_Score y = ss_Score x))"
    if "distinct (map fst sg)" for fs sg
    using that
  proof (induction fs arbitrary: sg)
    case (Cons f fs)
    have "\<exists>y. map_of (add_flag f sg) n = Some y \<and> ss_Score y = ss_Score x" if "map_of sg n = Some x" for n x
      using that by (auto simp: add_flag_def Let_def update_conv' split: option.splits)
    with Cons.IH [of "add_flag f sg"] add_flag_effect [OF Cons.prems, of f] show ?case by fastforce
  qed simp
  have start: "distinct (map fst ?start)" "concat (map (\<lambda>(n, x). ss_Flags x) ?start) = []"
    using assms by (auto simp: comp_def case_prod_beta)
  have "map_of ?start name = map_option (\<lambda>score. \<lparr>ss_Score = score, ss_Flags = []\<rparr>) (map_of (rr_Scores result) name)" for name
    by (induction "rr_Scores result" arbitrary: result rule: list.induct)
      (simp_all add: map_of_map)
  then show ?thesis
    using fold [OF start(1), of "rr_Flags result"] start(2) by (fastforce simp: buildRiskEvaluation_def)
qed

theorem risk_view_keeps_everything_witness:
  "mset (concat (map (\<lambda>(n, x). ss_Flags x) (rw_Signals (buildRiskEvaluation
     (no_result\<lparr>rr_Scores := [(''device'', 1 / 2)], rr_Flags := [''flagged_ip'', ''unknown_device'', ''odd'']\<rparr>))))) =
   {#''flagged_ip'', ''unknown_device'', ''odd''#}"
  using risk_view_keeps_everything [of "no_result\<lparr>rr_Scores := [(''device'', 1 / 2)], rr_Flags := [''flagged_ip'', ''unknown_device'', ''odd'']\<rparr>"]
  by simp

end
