(* ===== verification/Deployment.thy ===== *)
theory Deployment
  imports AuthrProps RiskProps TxnProps
begin

text \<open>
  The services composed: the HTTP clients of transaction-service over a network that delivers their
  requests to the models of risk-service and authenticator-service, at the addresses of
  cmd/main.go's defaults.  authentication-service and the JSON text of the replies are parameters.
  The theorems show that the request bodies the clients send are refused by the callees' strict
  decoding, so that no advice and no step-up can succeed in the composed system.
\<close>

section \<open>The network\<close>

record deployment =
  dp_risk :: risk_store
  dp_authr :: authr_svc

text \<open>
  \<open>nt_size\<close> is the length of a marshalled body; \<open>nt_risk_reply\<close> and \<open>nt_authr_reply\<close> are the text and
  the decoded body of a reply; \<open>nt_sessions\<close> is authentication-service.
\<close>

record network_params =
  nt_secret :: string
  nt_risk_secret :: string
  nt_authr_secret :: string
  nt_risk_env :: risk_env
  nt_authr_env :: authr_env
  nt_authr_lib :: authr_lib
  nt_size :: "json \<Rightarrow> int"
  nt_risk_reply :: "risk_reply \<Rightarrow> string \<times> body"
  nt_authr_reply :: "authr_reply \<Rightarrow> string \<times> body"
  nt_sessions :: "http_request \<Rightarrow> string + http_response"
  nt_json_text :: "json_err \<Rightarrow> string"
  nt_float_text :: "rat \<Rightarrow> string"

definition RiskURL :: string where "RiskURL = ''http://localhost:8081''"
definition AuthenticationURL :: string where "AuthenticationURL = ''http://localhost:8082''"
definition AuthenticatorURL :: string where "AuthenticatorURL = ''http://localhost:8083''"

lemmas url_defs = RiskURL_def AuthenticationURL_def AuthenticatorURL_def

definition sent_body :: "network_params \<Rightarrow> http_request \<Rightarrow> body" where
  "sent_body n q = (case hq_Body q of None \<Rightarrow> NoBody | Some j \<Rightarrow> Body j (nt_size n j))"

text \<open>The routes of the callees that the clients use; a challenge id is one path segment.\<close>

definition risk_route_of :: "network_params \<Rightarrow> http_request \<Rightarrow> risk_route option" where
  "risk_route_of n q =
     (if hq_Method q = ''POST'' \<and> hq_URL q = RiskURL @ ''/internal/v1/evaluations''
      then Some (QCreateEvaluation (sent_body n q)) else None)"

definition authr_route_of :: "network_params \<Rightarrow> http_request \<Rightarrow> authr_route option" where
  "authr_route_of n q =
     (let path = drop (length AuthenticatorURL) (hq_URL q); base = ''/internal/v1/challenges''
      in if hq_Method q \<noteq> ''POST'' then None
         else if path = base then Some (RCreate (sent_body n q))
         else if starts_with path (base @ ''/'') \<and> ends_with path ''/verify'' then
           (let cid = take (length path - length base - 8) (drop (length base + 1) path)
            in if cid = [] \<or> CHR ''/'' \<in> set cid then None else Some (RVerify cid (sent_body n q)))
         else None)"

definition http_reply :: "nat \<Rightarrow> string \<times> body \<Rightarrow> string + http_response" where
  "http_reply st tb = Inr \<lparr>hr_Status = st, hr_Text = fst tb, hr_Body = snd tb\<rparr>"

definition unrouted :: "string + http_response" where
  "unrouted = http_reply 404 (''404 page not found'', BadBody)"

definition network :: "network_params \<Rightarrow> http_request \<Rightarrow> deployment \<Rightarrow> (string + http_response) \<times> deployment" where
  "network n q w =
     (if starts_with (hq_URL q) RiskURL then
        (case risk_route_of n q of
           None \<Rightarrow> (unrouted, w)
         | Some rt \<Rightarrow>
             let (rep, s) = RiskRouter [] (nt_risk_secret n) None (\<lambda>evs. evs) (nt_risk_env n) (RiskInternalV1 rt)
                              (hq_Gate q) (dp_risk w)
             in (http_reply (status rep) (nt_risk_reply n rep), w\<lparr>dp_risk := s\<rparr>))
      else if starts_with (hq_URL q) AuthenticatorURL then
        (case authr_route_of n q of
           None \<Rightarrow> (unrouted, w)
         | Some rt \<Rightarrow>
             let (rep, v) = Router [] (nt_authr_secret n) (nt_authr_lib n) (nt_authr_env n) True (Some rt)
                              (hq_Gate q) (dp_authr w)
             in (http_reply (status rep) (nt_authr_reply n rep), w\<lparr>dp_authr := v\<rparr>))
      else (nt_sessions n q, w))"

definition deployed :: "network_params \<Rightarrow> deployment txn_clients" where
  "deployed n = HTTPClients
     \<lparr>ht_send = network n, ht_secret = nt_secret n, ht_json_text = nt_json_text n, ht_float_text = nt_float_text n,
      ht_RiskURL = RiskURL, ht_AuthenticationURL = AuthenticationURL, ht_AuthenticatorURL = AuthenticatorURL\<rparr>"

section \<open>Strict decoding refuses what the clients send\<close>

lemma tenant_id_unknown:
  "find_field EvaluateRequest_fields ''tenant_id'' = None" "find_field ChallengeRequest_fields ''tenant_id'' = None"
  "find_field VerifyRequest_fields ''method'' = None"
  by code_simp+

lemma strict_refusals:
  "\<exists>err. ReadJSON EvaluateRequest_fields zero (Body (RiskEvaluateRequest_json ft q) off) = Inl err"
  "\<exists>err. ReadJSON ChallengeRequest_fields zero' (Body (ChallengeCreateRequest_json ft cq) off) = Inl err"
  "\<exists>err. ReadJSON VerifyRequest_fields zero'' (Body (VerifyChallenge_json m resp) off) = Inl err"
  unfolding RiskEvaluateRequest_json_def ChallengeCreateRequest_json_def VerifyChallenge_json_def
  using ReadJSON_unknown [OF _ tenant_id_unknown(1), where ?j = "JStr (rq_TenantID q)"]
    ReadJSON_unknown [OF _ tenant_id_unknown(2), where ?j = "JStr (cq_TenantID cq)"]
    ReadJSON_unknown [OF _ tenant_id_unknown(3), where ?j = "JStr m"]
  by (simp_all add: put_str_def)

definition refused :: "nat \<Rightarrow> bool" where
  "refused st \<longleftrightarrow> st = 400 \<or> st = 401"

lemma refused_redirect: "refused st \<Longrightarrow> 300 \<le> st"
  by (auto simp: refused_def)

lemma InternalAuth_outcome:
  "InternalAuth secret serve r s = serve r s \<or>
   (refused (status (fst (InternalAuth secret serve r s))) \<and> snd (InternalAuth secret serve r s) = s)"
  by (simp add: InternalAuth_def refused_def status_defs)

lemma risk_refuses:
  "refused (status (fst (RiskRouter v1 secret vf ord e (RiskInternalV1 (QCreateEvaluation
      (Body (RiskEvaluateRequest_json ft q) off))) r s))) \<and>
   snd (RiskRouter v1 secret vf ord e (RiskInternalV1 (QCreateEvaluation (Body (RiskEvaluateRequest_json ft q) off))) r s) = s"
proof -
  obtain err where "ReadJSON EvaluateRequest_fields no_evaluate_request (Body (RiskEvaluateRequest_json ft q) off) = Inl err"
    using strict_refusals(1) by blast
  then have "CreateEvaluation e (Some t) (Body (RiskEvaluateRequest_json ft q) off) s = (json_error err, s)" for t
    by (simp add: CreateEvaluation_def)
  then show ?thesis
    using InternalAuth_outcome [of secret "TenantMiddleware (risk_v1 e (QCreateEvaluation (Body (RiskEvaluateRequest_json ft q) off)))" r s]
    by (auto simp: RiskRouter_def TenantMiddleware_def refused_def json_error_def bad_request_def status_defs
        split: option.splits)
qed

lemma authr_refuses:
  assumes "rt = RVerify i (Body (VerifyChallenge_json m resp) off) \<and> i \<noteq> [] \<or> rt = RCreate (Body (ChallengeCreateRequest_json ft cq) off)"
  shows "refused (status (fst (Router v1 secret lib e True (Some rt) r v))) \<and> snd (Router v1 secret lib e True (Some rt) r v) = v"
proof -
  have "\<exists>err. tenanted lib e rt (Some t) v = (invalid_request ''malformed json body'', v)" for t
    using assms strict_refusals(2) [of "\<lparr>chq_UserID = [], chq_Methods = []\<rparr>" ft cq off]
      strict_refusals(3) [of "\<lparr>vq_Response = []\<rparr>" m resp off]
    by (auto simp: Create_def Verify_def verify_admit_def)
  then show ?thesis
    using InternalAuth_outcome [of secret "TenantMiddleware (tenanted lib e rt)" r v]
    by (auto simp: Router_def TenantMiddleware_def refused_def invalid_request_def status_defs Let_def split: option.splits)
qed

text \<open>So every call to the two services is an error of the client, and leaves the callee as it was.\<close>

lemma do_request_network:
  assumes "network n \<lparr>hq_Method = method, hq_URL = url, hq_Gate = SetInternalAuth (ht_secret c)
      \<lparr>peer_certificates = 0, internal_auth_header = [], tenant_header = tn\<rparr>, hq_Body = b\<rparr> w = (http_reply st tb, w)"
    and "ht_send c = network n" "300 \<le> st"
  shows "do_request c service method url tn b fs zero w =
    (Inl (Downstream \<lparr>de_Service = service, de_Status = st, de_Body = fst tb, de_Err = None\<rparr>), w)"
  using assms by (simp add: do_request_def Let_def http_reply_def)

lemma network_refuses_evaluation:
  assumes "hq_Method q = ''POST''" "hq_URL q = RiskURL @ ''/internal/v1/evaluations''"
    "hq_Body q = Some (RiskEvaluateRequest_json ft rq)"
  obtains st tb where "network n q w = (http_reply st tb, w)" "300 \<le> st"
proof -
  let ?out = "RiskRouter [] (nt_risk_secret n) None (\<lambda>evs. evs) (nt_risk_env n) (RiskInternalV1 (QCreateEvaluation
      (Body (RiskEvaluateRequest_json ft rq) (nt_size n (RiskEvaluateRequest_json ft rq))))) (hq_Gate q) (dp_risk w)"
  have out: "refused (status (fst ?out))" "snd ?out = dp_risk w" using risk_refuses by blast+
  have "network n q w = (http_reply (status (fst ?out)) (nt_risk_reply n (fst ?out)), w\<lparr>dp_risk := snd ?out\<rparr>)"
    using assms by (simp add: network_def risk_route_of_def sent_body_def starts_with_def split: prod.splits)
  then show ?thesis
    using that [of "status (fst ?out)" "nt_risk_reply n (fst ?out)"] refused_redirect [OF out(1)] out(2) by simp
qed

lemma deployed_Evaluate:
  obtains de where "cl_Evaluate (deployed n) tn rq w = (Inl (Downstream de), w)"
proof -
  let ?q = "\<lparr>hq_Method = ''POST'', hq_URL = RiskURL @ ''/internal/v1/evaluations'',
      hq_Gate = SetInternalAuth (nt_secret n) \<lparr>peer_certificates = 0, internal_auth_header = [], tenant_header = tn\<rparr>,
      hq_Body = Some (RiskEvaluateRequest_json (nt_float_text n) rq)\<rparr>"
  obtain st tb where "network n ?q w = (http_reply st tb, w)" "300 \<le> st"
    by (rule network_refuses_evaluation [of ?q "nt_float_text n" rq n w]) simp_all
  then show ?thesis
    using that by (simp add: deployed_def HTTPClients_def Evaluate_def do_request_def Let_def http_reply_def)
qed

text \<open>A challenge id that does not fit the callee's route is refused by its mux.\<close>

lemma authr_route_verify:
  assumes "hq_Method q = ''POST''" "hq_URL q = AuthenticatorURL @ ''/internal/v1/challenges/'' @ cid @ ''/verify''"
  shows "authr_route_of n q = (if cid = [] \<or> CHR ''/'' \<in> set cid then None else Some (RVerify cid (sent_body n q)))"
proof -
  let ?base = "''/internal/v1/challenges''" and ?tail = "''/verify''"
  have path: "drop (length AuthenticatorURL) (hq_URL q) = ?base @ ''/'' @ cid @ ?tail" by (simp add: assms)
  have len: "length (?base @ ''/'' @ cid @ ?tail) - length ?base - 8 = length cid" by simp
  have "drop (length ?base + 1) (?base @ ''/'' @ cid @ ?tail) = cid @ ?tail" by simp
  then have cid: "take (length (?base @ ''/'' @ cid @ ?tail) - length ?base - 8)
      (drop (length ?base + 1) (?base @ ''/'' @ cid @ ?tail)) = cid"
    unfolding len by simp
  have "starts_with (?base @ ''/'' @ cid @ ?tail) (?base @ ''/'')" by (simp add: starts_with_def)
  moreover have "ends_with (?base @ ''/'' @ cid @ ?tail) ?tail" by (simp add: ends_with_def starts_with_def)
  moreover have "?base @ ''/'' @ cid @ ?tail \<noteq> ?base" by simp
  ultimately show ?thesis unfolding authr_route_of_def Let_def path cid using assms(1) by simp
qed

lemma deployed_VerifyChallenge:
  obtains de where "cl_VerifyChallenge (deployed n) tn cid m resp w = (Inl (Downstream de), w)"
proof -
  let ?q = "\<lparr>hq_Method = ''POST'', hq_URL = AuthenticatorURL @ ''/internal/v1/challenges/'' @ cid @ ''/verify'',
      hq_Gate = SetInternalAuth (nt_secret n) \<lparr>peer_certificates = 0, internal_auth_header = [], tenant_header = tn\<rparr>,
      hq_Body = Some (VerifyChallenge_json m resp)\<rparr>"
  have host: "\<not> starts_with (hq_URL ?q) RiskURL" "starts_with (hq_URL ?q) AuthenticatorURL"
    by (simp_all add: starts_with_def url_defs)
  have body: "sent_body n ?q = Body (VerifyChallenge_json m resp) (nt_size n (VerifyChallenge_json m resp))"
    by (simp add: sent_body_def)
  obtain st tb where "network n ?q w = (http_reply st tb, w)" "300 \<le> st"
  proof (cases "cid = [] \<or> CHR ''/'' \<in> set cid")
    case True
    then show ?thesis
      using that [of 404 "(''404 page not found'', BadBody)"] host authr_route_verify [of ?q cid n]
      by (simp add: network_def unrouted_def)
  next
    case False
    let ?out = "Router [] (nt_authr_secret n) (nt_authr_lib n) (nt_authr_env n) True (Some (RVerify cid (sent_body n ?q)))
        (hq_Gate ?q) (dp_authr w)"
    have "refused (status (fst ?out)) \<and> snd ?out = dp_authr w"
      unfolding body using False
      by (intro authr_refuses [where i = cid and m = m and resp = resp and ft = undefined and cq = undefined]) simp
    moreover have "network n ?q w = (http_reply (status (fst ?out)) (nt_authr_reply n (fst ?out)), w\<lparr>dp_authr := snd ?out\<rparr>)"
      using host authr_route_verify [of ?q cid n] False by (simp add: network_def split: prod.splits)
    ultimately show ?thesis
      using that [of "status (fst ?out)" "nt_authr_reply n (fst ?out)"] refused_redirect by simp
  qed
  then show ?thesis
    using that by (simp add: deployed_def HTTPClients_def VerifyChallenge_def do_request_def Let_def http_reply_def)
qed

section \<open>What the composed system does\<close>

text \<open>
  C28. In the composed system no advice can succeed: the client's body carries \<open>tenant_id\<close>, which
  risk-service refuses as an unknown field, so every valid POST /v1/advice ends as 502 with its
  transaction recorded as an error, and risk-service stores nothing.
\<close>

theorem composed_advice_always_fails:
  assumes "ReadJSON AdviceRequest_fields no_advice b = Inr req" "validateAdvice req = []"
    and "\<not> tv_fails e OpCreate" "\<not> tv_fails e OpUpdate"
  shows "\<exists>x. GetTxn t (newTransactionID e) (ts_store (snd (Advice (deployed n) e (Some t) b s))) = Some x \<and>
    t_Decision x = DecisionError \<and> ts_world (snd (Advice (deployed n) e (Some t) b s)) = ts_world s \<and>
    status (fst (Advice (deployed n) e (Some t) b s)) = 502"
proof -
  obtain de where "cl_Evaluate (deployed n) t (advice_query t req) (ts_world s) = (Inl (Downstream de), ts_world s)"
    by (rule deployed_Evaluate)
  then have "advice_spec (deployed n) t (newTransactionID e) req (ts_world s) = (DecisionError, ts_world s)"
    by (simp add: advice_spec_def)
  then show ?thesis using advice_implements_spec [OF assms, of t "deployed n" s] by auto
qed

definition demo_net :: network_params where
  "demo_net = \<lparr>nt_secret = ''k'', nt_risk_secret = ''k'', nt_authr_secret = ''k'', nt_risk_env = demo_risk_env,
     nt_authr_env = demo_env 0 ''5'', nt_authr_lib = demo_lib, nt_size = \<lambda>j. 100, nt_risk_reply = \<lambda>r. ([], BadBody),
     nt_authr_reply = \<lambda>r. ([], BadBody), nt_sessions = \<lambda>q. Inl ''refused'', nt_json_text = \<lambda>e. ''bad json'',
     nt_float_text = \<lambda>r. ''0''\<rparr>"

definition demo_world :: deployment where
  "demo_world = \<lparr>dp_risk = demo_risk_store, dp_authr = demo_svc\<rparr>"

theorem composed_advice_always_fails_witness:
  "\<exists>x. GetTxn ''t'' ''txn_1'' (ts_store (snd (Advice (deployed demo_net) demo_txn_env (Some ''t'') demo_advice
      \<lparr>ts_store = NewTxnStorage, ts_world = demo_world\<rparr>))) = Some x \<and> t_Decision x = DecisionError"
proof -
  obtain req where req: "ReadJSON AdviceRequest_fields no_advice demo_advice = Inr req" "validateAdvice req = []"
  proof -
    have "case ReadJSON AdviceRequest_fields no_advice demo_advice of Inl _ \<Rightarrow> False | Inr req \<Rightarrow> validateAdvice req = []"
      by code_simp
    then show ?thesis using that by (auto split: sum.splits)
  qed
  have "newTransactionID demo_txn_env = ''txn_1''" by (simp add: newTransactionID_def demo_txn_env_def)
  then show ?thesis
    using composed_advice_always_fails [OF req, of demo_txn_env "''t''" demo_net "\<lparr>ts_store = NewTxnStorage, ts_world = demo_world\<rparr>"]
    by (auto simp: demo_txn_env_def)
qed

text \<open>
  In the composed system no step-up can succeed either: the client's body carries \<open>method\<close>, which
  authenticator-service refuses, so whatever is presented for a waiting transaction, the right code
  too, the transaction is left as it was or recorded as an error, and no challenge is touched.
\<close>

theorem composed_step_up_never_succeeds:
  assumes "txn_wf (ts_store s)" "txn_fresh e (ts_store s)"
    and "GetTxn t i (ts_store s) = Some x" "t_Decision x = DecisionStepUpRequired"
    and "route = Some (TStepUpVerify b)"
  shows "\<exists>y. GetTxn t i (ts_store (snd (snd (TxnRouter (deployed n) e now route r (lp, s))))) = Some y \<and>
    (y = x \<or> t_Decision y = DecisionError) \<and> ts_world (snd (snd (TxnRouter (deployed n) e now route r (lp, s)))) = ts_world s"
proof (cases rule: TxnRouter_cases [of "deployed n" e now route r lp s])
  case stopped
  then show ?thesis using assms(3) by auto
next
  case (served rt t')
  have verify: "\<exists>de. cl_VerifyChallenge (deployed n) tn c m resp w = (Inl (Downstream de), w)" for tn c m resp w
    using deployed_VerifyChallenge by metis
  have rt: "rt = TStepUpVerify b" using served(1) assms(5) by simp
  have world: "ts_world (snd (StepUpVerify (deployed n) e (Some t') b s)) = ts_world s"
  proof -
    have "ts_world (snd (step_up_check (deployed n) e t' req z s)) = ts_world s" for req z
      using verify [of t' "su_ChallengeID req" "su_Method req" "su_Response req" "ts_world s"]
      by (auto simp: step_up_check_def Let_def)
    then show ?thesis by (simp add: StepUpVerify_def split: sum.split got.split)
  qed
  have "\<exists>y. GetTxn t i (ts_store (snd (StepUpVerify (deployed n) e (Some t') b s))) = Some y \<and> (y = x \<or> t_Decision y = DecisionError)"
    using assms(1)
  proof (cases rule: StepUpVerify_row [of s "deployed n" e "Some t'" b])
    case same
    then show ?thesis using assms(3) by simp
  next
    case (row tn req z y)
    have "t_Decision y = DecisionError"
      using row(6) verify [of tn "su_ChallengeID req" "su_Method req" "su_Response req" "ts_world s"]
      by (cases rule: step_up_effect.cases) auto
    moreover have "t_ID y = su_TransactionID req" "t_TenantID y = tn"
      using txn_step_frame [OF step_up_effect_step [OF row(6,4)]] GetTxn_id [OF assms(1) row(3)] by auto
    moreover have "i = su_TransactionID req \<Longrightarrow> tn = t" using GetTxn_one_tenant [OF row(3), of t] assms(3) by auto
    ultimately show ?thesis using row(7) assms(3) by (simp add: txns.get_put)
  qed
  then show ?thesis using served(3) rt world by simp
qed

theorem composed_step_up_never_succeeds_witness:
  "\<exists>y. GetTxn ''t'' ''txn_1'' (ts_store (snd (snd (TxnRouter (deployed demo_net) demo_env2 0 (Some (TStepUpVerify demo_verify))
      (demo_txn_gate ''t'') (None, \<lparr>ts_store = ts_store demo_waiting, ts_world = demo_world\<rparr>))))) = Some y \<and>
    t_Decision y \<noteq> DecisionStepUpSatisfied"
proof -
  obtain x where x: "GetTxn ''t'' ''txn_1'' (ts_store demo_waiting) = Some x" "t_Decision x = DecisionStepUpRequired"
    using demo_waiting_row by auto
  then show ?thesis
    using composed_step_up_never_succeeds [of "\<lparr>ts_store = ts_store demo_waiting, ts_world = demo_world\<rparr>" demo_env2 "''t''" "''txn_1''" x
        "Some (TStepUpVerify demo_verify)" demo_verify demo_net 0 "demo_txn_gate ''t''" None] demo_waiting_inv demo_fresh2
    by (auto simp: txn_inv_def)
qed

end
