(* ===== verification/XService.thy ===== *)
theory XService
  imports XTime
begin

text \<open>
  What the handlers of persona-service, pool-service, grant-service and broker-service share: what a
  request reads from outside, the replies they have in common and the query of a listing.
\<close>

text \<open>
  The clock at its successive readings, the successive uuids, and which calls to the storage fail for
  reasons of their own.
\<close>

record 'op svc_env =
  now_at :: "nat \<Rightarrow> time"
  new_id :: "nat \<Rightarrow> string"
  op_fails :: "'op \<Rightarrow> bool"

text \<open>The rows of a table after a write.\<close>

lemma tab_rows_put_subset: "set (tab_rows (tab_put k r m)) \<subseteq> insert r (set (tab_rows m))"
proof -
  have "set (AList.update k r m) \<subseteq> insert (k, r) (set m)" by (induction m) auto
  then show ?thesis by (force simp: tab_put_def tab_rows_def)
qed

lemma tab_rows_del_subset: "set (tab_rows (tab_del k m)) \<subseteq> set (tab_rows m)"
  by (auto simp: tab_del_def tab_rows_def AList.delete_eq)

definition no_tenant :: "'p reply" where
  "no_tenant = bad_request ''missing_tenant'' ''X-Tenant-Id required''"

definition no_such :: "string \<Rightarrow> 'p reply" where
  "no_such m = WriteError StatusNotFound ''not_found'' (Lit m)"

definition internal :: "string \<Rightarrow> 'p reply" where
  "internal m = WriteError StatusInternalServerError ''internal_error'' (Lit m)"

lemmas reply_defs = no_tenant_def no_such_def internal_def bad_request_def json_error_def

text \<open>
  The v1 routes behind \<open>tenantx.Middleware\<close>, and the same tree under /internal/v1 behind
  \<open>httpx.InternalAuth\<close> as well.
\<close>

definition gated :: "string \<Rightarrow> bool \<Rightarrow> (string option \<Rightarrow> 's \<Rightarrow> 'p reply \<times> 's) \<Rightarrow> gate_request \<Rightarrow> 's \<Rightarrow> 'p reply \<times> 's" where
  "gated secret is_internal serve r s =
     (if is_internal then InternalAuth secret (TenantMiddleware serve) r s else TenantMiddleware serve r s)"

lemma gated_or_refused:
  "gated secret is_internal serve r s = TenantMiddleware serve r s \<or>
   (\<exists>st code m. gated secret is_internal serve r s = (WriteError st code m, s))"
  by (simp add: gated_def InternalAuth_def)

lemma gated_cases:
  obtains (stopped) st code m where "gated secret is_internal serve r s = (WriteError st code m, s)"
  | (served) t where "From r = Some t" "gated secret is_internal serve r s = serve (Some t) s"
proof (cases "From r")
  case None
  then have "TenantMiddleware serve r s = (WriteError StatusBadRequest ''missing_tenant'' (Lit ''missing X-Tenant-Id header''), s)"
    by (simp add: TenantMiddleware_def)
  then show ?thesis using stopped gated_or_refused [of secret is_internal serve r s] by metis
next
  case (Some t)
  then have "TenantMiddleware serve r s = serve (Some t) s" by (simp add: TenantMiddleware_def)
  then show ?thesis using stopped served [OF Some] gated_or_refused [of secret is_internal serve r s] by metis
qed

text \<open>The \<open>limit\<close> and \<open>cursor\<close> parameters: 100 rows when not given, at most 500.\<close>

definition list_query :: "string \<Rightarrow> cursor_param \<Rightarrow> 'p reply + int \<times> time" where
  "list_query q_limit q_cursor =
     (case page_limit 100 500 q_limit of
        None \<Rightarrow> Inl (bad_request ''invalid_limit'' ''limit must be a positive integer'')
      | Some limit \<Rightarrow>
          (case cursor_time q_cursor of
             None \<Rightarrow> Inl (bad_request ''invalid_cursor'' ''cursor must be an RFC3339 timestamp'')
           | Some cursor \<Rightarrow> Inr (limit, cursor)))"

lemma list_query_pos: "list_query l c = Inr (limit, cursor) \<Longrightarrow> 0 < limit"
  by (auto simp: list_query_def dest!: page_limit_pos split: option.splits)

text \<open>\<open>strings.Fields\<close>: the maximal stretches without white space.\<close>

definition at_space :: "string \<Rightarrow> bool" where
  "at_space s \<longleftrightarrow> list_ex (starts_with s) white_runes"

fun take_word :: "string \<Rightarrow> string \<times> string" where
  "take_word [] = ([], [])"
| "take_word (c # s) =
     (if at_space (c # s) then ([], c # s) else let (w, rest) = take_word s in (c # w, rest))"

lemma take_word_rest: "length (snd (take_word s)) \<le> length s"
  by (induction s) (auto split: prod.splits)

lemma drop_runes_length: "length (drop_runes ws s) \<le> length s"
proof (induction ws s rule: drop_runes.induct)
  case (1 ws s)
  then show ?case by (subst drop_runes.simps) (auto split: option.splits intro: le_trans)
qed

lemma drop_runes_stops: "find (\<lambda>w. w \<noteq> [] \<and> starts_with (drop_runes ws s) w) ws = None"
proof (induction ws s rule: drop_runes.induct)
  case (1 ws s)
  then show ?case by (subst (1) drop_runes.simps) (auto split: option.splits)
qed

lemma not_at_space: "\<not> at_space (drop_runes white_runes s)"
  using drop_runes_stops [of white_runes s] white_runes_nonempty
  by (auto simp: at_space_def list_ex_iff find_None_iff)

function Fields :: "string \<Rightarrow> string list" where
  "Fields s =
     (let s = drop_runes white_runes s
      in if s = [] then [] else let (w, rest) = take_word s in w # Fields rest)"
  by pat_completeness auto
termination
proof (relation "measure length")
  fix s s' w rest and p :: "string \<times> string"
  assume s': "s' = drop_runes white_runes s" "s' \<noteq> []" and p: "p = take_word s'" "(w, rest) = p"
  obtain c t where ct: "s' = c # t" using s'(2) by (cases s') auto
  then have "rest = snd (take_word t)" using p s'(1) not_at_space [of s] by (auto split: prod.splits)
  then have "length rest < length s'" using take_word_rest [of t] ct by simp
  then show "(rest, s) \<in> measure length" using drop_runes_length [of white_runes s] s'(1) by simp
qed simp

declare Fields.simps [simp del]

end
