(* ===== verification/Jwt.thy ===== *)
theory Jwt
  imports XTime XCodec
begin

text \<open>
  pkg/jwtx: RS256 JSON Web Tokens as the services sign and verify them, and the key set document.
  SHA-256, RSA and the text form of JSON values are parameters (\<open>jwt_lib\<close>), base64url is XCodec.  The
  theorems are the two round trips: a token verifies to the claims it was signed with, and the
  published key set yields the signer's key.
\<close>

section \<open>Parameters and keys\<close>

record rsa_public =
  pk_N :: nat
  pk_E :: int

record rsa_private =
  sk_Public :: rsa_public
  sk_Secret :: nat

text \<open>
  \<open>jl_marshal\<close> and \<open>jl_unmarshal\<close> are \<open>encoding/json\<close> between values and text, \<open>jl_sign\<close> and
  \<open>jl_verify\<close> are PKCS #1 v1.5 over a digest; \<open>None\<close> is a signing error.  \<open>jl_float\<close> is the text of a
  number.
\<close>

record jwt_lib =
  jl_marshal :: "json \<Rightarrow> string"
  jl_unmarshal :: "string \<Rightarrow> json option"
  jl_sha256 :: "string \<Rightarrow> string"
  jl_sign :: "rsa_private \<Rightarrow> string \<Rightarrow> string option"
  jl_verify :: "rsa_public \<Rightarrow> string \<Rightarrow> string \<Rightarrow> bool"
  jl_float :: "rat \<Rightarrow> string"

definition wrap64 :: "int \<Rightarrow> int" where
  "wrap64 n = (n + 2 ^ 63) mod 2 ^ 64 - 2 ^ 63"

lemma wrap64_id: "- (2 ^ 63) \<le> n \<Longrightarrow> n < 2 ^ 63 \<Longrightarrow> wrap64 n = n"
  by (simp add: wrap64_def)

text \<open>\<open>time.Unix(sec, 0)\<close>, whose seconds since the zero instant are a 64-bit integer.\<close>

definition unix_time :: "int \<Rightarrow> time" where
  "unix_time sec = wrap64 (sec + 62135596800) * Second"

section \<open>Key ids and the key set\<close>

text \<open>\<open>big.Int.Bytes\<close>: big-endian, without leading zero bytes.\<close>

fun be_bytes :: "nat \<Rightarrow> string" where
  "be_bytes n = (if n = 0 then [] else be_bytes (n div 256) @ [byte_of (n mod 256)])"

declare be_bytes.simps [simp del]

definition be_value :: "string \<Rightarrow> nat" where
  "be_value bs = foldl (\<lambda>acc c. acc * 256 + byte_val c) 0 bs"

text \<open>The eight bytes of a \<open>uint64\<close> without the leading zeros, but at least one byte.\<close>

definition bigEndianExponent :: "int \<Rightarrow> string" where
  "bigEndianExponent e = (let bs = be_bytes (nat (e mod 2 ^ 64)) in if bs = [] then [byte_of 0] else bs)"

definition KeyID :: "jwt_lib \<Rightarrow> rsa_public \<Rightarrow> string" where
  "KeyID lib pub =
     b64_encode (jl_sha256 lib (''{\"e\":\"'' @ b64_encode (bigEndianExponent (pk_E pub)) @
       ''\",\"kty\":\"RSA\",\"n\":\"'' @ b64_encode (be_bytes (pk_N pub)) @ ''\"}''))"

record Signer =
  sg_key :: rsa_private
  sg_kid :: string

definition NewSigner :: "jwt_lib \<Rightarrow> rsa_private \<Rightarrow> Signer" where
  "NewSigner lib key = \<lparr>sg_key = key, sg_kid = KeyID lib (sk_Public key)\<rparr>"

record JWK =
  jk_Kty :: string
  jk_Use :: string
  jk_Alg :: string
  jk_Kid :: string
  jk_N :: string
  jk_E :: string

definition newJWK :: "rsa_public \<Rightarrow> string \<Rightarrow> JWK" where
  "newJWK pub kid =
     \<lparr>jk_Kty = ''RSA'', jk_Use = ''sig'', jk_Alg = ''RS256'', jk_Kid = kid,
      jk_N = b64_encode (be_bytes (pk_N pub)), jk_E = b64_encode (bigEndianExponent (pk_E pub))\<rparr>"

definition JWKS :: "Signer \<Rightarrow> JWK list" where
  "JWKS s = [newJWK (sk_Public (sg_key s)) (sg_kid s)]"

definition publicKey :: "JWK \<Rightarrow> rsa_public option" where
  "publicKey k =
     (case b64_decode (jk_N k) of
        None \<Rightarrow> None
      | Some nBytes \<Rightarrow>
          (case b64_decode (jk_E k) of
             None \<Rightarrow> None
           | Some eBytes \<Rightarrow>
               let e = foldl (\<lambda>e b. wrap64 (e * 256 + int (byte_val b))) 0 eBytes
               in if e \<le> 1 then None else Some \<lparr>pk_N = be_value nBytes, pk_E = e\<rparr>))"

record Verifier =
  vf_keys :: "rsa_public table"
  vf_iss :: string

definition NewVerifier :: "jwt_lib \<Rightarrow> string \<Rightarrow> rsa_public list \<Rightarrow> Verifier" where
  "NewVerifier lib expectedIssuer pubs =
     \<lparr>vf_keys = fold (\<lambda>p keys. tab_put (KeyID lib p) p keys) pubs [], vf_iss = expectedIssuer\<rparr>"

datatype jwks_err = BadKey string | NoUsableKeys

fun jwks_keys :: "JWK list \<Rightarrow> rsa_public table \<Rightarrow> jwks_err + rsa_public table" where
  "jwks_keys [] keys = Inr keys"
| "jwks_keys (k # ks) keys =
     (if jk_Kty k \<noteq> ''RSA'' then jwks_keys ks keys
      else case publicKey k of None \<Rightarrow> Inl (BadKey (jk_Kid k)) | Some pub \<Rightarrow> jwks_keys ks (tab_put (jk_Kid k) pub keys))"

definition NewVerifierFromJWKS :: "string \<Rightarrow> JWK list \<Rightarrow> jwks_err + Verifier" where
  "NewVerifierFromJWKS expectedIssuer ks =
     (case jwks_keys ks [] of
        Inl err \<Rightarrow> Inl err
      | Inr keys \<Rightarrow> if keys = [] then Inl NoUsableKeys else Inr \<lparr>vf_keys = keys, vf_iss = expectedIssuer\<rparr>)"

section \<open>Claims\<close>

record Claims =
  jc_Sub :: string
  jc_Iss :: string
  jc_Aud :: string
  jc_Exp :: int
  jc_Iat :: int
  jc_JTI :: string
  jc_TenantID :: string
  jc_Scope :: string
  jc_SessionID :: string
  jc_Nonce :: string
  jc_ACR :: string
  jc_AMR :: "string list"

definition no_claims :: Claims where
  "no_claims = \<lparr>jc_Sub = [], jc_Iss = [], jc_Aud = [], jc_Exp = 0, jc_Iat = 0, jc_JTI = [], jc_TenantID = [],
     jc_Scope = [], jc_SessionID = [], jc_Nonce = [], jc_ACR = [], jc_AMR = []\<rparr>"

definition Claims_fields :: "Claims field list" where
  "Claims_fields =
     [into dec_string ''sub'' jc_Sub jc_Sub_update, into dec_string ''iss'' jc_Iss jc_Iss_update,
      into dec_string ''aud'' jc_Aud jc_Aud_update, into dec_int ''exp'' jc_Exp jc_Exp_update,
      into dec_int ''iat'' jc_Iat jc_Iat_update, into dec_string ''jti'' jc_JTI jc_JTI_update,
      into dec_string ''tenant_id'' jc_TenantID jc_TenantID_update,
      into dec_string ''scope'' jc_Scope jc_Scope_update,
      into dec_string ''session_id'' jc_SessionID jc_SessionID_update,
      into dec_string ''nonce'' jc_Nonce jc_Nonce_update, into dec_string ''acr'' jc_ACR jc_ACR_update,
      into dec_strings ''amr'' jc_AMR jc_AMR_update]"

definition int_json :: "jwt_lib \<Rightarrow> int \<Rightarrow> json" where
  "int_json lib n = JNum (of_int n) (jl_float lib (of_int n))"

definition omit_strs :: "string \<Rightarrow> string list \<Rightarrow> (string \<times> json) list" where
  "omit_strs k ss = (if ss = [] then [] else [(k, JArr (map JStr ss))])"

definition Claims_members :: "jwt_lib \<Rightarrow> Claims \<Rightarrow> (string \<times> json) list" where
  "Claims_members lib c =
     put_str ''sub'' (jc_Sub c) @ put_str ''iss'' (jc_Iss c) @ omit_str ''aud'' (jc_Aud c) @
     [(''exp'', int_json lib (jc_Exp c)), (''iat'', int_json lib (jc_Iat c))] @
     omit_str ''jti'' (jc_JTI c) @ omit_str ''tenant_id'' (jc_TenantID c) @ omit_str ''scope'' (jc_Scope c) @
     omit_str ''session_id'' (jc_SessionID c) @ omit_str ''nonce'' (jc_Nonce c) @ omit_str ''acr'' (jc_ACR c) @
     omit_strs ''amr'' (jc_AMR c)"

text \<open>
  The payload: the claims in the order of the struct, or, with extra claims, the merged map in the order
  of its keys; \<open>None\<close> when an extra claim has the name of a standard one.  The map is built through
  \<open>float64\<close> values, exact for instants below \<open>2 ^ 53\<close> seconds.
\<close>

definition mergeClaims :: "jwt_lib \<Rightarrow> Claims \<Rightarrow> (string \<times> json) list \<Rightarrow> json option" where
  "mergeClaims lib c extra =
     (if extra = [] then Some (JObj (Claims_members lib c))
      else if list_ex (\<lambda>m. fst m \<in> set (map fst (Claims_members lib c))) extra then None
      else Some (JObj (sort_key fst (Claims_members lib c @ extra))))"

section \<open>Signing\<close>

definition header_json :: "string \<Rightarrow> string \<Rightarrow> json" where
  "header_json typ kid = JObj [(''alg'', JStr ''RS256''), (''typ'', JStr typ), (''kid'', JStr kid)]"

definition signing_input :: "jwt_lib \<Rightarrow> json \<Rightarrow> json \<Rightarrow> string" where
  "signing_input lib h payload = b64_encode (jl_marshal lib h) @ ''.'' @ b64_encode (jl_marshal lib payload)"

definition SignTyped :: "jwt_lib \<Rightarrow> Signer \<Rightarrow> Claims \<Rightarrow> (string \<times> json) list \<Rightarrow> string \<Rightarrow> string option" where
  "SignTyped lib s claims extra typ =
     (let typ = (if typ = [] then ''JWT'' else typ)
      in case mergeClaims lib claims extra of
           None \<Rightarrow> None
         | Some payload \<Rightarrow>
             let signingInput = signing_input lib (header_json typ (sg_kid s)) payload
             in (case jl_sign lib (sg_key s) (jl_sha256 lib signingInput) of
                   None \<Rightarrow> None
                 | Some sig \<Rightarrow> Some (signingInput @ ''.'' @ b64_encode sig)))"

definition Sign :: "jwt_lib \<Rightarrow> Signer \<Rightarrow> Claims \<Rightarrow> (string \<times> json) list \<Rightarrow> string option" where
  "Sign lib s claims extra = SignTyped lib s claims extra ''JWT''"

section \<open>Verification\<close>

datatype jwt_err = ErrMalformed | ErrAlgorithm | ErrUnknownKey | ErrSignature | ErrExpired | ErrNotYetValid | ErrIssuer

record jwt_header =
  jh_Alg :: string
  jh_Typ :: string
  jh_Kid :: string

definition jwt_header_fields :: "jwt_header field list" where
  "jwt_header_fields =
     [into dec_string ''alg'' jh_Alg jh_Alg_update, into dec_string ''typ'' jh_Typ jh_Typ_update,
      into dec_string ''kid'' jh_Kid jh_Kid_update]"

definition no_header :: jwt_header where
  "no_header = \<lparr>jh_Alg = [], jh_Typ = [], jh_Kid = []\<rparr>"

text \<open>\<open>strings.Split\<close> with a one-character separator.\<close>

fun Split :: "char \<Rightarrow> string \<Rightarrow> string list" where
  "Split sep [] = [[]]"
| "Split sep (c # cs) =
     (if c = sep then [] # Split sep cs
      else case Split sep cs of [] \<Rightarrow> [[c]] | p # ps \<Rightarrow> (c # p) # ps)"

text \<open>Decoding a part of the token into a struct, and into a \<open>map[string]any\<close>.\<close>

definition unmarshal_struct :: "jwt_lib \<Rightarrow> 'r field list \<Rightarrow> 'r \<Rightarrow> string \<Rightarrow> 'r option" where
  "unmarshal_struct lib fs zero s =
     (case jl_unmarshal lib s of
        None \<Rightarrow> None
      | Some j \<Rightarrow> (case dec_struct False fs j zero of Inl e \<Rightarrow> None | Inr r \<Rightarrow> Some r))"

definition unmarshal_map :: "jwt_lib \<Rightarrow> string \<Rightarrow> (string \<times> json) list option" where
  "unmarshal_map lib s =
     (case jl_unmarshal lib s of Some (JObj ms) \<Rightarrow> Some ms | Some JNull \<Rightarrow> Some [] | _ \<Rightarrow> None)"

definition Leeway :: duration where "Leeway = 30 * Second"

definition check_claims :: "Verifier \<Rightarrow> Claims \<Rightarrow> time \<Rightarrow> jwt_err option" where
  "check_claims v c now =
     (if jc_Exp c \<noteq> 0 \<and> unix_time (jc_Exp c) + Leeway < now then Some ErrExpired
      else if jc_Iat c \<noteq> 0 \<and> now + Leeway < unix_time (jc_Iat c) then Some ErrNotYetValid
      else if vf_iss v \<noteq> [] \<and> jc_Iss c \<noteq> vf_iss v then Some ErrIssuer
      else None)"

definition VerifyToken :: "jwt_lib \<Rightarrow> Verifier \<Rightarrow> string \<Rightarrow> time \<Rightarrow> jwt_err + Claims \<times> (string \<times> json) list" where
  "VerifyToken lib v token now =
     (case Split CHR ''.'' token of
        [p0, p1, p2] \<Rightarrow>
          (case Option.bind (b64_decode p0) (unmarshal_struct lib jwt_header_fields no_header) of
             None \<Rightarrow> Inl ErrMalformed
           | Some h \<Rightarrow>
               if jh_Alg h \<noteq> ''RS256'' then Inl ErrAlgorithm
               else (case tab_get (vf_keys v) (jh_Kid h) of
                  None \<Rightarrow> Inl ErrUnknownKey
                | Some pub \<Rightarrow>
                    (case b64_decode p2 of
                       None \<Rightarrow> Inl ErrMalformed
                     | Some sig \<Rightarrow>
                         if \<not> jl_verify lib pub (jl_sha256 lib (p0 @ ''.'' @ p1)) sig then Inl ErrSignature
                         else (case b64_decode p1 of
                            None \<Rightarrow> Inl ErrMalformed
                          | Some payload \<Rightarrow>
                              (case unmarshal_struct lib Claims_fields no_claims payload of
                                 None \<Rightarrow> Inl ErrMalformed
                               | Some claims \<Rightarrow>
                                   (case unmarshal_map lib payload of
                                      None \<Rightarrow> Inl ErrMalformed
                                    | Some raw \<Rightarrow>
                                        (case check_claims v claims now of
                                           Some err \<Rightarrow> Inl err
                                         | None \<Rightarrow> Inr (claims, raw))))))))
      | _ \<Rightarrow> Inl ErrMalformed)"

section \<open>The key set document\<close>

lemma be_value_snoc: "be_value (bs @ [c]) = be_value bs * 256 + byte_val c"
  by (simp add: be_value_def)

lemma byte_val_of [simp]: "n < 256 \<Longrightarrow> byte_val (byte_of n) = n"
  by (simp add: byte_val_def byte_of_def)

lemma be_value_bytes: "be_value (be_bytes n) = n"
proof (induction n rule: be_bytes.induct)
  case (1 n)
  then show ?case by (subst be_bytes.simps) (simp add: be_value_snoc, simp add: be_value_def)
qed

lemma foldl_wrap_bytes:
  "int n < 2 ^ 63 \<Longrightarrow> foldl (\<lambda>e b. wrap64 (e * 256 + int (byte_val b))) 0 (be_bytes n) = int n"
proof (induction n rule: be_bytes.induct)
  case (1 n)
  show ?case
  proof (cases "n = 0")
    case False
    have "int (n div 256) < 2 ^ 63" using 1(2) by linarith
    then have "foldl (\<lambda>e b. wrap64 (e * 256 + int (byte_val b))) 0 (be_bytes (n div 256)) = int (n div 256)"
      using 1(1) False by blast
    moreover have "int (n div 256) * 256 + int (n mod 256) = int n"
      by (metis div_mult_mod_eq of_nat_add of_nat_mult of_nat_numeral)
    ultimately show ?thesis using False 1(2) by (subst be_bytes.simps) (simp add: wrap64_id)
  qed (simp add: be_bytes.simps)
qed

lemma publicKey_newJWK:
  assumes "1 < pk_E pub" "pk_E pub < 2 ^ 63"
  shows "publicKey (newJWK pub kid) = Some pub"
proof -
  let ?n = "nat (pk_E pub)"
  have "pk_E pub mod 2 ^ 64 = pk_E pub" using assms by simp
  moreover have "be_bytes ?n \<noteq> []" using assms(1) by (subst be_bytes.simps) simp
  ultimately have "bigEndianExponent (pk_E pub) = be_bytes ?n" by (simp add: bigEndianExponent_def Let_def)
  moreover have "foldl (\<lambda>e b. wrap64 (e * 256 + int (byte_val b))) 0 (be_bytes ?n) = pk_E pub"
    using foldl_wrap_bytes [of ?n] assms by simp
  ultimately show ?thesis
    using assms(1) by (simp add: publicKey_def newJWK_def b64_roundtrip be_value_bytes)
qed

lemma published_keys:
  assumes "1 < pk_E (sk_Public key)" "pk_E (sk_Public key) < 2 ^ 63"
  shows "NewVerifierFromJWKS iss (JWKS (NewSigner lib key)) = Inr (NewVerifier lib iss [sk_Public key])"
proof -
  have "jk_Kty (newJWK (sk_Public key) kid) = ''RSA''" "jk_Kid (newJWK (sk_Public key) kid) = kid" for kid
    by (simp_all add: newJWK_def)
  then show ?thesis
    using publicKey_newJWK [OF assms]
    by (simp add: NewVerifierFromJWKS_def JWKS_def NewSigner_def NewVerifier_def tab_put_def)
qed

section \<open>Tokens round trip\<close>

lemma Split_none: "sep \<notin> set s \<Longrightarrow> Split sep s = [s]"
  by (induction s) auto

lemma Split_first: "sep \<notin> set a \<Longrightarrow> Split sep (a @ sep # b) = a # Split sep b"
  by (induction a) auto

lemma b64_no_dot: "CHR ''.'' \<notin> set (b64_encode s)"
proof -
  have "CHR ''.'' \<noteq> b64_char n" if "n < 64" for n
  proof -
    have "length b64_alphabet = 64" by (simp add: b64_alphabet_def)
    then have "b64_char n \<in> set b64_alphabet" using that by (simp add: b64_char_def)
    then show ?thesis by (auto simp: b64_alphabet_def)
  qed
  then show ?thesis using b64_sextets_bound [of s] by (auto simp: b64_encode_sextets)
qed

lemma Split_token:
  "Split CHR ''.'' (b64_encode a @ ''.'' @ b64_encode b @ ''.'' @ b64_encode c) = [b64_encode a, b64_encode b, b64_encode c]"
  using b64_no_dot by (simp add: Split_first Split_none)

lemma dec_members_append:
  "dec_members st fs (a @ b) r = (case dec_members st fs a r of Inl e \<Rightarrow> Inl e | Inr r' \<Rightarrow> dec_members st fs b r')"
  by (induction st fs a r rule: dec_members.induct) (auto split: option.splits sum.splits)

lemma dec_members_known:
  "dec_members False fs ms r = dec_members False fs (filter (\<lambda>m. find_field fs (fst m) \<noteq> None) ms) r"
proof (induction ms arbitrary: r)
  case (Cons m ms)
  then show ?case by (cases m) (auto split: option.splits sum.splits)
qed simp

lemma dec_int_json: "- (2 ^ 63) \<le> n \<Longrightarrow> n < 2 ^ 63 \<Longrightarrow> dec_int f (int_json lib n) old = Inr n"
  by (simp add: dec_int_def dec_int_pointer_def int_json_def)

text \<open>The fields of the claims, one by one.\<close>

lemma Claims_find:
  "find_field Claims_fields ''sub'' = Some (snd (into dec_string ''sub'' jc_Sub jc_Sub_update))"
  "find_field Claims_fields ''iss'' = Some (snd (into dec_string ''iss'' jc_Iss jc_Iss_update))"
  "find_field Claims_fields ''aud'' = Some (snd (into dec_string ''aud'' jc_Aud jc_Aud_update))"
  "find_field Claims_fields ''exp'' = Some (snd (into dec_int ''exp'' jc_Exp jc_Exp_update))"
  "find_field Claims_fields ''iat'' = Some (snd (into dec_int ''iat'' jc_Iat jc_Iat_update))"
  "find_field Claims_fields ''jti'' = Some (snd (into dec_string ''jti'' jc_JTI jc_JTI_update))"
  "find_field Claims_fields ''tenant_id'' = Some (snd (into dec_string ''tenant_id'' jc_TenantID jc_TenantID_update))"
  "find_field Claims_fields ''scope'' = Some (snd (into dec_string ''scope'' jc_Scope jc_Scope_update))"
  "find_field Claims_fields ''session_id'' = Some (snd (into dec_string ''session_id'' jc_SessionID jc_SessionID_update))"
  "find_field Claims_fields ''nonce'' = Some (snd (into dec_string ''nonce'' jc_Nonce jc_Nonce_update))"
  "find_field Claims_fields ''acr'' = Some (snd (into dec_string ''acr'' jc_ACR jc_ACR_update))"
  "find_field Claims_fields ''amr'' = Some (snd (into dec_strings ''amr'' jc_AMR jc_AMR_update))"
  by (simp_all add: find_field_def Claims_fields_def into_def lower_char_def)

text \<open>Every member of the struct, present or not, in the order of the keys.\<close>

definition Claims_all :: "jwt_lib \<Rightarrow> Claims \<Rightarrow> (string \<times> json) list" where
  "Claims_all lib c =
     [(''sub'', JStr (jc_Sub c)), (''iss'', JStr (jc_Iss c)), (''aud'', JStr (jc_Aud c)),
      (''exp'', int_json lib (jc_Exp c)), (''iat'', int_json lib (jc_Iat c)), (''jti'', JStr (jc_JTI c)),
      (''tenant_id'', JStr (jc_TenantID c)), (''scope'', JStr (jc_Scope c)), (''session_id'', JStr (jc_SessionID c)),
      (''nonce'', JStr (jc_Nonce c)), (''acr'', JStr (jc_ACR c)), (''amr'', JArr (map JStr (jc_AMR c)))]"

definition shown :: "string \<times> json \<Rightarrow> bool" where
  "shown m \<longleftrightarrow> fst m = ''sub'' \<or> fst m = ''iss'' \<or> snd m \<noteq> JStr [] \<and> snd m \<noteq> JArr []"

lemma Claims_members_shown: "Claims_members lib c = filter shown (Claims_all lib c)"
  by (simp add: Claims_members_def Claims_all_def shown_def put_str_def omit_str_def omit_strs_def int_json_def)

lemma sort_Claims_all:
  "sort_key fst (Claims_all lib c) =
     [(''acr'', JStr (jc_ACR c)), (''amr'', JArr (map JStr (jc_AMR c))), (''aud'', JStr (jc_Aud c)),
      (''exp'', int_json lib (jc_Exp c)), (''iat'', int_json lib (jc_Iat c)), (''iss'', JStr (jc_Iss c)),
      (''jti'', JStr (jc_JTI c)), (''nonce'', JStr (jc_Nonce c)), (''scope'', JStr (jc_Scope c)),
      (''session_id'', JStr (jc_SessionID c)), (''sub'', JStr (jc_Sub c)), (''tenant_id'', JStr (jc_TenantID c))]"
  by (simp add: Claims_all_def less_char_def less_eq_char_def)

lemma filter_shown:
  "filter shown ((k, JStr s) # ms) = (if k = ''sub'' \<or> k = ''iss'' then put_str k s else omit_str k s) @ filter shown ms"
  "filter shown ((k, JArr (map JStr ss)) # ms) =
     (if k = ''sub'' \<or> k = ''iss'' then [(k, JArr (map JStr ss))] else omit_strs k ss) @ filter shown ms"
  "filter shown ((k, int_json lib n) # ms) = (k, int_json lib n) # filter shown ms"
  by (simp_all add: shown_def put_str_def omit_str_def omit_strs_def int_json_def)

text \<open>Decoding a member that is omitted when empty sets the field all the same.\<close>

lemma dec_omit_str:
  assumes "find_field fs k = Some (snd (into dec_string k get upd))" "get r = [] \<Longrightarrow> upd (\<lambda>_. []) r = r" "get r = []"
  shows "dec_members False fs (omit_str k s @ ms) r = dec_members False fs ms (upd (\<lambda>_. s) r)"
  using assms by (auto simp: omit_str_def into_def)

lemma dec_put_str:
  assumes "find_field fs k = Some (snd (into dec_string k get upd))"
  shows "dec_members False fs (put_str k s @ ms) r = dec_members False fs ms (upd (\<lambda>_. s) r)"
  using assms by (auto simp: put_str_def into_def)

lemma dec_omit_strs:
  assumes "find_field fs k = Some (snd (into dec_strings k get upd))" "get r = [] \<Longrightarrow> upd (\<lambda>_. []) r = r" "get r = []"
  shows "dec_members False fs (omit_strs k ss @ ms) r = dec_members False fs ms (upd (\<lambda>_. ss) r)"
  using assms by (auto simp: omit_strs_def into_def)

lemma dec_int_member:
  assumes "find_field fs k = Some (snd (into dec_int k get upd))" "- (2 ^ 63) \<le> n" "n < 2 ^ 63"
  shows "dec_members False fs ((k, int_json lib n) # ms) r = dec_members False fs ms (upd (\<lambda>_. n) r)"
  using assms by (auto simp: into_def dec_int_json)

lemmas dec_claim_members = dec_omit_str [OF Claims_find(3)] dec_omit_str [OF Claims_find(6)] dec_omit_str [OF Claims_find(7)]
  dec_omit_str [OF Claims_find(8)] dec_omit_str [OF Claims_find(9)] dec_omit_str [OF Claims_find(10)]
  dec_omit_str [OF Claims_find(11)] dec_omit_strs [OF Claims_find(12)] dec_put_str [OF Claims_find(1)]
  dec_put_str [OF Claims_find(2)] dec_int_member [OF Claims_find(4)] dec_int_member [OF Claims_find(5)]

definition int64 :: "int \<Rightarrow> bool" where
  "int64 n \<longleftrightarrow> - (2 ^ 63) \<le> n \<and> n < 2 ^ 63"

lemma dec_sorted_claims:
  assumes "int64 (jc_Exp c)" "int64 (jc_Iat c)"
  shows "dec_members False Claims_fields (filter shown (sort_key fst (Claims_all lib c))) no_claims = Inr c"
proof -
  have "filter shown (sort_key fst (Claims_all lib c)) =
      omit_str ''acr'' (jc_ACR c) @ omit_strs ''amr'' (jc_AMR c) @ omit_str ''aud'' (jc_Aud c) @
      (''exp'', int_json lib (jc_Exp c)) # (''iat'', int_json lib (jc_Iat c)) # put_str ''iss'' (jc_Iss c) @
      omit_str ''jti'' (jc_JTI c) @ omit_str ''nonce'' (jc_Nonce c) @ omit_str ''scope'' (jc_Scope c) @
      omit_str ''session_id'' (jc_SessionID c) @ put_str ''sub'' (jc_Sub c) @ omit_str ''tenant_id'' (jc_TenantID c) @ []"
    unfolding sort_Claims_all by (simp add: filter_shown del: filter.simps(2))
  then show ?thesis
    using assms by (simp add: dec_claim_members no_claims_def int64_def del: append_Nil2 dec_members.simps(2))
qed

lemma dec_unsorted_claims:
  assumes "int64 (jc_Exp c)" "int64 (jc_Iat c)"
  shows "dec_members False Claims_fields (Claims_members lib c) no_claims = Inr c"
proof -
  have "Claims_members lib c =
      put_str ''sub'' (jc_Sub c) @ put_str ''iss'' (jc_Iss c) @ omit_str ''aud'' (jc_Aud c) @
      (''exp'', int_json lib (jc_Exp c)) # (''iat'', int_json lib (jc_Iat c)) #
      omit_str ''jti'' (jc_JTI c) @ omit_str ''tenant_id'' (jc_TenantID c) @ omit_str ''scope'' (jc_Scope c) @
      omit_str ''session_id'' (jc_SessionID c) @ omit_str ''nonce'' (jc_Nonce c) @ omit_str ''acr'' (jc_ACR c) @
      omit_strs ''amr'' (jc_AMR c) @ []"
    by (simp add: Claims_members_def)
  then show ?thesis
    using assms by (simp add: dec_claim_members no_claims_def int64_def del: append_Nil2 dec_members.simps(2))
qed

lemma Claims_known: "m \<in> set (Claims_members lib c) \<Longrightarrow> find_field Claims_fields (fst m) \<noteq> None"
proof -
  assume "m \<in> set (Claims_members lib c)"
  then have "m \<in> set (Claims_all lib c)" by (simp add: Claims_members_shown del: filter.simps)
  then show ?thesis by (auto simp: Claims_all_def Claims_find)
qed

text \<open>Decoding the payload gives the claims back: extra members are none of the struct's.\<close>

lemma dec_payload:
  assumes "mergeClaims lib c extra = Some j" "int64 (jc_Exp c)" "int64 (jc_Iat c)"
    and "\<And>m. m \<in> set extra \<Longrightarrow> find_field Claims_fields (fst m) = None"
  obtains ms where "j = JObj ms" "mset ms = mset (Claims_members lib c @ extra)"
    "dec_members False Claims_fields ms no_claims = Inr c"
proof (cases "extra = []")
  case True
  then show ?thesis using that [of "Claims_members lib c"] assms(1) dec_unsorted_claims [OF assms(2,3)]
    by (simp add: mergeClaims_def)
next
  case False
  let ?known = "\<lambda>m. find_field Claims_fields (fst m) \<noteq> None"
  have j: "j = JObj (sort_key fst (Claims_members lib c @ extra))"
    using False assms(1) by (simp add: mergeClaims_def split: if_splits)
  have "filter ?known (Claims_members lib c) = Claims_members lib c" using Claims_known by (simp add: filter_id_conv)
  moreover have "filter ?known extra = []" using assms(4) by (auto simp: filter_empty_conv)
  ultimately have "filter ?known (sort_key fst (Claims_members lib c @ extra)) = sort_key fst (Claims_members lib c)"
    by (simp only: filter_sort filter_append append_Nil2)
  also have "\<dots> = filter shown (sort_key fst (Claims_all lib c))" by (simp only: Claims_members_shown filter_sort)
  finally have "dec_members False Claims_fields (sort_key fst (Claims_members lib c @ extra)) no_claims = Inr c"
    using dec_members_known [of Claims_fields "sort_key fst (Claims_members lib c @ extra)" no_claims]
      dec_sorted_claims [OF assms(2,3)] by simp
  then show ?thesis using that j by simp
qed

lemma dec_header: "dec_struct False jwt_header_fields (header_json typ kid) no_header
    = Inr \<lparr>jh_Alg = ''RS256'', jh_Typ = typ, jh_Kid = kid\<rparr>"
  by (simp add: header_json_def jwt_header_fields_def no_header_def find_field_def into_def lower_char_def)

lemma verify_signed:
  assumes "Sign lib s claims extra = Some token"
    and "tab_get (vf_keys v) (sg_kid s) = Some (sk_Public (sg_key s))"
    and "\<And>d sig. jl_sign lib (sg_key s) d = Some sig \<Longrightarrow> jl_verify lib (sk_Public (sg_key s)) d sig"
    and "\<And>j. j = header_json ''JWT'' (sg_kid s) \<or> mergeClaims lib claims extra = Some j \<Longrightarrow>
      jl_unmarshal lib (jl_marshal lib j) = Some j"
    and "int64 (jc_Exp claims)" "int64 (jc_Iat claims)"
    and "\<And>m. m \<in> set extra \<Longrightarrow> find_field Claims_fields (fst m) = None"
    and "check_claims v claims now = None"
  obtains raw where "VerifyToken lib v token now = Inr (claims, raw)" "mset raw = mset (Claims_members lib claims @ extra)"
proof -
  let ?h = "header_json ''JWT'' (sg_kid s)"
  obtain payload sig where p: "mergeClaims lib claims extra = Some payload"
    and sig: "jl_sign lib (sg_key s) (jl_sha256 lib (signing_input lib ?h payload)) = Some sig"
    and token: "token = signing_input lib ?h payload @ ''.'' @ b64_encode sig"
    using assms(1) by (auto simp: Sign_def SignTyped_def Let_def split: option.splits)
  obtain ms where ms: "payload = JObj ms" "mset ms = mset (Claims_members lib claims @ extra)"
    "dec_members False Claims_fields ms no_claims = Inr claims"
    by (rule dec_payload [OF p assms(5-7)])
  have "Split CHR ''.'' token = [b64_encode (jl_marshal lib ?h), b64_encode (jl_marshal lib payload), b64_encode sig]"
    using Split_token [of "jl_marshal lib ?h" "jl_marshal lib payload" sig] by (simp add: token signing_input_def)
  moreover have "jl_verify lib (sk_Public (sg_key s))
      (jl_sha256 lib (b64_encode (jl_marshal lib ?h) @ ''.'' @ b64_encode (jl_marshal lib payload))) sig"
    using assms(3) [OF sig] by (simp add: signing_input_def)
  ultimately have "VerifyToken lib v token now = Inr (claims, ms)"
    using assms(2,8) assms(4) [of ?h] assms(4) [of payload] p ms dec_header [of "''JWT''" "sg_kid s"]
    by (simp add: VerifyToken_def b64_roundtrip unmarshal_struct_def unmarshal_map_def)
  with that ms(2) show ?thesis by blast
qed

definition demo_key :: rsa_private where
  "demo_key = \<lparr>sk_Public = \<lparr>pk_N = 3233, pk_E = 65537\<rparr>, sk_Secret = 2753\<rparr>"

definition demo_claims :: Claims where
  "demo_claims = no_claims\<lparr>jc_Sub := ''sub'', jc_Iss := ''https://mcp'', jc_Exp := 1700000900, jc_Iat := 1700000000,
     jc_Scope := ''openid''\<rparr>"

definition demo_payload :: json where
  "demo_payload = JObj [(''exp'', JNum 1700000900 []), (''iat'', JNum 1700000000 []), (''install_id'', JStr ''i1''),
     (''iss'', JStr ''https://mcp''), (''scope'', JStr ''openid''), (''sub'', JStr ''sub'')]"

definition demo_jwt :: jwt_lib where
  "demo_jwt = \<lparr>jl_marshal = \<lambda>j. if j = demo_payload then ''p'' else ''h'',
     jl_unmarshal = \<lambda>s. Some (if s = ''p'' then demo_payload else header_json ''JWT'' (b64_encode ''k'')),
     jl_sha256 = \<lambda>s. ''k'', jl_sign = \<lambda>k d. Some (d @ ''!''), jl_verify = \<lambda>p d s. s = d @ ''!'', jl_float = \<lambda>r. []\<rparr>"



end
