(* ===== verification/BrokerModel.thy ===== *)
theory BrokerModel
  imports XService TxnClients Jwt
begin

text \<open>
  broker-service's records, in-memory storage and clients (models.go, storage.go, clients.go): installs
  of agent identities, registered OAuth clients, authorization codes and token records, and the calls
  to persona-service, pool-service and grant-service.
\<close>

section \<open>Records\<close>

definition RuntimeCustom :: string where "RuntimeCustom = ''custom''"

definition ValidRuntime :: "string \<Rightarrow> bool" where
  "ValidRuntime s \<longleftrightarrow> s \<in> {''claude'', ''chatgpt'', ''cursor'', RuntimeCustom}"

definition InstallPending :: string where "InstallPending = ''pending''"
definition InstallActive :: string where "InstallActive = ''active''"
definition InstallRevoked :: string where "InstallRevoked = ''revoked''"

lemmas install_status_defs = InstallPending_def InstallActive_def InstallRevoked_def

record Install =
  in_ID :: string
  in_TenantID :: string
  in_Runtime :: string
  in_PersonaID :: string
  in_IdentityID :: string
  in_ClientID :: string
  in_Status :: string
  in_CreatedAt :: time
  in_UpdatedAt :: time

record CreateInstallRequest =
  ci_Runtime :: string
  ci_PersonaID :: string
  ci_ClientID :: string

definition CreateInstallRequest_fields :: "CreateInstallRequest field list" where
  "CreateInstallRequest_fields =
     [into dec_string ''runtime'' ci_Runtime ci_Runtime_update,
      into dec_string ''persona_id'' ci_PersonaID ci_PersonaID_update,
      into dec_string ''client_id'' ci_ClientID ci_ClientID_update]"

definition no_create_install :: CreateInstallRequest where
  "no_create_install = \<lparr>ci_Runtime = [], ci_PersonaID = [], ci_ClientID = []\<rparr>"

record DCRClient =
  dc_ClientID :: string
  dc_ClientSecret :: string
  dc_ClientMetadata :: "(string \<times> json) list"
  dc_CreatedAt :: time

record AuthCode =
  cd_Code :: string
  cd_TenantID :: string
  cd_Runtime :: string
  cd_PersonaID :: string
  cd_PoolID :: string
  cd_ClientID :: string
  cd_RedirectURI :: string
  cd_State :: string
  cd_Scope :: string
  cd_CodeChallenge :: string
  cd_CreatedAt :: time

record TokenRecord =
  tk_AccessToken :: string
  tk_RefreshToken :: string
  tk_InstallID :: string
  tk_PersonaID :: string
  tk_IdentityID :: string
  tk_Subject :: string
  tk_Scope :: string
  tk_TenantID :: string
  tk_ExpiresAt :: time
  tk_RotatedAt :: "time option"

definition AuthCodeTTLSeconds :: int where "AuthCodeTTLSeconds = 300"

section \<open>Storage\<close>

record broker_store =
  bs_installs :: "Install table"
  bs_clients :: "DCRClient table"
  bs_codes :: "AuthCode table"
  bs_tokens :: "TokenRecord table"

definition NewBrokerStorage :: broker_store where
  "NewBrokerStorage = \<lparr>bs_installs = [], bs_clients = [], bs_codes = [], bs_tokens = []\<rparr>"

definition CreateInstall :: "Install \<Rightarrow> broker_store \<Rightarrow> broker_store" where
  "CreateInstall i s = s\<lparr>bs_installs := tab_put (in_ID i) i (bs_installs s)\<rparr>"

definition GetInstall :: "string \<Rightarrow> string \<Rightarrow> broker_store \<Rightarrow> Install option" where
  "GetInstall tenantID iid s =
     (case tab_get (bs_installs s) iid of
        None \<Rightarrow> None
      | Some i \<Rightarrow> if in_TenantID i \<noteq> tenantID then None else Some i)"

definition UpdateInstall :: "time \<Rightarrow> Install \<Rightarrow> broker_store \<Rightarrow> (Install \<times> broker_store) option" where
  "UpdateInstall now i s =
     (case tab_get (bs_installs s) (in_ID i) of
        None \<Rightarrow> None
      | Some existing \<Rightarrow>
          if in_TenantID existing \<noteq> in_TenantID i then None
          else let i' = i\<lparr>in_CreatedAt := in_CreatedAt existing, in_UpdatedAt := now\<rparr>
               in Some (i', s\<lparr>bs_installs := tab_put (in_ID i) i' (bs_installs s)\<rparr>))"

definition install_before :: "Install \<Rightarrow> Install \<Rightarrow> bool" where
  "install_before a b =
     (if in_CreatedAt a = in_CreatedAt b then in_ID b < in_ID a else in_CreatedAt b < in_CreatedAt a)"

definition ListInstalls :: "string \<Rightarrow> int \<Rightarrow> time \<Rightarrow> broker_store \<Rightarrow> Install list" where
  "ListInstalls tenantID limit cursor s =
     cut_page limit (sort_slice install_before
       (filter (\<lambda>i. in_TenantID i = tenantID \<and> after_cursor cursor (in_CreatedAt i)) (tab_rows (bs_installs s))))"

definition PutClient :: "DCRClient \<Rightarrow> broker_store \<Rightarrow> broker_store" where
  "PutClient c s = s\<lparr>bs_clients := tab_put (dc_ClientID c) c (bs_clients s)\<rparr>"

definition PutAuthCode :: "time \<Rightarrow> AuthCode \<Rightarrow> broker_store \<Rightarrow> broker_store" where
  "PutAuthCode now ac s =
     (let ac = (if IsZero (cd_CreatedAt ac) then ac\<lparr>cd_CreatedAt := now\<rparr> else ac)
      in s\<lparr>bs_codes := tab_put (cd_Code ac) ac (bs_codes s)\<rparr>)"

definition ConsumeAuthCode :: "string \<Rightarrow> broker_store \<Rightarrow> (AuthCode \<times> broker_store) option" where
  "ConsumeAuthCode code s =
     (case tab_get (bs_codes s) code of
        None \<Rightarrow> None
      | Some ac \<Rightarrow> Some (ac, s\<lparr>bs_codes := tab_del code (bs_codes s)\<rparr>))"

definition PutToken :: "TokenRecord \<Rightarrow> broker_store \<Rightarrow> broker_store" where
  "PutToken t s = s\<lparr>bs_tokens := tab_put (tk_AccessToken t) t (bs_tokens s)\<rparr>"

definition GetToken :: "string \<Rightarrow> broker_store \<Rightarrow> TokenRecord option" where
  "GetToken accessToken s = tab_get (bs_tokens s) accessToken"

text \<open>A linear scan of the token records.\<close>

definition GetTokenByRefresh :: "string \<Rightarrow> broker_store \<Rightarrow> TokenRecord option" where
  "GetTokenByRefresh refreshToken s =
     (if refreshToken = [] then None
      else find (\<lambda>t. tk_RefreshToken t = refreshToken) (tab_rows (bs_tokens s)))"

definition DeleteToken :: "string \<Rightarrow> broker_store \<Rightarrow> broker_store option" where
  "DeleteToken accessToken s =
     (case tab_get (bs_tokens s) accessToken of
        None \<Rightarrow> None
      | Some t \<Rightarrow> Some (s\<lparr>bs_tokens := tab_del accessToken (bs_tokens s)\<rparr>))"

text \<open>Deleting entries of a map while ranging over it removes exactly the entries that qualify.\<close>

definition DeleteTokensForInstall :: "string \<Rightarrow> broker_store \<Rightarrow> nat \<times> broker_store" where
  "DeleteTokensForInstall installID s =
     (length (filter (\<lambda>(k, t). tk_InstallID t = installID) (bs_tokens s)),
      s\<lparr>bs_tokens := filter (\<lambda>(k, t). tk_InstallID t \<noteq> installID) (bs_tokens s)\<rparr>)"

definition PurgeExpired :: "time \<Rightarrow> broker_store \<Rightarrow> nat \<times> broker_store" where
  "PurgeExpired now s =
     (let codeCutoff = now - AuthCodeTTLSeconds * Second;
          dead_token = (\<lambda>t. tk_ExpiresAt t < now);
          dead_code = (\<lambda>ac. cd_CreatedAt ac < codeCutoff)
      in (length (filter (\<lambda>(k, t). dead_token t) (bs_tokens s)) + length (filter (\<lambda>(k, ac). dead_code ac) (bs_codes s)),
          s\<lparr>bs_tokens := filter (\<lambda>(k, t). \<not> dead_token t) (bs_tokens s),
            bs_codes := filter (\<lambda>(k, ac). \<not> dead_code ac) (bs_codes s)\<rparr>))"

interpretation installs: tenant_rows_update in_ID in_TenantID CreateInstall GetInstall "UpdateInstall now"
    "\<lambda>old i. i\<lparr>in_CreatedAt := in_CreatedAt old, in_UpdatedAt := now\<rparr>" for now
  by unfold_locales
    (auto simp: CreateInstall_def GetInstall_def UpdateInstall_def Let_def table_simps split: option.splits if_splits)

interpretation install_pages: keyset_listing in_ID install_before in_CreatedAt
  by unfold_locales (auto simp: install_before_def split: if_splits)

section \<open>Clients\<close>

text \<open>The slimmed views of the other services' rows.\<close>

record PersonaView =
  pv_ID :: string
  pv_TenantID :: string
  pv_Name :: string
  pv_Scopes :: "string list"
  pv_TokenTTL :: int
  pv_PoolID :: string

record IdentityView =
  iv_ID :: string
  iv_PoolID :: string
  iv_SubjectID :: string
  iv_Status :: string

record GrantCreateRequest =
  gq_InstallID :: string
  gq_IdentityID :: string
  gq_PersonaID :: string
  gq_AccessTokenHash :: string
  gq_RefreshTokenHash :: string
  gq_TTLSeconds :: int

record GrantView =
  gv_ID :: string
  gv_Status :: string
  gv_InstallID :: string

definition PersonaView_fields :: "PersonaView field list" where
  "PersonaView_fields =
     [into dec_string ''id'' pv_ID pv_ID_update, into dec_string ''tenant_id'' pv_TenantID pv_TenantID_update,
      into dec_string ''name'' pv_Name pv_Name_update, into dec_strings ''scopes'' pv_Scopes pv_Scopes_update,
      into dec_int ''token_ttl_seconds'' pv_TokenTTL pv_TokenTTL_update,
      into dec_string ''pool_id'' pv_PoolID pv_PoolID_update]"

definition no_persona_view :: PersonaView where
  "no_persona_view = \<lparr>pv_ID = [], pv_TenantID = [], pv_Name = [], pv_Scopes = [], pv_TokenTTL = 0, pv_PoolID = []\<rparr>"

definition IdentityView_fields :: "IdentityView field list" where
  "IdentityView_fields =
     [into dec_string ''id'' iv_ID iv_ID_update, into dec_string ''pool_id'' iv_PoolID iv_PoolID_update,
      into dec_string ''subject_id'' iv_SubjectID iv_SubjectID_update,
      into dec_string ''status'' iv_Status iv_Status_update]"

definition no_identity_view :: IdentityView where
  "no_identity_view = \<lparr>iv_ID = [], iv_PoolID = [], iv_SubjectID = [], iv_Status = []\<rparr>"

definition GrantView_fields :: "GrantView field list" where
  "GrantView_fields =
     [into dec_string ''id'' gv_ID gv_ID_update, into dec_string ''status'' gv_Status gv_Status_update,
      into dec_string ''install_id'' gv_InstallID gv_InstallID_update]"

definition no_grant_view :: GrantView where
  "no_grant_view = \<lparr>gv_ID = [], gv_Status = [], gv_InstallID = []\<rparr>"

text \<open>
  The three interfaces, over the world the other services live in.  A call without a result returns
  the error, if any.
\<close>

record 'w broker_clients =
  bc_GetPersona :: "string \<Rightarrow> string \<Rightarrow> 'w \<Rightarrow> (client_err + PersonaView) \<times> 'w"
  bc_ClaimIdentity :: "string \<Rightarrow> string \<Rightarrow> string \<Rightarrow> string \<Rightarrow> 'w \<Rightarrow> (client_err + IdentityView) \<times> 'w"
  bc_ReleaseIdentity :: "string \<Rightarrow> string \<Rightarrow> 'w \<Rightarrow> client_err option \<times> 'w"
  bc_CreateGrant :: "string \<Rightarrow> GrantCreateRequest \<Rightarrow> 'w \<Rightarrow> (client_err + GrantView) \<times> 'w"
  bc_RevokeGrantsForInstall :: "string \<Rightarrow> string \<Rightarrow> 'w \<Rightarrow> client_err option \<times> 'w"
  bc_RevokeToken :: "string \<Rightarrow> string \<Rightarrow> 'w \<Rightarrow> client_err option \<times> 'w"

text \<open>\<open>errors.As(err, *DownstreamError)\<close> with a given status.\<close>

definition has_status :: "nat \<Rightarrow> client_err \<Rightarrow> bool" where
  "has_status n err = (case err of Downstream de \<Rightarrow> de_Status de = n | OtherError t \<Rightarrow> False)"

text \<open>
  The HTTP implementation.  \<open>bh_send\<close> is \<open>net/http\<close> and the network.  A call without an \<open>out\<close>
  argument does not look at the reply's body.
\<close>

record 'w broker_http =
  bh_send :: "http_request \<Rightarrow> 'w \<Rightarrow> (string + http_response) \<times> 'w"
  bh_secret :: string
  bh_json_text :: "json_err \<Rightarrow> string"
  bh_float_text :: "rat \<Rightarrow> string"
  bh_PersonaURL :: string
  bh_PoolURL :: string
  bh_GrantURL :: string

definition broker_do :: "'w broker_http \<Rightarrow> string \<Rightarrow> string \<Rightarrow> string \<Rightarrow> string \<Rightarrow> json option \<Rightarrow>
    (body \<Rightarrow> json_err + 'o) \<Rightarrow> 'o \<Rightarrow> 'w \<Rightarrow> (client_err + 'o) \<times> 'w" where
  "broker_do c service method url tenantID b decode zero w =
     (let req = \<lparr>hq_Method = method, hq_URL = url,
                  hq_Gate = SetInternalAuth (bh_secret c)
                    \<lparr>peer_certificates = 0, internal_auth_header = [], tenant_header = tenantID\<rparr>,
                  hq_Body = b\<rparr>;
          failed = (\<lambda>st text cause.
            Inl (Downstream \<lparr>de_Service = service, de_Status = st, de_Body = text, de_Err = cause\<rparr>));
          (sent, w) = bh_send c req w
      in case sent of
           Inl text \<Rightarrow> (failed 0 [] (Some text), w)
         | Inr resp \<Rightarrow>
             if hr_Status resp < 200 \<or> 300 \<le> hr_Status resp then (failed (hr_Status resp) (hr_Text resp) None, w)
             else if hr_Status resp = 204 then (Inr zero, w)
             else (case decode (hr_Body resp) of
                     Inl err \<Rightarrow> (failed 0 [] (Some (bh_json_text c err)), w)
                   | Inr out \<Rightarrow> (Inr out, w)))"

text \<open>Decoding into \<open>out\<close>, where an empty body is no error, and no decoding.\<close>

definition decode_out :: "'o field list \<Rightarrow> 'o \<Rightarrow> body \<Rightarrow> json_err + 'o" where
  "decode_out fs zero b =
     (case b of NoBody \<Rightarrow> Inr zero | BadBody \<Rightarrow> Inl SyntaxErr | Body j off \<Rightarrow> dec_struct False fs j zero)"

definition no_out :: "body \<Rightarrow> json_err + unit" where
  "no_out b = Inr ()"

definition call_err :: "(client_err + unit) \<times> 'w \<Rightarrow> client_err option \<times> 'w" where
  "call_err r = ((case fst r of Inl err \<Rightarrow> Some err | Inr u \<Rightarrow> None), snd r)"

definition http_GetPersona :: "'w broker_http \<Rightarrow> string \<Rightarrow> string \<Rightarrow> 'w \<Rightarrow> (client_err + PersonaView) \<times> 'w" where
  "http_GetPersona c tenantID personaID =
     broker_do c ''persona-service'' ''GET'' (bh_PersonaURL c @ ''/internal/v1/personas/'' @ personaID) tenantID None
       (decode_out PersonaView_fields no_persona_view) no_persona_view"

definition http_ClaimIdentity :: "'w broker_http \<Rightarrow> string \<Rightarrow> string \<Rightarrow> string \<Rightarrow> string \<Rightarrow> 'w \<Rightarrow>
    (client_err + IdentityView) \<times> 'w" where
  "http_ClaimIdentity c tenantID poolID personaID installID =
     broker_do c ''pool-service'' ''POST'' (bh_PoolURL c @ ''/internal/v1/pools/'' @ poolID @ ''/claim'') tenantID
       (Some (JObj [(''persona_id'', JStr personaID), (''install_id'', JStr installID)]))
       (decode_out IdentityView_fields no_identity_view) no_identity_view"

definition http_ReleaseIdentity :: "'w broker_http \<Rightarrow> string \<Rightarrow> string \<Rightarrow> 'w \<Rightarrow> client_err option \<times> 'w" where
  "http_ReleaseIdentity c tenantID identityID w =
     call_err (broker_do c ''pool-service'' ''POST''
       (bh_PoolURL c @ ''/internal/v1/identities/'' @ identityID @ ''/release'') tenantID None no_out () w)"

definition GrantCreateRequest_json :: "(rat \<Rightarrow> string) \<Rightarrow> GrantCreateRequest \<Rightarrow> json" where
  "GrantCreateRequest_json ftext q = JObj
     [(''install_id'', JStr (gq_InstallID q)), (''identity_id'', JStr (gq_IdentityID q)),
      (''persona_id'', JStr (gq_PersonaID q)), (''access_token_hash'', JStr (gq_AccessTokenHash q)),
      (''refresh_token_hash'', JStr (gq_RefreshTokenHash q)),
      (''ttl_seconds'', JNum (of_int (gq_TTLSeconds q)) (ftext (of_int (gq_TTLSeconds q))))]"

definition http_CreateGrant :: "'w broker_http \<Rightarrow> string \<Rightarrow> GrantCreateRequest \<Rightarrow> 'w \<Rightarrow>
    (client_err + GrantView) \<times> 'w" where
  "http_CreateGrant c tenantID req =
     broker_do c ''grant-service'' ''POST'' (bh_GrantURL c @ ''/internal/v1/grants'') tenantID
       (Some (GrantCreateRequest_json (bh_float_text c) req)) (decode_out GrantView_fields no_grant_view) no_grant_view"

definition http_RevokeGrantsForInstall :: "'w broker_http \<Rightarrow> string \<Rightarrow> string \<Rightarrow> 'w \<Rightarrow> client_err option \<times> 'w" where
  "http_RevokeGrantsForInstall c tenantID installID w =
     call_err (broker_do c ''grant-service'' ''POST''
       (bh_GrantURL c @ ''/internal/v1/installs/'' @ installID @ ''/revoke-grants'') tenantID None no_out () w)"

definition http_RevokeToken :: "'w broker_http \<Rightarrow> string \<Rightarrow> string \<Rightarrow> 'w \<Rightarrow> client_err option \<times> 'w" where
  "http_RevokeToken c tenantID token w =
     call_err (broker_do c ''grant-service'' ''POST'' (bh_GrantURL c @ ''/internal/v1/revoke'') tenantID
       (Some (JObj [(''token'', JStr token)])) no_out () w)"

definition NewHTTPClients :: "'w broker_http \<Rightarrow> 'w broker_clients" where
  "NewHTTPClients c =
     \<lparr>bc_GetPersona = http_GetPersona c, bc_ClaimIdentity = http_ClaimIdentity c,
      bc_ReleaseIdentity = http_ReleaseIdentity c, bc_CreateGrant = http_CreateGrant c,
      bc_RevokeGrantsForInstall = http_RevokeGrantsForInstall c, bc_RevokeToken = http_RevokeToken c\<rparr>"

end
