(* ===== verification/BrokerService.thy ===== *)
theory BrokerService
  imports BrokerModel
begin

text \<open>
  The handlers of broker-service (oidc.go, install.go, dcr.go) and its router (handlers.go): the OAuth
  authorization, token, revocation and userinfo endpoints, the install administration, client
  registration and the periodic purge (cmd/main.go).  A request runs against the store and the world
  the other services live in.
\<close>

section \<open>Environment, state and replies\<close>

datatype broker_op = BOpCreateInstall | BOpGetInstall | BOpUpdateInstall | BOpListInstalls | BOpPutClient
  | BOpPutAuthCode | BOpConsumeAuthCode | BOpPutToken | BOpRotateToken | BOpGetToken | BOpGetTokenByRefresh
  | BOpDeleteToken | BOpDeleteTokens

type_synonym broker_env = "broker_op svc_env"

text \<open>
  \<open>bg_absolute\<close> says whether \<open>url.Parse\<close> accepts a URL as absolute, \<open>bg_location\<close> is the URL with query
  parameters set.
\<close>

record broker_cfg =
  bg_jwt :: jwt_lib
  bg_Signer :: Signer
  bg_Verifier :: Verifier
  bg_Issuer :: string
  bg_JWTIssuer :: string
  bg_DefaultTTL :: int
  bg_absolute :: "string \<Rightarrow> bool"
  bg_location :: "string \<Rightarrow> (string \<times> string) list \<Rightarrow> string"

record 'w broker_sys =
  br_store :: broker_store
  br_world :: 'w

record TokenResponse =
  tr_access_token :: string
  tr_refresh_token :: string
  tr_expires_in :: int
  tr_scope :: string

record UserInfoResponse =
  ui_sub :: string
  ui_persona :: string
  ui_scopes :: "string list"
  ui_install_id :: string

datatype broker_payload =
    BInstall Install
  | BInstalls "Install list" "time option"
  | BRedirect string
  | BTokens TokenResponse
  | BUserInfo UserInfoResponse
  | BRegistered "(string \<times> json) list" string string int
  | BKeys "JWK list"
  | BEmpty
  | BHealthz

type_synonym broker_reply = "broker_payload reply"

definition StatusFound :: nat where "StatusFound = 302"

definition invalid_grant :: "string \<Rightarrow> broker_reply" where
  "invalid_grant m = bad_request ''invalid_grant'' m"

definition bad_gateway :: "string \<Rightarrow> broker_reply" where
  "bad_gateway m = WriteError StatusBadGateway ''downstream_error'' (Lit m)"

definition unauthorized :: "string \<Rightarrow> broker_reply" where
  "unauthorized m = WriteError StatusUnauthorized ''invalid_token'' (Lit m)"

lemmas broker_reply_defs = invalid_grant_def bad_gateway_def unauthorized_def reply_defs

section \<open>Helpers\<close>

definition pkceChallengeS256 :: "jwt_lib \<Rightarrow> string \<Rightarrow> string" where
  "pkceChallengeS256 lib verifier = b64_encode (jl_sha256 lib verifier)"

definition hashToken :: "jwt_lib \<Rightarrow> string \<Rightarrow> string" where
  "hashToken lib tok = hex_encode (jl_sha256 lib tok)"

definition scopeString :: "string list \<Rightarrow> string \<Rightarrow> string" where
  "scopeString personaScopes requested =
     (if personaScopes = [] then requested else join '' '' personaScopes)"

definition splitScope :: "string \<Rightarrow> string list" where
  "splitScope s = (let s = TrimSpace s in if s = [] then [] else Fields s)"

text \<open>\<open>UpdateInstall\<close> whose error is only logged.\<close>

definition best_effort_install :: "bool \<Rightarrow> time \<Rightarrow> Install \<Rightarrow> broker_store \<Rightarrow> broker_store" where
  "best_effort_install fails now i s =
     (if fails then s else case UpdateInstall now i s of None \<Rightarrow> s | Some (_, s') \<Rightarrow> s')"

definition markInstallRevoked :: "broker_env \<Rightarrow> Install \<Rightarrow> 'w broker_sys \<Rightarrow> 'w broker_sys" where
  "markInstallRevoked e i s =
     s\<lparr>br_store := best_effort_install (op_fails e BOpUpdateInstall) (now_at e 3) (i\<lparr>in_Status := InstallRevoked\<rparr>)
        (br_store s)\<rparr>"

text \<open>The same, for the token record being rotated and for a new one.\<close>

definition best_effort_token :: "bool \<Rightarrow> TokenRecord \<Rightarrow> broker_store \<Rightarrow> broker_store" where
  "best_effort_token fails t s = (if fails then s else PutToken t s)"

section \<open>Authorize\<close>

record authorize_query =
  qa_client_id :: string
  qa_redirect_uri :: string
  qa_state :: string
  qa_scope :: string
  qa_persona_id :: string
  qa_pool_id :: string
  qa_tenant_id :: string
  qa_code_challenge :: string
  qa_code_challenge_method :: string
  qa_runtime :: string

definition invalid_authorize :: "broker_cfg \<Rightarrow> authorize_query \<Rightarrow> broker_reply option" where
  "invalid_authorize cfg q =
     (if qa_client_id q = [] then Some (bad_request ''invalid_client'' ''client_id is required'')
      else if qa_redirect_uri q = [] then Some (bad_request ''invalid_redirect_uri'' ''redirect_uri is required'')
      else if qa_persona_id q = [] then Some (bad_request ''invalid_request'' ''persona_id is required (phase 1 stub)'')
      else if qa_pool_id q = [] then Some (bad_request ''invalid_request'' ''pool_id is required (phase 1 stub)'')
      else if qa_tenant_id q = [] then Some (bad_request ''invalid_request'' ''tenant_id is required (phase 1 stub)'')
      else if \<not> ValidRuntime (if qa_runtime q = [] then RuntimeCustom else qa_runtime q)
      then Some (bad_request ''invalid_request'' ''runtime must be one of claude|chatgpt|cursor|custom'')
      else if qa_code_challenge q = []
      then Some (bad_request ''invalid_request'' ''code_challenge is required (PKCE is mandatory)'')
      else if qa_code_challenge_method q \<noteq> ''S256''
      then Some (bad_request ''invalid_request'' ''code_challenge_method must be S256'')
      else if \<not> bg_absolute cfg (qa_redirect_uri q)
      then Some (bad_request ''invalid_redirect_uri'' ''redirect_uri must be an absolute URL'')
      else None)"

definition new_code :: "broker_env \<Rightarrow> authorize_query \<Rightarrow> AuthCode" where
  "new_code e q =
     \<lparr>cd_Code = new_id e 0, cd_TenantID = qa_tenant_id q,
      cd_Runtime = (if qa_runtime q = [] then RuntimeCustom else qa_runtime q),
      cd_PersonaID = qa_persona_id q, cd_PoolID = qa_pool_id q, cd_ClientID = qa_client_id q,
      cd_RedirectURI = qa_redirect_uri q, cd_State = qa_state q, cd_Scope = qa_scope q,
      cd_CodeChallenge = qa_code_challenge q, cd_CreatedAt = now_at e 0\<rparr>"

definition AuthorizeCode :: "broker_cfg \<Rightarrow> broker_env \<Rightarrow> authorize_query \<Rightarrow> 'w broker_sys \<Rightarrow>
    broker_reply \<times> 'w broker_sys" where
  "AuthorizeCode cfg e q s =
     (case invalid_authorize cfg q of
        Some err \<Rightarrow> (err, s)
      | None \<Rightarrow>
          if op_fails e BOpPutAuthCode then (internal ''failed to issue code'', s)
          else (WriteJSON StatusFound (BRedirect (bg_location cfg (qa_redirect_uri q)
                  ((''code'', new_id e 0) # (if qa_state q \<noteq> [] then [(''state'', qa_state q)] else [])))),
                s\<lparr>br_store := PutAuthCode (now_at e 1) (new_code e q) (br_store s)\<rparr>))"

section \<open>The code grant\<close>

record token_form =
  tf_grant_type :: string
  tf_code :: string
  tf_client_id :: string
  tf_code_verifier :: string
  tf_refresh_token :: string

definition token_ttl :: "broker_cfg \<Rightarrow> PersonaView \<Rightarrow> int" where
  "token_ttl cfg persona = (if pv_TokenTTL persona \<le> 0 then bg_DefaultTTL cfg else pv_TokenTTL persona)"

text \<open>The access token for an install, issued at \<open>issuedAt\<close>; \<open>None\<close> when signing fails.\<close>

definition mint :: "broker_cfg \<Rightarrow> string \<Rightarrow> time \<Rightarrow> int \<Rightarrow> string \<Rightarrow> string \<Rightarrow> string \<Rightarrow> string \<Rightarrow> string \<Rightarrow> string \<Rightarrow> string \<Rightarrow>
    string option" where
  "mint cfg jti issuedAt ttl subject aud tenantID scope installID personaID identityID =
     Sign (bg_jwt cfg) (bg_Signer cfg)
       \<lparr>jc_Sub = subject, jc_Iss = bg_JWTIssuer cfg, jc_Aud = aud,
        jc_Exp = (issuedAt + ttl * Second) div Second - 62135596800, jc_Iat = issuedAt div Second - 62135596800,
        jc_JTI = jti, jc_TenantID = tenantID, jc_Scope = scope, jc_SessionID = [], jc_Nonce = [], jc_ACR = [],
        jc_AMR = []\<rparr>
       [(''install_id'', JStr installID), (''persona_id'', JStr personaID), (''identity_id'', JStr identityID)]"

definition token_reply :: "string \<Rightarrow> string \<Rightarrow> int \<Rightarrow> string \<Rightarrow> broker_reply" where
  "token_reply accessToken refreshToken ttl scope =
     WriteJSON StatusOK (BTokens \<lparr>tr_access_token = accessToken, tr_refresh_token = refreshToken,
       tr_expires_in = ttl, tr_scope = scope\<rparr>)"

text \<open>The compensation of a failure after the claim: release the identity, revoke the install.\<close>

definition compensate :: "'w broker_clients \<Rightarrow> broker_env \<Rightarrow> Install \<Rightarrow> string \<Rightarrow> 'w broker_sys \<Rightarrow> 'w broker_sys" where
  "compensate cl e install identityID s =
     (let (err, w) = bc_ReleaseIdentity cl (in_TenantID install) identityID (br_world s)
      in markInstallRevoked e install (s\<lparr>br_world := w\<rparr>))"

text \<open>Steps 4 to 6: tokens, the grant, the final state of the install and the token record.\<close>

definition code_grant_tokens :: "'w broker_clients \<Rightarrow> broker_cfg \<Rightarrow> broker_env \<Rightarrow> AuthCode \<Rightarrow> Install \<Rightarrow> PersonaView \<Rightarrow>
    IdentityView \<Rightarrow> 'w broker_sys \<Rightarrow> broker_reply \<times> 'w broker_sys" where
  "code_grant_tokens cl cfg e ac install persona identity s =
     (let ttl = token_ttl cfg persona;
          issuedAt = now_at e 2;
          expiresAt = issuedAt + ttl * Second;
          grantedScope = scopeString (pv_Scopes persona) (cd_Scope ac)
      in case mint cfg (new_id e 1) issuedAt ttl (iv_SubjectID identity) (cd_ClientID ac) (cd_TenantID ac) grantedScope
                (in_ID install) (cd_PersonaID ac) (iv_ID identity) of
           None \<Rightarrow> (internal ''failed to sign access token'', compensate cl e install (iv_ID identity) s)
         | Some accessToken \<Rightarrow>
             let refreshToken = new_id e 2;
                 (res, w) = bc_CreateGrant cl (cd_TenantID ac)
                   \<lparr>gq_InstallID = in_ID install, gq_IdentityID = iv_ID identity, gq_PersonaID = cd_PersonaID ac,
                    gq_AccessTokenHash = hashToken (bg_jwt cfg) accessToken,
                    gq_RefreshTokenHash = hashToken (bg_jwt cfg) refreshToken, gq_TTLSeconds = ttl\<rparr> (br_world s);
                 s = s\<lparr>br_world := w\<rparr>
             in case res of
                  Inl err \<Rightarrow> (bad_gateway ''grant-service unavailable'', compensate cl e install (iv_ID identity) s)
                | Inr g \<Rightarrow>
                    let st = best_effort_install (op_fails e BOpUpdateInstall) (now_at e 3)
                               (install\<lparr>in_IdentityID := iv_ID identity, in_Status := InstallActive\<rparr>) (br_store s);
                        st = best_effort_token (op_fails e BOpPutToken)
                               \<lparr>tk_AccessToken = accessToken, tk_RefreshToken = refreshToken, tk_InstallID = in_ID install,
                                tk_PersonaID = cd_PersonaID ac, tk_IdentityID = iv_ID identity,
                                tk_Subject = iv_SubjectID identity, tk_Scope = grantedScope,
                                tk_TenantID = cd_TenantID ac, tk_ExpiresAt = expiresAt, tk_RotatedAt = None\<rparr> st
                    in (token_reply accessToken refreshToken ttl grantedScope, s\<lparr>br_store := st\<rparr>))"

text \<open>Step 3: the identity.\<close>

definition code_grant_claim :: "'w broker_clients \<Rightarrow> broker_cfg \<Rightarrow> broker_env \<Rightarrow> AuthCode \<Rightarrow> Install \<Rightarrow> PersonaView \<Rightarrow>
    'w broker_sys \<Rightarrow> broker_reply \<times> 'w broker_sys" where
  "code_grant_claim cl cfg e ac install persona s =
     (let (res, w) = bc_ClaimIdentity cl (cd_TenantID ac) (cd_PoolID ac) (cd_PersonaID ac) (in_ID install) (br_world s);
          s = s\<lparr>br_world := w\<rparr>
      in case res of
           Inl err \<Rightarrow>
             (if has_status StatusConflict err then bad_request ''invalid_request'' ''no free identity in pool''
              else bad_gateway ''pool-service unavailable'', markInstallRevoked e install s)
         | Inr identity \<Rightarrow> code_grant_tokens cl cfg e ac install persona identity s)"

text \<open>Steps 1 and 2: the pending install and the persona.\<close>

definition pending_install :: "broker_env \<Rightarrow> AuthCode \<Rightarrow> Install" where
  "pending_install e ac =
     \<lparr>in_ID = new_id e 0, in_TenantID = cd_TenantID ac, in_Runtime = cd_Runtime ac, in_PersonaID = cd_PersonaID ac,
      in_IdentityID = [], in_ClientID = cd_ClientID ac, in_Status = InstallPending,
      in_CreatedAt = now_at e 1, in_UpdatedAt = now_at e 1\<rparr>"

definition code_grant_install :: "'w broker_clients \<Rightarrow> broker_cfg \<Rightarrow> broker_env \<Rightarrow> AuthCode \<Rightarrow> 'w broker_sys \<Rightarrow>
    broker_reply \<times> 'w broker_sys" where
  "code_grant_install cl cfg e ac s =
     (if op_fails e BOpCreateInstall then (internal ''failed to record install'', s)
      else
        let install = pending_install e ac;
            s = s\<lparr>br_store := CreateInstall install (br_store s)\<rparr>;
            (res, w) = bc_GetPersona cl (cd_TenantID ac) (cd_PersonaID ac) (br_world s);
            s = s\<lparr>br_world := w\<rparr>
        in case res of
             Inl err \<Rightarrow>
               (if has_status StatusNotFound err then bad_request ''invalid_request'' ''persona not found''
                else bad_gateway ''persona-service unavailable'', markInstallRevoked e install s)
           | Inr persona \<Rightarrow> code_grant_claim cl cfg e ac install persona s)"

definition handleCodeGrant :: "'w broker_clients \<Rightarrow> broker_cfg \<Rightarrow> broker_env \<Rightarrow> token_form \<Rightarrow> 'w broker_sys \<Rightarrow>
    broker_reply \<times> 'w broker_sys" where
  "handleCodeGrant cl cfg e f s =
     (if tf_code f = [] then (bad_request ''invalid_request'' ''code is required'', s)
      else if tf_code_verifier f = []
      then (bad_request ''invalid_request'' ''code_verifier is required (PKCE is mandatory)'', s)
      else case store_call (op_fails e BOpConsumeAuthCode) (ConsumeAuthCode (tf_code f) (br_store s)) of
        Got (ac, st) \<Rightarrow>
          let s = s\<lparr>br_store := st\<rparr>
          in if tf_client_id f \<noteq> [] \<and> tf_client_id f \<noteq> cd_ClientID ac
             then (bad_request ''invalid_client'' ''client_id mismatch'', s)
             else if AuthCodeTTLSeconds * Second < now_at e 0 - cd_CreatedAt ac then (invalid_grant ''code expired'', s)
             else if cd_CodeChallenge ac = [] \<or>
                pkceChallengeS256 (bg_jwt cfg) (tf_code_verifier f) \<noteq> cd_CodeChallenge ac
             then (invalid_grant ''code_verifier does not match the code_challenge'', s)
             else code_grant_install cl cfg e ac s
      | _ \<Rightarrow> (invalid_grant ''code is invalid or already used'', s))"

section \<open>The refresh grant\<close>

text \<open>The cascade of a replayed refresh token; every step is best-effort.\<close>

definition revokeInstallForReplay :: "'w broker_clients \<Rightarrow> broker_env \<Rightarrow> TokenRecord \<Rightarrow> 'w broker_sys \<Rightarrow> 'w broker_sys" where
  "revokeInstallForReplay cl e rec s =
     (let (identityID, st) =
            (case store_call (op_fails e BOpGetInstall) (GetInstall (tk_TenantID rec) (tk_InstallID rec) (br_store s)) of
               Got install \<Rightarrow>
                 (if in_IdentityID install \<noteq> [] then in_IdentityID install else tk_IdentityID rec,
                  if in_Status install \<noteq> InstallRevoked
                  then best_effort_install (op_fails e BOpUpdateInstall) (now_at e 3)
                         (install\<lparr>in_Status := InstallRevoked\<rparr>) (br_store s)
                  else br_store s)
             | _ \<Rightarrow> (tk_IdentityID rec, br_store s));
          (err, w) = bc_RevokeGrantsForInstall cl (tk_TenantID rec) (tk_InstallID rec) (br_world s);
          (err, w) = (if identityID \<noteq> [] then bc_ReleaseIdentity cl (tk_TenantID rec) identityID w else (None, w))
      in s\<lparr>br_store := (if op_fails e BOpDeleteTokens then st else snd (DeleteTokensForInstall (tk_InstallID rec) st)),
           br_world := w\<rparr>)"

text \<open>The replacement pair: persona, token, grant, and only then the rotation.\<close>

definition refresh_rotate :: "'w broker_clients \<Rightarrow> broker_cfg \<Rightarrow> broker_env \<Rightarrow> TokenRecord \<Rightarrow> Install \<Rightarrow> 'w broker_sys \<Rightarrow>
    broker_reply \<times> 'w broker_sys" where
  "refresh_rotate cl cfg e rec install s =
     (let (res, w) = bc_GetPersona cl (tk_TenantID rec) (tk_PersonaID rec) (br_world s);
          s = s\<lparr>br_world := w\<rparr>
      in case res of
           Inl err \<Rightarrow>
             (if has_status StatusNotFound err then invalid_grant ''persona no longer exists''
              else bad_gateway ''persona-service unavailable'', s)
         | Inr persona \<Rightarrow>
             let ttl = token_ttl cfg persona;
                 issuedAt = now_at e 0;
                 grantedScope = scopeString (pv_Scopes persona) (tk_Scope rec)
             in (case mint cfg (new_id e 0) issuedAt ttl (tk_Subject rec) (in_ClientID install) (tk_TenantID rec)
                        grantedScope (tk_InstallID rec) (tk_PersonaID rec) (tk_IdentityID rec) of
                   None \<Rightarrow> (internal ''failed to sign access token'', s)
                 | Some accessToken \<Rightarrow>
                     let refreshToken = new_id e 1;
                         (res, w) = bc_CreateGrant cl (tk_TenantID rec)
                           \<lparr>gq_InstallID = tk_InstallID rec, gq_IdentityID = tk_IdentityID rec,
                            gq_PersonaID = tk_PersonaID rec, gq_AccessTokenHash = hashToken (bg_jwt cfg) accessToken,
                            gq_RefreshTokenHash = hashToken (bg_jwt cfg) refreshToken, gq_TTLSeconds = ttl\<rparr> (br_world s);
                         s = s\<lparr>br_world := w\<rparr>
                     in (case res of
                           Inl err \<Rightarrow> (bad_gateway ''grant-service unavailable'', s)
                         | Inr g \<Rightarrow>
                             let st = best_effort_token (op_fails e BOpRotateToken)
                                        (rec\<lparr>tk_RotatedAt := Some (now_at e 1)\<rparr>) (br_store s);
                                 st = best_effort_token (op_fails e BOpPutToken)
                                        \<lparr>tk_AccessToken = accessToken, tk_RefreshToken = refreshToken,
                                         tk_InstallID = tk_InstallID rec, tk_PersonaID = tk_PersonaID rec,
                                         tk_IdentityID = tk_IdentityID rec, tk_Subject = tk_Subject rec,
                                         tk_Scope = grantedScope, tk_TenantID = tk_TenantID rec,
                                         tk_ExpiresAt = issuedAt + ttl * Second, tk_RotatedAt = None\<rparr> st
                             in (token_reply accessToken refreshToken ttl grantedScope, s\<lparr>br_store := st\<rparr>))))"

text \<open>From the record of the presented token on.\<close>

definition refresh_with :: "'w broker_clients \<Rightarrow> broker_cfg \<Rightarrow> broker_env \<Rightarrow> token_form \<Rightarrow> TokenRecord \<Rightarrow> 'w broker_sys \<Rightarrow>
    broker_reply \<times> 'w broker_sys" where
  "refresh_with cl cfg e f rec s =
     (if tk_RotatedAt rec \<noteq> None
      then (invalid_grant ''refresh token already used; install revoked'', revokeInstallForReplay cl e rec s)
      else case store_call (op_fails e BOpGetInstall) (GetInstall (tk_TenantID rec) (tk_InstallID rec) (br_store s)) of
        Got install \<Rightarrow>
          if in_Status install \<noteq> InstallActive then (invalid_grant ''install is not active'', s)
          else if tf_client_id f \<noteq> [] \<and> tf_client_id f \<noteq> in_ClientID install
          then (bad_request ''invalid_client'' ''client_id mismatch'', s)
          else refresh_rotate cl cfg e rec install s
      | _ \<Rightarrow> (invalid_grant ''install is not active'', s))"

definition handleRefreshGrant :: "'w broker_clients \<Rightarrow> broker_cfg \<Rightarrow> broker_env \<Rightarrow> token_form \<Rightarrow> 'w broker_sys \<Rightarrow>
    broker_reply \<times> 'w broker_sys" where
  "handleRefreshGrant cl cfg e f s =
     (if tf_refresh_token f = [] then (bad_request ''invalid_request'' ''refresh_token is required'', s)
      else case store_call (op_fails e BOpGetTokenByRefresh) (GetTokenByRefresh (tf_refresh_token f) (br_store s)) of
        Got rec \<Rightarrow> refresh_with cl cfg e f rec s
      | _ \<Rightarrow> (invalid_grant ''refresh token is invalid'', s))"

text \<open>\<open>None\<close> is a form that does not parse.\<close>

definition Token :: "'w broker_clients \<Rightarrow> broker_cfg \<Rightarrow> broker_env \<Rightarrow> token_form option \<Rightarrow> 'w broker_sys \<Rightarrow>
    broker_reply \<times> 'w broker_sys" where
  "Token cl cfg e form s =
     (case form of
        None \<Rightarrow> (bad_request ''invalid_request'' ''could not parse form body'', s)
      | Some f \<Rightarrow>
          if tf_grant_type f = ''authorization_code'' then handleCodeGrant cl cfg e f s
          else if tf_grant_type f = ''refresh_token'' then handleRefreshGrant cl cfg e f s
          else (bad_request ''unsupported_grant_type'' ''only authorization_code and refresh_token are supported'', s))"

section \<open>Revocation and userinfo\<close>

definition Revoke :: "'w broker_clients \<Rightarrow> broker_env \<Rightarrow> string option \<Rightarrow> 'w broker_sys \<Rightarrow> broker_reply \<times> 'w broker_sys" where
  "Revoke cl e form s =
     (case form of
        None \<Rightarrow> (bad_request ''invalid_request'' ''could not parse form body'', s)
      | Some token \<Rightarrow>
          if token = [] then (bad_request ''invalid_request'' ''token is required'', s)
          else
            let (tenantID, st) =
                  (case store_call (op_fails e BOpGetToken) (GetToken token (br_store s)) of
                     Got rec \<Rightarrow> (tk_TenantID rec,
                       case store_call (op_fails e BOpDeleteToken) (DeleteToken token (br_store s)) of
                         Got st \<Rightarrow> st | _ \<Rightarrow> br_store s)
                   | _ \<Rightarrow> ([], br_store s));
                (err, w) = bc_RevokeToken cl tenantID token (br_world s)
            in (WriteJSON StatusOK BEmpty, s\<lparr>br_store := st, br_world := w\<rparr>))"

text \<open>\<open>auth\<close> is the Authorization header.\<close>

definition UserInfo :: "broker_cfg \<Rightarrow> broker_env \<Rightarrow> string \<Rightarrow> 'w broker_sys \<Rightarrow> broker_reply \<times> 'w broker_sys" where
  "UserInfo cfg e auth s =
     (if \<not> starts_with auth ''Bearer '' then (unauthorized ''bearer token required'', s)
      else
        let token = drop (length ''Bearer '') auth
        in case VerifyToken (bg_jwt cfg) (bg_Verifier cfg) token (now_at e 0) of
             Inl err \<Rightarrow> (unauthorized ''token verification failed'', s)
           | Inr c \<Rightarrow>
               (case store_call (op_fails e BOpGetToken) (GetToken token (br_store s)) of
                  Got rec \<Rightarrow>
                    if tk_ExpiresAt rec < now_at e 1 then (unauthorized ''token expired'', s)
                    else (WriteJSON StatusOK (BUserInfo \<lparr>ui_sub = tk_Subject rec, ui_persona = tk_PersonaID rec,
                            ui_scopes = splitScope (tk_Scope rec), ui_install_id = tk_InstallID rec\<rparr>), s)
                | _ \<Rightarrow> (unauthorized ''token unknown'', s)))"

definition serveJWKS :: "broker_cfg \<Rightarrow> 'w broker_sys \<Rightarrow> broker_reply \<times> 'w broker_sys" where
  "serveJWKS cfg s = (WriteJSON StatusOK (BKeys (JWKS (bg_Signer cfg))), s)"

section \<open>Client registration\<close>

text \<open>The metadata is any JSON object; an empty body stands for the empty object.\<close>

definition ReadMetadata :: "body \<Rightarrow> json_err + (string \<times> json) list" where
  "ReadMetadata b =
     (case b of
        NoBody \<Rightarrow> Inr []
      | BadBody \<Rightarrow> Inl SyntaxErr
      | Body j off \<Rightarrow>
          (case dec_map [] j [] of
             Inl err \<Rightarrow> Inl err
           | Inr ms \<Rightarrow> if MaxBodyBytes < off then Inl TooLarge else Inr ms))"

definition Register :: "broker_env \<Rightarrow> body \<Rightarrow> 'w broker_sys \<Rightarrow> broker_reply \<times> 'w broker_sys" where
  "Register e b s =
     (case ReadMetadata b of
        Inl err \<Rightarrow> (WriteError StatusBadRequest ''invalid_client_metadata'' (ErrText err), s)
      | Inr metadata \<Rightarrow>
          let client = \<lparr>dc_ClientID = new_id e 0, dc_ClientSecret = new_id e 1, dc_ClientMetadata = metadata,
                        dc_CreatedAt = now_at e 0\<rparr>
          in if op_fails e BOpPutClient then (internal ''failed to register client'', s)
             else (WriteJSON StatusCreated (BRegistered metadata (dc_ClientID client) (dc_ClientSecret client)
                     (dc_CreatedAt client div Second - 62135596800)),
                   s\<lparr>br_store := PutClient client (br_store s)\<rparr>))"

section \<open>Install administration\<close>

definition install_create :: "broker_env \<Rightarrow> string option \<Rightarrow> body \<Rightarrow> 'w broker_sys \<Rightarrow> broker_reply \<times> 'w broker_sys" where
  "install_create e tenant b s =
     (case tenant of
        None \<Rightarrow> (no_tenant, s)
      | Some tenantID \<Rightarrow>
          (case ReadJSON CreateInstallRequest_fields no_create_install b of
             Inl err \<Rightarrow> (json_error err, s)
           | Inr req \<Rightarrow>
               let runtime = TrimSpace (ci_Runtime req)
               in if \<not> ValidRuntime runtime
                  then (bad_request ''invalid_runtime'' ''runtime must be one of claude|chatgpt|cursor|custom'', s)
                  else if TrimSpace (ci_PersonaID req) = [] then (bad_request ''invalid_persona_id'' ''persona_id is required'', s)
                  else if TrimSpace (ci_ClientID req) = [] then (bad_request ''invalid_client_id'' ''client_id is required'', s)
                  else if op_fails e BOpCreateInstall then (internal ''failed to create install'', s)
                  else
                    let i = \<lparr>in_ID = new_id e 0, in_TenantID = tenantID, in_Runtime = runtime,
                             in_PersonaID = ci_PersonaID req, in_IdentityID = [], in_ClientID = ci_ClientID req,
                             in_Status = InstallPending, in_CreatedAt = now_at e 0, in_UpdatedAt = now_at e 0\<rparr>
                    in (WriteJSON StatusCreated (BInstall i), s\<lparr>br_store := CreateInstall i (br_store s)\<rparr>)))"

definition install_list :: "broker_env \<Rightarrow> string option \<Rightarrow> string \<Rightarrow> cursor_param \<Rightarrow> 'w broker_sys \<Rightarrow>
    broker_reply \<times> 'w broker_sys" where
  "install_list e tenant q_limit q_cursor s =
     (case tenant of
        None \<Rightarrow> (no_tenant, s)
      | Some tenantID \<Rightarrow>
          (case list_query q_limit q_cursor of
             Inl err \<Rightarrow> (err, s)
           | Inr (limit, cursor) \<Rightarrow>
               if op_fails e BOpListInstalls then (internal ''failed to list installs'', s)
               else let items = ListInstalls tenantID limit cursor (br_store s)
                    in (WriteJSON StatusOK (BInstalls items (next_cursor in_CreatedAt limit items)), s)))"

definition install_get :: "broker_env \<Rightarrow> string option \<Rightarrow> string \<Rightarrow> 'w broker_sys \<Rightarrow> broker_reply \<times> 'w broker_sys" where
  "install_get e tenant iid s =
     (case tenant of
        None \<Rightarrow> (no_tenant, s)
      | Some tenantID \<Rightarrow>
          if iid = [] then (bad_request ''invalid_id'' ''id is required'', s)
          else (case store_call (op_fails e BOpGetInstall) (GetInstall tenantID iid (br_store s)) of
                  ErrNotFound \<Rightarrow> (no_such ''install not found'', s)
                | ErrOther \<Rightarrow> (internal ''failed to read install'', s)
                | Got i \<Rightarrow> (WriteJSON StatusOK (BInstall i), s)))"

text \<open>The cascade of an admin's revocation; the calls downstream are best-effort.\<close>

definition install_revoke :: "'w broker_clients \<Rightarrow> broker_env \<Rightarrow> string option \<Rightarrow> string \<Rightarrow> 'w broker_sys \<Rightarrow>
    broker_reply \<times> 'w broker_sys" where
  "install_revoke cl e tenant iid s =
     (case tenant of
        None \<Rightarrow> (no_tenant, s)
      | Some tenantID \<Rightarrow>
          if iid = [] then (bad_request ''invalid_id'' ''id is required'', s)
          else (case store_call (op_fails e BOpGetInstall) (GetInstall tenantID iid (br_store s)) of
            ErrNotFound \<Rightarrow> (no_such ''install not found'', s)
          | ErrOther \<Rightarrow> (internal ''failed to read install'', s)
          | Got existing \<Rightarrow>
              if in_Status existing = InstallRevoked then (NoContent, s)
              else if op_fails e BOpUpdateInstall then (internal ''failed to revoke install'', s)
              else (case UpdateInstall (now_at e 0) (existing\<lparr>in_Status := InstallRevoked\<rparr>) (br_store s) of
                 None \<Rightarrow> (internal ''failed to revoke install'', s)
               | Some (_, st) \<Rightarrow>
                   let (err, w) = bc_RevokeGrantsForInstall cl tenantID iid (br_world s);
                       (err, w) = (if in_IdentityID existing \<noteq> []
                                   then bc_ReleaseIdentity cl tenantID (in_IdentityID existing) w else (None, w))
                   in (NoContent, s\<lparr>br_store := st, br_world := w\<rparr>))))"

section \<open>The router and the purge\<close>

datatype broker_route =
    BAuthorize authorize_query
  | BToken "token_form option"
  | BRevoke "string option"
  | BUserInfoGet string
  | BJWKS
  | BRegister body
  | BHealth

datatype install_route =
    ICreate body
  | IList string cursor_param
  | IGet string
  | IRevoke string

fun broker_public :: "'w broker_clients \<Rightarrow> broker_cfg \<Rightarrow> broker_env \<Rightarrow> broker_route \<Rightarrow> 'w broker_sys \<Rightarrow>
    broker_reply \<times> 'w broker_sys" where
  "broker_public cl cfg e (BAuthorize q) s = AuthorizeCode cfg e q s"
| "broker_public cl cfg e (BToken f) s = Token cl cfg e f s"
| "broker_public cl cfg e (BRevoke t) s = Revoke cl e t s"
| "broker_public cl cfg e (BUserInfoGet auth) s = UserInfo cfg e auth s"
| "broker_public cl cfg e BJWKS s = serveJWKS cfg s"
| "broker_public cl cfg e (BRegister b) s = Register e b s"
| "broker_public cl cfg e BHealth s = (WriteJSON StatusOK BHealthz, s)"

fun broker_v1 :: "'w broker_clients \<Rightarrow> broker_env \<Rightarrow> install_route \<Rightarrow> string option \<Rightarrow> 'w broker_sys \<Rightarrow>
    broker_reply \<times> 'w broker_sys" where
  "broker_v1 cl e (ICreate b) t s = install_create e t b s"
| "broker_v1 cl e (IList l c) t s = install_list e t l c s"
| "broker_v1 cl e (IGet i) t s = install_get e t i s"
| "broker_v1 cl e (IRevoke i) t s = install_revoke cl e t i s"

text \<open>What happens to the service: a public request, an administrator's request, a tick of the purge.\<close>

datatype broker_event =
    Public broker_env broker_route
  | Admin broker_env install_route gate_request
  | Purge time bool

fun broker_step :: "'w broker_clients \<Rightarrow> broker_cfg \<Rightarrow> broker_event \<Rightarrow> 'w broker_sys \<Rightarrow> broker_reply \<times> 'w broker_sys" where
  "broker_step cl cfg (Public e rt) s = broker_public cl cfg e rt s"
| "broker_step cl cfg (Admin e rt r) s = TenantMiddleware (broker_v1 cl e rt) r s"
| "broker_step cl cfg (Purge now fails) s =
     (NoContent, if fails then s else s\<lparr>br_store := snd (PurgeExpired now (br_store s))\<rparr>)"

end
