(* ===== verification/BrokerLife.thy ===== *)
theory BrokerLife
  imports BrokerService
begin

text \<open>
  The moves of broker-service's store.  Every handler is a sequence of a few elementary moves on
  installs, codes and token records; the invariant of the store, the finality of a revoked install and
  of a spent refresh token follow from the moves alone.
\<close>

section \<open>Moves\<close>

definition broker_wf :: "broker_store \<Rightarrow> bool" where
  "broker_wf s \<longleftrightarrow> tab_wf in_ID (bs_installs s) \<and> tab_wf cd_Code (bs_codes s) \<and> tab_wf tk_AccessToken (bs_tokens s)"

text \<open>A table some of whose rows were dropped.\<close>

definition fewer :: "'r table \<Rightarrow> 'r table \<Rightarrow> bool" where
  "fewer m' m \<longleftrightarrow> (\<exists>P. m' = filter P m)"

text \<open>
  \<open>NC\<close> and \<open>NT\<close> say which codes and which pairs of tokens may be new.
\<close>

inductive store_moves :: "(string \<Rightarrow> bool) \<Rightarrow> (string \<Rightarrow> string \<Rightarrow> bool) \<Rightarrow> broker_store \<Rightarrow> broker_store \<Rightarrow> bool"
  for NC NT where
  Stay: "store_moves NC NT s s"
| NewInstall: "tab_get (bs_installs s) (in_ID i) = None \<Longrightarrow> in_Status i = InstallPending \<Longrightarrow>
    store_moves NC NT s (CreateInstall i s)"
| SetInstall: "tab_get (bs_installs s) (in_ID i) = Some old \<Longrightarrow> in_TenantID i = in_TenantID old \<Longrightarrow>
    in_Status i = InstallRevoked \<or> in_Status old = InstallPending \<and> in_Status i = InstallActive \<Longrightarrow>
    store_moves NC NT s (CreateInstall i s)"
| NewCode: "NC (cd_Code ac) \<Longrightarrow> store_moves NC NT s (s\<lparr>bs_codes := tab_put (cd_Code ac) ac (bs_codes s)\<rparr>)"
| DropCodes: "fewer cs (bs_codes s) \<Longrightarrow> store_moves NC NT s (s\<lparr>bs_codes := cs\<rparr>)"
| NewToken: "NT (tk_AccessToken t) (tk_RefreshToken t) \<Longrightarrow> tk_RotatedAt t = None \<Longrightarrow>
    tab_get (bs_installs s) (tk_InstallID t) = Some i \<Longrightarrow> in_TenantID i = tk_TenantID t \<Longrightarrow> in_Status i \<noteq> InstallRevoked \<Longrightarrow>
    store_moves NC NT s (PutToken t s)"
| Rotate: "tab_get (bs_tokens s) (tk_AccessToken t) = Some t \<Longrightarrow>
    store_moves NC NT s (PutToken (t\<lparr>tk_RotatedAt := Some now\<rparr>) s)"
| DropTokens: "fewer ts (bs_tokens s) \<Longrightarrow> store_moves NC NT s (s\<lparr>bs_tokens := ts\<rparr>)"
| NewClient: "store_moves NC NT s (PutClient c s)"
| Then: "store_moves NC NT s s' \<Longrightarrow> store_moves NC NT s' s'' \<Longrightarrow> store_moves NC NT s s''"

lemma install_row: "broker_wf s \<Longrightarrow> tab_get (bs_installs s) k = Some i \<Longrightarrow> in_ID i = k"
  using tab_wf_get [of in_ID "bs_installs s" k i] by (simp add: broker_wf_def)

lemma token_row: "broker_wf s \<Longrightarrow> tab_get (bs_tokens s) k = Some t \<longleftrightarrow> t \<in> set (tab_rows (bs_tokens s)) \<and> tk_AccessToken t = k"
  using tab_wf_get [of tk_AccessToken "bs_tokens s" k t] by (simp add: broker_wf_def)

lemma GetInstall_Some: "GetInstall t k s = Some i \<longleftrightarrow> tab_get (bs_installs s) k = Some i \<and> in_TenantID i = t"
  by (auto simp: GetInstall_def split: option.splits)

lemma CreateInstall_fields [simp]:
  "bs_codes (CreateInstall i s) = bs_codes s" "bs_tokens (CreateInstall i s) = bs_tokens s"
  "bs_clients (CreateInstall i s) = bs_clients s"
  by (simp_all add: CreateInstall_def)

lemma CreateInstall_get [table_simps]:
  "tab_get (bs_installs (CreateInstall i s)) k = (if k = in_ID i then Some i else tab_get (bs_installs s) k)"
  by (simp add: CreateInstall_def table_simps)

lemma PutToken_fields [simp]:
  "bs_codes (PutToken t s) = bs_codes s" "bs_installs (PutToken t s) = bs_installs s" "bs_clients (PutToken t s) = bs_clients s"
  by (simp_all add: PutToken_def)

lemma PutToken_get [table_simps]:
  "tab_get (bs_tokens (PutToken t s)) k = (if k = tk_AccessToken t then Some t else tab_get (bs_tokens s) k)"
  by (simp add: PutToken_def table_simps)

lemma PutToken_rows: "set (tab_rows (bs_tokens (PutToken t s))) \<subseteq> insert t (set (tab_rows (bs_tokens s)))"
  using tab_rows_put_subset [of "tk_AccessToken t" t "bs_tokens s"] by (simp add: PutToken_def)

lemma PutClient_fields [simp]:
  "bs_codes (PutClient c s) = bs_codes s" "bs_installs (PutClient c s) = bs_installs s" "bs_tokens (PutClient c s) = bs_tokens s"
  by (simp_all add: PutClient_def)

lemma fewer_wf: "fewer m' m \<Longrightarrow> tab_wf rid m \<Longrightarrow> tab_wf rid m'"
  by (auto simp: fewer_def tab_wf_def distinct_map_filter)

lemma fewer_rows: "fewer m' m \<Longrightarrow> set (tab_rows m') \<subseteq> set (tab_rows m)"
  by (auto simp: fewer_def tab_rows_def)

lemma fewer_del: "fewer (tab_del k m) m"
  by (auto simp: fewer_def tab_del_def AList.delete_eq)

lemma fewer_filter: "fewer (filter P m) m"
  by (auto simp: fewer_def)

lemma fewer_get:
  assumes "fewer m' m" "tab_wf rid m" "tab_get m' k = Some r"
  shows "tab_get m k = Some r"
  using assms fewer_rows [OF assms(1)] tab_wf_get [OF fewer_wf [OF assms(1,2)]] tab_wf_get [OF assms(2)] by blast

lemma store_moves_wf: "store_moves NC NT s s' \<Longrightarrow> broker_wf s \<Longrightarrow> broker_wf s'"
  by (induction rule: store_moves.induct)
    (auto simp: broker_wf_def CreateInstall_def PutToken_def PutClient_def intro!: tab_wf_put intro: fewer_wf)

section \<open>Installs\<close>

text \<open>An install keeps its row, its tenant, and a revoked one stays revoked.\<close>

lemma moves_install:
  assumes "store_moves NC NT s s'" "broker_wf s" "tab_get (bs_installs s) k = Some i"
  shows "\<exists>i'. tab_get (bs_installs s') k = Some i' \<and> in_TenantID i' = in_TenantID i \<and>
    (in_Status i = InstallRevoked \<longrightarrow> in_Status i' = InstallRevoked)"
  using assms
proof (induction arbitrary: i rule: store_moves.induct)
  case (SetInstall s j old)
  then show ?case by (auto simp: table_simps install_status_defs)
next
  case (Then s s' s'')
  then show ?case using store_moves_wf by metis
qed (auto simp: table_simps)

section \<open>The invariant\<close>

text \<open>
  No two token records share a refresh token, and every token record belongs to a stored install of
  its tenant.
\<close>

definition refresh_unique :: "TokenRecord list \<Rightarrow> bool" where
  "refresh_unique ts \<longleftrightarrow> (\<forall>x\<in>set ts. \<forall>y\<in>set ts. tk_RefreshToken x = tk_RefreshToken y \<longrightarrow> x = y)"

definition has_install :: "broker_store \<Rightarrow> TokenRecord \<Rightarrow> bool" where
  "has_install s t \<longleftrightarrow> (case tab_get (bs_installs s) (tk_InstallID t) of
     None \<Rightarrow> False | Some i \<Rightarrow> in_TenantID i = tk_TenantID t)"

definition broker_inv :: "broker_store \<Rightarrow> bool" where
  "broker_inv s \<longleftrightarrow> broker_wf s \<and> refresh_unique (tab_rows (bs_tokens s)) \<and>
     (\<forall>t\<in>set (tab_rows (bs_tokens s)). has_install s t \<and> tk_RefreshToken t \<noteq> [])"

lemma has_install_moves:
  assumes "store_moves NC NT s s'" "broker_wf s" "has_install s t"
  shows "has_install s' t"
proof -
  obtain i where i: "tab_get (bs_installs s) (tk_InstallID t) = Some i" "in_TenantID i = tk_TenantID t"
    using assms(3) by (auto simp: has_install_def split: option.splits)
  with moves_install [OF assms(1,2) i(1)] show ?thesis by (auto simp: has_install_def)
qed

lemma PutToken_replaced:
  assumes "broker_wf s" "t \<in> set (tab_rows (bs_tokens (PutToken x s)))"
  shows "t = x \<or> t \<in> set (tab_rows (bs_tokens s)) \<and> tk_AccessToken t \<noteq> tk_AccessToken x"
proof -
  have wf: "tab_wf tk_AccessToken (bs_tokens (PutToken x s))"
    using assms(1) by (auto simp: broker_wf_def PutToken_def intro!: tab_wf_put)
  have get: "tab_get (bs_tokens (PutToken x s)) (tk_AccessToken t) = Some t"
    using assms(2) tab_wf_get [OF wf, of "tk_AccessToken t" t] by simp
  show ?thesis
  proof (cases "tk_AccessToken t = tk_AccessToken x")
    case True
    with get show ?thesis by (simp add: table_simps)
  next
    case False
    with get have "tab_get (bs_tokens s) (tk_AccessToken t) = Some t" by (simp add: table_simps)
    with False show ?thesis using token_row [OF assms(1), THEN iffD1] by blast
  qed
qed

text \<open>
  One move keeps the invariant.  A step hands out at most one pair, so its moves are checked against
  what is still unused: a pair once put is used.
\<close>

lemma inv_put:
  assumes inv: "broker_inv s" and t: "has_install s t" "tk_RefreshToken t \<noteq> []"
    and other: "\<And>x. x \<in> set (tab_rows (bs_tokens s)) \<Longrightarrow> tk_AccessToken x \<noteq> tk_AccessToken t \<Longrightarrow>
      tk_RefreshToken x \<noteq> tk_RefreshToken t"
  shows "broker_inv (PutToken t s)"
proof -
  have wf: "broker_wf s" using inv by (simp add: broker_inv_def)
  note rows = PutToken_replaced [OF wf, of _ t]
  have "refresh_unique (tab_rows (bs_tokens (PutToken t s)))"
    unfolding refresh_unique_def
  proof (intro ballI impI)
    fix x y assume "x \<in> set (tab_rows (bs_tokens (PutToken t s)))" "y \<in> set (tab_rows (bs_tokens (PutToken t s)))"
      and same: "tk_RefreshToken x = tk_RefreshToken y"
    with rows have x: "x = t \<or> x \<in> set (tab_rows (bs_tokens s)) \<and> tk_AccessToken x \<noteq> tk_AccessToken t"
      and y: "y = t \<or> y \<in> set (tab_rows (bs_tokens s)) \<and> tk_AccessToken y \<noteq> tk_AccessToken t" by blast+
    show "x = y"
    proof (cases "x = t \<or> y = t")
      case True
      then show ?thesis using x y same other by metis
    next
      case False
      then show ?thesis using x y same inv by (simp add: broker_inv_def refresh_unique_def)
    qed
  qed
  moreover have "broker_wf (PutToken t s)" using wf by (auto simp: broker_wf_def PutToken_def intro!: tab_wf_put)
  moreover have "\<forall>x\<in>set (tab_rows (bs_tokens (PutToken t s))). has_install (PutToken t s) x \<and> tk_RefreshToken x \<noteq> []"
    using rows inv t by (auto simp: broker_inv_def has_install_def)
  ultimately show ?thesis by (simp add: broker_inv_def)
qed

lemma inv_fewer:
  assumes inv: "broker_inv s" and ts: "fewer ts (bs_tokens s)"
  shows "broker_inv (s\<lparr>bs_tokens := ts\<rparr>)"
proof -
  have sub: "x \<in> set (tab_rows (bs_tokens s))" if "x \<in> set (tab_rows ts)" for x
    using fewer_rows [OF ts] that by blast
  have "refresh_unique (tab_rows ts)"
    using inv sub unfolding broker_inv_def refresh_unique_def by blast
  moreover have "has_install (s\<lparr>bs_tokens := ts\<rparr>) x \<and> tk_RefreshToken x \<noteq> []" if "x \<in> set (tab_rows ts)" for x
    using inv sub [OF that] by (simp add: broker_inv_def has_install_def)
  moreover have "broker_wf (s\<lparr>bs_tokens := ts\<rparr>)"
    using inv fewer_wf [OF ts] by (simp add: broker_inv_def broker_wf_def)
  ultimately show ?thesis by (simp add: broker_inv_def)
qed

lemma inv_install:
  assumes inv: "broker_inv s" and i: "\<And>old. tab_get (bs_installs s) (in_ID i) = Some old \<Longrightarrow> in_TenantID i = in_TenantID old"
  shows "broker_inv (CreateInstall i s)"
proof -
  have "has_install (CreateInstall i s) t" if "has_install s t" for t
    using that i by (auto simp: has_install_def table_simps split: option.splits)
  moreover have "tab_wf in_ID (bs_installs (CreateInstall i s))"
    using inv by (auto simp: broker_inv_def broker_wf_def CreateInstall_def intro!: tab_wf_put)
  ultimately show ?thesis using inv by (auto simp: broker_inv_def broker_wf_def)
qed

text \<open>The refresh tokens of a store are among \<open>used\<close> or new.\<close>

definition drawn_from :: "string set \<Rightarrow> (string \<Rightarrow> string \<Rightarrow> bool) \<Rightarrow> broker_store \<Rightarrow> bool" where
  "drawn_from used NT s \<longleftrightarrow> (\<forall>x\<in>set (tab_rows (bs_tokens s)).
     tk_RefreshToken x \<in> used \<or> NT (tk_AccessToken x) (tk_RefreshToken x))"

lemma drawn_from_put:
  assumes "broker_wf s" "drawn_from used NT s" "tk_RefreshToken t \<in> used \<or> NT (tk_AccessToken t) (tk_RefreshToken t)"
  shows "drawn_from used NT (PutToken t s)"
  using assms PutToken_replaced [OF assms(1), of _ t] unfolding drawn_from_def by blast

text \<open>A step that hands out at most one pair, with a refresh token not used so far, keeps the invariant.\<close>

lemma store_moves_inv:
  assumes "store_moves NC NT s s'"
    and one: "\<And>a r a' r'. NT a r \<Longrightarrow> NT a' r' \<Longrightarrow> a = a' \<and> r = r'"
    and new: "\<And>a r. NT a r \<Longrightarrow> r \<notin> used \<and> r \<noteq> []"
    and "broker_inv s" "drawn_from used NT s"
  shows "broker_inv s' \<and> drawn_from used NT s'"
  using assms(1,4,5)
proof (induction rule: store_moves.induct)
  case (NewInstall s i)
  then show ?case using inv_install [of s i] by (simp add: drawn_from_def)
next
  case (SetInstall s i old)
  then show ?case using inv_install [of s i] by (simp add: drawn_from_def)
next
  case (NewCode ac s)
  then show ?case by (simp add: broker_inv_def broker_wf_def has_install_def drawn_from_def tab_wf_put)
next
  case (DropCodes cs s)
  then show ?case using fewer_wf by (auto simp: broker_inv_def broker_wf_def has_install_def drawn_from_def)
next
  case (NewToken t s i)
  have wf: "broker_wf s" using NewToken by (simp add: broker_inv_def)
  have "tk_RefreshToken x \<noteq> tk_RefreshToken t"
    if x: "x \<in> set (tab_rows (bs_tokens s))" "tk_AccessToken x \<noteq> tk_AccessToken t" for x
  proof
    assume same: "tk_RefreshToken x = tk_RefreshToken t"
    have "tk_RefreshToken x \<in> used \<or> NT (tk_AccessToken x) (tk_RefreshToken x)"
      using NewToken.prems(2) x(1) by (simp add: drawn_from_def)
    then have "NT (tk_AccessToken x) (tk_RefreshToken x)" using new [OF NewToken.hyps(1)] same by simp
    from one [OF NewToken.hyps(1) this] show False using x(2) by simp
  qed
  moreover have "has_install s t" using NewToken by (simp add: has_install_def)
  ultimately have "broker_inv (PutToken t s)"
    using NewToken.prems(1) new [OF NewToken.hyps(1)] by (intro inv_put) auto
  then show ?case using drawn_from_put [OF wf NewToken.prems(2)] NewToken.hyps(1) by blast
next
  case (Rotate s t now)
  have wf: "broker_wf s" using Rotate by (simp add: broker_inv_def)
  have t: "t \<in> set (tab_rows (bs_tokens s))" using Rotate token_row [OF wf] by blast
  let ?t = "t\<lparr>tk_RotatedAt := Some now\<rparr>"
  have "tk_RefreshToken x \<noteq> tk_RefreshToken t"
    if "x \<in> set (tab_rows (bs_tokens s))" "tk_AccessToken x \<noteq> tk_AccessToken t" for x
    using Rotate.prems(1) t that unfolding broker_inv_def refresh_unique_def by metis
  moreover have "has_install s t" "tk_RefreshToken t \<noteq> []"
    using Rotate.prems(1) t by (auto simp: broker_inv_def)
  moreover from this have "has_install s ?t" by (simp add: has_install_def split: option.splits)
  ultimately have "broker_inv (PutToken ?t s)"
    using Rotate.prems(1) by (intro inv_put) simp_all
  moreover have "tk_RefreshToken t \<in> used \<or> NT (tk_AccessToken t) (tk_RefreshToken t)"
    using Rotate.prems(2) t by (simp add: drawn_from_def)
  ultimately show ?case using drawn_from_put [OF wf Rotate.prems(2), of ?t] by simp
next
  case (DropTokens ts s)
  then show ?case using inv_fewer [of s ts] fewer_rows [of ts "bs_tokens s"] by (auto simp: drawn_from_def)
next
  case (NewClient s c)
  then show ?case by (simp add: broker_inv_def broker_wf_def has_install_def drawn_from_def)
qed simp_all

section \<open>What never comes back\<close>

text \<open>A revoked install without token records, a spent refresh token, a deleted access token, a redeemed code.\<close>

definition dead_install :: "string \<Rightarrow> broker_store \<Rightarrow> bool" where
  "dead_install k s \<longleftrightarrow> (\<exists>i. tab_get (bs_installs s) k = Some i \<and> in_Status i = InstallRevoked) \<and>
     (\<forall>t\<in>set (tab_rows (bs_tokens s)). tk_InstallID t \<noteq> k)"

definition spent :: "string \<Rightarrow> broker_store \<Rightarrow> bool" where
  "spent r s \<longleftrightarrow> (\<forall>t\<in>set (tab_rows (bs_tokens s)). tk_RefreshToken t = r \<longrightarrow> tk_RotatedAt t \<noteq> None)"

lemma moves_dead_install: "store_moves NC NT s s' \<Longrightarrow> broker_wf s \<Longrightarrow> dead_install k s \<Longrightarrow> dead_install k s'"
proof (induction rule: store_moves.induct)
  case (NewInstall s i)
  then show ?case by (auto simp: dead_install_def table_simps)
next
  case (SetInstall s i old)
  then show ?case by (auto simp: dead_install_def table_simps install_status_defs)
next
  case (NewToken t s i)
  then have "tk_InstallID t \<noteq> k" by (auto simp: dead_install_def)
  with NewToken.prems(2) show ?case using PutToken_rows [of t s] by (auto simp: dead_install_def)
next
  case (Rotate s t now)
  then have "t \<in> set (tab_rows (bs_tokens s))" using token_row by blast
  then have "tk_InstallID t \<noteq> k" using Rotate.prems(2) by (simp add: dead_install_def)
  with Rotate.prems(2) show ?case
    using PutToken_rows [of "t\<lparr>tk_RotatedAt := Some now\<rparr>" s] by (auto simp: dead_install_def)
next
  case (DropTokens ts s)
  then show ?case using fewer_rows [OF DropTokens(1)] by (auto simp: dead_install_def)
next
  case (Then s s' s'')
  then show ?case using store_moves_wf by blast
qed (simp_all add: dead_install_def)

lemma moves_spent: "store_moves NC NT s s' \<Longrightarrow> (\<And>a. \<not> NT a r) \<Longrightarrow> broker_wf s \<Longrightarrow> spent r s \<Longrightarrow> spent r s'"
proof (induction rule: store_moves.induct)
  case (NewToken t s i)
  then show ?case using PutToken_rows [of t s] by (auto simp: spent_def)
next
  case (Rotate s t now)
  then show ?case using PutToken_rows [of "t\<lparr>tk_RotatedAt := Some now\<rparr>" s] by (fastforce simp: spent_def)
next
  case (DropTokens ts s)
  then show ?case using fewer_rows [OF DropTokens(1)] by (auto simp: spent_def)
next
  case (Then s s' s'')
  then show ?case using store_moves_wf by blast
qed (auto simp: spent_def)

lemma moves_no_token:
  "store_moves NC NT s s' \<Longrightarrow> (\<And>r. \<not> NT a r) \<Longrightarrow> broker_wf s \<Longrightarrow> tab_get (bs_tokens s) a = None \<Longrightarrow> tab_get (bs_tokens s') a = None"
proof (induction rule: store_moves.induct)
  case (NewToken t s i)
  then show ?case by (auto simp: table_simps)
next
  case (Rotate s t now)
  then show ?case by (auto simp: table_simps)
next
  case (DropTokens ts s)
  then show ?case using fewer_get [of ts "bs_tokens s" tk_AccessToken a]
    by (cases "tab_get ts a") (auto simp: broker_wf_def)
next
  case (Then s s' s'')
  then show ?case using store_moves_wf by blast
qed simp_all

lemma moves_no_code:
  "store_moves NC NT s s' \<Longrightarrow> \<not> NC c \<Longrightarrow> broker_wf s \<Longrightarrow> tab_get (bs_codes s) c = None \<Longrightarrow> tab_get (bs_codes s') c = None"
proof (induction rule: store_moves.induct)
  case (NewCode ac s)
  then show ?case by (auto simp: table_simps)
next
  case (DropCodes cs s)
  then show ?case using fewer_get [of cs "bs_codes s" cd_Code c]
    by (cases "tab_get cs c") (auto simp: broker_wf_def)
next
  case (Then s s' s'')
  then show ?case using store_moves_wf by blast
qed simp_all

end
