(* ===== verification/BrokerSteps.thy ===== *)
theory BrokerSteps
  imports BrokerLife
begin

text \<open>
  Every event of broker-service moves its store by the elementary moves only, and hands out at most the
  pair of tokens its reply shows; runs of events.
\<close>

section \<open>What an event mints\<close>

text \<open>The pair of tokens of a reply, and the code an event may issue.\<close>

definition mints :: "broker_reply \<Rightarrow> string \<Rightarrow> string \<Rightarrow> bool" where
  "mints rep a r \<longleftrightarrow>
     (case rep of WriteJSON st (BTokens t) \<Rightarrow> tr_access_token t = a \<and> tr_refresh_token t = r | _ \<Rightarrow> False)"

definition codes_of :: "broker_event \<Rightarrow> string \<Rightarrow> bool" where
  "codes_of ev c \<longleftrightarrow> (case ev of Public e (BAuthorize q) \<Rightarrow> new_id e 0 = c | _ \<Rightarrow> False)"

definition event_env :: "broker_event \<Rightarrow> broker_env option" where
  "event_env ev = (case ev of Public e rt \<Rightarrow> Some e | Admin e rt g \<Rightarrow> Some e | Purge now f \<Rightarrow> None)"

text \<open>The uuid an event may use for an install is new.\<close>

definition install_fresh :: "broker_event \<Rightarrow> broker_store \<Rightarrow> bool" where
  "install_fresh ev s \<longleftrightarrow>
     (case event_env ev of None \<Rightarrow> True | Some e \<Rightarrow> tab_get (bs_installs s) (new_id e 0) = None)"

lemma mints_one: "mints rep a r \<Longrightarrow> mints rep a' r' \<Longrightarrow> a = a' \<and> r = r'"
  by (auto simp: mints_def split: reply.splits broker_payload.splits)

lemma mints_token_reply [simp]: "mints (token_reply a r ttl sc) = (\<lambda>a' r'. a = a' \<and> r = r')"
  by (intro ext) (simp add: mints_def token_reply_def)

section \<open>Moves of the handlers\<close>

lemma UpdateInstall_SomeE:
  assumes "UpdateInstall now i s = Some (i', s')"
  obtains old where "tab_get (bs_installs s) (in_ID i) = Some old" "in_TenantID old = in_TenantID i"
    "i' = i\<lparr>in_CreatedAt := in_CreatedAt old, in_UpdatedAt := now\<rparr>" "s' = CreateInstall i' s"
  using assms by (auto simp: UpdateInstall_def CreateInstall_def Let_def split: option.splits if_splits)

lemma update_moves:
  assumes "UpdateInstall now i s = Some (i', s')"
    and "\<And>old. tab_get (bs_installs s) (in_ID i) = Some old \<Longrightarrow> in_TenantID old = in_TenantID i \<Longrightarrow>
      in_Status i = InstallRevoked \<or> in_Status old = InstallPending \<and> in_Status i = InstallActive"
  shows "store_moves NC NT s s'"
proof -
  obtain old where old: "tab_get (bs_installs s) (in_ID i) = Some old" "in_TenantID old = in_TenantID i"
    and i': "i' = i\<lparr>in_CreatedAt := in_CreatedAt old, in_UpdatedAt := now\<rparr>" "s' = CreateInstall i' s"
    by (rule UpdateInstall_SomeE [OF assms(1)])
  show ?thesis unfolding i'(2) by (rule SetInstall [where old = old]) (use old i' assms(2) [OF old] in auto)
qed

lemma best_effort_install_moves:
  assumes "\<And>old. tab_get (bs_installs s) (in_ID i) = Some old \<Longrightarrow> in_TenantID old = in_TenantID i \<Longrightarrow>
      in_Status i = InstallRevoked \<or> in_Status old = InstallPending \<and> in_Status i = InstallActive"
  shows "store_moves NC NT s (best_effort_install f now i s)"
  using assms by (auto simp: best_effort_install_def intro: Stay update_moves split: option.splits)

lemma mark_revoked_moves: "store_moves NC NT (br_store s) (br_store (markInstallRevoked e i s))"
  by (auto simp: markInstallRevoked_def intro: best_effort_install_moves)

lemma compensate_moves: "store_moves NC NT (br_store s) (br_store (compensate cl e i iid s))"
  using mark_revoked_moves [of NC NT "s\<lparr>br_world := w\<rparr>" for w]
  by (auto simp: compensate_def split: prod.splits)

lemma best_effort_install_fields [simp]:
  "bs_tokens (best_effort_install f now i s) = bs_tokens s" "bs_codes (best_effort_install f now i s) = bs_codes s"
  by (auto simp: best_effort_install_def UpdateInstall_def Let_def split: option.splits if_splits)

text \<open>An install after a write of it: itself up to its instants, or untouched.\<close>

lemma best_effort_install_get:
  assumes "tab_get (bs_installs s) (in_ID i) = Some old" "in_TenantID old = in_TenantID i"
  shows "\<exists>i'. tab_get (bs_installs (best_effort_install f now i s)) (in_ID i) = Some i' \<and>
    in_TenantID i' = in_TenantID i \<and> in_Status i' = (if f then in_Status old else in_Status i)"
  using assms by (auto simp: best_effort_install_def UpdateInstall_def Let_def table_simps)

lemma best_effort_token_moves:
  assumes "NT (tk_AccessToken t) (tk_RefreshToken t)" "tk_RotatedAt t = None"
    "tab_get (bs_installs s) (tk_InstallID t) = Some i" "in_TenantID i = tk_TenantID t" "in_Status i \<noteq> InstallRevoked"
  shows "store_moves NC NT s (best_effort_token f t s)"
  using NewToken [of NT, OF assms] by (simp add: best_effort_token_def Stay)

lemma code_grant_tokens_moves:
  assumes i: "tab_get (bs_installs (br_store s)) (in_ID install) = Some install" "in_Status install = InstallPending"
    "in_TenantID install = cd_TenantID ac"
  shows "store_moves NC (mints (fst (code_grant_tokens cl cfg e ac install persona identity s)))
    (br_store s) (br_store (snd (code_grant_tokens cl cfg e ac install persona identity s)))"
proof -
  have "store_moves NC (mints (token_reply a r ttl sc)) (br_store s) (best_effort_token g t
      (best_effort_install f now (install\<lparr>in_IdentityID := x, in_Status := InstallActive\<rparr>) (br_store s)))"
    if "tk_AccessToken t = a" "tk_RefreshToken t = r" "tk_RotatedAt t = None" "tk_InstallID t = in_ID install"
      "tk_TenantID t = cd_TenantID ac" for a r ttl sc f g now x and t :: TokenRecord
  proof -
    let ?i = "install\<lparr>in_IdentityID := x, in_Status := InstallActive\<rparr>"
    obtain i' where "tab_get (bs_installs (best_effort_install f now ?i (br_store s))) (in_ID install) = Some i'"
      "in_TenantID i' = in_TenantID install" "in_Status i' \<noteq> InstallRevoked"
      using best_effort_install_get [of "br_store s" ?i install f now] i by (auto simp: install_status_defs)
    then have "store_moves NC (mints (token_reply a r ttl sc)) (best_effort_install f now ?i (br_store s))
        (best_effort_token g t (best_effort_install f now ?i (br_store s)))"
      using that i(3) by (intro best_effort_token_moves) auto
    moreover have "store_moves NC (mints (token_reply a r ttl sc)) (br_store s) (best_effort_install f now ?i (br_store s))"
      using i by (intro best_effort_install_moves) auto
    ultimately show ?thesis by (rule Then [rotated])
  qed
  then show ?thesis
    using compensate_moves [of NC _ s] compensate_moves [of NC _ "s\<lparr>br_world := w\<rparr>" for w]
    by (auto simp: code_grant_tokens_def Let_def split: option.splits prod.splits sum.splits)
qed

lemma code_grant_claim_moves:
  assumes "tab_get (bs_installs (br_store s)) (in_ID install) = Some install" "in_Status install = InstallPending"
    "in_TenantID install = cd_TenantID ac"
  shows "store_moves NC (mints (fst (code_grant_claim cl cfg e ac install persona s)))
    (br_store s) (br_store (snd (code_grant_claim cl cfg e ac install persona s)))"
  using code_grant_tokens_moves [of "s\<lparr>br_world := w\<rparr>" install ac NC cl cfg e persona for w] assms
    mark_revoked_moves [of NC _ "s\<lparr>br_world := w\<rparr>" for w]
  by (auto simp: code_grant_claim_def Let_def split: prod.splits sum.splits)

lemma code_grant_install_moves:
  assumes "tab_get (bs_installs (br_store s)) (new_id e 0) = None"
  shows "store_moves NC (mints (fst (code_grant_install cl cfg e ac s)))
    (br_store s) (br_store (snd (code_grant_install cl cfg e ac s)))"
proof -
  let ?i = "pending_install e ac"
  let ?s = "s\<lparr>br_store := CreateInstall ?i (br_store s)\<rparr>"
  have new: "store_moves NC NT (br_store s) (br_store ?s)" for NT
    using NewInstall [of "br_store s" ?i NC NT] assms by (simp add: pending_install_def)
  have row: "tab_get (bs_installs (br_store (?s\<lparr>br_world := w\<rparr>))) (in_ID ?i) = Some ?i" for w
    by (simp add: table_simps)
  have "store_moves NC NT (br_store s) (br_store (markInstallRevoked e ?i (?s\<lparr>br_world := w\<rparr>)))" for NT w
    using Then [OF new] mark_revoked_moves [of NC NT "?s\<lparr>br_world := w\<rparr>"] by simp
  moreover have "store_moves NC (mints (fst (code_grant_claim cl cfg e ac ?i p (?s\<lparr>br_world := w\<rparr>))))
      (br_store s) (br_store (snd (code_grant_claim cl cfg e ac ?i p (?s\<lparr>br_world := w\<rparr>))))" for w p
  proof (rule Then [OF new])
    have "store_moves NC (mints (fst (code_grant_claim cl cfg e ac ?i p (?s\<lparr>br_world := w\<rparr>))))
        (br_store (?s\<lparr>br_world := w\<rparr>)) (br_store (snd (code_grant_claim cl cfg e ac ?i p (?s\<lparr>br_world := w\<rparr>))))"
      by (rule code_grant_claim_moves [OF row]) (simp_all add: pending_install_def)
    then show "store_moves NC (mints (fst (code_grant_claim cl cfg e ac ?i p (?s\<lparr>br_world := w\<rparr>))))
        (br_store ?s) (br_store (snd (code_grant_claim cl cfg e ac ?i p (?s\<lparr>br_world := w\<rparr>))))" by simp
  qed
  ultimately show ?thesis
    by (auto simp: code_grant_install_def Let_def intro: Stay split: prod.splits sum.splits)
qed

lemma ConsumeAuthCode_Some:
  "ConsumeAuthCode c s = Some (ac, s') \<longleftrightarrow> tab_get (bs_codes s) c = Some ac \<and> s' = s\<lparr>bs_codes := tab_del c (bs_codes s)\<rparr>"
  by (auto simp: ConsumeAuthCode_def split: option.splits)

lemma handleCodeGrant_moves:
  assumes "tab_get (bs_installs (br_store s)) (new_id e 0) = None"
  shows "store_moves NC (mints (fst (handleCodeGrant cl cfg e f s)))
    (br_store s) (br_store (snd (handleCodeGrant cl cfg e f s)))"
proof -
  let ?st = "(br_store s)\<lparr>bs_codes := tab_del (tf_code f) (bs_codes (br_store s))\<rparr>"
  have del: "store_moves NC NT (br_store s) ?st" for NT by (rule DropCodes) (rule fewer_del)
  have "store_moves NC (mints (fst (code_grant_install cl cfg e ac (s\<lparr>br_store := ?st\<rparr>))))
      (br_store s) (br_store (snd (code_grant_install cl cfg e ac (s\<lparr>br_store := ?st\<rparr>))))" for ac
    using Then [OF del] code_grant_install_moves [of "s\<lparr>br_store := ?st\<rparr>" e NC cl cfg ac] assms by simp
  then show ?thesis using del
    by (auto simp: handleCodeGrant_def Let_def ConsumeAuthCode_Some intro: Stay split: got.splits prod.splits)
qed

lemma replay_moves: "store_moves NC NT (br_store s) (br_store (revokeInstallForReplay cl e rec s))"
proof -
  let ?drop = "\<lambda>st. if op_fails e BOpDeleteTokens then st else snd (DeleteTokensForInstall (tk_InstallID rec) st)"
  have drop: "store_moves NC NT st (?drop st)" for st
    by (auto simp: DeleteTokensForInstall_def intro: Stay DropTokens fewer_filter)
  have "store_moves NC NT (br_store s) (?drop (best_effort_install f now (i\<lparr>in_Status := InstallRevoked\<rparr>) (br_store s)))"
    for f now i
    by (rule Then [OF _ drop], rule best_effort_install_moves) simp
  with drop show ?thesis
    by (auto simp: revokeInstallForReplay_def Let_def split: prod.splits got.splits)
qed

lemma refresh_rotate_moves:
  assumes wf: "broker_wf (br_store s)" and rec: "rec \<in> set (tab_rows (bs_tokens (br_store s)))"
    and i: "GetInstall (tk_TenantID rec) (tk_InstallID rec) (br_store s) = Some install" "in_Status install = InstallActive"
  shows "store_moves NC (mints (fst (refresh_rotate cl cfg e rec install s)))
    (br_store s) (br_store (snd (refresh_rotate cl cfg e rec install s)))"
proof -
  have row: "tab_get (bs_tokens (br_store s)) (tk_AccessToken rec) = Some rec" using token_row [OF wf] rec by simp
  have i': "tab_get (bs_installs (br_store s)) (tk_InstallID rec) = Some install" "in_TenantID install = tk_TenantID rec"
    "in_Status install \<noteq> InstallRevoked"
    using i by (auto simp: GetInstall_Some install_status_defs)
  have "store_moves NC (mints (token_reply a r ttl sc)) (br_store s)
      (best_effort_token g t (best_effort_token f (rec\<lparr>tk_RotatedAt := Some now\<rparr>) (br_store s)))"
    if "tk_AccessToken t = a" "tk_RefreshToken t = r" "tk_RotatedAt t = None" "tk_InstallID t = tk_InstallID rec"
      "tk_TenantID t = tk_TenantID rec" for a r ttl sc f g now and t :: TokenRecord
  proof -
    let ?st = "best_effort_token f (rec\<lparr>tk_RotatedAt := Some now\<rparr>) (br_store s)"
    have "store_moves NC (mints (token_reply a r ttl sc)) (br_store s) ?st"
      using Rotate [OF row] by (simp add: best_effort_token_def Stay)
    moreover have "bs_installs ?st = bs_installs (br_store s)" by (simp add: best_effort_token_def)
    then have "store_moves NC (mints (token_reply a r ttl sc)) ?st (best_effort_token g t ?st)"
      using that i' by (intro best_effort_token_moves) auto
    ultimately show ?thesis by (rule Then)
  qed
  then show ?thesis
    by (auto simp: refresh_rotate_def Let_def intro: Stay split: option.splits prod.splits sum.splits)
qed

lemma GetTokenByRefresh_Some:
  "GetTokenByRefresh r s = Some t \<Longrightarrow> t \<in> set (tab_rows (bs_tokens s)) \<and> tk_RefreshToken t = r \<and> r \<noteq> []"
  by (auto simp: GetTokenByRefresh_def find_Some_iff split: if_splits)

lemma handleRefreshGrant_moves:
  assumes wf: "broker_wf (br_store s)"
  shows "store_moves NC (mints (fst (handleRefreshGrant cl cfg e f s)))
    (br_store s) (br_store (snd (handleRefreshGrant cl cfg e f s)))"
proof -
  have "store_moves NC (mints (fst (refresh_with cl cfg e f rec s))) (br_store s) (br_store (snd (refresh_with cl cfg e f rec s)))"
    if "GetTokenByRefresh (tf_refresh_token f) (br_store s) = Some rec" for rec
    using refresh_rotate_moves [OF wf, of rec] GetTokenByRefresh_Some [OF that] replay_moves [of NC _ s cl e rec]
    by (auto simp: refresh_with_def intro: Stay split: got.splits)
  then show ?thesis by (auto simp: handleRefreshGrant_def intro: Stay split: got.splits)
qed

lemma Revoke_moves: "store_moves NC NT (br_store s) (br_store (snd (Revoke cl e form s)))"
  by (auto simp: Revoke_def Let_def DeleteToken_def intro: Stay DropTokens fewer_del
      split: option.splits prod.splits got.splits)

lemma install_revoke_moves: "store_moves NC NT (br_store s) (br_store (snd (install_revoke cl e t iid s)))"
  by (auto simp: install_revoke_def intro: Stay update_moves split: option.splits got.splits prod.splits)

section \<open>Moves of an event\<close>

lemma purge_moves: "store_moves NC NT s (snd (PurgeExpired now s))"
proof -
  let ?s = "s\<lparr>bs_tokens := filter (\<lambda>(k, t). \<not> tk_ExpiresAt t < now) (bs_tokens s)\<rparr>"
  have "store_moves NC NT s ?s" by (rule DropTokens) (rule fewer_filter)
  moreover have "store_moves NC NT ?s (?s\<lparr>bs_codes :=
      filter (\<lambda>(k, ac). \<not> cd_CreatedAt ac < now - AuthCodeTTLSeconds * Second) (bs_codes ?s)\<rparr>)"
    by (rule DropCodes) (rule fewer_filter)
  ultimately show ?thesis by (auto simp: PurgeExpired_def Let_def intro: Then)
qed

lemma AuthorizeCode_moves:
  "store_moves (\<lambda>c. new_id e 0 = c) NT (br_store s) (br_store (snd (AuthorizeCode cfg e q s)))"
proof -
  have "store_moves (\<lambda>c. cd_Code ac = c) NT st (PutAuthCode now ac st)" for ac now st
    using NewCode [of "\<lambda>c. cd_Code ac = c" "if IsZero (cd_CreatedAt ac) then ac\<lparr>cd_CreatedAt := now\<rparr> else ac" NT st]
    by (auto simp: PutAuthCode_def Let_def split: if_splits)
  from this [of "new_code e q"] show ?thesis
    by (auto simp: AuthorizeCode_def new_code_def intro: Stay split: option.splits)
qed

lemma broker_public_moves:
  assumes "broker_wf (br_store s)" "tab_get (bs_installs (br_store s)) (new_id e 0) = None"
  shows "store_moves (codes_of (Public e rt)) (mints (fst (broker_public cl cfg e rt s)))
    (br_store s) (br_store (snd (broker_public cl cfg e rt s)))"
proof (cases rt)
  case (BAuthorize q)
  moreover have "codes_of (Public e (BAuthorize q)) = (\<lambda>c. new_id e 0 = c)" by (simp add: fun_eq_iff codes_of_def)
  ultimately show ?thesis using AuthorizeCode_moves [of e _ s cfg q] by simp
next
  case (BToken f)
  then show ?thesis
    using handleCodeGrant_moves [OF assms(2)] handleRefreshGrant_moves [OF assms(1)]
    by (auto simp: Token_def intro: Stay split: option.splits)
next
  case (BRevoke t)
  then show ?thesis by (simp add: Revoke_moves)
next
  case (BUserInfoGet auth)
  then show ?thesis by (auto simp: UserInfo_def Let_def intro: Stay split: sum.splits prod.splits got.splits)
next
  case BJWKS
  then show ?thesis by (simp add: serveJWKS_def Stay)
next
  case (BRegister b)
  then show ?thesis by (auto simp: Register_def Let_def intro: Stay NewClient split: sum.splits)
next
  case BHealth
  then show ?thesis by (simp add: Stay)
qed

lemma broker_v1_moves:
  assumes "tab_get (bs_installs (br_store s)) (new_id e 0) = None"
  shows "store_moves NC NT (br_store s) (br_store (snd (broker_v1 cl e rt t s)))"
proof (cases rt)
  case (ICreate b)
  have "store_moves NC NT (br_store s) (CreateInstall i (br_store s))" if "in_ID i = new_id e 0" "in_Status i = InstallPending" for i
    using NewInstall [of "br_store s" i] assms that by simp
  with ICreate show ?thesis by (auto simp: install_create_def Let_def intro: Stay split: option.splits sum.splits)
next
  case (IRevoke i)
  then show ?thesis by (simp add: install_revoke_moves)
qed (auto simp: install_list_def install_get_def Let_def intro: Stay split: option.splits sum.splits prod.splits got.splits)

theorem broker_step_moves:
  assumes "broker_wf (br_store s)" "install_fresh ev (br_store s)"
  shows "store_moves (codes_of ev) (mints (fst (broker_step cl cfg ev s)))
    (br_store s) (br_store (snd (broker_step cl cfg ev s)))"
proof (cases ev)
  case (Public e rt)
  then show ?thesis using broker_public_moves [OF assms(1)] assms(2) by (simp add: install_fresh_def event_env_def)
next
  case (Admin e rt g)
  then show ?thesis using broker_v1_moves assms(2)
    by (auto simp: install_fresh_def event_env_def TenantMiddleware_def intro: Stay split: option.splits)
next
  case (Purge now f)
  then show ?thesis by (simp add: Stay purge_moves)
qed

end
