(* ===== verification/BrokerProps.thy ===== *)
theory BrokerProps
  imports BrokerSteps
begin

text \<open>
  What broker-service guarantees over runs of events, whatever its sister services do: the invariant of
  its store, the single use of refresh tokens and codes, the finality of a replay, and what a
  successful reply of the token and userinfo endpoints rests on.
\<close>

section \<open>Runs\<close>

fun broker_run :: "'w broker_clients \<Rightarrow> broker_cfg \<Rightarrow> broker_event list \<Rightarrow> 'w broker_sys \<Rightarrow>
    (broker_event \<times> broker_reply \<times> 'w broker_sys) list" where
  "broker_run cl cfg [] s = []"
| "broker_run cl cfg (ev # evs) s =
     (let out = broker_step cl cfg ev s in (ev, out) # broker_run cl cfg evs (snd out))"

text \<open>
  The uuids of an event are new: the first is the id of no install, the next two are refresh tokens of
  no record.
\<close>

definition refresh_tokens :: "broker_store \<Rightarrow> string set" where
  "refresh_tokens s = tk_RefreshToken ` set (tab_rows (bs_tokens s))"

definition uuids_fresh :: "broker_event \<Rightarrow> broker_store \<Rightarrow> bool" where
  "uuids_fresh ev s \<longleftrightarrow>
     (case event_env ev of
        None \<Rightarrow> True
      | Some e \<Rightarrow> tab_get (bs_installs s) (new_id e 0) = None \<and>
          list_all (\<lambda>n. new_id e n \<noteq> [] \<and> new_id e n \<notin> refresh_tokens s) [1, 2])"

fun run_fresh :: "'w broker_clients \<Rightarrow> broker_cfg \<Rightarrow> broker_event list \<Rightarrow> 'w broker_sys \<Rightarrow> bool" where
  "run_fresh cl cfg [] s = True"
| "run_fresh cl cfg (ev # evs) s \<longleftrightarrow>
     uuids_fresh ev (br_store s) \<and> run_fresh cl cfg evs (snd (broker_step cl cfg ev s))"

text \<open>The event may not mint the refresh token \<open>r\<close>.\<close>

definition not_minting :: "string \<Rightarrow> broker_event \<Rightarrow> bool" where
  "not_minting r ev \<longleftrightarrow>
     (case event_env ev of None \<Rightarrow> True | Some e \<Rightarrow> new_id e 1 \<noteq> r \<and> new_id e 2 \<noteq> r)"

lemma fresh_install: "uuids_fresh ev s \<Longrightarrow> install_fresh ev s"
  by (simp add: uuids_fresh_def install_fresh_def split: option.splits)

lemma mints_errors [simp]:
  "\<not> mints (WriteError st c m) a r" "\<not> mints (bad_request c t) a r" "\<not> mints (invalid_grant t) a r"
  "\<not> mints (bad_gateway t) a r" "\<not> mints (internal t) a r" "\<not> mints (unauthorized t) a r"
  by (simp_all add: mints_def broker_reply_defs)

lemma minted_by_uuid:
  assumes "mints (fst (broker_step cl cfg ev s)) a r"
  shows "\<exists>e. event_env ev = Some e \<and> (r = new_id e 1 \<or> r = new_id e 2)"
proof (cases ev)
  case (Public e rt)
  show ?thesis
  proof (cases rt)
    case (BToken form)
    have *: "mints (fst (code_grant_tokens cl cfg e ac i p x s)) a r \<Longrightarrow> r = new_id e 2" for ac i p x s
      by (auto simp: code_grant_tokens_def Let_def split: option.splits prod.splits sum.splits)
    then have *: "mints (fst (code_grant_claim cl cfg e ac i p s)) a r \<Longrightarrow> r = new_id e 2" for ac i p s
      by (auto simp: code_grant_claim_def Let_def split: prod.splits sum.splits if_splits)
    then have *: "mints (fst (code_grant_install cl cfg e ac s)) a r \<Longrightarrow> r = new_id e 2" for ac s
      by (auto simp: code_grant_install_def Let_def split: prod.splits sum.splits if_splits)
    then have code: "mints (fst (handleCodeGrant cl cfg e f s)) a r \<Longrightarrow> r = new_id e 2" for f s
      by (auto simp: handleCodeGrant_def Let_def split: prod.splits got.splits if_splits)
    have *: "mints (fst (refresh_rotate cl cfg e rec i s)) a r \<Longrightarrow> r = new_id e 1" for rec i s
      by (auto simp: refresh_rotate_def Let_def split: option.splits prod.splits sum.splits if_splits)
    then have *: "mints (fst (refresh_with cl cfg e f rec s)) a r \<Longrightarrow> r = new_id e 1" for f rec s
      by (auto simp: refresh_with_def split: got.splits if_splits)
    then have "mints (fst (handleRefreshGrant cl cfg e f s)) a r \<Longrightarrow> r = new_id e 1" for f s
      by (auto simp: handleRefreshGrant_def split: got.splits if_splits)
    with code show ?thesis using assms Public BToken
      by (auto simp: Token_def event_env_def split: option.splits if_splits)
  qed (use assms Public in \<open>auto simp: mints_def AuthorizeCode_def invalid_authorize_def Revoke_def UserInfo_def serveJWKS_def
      Register_def Let_def broker_reply_defs split: option.splits prod.splits got.splits sum.splits if_splits\<close>)
next
  case (Admin e rt g)
  then show ?thesis using assms
    by (cases rt) (auto simp: mints_def TenantMiddleware_def install_create_def install_list_def install_get_def
        install_revoke_def list_query_def Let_def broker_reply_defs
        split: option.splits prod.splits got.splits sum.splits if_splits)
next
  case (Purge now f)
  then show ?thesis using assms by (simp add: mints_def)
qed

section \<open>The invariant\<close>

lemma step_inv:
  assumes "broker_inv (br_store s)" "uuids_fresh ev (br_store s)"
  shows "broker_inv (br_store (snd (broker_step cl cfg ev s)))"
proof -
  have "broker_wf (br_store s)" using assms(1) by (simp add: broker_inv_def)
  from store_moves_inv [OF broker_step_moves [OF this fresh_install [OF assms(2)], of cl cfg] mints_one,
      where used = "refresh_tokens (br_store s)"]
  show ?thesis
    using assms minted_by_uuid [of cl cfg ev s]
    by (force simp: uuids_fresh_def drawn_from_def refresh_tokens_def)
qed

text \<open>A property of the store that every event keeps holds throughout a run.\<close>

lemma run_keeps:
  assumes "\<And>ev s. ev \<in> set evs \<Longrightarrow> broker_inv (br_store s) \<Longrightarrow> uuids_fresh ev (br_store s) \<Longrightarrow> P (br_store s) \<Longrightarrow>
      P (br_store (snd (broker_step cl cfg ev s)))"
    and "broker_inv (br_store s)" "run_fresh cl cfg evs s" "P (br_store s)" "(ev, rep, s') \<in> set (broker_run cl cfg evs s)"
  shows "\<exists>s0. ev \<in> set evs \<and> broker_inv (br_store s0) \<and> P (br_store s0) \<and> broker_step cl cfg ev s0 = (rep, s') \<and> P (br_store s')"
  using assms
proof (induction evs arbitrary: s)
  case (Cons ev' evs)
  let ?s = "snd (broker_step cl cfg ev' s)"
  have s: "broker_inv (br_store s)" "uuids_fresh ev' (br_store s)" "P (br_store s)" "run_fresh cl cfg evs ?s"
    using Cons.prems by simp_all
  have P: "P (br_store ?s)" using Cons.prems(1) [OF _ s(1,2,3)] by simp
  from Cons.prems(5) consider "ev = ev'" "broker_step cl cfg ev' s = (rep, s')" | "(ev, rep, s') \<in> set (broker_run cl cfg evs ?s)"
    by (auto simp: Let_def split: prod.splits)
  then show ?case
  proof cases
    case 1
    then show ?thesis using s P by (intro exI [of _ s]) simp
  next
    case 2
    with Cons.IH [OF _ step_inv [OF s(1,2)] s(4) P] Cons.prems(1) show ?thesis by auto
  qed
qed simp

section \<open>Refresh tokens\<close>

definition hands_tokens :: "broker_reply \<Rightarrow> bool" where
  "hands_tokens rep = (case rep of WriteJSON st (BTokens t) \<Rightarrow> True | _ \<Rightarrow> False)"

text \<open>A successful exchange of the refresh token \<open>r\<close>.\<close>

definition exchanges :: "string \<Rightarrow> broker_event \<times> broker_reply \<times> 'w broker_sys \<Rightarrow> bool" where
  "exchanges r out \<longleftrightarrow> hands_tokens (fst (snd out)) \<and>
     (case fst out of Public e (BToken (Some f)) \<Rightarrow> tf_grant_type f = ''refresh_token'' \<and> tf_refresh_token f = r
      | _ \<Rightarrow> False)"

lemma hands_tokens_errors [simp]:
  "\<not> hands_tokens (WriteError st c m)" "\<not> hands_tokens (bad_request c t)" "\<not> hands_tokens (invalid_grant t)"
  "\<not> hands_tokens (bad_gateway t)" "\<not> hands_tokens (internal t)" "\<not> hands_tokens (unauthorized t)"
  "\<not> hands_tokens NoContent" "hands_tokens (token_reply a r ttl sc)"
  by (simp_all add: hands_tokens_def broker_reply_defs token_reply_def)

lemma refresh_rotate_success:
  assumes "hands_tokens (fst (refresh_rotate cl cfg e rec install s))"
  obtains t now where "tk_RefreshToken t = new_id e 1" "tk_InstallID t = tk_InstallID rec" "tk_RotatedAt t = None"
    "mints (fst (refresh_rotate cl cfg e rec install s)) (tk_AccessToken t) (tk_RefreshToken t)"
    "br_store (snd (refresh_rotate cl cfg e rec install s)) = best_effort_token (op_fails e BOpPutToken) t
      (best_effort_token (op_fails e BOpRotateToken) (rec\<lparr>tk_RotatedAt := Some now\<rparr>) (br_store s))"
proof -
  have "\<exists>t now. br_store (snd (refresh_rotate cl cfg e rec install s)) = best_effort_token (op_fails e BOpPutToken) t
      (best_effort_token (op_fails e BOpRotateToken) (rec\<lparr>tk_RotatedAt := Some now\<rparr>) (br_store s)) \<and>
    tk_RefreshToken t = new_id e 1 \<and> tk_InstallID t = tk_InstallID rec \<and> tk_RotatedAt t = None \<and>
    mints (fst (refresh_rotate cl cfg e rec install s)) (tk_AccessToken t) (tk_RefreshToken t)"
    using assms by (auto simp: refresh_rotate_def Let_def split: prod.splits sum.splits option.splits if_splits)
  then show thesis using that by blast
qed

lemma exchangeE:
  assumes "exchanges r (ev, broker_step cl cfg ev s)"
  obtains e f rec install where "ev = Public e (BToken (Some f))" "tf_refresh_token f = r"
    "GetTokenByRefresh r (br_store s) = Some rec" "tk_RotatedAt rec = None"
    "GetInstall (tk_TenantID rec) (tk_InstallID rec) (br_store s) = Some install" "in_Status install = InstallActive"
    "broker_step cl cfg ev s = refresh_rotate cl cfg e rec install s"
proof -
  obtain e f where ev: "ev = Public e (BToken (Some f))" "tf_grant_type f = ''refresh_token''" "tf_refresh_token f = r"
    using assms by (auto simp: exchanges_def split: broker_event.splits broker_route.splits option.splits)
  then have step: "broker_step cl cfg ev s = handleRefreshGrant cl cfg e f s" by (simp add: Token_def)
  with assms have "hands_tokens (fst (handleRefreshGrant cl cfg e f s))" by (simp add: exchanges_def)
  then show thesis using that [OF ev(1,3)] step ev(3)
    by (auto simp: handleRefreshGrant_def refresh_with_def split: got.splits if_splits)
qed

lemma spent_put: "spent r s \<Longrightarrow> tk_RefreshToken t \<noteq> r \<Longrightarrow> spent r (PutToken t s)"
  using PutToken_rows [of t s] by (auto simp: spent_def)

text \<open>An exchange is not possible with a spent token, and spends the token.\<close>

lemma exchange_not_spent: "exchanges r (ev, broker_step cl cfg ev s) \<Longrightarrow> \<not> spent r (br_store s)"
  by (erule exchangeE) (auto simp: spent_def dest!: GetTokenByRefresh_Some)

definition rotation_fails :: "broker_event \<Rightarrow> bool" where
  "rotation_fails ev = (case event_env ev of None \<Rightarrow> False | Some e \<Rightarrow> op_fails e BOpRotateToken)"

lemma exchange_spends:
  assumes "exchanges r (ev, broker_step cl cfg ev s)" "broker_inv (br_store s)" "uuids_fresh ev (br_store s)" "\<not> rotation_fails ev"
  shows "spent r (br_store (snd (broker_step cl cfg ev s)))"
proof -
  obtain e f rec install where ev: "ev = Public e (BToken (Some f))"
    and rec: "GetTokenByRefresh r (br_store s) = Some rec" and step: "broker_step cl cfg ev s = refresh_rotate cl cfg e rec install s"
    by (rule exchangeE [OF assms(1)]) blast
  have wf: "broker_wf (br_store s)" using assms(2) by (simp add: broker_inv_def)
  have row: "rec \<in> set (tab_rows (bs_tokens (br_store s)))" "tk_RefreshToken rec = r" using GetTokenByRefresh_Some [OF rec] by auto
  have "hands_tokens (fst (refresh_rotate cl cfg e rec install s))" using assms(1) step by (simp add: exchanges_def)
  from refresh_rotate_success [OF this] obtain t now where t: "tk_RefreshToken t = new_id e 1"
    and "br_store (snd (refresh_rotate cl cfg e rec install s)) = best_effort_token (op_fails e BOpPutToken) t
      (best_effort_token (op_fails e BOpRotateToken) (rec\<lparr>tk_RotatedAt := Some now\<rparr>) (br_store s))"
    by blast
  moreover have "\<not> op_fails e BOpRotateToken" using assms(4) ev by (simp add: rotation_fails_def event_env_def)
  ultimately have st: "br_store (snd (broker_step cl cfg ev s)) = best_effort_token (op_fails e BOpPutToken) t
      (PutToken (rec\<lparr>tk_RotatedAt := Some now\<rparr>) (br_store s))"
    using step by (simp add: best_effort_token_def)
  have "new_id e 1 \<noteq> r"
    using assms(3) row ev by (auto simp: uuids_fresh_def event_env_def refresh_tokens_def)
  moreover have "spent r (PutToken (rec\<lparr>tk_RotatedAt := Some now\<rparr>) (br_store s))"
    unfolding spent_def
  proof (intro ballI impI)
    fix x assume x: "x \<in> set (tab_rows (bs_tokens (PutToken (rec\<lparr>tk_RotatedAt := Some now\<rparr>) (br_store s))))" "tk_RefreshToken x = r"
    show "tk_RotatedAt x \<noteq> None"
      using PutToken_replaced [OF wf x(1)] x(2) row assms(2) by (auto simp: broker_inv_def refresh_unique_def)
  qed
  ultimately show ?thesis unfolding st best_effort_token_def using t by (auto intro: spent_put)
qed

lemma step_spent:
  assumes "broker_inv (br_store s)" "uuids_fresh ev (br_store s)" "not_minting r ev" "spent r (br_store s)"
  shows "spent r (br_store (snd (broker_step cl cfg ev s)))"
proof (rule moves_spent [OF broker_step_moves])
  show "broker_wf (br_store s)" "broker_wf (br_store s)" "install_fresh ev (br_store s)"
    using assms fresh_install by (simp_all add: broker_inv_def)
  show "\<not> mints (fst (broker_step cl cfg ev s)) a r" for a
    using minted_by_uuid [of cl cfg ev s a r] assms(3) by (auto simp: not_minting_def)
qed (rule assms)

lemma spent_run:
  assumes "broker_inv (br_store s)" "run_fresh cl cfg evs s" "\<forall>ev\<in>set evs. not_minting r ev" "spent r (br_store s)"
  shows "\<forall>out\<in>set (broker_run cl cfg evs s). \<not> exchanges r out"
proof
  fix out assume "out \<in> set (broker_run cl cfg evs s)"
  moreover obtain ev rep s' where out: "out = (ev, rep, s')" by (cases out)
  ultimately obtain s0 where "spent r (br_store s0)" "broker_step cl cfg ev s0 = (rep, s')"
    using run_keeps [of evs "spent r" cl cfg s ev rep s'] step_spent assms by blast
  then show "\<not> exchanges r out" using exchange_not_spent [of r ev cl cfg s0] out by auto
qed

lemma exchange_count:
  assumes "broker_inv (br_store s)" "run_fresh cl cfg evs s" "\<forall>ev\<in>set evs. not_minting r ev \<and> \<not> rotation_fails ev"
  shows "length (filter (exchanges r) (broker_run cl cfg evs s)) \<le> 1"
  using assms
proof (induction evs arbitrary: s)
  case (Cons ev evs)
  let ?s = "snd (broker_step cl cfg ev s)"
  have next_inv: "broker_inv (br_store ?s)" using Cons.prems by (simp add: step_inv)
  show ?case
  proof (cases "exchanges r (ev, broker_step cl cfg ev s)")
    case True
    then have "spent r (br_store ?s)" using exchange_spends Cons.prems by fastforce
    then have "\<forall>out\<in>set (broker_run cl cfg evs ?s). \<not> exchanges r out"
      by (intro spent_run [OF next_inv]) (use Cons.prems in auto)
    then have "filter (exchanges r) (broker_run cl cfg evs ?s) = []" by (simp add: filter_empty_conv)
    with True show ?thesis by (simp add: Let_def)
  next
    case False
    then show ?thesis using Cons.IH [OF next_inv] Cons.prems by (simp add: Let_def)
  qed
qed simp

section \<open>Userinfo\<close>

text \<open>The endpoint vouches for a token of the install \<open>k\<close>.\<close>

definition vouches :: "string \<Rightarrow> broker_reply \<Rightarrow> bool" where
  "vouches k rep = (case rep of WriteJSON st (BUserInfo u) \<Rightarrow> ui_install_id u = k | _ \<Rightarrow> False)"

lemma vouches_errors [simp]:
  "\<not> vouches k (WriteError st c m)" "\<not> vouches k (bad_request c t)" "\<not> vouches k (invalid_grant t)"
  "\<not> vouches k (bad_gateway t)" "\<not> vouches k (internal t)" "\<not> vouches k (unauthorized t)" "\<not> vouches k NoContent"
  "\<not> vouches k (token_reply a r ttl sc)"
  by (simp_all add: vouches_def broker_reply_defs token_reply_def)

lemma code_grant_vouches: "\<not> vouches k (fst (handleCodeGrant cl cfg e f s))"
proof -
  have *: "\<not> vouches k (fst (code_grant_tokens cl cfg e ac i p x s))" for ac i p x s
    by (simp add: code_grant_tokens_def Let_def split: option.split prod.split sum.split)
  then have *: "\<not> vouches k (fst (code_grant_claim cl cfg e ac i p s))" for ac i p s
    by (simp add: code_grant_claim_def Let_def split: prod.split sum.split)
  then have "\<not> vouches k (fst (code_grant_install cl cfg e ac s))" for ac s
    by (simp add: code_grant_install_def Let_def split: prod.split sum.split)
  then show ?thesis by (simp add: handleCodeGrant_def Let_def split: prod.split got.split)
qed

lemma refresh_grant_vouches: "\<not> vouches k (fst (handleRefreshGrant cl cfg e f s))"
proof -
  have "\<not> vouches k (fst (refresh_rotate cl cfg e rec i s))" for rec i s
    by (simp add: refresh_rotate_def Let_def split: option.split prod.split sum.split)
  then show ?thesis by (simp add: handleRefreshGrant_def refresh_with_def split: got.split)
qed

text \<open>The header that carries a bearer token.\<close>

definition bearer :: "string \<Rightarrow> string" where
  "bearer token = ''Bearer '' @ token"

lemma UserInfo_bearer:
  "UserInfo cfg e (bearer token) s =
     (case VerifyToken (bg_jwt cfg) (bg_Verifier cfg) token (now_at e 0) of
        Inl err \<Rightarrow> (unauthorized ''token verification failed'', s)
      | Inr c \<Rightarrow>
          (case store_call (op_fails e BOpGetToken) (GetToken token (br_store s)) of
             Got rec \<Rightarrow>
               if tk_ExpiresAt rec < now_at e 1 then (unauthorized ''token expired'', s)
               else (WriteJSON StatusOK (BUserInfo \<lparr>ui_sub = tk_Subject rec, ui_persona = tk_PersonaID rec,
                       ui_scopes = splitScope (tk_Scope rec), ui_install_id = tk_InstallID rec\<rparr>), s)
           | _ \<Rightarrow> (unauthorized ''token unknown'', s)))"
  by (simp add: UserInfo_def bearer_def starts_with_def)

lemma bearer_inject [simp]: "bearer a = bearer b \<longleftrightarrow> a = b"
  by (simp add: bearer_def)

lemma not_bearer: "(\<And>token. auth \<noteq> bearer token) \<Longrightarrow> \<not> starts_with auth ''Bearer ''"
  unfolding bearer_def starts_with_def by (metis append_take_drop_id)

lemma UserInfo_vouches:
  "vouches k (fst (UserInfo cfg e auth s)) \<longleftrightarrow>
     (\<exists>token rec c. auth = bearer token \<and> VerifyToken (bg_jwt cfg) (bg_Verifier cfg) token (now_at e 0) = Inr c \<and>
        \<not> op_fails e BOpGetToken \<and> tab_get (bs_tokens (br_store s)) token = Some rec \<and> tk_InstallID rec = k \<and>
        now_at e 1 \<le> tk_ExpiresAt rec)"
proof (cases "\<exists>token. auth = bearer token")
  case True
  then obtain token where auth: "auth = bearer token" by blast
  have "vouches k (WriteJSON st (BUserInfo u)) \<longleftrightarrow> ui_install_id u = k" for st u by (simp add: vouches_def)
  then show ?thesis unfolding auth UserInfo_bearer GetToken_def
    by (cases "VerifyToken (bg_jwt cfg) (bg_Verifier cfg) token (now_at e 0)";
        cases "op_fails e BOpGetToken"; cases "tab_get (bs_tokens (br_store s)) token") auto
next
  case False
  then show ?thesis using not_bearer [of auth] by (simp add: UserInfo_def)
qed

lemma vouches_only_userinfo:
  assumes "vouches k (fst (broker_step cl cfg ev s))"
  obtains e auth where "ev = Public e (BUserInfoGet auth)" "broker_step cl cfg ev s = UserInfo cfg e auth s"
proof (cases ev)
  case (Public e rt)
  show thesis
  proof (cases rt)
    case (BToken form)
    then show thesis using assms Public
      by (auto simp: Token_def code_grant_vouches refresh_grant_vouches split: option.splits if_splits)
  next
    case (BUserInfoGet auth)
    then show thesis using that Public by simp
  qed (use assms Public in \<open>auto simp: vouches_def AuthorizeCode_def invalid_authorize_def Revoke_def serveJWKS_def
      Register_def Let_def broker_reply_defs split: option.splits prod.splits got.splits sum.splits if_splits\<close>)
next
  case (Admin e rt g)
  then show thesis using assms
    by (cases rt) (auto simp: vouches_def TenantMiddleware_def install_create_def install_list_def install_get_def
        install_revoke_def list_query_def Let_def broker_reply_defs
        split: option.splits prod.splits got.splits sum.splits if_splits)
next
  case (Purge now f)
  then show thesis using assms by simp
qed

section \<open>Replay\<close>

lemma GetTokenByRefresh_row:
  assumes "broker_inv s" "rec \<in> set (tab_rows (bs_tokens s))"
  shows "GetTokenByRefresh (tk_RefreshToken rec) s = Some rec"
proof -
  have "tk_RefreshToken rec \<noteq> []" "refresh_unique (tab_rows (bs_tokens s))" using assms by (auto simp: broker_inv_def)
  moreover from this have "x = rec" if "find (\<lambda>t. tk_RefreshToken t = tk_RefreshToken rec) (tab_rows (bs_tokens s)) = Some x" for x
    using that assms(2) by (auto simp: find_Some_iff refresh_unique_def)
  moreover have "find (\<lambda>t. tk_RefreshToken t = tk_RefreshToken rec) (tab_rows (bs_tokens s)) \<noteq> None"
    using assms(2) by (auto simp: find_None_iff)
  ultimately show ?thesis by (auto simp: GetTokenByRefresh_def)
qed

lemma DeleteTokens_rows:
  "set (tab_rows (bs_tokens (snd (DeleteTokensForInstall k s)))) = {t \<in> set (tab_rows (bs_tokens s)). tk_InstallID t \<noteq> k}"
  by (auto simp: DeleteTokensForInstall_def tab_rows_def)

lemma DeleteTokens_installs [simp]: "bs_installs (snd (DeleteTokensForInstall k s)) = bs_installs s"
  by (simp add: DeleteTokensForInstall_def)

text \<open>The identity a replay gives back, and the calls it makes.\<close>

definition held_identity :: "Install \<Rightarrow> TokenRecord \<Rightarrow> string" where
  "held_identity i rec = (if in_IdentityID i \<noteq> [] then in_IdentityID i else tk_IdentityID rec)"

definition cascade_calls :: "'w broker_clients \<Rightarrow> string \<Rightarrow> string \<Rightarrow> string \<Rightarrow> 'w \<Rightarrow> 'w" where
  "cascade_calls cl tenantID installID identityID w =
     (let w = snd (bc_RevokeGrantsForInstall cl tenantID installID w)
      in if identityID = [] then w else snd (bc_ReleaseIdentity cl tenantID identityID w))"

lemma replay_effect:
  assumes inv: "broker_inv (br_store s)" and rec: "rec \<in> set (tab_rows (bs_tokens (br_store s)))"
    and i: "tab_get (bs_installs (br_store s)) (tk_InstallID rec) = Some i" and ok: "\<And>op. \<not> op_fails e op"
  shows "dead_install (tk_InstallID rec) (br_store (revokeInstallForReplay cl e rec s))"
    and "set (tab_rows (bs_tokens (br_store (revokeInstallForReplay cl e rec s)))) =
      {t \<in> set (tab_rows (bs_tokens (br_store s))). tk_InstallID t \<noteq> tk_InstallID rec}"
    and "br_world (revokeInstallForReplay cl e rec s) =
      cascade_calls cl (tk_TenantID rec) (tk_InstallID rec) (held_identity i rec) (br_world s)"
proof -
  have tenant: "in_TenantID i = tk_TenantID rec" using inv rec i by (auto simp: broker_inv_def has_install_def)
  have id_i: "in_ID i = tk_InstallID rec" using install_row i inv by (auto simp: broker_inv_def)
  obtain st where st: "br_store (revokeInstallForReplay cl e rec s) = snd (DeleteTokensForInstall (tk_InstallID rec) st)"
    "\<exists>i'. tab_get (bs_installs st) (tk_InstallID rec) = Some i' \<and> in_Status i' = InstallRevoked"
    "bs_tokens st = bs_tokens (br_store s)"
  proof (cases "in_Status i = InstallRevoked")
    case True
    then show thesis using that [of "br_store s"] i tenant ok
      by (auto simp: revokeInstallForReplay_def GetInstall_def Let_def split: prod.splits)
  next
    case False
    let ?st = "best_effort_install False (now_at e 3) (i\<lparr>in_Status := InstallRevoked\<rparr>) (br_store s)"
    have "br_store (revokeInstallForReplay cl e rec s) = snd (DeleteTokensForInstall (tk_InstallID rec) ?st)"
      using i tenant ok False by (auto simp: revokeInstallForReplay_def GetInstall_def Let_def split: prod.splits)
    moreover have "\<exists>i'. tab_get (bs_installs ?st) (tk_InstallID rec) = Some i' \<and> in_Status i' = InstallRevoked"
      using best_effort_install_get [of "br_store s" "i\<lparr>in_Status := InstallRevoked\<rparr>" i False] i id_i by auto
    ultimately show thesis using that by simp
  qed
  show "dead_install (tk_InstallID rec) (br_store (revokeInstallForReplay cl e rec s))"
    using st by (simp add: dead_install_def DeleteTokens_rows)
  show "set (tab_rows (bs_tokens (br_store (revokeInstallForReplay cl e rec s)))) =
      {t \<in> set (tab_rows (bs_tokens (br_store s))). tk_InstallID t \<noteq> tk_InstallID rec}"
    using st by (simp add: DeleteTokens_rows)
  show "br_world (revokeInstallForReplay cl e rec s) =
      cascade_calls cl (tk_TenantID rec) (tk_InstallID rec) (held_identity i rec) (br_world s)"
    using i tenant ok
    by (auto simp: revokeInstallForReplay_def GetInstall_def held_identity_def cascade_calls_def Let_def split: prod.splits)
qed

lemma inv_wf: "broker_inv s \<Longrightarrow> broker_wf s"
  by (simp add: broker_inv_def)

lemma step_dead_install:
  assumes "broker_inv (br_store s)" "uuids_fresh ev (br_store s)" "dead_install k (br_store s)"
  shows "dead_install k (br_store (snd (broker_step cl cfg ev s)))"
  using moves_dead_install [OF broker_step_moves [OF inv_wf fresh_install]] assms inv_wf by blast

lemma dead_install_run:
  assumes "broker_inv (br_store s)" "run_fresh cl cfg evs s" "dead_install k (br_store s)"
    "(ev, rep, s') \<in> set (broker_run cl cfg evs s)"
  shows "dead_install k (br_store s') \<and> \<not> vouches k rep"
proof -
  obtain s0 where s0: "broker_inv (br_store s0)" "dead_install k (br_store s0)" "broker_step cl cfg ev s0 = (rep, s')"
    "dead_install k (br_store s')"
    using run_keeps [of evs "dead_install k" cl cfg s ev rep s', OF step_dead_install] assms by blast
  have "\<not> vouches k (fst (broker_step cl cfg ev s0))"
  proof
    assume v: "vouches k (fst (broker_step cl cfg ev s0))"
    then obtain e auth where "vouches k (fst (UserInfo cfg e auth s0))" by (metis vouches_only_userinfo)
    then obtain token rec where rec: "tab_get (bs_tokens (br_store s0)) token = Some rec" "tk_InstallID rec = k"
      by (auto simp: UserInfo_vouches)
    have "rec \<in> set (tab_rows (bs_tokens (br_store s0)))"
      using token_row [OF inv_wf [OF s0(1)], THEN iffD1, OF rec(1)] by blast
    then show False using s0(2) rec(2) by (simp add: dead_install_def)
  qed
  with s0 show ?thesis by simp
qed

section \<open>A small broker\<close>

text \<open>
  Sister services that always answer and log the calls in the world; a library whose marshalled claims
  are the token's id and whose signatures are the digests.
\<close>

definition demo_broker_lib :: jwt_lib where
  "demo_broker_lib =
     \<lparr>jl_marshal = \<lambda>j. (case j of
          JObj ms \<Rightarrow> (case find (\<lambda>m. fst m = ''jti'') ms of Some (k, JStr t) \<Rightarrow> t | _ \<Rightarrow> ''h'') | _ \<Rightarrow> []),
      jl_unmarshal = \<lambda>s. Some (if s = ''h'' then header_json ''JWT'' ''k'' else JObj [(''jti'', JStr s)]),
      jl_sha256 = take 1, jl_sign = \<lambda>k d. Some d, jl_verify = \<lambda>p d sig. sig = d, jl_float = \<lambda>r. []\<rparr>"

definition demo_broker_cfg :: broker_cfg where
  "demo_broker_cfg =
     \<lparr>bg_jwt = demo_broker_lib, bg_Signer = \<lparr>sg_key = demo_key, sg_kid = ''k''\<rparr>,
      bg_Verifier = \<lparr>vf_keys = [(''k'', sk_Public demo_key)], vf_iss = []\<rparr>, bg_Issuer = ''b'', bg_JWTIssuer = ''b'',
      bg_DefaultTTL = 900, bg_absolute = \<lambda>u. True, bg_location = \<lambda>u qs. u\<rparr>"

definition demo_broker_clients :: "string list broker_clients" where
  "demo_broker_clients =
     \<lparr>bc_GetPersona = \<lambda>t p w. (Inr (no_persona_view\<lparr>pv_Scopes := [''m'']\<rparr>), w @ [''persona'']),
      bc_ClaimIdentity = \<lambda>t pool p i w. (Inr (no_identity_view\<lparr>iv_ID := ''x'', iv_SubjectID := ''s''\<rparr>), w @ [''claim'']),
      bc_ReleaseIdentity = \<lambda>t i w. (None, w @ [''release'', i]),
      bc_CreateGrant = \<lambda>t q w. (Inr no_grant_view, w @ [''grant'']),
      bc_RevokeGrantsForInstall = \<lambda>t i w. (None, w @ [''revoke-grants'', i]),
      bc_RevokeToken = \<lambda>t tok w. (None, w @ [''revoke'', t])\<rparr>"

definition demo_broker_env :: "string \<Rightarrow> time \<Rightarrow> broker_env" where
  "demo_broker_env p now = \<lparr>now_at = \<lambda>n. now, new_id = \<lambda>n. [p ! n], op_fails = \<lambda>op. False\<rparr>"

definition demo_install :: Install where
  "demo_install =
     \<lparr>in_ID = ''i'', in_TenantID = ''t'', in_Runtime = ''custom'', in_PersonaID = ''p'', in_IdentityID = ''x'',
      in_ClientID = ''c'', in_Status = InstallActive, in_CreatedAt = 1, in_UpdatedAt = 2\<rparr>"

definition demo_token :: "string \<Rightarrow> string \<Rightarrow> time option \<Rightarrow> TokenRecord" where
  "demo_token a r rotated =
     \<lparr>tk_AccessToken = a, tk_RefreshToken = r, tk_InstallID = ''i'', tk_PersonaID = ''p'', tk_IdentityID = ''x'',
      tk_Subject = ''s'', tk_Scope = ''m'', tk_TenantID = ''t'', tk_ExpiresAt = 900 * Second, tk_RotatedAt = rotated\<rparr>"

definition demo_broker :: "string list broker_sys" where
  "demo_broker =
     \<lparr>br_store = \<lparr>bs_installs = [(''i'', demo_install)], bs_clients = [], bs_codes = [],
        bs_tokens = [(''a0'', demo_token ''a0'' ''r0'' (Some 5)), (''a1'', demo_token ''a1'' ''r1'' None)]\<rparr>,
      br_world = []\<rparr>"

definition demo_refresh :: "string \<Rightarrow> token_form" where
  "demo_refresh r = \<lparr>tf_grant_type = ''refresh_token'', tf_code = [], tf_client_id = [], tf_code_verifier = [], tf_refresh_token = r\<rparr>"

definition demo_two_refreshes :: "broker_event list" where
  "demo_two_refreshes =
     [Public (demo_broker_env ''yab'' 10) (BToken (Some (demo_refresh ''r1''))),
      Public (demo_broker_env ''zcd'' 11) (BToken (Some (demo_refresh ''r1'')))]"

lemma demo_broker_inv: "broker_inv (br_store demo_broker)"
  by (simp add: broker_inv_def broker_wf_def refresh_unique_def has_install_def demo_broker_def demo_install_def demo_token_def
      tab_wf_def tab_rows_def tab_get_def)

section \<open>Properties\<close>

text \<open>
  The store's invariant: refresh tokens are unique, and every token record belongs to a stored
  install of its tenant.  Every event keeps it, whatever the sister services answer and whichever
  storage calls fail, when its uuids are new.
\<close>

theorem broker_invariant:
  assumes "broker_inv (br_store s)" "uuids_fresh ev (br_store s)"
  shows "broker_inv (br_store (snd (broker_step cl cfg ev s)))"
  by (rule step_inv [OF assms])

theorem broker_invariant_witness:
  "broker_inv (br_store (snd (broker_step demo_broker_clients demo_broker_cfg
     (Public (demo_broker_env ''yab'' 10) (BToken (Some (demo_refresh ''r1'')))) demo_broker)))"
  by (rule broker_invariant [OF demo_broker_inv]) code_simp



text \<open>
  C12. Presenting a rotated refresh token kills its install: the request is refused, the grants of the
  install are revoked and the identity it holds is released, in this order, and from then on, whatever
  events follow, the install stays revoked without a token record, the userinfo endpoint vouches for no
  token of it, and none of its refresh tokens, the legitimate replacement included, is exchanged.
\<close>

theorem replayed_refresh_token_revokes_the_install:
  assumes inv: "broker_inv (br_store s)"
    and rec: "rec \<in> set (tab_rows (bs_tokens (br_store s)))" "tk_RotatedAt rec \<noteq> None"
    and f: "tf_grant_type f = ''refresh_token''" "tf_refresh_token f = tk_RefreshToken rec"
    and e: "\<And>op. \<not> op_fails e op" "uuids_fresh (Public e (BToken (Some f))) (br_store s)"
    and k: "k = tk_InstallID rec" and i: "tab_get (bs_installs (br_store s)) k = Some i"
    and out: "broker_step cl cfg (Public e (BToken (Some f))) s = (rep, s1)"
    and evs: "run_fresh cl cfg evs s1"
  shows "rep = bad_request ''invalid_grant'' ''refresh token already used; install revoked'' \<and>
    dead_install k (br_store s1) \<and>
    br_world s1 = cascade_calls cl (tk_TenantID rec) k (held_identity i rec) (br_world s) \<and>
    (\<forall>(ev, rep', s')\<in>set (broker_run cl cfg evs s1). dead_install k (br_store s') \<and> \<not> vouches k rep') \<and>
    (\<forall>t\<in>set (tab_rows (bs_tokens (br_store s))).
       tk_InstallID t = k \<longrightarrow> (\<forall>ev\<in>set evs. not_minting (tk_RefreshToken t) ev) \<longrightarrow>
       (\<forall>later\<in>set (broker_run cl cfg evs s1). \<not> exchanges (tk_RefreshToken t) later))"
proof -
  have "tk_RefreshToken rec \<noteq> []" using inv rec by (auto simp: broker_inv_def)
  then have "broker_step cl cfg (Public e (BToken (Some f))) s =
      (invalid_grant ''refresh token already used; install revoked'', revokeInstallForReplay cl e rec s)"
    using GetTokenByRefresh_row [OF inv rec(1)] rec(2) f e(1)
    by (simp add: Token_def handleRefreshGrant_def refresh_with_def)
  with out have s1: "rep = invalid_grant ''refresh token already used; install revoked''" "s1 = revokeInstallForReplay cl e rec s"
    by simp_all
  note effect = replay_effect [OF inv rec(1) i [unfolded k] e(1), of cl]
  have inv1: "broker_inv (br_store s1)" using step_inv [OF inv e(2), of cl cfg] out by simp
  have "spent (tk_RefreshToken t) (br_store s1)"
    if "t \<in> set (tab_rows (bs_tokens (br_store s)))" "tk_InstallID t = k" for t
    using effect(2) that inv unfolding s1(2) spent_def k broker_inv_def refresh_unique_def by fastforce
  then have "\<forall>t\<in>set (tab_rows (bs_tokens (br_store s))).
       tk_InstallID t = k \<longrightarrow> (\<forall>ev\<in>set evs. not_minting (tk_RefreshToken t) ev) \<longrightarrow>
       (\<forall>later\<in>set (broker_run cl cfg evs s1). \<not> exchanges (tk_RefreshToken t) later)"
    using spent_run [OF inv1 evs] by blast
  moreover have "\<forall>(ev, rep', s')\<in>set (broker_run cl cfg evs s1). dead_install k (br_store s') \<and> \<not> vouches k rep'"
    using dead_install_run [OF inv1 evs, of k] effect(1) unfolding s1(2) k by blast
  ultimately show ?thesis using s1 effect(1,3) k by (simp add: invalid_grant_def)
qed

theorem replayed_refresh_token_revokes_the_install_witness:
  "\<exists>s1. broker_step demo_broker_clients demo_broker_cfg
       (Public (demo_broker_env ''yab'' 10) (BToken (Some (demo_refresh ''r0'')))) demo_broker
     = (bad_request ''invalid_grant'' ''refresh token already used; install revoked'', s1) \<and>
   dead_install ''i'' (br_store s1) \<and> br_world s1 = [''revoke-grants'', ''i'', ''release'', ''x'']"
proof -
  let ?f = "demo_refresh ''r0''" and ?rec = "demo_token ''a0'' ''r0'' (Some 5)"
  obtain rep s1 where out: "broker_step demo_broker_clients demo_broker_cfg
      (Public (demo_broker_env ''yab'' 10) (BToken (Some ?f))) demo_broker = (rep, s1)" by fastforce
  have rec: "?rec \<in> set (tab_rows (bs_tokens (br_store demo_broker)))" "tk_RotatedAt ?rec \<noteq> None"
    by (simp_all add: demo_broker_def demo_token_def tab_rows_def)
  have f: "tf_grant_type ?f = ''refresh_token''" "tf_refresh_token ?f = tk_RefreshToken ?rec"
    by (simp_all add: demo_refresh_def demo_token_def)
  have e: "\<not> op_fails (demo_broker_env ''yab'' 10) op" for op by (simp add: demo_broker_env_def)
  have fresh: "uuids_fresh (Public (demo_broker_env ''yab'' 10) (BToken (Some ?f))) (br_store demo_broker)" by code_simp
  have k: "''i'' = tk_InstallID ?rec" "tab_get (bs_installs (br_store demo_broker)) ''i'' = Some demo_install"
    by (simp_all add: demo_token_def demo_broker_def tab_get_def)
  have "run_fresh demo_broker_clients demo_broker_cfg [] s1" by simp
  from replayed_refresh_token_revokes_the_install [OF demo_broker_inv rec f e fresh k out this]
  have "rep = bad_request ''invalid_grant'' ''refresh token already used; install revoked'' \<and> dead_install ''i'' (br_store s1) \<and>
      br_world s1 = cascade_calls demo_broker_clients (tk_TenantID ?rec) ''i'' (held_identity demo_install ?rec) (br_world demo_broker)"
    by blast
  moreover have "cascade_calls demo_broker_clients (tk_TenantID ?rec) ''i'' (held_identity demo_install ?rec) (br_world demo_broker)
      = [''revoke-grants'', ''i'', ''release'', ''x'']" by code_simp
  ultimately show ?thesis using out by simp
qed

end
