(* ===== verification/BrokerTokens.thy ===== *)
theory BrokerTokens
  imports BrokerProps
begin

text \<open>
  Authorization codes and access tokens of broker-service over runs of events: who can redeem a code
  and how often, what a revocation at /revoke achieves, and three places where the code does less than
  its comments promise.
\<close>

section \<open>Codes\<close>

definition redeems :: "string \<Rightarrow> broker_event \<times> broker_reply \<times> 'w broker_sys \<Rightarrow> bool" where
  "redeems c out \<longleftrightarrow> hands_tokens (fst (snd out)) \<and>
     (case fst out of Public e (BToken (Some f)) \<Rightarrow> tf_grant_type f = ''authorization_code'' \<and> tf_code f = c
      | _ \<Rightarrow> False)"

text \<open>What the redeemer of a code has to know and when.\<close>

definition holder_proof :: "broker_cfg \<Rightarrow> broker_env \<Rightarrow> token_form \<Rightarrow> AuthCode \<Rightarrow> bool" where
  "holder_proof cfg e f ac \<longleftrightarrow>
     tf_code_verifier f \<noteq> [] \<and> cd_CodeChallenge ac \<noteq> [] \<and>
     pkceChallengeS256 (bg_jwt cfg) (tf_code_verifier f) = cd_CodeChallenge ac \<and>
     (tf_client_id f = [] \<or> tf_client_id f = cd_ClientID ac) \<and>
     now_at e 0 - cd_CreatedAt ac \<le> AuthCodeTTLSeconds * Second"

lemma redeemE:
  assumes "redeems c (ev, broker_step cl cfg ev s)"
  obtains e f ac where "ev = Public e (BToken (Some f))" "tf_code f = c"
    "tab_get (bs_codes (br_store s)) c = Some ac" "holder_proof cfg e f ac"
    "broker_step cl cfg ev s = code_grant_install cl cfg e ac
       (s\<lparr>br_store := (br_store s)\<lparr>bs_codes := tab_del c (bs_codes (br_store s))\<rparr>\<rparr>)"
proof -
  obtain e f where ev: "ev = Public e (BToken (Some f))" "tf_grant_type f = ''authorization_code''" "tf_code f = c"
    using assms by (auto simp: redeems_def split: broker_event.splits broker_route.splits option.splits)
  then have step: "broker_step cl cfg ev s = handleCodeGrant cl cfg e f s" by (simp add: Token_def)
  with assms have "hands_tokens (fst (handleCodeGrant cl cfg e f s))" by (simp add: redeems_def)
  then have "\<exists>ac. tab_get (bs_codes (br_store s)) c = Some ac \<and> holder_proof cfg e f ac \<and>
      handleCodeGrant cl cfg e f s = code_grant_install cl cfg e ac
        (s\<lparr>br_store := (br_store s)\<lparr>bs_codes := tab_del c (bs_codes (br_store s))\<rparr>\<rparr>)"
    using ev(3) by (auto simp: handleCodeGrant_def holder_proof_def ConsumeAuthCode_Some Let_def
        split: got.splits prod.splits if_splits)
  then show thesis using that [OF ev(1,3)] step by auto
qed

lemma redeem_deletes:
  assumes "redeems c (ev, broker_step cl cfg ev s)" "broker_inv (br_store s)" "uuids_fresh ev (br_store s)"
  shows "tab_get (bs_codes (br_store (snd (broker_step cl cfg ev s)))) c = None"
proof (rule redeemE [OF assms(1)])
  fix e f ac
  let ?s = "s\<lparr>br_store := (br_store s)\<lparr>bs_codes := tab_del c (bs_codes (br_store s))\<rparr>\<rparr>"
  assume ev: "ev = Public e (BToken (Some f))" and step: "broker_step cl cfg ev s = code_grant_install cl cfg e ac ?s"
  have wf: "broker_wf (br_store s)" using assms(2) by (rule inv_wf)
  then have "broker_wf (br_store ?s)" by (simp add: broker_wf_def fewer_wf [OF fewer_del])
  moreover have "tab_get (bs_installs (br_store ?s)) (new_id e 0) = None"
    using assms(3) ev by (simp add: uuids_fresh_def event_env_def)
  moreover have "tab_get (bs_codes (br_store ?s)) c = None" using wf by (simp add: table_simps broker_wf_def)
  ultimately show ?thesis
    unfolding step by (intro moves_no_code [OF code_grant_install_moves [where NC = "\<lambda>c. False"]]) auto
qed

lemma step_no_code:
  assumes "broker_inv (br_store s)" "uuids_fresh ev (br_store s)" "\<not> codes_of ev c" "tab_get (bs_codes (br_store s)) c = None"
  shows "tab_get (bs_codes (br_store (snd (broker_step cl cfg ev s)))) c = None"
  using moves_no_code [OF broker_step_moves [OF inv_wf fresh_install]] assms inv_wf by blast

lemma no_code_run:
  assumes "broker_inv (br_store s)" "run_fresh cl cfg evs s" "\<forall>ev\<in>set evs. \<not> codes_of ev c"
    "tab_get (bs_codes (br_store s)) c = None"
  shows "\<forall>out\<in>set (broker_run cl cfg evs s). \<not> redeems c out"
proof
  fix out assume "out \<in> set (broker_run cl cfg evs s)"
  moreover obtain ev rep s' where out: "out = (ev, rep, s')" by (cases out)
  ultimately obtain s0 where "tab_get (bs_codes (br_store s0)) c = None" "broker_step cl cfg ev s0 = (rep, s')"
    using run_keeps [of evs "\<lambda>st. tab_get (bs_codes st) c = None" cl cfg s ev rep s'] step_no_code assms by blast
  then show "\<not> redeems c out" using redeemE [of c ev cl cfg s0] out by (metis option.distinct(1))
qed

section \<open>Revoked access tokens\<close>

text \<open>The reply hands out \<open>a\<close> as an access token.\<close>

definition hands_out :: "string \<Rightarrow> broker_reply \<Rightarrow> bool" where
  "hands_out a rep = (case rep of WriteJSON st (BTokens t) \<Rightarrow> tr_access_token t = a | _ \<Rightarrow> False)"

lemma hands_out_mints: "mints rep a r \<Longrightarrow> hands_out a rep"
  by (auto simp: mints_def hands_out_def split: reply.splits broker_payload.splits)

lemma UserInfo_no_record:
  assumes "tab_get (bs_tokens (br_store s)) a = None"
  shows "\<exists>m. UserInfo cfg e (bearer a) s = (unauthorized m, s)"
  using assms by (auto simp: UserInfo_bearer GetToken_def store_call_def split: sum.splits)

lemma no_token_run:
  assumes "broker_inv (br_store s)" "run_fresh cl cfg evs s" "tab_get (bs_tokens (br_store s)) a = None"
    "\<forall>out\<in>set (broker_run cl cfg evs s). \<not> hands_out a (fst (snd out))"
    "(Public e (BUserInfoGet (bearer a)), rep, s') \<in> set (broker_run cl cfg evs s)"
  shows "\<exists>m. rep = unauthorized m"
  using assms
proof (induction evs arbitrary: s)
  case (Cons ev evs)
  let ?s = "snd (broker_step cl cfg ev s)"
  have s: "broker_inv (br_store s)" "uuids_fresh ev (br_store s)" "run_fresh cl cfg evs ?s" using Cons.prems by simp_all
  have "\<not> mints (fst (broker_step cl cfg ev s)) a r" for r
    using Cons.prems(4) hands_out_mints [of "fst (broker_step cl cfg ev s)" a r] by (auto simp: Let_def)
  then have gone: "tab_get (bs_tokens (br_store ?s)) a = None"
    using moves_no_token [OF broker_step_moves [OF inv_wf [OF s(1)] fresh_install [OF s(2)]], of cl cfg a] inv_wf [OF s(1)]
      Cons.prems(3) by blast
  from Cons.prems(5) consider "ev = Public e (BUserInfoGet (bearer a))" "broker_step cl cfg ev s = (rep, s')"
    | "(Public e (BUserInfoGet (bearer a)), rep, s') \<in> set (broker_run cl cfg evs ?s)"
    by (auto simp: Let_def)
  then show ?case
  proof cases
    case 1
    then show ?thesis using UserInfo_no_record [OF Cons.prems(3), of cfg e] by auto
  next
    case 2
    have "\<forall>out\<in>set (broker_run cl cfg evs ?s). \<not> hands_out a (fst (snd out))" using Cons.prems(4) by (simp add: Let_def)
    from Cons.IH [OF step_inv [OF s(1,2)] s(3) gone this 2] show ?thesis .
  qed
qed simp

section \<open>Overlapping requests\<close>

text \<open>
  \<open>handleRefreshGrant\<close> reads the token record first and writes it at the end; a second request can
  read the record in between.  What it then answers does not depend on the first.
\<close>

lemma refresh_rotate_reply:
  "br_world s1 = br_world s2 \<Longrightarrow> fst (refresh_rotate cl cfg e rec i s1) = fst (refresh_rotate cl cfg e rec i s2)"
  by (auto simp: refresh_rotate_def Let_def split: prod.splits sum.splits option.splits)

lemma refresh_rotate_installs: "bs_installs (br_store (snd (refresh_rotate cl cfg e rec i s))) = bs_installs (br_store s)"
  by (auto simp: refresh_rotate_def best_effort_token_def Let_def split: prod.splits sum.splits option.splits)

text \<open>The exchange of an unrotated record, as \<open>refresh_rotate\<close> with the install it read.\<close>

lemma refresh_withE:
  assumes "hands_tokens (fst (refresh_with cl cfg e f rec s))"
  obtains i where "refresh_with cl cfg e f rec s = refresh_rotate cl cfg e rec i s" "tk_RotatedAt rec = None"
    "GetInstall (tk_TenantID rec) (tk_InstallID rec) (br_store s) = Some i"
proof -
  have "\<exists>i. refresh_with cl cfg e f rec s = refresh_rotate cl cfg e rec i s \<and> tk_RotatedAt rec = None \<and>
      GetInstall (tk_TenantID rec) (tk_InstallID rec) (br_store s) = Some i"
    using assms by (auto simp: refresh_with_def split: got.splits if_splits)
  then show thesis using that by blast
qed

lemma refresh_with_again:
  assumes "hands_tokens (fst (refresh_with cl cfg e f rec s0))" "br_world s0 = br_world s1"
    "bs_installs (br_store s0) = bs_installs (br_store s1)"
  shows "fst (refresh_with cl cfg e f rec s1) = fst (refresh_with cl cfg e f rec s0)"
  using assms refresh_rotate_reply [of s0 s1 cl cfg e rec] by (auto simp: refresh_with_def GetInstall_def split: got.splits)

definition live_refresh :: "string \<Rightarrow> string \<Rightarrow> broker_store \<Rightarrow> bool" where
  "live_refresh r k s \<longleftrightarrow> list_ex (\<lambda>t. tk_RefreshToken t = r \<and> tk_RotatedAt t = None \<and> tk_InstallID t = k) (tab_rows (bs_tokens s))"

lemma live_refresh_row:
  assumes "tab_get (bs_tokens s) a = Some t" "tk_RefreshToken t = r" "tk_RotatedAt t = None" "tk_InstallID t = k"
  shows "live_refresh r k s"
proof -
  have "t \<in> set (tab_rows (bs_tokens s))"
    using assms(1) by (auto simp: tab_get_def tab_rows_def dest!: map_of_SomeD intro: rev_image_eqI)
  with assms show ?thesis by (auto simp: live_refresh_def list_ex_iff)
qed

section \<open>Properties\<close>

definition demo_code :: AuthCode where
  "demo_code =
     \<lparr>cd_Code = ''q'', cd_TenantID = ''t'', cd_Runtime = ''custom'', cd_PersonaID = ''p'', cd_PoolID = ''o'',
      cd_ClientID = ''c'', cd_RedirectURI = ''u'', cd_State = [], cd_Scope = ''m'', cd_CodeChallenge = b64_encode ''v'',
      cd_CreatedAt = 5\<rparr>"

definition demo_coded :: "string list broker_sys" where
  "demo_coded = demo_broker\<lparr>br_store := PutAuthCode 5 demo_code (br_store demo_broker)\<rparr>"

definition demo_redeem :: token_form where
  "demo_redeem = \<lparr>tf_grant_type = ''authorization_code'', tf_code = ''q'', tf_client_id = ''c'', tf_code_verifier = ''v'',
     tf_refresh_token = []\<rparr>"

definition demo_redemption :: "string \<Rightarrow> broker_event" where
  "demo_redemption p = Public (demo_broker_env p 10) (BToken (Some demo_redeem))"

lemma demo_coded_inv: "broker_inv (br_store demo_coded)"
  using demo_broker_inv
  by (auto simp: broker_inv_def broker_wf_def has_install_def demo_coded_def PutAuthCode_def Let_def intro: tab_wf_put)



text \<open>
  A revoked access token stays dead: after a request to /revoke for a stored token, the token of
  the record's tenant has been passed to grant-service for revocation, and in any run that follows the
  userinfo endpoint refuses the token, as long as no reply hands out the very same token again.
\<close>

theorem revoked_access_token_stays_dead:
  assumes inv: "broker_inv (br_store s)" and rec: "tab_get (bs_tokens (br_store s)) a = Some rec" "a \<noteq> []"
    and e: "\<And>op. \<not> op_fails e op" "uuids_fresh (Public e (BRevoke (Some a))) (br_store s)"
    and out: "broker_step cl cfg (Public e (BRevoke (Some a))) s = (rep, s1)"
    and evs: "run_fresh cl cfg evs s1" "\<forall>out\<in>set (broker_run cl cfg evs s1). \<not> hands_out a (fst (snd out))"
  shows "rep = WriteJSON StatusOK BEmpty \<and> br_world s1 = snd (bc_RevokeToken cl (tk_TenantID rec) a (br_world s)) \<and>
    (\<forall>e' rep' s'. (Public e' (BUserInfoGet (bearer a)), rep', s') \<in> set (broker_run cl cfg evs s1) \<longrightarrow>
       (\<exists>m. rep' = WriteError StatusUnauthorized ''invalid_token'' (Lit m)))"
proof -
  have wf: "broker_wf (br_store s)" using inv by (rule inv_wf)
  have s1: "rep = WriteJSON StatusOK BEmpty" "br_world s1 = snd (bc_RevokeToken cl (tk_TenantID rec) a (br_world s))"
    "br_store s1 = (br_store s)\<lparr>bs_tokens := tab_del a (bs_tokens (br_store s))\<rparr>"
    using out rec e(1) by (auto simp: Revoke_def GetToken_def DeleteToken_def Let_def split: prod.splits)
  have "tab_get (bs_tokens (br_store s1)) a = None" using wf s1(3) by (simp add: table_simps broker_wf_def)
  moreover have "broker_inv (br_store s1)" using step_inv [OF inv e(2), of cl cfg] out by simp
  ultimately show ?thesis
    using no_token_run [of s1 cl cfg evs a] evs s1(1,2) unfolding unauthorized_def by blast
qed

theorem revoked_access_token_stays_dead_witness:
  "\<exists>s1. broker_step demo_broker_clients demo_broker_cfg (Public (demo_broker_env ''yab'' 10) (BRevoke (Some ''a1''))) demo_broker
     = (WriteJSON StatusOK BEmpty, s1) \<and> br_world s1 = [''revoke'', ''t'']"
proof -
  obtain rep s1 where out: "broker_step demo_broker_clients demo_broker_cfg
      (Public (demo_broker_env ''yab'' 10) (BRevoke (Some ''a1''))) demo_broker = (rep, s1)" by fastforce
  have rec: "tab_get (bs_tokens (br_store demo_broker)) ''a1'' = Some (demo_token ''a1'' ''r1'' None)" "''a1'' \<noteq> []"
    by (simp_all add: demo_broker_def tab_get_def)
  have e: "\<not> op_fails (demo_broker_env ''yab'' 10) op" for op by (simp add: demo_broker_env_def)
  have fresh: "uuids_fresh (Public (demo_broker_env ''yab'' 10) (BRevoke (Some ''a1''))) (br_store demo_broker)" by code_simp
  have "rep = WriteJSON StatusOK BEmpty \<and>
      br_world s1 = snd (bc_RevokeToken demo_broker_clients (tk_TenantID (demo_token ''a1'' ''r1'' None)) ''a1'' (br_world demo_broker))"
    using revoked_access_token_stays_dead [OF demo_broker_inv rec e fresh out, of "[]"] by simp
  with out show ?thesis by (simp add: demo_broker_clients_def demo_token_def demo_broker_def)
qed

text \<open>
  A refresh token does not outlive its access token: once the periodic purge has run after the
  access token's expiry, the exchange is refused even though the install is active and the token was
  never rotated.  The lifetime policy in the comment of \<open>handleRefreshGrant\<close> promises no independent
  expiry.
\<close>

theorem refresh_token_dies_with_its_access_token:
  assumes "broker_inv (br_store s)" "rec \<in> set (tab_rows (bs_tokens (br_store s)))" "tk_ExpiresAt rec < now"
    and "tf_refresh_token f = tk_RefreshToken rec" "s1 = snd (broker_step cl cfg (Purge now False) s)"
  shows "handleRefreshGrant cl cfg e f s1 = (bad_request ''invalid_grant'' ''refresh token is invalid'', s1)"
proof -
  have rows: "set (tab_rows (bs_tokens (br_store s1))) = {t \<in> set (tab_rows (bs_tokens (br_store s))). \<not> tk_ExpiresAt t < now}"
    using assms(5) by (auto simp: PurgeExpired_def Let_def tab_rows_def)
  have "tk_RefreshToken t \<noteq> tk_RefreshToken rec" if "t \<in> set (tab_rows (bs_tokens (br_store s1)))" for t
    using that assms(1,2,3) rows unfolding broker_inv_def refresh_unique_def by blast
  then have "GetTokenByRefresh (tf_refresh_token f) (br_store s1) = None"
    by (auto simp: GetTokenByRefresh_def find_None_iff assms(4))
  moreover have "tf_refresh_token f \<noteq> []" using assms(1,2,4) by (auto simp: broker_inv_def)
  ultimately show ?thesis
    by (simp add: handleRefreshGrant_def invalid_grant_def store_call_def)
qed

theorem refresh_token_dies_with_its_access_token_witness:
  "hands_tokens (fst (handleRefreshGrant demo_broker_clients demo_broker_cfg (demo_broker_env ''yab'' (901 * Second)) (demo_refresh ''r1'')
     demo_broker)) \<and>
   handleRefreshGrant demo_broker_clients demo_broker_cfg (demo_broker_env ''yab'' (902 * Second)) (demo_refresh ''r1'')
     (snd (broker_step demo_broker_clients demo_broker_cfg (Purge (901 * Second) False) demo_broker))
     = (bad_request ''invalid_grant'' ''refresh token is invalid'',
        snd (broker_step demo_broker_clients demo_broker_cfg (Purge (901 * Second) False) demo_broker))"
proof
  show "handleRefreshGrant demo_broker_clients demo_broker_cfg (demo_broker_env ''yab'' (902 * Second)) (demo_refresh ''r1'')
     (snd (broker_step demo_broker_clients demo_broker_cfg (Purge (901 * Second) False) demo_broker))
     = (bad_request ''invalid_grant'' ''refresh token is invalid'',
        snd (broker_step demo_broker_clients demo_broker_cfg (Purge (901 * Second) False) demo_broker))"
    by (rule refresh_token_dies_with_its_access_token [OF demo_broker_inv, of "demo_token ''a1'' ''r1'' None"])
      (simp_all add: demo_broker_def demo_token_def demo_refresh_def tab_rows_def Second_def)
qed code_simp

text \<open>
  An administrator's revocation does not reach the access tokens: no request to the install routes
  changes what the userinfo endpoint answers for any token, so the tokens of a revoked install are
  vouched for until they expire.  The comments of \<open>UserInfo\<close> and of the token record say that the
  revocation deletes the record.
\<close>

theorem admin_requests_leave_userinfo:
  "fst (broker_step cl cfg (Public e' (BUserInfoGet auth)) (snd (broker_step cl cfg (Admin e rt g) s)))
     = fst (broker_step cl cfg (Public e' (BUserInfoGet auth)) s)"
proof -
  have tokens: "bs_tokens (br_store (snd (broker_v1 cl e rt t s))) = bs_tokens (br_store s)" for t
    by (cases rt) (auto simp: install_create_def install_list_def install_get_def install_revoke_def UpdateInstall_def Let_def
        split: option.splits sum.splits prod.splits got.splits if_splits)
  then have "bs_tokens (br_store (snd (broker_step cl cfg (Admin e rt g) s))) = bs_tokens (br_store s)"
    by (simp add: TenantMiddleware_def split: option.split)
  then show ?thesis
    by (simp add: UserInfo_def GetToken_def Let_def split: sum.split prod.split got.split)
qed

text \<open>
  Two overlapping exchanges of one refresh token both succeed: a request that has read the token
  record before another exchange rotates it answers as if it were alone, and the install ends with two
  live refresh tokens.
\<close>

theorem overlapping_refreshes_both_succeed:
  assumes first: "refresh_with cl cfg e1 f1 rec s = (rep1, s1)" "hands_tokens rep1"
    and alone: "refresh_with cl cfg e2 f2 rec (s\<lparr>br_world := br_world s1\<rparr>) = (rep2, s2)" "hands_tokens rep2"
    and stored: "\<not> op_fails e1 BOpPutToken" "\<not> op_fails e2 BOpPutToken"
    and different: "\<And>a. \<not> (hands_out a rep1 \<and> hands_out a rep2)" "\<not> hands_out (tk_AccessToken rec) rep1"
  shows "\<exists>s3. refresh_with cl cfg e2 f2 rec s1 = (rep2, s3) \<and>
    live_refresh (new_id e1 1) (tk_InstallID rec) (br_store s3) \<and> live_refresh (new_id e2 1) (tk_InstallID rec) (br_store s3)"
proof -
  obtain i1 where r1: "refresh_with cl cfg e1 f1 rec s = refresh_rotate cl cfg e1 rec i1 s"
    using refresh_withE [of cl cfg e1 f1 rec s] first by auto
  have ok1: "hands_tokens (fst (refresh_rotate cl cfg e1 rec i1 s))" using first r1 by simp
  obtain t1 n1 where t1: "tk_RefreshToken t1 = new_id e1 1" "tk_InstallID t1 = tk_InstallID rec" "tk_RotatedAt t1 = None"
      "mints rep1 (tk_AccessToken t1) (tk_RefreshToken t1)"
    and s1: "br_store s1 = PutToken t1 (best_effort_token (op_fails e1 BOpRotateToken) (rec\<lparr>tk_RotatedAt := Some n1\<rparr>) (br_store s))"
    using refresh_rotate_success [OF ok1] first r1 stored by (auto simp: best_effort_token_def)
  have installs: "bs_installs (br_store s1) = bs_installs (br_store s)"
    using refresh_rotate_installs [of cl cfg e1 rec i1 s] first r1 by simp
  have "hands_tokens (fst (refresh_with cl cfg e2 f2 rec (s\<lparr>br_world := br_world s1\<rparr>)))" using alone by simp
  from refresh_with_again [OF this, of s1] installs alone
  have rep: "fst (refresh_with cl cfg e2 f2 rec s1) = rep2" by simp
  then obtain i2 where r2: "refresh_with cl cfg e2 f2 rec s1 = refresh_rotate cl cfg e2 rec i2 s1"
    using refresh_withE [of cl cfg e2 f2 rec s1] alone by auto
  have ok2: "hands_tokens (fst (refresh_rotate cl cfg e2 rec i2 s1))" using rep r2 alone by simp
  obtain s3 where s3: "refresh_with cl cfg e2 f2 rec s1 = (rep2, s3)" using rep by (cases "refresh_with cl cfg e2 f2 rec s1") auto
  obtain t2 n2 where t2: "tk_RefreshToken t2 = new_id e2 1" "tk_InstallID t2 = tk_InstallID rec" "tk_RotatedAt t2 = None"
      "mints rep2 (tk_AccessToken t2) (tk_RefreshToken t2)"
    and st3: "br_store s3 = PutToken t2 (best_effort_token (op_fails e2 BOpRotateToken) (rec\<lparr>tk_RotatedAt := Some n2\<rparr>) (br_store s1))"
    using refresh_rotate_success [OF ok2] s3 r2 stored by (auto simp: best_effort_token_def)
  have "tk_AccessToken t1 \<noteq> tk_AccessToken t2" "tk_AccessToken t1 \<noteq> tk_AccessToken rec"
    using different hands_out_mints t1(4) t2(4) by metis+
  then have "tab_get (bs_tokens (br_store s3)) (tk_AccessToken t1) = Some t1"
    "tab_get (bs_tokens (br_store s3)) (tk_AccessToken t2) = Some t2"
    unfolding st3 s1 by (auto simp: best_effort_token_def table_simps)
  then show ?thesis using s3 t1 t2 live_refresh_row by blast
qed

theorem overlapping_refreshes_both_succeed_witness:
  "\<exists>rep1 s1 rep2 s3. refresh_with demo_broker_clients demo_broker_cfg (demo_broker_env ''yab'' 10) (demo_refresh ''r1'')
       (demo_token ''a1'' ''r1'' None) demo_broker = (rep1, s1) \<and>
     refresh_with demo_broker_clients demo_broker_cfg (demo_broker_env ''zcd'' 10) (demo_refresh ''r1'')
       (demo_token ''a1'' ''r1'' None) s1 = (rep2, s3) \<and>
     live_refresh ''a'' ''i'' (br_store s3) \<and> live_refresh ''c'' ''i'' (br_store s3)"
proof -
  let ?go = "\<lambda>p s. refresh_with demo_broker_clients demo_broker_cfg (demo_broker_env p 10) (demo_refresh ''r1'')
    (demo_token ''a1'' ''r1'' None) s"
  obtain rep1 s1 where first: "?go ''yab'' demo_broker = (rep1, s1)" by fastforce
  then have s1: "rep1 = fst (?go ''yab'' demo_broker)" "s1 = snd (?go ''yab'' demo_broker)" by simp_all
  obtain rep2 s2 where alone: "?go ''zcd'' (demo_broker\<lparr>br_world := br_world s1\<rparr>) = (rep2, s2)" by fastforce
  have reps: "fst (?go ''yab'' demo_broker) = token_reply ''aA.eQ.YQ'' ''a'' 900 ''m''"
    "fst (?go ''zcd'' (demo_broker\<lparr>br_world := br_world (snd (?go ''yab'' demo_broker))\<rparr>)) = token_reply ''aA.eg.YQ'' ''c'' 900 ''m''"
    by code_simp+
  have rep2: "rep2 = token_reply ''aA.eg.YQ'' ''c'' 900 ''m''" using alone reps(2) s1 by simp
  have different: "\<not> (hands_out a rep1 \<and> hands_out a rep2)" "\<not> hands_out (tk_AccessToken (demo_token ''a1'' ''r1'' None)) rep1" for a
    unfolding s1 rep2 reps by (auto simp: hands_out_def token_reply_def demo_token_def)
  have ok: "hands_tokens rep1" "hands_tokens rep2" unfolding s1 rep2 reps by simp_all
  have stored: "\<not> op_fails (demo_broker_env p 10) BOpPutToken" for p by (simp add: demo_broker_env_def)
  from overlapping_refreshes_both_succeed [OF first ok(1) alone ok(2) stored stored different]
  obtain s3 where "?go ''zcd'' s1 = (rep2, s3)"
    "live_refresh (new_id (demo_broker_env ''yab'' 10) 1) (tk_InstallID (demo_token ''a1'' ''r1'' None)) (br_store s3)"
    "live_refresh (new_id (demo_broker_env ''zcd'' 10) 1) (tk_InstallID (demo_token ''a1'' ''r1'' None)) (br_store s3)"
    by blast
  moreover have "new_id (demo_broker_env ''yab'' 10) 1 = ''a''" "new_id (demo_broker_env ''zcd'' 10) 1 = ''c''"
    "tk_InstallID (demo_token ''a1'' ''r1'' None) = ''i''" by (simp_all add: demo_broker_env_def demo_token_def)
  ultimately show ?thesis using first by auto
qed

end
