(* ===== verification/BrokerSaga.thy ===== *)
theory BrokerSaga
  imports BrokerTokens
begin

text \<open>
  The code grant as a saga over the identity service.  What broker-service relies on is stated as an
  interface: a claim binds a free identity to the install, a release frees a bound one, the other calls
  bind nothing.  Under these laws the grant is all or nothing: it ends with exactly the new install
  bound to one identity, or with every binding as before.
\<close>

section \<open>The end of a saga\<close>

text \<open>
  After the grant for the install \<open>k\<close>: with tokens, the install is active and holds one identity that
  was free before; without, it is revoked, every identity is held as before and no token is stored.
\<close>

definition saga_end :: "('w \<Rightarrow> string \<Rightarrow> string \<Rightarrow> string option) \<Rightarrow> string \<Rightarrow> string \<Rightarrow>
    (string \<Rightarrow> string \<Rightarrow> string option) \<Rightarrow> TokenRecord table \<Rightarrow> broker_reply \<times> 'w broker_sys \<Rightarrow> bool" where
  "saga_end holder t k before tokens out \<longleftrightarrow>
     (case tab_get (bs_installs (br_store (snd out))) k of
        None \<Rightarrow> False
      | Some i \<Rightarrow>
          if hands_tokens (fst out) then
            in_Status i = InstallActive \<and> before t (in_IdentityID i) = None \<and>
            holder (br_world (snd out)) = before(t := (before t)(in_IdentityID i := Some k))
          else in_Status i = InstallRevoked \<and> holder (br_world (snd out)) = before \<and>
            bs_tokens (br_store (snd out)) = tokens)"

lemma mark_row:
  assumes "tab_get (bs_installs (br_store s)) (in_ID install) = Some install" "\<not> op_fails e BOpUpdateInstall"
  shows "tab_get (bs_installs (br_store (markInstallRevoked e install s))) (in_ID install)
    = Some (install\<lparr>in_Status := InstallRevoked, in_UpdatedAt := now_at e 3\<rparr>)"
  using assms by (simp add: markInstallRevoked_def best_effort_install_def UpdateInstall_def Let_def table_simps)

lemma mark_frame [simp]:
  "br_world (markInstallRevoked e install s) = br_world s"
  "bs_tokens (br_store (markInstallRevoked e install s)) = bs_tokens (br_store s)"
  by (simp_all add: markInstallRevoked_def)

lemma marked_end:
  assumes "tab_get (bs_installs (br_store s)) (in_ID install) = Some install" "\<not> op_fails e BOpUpdateInstall"
    "\<not> hands_tokens rep" "holder (br_world s) = before"
  shows "saga_end holder t (in_ID install) before (bs_tokens (br_store s)) (rep, markInstallRevoked e install s)"
  using mark_row [OF assms(1,2)] assms(3,4) by (simp add: saga_end_def)

section \<open>The interface\<close>

text \<open>
  \<open>holder w t x\<close> is the install that holds the identity \<open>x\<close> of the tenant \<open>t\<close>; \<open>sound\<close> is an
  invariant of the world; ids that are \<open>plain\<close> are one segment of a URL.
\<close>

locale identity_service =
  fixes cl :: "'w broker_clients"
    and sound :: "'w \<Rightarrow> bool"
    and holder :: "'w \<Rightarrow> string \<Rightarrow> string \<Rightarrow> string option"
    and plain :: "string \<Rightarrow> bool"
  assumes persona: "sound w \<Longrightarrow> plain p \<Longrightarrow> bc_GetPersona cl t p w = (res, w') \<Longrightarrow> sound w' \<and> holder w' = holder w"
    and claim: "sound w \<Longrightarrow> plain pool \<Longrightarrow> bc_ClaimIdentity cl t pool p k w = (Inr i, w') \<Longrightarrow>
      sound w' \<and> holder w t (iv_ID i) = None \<and>
      holder w' = (holder w)(t := (holder w t)(iv_ID i := Some k))"
    and claim_failed: "sound w \<Longrightarrow> plain pool \<Longrightarrow> bc_ClaimIdentity cl t pool p k w = (Inl err, w') \<Longrightarrow>
      sound w' \<and> holder w' = holder w"
    and release: "sound w \<Longrightarrow> holder w t x \<noteq> None \<Longrightarrow> bc_ReleaseIdentity cl t x w = (res', w') \<Longrightarrow>
      sound w' \<and> holder w' = (holder w)(t := (holder w t)(x := None))"
    and grant: "sound w \<Longrightarrow> bc_CreateGrant cl t q w = (gres, w') \<Longrightarrow> sound w' \<and> holder w' = holder w"
begin

lemma release_undoes:
  assumes "sound w" "holder w = before(t := (before t)(x := Some k))" "before t x = None"
    and "bc_ReleaseIdentity cl t x w = (res', w')"
  shows "sound w' \<and> holder w' = before"
proof -
  have "holder w t x \<noteq> None" using assms(2) by simp
  from release [OF assms(1) this assms(4)] show ?thesis using assms(2,3) by (auto simp: fun_eq_iff)
qed

lemma compensate_end:
  assumes i: "tab_get (bs_installs (br_store s)) (in_ID install) = Some install"
    and w: "sound (br_world s)" "holder (br_world s) = before(t := (before t)(x := Some (in_ID install)))" "before t x = None"
    and t: "t = in_TenantID install" and e: "\<not> op_fails e BOpUpdateInstall" and rep: "\<not> hands_tokens rep"
  shows "sound (br_world (compensate cl e install x s)) \<and>
    saga_end holder t (in_ID install) before (bs_tokens (br_store s)) (rep, compensate cl e install x s)"
proof -
  obtain res' w' where r: "bc_ReleaseIdentity cl (in_TenantID install) x (br_world s) = (res', w')" by fastforce
  have "sound w' \<and> holder w' = before" using release_undoes [OF w] r t by simp
  then show ?thesis using marked_end [of "s\<lparr>br_world := w'\<rparr>" install e rep holder before t] i e rep r by (simp add: compensate_def)
qed

lemma tokens_end:
  assumes i: "tab_get (bs_installs (br_store s)) (in_ID install) = Some install"
    and w: "sound (br_world s)"
      "holder (br_world s) = before(t := (before t)(iv_ID identity := Some (in_ID install)))" "before t (iv_ID identity) = None"
    and t: "t = in_TenantID install" "t = cd_TenantID ac" and e: "\<not> op_fails e BOpUpdateInstall"
    and out: "code_grant_tokens cl cfg e ac install persona identity s = out"
  shows "sound (br_world (snd out)) \<and> saga_end holder t (in_ID install) before (bs_tokens (br_store s)) out"
proof (cases "mint cfg (new_id e 1) (now_at e 2) (token_ttl cfg persona) (iv_SubjectID identity) (cd_ClientID ac) (cd_TenantID ac)
    (scopeString (pv_Scopes persona) (cd_Scope ac)) (in_ID install) (cd_PersonaID ac) (iv_ID identity)")
  case None
  then have "out = (internal ''failed to sign access token'', compensate cl e install (iv_ID identity) s)"
    using out by (simp add: code_grant_tokens_def Let_def)
  then show ?thesis using compensate_end [OF i w t(1) e, of "internal ''failed to sign access token''"] by simp
next
  case (Some a)
  let ?q = "\<lparr>gq_InstallID = in_ID install, gq_IdentityID = iv_ID identity, gq_PersonaID = cd_PersonaID ac,
    gq_AccessTokenHash = hashToken (bg_jwt cfg) a, gq_RefreshTokenHash = hashToken (bg_jwt cfg) (new_id e 2),
    gq_TTLSeconds = token_ttl cfg persona\<rparr>"
  obtain gres w' where g: "bc_CreateGrant cl (cd_TenantID ac) ?q (br_world s) = (gres, w')" by fastforce
  then have w': "sound w'" "holder w' = before(t := (before t)(iv_ID identity := Some (in_ID install)))"
    using grant [OF w(1) g] w(2) by simp_all
  show ?thesis
  proof (cases gres)
    case (Inl err)
    then have "out = (bad_gateway ''grant-service unavailable'', compensate cl e install (iv_ID identity) (s\<lparr>br_world := w'\<rparr>))"
      using out Some g by (simp add: code_grant_tokens_def Let_def)
    then show ?thesis
      using compensate_end [of "s\<lparr>br_world := w'\<rparr>" install before t "iv_ID identity" e "bad_gateway ''grant-service unavailable''"]
        i w' w(3) t e by simp
  next
    case (Inr g')
    let ?i = "install\<lparr>in_IdentityID := iv_ID identity, in_Status := InstallActive\<rparr>"
    obtain i' where i': "tab_get (bs_installs (best_effort_install False (now_at e 3) ?i (br_store s))) (in_ID install) = Some i'"
      "in_Status i' = InstallActive" "in_IdentityID i' = iv_ID identity"
      using i by (simp add: best_effort_install_def UpdateInstall_def Let_def table_simps)
    have "hands_tokens (fst out)" "br_world (snd out) = w'"
      "bs_installs (br_store (snd out)) = bs_installs (best_effort_install False (now_at e 3) ?i (br_store s))"
      using out Some g Inr e by (auto simp: code_grant_tokens_def best_effort_token_def Let_def)
    then show ?thesis using w' w(3) i' by (simp add: saga_end_def)
  qed
qed

lemma claim_end:
  assumes i: "tab_get (bs_installs (br_store s)) (in_ID install) = Some install"
    and w: "sound (br_world s)" "plain (cd_PoolID ac)"
    and t: "in_TenantID install = cd_TenantID ac" and e: "\<not> op_fails e BOpUpdateInstall"
    and out: "code_grant_claim cl cfg e ac install persona s = out"
  shows "sound (br_world (snd out)) \<and>
    saga_end holder (cd_TenantID ac) (in_ID install) (holder (br_world s)) (bs_tokens (br_store s)) out"
proof -
  obtain res w' where c: "bc_ClaimIdentity cl (cd_TenantID ac) (cd_PoolID ac) (cd_PersonaID ac) (in_ID install) (br_world s) = (res, w')"
    by fastforce
  show ?thesis
  proof (cases res)
    case (Inl err)
    then obtain rep where out': "out = (rep, markInstallRevoked e install (s\<lparr>br_world := w'\<rparr>))" "\<not> hands_tokens rep"
      using out c by (auto simp: code_grant_claim_def Let_def split: if_splits)
    have "sound w' \<and> holder w' = holder (br_world s)" using claim_failed [OF w] c Inl by blast
    then show ?thesis using marked_end [of "s\<lparr>br_world := w'\<rparr>" install e rep holder] i e out' by simp
  next
    case (Inr identity)
    let ?s = "s\<lparr>br_world := w'\<rparr>"
    have w': "sound w'" "holder (br_world s) (cd_TenantID ac) (iv_ID identity) = None"
      "holder w' = (holder (br_world s))(cd_TenantID ac := (holder (br_world s) (cd_TenantID ac))(iv_ID identity := Some (in_ID install)))"
      using claim [OF w] c Inr by blast+
    have fields: "br_world ?s = w'" "br_store ?s = br_store s" by simp_all
    have s': "tab_get (bs_installs (br_store ?s)) (in_ID install) = Some install" "sound (br_world ?s)"
      "bs_tokens (br_store ?s) = bs_tokens (br_store s)" "holder (br_world ?s) =
        (holder (br_world s))(cd_TenantID ac := (holder (br_world s) (cd_TenantID ac))(iv_ID identity := Some (in_ID install)))"
      unfolding fields by (fact i, fact w', rule refl, fact w')
    have "code_grant_tokens cl cfg e ac install persona identity ?s = out"
      using out c Inr by (simp add: code_grant_claim_def Let_def)
    from tokens_end [where before = "holder (br_world s)" and t = "cd_TenantID ac" and identity = identity,
        OF s'(1,2,4) w'(2) t [symmetric] refl e this] show ?thesis
      unfolding s'(3) .
  qed
qed

lemma install_end:
  assumes w: "sound (br_world s)" "plain (cd_PersonaID ac)" "plain (cd_PoolID ac)"
    and e: "\<not> op_fails e BOpCreateInstall" "\<not> op_fails e BOpUpdateInstall"
    and out: "code_grant_install cl cfg e ac s = out"
  shows "sound (br_world (snd out)) \<and>
    saga_end holder (cd_TenantID ac) (new_id e 0) (holder (br_world s)) (bs_tokens (br_store s)) out"
proof -
  let ?i = "pending_install e ac"
  obtain res w' where p: "bc_GetPersona cl (cd_TenantID ac) (cd_PersonaID ac) (br_world s) = (res, w')" by fastforce
  have w': "sound w'" "holder w' = holder (br_world s)" using persona [OF w(1,2) p] by simp_all
  let ?s = "s\<lparr>br_store := CreateInstall ?i (br_store s), br_world := w'\<rparr>"
  have i: "tab_get (bs_installs (br_store ?s)) (in_ID ?i) = Some ?i" "in_ID ?i = new_id e 0" "in_TenantID ?i = cd_TenantID ac"
    by (simp_all add: table_simps) (simp_all add: pending_install_def)
  show ?thesis
  proof (cases res)
    case (Inl err)
    then obtain rep where "out = (rep, markInstallRevoked e ?i ?s)" "\<not> hands_tokens rep"
      using out p e by (auto simp: code_grant_install_def Let_def split: if_splits)
    then show ?thesis using marked_end [OF i(1) e(2), of rep holder] w' i(2) by simp
  next
    case (Inr persona)
    then have "code_grant_claim cl cfg e ac ?i persona ?s = out" using out p e by (simp add: code_grant_install_def Let_def)
    from claim_end [OF i(1) _ w(3) i(3) e(2) this] show ?thesis using w' i(2) by simp
  qed
qed

text \<open>The whole grant: also when the code is refused, nothing is bound.\<close>

lemma code_grant_all_or_nothing:
  assumes w: "sound (br_world s)"
    and ids: "\<And>ac. tab_get (bs_codes (br_store s)) (tf_code f) = Some ac \<Longrightarrow>
      cd_TenantID ac = t \<and> plain (cd_PersonaID ac) \<and> plain (cd_PoolID ac)"
    and e: "\<And>op. \<not> op_fails e op"
    and out: "handleCodeGrant cl cfg e f s = out"
  shows "if hands_tokens (fst out)
    then saga_end holder t (new_id e 0) (holder (br_world s)) (bs_tokens (br_store s)) out
    else holder (br_world (snd out)) = holder (br_world s) \<and> bs_tokens (br_store (snd out)) = bs_tokens (br_store s) \<and>
      (case tab_get (bs_installs (br_store (snd out))) (new_id e 0) of
         None \<Rightarrow> True
       | Some i \<Rightarrow> in_Status i = InstallRevoked \<or> tab_get (bs_installs (br_store s)) (new_id e 0) = Some i)"
proof (cases "\<exists>ac. tab_get (bs_codes (br_store s)) (tf_code f) = Some ac \<and> out =
    code_grant_install cl cfg e ac (s\<lparr>br_store := (br_store s)\<lparr>bs_codes := tab_del (tf_code f) (bs_codes (br_store s))\<rparr>\<rparr>)")
  case True
  then obtain ac where ac: "tab_get (bs_codes (br_store s)) (tf_code f) = Some ac" "code_grant_install cl cfg e ac
      (s\<lparr>br_store := (br_store s)\<lparr>bs_codes := tab_del (tf_code f) (bs_codes (br_store s))\<rparr>\<rparr>) = out" by blast
  then show ?thesis
    using install_end [OF _ _ _ e e ac(2)] w ids [OF ac(1)] by (auto simp: saga_end_def split: option.splits if_splits)
next
  case False
  then have "\<not> hands_tokens (fst out) \<and> br_world (snd out) = br_world s \<and>
      bs_tokens (br_store (snd out)) = bs_tokens (br_store s) \<and> bs_installs (br_store (snd out)) = bs_installs (br_store s)"
    using out e by (auto simp: handleCodeGrant_def ConsumeAuthCode_Some Let_def split: got.splits prod.splits if_splits)
  then show ?thesis by (simp split: option.split)
qed

end

end
