(* ===== verification/PoolService.thy ===== *)
theory PoolService
  imports XService
begin

text \<open>
  pool-service (models.go, storage.go, handlers.go): pools of agent identities, their in-memory storage
  with the atomic claim, the handlers and the router.
\<close>

section \<open>Records\<close>

definition IdentityAvailable :: string where "IdentityAvailable = ''available''"
definition IdentityClaimed :: string where "IdentityClaimed = ''claimed''"
definition IdentityRevoked :: string where "IdentityRevoked = ''revoked''"

lemmas identity_status_defs = IdentityAvailable_def IdentityClaimed_def IdentityRevoked_def

record Pool =
  po_ID :: string
  po_TenantID :: string
  po_Name :: string
  po_Size :: int
  po_PersonaIDs :: "string list"
  po_CreatedAt :: time
  po_UpdatedAt :: time

record Identity =
  pi_ID :: string
  pi_PoolID :: string
  pi_SubjectID :: string
  pi_Status :: string
  pi_ClaimedByInstallID :: "string option"
  pi_CreatedAt :: time
  pi_UpdatedAt :: time

record CreatePoolRequest =
  cp_Name :: string
  cp_Size :: int
  cp_PersonaIDs :: "string list"

record ClaimRequest =
  cl_PersonaID :: string
  cl_InstallID :: string

definition CreatePoolRequest_fields :: "CreatePoolRequest field list" where
  "CreatePoolRequest_fields =
     [into dec_string ''name'' cp_Name cp_Name_update,
      into dec_int ''size'' cp_Size cp_Size_update,
      into dec_strings ''persona_ids'' cp_PersonaIDs cp_PersonaIDs_update]"

definition no_create_pool :: CreatePoolRequest where
  "no_create_pool = \<lparr>cp_Name = [], cp_Size = 0, cp_PersonaIDs = []\<rparr>"

text \<open>\<open>AddIdentityRequest\<close> has the single member \<open>subject_id\<close>: the struct is that string.\<close>

definition AddIdentityRequest_fields :: "string field list" where
  "AddIdentityRequest_fields = [into dec_string ''subject_id'' (\<lambda>s. s) (\<lambda>f s. f s)]"

definition ClaimRequest_fields :: "ClaimRequest field list" where
  "ClaimRequest_fields =
     [into dec_string ''persona_id'' cl_PersonaID cl_PersonaID_update,
      into dec_string ''install_id'' cl_InstallID cl_InstallID_update]"

definition no_claim :: ClaimRequest where
  "no_claim = \<lparr>cl_PersonaID = [], cl_InstallID = []\<rparr>"

definition PoolMaxNameLen :: int where "PoolMaxNameLen = 100"
definition MinSize :: int where "MinSize = 1"
definition MaxSize :: int where "MaxSize = 10000"

section \<open>Storage\<close>

datatype pool_err = ErrPoolNotFound | ErrIdentityNotFound | ErrPoolFull | ErrPersonaNotEligible
  | ErrNoAvailableIdentity | ErrIdentityRevoked | ErrPoolStorage

record pool_store =
  pl_pools :: "Pool table"
  pl_identities :: "Identity table"

definition NewPoolStorage :: pool_store where
  "NewPoolStorage = \<lparr>pl_pools = [], pl_identities = []\<rparr>"

definition CreatePool :: "Pool \<Rightarrow> pool_store \<Rightarrow> pool_store" where
  "CreatePool p s = s\<lparr>pl_pools := tab_put (po_ID p) p (pl_pools s)\<rparr>"

definition GetPool :: "string \<Rightarrow> string \<Rightarrow> pool_store \<Rightarrow> Pool option" where
  "GetPool tenantID pid s =
     (case tab_get (pl_pools s) pid of
        None \<Rightarrow> None
      | Some p \<Rightarrow> if po_TenantID p \<noteq> tenantID then None else Some p)"

definition pool_before :: "Pool \<Rightarrow> Pool \<Rightarrow> bool" where
  "pool_before a b =
     (if po_CreatedAt a = po_CreatedAt b then po_ID b < po_ID a else po_CreatedAt b < po_CreatedAt a)"

definition ListPools :: "string \<Rightarrow> int \<Rightarrow> time \<Rightarrow> pool_store \<Rightarrow> Pool list" where
  "ListPools tenantID limit cursor s =
     cut_page limit (sort_slice pool_before
       (filter (\<lambda>p. po_TenantID p = tenantID \<and> after_cursor cursor (po_CreatedAt p)) (tab_rows (pl_pools s))))"

definition DeletePool :: "string \<Rightarrow> string \<Rightarrow> pool_store \<Rightarrow> pool_err + pool_store" where
  "DeletePool tenantID pid s =
     (case GetPool tenantID pid s of
        None \<Rightarrow> Inl ErrPoolNotFound
      | Some p \<Rightarrow> Inr (s\<lparr>pl_pools := tab_del pid (pl_pools s),
                         pl_identities := filter (\<lambda>(k, i). pi_PoolID i \<noteq> pid) (pl_identities s)\<rparr>))"

definition poolCountLocked :: "string \<Rightarrow> pool_store \<Rightarrow> int" where
  "poolCountLocked poolID s = int (length (filter (\<lambda>i. pi_PoolID i = poolID) (tab_rows (pl_identities s))))"

definition put_identity :: "Identity \<Rightarrow> pool_store \<Rightarrow> pool_store" where
  "put_identity i s = s\<lparr>pl_identities := tab_put (pi_ID i) i (pl_identities s)\<rparr>"

definition AddIdentity :: "string \<Rightarrow> string \<Rightarrow> Identity \<Rightarrow> pool_store \<Rightarrow> pool_err + Identity \<times> pool_store" where
  "AddIdentity tenantID poolID ident s =
     (case GetPool tenantID poolID s of
        None \<Rightarrow> Inl ErrPoolNotFound
      | Some p \<Rightarrow>
          if po_Size p \<le> poolCountLocked poolID s then Inl ErrPoolFull
          else Inr (ident, put_identity ident s))"

definition identity_before :: "Identity \<Rightarrow> Identity \<Rightarrow> bool" where
  "identity_before a b =
     (if pi_CreatedAt a = pi_CreatedAt b then pi_ID b < pi_ID a else pi_CreatedAt b < pi_CreatedAt a)"

definition ListIdentities :: "string \<Rightarrow> string \<Rightarrow> int \<Rightarrow> time \<Rightarrow> pool_store \<Rightarrow> pool_err + Identity list" where
  "ListIdentities tenantID poolID limit cursor s =
     (case GetPool tenantID poolID s of
        None \<Rightarrow> Inl ErrPoolNotFound
      | Some p \<Rightarrow> Inr (cut_page limit (sort_slice identity_before
          (filter (\<lambda>i. pi_PoolID i = poolID \<and> after_cursor cursor (pi_CreatedAt i)) (tab_rows (pl_identities s))))))"

definition GetIdentity :: "string \<Rightarrow> string \<Rightarrow> pool_store \<Rightarrow> Identity option" where
  "GetIdentity tenantID iid s =
     (case tab_get (pl_identities s) iid of
        None \<Rightarrow> None
      | Some i \<Rightarrow> (case GetPool tenantID (pi_PoolID i) s of None \<Rightarrow> None | Some p \<Rightarrow> Some i))"

text \<open>The order of the claim path: the oldest first.\<close>

definition claim_before :: "Identity \<Rightarrow> Identity \<Rightarrow> bool" where
  "claim_before a b =
     (if pi_CreatedAt a = pi_CreatedAt b then pi_ID a < pi_ID b else pi_CreatedAt a < pi_CreatedAt b)"

definition ClaimIdentity :: "time \<Rightarrow> string \<Rightarrow> string \<Rightarrow> string \<Rightarrow> string \<Rightarrow> pool_store \<Rightarrow>
    pool_err + Identity \<times> pool_store" where
  "ClaimIdentity now tenantID poolID personaID installID s =
     (case GetPool tenantID poolID s of
        None \<Rightarrow> Inl ErrPoolNotFound
      | Some p \<Rightarrow>
          if personaID \<notin> set (po_PersonaIDs p) then Inl ErrPersonaNotEligible
          else (case sort_slice claim_before
                  (filter (\<lambda>i. pi_PoolID i = poolID \<and> pi_Status i = IdentityAvailable) (tab_rows (pl_identities s))) of
                  [] \<Rightarrow> Inl ErrNoAvailableIdentity
                | picked # _ \<Rightarrow>
                    let picked = picked\<lparr>pi_Status := IdentityClaimed, pi_ClaimedByInstallID := Some installID,
                                        pi_UpdatedAt := now\<rparr>
                    in Inr (picked, put_identity picked s)))"

definition ReleaseIdentity :: "time \<Rightarrow> string \<Rightarrow> string \<Rightarrow> pool_store \<Rightarrow> pool_err + Identity \<times> pool_store" where
  "ReleaseIdentity now tenantID iid s =
     (case GetIdentity tenantID iid s of
        None \<Rightarrow> Inl ErrIdentityNotFound
      | Some i \<Rightarrow>
          if pi_Status i = IdentityRevoked then Inl ErrIdentityRevoked
          else if pi_Status i = IdentityAvailable \<and> pi_ClaimedByInstallID i = None then Inr (i, s)
          else let i = i\<lparr>pi_Status := IdentityAvailable, pi_ClaimedByInstallID := None, pi_UpdatedAt := now\<rparr>
               in Inr (i, s\<lparr>pl_identities := tab_put iid i (pl_identities s)\<rparr>))"

definition RevokeIdentity :: "time \<Rightarrow> string \<Rightarrow> string \<Rightarrow> pool_store \<Rightarrow> pool_err + pool_store" where
  "RevokeIdentity now tenantID iid s =
     (case GetIdentity tenantID iid s of
        None \<Rightarrow> Inl ErrIdentityNotFound
      | Some i \<Rightarrow>
          Inr (s\<lparr>pl_identities := tab_put iid
                 (i\<lparr>pi_Status := IdentityRevoked, pi_ClaimedByInstallID := None, pi_UpdatedAt := now\<rparr>)
                 (pl_identities s)\<rparr>))"

interpretation pools: tenant_rows po_ID po_TenantID CreatePool GetPool
  by unfold_locales (auto simp: CreatePool_def GetPool_def table_simps split: option.splits if_splits)

interpretation pool_pages: keyset_listing po_ID pool_before po_CreatedAt
  by unfold_locales (auto simp: pool_before_def split: if_splits)

interpretation identity_pages: keyset_listing pi_ID identity_before pi_CreatedAt
  by unfold_locales (auto simp: identity_before_def split: if_splits)

interpretation claim_order: row_order pi_ID claim_before
  by unfold_locales (auto simp: claim_before_def split: if_splits)

section \<open>Handlers\<close>

datatype pool_op = OOpCreatePool | OOpListPools | OOpGetPool | OOpDeletePool | OOpAddIdentity | OOpListIdentities
  | OOpClaim | OOpRelease | OOpRevoke

type_synonym pool_env = "pool_op svc_env"

datatype pool_payload =
    OPool Pool
  | OPools "Pool list" "time option"
  | OIdentity Identity
  | OIdentities "Identity list" "time option"
  | OHealthz

type_synonym pool_reply = "pool_payload reply"

text \<open>The text of a storage error, which the replies of this service pass on.\<close>

definition storage_failure :: "string \<Rightarrow> pool_reply" where
  "storage_failure code = WriteError StatusInternalServerError code (Fmt ''%s'' [''err''])"

definition pool_not_found :: pool_reply where
  "pool_not_found = WriteError StatusNotFound ''pool_not_found'' (Lit ''pool not found'')"

definition identity_not_found :: pool_reply where
  "identity_not_found = WriteError StatusNotFound ''identity_not_found'' (Lit ''identity not found'')"

definition pool_body_error :: "json_err \<Rightarrow> pool_reply" where
  "pool_body_error err =
     WriteError StatusBadRequest ''invalid_body''
       (if err = EndOfBody then Lit ''missing request body'' else ErrText err)"

lemmas pool_reply_defs = storage_failure_def pool_not_found_def identity_not_found_def pool_body_error_def reply_defs

definition pool_call :: "bool \<Rightarrow> pool_err + 'a \<Rightarrow> pool_err + 'a" where
  "pool_call fails res = (if fails then Inl ErrPoolStorage else res)"

lemma pool_call_Inr [simp]: "pool_call f res = Inr x \<longleftrightarrow> \<not> f \<and> res = Inr x"
  by (auto simp: pool_call_def)

lemma pool_call_simps [simp]: "pool_call False res = res" "pool_call True res = Inl ErrPoolStorage"
  by (simp_all add: pool_call_def)

definition handleCreatePool :: "pool_env \<Rightarrow> string option \<Rightarrow> body \<Rightarrow> pool_store \<Rightarrow> pool_reply \<times> pool_store" where
  "handleCreatePool e tenant b s =
     (case tenant of
        None \<Rightarrow> (no_tenant, s)
      | Some tenantID \<Rightarrow>
          (case ReadJSON CreatePoolRequest_fields no_create_pool b of
             Inl err \<Rightarrow> (pool_body_error err, s)
           | Inr req \<Rightarrow>
               let name = TrimSpace (cp_Name req)
               in if name = [] \<or> PoolMaxNameLen < int (length name)
                  then (bad_request ''invalid_name'' ''name required, 1-100 chars'', s)
                  else if cp_Size req < MinSize \<or> MaxSize < cp_Size req
                  then (bad_request ''invalid_size'' ''size must be between 1 and 10000'', s)
                  else if op_fails e OOpCreatePool then (storage_failure ''create_failed'', s)
                  else
                    let now = now_at e 0;
                        p = \<lparr>po_ID = new_id e 0, po_TenantID = tenantID, po_Name = name, po_Size = cp_Size req,
                             po_PersonaIDs = cp_PersonaIDs req, po_CreatedAt = now, po_UpdatedAt = now\<rparr>
                    in (WriteJSON StatusCreated (OPool p), CreatePool p s)))"

definition handleListPools :: "pool_env \<Rightarrow> string option \<Rightarrow> string \<Rightarrow> cursor_param \<Rightarrow> pool_store \<Rightarrow>
    pool_reply \<times> pool_store" where
  "handleListPools e tenant q_limit q_cursor s =
     (case tenant of
        None \<Rightarrow> (no_tenant, s)
      | Some tenantID \<Rightarrow>
          (case list_query q_limit q_cursor of
             Inl err \<Rightarrow> (err, s)
           | Inr (limit, cursor) \<Rightarrow>
               if op_fails e OOpListPools then (storage_failure ''list_failed'', s)
               else let items = ListPools tenantID limit cursor s
                    in (WriteJSON StatusOK (OPools items (next_cursor po_CreatedAt limit items)), s)))"

definition handleGetPool :: "pool_env \<Rightarrow> string option \<Rightarrow> string \<Rightarrow> pool_store \<Rightarrow> pool_reply \<times> pool_store" where
  "handleGetPool e tenant pid s =
     (case tenant of
        None \<Rightarrow> (no_tenant, s)
      | Some tenantID \<Rightarrow>
          if pid = [] then (bad_request ''invalid_id'' ''pool id required'', s)
          else (case store_call (op_fails e OOpGetPool) (GetPool tenantID pid s) of
                  ErrNotFound \<Rightarrow> (pool_not_found, s)
                | ErrOther \<Rightarrow> (storage_failure ''get_failed'', s)
                | Got p \<Rightarrow> (WriteJSON StatusOK (OPool p), s)))"

definition handleDeletePool :: "pool_env \<Rightarrow> string option \<Rightarrow> string \<Rightarrow> pool_store \<Rightarrow> pool_reply \<times> pool_store" where
  "handleDeletePool e tenant pid s =
     (case tenant of
        None \<Rightarrow> (no_tenant, s)
      | Some tenantID \<Rightarrow>
          if pid = [] then (bad_request ''invalid_id'' ''pool id required'', s)
          else (case pool_call (op_fails e OOpDeletePool) (DeletePool tenantID pid s) of
                  Inl err \<Rightarrow> (if err = ErrPoolNotFound then pool_not_found else storage_failure ''delete_failed'', s)
                | Inr s' \<Rightarrow> (NoContent, s')))"

definition handleAddIdentity :: "pool_env \<Rightarrow> string option \<Rightarrow> string \<Rightarrow> body \<Rightarrow> pool_store \<Rightarrow>
    pool_reply \<times> pool_store" where
  "handleAddIdentity e tenant poolID b s =
     (case tenant of
        None \<Rightarrow> (no_tenant, s)
      | Some tenantID \<Rightarrow>
          if poolID = [] then (bad_request ''invalid_id'' ''pool id required'', s)
          else (case ReadJSON AddIdentityRequest_fields [] b of
            Inl err \<Rightarrow> (pool_body_error err, s)
          | Inr req \<Rightarrow>
              let subject = TrimSpace req
              in if subject = [] then (bad_request ''invalid_subject_id'' ''subject_id required'', s)
                 else
                   let now = now_at e 0;
                       ident = \<lparr>pi_ID = new_id e 0, pi_PoolID = poolID, pi_SubjectID = subject,
                                pi_Status = IdentityAvailable, pi_ClaimedByInstallID = None,
                                pi_CreatedAt = now, pi_UpdatedAt = now\<rparr>
                   in (case pool_call (op_fails e OOpAddIdentity) (AddIdentity tenantID poolID ident s) of
                         Inl err \<Rightarrow>
                           (if err = ErrPoolNotFound then pool_not_found
                            else if err = ErrPoolFull
                            then WriteError StatusConflict ''pool_full'' (Lit ''pool is at capacity'')
                            else storage_failure ''add_identity_failed'', s)
                       | Inr (created, s') \<Rightarrow> (WriteJSON StatusCreated (OIdentity created), s'))))"

definition handleListIdentities :: "pool_env \<Rightarrow> string option \<Rightarrow> string \<Rightarrow> string \<Rightarrow> cursor_param \<Rightarrow> pool_store \<Rightarrow>
    pool_reply \<times> pool_store" where
  "handleListIdentities e tenant poolID q_limit q_cursor s =
     (case tenant of
        None \<Rightarrow> (no_tenant, s)
      | Some tenantID \<Rightarrow>
          if poolID = [] then (bad_request ''invalid_id'' ''pool id required'', s)
          else (case list_query q_limit q_cursor of
             Inl err \<Rightarrow> (err, s)
           | Inr (limit, cursor) \<Rightarrow>
               (case pool_call (op_fails e OOpListIdentities) (ListIdentities tenantID poolID limit cursor s) of
                  Inl err \<Rightarrow> (if err = ErrPoolNotFound then pool_not_found else storage_failure ''list_failed'', s)
                | Inr idents \<Rightarrow>
                    (WriteJSON StatusOK (OIdentities idents (next_cursor pi_CreatedAt limit idents)), s))))"

text \<open>\<open>now_at e 0\<close> is the storage's own clock reading in the three state changes of an identity.\<close>

definition handleClaim :: "pool_env \<Rightarrow> string option \<Rightarrow> string \<Rightarrow> body \<Rightarrow> pool_store \<Rightarrow> pool_reply \<times> pool_store" where
  "handleClaim e tenant poolID b s =
     (case tenant of
        None \<Rightarrow> (no_tenant, s)
      | Some tenantID \<Rightarrow>
          if poolID = [] then (bad_request ''invalid_id'' ''pool id required'', s)
          else (case ReadJSON ClaimRequest_fields no_claim b of
            Inl err \<Rightarrow> (pool_body_error err, s)
          | Inr req \<Rightarrow>
              if TrimSpace (cl_PersonaID req) = [] then (bad_request ''invalid_persona_id'' ''persona_id required'', s)
              else if TrimSpace (cl_InstallID req) = [] then (bad_request ''invalid_install_id'' ''install_id required'', s)
              else (case pool_call (op_fails e OOpClaim)
                      (ClaimIdentity (now_at e 0) tenantID poolID (cl_PersonaID req) (cl_InstallID req) s) of
                      Inl err \<Rightarrow>
                        (if err = ErrPoolNotFound \<or> err = ErrPersonaNotEligible
                         then WriteError StatusNotFound ''pool_not_found'' (Lit ''pool not found or persona not eligible'')
                         else if err = ErrNoAvailableIdentity
                         then WriteError StatusConflict ''no_available_identity'' (Lit ''no available identity in pool'')
                         else storage_failure ''claim_failed'', s)
                    | Inr (claimed, s') \<Rightarrow> (WriteJSON StatusOK (OIdentity claimed), s'))))"

definition handleRelease :: "pool_env \<Rightarrow> string option \<Rightarrow> string \<Rightarrow> pool_store \<Rightarrow> pool_reply \<times> pool_store" where
  "handleRelease e tenant iid s =
     (case tenant of
        None \<Rightarrow> (no_tenant, s)
      | Some tenantID \<Rightarrow>
          if iid = [] then (bad_request ''invalid_id'' ''identity id required'', s)
          else (case pool_call (op_fails e OOpRelease) (ReleaseIdentity (now_at e 0) tenantID iid s) of
                  Inl err \<Rightarrow>
                    (if err = ErrIdentityNotFound then identity_not_found
                     else if err = ErrIdentityRevoked
                     then WriteError StatusConflict ''identity_revoked'' (Lit ''cannot release revoked identity'')
                     else storage_failure ''release_failed'', s)
                | Inr (ident, s') \<Rightarrow> (WriteJSON StatusOK (OIdentity ident), s')))"

definition handleRevoke :: "pool_env \<Rightarrow> string option \<Rightarrow> string \<Rightarrow> pool_store \<Rightarrow> pool_reply \<times> pool_store" where
  "handleRevoke e tenant iid s =
     (case tenant of
        None \<Rightarrow> (no_tenant, s)
      | Some tenantID \<Rightarrow>
          if iid = [] then (bad_request ''invalid_id'' ''identity id required'', s)
          else (case pool_call (op_fails e OOpRevoke) (RevokeIdentity (now_at e 0) tenantID iid s) of
                  Inl err \<Rightarrow> (if err = ErrIdentityNotFound then identity_not_found else storage_failure ''revoke_failed'', s)
                | Inr s' \<Rightarrow> (NoContent, s')))"

section \<open>The router\<close>

datatype pool_route =
    OCreatePool body
  | OListPools string cursor_param
  | OGetPool string
  | ODeletePool string
  | OAddIdentity string body
  | OListIdentities string string cursor_param
  | OClaim string body
  | ORelease string
  | ORevoke string

fun pool_v1 :: "pool_env \<Rightarrow> pool_route \<Rightarrow> string option \<Rightarrow> pool_store \<Rightarrow> pool_reply \<times> pool_store" where
  "pool_v1 e (OCreatePool b) t s = handleCreatePool e t b s"
| "pool_v1 e (OListPools l c) t s = handleListPools e t l c s"
| "pool_v1 e (OGetPool i) t s = handleGetPool e t i s"
| "pool_v1 e (ODeletePool i) t s = handleDeletePool e t i s"
| "pool_v1 e (OAddIdentity i b) t s = handleAddIdentity e t i b s"
| "pool_v1 e (OListIdentities i l c) t s = handleListIdentities e t i l c s"
| "pool_v1 e (OClaim i b) t s = handleClaim e t i b s"
| "pool_v1 e (ORelease i) t s = handleRelease e t i s"
| "pool_v1 e (ORevoke i) t s = handleRevoke e t i s"

definition pool_router :: "string \<Rightarrow> pool_env \<Rightarrow> bool \<Rightarrow> pool_route option \<Rightarrow> gate_request \<Rightarrow> pool_store \<Rightarrow>
    pool_reply \<times> pool_store" where
  "pool_router secret e is_internal route r s =
     (case route of
        None \<Rightarrow> (WriteJSON StatusOK OHealthz, s)
      | Some rt \<Rightarrow> gated secret is_internal (pool_v1 e rt) r s)"

end
