(* ===== verification/PoolProps.thy ===== *)
theory PoolProps
  imports PoolService
begin

text \<open>
  What pool-service promises: the invariant of its store, the lifecycle every request keeps an identity
  in, the choice the claim makes, and that a claimed identity stays with its install until it is
  released, revoked or its pool is deleted.
\<close>

section \<open>The invariant\<close>

text \<open>
  An identity belongs to a stored pool and is claimed exactly when it names an install; a pool holds no
  more identities than its size, which is between 1 and 10000.
\<close>

definition identity_ok :: "Identity \<Rightarrow> bool" where
  "identity_ok x \<longleftrightarrow> pi_Status x \<in> {IdentityAvailable, IdentityClaimed, IdentityRevoked} \<and>
     (pi_Status x = IdentityClaimed \<longleftrightarrow> pi_ClaimedByInstallID x \<noteq> None)"

definition pool_wf :: "pool_store \<Rightarrow> bool" where
  "pool_wf s \<longleftrightarrow> tab_wf po_ID (pl_pools s) \<and> tab_wf pi_ID (pl_identities s)"

definition pool_inv :: "pool_store \<Rightarrow> bool" where
  "pool_inv s \<longleftrightarrow> pool_wf s \<and>
     (\<forall>x\<in>set (tab_rows (pl_identities s)). identity_ok x \<and> tab_get (pl_pools s) (pi_PoolID x) \<noteq> None) \<and>
     (\<forall>p\<in>set (tab_rows (pl_pools s)). MinSize \<le> po_Size p \<and> po_Size p \<le> MaxSize \<and>
        poolCountLocked (po_ID p) s \<le> po_Size p)"

definition pool_fresh :: "pool_env \<Rightarrow> pool_store \<Rightarrow> bool" where
  "pool_fresh e s \<longleftrightarrow> tab_get (pl_pools s) (new_id e 0) = None \<and> tab_get (pl_identities s) (new_id e 0) = None"

lemma GetPool_Some: "GetPool t i s = Some p \<longleftrightarrow> tab_get (pl_pools s) i = Some p \<and> po_TenantID p = t"
  by (auto simp: GetPool_def split: option.splits)

lemma GetIdentity_Some:
  "GetIdentity t i s = Some x \<longleftrightarrow> tab_get (pl_identities s) i = Some x \<and> GetPool t (pi_PoolID x) s \<noteq> None"
  by (auto simp: GetIdentity_def split: option.splits)

lemma identity_row: "pool_wf s \<Longrightarrow> tab_get (pl_identities s) i = Some x \<longleftrightarrow> x \<in> set (tab_rows (pl_identities s)) \<and> pi_ID x = i"
  using tab_wf_get [of pi_ID "pl_identities s" i x] by (simp add: pool_wf_def)

lemma pool_row: "pool_wf s \<Longrightarrow> tab_get (pl_pools s) i = Some p \<longleftrightarrow> p \<in> set (tab_rows (pl_pools s)) \<and> po_ID p = i"
  using tab_wf_get [of po_ID "pl_pools s" i p] by (simp add: pool_wf_def)

lemma pool_inv_wf: "pool_inv s \<Longrightarrow> pool_wf s"
  by (simp add: pool_inv_def)

text \<open>Rows of one pool, before and after a write: at most one more, and none more when the row was there.\<close>

lemma tab_rows_put_count:
  "length (filter P (tab_rows (tab_put k r m))) \<le> Suc (length (filter P (tab_rows m)))"
  by (induction m) (auto simp: tab_put_def tab_rows_def)

lemma tab_rows_put_count_same:
  assumes "tab_get m k = Some old" "P r \<longrightarrow> P old"
  shows "length (filter P (tab_rows (tab_put k r m))) \<le> length (filter P (tab_rows m))"
  using assms by (induction m) (auto simp: tab_put_def tab_rows_def tab_get_def split: if_splits)

lemma tab_rows_put_count_other:
  "\<not> P r \<Longrightarrow> length (filter P (tab_rows (tab_put k r m))) \<le> length (filter P (tab_rows m))"
  by (induction m) (auto simp: tab_put_def tab_rows_def)

lemma tab_get_filter_rows:
  "distinct (map fst m) \<Longrightarrow>
   tab_get (filter (\<lambda>(k, r). P r) m) k = (case tab_get m k of None \<Rightarrow> None | Some r \<Rightarrow> if P r then Some r else None)"
  by (induction m) (auto simp: tab_get_def map_of_eq_None_iff split: option.splits)

lemma tab_wf_filter: "tab_wf rid m \<Longrightarrow> tab_wf rid (filter Q m)"
  by (auto simp: tab_wf_def distinct_map_filter)

lemma tab_rows_filter: "tab_rows (filter (\<lambda>(k, r). P r) m) = filter P (tab_rows m)"
  by (induction m) (auto simp: tab_rows_def)

text \<open>Writing an identity back over its own row, in its own pool.\<close>

lemma pool_inv_rewrite:
  assumes inv: "pool_inv s" and old: "tab_get (pl_identities s) (pi_ID x) = Some old"
    and x: "identity_ok x" "pi_PoolID x = pi_PoolID old"
  shows "pool_inv (put_identity x s)"
proof -
  have "old \<in> set (tab_rows (pl_identities s))" using old identity_row [OF pool_inv_wf [OF inv]] by blast
  then have pool: "tab_get (pl_pools s) (pi_PoolID x) \<noteq> None" using inv x(2) by (auto simp: pool_inv_def)
  have "poolCountLocked pid (put_identity x s) \<le> poolCountLocked pid s" for pid
    unfolding poolCountLocked_def put_identity_def
    using tab_rows_put_count_same [OF old, of "\<lambda>i. pi_PoolID i = pid" x] x(2) by simp
  then have "poolCountLocked (po_ID p) (put_identity x s) \<le> po_Size p" if "p \<in> set (tab_rows (pl_pools s))" for p
    using inv that by (meson order_trans pool_inv_def)
  with inv x(1) pool show ?thesis
    using tab_rows_put_subset [of "pi_ID x" x "pl_identities s"]
    by (auto simp: pool_inv_def pool_wf_def put_identity_def intro!: tab_wf_put)
qed

lemma pool_inv_restatus:
  assumes inv: "pool_inv s" and row: "tab_get (pl_identities s) i = Some x"
    and y: "identity_ok y" "pi_ID y = pi_ID x" "pi_PoolID y = pi_PoolID x"
  shows "pool_inv (s\<lparr>pl_identities := tab_put i y (pl_identities s)\<rparr>)"
proof -
  have "pi_ID y = i" using row y(2) identity_row [OF pool_inv_wf [OF inv]] by metis
  then show ?thesis using pool_inv_rewrite [OF inv _ y(1,3)] row by (simp add: put_identity_def)
qed

lemma pool_inv_add:
  assumes inv: "pool_inv s" and p: "GetPool t (pi_PoolID x) s = Some p" and x: "identity_ok x"
    and room: "poolCountLocked (pi_PoolID x) s < po_Size p"
  shows "pool_inv (put_identity x s)"
proof -
  have row: "tab_get (pl_pools s) (pi_PoolID x) = Some p" using p by (simp add: GetPool_Some)
  have "poolCountLocked (po_ID q) (put_identity x s) \<le> po_Size q" if q: "q \<in> set (tab_rows (pl_pools s))" for q
  proof (cases "po_ID q = pi_PoolID x")
    case True
    then have "q = p" using row q pool_row [OF pool_inv_wf [OF inv], of "pi_PoolID x" q] by simp
    with True room show ?thesis
      using tab_rows_put_count [of "\<lambda>i. pi_PoolID i = pi_PoolID x" "pi_ID x" x "pl_identities s"]
      by (simp add: poolCountLocked_def put_identity_def)
  next
    case False
    then have "poolCountLocked (po_ID q) (put_identity x s) \<le> poolCountLocked (po_ID q) s"
      unfolding poolCountLocked_def put_identity_def
      using tab_rows_put_count_other [of "\<lambda>i. pi_PoolID i = po_ID q" x "pi_ID x" "pl_identities s"] by simp
    with inv q show ?thesis by (meson order_trans pool_inv_def)
  qed
  with inv x row show ?thesis
    using tab_rows_put_subset [of "pi_ID x" x "pl_identities s"]
    by (auto simp: pool_inv_def pool_wf_def put_identity_def intro!: tab_wf_put)
qed

lemma pool_inv_create:
  assumes inv: "pool_inv s" and new: "tab_get (pl_pools s) (po_ID p) = None"
    and size: "MinSize \<le> po_Size p" "po_Size p \<le> MaxSize"
  shows "pool_inv (CreatePool p s)"
proof -
  have "\<forall>x\<in>set (tab_rows (pl_identities s)). pi_PoolID x \<noteq> po_ID p" using inv new by (auto simp: pool_inv_def)
  then have "poolCountLocked (po_ID p) (CreatePool p s) = 0"
    by (auto simp: poolCountLocked_def CreatePool_def filter_empty_conv)
  with inv size show ?thesis
    using tab_rows_put_subset [of "po_ID p" p "pl_pools s"]
    by (auto simp: pool_inv_def pool_wf_def CreatePool_def poolCountLocked_def table_simps MinSize_def intro!: tab_wf_put)
qed

lemma pool_inv_delete:
  assumes inv: "pool_inv s" and del: "DeletePool t pid s = Inr s'"
  shows "pool_inv s'"
proof -
  have s': "s' = s\<lparr>pl_pools := tab_del pid (pl_pools s), pl_identities := filter (\<lambda>(k, i). pi_PoolID i \<noteq> pid) (pl_identities s)\<rparr>"
    using del by (auto simp: DeletePool_def split: option.splits)
  have "length (filter P (filter Q xs)) \<le> length (filter P xs)" for P Q and xs :: "Identity list"
    by (induction xs) auto
  then have "poolCountLocked q s' \<le> poolCountLocked q s" for q
    by (simp add: s' poolCountLocked_def tab_rows_filter)
  then have "poolCountLocked (po_ID p) s' \<le> po_Size p" if "p \<in> set (tab_rows (pl_pools s))" for p
    using inv that by (meson order_trans pool_inv_def)
  with inv show ?thesis
    using tab_rows_del_subset [of pid "pl_pools s"]
    by (auto simp: s' pool_inv_def pool_wf_def tab_rows_filter table_simps intro!: tab_wf_del tab_wf_filter)
qed

section \<open>What the operations do to the store\<close>

lemma ClaimIdentityE:
  assumes "ClaimIdentity now t pid persona inst s = Inr (c, s')" "pool_wf s"
  obtains p x where "GetPool t pid s = Some p" "persona \<in> set (po_PersonaIDs p)"
    "tab_get (pl_identities s) (pi_ID x) = Some x" "pi_PoolID x = pid" "pi_Status x = IdentityAvailable"
    "\<And>y. y \<in> set (tab_rows (pl_identities s)) \<Longrightarrow> pi_PoolID y = pid \<Longrightarrow> pi_Status y = IdentityAvailable \<Longrightarrow>
      y = x \<or> claim_before x y"
    "c = x\<lparr>pi_Status := IdentityClaimed, pi_ClaimedByInstallID := Some inst, pi_UpdatedAt := now\<rparr>"
    "s' = put_identity c s"
proof -
  let ?P = "\<lambda>i. pi_PoolID i = pid \<and> pi_Status i = IdentityAvailable"
  let ?cand = "sort_slice claim_before (filter ?P (tab_rows (pl_identities s)))"
  from assms(1) obtain p x xs where p: "GetPool t pid s = Some p" "persona \<in> set (po_PersonaIDs p)"
    and cand: "?cand = x # xs"
    and out: "c = x\<lparr>pi_Status := IdentityClaimed, pi_ClaimedByInstallID := Some inst, pi_UpdatedAt := now\<rparr>"
      "s' = put_identity c s"
    by (auto simp: ClaimIdentity_def Let_def split: option.splits if_splits list.splits)
  have wf: "tab_wf pi_ID (pl_identities s)" using assms(2) by (simp add: pool_wf_def)
  have "set ?cand = set (filter ?P (tab_rows (pl_identities s)))" by simp
  then have all: "set (x # xs) = {y \<in> set (tab_rows (pl_identities s)). ?P y}" using cand by auto
  have "distinct (map pi_ID (filter ?P (tab_rows (pl_identities s))))"
    using tab_wf_distinct [OF wf] by (simp add: distinct_map_filter)
  then have "sorted_wrt claim_before (x # xs)" using claim_order.sorted_sort_slice cand by metis
  then have first: "\<forall>y\<in>set xs. claim_before x y" by simp
  have x: "x \<in> set (tab_rows (pl_identities s))" "?P x" using all by auto
  show ?thesis
  proof (rule that [OF p _ _ _ _ out])
    show "tab_get (pl_identities s) (pi_ID x) = Some x" using x(1) identity_row [OF assms(2)] by blast
    show "pi_PoolID x = pid" "pi_Status x = IdentityAvailable" using x(2) by auto
    fix y assume "y \<in> set (tab_rows (pl_identities s))" "pi_PoolID y = pid" "pi_Status y = IdentityAvailable"
    then have "y \<in> set (x # xs)" using all by blast
    with first show "y = x \<or> claim_before x y" by auto
  qed
qed

text \<open>
  The effect of one request of tenant \<open>t\<close> on the identity stored under \<open>i\<close>.  \<open>None\<close> is an identity
  that is not stored.
\<close>

inductive identity_effect :: "pool_route \<Rightarrow> string \<Rightarrow> pool_store \<Rightarrow> string \<Rightarrow> Identity option \<Rightarrow> Identity option \<Rightarrow> bool"
  for rt t s i where
  Kept: "identity_effect rt t s i old old"
| Added: "rt = OAddIdentity (pi_PoolID x) b \<Longrightarrow> GetPool t (pi_PoolID x) s \<noteq> None \<Longrightarrow> pi_Status x = IdentityAvailable \<Longrightarrow>
    pi_ClaimedByInstallID x = None \<Longrightarrow> identity_effect rt t s i None (Some x)"
| Claimed: "rt = OClaim (pi_PoolID x) b \<Longrightarrow> GetPool t (pi_PoolID x) s \<noteq> None \<Longrightarrow> pi_Status x = IdentityAvailable \<Longrightarrow>
    identity_effect rt t s i (Some x)
      (Some (x\<lparr>pi_Status := IdentityClaimed, pi_ClaimedByInstallID := Some inst, pi_UpdatedAt := now\<rparr>))"
| Released: "rt = ORelease i \<Longrightarrow> GetPool t (pi_PoolID x) s \<noteq> None \<Longrightarrow> pi_Status x \<noteq> IdentityRevoked \<Longrightarrow>
    identity_effect rt t s i (Some x)
      (Some (x\<lparr>pi_Status := IdentityAvailable, pi_ClaimedByInstallID := None, pi_UpdatedAt := now\<rparr>))"
| Revoked: "rt = ORevoke i \<Longrightarrow> GetPool t (pi_PoolID x) s \<noteq> None \<Longrightarrow>
    identity_effect rt t s i (Some x)
      (Some (x\<lparr>pi_Status := IdentityRevoked, pi_ClaimedByInstallID := None, pi_UpdatedAt := now\<rparr>))"
| Dropped: "rt = ODeletePool (pi_PoolID x) \<Longrightarrow> GetPool t (pi_PoolID x) s \<noteq> None \<Longrightarrow>
    identity_effect rt t s i (Some x) None"

inductive_cases identity_effect_SomeE: "identity_effect rt t s i (Some x) new"

lemma put_identity_get [table_simps]:
  "tab_get (pl_identities (put_identity x s)) i = (if i = pi_ID x then Some x else tab_get (pl_identities s) i)"
  by (simp add: put_identity_def table_simps)

lemma pool_v1_effect:
  assumes wf: "pool_wf s" and new: "pool_fresh e s"
  shows "identity_effect rt t s i (tab_get (pl_identities s) i) (tab_get (pl_identities (snd (pool_v1 e rt (Some t) s))) i)"
proof (cases rt)
  case (OCreatePool b)
  then show ?thesis
    by (auto simp: handleCreatePool_def Let_def CreatePool_def intro: Kept split: sum.splits)
next
  case (ODeletePool pid)
  show ?thesis
  proof (cases "\<exists>s'. pool_call (op_fails e OOpDeletePool) (DeletePool t pid s) = Inr s' \<and> pid \<noteq> []")
    case True
    then obtain s' where s': "DeletePool t pid s = Inr s'" "snd (pool_v1 e rt (Some t) s) = s'"
      using ODeletePool by (auto simp: handleDeletePool_def)
    then have "GetPool t pid s \<noteq> None" by (auto simp: DeletePool_def split: option.splits)
    moreover have "tab_get (pl_identities s') i =
        (case tab_get (pl_identities s) i of None \<Rightarrow> None | Some r \<Rightarrow> if pi_PoolID r \<noteq> pid then Some r else None)"
      using s'(1) wf tab_get_filter_rows [of "pl_identities s" "\<lambda>r. pi_PoolID r \<noteq> pid" i]
      by (auto simp: DeletePool_def pool_wf_def tab_wf_def split: option.splits)
    ultimately show ?thesis using s'(2) ODeletePool
      by (auto intro: Kept Dropped split: option.splits)
  next
    case False
    then have "snd (pool_v1 e rt (Some t) s) = s" using ODeletePool by (auto simp: handleDeletePool_def split: sum.splits)
    then show ?thesis by (simp add: Kept)
  qed
next
  case (OAddIdentity pid b)
  show ?thesis
    using new OAddIdentity
    by (auto simp: handleAddIdentity_def AddIdentity_def Let_def pool_fresh_def table_simps
        intro!: Kept Added split: sum.splits option.splits if_splits)
next
  case (OClaim pid b)
  show ?thesis
  proof (cases "snd (pool_v1 e rt (Some t) s) = s")
    case False
    then obtain persona inst c
      where "ClaimIdentity (now_at e 0) t pid persona inst s = Inr (c, snd (pool_v1 e rt (Some t) s))"
      using OClaim by (auto simp: handleClaim_def split: sum.splits if_splits)
    then show ?thesis
      using wf OClaim by (elim ClaimIdentityE) (auto simp: table_simps intro!: Kept Claimed)
  qed (simp add: Kept)
next
  case (ORelease iid)
  show ?thesis
    using ORelease
    by (auto simp: handleRelease_def ReleaseIdentity_def pool_call_def Let_def table_simps GetIdentity_Some
        intro!: Kept Released split: option.splits if_splits)
next
  case (ORevoke iid)
  show ?thesis
    using ORevoke
    by (auto simp: handleRevoke_def RevokeIdentity_def pool_call_def table_simps GetIdentity_Some
        intro!: Kept Revoked split: option.splits if_splits)
qed (auto simp: handleListPools_def handleGetPool_def handleListIdentities_def Let_def
    intro: Kept split: option.splits sum.splits got.splits)

lemma pool_v1_inv:
  assumes inv: "pool_inv s" and new: "pool_fresh e s"
  shows "pool_inv (snd (pool_v1 e rt (Some t) s))"
proof (cases rt)
  case (OCreatePool b)
  then show ?thesis
    using inv new
    by (auto simp: handleCreatePool_def Let_def pool_fresh_def intro!: pool_inv_create split: sum.splits)
next
  case (ODeletePool pid)
  then show ?thesis
    using inv by (auto simp: handleDeletePool_def intro: pool_inv_delete split: sum.splits)
next
  case (OAddIdentity pid b)
  then show ?thesis
    using inv
    by (auto simp: handleAddIdentity_def AddIdentity_def Let_def identity_ok_def identity_status_defs
        intro!: pool_inv_add [of s t _ ] split: sum.splits option.splits if_splits)
next
  case (OClaim pid b)
  show ?thesis
  proof (cases "snd (pool_v1 e rt (Some t) s) = s")
    case False
    then obtain persona inst c
      where "ClaimIdentity (now_at e 0) t pid persona inst s = Inr (c, snd (pool_v1 e rt (Some t) s))"
      using OClaim by (auto simp: handleClaim_def split: sum.splits if_splits)
    then show ?thesis
    proof (rule ClaimIdentityE [OF _ pool_inv_wf [OF inv]])
      fix x
      assume row: "tab_get (pl_identities s) (pi_ID x) = Some x"
        and c: "c = x\<lparr>pi_Status := IdentityClaimed, pi_ClaimedByInstallID := Some inst, pi_UpdatedAt := now_at e 0\<rparr>"
        and s': "snd (pool_v1 e rt (Some t) s) = put_identity c s"
      show ?thesis unfolding s'
        by (rule pool_inv_rewrite [OF inv, of c x]) (use row c in \<open>auto simp: identity_ok_def identity_status_defs\<close>)
    qed
  qed (simp add: inv)
next
  case (ORelease iid)
  show ?thesis
  proof (cases "snd (pool_v1 e rt (Some t) s) = s")
    case False
    then obtain x where row: "tab_get (pl_identities s) iid = Some x"
      and s': "snd (pool_v1 e rt (Some t) s) = s\<lparr>pl_identities := tab_put iid
        (x\<lparr>pi_Status := IdentityAvailable, pi_ClaimedByInstallID := None, pi_UpdatedAt := now_at e 0\<rparr>) (pl_identities s)\<rparr>"
      using ORelease
      by (auto simp: handleRelease_def ReleaseIdentity_def pool_call_def Let_def GetIdentity_Some split: option.splits if_splits)
    show ?thesis unfolding s'
      by (rule pool_inv_restatus [OF inv row]) (auto simp: identity_ok_def identity_status_defs)
  qed (simp add: inv)
next
  case (ORevoke iid)
  show ?thesis
  proof (cases "snd (pool_v1 e rt (Some t) s) = s")
    case False
    then obtain x where row: "tab_get (pl_identities s) iid = Some x"
      and s': "snd (pool_v1 e rt (Some t) s) = s\<lparr>pl_identities := tab_put iid
        (x\<lparr>pi_Status := IdentityRevoked, pi_ClaimedByInstallID := None, pi_UpdatedAt := now_at e 0\<rparr>) (pl_identities s)\<rparr>"
      using ORevoke
      by (auto simp: handleRevoke_def RevokeIdentity_def pool_call_def Let_def GetIdentity_Some split: option.splits if_splits)
    show ?thesis unfolding s'
      by (rule pool_inv_restatus [OF inv row]) (auto simp: identity_ok_def identity_status_defs)
  qed (simp add: inv)
qed (use inv in \<open>auto simp: handleListPools_def handleGetPool_def handleListIdentities_def Let_def
    split: option.splits sum.splits got.splits\<close>)

section \<open>Runs\<close>

record pool_event =
  oe_env :: pool_env
  oe_internal :: bool
  oe_route :: "pool_route option"
  oe_gate :: gate_request

definition pool_answer :: "string \<Rightarrow> pool_event \<Rightarrow> pool_store \<Rightarrow> pool_reply \<times> pool_store" where
  "pool_answer secret ev s = pool_router secret (oe_env ev) (oe_internal ev) (oe_route ev) (oe_gate ev) s"

fun pool_run :: "string \<Rightarrow> pool_event list \<Rightarrow> pool_store \<Rightarrow> (pool_event \<times> pool_reply \<times> pool_store) list" where
  "pool_run secret [] s = []"
| "pool_run secret (ev # evs) s =
     (let out = pool_answer secret ev s in (ev, out) # pool_run secret evs (snd out))"

fun pool_uuids_fresh :: "string \<Rightarrow> pool_event list \<Rightarrow> pool_store \<Rightarrow> bool" where
  "pool_uuids_fresh secret [] s \<longleftrightarrow> True"
| "pool_uuids_fresh secret (ev # evs) s \<longleftrightarrow>
     pool_fresh (oe_env ev) s \<and> pool_uuids_fresh secret evs (snd (pool_answer secret ev s))"

lemma pool_answer_cases:
  obtains (stopped) "snd (pool_answer secret ev s) = s" "\<nexists>st c. fst (pool_answer secret ev s) = WriteJSON st (OIdentity c)"
  | (served) rt t where "oe_route ev = Some rt" "From (oe_gate ev) = Some t"
      "pool_answer secret ev s = pool_v1 (oe_env ev) rt (Some t) s"
proof (cases "oe_route ev")
  case None
  then show ?thesis using stopped by (simp add: pool_answer_def pool_router_def)
next
  case (Some rt)
  then show ?thesis
    using stopped served
    by (cases rule: gated_cases [of secret "oe_internal ev" "pool_v1 (oe_env ev) rt" "oe_gate ev" s])
      (auto simp: pool_answer_def pool_router_def)
qed

lemma pool_answer_inv: "pool_inv s \<Longrightarrow> pool_fresh (oe_env ev) s \<Longrightarrow> pool_inv (snd (pool_answer secret ev s))"
  by (cases rule: pool_answer_cases [of secret ev s]) (simp_all add: pool_v1_inv)

text \<open>A request of tenant \<open>t\<close> that gives up the identity \<open>x\<close>.\<close>

definition frees :: "string \<Rightarrow> Identity \<Rightarrow> pool_event \<Rightarrow> bool" where
  "frees t x ev \<longleftrightarrow> From (oe_gate ev) = Some t \<and>
     oe_route ev \<in> {Some (ORelease (pi_ID x)), Some (ORevoke (pi_ID x)), Some (ODeletePool (pi_PoolID x))}"

text \<open>A claim that returned the identity \<open>x\<close>.\<close>

definition hands_out :: "Identity \<Rightarrow> pool_event \<times> pool_reply \<times> pool_store \<Rightarrow> bool" where
  "hands_out x out \<longleftrightarrow> (\<exists>pid b. oe_route (fst out) = Some (OClaim pid b)) \<and>
     (case fst (snd out) of WriteJSON st (OIdentity c) \<Rightarrow> pi_ID c = pi_ID x | _ \<Rightarrow> False)"

lemma claim_hands_out_available:
  assumes "pool_wf s" "fst (pool_v1 e (OClaim pid b) (Some t) s) = WriteJSON st (OIdentity c)"
  shows "\<exists>x. tab_get (pl_identities s) (pi_ID c) = Some x \<and> pi_Status x = IdentityAvailable"
proof -
  obtain persona inst s' where "ClaimIdentity (now_at e 0) t pid persona inst s = Inr (c, s')"
    using assms(2) by (auto simp: handleClaim_def pool_reply_defs split: sum.splits if_splits)
  then show ?thesis using assms(1) by (elim ClaimIdentityE) auto
qed

text \<open>A pool that is stored stays as it is until its own tenant deletes it.\<close>

lemma pool_v1_pool:
  assumes "pool_fresh e s" "GetPool t pid s = Some p" "u = t \<Longrightarrow> rt \<noteq> ODeletePool pid"
  shows "GetPool t pid (snd (pool_v1 e rt (Some u) s)) = Some p"
  using assms
  by (cases rt)
    (auto simp: handleCreatePool_def handleListPools_def handleGetPool_def handleDeletePool_def handleAddIdentity_def
      handleListIdentities_def handleClaim_def handleRelease_def handleRevoke_def Let_def
      pool_fresh_def GetPool_Some CreatePool_def DeletePool_def AddIdentity_def ClaimIdentity_def ReleaseIdentity_def
      RevokeIdentity_def put_identity_def pool_call_def table_simps
      split: sum.splits option.splits if_splits got.splits list.splits)

lemma claimed_row_kept:
  assumes inv: "pool_inv s" and new: "pool_fresh (oe_env ev) s"
    and x: "tab_get (pl_identities s) (pi_ID x) = Some x" "pi_Status x = IdentityClaimed"
    and p: "GetPool t (pi_PoolID x) s = Some p" and safe: "\<not> frees t x ev"
  shows "tab_get (pl_identities (snd (pool_answer secret ev s))) (pi_ID x) = Some x"
    "GetPool t (pi_PoolID x) (snd (pool_answer secret ev s)) = Some p"
    "\<not> hands_out x (ev, pool_answer secret ev s)"
proof -
  have "tab_get (pl_identities (snd (pool_answer secret ev s))) (pi_ID x) = Some x \<and>
    GetPool t (pi_PoolID x) (snd (pool_answer secret ev s)) = Some p \<and> \<not> hands_out x (ev, pool_answer secret ev s)"
  proof (cases rule: pool_answer_cases [of secret ev s])
    case stopped
    with x p show ?thesis by (auto simp: hands_out_def split: reply.splits pool_payload.splits)
  next
    case (served rt u)
    have safe': "u = t \<Longrightarrow> rt \<noteq> ODeletePool (pi_PoolID x) \<and> rt \<noteq> ORelease (pi_ID x) \<and> rt \<noteq> ORevoke (pi_ID x)"
      using safe served by (auto simp: frees_def)
    have own: "GetPool u (pi_PoolID x) s \<noteq> None \<Longrightarrow> u = t" using p by (auto simp: GetPool_Some)
    have "tab_get (pl_identities (snd (pool_v1 (oe_env ev) rt (Some u) s))) (pi_ID x) = Some x"
      using pool_v1_effect [OF pool_inv_wf [OF inv] new, of rt u "pi_ID x"] x own safe'
      by (auto elim!: identity_effect_SomeE simp: identity_status_defs)
    moreover have "GetPool t (pi_PoolID x) (snd (pool_v1 (oe_env ev) rt (Some u) s)) = Some p"
      using pool_v1_pool [OF new p] safe' by blast
    moreover have "\<not> hands_out x (ev, pool_v1 (oe_env ev) rt (Some u) s)"
      using claim_hands_out_available [OF pool_inv_wf [OF inv]] served x
      by (fastforce simp: hands_out_def identity_status_defs split: reply.splits pool_payload.splits)
    ultimately show ?thesis by (simp add: served)
  qed
  then show "tab_get (pl_identities (snd (pool_answer secret ev s))) (pi_ID x) = Some x"
    "GetPool t (pi_PoolID x) (snd (pool_answer secret ev s)) = Some p"
    "\<not> hands_out x (ev, pool_answer secret ev s)" by blast+
qed

lemma claimed_run:
  assumes "pool_inv s" "pool_uuids_fresh secret evs s"
    and "tab_get (pl_identities s) (pi_ID x) = Some x" "pi_Status x = IdentityClaimed"
    and "GetPool t (pi_PoolID x) s = Some p" "\<forall>ev\<in>set evs. \<not> frees t x ev"
  shows "\<forall>out\<in>set (pool_run secret evs s).
    tab_get (pl_identities (snd (snd out))) (pi_ID x) = Some x \<and> \<not> hands_out x out"
  using assms
proof (induction evs arbitrary: s)
  case (Cons ev evs)
  have step: "pool_fresh (oe_env ev) s" "\<not> frees t x ev" using Cons.prems by auto
  note kept = claimed_row_kept [OF Cons.prems(1) step(1) Cons.prems(3-5) step(2)]
  have "\<forall>out\<in>set (pool_run secret evs (snd (pool_answer secret ev s))).
      tab_get (pl_identities (snd (snd out))) (pi_ID x) = Some x \<and> \<not> hands_out x out"
    by (rule Cons.IH) (use Cons.prems kept pool_answer_inv [OF Cons.prems(1) step(1)] in auto)
  then show ?case using kept by (simp add: Let_def)
qed simp

section \<open>The properties\<close>

definition demo_pool_env :: "string \<Rightarrow> time \<Rightarrow> pool_env" where
  "demo_pool_env uuid now = \<lparr>now_at = \<lambda>n. now, new_id = \<lambda>n. uuid, op_fails = \<lambda>x. False\<rparr>"

definition demo_pool_gate :: gate_request where
  "demo_pool_gate = \<lparr>peer_certificates = 0, internal_auth_header = [], tenant_header = ''t''\<rparr>"

definition demo_pool :: Pool where
  "demo_pool = \<lparr>po_ID = ''P'', po_TenantID = ''t'', po_Name = ''n'', po_Size = 2, po_PersonaIDs = [''pe''],
     po_CreatedAt = 5, po_UpdatedAt = 5\<rparr>"

definition demo_identity :: "string \<Rightarrow> time \<Rightarrow> Identity" where
  "demo_identity i created = \<lparr>pi_ID = i, pi_PoolID = ''P'', pi_SubjectID = ''sub-'' @ i, pi_Status = IdentityAvailable,
     pi_ClaimedByInstallID = None, pi_CreatedAt = created, pi_UpdatedAt = created\<rparr>"

definition demo_pools :: pool_store where
  "demo_pools = \<lparr>pl_pools = [(''P'', demo_pool)],
     pl_identities = [(''a'', demo_identity ''a'' 20), (''b'', demo_identity ''b'' 10)]\<rparr>"

definition demo_claim :: "string \<Rightarrow> body" where
  "demo_claim inst = Body (JObj [(''persona_id'', JStr ''pe''), (''install_id'', JStr inst)]) 50"

definition demo_claimed :: pool_store where
  "demo_claimed = put_identity ((demo_identity ''b'' 10)\<lparr>pi_Status := IdentityClaimed,
     pi_ClaimedByInstallID := Some ''i1'', pi_UpdatedAt := 30\<rparr>) demo_pools"

lemma demo_pools_inv: "pool_inv demo_pools" "pool_inv demo_claimed"
  by code_simp+

text \<open>
  Every request of pool-service, by any tenant and whether or not the storage fails, keeps the
  store's invariant: an identity is claimed exactly when it names an install, it belongs to a stored
  pool, and a pool never holds more identities than its size.
\<close>

theorem pool_invariant:
  assumes "pool_inv s" "pool_fresh e s"
  shows "pool_inv (snd (pool_router secret e is_internal route r s))"
  using pool_answer_inv [of s "\<lparr>oe_env = e, oe_internal = is_internal, oe_route = route, oe_gate = r\<rparr>" secret] assms
  by (simp add: pool_answer_def)

theorem pool_invariant_witness:
  "pool_inv (snd (pool_router [] (demo_pool_env ''c'' 30) True (Some (OClaim ''P'' (demo_claim ''i1''))) demo_pool_gate demo_pools)) \<and>
   tab_get (pl_identities (snd (pool_router [] (demo_pool_env ''c'' 30) True (Some (OClaim ''P'' (demo_claim ''i1'')))
     demo_pool_gate demo_pools))) ''b'' = tab_get (pl_identities demo_claimed) ''b''"
proof
  show "pool_inv (snd (pool_router [] (demo_pool_env ''c'' 30) True (Some (OClaim ''P'' (demo_claim ''i1''))) demo_pool_gate demo_pools))"
    by (rule pool_invariant [OF demo_pools_inv(1)]) code_simp
qed code_simp

text \<open>
  A claim succeeds exactly when the tenant's pool lists the persona and holds an available
  identity; it takes the oldest one, binds it to the install and changes no other row.
\<close>

theorem claim_takes_the_oldest_available:
  assumes "pool_wf s"
  shows "ClaimIdentity now t pid persona inst s = Inr (c, s') \<longleftrightarrow>
    (\<exists>p x. GetPool t pid s = Some p \<and> persona \<in> set (po_PersonaIDs p) \<and>
       x \<in> set (tab_rows (pl_identities s)) \<and> pi_PoolID x = pid \<and> pi_Status x = IdentityAvailable \<and>
       (\<forall>y\<in>set (tab_rows (pl_identities s)). pi_PoolID y = pid \<and> pi_Status y = IdentityAvailable \<and> y \<noteq> x \<longrightarrow>
          pi_CreatedAt x < pi_CreatedAt y \<or> pi_CreatedAt x = pi_CreatedAt y \<and> pi_ID x < pi_ID y) \<and>
       c = x\<lparr>pi_Status := IdentityClaimed, pi_ClaimedByInstallID := Some inst, pi_UpdatedAt := now\<rparr> \<and>
       s' = put_identity c s)"
  (is "?claim \<longleftrightarrow> ?spec")
proof
  assume ?claim
  then show ?spec
  proof (rule ClaimIdentityE [OF _ assms])
    fix p x
    assume *: "GetPool t pid s = Some p" "persona \<in> set (po_PersonaIDs p)" "tab_get (pl_identities s) (pi_ID x) = Some x"
      "pi_PoolID x = pid" "pi_Status x = IdentityAvailable"
      "c = x\<lparr>pi_Status := IdentityClaimed, pi_ClaimedByInstallID := Some inst, pi_UpdatedAt := now\<rparr>" "s' = put_identity c s"
      and oldest: "\<And>y. y \<in> set (tab_rows (pl_identities s)) \<Longrightarrow> pi_PoolID y = pid \<Longrightarrow>
        pi_Status y = IdentityAvailable \<Longrightarrow> y = x \<or> claim_before x y"
    have "x \<in> set (tab_rows (pl_identities s))" using * identity_row [OF assms] by blast
    moreover have "\<forall>y\<in>set (tab_rows (pl_identities s)). pi_PoolID y = pid \<and> pi_Status y = IdentityAvailable \<and> y \<noteq> x \<longrightarrow>
        pi_CreatedAt x < pi_CreatedAt y \<or> pi_CreatedAt x = pi_CreatedAt y \<and> pi_ID x < pi_ID y"
      using oldest by (fastforce simp: claim_before_def split: if_splits)
    ultimately show ?spec using * by blast
  qed
next
  assume ?spec
  then obtain p x where *: "GetPool t pid s = Some p" "persona \<in> set (po_PersonaIDs p)"
    "x \<in> set (tab_rows (pl_identities s))" "pi_PoolID x = pid" "pi_Status x = IdentityAvailable"
    "\<forall>y\<in>set (tab_rows (pl_identities s)). pi_PoolID y = pid \<and> pi_Status y = IdentityAvailable \<and> y \<noteq> x \<longrightarrow>
       pi_CreatedAt x < pi_CreatedAt y \<or> pi_CreatedAt x = pi_CreatedAt y \<and> pi_ID x < pi_ID y"
    and out: "c = x\<lparr>pi_Status := IdentityClaimed, pi_ClaimedByInstallID := Some inst, pi_UpdatedAt := now\<rparr>"
      "s' = put_identity c s" by auto
  have "x \<in> set (sort_slice claim_before
      (filter (\<lambda>i. pi_PoolID i = pid \<and> pi_Status i = IdentityAvailable) (tab_rows (pl_identities s))))"
    using * by simp
  then obtain c' s'' where claim: "ClaimIdentity now t pid persona inst s = Inr (c', s'')"
    using * by (cases "sort_slice claim_before
      (filter (\<lambda>i. pi_PoolID i = pid \<and> pi_Status i = IdentityAvailable) (tab_rows (pl_identities s)))")
      (auto simp: ClaimIdentity_def Let_def)
  then show ?claim
  proof (rule ClaimIdentityE [OF _ assms])
    fix x'
    assume x': "tab_get (pl_identities s) (pi_ID x') = Some x'" "pi_PoolID x' = pid" "pi_Status x' = IdentityAvailable"
      and c': "c' = x'\<lparr>pi_Status := IdentityClaimed, pi_ClaimedByInstallID := Some inst, pi_UpdatedAt := now\<rparr>" "s'' = put_identity c' s"
      and oldest: "\<And>y. y \<in> set (tab_rows (pl_identities s)) \<Longrightarrow> pi_PoolID y = pid \<Longrightarrow>
        pi_Status y = IdentityAvailable \<Longrightarrow> y = x' \<or> claim_before x' y"
    have "x' \<in> set (tab_rows (pl_identities s))" using x' identity_row [OF assms] by blast
    then have "x' = x"
      using * x' oldest [of x] by (auto simp: claim_before_def split: if_splits)
    then show ?claim using claim c' out by simp
  qed
qed

theorem claim_takes_the_oldest_available_witness:
  "\<exists>c s'. ClaimIdentity 30 ''t'' ''P'' ''pe'' ''i1'' demo_pools = Inr (c, s') \<and> pi_ID c = ''b'' \<and>
     (\<exists>p x. GetPool ''t'' ''P'' demo_pools = Some p \<and> x \<in> set (tab_rows (pl_identities demo_pools)) \<and>
        c = x\<lparr>pi_Status := IdentityClaimed, pi_ClaimedByInstallID := Some ''i1'', pi_UpdatedAt := 30\<rparr>)"
proof -
  have wf: "pool_wf demo_pools" using demo_pools_inv(1) by (rule pool_inv_wf)
  have *: "ClaimIdentity 30 ''t'' ''P'' ''pe'' ''i1'' demo_pools
    = Inr (the (tab_get (pl_identities demo_claimed) ''b''), demo_claimed)" by code_simp
  moreover have "pi_ID (the (tab_get (pl_identities demo_claimed) ''b'')) = ''b''" by code_simp
  ultimately show ?thesis
    using claim_takes_the_oldest_available [OF wf, THEN iffD1, OF *] by blast
qed

text \<open>
  C20. A claimed identity is exclusive: whatever requests follow, of any tenant, as long as its own
  tenant does not release it, revoke it or delete its pool, its row stays exactly as the claim left it
  and no claim hands it out again.
\<close>

theorem claimed_identity_is_exclusive:
  assumes "pool_inv s" "pool_uuids_fresh secret evs s"
    and "GetIdentity t (pi_ID x) s = Some x" "pi_Status x = IdentityClaimed" "\<forall>ev\<in>set evs. \<not> frees t x ev"
  shows "\<forall>out\<in>set (pool_run secret evs s).
    tab_get (pl_identities (snd (snd out))) (pi_ID x) = Some x \<and> \<not> hands_out x out"
proof -
  obtain p where "GetPool t (pi_PoolID x) s = Some p" using assms(3) by (auto simp: GetIdentity_Some)
  with assms show ?thesis by (intro claimed_run) (auto simp: GetIdentity_Some)
qed

definition demo_claim_events :: "pool_event list" where
  "demo_claim_events =
     [\<lparr>oe_env = demo_pool_env ''c'' 31, oe_internal = True, oe_route = Some (OClaim ''P'' (demo_claim ''i2'')), oe_gate = demo_pool_gate\<rparr>,
      \<lparr>oe_env = demo_pool_env ''c'' 32, oe_internal = True, oe_route = Some (OClaim ''P'' (demo_claim ''i3'')), oe_gate = demo_pool_gate\<rparr>,
      \<lparr>oe_env = demo_pool_env ''c'' 33, oe_internal = False, oe_route = Some (ORelease ''b''),
       oe_gate = demo_pool_gate\<lparr>tenant_header := ''u''\<rparr>\<rparr>]"

theorem claimed_identity_is_exclusive_witness:
  "list_all (\<lambda>out. tab_get (pl_identities (snd (snd out))) ''b'' = tab_get (pl_identities demo_claimed) ''b'')
      (pool_run [] demo_claim_events demo_claimed) \<and>
   map (\<lambda>out. status (fst (snd out))) (pool_run [] demo_claim_events demo_claimed) = [200, 409, 404]"
proof
  let ?x = "(demo_identity ''b'' 10)\<lparr>pi_Status := IdentityClaimed, pi_ClaimedByInstallID := Some ''i1'', pi_UpdatedAt := 30\<rparr>"
  have "\<forall>out\<in>set (pool_run [] demo_claim_events demo_claimed).
      tab_get (pl_identities (snd (snd out))) (pi_ID ?x) = Some ?x \<and> \<not> hands_out ?x out"
    by (rule claimed_identity_is_exclusive [OF demo_pools_inv(2), where t = "''t''"]) code_simp+
  then show "list_all (\<lambda>out. tab_get (pl_identities (snd (snd out))) ''b'' = tab_get (pl_identities demo_claimed) ''b'')
      (pool_run [] demo_claim_events demo_claimed)"
    by (simp add: list_all_iff demo_identity_def demo_claimed_def table_simps)
qed code_simp

end
