(* ===== verification/GrantService.thy ===== *)
theory GrantService
  imports XService XCodec
begin

text \<open>
  grant-service (models.go, storage.go, grants.go, audit.go, handlers.go): the grants issued to agent
  installs, token introspection and revocation, and the append-only audit log.  SHA-256 is a
  parameter: \<open>sha256\<close> maps a byte string to its digest.
\<close>

section \<open>Records\<close>

definition GrantActive :: string where "GrantActive = ''active''"
definition GrantExpired :: string where "GrantExpired = ''expired''"
definition GrantRevoked :: string where "GrantRevoked = ''revoked''"

lemmas grant_status_defs = GrantActive_def GrantExpired_def GrantRevoked_def

record Grant =
  gr_ID :: string
  gr_TenantID :: string
  gr_InstallID :: string
  gr_IdentityID :: string
  gr_PersonaID :: string
  gr_AccessTokenHash :: string
  gr_RefreshTokenHash :: string
  gr_IssuedAt :: time
  gr_ExpiresAt :: time
  gr_RevokedAt :: "time option"
  gr_Status :: string

record CreateGrantRequest =
  cg_InstallID :: string
  cg_IdentityID :: string
  cg_PersonaID :: string
  cg_AccessTokenHash :: string
  cg_RefreshTokenHash :: string
  cg_TTLSeconds :: int

definition CreateGrantRequest_fields :: "CreateGrantRequest field list" where
  "CreateGrantRequest_fields =
     [into dec_string ''install_id'' cg_InstallID cg_InstallID_update,
      into dec_string ''identity_id'' cg_IdentityID cg_IdentityID_update,
      into dec_string ''persona_id'' cg_PersonaID cg_PersonaID_update,
      into dec_string ''access_token_hash'' cg_AccessTokenHash cg_AccessTokenHash_update,
      into dec_string ''refresh_token_hash'' cg_RefreshTokenHash cg_RefreshTokenHash_update,
      into dec_int ''ttl_seconds'' cg_TTLSeconds cg_TTLSeconds_update]"

definition no_create_grant :: CreateGrantRequest where
  "no_create_grant = \<lparr>cg_InstallID = [], cg_IdentityID = [], cg_PersonaID = [], cg_AccessTokenHash = [],
     cg_RefreshTokenHash = [], cg_TTLSeconds = 0\<rparr>"

text \<open>\<open>IntrospectRequest\<close> and \<open>RevokeTokenRequest\<close> have the single member \<open>token\<close>: the struct is that string.\<close>

definition TokenRequest_fields :: "string field list" where
  "TokenRequest_fields = [into dec_string ''token'' (\<lambda>s. s) (\<lambda>f s. f s)]"

record IntrospectResponse =
  ir_Active :: bool
  ir_InstallID :: string
  ir_IdentityID :: string
  ir_PersonaID :: string
  ir_TenantID :: string
  ir_IssuedAt :: int
  ir_ExpiresAt :: int

definition inactive :: IntrospectResponse where
  "inactive = \<lparr>ir_Active = False, ir_InstallID = [], ir_IdentityID = [], ir_PersonaID = [], ir_TenantID = [],
     ir_IssuedAt = 0, ir_ExpiresAt = 0\<rparr>"

text \<open>A value of an audit payload: what a caller sent, or an instant the service put there.\<close>

datatype audit_val = AVJson json | AVTime time

record AuditEvent =
  ae_ID :: string
  ae_TenantID :: string
  ae_Type :: string
  ae_Actor :: string
  ae_InstallID :: string
  ae_GrantID :: string
  ae_Payload :: "(string \<times> audit_val) list"
  ae_CreatedAt :: time

record AppendAuditRequest =
  aq_Type :: string
  aq_Actor :: string
  aq_InstallID :: string
  aq_GrantID :: string
  aq_Payload :: "(string \<times> json) list"

definition AppendAuditRequest_fields :: "AppendAuditRequest field list" where
  "AppendAuditRequest_fields =
     [into dec_string ''type'' aq_Type aq_Type_update,
      into dec_string ''actor'' aq_Actor aq_Actor_update,
      into dec_string ''install_id'' aq_InstallID aq_InstallID_update,
      into dec_string ''grant_id'' aq_GrantID aq_GrantID_update,
      into dec_map ''payload'' aq_Payload aq_Payload_update]"

definition no_append_audit :: AppendAuditRequest where
  "no_append_audit = \<lparr>aq_Type = [], aq_Actor = [], aq_InstallID = [], aq_GrantID = [], aq_Payload = []\<rparr>"

definition DefaultTTLSeconds :: int where "DefaultTTLSeconds = 900"
definition MaxTTLSeconds :: int where "MaxTTLSeconds = 86400"
definition DefaultAuditLimit :: int where "DefaultAuditLimit = 100"
definition MaxAuditLimit :: int where "MaxAuditLimit = 1000"

section \<open>Token hashes\<close>

definition is_hex :: "char \<Rightarrow> bool" where
  "is_hex c \<longleftrightarrow> is_digit c \<or> (CHR ''a'' \<le> c \<and> c \<le> CHR ''f'') \<or> (CHR ''A'' \<le> c \<and> c \<le> CHR ''F'')"

definition HashToken :: "(string \<Rightarrow> string) \<Rightarrow> string \<Rightarrow> string" where
  "HashToken sha256 token = (if token = [] then [] else hex_encode (sha256 token))"

definition isTokenHash :: "string \<Rightarrow> bool" where
  "isTokenHash s \<longleftrightarrow> length s = 64 \<and> list_all is_hex s"

section \<open>Storage\<close>

record grant_svc =
  gs_data :: "Grant table"
  gs_events :: "AuditEvent list"

definition DeriveStatus :: "Grant \<Rightarrow> time \<Rightarrow> string" where
  "DeriveStatus g now =
     (if gr_RevokedAt g \<noteq> None then GrantRevoked
      else if \<not> IsZero (gr_ExpiresAt g) \<and> \<not> now < gr_ExpiresAt g then GrantExpired
      else GrantActive)"

definition put_grant :: "Grant \<Rightarrow> grant_svc \<Rightarrow> grant_svc" where
  "put_grant g s = s\<lparr>gs_data := tab_put (gr_ID g) g (gs_data s)\<rparr>"

definition GetGrantRow :: "string \<Rightarrow> string \<Rightarrow> grant_svc \<Rightarrow> Grant option" where
  "GetGrantRow tenantID gid s =
     (case tab_get (gs_data s) gid of
        None \<Rightarrow> None
      | Some g \<Rightarrow> if gr_TenantID g \<noteq> tenantID then None else Some g)"

definition with_status :: "time \<Rightarrow> Grant \<Rightarrow> Grant" where
  "with_status now g = g\<lparr>gr_Status := DeriveStatus g now\<rparr>"

text \<open>\<open>Get\<close>, with the storage's own clock reading.\<close>

definition GetGrant_store :: "time \<Rightarrow> string \<Rightarrow> string \<Rightarrow> grant_svc \<Rightarrow> Grant option" where
  "GetGrant_store now tenantID gid s = map_option (with_status now) (GetGrantRow tenantID gid s)"

definition RevokeGrant_store :: "string \<Rightarrow> string \<Rightarrow> time \<Rightarrow> grant_svc \<Rightarrow> ((Grant \<times> bool) \<times> grant_svc) option" where
  "RevokeGrant_store tenantID gid now s =
     (case GetGrantRow tenantID gid s of
        None \<Rightarrow> None
      | Some g \<Rightarrow>
          if gr_RevokedAt g \<noteq> None then Some ((with_status now g, True), s)
          else let g = g\<lparr>gr_RevokedAt := Some now\<rparr>
               in Some ((with_status now g, False), s\<lparr>gs_data := tab_put gid g (gs_data s)\<rparr>))"

text \<open>Grants issued at the same instant may come in any order; the model fixes one.\<close>

definition ListByInstall :: "time \<Rightarrow> string \<Rightarrow> string \<Rightarrow> grant_svc \<Rightarrow> Grant list" where
  "ListByInstall now tenantID installID s =
     sort_slice (\<lambda>a b. gr_IssuedAt a < gr_IssuedAt b)
       (map (with_status now)
         (filter (\<lambda>g. gr_TenantID g = tenantID \<and> gr_InstallID g = installID) (tab_rows (gs_data s))))"

definition FindByAccessTokenHash :: "time \<Rightarrow> string \<Rightarrow> grant_svc \<Rightarrow> Grant option" where
  "FindByAccessTokenHash now h s =
     (if h = [] then None
      else map_option (with_status now) (find (\<lambda>g. gr_AccessTokenHash g = h) (tab_rows (gs_data s))))"

definition Append :: "AuditEvent \<Rightarrow> grant_svc \<Rightarrow> grant_svc" where
  "Append ev s = s\<lparr>gs_events := gs_events s @ [ev]\<rparr>"

record AuditFilter =
  af_InstallID :: string
  af_GrantID :: string
  af_Type :: string
  af_Since :: time
  af_Until :: time
  af_Limit :: int

definition audit_before :: "AuditEvent \<Rightarrow> AuditEvent \<Rightarrow> bool" where
  "audit_before a b =
     (if ae_CreatedAt a = ae_CreatedAt b then ae_ID a < ae_ID b else ae_CreatedAt b < ae_CreatedAt a)"

definition audit_match :: "string \<Rightarrow> AuditFilter \<Rightarrow> AuditEvent \<Rightarrow> bool" where
  "audit_match tenantID f ev \<longleftrightarrow>
     ae_TenantID ev = tenantID \<and>
     (af_InstallID f = [] \<or> ae_InstallID ev = af_InstallID f) \<and>
     (af_GrantID f = [] \<or> ae_GrantID ev = af_GrantID f) \<and>
     (af_Type f = [] \<or> ae_Type ev = af_Type f) \<and>
     (IsZero (af_Since f) \<or> \<not> ae_CreatedAt ev < af_Since f) \<and>
     (IsZero (af_Until f) \<or> ae_CreatedAt ev < af_Until f)"

definition Query :: "string \<Rightarrow> AuditFilter \<Rightarrow> grant_svc \<Rightarrow> AuditEvent list" where
  "Query tenantID f s =
     cut_page (af_Limit f) (sort_slice audit_before (filter (audit_match tenantID f) (gs_events s)))"

interpretation grants: tenant_rows gr_ID gr_TenantID put_grant GetGrantRow
  by unfold_locales (auto simp: put_grant_def GetGrantRow_def table_simps split: option.splits if_splits)

interpretation audit_order: row_order ae_ID audit_before
  by unfold_locales (auto simp: audit_before_def split: if_splits)

section \<open>Handlers\<close>

datatype grant_op = GOpCreate | GOpGet | GOpRevoke | GOpList | GOpFind | GOpAppend | GOpQuery
  | GOpCascade nat | GOpCascadeAudit nat

type_synonym grant_env = "grant_op svc_env"

datatype grant_payload =
    GGrant Grant
  | GIntrospect IntrospectResponse
  | GSummary string int int int
  | GEvent AuditEvent
  | GEvents "AuditEvent list"
  | GEmpty
  | GHealthz

type_synonym grant_reply = "grant_payload reply"

text \<open>An audit append whose failure is only logged.\<close>

definition audit :: "bool \<Rightarrow> AuditEvent \<Rightarrow> grant_svc \<Rightarrow> grant_svc" where
  "audit fails ev s = (if fails then s else Append ev s)"

definition revoked_event :: "string \<Rightarrow> string \<Rightarrow> (string \<times> audit_val) list \<Rightarrow> time \<Rightarrow> Grant \<Rightarrow> AuditEvent" where
  "revoked_event uuid tenantID payload now g =
     \<lparr>ae_ID = uuid, ae_TenantID = tenantID, ae_Type = ''grant_revoked'', ae_Actor = ''system'',
      ae_InstallID = gr_InstallID g, ae_GrantID = gr_ID g, ae_Payload = payload, ae_CreatedAt = now\<rparr>"

definition issued_event :: "string \<Rightarrow> time \<Rightarrow> Grant \<Rightarrow> AuditEvent" where
  "issued_event uuid now g =
     \<lparr>ae_ID = uuid, ae_TenantID = gr_TenantID g, ae_Type = ''grant_issued'', ae_Actor = ''system'',
      ae_InstallID = gr_InstallID g, ae_GrantID = gr_ID g,
      ae_Payload = [(''expires_at'', AVTime (gr_ExpiresAt g)), (''identity_id'', AVJson (JStr (gr_IdentityID g))),
                    (''persona_id'', AVJson (JStr (gr_PersonaID g)))],
      ae_CreatedAt = now\<rparr>"

definition invalid_grant_request :: "CreateGrantRequest \<Rightarrow> grant_reply option" where
  "invalid_grant_request req =
     (let ttl = (if cg_TTLSeconds req = 0 then DefaultTTLSeconds else cg_TTLSeconds req);
          refreshHash = TrimSpace (cg_RefreshTokenHash req)
      in if TrimSpace (cg_InstallID req) = [] then Some (bad_request ''invalid_install_id'' ''install_id is required'')
         else if TrimSpace (cg_IdentityID req) = [] then Some (bad_request ''invalid_identity_id'' ''identity_id is required'')
         else if TrimSpace (cg_PersonaID req) = [] then Some (bad_request ''invalid_persona_id'' ''persona_id is required'')
         else if \<not> isTokenHash (TrimSpace (cg_AccessTokenHash req))
         then Some (bad_request ''invalid_access_token_hash'' ''access_token_hash must be a 64-char SHA-256 hex digest'')
         else if refreshHash \<noteq> [] \<and> \<not> isTokenHash refreshHash
         then Some (bad_request ''invalid_refresh_token_hash''
                      ''refresh_token_hash must be empty or a 64-char SHA-256 hex digest'')
         else if ttl \<le> 0 \<or> MaxTTLSeconds < ttl
         then Some (bad_request ''invalid_ttl_seconds'' ''ttl_seconds must be between 1 and 86400'')
         else None)"

definition new_grant :: "grant_env \<Rightarrow> string \<Rightarrow> CreateGrantRequest \<Rightarrow> Grant" where
  "new_grant e tenantID req =
     (let ttl = (if cg_TTLSeconds req = 0 then DefaultTTLSeconds else cg_TTLSeconds req); now = now_at e 0
      in \<lparr>gr_ID = new_id e 0, gr_TenantID = tenantID, gr_InstallID = TrimSpace (cg_InstallID req),
          gr_IdentityID = TrimSpace (cg_IdentityID req), gr_PersonaID = TrimSpace (cg_PersonaID req),
          gr_AccessTokenHash = TrimSpace (cg_AccessTokenHash req),
          gr_RefreshTokenHash = TrimSpace (cg_RefreshTokenHash req),
          gr_IssuedAt = now, gr_ExpiresAt = now + ttl * Second, gr_RevokedAt = None, gr_Status = []\<rparr>)"

definition CreateGrant :: "grant_env \<Rightarrow> string option \<Rightarrow> body \<Rightarrow> grant_svc \<Rightarrow> grant_reply \<times> grant_svc" where
  "CreateGrant e tenant b s =
     (case tenant of
        None \<Rightarrow> (no_tenant, s)
      | Some tenantID \<Rightarrow>
          (case ReadJSON CreateGrantRequest_fields no_create_grant b of
             Inl err \<Rightarrow> (json_error err, s)
           | Inr req \<Rightarrow>
               (case invalid_grant_request req of
                  Some err \<Rightarrow> (err, s)
                | None \<Rightarrow>
                    if op_fails e GOpCreate then (internal ''failed to create grant'', s)
                    else
                      let g = new_grant e tenantID req; now = now_at e 0;
                          s = put_grant g s;
                          s = audit (op_fails e GOpAppend) (issued_event (new_id e 1) now g) s
                      in (WriteJSON StatusCreated (GGrant (with_status now g)), s))))"

definition GetGrant :: "grant_env \<Rightarrow> string option \<Rightarrow> string \<Rightarrow> grant_svc \<Rightarrow> grant_reply \<times> grant_svc" where
  "GetGrant e tenant gid s =
     (case tenant of
        None \<Rightarrow> (no_tenant, s)
      | Some tenantID \<Rightarrow>
          if gid = [] then (bad_request ''invalid_id'' ''id is required'', s)
          else (case store_call (op_fails e GOpGet) (GetGrant_store (now_at e 0) tenantID gid s) of
                  ErrNotFound \<Rightarrow> (no_such ''grant not found'', s)
                | ErrOther \<Rightarrow> (internal ''failed to read grant'', s)
                | Got g \<Rightarrow> (WriteJSON StatusOK (GGrant g), s)))"

definition RevokeGrant :: "grant_env \<Rightarrow> string option \<Rightarrow> string \<Rightarrow> grant_svc \<Rightarrow> grant_reply \<times> grant_svc" where
  "RevokeGrant e tenant gid s =
     (case tenant of
        None \<Rightarrow> (no_tenant, s)
      | Some tenantID \<Rightarrow>
          if gid = [] then (bad_request ''invalid_id'' ''id is required'', s)
          else
            let now = now_at e 0
            in (case store_call (op_fails e GOpRevoke) (RevokeGrant_store tenantID gid now s) of
                  ErrNotFound \<Rightarrow> (no_such ''grant not found'', s)
                | ErrOther \<Rightarrow> (internal ''failed to revoke grant'', s)
                | Got ((g, alreadyRevoked), s') \<Rightarrow>
                    (NoContent,
                     if alreadyRevoked then s'
                     else audit (op_fails e GOpAppend) (revoked_event (new_id e 0) tenantID [] now g) s')))"

definition RevokeByToken :: "(string \<Rightarrow> string) \<Rightarrow> grant_env \<Rightarrow> string option \<Rightarrow> body \<Rightarrow> grant_svc \<Rightarrow>
    grant_reply \<times> grant_svc" where
  "RevokeByToken sha256 e tenant b s =
     (case tenant of
        None \<Rightarrow> (no_tenant, s)
      | Some tenantID \<Rightarrow>
          (case ReadJSON TokenRequest_fields [] b of
             Inl err \<Rightarrow> (json_error err, s)
           | Inr req \<Rightarrow>
               let token = TrimSpace req
               in if token = [] then (bad_request ''invalid_request'' ''token is required'', s)
                  else (case store_call (op_fails e GOpFind) (FindByAccessTokenHash (now_at e 0) (HashToken sha256 token) s) of
                    Got g \<Rightarrow>
                      if gr_TenantID g \<noteq> tenantID then (WriteJSON StatusOK GEmpty, s)
                      else
                        let now = now_at e 1
                        in (case store_call (op_fails e GOpRevoke) (RevokeGrant_store tenantID (gr_ID g) now s) of
                              ErrNotFound \<Rightarrow> (WriteJSON StatusOK GEmpty, s)
                            | ErrOther \<Rightarrow> (internal ''failed to revoke token'', s)
                            | Got ((updated, alreadyRevoked), s') \<Rightarrow>
                                (WriteJSON StatusOK GEmpty,
                                 if alreadyRevoked then s'
                                 else audit (op_fails e GOpAppend)
                                   (revoked_event (new_id e 0) tenantID [(''cause'', AVJson (JStr ''token_revocation''))]
                                      now updated) s'))
                  | _ \<Rightarrow> (WriteJSON StatusOK GEmpty, s))))"

text \<open>
  The cascade: \<open>n\<close> counts the grants visited, \<open>revoked\<close> and \<open>already\<close> are the two counters of the reply;
  a grant whose revocation fails is skipped.
\<close>

fun revoke_each :: "grant_env \<Rightarrow> string \<Rightarrow> time \<Rightarrow> nat \<Rightarrow> Grant list \<Rightarrow> (int \<times> int) \<times> grant_svc \<Rightarrow>
    (int \<times> int) \<times> grant_svc" where
  "revoke_each e tenantID now n [] acc = acc"
| "revoke_each e tenantID now n (g # gs) ((revoked, already), s) =
     revoke_each e tenantID now (Suc n) gs
       (case store_call (op_fails e (GOpCascade n)) (RevokeGrant_store tenantID (gr_ID g) now s) of
          Got ((updated, alreadyRevoked), s') \<Rightarrow>
            if alreadyRevoked then ((revoked, already + 1), s')
            else ((revoked + 1, already),
                  audit (op_fails e (GOpCascadeAudit n))
                    (revoked_event (new_id e n) tenantID [(''cause'', AVJson (JStr ''install_revoked''))] now updated) s')
        | _ \<Rightarrow> ((revoked, already), s))"

definition RevokeGrantsForInstall :: "grant_env \<Rightarrow> string option \<Rightarrow> string \<Rightarrow> grant_svc \<Rightarrow>
    grant_reply \<times> grant_svc" where
  "RevokeGrantsForInstall e tenant installID s =
     (case tenant of
        None \<Rightarrow> (no_tenant, s)
      | Some tenantID \<Rightarrow>
          if installID = [] then (bad_request ''invalid_install_id'' ''install_id is required'', s)
          else if op_fails e GOpList then (internal ''failed to list grants'', s)
          else
            let now = now_at e 0;
                gs = ListByInstall (now_at e 1) tenantID installID s;
                ((revoked, already), s') = revoke_each e tenantID now 0 gs ((0, 0), s)
            in (WriteJSON StatusOK (GSummary installID (int (length gs)) revoked already), s'))"

definition Unix :: "time \<Rightarrow> int" where
  "Unix t = t div Second - 62135596800"

definition Introspect :: "(string \<Rightarrow> string) \<Rightarrow> grant_env \<Rightarrow> string option \<Rightarrow> body \<Rightarrow> grant_svc \<Rightarrow>
    grant_reply \<times> grant_svc" where
  "Introspect sha256 e tenant b s =
     (case tenant of
        None \<Rightarrow> (no_tenant, s)
      | Some tenantID \<Rightarrow>
          (case ReadJSON TokenRequest_fields [] b of
             Inl err \<Rightarrow> (json_error err, s)
           | Inr req \<Rightarrow>
               let token = TrimSpace req
               in if token = [] then (WriteJSON StatusOK (GIntrospect inactive), s)
                  else (case store_call (op_fails e GOpFind) (FindByAccessTokenHash (now_at e 0) (HashToken sha256 token) s) of
                    Got g \<Rightarrow>
                      if gr_TenantID g \<noteq> tenantID then (WriteJSON StatusOK (GIntrospect inactive), s)
                      else if DeriveStatus g (now_at e 1) \<noteq> GrantActive then (WriteJSON StatusOK (GIntrospect inactive), s)
                      else (WriteJSON StatusOK (GIntrospect
                              \<lparr>ir_Active = True, ir_InstallID = gr_InstallID g, ir_IdentityID = gr_IdentityID g,
                               ir_PersonaID = gr_PersonaID g, ir_TenantID = gr_TenantID g,
                               ir_IssuedAt = Unix (gr_IssuedAt g), ir_ExpiresAt = Unix (gr_ExpiresAt g)\<rparr>), s)
                  | _ \<Rightarrow> (WriteJSON StatusOK (GIntrospect inactive), s))))"

definition AppendAudit :: "grant_env \<Rightarrow> string option \<Rightarrow> body \<Rightarrow> grant_svc \<Rightarrow> grant_reply \<times> grant_svc" where
  "AppendAudit e tenant b s =
     (case tenant of
        None \<Rightarrow> (no_tenant, s)
      | Some tenantID \<Rightarrow>
          (case ReadJSON AppendAuditRequest_fields no_append_audit b of
             Inl err \<Rightarrow> (json_error err, s)
           | Inr req \<Rightarrow>
               let typ = TrimSpace (aq_Type req); actor = TrimSpace (aq_Actor req)
               in if typ = [] then (bad_request ''invalid_type'' ''type is required'', s)
                  else if actor = [] then (bad_request ''invalid_actor'' ''actor is required'', s)
                  else
                    let ev = \<lparr>ae_ID = new_id e 0, ae_TenantID = tenantID, ae_Type = typ, ae_Actor = actor,
                              ae_InstallID = TrimSpace (aq_InstallID req), ae_GrantID = TrimSpace (aq_GrantID req),
                              ae_Payload = map (\<lambda>(k, j). (k, AVJson j)) (aq_Payload req), ae_CreatedAt = now_at e 0\<rparr>
                    in if op_fails e GOpAppend then (internal ''failed to append audit event'', s)
                       else (WriteJSON StatusCreated (GEvent ev), Append ev s)))"

text \<open>The query of the audit log: three filters, the two instants and the limit.\<close>

record audit_query =
  qs_install_id :: string
  qs_grant_id :: string
  qs_type :: string
  qs_since :: cursor_param
  qs_until :: cursor_param
  qs_limit :: string

definition parseAuditFilter :: "audit_query \<Rightarrow> string + AuditFilter" where
  "parseAuditFilter q =
     (case cursor_time (qs_since q) of
        None \<Rightarrow> Inl ''invalid_since''
      | Some since \<Rightarrow>
          (case cursor_time (qs_until q) of
             None \<Rightarrow> Inl ''invalid_until''
           | Some until \<Rightarrow>
               (case page_limit DefaultAuditLimit MaxAuditLimit (qs_limit q) of
                  None \<Rightarrow> Inl ''invalid_limit''
                | Some limit \<Rightarrow>
                    Inr \<lparr>af_InstallID = qs_install_id q, af_GrantID = qs_grant_id q, af_Type = qs_type q,
                         af_Since = since, af_Until = until, af_Limit = limit\<rparr>)))"

definition QueryAudit :: "grant_env \<Rightarrow> string option \<Rightarrow> audit_query \<Rightarrow> grant_svc \<Rightarrow> grant_reply \<times> grant_svc" where
  "QueryAudit e tenant q s =
     (case tenant of
        None \<Rightarrow> (no_tenant, s)
      | Some tenantID \<Rightarrow>
          (case parseAuditFilter q of
             Inl code \<Rightarrow> (bad_request code ''invalid query parameter'', s)
           | Inr f \<Rightarrow>
               if op_fails e GOpQuery then (internal ''failed to query audit log'', s)
               else (WriteJSON StatusOK (GEvents (Query tenantID f s)), s)))"

section \<open>The router\<close>

datatype grant_route =
    GCreate body
  | GGet string
  | GRevoke string
  | GRevokeInstall string
  | GRevokeToken body
  | GIntrospectToken body
  | GAppendAudit body
  | GQueryAudit audit_query

fun grant_v1 :: "(string \<Rightarrow> string) \<Rightarrow> grant_env \<Rightarrow> grant_route \<Rightarrow> string option \<Rightarrow> grant_svc \<Rightarrow> grant_reply \<times> grant_svc" where
  "grant_v1 sha256 e (GCreate b) t s = CreateGrant e t b s"
| "grant_v1 sha256 e (GGet i) t s = GetGrant e t i s"
| "grant_v1 sha256 e (GRevoke i) t s = RevokeGrant e t i s"
| "grant_v1 sha256 e (GRevokeInstall i) t s = RevokeGrantsForInstall e t i s"
| "grant_v1 sha256 e (GRevokeToken b) t s = RevokeByToken sha256 e t b s"
| "grant_v1 sha256 e (GIntrospectToken b) t s = Introspect sha256 e t b s"
| "grant_v1 sha256 e (GAppendAudit b) t s = AppendAudit e t b s"
| "grant_v1 sha256 e (GQueryAudit q) t s = QueryAudit e t q s"

definition grant_router :: "(string \<Rightarrow> string) \<Rightarrow> string \<Rightarrow> grant_env \<Rightarrow> bool \<Rightarrow> grant_route option \<Rightarrow> gate_request \<Rightarrow>
    grant_svc \<Rightarrow> grant_reply \<times> grant_svc" where
  "grant_router sha256 secret e is_internal route r s =
     (case route of
        None \<Rightarrow> (WriteJSON StatusOK GHealthz, s)
      | Some rt \<Rightarrow> gated secret is_internal (grant_v1 sha256 e rt) r s)"

end
