(* ===== verification/GrantProps.thy ===== *)
theory GrantProps
  imports GrantService
begin

text \<open>
  What grant-service promises: every handler is a sequence of elementary moves (issue a grant, revoke
  one, log an event), from which follow the append-only and complete audit log and the permanence of
  revocation; what introspection answers, and what the cascade over an install revokes.
\<close>

section \<open>Moves\<close>

text \<open>
  The moves of a request of tenant \<open>t\<close>.  \<open>lossy\<close> says whether audit appends may fail, \<open>P\<close> which grants
  it may issue.
\<close>

inductive grant_moves :: "bool \<Rightarrow> (Grant \<Rightarrow> bool) \<Rightarrow> string \<Rightarrow> grant_svc \<Rightarrow> grant_svc \<Rightarrow> bool" for lossy P t where
  Stay: "grant_moves lossy P t s s"
| Issue: "P g \<Longrightarrow> tab_get (gs_data s) (gr_ID g) = None \<Longrightarrow> gr_TenantID g = t \<Longrightarrow> gr_RevokedAt g = None \<Longrightarrow> (f \<Longrightarrow> lossy) \<Longrightarrow>
    grant_moves lossy P t s (audit f (issued_event u (gr_IssuedAt g) g) (put_grant g s))"
| Withdraw: "GetGrantRow t (gr_ID g) s = Some g \<Longrightarrow> gr_RevokedAt g = None \<Longrightarrow> (f \<Longrightarrow> lossy) \<Longrightarrow>
    gr_ID g' = gr_ID g \<Longrightarrow> gr_InstallID g' = gr_InstallID g \<Longrightarrow>
    grant_moves lossy P t s (audit f (revoked_event u t p now g') (put_grant (g\<lparr>gr_RevokedAt := Some now\<rparr>) s))"
| Log: "ae_TenantID ev = t \<Longrightarrow> grant_moves lossy P t s (Append ev s)"
| Then: "grant_moves lossy P t s s' \<Longrightarrow> grant_moves lossy P t s' s'' \<Longrightarrow> grant_moves lossy P t s s''"

definition grant_wf :: "grant_svc \<Rightarrow> bool" where
  "grant_wf s \<longleftrightarrow> tab_wf gr_ID (gs_data s)"

lemma grant_row: "grant_wf s \<Longrightarrow> tab_get (gs_data s) i = Some g \<longleftrightarrow> g \<in> set (tab_rows (gs_data s)) \<and> gr_ID g = i"
  using tab_wf_get [of gr_ID "gs_data s" i g] by (simp add: grant_wf_def)

lemma GetGrantRow_Some: "GetGrantRow t i s = Some g \<longleftrightarrow> tab_get (gs_data s) i = Some g \<and> gr_TenantID g = t"
  by (auto simp: GetGrantRow_def split: option.splits)

lemma audit_data [simp]: "gs_data (audit f ev s) = gs_data s"
  by (simp add: audit_def Append_def)

lemma Append_fields [simp]: "gs_data (Append ev s) = gs_data s" "gs_events (Append ev s) = gs_events s @ [ev]"
  by (simp_all add: Append_def)

lemma put_grant_get [table_simps]:
  "tab_get (gs_data (put_grant g s)) i = (if i = gr_ID g then Some g else tab_get (gs_data s) i)"
  by (simp add: put_grant_def table_simps)

lemma put_grant_events [simp]: "gs_events (put_grant g s) = gs_events s"
  by (simp add: put_grant_def)

lemma moves_wf: "grant_moves lossy P t s s' \<Longrightarrow> grant_wf s \<Longrightarrow> grant_wf s'"
  by (induction rule: grant_moves.induct) (auto simp: grant_wf_def put_grant_def intro!: tab_wf_put)

lemma moves_events: "grant_moves lossy P t s s' \<Longrightarrow> prefix (gs_events s) (gs_events s')"
  by (induction rule: grant_moves.induct) (auto simp: audit_def)

text \<open>A stored grant survives every move; all that can change is that its tenant revokes it once.\<close>

lemma moves_row:
  assumes "grant_moves lossy P t s s'" "tab_get (gs_data s) i = Some g"
  shows "\<exists>g'. tab_get (gs_data s') i = Some g' \<and>
    (g' = g \<or> gr_TenantID g = t \<and> gr_RevokedAt g = None \<and> (\<exists>now. g' = g\<lparr>gr_RevokedAt := Some now\<rparr>))"
  using assms
proof (induction arbitrary: g rule: grant_moves.induct)
  case (Then s s' s'')
  then obtain g1 where g1: "tab_get (gs_data s') i = Some g1"
    "g1 = g \<or> gr_TenantID g = t \<and> gr_RevokedAt g = None \<and> (\<exists>now. g1 = g\<lparr>gr_RevokedAt := Some now\<rparr>)" by blast
  obtain g2 where "tab_get (gs_data s'') i = Some g2"
    "g2 = g1 \<or> gr_TenantID g1 = t \<and> gr_RevokedAt g1 = None \<and> (\<exists>now. g2 = g1\<lparr>gr_RevokedAt := Some now\<rparr>)"
    using Then.IH(2) [OF g1(1)] by blast
  with g1(2) show ?case by auto
qed (auto simp: table_simps GetGrantRow_Some)

lemma moves_hash:
  assumes "grant_moves lossy P t s s'" "grant_wf s" "x \<in> set (tab_rows (gs_data s'))"
  shows "(\<exists>y\<in>set (tab_rows (gs_data s)). gr_ID y = gr_ID x \<and> gr_AccessTokenHash y = gr_AccessTokenHash x) \<or>
    (\<exists>g. P g \<and> gr_AccessTokenHash x = gr_AccessTokenHash g)"
  using assms
proof (induction arbitrary: x rule: grant_moves.induct)
  case (Issue g s f u)
  then show ?case using tab_rows_put_subset [of "gr_ID g" g "gs_data s"] by (auto simp: put_grant_def)
next
  case (Withdraw g s f g' u p now)
  have "g \<in> set (tab_rows (gs_data s))" using Withdraw grant_row [of s] by (simp add: GetGrantRow_Some)
  moreover have "x = g\<lparr>gr_RevokedAt := Some now\<rparr> \<or> x \<in> set (tab_rows (gs_data s))"
    using Withdraw tab_rows_put_subset [of "gr_ID g" "g\<lparr>gr_RevokedAt := Some now\<rparr>" "gs_data s"]
    by (auto simp: put_grant_def)
  ultimately show ?case by force
next
  case (Then s s' s'')
  then have "grant_wf s'" using moves_wf by blast
  with Then show ?case by metis
qed auto

text \<open>The log covers the grants: each was issued on record, and each revocation is on record.\<close>

definition logged_as :: "string \<Rightarrow> time \<Rightarrow> Grant \<Rightarrow> AuditEvent \<Rightarrow> bool" where
  "logged_as typ now g ev \<longleftrightarrow> ae_Type ev = typ \<and> ae_TenantID ev = gr_TenantID g \<and> ae_GrantID ev = gr_ID g \<and>
     ae_InstallID ev = gr_InstallID g \<and> ae_CreatedAt ev = now"

definition covered :: "AuditEvent list \<Rightarrow> Grant \<Rightarrow> bool" where
  "covered evs g \<longleftrightarrow> list_ex (logged_as ''grant_issued'' (gr_IssuedAt g) g) evs \<and>
     (case gr_RevokedAt g of None \<Rightarrow> True | Some r \<Rightarrow> list_ex (logged_as ''grant_revoked'' r g) evs)"

definition grant_inv :: "grant_svc \<Rightarrow> bool" where
  "grant_inv s \<longleftrightarrow> grant_wf s \<and> (\<forall>g\<in>set (tab_rows (gs_data s)). covered (gs_events s) g)"

lemma covered_more: "covered evs g \<Longrightarrow> covered (evs @ evs') g"
  by (auto simp: covered_def split: option.splits)

lemma logged_as_revoked: "logged_as typ now (g\<lparr>gr_RevokedAt := r\<rparr>) = logged_as typ now g"
  by (auto simp: logged_as_def)

lemma grant_inv_put:
  assumes "grant_inv s" "covered (gs_events s @ evs) g"
  shows "grant_inv ((put_grant g s)\<lparr>gs_events := gs_events s @ evs\<rparr>)"
proof -
  have "covered (gs_events s @ evs) x" if "x \<in> set (tab_rows (gs_data (put_grant g s)))" for x
    using that assms tab_rows_put_subset [of "gr_ID g" g "gs_data s"]
    by (auto simp: grant_inv_def put_grant_def dest: covered_more)
  moreover have "grant_wf (put_grant g s)" using assms(1) by (auto simp: grant_inv_def grant_wf_def put_grant_def intro!: tab_wf_put)
  ultimately show ?thesis by (simp add: grant_inv_def grant_wf_def)
qed

lemma moves_inv:
  assumes "grant_moves False P t s s'" "grant_inv s"
  shows "grant_inv s'"
  using assms
proof (induction rule: grant_moves.induct)
  case (Issue g s f u)
  have "covered (gs_events s @ [issued_event u (gr_IssuedAt g) g]) g"
    using Issue by (auto simp: covered_def logged_as_def issued_event_def)
  from grant_inv_put [OF Issue(6) this] show ?case
    using Issue by (auto simp: audit_def Append_def put_grant_def)
next
  case (Withdraw g s f g' u p now)
  have "g \<in> set (tab_rows (gs_data s))" using Withdraw grant_row [of s] by (auto simp: grant_inv_def GetGrantRow_Some)
  then have "covered (gs_events s @ [revoked_event u t p now g']) (g\<lparr>gr_RevokedAt := Some now\<rparr>)"
    using Withdraw
    by (auto simp: grant_inv_def covered_def logged_as_revoked GetGrantRow_Some)
      (auto simp: logged_as_def revoked_event_def)
  from grant_inv_put [OF Withdraw(6) this] show ?case
    using Withdraw by (auto simp: audit_def Append_def put_grant_def)
next
  case (Log ev s)
  then show ?case by (auto simp: grant_inv_def grant_wf_def intro: covered_more)
qed auto

section \<open>Every handler is a sequence of moves\<close>

text \<open>Whether some audit append of the request fails.\<close>

definition loses_audit :: "grant_env \<Rightarrow> bool" where
  "loses_audit e \<longleftrightarrow> op_fails e GOpAppend \<or> (\<exists>n. op_fails e (GOpCascadeAudit n))"

definition grant_fresh :: "grant_env \<Rightarrow> grant_svc \<Rightarrow> bool" where
  "grant_fresh e s \<longleftrightarrow> tab_get (gs_data s) (new_id e 0) = None"

lemma RevokeGrant_storeE:
  assumes "RevokeGrant_store t i now s = Some ((g', already), s')" "grant_wf s"
  obtains (again) g where "GetGrantRow t i s = Some g" "already" "gr_RevokedAt g \<noteq> None" "s' = s" "g' = with_status now g"
  | (first) g where "GetGrantRow t i s = Some g" "\<not> already" "gr_RevokedAt g = None" "gr_ID g = i"
      "s' = put_grant (g\<lparr>gr_RevokedAt := Some now\<rparr>) s" "g' = with_status now (g\<lparr>gr_RevokedAt := Some now\<rparr>)"
proof -
  obtain g where g: "GetGrantRow t i s = Some g"
    using assms(1) by (auto simp: RevokeGrant_store_def split: option.splits)
  then have "gr_ID g = i" using grant_row [OF assms(2)] by (auto simp: GetGrantRow_Some)
  show ?thesis
  proof (cases "gr_RevokedAt g")
    case None
    then have "\<not> already" "s' = put_grant (g\<lparr>gr_RevokedAt := Some now\<rparr>) s" "g' = with_status now (g\<lparr>gr_RevokedAt := Some now\<rparr>)"
      using assms(1) g \<open>gr_ID g = i\<close> by (auto simp: RevokeGrant_store_def Let_def put_grant_def)
    then show ?thesis using first [OF g _ None \<open>gr_ID g = i\<close>] by blast
  next
    case (Some r)
    then show ?thesis using again [OF g] assms(1) g by (simp add: RevokeGrant_store_def)
  qed
qed

lemma revoke_moves:
  assumes "RevokeGrant_store t i now s = Some ((g', already), s')" "grant_wf s" "f \<Longrightarrow> lossy"
  shows "grant_moves lossy P t s (if already then s' else audit f (revoked_event u t p now g') s')"
  using assms(1,2)
proof (cases rule: RevokeGrant_storeE)
  case (first g)
  have "GetGrantRow t (gr_ID g) s = Some g" using first by simp
  from Withdraw [OF this first(3) assms(3)] show ?thesis using first by (simp add: with_status_def)
qed (simp add: Stay)

lemma revoke_each_moves:
  assumes "grant_wf (snd acc)" "loses_audit e \<Longrightarrow> lossy"
  shows "grant_moves lossy P t (snd acc) (snd (revoke_each e t now n gs acc))"
  using assms
proof (induction e t now n gs acc rule: revoke_each.induct)
  case (2 e t now n g gs revoked already s)
  let ?next = "case store_call (op_fails e (GOpCascade n)) (RevokeGrant_store t (gr_ID g) now s) of
      Got ((updated, alreadyRevoked), s') \<Rightarrow>
        if alreadyRevoked then ((revoked, already + 1), s')
        else ((revoked + 1, already),
              audit (op_fails e (GOpCascadeAudit n))
                (revoked_event (new_id e n) t [(''cause'', AVJson (JStr ''install_revoked''))] now updated) s')
    | _ \<Rightarrow> ((revoked, already), s)"
  have lossy: "op_fails e (GOpCascadeAudit n) \<Longrightarrow> lossy" using "2.prems"(2) by (auto simp: loses_audit_def)
  have one: "grant_moves lossy P t s (snd ?next)"
  proof (cases "store_call (op_fails e (GOpCascade n)) (RevokeGrant_store t (gr_ID g) now s)")
    case (Got r)
    obtain g' b s' where r: "r = ((g', b), s')" by (metis surj_pair)
    have "RevokeGrant_store t (gr_ID g) now s = Some ((g', b), s')" "grant_wf s" using Got r "2.prems"(1) by auto
    from revoke_moves [OF this lossy] show ?thesis using Got r by (auto split: if_splits)
  qed (simp_all add: Stay)
  moreover have "grant_wf (snd ?next)" using moves_wf [OF one] "2.prems"(1) by simp
  ultimately show ?case using "2.IH" [OF _ "2.prems"(2)] by (auto intro: Then)
qed (simp add: Stay)

text \<open>The grants a route may issue.\<close>

definition issued_by :: "grant_env \<Rightarrow> grant_route \<Rightarrow> string \<Rightarrow> Grant \<Rightarrow> bool" where
  "issued_by e rt t g \<longleftrightarrow> (\<exists>b req. rt = GCreate b \<and> ReadJSON CreateGrantRequest_fields no_create_grant b = Inr req \<and>
     g = new_grant e t req)"

lemma grant_v1_moves:
  assumes wf: "grant_wf s" and new: "grant_fresh e s" and lossy: "loses_audit e \<Longrightarrow> lossy"
  shows "grant_moves lossy (issued_by e rt t) t s (snd (grant_v1 sha256 e rt (Some t) s))"
proof (cases rt)
  case (GCreate b)
  show ?thesis
  proof (cases "snd (grant_v1 sha256 e rt (Some t) s) = s")
    case False
    then obtain req where req: "ReadJSON CreateGrantRequest_fields no_create_grant b = Inr req"
      and "snd (grant_v1 sha256 e rt (Some t) s) =
        audit (op_fails e GOpAppend) (issued_event (new_id e 1) (gr_IssuedAt (new_grant e t req)) (new_grant e t req))
          (put_grant (new_grant e t req) s)"
      using GCreate by (auto simp: CreateGrant_def Let_def new_grant_def split: sum.splits option.splits if_splits)
    moreover have "grant_moves lossy (issued_by e rt t) t s \<dots>"
      by (rule Issue)
        (use req GCreate new lossy in \<open>auto simp: issued_by_def new_grant_def Let_def grant_fresh_def loses_audit_def\<close>)
    ultimately show ?thesis by simp
  qed (simp add: Stay)
next
  case (GRevoke i)
  show ?thesis
    using GRevoke wf lossy
    by (auto simp: RevokeGrant_def Let_def loses_audit_def intro: Stay revoke_moves [where f = "op_fails e GOpAppend", simplified]
        split: got.splits if_splits dest!: revoke_moves [where f = "op_fails e GOpAppend" and lossy = lossy])
next
  case (GRevokeInstall inst)
  have "snd (grant_v1 sha256 e rt (Some t) s) = s \<or> snd (grant_v1 sha256 e rt (Some t) s) =
      snd (revoke_each e t (now_at e 0) 0 (ListByInstall (now_at e 1) t inst s) ((0, 0), s))"
    using GRevokeInstall by (simp add: RevokeGrantsForInstall_def Let_def split: prod.splits)
  then show ?thesis using revoke_each_moves [of "((0, 0), s)" e lossy] wf lossy by (auto simp: Stay)
next
  case (GRevokeToken b)
  show ?thesis
    using GRevokeToken wf lossy
    by (auto simp: RevokeByToken_def Let_def loses_audit_def intro: Stay
        split: sum.splits got.splits if_splits dest!: revoke_moves [where f = "op_fails e GOpAppend" and lossy = lossy])
next
  case (GAppendAudit b)
  then show ?thesis by (auto simp: AppendAudit_def Let_def intro: Stay Log split: sum.splits if_splits)
qed (auto simp: GetGrant_def Introspect_def QueryAudit_def Let_def intro: Stay
    split: sum.splits got.splits if_splits)

section \<open>The cascade over an install\<close>

definition withdraw :: "time \<Rightarrow> Grant \<Rightarrow> Grant" where
  "withdraw now g = (if gr_RevokedAt g = None then g\<lparr>gr_RevokedAt := Some now\<rparr> else g)"

lemma RevokeGrant_store_withdraw:
  assumes "GetGrantRow t i s = Some g" "grant_wf s"
  shows "RevokeGrant_store t i now s = Some ((with_status now (withdraw now g), gr_RevokedAt g \<noteq> None),
    if gr_RevokedAt g \<noteq> None then s else put_grant (withdraw now g) s)"
proof -
  have "gr_ID g = i" using assms grant_row [OF assms(2), of i g] by (simp add: GetGrantRow_Some)
  then show ?thesis using assms(1) by (auto simp: RevokeGrant_store_def Let_def put_grant_def withdraw_def)
qed

lemma revoke_each_spec:
  assumes "grant_wf s" "distinct (map gr_ID gs)" "\<And>n. \<not> op_fails e (GOpCascade n)"
    and "\<And>g. g \<in> set gs \<Longrightarrow> \<exists>x. GetGrantRow t (gr_ID g) s = Some x \<and> gr_RevokedAt x = gr_RevokedAt g"
  shows "fst (revoke_each e t now n gs ((r, a), s)) =
      (r + int (length (filter (\<lambda>g. gr_RevokedAt g = None) gs)), a + int (length (filter (\<lambda>g. gr_RevokedAt g \<noteq> None) gs))) \<and>
    tab_get (gs_data (snd (revoke_each e t now n gs ((r, a), s)))) i =
      (if i \<in> gr_ID ` set gs then map_option (withdraw now) (tab_get (gs_data s) i) else tab_get (gs_data s) i)"
  using assms
proof (induction gs arbitrary: n r a s)
  case (Cons g gs)
  obtain x where x: "GetGrantRow t (gr_ID g) s = Some x" "gr_RevokedAt x = gr_RevokedAt g" using Cons.prems(4) by auto
  have id: "gr_ID x = gr_ID g" "tab_get (gs_data s) (gr_ID g) = Some x"
    using x(1) grant_row [OF Cons.prems(1), of "gr_ID g" x] by (auto simp: GetGrantRow_Some)
  define s1 where "s1 = (if gr_RevokedAt g \<noteq> None then s
    else audit (op_fails e (GOpCascadeAudit n))
      (revoked_event (new_id e n) t [(''cause'', AVJson (JStr ''install_revoked''))] now (with_status now (withdraw now x)))
      (put_grant (withdraw now x) s))"
  have step: "revoke_each e t now n (g # gs) ((r, a), s) =
      revoke_each e t now (Suc n) gs (if gr_RevokedAt g \<noteq> None then ((r, a + 1), s1) else ((r + 1, a), s1))"
    using RevokeGrant_store_withdraw [OF x(1) Cons.prems(1), of now] Cons.prems(3)
    by (auto simp: s1_def store_call_def x(2))
  have wf: "grant_wf s1"
    using Cons.prems(1) by (auto simp: s1_def grant_wf_def put_grant_def intro!: tab_wf_put)
  have rows: "tab_get (gs_data s1) j = (if j = gr_ID g then Some (withdraw now x) else tab_get (gs_data s) j)" for j
    using id x(2) by (auto simp: s1_def table_simps withdraw_def)
  have others: "\<And>h. h \<in> set gs \<Longrightarrow> \<exists>y. GetGrantRow t (gr_ID h) s1 = Some y \<and> gr_RevokedAt y = gr_RevokedAt h"
  proof -
    fix h assume h: "h \<in> set gs"
    then have "gr_ID h \<in> gr_ID ` set gs" by (rule imageI)
    then have "gr_ID h \<noteq> gr_ID g" using Cons.prems(2) by (cases "gr_ID h = gr_ID g") simp_all
    then show "\<exists>y. GetGrantRow t (gr_ID h) s1 = Some y \<and> gr_RevokedAt y = gr_RevokedAt h"
      using Cons.prems(4) [of h] h rows by (simp add: GetGrantRow_Some)
  qed
  have rest: "fst (revoke_each e t now (Suc n) gs ((r', a'), s1)) =
      (r' + int (length (filter (\<lambda>g. gr_RevokedAt g = None) gs)), a' + int (length (filter (\<lambda>g. gr_RevokedAt g \<noteq> None) gs))) \<and>
    tab_get (gs_data (snd (revoke_each e t now (Suc n) gs ((r', a'), s1)))) i =
      (if i \<in> gr_ID ` set gs then map_option (withdraw now) (tab_get (gs_data s1) i) else tab_get (gs_data s1) i)" for r' a'
    by (rule Cons.IH [OF wf _ Cons.prems(3) others]) (use Cons.prems(2) in simp)
  have "gr_ID g \<notin> gr_ID ` set gs" using Cons.prems(2) by simp
  with step rest rows id show ?case by (cases "gr_RevokedAt g") auto
qed simp

definition of_install :: "string \<Rightarrow> string \<Rightarrow> Grant \<Rightarrow> bool" where
  "of_install t inst g \<longleftrightarrow> gr_TenantID g = t \<and> gr_InstallID g = inst"

lemma length_filter_sort_slice:
  "length (filter P (sort_slice before (map f xs))) = length (filter (\<lambda>x. P (f x)) xs)"
proof -
  have "size (filter_mset P (mset (sort_slice before (map f xs)))) = size (filter_mset P (mset (map f xs)))" by simp
  then have "length (filter P (sort_slice before (map f xs))) = length (filter P (map f xs))"
    by (metis mset_filter size_mset)
  then show ?thesis by (simp add: filter_map comp_def)
qed

lemma cascade:
  assumes "grant_wf s" "inst \<noteq> []" "\<not> op_fails e GOpList" "\<And>n. \<not> op_fails e (GOpCascade n)"
  shows "fst (RevokeGrantsForInstall e (Some t) inst s) = WriteJSON StatusOK (GSummary inst
      (int (length (filter (of_install t inst) (tab_rows (gs_data s)))))
      (int (length (filter (\<lambda>g. of_install t inst g \<and> gr_RevokedAt g = None) (tab_rows (gs_data s)))))
      (int (length (filter (\<lambda>g. of_install t inst g \<and> gr_RevokedAt g \<noteq> None) (tab_rows (gs_data s)))))) \<and>
    tab_get (gs_data (snd (RevokeGrantsForInstall e (Some t) inst s))) i =
      map_option (\<lambda>g. if of_install t inst g then withdraw (now_at e 0) g else g) (tab_get (gs_data s) i)"
proof -
  let ?rows = "filter (of_install t inst) (tab_rows (gs_data s))"
  let ?gs = "ListByInstall (now_at e 1) t inst s"
  have gs: "?gs = sort_slice (\<lambda>a b. gr_IssuedAt a < gr_IssuedAt b) (map (with_status (now_at e 1)) ?rows)"
    by (simp add: ListByInstall_def of_install_def [abs_def])
  have ids: "map gr_ID (map (with_status (now_at e 1)) ?rows) = map gr_ID ?rows" by (simp add: with_status_def)
  have "distinct (map gr_ID ?rows)"
    using tab_wf_distinct [of gr_ID "gs_data s"] assms(1) by (simp add: grant_wf_def distinct_map_filter)
  then have dist: "distinct (map gr_ID ?gs)"
    unfolding gs by (metis ids mset_eq_imp_distinct_iff mset_map mset_sort_slice)
  have set: "set ?gs = with_status (now_at e 1) ` set ?rows" unfolding gs by simp
  have rows: "\<exists>x. GetGrantRow t (gr_ID g) s = Some x \<and> gr_RevokedAt x = gr_RevokedAt g" if mem: "g \<in> set ?gs" for g
  proof -
    obtain x where x: "x \<in> set (tab_rows (gs_data s))" "of_install t inst x" "g = with_status (now_at e 1) x"
      using mem unfolding set by auto
    then have "tab_get (gs_data s) (gr_ID x) = Some x" using grant_row [OF assms(1)] by blast
    with x show ?thesis by (auto simp: GetGrantRow_Some of_install_def with_status_def)
  qed
  have mem: "i \<in> gr_ID ` set ?gs \<longleftrightarrow> (\<exists>x. tab_get (gs_data s) i = Some x \<and> of_install t inst x)"
    unfolding set using grant_row [OF assms(1), of i] by (force simp: with_status_def image_iff)
  have count: "length (filter (\<lambda>g. P (gr_RevokedAt g)) ?gs) =
      length (filter (\<lambda>g. of_install t inst g \<and> P (gr_RevokedAt g)) (tab_rows (gs_data s)))" for P
    unfolding gs length_filter_sort_slice by (simp add: with_status_def conj_commute)
  have total: "length ?gs = length ?rows" unfolding gs by simp
  note spec = revoke_each_spec [OF assms(1) dist assms(4) rows, where now = "now_at e 0" and n = 0 and r = 0 and a = 0 and i = i]
  obtain r a s' where out: "revoke_each e t (now_at e 0) 0 ?gs ((0, 0), s) = ((r, a), s')" by (metis surj_pair)
  have "RevokeGrantsForInstall e (Some t) inst s = (WriteJSON StatusOK (GSummary inst (int (length ?gs)) r a), s')"
    using assms(2,3) out by (simp add: RevokeGrantsForInstall_def Let_def)
  moreover have "r = int (length (filter (\<lambda>g. of_install t inst g \<and> gr_RevokedAt g = None) (tab_rows (gs_data s))))"
    "a = int (length (filter (\<lambda>g. of_install t inst g \<and> gr_RevokedAt g \<noteq> None) (tab_rows (gs_data s))))"
    using spec out count [of "\<lambda>x. x = None"] count [of "\<lambda>x. x \<noteq> None"] by simp_all
  moreover have "tab_get (gs_data s') i =
      map_option (\<lambda>g. if of_install t inst g then withdraw (now_at e 0) g else g) (tab_get (gs_data s) i)"
  proof (cases "tab_get (gs_data s) i")
    case (Some g)
    then show ?thesis using spec out mem by (cases "of_install t inst g") simp_all
  qed (use spec out mem in simp)
  ultimately show ?thesis using total by simp
qed

section \<open>Runs\<close>

record grant_event =
  ge_env :: grant_env
  ge_internal :: bool
  ge_route :: "grant_route option"
  ge_gate :: gate_request

definition grant_answer :: "(string \<Rightarrow> string) \<Rightarrow> string \<Rightarrow> grant_event \<Rightarrow> grant_svc \<Rightarrow> grant_reply \<times> grant_svc" where
  "grant_answer sha256 secret ev s =
     grant_router sha256 secret (ge_env ev) (ge_internal ev) (ge_route ev) (ge_gate ev) s"

fun grant_run :: "(string \<Rightarrow> string) \<Rightarrow> string \<Rightarrow> grant_event list \<Rightarrow> grant_svc \<Rightarrow>
    (grant_event \<times> grant_reply \<times> grant_svc) list" where
  "grant_run sha256 secret [] s = []"
| "grant_run sha256 secret (ev # evs) s =
     (let out = grant_answer sha256 secret ev s in (ev, out) # grant_run sha256 secret evs (snd out))"

fun grant_uuids_fresh :: "(string \<Rightarrow> string) \<Rightarrow> string \<Rightarrow> grant_event list \<Rightarrow> grant_svc \<Rightarrow> bool" where
  "grant_uuids_fresh sha256 secret [] s \<longleftrightarrow> True"
| "grant_uuids_fresh sha256 secret (ev # evs) s \<longleftrightarrow>
     grant_fresh (ge_env ev) s \<and> grant_uuids_fresh sha256 secret evs (snd (grant_answer sha256 secret ev s))"

lemma grant_answer_cases:
  obtains (stopped) "snd (grant_answer sha256 secret ev s) = s"
      "\<And>st r. fst (grant_answer sha256 secret ev s) \<noteq> WriteJSON st (GIntrospect r)"
  | (served) rt t where "ge_route ev = Some rt" "From (ge_gate ev) = Some t"
      "grant_answer sha256 secret ev s = grant_v1 sha256 (ge_env ev) rt (Some t) s"
proof (cases "ge_route ev")
  case None
  then show ?thesis using stopped by (simp add: grant_answer_def grant_router_def)
next
  case (Some rt)
  then show ?thesis
    using stopped served
    by (cases rule: gated_cases [of secret "ge_internal ev" "grant_v1 sha256 (ge_env ev) rt" "ge_gate ev" s])
      (auto simp: grant_answer_def grant_router_def)
qed

lemma grant_answer_moves:
  assumes "grant_wf s" "grant_fresh (ge_env ev) s" "loses_audit (ge_env ev) \<Longrightarrow> lossy"
  shows "\<exists>t. grant_moves lossy (\<lambda>g. \<exists>rt. ge_route ev = Some rt \<and> issued_by (ge_env ev) rt t g) t s
    (snd (grant_answer sha256 secret ev s))"
proof (cases rule: grant_answer_cases [of sha256 secret ev s])
  case stopped
  then show ?thesis by (auto intro: Stay)
next
  case (served rt t)
  then show ?thesis using grant_v1_moves [OF assms] by (auto intro!: exI [of _ t])
qed

text \<open>Whether the request issues a grant for an access token of hash \<open>h\<close>.\<close>

definition issues_hash :: "string \<Rightarrow> grant_event \<Rightarrow> bool" where
  "issues_hash h ev \<longleftrightarrow> (case ge_route ev of
     Some (GCreate b) \<Rightarrow> (case ReadJSON CreateGrantRequest_fields no_create_grant b of
        Inr req \<Rightarrow> TrimSpace (cg_AccessTokenHash req) = h | _ \<Rightarrow> False)
   | _ \<Rightarrow> False)"

definition sole_holder :: "string \<Rightarrow> string \<Rightarrow> grant_svc \<Rightarrow> bool" where
  "sole_holder h i s \<longleftrightarrow> (\<forall>x\<in>set (tab_rows (gs_data s)). gr_AccessTokenHash x = h \<longrightarrow> gr_ID x = i)"

lemma sole_holder_answer:
  assumes "grant_wf s" "grant_fresh (ge_env ev) s" "sole_holder h i s" "\<not> issues_hash h ev"
  shows "sole_holder h i (snd (grant_answer sha256 secret ev s))"
proof -
  obtain t where moves: "grant_moves True (\<lambda>g. \<exists>rt. ge_route ev = Some rt \<and> issued_by (ge_env ev) rt t g) t s
      (snd (grant_answer sha256 secret ev s))"
    using grant_answer_moves [OF assms(1,2), of True sha256 secret] by auto
  have other: "gr_AccessTokenHash g \<noteq> h" if "ge_route ev = Some rt" "issued_by (ge_env ev) rt t g" for rt g
    using that assms(4) by (auto simp: issues_hash_def issued_by_def new_grant_def Let_def)
  show ?thesis unfolding sole_holder_def
  proof (intro ballI impI)
    fix x assume x: "x \<in> set (tab_rows (gs_data (snd (grant_answer sha256 secret ev s))))" "gr_AccessTokenHash x = h"
    from moves_hash [OF moves assms(1) x(1)] x(2) other
    obtain y where "y \<in> set (tab_rows (gs_data s))" "gr_ID y = gr_ID x" "gr_AccessTokenHash y = h" by metis
    then show "gr_ID x = i" using assms(3) by (auto simp: sole_holder_def)
  qed
qed

text \<open>A request that asks about the token of grant \<open>g\<close>, and a reply that calls a token active.\<close>

definition asks_about :: "(string \<Rightarrow> string) \<Rightarrow> Grant \<Rightarrow> grant_event \<Rightarrow> bool" where
  "asks_about sha256 g ev \<longleftrightarrow> (case ge_route ev of
     Some (GIntrospectToken b) \<Rightarrow> (case ReadJSON TokenRequest_fields [] b of
        Inr token \<Rightarrow> HashToken sha256 (TrimSpace token) = gr_AccessTokenHash g | _ \<Rightarrow> False)
   | _ \<Rightarrow> False)"

definition says_active :: "grant_reply \<Rightarrow> bool" where
  "says_active rep \<longleftrightarrow> (case rep of WriteJSON st (GIntrospect r) \<Rightarrow> ir_Active r | _ \<Rightarrow> False)"

text \<open>The grant that a lookup by hash finds, when only one can hold the hash.\<close>

lemma find_sole:
  assumes "grant_wf s" "sole_holder h i s" "tab_get (gs_data s) i = Some g" "gr_AccessTokenHash g = h" "h \<noteq> []"
  shows "FindByAccessTokenHash now h s = Some (with_status now g)"
proof -
  have g: "g \<in> set (tab_rows (gs_data s))" "gr_ID g = i" using grant_row [OF assms(1)] assms(3) by blast+
  then obtain x where x: "find (\<lambda>g. gr_AccessTokenHash g = h) (tab_rows (gs_data s)) = Some x"
    using assms(4) by (cases "find (\<lambda>g. gr_AccessTokenHash g = h) (tab_rows (gs_data s))") (auto simp: find_None_iff)
  then have "x \<in> set (tab_rows (gs_data s))" "gr_AccessTokenHash x = h" by (auto simp: find_Some_iff in_set_conv_nth)
  then have "tab_get (gs_data s) i = Some x" using assms(2) grant_row [OF assms(1)] by (auto simp: sole_holder_def)
  with x assms show ?thesis by (simp add: FindByAccessTokenHash_def)
qed

lemma DeriveStatus_with [simp]: "DeriveStatus (with_status u g) now = DeriveStatus g now"
  by (simp add: DeriveStatus_def with_status_def)

lemma with_status_fields [simp]:
  "gr_TenantID (with_status u g) = gr_TenantID g" "gr_InstallID (with_status u g) = gr_InstallID g"
  "gr_IdentityID (with_status u g) = gr_IdentityID g" "gr_PersonaID (with_status u g) = gr_PersonaID g"
  "gr_ID (with_status u g) = gr_ID g" "gr_IssuedAt (with_status u g) = gr_IssuedAt g"
  "gr_ExpiresAt (with_status u g) = gr_ExpiresAt g" "gr_RevokedAt (with_status u g) = gr_RevokedAt g"
  by (simp_all add: with_status_def)

lemma introspect_revoked:
  assumes "grant_wf s" "sole_holder (gr_AccessTokenHash g) i s" "tab_get (gs_data s) i = Some g" "gr_RevokedAt g = Some r"
    and "ReadJSON TokenRequest_fields [] b = Inr token" "HashToken sha256 (TrimSpace token) = gr_AccessTokenHash g"
  shows "\<not> says_active (fst (Introspect sha256 e (Some t) b s))"
proof (cases "gr_AccessTokenHash g = []")
  case True
  then show ?thesis
    using assms(5,6) by (auto simp: Introspect_def Let_def says_active_def inactive_def FindByAccessTokenHash_def store_call_def)
next
  case False
  have "DeriveStatus g now \<noteq> GrantActive" for now using assms(4) by (simp add: DeriveStatus_def grant_status_defs)
  then show ?thesis
    using find_sole [OF assms(1-3) refl False] assms(5,6)
    by (auto simp: Introspect_def Let_def says_active_def inactive_def store_call_def)
qed

lemma revoked_run:
  assumes "grant_wf s" "grant_uuids_fresh sha256 secret evs s"
    and "tab_get (gs_data s) i = Some g" "gr_RevokedAt g = Some r"
    and "sole_holder (gr_AccessTokenHash g) i s" "\<forall>ev\<in>set evs. \<not> issues_hash (gr_AccessTokenHash g) ev"
  shows "\<forall>out\<in>set (grant_run sha256 secret evs s). tab_get (gs_data (snd (snd out))) i = Some g \<and>
    \<not> (asks_about sha256 g (fst out) \<and> says_active (fst (snd out)))"
  using assms
proof (induction evs arbitrary: s)
  case (Cons ev evs)
  let ?out = "grant_answer sha256 secret ev s"
  have new: "grant_fresh (ge_env ev) s" using Cons.prems by simp
  obtain t P where moves: "grant_moves True P t s (snd ?out)" using grant_answer_moves [OF Cons.prems(1) new, of True] by blast
  have row: "tab_get (gs_data (snd ?out)) i = Some g" using moves_row [OF moves Cons.prems(3)] Cons.prems(4) by auto
  have "\<not> (asks_about sha256 g ev \<and> says_active (fst ?out))"
  proof (cases rule: grant_answer_cases [of sha256 secret ev s])
    case stopped
    then show ?thesis by (auto simp: says_active_def split: reply.splits grant_payload.splits)
  next
    case (served rt u)
    then show ?thesis
      using introspect_revoked [OF Cons.prems(1,5,3,4)]
      by (auto simp: asks_about_def split: grant_route.splits sum.splits)
  qed
  moreover have "\<forall>out\<in>set (grant_run sha256 secret evs (snd ?out)). tab_get (gs_data (snd (snd out))) i = Some g \<and>
      \<not> (asks_about sha256 g (fst out) \<and> says_active (fst (snd out)))"
    by (rule Cons.IH)
      (use Cons.prems row moves_wf [OF moves] sole_holder_answer [OF Cons.prems(1) new Cons.prems(5)] in auto)
  ultimately show ?case using row by (simp add: Let_def)
qed simp

section \<open>The properties\<close>

text \<open>
  Toy digests for the witnesses: the token itself, and one of 32 bytes where the length matters.
\<close>

definition demo_sha256 :: "string \<Rightarrow> string" where
  "demo_sha256 token = token"

definition demo_sha256_padded :: "string \<Rightarrow> string" where
  "demo_sha256_padded token = replicate 32 (case token of [] \<Rightarrow> CHR ''x'' | c # cs \<Rightarrow> c)"

definition demo_grant_env :: "string \<Rightarrow> time \<Rightarrow> grant_env" where
  "demo_grant_env uuid now = \<lparr>now_at = \<lambda>n. now, new_id = \<lambda>n. uuid, op_fails = \<lambda>x. False\<rparr>"

definition demo_grant_gate :: gate_request where
  "demo_grant_gate = \<lparr>peer_certificates = 0, internal_auth_header = [], tenant_header = ''t''\<rparr>"

definition demo_grant :: "string \<Rightarrow> string \<Rightarrow> time option \<Rightarrow> Grant" where
  "demo_grant i h revoked = \<lparr>gr_ID = i, gr_TenantID = ''t'', gr_InstallID = ''i1'', gr_IdentityID = ''b'',
     gr_PersonaID = ''pe'', gr_AccessTokenHash = h, gr_RefreshTokenHash = [],
     gr_IssuedAt = 10 * Second, gr_ExpiresAt = 910 * Second, gr_RevokedAt = revoked, gr_Status = []\<rparr>"

definition demo_log :: "Grant list \<Rightarrow> AuditEvent list" where
  "demo_log gs = concat (map (\<lambda>g. issued_event ''u'' (gr_IssuedAt g) g #
     (case gr_RevokedAt g of None \<Rightarrow> [] | Some r \<Rightarrow> [revoked_event ''u'' ''t'' [] r g])) gs)"

definition demo_grants :: grant_svc where
  "demo_grants = (let gs = [demo_grant ''g1'' ''61'' (Some (20 * Second)), demo_grant ''g2'' ''62'' None, demo_grant ''g3'' ''63'' None]
     in \<lparr>gs_data = map (\<lambda>g. (gr_ID g, g)) gs, gs_events = demo_log gs\<rparr>)"

definition demo_token_body :: "string \<Rightarrow> body" where
  "demo_token_body token = Body (JObj [(''token'', JStr token)]) 30"

lemma demo_grants_inv: "grant_inv demo_grants"
  by code_simp

text \<open>
  The audit log is append-only: whatever a request does, the old log is a prefix of the new one.
  Unless an append failed it is also complete: every stored grant has its \<open>grant_issued\<close> event, and every
  revoked grant a \<open>grant_revoked\<close> event of the same instant.
\<close>

theorem audit_log_is_append_only_and_complete:
  assumes "grant_inv s" "grant_fresh e s"
  shows "prefix (gs_events s) (gs_events (snd (grant_router sha256 secret e is_internal route r s))) \<and>
    (\<not> loses_audit e \<longrightarrow> grant_inv (snd (grant_router sha256 secret e is_internal route r s)))"
proof -
  let ?ev = "\<lparr>ge_env = e, ge_internal = is_internal, ge_route = route, ge_gate = r\<rparr>"
  have wf: "grant_wf s" using assms(1) by (simp add: grant_inv_def)
  let ?out = "snd (grant_router sha256 secret e is_internal route r s)"
  have out: "snd (grant_answer sha256 secret ?ev s) = ?out" by (simp add: grant_answer_def)
  obtain t P where moves: "grant_moves (loses_audit e) P t s ?out"
    using grant_answer_moves [OF wf, of ?ev "loses_audit e" sha256 secret] assms(2) unfolding out by auto
  have "grant_inv ?out" if "\<not> loses_audit e"
    by (rule moves_inv [OF _ assms(1)]) (use moves that in simp)
  with moves_events [OF moves] show ?thesis by blast
qed

theorem audit_log_is_append_only_and_complete_witness:
  "grant_inv (snd (grant_router demo_sha256 [] (demo_grant_env ''n'' 50) True (Some (GRevokeInstall ''i1'')) demo_grant_gate demo_grants)) \<and>
   length (gs_events (snd (grant_router demo_sha256 [] (demo_grant_env ''n'' 50) True (Some (GRevokeInstall ''i1''))
     demo_grant_gate demo_grants))) = 6"
proof
  have "grant_fresh (demo_grant_env ''n'' 50) demo_grants" by code_simp
  moreover have "\<not> loses_audit (demo_grant_env ''n'' 50)" by (simp add: loses_audit_def demo_grant_env_def)
  ultimately show "grant_inv (snd (grant_router demo_sha256 [] (demo_grant_env ''n'' 50) True (Some (GRevokeInstall ''i1''))
      demo_grant_gate demo_grants))"
    using audit_log_is_append_only_and_complete [OF demo_grants_inv] by blast
qed code_simp


definition demo_grant_events :: "grant_event list" where
  "demo_grant_events =
     [\<lparr>ge_env = demo_grant_env ''n'' (30 * Second), ge_internal = True, ge_route = Some (GIntrospectToken (demo_token_body ''a'')),
       ge_gate = demo_grant_gate\<rparr>,
      \<lparr>ge_env = demo_grant_env ''n'' (31 * Second), ge_internal = True, ge_route = Some (GIntrospectToken (demo_token_body ''b'')),
       ge_gate = demo_grant_gate\<rparr>,
      \<lparr>ge_env = demo_grant_env ''n'' (32 * Second), ge_internal = False, ge_route = Some (GRevoke ''g1''), ge_gate = demo_grant_gate\<rparr>]"



definition demo_one_grant :: grant_svc where
  "demo_one_grant = \<lparr>gs_data = [(''g2'', demo_grant ''g2'' (HashToken demo_sha256_padded ''b'') None)], gs_events = []\<rparr>"


text \<open>
  The cascade is complete and confined: when no storage call fails, \<open>revoke-grants\<close> for an install
  stamps exactly the not yet revoked grants of that install and tenant, leaves every other row as it
  was, and its reply counts them.
\<close>

theorem cascade_revokes_exactly_the_install:
  assumes "grant_wf s" "inst \<noteq> []" "\<not> op_fails e GOpList" "\<And>n. \<not> op_fails e (GOpCascade n)"
  shows "fst (RevokeGrantsForInstall e (Some t) inst s) = WriteJSON StatusOK (GSummary inst
      (int (length (filter (of_install t inst) (tab_rows (gs_data s)))))
      (int (length (filter (\<lambda>g. of_install t inst g \<and> gr_RevokedAt g = None) (tab_rows (gs_data s)))))
      (int (length (filter (\<lambda>g. of_install t inst g \<and> gr_RevokedAt g \<noteq> None) (tab_rows (gs_data s)))))) \<and>
    tab_get (gs_data (snd (RevokeGrantsForInstall e (Some t) inst s))) i =
      map_option (\<lambda>g. if of_install t inst g then withdraw (now_at e 0) g else g) (tab_get (gs_data s) i)"
  by (rule cascade [OF assms])

theorem cascade_revokes_exactly_the_install_witness:
  "fst (RevokeGrantsForInstall (demo_grant_env ''n'' 50) (Some ''t'') ''i1'' demo_grants)
     = WriteJSON StatusOK (GSummary ''i1'' 3 2 1) \<and>
   map_option gr_RevokedAt (tab_get (gs_data (snd (RevokeGrantsForInstall (demo_grant_env ''n'' 50) (Some ''t'') ''i1'' demo_grants))) ''g2'')
     = Some (Some 50)"
proof -
  have wf: "grant_wf demo_grants" using demo_grants_inv by (simp add: grant_inv_def)
  have "\<not> op_fails (demo_grant_env ''n'' 50) x" for x by (simp add: demo_grant_env_def)
  note spec = cascade_revokes_exactly_the_install [OF wf _ this this, of "''i1''" "''t''" "''g2''"]
  have "filter (of_install ''t'' ''i1'') (tab_rows (gs_data demo_grants)) = tab_rows (gs_data demo_grants)"
    "length (tab_rows (gs_data demo_grants)) = 3"
    "length (filter (\<lambda>g. of_install ''t'' ''i1'' g \<and> gr_RevokedAt g = None) (tab_rows (gs_data demo_grants))) = 2"
    "length (filter (\<lambda>g. of_install ''t'' ''i1'' g \<and> gr_RevokedAt g \<noteq> None) (tab_rows (gs_data demo_grants))) = 1"
    "tab_get (gs_data demo_grants) ''g2'' = Some (demo_grant ''g2'' ''62'' None)"
    "of_install ''t'' ''i1'' (demo_grant ''g2'' ''62'' None)"
    "gr_RevokedAt (withdraw 50 (demo_grant ''g2'' ''62'' None)) = Some 50" by code_simp+
  with spec show ?thesis by (simp add: demo_grant_env_def)
qed

end
