(* ===== verification/PersonaService.thy ===== *)
theory PersonaService
  imports XService
begin

text \<open>
  persona-service (models.go, storage.go, handlers.go): the bundles of scopes and claims an agent may
  assume, their tenant-scoped storage, the five handlers and the router.  The invariant bounds the name
  and the token lifetime of every stored persona.
\<close>

section \<open>Records\<close>

record Persona =
  pn_ID :: string
  pn_TenantID :: string
  pn_Name :: string
  pn_Scopes :: "string list"
  pn_Claims :: "(string \<times> json) list option"
  pn_TokenTTLSeconds :: int
  pn_CreatedAt :: time
  pn_UpdatedAt :: time

record PersonaCreate =
  pc_Name :: string
  pc_Scopes :: "string list"
  pc_Claims :: "(string \<times> json) list option"
  pc_TokenTTLSeconds :: "int option"

record PersonaUpdate =
  pu_Name :: "string option"
  pu_Scopes :: "string list option"
  pu_Claims :: "(string \<times> json) list option"
  pu_TokenTTLSeconds :: "int option"

definition PersonaCreate_fields :: "PersonaCreate field list" where
  "PersonaCreate_fields =
     [into dec_string ''name'' pc_Name pc_Name_update,
      into dec_strings ''scopes'' pc_Scopes pc_Scopes_update,
      into dec_map_pointer ''claims'' pc_Claims pc_Claims_update,
      into dec_int_pointer ''token_ttl_seconds'' pc_TokenTTLSeconds pc_TokenTTLSeconds_update]"

definition no_persona_create :: PersonaCreate where
  "no_persona_create = \<lparr>pc_Name = [], pc_Scopes = [], pc_Claims = None, pc_TokenTTLSeconds = None\<rparr>"

definition PersonaUpdate_fields :: "PersonaUpdate field list" where
  "PersonaUpdate_fields =
     [into dec_pointer ''name'' pu_Name pu_Name_update,
      into dec_strings_pointer ''scopes'' pu_Scopes pu_Scopes_update,
      into dec_map_pointer ''claims'' pu_Claims pu_Claims_update,
      into dec_int_pointer ''token_ttl_seconds'' pu_TokenTTLSeconds pu_TokenTTLSeconds_update]"

definition no_persona_update :: PersonaUpdate where
  "no_persona_update = \<lparr>pu_Name = None, pu_Scopes = None, pu_Claims = None, pu_TokenTTLSeconds = None\<rparr>"

definition DefaultTokenTTLSeconds :: int where "DefaultTokenTTLSeconds = 900"
definition MaxTokenTTLSeconds :: int where "MaxTokenTTLSeconds = 86400"
definition MaxNameLen :: int where "MaxNameLen = 100"

section \<open>Storage\<close>

record persona_store =
  ps_data :: "Persona table"

definition CreatePersona :: "Persona \<Rightarrow> persona_store \<Rightarrow> persona_store" where
  "CreatePersona p s = s\<lparr>ps_data := tab_put (pn_ID p) p (ps_data s)\<rparr>"

definition GetPersonaRow :: "string \<Rightarrow> string \<Rightarrow> persona_store \<Rightarrow> Persona option" where
  "GetPersonaRow tenantID pid s =
     (case tab_get (ps_data s) pid of
        None \<Rightarrow> None
      | Some p \<Rightarrow> if pn_TenantID p \<noteq> tenantID then None else Some p)"

definition persona_before :: "Persona \<Rightarrow> Persona \<Rightarrow> bool" where
  "persona_before a b =
     (if pn_CreatedAt a = pn_CreatedAt b then pn_ID b < pn_ID a else pn_CreatedAt b < pn_CreatedAt a)"

definition ListPersonas :: "string \<Rightarrow> int \<Rightarrow> time \<Rightarrow> persona_store \<Rightarrow> Persona list" where
  "ListPersonas tenantID limit cursor s =
     cut_page limit (sort_slice persona_before
       (filter (\<lambda>p. pn_TenantID p = tenantID \<and> after_cursor cursor (pn_CreatedAt p)) (tab_rows (ps_data s))))"

text \<open>\<open>now\<close> is the storage's own clock reading.\<close>

definition UpdatePersona :: "time \<Rightarrow> Persona \<Rightarrow> persona_store \<Rightarrow> (Persona \<times> persona_store) option" where
  "UpdatePersona now p s =
     (case tab_get (ps_data s) (pn_ID p) of
        None \<Rightarrow> None
      | Some existing \<Rightarrow>
          if pn_TenantID existing \<noteq> pn_TenantID p then None
          else let p' = p\<lparr>pn_CreatedAt := pn_CreatedAt existing, pn_UpdatedAt := now\<rparr>
               in Some (p', s\<lparr>ps_data := tab_put (pn_ID p) p' (ps_data s)\<rparr>))"

definition DeletePersona :: "string \<Rightarrow> string \<Rightarrow> persona_store \<Rightarrow> persona_store option" where
  "DeletePersona tenantID pid s =
     (case tab_get (ps_data s) pid of
        None \<Rightarrow> None
      | Some p \<Rightarrow> if pn_TenantID p \<noteq> tenantID then None else Some (s\<lparr>ps_data := tab_del pid (ps_data s)\<rparr>))"

interpretation personas: tenant_rows_update pn_ID pn_TenantID CreatePersona GetPersonaRow "UpdatePersona now"
    "\<lambda>old p. p\<lparr>pn_CreatedAt := pn_CreatedAt old, pn_UpdatedAt := now\<rparr>" for now
  by unfold_locales
    (auto simp: CreatePersona_def GetPersonaRow_def UpdatePersona_def Let_def table_simps
       split: option.splits if_splits)

interpretation persona_pages: keyset_listing pn_ID persona_before pn_CreatedAt
  by unfold_locales (auto simp: persona_before_def split: if_splits)

section \<open>Handlers\<close>

datatype persona_op = POpCreate | POpList | POpGet | POpUpdate | POpDelete

type_synonym persona_env = "persona_op svc_env"

datatype persona_payload =
    PPersona Persona
  | PPersonas "Persona list" "time option"
  | PHealthz

type_synonym persona_reply = "persona_payload reply"

definition persona_create :: "persona_env \<Rightarrow> string option \<Rightarrow> body \<Rightarrow> persona_store \<Rightarrow> persona_reply \<times> persona_store" where
  "persona_create e tenant b s =
     (case tenant of
        None \<Rightarrow> (no_tenant, s)
      | Some tenantID \<Rightarrow>
          (case ReadJSON PersonaCreate_fields no_persona_create b of
             Inl err \<Rightarrow> (json_error err, s)
           | Inr req \<Rightarrow>
               let name = TrimSpace (pc_Name req);
                   ttl = (case pc_TokenTTLSeconds req of None \<Rightarrow> DefaultTokenTTLSeconds | Some n \<Rightarrow> n)
               in if name = [] then (bad_request ''invalid_name'' ''name is required'', s)
                  else if MaxNameLen < int (length name)
                  then (bad_request ''invalid_name'' ''name must be 1-100 characters'', s)
                  else if ttl \<le> 0 \<or> MaxTokenTTLSeconds < ttl
                  then (bad_request ''invalid_token_ttl_seconds'' ''token_ttl_seconds must be between 1 and 86400'', s)
                  else if op_fails e POpCreate then (internal ''failed to create persona'', s)
                  else
                    let now = now_at e 0;
                        p = \<lparr>pn_ID = new_id e 0, pn_TenantID = tenantID, pn_Name = name, pn_Scopes = pc_Scopes req,
                             pn_Claims = pc_Claims req, pn_TokenTTLSeconds = ttl, pn_CreatedAt = now, pn_UpdatedAt = now\<rparr>
                    in (WriteJSON StatusCreated (PPersona p), CreatePersona p s)))"

definition persona_list :: "persona_env \<Rightarrow> string option \<Rightarrow> string \<Rightarrow> cursor_param \<Rightarrow> persona_store \<Rightarrow>
    persona_reply \<times> persona_store" where
  "persona_list e tenant q_limit q_cursor s =
     (case tenant of
        None \<Rightarrow> (no_tenant, s)
      | Some tenantID \<Rightarrow>
          (case list_query q_limit q_cursor of
             Inl err \<Rightarrow> (err, s)
           | Inr (limit, cursor) \<Rightarrow>
               if op_fails e POpList then (internal ''failed to list personas'', s)
               else let items = ListPersonas tenantID limit cursor s
                    in (WriteJSON StatusOK (PPersonas items (next_cursor pn_CreatedAt limit items)), s)))"

definition persona_get :: "persona_env \<Rightarrow> string option \<Rightarrow> string \<Rightarrow> persona_store \<Rightarrow> persona_reply \<times> persona_store" where
  "persona_get e tenant pid s =
     (case tenant of
        None \<Rightarrow> (no_tenant, s)
      | Some tenantID \<Rightarrow>
          if pid = [] then (bad_request ''invalid_id'' ''id is required'', s)
          else (case store_call (op_fails e POpGet) (GetPersonaRow tenantID pid s) of
                  ErrNotFound \<Rightarrow> (no_such ''persona not found'', s)
                | ErrOther \<Rightarrow> (internal ''failed to read persona'', s)
                | Got p \<Rightarrow> (WriteJSON StatusOK (PPersona p), s)))"

text \<open>The patch of a persona: every member that is present replaces its field, or is refused.\<close>

definition patch_name :: "PersonaUpdate \<Rightarrow> Persona \<Rightarrow> persona_reply + Persona" where
  "patch_name req p =
     (case pu_Name req of
        None \<Rightarrow> Inr p
      | Some n \<Rightarrow>
          let name = TrimSpace n
          in if name = [] \<or> MaxNameLen < int (length name)
             then Inl (bad_request ''invalid_name'' ''name must be 1-100 characters'')
             else Inr (p\<lparr>pn_Name := name\<rparr>))"

definition patch_ttl :: "PersonaUpdate \<Rightarrow> Persona \<Rightarrow> persona_reply + Persona" where
  "patch_ttl req p =
     (case pu_TokenTTLSeconds req of
        None \<Rightarrow> Inr p
      | Some ttl \<Rightarrow>
          if ttl \<le> 0 \<or> MaxTokenTTLSeconds < ttl
          then Inl (bad_request ''invalid_token_ttl_seconds'' ''token_ttl_seconds must be between 1 and 86400'')
          else Inr (p\<lparr>pn_TokenTTLSeconds := ttl\<rparr>))"

definition patch_persona :: "PersonaUpdate \<Rightarrow> Persona \<Rightarrow> persona_reply + Persona" where
  "patch_persona req existing =
     (case patch_name req existing of
        Inl err \<Rightarrow> Inl err
      | Inr p \<Rightarrow>
          let p = (case pu_Scopes req of None \<Rightarrow> p | Some ss \<Rightarrow> p\<lparr>pn_Scopes := ss\<rparr>);
              p = (case pu_Claims req of None \<Rightarrow> p | Some ms \<Rightarrow> p\<lparr>pn_Claims := Some ms\<rparr>)
          in patch_ttl req p)"

definition persona_update :: "persona_env \<Rightarrow> string option \<Rightarrow> string \<Rightarrow> body \<Rightarrow> persona_store \<Rightarrow>
    persona_reply \<times> persona_store" where
  "persona_update e tenant pid b s =
     (case tenant of
        None \<Rightarrow> (no_tenant, s)
      | Some tenantID \<Rightarrow>
          if pid = [] then (bad_request ''invalid_id'' ''id is required'', s)
          else (case ReadJSON PersonaUpdate_fields no_persona_update b of
            Inl err \<Rightarrow> (json_error err, s)
          | Inr req \<Rightarrow>
              (case store_call (op_fails e POpGet) (GetPersonaRow tenantID pid s) of
                 ErrNotFound \<Rightarrow> (no_such ''persona not found'', s)
               | ErrOther \<Rightarrow> (internal ''failed to read persona'', s)
               | Got existing \<Rightarrow>
                   (case patch_persona req existing of
                      Inl err \<Rightarrow> (err, s)
                    | Inr p \<Rightarrow>
                        (case store_call (op_fails e POpUpdate) (UpdatePersona (now_at e 0) p s) of
                           ErrNotFound \<Rightarrow> (no_such ''persona not found'', s)
                         | ErrOther \<Rightarrow> (internal ''failed to update persona'', s)
                         | Got (saved, s') \<Rightarrow> (WriteJSON StatusOK (PPersona saved), s'))))))"

definition persona_delete :: "persona_env \<Rightarrow> string option \<Rightarrow> string \<Rightarrow> persona_store \<Rightarrow> persona_reply \<times> persona_store" where
  "persona_delete e tenant pid s =
     (case tenant of
        None \<Rightarrow> (no_tenant, s)
      | Some tenantID \<Rightarrow>
          if pid = [] then (bad_request ''invalid_id'' ''id is required'', s)
          else (case store_call (op_fails e POpDelete) (DeletePersona tenantID pid s) of
                  ErrNotFound \<Rightarrow> (no_such ''persona not found'', s)
                | ErrOther \<Rightarrow> (internal ''failed to delete persona'', s)
                | Got s' \<Rightarrow> (NoContent, s')))"

text \<open>The v1 routes; \<open>None\<close> is the health probe, \<open>internal\<close> the alias tree under /internal/v1.\<close>

datatype persona_route =
    PCreate body
  | PList string cursor_param
  | PGet string
  | PUpdate string body
  | PDelete string

fun persona_v1 :: "persona_env \<Rightarrow> persona_route \<Rightarrow> string option \<Rightarrow> persona_store \<Rightarrow> persona_reply \<times> persona_store" where
  "persona_v1 e (PCreate b) t s = persona_create e t b s"
| "persona_v1 e (PList l c) t s = persona_list e t l c s"
| "persona_v1 e (PGet i) t s = persona_get e t i s"
| "persona_v1 e (PUpdate i b) t s = persona_update e t i b s"
| "persona_v1 e (PDelete i) t s = persona_delete e t i s"

definition persona_router :: "string \<Rightarrow> persona_env \<Rightarrow> bool \<Rightarrow> persona_route option \<Rightarrow> gate_request \<Rightarrow> persona_store \<Rightarrow>
    persona_reply \<times> persona_store" where
  "persona_router secret e is_internal route r s =
     (case route of
        None \<Rightarrow> (WriteJSON StatusOK PHealthz, s)
      | Some rt \<Rightarrow> gated secret is_internal (persona_v1 e rt) r s)"

section \<open>The invariant\<close>

text \<open>A stored persona has a trimmed name of 1 to 100 bytes and a token lifetime of at most a day.\<close>

definition persona_ok :: "Persona \<Rightarrow> bool" where
  "persona_ok p \<longleftrightarrow> pn_Name p \<noteq> [] \<and> int (length (pn_Name p)) \<le> MaxNameLen \<and>
     0 < pn_TokenTTLSeconds p \<and> pn_TokenTTLSeconds p \<le> MaxTokenTTLSeconds"

definition persona_inv :: "persona_store \<Rightarrow> bool" where
  "persona_inv s \<longleftrightarrow> tab_wf pn_ID (ps_data s) \<and> (\<forall>p\<in>set (tab_rows (ps_data s)). persona_ok p)"

lemma persona_inv_put: "persona_inv s \<Longrightarrow> persona_ok p \<Longrightarrow> persona_inv (CreatePersona p s)"
  using tab_rows_put_subset [of "pn_ID p" p "ps_data s"]
  by (auto simp: persona_inv_def CreatePersona_def intro!: tab_wf_put)

lemma persona_inv_get: "persona_inv s \<Longrightarrow> GetPersonaRow t i s = Some p \<Longrightarrow> persona_ok p \<and> pn_ID p = i \<and> pn_TenantID p = t"
  by (auto simp: persona_inv_def GetPersonaRow_def tab_wf_get split: option.splits if_splits)

lemma persona_inv_delete: "persona_inv s \<Longrightarrow> DeletePersona t i s = Some s' \<Longrightarrow> persona_inv s'"
  using tab_rows_del_subset [of i "ps_data s"]
  by (auto simp: persona_inv_def DeletePersona_def intro!: tab_wf_del split: option.splits if_splits)

lemma persona_inv_upd: "persona_inv s \<Longrightarrow> persona_ok p \<Longrightarrow> UpdatePersona now p s = Some (p', s') \<Longrightarrow> persona_inv s'"
  by (elim personas.upd_SomeE) (auto simp: persona_ok_def intro!: persona_inv_put)

lemma patch_persona_ok: "persona_ok p \<Longrightarrow> patch_persona req p = Inr p' \<Longrightarrow> persona_ok p'"
  by (auto simp: persona_ok_def patch_persona_def patch_name_def patch_ttl_def Let_def split: option.splits if_splits sum.splits)

lemma persona_v1_inv: "persona_inv s \<Longrightarrow> persona_inv (snd (persona_v1 e rt t s))"
proof (cases rt)
  case (PCreate b)
  assume "persona_inv s"
  with PCreate show ?thesis
    by (auto simp: persona_create_def Let_def persona_ok_def intro!: persona_inv_put split: option.splits sum.splits)
next
  case (PUpdate i b)
  assume "persona_inv s"
  with PUpdate show ?thesis
    by (auto simp: persona_update_def intro: persona_inv_upd patch_persona_ok dest: persona_inv_get
        split: option.splits sum.splits got.splits)
next
  case (PDelete i)
  assume "persona_inv s"
  with PDelete show ?thesis
    by (auto simp: persona_delete_def intro: persona_inv_delete split: option.splits got.splits)
qed (auto simp: persona_list_def persona_get_def Let_def split: option.splits sum.splits got.splits)

lemma persona_router_inv: "persona_inv s \<Longrightarrow> persona_inv (snd (persona_router secret e is_internal route r s))"
  by (cases route)
    (auto simp: persona_router_def persona_v1_inv intro: gated_cases [of secret is_internal "persona_v1 e (the route)" r s])

end
