(* ===== verification/Delegation.thy ===== *)
theory Delegation
  imports BrokerSaga PoolProps GrantProps PersonaService
begin

text \<open>
  The agent identity system composed: the HTTP clients of broker-service over a network that delivers
  their requests to the models of persona-service, pool-service and grant-service at the addresses of
  cmd/main.go's defaults.  The composition implements the interface the saga relies on, so a code grant
  claims exactly one identity or none.
\<close>

section \<open>The network\<close>

record delegation =
  dg_personas :: persona_store
  dg_pools :: pool_store
  dg_grants :: grant_svc
  dg_tick :: nat

text \<open>
  What a request delivered as the \<open>n\<close>-th reads from outside, the text forms of replies and values, and
  \<open>dn_odd\<close>, the unknown outcome of a request whose URL holds an id that is not a plain segment.
\<close>

record delegation_net =
  dn_secret :: string
  dn_sha256 :: "string \<Rightarrow> string"
  dn_persona_env :: "nat \<Rightarrow> persona_env"
  dn_pool_env :: "nat \<Rightarrow> pool_env"
  dn_grant_env :: "nat \<Rightarrow> grant_env"
  dn_size :: "json \<Rightarrow> int"
  dn_text :: "nat \<Rightarrow> string"
  dn_time :: "time \<Rightarrow> string"
  dn_float :: "rat \<Rightarrow> string"
  dn_json_text :: "json_err \<Rightarrow> string"
  dn_odd :: "http_request \<Rightarrow> delegation \<Rightarrow> (string + http_response) \<times> delegation"

definition PersonaURL :: string where "PersonaURL = ''http://localhost:8180''"
definition PoolURL :: string where "PoolURL = ''http://localhost:8181''"
definition GrantURL :: string where "GrantURL = ''http://localhost:8183''"

text \<open>A segment of a path: printable, without the characters that end it, escape or name a parent.\<close>

definition plain_char :: "char \<Rightarrow> bool" where
  "plain_char c \<longleftrightarrow> list_all (\<lambda>d. c \<noteq> d) ''/.?#%'' \<and> CHR 0x20 < c \<and> c < CHR 0x7F"

definition plain_id :: "string \<Rightarrow> bool" where
  "plain_id s \<longleftrightarrow> s \<noteq> [] \<and> list_all plain_char s"

text \<open>The bodies of the replies the clients decode.\<close>

definition time_json :: "delegation_net \<Rightarrow> time \<Rightarrow> json" where
  "time_json n t = JStr (dn_time n t)"

definition Persona_json :: "delegation_net \<Rightarrow> Persona \<Rightarrow> json" where
  "Persona_json n p = JObj
     ([(''id'', JStr (pn_ID p)), (''tenant_id'', JStr (pn_TenantID p)), (''name'', JStr (pn_Name p)),
       (''scopes'', JArr (map JStr (pn_Scopes p)))] @
      (case pn_Claims p of None \<Rightarrow> [] | Some ms \<Rightarrow> omit_obj ''claims'' ms) @
      [(''token_ttl_seconds'', JNum (of_int (pn_TokenTTLSeconds p)) (dn_float n (of_int (pn_TokenTTLSeconds p)))),
       (''created_at'', time_json n (pn_CreatedAt p)), (''updated_at'', time_json n (pn_UpdatedAt p))])"

definition Identity_json :: "delegation_net \<Rightarrow> Identity \<Rightarrow> json" where
  "Identity_json n i = JObj
     [(''id'', JStr (pi_ID i)), (''pool_id'', JStr (pi_PoolID i)), (''subject_id'', JStr (pi_SubjectID i)),
      (''status'', JStr (pi_Status i)),
      (''claimed_by_install_id'', case pi_ClaimedByInstallID i of None \<Rightarrow> JNull | Some k \<Rightarrow> JStr k),
      (''created_at'', time_json n (pi_CreatedAt i)), (''updated_at'', time_json n (pi_UpdatedAt i))]"

definition Grant_json :: "delegation_net \<Rightarrow> Grant \<Rightarrow> json" where
  "Grant_json n g = JObj
     ([(''id'', JStr (gr_ID g)), (''tenant_id'', JStr (gr_TenantID g)), (''install_id'', JStr (gr_InstallID g)),
       (''identity_id'', JStr (gr_IdentityID g)), (''persona_id'', JStr (gr_PersonaID g)),
       (''access_token_hash'', JStr (gr_AccessTokenHash g)), (''refresh_token_hash'', JStr (gr_RefreshTokenHash g)),
       (''issued_at'', time_json n (gr_IssuedAt g)), (''expires_at'', time_json n (gr_ExpiresAt g))] @
      (case gr_RevokedAt g of None \<Rightarrow> [] | Some t \<Rightarrow> [(''revoked_at'', time_json n t)]) @
      [(''status'', JStr (gr_Status g))])"

text \<open>The body of a reply; the clients look at the bodies of these three kinds of reply only.\<close>

definition json_body :: "delegation_net \<Rightarrow> json \<Rightarrow> body" where
  "json_body n j = Body j (dn_size n j)"

fun persona_body :: "delegation_net \<Rightarrow> persona_reply \<Rightarrow> body" where
  "persona_body n (WriteJSON st (PPersona p)) = json_body n (Persona_json n p)"
| "persona_body n _ = BadBody"

fun pool_body :: "delegation_net \<Rightarrow> pool_reply \<Rightarrow> body" where
  "pool_body n (WriteJSON st (OIdentity i)) = json_body n (Identity_json n i)"
| "pool_body n _ = BadBody"

fun grant_body :: "delegation_net \<Rightarrow> grant_reply \<Rightarrow> body" where
  "grant_body n (WriteJSON st (GGrant g)) = json_body n (Grant_json n g)"
| "grant_body n _ = BadBody"

definition answer :: "delegation_net \<Rightarrow> nat \<Rightarrow> body \<Rightarrow> string + http_response" where
  "answer n st b = Inr \<lparr>hr_Status = st, hr_Text = dn_text n st, hr_Body = b\<rparr>"

definition request_body :: "delegation_net \<Rightarrow> http_request \<Rightarrow> body" where
  "request_body n q = (case hq_Body q of None \<Rightarrow> NoBody | Some j \<Rightarrow> json_body n j)"

text \<open>The route of a request under /internal/v1, from its method and the segments of its path.\<close>

datatype delegation_route = ToPersona persona_route | ToPool pool_route | ToGrant grant_route

definition route_at :: "string \<Rightarrow> string \<Rightarrow> string list \<Rightarrow> body \<Rightarrow> delegation_route option" where
  "route_at base method path b =
     (if base = PersonaURL then
        (case path of [r, i] \<Rightarrow> if r = ''personas'' \<and> method = ''GET'' then Some (ToPersona (PGet i)) else None | _ \<Rightarrow> None)
      else if method \<noteq> ''POST'' then None
      else if base = PoolURL then
        (case path of
           [r, i, a] \<Rightarrow>
             if r = ''pools'' \<and> a = ''claim'' then Some (ToPool (OClaim i b))
             else if r = ''identities'' \<and> a = ''release'' then Some (ToPool (ORelease i)) else None
         | _ \<Rightarrow> None)
      else if base = GrantURL then
        (case path of
           [r] \<Rightarrow>
             if r = ''grants'' then Some (ToGrant (GCreate b))
             else if r = ''revoke'' then Some (ToGrant (GRevokeToken b)) else None
         | [r, i, a] \<Rightarrow> if r = ''installs'' \<and> a = ''revoke-grants'' then Some (ToGrant (GRevokeInstall i)) else None
         | _ \<Rightarrow> None)
      else None)"

definition internal_prefix :: string where
  "internal_prefix = ''/internal/v1/''"

definition route_of :: "delegation_net \<Rightarrow> http_request \<Rightarrow> string list \<Rightarrow> string list \<Rightarrow> delegation_route option" where
  "route_of n q bases path =
     (case find (\<lambda>b. starts_with (hq_URL q) (b @ internal_prefix)) bases of
        None \<Rightarrow> None
      | Some b \<Rightarrow> route_at b (hq_Method q) path (request_body n q))"

definition url_path :: "http_request \<Rightarrow> string list" where
  "url_path q = Split CHR ''/'' (drop (length PersonaURL + length internal_prefix) (hq_URL q))"

definition delegation_network :: "delegation_net \<Rightarrow> http_request \<Rightarrow> delegation \<Rightarrow>
    (string + http_response) \<times> delegation" where
  "delegation_network n q w =
     (let path = url_path q; k = dg_tick w; w' = w\<lparr>dg_tick := Suc k\<rparr>
      in if \<not> list_all plain_id path then dn_odd n q w
         else case route_of n q [PersonaURL, PoolURL, GrantURL] path of
           None \<Rightarrow> (answer n StatusNotFound BadBody, w')
         | Some (ToPersona rt) \<Rightarrow>
             let (rep, s) = persona_router (dn_secret n) (dn_persona_env n k) True (Some rt) (hq_Gate q) (dg_personas w)
             in (answer n (status rep) (persona_body n rep), w'\<lparr>dg_personas := s\<rparr>)
         | Some (ToPool rt) \<Rightarrow>
             let (rep, s) = pool_router (dn_secret n) (dn_pool_env n k) True (Some rt) (hq_Gate q) (dg_pools w)
             in (answer n (status rep) (pool_body n rep), w'\<lparr>dg_pools := s\<rparr>)
         | Some (ToGrant rt) \<Rightarrow>
             let (rep, s) = grant_router (dn_sha256 n) (dn_secret n) (dn_grant_env n k) True (Some rt) (hq_Gate q) (dg_grants w)
             in (answer n (status rep) (grant_body n rep), w'\<lparr>dg_grants := s\<rparr>))"

definition link :: "delegation_net \<Rightarrow> delegation broker_http" where
  "link n = \<lparr>bh_send = delegation_network n, bh_secret = dn_secret n, bh_json_text = dn_json_text n,
     bh_float_text = dn_float n, bh_PersonaURL = PersonaURL, bh_PoolURL = PoolURL, bh_GrantURL = GrantURL\<rparr>"

definition delegated :: "delegation_net \<Rightarrow> delegation broker_clients" where
  "delegated n = NewHTTPClients (link n)"

section \<open>What a call does\<close>

lemmas base_defs = PersonaURL_def PoolURL_def GrantURL_def internal_prefix_def

lemma plain_no_slash: "plain_id s \<Longrightarrow> CHR ''/'' \<notin> set s"
  by (auto simp: plain_id_def list_all_iff plain_char_def)

lemma plain_words:
  "plain_id ''personas''" "plain_id ''pools''" "plain_id ''claim''" "plain_id ''identities''" "plain_id ''release''"
  "plain_id ''grants''" "plain_id ''installs''" "plain_id ''revoke-grants''" "plain_id ''revoke''"
  by code_simp+

text \<open>The request a client builds, with the gate headers it sets.\<close>

definition sends :: "delegation_net \<Rightarrow> string \<Rightarrow> string \<Rightarrow> string \<Rightarrow> json option \<Rightarrow> http_request" where
  "sends n method url t b = \<lparr>hq_Method = method, hq_URL = url,
     hq_Gate = SetInternalAuth (dn_secret n) \<lparr>peer_certificates = 0, internal_auth_header = [], tenant_header = t\<rparr>,
     hq_Body = b\<rparr>"

lemma sends_fields [simp]:
  "hq_Method (sends n m url t b) = m" "hq_URL (sends n m url t b) = url"
  "request_body n (sends n m url t b) = (case b of None \<Rightarrow> NoBody | Some j \<Rightarrow> json_body n j)"
  by (simp_all add: sends_def request_body_def)

text \<open>Behind the gate the handler sees the client's tenant; an empty tenant is refused.\<close>

lemma gated_sends:
  "gated (dn_secret n) True serve (hq_Gate (sends n m url t b)) s =
     (if t = [] then (WriteError StatusBadRequest ''missing_tenant'' (Lit ''missing X-Tenant-Id header''), s)
      else serve (Some t) s)"
  by (simp add: gated_def InternalAuth_def TenantMiddleware_def From_def SetInternalAuth_def sends_def)

lemma sent_paths:
  "plain_id i \<Longrightarrow> url_path (sends n m (PersonaURL @ ''/internal/v1/personas/'' @ i) t b) = [''personas'', i]"
  "plain_id i \<Longrightarrow> url_path (sends n m (PoolURL @ ''/internal/v1/pools/'' @ i @ ''/claim'') t b) = [''pools'', i, ''claim'']"
  "plain_id i \<Longrightarrow> url_path (sends n m (PoolURL @ ''/internal/v1/identities/'' @ i @ ''/release'') t b) = [''identities'', i, ''release'']"
  "plain_id i \<Longrightarrow> url_path (sends n m (GrantURL @ ''/internal/v1/installs/'' @ i @ ''/revoke-grants'') t b) = [''installs'', i, ''revoke-grants'']"
  "url_path (sends n m (GrantURL @ ''/internal/v1/grants'') t b) = [''grants'']"
  "url_path (sends n m (GrantURL @ ''/internal/v1/revoke'') t b) = [''revoke'']"
  using plain_no_slash [of i]
  by (simp_all add: url_path_def base_defs Split_first Split_none)

lemma routes:
  "route_of n (sends n m (PersonaURL @ ''/internal/v1/personas/'' @ i) t b) [PersonaURL, PoolURL, GrantURL] path =
     route_at PersonaURL m path (case b of None \<Rightarrow> NoBody | Some j \<Rightarrow> json_body n j)"
  "route_of n (sends n m (PoolURL @ ''/internal/v1/pools/'' @ x) t b) [PersonaURL, PoolURL, GrantURL] path =
     route_at PoolURL m path (case b of None \<Rightarrow> NoBody | Some j \<Rightarrow> json_body n j)"
  "route_of n (sends n m (PoolURL @ ''/internal/v1/identities/'' @ x) t b) [PersonaURL, PoolURL, GrantURL] path =
     route_at PoolURL m path (case b of None \<Rightarrow> NoBody | Some j \<Rightarrow> json_body n j)"
  "route_of n (sends n m (GrantURL @ ''/internal/v1/installs/'' @ x) t b) [PersonaURL, PoolURL, GrantURL] path =
     route_at GrantURL m path (case b of None \<Rightarrow> NoBody | Some j \<Rightarrow> json_body n j)"
  "route_of n (sends n m (GrantURL @ ''/internal/v1/grants'') t b) [PersonaURL, PoolURL, GrantURL] path =
     route_at GrantURL m path (case b of None \<Rightarrow> NoBody | Some j \<Rightarrow> json_body n j)"
  "route_of n (sends n m (GrantURL @ ''/internal/v1/revoke'') t b) [PersonaURL, PoolURL, GrantURL] path =
     route_at GrantURL m path (case b of None \<Rightarrow> NoBody | Some j \<Rightarrow> json_body n j)"
  by (simp_all add: route_of_def starts_with_def base_defs)

text \<open>The six requests, delivered.\<close>

lemma delivered:
  "plain_id i \<Longrightarrow> delegation_network n (sends n ''GET'' (PersonaURL @ ''/internal/v1/personas/'' @ i) t None) w =
     (let (rep, s) = persona_router (dn_secret n) (dn_persona_env n (dg_tick w)) True (Some (PGet i))
        (hq_Gate (sends n ''GET'' (PersonaURL @ ''/internal/v1/personas/'' @ i) t None)) (dg_personas w)
      in (answer n (status rep) (persona_body n rep), w\<lparr>dg_tick := Suc (dg_tick w), dg_personas := s\<rparr>))"
  "plain_id i \<Longrightarrow> delegation_network n (sends n ''POST'' (PoolURL @ ''/internal/v1/pools/'' @ i @ ''/claim'') t (Some j)) w =
     (let (rep, s) = pool_router (dn_secret n) (dn_pool_env n (dg_tick w)) True (Some (OClaim i (json_body n j)))
        (hq_Gate (sends n ''POST'' (PoolURL @ ''/internal/v1/pools/'' @ i @ ''/claim'') t (Some j))) (dg_pools w)
      in (answer n (status rep) (pool_body n rep), w\<lparr>dg_tick := Suc (dg_tick w), dg_pools := s\<rparr>))"
  "plain_id i \<Longrightarrow> delegation_network n (sends n ''POST'' (PoolURL @ ''/internal/v1/identities/'' @ i @ ''/release'') t None) w =
     (let (rep, s) = pool_router (dn_secret n) (dn_pool_env n (dg_tick w)) True (Some (ORelease i))
        (hq_Gate (sends n ''POST'' (PoolURL @ ''/internal/v1/identities/'' @ i @ ''/release'') t None)) (dg_pools w)
      in (answer n (status rep) (pool_body n rep), w\<lparr>dg_tick := Suc (dg_tick w), dg_pools := s\<rparr>))"
  "plain_id i \<Longrightarrow> delegation_network n (sends n ''POST'' (GrantURL @ ''/internal/v1/installs/'' @ i @ ''/revoke-grants'') t None) w =
     (let (rep, s) = grant_router (dn_sha256 n) (dn_secret n) (dn_grant_env n (dg_tick w)) True (Some (GRevokeInstall i))
        (hq_Gate (sends n ''POST'' (GrantURL @ ''/internal/v1/installs/'' @ i @ ''/revoke-grants'') t None)) (dg_grants w)
      in (answer n (status rep) (grant_body n rep), w\<lparr>dg_tick := Suc (dg_tick w), dg_grants := s\<rparr>))"
  "delegation_network n (sends n ''POST'' (GrantURL @ ''/internal/v1/grants'') t (Some j)) w =
     (let (rep, s) = grant_router (dn_sha256 n) (dn_secret n) (dn_grant_env n (dg_tick w)) True (Some (GCreate (json_body n j)))
        (hq_Gate (sends n ''POST'' (GrantURL @ ''/internal/v1/grants'') t (Some j))) (dg_grants w)
      in (answer n (status rep) (grant_body n rep), w\<lparr>dg_tick := Suc (dg_tick w), dg_grants := s\<rparr>))"
  "delegation_network n (sends n ''POST'' (GrantURL @ ''/internal/v1/revoke'') t (Some j)) w =
     (let (rep, s) = grant_router (dn_sha256 n) (dn_secret n) (dn_grant_env n (dg_tick w)) True (Some (GRevokeToken (json_body n j)))
        (hq_Gate (sends n ''POST'' (GrantURL @ ''/internal/v1/revoke'') t (Some j))) (dg_grants w)
      in (answer n (status rep) (grant_body n rep), w\<lparr>dg_tick := Suc (dg_tick w), dg_grants := s\<rparr>))"
  by (simp_all add: delegation_network_def sent_paths routes plain_words Let_def del: append_Cons)
    (simp_all add: route_at_def PersonaURL_def PoolURL_def GrantURL_def)

lemma broker_do_link:
  "broker_do (link n) service m url t b decode zero w =
     (case delegation_network n (sends n m url t b) w of
        (Inl text, w') \<Rightarrow> (Inl (Downstream \<lparr>de_Service = service, de_Status = 0, de_Body = [], de_Err = Some text\<rparr>), w')
      | (Inr resp, w') \<Rightarrow>
          (if hr_Status resp < 200 \<or> 300 \<le> hr_Status resp
           then Inl (Downstream \<lparr>de_Service = service, de_Status = hr_Status resp, de_Body = hr_Text resp, de_Err = None\<rparr>)
           else if hr_Status resp = 204 then Inr zero
           else (case decode (hr_Body resp) of
                   Inl err \<Rightarrow> Inl (Downstream \<lparr>de_Service = service, de_Status = 0, de_Body = [], de_Err = Some (dn_json_text n err)\<rparr>)
                 | Inr out \<Rightarrow> Inr out), w'))"
  by (simp add: broker_do_def link_def sends_def Let_def split: prod.split sum.split)

lemma delegated_calls:
  "bc_GetPersona (delegated n) = http_GetPersona (link n)"
  "bc_ClaimIdentity (delegated n) = http_ClaimIdentity (link n)"
  "bc_ReleaseIdentity (delegated n) = http_ReleaseIdentity (link n)"
  "bc_CreateGrant (delegated n) = http_CreateGrant (link n)"
  "bc_RevokeGrantsForInstall (delegated n) = http_RevokeGrantsForInstall (link n)"
  "bc_RevokeToken (delegated n) = http_RevokeToken (link n)"
  by (simp_all add: delegated_def NewHTTPClients_def)

lemma link_urls [simp]: "bh_PersonaURL (link n) = PersonaURL" "bh_PoolURL (link n) = PoolURL" "bh_GrantURL (link n) = GrantURL"
    "bh_float_text (link n) = dn_float n"
  by (simp_all add: link_def)

lemma answer_fields [simp]: "answer n st b = Inr \<lparr>hr_Status = st, hr_Text = dn_text n st, hr_Body = b\<rparr>"
  by (simp add: answer_def)

text \<open>What the pool client decodes is the identity the service replied with.\<close>

lemma decode_identity:
  "decode_out IdentityView_fields no_identity_view (json_body n (Identity_json n i)) =
     Inr \<lparr>iv_ID = pi_ID i, iv_PoolID = pi_PoolID i, iv_SubjectID = pi_SubjectID i, iv_Status = pi_Status i\<rparr>"
  by (simp add: decode_out_def json_body_def Identity_json_def IdentityView_fields_def find_field_def into_def
      no_identity_view_def lower_char_def)

lemma decode_claim:
  "ReadJSON ClaimRequest_fields no_claim (json_body n (JObj [(''persona_id'', JStr p), (''install_id'', JStr k)])) =
     (if MaxBodyBytes < dn_size n (JObj [(''persona_id'', JStr p), (''install_id'', JStr k)]) then Inl TooLarge
      else Inr \<lparr>cl_PersonaID = p, cl_InstallID = k\<rparr>)"
  by (simp add: ReadJSON_def json_body_def ClaimRequest_fields_def find_field_def into_def no_claim_def lower_char_def)

lemma handleClaim_cases:
  assumes "handleClaim e (Some t) pool b s = (rep, s')"
  obtains (claimed) req c where "ReadJSON ClaimRequest_fields no_claim b = Inr req" "rep = WriteJSON StatusOK (OIdentity c)"
      "ClaimIdentity (now_at e 0) t pool (cl_PersonaID req) (cl_InstallID req) s = Inr (c, s')"
  | (refused) "s' = s" "300 \<le> status rep"
  using assms
  by (auto simp: handleClaim_def pool_reply_defs status_defs split: if_splits sum.splits prod.splits)

lemma handleRelease_held:
  assumes "GetIdentity t i s = Some x" "pi_Status x = IdentityClaimed" "\<not> op_fails e OOpRelease" "i \<noteq> []"
    and out: "handleRelease e (Some t) i s = out"
  shows "snd out = s\<lparr>pl_identities := tab_put i (x\<lparr>pi_Status := IdentityAvailable, pi_ClaimedByInstallID := None,
    pi_UpdatedAt := now_at e 0\<rparr>) (pl_identities s)\<rparr>"
  using assms(1-4) unfolding out [symmetric]
  by (simp add: handleRelease_def ReleaseIdentity_def identity_status_defs Let_def)

lemma persona_call:
  assumes "plain_id i" "bc_GetPersona (delegated n) t i w = (res, w')"
  shows "dg_pools w' = dg_pools w \<and> dg_grants w' = dg_grants w"
  using assms
  by (auto simp: delegated_calls http_GetPersona_def broker_do_link delivered Let_def simp del: append_Cons split: prod.splits if_splits)

lemma grant_call:
  assumes "bc_CreateGrant (delegated n) t q w = (res, w')"
  shows "dg_pools w' = dg_pools w"
  using assms
  by (auto simp: delegated_calls http_CreateGrant_def broker_do_link delivered Let_def simp del: append_Cons split: prod.splits if_splits)

lemma pool_router_sent:
  "pool_router (dn_secret n) e True (Some rt) (hq_Gate (sends n m url t b)) s =
     (if t = [] then (WriteError StatusBadRequest ''missing_tenant'' (Lit ''missing X-Tenant-Id header''), s)
      else pool_v1 e rt (Some t) s)"
  by (simp add: pool_router_def gated_sends)

lemma claim_call:
  assumes pool: "plain_id pool" and call: "bc_ClaimIdentity (delegated n) t pool p k w = (res, w')"
  obtains (claimed) c where "res = Inr \<lparr>iv_ID = pi_ID c, iv_PoolID = pi_PoolID c, iv_SubjectID = pi_SubjectID c, iv_Status = pi_Status c\<rparr>"
      "ClaimIdentity (now_at (dn_pool_env n (dg_tick w)) 0) t pool p k (dg_pools w) = Inr (c, dg_pools w')"
      "t \<noteq> []"
  | (refused) err where "res = Inl err" "dg_pools w' = dg_pools w"
proof (cases "t = []")
  case True
  then have "\<exists>err. res = Inl err \<and> dg_pools w' = dg_pools w"
    using call pool
    by (auto simp: delegated_calls http_ClaimIdentity_def broker_do_link delivered pool_router_sent status_defs Let_def simp del: append_Cons)
  then show ?thesis using refused by blast
next
  case False
  let ?e = "dn_pool_env n (dg_tick w)"
  let ?b = "json_body n (JObj [(''persona_id'', JStr p), (''install_id'', JStr k)])"
  obtain rep s' where h: "handleClaim ?e (Some t) pool ?b (dg_pools w) = (rep, s')" by fastforce
  have out: "dg_pools w' = s'" "res = (if status rep < 200 \<or> 300 \<le> status rep
      then Inl (Downstream \<lparr>de_Service = ''pool-service'', de_Status = status rep, de_Body = dn_text n (status rep), de_Err = None\<rparr>)
      else if status rep = 204 then Inr no_identity_view
      else (case decode_out IdentityView_fields no_identity_view (pool_body n rep) of
              Inl err \<Rightarrow> Inl (Downstream \<lparr>de_Service = ''pool-service'', de_Status = 0, de_Body = [], de_Err = Some (dn_json_text n err)\<rparr>)
            | Inr out \<Rightarrow> Inr out))"
    using call pool False h
    by (auto simp: delegated_calls http_ClaimIdentity_def broker_do_link delivered pool_router_sent Let_def simp del: append_Cons)
  from h show ?thesis
  proof (cases rule: handleClaim_cases)
    case (claimed req c)
    then show ?thesis
      using out False that(1) [of c] by (auto simp: decode_claim decode_identity status_defs split: if_splits)
  next
    case refused
    then show ?thesis using out that(2) by simp
  qed
qed

lemma release_call:
  assumes "plain_id i" "t \<noteq> []" "bc_ReleaseIdentity (delegated n) t i w = (res, w')"
  shows "dg_pools w' = snd (handleRelease (dn_pool_env n (dg_tick w)) (Some t) i (dg_pools w))"
  using assms
  by (auto simp: delegated_calls http_ReleaseIdentity_def broker_do_link delivered pool_router_sent call_err_def Let_def
      simp del: append_Cons split: prod.splits)

section \<open>The composition implements the interface\<close>

text \<open>
  Who holds an identity, as pool-service records it, and what the composition keeps: pool-service's
  invariant, tenants with a name and identities with plain ids.  Its storage does not fail a release.
\<close>

definition pool_holder :: "delegation \<Rightarrow> string \<Rightarrow> string \<Rightarrow> string option" where
  "pool_holder w t i = (case GetIdentity t i (dg_pools w) of None \<Rightarrow> None | Some x \<Rightarrow> pi_ClaimedByInstallID x)"

definition releases_work :: "delegation_net \<Rightarrow> bool" where
  "releases_work n \<longleftrightarrow> (\<forall>k. \<not> op_fails (dn_pool_env n k) OOpRelease)"

definition pools_sound :: "pool_store \<Rightarrow> bool" where
  "pools_sound s \<longleftrightarrow> pool_inv s \<and> (\<forall>p\<in>set (tab_rows (pl_pools s)). po_TenantID p \<noteq> []) \<and>
     (\<forall>x\<in>set (tab_rows (pl_identities s)). plain_id (pi_ID x))"

definition delegation_sound :: "delegation_net \<Rightarrow> delegation \<Rightarrow> bool" where
  "delegation_sound n w \<longleftrightarrow> releases_work n \<and> pools_sound (dg_pools w)"

lemma pool_holder_row:
  assumes "pools_sound (dg_pools w)" "pool_holder w t i \<noteq> None"
  obtains x where "GetIdentity t i (dg_pools w) = Some x" "pi_Status x = IdentityClaimed" "plain_id i" "t \<noteq> []" "pi_ID x = i"
proof -
  have wf: "pool_wf (dg_pools w)" using assms(1) by (simp add: pools_sound_def pool_inv_wf)
  obtain x where x: "GetIdentity t i (dg_pools w) = Some x" "pi_ClaimedByInstallID x \<noteq> None"
    using assms(2) by (auto simp: pool_holder_def split: option.splits)
  then have row: "x \<in> set (tab_rows (pl_identities (dg_pools w)))" "pi_ID x = i"
    using identity_row [OF wf] by (auto simp: GetIdentity_Some)
  obtain p where p: "p \<in> set (tab_rows (pl_pools (dg_pools w)))" "po_TenantID p = t"
    using x(1) pool_row [OF wf] by (auto simp: GetIdentity_Some GetPool_Some)
  have "identity_ok x" "plain_id i" "t \<noteq> []" using assms(1) row p by (auto simp: pools_sound_def pool_inv_def)
  then show ?thesis using that x row(2) by (simp add: identity_ok_def)
qed

text \<open>A write of an identity that keeps its id, its pool and the store's invariant.\<close>

lemma rewrite_identity:
  assumes s: "pools_sound s" and row: "GetIdentity t i s = Some x" and y: "identity_ok y" "pi_ID y = i" "pi_PoolID y = pi_PoolID x"
  shows "pools_sound (s\<lparr>pl_identities := tab_put i y (pl_identities s)\<rparr>)"
    and "GetIdentity t' j (s\<lparr>pl_identities := tab_put i y (pl_identities s)\<rparr>) =
      (if j = i \<and> t' = t then Some y else GetIdentity t' j s)"
proof -
  have wf: "pool_wf s" using s by (simp add: pools_sound_def pool_inv_wf)
  have x: "tab_get (pl_identities s) i = Some x" "pi_ID x = i" "GetPool t (pi_PoolID x) s \<noteq> None"
    using row identity_row [OF wf] by (auto simp: GetIdentity_Some)
  have "pool_inv (s\<lparr>pl_identities := tab_put i y (pl_identities s)\<rparr>)"
    using pool_inv_restatus [of s i x y] s x y by (simp add: pools_sound_def)
  moreover have "plain_id (pi_ID y)"
    using s x(1,2) y(2) identity_row [OF wf] by (auto simp: pools_sound_def)
  ultimately show "pools_sound (s\<lparr>pl_identities := tab_put i y (pl_identities s)\<rparr>)"
    using s tab_rows_put_subset [of i y "pl_identities s"] by (auto simp: pools_sound_def)
  have "GetPool t' p (s\<lparr>pl_identities := m\<rparr>) = GetPool t' p s" for p m by (simp add: GetPool_def)
  then show "GetIdentity t' j (s\<lparr>pl_identities := tab_put i y (pl_identities s)\<rparr>) =
      (if j = i \<and> t' = t then Some y else GetIdentity t' j s)"
    using x y(3) by (auto simp: GetIdentity_def table_simps GetPool_def split: option.splits if_splits)
qed

lemma claim_binds:
  assumes s: "pools_sound (dg_pools w)" and c: "ClaimIdentity now t pool p k (dg_pools w) = Inr (c, dg_pools w')"
  shows "pools_sound (dg_pools w') \<and> pool_holder w t (pi_ID c) = None \<and>
    pool_holder w' = (pool_holder w)(t := (pool_holder w t)(pi_ID c := Some k))"
proof -
  have wf: "pool_wf (dg_pools w)" using s by (simp add: pools_sound_def pool_inv_wf)
  have "\<exists>x. GetPool t pool (dg_pools w) \<noteq> None \<and> tab_get (pl_identities (dg_pools w)) (pi_ID x) = Some x \<and>
      pi_PoolID x = pool \<and> pi_Status x = IdentityAvailable \<and>
      c = x\<lparr>pi_Status := IdentityClaimed, pi_ClaimedByInstallID := Some k, pi_UpdatedAt := now\<rparr> \<and>
      dg_pools w' = put_identity c (dg_pools w)"
    by (rule ClaimIdentityE [OF c wf], intro exI conjI; (assumption | simp))
  then obtain x where x: "GetPool t pool (dg_pools w) \<noteq> None"
    "tab_get (pl_identities (dg_pools w)) (pi_ID x) = Some x" "pi_PoolID x = pool" "pi_Status x = IdentityAvailable"
    and c': "c = x\<lparr>pi_Status := IdentityClaimed, pi_ClaimedByInstallID := Some k, pi_UpdatedAt := now\<rparr>"
    and w': "dg_pools w' = put_identity c (dg_pools w)" by blast
  have row: "GetIdentity t (pi_ID x) (dg_pools w) = Some x" using x by (simp add: GetIdentity_Some)
  have "identity_ok x" using s x(2) identity_row [OF wf] by (auto simp: pools_sound_def pool_inv_def)
  then have free: "pi_ClaimedByInstallID x = None" using x(4) by (auto simp: identity_ok_def identity_status_defs)
  have ok: "identity_ok c" "pi_ID c = pi_ID x" "pi_PoolID c = pi_PoolID x"
    by (simp_all add: c' identity_ok_def identity_status_defs)
  have w'': "dg_pools w' = (dg_pools w)\<lparr>pl_identities := tab_put (pi_ID x) c (pl_identities (dg_pools w))\<rparr>"
    using w' ok(2) by (simp add: put_identity_def)
  have "pool_holder w t (pi_ID c) = None" using row free ok(2) by (simp add: pool_holder_def)
  moreover have "pool_holder w' t' j = ((pool_holder w)(t := (pool_holder w t)(pi_ID c := Some k))) t' j" for t' j
    using rewrite_identity(2) [OF s row ok, of t' j] by (simp add: pool_holder_def w'' ok(2)) (simp add: c')
  ultimately show ?thesis using rewrite_identity(1) [OF s row ok] w'' by (auto simp: fun_eq_iff)
qed

lemma release_frees:
  assumes s: "pools_sound (dg_pools w)" "releases_work n" and held: "pool_holder w t i \<noteq> None"
    and call: "bc_ReleaseIdentity (delegated n) t i w = (res, w')"
  shows "pools_sound (dg_pools w') \<and> pool_holder w' = (pool_holder w)(t := (pool_holder w t)(i := None))"
proof -
  obtain x where x: "GetIdentity t i (dg_pools w) = Some x" "pi_Status x = IdentityClaimed" "plain_id i" "t \<noteq> []" "pi_ID x = i"
    using pool_holder_row [OF s(1) held] .
  let ?y = "x\<lparr>pi_Status := IdentityAvailable, pi_ClaimedByInstallID := None, pi_UpdatedAt := now_at (dn_pool_env n (dg_tick w)) 0\<rparr>"
  have y: "identity_ok ?y" "pi_ID ?y = i" "pi_PoolID ?y = pi_PoolID x"
    using x(5) by (simp_all add: identity_ok_def identity_status_defs)
  have w': "dg_pools w' = (dg_pools w)\<lparr>pl_identities := tab_put i ?y (pl_identities (dg_pools w))\<rparr>"
    using release_call [OF x(3,4) call] handleRelease_held [OF x(1,2) _ _ refl] s(2) x(3)
    by (simp add: releases_work_def plain_id_def)
  have "pool_holder w' t' j = ((pool_holder w)(t := (pool_holder w t)(i := None))) t' j" for t' j
    using rewrite_identity(2) [OF s(1) x(1) y, of t' j] by (simp add: pool_holder_def w')
  then show ?thesis using rewrite_identity(1) [OF s(1) x(1) y] w' by (auto simp: fun_eq_iff)
qed

lemma same_pools: "dg_pools w' = dg_pools w \<Longrightarrow> delegation_sound n w' = delegation_sound n w \<and> pool_holder w' = pool_holder w"
  by (simp add: delegation_sound_def pool_holder_def fun_eq_iff)

interpretation delegation: identity_service "delegated n" "delegation_sound n" pool_holder plain_id for n
proof
  fix w w' t p k pool res i err x res' q gres
  show "bc_GetPersona (delegated n) t p w = (res, w') \<Longrightarrow> delegation_sound n w' \<and> pool_holder w' = pool_holder w"
    if "delegation_sound n w" "plain_id p"
    using that persona_call same_pools by blast
  show "delegation_sound n w' \<and> pool_holder w t (iv_ID i) = None \<and>
      pool_holder w' = (pool_holder w)(t := (pool_holder w t)(iv_ID i := Some k))"
    if "delegation_sound n w" "plain_id pool" "bc_ClaimIdentity (delegated n) t pool p k w = (Inr i, w')"
    by (rule claim_call [OF that(2,3)]) (use that(1) claim_binds [of w] in \<open>auto simp: delegation_sound_def\<close>)
  show "delegation_sound n w' \<and> pool_holder w' = pool_holder w"
    if "delegation_sound n w" "plain_id pool" "bc_ClaimIdentity (delegated n) t pool p k w = (Inl err, w')"
    by (rule claim_call [OF that(2,3)]) (use that(1) same_pools [of w' w n] in simp_all)
  show "delegation_sound n w' \<and> pool_holder w' = (pool_holder w)(t := (pool_holder w t)(x := None))"
    if "delegation_sound n w" "pool_holder w t x \<noteq> None" "bc_ReleaseIdentity (delegated n) t x w = (res', w')"
    using that release_frees [of w n t x res' w'] by (simp add: delegation_sound_def)
  show "delegation_sound n w' \<and> pool_holder w' = pool_holder w"
    if "delegation_sound n w" "bc_CreateGrant (delegated n) t q w = (gres, w')"
    using that grant_call same_pools by blast
qed

section \<open>Properties of the composed system\<close>

lemma revoke_grants_call:
  assumes "plain_id k"
  shows "dg_pools (snd (bc_RevokeGrantsForInstall (delegated n) t k w)) = dg_pools w"
  using assms
  by (auto simp: delegated_calls http_RevokeGrantsForInstall_def broker_do_link delivered call_err_def Let_def
      simp del: append_Cons split: prod.splits)

lemma revoke_without_tenant:
  "dg_pools (snd (bc_RevokeToken (delegated n) [] tok w)) = dg_pools w \<and>
   dg_grants (snd (bc_RevokeToken (delegated n) [] tok w)) = dg_grants w"
  by (simp add: delegated_calls http_RevokeToken_def broker_do_link delivered call_err_def grant_router_def gated_sends
      Let_def del: append_Cons split: prod.splits)

text \<open>A replay writes the replayed install only.\<close>

lemma replay_other_installs:
  assumes "broker_inv (br_store s)" "rec \<in> set (tab_rows (bs_tokens (br_store s)))" "k \<noteq> tk_InstallID rec"
  shows "tab_get (bs_installs (br_store (revokeInstallForReplay cl e rec s))) k = tab_get (bs_installs (br_store s)) k"
proof (cases "tab_get (bs_installs (br_store s)) (tk_InstallID rec)")
  case (Some i)
  then have "in_ID i = tk_InstallID rec" using install_row assms(1) by (auto simp: broker_inv_def)
  then show ?thesis
    using assms(3) Some
    by (auto simp: revokeInstallForReplay_def GetInstall_def best_effort_install_def UpdateInstall_def DeleteTokensForInstall_def
        store_call_def Let_def table_simps split: prod.splits option.splits if_splits)
qed (simp add: revokeInstallForReplay_def GetInstall_def store_call_def DeleteTokensForInstall_def Let_def split: prod.splits)

text \<open>Concrete services for the witnesses, with one persona and a pool of two identities.\<close>

definition demo_net :: delegation_net where
  "demo_net =
     \<lparr>dn_secret = [], dn_sha256 = \<lambda>s. s,
      dn_persona_env = \<lambda>k. \<lparr>now_at = \<lambda>n. 40, new_id = \<lambda>n. ''u'', op_fails = \<lambda>op. False\<rparr>,
      dn_pool_env = \<lambda>k. demo_pool_env ''u'' 40, dn_grant_env = \<lambda>k. demo_grant_env ''u'' 40,
      dn_size = \<lambda>j. 0, dn_text = \<lambda>k. [], dn_time = \<lambda>t. [], dn_float = \<lambda>r. [], dn_json_text = \<lambda>e. [],
      dn_odd = \<lambda>q w. (Inl [], w)\<rparr>"

definition demo_persona :: Persona where
  "demo_persona = \<lparr>pn_ID = ''pe'', pn_TenantID = ''t'', pn_Name = ''n'', pn_Scopes = [''m''], pn_Claims = None,
     pn_TokenTTLSeconds = 60, pn_CreatedAt = 1, pn_UpdatedAt = 1\<rparr>"

definition demo_delegation :: "pool_store \<Rightarrow> delegation" where
  "demo_delegation p = \<lparr>dg_personas = \<lparr>ps_data = [(''pe'', demo_persona)]\<rparr>, dg_pools = p, dg_grants = demo_grants, dg_tick = 0\<rparr>"

lemma demo_delegation_sound:
  "delegation_sound demo_net (demo_delegation demo_pools)" "delegation_sound demo_net (demo_delegation demo_claimed)"
proof -
  have "releases_work demo_net" by (simp add: releases_work_def demo_net_def demo_pool_env_def)
  moreover have "pools_sound demo_pools" "pools_sound demo_claimed" by code_simp+
  ultimately show "delegation_sound demo_net (demo_delegation demo_pools)" "delegation_sound demo_net (demo_delegation demo_claimed)"
    by (simp_all add: delegation_sound_def demo_delegation_def)
qed

text \<open>
  C4. In the composed system a code grant is all or nothing.  When it hands out tokens, the new install is
  active and holds exactly one identity, which was free before and which pool-service records as claimed
  by that install, and no other identity changes hands; when it does not, whichever service refused and at
  whichever step, every identity is held as before, no token is stored and the new install, if there is
  one, is revoked.
\<close>

theorem code_grant_claims_one_identity_or_none:
  assumes "delegation_sound n (br_world s)"
    and "\<And>ac. tab_get (bs_codes (br_store s)) (tf_code f) = Some ac \<Longrightarrow>
      cd_TenantID ac = t \<and> plain_id (cd_PersonaID ac) \<and> plain_id (cd_PoolID ac)"
    and "\<And>op. \<not> op_fails e op"
    and "handleCodeGrant (delegated n) cfg e f s = out"
  shows "if hands_tokens (fst out)
    then saga_end pool_holder t (new_id e 0) (pool_holder (br_world s)) (bs_tokens (br_store s)) out
    else pool_holder (br_world (snd out)) = pool_holder (br_world s) \<and> bs_tokens (br_store (snd out)) = bs_tokens (br_store s) \<and>
      (case tab_get (bs_installs (br_store (snd out))) (new_id e 0) of
         None \<Rightarrow> True
       | Some i \<Rightarrow> in_Status i = InstallRevoked \<or> tab_get (bs_installs (br_store s)) (new_id e 0) = Some i)"
  by (rule delegation.code_grant_all_or_nothing [OF assms])

definition demo_digest :: "string \<Rightarrow> string" where
  "demo_digest s = (if s = ''v'' then s else replicate 32 CHR ''0'')"

definition demo_delegated_cfg :: broker_cfg where
  "demo_delegated_cfg = demo_broker_cfg\<lparr>bg_jwt := demo_broker_lib
     \<lparr>jl_sha256 := demo_digest, jl_sign := \<lambda>k d. Some (take 1 d)\<rparr>\<rparr>"

definition demo_delegated_code :: AuthCode where
  "demo_delegated_code = demo_code\<lparr>cd_PersonaID := ''pe'', cd_PoolID := ''P'', cd_CodeChallenge := b64_encode (demo_digest ''v'')\<rparr>"

definition demo_delegated_broker :: "pool_store \<Rightarrow> delegation broker_sys" where
  "demo_delegated_broker p =
     \<lparr>br_store = PutAuthCode 5 demo_delegated_code (br_store demo_broker), br_world = demo_delegation p\<rparr>"

theorem code_grant_claims_one_identity_or_none_witness:
  "(\<lambda>out. hands_tokens (fst out) \<and>
       saga_end pool_holder ''t'' ''y'' (pool_holder (demo_delegation demo_pools)) (bs_tokens (br_store (demo_delegated_broker demo_pools))) out)
     (handleCodeGrant (delegated demo_net) demo_delegated_cfg (demo_broker_env ''yab'' 10) demo_redeem (demo_delegated_broker demo_pools))"
proof -
  let ?out = "handleCodeGrant (delegated demo_net) demo_delegated_cfg (demo_broker_env ''yab'' 10) demo_redeem (demo_delegated_broker demo_pools)"
  have tokens: "hands_tokens (fst ?out)" by code_simp
  have id: "new_id (demo_broker_env ''yab'' 10) 0 = ''y''" by code_simp
  have w: "br_world (demo_delegated_broker demo_pools) = demo_delegation demo_pools" by (simp add: demo_delegated_broker_def)
  have code: "tab_get (bs_codes (br_store (demo_delegated_broker demo_pools))) (tf_code demo_redeem) =
      Some (demo_delegated_code)" by code_simp
  have plain: "cd_TenantID demo_delegated_code = ''t''" "plain_id (cd_PersonaID demo_delegated_code)" "plain_id (cd_PoolID demo_delegated_code)" by code_simp+
  have "\<not> op_fails (demo_broker_env ''yab'' 10) op" for op by (simp add: demo_broker_env_def)
  then show ?thesis
    using code_grant_claims_one_identity_or_none [of demo_net "demo_delegated_broker demo_pools" demo_redeem "''t''", OF _ _ _ refl, where cfg = demo_delegated_cfg and e = "demo_broker_env ''yab'' 10"]
      demo_delegation_sound(1) tokens code plain unfolding id w by simp
qed

text \<open>
  C35. A replayed refresh token frees its install's identity whoever holds it by then: pool-service's release
  does not ask which install the caller means, so when the identity was released and claimed by another
  install in between, the replay takes it away from that install, which stays active.
\<close>

theorem replay_frees_a_foreign_identity:
  assumes inv: "broker_inv (br_store s)" and w: "delegation_sound n (br_world s)"
    and rec: "rec \<in> set (tab_rows (bs_tokens (br_store s)))" "tk_RotatedAt rec \<noteq> None" "plain_id (tk_InstallID rec)"
    and i: "tab_get (bs_installs (br_store s)) (tk_InstallID rec) = Some i" "in_IdentityID i = x"
    and f: "tf_grant_type f = ''refresh_token''" "tf_refresh_token f = tk_RefreshToken rec"
    and e: "\<And>op. \<not> op_fails e op"
    and other: "pool_holder (br_world s) (tk_TenantID rec) x = Some k"
      "tab_get (bs_installs (br_store s)) k = Some j" "k \<noteq> tk_InstallID rec"
    and out: "broker_step (delegated n) cfg (Public e (BToken (Some f))) s = (rep, s1)"
  shows "pool_holder (br_world s1) (tk_TenantID rec) x = None \<and> tab_get (bs_installs (br_store s1)) k = Some j"
proof -
  let ?w = "snd (bc_RevokeGrantsForInstall (delegated n) (tk_TenantID rec) (tk_InstallID rec) (br_world s))"
  have "tk_RefreshToken rec \<noteq> []" using inv rec by (auto simp: broker_inv_def)
  then have "broker_step (delegated n) cfg (Public e (BToken (Some f))) s =
      (invalid_grant ''refresh token already used; install revoked'', revokeInstallForReplay (delegated n) e rec s)"
    using GetTokenByRefresh_row [OF inv rec(1)] rec(2) f e
    by (simp add: Token_def handleRefreshGrant_def refresh_with_def)
  then have s1: "s1 = revokeInstallForReplay (delegated n) e rec s" using out by simp
  have x: "plain_id x" "x \<noteq> []" using pool_holder_row [of "br_world s" "tk_TenantID rec" x] w other(1)
    by (auto simp: delegation_sound_def plain_id_def)
  have "delegation_sound n ?w \<and> pool_holder ?w = pool_holder (br_world s)"
    using same_pools revoke_grants_call [OF rec(3)] w by metis
  then have "pool_holder (snd (bc_ReleaseIdentity (delegated n) (tk_TenantID rec) x ?w)) (tk_TenantID rec) x = None"
    using release_frees [of ?w n "tk_TenantID rec" x] other(1)
    by (cases "bc_ReleaseIdentity (delegated n) (tk_TenantID rec) x ?w") (simp add: delegation_sound_def)
  then have "pool_holder (br_world s1) (tk_TenantID rec) x = None"
    using replay_effect(3) [OF inv rec(1) i(1) e, where cl = "delegated n"] x i(2) by (simp add: s1 cascade_calls_def held_identity_def)
  moreover have "tab_get (bs_installs (br_store s1)) k = Some j"
    using other(2) replay_other_installs [OF inv rec(1) other(3), of "delegated n" e] by (simp add: s1)
  ultimately show ?thesis ..
qed

definition demo_contested :: "delegation broker_sys" where
  "demo_contested =
     \<lparr>br_store = (br_store demo_broker)\<lparr>bs_installs :=
        [(''i'', demo_install\<lparr>in_IdentityID := ''b''\<rparr>), (''i1'', demo_install\<lparr>in_ID := ''i1'', in_IdentityID := ''b''\<rparr>)]\<rparr>,
      br_world = demo_delegation demo_claimed\<rparr>"

lemma demo_contested_inv: "broker_inv (br_store demo_contested)"
  by (simp add: broker_inv_def broker_wf_def refresh_unique_def has_install_def demo_contested_def demo_broker_def
      demo_install_def demo_token_def tab_wf_def tab_rows_def tab_get_def)

theorem replay_frees_a_foreign_identity_witness:
  "pool_holder (br_world demo_contested) ''t'' ''b'' = Some ''i1'' \<and>
   (\<exists>rep s1. broker_step (delegated demo_net) demo_delegated_cfg
       (Public (demo_broker_env ''yab'' 10) (BToken (Some (demo_refresh ''r0'')))) demo_contested = (rep, s1) \<and>
     pool_holder (br_world s1) ''t'' ''b'' = None \<and>
     tab_get (bs_installs (br_store s1)) ''i1'' = Some (demo_install\<lparr>in_ID := ''i1'', in_IdentityID := ''b''\<rparr>))"
proof -
  let ?rec = "demo_token ''a0'' ''r0'' (Some 5)" and ?f = "demo_refresh ''r0''" and ?e = "demo_broker_env ''yab'' 10"
  obtain rep s1 where out: "broker_step (delegated demo_net) demo_delegated_cfg (Public ?e (BToken (Some ?f))) demo_contested = (rep, s1)"
    by fastforce
  have w: "delegation_sound demo_net (br_world demo_contested)" using demo_delegation_sound(2) by (simp add: demo_contested_def)
  have rec: "?rec \<in> set (tab_rows (bs_tokens (br_store demo_contested)))" "tk_RotatedAt ?rec \<noteq> None" "plain_id (tk_InstallID ?rec)"
    by code_simp+
  have i: "tab_get (bs_installs (br_store demo_contested)) (tk_InstallID ?rec) = Some (demo_install\<lparr>in_IdentityID := ''b''\<rparr>)"
    "in_IdentityID (demo_install\<lparr>in_IdentityID := ''b''\<rparr>) = ''b''" by code_simp+
  have f: "tf_grant_type ?f = ''refresh_token''" "tf_refresh_token ?f = tk_RefreshToken ?rec" by code_simp+
  have e: "\<not> op_fails ?e op" for op by (simp add: demo_broker_env_def)
  have other: "pool_holder (br_world demo_contested) (tk_TenantID ?rec) ''b'' = Some ''i1''"
    "tab_get (bs_installs (br_store demo_contested)) ''i1'' = Some (demo_install\<lparr>in_ID := ''i1'', in_IdentityID := ''b''\<rparr>)"
    "''i1'' \<noteq> tk_InstallID ?rec" "tk_TenantID ?rec = ''t''" by code_simp+
  show ?thesis
    using replay_frees_a_foreign_identity [OF demo_contested_inv w rec i f e other(1-3) out] out other(1,4) by auto
qed

text \<open>
  Revoking a refresh token does nothing: for a token that is not a stored access token the revocation
  endpoint has no tenant, grant-service refuses the forwarded request, and the reply is still 200.  The
  token record, the grant and the identity stay as they were.
\<close>

theorem revoking_a_refresh_token_revokes_nothing:
  assumes "tab_get (bs_tokens (br_store s)) r = None" "r \<noteq> []"
    and "broker_step (delegated n) cfg (Public e (BRevoke (Some r))) s = (rep, s1)"
  shows "rep = WriteJSON StatusOK BEmpty \<and> br_store s1 = br_store s \<and>
    dg_grants (br_world s1) = dg_grants (br_world s) \<and> dg_pools (br_world s1) = dg_pools (br_world s)"
  using assms revoke_without_tenant [of n r "br_world s"]
  by (cases "bc_RevokeToken (delegated n) [] r (br_world s)")
    (auto simp: Revoke_def GetToken_def store_call_def Let_def split: if_splits)

theorem revoking_a_refresh_token_revokes_nothing_witness:
  "\<exists>s1. broker_step (delegated demo_net) demo_delegated_cfg (Public (demo_broker_env ''yab'' 10) (BRevoke (Some ''r1'')))
      (demo_delegated_broker demo_pools) = (WriteJSON StatusOK BEmpty, s1) \<and>
    br_store s1 = br_store (demo_delegated_broker demo_pools)"
proof -
  obtain rep s1 where out: "broker_step (delegated demo_net) demo_delegated_cfg (Public (demo_broker_env ''yab'' 10) (BRevoke (Some ''r1'')))
      (demo_delegated_broker demo_pools) = (rep, s1)" by fastforce
  have "tab_get (bs_tokens (br_store (demo_delegated_broker demo_pools))) ''r1'' = None" by code_simp
  from revoking_a_refresh_token_revokes_nothing [OF this _ out] out show ?thesis by simp
qed

end
