(* ===== verification/AuthnClients.thy ===== *)
theory AuthnClients
  imports TxnClients
begin

text \<open>
  The services authentication-service calls: its client of authenticator-service (clients.go) and of
  risk-service (risk_client.go), as interfaces over the world those services live in and as HTTP calls.
\<close>

section \<open>What the clients return\<close>

record AuthenticatorView =
  aw_ID :: string
  aw_Method :: string
  aw_Status :: string
  aw_Verified :: bool
  aw_Metadata :: "(string \<times> json) list"

record ChallengeInfo =
  ci_ChallengeID :: string
  ci_Method :: string
  ci_Prompt :: string
  ci_ExpiresAt :: time
  ci_Options :: "json option"

record VerifyOutcome =
  vo_Verified :: bool
  vo_Reason :: string
  vo_AMR :: "string list"

record WebAuthnRegistration =
  wr_RegistrationID :: string
  wr_Options :: "json option"

record RiskAssessment =
  ra_Tier :: string
  ra_Score :: rat
  ra_Flags :: "string list"
  ra_Device :: rat
  ra_Behavior :: rat
  ra_Network :: rat
  ra_User :: rat
  ra_ImpossibleTravel :: bool

record RiskEvalInput =
  ri_TenantID :: string
  ri_UserID :: string
  ri_SessionID :: string
  ri_Action :: string
  ri_Resource :: string
  ri_Sensitivity :: string
  ri_DeviceFP :: string
  ri_IP :: string
  ri_Country :: string
  ri_UserAgent :: string

record 'w authn_clients =
  ak_ListAuthenticators :: "string \<Rightarrow> string \<Rightarrow> 'w \<Rightarrow> (client_err + AuthenticatorView list) \<times> 'w"
  ak_Enroll :: "string \<Rightarrow> string \<Rightarrow> string \<Rightarrow> (string \<times> json) list \<Rightarrow> 'w \<Rightarrow> (client_err + AuthenticatorView) \<times> 'w"
  ak_CreateChallenge :: "string \<Rightarrow> string \<Rightarrow> string list \<Rightarrow> 'w \<Rightarrow> (client_err + ChallengeInfo) \<times> 'w"
  ak_VerifyChallenge :: "string \<Rightarrow> string \<Rightarrow> (string \<times> json) list \<Rightarrow> 'w \<Rightarrow> (client_err + VerifyOutcome) \<times> 'w"
  ak_RegisterBegin :: "string \<Rightarrow> string \<Rightarrow> string \<Rightarrow> string \<Rightarrow> 'w \<Rightarrow> (client_err + WebAuthnRegistration) \<times> 'w"
  ak_RegisterFinish :: "string \<Rightarrow> string \<Rightarrow> string \<Rightarrow> json option \<Rightarrow> 'w \<Rightarrow> (client_err + AuthenticatorView) \<times> 'w"

text \<open>The status of a \<open>DownstreamError\<close>, as \<open>errors.As\<close> finds it.\<close>

definition down_status :: "client_err \<Rightarrow> nat option" where
  "down_status err = (case err of Downstream e \<Rightarrow> Some (de_Status e) | OtherError t \<Rightarrow> None)"

section \<open>JSON of the results\<close>

text \<open>A \<open>json.RawMessage\<close> keeps the value as it came, null included.\<close>

definition dec_raw :: "string \<Rightarrow> json \<Rightarrow> json option \<Rightarrow> json_err + json option" where
  "dec_raw f j old = Inr (Some j)"

definition AuthenticatorView_fields :: "AuthenticatorView field list" where
  "AuthenticatorView_fields =
     [into dec_string ''id'' aw_ID aw_ID_update, into dec_string ''method'' aw_Method aw_Method_update,
      into dec_string ''status'' aw_Status aw_Status_update, into dec_bool ''verified'' aw_Verified aw_Verified_update,
      into dec_map ''metadata'' aw_Metadata aw_Metadata_update]"

definition no_authenticator :: AuthenticatorView where
  "no_authenticator = \<lparr>aw_ID = [], aw_Method = [], aw_Status = [], aw_Verified = False, aw_Metadata = []\<rparr>"

definition ChallengeInfo_fields :: "ChallengeInfo field list" where
  "ChallengeInfo_fields =
     [into dec_string ''challenge_id'' ci_ChallengeID ci_ChallengeID_update,
      into dec_string ''method'' ci_Method ci_Method_update, into dec_string ''prompt'' ci_Prompt ci_Prompt_update,
      into dec_time ''expires_at'' ci_ExpiresAt ci_ExpiresAt_update, into dec_raw ''options'' ci_Options ci_Options_update]"

definition no_challenge_info :: ChallengeInfo where
  "no_challenge_info = \<lparr>ci_ChallengeID = [], ci_Method = [], ci_Prompt = [], ci_ExpiresAt = 0, ci_Options = None\<rparr>"

definition VerifyOutcome_fields :: "VerifyOutcome field list" where
  "VerifyOutcome_fields =
     [into dec_bool ''verified'' vo_Verified vo_Verified_update, into dec_string ''reason'' vo_Reason vo_Reason_update,
      into dec_strings ''amr'' vo_AMR vo_AMR_update]"

definition no_outcome :: VerifyOutcome where
  "no_outcome = \<lparr>vo_Verified = False, vo_Reason = [], vo_AMR = []\<rparr>"

definition WebAuthnRegistration_fields :: "WebAuthnRegistration field list" where
  "WebAuthnRegistration_fields =
     [into dec_string ''registration_id'' wr_RegistrationID wr_RegistrationID_update,
      into dec_raw ''options'' wr_Options wr_Options_update]"

section \<open>HTTP calls\<close>

text \<open>\<open>ah_unmarshal\<close> is \<open>json.Unmarshal\<close> up to the value, for the body of an error reply.\<close>

record 'w authn_http =
  ah_http :: "'w http_clients"
  ah_unmarshal :: "string \<Rightarrow> json option"

definition authenticator_call :: "'w authn_http \<Rightarrow> string \<Rightarrow> string \<Rightarrow> string \<Rightarrow> json option \<Rightarrow> 'o field list \<Rightarrow> 'o \<Rightarrow>
    'w \<Rightarrow> (client_err + 'o) \<times> 'w" where
  "authenticator_call c method path tenantID b fs zero =
     do_request (ah_http c) ''authenticator-service'' method (ht_AuthenticatorURL (ah_http c) @ path) tenantID b fs zero"

definition ListAuthenticators :: "'w authn_http \<Rightarrow> string \<Rightarrow> string \<Rightarrow> 'w \<Rightarrow>
    (client_err + AuthenticatorView list) \<times> 'w" where
  "ListAuthenticators c tenantID userID =
     authenticator_call c ''GET'' (''/internal/v1/authenticators?user_id='' @ userID @ ''&tenant_id='' @ tenantID) tenantID None
       [(''authenticators'', \<lambda>j old. dec_slice False AuthenticatorView_fields no_authenticator ''authenticators'' j old)] []"

definition EnrollAuthenticator :: "'w authn_http \<Rightarrow> string \<Rightarrow> string \<Rightarrow> string \<Rightarrow> (string \<times> json) list \<Rightarrow> 'w \<Rightarrow>
    (client_err + AuthenticatorView) \<times> 'w" where
  "EnrollAuthenticator c tenantID userID method metadata =
     authenticator_call c ''POST'' ''/internal/v1/authenticators'' tenantID
       (Some (JObj ([(''user_id'', JStr userID), (''method'', JStr method)] @ omit_obj ''metadata'' metadata)))
       AuthenticatorView_fields no_authenticator"

definition CreateChallenge :: "'w authn_http \<Rightarrow> string \<Rightarrow> string \<Rightarrow> string list \<Rightarrow> 'w \<Rightarrow> (client_err + ChallengeInfo) \<times> 'w" where
  "CreateChallenge c tenantID userID methods =
     authenticator_call c ''POST'' ''/internal/v1/challenges'' tenantID
       (Some (JObj [(''user_id'', JStr userID), (''methods'', JArr (map JStr methods))])) ChallengeInfo_fields no_challenge_info"

text \<open>A 401 carries the verdict on a wrong response; any other failure is an error.\<close>

definition VerifyChallenge :: "'w authn_http \<Rightarrow> string \<Rightarrow> string \<Rightarrow> (string \<times> json) list \<Rightarrow> 'w \<Rightarrow>
    (client_err + VerifyOutcome) \<times> 'w" where
  "VerifyChallenge c tenantID challengeID response w =
     (case authenticator_call c ''POST'' (''/internal/v1/challenges/'' @ challengeID @ ''/verify'') tenantID
            (Some (JObj [(''response'', JObj response)])) VerifyOutcome_fields no_outcome w of
        (Inr out, w) \<Rightarrow> (Inr out, w)
      | (Inl err, w) \<Rightarrow>
          (case err of
             OtherError t \<Rightarrow> (Inl err, w)
           | Downstream e \<Rightarrow>
               if de_Status e \<noteq> StatusUnauthorized then (Inl err, w)
               else (case Option.bind (ah_unmarshal c (de_Body e)) (\<lambda>j.
                            case dec_struct False VerifyOutcome_fields j no_outcome of Inl _ \<Rightarrow> None | Inr out \<Rightarrow> Some out) of
                       None \<Rightarrow> (Inl err, w)
                     | Some out \<Rightarrow> (Inr out, w))))"

definition WebAuthnRegisterBegin :: "'w authn_http \<Rightarrow> string \<Rightarrow> string \<Rightarrow> string \<Rightarrow> string \<Rightarrow> 'w \<Rightarrow>
    (client_err + WebAuthnRegistration) \<times> 'w" where
  "WebAuthnRegisterBegin c tenantID userID name displayName =
     authenticator_call c ''POST'' ''/internal/v1/authenticators/webauthn/register/begin'' tenantID
       (Some (JObj [(''user_id'', JStr userID), (''name'', JStr name), (''display_name'', JStr displayName)]))
       WebAuthnRegistration_fields \<lparr>wr_RegistrationID = [], wr_Options = None\<rparr>"

definition WebAuthnRegisterFinish :: "'w authn_http \<Rightarrow> string \<Rightarrow> string \<Rightarrow> string \<Rightarrow> json option \<Rightarrow> 'w \<Rightarrow>
    (client_err + AuthenticatorView) \<times> 'w" where
  "WebAuthnRegisterFinish c tenantID userID registrationID attestation =
     authenticator_call c ''POST'' ''/internal/v1/authenticators/webauthn/register/finish'' tenantID
       (Some (JObj [(''user_id'', JStr userID), (''registration_id'', JStr registrationID),
                    (''attestation'', case attestation of None \<Rightarrow> JNull | Some j \<Rightarrow> j)]))
       AuthenticatorView_fields no_authenticator"

definition HTTPAuthenticatorClient :: "'w authn_http \<Rightarrow> 'w authn_clients" where
  "HTTPAuthenticatorClient c =
     \<lparr>ak_ListAuthenticators = ListAuthenticators c, ak_Enroll = EnrollAuthenticator c,
      ak_CreateChallenge = CreateChallenge c, ak_VerifyChallenge = VerifyChallenge c,
      ak_RegisterBegin = WebAuthnRegisterBegin c, ak_RegisterFinish = WebAuthnRegisterFinish c\<rparr>"

section \<open>The risk client\<close>

definition signal_score :: "(RiskAssessment \<Rightarrow> rat) \<Rightarrow> ((rat \<Rightarrow> rat) \<Rightarrow> RiskAssessment \<Rightarrow> RiskAssessment) \<Rightarrow> string \<Rightarrow>
    RiskAssessment field" where
  "signal_score get upd name = (name, \<lambda>j r. dec_struct False [into dec_float ''score'' get upd] j r)"

definition riskEvalResp_fields :: "RiskAssessment field list" where
  "riskEvalResp_fields =
     [into dec_string ''tier'' ra_Tier ra_Tier_update, into dec_float ''score'' ra_Score ra_Score_update,
      into dec_strings ''flags'' ra_Flags ra_Flags_update,
      (''signals'', \<lambda>j r. dec_struct False
         [signal_score ra_Device ra_Device_update ''device'', signal_score ra_Behavior ra_Behavior_update ''behavior'',
          signal_score ra_Network ra_Network_update ''network'', signal_score ra_User ra_User_update ''user''] j r)]"

definition no_assessment :: RiskAssessment where
  "no_assessment = \<lparr>ra_Tier = [], ra_Score = 0, ra_Flags = [], ra_Device = 0, ra_Behavior = 0, ra_Network = 0,
     ra_User = 0, ra_ImpossibleTravel = False\<rparr>"

definition riskEval_json :: "RiskEvalInput \<Rightarrow> json" where
  "riskEval_json q = JObj
     (put_str ''user_id'' (ri_UserID q) @ omit_str ''session_id'' (ri_SessionID q) @ put_str ''action'' (ri_Action q) @
      omit_str ''resource'' (ri_Resource q) @
      put_str ''resource_sensitivity''
        (if ri_Sensitivity q \<in> {''low'', ''medium'', ''high''} then ri_Sensitivity q else ''medium'') @
      [(''context'', JObj
         (omit_str ''device_fingerprint'' (ri_DeviceFP q) @ omit_str ''ip_address'' (ri_IP q) @
          omit_str ''country'' (ri_Country q) @ omit_str ''user_agent'' (ri_UserAgent q)))])"

text \<open>Unlike the other clients, an empty body is an error here; \<open>None\<close> is any error.\<close>

definition EvaluateRisk :: "'w http_clients \<Rightarrow> RiskEvalInput \<Rightarrow> 'w \<Rightarrow> RiskAssessment option \<times> 'w" where
  "EvaluateRisk c q w =
     (let (sent, w) = ht_send c
            \<lparr>hq_Method = ''POST'', hq_URL = ht_RiskURL c @ ''/v1/evaluations'',
             hq_Gate = SetInternalAuth (ht_secret c)
               \<lparr>peer_certificates = 0, internal_auth_header = [], tenant_header = ri_TenantID q\<rparr>,
             hq_Body = Some (riskEval_json q)\<rparr> w
      in case sent of
           Inl text \<Rightarrow> (None, w)
         | Inr resp \<Rightarrow>
             if hr_Status resp < 200 \<or> 300 \<le> hr_Status resp then (None, w)
             else (case hr_Body resp of
                     Body j off \<Rightarrow>
                       (case dec_struct False riskEvalResp_fields j no_assessment of
                          Inl err \<Rightarrow> (None, w)
                        | Inr a \<Rightarrow> (Some (a\<lparr>ra_ImpossibleTravel := ''impossible_travel'' \<in> set (ra_Flags a)\<rparr>), w))
                   | _ \<Rightarrow> (None, w)))"

end
