(* ===== verification/AuthnModel.thy ===== *)
theory AuthnModel
  imports XService Jwt
begin

text \<open>
  authentication-service's records and in-memory storage (models.go, device_signals.go, flowmodels.go,
  storage.go): users, sessions, tokens, authorization codes, clients, tenants, identity anchors, device
  signals, staff, transaction types, MCP servers, trusted identity providers, flows and advice calls.
\<close>

section \<open>Records\<close>

definition RiskLow :: string where "RiskLow = ''low''"
definition RiskMedium :: string where "RiskMedium = ''medium''"
definition RiskHigh :: string where "RiskHigh = ''high''"

definition ValidRiskLevel :: "string \<Rightarrow> bool" where
  "ValidRiskLevel s \<longleftrightarrow> s \<in> {RiskLow, RiskMedium, RiskHigh}"

record User =
  us_ID :: string
  us_TenantID :: string
  us_Email :: string
  us_Name :: string
  us_CreatedAt :: time
  us_UpdatedAt :: time

record Session =
  ss_ID :: string
  ss_TenantID :: string
  ss_UserID :: string
  ss_RiskLevel :: string
  ss_StepUpCompleted :: bool
  ss_CreatedAt :: time
  ss_UpdatedAt :: time
  ss_ExpiresAt :: time
  ss_InvalidatedAt :: "time option"

record TenantSummary =
  ts_TenantID :: string
  ts_Users :: nat
  ts_Sessions :: nat
  ts_LastActivity :: time

record Branding =
  br_LogoURL :: string
  br_Accent :: string
  br_BG :: string

record Tenant =
  tn_ID :: string
  tn_CompanyName :: string
  tn_Slug :: string
  tn_OwnerEmail :: string
  tn_CreatedAt :: time
  tn_PhoneLoginEnabled :: bool
  tn_MDLEnrollEnabled :: bool
  tn_FidoEnabled :: bool
  tn_Branding :: Branding

definition AnchorEmail :: string where "AnchorEmail = ''email''"
definition AnchorPhone :: string where "AnchorPhone = ''phone''"
definition AnchorPasskey :: string where "AnchorPasskey = ''passkey''"
definition AnchorMDL :: string where "AnchorMDL = ''mdl''"

record IdentityAnchor =
  an_ID :: string
  an_UserID :: string
  an_TenantID :: string
  an_Type :: string
  an_Value :: string
  an_VerifiedAt :: "time option"
  an_CreatedAt :: time

definition TokenTypeAccess :: string where "TokenTypeAccess = ''access''"
definition TokenTypeRefresh :: string where "TokenTypeRefresh = ''refresh''"

lemmas token_type_defs = TokenTypeAccess_def TokenTypeRefresh_def

record Token =
  to_TokenHash :: string
  to_SessionID :: string
  to_UserID :: string
  to_TenantID :: string
  to_ClientID :: string
  to_FamilyID :: string
  to_TokenType :: string
  to_Scope :: string
  to_IssuedAt :: time
  to_ExpiresAt :: time
  to_RevokedAt :: "time option"

record AuthCode =
  ac_Code :: string
  ac_ClientID :: string
  ac_TenantID :: string
  ac_UserID :: string
  ac_SessionID :: string
  ac_RedirectURI :: string
  ac_Scope :: string
  ac_State :: string
  ac_Nonce :: string
  ac_CodeChallenge :: string
  ac_CreatedAt :: time
  ac_ACR :: string
  ac_AMR :: "string list"
  ac_TransactionID :: string

record OIDCClient =
  oc_ClientID :: string
  oc_ClientSecretHash :: string
  oc_TenantID :: string
  oc_RedirectURIs :: "string list"
  oc_WebOrigins :: "string list"
  oc_CreatedAt :: time

record SocialProfile =
  sp_Provider :: string
  sp_ExternalID :: string
  sp_Email :: string
  sp_Name :: string

definition SessionTTLSeconds :: int where "SessionTTLSeconds = 3600"
definition AccessTokenTTLSeconds :: int where "AccessTokenTTLSeconds = 3600"
definition RefreshTokenTTLSeconds :: int where "RefreshTokenTTLSeconds = 2592000"
definition AuthCodeTTLSeconds :: int where "AuthCodeTTLSeconds = 300"

lemmas ttl_defs = SessionTTLSeconds_def AccessTokenTTLSeconds_def RefreshTokenTTLSeconds_def AuthCodeTTLSeconds_def

definition ValidSocialProvider :: "string \<Rightarrow> bool" where
  "ValidSocialProvider s \<longleftrightarrow> s \<in> {''google'', ''github'', ''microsoft''}"

record StaffUser =
  sf_ID :: string
  sf_Email :: string
  sf_DisplayName :: string
  sf_Active :: bool
  sf_CreatedAt :: time
  sf_UpdatedAt :: time

record TransactionType =
  tt_TenantID :: string
  tt_Name :: string
  tt_ACR :: string
  tt_CreatedAt :: time

record MCPServer =
  mc_ID :: string
  mc_TenantID :: string
  mc_Name :: string
  mc_ResourceURI :: string
  mc_Scopes :: "string list"
  mc_Enabled :: bool
  mc_CreatedAt :: time

record TrustedIDP =
  ti_ID :: string
  ti_TenantID :: string
  ti_Name :: string
  ti_Issuer :: string
  ti_JWKSURI :: string
  ti_Scopes :: "string list"
  ti_Enabled :: bool
  ti_CreatedAt :: time

record AdviceCall =
  av_ID :: string
  av_TenantID :: string
  av_ClientID :: string
  av_UserID :: string
  av_SessionID :: string
  av_DeviceID :: string
  av_TransactionType :: string
  av_ACR :: string
  av_Rank :: int
  av_CreatedAt :: time
  av_CompletedAt :: "time option"
  av_CompletedUserID :: string
  av_CompletedACR :: string

record DeviceSignal =
  ds_ID :: string
  ds_TenantID :: string
  ds_UserID :: string
  ds_SessionID :: string
  ds_Stage :: string
  ds_Fingerprint :: string
  ds_IPAddress :: string
  ds_UserAgent :: string
  ds_CreatedAt :: time

record PolicyConfig =
  pg_Name :: string
  pg_Expression :: string
  pg_Negate :: bool

record StageConfig =
  sc_Type :: string
  sc_Config :: "(string \<times> json) list"
  sc_Policies :: "PolicyConfig list"

record FlowDefinition =
  fd_ID :: string
  fd_TenantID :: string
  fd_Designation :: string
  fd_Slug :: string
  fd_Title :: string
  fd_Enabled :: bool
  fd_Stages :: "StageConfig list"
  fd_CreatedAt :: time
  fd_UpdatedAt :: time

section \<open>Storage\<close>

datatype authn_err = NotFound | Conflict

text \<open>Where the code ranges over a map, the model takes the rows in the order of the table.\<close>

record authn_store =
  at_users :: "User table"
  at_sessions :: "Session table"
  at_tokens :: "Token table"
  at_codes :: "AuthCode table"
  at_clients :: "OIDCClient table"
  at_tenants :: "Tenant table"
  at_anchors :: "IdentityAnchor table"
  at_devSigs :: "DeviceSignal list"
  at_adviceLog :: "AdviceCall list"
  at_staffUsr :: "StaffUser table"
  at_staffRol :: "string list table"
  at_txnTypes :: "TransactionType table"
  at_flows :: "FlowDefinition table"
  at_mcpSrv :: "MCPServer table"
  at_trustIDPs :: "TrustedIDP table"
  at_usedJTIs :: "time table"

definition seedDefaultClient :: "time \<Rightarrow> OIDCClient" where
  "seedDefaultClient now =
     \<lparr>oc_ClientID = ''cli_default'', oc_ClientSecretHash = [], oc_TenantID = [],
      oc_RedirectURIs = [''http://localhost:3000/callback''], oc_WebOrigins = [], oc_CreatedAt = now\<rparr>"

definition NewAuthnStorage :: "time \<Rightarrow> authn_store" where
  "NewAuthnStorage now =
     \<lparr>at_users = [], at_sessions = [], at_tokens = [], at_codes = [],
      at_clients = [(''cli_default'', seedDefaultClient now)], at_tenants = [], at_anchors = [], at_devSigs = [],
      at_adviceLog = [], at_staffUsr = [], at_staffRol = [], at_txnTypes = [], at_flows = [], at_mcpSrv = [],
      at_trustIDPs = [], at_usedJTIs = []\<rparr>"

definition found :: "'a option \<Rightarrow> authn_err + 'a" where
  "found x = (case x of None \<Rightarrow> Inl NotFound | Some a \<Rightarrow> Inr a)"

text \<open>A row read under a tenant.\<close>

definition own_row :: "('r \<Rightarrow> string) \<Rightarrow> string \<Rightarrow> string \<Rightarrow> 'r table \<Rightarrow> 'r option" where
  "own_row rtenant tenantID i m =
     (case tab_get m i of None \<Rightarrow> None | Some r \<Rightarrow> if rtenant r \<noteq> tenantID then None else Some r)"

lemma own_row_Some: "own_row rtenant t i m = Some r \<longleftrightarrow> tab_get m i = Some r \<and> rtenant r = t"
  by (auto simp: own_row_def split: option.splits)

subsection \<open>Users and sessions\<close>

definition put_user :: "User \<Rightarrow> authn_store \<Rightarrow> authn_store" where
  "put_user u s = s\<lparr>at_users := tab_put (us_ID u) u (at_users s)\<rparr>"

definition CreateUser :: "User \<Rightarrow> authn_store \<Rightarrow> authn_err + authn_store" where
  "CreateUser u s =
     (if us_Email u \<noteq> [] \<and> list_ex (\<lambda>x. us_TenantID x = us_TenantID u \<and> us_Email x = us_Email u) (tab_rows (at_users s))
      then Inl Conflict
      else Inr (put_user u s))"

definition GetUser :: "string \<Rightarrow> string \<Rightarrow> authn_store \<Rightarrow> User option" where
  "GetUser tenantID i s = own_row us_TenantID tenantID i (at_users s)"

definition GetUserByEmail :: "string \<Rightarrow> string \<Rightarrow> authn_store \<Rightarrow> User option" where
  "GetUserByEmail tenantID email s =
     (if email = [] then None
      else find (\<lambda>u. us_TenantID u = tenantID \<and> us_Email u = email) (tab_rows (at_users s)))"

definition user_before :: "User \<Rightarrow> User \<Rightarrow> bool" where
  "user_before a b =
     (if us_CreatedAt a = us_CreatedAt b then us_ID b < us_ID a else us_CreatedAt b < us_CreatedAt a)"

definition ListUsers :: "string \<Rightarrow> int \<Rightarrow> time \<Rightarrow> authn_store \<Rightarrow> User list" where
  "ListUsers tenantID limit cursor s =
     cut_page limit (sort_slice user_before
       (filter (\<lambda>u. us_TenantID u = tenantID \<and> after_cursor cursor (us_CreatedAt u)) (tab_rows (at_users s))))"

definition UpdateUser :: "time \<Rightarrow> User \<Rightarrow> authn_store \<Rightarrow> authn_err + User \<times> authn_store" where
  "UpdateUser now u s =
     (case own_row us_TenantID (us_TenantID u) (us_ID u) (at_users s) of
        None \<Rightarrow> Inl NotFound
      | Some existing \<Rightarrow>
          if us_Email u \<noteq> us_Email existing \<and>
             list_ex (\<lambda>(i, x). i \<noteq> us_ID u \<and> us_TenantID x = us_TenantID u \<and> us_Email x = us_Email u) (at_users s)
          then Inl Conflict
          else let u = u\<lparr>us_CreatedAt := us_CreatedAt existing, us_UpdatedAt := now\<rparr>
               in Inr (u, put_user u s))"

definition DeleteUser :: "string \<Rightarrow> string \<Rightarrow> authn_store \<Rightarrow> authn_store option" where
  "DeleteUser tenantID i s =
     (case GetUser tenantID i s of
        None \<Rightarrow> None
      | Some u \<Rightarrow> Some (s\<lparr>at_users := tab_del i (at_users s)\<rparr>))"

definition CreateSession :: "Session \<Rightarrow> authn_store \<Rightarrow> authn_store" where
  "CreateSession x s = s\<lparr>at_sessions := tab_put (ss_ID x) x (at_sessions s)\<rparr>"

definition GetSession :: "string \<Rightarrow> string \<Rightarrow> authn_store \<Rightarrow> Session option" where
  "GetSession tenantID i s = own_row ss_TenantID tenantID i (at_sessions s)"

definition DefaultSessionListCap :: int where "DefaultSessionListCap = 100"

definition session_before :: "Session \<Rightarrow> Session \<Rightarrow> bool" where
  "session_before a b =
     (if ss_CreatedAt a = ss_CreatedAt b then ss_ID b < ss_ID a else ss_CreatedAt b < ss_CreatedAt a)"

definition ListSessions :: "string \<Rightarrow> int \<Rightarrow> authn_store \<Rightarrow> Session list" where
  "ListSessions tenantID limit s =
     (let limit = (if limit \<le> 0 then DefaultSessionListCap else limit)
      in cut_page limit (sort_slice session_before
           (filter (\<lambda>x. ss_TenantID x = tenantID) (tab_rows (at_sessions s)))))"

definition UpdateSession :: "time \<Rightarrow> Session \<Rightarrow> authn_store \<Rightarrow> (Session \<times> authn_store) option" where
  "UpdateSession now x s =
     (case own_row ss_TenantID (ss_TenantID x) (ss_ID x) (at_sessions s) of
        None \<Rightarrow> None
      | Some existing \<Rightarrow>
          let x = x\<lparr>ss_CreatedAt := ss_CreatedAt existing, ss_UpdatedAt := now\<rparr>
          in Some (x, CreateSession x s))"

subsection \<open>Tokens, codes and clients\<close>

text \<open>\<open>PutToken\<close> and \<open>GetTokenByHash\<close> work on the hash of the token's text.\<close>

definition PutToken :: "Token \<Rightarrow> authn_store \<Rightarrow> authn_store" where
  "PutToken t s = s\<lparr>at_tokens := tab_put (to_TokenHash t) t (at_tokens s)\<rparr>"

definition GetTokenByHash :: "string \<Rightarrow> authn_store \<Rightarrow> Token option" where
  "GetTokenByHash h s = tab_get (at_tokens s) h"

definition RevokeTokenByHash :: "time \<Rightarrow> string \<Rightarrow> authn_store \<Rightarrow> authn_store option" where
  "RevokeTokenByHash now h s =
     (case tab_get (at_tokens s) h of
        None \<Rightarrow> None
      | Some t \<Rightarrow> Some (s\<lparr>at_tokens := tab_put h (t\<lparr>to_RevokedAt := Some now\<rparr>) (at_tokens s)\<rparr>))"

text \<open>Stamp the live tokens that qualify; the number of stamped tokens is returned.\<close>

definition revoke_where :: "(Token \<Rightarrow> bool) \<Rightarrow> time \<Rightarrow> authn_store \<Rightarrow> nat \<times> authn_store" where
  "revoke_where P now s =
     (let hit = (\<lambda>t. P t \<and> to_RevokedAt t = None)
      in (length (filter (\<lambda>(h, t). hit t) (at_tokens s)),
          s\<lparr>at_tokens := map (\<lambda>(h, t). (h, if hit t then t\<lparr>to_RevokedAt := Some now\<rparr> else t)) (at_tokens s)\<rparr>))"

definition RevokeTokenFamily :: "time \<Rightarrow> string \<Rightarrow> authn_store \<Rightarrow> nat \<times> authn_store" where
  "RevokeTokenFamily now familyID s =
     (if familyID = [] then (0, s) else revoke_where (\<lambda>t. to_FamilyID t = familyID) now s)"

definition RevokeTokenFamiliesBySession :: "time \<Rightarrow> string \<Rightarrow> string \<Rightarrow> authn_store \<Rightarrow> nat \<times> authn_store" where
  "RevokeTokenFamiliesBySession now tenantID sessionID s =
     (if sessionID = [] then (0, s)
      else
        let families = map to_FamilyID (filter (\<lambda>t. to_SessionID t = sessionID \<and> to_TenantID t = tenantID \<and> to_FamilyID t \<noteq> [])
              (tab_rows (at_tokens s)))
        in if families = [] then (0, s)
           else revoke_where (\<lambda>t. to_FamilyID t \<noteq> [] \<and> to_FamilyID t \<in> set families) now s)"

definition PutAuthCode :: "AuthCode \<Rightarrow> authn_store \<Rightarrow> authn_store" where
  "PutAuthCode c s = s\<lparr>at_codes := tab_put (ac_Code c) c (at_codes s)\<rparr>"

definition ConsumeAuthCode :: "string \<Rightarrow> authn_store \<Rightarrow> (AuthCode \<times> authn_store) option" where
  "ConsumeAuthCode code s =
     (case tab_get (at_codes s) code of
        None \<Rightarrow> None
      | Some c \<Rightarrow> Some (c, s\<lparr>at_codes := tab_del code (at_codes s)\<rparr>))"

definition PutClient :: "OIDCClient \<Rightarrow> authn_store \<Rightarrow> authn_store" where
  "PutClient c s = s\<lparr>at_clients := tab_put (oc_ClientID c) c (at_clients s)\<rparr>"

definition GetClient :: "string \<Rightarrow> authn_store \<Rightarrow> OIDCClient option" where
  "GetClient clientID s = tab_get (at_clients s) clientID"

definition client_before :: "OIDCClient \<Rightarrow> OIDCClient \<Rightarrow> bool" where
  "client_before a b =
     (if oc_CreatedAt a = oc_CreatedAt b then oc_ClientID a < oc_ClientID b else oc_CreatedAt b < oc_CreatedAt a)"

definition ListClients :: "authn_store \<Rightarrow> OIDCClient list" where
  "ListClients s = sort_slice client_before (tab_rows (at_clients s))"

definition DeleteClient :: "string \<Rightarrow> authn_store \<Rightarrow> authn_store option" where
  "DeleteClient clientID s =
     (case GetClient clientID s of
        None \<Rightarrow> None
      | Some c \<Rightarrow> Some (s\<lparr>at_clients := tab_del clientID (at_clients s)\<rparr>))"

subsection \<open>Tenants\<close>

definition tenant_summary :: "authn_store \<Rightarrow> string \<Rightarrow> TenantSummary" where
  "tenant_summary s i =
     (let us = filter (\<lambda>u. us_TenantID u = i) (tab_rows (at_users s));
          xs = filter (\<lambda>x. ss_TenantID x = i) (tab_rows (at_sessions s))
      in \<lparr>ts_TenantID = i, ts_Users = length us, ts_Sessions = length xs,
          ts_LastActivity = fold max (map us_CreatedAt us @ map ss_UpdatedAt xs) 0\<rparr>)"

definition summary_before :: "TenantSummary \<Rightarrow> TenantSummary \<Rightarrow> bool" where
  "summary_before a b =
     (if ts_LastActivity a = ts_LastActivity b then ts_TenantID a < ts_TenantID b
      else ts_LastActivity b < ts_LastActivity a)"

definition ListTenants :: "authn_store \<Rightarrow> TenantSummary list" where
  "ListTenants s = sort_slice summary_before (map (tenant_summary s)
     (remdups (map us_TenantID (tab_rows (at_users s)) @ map ss_TenantID (tab_rows (at_sessions s)))))"

definition put_tenant :: "Tenant \<Rightarrow> authn_store \<Rightarrow> authn_store" where
  "put_tenant t s = s\<lparr>at_tenants := tab_put (tn_ID t) t (at_tenants s)\<rparr>"

definition slug_taken :: "string \<Rightarrow> authn_store \<Rightarrow> bool" where
  "slug_taken slug s = list_ex (\<lambda>t. tn_Slug t = slug) (tab_rows (at_tenants s))"

definition CreateTenant :: "Tenant \<Rightarrow> authn_store \<Rightarrow> authn_err + Tenant \<times> authn_store" where
  "CreateTenant t s =
     (if slug_taken (tn_Slug t) s then Inl Conflict
      else let t = t\<lparr>tn_FidoEnabled := True\<rparr> in Inr (t, put_tenant t s))"

definition GetTenant :: "string \<Rightarrow> authn_store \<Rightarrow> Tenant option" where
  "GetTenant i s = tab_get (at_tenants s) i"

definition GetTenantBySlug :: "string \<Rightarrow> authn_store \<Rightarrow> Tenant option" where
  "GetTenantBySlug slug s = find (\<lambda>t. tn_Slug t = slug) (tab_rows (at_tenants s))"

definition GetTenantByOwnerEmail :: "string \<Rightarrow> authn_store \<Rightarrow> Tenant option" where
  "GetTenantByOwnerEmail email s = find (\<lambda>t. tn_OwnerEmail t = email) (tab_rows (at_tenants s))"

definition ListTenantsByOwnerEmail :: "string \<Rightarrow> authn_store \<Rightarrow> Tenant list" where
  "ListTenantsByOwnerEmail email s =
     sort_slice (\<lambda>a b. tn_Slug a < tn_Slug b) (filter (\<lambda>t. tn_OwnerEmail t = email) (tab_rows (at_tenants s)))"

definition synthTenantIdentity :: "string \<Rightarrow> string \<times> string" where
  "synthTenantIdentity tenantID =
     (let company = (if starts_with tenantID ''ten_'' then drop (length ''ten_'') tenantID else tenantID)
      in (if company = [] then tenantID else company, tenantID))"

definition SetTenantOwner :: "time \<Rightarrow> string \<Rightarrow> string \<Rightarrow> authn_store \<Rightarrow> authn_store" where
  "SetTenantOwner now tenantID email s =
     (case GetTenant tenantID s of
        Some t \<Rightarrow> s\<lparr>at_tenants := tab_put tenantID (t\<lparr>tn_OwnerEmail := email\<rparr>) (at_tenants s)\<rparr>
      | None \<Rightarrow>
          let (company, slug) = synthTenantIdentity tenantID
          in put_tenant
               \<lparr>tn_ID = tenantID, tn_CompanyName = company, tn_Slug = slug, tn_OwnerEmail = email, tn_CreatedAt = now,
                tn_PhoneLoginEnabled = False, tn_MDLEnrollEnabled = False, tn_FidoEnabled = True,
                tn_Branding = \<lparr>br_LogoURL = [], br_Accent = [], br_BG = []\<rparr>\<rparr> s)"

text \<open>The four switches of a tenant share one shape.\<close>

definition set_tenant :: "(Tenant \<Rightarrow> Tenant) \<Rightarrow> string \<Rightarrow> authn_store \<Rightarrow> authn_store option" where
  "set_tenant f tenantID s =
     (case GetTenant tenantID s of
        None \<Rightarrow> None
      | Some t \<Rightarrow> Some (s\<lparr>at_tenants := tab_put tenantID (f t) (at_tenants s)\<rparr>))"

definition SetTenantPhoneLogin :: "string \<Rightarrow> bool \<Rightarrow> authn_store \<Rightarrow> authn_store option" where
  "SetTenantPhoneLogin tenantID enabled = set_tenant (\<lambda>t. t\<lparr>tn_PhoneLoginEnabled := enabled\<rparr>) tenantID"

definition SetTenantMDLEnroll :: "string \<Rightarrow> bool \<Rightarrow> authn_store \<Rightarrow> authn_store option" where
  "SetTenantMDLEnroll tenantID enabled = set_tenant (\<lambda>t. t\<lparr>tn_MDLEnrollEnabled := enabled\<rparr>) tenantID"

definition SetTenantBranding :: "string \<Rightarrow> Branding \<Rightarrow> authn_store \<Rightarrow> authn_store option" where
  "SetTenantBranding tenantID b = set_tenant (\<lambda>t. t\<lparr>tn_Branding := b\<rparr>) tenantID"

definition SetTenantFidoEnabled :: "string \<Rightarrow> bool \<Rightarrow> authn_store \<Rightarrow> authn_store option" where
  "SetTenantFidoEnabled tenantID enabled = set_tenant (\<lambda>t. t\<lparr>tn_FidoEnabled := enabled\<rparr>) tenantID"

definition ProvisionTenant :: "Tenant \<Rightarrow> User \<Rightarrow> Session \<Rightarrow> OIDCClient \<Rightarrow> authn_store \<Rightarrow> authn_err + authn_store" where
  "ProvisionTenant t owner sess client s =
     (if slug_taken (tn_Slug t) s then Inl Conflict
      else if list_ex (\<lambda>u. us_TenantID u = us_TenantID owner \<and> us_Email u = us_Email owner) (tab_rows (at_users s))
      then Inl Conflict
      else Inr (PutClient client (CreateSession sess (put_user owner (put_tenant (t\<lparr>tn_FidoEnabled := True\<rparr>) s)))))"

subsection \<open>Identity anchors and device signals\<close>

definition CreateIdentityAnchor :: "IdentityAnchor \<Rightarrow> authn_store \<Rightarrow> authn_err + authn_store" where
  "CreateIdentityAnchor a s =
     (if list_ex (\<lambda>x. an_TenantID x = an_TenantID a \<and> an_Type x = an_Type a \<and> an_Value x = an_Value a) (tab_rows (at_anchors s))
      then Inl Conflict
      else Inr (s\<lparr>at_anchors := tab_put (an_ID a) a (at_anchors s)\<rparr>))"

definition GetIdentityAnchorByValue :: "string \<Rightarrow> string \<Rightarrow> string \<Rightarrow> authn_store \<Rightarrow> IdentityAnchor option" where
  "GetIdentityAnchorByValue tenantID anchorType value s =
     find (\<lambda>a. an_TenantID a = tenantID \<and> an_Type a = anchorType \<and> an_Value a = value) (tab_rows (at_anchors s))"

definition DeleteIdentityAnchor :: "string \<Rightarrow> string \<Rightarrow> authn_store \<Rightarrow> authn_store option" where
  "DeleteIdentityAnchor tenantID i s =
     (case own_row an_TenantID tenantID i (at_anchors s) of
        None \<Rightarrow> None
      | Some a \<Rightarrow> Some (s\<lparr>at_anchors := tab_del i (at_anchors s)\<rparr>))"

definition anchor_before :: "IdentityAnchor \<Rightarrow> IdentityAnchor \<Rightarrow> bool" where
  "anchor_before a b =
     (if an_CreatedAt a = an_CreatedAt b then an_ID b < an_ID a else an_CreatedAt b < an_CreatedAt a)"

definition ListIdentityAnchors :: "string \<Rightarrow> authn_store \<Rightarrow> IdentityAnchor list" where
  "ListIdentityAnchors tenantID s =
     sort_slice anchor_before (filter (\<lambda>a. an_TenantID a = tenantID) (tab_rows (at_anchors s)))"

definition RecordDeviceSignal :: "DeviceSignal \<Rightarrow> authn_store \<Rightarrow> authn_store" where
  "RecordDeviceSignal d s = s\<lparr>at_devSigs := at_devSigs s @ [d]\<rparr>"

text \<open>The newest entries of a log that qualify, at most \<open>limit\<close>.\<close>

definition newest :: "int \<Rightarrow> ('a \<Rightarrow> bool) \<Rightarrow> 'a list \<Rightarrow> 'a list" where
  "newest limit P xs = take (nat limit) (filter P (rev xs))"

definition ListDeviceSignals :: "string \<Rightarrow> int \<Rightarrow> authn_store \<Rightarrow> DeviceSignal list" where
  "ListDeviceSignals tenantID limit s =
     newest (if limit \<le> 0 then DefaultSessionListCap else limit) (\<lambda>d. ds_TenantID d = tenantID) (at_devSigs s)"

definition ListDeviceSignalsByUser :: "string \<Rightarrow> string \<Rightarrow> int \<Rightarrow> authn_store \<Rightarrow> DeviceSignal list" where
  "ListDeviceSignalsByUser tenantID userID limit s =
     newest (if limit \<le> 0 then DefaultSessionListCap else limit)
       (\<lambda>d. ds_TenantID d = tenantID \<and> ds_UserID d = userID) (at_devSigs s)"

subsection \<open>Maintenance\<close>

definition PurgeExpired :: "time \<Rightarrow> authn_store \<Rightarrow> nat \<times> authn_store" where
  "PurgeExpired now s =
     (let dead_token = (\<lambda>t. to_ExpiresAt t < now);
          dead_code = (\<lambda>c. ac_CreatedAt c < now - AuthCodeTTLSeconds * Second);
          dead_session = (\<lambda>x. ss_ExpiresAt x < now - RefreshTokenTTLSeconds * Second)
      in (length (filter dead_token (tab_rows (at_tokens s))) + length (filter dead_code (tab_rows (at_codes s))) +
            length (filter dead_session (tab_rows (at_sessions s))),
          s\<lparr>at_tokens := filter (\<lambda>(k, t). \<not> dead_token t) (at_tokens s),
            at_codes := filter (\<lambda>(k, c). \<not> dead_code c) (at_codes s),
            at_sessions := filter (\<lambda>(k, x). \<not> dead_session x) (at_sessions s)\<rparr>))"

definition HashToken :: "jwt_lib \<Rightarrow> string \<Rightarrow> string" where
  "HashToken lib tok = hex_encode (jl_sha256 lib tok)"

subsection \<open>Staff\<close>

definition PutStaffUser :: "StaffUser \<Rightarrow> authn_store \<Rightarrow> authn_store" where
  "PutStaffUser u s = s\<lparr>at_staffUsr := tab_put (sf_ID u) u (at_staffUsr s)\<rparr>"

definition GetStaffUserByEmail :: "string \<Rightarrow> authn_store \<Rightarrow> StaffUser option" where
  "GetStaffUserByEmail email s = find (\<lambda>u. sf_Email u = email) (tab_rows (at_staffUsr s))"

definition GetStaffUserRoles :: "string \<Rightarrow> authn_store \<Rightarrow> string list" where
  "GetStaffUserRoles userID s = (case tab_get (at_staffRol s) userID of None \<Rightarrow> [] | Some roles \<Rightarrow> roles)"

definition AddStaffUserRole :: "string \<Rightarrow> string \<Rightarrow> authn_store \<Rightarrow> authn_store" where
  "AddStaffUserRole userID role s =
     (let roles = GetStaffUserRoles userID s
      in if role \<in> set roles then s else s\<lparr>at_staffRol := tab_put userID (roles @ [role]) (at_staffRol s)\<rparr>)"

definition ListStaffUsers :: "authn_store \<Rightarrow> StaffUser list" where
  "ListStaffUsers s = sort_slice (\<lambda>a b. sf_Email a < sf_Email b) (tab_rows (at_staffUsr s))"

definition DeleteStaffUserRole :: "string \<Rightarrow> string \<Rightarrow> authn_store \<Rightarrow> authn_store" where
  "DeleteStaffUserRole userID role s =
     (let roles = GetStaffUserRoles userID s
      in if role \<in> set roles then s\<lparr>at_staffRol := tab_put userID (remove1 role roles) (at_staffRol s)\<rparr> else s)"

subsection \<open>Transaction types, MCP servers and trusted identity providers\<close>

definition ttKey :: "string \<Rightarrow> string \<Rightarrow> string" where
  "ttKey tenantID name = tenantID @ [CHR 0x00] @ name"

definition CreateTransactionType :: "TransactionType \<Rightarrow> authn_store \<Rightarrow> authn_err + authn_store" where
  "CreateTransactionType tt s =
     (let k = ttKey (tt_TenantID tt) (tt_Name tt)
      in if tab_get (at_txnTypes s) k \<noteq> None then Inl Conflict
         else Inr (s\<lparr>at_txnTypes := tab_put k tt (at_txnTypes s)\<rparr>))"

definition ListTransactionTypes :: "string \<Rightarrow> authn_store \<Rightarrow> TransactionType list" where
  "ListTransactionTypes tenantID s =
     sort_slice (\<lambda>a b. tt_Name a < tt_Name b) (filter (\<lambda>tt. tt_TenantID tt = tenantID) (tab_rows (at_txnTypes s)))"

definition GetTransactionType :: "string \<Rightarrow> string \<Rightarrow> authn_store \<Rightarrow> TransactionType option" where
  "GetTransactionType tenantID name s = tab_get (at_txnTypes s) (ttKey tenantID name)"

definition DeleteTransactionType :: "string \<Rightarrow> string \<Rightarrow> authn_store \<Rightarrow> authn_store option" where
  "DeleteTransactionType tenantID name s =
     (case GetTransactionType tenantID name s of
        None \<Rightarrow> None
      | Some tt \<Rightarrow> Some (s\<lparr>at_txnTypes := tab_del (ttKey tenantID name) (at_txnTypes s)\<rparr>))"

definition CreateMCPServer :: "MCPServer \<Rightarrow> authn_store \<Rightarrow> authn_err + authn_store" where
  "CreateMCPServer m s =
     (if list_ex (\<lambda>e. mc_TenantID e = mc_TenantID m \<and> mc_ResourceURI e = mc_ResourceURI m) (tab_rows (at_mcpSrv s))
      then Inl Conflict
      else Inr (s\<lparr>at_mcpSrv := tab_put (mc_ID m) m (at_mcpSrv s)\<rparr>))"

definition ListMCPServers :: "string \<Rightarrow> authn_store \<Rightarrow> MCPServer list" where
  "ListMCPServers tenantID s =
     sort_slice (\<lambda>a b. mc_Name a < mc_Name b) (filter (\<lambda>m. mc_TenantID m = tenantID) (tab_rows (at_mcpSrv s)))"

definition GetMCPServer :: "string \<Rightarrow> string \<Rightarrow> authn_store \<Rightarrow> MCPServer option" where
  "GetMCPServer tenantID i s = own_row mc_TenantID tenantID i (at_mcpSrv s)"

definition SetMCPServerEnabled :: "string \<Rightarrow> string \<Rightarrow> bool \<Rightarrow> authn_store \<Rightarrow> authn_store option" where
  "SetMCPServerEnabled tenantID i enabled s =
     (case GetMCPServer tenantID i s of
        None \<Rightarrow> None
      | Some m \<Rightarrow> Some (s\<lparr>at_mcpSrv := tab_put i (m\<lparr>mc_Enabled := enabled\<rparr>) (at_mcpSrv s)\<rparr>))"

definition DeleteMCPServer :: "string \<Rightarrow> string \<Rightarrow> authn_store \<Rightarrow> authn_store option" where
  "DeleteMCPServer tenantID i s =
     (case GetMCPServer tenantID i s of
        None \<Rightarrow> None
      | Some m \<Rightarrow> Some (s\<lparr>at_mcpSrv := tab_del i (at_mcpSrv s)\<rparr>))"

definition CreateTrustedIDP :: "TrustedIDP \<Rightarrow> authn_store \<Rightarrow> authn_err + authn_store" where
  "CreateTrustedIDP p s =
     (if list_ex (\<lambda>e. ti_TenantID e = ti_TenantID p \<and> ti_Issuer e = ti_Issuer p) (tab_rows (at_trustIDPs s))
      then Inl Conflict
      else Inr (s\<lparr>at_trustIDPs := tab_put (ti_ID p) p (at_trustIDPs s)\<rparr>))"

definition ListTrustedIDPs :: "string \<Rightarrow> authn_store \<Rightarrow> TrustedIDP list" where
  "ListTrustedIDPs tenantID s =
     sort_slice (\<lambda>a b. ti_Name a < ti_Name b) (filter (\<lambda>p. ti_TenantID p = tenantID) (tab_rows (at_trustIDPs s)))"

definition GetTrustedIDP :: "string \<Rightarrow> string \<Rightarrow> authn_store \<Rightarrow> TrustedIDP option" where
  "GetTrustedIDP tenantID i s = own_row ti_TenantID tenantID i (at_trustIDPs s)"

definition SetTrustedIDPEnabled :: "string \<Rightarrow> string \<Rightarrow> bool \<Rightarrow> authn_store \<Rightarrow> authn_store option" where
  "SetTrustedIDPEnabled tenantID i enabled s =
     (case GetTrustedIDP tenantID i s of
        None \<Rightarrow> None
      | Some p \<Rightarrow> Some (s\<lparr>at_trustIDPs := tab_put i (p\<lparr>ti_Enabled := enabled\<rparr>) (at_trustIDPs s)\<rparr>))"

definition DeleteTrustedIDP :: "string \<Rightarrow> string \<Rightarrow> authn_store \<Rightarrow> authn_store option" where
  "DeleteTrustedIDP tenantID i s =
     (case GetTrustedIDP tenantID i s of
        None \<Rightarrow> None
      | Some p \<Rightarrow> Some (s\<lparr>at_trustIDPs := tab_del i (at_trustIDPs s)\<rparr>))"

text \<open>Redemption evicts the records whose assertion has expired before it looks the new one up.\<close>

definition RedeemIDJAGJTI :: "time \<Rightarrow> string \<Rightarrow> time \<Rightarrow> authn_store \<Rightarrow> authn_err + authn_store" where
  "RedeemIDJAGJTI now jti expiresAt s =
     (let kept = filter (\<lambda>(k, e). \<not> e < now) (at_usedJTIs s)
      in if tab_get kept jti \<noteq> None then Inl Conflict
         else Inr (s\<lparr>at_usedJTIs := tab_put jti expiresAt kept\<rparr>))"

subsection \<open>Flows and advice calls\<close>

definition UpsertFlow :: "time \<Rightarrow> FlowDefinition \<Rightarrow> authn_store \<Rightarrow> authn_store" where
  "UpsertFlow now f s =
     (let created = (if \<not> IsZero (fd_CreatedAt f) then fd_CreatedAt f
            else case tab_get (at_flows s) (fd_ID f) of Some existing \<Rightarrow> fd_CreatedAt existing | None \<Rightarrow> now);
          f = f\<lparr>fd_CreatedAt := created, fd_UpdatedAt := now\<rparr>;
          rival = (\<lambda>k g. k \<noteq> fd_ID f \<and> fd_TenantID g = fd_TenantID f \<and> fd_Designation g = fd_Designation f \<and> fd_Enabled g);
          flows = (if fd_Enabled f then map (\<lambda>(k, g). (k, if rival k g then g\<lparr>fd_Enabled := False\<rparr> else g)) (at_flows s)
                   else at_flows s)
      in s\<lparr>at_flows := tab_put (fd_ID f) f flows\<rparr>)"

definition ListFlows :: "string \<Rightarrow> authn_store \<Rightarrow> FlowDefinition list" where
  "ListFlows tenantID s =
     sort_slice (\<lambda>a b. fd_Slug a < fd_Slug b) (filter (\<lambda>f. fd_TenantID f = tenantID) (tab_rows (at_flows s)))"

definition GetFlow :: "string \<Rightarrow> string \<Rightarrow> authn_store \<Rightarrow> FlowDefinition option" where
  "GetFlow tenantID i s = own_row fd_TenantID tenantID i (at_flows s)"

text \<open>The most recently updated of the enabled flows.\<close>

definition GetEnabledFlow :: "string \<Rightarrow> string \<Rightarrow> authn_store \<Rightarrow> FlowDefinition option" where
  "GetEnabledFlow tenantID designation s =
     fold (\<lambda>f best. if fd_TenantID f \<noteq> tenantID \<or> fd_Designation f \<noteq> designation \<or> \<not> fd_Enabled f then best
                    else case best of None \<Rightarrow> Some f | Some b \<Rightarrow> if fd_UpdatedAt b < fd_UpdatedAt f then Some f else Some b)
       (tab_rows (at_flows s)) None"

definition DeleteFlow :: "string \<Rightarrow> string \<Rightarrow> authn_store \<Rightarrow> authn_store option" where
  "DeleteFlow tenantID i s =
     (case GetFlow tenantID i s of
        None \<Rightarrow> None
      | Some f \<Rightarrow> Some (s\<lparr>at_flows := tab_del i (at_flows s)\<rparr>))"

definition RecordAdviceCall :: "AdviceCall \<Rightarrow> authn_store \<Rightarrow> authn_store" where
  "RecordAdviceCall c s = s\<lparr>at_adviceLog := at_adviceLog s @ [c]\<rparr>"

definition ListAdviceCalls :: "string \<Rightarrow> string \<Rightarrow> int \<Rightarrow> authn_store \<Rightarrow> AdviceCall list" where
  "ListAdviceCalls tenantID userID limit s =
     newest (if limit \<le> 0 then 200 else limit)
       (\<lambda>c. (tenantID = [] \<or> av_TenantID c = tenantID) \<and> (userID = [] \<or> av_UserID c = userID)) (at_adviceLog s)"

definition GetAdviceCall :: "string \<Rightarrow> string \<Rightarrow> authn_store \<Rightarrow> AdviceCall option" where
  "GetAdviceCall tenantID transactionID s =
     find (\<lambda>c. av_ID c = transactionID \<and> av_TenantID c = tenantID) (at_adviceLog s)"

fun complete_first :: "(AdviceCall \<Rightarrow> bool) \<Rightarrow> (AdviceCall \<Rightarrow> AdviceCall) \<Rightarrow> AdviceCall list \<Rightarrow> AdviceCall list" where
  "complete_first P f [] = []"
| "complete_first P f (c # cs) = (if P c then f c # cs else c # complete_first P f cs)"

definition MarkAdviceCallCompleted :: "string \<Rightarrow> string \<Rightarrow> string \<Rightarrow> string \<Rightarrow> time \<Rightarrow> authn_store \<Rightarrow>
    authn_err + authn_store" where
  "MarkAdviceCallCompleted tenantID transactionID userID acr completed s =
     (case GetAdviceCall tenantID transactionID s of
        None \<Rightarrow> Inl NotFound
      | Some c \<Rightarrow>
          if av_CompletedAt c \<noteq> None then Inl Conflict
          else Inr (s\<lparr>at_adviceLog := complete_first (\<lambda>c. av_ID c = transactionID \<and> av_TenantID c = tenantID)
                 (\<lambda>c. c\<lparr>av_CompletedAt := Some completed, av_CompletedUserID := userID, av_CompletedACR := acr\<rparr>)
                 (at_adviceLog s)\<rparr>))"

section \<open>The storage contracts\<close>

interpretation users: tenant_rows us_ID us_TenantID put_user GetUser
  by unfold_locales (auto simp: put_user_def GetUser_def own_row_def table_simps split: option.splits if_splits)

interpretation sessions: tenant_rows_update ss_ID ss_TenantID CreateSession GetSession "UpdateSession now"
    "\<lambda>old x. x\<lparr>ss_CreatedAt := ss_CreatedAt old, ss_UpdatedAt := now\<rparr>" for now
  by unfold_locales
    (auto simp: CreateSession_def GetSession_def UpdateSession_def own_row_def Let_def table_simps split: option.splits if_splits)

interpretation user_pages: keyset_listing us_ID user_before us_CreatedAt
  by unfold_locales (auto simp: user_before_def split: if_splits)

end
