(* ===== verification/AuthnAdmin.thy ===== *)
theory AuthnAdmin
  imports AuthnModel
begin

text \<open>
  authentication-service's tenant-scoped administration (users.go, sessions.go): the user and session
  endpoints, and the reading and writing phases of the session updates, which another request may
  come between.
\<close>

section \<open>Environment and replies\<close>

text \<open>The storage calls of the handlers; \<open>APutToken\<close> has the position of the call in its handler.\<close>

datatype authn_op = ACreateUser | AGetUser | AGetUserByEmail | AListUsers | AUpdateUser | ADeleteUser
  | ACreateSession | AGetSession | AUpdateSession | AListSessions
  | APutToken nat | AGetToken | ARevokeToken | ARevokeFamily | ARevokeFamilies
  | APutAuthCode | AConsumeAuthCode | AGetClient | AGetTenant | AGetTransactionType
  | AGetAdvice | ARecordAdvice | AMarkAdvice | AListMCP | AListIDPs | ARedeemJTI
  | AGetFlow | ARecordSignal | AListSignals | AListAnchors
  | AGetAnchor | ACreateAnchor | ADeleteAnchor | AListClients | APutClient | ADeleteClient
  | AGetTenantBySlug | AListOwned | AProvision | ASetTenant | ASetOwner
  | ACreateTxnType | ADeleteTxnType | ACreateMCP | ASetMCP | ADeleteMCP | ACreateIDP | ASetIDP | ADeleteIDP
  | AUpsertFlow | ADeleteFlow | AGetStaff | APutStaff | AGetRoles | AAddRole
  | AListTenants | AListTxnTypes | AListFlows | AListAdvice

type_synonym authn_env = "authn_op svc_env"

text \<open>What a token response carries: the refresh and the id token may be absent.\<close>

record token_fields =
  tp_access_token :: string
  tp_refresh_token :: "string option"
  tp_id_token :: "string option"
  tp_token_type :: string
  tp_issued_token_type :: "string option"
  tp_expires_in :: int
  tp_scope :: string

record AdviceResponse =
  ar_transaction_id :: string
  ar_tenant_id :: string
  ar_transaction_type :: string
  ar_session_id :: string
  ar_user_id :: string
  ar_device_id :: string
  ar_acr :: string
  ar_band :: string
  ar_name :: string
  ar_rank :: int

text \<open>
  \<open>APage\<close> is the page that asks for a code (flow id, prompt, error message), \<open>AWebAuthn\<close> the passkey
  page (flow id, whether it registers, options, error message), \<open>AOptions\<close> the answer to its script
  (registration id, options).
\<close>

datatype authn_payload =
    AUser User
  | AUsers "User list" "time option"
  | ASession Session
  | ATokens token_fields
  | AUserInfo string string string
  | AKeys "JWK list"
  | ARedirect string
  | APage string string string
  | AWebAuthn string bool "json option" string
  | AOptions string "json option"
  | AAdvice AdviceResponse
  | AEmpty
  | AHealthz

type_synonym authn_reply = "authn_payload reply"

definition invalid_request :: "string \<Rightarrow> authn_reply" where
  "invalid_request m = bad_request ''invalid_request'' m"

definition body_error :: "json_err \<Rightarrow> authn_reply" where
  "body_error err = WriteError StatusBadRequest ''invalid_request'' (ErrText err)"

lemmas admin_reply_defs = invalid_request_def body_error_def reply_defs

text \<open>A read whose failure and whose missing row the handler does not tell apart.\<close>

definition try_op :: "bool \<Rightarrow> 'a option \<Rightarrow> 'a option" where
  "try_op fails res = (if fails then None else res)"

lemma try_op_Some [simp]: "try_op f res = Some a \<longleftrightarrow> \<not> f \<and> res = Some a"
  by (simp add: try_op_def)

lemma try_op_False [simp]: "try_op False res = res"
  by (simp add: try_op_def)

section \<open>Users\<close>

record CreateUserRequest =
  cu_Email :: string
  cu_Name :: string

definition CreateUser_fields :: "CreateUserRequest field list" where
  "CreateUser_fields =
     [into dec_string ''email'' cu_Email cu_Email_update, into dec_string ''name'' cu_Name cu_Name_update]"

text \<open>
  \<open>strings.ToLower\<close>: the letters A to Z of an ASCII string; what it makes of other strings, by the tables
  of Unicode, is the parameter \<open>uni\<close>.
\<close>

definition ToLower :: "(string \<Rightarrow> string) \<Rightarrow> string \<Rightarrow> string" where
  "ToLower uni s = (if list_all (\<lambda>c. byte_val c < 128) s then map lower_char s else uni s)"

definition clean_email :: "(string \<Rightarrow> string) \<Rightarrow> string \<Rightarrow> string" where
  "clean_email uni s = TrimSpace (ToLower uni s)"

definition users_create :: "(string \<Rightarrow> string) \<Rightarrow> authn_env \<Rightarrow> string option \<Rightarrow> body \<Rightarrow> authn_store \<Rightarrow>
    authn_reply \<times> authn_store" where
  "users_create uni e tenant b s =
     (case tenant of
        None \<Rightarrow> (no_tenant, s)
      | Some tenantID \<Rightarrow>
          (case ReadJSON CreateUser_fields \<lparr>cu_Email = [], cu_Name = []\<rparr> b of
             Inl err \<Rightarrow> (body_error err, s)
           | Inr req \<Rightarrow>
               let email = clean_email uni (cu_Email req)
               in if email = [] \<or> \<not> has_substring email ''@''
                  then (invalid_request ''email is required and must be a valid address'', s)
                  else if op_fails e ACreateUser then (internal ''failed to create user'', s)
                  else
                    let now = now_at e 0;
                        u = \<lparr>us_ID = ''usr_'' @ new_id e 0, us_TenantID = tenantID, us_Email = email,
                             us_Name = TrimSpace (cu_Name req), us_CreatedAt = now, us_UpdatedAt = now\<rparr>
                    in case CreateUser u s of
                         Inl err \<Rightarrow>
                           (if err = Conflict
                            then WriteError StatusConflict ''user_exists'' (Lit ''a user with that email already exists'')
                            else internal ''failed to create user'', s)
                       | Inr s' \<Rightarrow> (WriteJSON StatusCreated (AUser u), s')))"

definition users_list :: "authn_env \<Rightarrow> string option \<Rightarrow> string \<Rightarrow> cursor_param \<Rightarrow> authn_store \<Rightarrow>
    authn_reply \<times> authn_store" where
  "users_list e tenant q_limit q_cursor s =
     (case tenant of
        None \<Rightarrow> (no_tenant, s)
      | Some tenantID \<Rightarrow>
          (case list_query q_limit q_cursor of
             Inl err \<Rightarrow> (err, s)
           | Inr (limit, cursor) \<Rightarrow>
               if op_fails e AListUsers then (internal ''failed to list users'', s)
               else let us = ListUsers tenantID limit cursor s
                    in (WriteJSON StatusOK (AUsers us (next_cursor us_CreatedAt limit us)), s)))"

definition users_get :: "authn_env \<Rightarrow> string option \<Rightarrow> string \<Rightarrow> authn_store \<Rightarrow> authn_reply \<times> authn_store" where
  "users_get e tenant i s =
     (case tenant of
        None \<Rightarrow> (no_tenant, s)
      | Some tenantID \<Rightarrow>
          (case try_op (op_fails e AGetUser) (GetUser tenantID i s) of
             None \<Rightarrow> (no_such ''user not found'', s)
           | Some u \<Rightarrow> (WriteJSON StatusOK (AUser u), s)))"

text \<open>The non-empty members of the patch; \<open>None\<close> when the email is not an address.\<close>

definition patch_user :: "(string \<Rightarrow> string) \<Rightarrow> CreateUserRequest \<Rightarrow> User \<Rightarrow> User option" where
  "patch_user uni req u =
     (let email = clean_email uni (cu_Email req)
      in if cu_Email req \<noteq> [] \<and> \<not> has_substring email ''@'' then None
         else
           let u = (if cu_Email req \<noteq> [] then u\<lparr>us_Email := email\<rparr> else u)
           in Some (if cu_Name req \<noteq> [] then u\<lparr>us_Name := TrimSpace (cu_Name req)\<rparr> else u))"

definition users_patch :: "(string \<Rightarrow> string) \<Rightarrow> authn_env \<Rightarrow> string option \<Rightarrow> string \<Rightarrow> body \<Rightarrow> authn_store \<Rightarrow>
    authn_reply \<times> authn_store" where
  "users_patch uni e tenant i b s =
     (case tenant of
        None \<Rightarrow> (no_tenant, s)
      | Some tenantID \<Rightarrow>
          (case ReadJSON CreateUser_fields \<lparr>cu_Email = [], cu_Name = []\<rparr> b of
             Inl err \<Rightarrow> (body_error err, s)
           | Inr req \<Rightarrow>
               (case try_op (op_fails e AGetUser) (GetUser tenantID i s) of
                  None \<Rightarrow> (no_such ''user not found'', s)
                | Some existing \<Rightarrow>
                    (case patch_user uni req existing of
                       None \<Rightarrow> (invalid_request ''email must be a valid address'', s)
                     | Some u \<Rightarrow>
                         if op_fails e AUpdateUser then (internal ''failed to update user'', s)
                         else (case UpdateUser (now_at e 0) u s of
                                 Inl err \<Rightarrow>
                                   (if err = Conflict
                                    then WriteError StatusConflict ''user_exists'' (Lit ''a user with that email already exists'')
                                    else internal ''failed to update user'', s)
                               | Inr (updated, s') \<Rightarrow> (WriteJSON StatusOK (AUser updated), s'))))))"

definition users_delete :: "authn_env \<Rightarrow> string option \<Rightarrow> string \<Rightarrow> authn_store \<Rightarrow> authn_reply \<times> authn_store" where
  "users_delete e tenant i s =
     (case tenant of
        None \<Rightarrow> (no_tenant, s)
      | Some tenantID \<Rightarrow>
          (case try_op (op_fails e ADeleteUser) (DeleteUser tenantID i s) of
             None \<Rightarrow> (no_such ''user not found'', s)
           | Some s' \<Rightarrow> (NoContent, s')))"

section \<open>Sessions\<close>

record CreateSessionRequest =
  qs_UserID :: string
  qs_RiskLevel :: string
  qs_StepUpCompleted :: bool

definition no_session_request :: CreateSessionRequest where
  "no_session_request = \<lparr>qs_UserID = [], qs_RiskLevel = [], qs_StepUpCompleted = False\<rparr>"

definition CreateSession_fields :: "CreateSessionRequest field list" where
  "CreateSession_fields =
     [into dec_string ''user_id'' qs_UserID qs_UserID_update,
      into dec_string ''risk_level'' qs_RiskLevel qs_RiskLevel_update,
      into dec_bool ''step_up_completed'' qs_StepUpCompleted qs_StepUpCompleted_update]"

definition UpgradeSession_fields :: "CreateSessionRequest field list" where
  "UpgradeSession_fields =
     [into dec_string ''risk_level'' qs_RiskLevel qs_RiskLevel_update,
      into dec_bool ''step_up_completed'' qs_StepUpCompleted qs_StepUpCompleted_update]"

definition session_for :: "string \<Rightarrow> string \<Rightarrow> string \<Rightarrow> string \<Rightarrow> bool \<Rightarrow> time \<Rightarrow> Session" where
  "session_for i tenantID userID riskLevel stepUp now =
     \<lparr>ss_ID = i, ss_TenantID = tenantID, ss_UserID = userID, ss_RiskLevel = riskLevel, ss_StepUpCompleted = stepUp,
      ss_CreatedAt = now, ss_UpdatedAt = now, ss_ExpiresAt = now + SessionTTLSeconds * Second, ss_InvalidatedAt = None\<rparr>"

definition sessions_create :: "authn_env \<Rightarrow> string option \<Rightarrow> body \<Rightarrow> authn_store \<Rightarrow> authn_reply \<times> authn_store" where
  "sessions_create e tenant b s =
     (case tenant of
        None \<Rightarrow> (no_tenant, s)
      | Some tenantID \<Rightarrow>
          (case ReadJSON CreateSession_fields no_session_request b of
             Inl err \<Rightarrow> (body_error err, s)
           | Inr req \<Rightarrow>
               let riskLevel = (if qs_RiskLevel req = [] then RiskLow else qs_RiskLevel req)
               in if qs_UserID req = [] then (invalid_request ''user_id is required'', s)
                  else if \<not> ValidRiskLevel riskLevel
                  then (invalid_request ''risk_level must be one of low|medium|high'', s)
                  else if try_op (op_fails e AGetUser) (GetUser tenantID (qs_UserID req) s) = None
                  then (invalid_request ''user_id not found in tenant'', s)
                  else if op_fails e ACreateSession then (internal ''failed to create session'', s)
                  else
                    let x = session_for (''ses_'' @ new_id e 0) tenantID (qs_UserID req) riskLevel
                              (qs_StepUpCompleted req) (now_at e 0)
                    in (WriteJSON StatusCreated (ASession x), CreateSession x s)))"

definition sessions_get :: "authn_env \<Rightarrow> string option \<Rightarrow> string \<Rightarrow> authn_store \<Rightarrow> authn_reply \<times> authn_store" where
  "sessions_get e tenant i s =
     (case tenant of
        None \<Rightarrow> (no_tenant, s)
      | Some tenantID \<Rightarrow>
          (case try_op (op_fails e AGetSession) (GetSession tenantID i s) of
             None \<Rightarrow> (no_such ''session not found'', s)
           | Some x \<Rightarrow> (WriteJSON StatusOK (ASession x), s)))"

text \<open>
  Refresh, Upgrade and Invalidate read the session and write it back: the reading phase answers the
  request or yields the row to write, the writing phase stores that row.
\<close>

definition read_live :: "authn_env \<Rightarrow> string \<Rightarrow> string \<Rightarrow> authn_store \<Rightarrow> authn_reply + Session" where
  "read_live e tenantID i s =
     (case try_op (op_fails e AGetSession) (GetSession tenantID i s) of
        None \<Rightarrow> Inl (no_such ''session not found'')
      | Some x \<Rightarrow>
          if ss_InvalidatedAt x \<noteq> None
          then Inl (WriteError StatusConflict ''session_invalidated'' (Lit ''session has been invalidated''))
          else Inr x)"

definition refresh_read :: "authn_env \<Rightarrow> string \<Rightarrow> string \<Rightarrow> authn_store \<Rightarrow> authn_reply + Session" where
  "refresh_read e tenantID i s =
     (case read_live e tenantID i s of
        Inl err \<Rightarrow> Inl err
      | Inr x \<Rightarrow> Inr (x\<lparr>ss_ExpiresAt := now_at e 0 + SessionTTLSeconds * Second\<rparr>))"

definition upgrade_read :: "authn_env \<Rightarrow> string \<Rightarrow> string \<Rightarrow> body \<Rightarrow> authn_store \<Rightarrow> authn_reply + Session" where
  "upgrade_read e tenantID i b s =
     (case ReadJSON UpgradeSession_fields no_session_request b of
        Inl err \<Rightarrow> Inl (body_error err)
      | Inr req \<Rightarrow>
          (case read_live e tenantID i s of
             Inl err \<Rightarrow> Inl err
           | Inr x \<Rightarrow>
               if qs_RiskLevel req \<noteq> [] \<and> \<not> ValidRiskLevel (qs_RiskLevel req)
               then Inl (invalid_request ''risk_level must be one of low|medium|high'')
               else Inr (x\<lparr>ss_RiskLevel := (if qs_RiskLevel req \<noteq> [] then qs_RiskLevel req else ss_RiskLevel x),
                           ss_StepUpCompleted := qs_StepUpCompleted req\<rparr>)))"

definition invalidate_read :: "authn_env \<Rightarrow> string \<Rightarrow> string \<Rightarrow> authn_store \<Rightarrow> authn_reply + Session" where
  "invalidate_read e tenantID i s =
     (case try_op (op_fails e AGetSession) (GetSession tenantID i s) of
        None \<Rightarrow> Inl (no_such ''session not found'')
      | Some x \<Rightarrow> if ss_InvalidatedAt x \<noteq> None then Inl NoContent else Inr (x\<lparr>ss_InvalidatedAt := Some (now_at e 0)\<rparr>))"

definition write_session :: "string \<Rightarrow> (Session \<Rightarrow> authn_reply) \<Rightarrow> authn_env \<Rightarrow> Session \<Rightarrow> authn_store \<Rightarrow>
    authn_reply \<times> authn_store" where
  "write_session failure ok e x s =
     (case try_op (op_fails e AUpdateSession) (UpdateSession (now_at e 1) x s) of
        None \<Rightarrow> (internal failure, s)
      | Some (updated, s') \<Rightarrow> (ok updated, s'))"

definition refresh_write :: "authn_env \<Rightarrow> Session \<Rightarrow> authn_store \<Rightarrow> authn_reply \<times> authn_store" where
  "refresh_write = write_session ''failed to refresh session'' (\<lambda>x. WriteJSON StatusOK (ASession x))"

definition upgrade_write :: "authn_env \<Rightarrow> Session \<Rightarrow> authn_store \<Rightarrow> authn_reply \<times> authn_store" where
  "upgrade_write = write_session ''failed to upgrade session'' (\<lambda>x. WriteJSON StatusOK (ASession x))"

definition invalidate_write :: "authn_env \<Rightarrow> Session \<Rightarrow> authn_store \<Rightarrow> authn_reply \<times> authn_store" where
  "invalidate_write = write_session ''failed to invalidate session'' (\<lambda>x. NoContent)"

definition read_write :: "(string \<Rightarrow> authn_store \<Rightarrow> authn_reply + Session) \<Rightarrow>
    (Session \<Rightarrow> authn_store \<Rightarrow> authn_reply \<times> authn_store) \<Rightarrow> string option \<Rightarrow> authn_store \<Rightarrow> authn_reply \<times> authn_store" where
  "read_write rd wr tenant s =
     (case tenant of
        None \<Rightarrow> (no_tenant, s)
      | Some tenantID \<Rightarrow> (case rd tenantID s of Inl err \<Rightarrow> (err, s) | Inr x \<Rightarrow> wr x s))"

definition sessions_refresh :: "authn_env \<Rightarrow> string option \<Rightarrow> string \<Rightarrow> authn_store \<Rightarrow> authn_reply \<times> authn_store" where
  "sessions_refresh e tenant i = read_write (\<lambda>t. refresh_read e t i) (refresh_write e) tenant"

definition sessions_upgrade :: "authn_env \<Rightarrow> string option \<Rightarrow> string \<Rightarrow> body \<Rightarrow> authn_store \<Rightarrow> authn_reply \<times> authn_store" where
  "sessions_upgrade e tenant i b = read_write (\<lambda>t. upgrade_read e t i b) (upgrade_write e) tenant"

definition sessions_invalidate :: "authn_env \<Rightarrow> string option \<Rightarrow> string \<Rightarrow> authn_store \<Rightarrow> authn_reply \<times> authn_store" where
  "sessions_invalidate e tenant i = read_write (\<lambda>t. invalidate_read e t i) (invalidate_write e) tenant"

section \<open>The tenant-scoped routes\<close>

datatype authn_admin_route =
    UsersCreate body
  | UsersList string cursor_param
  | UsersGet string
  | UsersPatch string body
  | UsersDelete string
  | SessionsCreate body
  | SessionsGet string
  | SessionsRefresh string
  | SessionsInvalidate string
  | SessionsUpgrade string body

fun authn_v1 :: "(string \<Rightarrow> string) \<Rightarrow> authn_env \<Rightarrow> authn_admin_route \<Rightarrow> string option \<Rightarrow> authn_store \<Rightarrow>
    authn_reply \<times> authn_store" where
  "authn_v1 uni e (UsersCreate b) t s = users_create uni e t b s"
| "authn_v1 uni e (UsersList l c) t s = users_list e t l c s"
| "authn_v1 uni e (UsersGet i) t s = users_get e t i s"
| "authn_v1 uni e (UsersPatch i b) t s = users_patch uni e t i b s"
| "authn_v1 uni e (UsersDelete i) t s = users_delete e t i s"
| "authn_v1 uni e (SessionsCreate b) t s = sessions_create e t b s"
| "authn_v1 uni e (SessionsGet i) t s = sessions_get e t i s"
| "authn_v1 uni e (SessionsRefresh i) t s = sessions_refresh e t i s"
| "authn_v1 uni e (SessionsInvalidate i) t s = sessions_invalidate e t i s"
| "authn_v1 uni e (SessionsUpgrade i b) t s = sessions_upgrade e t i b s"

end
