(* ===== verification/AuthnTokens.thy ===== *)
theory AuthnTokens
  imports AuthnAdmin
begin

text \<open>
  authentication-service's token surface (oidc.go): the authorization_code and refresh_token grants,
  revocation and userinfo.  A grant is split where it reads and where it writes, so that requests can
  be interleaved there.
\<close>

section \<open>Configuration and form\<close>

text \<open>
  \<open>ag_url\<close> and \<open>ag_location\<close> are \<open>net/url\<close>: whether a URL parses, and then whether it is absolute, and the
  URL with query parameters set.  \<open>ag_unicode_lower\<close> is \<open>strings.ToLower\<close> outside ASCII.
\<close>

record authn_cfg =
  ag_jwt :: jwt_lib
  ag_Signer :: Signer
  ag_Verifier :: Verifier
  ag_JWTIssuer :: string
  ag_DevAutologin :: bool
  ag_FlowEngine :: bool
  ag_StepUpFreshness :: duration
  ag_EventsURL :: string
  ag_InternalSecret :: string
  ag_url :: "string \<Rightarrow> bool option"
  ag_location :: "string \<Rightarrow> (string \<times> string) list \<Rightarrow> string"
  ag_unicode_lower :: "string \<Rightarrow> string"

definition is_absolute :: "authn_cfg \<Rightarrow> string \<Rightarrow> bool" where
  "is_absolute cfg u \<longleftrightarrow> ag_url cfg u = Some True"

text \<open>The posted form of /token and /revoke, with the HTTP Basic credentials when there are any.\<close>

record grant_form =
  gf_basic :: "(string \<times> string) option"
  gf_grant_type :: string
  gf_client_id :: string
  gf_client_secret :: string
  gf_code :: string
  gf_redirect_uri :: string
  gf_code_verifier :: string
  gf_refresh_token :: string
  gf_scope :: string
  gf_requested_token_type :: string
  gf_subject_token :: string
  gf_subject_token_type :: string
  gf_resource :: string
  gf_audience :: string
  gf_assertion :: string

definition invalid_grant :: "string \<Rightarrow> authn_reply" where
  "invalid_grant m = bad_request ''invalid_grant'' m"

definition invalid_client :: authn_reply where
  "invalid_client = WriteError StatusUnauthorized ''invalid_client'' (Lit ''client authentication failed'')"

definition invalid_token :: "string \<Rightarrow> authn_reply" where
  "invalid_token m = WriteError StatusUnauthorized ''invalid_token'' (Lit m)"

lemmas grant_reply_defs = invalid_grant_def invalid_client_def invalid_token_def admin_reply_defs

definition extractClientCreds :: "authn_cfg \<Rightarrow> authn_env \<Rightarrow> grant_form \<Rightarrow> authn_store \<Rightarrow> string option" where
  "extractClientCreds cfg e f s =
     (let (clientID, clientSecret) = (case gf_basic f of Some cred \<Rightarrow> cred | None \<Rightarrow> (gf_client_id f, gf_client_secret f))
      in if clientID = [] then Some []
         else (case try_op (op_fails e AGetClient) (GetClient clientID s) of
                 None \<Rightarrow> None
               | Some client \<Rightarrow>
                   if oc_ClientSecretHash client = [] then Some clientID
                   else if clientSecret = [] \<or> HashToken (ag_jwt cfg) clientSecret \<noteq> oc_ClientSecretHash client then None
                   else Some clientID))"

definition verifyPKCES256 :: "jwt_lib \<Rightarrow> string \<Rightarrow> string \<Rightarrow> bool" where
  "verifyPKCES256 lib challenge verifier \<longleftrightarrow>
     challenge \<noteq> [] \<and> verifier \<noteq> [] \<and> b64_encode (jl_sha256 lib verifier) = challenge"

definition scopeContains :: "string \<Rightarrow> string \<Rightarrow> bool" where
  "scopeContains scope want \<longleftrightarrow> want \<in> set (Fields scope)"

section \<open>Issuing tokens\<close>

definition unix_of :: "time \<Rightarrow> int" where
  "unix_of t = t div Second - 62135596800"

definition access_claims :: "authn_cfg \<Rightarrow> string \<Rightarrow> Session \<Rightarrow> string \<Rightarrow> string \<Rightarrow> time \<Rightarrow> Claims" where
  "access_claims cfg jti sess scope clientID now =
     no_claims\<lparr>jc_Sub := ss_UserID sess, jc_Iss := ag_JWTIssuer cfg, jc_Aud := clientID,
       jc_Exp := unix_of (now + AccessTokenTTLSeconds * Second), jc_Iat := unix_of now, jc_JTI := jti,
       jc_TenantID := ss_TenantID sess, jc_Scope := scope, jc_SessionID := ss_ID sess\<rparr>"

definition token_row :: "authn_cfg \<Rightarrow> string \<Rightarrow> string \<Rightarrow> int \<Rightarrow> Session \<Rightarrow> string \<Rightarrow> string \<Rightarrow> string \<Rightarrow> time \<Rightarrow> Token" where
  "token_row cfg plain typ ttl sess scope clientID familyID now =
     \<lparr>to_TokenHash = HashToken (ag_jwt cfg) plain, to_SessionID = ss_ID sess, to_UserID = ss_UserID sess,
      to_TenantID = ss_TenantID sess, to_ClientID = clientID, to_FamilyID = familyID, to_TokenType = typ,
      to_Scope = scope, to_IssuedAt = now, to_ExpiresAt = now + ttl * Second, to_RevokedAt = None\<rparr>"

text \<open>
  \<open>i\<close> and \<open>n\<close> are the positions of the clock reading and of the two uuids in the handler.  The access
  record stays when the refresh record cannot be stored.
\<close>

definition issueTokenPair :: "authn_cfg \<Rightarrow> authn_env \<Rightarrow> nat \<Rightarrow> nat \<Rightarrow> Session \<Rightarrow> string \<Rightarrow> string \<Rightarrow> string \<Rightarrow> authn_store \<Rightarrow>
    (string \<times> string) option \<times> authn_store" where
  "issueTokenPair cfg e i n sess scope clientID familyID s =
     (let now = now_at e i
      in case Sign (ag_jwt cfg) (ag_Signer cfg) (access_claims cfg (new_id e n) sess scope clientID now) [] of
           None \<Rightarrow> (None, s)
         | Some accessPlain \<Rightarrow>
             let refreshPlain = new_id e (n + 1);
                 accessRec = token_row cfg accessPlain TokenTypeAccess AccessTokenTTLSeconds sess scope clientID familyID now;
                 refreshRec = token_row cfg refreshPlain TokenTypeRefresh RefreshTokenTTLSeconds sess scope clientID familyID now
             in if op_fails e (APutToken 0) then (None, s)
                else if op_fails e (APutToken 1) then (None, PutToken accessRec s)
                else (Some (accessPlain, refreshPlain), PutToken refreshRec (PutToken accessRec s)))"

definition issueIDToken :: "authn_cfg \<Rightarrow> authn_env \<Rightarrow> Session \<Rightarrow> AuthCode \<Rightarrow> string option" where
  "issueIDToken cfg e sess ac =
     Sign (ag_jwt cfg) (ag_Signer cfg)
       (no_claims\<lparr>jc_Sub := ss_UserID sess, jc_Iss := ag_JWTIssuer cfg, jc_Aud := ac_ClientID ac,
          jc_Exp := unix_of (now_at e 3 + AccessTokenTTLSeconds * Second), jc_Iat := unix_of (now_at e 3),
          jc_TenantID := ss_TenantID sess, jc_Nonce := ac_Nonce ac, jc_ACR := ac_ACR ac, jc_AMR := ac_AMR ac\<rparr>)
       (omit_str ''transaction_id'' (ac_TransactionID ac))"

definition bearer_reply :: "string \<Rightarrow> string option \<Rightarrow> string option \<Rightarrow> string \<Rightarrow> authn_reply" where
  "bearer_reply access refresh idToken scope =
     WriteJSON StatusOK (ATokens \<lparr>tp_access_token = access, tp_refresh_token = refresh, tp_id_token = idToken,
       tp_token_type = ''Bearer'', tp_issued_token_type = None, tp_expires_in = AccessTokenTTLSeconds, tp_scope = scope\<rparr>)"

section \<open>The code grant\<close>

definition code_refused :: "authn_cfg \<Rightarrow> time \<Rightarrow> string \<Rightarrow> grant_form \<Rightarrow> AuthCode \<Rightarrow> authn_reply option" where
  "code_refused cfg now clientID f ac =
     (if clientID \<noteq> [] \<and> clientID \<noteq> ac_ClientID ac then Some (bad_request ''invalid_client'' ''client_id mismatch'')
      else if AuthCodeTTLSeconds * Second < now - ac_CreatedAt ac then Some (invalid_grant ''code expired'')
      else if gf_redirect_uri f \<noteq> [] \<and> gf_redirect_uri f \<noteq> ac_RedirectURI ac then Some (invalid_grant ''redirect_uri mismatch'')
      else if \<not> verifyPKCES256 (ag_jwt cfg) (ac_CodeChallenge ac) (gf_code_verifier f)
      then Some (invalid_grant ''code_verifier does not match code_challenge'')
      else None)"

definition code_session :: "authn_env \<Rightarrow> AuthCode \<Rightarrow> Session" where
  "code_session e ac = session_for (''ses_'' @ new_id e 0) (ac_TenantID ac) (ac_UserID ac) RiskLow (ac_AMR ac \<noteq> []) (now_at e 1)"

definition code_grant_issue :: "authn_cfg \<Rightarrow> authn_env \<Rightarrow> AuthCode \<Rightarrow> authn_store \<Rightarrow> authn_reply \<times> authn_store" where
  "code_grant_issue cfg e ac s =
     (let sess = code_session e ac
      in if op_fails e ACreateSession then (internal ''failed to issue session'', s)
         else (case issueTokenPair cfg e 2 2 sess (ac_Scope ac) (ac_ClientID ac) (''fam_'' @ new_id e 1) (CreateSession sess s) of
            (None, s) \<Rightarrow> (internal ''failed to issue tokens'', s)
          | (Some (access, refresh), s) \<Rightarrow>
              if scopeContains (ac_Scope ac) ''openid''
              then (case issueIDToken cfg e sess ac of
                      None \<Rightarrow> (internal ''failed to issue id_token'', s)
                    | Some idToken \<Rightarrow> (bearer_reply access (Some refresh) (Some idToken) (ac_Scope ac), s))
              else (bearer_reply access (Some refresh) None (ac_Scope ac), s)))"

definition handleCodeGrant :: "authn_cfg \<Rightarrow> authn_env \<Rightarrow> grant_form \<Rightarrow> authn_store \<Rightarrow> authn_reply \<times> authn_store" where
  "handleCodeGrant cfg e f s =
     (if gf_code f = [] then (invalid_request ''code is required'', s)
      else if gf_code_verifier f = [] then (invalid_request ''code_verifier is required (PKCE, RFC 7636)'', s)
      else (case extractClientCreds cfg e f s of
         None \<Rightarrow> (invalid_client, s)
       | Some clientID \<Rightarrow>
           (case try_op (op_fails e AConsumeAuthCode) (ConsumeAuthCode (gf_code f) s) of
              None \<Rightarrow> (invalid_grant ''code is invalid or already used'', s)
            | Some (ac, s) \<Rightarrow>
                (case code_refused cfg (now_at e 0) clientID f ac of
                   Some err \<Rightarrow> (err, s)
                 | None \<Rightarrow> code_grant_issue cfg e ac s))))"

section \<open>The refresh grant\<close>

text \<open>A replayed token condemns its family; the family's revocation may fail, which is only logged.\<close>

definition condemn_family :: "authn_env \<Rightarrow> Token \<Rightarrow> authn_store \<Rightarrow> authn_store" where
  "condemn_family e tok s =
     (if op_fails e ARevokeFamily then s else snd (RevokeTokenFamily (now_at e 0) (to_FamilyID tok) s))"

definition refresh_refused :: "time \<Rightarrow> string \<Rightarrow> Token \<Rightarrow> authn_reply option" where
  "refresh_refused now clientID tok =
     (if to_ExpiresAt tok < now then Some (invalid_grant ''refresh token expired'')
      else if clientID \<noteq> [] \<and> to_ClientID tok \<noteq> [] \<and> clientID \<noteq> to_ClientID tok
      then Some (invalid_grant ''refresh token was issued to a different client'')
      else None)"

definition live_session :: "authn_env \<Rightarrow> Token \<Rightarrow> authn_store \<Rightarrow> authn_reply + Session" where
  "live_session e tok s =
     (case try_op (op_fails e AGetSession) (GetSession (to_TenantID tok) (to_SessionID tok) s) of
        None \<Rightarrow> Inl (invalid_grant ''associated session no longer exists'')
      | Some sess \<Rightarrow>
          if ss_InvalidatedAt sess \<noteq> None then Inl (invalid_grant ''associated session invalidated'') else Inr sess)"

text \<open>The reading phase: a reply, or the hash, the client, the token row and the session to go on with.\<close>

definition refresh_grant_read :: "authn_cfg \<Rightarrow> authn_env \<Rightarrow> grant_form \<Rightarrow> authn_store \<Rightarrow>
    (authn_reply + string \<times> string \<times> Token \<times> Session) \<times> authn_store" where
  "refresh_grant_read cfg e f s =
     (if gf_refresh_token f = [] then (Inl (invalid_request ''refresh_token is required''), s)
      else (case extractClientCreds cfg e f s of
         None \<Rightarrow> (Inl invalid_client, s)
       | Some clientID \<Rightarrow>
           let hash = HashToken (ag_jwt cfg) (gf_refresh_token f)
           in (case try_op (op_fails e AGetToken) (GetTokenByHash hash s) of
              None \<Rightarrow> (Inl (invalid_grant ''refresh token not recognised''), s)
            | Some tok \<Rightarrow>
                if to_TokenType tok \<noteq> TokenTypeRefresh then (Inl (invalid_grant ''refresh token not recognised''), s)
                else if to_RevokedAt tok \<noteq> None
                then (Inl (WriteError StatusUnauthorized ''invalid_grant'' (Lit ''refresh token already used - token family revoked'')),
                      condemn_family e tok s)
                else (case refresh_refused (now_at e 1) clientID tok of
                        Some err \<Rightarrow> (Inl err, s)
                      | None \<Rightarrow>
                          (case live_session e tok s of
                             Inl err \<Rightarrow> (Inl err, s)
                           | Inr sess \<Rightarrow> (Inr (hash, clientID, tok, sess), s))))))"

text \<open>The writing phase: the session's new expiry, the spent token's stamp, the new pair.\<close>

definition refresh_grant_write :: "authn_cfg \<Rightarrow> authn_env \<Rightarrow> string \<times> string \<times> Token \<times> Session \<Rightarrow> authn_store \<Rightarrow>
    authn_reply \<times> authn_store" where
  "refresh_grant_write cfg e p s =
     (let (hash, clientID, tok, sess) = p;
          sess = sess\<lparr>ss_ExpiresAt := now_at e 2 + SessionTTLSeconds * Second\<rparr>
      in case try_op (op_fails e AUpdateSession) (UpdateSession (now_at e 3) sess s) of
           None \<Rightarrow> (internal ''failed to extend session'', s)
         | Some (_, s) \<Rightarrow>
             let s = (case try_op (op_fails e ARevokeToken) (RevokeTokenByHash (now_at e 4) hash s) of
                        None \<Rightarrow> s | Some s \<Rightarrow> s);
                 aud = (if to_ClientID tok = [] then clientID else to_ClientID tok)
             in (case issueTokenPair cfg e 5 0 sess (to_Scope tok) aud (to_FamilyID tok) s of
                   (None, s) \<Rightarrow> (internal ''failed to issue tokens'', s)
                 | (Some (access, refresh), s) \<Rightarrow> (bearer_reply access (Some refresh) None (to_Scope tok), s)))"

definition handleRefreshGrant :: "authn_cfg \<Rightarrow> authn_env \<Rightarrow> grant_form \<Rightarrow> authn_store \<Rightarrow> authn_reply \<times> authn_store" where
  "handleRefreshGrant cfg e f s =
     (case refresh_grant_read cfg e f s of
        (Inl err, s) \<Rightarrow> (err, s)
      | (Inr p, s) \<Rightarrow> refresh_grant_write cfg e p s)"

section \<open>Revocation and userinfo\<close>

text \<open>An unknown token and a failing storage are acknowledged all the same.\<close>

definition RevokeEndpoint :: "authn_cfg \<Rightarrow> authn_env \<Rightarrow> string option \<Rightarrow> authn_store \<Rightarrow> authn_reply \<times> authn_store" where
  "RevokeEndpoint cfg e form s =
     (case form of
        None \<Rightarrow> (invalid_request ''could not parse form body'', s)
      | Some token \<Rightarrow>
          if token = [] then (invalid_request ''token is required'', s)
          else (WriteJSON StatusOK AEmpty,
                (case try_op (op_fails e ARevokeToken) (RevokeTokenByHash (now_at e 0) (HashToken (ag_jwt cfg) token) s) of
                   None \<Rightarrow> s | Some s' \<Rightarrow> s')))"

definition UserInfo :: "authn_cfg \<Rightarrow> authn_env \<Rightarrow> string \<Rightarrow> authn_store \<Rightarrow> authn_reply" where
  "UserInfo cfg e auth s =
     (if \<not> starts_with auth ''Bearer '' then invalid_token ''bearer token required''
      else
        let plain = drop (length ''Bearer '') auth
        in case VerifyToken (ag_jwt cfg) (ag_Verifier cfg) plain (now_at e 0) of
             Inl err \<Rightarrow> invalid_token ''token signature or claims invalid''
           | Inr claims \<Rightarrow>
               (case try_op (op_fails e AGetToken) (GetTokenByHash (HashToken (ag_jwt cfg) plain) s) of
                  None \<Rightarrow> invalid_token ''token unknown''
                | Some tok \<Rightarrow>
                    if to_TokenType tok \<noteq> TokenTypeAccess then invalid_token ''token unknown''
                    else if to_RevokedAt tok \<noteq> None then invalid_token ''token revoked''
                    else if to_ExpiresAt tok < now_at e 1 then invalid_token ''token expired''
                    else (case try_op (op_fails e AGetUser) (GetUser (to_TenantID tok) (to_UserID tok) s) of
                            None \<Rightarrow> invalid_token ''user no longer exists''
                          | Some u \<Rightarrow> WriteJSON StatusOK (AUserInfo (us_ID u) (us_Email u) (us_Name u)))))"

end
