(* ===== verification/AuthnIDJAG.thy ===== *)
theory AuthnIDJAG
  imports AuthnTokens
begin

text \<open>
  Cross-App Access in authentication-service: the token-exchange grant that issues an ID-JAG identity
  assertion (idjag.go), the jwt-bearer grant that redeems one and the cache of the identity
  providers' keys (idjag_redemption.go), and the dispatch of /token (oidc.go).
\<close>

section \<open>Constants and token parts\<close>

definition GrantTypeTokenExchange :: string where
  "GrantTypeTokenExchange = ''urn:ietf:params:oauth:grant-type:token-exchange''"

definition GrantTypeJWTBearer :: string where
  "GrantTypeJWTBearer = ''urn:ietf:params:oauth:grant-type:jwt-bearer''"

definition TokenTypeIDJAG :: string where
  "TokenTypeIDJAG = ''urn:ietf:params:oauth:token-type:id-jag''"

definition TokenTypeAccessToken :: string where
  "TokenTypeAccessToken = ''urn:ietf:params:oauth:token-type:access_token''"

definition TokenTypeIDToken :: string where
  "TokenTypeIDToken = ''urn:ietf:params:oauth:token-type:id_token''"

definition IDJAGTypeHeader :: string where "IDJAGTypeHeader = ''oauth-id-jag+jwt''"
definition IDJAGTTLSeconds :: int where "IDJAGTTLSeconds = 300"

lemmas idjag_consts = GrantTypeTokenExchange_def GrantTypeJWTBearer_def TokenTypeIDJAG_def
  TokenTypeAccessToken_def TokenTypeIDToken_def IDJAGTypeHeader_def IDJAGTTLSeconds_def

text \<open>One string member of a part of a token, the part being base64url over JSON.\<close>

definition part_member :: "jwt_lib \<Rightarrow> string \<Rightarrow> string \<Rightarrow> string option" where
  "part_member lib member part =
     Option.bind (b64_decode part) (unmarshal_struct lib [(member, dec_string member)] [])"

definition jwtType :: "jwt_lib \<Rightarrow> string \<Rightarrow> string option" where
  "jwtType lib token =
     (let head = takeWhile (\<lambda>c. c \<noteq> CHR ''.'') token
      in if head = [] then None else part_member lib ''typ'' head)"

definition jwtIssuer :: "jwt_lib \<Rightarrow> string \<Rightarrow> string option" where
  "jwtIssuer lib token =
     (case Split CHR ''.'' token of [p0, p1, p2] \<Rightarrow> part_member lib ''iss'' p1 | _ \<Rightarrow> None)"

section \<open>Scopes\<close>

definition grantedScopes :: "string list \<Rightarrow> string list \<Rightarrow> string list option" where
  "grantedScopes authorized requested =
     (if authorized = [] then Some requested
      else if requested = [] then Some authorized
      else if set requested \<subseteq> set authorized then Some requested
      else None)"

definition intersectScopes :: "string list \<Rightarrow> string list \<Rightarrow> string list" where
  "intersectScopes scopes allowed = filter (\<lambda>x. x \<in> set allowed) scopes"

section \<open>Issuance\<close>

definition authorizedMCPServer :: "authn_env \<Rightarrow> string \<Rightarrow> string \<Rightarrow> authn_store \<Rightarrow> MCPServer option" where
  "authorizedMCPServer e tenantID target s =
     (if op_fails e AListMCP then None
      else find (\<lambda>m. mc_ResourceURI m = target \<and> mc_Enabled m) (ListMCPServers tenantID s))"

definition exchange_target :: "grant_form \<Rightarrow> string" where
  "exchange_target f = (if gf_resource f = [] then gf_audience f else gf_resource f)"

definition exchange_malformed :: "authn_cfg \<Rightarrow> grant_form \<Rightarrow> authn_reply option" where
  "exchange_malformed cfg f =
     (if gf_requested_token_type f \<noteq> TokenTypeIDJAG
      then Some (invalid_request (''requested_token_type must be '' @ TokenTypeIDJAG))
      else if gf_subject_token f = [] then Some (invalid_request ''subject_token is required'')
      else if gf_subject_token_type f \<noteq> TokenTypeAccessToken \<and> gf_subject_token_type f \<noteq> TokenTypeIDToken
      then Some (invalid_request ''subject_token_type must be an access_token or id_token issued by this server'')
      else if exchange_target f = [] then Some (invalid_request ''resource (or audience) is required - the target MCP server'')
      else if \<not> is_absolute cfg (exchange_target f) then Some (invalid_request ''resource must be an absolute URI'')
      else None)"

text \<open>The deny list is consulted when the caller declares the subject token an access token.\<close>

definition subject_denied :: "authn_cfg \<Rightarrow> authn_env \<Rightarrow> grant_form \<Rightarrow> authn_store \<Rightarrow> authn_reply option" where
  "subject_denied cfg e f s =
     (if gf_subject_token_type f \<noteq> TokenTypeAccessToken then None
      else (case try_op (op_fails e AGetToken) (GetTokenByHash (HashToken (ag_jwt cfg) (gf_subject_token f)) s) of
              None \<Rightarrow> Some (invalid_grant ''subject_token is unknown'')
            | Some tok \<Rightarrow>
                if to_TokenType tok \<noteq> TokenTypeAccess then Some (invalid_grant ''subject_token is unknown'')
                else if to_RevokedAt tok \<noteq> None \<or> to_ExpiresAt tok < now_at e 1
                then Some (invalid_grant ''subject_token revoked or expired'')
                else None))"

definition subject_claims :: "authn_cfg \<Rightarrow> authn_env \<Rightarrow> grant_form \<Rightarrow> authn_store \<Rightarrow> authn_reply + Claims" where
  "subject_claims cfg e f s =
     (case VerifyToken (ag_jwt cfg) (ag_Verifier cfg) (gf_subject_token f) (now_at e 0) of
        Inl err \<Rightarrow> Inl (invalid_grant ''subject_token is not a valid token issued by this server'')
      | Inr (claims, raw) \<Rightarrow>
          if jwtType (ag_jwt cfg) (gf_subject_token f) \<noteq> Some ''JWT''
          then Inl (invalid_grant ''subject_token must be an access token or ID token'')
          else if jc_TenantID claims = [] \<or> jc_Sub claims = [] \<or> jc_Aud claims = []
          then Inl (invalid_grant ''subject_token is missing tenant, subject, or audience'')
          else (case subject_denied cfg e f s of Some err \<Rightarrow> Inl err | None \<Rightarrow> Inr claims))"

definition assertion_claims :: "authn_cfg \<Rightarrow> authn_env \<Rightarrow> Claims \<Rightarrow> MCPServer \<Rightarrow> string list \<Rightarrow> Claims" where
  "assertion_claims cfg e claims server granted =
     no_claims\<lparr>jc_Sub := jc_Sub claims, jc_Iss := ag_JWTIssuer cfg, jc_Aud := mc_ResourceURI server,
       jc_Exp := unix_of (now_at e 2 + IDJAGTTLSeconds * Second), jc_Iat := unix_of (now_at e 2),
       jc_JTI := new_id e 0, jc_TenantID := jc_TenantID claims, jc_Scope := join '' '' granted\<rparr>"

definition exchange_issue :: "authn_cfg \<Rightarrow> authn_env \<Rightarrow> grant_form \<Rightarrow> Claims \<Rightarrow> authn_store \<Rightarrow> authn_reply" where
  "exchange_issue cfg e f claims s =
     (case extractClientCreds cfg e f s of
        None \<Rightarrow> invalid_client
      | Some authClient \<Rightarrow>
          if authClient \<noteq> [] \<and> jc_Aud claims \<noteq> [] \<and> authClient \<noteq> jc_Aud claims
          then invalid_grant ''subject_token was issued to a different client''
          else (case authorizedMCPServer e (jc_TenantID claims) (exchange_target f) s of
             None \<Rightarrow> bad_request ''invalid_target'' ''resource is not an authorized, enabled MCP server for this tenant''
           | Some server \<Rightarrow>
               (case grantedScopes (mc_Scopes server) (Fields (gf_scope f)) of
                  None \<Rightarrow> bad_request ''invalid_scope'' ''requested scope exceeds what is authorized for this MCP server''
                | Some granted \<Rightarrow>
                    (case SignTyped (ag_jwt cfg) (ag_Signer cfg) (assertion_claims cfg e claims server granted)
                            [(''client_id'', JStr (jc_Aud claims))] IDJAGTypeHeader of
                       None \<Rightarrow> internal ''failed to mint identity assertion''
                     | Some assertion \<Rightarrow>
                         WriteJSON StatusOK (ATokens \<lparr>tp_access_token = assertion, tp_refresh_token = None, tp_id_token = None,
                           tp_token_type = ''N_A'', tp_issued_token_type = Some TokenTypeIDJAG,
                           tp_expires_in = IDJAGTTLSeconds, tp_scope = join '' '' granted\<rparr>)))))"

definition handleTokenExchange :: "authn_cfg \<Rightarrow> authn_env \<Rightarrow> grant_form \<Rightarrow> authn_store \<Rightarrow> authn_reply" where
  "handleTokenExchange cfg e f s =
     (case exchange_malformed cfg f of
        Some err \<Rightarrow> err
      | None \<Rightarrow> (case subject_claims cfg e f s of Inl err \<Rightarrow> err | Inr claims \<Rightarrow> exchange_issue cfg e f claims s))"

section \<open>The identity providers' keys\<close>

text \<open>
  \<open>fetch\<close> is the GET of a key set document in the world the providers live in; \<open>None\<close> is any failure
  up to decoding its JSON.
\<close>

type_synonym 'w fetch_keys = "string \<Rightarrow> 'w \<Rightarrow> JWK list option \<times> 'w"

record 'w idp_state =
  id_vers :: "Verifier table"
  id_world :: 'w

definition cached_verifier :: "'w fetch_keys \<Rightarrow> string \<Rightarrow> string \<Rightarrow> bool \<Rightarrow> 'w idp_state \<Rightarrow> Verifier option \<times> 'w idp_state" where
  "cached_verifier fetch issuer jwksURI force c =
     (let key = issuer @ [CHR 0x00] @ jwksURI
      in case (if force then None else tab_get (id_vers c) key) of
           Some v \<Rightarrow> (Some v, c)
         | None \<Rightarrow>
             (case fetch jwksURI (id_world c) of
                (None, w) \<Rightarrow> (None, c\<lparr>id_world := w\<rparr>)
              | (Some ks, w) \<Rightarrow>
                  (case NewVerifierFromJWKS issuer ks of
                     Inl err \<Rightarrow> (None, c\<lparr>id_world := w\<rparr>)
                   | Inr v \<Rightarrow> (Some v, c\<lparr>id_vers := tab_put key v (id_vers c), id_world := w\<rparr>))))"

definition verify_assertion :: "'w fetch_keys \<Rightarrow> jwt_lib \<Rightarrow> string \<Rightarrow> string \<Rightarrow> string \<Rightarrow> time \<Rightarrow> 'w idp_state \<Rightarrow>
    (Claims \<times> (string \<times> json) list) option \<times> 'w idp_state" where
  "verify_assertion fetch lib issuer jwksURI token now c =
     (case cached_verifier fetch issuer jwksURI False c of
        (None, c) \<Rightarrow> (None, c)
      | (Some v, c) \<Rightarrow>
          (case VerifyToken lib v token now of
             Inr res \<Rightarrow> (Some res, c)
           | Inl err \<Rightarrow>
               (case cached_verifier fetch issuer jwksURI True c of
                  (None, c) \<Rightarrow> (None, c)
                | (Some v, c) \<Rightarrow> (case VerifyToken lib v token now of Inl err \<Rightarrow> (None, c) | Inr res \<Rightarrow> (Some res, c)))))"

section \<open>Redemption\<close>

definition trustedIDP :: "authn_env \<Rightarrow> string \<Rightarrow> string \<Rightarrow> authn_store \<Rightarrow> TrustedIDP option" where
  "trustedIDP e tenantID iss s =
     (if op_fails e AListIDPs then None else find (\<lambda>p. ti_Issuer p = iss \<and> ti_Enabled p) (ListTrustedIDPs tenantID s))"

text \<open>The client, and the identity provider its tenant trusts for the assertion's issuer.\<close>

definition bearer_party :: "authn_cfg \<Rightarrow> authn_env \<Rightarrow> grant_form \<Rightarrow> authn_store \<Rightarrow> authn_reply + OIDCClient \<times> string \<times> TrustedIDP" where
  "bearer_party cfg e f s =
     (if gf_assertion f = [] then Inl (invalid_request ''assertion is required'')
      else if jwtType (ag_jwt cfg) (gf_assertion f) \<noteq> Some IDJAGTypeHeader
      then Inl (invalid_grant (''assertion must be an ID-JAG identity assertion (typ '' @ IDJAGTypeHeader @ '')''))
      else (case extractClientCreds cfg e f s of
         None \<Rightarrow> Inl invalid_client
       | Some clientID \<Rightarrow>
           if clientID = []
           then Inl (WriteError StatusUnauthorized ''invalid_client'' (Lit ''client_id is required for the jwt-bearer grant''))
           else (case try_op (op_fails e AGetClient) (GetClient clientID s) of
              None \<Rightarrow> Inl (WriteError StatusUnauthorized ''invalid_client'' (Lit ''client is not registered''))
            | Some client \<Rightarrow>
                if oc_TenantID client = []
                then Inl (invalid_grant ''client is not bound to a workspace - no trusted-IdP policy applies'')
                else (case jwtIssuer (ag_jwt cfg) (gf_assertion f) of
                   None \<Rightarrow> Inl (invalid_grant ''assertion is missing an issuer'')
                 | Some iss \<Rightarrow>
                     if iss = [] then Inl (invalid_grant ''assertion is missing an issuer'')
                     else (case trustedIDP e (oc_TenantID client) iss s of
                        None \<Rightarrow> Inl (invalid_grant ''assertion issuer is not a trusted identity provider for this workspace'')
                      | Some idp \<Rightarrow> Inr (client, clientID, idp))))))"

definition assertion_refused :: "authn_cfg \<Rightarrow> string \<Rightarrow> Claims \<Rightarrow> (string \<times> json) list \<Rightarrow> authn_reply option" where
  "assertion_refused cfg clientID claims raw =
     (if jc_Aud claims \<noteq> ag_JWTIssuer cfg
      then Some (invalid_grant ''assertion audience must be this authorization server's issuer identifier'')
      else if obj_str raw ''client_id'' \<noteq> clientID then Some (invalid_grant ''assertion was issued to a different client'')
      else if jc_Sub claims = [] then Some (invalid_grant ''assertion is missing a subject'')
      else if jc_JTI claims = [] then Some (invalid_grant ''assertion is missing a jti'')
      else None)"

definition redeemed_scopes :: "TrustedIDP \<Rightarrow> string list \<Rightarrow> string list \<Rightarrow> string list option" where
  "redeemed_scopes idp granted requested =
     (case (if requested = [] then Some granted
            else case grantedScopes granted requested of
                   None \<Rightarrow> None | Some narrowed \<Rightarrow> if granted = [] then None else Some narrowed) of
        None \<Rightarrow> None
      | Some granted \<Rightarrow> Some (if ti_Scopes idp \<noteq> [] then intersectScopes granted (ti_Scopes idp) else granted))"

definition redeem_issue :: "authn_cfg \<Rightarrow> authn_env \<Rightarrow> OIDCClient \<Rightarrow> string \<Rightarrow> Claims \<Rightarrow> string \<Rightarrow> authn_store \<Rightarrow>
    authn_reply \<times> authn_store" where
  "redeem_issue cfg e client clientID claims scope s =
     (if op_fails e ACreateSession then (internal ''failed to issue session'', s)
      else
        let now = now_at e 2;
            sess = session_for (''ses_'' @ new_id e 0) (oc_TenantID client) (jc_Sub claims) RiskLow False now;
            s = CreateSession sess s
        in case Sign (ag_jwt cfg) (ag_Signer cfg) (access_claims cfg (new_id e 1) sess scope clientID now) [] of
             None \<Rightarrow> (internal ''failed to issue access token'', s)
           | Some access \<Rightarrow>
               if op_fails e (APutToken 0) then (internal ''failed to issue access token'', s)
               else (bearer_reply access None None scope,
                     PutToken (token_row cfg access TokenTypeAccess AccessTokenTTLSeconds sess scope clientID
                       (''fam_'' @ new_id e 2) now) s))"

text \<open>From the verified claims on: the assertion is burnt before its scopes are looked at.\<close>

definition redeem_assertion :: "authn_cfg \<Rightarrow> authn_env \<Rightarrow> grant_form \<Rightarrow> OIDCClient \<Rightarrow> string \<Rightarrow> TrustedIDP \<Rightarrow> Claims \<Rightarrow>
    authn_store \<Rightarrow> authn_reply \<times> authn_store" where
  "redeem_assertion cfg e f client clientID idp claims s =
     (if op_fails e ARedeemJTI then (internal ''failed to record assertion redemption'', s)
      else (case RedeemIDJAGJTI (now_at e 1) (jc_JTI claims) (unix_time (jc_Exp claims)) s of
         Inl err \<Rightarrow> (invalid_grant ''assertion has already been redeemed'', s)
       | Inr s \<Rightarrow>
           (case redeemed_scopes idp (Fields (jc_Scope claims)) (Fields (gf_scope f)) of
              None \<Rightarrow> (bad_request ''invalid_scope'' ''requested scope exceeds what the assertion grants'', s)
            | Some granted \<Rightarrow> redeem_issue cfg e client clientID claims (join '' '' granted) s)))"

definition handleJWTBearerGrant :: "'w fetch_keys \<Rightarrow> authn_cfg \<Rightarrow> authn_env \<Rightarrow> grant_form \<Rightarrow> authn_store \<Rightarrow> 'w idp_state \<Rightarrow>
    authn_reply \<times> authn_store \<times> 'w idp_state" where
  "handleJWTBearerGrant fetch cfg e f s c =
     (case bearer_party cfg e f s of
        Inl err \<Rightarrow> (err, s, c)
      | Inr (client, clientID, idp) \<Rightarrow>
          (case verify_assertion fetch (ag_jwt cfg) (ti_Issuer idp) (ti_JWKSURI idp) (gf_assertion f) (now_at e 0) c of
             (None, c) \<Rightarrow> (invalid_grant ''assertion signature or claims invalid'', s, c)
           | (Some (claims, raw), c) \<Rightarrow>
               (case assertion_refused cfg clientID claims raw of
                  Some err \<Rightarrow> (err, s, c)
                | None \<Rightarrow>
                    let (reply, s) = redeem_assertion cfg e f client clientID idp claims s
                    in (reply, s, c))))"

section \<open>The token endpoint\<close>

definition TokenEndpoint :: "'w fetch_keys \<Rightarrow> authn_cfg \<Rightarrow> authn_env \<Rightarrow> grant_form option \<Rightarrow> authn_store \<Rightarrow> 'w idp_state \<Rightarrow>
    authn_reply \<times> authn_store \<times> 'w idp_state" where
  "TokenEndpoint fetch cfg e form s c =
     (case form of
        None \<Rightarrow> (invalid_request ''could not parse form body'', s, c)
      | Some f \<Rightarrow>
          if gf_grant_type f = ''authorization_code''
          then (let (reply, s) = handleCodeGrant cfg e f s in (reply, s, c))
          else if gf_grant_type f = ''refresh_token''
          then (let (reply, s) = handleRefreshGrant cfg e f s in (reply, s, c))
          else if gf_grant_type f = GrantTypeTokenExchange then (handleTokenExchange cfg e f s, s, c)
          else if gf_grant_type f = GrantTypeJWTBearer then handleJWTBearerGrant fetch cfg e f s c
          else (bad_request ''unsupported_grant_type''
                  ''only authorization_code, refresh_token, token-exchange, and jwt-bearer are supported'', s, c))"

end
