(* ===== verification/AuthnStepUp.thy ===== *)
theory AuthnStepUp
  imports AuthnClients AuthnIDJAG
begin

text \<open>
  The second-factor interlude of authentication-service: protection levels and the assurance ledger
  (protection.go), parked flows and /authorize/verify (otp.go), the passkey ceremony
  (webauthn_stepup.go), the live step-ups (stepup_tracker.go), device drift (device_analyzer.go,
  sessions_view.go) and the CAEP events (caep.go).
\<close>

section \<open>Protection levels\<close>

record ProtectionLevel =
  pl_ACR :: string
  pl_Band :: string
  pl_Name :: string
  pl_Rank :: int
  pl_Method :: string

definition protectionLevels :: "ProtectionLevel list" where
  "protectionLevels =
     [\<lparr>pl_ACR = ''urn:xauth:protect:high:protected'', pl_Band = ''high'', pl_Name = ''protected'', pl_Rank = 1, pl_Method = ''sms''\<rparr>,
      \<lparr>pl_ACR = ''urn:xauth:protect:high:enhanced'', pl_Band = ''high'', pl_Name = ''enhanced'', pl_Rank = 2, pl_Method = ''sms''\<rparr>,
      \<lparr>pl_ACR = ''urn:xauth:protect:high:restricted'', pl_Band = ''high'', pl_Name = ''restricted'', pl_Rank = 3, pl_Method = ''fido2''\<rparr>,
      \<lparr>pl_ACR = ''urn:xauth:protect:high:strict'', pl_Band = ''high'', pl_Name = ''strict'', pl_Rank = 4, pl_Method = ''fido2''\<rparr>,
      \<lparr>pl_ACR = ''urn:xauth:protect:ultra:protected'', pl_Band = ''ultra'', pl_Name = ''protected'', pl_Rank = 5, pl_Method = ''fido2''\<rparr>,
      \<lparr>pl_ACR = ''urn:xauth:protect:ultra:enhanced'', pl_Band = ''ultra'', pl_Name = ''enhanced'', pl_Rank = 6, pl_Method = ''fido2''\<rparr>,
      \<lparr>pl_ACR = ''urn:xauth:protect:ultra:restricted'', pl_Band = ''ultra'', pl_Name = ''restricted'', pl_Rank = 7, pl_Method = ''fido2''\<rparr>,
      \<lparr>pl_ACR = ''urn:xauth:protect:ultra:strict'', pl_Band = ''ultra'', pl_Name = ''strict'', pl_Rank = 8, pl_Method = ''fido2''\<rparr>]"

definition protectionByACR :: "string \<Rightarrow> ProtectionLevel option" where
  "protectionByACR acr = find (\<lambda>lvl. pl_ACR lvl = acr) protectionLevels"

text \<open>The first of the requested values, in the client's order, that is a level.\<close>

definition first_match :: "(string \<Rightarrow> 'a option) \<Rightarrow> string \<Rightarrow> 'a option" where
  "first_match f acrValues = (case List.map_filter f (Fields acrValues) of [] \<Rightarrow> None | x # _ \<Rightarrow> Some x)"

definition matchProtection :: "string \<Rightarrow> ProtectionLevel option" where
  "matchProtection = first_match protectionByACR"

section \<open>Step-up methods\<close>

record stepUpSpec =
  sx_ACR :: string
  sx_Method :: string
  sx_AMR :: "string list"
  sx_Meta :: "(string \<times> json) list"
  sx_Field :: string
  sx_RetryError :: string

definition ACRSMSOTP :: string where "ACRSMSOTP = ''urn:xauth:otp:sms''"
definition ACRFIDO2 :: string where "ACRFIDO2 = ''urn:xauth:fido2''"
definition stepUpMethodSMS :: string where "stepUpMethodSMS = ''sms''"
definition stepUpMethodFIDO2 :: string where "stepUpMethodFIDO2 = ''fido2''"

lemmas method_defs = ACRSMSOTP_def ACRFIDO2_def stepUpMethodSMS_def stepUpMethodFIDO2_def

definition stepUpSpecs :: "stepUpSpec list" where
  "stepUpSpecs =
     [\<lparr>sx_ACR = ACRSMSOTP, sx_Method = stepUpMethodSMS, sx_AMR = [''otp'', ''sms''],
       sx_Meta = [(''enrolled_by'', JStr ''authorize-otp'')], sx_Field = ''code'',
       sx_RetryError = ''Incorrect code - try again.''\<rparr>,
      \<lparr>sx_ACR = ACRFIDO2, sx_Method = stepUpMethodFIDO2, sx_AMR = [''user'', ''swk''], sx_Meta = [], sx_Field = ''assertion'',
       sx_RetryError = ''Passkey verification failed - try again.''\<rparr>]"

definition matchStepUp :: "string \<Rightarrow> stepUpSpec option" where
  "matchStepUp = first_match (\<lambda>want. find (\<lambda>x. sx_ACR x = want) stepUpSpecs)"

definition specForMethod :: "string \<Rightarrow> stepUpSpec option" where
  "specForMethod method = find (\<lambda>x. sx_Method x = method) stepUpSpecs"

definition supportedACRValues :: "string list" where
  "supportedACRValues = map sx_ACR stepUpSpecs @ map pl_ACR protectionLevels"

section \<open>State\<close>

record protAchieved =
  pr_rank :: int
  pr_at :: time

record pendingAuthorize =
  pa_ClientID :: string
  pa_TenantID :: string
  pa_UserID :: string
  pa_RedirectURI :: string
  pa_Scope :: string
  pa_State :: string
  pa_Nonce :: string
  pa_CodeChallenge :: string
  pa_ChallengeID :: string
  pa_Prompt :: string
  pa_Method :: string
  pa_TransactionID :: string
  pa_CreatedAt :: time
  pa_WebAuthnOptions :: "json option"
  pa_TargetACR :: string
  pa_TargetRank :: int
  pa_AuthzSessionID :: string

record StepUpAttempt =
  su_FlowID :: string
  su_TenantID :: string
  su_UserID :: string
  su_Method :: string
  su_StartedAt :: time

record caep_event =
  ce_TenantID :: string
  ce_UserID :: string
  ce_SessionID :: string
  ce_URI :: string
  ce_Event :: "(string \<times> json) list"

text \<open>
  The state of a replica: its storage, the parked flows, the ledger, the live step-ups, the keys of the
  identity providers, the events whose delivery runs detached, and the world of the other services.
\<close>

record 'w authn_sys =
  ay_store :: authn_store
  ay_flows :: "pendingAuthorize table"
  ay_ledger :: "protAchieved table"
  ay_stepups :: "StepUpAttempt table"
  ay_idps :: "Verifier table"
  ay_outbox :: "caep_event list"
  ay_world :: 'w

definition call_world :: "('w \<Rightarrow> 'r \<times> 'w) \<Rightarrow> 'w authn_sys \<Rightarrow> 'r \<times> 'w authn_sys" where
  "call_world f s = (let (r, w) = f (ay_world s) in (r, s\<lparr>ay_world := w\<rparr>))"

section \<open>The assurance ledger\<close>

definition LedgerTTL :: duration where "LedgerTTL = SessionTTLSeconds * Second"
definition defaultStepUpFreshness :: duration where "defaultStepUpFreshness = 5 * Minute"

definition ledger_gc :: "time \<Rightarrow> protAchieved table \<Rightarrow> protAchieved table" where
  "ledger_gc now l = filter (\<lambda>(k, x). \<not> LedgerTTL < now - pr_at x) l"

definition LedgerRecord :: "time \<Rightarrow> string \<Rightarrow> int \<Rightarrow> protAchieved table \<Rightarrow> protAchieved table" where
  "LedgerRecord now sessionID rank l =
     (if sessionID = [] then l
      else
        let l = ledger_gc now l;
            cur = (case tab_get l sessionID of None \<Rightarrow> 0 | Some x \<Rightarrow> pr_rank x)
        in tab_put sessionID \<lparr>pr_rank = max cur rank, pr_at = now\<rparr> l)"

text \<open>
  The readers drop expired entries too; the model leaves that to the next \<open>LedgerRecord\<close>, since every
  reader ignores them.
\<close>

definition Achieved :: "time \<Rightarrow> string \<Rightarrow> protAchieved table \<Rightarrow> int" where
  "Achieved now sessionID l =
     (if sessionID = [] then 0
      else case tab_get (ledger_gc now l) sessionID of None \<Rightarrow> 0 | Some x \<Rightarrow> pr_rank x)"

definition AchievedWithin :: "time \<Rightarrow> string \<Rightarrow> duration \<Rightarrow> protAchieved table \<Rightarrow> int" where
  "AchievedWithin now sessionID window l =
     (if sessionID = [] then 0
      else case tab_get (ledger_gc now l) sessionID of
             None \<Rightarrow> 0
           | Some x \<Rightarrow> if window \<le> 0 \<or> window < now - pr_at x then 0 else pr_rank x)"

definition freshness :: "authn_cfg \<Rightarrow> duration" where
  "freshness cfg = (if ag_StepUpFreshness cfg \<le> 0 then defaultStepUpFreshness else ag_StepUpFreshness cfg)"

definition protectionSatisfied :: "authn_cfg \<Rightarrow> time \<Rightarrow> ProtectionLevel \<Rightarrow> string \<Rightarrow> protAchieved table \<Rightarrow> bool" where
  "protectionSatisfied cfg now lvl sessionID l \<longleftrightarrow>
     sessionID \<noteq> [] \<and> pl_Rank lvl \<le> AchievedWithin now sessionID (freshness cfg) l"

definition tenantFidoEnabled :: "authn_env \<Rightarrow> string \<Rightarrow> authn_store \<Rightarrow> bool" where
  "tenantFidoEnabled e tenantID s =
     (if tenantID = [] then True
      else case try_op (op_fails e AGetTenant) (GetTenant tenantID s) of None \<Rightarrow> True | Some t \<Rightarrow> tn_FidoEnabled t)"

definition effectiveStepUpSpec :: "authn_env \<Rightarrow> string \<Rightarrow> stepUpSpec \<Rightarrow> authn_store \<Rightarrow> stepUpSpec" where
  "effectiveStepUpSpec e tenantID spec s =
     (if sx_Method spec \<noteq> stepUpMethodFIDO2 \<or> tenantFidoEnabled e tenantID s then spec
      else case specForMethod stepUpMethodSMS of Some sms \<Rightarrow> sms | None \<Rightarrow> spec)"

section \<open>Parked flows and live step-ups\<close>

definition otpFlowTTL :: duration where "otpFlowTTL = 10 * Minute"

definition storeFlow :: "time \<Rightarrow> string \<Rightarrow> pendingAuthorize \<Rightarrow> pendingAuthorize table \<Rightarrow> pendingAuthorize table" where
  "storeFlow now i p flows = tab_put i p (filter (\<lambda>(k, v). \<not> pa_CreatedAt v < now - otpFlowTTL) flows)"

definition peekFlow :: "time \<Rightarrow> string \<Rightarrow> pendingAuthorize table \<Rightarrow> pendingAuthorize option \<times> pendingAuthorize table" where
  "peekFlow now i flows =
     (case tab_get flows i of
        None \<Rightarrow> (None, flows)
      | Some p \<Rightarrow> if otpFlowTTL < now - pa_CreatedAt p then (None, tab_del i flows) else (Some p, flows))"

definition gc_stepups :: "time \<Rightarrow> StepUpAttempt table \<Rightarrow> StepUpAttempt table" where
  "gc_stepups now m = filter (\<lambda>(k, a). \<not> su_StartedAt a < now - otpFlowTTL) m"

definition StartStepUp :: "time \<Rightarrow> StepUpAttempt \<Rightarrow> StepUpAttempt table \<Rightarrow> StepUpAttempt table" where
  "StartStepUp now a m = tab_put (su_FlowID a) a (gc_stepups now m)"

definition ListStepUps :: "time \<Rightarrow> string \<Rightarrow> StepUpAttempt table \<Rightarrow> StepUpAttempt list" where
  "ListStepUps now tenantID m =
     sort_slice (\<lambda>a b. su_StartedAt b < su_StartedAt a)
       (filter (\<lambda>a. su_TenantID a = tenantID) (tab_rows (gc_stepups now m)))"

definition dropFlow :: "string \<Rightarrow> 'w authn_sys \<Rightarrow> 'w authn_sys" where
  "dropFlow i s = s\<lparr>ay_flows := tab_del i (ay_flows s), ay_stepups := tab_del i (ay_stepups s)\<rparr>"

text \<open>Parking a request: the flow, and its mirror for the consoles.\<close>

definition park :: "authn_env \<Rightarrow> pendingAuthorize \<Rightarrow> 'w authn_sys \<Rightarrow> 'w authn_sys" where
  "park e p s =
     s\<lparr>ay_flows := storeFlow (now_at e 4) (new_id e 1) p (ay_flows s),
       ay_stepups := StartStepUp (now_at e 5)
         \<lparr>su_FlowID = new_id e 1, su_TenantID = pa_TenantID p, su_UserID = pa_UserID p, su_Method = pa_Method p,
          su_StartedAt = pa_CreatedAt p\<rparr> (ay_stepups s)\<rparr>"

section \<open>Security events\<close>

definition CAEPAssuranceLevelChange :: string where
  "CAEPAssuranceLevelChange = ''https://schemas.openid.net/secevent/caep/event-type/assurance-level-change''"

definition CAEPSessionRevoked :: string where
  "CAEPSessionRevoked = ''https://schemas.openid.net/secevent/caep/event-type/session-revoked''"

definition AAL1 :: string where "AAL1 = ''nist-aal1''"
definition AAL2 :: string where "AAL2 = ''nist-aal2''"

definition caepSubject :: "string \<Rightarrow> string \<Rightarrow> string \<Rightarrow> json" where
  "caepSubject tenantID userID sessionID =
     JObj ([(''format'', JStr ''opaque''), (''id'', JStr userID), (''tenant_id'', JStr tenantID)] @
           omit_str ''session_id'' sessionID)"

definition AssuranceLevelChange :: "jwt_lib \<Rightarrow> time \<Rightarrow> string \<Rightarrow> string \<Rightarrow> string \<Rightarrow> string \<Rightarrow> string \<Rightarrow> string \<Rightarrow> string \<Rightarrow>
    string \<Rightarrow> caep_event" where
  "AssuranceLevelChange lib now tenantID userID sessionID current previous direction reason fingerprint =
     \<lparr>ce_TenantID = tenantID, ce_UserID = userID, ce_SessionID = sessionID, ce_URI = CAEPAssuranceLevelChange,
      ce_Event = [(''subject'', caepSubject tenantID userID sessionID), (''current_level'', JStr current),
        (''previous_level'', JStr previous), (''change_direction'', JStr direction),
        (''initiating_entity'', JStr ''policy''), (''reason_admin'', JStr reason), (''fingerprint'', JStr fingerprint),
        (''event_timestamp'', int_json lib (unix_of now))]\<rparr>"

definition SessionRevoked :: "jwt_lib \<Rightarrow> time \<Rightarrow> string \<Rightarrow> string \<Rightarrow> string \<Rightarrow> string \<Rightarrow> string \<Rightarrow> caep_event" where
  "SessionRevoked lib now tenantID userID sessionID reason fingerprint =
     \<lparr>ce_TenantID = tenantID, ce_UserID = userID, ce_SessionID = sessionID, ce_URI = CAEPSessionRevoked,
      ce_Event = [(''subject'', caepSubject tenantID userID sessionID), (''reason_admin'', JStr reason),
        (''fingerprint'', JStr fingerprint), (''event_timestamp'', int_json lib (unix_of now))]\<rparr>"

text \<open>Without a receiver the event is logged and dropped.\<close>

definition Emit :: "authn_cfg \<Rightarrow> caep_event \<Rightarrow> 'w authn_sys \<Rightarrow> 'w authn_sys" where
  "Emit cfg ev s = (if ag_EventsURL cfg = [] then s else s\<lparr>ay_outbox := ay_outbox s @ [ev]\<rparr>)"

definition buildSET :: "authn_cfg \<Rightarrow> time \<Rightarrow> string \<Rightarrow> caep_event \<Rightarrow> string option" where
  "buildSET cfg now jti ev =
     Sign (ag_jwt cfg) (ag_Signer cfg)
       (no_claims\<lparr>jc_Iss := ag_JWTIssuer cfg, jc_Aud := ''x-auth-risk-service'', jc_Sub := ce_UserID ev,
          jc_TenantID := ce_TenantID ev, jc_SessionID := ce_SessionID ev, jc_Iat := unix_of now,
          jc_Exp := unix_of (now + 5 * Minute), jc_JTI := ''set_'' @ jti\<rparr>)
       [(''events'', JObj [(ce_URI ev, JObj (ce_Event ev))])]"

text \<open>A delivery, detached from its request: the outcome of the POST is only logged.\<close>

definition deliver :: "(string \<Rightarrow> string \<Rightarrow> string \<Rightarrow> 'w \<Rightarrow> 'w) \<Rightarrow> authn_cfg \<Rightarrow> time \<Rightarrow> string \<Rightarrow> nat \<Rightarrow> 'w authn_sys \<Rightarrow>
    'w authn_sys" where
  "deliver post cfg now jti n s =
     (if length (ay_outbox s) \<le> n then s
      else
        let ev = ay_outbox s ! n;
            s = s\<lparr>ay_outbox := take n (ay_outbox s) @ drop (Suc n) (ay_outbox s)\<rparr>
        in case buildSET cfg now jti ev of
             None \<Rightarrow> s
           | Some token \<Rightarrow> s\<lparr>ay_world := post (ag_EventsURL cfg) (ag_InternalSecret cfg) token (ay_world s)\<rparr>)"

end
