(* ===== verification/AuthnVerify.thy ===== *)
theory AuthnVerify
  imports AuthnStepUp
begin

text \<open>
  The steps of the interlude: the device observation (device_analyzer.go), the minting of the
  authorization code and the completion of an advised transaction (otp.go), the challenge pages and
  the passkey ceremony (otp.go, webauthn_stepup.go), /authorize/verify (otp.go).
\<close>

section \<open>Device observations\<close>

text \<open>What \<open>Observe\<close> reads of the request: \<open>clientIP\<close> and the user agent.\<close>

record client_seen =
  sn_IP :: string
  sn_UserAgent :: string

definition revokeSession :: "authn_env \<Rightarrow> string \<Rightarrow> string \<Rightarrow> authn_store \<Rightarrow> authn_store" where
  "revokeSession e tenantID sessionID s =
     (case try_op (op_fails e AGetSession) (AuthnModel.GetSession tenantID sessionID s) of
        None \<Rightarrow> s
      | Some sess \<Rightarrow>
          if ss_InvalidatedAt sess \<noteq> None then s
          else (case try_op (op_fails e AUpdateSession)
                       (AuthnModel.UpdateSession (now_at e 10) (sess\<lparr>ss_InvalidatedAt := Some (now_at e 9)\<rparr>) s) of
                  None \<Rightarrow> s
                | Some (_, s') \<Rightarrow> s'))"

definition session_anomaly :: "DeviceSignal \<Rightarrow> DeviceSignal list \<Rightarrow> bool" where
  "session_anomaly ds priors \<longleftrightarrow> ds_SessionID ds \<noteq> [] \<and>
     list_ex (\<lambda>p. ds_SessionID p = ds_SessionID ds \<and> ds_Fingerprint p \<noteq> ds_Fingerprint ds) priors"

definition condemn_session :: "authn_env \<Rightarrow> DeviceSignal \<Rightarrow> authn_store \<Rightarrow> authn_store" where
  "condemn_session e ds s =
     (let s = revokeSession e (ds_TenantID ds) (ds_SessionID ds) s
      in if op_fails e ARevokeFamilies then s
         else snd (RevokeTokenFamiliesBySession (now_at e 11) (ds_TenantID ds) (ds_SessionID ds) s))"

definition analyze :: "authn_cfg \<Rightarrow> authn_env \<Rightarrow> DeviceSignal \<Rightarrow> DeviceSignal list \<Rightarrow> 'w authn_sys \<Rightarrow> 'w authn_sys" where
  "analyze cfg e ds priors s =
     (let lib = ag_jwt cfg; t = ds_TenantID ds; u = ds_UserID ds; x = ds_SessionID ds; fp = ds_Fingerprint ds
      in if session_anomaly ds priors
         then Emit cfg (SessionRevoked lib (now_at e 12) t u x
                ''device fingerprint changed within session (possible session replay)'' fp)
                (s\<lparr>ay_store := condemn_session e ds (ay_store s)\<rparr>)
         else if priors = [] then s
         else if \<not> list_ex (\<lambda>p. ds_Fingerprint p = fp) priors
         then Emit cfg (AssuranceLevelChange lib (now_at e 12) t u x AAL1 AAL2 ''decrease'' ''new or changed device fingerprint'' fp) s
         else if ds_Stage ds \<in> {''otp'', ''passkey''}
         then Emit cfg (AssuranceLevelChange lib (now_at e 12) t u x AAL2 AAL1 ''increase'' ''step-up validated on a known device'' fp) s
         else s)"

definition Observe :: "authn_cfg \<Rightarrow> authn_env \<Rightarrow> client_seen \<Rightarrow> string \<Rightarrow> string \<Rightarrow> string \<Rightarrow> string \<Rightarrow> string \<Rightarrow>
    'w authn_sys \<Rightarrow> 'w authn_sys" where
  "Observe cfg e seen tenantID userID sessionID stage fp s =
     (if fp = [] then s
      else
        let priors = (if op_fails e AListSignals then [] else ListDeviceSignalsByUser tenantID userID 100 (ay_store s));
            ds = \<lparr>ds_ID = ''dvs_'' @ new_id e 3, ds_TenantID = tenantID, ds_UserID = userID, ds_SessionID = sessionID,
                  ds_Stage = stage, ds_Fingerprint = fp, ds_IPAddress = sn_IP seen, ds_UserAgent = sn_UserAgent seen,
                  ds_CreatedAt = now_at e 8\<rparr>;
            s = (if op_fails e ARecordSignal then s else s\<lparr>ay_store := RecordDeviceSignal ds (ay_store s)\<rparr>)
        in analyze cfg e ds priors s)"

definition stageForMethod :: "string \<Rightarrow> string" where
  "stageForMethod method = (if method = stepUpMethodFIDO2 then ''passkey'' else ''otp'')"

section \<open>The authorization code\<close>

definition redirect_to :: "string \<Rightarrow> authn_reply" where
  "redirect_to location = WriteJSON 302 (ARedirect location)"

definition TransactionCompleted :: "jwt_lib \<Rightarrow> time \<Rightarrow> AuthCode \<Rightarrow> int \<Rightarrow> caep_event" where
  "TransactionCompleted lib now ac rank =
     \<lparr>ce_TenantID = ac_TenantID ac, ce_UserID = ac_UserID ac, ce_SessionID = ac_SessionID ac,
      ce_URI = CAEPAssuranceLevelChange,
      ce_Event = [(''subject'', caepSubject (ac_TenantID ac) (ac_UserID ac) (ac_SessionID ac)),
        (''current_level'', JStr (ac_ACR ac)), (''change_direction'', JStr ''increase''),
        (''initiating_entity'', JStr ''policy''), (''reason_admin'', JStr ''advice transaction completed authentication''),
        (''transaction_id'', JStr (ac_TransactionID ac)), (''acr'', JStr (ac_ACR ac)), (''rank'', int_json lib rank),
        (''event_timestamp'', int_json lib (unix_of now))]\<rparr>"

definition completeAdviceTransaction :: "authn_cfg \<Rightarrow> authn_env \<Rightarrow> AuthCode \<Rightarrow> 'w authn_sys \<Rightarrow> 'w authn_sys" where
  "completeAdviceTransaction cfg e ac s =
     (if op_fails e AMarkAdvice then s
      else (case MarkAdviceCallCompleted (ac_TenantID ac) (ac_TransactionID ac) (ac_UserID ac) (ac_ACR ac) (now_at e 15) (ay_store s) of
         Inl err \<Rightarrow> s
       | Inr st \<Rightarrow>
           Emit cfg (TransactionCompleted (ag_jwt cfg) (now_at e 16) ac
               (case protectionByACR (ac_ACR ac) of None \<Rightarrow> 0 | Some lvl \<Rightarrow> pl_Rank lvl))
             (s\<lparr>ay_store := st\<rparr>)))"

definition mintCodeAndRedirect :: "authn_cfg \<Rightarrow> authn_env \<Rightarrow> AuthCode \<Rightarrow> 'w authn_sys \<Rightarrow> authn_reply \<times> 'w authn_sys" where
  "mintCodeAndRedirect cfg e ac s =
     (if ag_url cfg (ac_RedirectURI ac) = None
      then (bad_request ''invalid_redirect_uri'' ''stored redirect_uri is invalid'', s)
      else
        let ac = ac\<lparr>ac_Code := new_id e 2, ac_CreatedAt := now_at e 14\<rparr>
        in if op_fails e APutAuthCode then (internal ''failed to issue code'', s)
           else
             let s = s\<lparr>ay_store := PutAuthCode ac (ay_store s)\<rparr>;
                 s = (if ac_TransactionID ac \<noteq> [] then completeAdviceTransaction cfg e ac s else s)
             in (redirect_to (ag_location cfg (ac_RedirectURI ac)
                   ((''code'', ac_Code ac) #
                    (if ac_State ac \<noteq> [] then [(''state'', ac_State ac)] else []) @
                    (if ac_TransactionID ac \<noteq> [] then [(''transaction_id'', ac_TransactionID ac)] else []))), s))"

definition code_for :: "pendingAuthorize \<Rightarrow> string \<Rightarrow> string list \<Rightarrow> AuthCode" where
  "code_for p acr amr =
     \<lparr>ac_Code = [], ac_ClientID = pa_ClientID p, ac_TenantID = pa_TenantID p, ac_UserID = pa_UserID p, ac_SessionID = [],
      ac_RedirectURI = pa_RedirectURI p, ac_Scope = pa_Scope p, ac_State = pa_State p, ac_Nonce = pa_Nonce p,
      ac_CodeChallenge = pa_CodeChallenge p, ac_CreatedAt = 0, ac_ACR = acr, ac_AMR = amr,
      ac_TransactionID = pa_TransactionID p\<rparr>"

section \<open>Starting a step-up\<close>

definition gateway_error :: "string \<Rightarrow> authn_reply" where
  "gateway_error m = WriteError StatusBadGateway ''authenticator_unavailable'' (Lit m)"

definition userPhone :: "authn_env \<Rightarrow> string \<Rightarrow> string \<Rightarrow> authn_store \<Rightarrow> string option" where
  "userPhone e tenantID userID s =
     (if op_fails e AListAnchors then None
      else map_option an_Value
             (find (\<lambda>a. an_UserID a = userID \<and> an_Type a = AnchorPhone \<and> an_Value a \<noteq> []) (ListIdentityAnchors tenantID s)))"

definition phoneOf :: "AuthenticatorView \<Rightarrow> string" where
  "phoneOf a = obj_str (aw_Metadata a) ''phone_number''"

definition usable :: "string \<Rightarrow> string \<Rightarrow> AuthenticatorView \<Rightarrow> bool" where
  "usable method wantPhone a \<longleftrightarrow> aw_Method a = method \<and> aw_Status a \<noteq> ''disabled'' \<and>
     (method = stepUpMethodSMS \<longrightarrow> phoneOf a = wantPhone)"

definition startWebAuthnStepUp :: "'w authn_clients \<Rightarrow> authn_env \<Rightarrow> stepUpSpec \<Rightarrow> pendingAuthorize \<Rightarrow> 'w authn_sys \<Rightarrow>
    authn_reply \<times> 'w authn_sys" where
  "startWebAuthnStepUp cl e spec p s =
     (case call_world (ak_ListAuthenticators cl (pa_TenantID p) (pa_UserID p)) s of
        (Inl err, s) \<Rightarrow> (gateway_error ''could not reach authenticator service'', s)
      | (Inr auths, s) \<Rightarrow>
          let p = p\<lparr>pa_Method := sx_Method spec, pa_CreatedAt := now_at e 3\<rparr>
          in if \<not> list_ex (\<lambda>a. aw_Method a = stepUpMethodFIDO2 \<and> aw_Status a \<noteq> ''disabled'') auths
             then (WriteJSON StatusOK (AWebAuthn (new_id e 1) True None []), park e p s)
             else (case call_world (ak_CreateChallenge cl (pa_TenantID p) (pa_UserID p) [stepUpMethodFIDO2]) s of
                     (Inl err, s) \<Rightarrow> (gateway_error ''could not create passkey challenge'', s)
                   | (Inr chal, s) \<Rightarrow>
                       let p = p\<lparr>pa_ChallengeID := ci_ChallengeID chal, pa_Prompt := ci_Prompt chal,
                                 pa_WebAuthnOptions := ci_Options chal\<rparr>
                       in (WriteJSON StatusOK (AWebAuthn (new_id e 1) False (ci_Options chal) []), park e p s)))"

text \<open>The challenge of a code: from the enrolled authenticator on.\<close>

definition start_code_challenge :: "'w authn_clients \<Rightarrow> authn_env \<Rightarrow> stepUpSpec \<Rightarrow> pendingAuthorize \<Rightarrow> 'w authn_sys \<Rightarrow>
    authn_reply \<times> 'w authn_sys" where
  "start_code_challenge cl e spec p s =
     (case call_world (ak_CreateChallenge cl (pa_TenantID p) (pa_UserID p) [sx_Method spec]) s of
        (Inl err, s) \<Rightarrow>
          (if down_status err = Some StatusUnprocessableEntity
           then WriteError StatusUnprocessableEntity ''invalid_phone_number'' (Lit
             ''the phone number on file is not valid - update it (full international format, e.g. +14155551234)'')
           else gateway_error (''could not create '' @ sx_Method spec @ '' challenge''), s)
      | (Inr chal, s) \<Rightarrow>
          let p = p\<lparr>pa_ChallengeID := ci_ChallengeID chal, pa_Prompt := ci_Prompt chal, pa_Method := sx_Method spec,
                    pa_CreatedAt := now_at e 3\<rparr>
          in (WriteJSON StatusOK (APage (new_id e 1) (ci_Prompt chal) []), park e p s))"

definition startStepUpFlow :: "'w authn_clients \<Rightarrow> authn_env \<Rightarrow> stepUpSpec \<Rightarrow> pendingAuthorize \<Rightarrow> 'w authn_sys \<Rightarrow>
    authn_reply \<times> 'w authn_sys" where
  "startStepUpFlow cl e spec p s =
     (if sx_Method spec = stepUpMethodFIDO2 then startWebAuthnStepUp cl e spec p s
      else (case call_world (ak_ListAuthenticators cl (pa_TenantID p) (pa_UserID p)) s of
         (Inl err, s) \<Rightarrow> (gateway_error ''could not reach authenticator service'', s)
       | (Inr auths, s) \<Rightarrow>
           (case (if sx_Method spec = stepUpMethodSMS then userPhone e (pa_TenantID p) (pa_UserID p) (ay_store s) else Some []) of
              None \<Rightarrow> (WriteError StatusConflict ''no_phone_on_file'' (Lit ''no verified phone number on file for SMS verification''), s)
            | Some phone \<Rightarrow>
                if list_ex (usable (sx_Method spec) phone) auths then start_code_challenge cl e spec p s
                else
                  let meta = (if sx_Method spec = stepUpMethodSMS
                        then [(''phone_number'', JStr phone), (''enrolled_by'', JStr ''authorize-otp'')] else sx_Meta spec)
                  in (case call_world (ak_Enroll cl (pa_TenantID p) (pa_UserID p) (sx_Method spec) meta) s of
                        (Inl err, s) \<Rightarrow> (gateway_error (''could not enroll '' @ sx_Method spec @ '' authenticator''), s)
                      | (Inr a, s) \<Rightarrow> start_code_challenge cl e spec p s))))"

text \<open>A protection level is passed through or challenged with its method.\<close>

definition handleProtection :: "'w authn_clients \<Rightarrow> authn_cfg \<Rightarrow> authn_env \<Rightarrow> ProtectionLevel \<Rightarrow> string \<Rightarrow> pendingAuthorize \<Rightarrow>
    'w authn_sys \<Rightarrow> authn_reply \<times> 'w authn_sys" where
  "handleProtection cl cfg e lvl sessionID p s =
     (if protectionSatisfied cfg (now_at e 2) lvl sessionID (ay_ledger s)
      then mintCodeAndRedirect cfg e (code_for p (pl_ACR lvl) []) s
      else (case specForMethod (pl_Method lvl) of
              None \<Rightarrow> (internal ''protection level has no challenge method'', s)
            | Some spec \<Rightarrow>
                startStepUpFlow cl e (effectiveStepUpSpec e (pa_TenantID p) spec (ay_store s))
                  (p\<lparr>pa_TargetACR := pl_ACR lvl, pa_TargetRank := pl_Rank lvl, pa_AuthzSessionID := sessionID\<rparr>) s))"

section \<open>The verification page\<close>

record verify_form =
  vq_flow :: string
  vq_assertion :: string
  vq_code :: string
  vq_device_fp :: string

definition flow_invalid :: authn_reply where
  "flow_invalid = bad_request ''invalid_grant'' ''flow is invalid or expired - restart the login''"

definition renderStepUpRetry :: "nat \<Rightarrow> pendingAuthorize \<Rightarrow> string \<Rightarrow> string \<Rightarrow> authn_reply" where
  "renderStepUpRetry st flow flowID err =
     WriteJSON st (if pa_Method flow = stepUpMethodFIDO2 then AWebAuthn flowID False (pa_WebAuthnOptions flow) err
                   else APage flowID (pa_Prompt flow) err)"

text \<open>
  The response to verify: the submitted code, or the assertion, which is passed on as JSON and fails the
  call when it is not.
\<close>

definition step_up_response :: "authn_cfg \<Rightarrow> stepUpSpec \<Rightarrow> pendingAuthorize \<Rightarrow> verify_form \<Rightarrow>
    authn_reply + (string \<times> json) list option" where
  "step_up_response cfg spec flow f =
     (if pa_Method flow = stepUpMethodFIDO2
      then let assertion = TrimSpace (vq_assertion f)
           in if assertion = [] then Inl (invalid_request ''assertion is required'')
              else Inr (map_option (\<lambda>j. [(sx_Field spec, j)]) (jl_unmarshal (ag_jwt cfg) assertion))
      else if vq_code f = [] then Inl (invalid_request ''code is required'')
      else Inr (Some [(sx_Field spec, JStr (vq_code f))]))"

definition verified_flow :: "authn_cfg \<Rightarrow> authn_env \<Rightarrow> client_seen \<Rightarrow> verify_form \<Rightarrow> stepUpSpec \<Rightarrow> pendingAuthorize \<Rightarrow>
    VerifyOutcome \<Rightarrow> 'w authn_sys \<Rightarrow> authn_reply \<times> 'w authn_sys" where
  "verified_flow cfg e seen f spec flow out s =
     (let s = dropFlow (vq_flow f) s;
          s = Observe cfg e seen (pa_TenantID flow) (pa_UserID flow) (pa_AuthzSessionID flow) (stageForMethod (pa_Method flow))
                (vq_device_fp f) s;
          acr = (if pa_TargetACR flow \<noteq> [] then pa_TargetACR flow else sx_ACR spec);
          s = (if 0 < pa_TargetRank flow
               then s\<lparr>ay_ledger := LedgerRecord (now_at e 13) (pa_AuthzSessionID flow) (pa_TargetRank flow) (ay_ledger s)\<rparr>
               else s)
      in mintCodeAndRedirect cfg e (code_for flow acr (if vo_AMR out \<noteq> [] then vo_AMR out else sx_AMR spec)) s)"

definition verify_error :: "pendingAuthorize \<Rightarrow> string \<Rightarrow> nat option \<Rightarrow> 'w authn_sys \<Rightarrow> authn_reply \<times> 'w authn_sys" where
  "verify_error flow flowID st s =
     (if st = Some StatusGone
      then (bad_request ''challenge_closed'' ''the verification challenge has expired or failed - restart the login'',
            dropFlow flowID s)
      else if st = Some StatusTooManyRequests
      then (renderStepUpRetry StatusTooManyRequests flow flowID ''Too many attempts - wait a moment and try again.'', s)
      else (gateway_error ''could not verify the code'', s))"

definition verify_flow :: "'w authn_clients \<Rightarrow> authn_cfg \<Rightarrow> authn_env \<Rightarrow> client_seen \<Rightarrow> verify_form \<Rightarrow> stepUpSpec \<Rightarrow>
    pendingAuthorize \<Rightarrow> 'w authn_sys \<Rightarrow> authn_reply \<times> 'w authn_sys" where
  "verify_flow cl cfg e seen f spec flow s =
     (case step_up_response cfg spec flow f of
        Inl err \<Rightarrow> (err, s)
      | Inr None \<Rightarrow> verify_error flow (vq_flow f) (Some 0) s
      | Inr (Some response) \<Rightarrow>
          (case call_world (ak_VerifyChallenge cl (pa_TenantID flow) (pa_ChallengeID flow) response) s of
             (Inl err, s) \<Rightarrow> verify_error flow (vq_flow f) (down_status err) s
           | (Inr out, s) \<Rightarrow>
               if vo_Verified out then verified_flow cfg e seen f spec flow out s
               else if vo_Reason out = ''max_attempts_exceeded''
               then (bad_request ''challenge_closed'' ''too many incorrect codes - restart the login'', dropFlow (vq_flow f) s)
               else (renderStepUpRetry StatusUnauthorized flow (vq_flow f) (sx_RetryError spec), s)))"

definition peek :: "authn_env \<Rightarrow> string \<Rightarrow> 'w authn_sys \<Rightarrow> pendingAuthorize option \<times> 'w authn_sys" where
  "peek e flowID s = (let (p, flows) = peekFlow (now_at e 2) flowID (ay_flows s) in (p, s\<lparr>ay_flows := flows\<rparr>))"

definition AuthorizeVerify :: "'w authn_clients \<Rightarrow> authn_cfg \<Rightarrow> authn_env \<Rightarrow> client_seen \<Rightarrow> verify_form option \<Rightarrow>
    'w authn_sys \<Rightarrow> authn_reply \<times> 'w authn_sys" where
  "AuthorizeVerify cl cfg e seen form s =
     (case form of
        None \<Rightarrow> (invalid_request ''could not parse form body'', s)
      | Some f \<Rightarrow>
          if vq_flow f = [] then (invalid_request ''flow is required'', s)
          else (case peek e (vq_flow f) s of
             (None, s) \<Rightarrow> (flow_invalid, s)
           | (Some flow, s) \<Rightarrow>
               (case specForMethod (pa_Method flow) of
                  None \<Rightarrow> (flow_invalid, dropFlow (vq_flow f) s)
                | Some spec \<Rightarrow> verify_flow cl cfg e seen f spec flow s)))"

section \<open>Passkey registration\<close>

definition lenient_body :: "int \<Rightarrow> 'r field list \<Rightarrow> 'r \<Rightarrow> body \<Rightarrow> 'r option" where
  "lenient_body limit fs zero b =
     (case b of
        Body j off \<Rightarrow> if limit < off then None else (case dec_struct False fs j zero of Inl _ \<Rightarrow> None | Inr r \<Rightarrow> Some r)
      | _ \<Rightarrow> None)"

definition webAuthnUserName :: "authn_env \<Rightarrow> string \<Rightarrow> string \<Rightarrow> authn_store \<Rightarrow> string \<times> string" where
  "webAuthnUserName e tenantID userID s =
     (let u = try_op (op_fails e AGetUser) (GetUser tenantID userID s);
          name = (case u of None \<Rightarrow> [] | Some u \<Rightarrow> if us_Email u \<noteq> [] then us_Email u else us_Name u);
          displayName = (case u of None \<Rightarrow> [] | Some u \<Rightarrow> us_Name u);
          name = (if name \<noteq> [] then name else case userPhone e tenantID userID s of Some phone \<Rightarrow> phone | None \<Rightarrow> userID)
      in (name, if displayName = [] then name else displayName))"

definition passkey_flow :: "authn_env \<Rightarrow> string \<Rightarrow> 'w authn_sys \<Rightarrow> pendingAuthorize option \<times> 'w authn_sys" where
  "passkey_flow e flowID s =
     (case peek e flowID s of
        (Some flow, s) \<Rightarrow> (if pa_Method flow = stepUpMethodFIDO2 then Some flow else None, s)
      | (None, s) \<Rightarrow> (None, s))"

definition AuthorizeWebAuthnRegisterBegin :: "'w authn_clients \<Rightarrow> authn_env \<Rightarrow> body \<Rightarrow> 'w authn_sys \<Rightarrow>
    authn_reply \<times> 'w authn_sys" where
  "AuthorizeWebAuthnRegisterBegin cl e b s =
     (case lenient_body (2 ^ 16) [(''flow'', dec_string ''flow'')] [] b of
        None \<Rightarrow> (invalid_request ''malformed body'', s)
      | Some flowID \<Rightarrow>
          (case passkey_flow e flowID s of
             (None, s) \<Rightarrow> (flow_invalid, s)
           | (Some flow, s) \<Rightarrow>
               let (name, displayName) = webAuthnUserName e (pa_TenantID flow) (pa_UserID flow) (ay_store s)
               in (case call_world (ak_RegisterBegin cl (pa_TenantID flow) (pa_UserID flow) name displayName) s of
                     (Inl err, s) \<Rightarrow> (gateway_error ''could not begin registration'', s)
                   | (Inr reg, s) \<Rightarrow> (WriteJSON StatusOK (AOptions (wr_RegistrationID reg) (wr_Options reg)), s))))"

record finish_body =
  fb_Flow :: string
  fb_RegistrationID :: string
  fb_Attestation :: "json option"

definition finish_fields :: "finish_body field list" where
  "finish_fields =
     [into dec_string ''flow'' fb_Flow fb_Flow_update,
      into dec_string ''registration_id'' fb_RegistrationID fb_RegistrationID_update,
      into dec_raw ''attestation'' fb_Attestation fb_Attestation_update]"

definition register_finished :: "'w authn_clients \<Rightarrow> authn_env \<Rightarrow> string \<Rightarrow> pendingAuthorize \<Rightarrow> 'w authn_sys \<Rightarrow>
    authn_reply \<times> 'w authn_sys" where
  "register_finished cl e flowID flow s =
     (case call_world (ak_CreateChallenge cl (pa_TenantID flow) (pa_UserID flow) [stepUpMethodFIDO2]) s of
        (Inl err, s) \<Rightarrow> (gateway_error ''could not create passkey challenge'', s)
      | (Inr chal, s) \<Rightarrow>
          let flow = flow\<lparr>pa_ChallengeID := ci_ChallengeID chal, pa_Prompt := ci_Prompt chal, pa_WebAuthnOptions := ci_Options chal\<rparr>
          in (WriteJSON StatusOK (AOptions [] (ci_Options chal)),
              s\<lparr>ay_flows := storeFlow (now_at e 4) flowID flow (ay_flows s)\<rparr>))"

definition AuthorizeWebAuthnRegisterFinish :: "'w authn_clients \<Rightarrow> authn_env \<Rightarrow> body \<Rightarrow> 'w authn_sys \<Rightarrow>
    authn_reply \<times> 'w authn_sys" where
  "AuthorizeWebAuthnRegisterFinish cl e b s =
     (case lenient_body (2 ^ 20) finish_fields \<lparr>fb_Flow = [], fb_RegistrationID = [], fb_Attestation = None\<rparr> b of
        None \<Rightarrow> (invalid_request ''malformed body'', s)
      | Some q \<Rightarrow>
          (case passkey_flow e (fb_Flow q) s of
             (None, s) \<Rightarrow> (flow_invalid, s)
           | (Some flow, s) \<Rightarrow>
               (case call_world (ak_RegisterFinish cl (pa_TenantID flow) (pa_UserID flow) (fb_RegistrationID q) (fb_Attestation q)) s of
                  (Inl err, s) \<Rightarrow>
                    ((case down_status err of
                        Some st \<Rightarrow> if 400 \<le> st \<and> st < 500
                                   then bad_request ''registration_failed'' ''passkey registration failed - try again''
                                   else gateway_error ''could not complete registration''
                      | None \<Rightarrow> gateway_error ''could not complete registration''), s)
                | (Inr a, s) \<Rightarrow> register_finished cl e (fb_Flow q) flow s)))"

end
