(* ===== verification/AuthnFlow.thy ===== *)
theory AuthnFlow
  imports AuthnVerify
begin

text \<open>
  The flow engine of authentication-service (flowmodels.go, flowexec.go, flowstages.go, flow_build.go,
  flow_examples.go, policy/policy.go), /authorize (oidc.go) and /v1/advice (advice.go).
\<close>

section \<open>Policies\<close>

text \<open>
  The expression language: \<open>pe_compile\<close> is \<open>expr.Compile\<close> with its options, \<open>pe_run\<close> the value of a program
  in an environment; \<open>None\<close> is an error, the deadline included.
\<close>

record 'p policy_engine =
  pe_compile :: "string \<Rightarrow> 'p option"
  pe_run :: "'p \<Rightarrow> (string \<times> json) list \<Rightarrow> json option"

definition maxExprLen :: nat where "maxExprLen = 2000"

definition Compile :: "'p policy_engine \<Rightarrow> string \<Rightarrow> 'p option" where
  "Compile eng code = (if maxExprLen < length code then None else pe_compile eng code)"

definition Evaluate :: "'p policy_engine \<Rightarrow> 'p \<Rightarrow> (string \<times> json) list \<Rightarrow> bool option" where
  "Evaluate eng prog env = (case pe_run eng prog env of Some (JBool b) \<Rightarrow> Some b | _ \<Rightarrow> None)"

record 'p policyBinding =
  pb_name :: string
  pb_negate :: bool
  pb_program :: "'p option"

section \<open>Stages and executions\<close>

definition FlowAuthorizeStepUp :: string where "FlowAuthorizeStepUp = ''authorization-stepup''"

datatype StageResult = StageContinue | StageRespond | StageComplete | StageDeny

text \<open>The implementations of \<open>Stage\<close>.\<close>

datatype 'p Stage =
    riskEvaluationStage
  | authValidateStage
  | issueStage
  | denyStage string
  | policyGatedStage "'p Stage" "'p policyBinding list"

record 'p Flow =
  fw_Slug :: string
  fw_Designation :: string
  fw_Title :: string
  fw_Stages :: "'p Stage list"

record FlowExecution =
  fx_ID :: string
  fx_TenantID :: string
  fx_Designation :: string
  fx_Cursor :: nat
  fx_ClientID :: string
  fx_UserID :: string
  fx_RedirectURI :: string
  fx_Scope :: string
  fx_State :: string
  fx_Nonce :: string
  fx_CodeChallenge :: string
  fx_TransactionID :: string
  fx_AuthzSessionID :: string
  fx_ACRValues :: string
  fx_AchievedACR :: string
  fx_AchievedAMR :: "string list"
  fx_Context :: "(string \<times> json) list"
  fx_CreatedAt :: time

definition toPending :: "FlowExecution \<Rightarrow> pendingAuthorize" where
  "toPending x =
     \<lparr>pa_ClientID = fx_ClientID x, pa_TenantID = fx_TenantID x, pa_UserID = fx_UserID x,
      pa_RedirectURI = fx_RedirectURI x, pa_Scope = fx_Scope x, pa_State = fx_State x, pa_Nonce = fx_Nonce x,
      pa_CodeChallenge = fx_CodeChallenge x, pa_ChallengeID = [], pa_Prompt = [], pa_Method = [],
      pa_TransactionID = fx_TransactionID x, pa_CreatedAt = 0, pa_WebAuthnOptions = None, pa_TargetACR = [],
      pa_TargetRank = 0, pa_AuthzSessionID = []\<rparr>"

definition mapOrEmpty :: "json option \<Rightarrow> (string \<times> json) list" where
  "mapOrEmpty v = (case v of Some (JObj ms) \<Rightarrow> ms | _ \<Rightarrow> [])"

definition policyEnv :: "FlowExecution \<Rightarrow> (string \<times> json) list" where
  "policyEnv x =
     [(''user'', JObj [(''id'', JStr (fx_UserID x))]),
      (''request'', JObj (mapOrEmpty (obj_get (fx_Context x) ''request''))),
      (''protection'', JObj (mapOrEmpty (obj_get (fx_Context x) ''protection''))),
      (''risk'', JObj (mapOrEmpty (obj_get (fx_Context x) ''risk''))),
      (''time'', JObj [])]"

definition set_context :: "string \<Rightarrow> json \<Rightarrow> FlowExecution \<Rightarrow> FlowExecution" where
  "set_context k v x = x\<lparr>fx_Context := AList.update k v (fx_Context x)\<rparr>"

section \<open>Running a stage\<close>

text \<open>
  What the handlers of a replica depend on: the configuration, the clients, the expression language and,
  when configured, the risk client.
\<close>

record ('w, 'p) authn_deps =
  dp_cfg :: authn_cfg
  dp_clients :: "'w authn_clients"
  dp_engine :: "'p policy_engine"
  dp_risk :: "(RiskEvalInput \<Rightarrow> 'w \<Rightarrow> RiskAssessment option \<times> 'w) option"

definition num :: "jwt_lib \<Rightarrow> rat \<Rightarrow> json" where
  "num lib r = JNum r (jl_float lib r)"

definition risk_members :: "jwt_lib \<Rightarrow> RiskAssessment \<Rightarrow> json" where
  "risk_members lib a = JObj
     [(''tier'', JStr (ra_Tier a)), (''score'', num lib (ra_Score a)),
      (''impossible_travel'', JBool (ra_ImpossibleTravel a)), (''flags'', JArr (map JStr (ra_Flags a))),
      (''device'', num lib (ra_Device a)), (''behavior'', num lib (ra_Behavior a)),
      (''network'', num lib (ra_Network a)), (''user'', num lib (ra_User a))]"

definition risk_input :: "FlowExecution \<Rightarrow> RiskEvalInput" where
  "risk_input x =
     (let req = mapOrEmpty (obj_get (fx_Context x) ''request'')
      in \<lparr>ri_TenantID = fx_TenantID x, ri_UserID = fx_UserID x, ri_SessionID = fx_AuthzSessionID x, ri_Action = ''authorize'',
          ri_Resource = fx_ClientID x, ri_Sensitivity = ''medium'', ri_DeviceFP = obj_str req ''device_fp'',
          ri_IP = obj_str req ''ip'', ri_Country = obj_str req ''country'', ri_UserAgent = obj_str req ''user_agent''\<rparr>)"

text \<open>Without a risk client, or when it fails, the facts are falsy.\<close>

definition evaluate_risk :: "('w, 'p) authn_deps \<Rightarrow> FlowExecution \<Rightarrow> 'w authn_sys \<Rightarrow> FlowExecution \<times> 'w authn_sys" where
  "evaluate_risk d x s =
     (let lib = ag_jwt (dp_cfg d)
      in case dp_risk d of
           None \<Rightarrow> (set_context ''risk'' (risk_members lib no_assessment) x, s)
         | Some rk \<Rightarrow>
             (case call_world (rk (risk_input x)) s of
                (None, s) \<Rightarrow> (set_context ''risk'' (risk_members lib no_assessment) x, s)
              | (Some a, s) \<Rightarrow> (set_context ''risk'' (risk_members lib a) x, s)))"

text \<open>Validation: pass through, or answer with a challenge.\<close>

definition validate_stage :: "('w, 'p) authn_deps \<Rightarrow> authn_env \<Rightarrow> FlowExecution \<Rightarrow> 'w authn_sys \<Rightarrow>
    StageResult \<times> authn_reply option \<times> FlowExecution \<times> 'w authn_sys" where
  "validate_stage d e x s =
     (let cfg = dp_cfg d; cl = dp_clients d; pend = toPending x;
          challenge = (\<lambda>spec p. let (reply, s) = startStepUpFlow cl e (effectiveStepUpSpec e (fx_TenantID x) spec (ay_store s)) p s
                                in (StageRespond, Some reply, x, s))
      in case matchProtection (fx_ACRValues x) of
           Some lvl \<Rightarrow>
             if protectionSatisfied cfg (now_at e 2) lvl (fx_AuthzSessionID x) (ay_ledger s)
             then (StageContinue, None, x\<lparr>fx_AchievedACR := pl_ACR lvl\<rparr>, s)
             else (case specForMethod (pl_Method lvl) of
                     None \<Rightarrow> (StageDeny, Some (internal ''protection level has no challenge method''), x, s)
                   | Some spec \<Rightarrow>
                       challenge spec (pend\<lparr>pa_TargetACR := pl_ACR lvl, pa_TargetRank := pl_Rank lvl,
                         pa_AuthzSessionID := fx_AuthzSessionID x\<rparr>))
         | None \<Rightarrow>
             (case matchStepUp (fx_ACRValues x) of
                Some spec \<Rightarrow> challenge spec pend
              | None \<Rightarrow> (StageContinue, None, x, s)))"

definition error_redirect :: "authn_cfg \<Rightarrow> string \<Rightarrow> string \<Rightarrow> string \<Rightarrow> string \<Rightarrow> authn_reply" where
  "error_redirect cfg uri st code desc =
     redirect_to (ag_location cfg uri
       ((''error'', code) # (if desc \<noteq> [] then [(''error_description'', desc)] else []) @
        (if st \<noteq> [] then [(''state'', st)] else [])))"

definition deny_reply :: "authn_cfg \<Rightarrow> FlowExecution \<Rightarrow> string \<Rightarrow> authn_reply" where
  "deny_reply cfg x reason =
     (if ag_url cfg (fx_RedirectURI x) = None \<or> fx_RedirectURI x = []
      then WriteError StatusForbidden ''access_denied'' (Lit reason)
      else error_redirect cfg (fx_RedirectURI x) (fx_State x) ''access_denied'' reason)"

text \<open>Every binding must pass; an expression that fails counts as false before it is negated.\<close>

definition binding_passes :: "'p policy_engine \<Rightarrow> (string \<times> json) list \<Rightarrow> 'p policyBinding \<Rightarrow> bool" where
  "binding_passes eng env b =
     (let result = (case pb_program b of
                      None \<Rightarrow> False
                    | Some prog \<Rightarrow> (case Evaluate eng prog env of None \<Rightarrow> False | Some v \<Rightarrow> v))
      in if pb_negate b then \<not> result else result)"

definition shouldRun :: "'p policy_engine \<Rightarrow> 'p policyBinding list \<Rightarrow> FlowExecution \<Rightarrow> bool" where
  "shouldRun eng policies x = list_all (binding_passes eng (policyEnv x)) policies"

fun Execute :: "('w, 'p) authn_deps \<Rightarrow> authn_env \<Rightarrow> 'p Stage \<Rightarrow> FlowExecution \<Rightarrow> 'w authn_sys \<Rightarrow>
    StageResult \<times> authn_reply option \<times> FlowExecution \<times> 'w authn_sys" where
  "Execute d e riskEvaluationStage x s =
     (let (x, s) = evaluate_risk d x s in (StageContinue, None, x, s))"
| "Execute d e authValidateStage x s = validate_stage d e x s"
| "Execute d e issueStage x s =
     (let (reply, s) = mintCodeAndRedirect (dp_cfg d) e (code_for (toPending x) (fx_AchievedACR x) (fx_AchievedAMR x)) s
      in (StageComplete, Some reply, x, s))"
| "Execute d e (denyStage reason) x s = (StageDeny, Some (deny_reply (dp_cfg d) x reason), x, s)"
| "Execute d e (policyGatedStage inner policies) x s =
     (if shouldRun (dp_engine d) policies x then Execute d e inner x s else (StageContinue, None, x, s))"

text \<open>No stage moves the cursor, so the executor below reaches the end of the stages.\<close>

lemma Execute_cursor: "Execute d e st x s = (res, reply, x', s') \<Longrightarrow> fx_Cursor x' = fx_Cursor x"
  by (induction st)
    (auto simp: evaluate_risk_def validate_stage_def set_context_def Let_def
       split: prod.splits option.splits if_splits)

function runFlow :: "('w, 'p) authn_deps \<Rightarrow> authn_env \<Rightarrow> 'p Stage list \<Rightarrow> FlowExecution \<Rightarrow> 'w authn_sys \<Rightarrow>
    StageResult \<times> authn_reply option \<times> FlowExecution \<times> 'w authn_sys" where
  "runFlow d e stages x s =
     (if fx_Cursor x < length stages
      then (case Execute d e (stages ! fx_Cursor x) x s of
              (StageContinue, reply, x, s) \<Rightarrow> runFlow d e stages (x\<lparr>fx_Cursor := fx_Cursor x + 1\<rparr>) s
            | (res, reply, x, s) \<Rightarrow> (res, reply, x, s))
      else (StageComplete, None, x, s))"
  by pat_completeness auto
termination
  by (relation "measure (\<lambda>(d, e, stages, x, s). length stages - fx_Cursor x)") (auto dest!: Execute_cursor [OF sym])

declare runFlow.simps [simp del]

section \<open>Building a flow\<close>

definition build_binding :: "'p policy_engine \<Rightarrow> PolicyConfig \<Rightarrow> 'p policyBinding option" where
  "build_binding eng pc =
     map_option (\<lambda>prog. \<lparr>pb_name = pg_Name pc, pb_negate = pg_Negate pc, pb_program = Some prog\<rparr>)
       (Compile eng (pg_Expression pc))"

fun all_some :: "'a option list \<Rightarrow> 'a list option" where
  "all_some [] = Some []"
| "all_some (None # xs) = None"
| "all_some (Some x # xs) = map_option ((#) x) (all_some xs)"

definition base_stage :: "StageConfig \<Rightarrow> 'p Stage option" where
  "base_stage sc =
     (if sc_Type sc = ''risk-evaluation'' then Some riskEvaluationStage
      else if sc_Type sc = ''authenticator-validate'' then Some authValidateStage
      else if sc_Type sc \<in> {''user-login'', ''issue''} then Some issueStage
      else if sc_Type sc = ''deny''
      then Some (denyStage (case obj_get (sc_Config sc) ''reason'' of
             Some (JStr r) \<Rightarrow> if r \<noteq> [] then r else ''access denied'' | _ \<Rightarrow> ''access denied''))
      else None)"

definition buildStage :: "'p policy_engine \<Rightarrow> StageConfig \<Rightarrow> 'p Stage option" where
  "buildStage eng sc =
     (case base_stage sc of
        None \<Rightarrow> None
      | Some base \<Rightarrow>
          if sc_Policies sc = [] then Some base
          else map_option (policyGatedStage base) (all_some (map (build_binding eng) (sc_Policies sc))))"

definition buildFlow :: "'p policy_engine \<Rightarrow> FlowDefinition \<Rightarrow> 'p Flow option" where
  "buildFlow eng def =
     (if fd_Stages def = [] then None
      else map_option (\<lambda>stages. \<lparr>fw_Slug = fd_Slug def, fw_Designation = fd_Designation def, fw_Title = fd_Title def,
               fw_Stages = stages\<rparr>)
             (all_some (map (buildStage eng) (fd_Stages def))))"

definition knownStageType :: "string \<Rightarrow> bool" where
  "knownStageType t \<longleftrightarrow> t \<in> {''risk-evaluation'', ''authenticator-validate'', ''user-login'', ''issue'', ''deny''}"

text \<open>The first fault of a definition, with the number of the stage and the policy it is in.\<close>

datatype flow_fault = NoStages | UnknownStage nat string | BadPolicy nat string | BadEnd string

definition stage_fault :: "'p policy_engine \<Rightarrow> nat \<times> StageConfig \<Rightarrow> flow_fault option" where
  "stage_fault eng p =
     (case p of (i, sc) \<Rightarrow>
        if \<not> knownStageType (sc_Type sc) then Some (UnknownStage (i + 1) (sc_Type sc))
        else map_option (\<lambda>pc. BadPolicy (i + 1) (pg_Name pc)) (find (\<lambda>pc. Compile eng (pg_Expression pc) = None) (sc_Policies sc)))"

definition ValidateFlowDefinition :: "'p policy_engine \<Rightarrow> FlowDefinition \<Rightarrow> flow_fault option" where
  "ValidateFlowDefinition eng def =
     (if fd_Stages def = [] then Some NoStages
      else (case List.map_filter (stage_fault eng) (List.enumerate 0 (fd_Stages def)) of
              fault # _ \<Rightarrow> Some fault
            | [] \<Rightarrow>
                let t = sc_Type (List.last (fd_Stages def))
                in if t \<in> {''user-login'', ''issue'', ''deny''} then None else Some (BadEnd t)))"

definition defaultAuthorizeStepUpFlow :: "'p Flow" where
  "defaultAuthorizeStepUpFlow =
     \<lparr>fw_Slug = ''default-authorization-stepup'', fw_Designation = FlowAuthorizeStepUp, fw_Title = ''Authorization step-up'',
      fw_Stages = [authValidateStage, issueStage]\<rparr>"

definition selectAuthorizeFlow :: "'p policy_engine \<Rightarrow> authn_env \<Rightarrow> string \<Rightarrow> authn_store \<Rightarrow> 'p Flow" where
  "selectAuthorizeFlow eng e tenantID s =
     (case try_op (op_fails e AGetFlow) (GetEnabledFlow tenantID FlowAuthorizeStepUp s) of
        None \<Rightarrow> defaultAuthorizeStepUpFlow
      | Some def \<Rightarrow> (case buildFlow eng def of None \<Rightarrow> defaultAuthorizeStepUpFlow | Some flow \<Rightarrow> flow))"

definition PolicySkipStepUpWhenLowRisk :: string where
  "PolicySkipStepUpWhenLowRisk = ''risk.tier == \"low\"''"

definition PolicyDenyHighRiskLocation :: string where
  "PolicyDenyHighRiskLocation = ''risk.impossible_travel || \"tor_exit\" in risk.flags''"

definition stage_config :: "string \<Rightarrow> (string \<times> json) list \<Rightarrow> PolicyConfig list \<Rightarrow> StageConfig" where
  "stage_config t config policies = \<lparr>sc_Type = t, sc_Config = config, sc_Policies = policies\<rparr>"

definition RiskAdaptiveFlowDefinition :: "string \<Rightarrow> string \<Rightarrow> bool \<Rightarrow> FlowDefinition" where
  "RiskAdaptiveFlowDefinition i tenantID enabled =
     \<lparr>fd_ID = i, fd_TenantID = tenantID, fd_Designation = FlowAuthorizeStepUp, fd_Slug = ''risk-adaptive-stepup'',
      fd_Title = ''Risk-adaptive step-up'', fd_Enabled = enabled,
      fd_Stages =
        [stage_config ''risk-evaluation'' [] [],
         stage_config ''deny'' [(''reason'', JStr ''high-risk location'')]
           [\<lparr>pg_Name = ''deny-high-risk-location'', pg_Expression = PolicyDenyHighRiskLocation, pg_Negate = False\<rparr>],
         stage_config ''authenticator-validate'' []
           [\<lparr>pg_Name = ''skip-stepup-when-low-risk'', pg_Expression = PolicySkipStepUpWhenLowRisk, pg_Negate = True\<rparr>],
         stage_config ''user-login'' [] []],
      fd_CreatedAt = 0, fd_UpdatedAt = 0\<rparr>"

end
