(* ===== verification/AuthnService.thy ===== *)
theory AuthnService
  imports AuthnFlow
begin

text \<open>
  /authorize (oidc.go), /v1/advice (advice.go) and the router (handlers.go) of authentication-service,
  over the state of a replica.
\<close>

section \<open>Authorize\<close>

text \<open>The query of /authorize, the authz-session cookie ("" when absent) and what the engine seeds.\<close>

record authorize_query =
  qa_client_id :: string
  qa_redirect_uri :: string
  qa_state :: string
  qa_scope :: string
  qa_nonce :: string
  qa_tenant_id :: string
  qa_user_id :: string
  qa_code_challenge :: string
  qa_code_challenge_method :: string
  qa_transaction_id :: string
  qa_acr_values :: string
  qa_device_fp :: string
  qa_cookie :: string
  qa_seen :: client_seen

text \<open>The client, its redirect URI and the tenant that binds the request.\<close>

definition authorize_tenant :: "authn_cfg \<Rightarrow> authn_env \<Rightarrow> authorize_query \<Rightarrow> authn_store \<Rightarrow> authn_reply + string" where
  "authorize_tenant cfg e q s =
     (if qa_client_id q = [] then Inl (invalid_request ''client_id is required'')
      else if qa_redirect_uri q = [] then Inl (invalid_request ''redirect_uri is required'')
      else if qa_code_challenge q = [] then Inl (invalid_request ''code_challenge is required (PKCE, RFC 7636)'')
      else if qa_code_challenge_method q \<noteq> ''S256''
      then Inl (invalid_request ''code_challenge_method must be S256 (plain is not supported)'')
      else (case try_op (op_fails e AGetClient) (GetClient (qa_client_id q) s) of
         None \<Rightarrow> Inl (bad_request ''invalid_client'' ''unknown client_id'')
       | Some client \<Rightarrow>
           if \<not> is_absolute cfg (qa_redirect_uri q)
           then Inl (bad_request ''invalid_redirect_uri'' ''redirect_uri must be an absolute URL'')
           else if qa_redirect_uri q \<notin> set (oc_RedirectURIs client)
           then Inl (bad_request ''invalid_redirect_uri'' ''redirect_uri not registered for this client'')
           else if oc_TenantID client \<noteq> [] \<and> qa_tenant_id q \<noteq> [] \<and> qa_tenant_id q \<noteq> oc_TenantID client
           then Inl (invalid_request ''tenant_id does not match the client's registered tenant'')
           else
             let tenant = (if oc_TenantID client = [] then qa_tenant_id q else oc_TenantID client)
             in if tenant = [] then Inl (invalid_request ''tenant_id is required (client is not tenant-bound)'') else Inr tenant))"

definition authzSession :: "authn_env \<Rightarrow> string \<Rightarrow> string \<Rightarrow> authn_store \<Rightarrow> AuthnModel.Session option" where
  "authzSession e cookie tenantID s =
     (if cookie = [] then None
      else (case try_op (op_fails e AGetSession) (AuthnModel.GetSession tenantID cookie s) of
              None \<Rightarrow> None
            | Some sess \<Rightarrow> if ss_InvalidatedAt sess \<noteq> None \<or> ss_ExpiresAt sess < now_at e 0 then None else Some sess))"

definition dev_user :: "authn_env \<Rightarrow> string \<Rightarrow> User" where
  "dev_user e tenantID =
     \<lparr>us_ID = ''usr_'' @ new_id e 0, us_TenantID = tenantID, us_Email = ''dev@example.com'', us_Name = ''Dev User'',
      us_CreatedAt = now_at e 1, us_UpdatedAt = now_at e 1\<rparr>"

definition devAutoUser :: "authn_env \<Rightarrow> string \<Rightarrow> authn_store \<Rightarrow> (User \<times> authn_store) option" where
  "devAutoUser e tenantID s =
     (case try_op (op_fails e AGetUserByEmail) (GetUserByEmail tenantID ''dev@example.com'' s) of
        Some u \<Rightarrow> Some (u, s)
      | None \<Rightarrow>
          if op_fails e ACreateUser then None
          else (case CreateUser (dev_user e tenantID) s of Inl err \<Rightarrow> None | Inr s' \<Rightarrow> Some (dev_user e tenantID, s')))"

text \<open>The end user, and the session behind the request ("" in the development mode).\<close>

definition authorize_user :: "authn_cfg \<Rightarrow> authn_env \<Rightarrow> authorize_query \<Rightarrow> string \<Rightarrow> authn_store \<Rightarrow>
    (authn_reply + User \<times> string) \<times> authn_store" where
  "authorize_user cfg e q tenant s =
     (let refuse = error_redirect cfg (qa_redirect_uri q) (qa_state q) ''login_required''
      in if ag_DevAutologin cfg
         then if qa_user_id q \<noteq> []
              then (case try_op (op_fails e AGetUser) (GetUser tenant (qa_user_id q) s) of
                      None \<Rightarrow> (Inl (invalid_request ''user_id not found in tenant''), s)
                    | Some u \<Rightarrow> (Inr (u, []), s))
              else (case devAutoUser e tenant s of
                      None \<Rightarrow> (Inl (internal ''failed to provision dev user''), s)
                    | Some (u, s) \<Rightarrow> (Inr (u, []), s))
         else (case authzSession e (qa_cookie q) tenant s of
                 None \<Rightarrow> (Inl (refuse ''authentication required - sign in first''), s)
               | Some sess \<Rightarrow>
                   (case try_op (op_fails e AGetUser) (GetUser tenant (ss_UserID sess) s) of
                      None \<Rightarrow> (Inl (refuse ''session user no longer exists''), s)
                    | Some u \<Rightarrow> (Inr (u, ss_ID sess), s))))"

definition requested_rank :: "authorize_query \<Rightarrow> int" where
  "requested_rank q = (case matchProtection (qa_acr_values q) of None \<Rightarrow> 0 | Some lvl \<Rightarrow> pl_Rank lvl)"

text \<open>The binding of an advised transaction to the request.\<close>

definition advice_refused :: "authn_env \<Rightarrow> authorize_query \<Rightarrow> string \<Rightarrow> string \<Rightarrow> authn_store \<Rightarrow> authn_reply option" where
  "advice_refused e q tenant userID s =
     (if qa_transaction_id q = [] then None
      else (case store_call (op_fails e AGetAdvice) (GetAdviceCall tenant (qa_transaction_id q) s) of
              ErrNotFound \<Rightarrow> Some (invalid_request ''unknown transaction_id'')
            | ErrOther \<Rightarrow> Some (WriteError StatusBadGateway ''internal_error'' (Lit ''could not resolve transaction_id''))
            | Got advice \<Rightarrow>
                if av_CompletedAt advice \<noteq> None then Some (invalid_request ''transaction_id has already been used'')
                else if av_UserID advice \<noteq> [] \<and> av_UserID advice \<noteq> userID
                then Some (WriteError StatusForbidden ''access_denied'' (Lit ''transaction_id was issued for a different user''))
                else if 0 < av_Rank advice \<and> requested_rank q < av_Rank advice
                then Some (invalid_request ''acr_values must request at least the advised protection level'')
                else None))"

definition pending_request :: "authorize_query \<Rightarrow> string \<Rightarrow> string \<Rightarrow> pendingAuthorize" where
  "pending_request q tenant userID =
     \<lparr>pa_ClientID = qa_client_id q, pa_TenantID = tenant, pa_UserID = userID, pa_RedirectURI = qa_redirect_uri q,
      pa_Scope = qa_scope q, pa_State = qa_state q, pa_Nonce = qa_nonce q, pa_CodeChallenge = qa_code_challenge q,
      pa_ChallengeID = [], pa_Prompt = [], pa_Method = [], pa_TransactionID = qa_transaction_id q, pa_CreatedAt = 0,
      pa_WebAuthnOptions = None, pa_TargetACR = [], pa_TargetRank = 0, pa_AuthzSessionID = []\<rparr>"

definition new_execution :: "('w, 'p) authn_deps \<Rightarrow> authn_env \<Rightarrow> authorize_query \<Rightarrow> string \<Rightarrow> string \<Rightarrow> string \<Rightarrow>
    protAchieved table \<Rightarrow> FlowExecution" where
  "new_execution d e q tenant userID sessionID ledger =
     (let lib = ag_jwt (dp_cfg d)
      in \<lparr>fx_ID = new_id e 4, fx_TenantID = tenant, fx_Designation = FlowAuthorizeStepUp, fx_Cursor = 0,
          fx_ClientID = qa_client_id q, fx_UserID = userID, fx_RedirectURI = qa_redirect_uri q, fx_Scope = qa_scope q,
          fx_State = qa_state q, fx_Nonce = qa_nonce q, fx_CodeChallenge = qa_code_challenge q,
          fx_TransactionID = qa_transaction_id q, fx_AuthzSessionID = sessionID, fx_ACRValues = qa_acr_values q,
          fx_AchievedACR = [], fx_AchievedAMR = [],
          fx_Context =
            [(''request'', JObj [(''client_id'', JStr (qa_client_id q)), (''ip'', JStr (sn_IP (qa_seen q))),
               (''device_fp'', JStr (qa_device_fp q)), (''user_agent'', JStr (sn_UserAgent (qa_seen q)))]),
             (''protection'', JObj [(''requested_rank'', int_json lib (requested_rank q)),
               (''achieved_rank'', int_json lib (Achieved (now_at e 17) sessionID ledger))])],
          fx_CreatedAt = now_at e 18\<rparr>)"

text \<open>The branch without the engine.\<close>

definition authorize_legacy :: "('w, 'p) authn_deps \<Rightarrow> authn_env \<Rightarrow> authorize_query \<Rightarrow> string \<Rightarrow> pendingAuthorize \<Rightarrow>
    'w authn_sys \<Rightarrow> authn_reply \<times> 'w authn_sys" where
  "authorize_legacy d e q sessionID p s =
     (case matchProtection (qa_acr_values q) of
        Some lvl \<Rightarrow> handleProtection (dp_clients d) (dp_cfg d) e lvl sessionID p s
      | None \<Rightarrow>
          (case matchStepUp (qa_acr_values q) of
             Some spec \<Rightarrow> startStepUpFlow (dp_clients d) e (effectiveStepUpSpec e (pa_TenantID p) spec (ay_store s)) p s
           | None \<Rightarrow> mintCodeAndRedirect (dp_cfg d) e (code_for p [] []) s))"

text \<open>A flow that ends without any stage answering leaves the empty 200 of \<open>net/http\<close>.\<close>

definition authorize_engine :: "('w, 'p) authn_deps \<Rightarrow> authn_env \<Rightarrow> authorize_query \<Rightarrow> string \<Rightarrow> string \<Rightarrow> string \<Rightarrow>
    'w authn_sys \<Rightarrow> authn_reply \<times> 'w authn_sys" where
  "authorize_engine d e q tenant userID sessionID s =
     (let flow = selectAuthorizeFlow (dp_engine d) e tenant (ay_store s);
          (res, reply, x, s') = runFlow d e (fw_Stages flow) (new_execution d e q tenant userID sessionID (ay_ledger s)) s
      in ((case reply of None \<Rightarrow> WriteJSON StatusOK AEmpty | Some r \<Rightarrow> r), s'))"

definition Authorize :: "('w, 'p) authn_deps \<Rightarrow> authn_env \<Rightarrow> authorize_query \<Rightarrow> 'w authn_sys \<Rightarrow> authn_reply \<times> 'w authn_sys" where
  "Authorize d e q s =
     (case authorize_tenant (dp_cfg d) e q (ay_store s) of
        Inl err \<Rightarrow> (err, s)
      | Inr tenant \<Rightarrow>
          (case authorize_user (dp_cfg d) e q tenant (ay_store s) of
             (Inl err, st) \<Rightarrow> (err, s\<lparr>ay_store := st\<rparr>)
           | (Inr (user, sessionID), st) \<Rightarrow>
               let s = s\<lparr>ay_store := st\<rparr>
               in (case advice_refused e q tenant (us_ID user) st of
                     Some err \<Rightarrow> (err, s)
                   | None \<Rightarrow>
                       if ag_FlowEngine (dp_cfg d) then authorize_engine d e q tenant (us_ID user) sessionID s
                       else authorize_legacy d e q sessionID (pending_request q tenant (us_ID user)) s)))"

section \<open>Advice\<close>

text \<open>The request of /v1/advice: credentials, and the body as JSON or as form values.\<close>

record advice_request =
  vr_basic :: "(string \<times> string) option"
  vr_client_id :: string
  vr_client_secret :: string
  vr_json :: bool
  vr_body :: body
  vr_session_id :: string
  vr_user_id :: string
  vr_device_id :: string
  vr_transaction_type :: string

record adviceRequest =
  vb_SessionID :: string
  vb_UserID :: string
  vb_DeviceID :: string
  vb_TransactionType :: string

definition adviceRequest_fields :: "adviceRequest field list" where
  "adviceRequest_fields =
     [into dec_string ''session_id'' vb_SessionID vb_SessionID_update, into dec_string ''user_id'' vb_UserID vb_UserID_update,
      into dec_string ''device_id'' vb_DeviceID vb_DeviceID_update,
      into dec_string ''transaction_type'' vb_TransactionType vb_TransactionType_update]"

definition authClient :: "jwt_lib \<Rightarrow> authn_env \<Rightarrow> advice_request \<Rightarrow> authn_store \<Rightarrow> OIDCClient option" where
  "authClient lib e q s =
     (let (clientID, secret) = (case vr_basic q of Some cred \<Rightarrow> cred | None \<Rightarrow> (vr_client_id q, vr_client_secret q))
      in if clientID = [] \<or> secret = [] then None
         else (case try_op (op_fails e AGetClient) (GetClient clientID s) of
                 None \<Rightarrow> None
               | Some client \<Rightarrow>
                   if oc_ClientSecretHash client = [] \<or> HashToken lib secret \<noteq> oc_ClientSecretHash client then None
                   else Some client))"

definition advice_body :: "advice_request \<Rightarrow> adviceRequest option" where
  "advice_body q =
     (if vr_json q
      then (case vr_body q of
              NoBody \<Rightarrow> Some \<lparr>vb_SessionID = [], vb_UserID = [], vb_DeviceID = [], vb_TransactionType = []\<rparr>
            | b \<Rightarrow> lenient_body (2 ^ 20) adviceRequest_fields
                     \<lparr>vb_SessionID = [], vb_UserID = [], vb_DeviceID = [], vb_TransactionType = []\<rparr> b)
      else Some \<lparr>vb_SessionID = vr_session_id q, vb_UserID = vr_user_id q, vb_DeviceID = vr_device_id q,
                 vb_TransactionType = vr_transaction_type q\<rparr>)"

definition advice_issue :: "authn_env \<Rightarrow> OIDCClient \<Rightarrow> adviceRequest \<Rightarrow> TransactionType \<Rightarrow> ProtectionLevel \<Rightarrow> authn_store \<Rightarrow>
    authn_reply \<times> authn_store" where
  "advice_issue e client b tt lvl s =
     (let i = ''txn_'' @ new_id e 0
      in (WriteJSON StatusOK (AAdvice \<lparr>ar_transaction_id = i, ar_tenant_id = oc_TenantID client,
            ar_transaction_type = tt_Name tt, ar_session_id = vb_SessionID b, ar_user_id = vb_UserID b,
            ar_device_id = vb_DeviceID b, ar_acr = pl_ACR lvl, ar_band = pl_Band lvl, ar_name = pl_Name lvl,
            ar_rank = pl_Rank lvl\<rparr>),
          if op_fails e ARecordAdvice then s
          else RecordAdviceCall
            \<lparr>av_ID = i, av_TenantID = oc_TenantID client, av_ClientID = oc_ClientID client, av_UserID = vb_UserID b,
             av_SessionID = vb_SessionID b, av_DeviceID = vb_DeviceID b, av_TransactionType = tt_Name tt,
             av_ACR = pl_ACR lvl, av_Rank = pl_Rank lvl, av_CreatedAt = now_at e 0, av_CompletedAt = None,
             av_CompletedUserID = [], av_CompletedACR = []\<rparr> s))"

definition Advise :: "jwt_lib \<Rightarrow> authn_env \<Rightarrow> advice_request option \<Rightarrow> authn_store \<Rightarrow> authn_reply \<times> authn_store" where
  "Advise lib e req s =
     (case req of
        None \<Rightarrow> (invalid_request ''could not parse request'', s)
      | Some q \<Rightarrow>
          (case authClient lib e q s of
             None \<Rightarrow> (WriteError StatusUnauthorized ''invalid_client'' (Lit ''confidential client authentication required''), s)
           | Some client \<Rightarrow>
               (case advice_body q of
                  None \<Rightarrow> (invalid_request ''invalid JSON body'', s)
                | Some b \<Rightarrow>
                    let txnType = TrimSpace (vb_TransactionType b)
                    in if txnType = [] then (invalid_request ''transaction_type is required'', s)
                       else (case store_call (op_fails e AGetTransactionType) (GetTransactionType (oc_TenantID client) txnType s) of
                          ErrNotFound \<Rightarrow> (WriteError StatusNotFound ''unknown_transaction_type''
                            (Lit ''transaction_type is not configured for this tenant''), s)
                        | ErrOther \<Rightarrow> (WriteError StatusBadGateway ''internal_error'' (Lit ''could not resolve transaction type''), s)
                        | Got tt \<Rightarrow>
                            (case protectionByACR (tt_ACR tt) of
                               None \<Rightarrow> (WriteError StatusBadGateway ''internal_error'' (Lit ''configured protection level is invalid''), s)
                             | Some lvl \<Rightarrow> advice_issue e client b tt lvl s)))))"

section \<open>The router\<close>

datatype authn_route =
    RHealthz
  | RJWKS
  | RAuthorize authorize_query
  | RAuthorizeVerify "verify_form option" client_seen
  | RRegisterBegin body
  | RRegisterFinish body
  | RToken "grant_form option"
  | RRevoke "string option"
  | RUserInfo string
  | RAdvice "advice_request option"
  | RAdmin bool authn_admin_route gate_request

definition session_route :: "authn_admin_route \<Rightarrow> bool" where
  "session_route r = (case r of SessionsCreate b \<Rightarrow> True | SessionsGet i \<Rightarrow> True | SessionsRefresh i \<Rightarrow> True
     | SessionsInvalidate i \<Rightarrow> True | SessionsUpgrade i b \<Rightarrow> True | _ \<Rightarrow> False)"

definition on_store :: "('r \<times> authn_store) \<Rightarrow> 'w authn_sys \<Rightarrow> 'r \<times> 'w authn_sys" where
  "on_store p s = (fst p, s\<lparr>ay_store := snd p\<rparr>)"

text \<open>
  \<open>RAdmin True\<close> is the alias under /internal/v1, mounted for the sessions only; \<open>secret\<close> and
  \<open>v1_internal_only\<close> are INTERNAL_AUTH_SECRET and V1_INTERNAL_ONLY.
\<close>

fun authn_router :: "('w, 'p) authn_deps \<Rightarrow> 'w fetch_keys \<Rightarrow> string \<Rightarrow> bool \<Rightarrow> authn_env \<Rightarrow> authn_route \<Rightarrow> 'w authn_sys \<Rightarrow>
    authn_reply \<times> 'w authn_sys" where
  "authn_router d fetch secret only e RHealthz s = (WriteJSON StatusOK AHealthz, s)"
| "authn_router d fetch secret only e RJWKS s = (WriteJSON StatusOK (AKeys (JWKS (ag_Signer (dp_cfg d)))), s)"
| "authn_router d fetch secret only e (RAuthorize q) s = Authorize d e q s"
| "authn_router d fetch secret only e (RAuthorizeVerify f seen) s = AuthorizeVerify (dp_clients d) (dp_cfg d) e seen f s"
| "authn_router d fetch secret only e (RRegisterBegin b) s = AuthorizeWebAuthnRegisterBegin (dp_clients d) e b s"
| "authn_router d fetch secret only e (RRegisterFinish b) s = AuthorizeWebAuthnRegisterFinish (dp_clients d) e b s"
| "authn_router d fetch secret only e (RToken f) s =
     (let (reply, st, c) = TokenEndpoint fetch (dp_cfg d) e f (ay_store s) \<lparr>id_vers = ay_idps s, id_world = ay_world s\<rparr>
      in (reply, s\<lparr>ay_store := st, ay_idps := id_vers c, ay_world := id_world c\<rparr>))"
| "authn_router d fetch secret only e (RRevoke t) s = on_store (RevokeEndpoint (dp_cfg d) e t (ay_store s)) s"
| "authn_router d fetch secret only e (RUserInfo auth) s = (UserInfo (dp_cfg d) e auth (ay_store s), s)"
| "authn_router d fetch secret only e (RAdvice q) s = on_store (Advise (ag_jwt (dp_cfg d)) e q (ay_store s)) s"
| "authn_router d fetch secret only e (RAdmin alias r g) s =
     (if alias \<and> \<not> session_route r then (WriteError StatusNotFound [] (Lit ''404 page not found''), s)
      else on_store (gated secret (alias \<or> only) (authn_v1 (ag_unicode_lower (dp_cfg d)) e r) g (ay_store s)) s)"

end
