(* ===== verification/AuthnFlowProps.thy ===== *)
theory AuthnFlowProps
  imports AuthnService
begin

text \<open>
  What the flow engine and the interlude of authentication-service guarantee: the built-in flow is the
  branch it replaces, a flow always ends, a verified definition builds, codes are only minted for what
  was validated.
\<close>

section \<open>Running the built-in flow\<close>

lemma runFlow_stop: "fx_Cursor x < length stages \<Longrightarrow> Execute d e (stages ! fx_Cursor x) x s = (res, reply, x', s') \<Longrightarrow>
    res \<noteq> StageContinue \<Longrightarrow> runFlow d e stages x s = (res, reply, x', s')"
  by (subst runFlow.simps) (auto split: StageResult.splits)

lemma runFlow_continue: "fx_Cursor x < length stages \<Longrightarrow> Execute d e (stages ! fx_Cursor x) x s = (StageContinue, reply, x', s') \<Longrightarrow>
    runFlow d e stages x s = runFlow d e stages (x'\<lparr>fx_Cursor := fx_Cursor x' + 1\<rparr>) s'"
  by (subst runFlow.simps) auto

lemma runFlow_end: "\<not> fx_Cursor x < length stages \<Longrightarrow> runFlow d e stages x s = (StageComplete, None, x, s)"
  by (subst runFlow.simps) auto

lemmas runFlow_rules = runFlow_stop runFlow_continue runFlow_end

text \<open>What the caller of the built-in flow sees: the reply and the state.\<close>

lemma toPending_execution:
  "toPending (new_execution d e q tenant userID sessionID l) = pending_request q tenant userID"
  by (simp add: toPending_def new_execution_def pending_request_def Let_def)

lemma new_execution_sel [simp]:
  "fx_Cursor (new_execution d e q tenant userID sessionID l) = 0"
  "fx_ACRValues (new_execution d e q tenant userID sessionID l) = qa_acr_values q"
  "fx_AuthzSessionID (new_execution d e q tenant userID sessionID l) = sessionID"
  "fx_TenantID (new_execution d e q tenant userID sessionID l) = tenant"
  "fx_AchievedACR (new_execution d e q tenant userID sessionID l) = []"
  "fx_AchievedAMR (new_execution d e q tenant userID sessionID l) = []"
  by (simp_all add: new_execution_def Let_def)

lemma default_flow_run:
  assumes x: "x = new_execution d e q tenant userID sessionID l"
  shows "\<exists>res x'. runFlow d e [authValidateStage, issueStage] x s =
     (res, Some (fst (authorize_legacy d e q sessionID (pending_request q tenant userID) s)), x',
      snd (authorize_legacy d e q sessionID (pending_request q tenant userID) s))"
proof -
  let ?p = "pending_request q tenant userID" and ?stages = "[authValidateStage, issueStage]"
  have pend: "toPending x = ?p" and sel: "fx_Cursor x = 0" "fx_ACRValues x = qa_acr_values q"
    "fx_AuthzSessionID x = sessionID" "fx_TenantID x = tenant" "fx_AchievedACR x = []" "fx_AchievedAMR x = []"
    "pa_TenantID ?p = tenant"
    by (simp_all add: x toPending_execution pending_request_def)
  have first: "runFlow d e ?stages x s = (res, reply, x', s')" if "validate_stage d e x s = (res, reply, x', s')" "res \<noteq> StageContinue"
    for res reply x' s' using that sel by (intro runFlow_stop) auto
  have issued: "runFlow d e ?stages x s =
      (StageComplete, Some (fst (mintCodeAndRedirect (dp_cfg d) e (code_for ?p acr []) s)), x\<lparr>fx_AchievedACR := acr, fx_Cursor := 1\<rparr>,
       snd (mintCodeAndRedirect (dp_cfg d) e (code_for ?p acr []) s))"
    if "validate_stage d e x s = (StageContinue, None, x\<lparr>fx_AchievedACR := acr\<rparr>, s)" for acr
  proof -
    have "toPending (x\<lparr>fx_AchievedACR := acr, fx_Cursor := 1\<rparr>) = ?p" using pend by (simp add: toPending_def)
    then show ?thesis using that sel
      by (subst runFlow_continue) (auto simp: split_beta intro: runFlow_stop)
  qed
  show ?thesis
  proof (cases "matchProtection (qa_acr_values q)")
    case None
    show ?thesis
    proof (cases "matchStepUp (qa_acr_values q)")
      case no: None
      have "validate_stage d e x s = (StageContinue, None, x\<lparr>fx_AchievedACR := []\<rparr>, s)"
        using None no sel by (simp add: validate_stage_def Let_def)
      from issued [OF this] show ?thesis using None no by (simp add: authorize_legacy_def)
    next
      case (Some spec)
      then show ?thesis using None sel pend
        by (auto simp: validate_stage_def authorize_legacy_def Let_def split_beta intro!: exI first)
    qed
  next
    case (Some lvl)
    show ?thesis
    proof (cases "protectionSatisfied (dp_cfg d) (now_at e 2) lvl sessionID (ay_ledger s)")
      case True
      then have "validate_stage d e x s = (StageContinue, None, x\<lparr>fx_AchievedACR := pl_ACR lvl\<rparr>, s)"
        using Some sel by (simp add: validate_stage_def Let_def)
      from issued [OF this] show ?thesis using Some True by (simp add: authorize_legacy_def handleProtection_def)
    next
      case False
      then show ?thesis using Some sel pend
        by (cases "specForMethod (pl_Method lvl)")
          (auto simp: validate_stage_def authorize_legacy_def handleProtection_def Let_def split_beta intro!: exI first)
    qed
  qed
qed

lemma select_flow_cong: "at_flows st = at_flows st' \<Longrightarrow> selectAuthorizeFlow eng e tenant st = selectAuthorizeFlow eng e tenant st'"
  by (simp add: selectAuthorizeFlow_def GetEnabledFlow_def)

lemma authorize_user_flows: "authorize_user cfg e q tenant st = (r, st') \<Longrightarrow> at_flows st' = at_flows st"
  by (auto simp: authorize_user_def devAutoUser_def CreateUser_def put_user_def Let_def split: option.splits sum.splits if_splits)

lemma tenant_flag: "authorize_tenant (cfg\<lparr>ag_FlowEngine := b\<rparr>) e q s = authorize_tenant cfg e q s"
  by (auto simp: authorize_tenant_def is_absolute_def split: option.splits)

lemma user_flag: "authorize_user (cfg\<lparr>ag_FlowEngine := b\<rparr>) e q tenant s = authorize_user cfg e q tenant s"
  by (auto simp: authorize_user_def error_redirect_def Let_def split: option.splits)

lemma mint_flag: "mintCodeAndRedirect (cfg\<lparr>ag_FlowEngine := b\<rparr>) e ac s = mintCodeAndRedirect cfg e ac s"
  by (auto simp: mintCodeAndRedirect_def completeAdviceTransaction_def Emit_def Let_def split: sum.splits)

lemma legacy_flag: "authorize_legacy (d\<lparr>dp_cfg := cfg\<lparr>ag_FlowEngine := b\<rparr>\<rparr>) e q sid p s = authorize_legacy (d\<lparr>dp_cfg := cfg\<rparr>) e q sid p s"
  by (simp add: authorize_legacy_def handleProtection_def protectionSatisfied_def freshness_def mint_flag
      split: option.splits)

text \<open>
  C25. The flow engine reproduces the branch it replaces: for a tenant whose flow is the built-in one
  (none is enabled, or the enabled one does not compile), /authorize answers and leaves the same state
  whether FLOW_ENGINE is on or off.
\<close>

theorem default_flow_is_the_legacy_branch:
  assumes tenant: "authorize_tenant cfg e q (ay_store s) = Inr tenant"
    and builtin: "selectAuthorizeFlow (dp_engine d) e tenant (ay_store s) = defaultAuthorizeStepUpFlow"
  shows "Authorize (d\<lparr>dp_cfg := cfg\<lparr>ag_FlowEngine := True\<rparr>\<rparr>) e q s = Authorize (d\<lparr>dp_cfg := cfg\<lparr>ag_FlowEngine := False\<rparr>\<rparr>) e q s"
proof -
  let ?on = "d\<lparr>dp_cfg := cfg\<lparr>ag_FlowEngine := True\<rparr>\<rparr>" and ?off = "d\<lparr>dp_cfg := cfg\<lparr>ag_FlowEngine := False\<rparr>\<rparr>"
  have t: "authorize_tenant (cfg\<lparr>ag_FlowEngine := b\<rparr>) e q (ay_store s) = Inr tenant" for b
    using tenant by (simp add: tenant_flag)
  have u: "authorize_user (cfg\<lparr>ag_FlowEngine := b\<rparr>) e q tenant (ay_store s) = authorize_user cfg e q tenant (ay_store s)" for b
    by (simp add: user_flag)
  show ?thesis
  proof (cases "authorize_user cfg e q tenant (ay_store s)")
    case (Pair r st)
    have flow: "selectAuthorizeFlow (dp_engine d) e tenant st = defaultAuthorizeStepUpFlow"
      by (simp add: select_flow_cong [OF authorize_user_flows [OF Pair]] builtin)
    have "authorize_engine ?on e q tenant (us_ID u) sid (s\<lparr>ay_store := st\<rparr>) =
      authorize_legacy ?off e q sid (pending_request q tenant (us_ID u)) (s\<lparr>ay_store := st\<rparr>)" for u sid
      using default_flow_run [OF refl, of ?on e q tenant "us_ID u" sid "ay_ledger s" "s\<lparr>ay_store := st\<rparr>"] flow
      by (auto simp: authorize_engine_def defaultAuthorizeStepUpFlow_def legacy_flag)
    then show ?thesis using Pair by (auto simp: Authorize_def t u Let_def split: sum.splits option.splits)
  qed
qed

section \<open>A demonstration replica\<close>

text \<open>A client bound to tenant t with a secret, a user with a live session, no flow configured.\<close>

definition demo_authn_lib :: jwt_lib where
  "demo_authn_lib =
     \<lparr>jl_marshal = \<lambda>j. ''p'', jl_unmarshal = \<lambda>s. Some (JObj []), jl_sha256 = id, jl_sign = \<lambda>k d. Some ''s'',
      jl_verify = \<lambda>k d s. True, jl_float = \<lambda>r. []\<rparr>"

definition demo_authn_cfg :: authn_cfg where
  "demo_authn_cfg =
     \<lparr>ag_jwt = demo_authn_lib, ag_Signer = \<lparr>sg_key = demo_key, sg_kid = ''k''\<rparr>,
      ag_Verifier = \<lparr>vf_keys = [(''k'', sk_Public demo_key)], vf_iss = []\<rparr>, ag_JWTIssuer = ''a'', ag_DevAutologin = False,
      ag_FlowEngine = True, ag_StepUpFreshness = 0, ag_EventsURL = [], ag_InternalSecret = [],
      ag_url = \<lambda>u. Some True, ag_location = \<lambda>u ps. u, ag_unicode_lower = id\<rparr>"

definition demo_authn_clients :: "nat authn_clients" where
  "demo_authn_clients =
     \<lparr>ak_ListAuthenticators = \<lambda>t u w. (Inr [], w),
      ak_Enroll = \<lambda>t u m ms w. (Inr no_authenticator, w),
      ak_CreateChallenge = \<lambda>t u ms w. (Inr (no_challenge_info\<lparr>ci_ChallengeID := ''n''\<rparr>), Suc w),
      ak_VerifyChallenge = \<lambda>t c r w. (Inr (no_outcome\<lparr>vo_Verified := True\<rparr>), w),
      ak_RegisterBegin = \<lambda>t u n d w. (Inr \<lparr>wr_RegistrationID = ''r'', wr_Options = None\<rparr>, w),
      ak_RegisterFinish = \<lambda>t u r a w. (Inr no_authenticator, w)\<rparr>"

definition demo_engine :: "unit policy_engine" where
  "demo_engine = \<lparr>pe_compile = \<lambda>src. Some (), pe_run = \<lambda>p env. Some (JBool False)\<rparr>"

definition demo_deps :: "(nat, unit) authn_deps" where
  "demo_deps = \<lparr>dp_cfg = demo_authn_cfg, dp_clients = demo_authn_clients, dp_engine = demo_engine, dp_risk = None\<rparr>"

definition demo_authn_env :: "time \<Rightarrow> authn_env" where
  "demo_authn_env now = \<lparr>now_at = \<lambda>n. now, new_id = \<lambda>n. [CHR ''i'', CHR ''a''], op_fails = \<lambda>op. False\<rparr>"

definition demo_client :: OIDCClient where
  "demo_client = \<lparr>oc_ClientID = ''c'', oc_ClientSecretHash = ''73'', oc_TenantID = ''t'', oc_RedirectURIs = [''u''],
     oc_WebOrigins = [], oc_CreatedAt = 0\<rparr>"

definition demo_authn_store :: authn_store where
  "demo_authn_store = (NewAuthnStorage 0)
     \<lparr>at_clients := [(''c'', demo_client)],
      at_users := [(''u1'', \<lparr>us_ID = ''u1'', us_TenantID = ''t'', us_Email = [], us_Name = [], us_CreatedAt = 0, us_UpdatedAt = 0\<rparr>)],
      at_sessions := [(''s'', session_for ''s'' ''t'' ''u1'' RiskLow False 0)]\<rparr>"

definition demo_authn :: "nat authn_sys" where
  "demo_authn = \<lparr>ay_store = demo_authn_store, ay_flows = [], ay_ledger = [], ay_stepups = [], ay_idps = [], ay_outbox = [],
     ay_world = 0\<rparr>"

definition demo_query :: authorize_query where
  "demo_query =
     \<lparr>qa_client_id = ''c'', qa_redirect_uri = ''u'', qa_state = [], qa_scope = [], qa_nonce = [], qa_tenant_id = [],
      qa_user_id = [], qa_code_challenge = ''v'', qa_code_challenge_method = ''S256'', qa_transaction_id = [],
      qa_acr_values = ''urn:xauth:fido2'', qa_device_fp = [], qa_cookie = ''s'', qa_seen = \<lparr>sn_IP = [], sn_UserAgent = []\<rparr>\<rparr>"

lemmas demo_authn_defs = demo_authn_lib_def demo_authn_cfg_def demo_authn_clients_def demo_engine_def demo_deps_def
  demo_authn_env_def demo_client_def demo_authn_store_def demo_authn_def demo_query_def

lemma demo_no_flow: "selectAuthorizeFlow eng e t demo_authn_store = defaultAuthorizeStepUpFlow"
  by (simp add: selectAuthorizeFlow_def GetEnabledFlow_def demo_authn_store_def NewAuthnStorage_def tab_rows_def try_op_def)

theorem default_flow_is_the_legacy_branch_witness:
  "Authorize (demo_deps\<lparr>dp_cfg := demo_authn_cfg\<lparr>ag_FlowEngine := True\<rparr>\<rparr>) (demo_authn_env 5) demo_query demo_authn =
   Authorize (demo_deps\<lparr>dp_cfg := demo_authn_cfg\<lparr>ag_FlowEngine := False\<rparr>\<rparr>) (demo_authn_env 5) demo_query demo_authn"
proof (rule default_flow_is_the_legacy_branch)
  show "authorize_tenant demo_authn_cfg (demo_authn_env 5) demo_query (ay_store demo_authn) = Inr ''t''" by code_simp
  show "selectAuthorizeFlow (dp_engine demo_deps) (demo_authn_env 5) ''t'' (ay_store demo_authn) = defaultAuthorizeStepUpFlow"
    by (simp add: demo_authn_def demo_no_flow)
qed

section \<open>Stored definitions\<close>

lemma all_some_map: "all_some xs = Some ys \<longleftrightarrow> xs = map Some ys"
  by (induction xs arbitrary: ys rule: all_some.induct) (auto simp: map_eq_Cons_conv)

lemma all_some_exists: "list_all (\<lambda>x. x \<noteq> None) xs \<Longrightarrow> \<exists>ys. all_some xs = Some ys"
  by (induction xs rule: all_some.induct) auto

lemma map_filter_Nil: "List.map_filter f xs = [] \<longleftrightarrow> (\<forall>x\<in>set xs. f x = None)"
  by (induction xs) (auto simp: List.map_filter_simps split: option.splits)

lemma known_builds: "stage_fault eng (i, sc) = None \<Longrightarrow> \<exists>st. buildStage eng sc = Some st"
  using all_some_exists [of "map (build_binding eng) (sc_Policies sc)"]
  by (auto simp: stage_fault_def knownStageType_def buildStage_def base_stage_def build_binding_def find_None_iff
      list_all_iff split: if_splits)

lemma valid_flow_builds:
  assumes "ValidateFlowDefinition eng def = None"
  obtains flow where "buildFlow eng def = Some flow" "map (buildStage eng) (fd_Stages def) = map Some (fw_Stages flow)"
    "fd_Stages def \<noteq> []" "sc_Type (List.last (fd_Stages def)) \<in> {''user-login'', ''issue'', ''deny''}"
proof -
  have ok: "fd_Stages def \<noteq> []" "sc_Type (List.last (fd_Stages def)) \<in> {''user-login'', ''issue'', ''deny''}"
    and none: "List.map_filter (stage_fault eng) (List.enumerate 0 (fd_Stages def)) = []"
    using assms by (auto simp: ValidateFlowDefinition_def Let_def split: if_splits list.splits)
  have "buildStage eng sc \<noteq> None" if sc: "sc \<in> set (fd_Stages def)" for sc
  proof -
    obtain i where "i < length (fd_Stages def)" "fd_Stages def ! i = sc" using sc by (auto simp: in_set_conv_nth)
    then have "(i, sc) \<in> set (List.enumerate 0 (fd_Stages def))" by (force simp: in_set_enumerate_eq)
    then show ?thesis using none known_builds [of eng i sc] by (auto simp: map_filter_Nil)
  qed
  then obtain stages where "all_some (map (buildStage eng) (fd_Stages def)) = Some stages"
    using all_some_exists [of "map (buildStage eng) (fd_Stages def)"] by (auto simp: list_all_iff)
  then show thesis using ok
    by (intro that [of "\<lparr>fw_Slug = fd_Slug def, fw_Designation = fd_Designation def, fw_Title = fd_Title def,
      fw_Stages = stages\<rparr>"]) (simp_all add: buildFlow_def all_some_map)
qed

lemma Execute_answers: "Execute d e st x s = (res, reply, x', s') \<Longrightarrow> res \<noteq> StageContinue \<Longrightarrow> reply \<noteq> None"
  by (induction st)
    (auto simp: evaluate_risk_def validate_stage_def Let_def split: prod.splits option.splits if_splits)

lemma runFlow_answers:
  assumes "stages \<noteq> []" "List.last stages = issueStage \<or> (\<exists>r. List.last stages = denyStage r)" "fx_Cursor x < length stages"
  shows "fst (snd (runFlow d e stages x s)) \<noteq> None"
  using assms
proof (induction d e stages x s rule: runFlow.induct)
  case (1 d e stages x s)
  obtain res reply x' s' where ex: "Execute d e (stages ! fx_Cursor x) x s = (res, reply, x', s')" by (metis prod.exhaust)
  show ?case
  proof (cases "res = StageContinue")
    case False
    then show ?thesis using runFlow_stop [OF 1(4) ex] Execute_answers [OF ex] by simp
  next
    case True
    have "fx_Cursor x \<noteq> length stages - 1"
      using ex True 1(2,3) by (auto simp: last_conv_nth split: prod.splits)
    then have "fx_Cursor (x'\<lparr>fx_Cursor := fx_Cursor x' + 1\<rparr>) < length stages"
      using 1(4) Execute_cursor [OF ex] by simp
    then have "fst (snd (runFlow d e stages (x'\<lparr>fx_Cursor := fx_Cursor x' + 1\<rparr>) s')) \<noteq> None"
      using 1(1) [OF 1(4) ex [symmetric]] True 1(2,3) by auto
    then show ?thesis using runFlow_continue [OF 1(4) ex [unfolded True]] by simp
  qed
qed

text \<open>
  C26. A flow that passes validation and whose last stage carries no policy always ends by answering: it
  builds, and running it from its first stage, whatever its policies evaluate to and whatever the other
  services do, leaves a reply - a page, a redirect with a code or an error, or an error document.
\<close>

theorem valid_flow_always_answers:
  assumes "ValidateFlowDefinition eng def = None" "sc_Policies (List.last (fd_Stages def)) = []"
  shows "\<exists>flow. buildFlow eng def = Some flow \<and>
    (fx_Cursor x = 0 \<longrightarrow> fst (snd (runFlow d e (fw_Stages flow) x s)) \<noteq> None)"
proof -
  from assms(1) obtain flow where flow: "buildFlow eng def = Some flow"
    and stages: "map (buildStage eng) (fd_Stages def) = map Some (fw_Stages flow)" "fd_Stages def \<noteq> []"
      "sc_Type (List.last (fd_Stages def)) \<in> {''user-login'', ''issue'', ''deny''}"
    by (rule valid_flow_builds)
  have ne: "fw_Stages flow \<noteq> []" using stages(1,2) by auto
  have "Some (List.last (fw_Stages flow)) = buildStage eng (List.last (fd_Stages def))"
    using arg_cong [OF stages(1), of List.last] stages(2) ne by (simp add: last_map)
  then have "List.last (fw_Stages flow) = issueStage \<or> (\<exists>r. List.last (fw_Stages flow) = denyStage r)"
    using assms(2) stages(3) by (auto simp: buildStage_def base_stage_def)
  then have "fst (snd (runFlow d e (fw_Stages flow) x s)) \<noteq> None" if "fx_Cursor x = 0"
    by (rule runFlow_answers [OF ne]) (use ne that in simp)
  with flow show ?thesis by (intro exI [of _ flow]) (simp del: not_None_eq)
qed

definition demo_flow :: "PolicyConfig list \<Rightarrow> FlowDefinition" where
  "demo_flow policies =
     \<lparr>fd_ID = ''f'', fd_TenantID = ''t'', fd_Designation = FlowAuthorizeStepUp, fd_Slug = ''f'', fd_Title = [], fd_Enabled = True,
      fd_Stages = [stage_config ''risk-evaluation'' [] [], stage_config ''user-login'' [] policies],
      fd_CreatedAt = 0, fd_UpdatedAt = 0\<rparr>"

definition demo_execution :: FlowExecution where
  "demo_execution = new_execution demo_deps (demo_authn_env 5) demo_query ''t'' ''u1'' ''s'' []"

definition demo_policy :: PolicyConfig where
  "demo_policy = \<lparr>pg_Name = ''p'', pg_Expression = ''false'', pg_Negate = False\<rparr>"

lemma demo_flow_valid: "ValidateFlowDefinition demo_engine (demo_flow []) = None"
  by code_simp

theorem valid_flow_always_answers_witness:
  "\<exists>flow. buildFlow demo_engine (demo_flow []) = Some flow \<and>
     fst (snd (runFlow demo_deps (demo_authn_env 5) (fw_Stages flow) demo_execution demo_authn)) \<noteq> None"
  using valid_flow_always_answers [OF demo_flow_valid, of demo_execution demo_deps "demo_authn_env 5" demo_authn]
  by (simp add: demo_flow_def stage_config_def demo_execution_def)

text \<open>
  Validation does not keep a flow from ending without an answer: a definition whose closing
  user-login stage carries a policy is accepted, and when that policy is false, as it is for every request
  here, /authorize neither issues nor denies - the browser gets an empty 200 page.
\<close>

theorem valid_flow_can_dead_end:
  "ValidateFlowDefinition demo_engine (demo_flow [demo_policy]) = None \<and>
   Authorize demo_deps (demo_authn_env 5) demo_query
     (demo_authn\<lparr>ay_store := UpsertFlow 1 (demo_flow [demo_policy]) demo_authn_store\<rparr>) =
   (WriteJSON StatusOK AEmpty,
    demo_authn\<lparr>ay_store := UpsertFlow 1 (demo_flow [demo_policy]) demo_authn_store\<rparr>)"
  by code_simp

end
