(* ===== verification/AuthnStepProps.thy ===== *)
theory AuthnStepProps
  imports AuthnFlowProps
begin

text \<open>
  What the interlude of authentication-service guarantees of the codes it mints, and two ways around the
  assurance it is for: a lower step-up renews a higher level, and a passkey may be registered in the
  middle of the ceremony that is to prove one.
\<close>

section \<open>What the steps leave of the storage\<close>

abbreviation codes :: "'w authn_sys \<Rightarrow> AuthCode table" where
  "codes s \<equiv> at_codes (ay_store s)"

lemma tab_put_member: "(k, r) \<in> set (tab_put k' r' m) \<Longrightarrow> k = k' \<and> r = r' \<or> (k, r) \<in> set m"
  unfolding tab_put_def by (induction m) (auto split: if_splits)

lemma call_world_keeps: "call_world f s = (r, s') \<Longrightarrow> \<exists>w. f (ay_world s) = (r, w) \<and> s' = s\<lparr>ay_world := w\<rparr>"
  by (auto simp: call_world_def split: prod.splits)

lemma call_world_case [simp]:
  "(case call_world f s of (r, s') \<Rightarrow> g r s') = g (fst (f (ay_world s))) (s\<lparr>ay_world := snd (f (ay_world s))\<rparr>)"
  by (simp add: call_world_def split_beta)

lemma call_world_store [simp]: "ay_store (snd (call_world f s)) = ay_store s"
  by (simp add: call_world_def split_beta)

lemma park_store [simp]: "ay_store (park e p s) = ay_store s"
  by (simp add: park_def)

lemma start_keeps_store:
  "ay_store (snd (startWebAuthnStepUp cl e spec p s)) = ay_store s"
  "ay_store (snd (start_code_challenge cl e spec p s)) = ay_store s"
  "ay_store (snd (startStepUpFlow cl e spec p s)) = ay_store s"
proof -
  show web: "ay_store (snd (startWebAuthnStepUp cl e spec p s)) = ay_store s" for p s
    by (simp add: startWebAuthnStepUp_def Let_def split: sum.split)
  show code: "ay_store (snd (start_code_challenge cl e spec p s)) = ay_store s" for p s
    by (simp add: start_code_challenge_def Let_def split: sum.split)
  show "ay_store (snd (startStepUpFlow cl e spec p s)) = ay_store s"
    by (simp add: startStepUpFlow_def Let_def web code split: sum.split option.split)
qed

lemma revoke_where_codes [simp]: "at_codes (snd (revoke_where P now st)) = at_codes st"
  by (simp add: revoke_where_def Let_def)

lemma condemn_codes [simp]: "at_codes (condemn_session e ds st) = at_codes st"
  by (auto simp: condemn_session_def revokeSession_def RevokeTokenFamiliesBySession_def AuthnModel.UpdateSession_def
      CreateSession_def Let_def split: option.splits)

lemma Emit_keeps [simp]: "ay_store (Emit cfg ev s) = ay_store s" "ay_flows (Emit cfg ev s) = ay_flows s"
  "ay_ledger (Emit cfg ev s) = ay_ledger s"
  by (simp_all add: Emit_def)

lemma Observe_keeps [simp]: "codes (Observe cfg e seen t u x stage fp s) = codes s"
  "ay_flows (Observe cfg e seen t u x stage fp s) = ay_flows s"
  by (simp_all add: Observe_def analyze_def RecordDeviceSignal_def Let_def)

lemma complete_keeps [simp]: "codes (completeAdviceTransaction cfg e ac s) = codes s"
  "ay_flows (completeAdviceTransaction cfg e ac s) = ay_flows s"
  by (auto simp: completeAdviceTransaction_def MarkAdviceCallCompleted_def split: sum.splits option.splits)

lemma mint_flows [simp]: "ay_flows (snd (mintCodeAndRedirect cfg e ac s)) = ay_flows s"
  by (simp add: mintCodeAndRedirect_def Let_def PutAuthCode_def)

lemma mint_codes:
  "codes (snd (mintCodeAndRedirect cfg e ac s)) = codes s \<or>
   codes (snd (mintCodeAndRedirect cfg e ac s)) = tab_put (new_id e 2) (ac\<lparr>ac_Code := new_id e 2, ac_CreatedAt := now_at e 14\<rparr>) (codes s)"
  by (simp add: mintCodeAndRedirect_def Let_def PutAuthCode_def)

lemma minted_row:
  assumes "(k, c) \<in> set (codes (snd (mintCodeAndRedirect cfg e ac s)))" "(k, c) \<notin> set (codes s)"
  shows "c = ac\<lparr>ac_Code := new_id e 2, ac_CreatedAt := now_at e 14\<rparr>"
  using mint_codes [of cfg e ac s] assms by (auto dest: tab_put_member)

text \<open>What a code carries of the request it was minted for.\<close>

definition code_matches :: "pendingAuthorize \<Rightarrow> AuthCode \<Rightarrow> bool" where
  "code_matches p c \<longleftrightarrow> ac_ClientID c = pa_ClientID p \<and> ac_TenantID c = pa_TenantID p \<and> ac_UserID c = pa_UserID p \<and>
     ac_RedirectURI c = pa_RedirectURI p \<and> ac_Scope c = pa_Scope p \<and> ac_Nonce c = pa_Nonce p \<and>
     ac_CodeChallenge c = pa_CodeChallenge p \<and> ac_TransactionID c = pa_TransactionID p"

lemma minted_matches:
  assumes "(k, c) \<in> set (codes (snd (mintCodeAndRedirect cfg e (code_for p acr amr) s)))" "(k, c) \<notin> set (codes s)"
  shows "code_matches p c \<and> ac_ACR c = acr \<and> ac_AMR c = amr"
  using minted_row [OF assms] by (simp add: code_for_def code_matches_def)

section \<open>Codes of the verification page\<close>

lemma verified_flow_codes:
  assumes "(k, c) \<in> set (codes (snd (verified_flow cfg e seen f spec flow out s)))" "(k, c) \<notin> set (codes s)"
  shows "code_matches flow c \<and> ac_ACR c = (if pa_TargetACR flow \<noteq> [] then pa_TargetACR flow else sx_ACR spec) \<and>
    ay_flows (snd (verified_flow cfg e seen f spec flow out s)) = tab_del (vq_flow f) (ay_flows s)"
proof -
  have st: "codes (dropFlow i s) = codes s" "ay_flows (dropFlow i s) = tab_del i (ay_flows s)" for i
    by (simp_all add: dropFlow_def)
  show ?thesis
    using minted_matches [of k c, OF assms(1) [unfolded verified_flow_def Let_def]] assms(2)
    by (auto simp: verified_flow_def Let_def st)
qed

lemma verify_error_store: "ay_store (snd (verify_error flow i st s)) = ay_store s"
  by (simp add: verify_error_def dropFlow_def)

text \<open>
  C6. The verification page mints a code only on a verdict: whenever /authorize/verify adds a code to the
  storage, a request was parked under the submitted flow id at most ten minutes before, the
  authenticator service verified the response to exactly that request's challenge, the code carries the
  parked request's client, tenant, user, redirect URI, PKCE challenge and transaction and the assurance the
  request was challenged for, and the parked request is gone.
\<close>

theorem step_up_codes_are_verified:
  assumes "(k, c) \<in> set (codes (snd (AuthorizeVerify cl cfg e seen (Some f) s)))" "(k, c) \<notin> set (codes s)"
  shows "\<exists>flow spec response out w. tab_get (ay_flows s) (vq_flow f) = Some flow \<and>
    now_at e 2 - pa_CreatedAt flow \<le> otpFlowTTL \<and> specForMethod (pa_Method flow) = Some spec \<and>
    ak_VerifyChallenge cl (pa_TenantID flow) (pa_ChallengeID flow) response (ay_world s) = (Inr out, w) \<and> vo_Verified out \<and>
    code_matches flow c \<and> ac_ACR c = (if pa_TargetACR flow \<noteq> [] then pa_TargetACR flow else sx_ACR spec) \<and>
    tab_get (ay_flows (snd (AuthorizeVerify cl cfg e seen (Some f) s))) (vq_flow f) = None"
proof -
  let ?r = "AuthorizeVerify cl cfg e seen (Some f) s"
  have ne: "vq_flow f \<noteq> []" using assms by (auto simp: AuthorizeVerify_def)
  obtain flow where flow: "tab_get (ay_flows s) (vq_flow f) = Some flow" "\<not> otpFlowTTL < now_at e 2 - pa_CreatedAt flow"
    using assms ne
    by (auto simp: AuthorizeVerify_def peek_def peekFlow_def Let_def split: option.splits if_splits prod.splits)
  then have peek: "peek e (vq_flow f) s = (Some flow, s)" by (simp add: peek_def peekFlow_def)
  obtain spec where spec: "specForMethod (pa_Method flow) = Some spec"
    using assms ne peek by (auto simp: AuthorizeVerify_def dropFlow_def split: option.splits)
  then have r: "?r = verify_flow cl cfg e seen f spec flow s" using ne peek by (simp add: AuthorizeVerify_def)
  obtain response where resp: "step_up_response cfg spec flow f = Inr (Some response)"
    using assms r by (auto simp: verify_flow_def verify_error_store split: sum.splits option.splits)
  obtain v w where v: "ak_VerifyChallenge cl (pa_TenantID flow) (pa_ChallengeID flow) response (ay_world s) = (v, w)" by fastforce
  then have call: "call_world (ak_VerifyChallenge cl (pa_TenantID flow) (pa_ChallengeID flow) response) s = (v, s\<lparr>ay_world := w\<rparr>)"
    by (simp add: call_world_def)
  obtain out where out: "v = Inr out" "vo_Verified out"
    using assms r resp call
    by (auto simp: verify_flow_def verify_error_store dropFlow_def split: sum.splits if_splits)
  then have "?r = verified_flow cfg e seen f spec flow out (s\<lparr>ay_world := w\<rparr>)"
    using r resp call by (simp add: verify_flow_def)
  then have "code_matches flow c \<and> ac_ACR c = (if pa_TargetACR flow \<noteq> [] then pa_TargetACR flow else sx_ACR spec) \<and>
      ay_flows (snd ?r) = tab_del (vq_flow f) (ay_flows s)"
    using verified_flow_codes [of k c cfg e seen f spec flow out "s\<lparr>ay_world := w\<rparr>"] assms by simp
  then show ?thesis using flow spec v out by (intro exI conjI) (auto simp: table_simps)
qed

definition demo_pending :: pendingAuthorize where
  "demo_pending = (pending_request demo_query ''t'' ''u1'')
     \<lparr>pa_ChallengeID := ''n0'', pa_Method := ''fido2'', pa_CreatedAt := 5, pa_TargetACR := ''urn:xauth:protect:ultra:strict'',
      pa_TargetRank := 8, pa_AuthzSessionID := ''s''\<rparr>"

definition demo_parked :: "nat authn_sys" where
  "demo_parked = demo_authn\<lparr>ay_flows := [(''f'', demo_pending)]\<rparr>"

definition demo_verify :: verify_form where
  "demo_verify = \<lparr>vq_flow = ''f'', vq_assertion = ''x'', vq_code = [], vq_device_fp = []\<rparr>"

definition demo_minted :: AuthCode where
  "demo_minted = (code_for demo_pending ''urn:xauth:protect:ultra:strict'' [''user'', ''swk''])
     \<lparr>ac_Code := ''ia'', ac_CreatedAt := 9\<rparr>"

theorem step_up_codes_are_verified_witness:
  "\<exists>flow spec response out w. tab_get (ay_flows demo_parked) ''f'' = Some flow \<and> specForMethod (pa_Method flow) = Some spec \<and>
     ak_VerifyChallenge demo_authn_clients (pa_TenantID flow) (pa_ChallengeID flow) response 0 = (Inr out, w) \<and> vo_Verified out \<and>
     code_matches flow demo_minted"
proof -
  have "(''ia'', demo_minted) \<in> set (codes (snd (AuthorizeVerify demo_authn_clients demo_authn_cfg (demo_authn_env 9)
      \<lparr>sn_IP = [], sn_UserAgent = []\<rparr> (Some demo_verify) demo_parked)))" by code_simp
  moreover have "(''ia'', demo_minted) \<notin> set (codes demo_parked)" by code_simp
  ultimately have "\<exists>flow spec response out w. tab_get (ay_flows demo_parked) (vq_flow demo_verify) = Some flow \<and>
    now_at (demo_authn_env 9) 2 - pa_CreatedAt flow \<le> otpFlowTTL \<and> specForMethod (pa_Method flow) = Some spec \<and>
    ak_VerifyChallenge demo_authn_clients (pa_TenantID flow) (pa_ChallengeID flow) response (ay_world demo_parked) = (Inr out, w) \<and>
    vo_Verified out \<and> code_matches flow demo_minted \<and>
    ac_ACR demo_minted = (if pa_TargetACR flow \<noteq> [] then pa_TargetACR flow else sx_ACR spec) \<and>
    tab_get (ay_flows (snd (AuthorizeVerify demo_authn_clients demo_authn_cfg (demo_authn_env 9)
      \<lparr>sn_IP = [], sn_UserAgent = []\<rparr> (Some demo_verify) demo_parked))) (vq_flow demo_verify) = None"
    by (rule step_up_codes_are_verified)
  then show ?thesis by (simp add: demo_verify_def demo_parked_def demo_authn_def) blast
qed

section \<open>Codes of /authorize\<close>

lemma Execute_keeps_request: "Execute d e st x s = (res, reply, x', s') \<Longrightarrow> toPending x' = toPending x"
  by (induction st)
    (auto simp: evaluate_risk_def validate_stage_def set_context_def toPending_def Let_def split_beta
       split: option.splits if_splits)

lemma Execute_codes:
  "Execute d e st x s = (res, reply, x', s') \<Longrightarrow> (k, c) \<in> set (codes s') \<Longrightarrow> (k, c) \<notin> set (codes s) \<Longrightarrow>
    code_matches (toPending x) c"
proof (induction st)
  case issueStage
  then show ?case by (auto simp: split_beta dest: minted_matches)
qed (auto simp: evaluate_risk_def validate_stage_def Let_def split_beta start_keeps_store split: option.splits if_splits)

lemma runFlow_codes:
  "(k, c) \<in> set (codes (snd (snd (snd (runFlow d e stages x s))))) \<Longrightarrow> (k, c) \<notin> set (codes s) \<Longrightarrow> code_matches (toPending x) c"
proof (induction d e stages x s rule: runFlow.induct)
  case (1 d e stages x s)
  obtain res reply x' s' where ex: "Execute d e (stages ! fx_Cursor x) x s = (res, reply, x', s')" by (metis prod.exhaust)
  show ?case
  proof (cases "fx_Cursor x < length stages")
    case False
    then show ?thesis using 1(2,3) by (simp add: runFlow_end)
  next
    case run: True
    show ?thesis
    proof (cases "res = StageContinue")
      case False
      then show ?thesis using 1(2,3) runFlow_stop [OF run ex] Execute_codes [OF ex] by simp
    next
      case True
      have "toPending (x'\<lparr>fx_Cursor := fx_Cursor x' + 1\<rparr>) = toPending x"
        using Execute_keeps_request [OF ex] by (simp add: toPending_def)
      moreover have "(k, c) \<in> set (codes (snd (snd (snd (runFlow d e stages (x'\<lparr>fx_Cursor := fx_Cursor x' + 1\<rparr>) s')))))"
        using 1(2) runFlow_continue [OF run ex [unfolded True]] by simp
      ultimately show ?thesis
        using 1(1) [OF run ex [symmetric] True refl refl] Execute_codes [OF ex] 1(3) by (metis (no_types))
    qed
  qed
qed

lemma authorize_tenant_InrE:
  assumes "authorize_tenant cfg e q st = Inr tenant"
  obtains client where "GetClient (qa_client_id q) st = Some client" "qa_redirect_uri q \<in> set (oc_RedirectURIs client)"
    "qa_code_challenge q \<noteq> []" "oc_TenantID client \<noteq> [] \<Longrightarrow> tenant = oc_TenantID client" "tenant \<noteq> []"
  using assms by (auto simp: authorize_tenant_def Let_def split: option.splits if_splits)

lemma authorize_user_session:
  assumes "authorize_user cfg e q tenant st = (Inr (u, sid), st')" "\<not> ag_DevAutologin cfg"
  shows "\<exists>sess. AuthnModel.GetSession tenant (qa_cookie q) st = Some sess \<and> ss_InvalidatedAt sess = None \<and>
    now_at e 0 \<le> ss_ExpiresAt sess \<and> GetUser tenant (ss_UserID sess) st = Some u \<and> sid = ss_ID sess"
  using assms by (auto simp: authorize_user_def authzSession_def Let_def split: option.splits if_splits)

lemma authorize_user_rest:
  "authorize_user cfg e q tenant st = (r, st') \<Longrightarrow> at_codes st' = at_codes st \<and> at_adviceLog st' = at_adviceLog st"
  by (auto simp: authorize_user_def devAutoUser_def CreateUser_def put_user_def Let_def split: option.splits sum.splits if_splits)

lemma legacy_codes:
  assumes "(k, c) \<in> set (codes (snd (authorize_legacy d e q sid p s)))" "(k, c) \<notin> set (codes s)"
  shows "code_matches p c \<and>
    (case matchProtection (qa_acr_values q) of
       Some lvl \<Rightarrow> protectionSatisfied (dp_cfg d) (now_at e 2) lvl sid (ay_ledger s) \<and> ac_ACR c = pl_ACR lvl
     | None \<Rightarrow> matchStepUp (qa_acr_values q) = None \<and> ac_ACR c = [])"
  using assms minted_matches [of k c "dp_cfg d" e p _ "[]" s]
  by (auto simp: authorize_legacy_def handleProtection_def start_keeps_store split: option.splits if_splits)

text \<open>The advised transaction a request may complete.\<close>

definition transaction_open :: "authorize_query \<Rightarrow> string \<Rightarrow> string \<Rightarrow> authn_store \<Rightarrow> bool" where
  "transaction_open q tenant userID st \<longleftrightarrow>
     (case GetAdviceCall tenant (qa_transaction_id q) st of
        None \<Rightarrow> False
      | Some a \<Rightarrow> av_CompletedAt a = None \<and> (av_UserID a = [] \<or> av_UserID a = userID) \<and>
                  (av_Rank a \<le> 0 \<or> av_Rank a \<le> requested_rank q))"

lemma advice_accepted:
  "advice_refused e q tenant userID st = None \<Longrightarrow> qa_transaction_id q \<noteq> [] \<Longrightarrow> transaction_open q tenant userID st"
  by (auto simp: advice_refused_def transaction_open_def not_less split: got.splits if_splits)


definition demo_level_query :: authorize_query where
  "demo_level_query = demo_query\<lparr>qa_acr_values := ''urn:xauth:protect:high:protected''\<rparr>"

definition demo_satisfied :: "nat authn_sys" where
  "demo_satisfied = demo_authn\<lparr>ay_ledger := [(''s'', \<lparr>pr_rank = 1, pr_at = 4\<rparr>)]\<rparr>"

definition demo_passed :: AuthCode where
  "demo_passed = (code_for (pending_request demo_level_query ''t'' ''u1'') ''urn:xauth:protect:high:protected'' [])
     \<lparr>ac_Code := ''ia'', ac_CreatedAt := 5\<rparr>"


section \<open>Two ways around the assurance\<close>

lemma tab_get_kept: "tab_get l k = Some v \<Longrightarrow> P v \<Longrightarrow> tab_get (filter (\<lambda>(k, x). P x) l) k = Some v"
  by (induction l) (auto simp: tab_get_def split: if_splits)

text \<open>
  A step-up of a lower level renews a higher one: when a session once satisfied a level, however long
  ago within the life of the session, any later step-up of the session - of the weakest level and method -
  makes the higher level pass through without a challenge for the whole freshness window.
\<close>

theorem lower_step_up_renews_a_higher_level:
  assumes "sessionID \<noteq> []" "tab_get ledger sessionID = Some old" "pl_Rank lvl \<le> pr_rank old" "t - pr_at old \<le> LedgerTTL"
    and "t \<le> now" "now - t \<le> freshness cfg" "now - t \<le> LedgerTTL"
  shows "protectionSatisfied cfg now lvl sessionID (LedgerRecord t sessionID rank ledger)"
proof -
  have kept: "tab_get (ledger_gc t ledger) sessionID = Some old"
    using tab_get_kept [OF assms(2), of "\<lambda>x. \<not> LedgerTTL < t - pr_at x"] assms(4) by (simp add: ledger_gc_def)
  let ?new = "\<lparr>pr_rank = max (pr_rank old) rank, pr_at = t\<rparr>"
  have rec: "LedgerRecord t sessionID rank ledger = tab_put sessionID ?new (ledger_gc t ledger)"
    using assms(1) kept by (simp add: LedgerRecord_def Let_def)
  have "tab_get (ledger_gc now (LedgerRecord t sessionID rank ledger)) sessionID = Some ?new"
    using tab_get_kept [of "tab_put sessionID ?new (ledger_gc t ledger)" sessionID ?new "\<lambda>x. \<not> LedgerTTL < now - pr_at x"] assms(7)
    by (simp add: ledger_gc_def [of now] rec table_simps)
  moreover have "0 < freshness cfg" by (simp add: freshness_def defaultStepUpFreshness_def Minute_def)
  ultimately show ?thesis
    using assms(1,3,6) by (auto simp: protectionSatisfied_def AchievedWithin_def)
qed

definition demo_strict :: ProtectionLevel where
  "demo_strict = \<lparr>pl_ACR = ''urn:xauth:protect:ultra:strict'', pl_Band = ''ultra'', pl_Name = ''strict'', pl_Rank = 8, pl_Method = ''fido2''\<rparr>"

theorem lower_step_up_renews_a_higher_level_witness:
  "protectionByACR ''urn:xauth:protect:ultra:strict'' = Some demo_strict \<and>
   \<not> protectionSatisfied demo_authn_cfg (50 * Minute) demo_strict ''s'' [(''s'', \<lparr>pr_rank = 8, pr_at = 0\<rparr>)] \<and>
   protectionSatisfied demo_authn_cfg (54 * Minute) demo_strict ''s'' (LedgerRecord (50 * Minute) ''s'' 1 [(''s'', \<lparr>pr_rank = 8, pr_at = 0\<rparr>)])"
proof -
  have "protectionSatisfied demo_authn_cfg (54 * Minute) demo_strict ''s'' (LedgerRecord (50 * Minute) ''s'' 1 [(''s'', \<lparr>pr_rank = 8, pr_at = 0\<rparr>)])"
    by (rule lower_step_up_renews_a_higher_level)
      (auto simp: tab_get_def demo_strict_def LedgerTTL_def SessionTTLSeconds_def duration_defs freshness_def demo_authn_cfg_def
        defaultStepUpFreshness_def)
  moreover have "protectionByACR ''urn:xauth:protect:ultra:strict'' = Some demo_strict" by code_simp
  moreover have "\<not> protectionSatisfied demo_authn_cfg (50 * Minute) demo_strict ''s'' [(''s'', \<lparr>pr_rank = 8, pr_at = 0\<rparr>)]" by code_simp
  ultimately show ?thesis by simp
qed

text \<open>
  The registration of a passkey is open in every parked passkey flow, also in one that was parked to
  prove an enrolled passkey: the browser that holds the flow id enrols a new passkey for the user and gets
  a fresh challenge for the same request, with the assurance it was parked for unchanged.
\<close>

theorem registration_is_open_in_every_passkey_flow:
  assumes "lenient_body (2 ^ 20) finish_fields \<lparr>fb_Flow = [], fb_RegistrationID = [], fb_Attestation = None\<rparr> b = Some q"
    and "tab_get (ay_flows s) (fb_Flow q) = Some flow" "pa_Method flow = stepUpMethodFIDO2"
    and "now_at e 2 - pa_CreatedAt flow \<le> otpFlowTTL"
    and "ak_RegisterFinish cl (pa_TenantID flow) (pa_UserID flow) (fb_RegistrationID q) (fb_Attestation q) (ay_world s) = (Inr a, w)"
    and "ak_CreateChallenge cl (pa_TenantID flow) (pa_UserID flow) [stepUpMethodFIDO2] w = (Inr chal, w')"
  shows "\<exists>s'. AuthorizeWebAuthnRegisterFinish cl e b s = (WriteJSON StatusOK (AOptions [] (ci_Options chal)), s') \<and>
    tab_get (ay_flows s') (fb_Flow q) = Some (flow\<lparr>pa_ChallengeID := ci_ChallengeID chal, pa_Prompt := ci_Prompt chal,
      pa_WebAuthnOptions := ci_Options chal\<rparr>) \<and> ay_world s' = w'"
proof -
  have "passkey_flow e (fb_Flow q) s = (Some flow, s)"
    using assms(2-4) by (simp add: passkey_flow_def peek_def peekFlow_def)
  then show ?thesis
    using assms(1,5,6) by (simp add: AuthorizeWebAuthnRegisterFinish_def register_finished_def storeFlow_def table_simps Let_def)
qed

text \<open>
  An authenticator service whose world is the list of enrolled passkeys: it verifies an assertion that
  names one of them.
\<close>

definition passkey_clients :: "json list authn_clients" where
  "passkey_clients =
     \<lparr>ak_ListAuthenticators = \<lambda>t u w. (Inr (map (\<lambda>k. no_authenticator\<lparr>aw_Method := ''fido2''\<rparr>) w), w),
      ak_Enroll = \<lambda>t u m ms w. (Inr no_authenticator, w),
      ak_CreateChallenge = \<lambda>t u ms w. (Inr (no_challenge_info\<lparr>ci_ChallengeID := ''n''\<rparr>), w),
      ak_VerifyChallenge = \<lambda>t c r w. (Inr (no_outcome\<lparr>vo_Verified := list_ex (\<lambda>(k, j). j \<in> set w) r\<rparr>), w),
      ak_RegisterBegin = \<lambda>t u n d w. (Inr \<lparr>wr_RegistrationID = ''r'', wr_Options = None\<rparr>, w),
      ak_RegisterFinish = \<lambda>t u r a w. (Inr no_authenticator, case a of None \<Rightarrow> w | Some j \<Rightarrow> j # w)\<rparr>"

definition demo_finish :: body where
  "demo_finish = Body (JObj [(''flow'', JStr ''f''), (''registration_id'', JStr ''r''), (''attestation'', JObj [])]) 9"

definition demo_owned :: "json list authn_sys" where
  "demo_owned = \<lparr>ay_store = demo_authn_store, ay_flows = [(''f'', demo_pending)], ay_ledger = [], ay_stepups = [], ay_idps = [],
     ay_outbox = [], ay_world = [JStr ''owner'']\<rparr>"

definition demo_seen :: client_seen where
  "demo_seen = \<lparr>sn_IP = [], sn_UserAgent = []\<rparr>"

theorem registration_is_open_in_every_passkey_flow_witness:
  "status (fst (AuthorizeVerify passkey_clients demo_authn_cfg (demo_authn_env 9) demo_seen (Some demo_verify) demo_owned)) = 401 \<and>
   (\<exists>s'. AuthorizeWebAuthnRegisterFinish passkey_clients (demo_authn_env 9) demo_finish demo_owned =
        (WriteJSON StatusOK (AOptions [] None), s') \<and>
      tab_get (ay_flows s') ''f'' = Some (demo_pending\<lparr>pa_ChallengeID := ''n''\<rparr>) \<and> ay_world s' = [JObj [], JStr ''owner'']) \<and>
   status (fst (AuthorizeVerify passkey_clients demo_authn_cfg (demo_authn_env 9) demo_seen (Some demo_verify)
     (snd (AuthorizeWebAuthnRegisterFinish passkey_clients (demo_authn_env 9) demo_finish demo_owned)))) = 302"
proof -
  have "\<exists>s'. AuthorizeWebAuthnRegisterFinish passkey_clients (demo_authn_env 9) demo_finish demo_owned =
      (WriteJSON StatusOK (AOptions [] (ci_Options (no_challenge_info\<lparr>ci_ChallengeID := ''n''\<rparr>))), s') \<and>
    tab_get (ay_flows s') (fb_Flow \<lparr>fb_Flow = ''f'', fb_RegistrationID = ''r'', fb_Attestation = Some (JObj [])\<rparr>) =
      Some (demo_pending\<lparr>pa_ChallengeID := ci_ChallengeID (no_challenge_info\<lparr>ci_ChallengeID := ''n''\<rparr>),
        pa_Prompt := ci_Prompt (no_challenge_info\<lparr>ci_ChallengeID := ''n''\<rparr>),
        pa_WebAuthnOptions := ci_Options (no_challenge_info\<lparr>ci_ChallengeID := ''n''\<rparr>)\<rparr>) \<and> ay_world s' = [JObj [], JStr ''owner'']"
  proof (rule registration_is_open_in_every_passkey_flow)
    show "lenient_body (2 ^ 20) finish_fields \<lparr>fb_Flow = [], fb_RegistrationID = [], fb_Attestation = None\<rparr> demo_finish =
      Some \<lparr>fb_Flow = ''f'', fb_RegistrationID = ''r'', fb_Attestation = Some (JObj [])\<rparr>" by code_simp
    show "now_at (demo_authn_env 9) 2 - pa_CreatedAt demo_pending \<le> otpFlowTTL" by code_simp
  qed (simp_all add: demo_owned_def tab_get_def demo_pending_def stepUpMethodFIDO2_def passkey_clients_def)
  moreover have "status (fst (AuthorizeVerify passkey_clients demo_authn_cfg (demo_authn_env 9) demo_seen (Some demo_verify) demo_owned)) = 401"
    by code_simp
  moreover have "status (fst (AuthorizeVerify passkey_clients demo_authn_cfg (demo_authn_env 9) demo_seen (Some demo_verify)
     (snd (AuthorizeWebAuthnRegisterFinish passkey_clients (demo_authn_env 9) demo_finish demo_owned)))) = 302" by code_simp
  ultimately show ?thesis by (simp add: no_challenge_info_def demo_pending_def pending_request_def)
qed

end
