(* ===== verification/AuthnKeeps.thy ===== *)
theory AuthnKeeps
  imports AuthnStepProps
begin

text \<open>
  The contract between authentication-service's handlers and its storage: what a property of the storage
  must withstand so that no request breaks it.  A property is proved against the primitive writes, in the
  form the handlers use them; the theorem about the router is proved once.
\<close>

text \<open>A history of requests, each with the clock, the uuids and the storage faults it meets.\<close>

fun authn_run :: "('w, 'p) authn_deps \<Rightarrow> 'w fetch_keys \<Rightarrow> string \<Rightarrow> bool \<Rightarrow> (authn_env \<times> authn_route) list \<Rightarrow> 'w authn_sys \<Rightarrow>
    'w authn_sys" where
  "authn_run d fetch secret only [] s = s"
| "authn_run d fetch secret only ((e, r) # evs) s =
     authn_run d fetch secret only evs (snd (authn_router d fetch secret only e r s))"

text \<open>
  \<open>I\<close> is the property, \<open>V\<close> what it says of a stored session, \<open>F\<close> the token families the handlers may add
  tokens to, \<open>K\<close> the codes they may mint, and \<open>R\<close> the clock readings at which an assertion may be
  redeemed.  \<open>fits\<close> says that a request's environment stays within them.
\<close>

definition fits :: "(string \<Rightarrow> bool) \<Rightarrow> (string \<Rightarrow> bool) \<Rightarrow> (time \<Rightarrow> bool) \<Rightarrow> authn_env \<Rightarrow> bool" where
  "fits F K R e \<longleftrightarrow> F (''fam_'' @ new_id e 1) \<and> F (''fam_'' @ new_id e 2) \<and> K (new_id e 2) \<and> R (now_at e 1)"

locale storage_property =
  fixes I :: "authn_store \<Rightarrow> bool" and V :: "Session \<Rightarrow> bool" and F :: "string \<Rightarrow> bool" and K :: "string \<Rightarrow> bool"
    and R :: "time \<Rightarrow> bool"
  assumes create_user: "I s \<Longrightarrow> CreateUser u s = Inr s' \<Longrightarrow> I s'"
    and update_user: "I s \<Longrightarrow> UpdateUser now u s = Inr (u', s') \<Longrightarrow> I s'"
    and delete_user: "I s \<Longrightarrow> DeleteUser t i s = Some s' \<Longrightarrow> I s'"
    and put_session: "I s \<Longrightarrow> V x \<Longrightarrow> I (CreateSession x s)"
    and stored_session: "I s \<Longrightarrow> tab_get (at_sessions s) i = Some x \<Longrightarrow> V x"
    and new_session: "ValidRiskLevel r \<Longrightarrow> V (session_for i t uid r b now)"
    and session_risk: "V x \<Longrightarrow> ValidRiskLevel r \<Longrightarrow> V (x\<lparr>ss_RiskLevel := r\<rparr>)"
    and session_step: "V x \<Longrightarrow> V (x\<lparr>ss_StepUpCompleted := b\<rparr>)"
    and session_expiry: "V x \<Longrightarrow> V (x\<lparr>ss_ExpiresAt := now\<rparr>)"
    and session_invalidated: "V x \<Longrightarrow> V (x\<lparr>ss_InvalidatedAt := Some now\<rparr>)"
    and session_stamps: "V x \<Longrightarrow> V (x\<lparr>ss_CreatedAt := now, ss_UpdatedAt := now'\<rparr>)"
    and put_token: "I s \<Longrightarrow> F (to_FamilyID tk) \<Longrightarrow> to_TokenType tk \<in> {TokenTypeAccess, TokenTypeRefresh} \<Longrightarrow>
      to_RevokedAt tk = None \<Longrightarrow> I (PutToken tk s)"
    and live_family: "I s \<Longrightarrow> tab_get (at_tokens s) h = Some tk \<Longrightarrow> to_RevokedAt tk = None \<Longrightarrow> F (to_FamilyID tk)"
    and revoke_token: "I s \<Longrightarrow> RevokeTokenByHash now h s = Some s' \<Longrightarrow> I s'"
    and revoke_tokens: "I s \<Longrightarrow> I (snd (revoke_where P now s))"
    and put_code: "I s \<Longrightarrow> K (ac_Code c) \<Longrightarrow> I (PutAuthCode c s)"
    and consume_code: "I s \<Longrightarrow> ConsumeAuthCode k s = Some (c, s') \<Longrightarrow> I s'"
    and record_signal: "I s \<Longrightarrow> I (RecordDeviceSignal ds s)"
    and record_advice: "I s \<Longrightarrow> I (RecordAdviceCall av s)"
    and complete_advice: "I s \<Longrightarrow> MarkAdviceCallCompleted t i uid acr now s = Inr s' \<Longrightarrow> I s'"
    and redeem: "I s \<Longrightarrow> R now \<Longrightarrow> RedeemIDJAGJTI now jti expiry s = Inr s' \<Longrightarrow> I s'"
begin

lemmas session_rules = new_session session_risk session_step session_expiry session_invalidated

lemma update_session: "I s \<Longrightarrow> V x \<Longrightarrow> AuthnModel.UpdateSession now x s = Some (y, s') \<Longrightarrow> I s'"
  by (auto simp: AuthnModel.UpdateSession_def Let_def intro: put_session session_stamps split: option.splits)

lemma got_session: "I s \<Longrightarrow> AuthnModel.GetSession t i s = Some x \<Longrightarrow> V x"
  by (auto simp: AuthnModel.GetSession_def own_row_Some intro: stored_session)

section \<open>Administration\<close>

lemma write_session_keeps: "I s \<Longrightarrow> V x \<Longrightarrow> I (snd (write_session failure ok e x s))"
  by (auto simp: write_session_def intro: update_session split: option.split)

lemma read_write_keeps:
  assumes "I s" "\<And>t x. rd t s = Inr x \<Longrightarrow> V x" "\<And>x. V x \<Longrightarrow> I (snd (wr x s))"
  shows "I (snd (read_write rd wr tenant s))"
  using assms by (auto simp: read_write_def split: option.split sum.split)

lemma read_live_valid: "I s \<Longrightarrow> read_live e t i s = Inr x \<Longrightarrow> V x"
  by (auto simp: read_live_def split: option.splits if_splits intro: got_session)

lemma users_create_keeps: "I s \<Longrightarrow> I (snd (users_create uni e t b s))"
  by (auto simp: users_create_def Let_def intro: create_user split: option.split sum.split)

lemma users_patch_keeps: "I s \<Longrightarrow> I (snd (users_patch uni e t i b s))"
  by (auto simp: users_patch_def intro: update_user split: option.split sum.split)

lemma users_rest_keep:
  "I s \<Longrightarrow> I (snd (users_list e t l c s))" "I s \<Longrightarrow> I (snd (users_get e t i s))" "I s \<Longrightarrow> I (snd (users_delete e t i s))"
  by (auto simp: users_list_def users_get_def users_delete_def Let_def intro: delete_user split: option.split sum.split)

lemma sessions_create_keeps: "I s \<Longrightarrow> I (snd (sessions_create e t b s))"
  by (auto simp: sessions_create_def Let_def intro!: put_session new_session split: option.split sum.split)

lemma sessions_write_keep:
  "I s \<Longrightarrow> I (snd (sessions_refresh e t i s))" "I s \<Longrightarrow> I (snd (sessions_invalidate e t i s))"
  unfolding sessions_refresh_def sessions_invalidate_def refresh_write_def invalidate_write_def
  by (rule read_write_keeps; (assumption | rule write_session_keeps)?;
      auto simp: refresh_read_def invalidate_read_def split: sum.splits option.splits if_splits
        intro: session_rules read_live_valid got_session)+

lemma upgrade_read_valid: "I s \<Longrightarrow> upgrade_read e t i b s = Inr x \<Longrightarrow> V x"
  by (auto simp: upgrade_read_def dest!: read_live_valid split: sum.splits if_splits)
    (auto dest: session_risk session_step)

lemma sessions_upgrade_keeps: "I s \<Longrightarrow> I (snd (sessions_upgrade e t i b s))"
  unfolding sessions_upgrade_def upgrade_write_def
  by (rule read_write_keeps) (auto intro: upgrade_read_valid write_session_keeps)

lemma authn_v1_keeps: "I s \<Longrightarrow> I (snd (authn_v1 uni e r t s))"
  by (cases r)
    (auto simp: users_create_keeps users_patch_keeps users_rest_keep sessions_create_keeps sessions_write_keep
      sessions_upgrade_keeps sessions_get_def split: option.split)

section \<open>Tokens\<close>

lemma issue_keeps:
  assumes "I s" "F familyID" "issueTokenPair cfg e i n sess scope cid familyID s = (r, s')"
  shows "I s'"
  using assms
  by (auto simp: issueTokenPair_def Let_def token_row_def intro!: put_token split: option.splits if_splits)

lemma code_session_valid: "V (code_session e ac)"
  by (simp add: code_session_def new_session ValidRiskLevel_def)

lemma code_issue_keeps:
  assumes "I s" "fits F K R e"
  shows "I (snd (code_grant_issue cfg e ac s))"
proof -
  obtain r s' where i: "issueTokenPair cfg e 2 2 (code_session e ac) (ac_Scope ac) (ac_ClientID ac) (''fam_'' @ new_id e 1)
      (CreateSession (code_session e ac) s) = (r, s')" by fastforce
  have "I s'" by (rule issue_keeps [OF put_session [OF assms(1) code_session_valid] _ i]) (use assms(2) in \<open>simp add: fits_def\<close>)
  then show ?thesis using i assms(1) by (auto simp: code_grant_issue_def Let_def split: option.split)
qed

lemma code_grant_keeps: "I s \<Longrightarrow> fits F K R e \<Longrightarrow> I (snd (handleCodeGrant cfg e f s))"
  by (auto simp: handleCodeGrant_def intro: consume_code code_issue_keeps split: option.split)

lemma refresh_read_keeps: "I s \<Longrightarrow> refresh_grant_read cfg e f s = (r, s') \<Longrightarrow> I s'"
  by (auto simp: refresh_grant_read_def condemn_family_def RevokeTokenFamily_def Let_def
      intro: revoke_tokens split: option.splits if_splits sum.splits)

lemma refresh_read_pending:
  assumes "I s" "refresh_grant_read cfg e f s = (Inr (hash, cid, tok, sess), s')"
  shows "s' = s \<and> V sess \<and> F (to_FamilyID tok) \<and> tab_get (at_tokens s) hash = Some tok \<and> to_RevokedAt tok = None"
proof -
  have "s' = s" "tab_get (at_tokens s) hash = Some tok" "to_RevokedAt tok = None" "live_session e tok s = Inr sess"
    using assms(2) by (auto simp: refresh_grant_read_def GetTokenByHash_def Let_def split: option.splits if_splits sum.splits)
  moreover have "V sess"
    using \<open>live_session e tok s = Inr sess\<close> assms(1)
    by (auto simp: live_session_def intro: got_session split: option.splits if_splits)
  ultimately show ?thesis using live_family [OF assms(1)] by blast
qed

text \<open>The writing phase, on whatever the storage has become since the reading phase.\<close>

lemma refresh_write_keeps:
  assumes "I s" "V sess" "F (to_FamilyID tok)"
  shows "I (snd (refresh_grant_write cfg e (hash, cid, tok, sess) s))"
proof -
  let ?sess = "sess\<lparr>ss_ExpiresAt := now_at e 2 + SessionTTLSeconds * Second\<rparr>"
  show ?thesis
  proof (cases "try_op (op_fails e AUpdateSession) (AuthnModel.UpdateSession (now_at e 3) ?sess s)")
    case None
    then show ?thesis using assms(1) by (simp add: refresh_grant_write_def)
  next
    case (Some u)
    then obtain y s1 where u: "u = (y, s1)" "AuthnModel.UpdateSession (now_at e 3) ?sess s = Some (y, s1)" by (cases u) auto
    have d1: "I s1" by (rule update_session [OF assms(1) session_expiry [OF assms(2)] u(2)])
    let ?s2 = "case try_op (op_fails e ARevokeToken) (RevokeTokenByHash (now_at e 4) hash s1) of None \<Rightarrow> s1 | Some s \<Rightarrow> s"
    have d2: "I ?s2" using d1 by (auto split: option.split intro: revoke_token)
    obtain r s3 where i: "issueTokenPair cfg e 5 0 ?sess (to_Scope tok) (if to_ClientID tok = [] then cid else to_ClientID tok)
        (to_FamilyID tok) ?s2 = (r, s3)" by fastforce
    have "I s3" by (rule issue_keeps [OF d2 assms(3) i])
    then show ?thesis using Some u i by (simp add: refresh_grant_write_def Let_def split: option.split)
  qed
qed

lemma refresh_grant_keeps:
  assumes "I s"
  shows "I (snd (handleRefreshGrant cfg e f s))"
proof -
  obtain r s1 where read: "refresh_grant_read cfg e f s = (r, s1)" by fastforce
  show ?thesis
  proof (cases r)
    case (Inl err)
    then show ?thesis using read refresh_read_keeps [OF assms read] by (simp add: handleRefreshGrant_def)
  next
    case (Inr p)
    obtain hash cid tok sess where p: "p = (hash, cid, tok, sess)" by (cases p)
    then have "s1 = s" "V sess" "F (to_FamilyID tok)" using refresh_read_pending [OF assms] read Inr by blast+
    then show ?thesis using read Inr p refresh_write_keeps [OF assms] by (simp add: handleRefreshGrant_def)
  qed
qed

lemma redeem_issue_keeps:
  assumes "I s" "fits F K R e"
  shows "I (snd (redeem_issue cfg e client cid claims scope s))"
proof -
  have "I (CreateSession (session_for i t uid RiskLow False now) s)" for i t uid now
    by (rule put_session [OF assms(1) new_session]) (simp add: ValidRiskLevel_def)
  then show ?thesis using assms
    by (auto simp: redeem_issue_def fits_def Let_def token_row_def intro!: put_token split: option.split)
qed

lemma bearer_grant_keeps:
  assumes "I s" "fits F K R e"
  shows "I (fst (snd (handleJWTBearerGrant fetch cfg e f s c)))"
proof -
  have "I (snd (redeem_assertion cfg e f client cid idp claims s))" for client cid idp claims
    using assms redeem [OF assms(1), of "now_at e 1"]
    by (auto simp: redeem_assertion_def fits_def intro: redeem_issue_keeps split: sum.split option.split)
  then show ?thesis using assms(1)
    by (auto simp: handleJWTBearerGrant_def split_beta split: sum.split option.split)
qed

lemma token_endpoint_keeps:
  assumes "I s" "fits F K R e"
  shows "I (fst (snd (TokenEndpoint fetch cfg e form s c)))"
  using assms
  by (auto simp: TokenEndpoint_def split_beta intro: code_grant_keeps refresh_grant_keeps bearer_grant_keeps split: option.split)

lemma revoke_endpoint_keeps: "I s \<Longrightarrow> I (snd (RevokeEndpoint cfg e t s))"
  by (auto simp: RevokeEndpoint_def intro: revoke_token split: option.split)

section \<open>The interlude\<close>

lemma revokeSession_keeps: "I s \<Longrightarrow> I (revokeSession e t i s)"
  by (auto simp: revokeSession_def intro: update_session session_invalidated got_session split: option.split)

lemma condemn_keeps: "I s \<Longrightarrow> I (condemn_session e ds s)"
  by (auto simp: condemn_session_def RevokeTokenFamiliesBySession_def Let_def intro: revoke_tokens revokeSession_keeps)

lemma observe_keeps: "I (ay_store s) \<Longrightarrow> I (ay_store (Observe cfg e seen t u x stage fp s))"
  by (auto simp: Observe_def analyze_def Let_def intro: condemn_keeps record_signal)

lemma mint_keeps:
  assumes "I (ay_store s)" "K (new_id e 2)"
  shows "I (ay_store (snd (mintCodeAndRedirect cfg e ac s)))"
proof -
  have advice: "I (ay_store (completeAdviceTransaction cfg e ac s))" if "I (ay_store s)" for ac and s :: "'a authn_sys"
    using that by (auto simp: completeAdviceTransaction_def intro: complete_advice split: sum.split)
  show ?thesis using assms by (auto simp: mintCodeAndRedirect_def Let_def intro!: advice put_code)
qed

lemma verify_keeps:
  assumes s: "I (ay_store s)" and code: "K (new_id e 2)"
  shows "I (ay_store (snd (AuthorizeVerify cl cfg e seen form s)))"
proof -
  have peek: "ay_store (snd (peek e i s)) = ay_store s" for i by (simp add: peek_def split_beta)
  have verified: "I (ay_store (snd (verified_flow cfg e seen f spec flow out s)))" if "I (ay_store s)" for f spec flow out and s :: "'a authn_sys"
    using that by (auto simp: verified_flow_def dropFlow_def Let_def intro!: mint_keeps observe_keeps code)
  have "I (ay_store (snd (verify_flow cl cfg e seen f spec flow s)))" if "I (ay_store s)" for f spec flow and s :: "'a authn_sys"
    using that by (auto simp: verify_flow_def verify_error_store dropFlow_def intro: verified split: sum.split option.split)
  then show ?thesis using s peek
    by (auto simp: AuthorizeVerify_def split_beta dropFlow_def split: option.split)
qed

lemma registration_keeps:
  "ay_store (snd (AuthorizeWebAuthnRegisterBegin cl e b s)) = ay_store s"
  "ay_store (snd (AuthorizeWebAuthnRegisterFinish cl e b s)) = ay_store s"
proof -
  have peek: "ay_store (snd (passkey_flow e i s)) = ay_store s" for i
    by (auto simp: passkey_flow_def peek_def split_beta split: option.split)
  show "ay_store (snd (AuthorizeWebAuthnRegisterBegin cl e b s)) = ay_store s"
    by (auto simp: AuthorizeWebAuthnRegisterBegin_def split_beta peek split: option.split sum.split)
  show "ay_store (snd (AuthorizeWebAuthnRegisterFinish cl e b s)) = ay_store s"
    by (auto simp: AuthorizeWebAuthnRegisterFinish_def register_finished_def Let_def split_beta peek split: option.split sum.split)
qed

section \<open>Authorize, advice and the router\<close>

lemma authorize_user_keeps: "I st \<Longrightarrow> authorize_user cfg e q tenant st = (r, st') \<Longrightarrow> I st'"
  by (auto simp: authorize_user_def devAutoUser_def Let_def intro: create_user split: option.splits sum.splits if_splits)

lemma Execute_keeps: "I (ay_store s) \<Longrightarrow> K (new_id e 2) \<Longrightarrow> Execute d e st x s = (res, reply, x', s') \<Longrightarrow> I (ay_store s')"
proof (induction st)
  case issueStage
  then show ?case by (auto simp: split_beta intro: mint_keeps)
qed (auto simp: evaluate_risk_def validate_stage_def Let_def split_beta start_keeps_store split: option.splits if_splits)

lemma runFlow_keeps: "I (ay_store s) \<Longrightarrow> K (new_id e 2) \<Longrightarrow> I (ay_store (snd (snd (snd (runFlow d e stages x s)))))"
proof (induction d e stages x s rule: runFlow.induct)
  case (1 d e stages x s)
  obtain res reply x' s' where ex: "Execute d e (stages ! fx_Cursor x) x s = (res, reply, x', s')" by (metis prod.exhaust)
  show ?case
  proof (cases "fx_Cursor x < length stages")
    case run: True
    show ?thesis
    proof (cases "res = StageContinue")
      case True
      show ?thesis
        using 1(1) [OF run ex [symmetric] True refl refl _ 1(3)] Execute_keeps [OF 1(2,3) ex]
        by (simp add: runFlow_continue [OF run ex [unfolded True]])
    qed (use Execute_keeps [OF 1(2,3) ex] runFlow_stop [OF run ex] in simp)
  qed (use 1(2) in \<open>simp add: runFlow_end\<close>)
qed

lemma authorize_keeps:
  assumes "I (ay_store s)" and code: "K (new_id e 2)"
  shows "I (ay_store (snd (Authorize d e q s)))"
proof -
  have legacy: "I (ay_store (snd (authorize_legacy d e q sid p s)))" if "I (ay_store s)" for sid p and s :: "'a authn_sys"
    using that by (auto simp: authorize_legacy_def handleProtection_def start_keeps_store intro: mint_keeps code split: option.split)
  have engine: "I (ay_store (snd (authorize_engine d e q tenant u sid s)))" if "I (ay_store s)" for tenant u sid and s :: "'a authn_sys"
    using that by (auto simp: authorize_engine_def Let_def split_beta intro: runFlow_keeps code)
  show ?thesis
  proof (cases "authorize_tenant (dp_cfg d) e q (ay_store s)")
    case (Inr tenant)
    obtain r st where user: "authorize_user (dp_cfg d) e q tenant (ay_store s) = (r, st)" by fastforce
    show ?thesis using authorize_user_keeps [OF assms(1) user] Inr user
      by (auto simp: Authorize_def Let_def intro: legacy engine split: sum.split option.split)
  qed (use assms in \<open>simp add: Authorize_def\<close>)
qed

lemma advise_keeps: "I s \<Longrightarrow> I (snd (Advise lib e q s))"
  by (auto simp: Advise_def advice_issue_def Let_def intro: record_advice split: option.split got.split)

lemma router_keeps:
  assumes "I (ay_store s)" "fits F K R e"
  shows "I (ay_store (snd (authn_router d fetch secret only e r s)))"
proof (cases r)
  case (RToken form)
  then show ?thesis using token_endpoint_keeps [OF assms] by (simp add: split_beta)
next
  case (RAdmin al rt g)
  have "I (snd (gated secret only' (authn_v1 uni e rt) g (ay_store s)))" for only' uni
    by (cases rule: gated_cases [of secret only' "authn_v1 uni e rt" g "ay_store s"])
      (simp_all add: assms(1) authn_v1_keeps)
  then show ?thesis using assms(1) by (simp add: RAdmin on_store_def)
qed (use assms in \<open>auto simp: fits_def on_store_def registration_keeps
  intro: authorize_keeps verify_keeps revoke_endpoint_keeps advise_keeps\<close>)

lemma runs_keep:
  assumes "I (ay_store s)" "list_all (\<lambda>(e, r). fits F K R e) evs"
  shows "I (ay_store (authn_run d fetch secret only evs s))"
  using assms by (induction evs arbitrary: s) (auto simp: router_keeps)

end

end
