(* ===== verification/AuthnTokenProps.thy ===== *)
theory AuthnTokenProps
  imports AuthnKeeps
begin

text \<open>
  What the token surface of authentication-service guarantees: a code is redeemed once by whoever holds its
  verifier, a replayed refresh token kills its family for good, an assertion is redeemed once - and the
  interleavings and omissions that get around it.
\<close>

section \<open>Token families\<close>

definition family_dead :: "string \<Rightarrow> authn_store \<Rightarrow> bool" where
  "family_dead fam st \<longleftrightarrow> list_all (\<lambda>(h, t). to_FamilyID t = fam \<longrightarrow> to_RevokedAt t \<noteq> None) (at_tokens st)"

lemma family_dead_iff:
  "family_dead fam st \<longleftrightarrow> (\<forall>h t. (h, t) \<in> set (at_tokens st) \<longrightarrow> to_FamilyID t = fam \<longrightarrow> to_RevokedAt t \<noteq> None)"
  by (auto simp: family_dead_def list_all_iff)

lemma family_dead_get: "family_dead fam st \<Longrightarrow> tab_get (at_tokens st) h = Some t \<Longrightarrow> to_FamilyID t = fam \<Longrightarrow> to_RevokedAt t \<noteq> None"
  by (auto simp: family_dead_iff tab_get_def dest: map_of_SomeD)

lemma family_dead_cong: "at_tokens st' = at_tokens st \<Longrightarrow> family_dead fam st \<Longrightarrow> family_dead fam st'"
  by (simp add: family_dead_def)

lemma family_dead_put: "family_dead fam st \<Longrightarrow> to_FamilyID t \<noteq> fam \<or> to_RevokedAt t \<noteq> None \<Longrightarrow> family_dead fam (PutToken t st)"
  by (auto simp: family_dead_iff PutToken_def dest!: tab_put_member)

lemma family_dead_revoke: "family_dead fam st \<Longrightarrow> RevokeTokenByHash now h st = Some st' \<Longrightarrow> family_dead fam st'"
  by (auto simp: family_dead_iff RevokeTokenByHash_def dest!: tab_put_member split: option.splits)

lemma family_dead_where: "family_dead fam st \<Longrightarrow> family_dead fam (snd (revoke_where P now st))"
  by (fastforce simp: family_dead_iff revoke_where_def Let_def)

lemma revoked_family_dead: "fam \<noteq> [] \<Longrightarrow> family_dead fam (snd (RevokeTokenFamily now fam st))"
  by (fastforce simp: family_dead_iff RevokeTokenFamily_def revoke_where_def Let_def)

lemmas store_write_defs = CreateUser_def put_user_def UpdateUser_def DeleteUser_def CreateSession_def ConsumeAuthCode_def
  PutAuthCode_def RecordDeviceSignal_def RecordAdviceCall_def MarkAdviceCallCompleted_def RedeemIDJAGJTI_def Let_def

interpretation families: storage_property "family_dead fam" "\<lambda>x. True" "\<lambda>f. f \<noteq> fam" "\<lambda>c. True" "\<lambda>now. True" for fam
  by unfold_locales
    (auto simp: store_write_defs intro: family_dead_put family_dead_revoke family_dead_where dest: family_dead_get
      elim: family_dead_cong [rotated] split: option.splits if_splits)

text \<open>What a dead family's tokens are worth: neither the userinfo nor the refresh door opens.\<close>

lemma dead_access_refused:
  assumes "family_dead fam st" "GetTokenByHash (HashToken (ag_jwt cfg) plain) st = Some tok" "to_FamilyID tok = fam"
  shows "status (UserInfo cfg e (''Bearer '' @ plain) st) = 401"
proof -
  have "to_RevokedAt tok \<noteq> None" using assms by (auto simp: GetTokenByHash_def dest: family_dead_get)
  then show ?thesis using assms(2)
    by (auto simp: UserInfo_def invalid_token_def starts_with_def try_op_def status_defs split: sum.split)
qed


definition demo_token :: "string \<Rightarrow> string \<Rightarrow> time option \<Rightarrow> Token" where
  "demo_token h typ revoked =
     \<lparr>to_TokenHash = h, to_SessionID = ''s'', to_UserID = ''u1'', to_TenantID = ''t'', to_ClientID = ''c'', to_FamilyID = ''fam'',
      to_TokenType = typ, to_Scope = [], to_IssuedAt = 0, to_ExpiresAt = 100, to_RevokedAt = revoked\<rparr>"

text \<open>The family holds the spent token r and the live pair q (refresh) and a (access).\<close>

definition demo_token_store :: authn_store where
  "demo_token_store = demo_authn_store
     \<lparr>at_tokens := [(''72'', demo_token ''72'' TokenTypeRefresh (Some 1)), (''71'', demo_token ''71'' TokenTypeRefresh None),
        (''61'', demo_token ''61'' TokenTypeAccess None)]\<rparr>"

definition demo_tokens :: "nat authn_sys" where
  "demo_tokens = demo_authn\<lparr>ay_store := demo_token_store\<rparr>"

definition demo_form :: grant_form where
  "demo_form =
     \<lparr>gf_basic = None, gf_grant_type = ''refresh_token'', gf_client_id = [], gf_client_secret = [], gf_code = [],
      gf_redirect_uri = [], gf_code_verifier = [], gf_refresh_token = ''r'', gf_scope = [], gf_requested_token_type = [],
      gf_subject_token = [], gf_subject_token_type = [], gf_resource = [], gf_audience = [], gf_assertion = []\<rparr>"

definition demo_keys :: "nat fetch_keys" where
  "demo_keys = (\<lambda>uri w. (None, w))"

lemmas demo_token_defs = demo_token_def demo_token_store_def demo_tokens_def demo_form_def demo_keys_def demo_authn_defs


section \<open>Overlapping requests\<close>

lemma issue_succeeds:
  assumes "Sign (ag_jwt cfg) (ag_Signer cfg) (access_claims cfg (new_id e n) sess scope cid (now_at e i)) [] = Some access"
    "\<not> op_fails e (APutToken 0)" "\<not> op_fails e (APutToken 1)" "issueTokenPair cfg e i n sess scope cid fam s = (r, s')"
  shows "r = Some (access, new_id e (n + 1)) \<and>
    tab_get (at_tokens s') (HashToken (ag_jwt cfg) (new_id e (n + 1))) =
      Some (token_row cfg (new_id e (n + 1)) TokenTypeRefresh RefreshTokenTTLSeconds sess scope cid fam (now_at e i))"
  using assms by (auto simp: issueTokenPair_def Let_def PutToken_def token_row_def table_simps)

lemma live_not_dead: "tab_get (at_tokens s) h = Some t \<Longrightarrow> to_RevokedAt t = None \<Longrightarrow> \<not> family_dead (to_FamilyID t) s"
  using family_dead_get by blast

text \<open>
  C37. The family's revocation is not final for a refresh already under way: a refresh request that had read
  its token before the replay condemned the family goes on to answer 200 with a new pair, and the new
  refresh token is a live member of the condemned family.
\<close>

theorem inflight_refresh_revives_a_revoked_family:
  assumes read: "refresh_grant_read cfg e f s = (Inr (hash, cid, tok, sess), s)"
    and session: "AuthnModel.GetSession (ss_TenantID sess) (ss_ID sess) s \<noteq> None"
    and signs: "\<And>claims. Sign (ag_jwt cfg) (ag_Signer cfg) claims [] \<noteq> None"
    and storage: "\<And>op. \<not> op_fails e op"
    and condemned: "revoked = snd (RevokeTokenFamily now (to_FamilyID tok) s)"
  shows "status (fst (refresh_grant_write cfg e (hash, cid, tok, sess) revoked)) = 200 \<and>
    \<not> family_dead (to_FamilyID tok) (snd (refresh_grant_write cfg e (hash, cid, tok, sess) revoked))"
proof -
  let ?sess = "sess\<lparr>ss_ExpiresAt := now_at e 2 + SessionTTLSeconds * Second\<rparr>"
  let ?cid = "if to_ClientID tok = [] then cid else to_ClientID tok"
  have "at_sessions revoked = at_sessions s"
    by (simp add: condemned RevokeTokenFamily_def revoke_where_def Let_def)
  then have "AuthnModel.GetSession (ss_TenantID ?sess) (ss_ID ?sess) revoked \<noteq> None"
    using session by (simp add: AuthnModel.GetSession_def)
  then obtain y s1 where s1: "AuthnModel.UpdateSession (now_at e 3) ?sess revoked = Some (y, s1)"
    by (auto simp: AuthnModel.UpdateSession_def AuthnModel.GetSession_def Let_def)
  let ?s2 = "case RevokeTokenByHash (now_at e 4) hash s1 of None \<Rightarrow> s1 | Some s \<Rightarrow> s"
  obtain r s3 where i: "issueTokenPair cfg e 5 0 ?sess (to_Scope tok) ?cid (to_FamilyID tok) ?s2 = (r, s3)" by fastforce
  obtain access where "Sign (ag_jwt cfg) (ag_Signer cfg) (access_claims cfg (new_id e 0) ?sess (to_Scope tok) ?cid (now_at e 5)) [] = Some access"
    using signs by blast
  from issue_succeeds [OF this storage storage i] have
    ok: "r = Some (access, new_id e 1)" and row: "tab_get (at_tokens s3) (HashToken (ag_jwt cfg) (new_id e 1)) =
      Some (token_row cfg (new_id e 1) TokenTypeRefresh RefreshTokenTTLSeconds ?sess (to_Scope tok) ?cid (to_FamilyID tok) (now_at e 5))"
    by simp_all
  have "refresh_grant_write cfg e (hash, cid, tok, sess) revoked = (bearer_reply access (Some (new_id e 1)) None (to_Scope tok), s3)"
    using i ok by (simp add: refresh_grant_write_def try_op_def storage s1 Let_def)
  then show ?thesis using live_not_dead [OF row] by (simp add: token_row_def bearer_reply_def status_defs)
qed

definition demo_row :: Token where
  "demo_row = demo_token ''71'' TokenTypeRefresh None"

theorem inflight_refresh_revives_a_revoked_family_witness:
  "let revoked = snd (RevokeTokenFamily 6 ''fam'' demo_token_store);
       pending = (''71'', [], demo_row, session_for ''s'' ''t'' ''u1'' RiskLow False 0)
   in family_dead ''fam'' revoked \<and> status (fst (refresh_grant_write demo_authn_cfg (demo_authn_env 5) pending revoked)) = 200 \<and>
      \<not> family_dead ''fam'' (snd (refresh_grant_write demo_authn_cfg (demo_authn_env 5) pending revoked))"
proof -
  have read: "refresh_grant_read demo_authn_cfg (demo_authn_env 5) (demo_form\<lparr>gf_refresh_token := ''q''\<rparr>) demo_token_store =
    (Inr (''71'', [], demo_row, session_for ''s'' ''t'' ''u1'' RiskLow False 0), demo_token_store)"
    by code_simp
  have session: "AuthnModel.GetSession (ss_TenantID (session_for ''s'' ''t'' ''u1'' RiskLow False 0))
    (ss_ID (session_for ''s'' ''t'' ''u1'' RiskLow False 0)) demo_token_store \<noteq> None" by code_simp
  have signs: "Sign (ag_jwt demo_authn_cfg) (ag_Signer demo_authn_cfg) claims [] \<noteq> None" for claims
    by (simp add: Sign_def SignTyped_def mergeClaims_def unmarshal_map_def demo_authn_cfg_def demo_authn_lib_def Let_def)
  have storage: "\<not> op_fails (demo_authn_env 5) op" for op by (simp add: demo_authn_env_def)
  have fam: "to_FamilyID demo_row = ''fam''" by (simp add: demo_row_def demo_token_def)
  show ?thesis
    using inflight_refresh_revives_a_revoked_family [OF read session signs storage refl, of 6]
      revoked_family_dead [of "''fam''" 6 demo_token_store] by (simp only: fam Let_def) simp
qed

end
