(* ===== verification/AuthnGrantProps.thy ===== *)
theory AuthnGrantProps
  imports AuthnTokenProps
begin

text \<open>
  Authorization codes, identity assertions and sessions of authentication-service: what is single use, and
  where the single use or the authentication of the caller does not hold.
\<close>

section \<open>Authorization codes\<close>

interpretation spent_codes: storage_property "\<lambda>s. tab_get (at_codes s) k = None" "\<lambda>x. True" "\<lambda>f. True" "\<lambda>c. c \<noteq> k"
    "\<lambda>now. True" for k
  by unfold_locales
    (auto simp: store_write_defs PutToken_def RevokeTokenByHash_def revoke_where_def tab_get_put tab_get_del
      split: option.splits if_splits)

lemma code_grant_ok:
  assumes "status (fst (handleCodeGrant cfg e f s)) = 200"
  obtains ac clientID where "extractClientCreds cfg e f s = Some clientID" "tab_get (at_codes s) (gf_code f) = Some ac"
    "code_refused cfg (now_at e 0) clientID f ac = None"
    "handleCodeGrant cfg e f s = code_grant_issue cfg e ac (s\<lparr>at_codes := tab_del (gf_code f) (at_codes s)\<rparr>)"
  using assms
  by (auto simp: handleCodeGrant_def ConsumeAuthCode_def code_refused_def grant_reply_defs status_defs try_op_def
      split: option.splits if_splits)

lemma code_issue_ok:
  assumes "status (fst (code_grant_issue cfg e ac s)) = 200"
  shows "\<exists>access idt. fst (code_grant_issue cfg e ac s) = bearer_reply access (Some (new_id e 3)) idt (ac_Scope ac)"
    and "tab_get (at_tokens (snd (code_grant_issue cfg e ac s))) (HashToken (ag_jwt cfg) (new_id e 3)) =
      Some (token_row cfg (new_id e 3) TokenTypeRefresh RefreshTokenTTLSeconds (code_session e ac) (ac_Scope ac) (ac_ClientID ac)
        (''fam_'' @ new_id e 1) (now_at e 2))"
    and "at_codes (snd (code_grant_issue cfg e ac s)) = at_codes s"
  using assms
  by (auto simp: code_grant_issue_def issueTokenPair_def PutToken_def CreateSession_def token_row_def table_simps Let_def
      admin_reply_defs status_defs split: option.splits if_splits)

lemma spent_code_refused:
  assumes "tab_get (at_codes st) (gf_code f) = None"
  shows "status (fst (handleCodeGrant cfg e f st)) \<noteq> 200"
  using assms by (rule_tac notI) (erule code_grant_ok, simp)


definition demo_code :: AuthCode where
  "demo_code =
     \<lparr>ac_Code = ''k'', ac_ClientID = ''c'', ac_TenantID = ''t'', ac_UserID = ''u1'', ac_SessionID = ''s'', ac_RedirectURI = ''u'',
      ac_Scope = [], ac_State = [], ac_Nonce = [], ac_CodeChallenge = b64_encode ''v'', ac_CreatedAt = 1, ac_ACR = [], ac_AMR = [],
      ac_TransactionID = []\<rparr>"

definition demo_coded :: "nat authn_sys" where
  "demo_coded = demo_authn\<lparr>ay_store := demo_authn_store\<lparr>at_codes := [(''k'', demo_code)]\<rparr>\<rparr>"

definition demo_code_form :: grant_form where
  "demo_code_form = demo_form\<lparr>gf_grant_type := ''authorization_code'', gf_code := ''k'', gf_code_verifier := ''v''\<rparr>"


section \<open>Identity assertions\<close>

lemma redeem_burnt:
  assumes "tab_get (at_usedJTIs s) j = Some expiry" "now \<le> expiry"
  shows "RedeemIDJAGJTI now j x s = Inl Conflict"
    and "RedeemIDJAGJTI now j' x s = Inr s' \<Longrightarrow> tab_get (at_usedJTIs s') j = Some expiry"
proof -
  have "tab_get (filter (\<lambda>(k, e). \<not> e < now) (at_usedJTIs s)) j = Some expiry"
    by (rule tab_get_kept [OF assms(1)]) (use assms(2) in simp)
  then show "RedeemIDJAGJTI now j x s = Inl Conflict"
    "RedeemIDJAGJTI now j' x s = Inr s' \<Longrightarrow> tab_get (at_usedJTIs s') j = Some expiry"
    by (auto simp: RedeemIDJAGJTI_def Let_def tab_get_put split: if_splits)
qed

interpretation burnt: storage_property "\<lambda>s. tab_get (at_usedJTIs s) j = Some expiry" "\<lambda>x. True" "\<lambda>f. True" "\<lambda>c. True"
    "\<lambda>now. now \<le> expiry" for j expiry
  by unfold_locales
    (auto simp: CreateUser_def put_user_def UpdateUser_def DeleteUser_def CreateSession_def ConsumeAuthCode_def Let_def
      PutAuthCode_def RecordDeviceSignal_def RecordAdviceCall_def MarkAdviceCallCompleted_def PutToken_def RevokeTokenByHash_def
      revoke_where_def intro: redeem_burnt(2) split: option.splits if_splits)

lemma bearer_ok:
  assumes "bearer_party cfg e f s = Inr (client, clientID, idp)"
    and "verify_assertion fetch (ag_jwt cfg) (ti_Issuer idp) (ti_JWKSURI idp) (gf_assertion f) (now_at e 0) c = (Some (claims, raw), c')"
    and "status (fst (handleJWTBearerGrant fetch cfg e f s c)) = 200"
  shows "assertion_refused cfg clientID claims raw = None"
    and "handleJWTBearerGrant fetch cfg e f s c =
      (fst (redeem_assertion cfg e f client clientID idp claims s), snd (redeem_assertion cfg e f client clientID idp claims s), c')"
    and "status (fst (redeem_assertion cfg e f client clientID idp claims s)) = 200"
  using assms
  by (auto simp: handleJWTBearerGrant_def split_beta assertion_refused_def grant_reply_defs status_defs split: option.splits if_splits)

lemma redeem_ok:
  assumes "status (fst (redeem_assertion cfg e f client clientID idp claims s)) = 200"
  shows "tab_get (at_usedJTIs (snd (redeem_assertion cfg e f client clientID idp claims s))) (jc_JTI claims) = Some (unix_time (jc_Exp claims))"
  using assms
  by (auto simp: redeem_assertion_def redeem_issue_def RedeemIDJAGJTI_def CreateSession_def PutToken_def table_simps Let_def
      grant_reply_defs status_defs split: sum.splits option.splits if_splits)

lemma burnt_refused:
  assumes "tab_get (at_usedJTIs s) (jc_JTI claims) = Some expiry" "now_at e 1 \<le> expiry"
  shows "status (fst (redeem_assertion cfg e f client clientID idp claims s)) \<noteq> 200"
  using redeem_burnt(1) [OF assms] by (auto simp: redeem_assertion_def grant_reply_defs status_defs)

text \<open>
  C27. An identity assertion is redeemed once while it is valid.  When a jwt-bearer grant answers 200 for an
  assertion whose verified claims carry the id j and the expiry x, then after any further requests, as
  long as the clock has not passed x, no jwt-bearer grant whose verified claims carry the same id
  answers 200.
\<close>

theorem assertion_is_redeemed_once_while_valid:
  assumes party: "bearer_party (dp_cfg d) e f (ay_store s) = Inr (client, clientID, idp)"
    and verified: "verify_assertion fetch (ag_jwt (dp_cfg d)) (ti_Issuer idp) (ti_JWKSURI idp) (gf_assertion f) (now_at e 0)
      \<lparr>id_vers = ay_idps s, id_world = ay_world s\<rparr> = (Some (claims, raw), c')"
    and ok: "status (fst (authn_router d fetch secret only e (RToken (Some f)) s)) = 200" "gf_grant_type f = GrantTypeJWTBearer"
    and clock: "list_all (\<lambda>(e, r). fits (\<lambda>fam. True) (\<lambda>c. True) (\<lambda>now. now \<le> unix_time (jc_Exp claims)) e) evs"
      "now_at e' 1 \<le> unix_time (jc_Exp claims)"
    and later: "st = authn_run d fetch secret only evs (snd (authn_router d fetch secret only e (RToken (Some f)) s))"
    and again: "bearer_party cfg' e' f' (ay_store st) = Inr (client', clientID', idp')"
      "verify_assertion fetch' (ag_jwt cfg') (ti_Issuer idp') (ti_JWKSURI idp') (gf_assertion f') (now_at e' 0) c = (Some (claims', raw'), c'')"
      "jc_JTI claims' = jc_JTI claims"
  shows "status (fst (handleJWTBearerGrant fetch' cfg' e' f' (ay_store st) c)) \<noteq> 200"
proof
  let ?c = "\<lparr>id_vers = ay_idps s, id_world = ay_world s\<rparr>"
  have not_code: "GrantTypeJWTBearer \<notin> {''authorization_code'', ''refresh_token'', GrantTypeTokenExchange}"
    by (simp add: idjag_consts)
  have step: "authn_router d fetch secret only e (RToken (Some f)) s =
    (let (r, st, c) = handleJWTBearerGrant fetch (dp_cfg d) e f (ay_store s) ?c
     in (r, s\<lparr>ay_store := st, ay_idps := id_vers c, ay_world := id_world c\<rparr>))"
    using ok(2) not_code by (simp add: TokenEndpoint_def)
  have "status (fst (handleJWTBearerGrant fetch (dp_cfg d) e f (ay_store s) ?c)) = 200"
    using ok(1) unfolding step by (simp add: split_beta)
  note first = bearer_ok [OF party verified this]
  have "tab_get (at_usedJTIs (ay_store (snd (authn_router d fetch secret only e (RToken (Some f)) s)))) (jc_JTI claims) =
    Some (unix_time (jc_Exp claims))"
    unfolding step using redeem_ok [OF first(3)] by (simp add: first(2))
  then have burnt: "tab_get (at_usedJTIs (ay_store st)) (jc_JTI claims') = Some (unix_time (jc_Exp claims))"
    unfolding later again(3) by (rule burnt.runs_keep [OF _ clock(1)])
  assume "status (fst (handleJWTBearerGrant fetch' cfg' e' f' (ay_store st) c)) = 200"
  from bearer_ok(3) [OF again(1,2) this] show False using burnt_refused [OF burnt clock(2)] by simp
qed


text \<open>
  A replica whose tenant t trusts the identity provider i, and an assertion of i for the client c; \<open>x\<close> is
  the assertion's exp claim.
\<close>

definition demo_idp_lib :: "int \<Rightarrow> jwt_lib" where
  "demo_idp_lib x = demo_authn_lib\<lparr>jl_unmarshal := \<lambda>part.
     if part = ''h'' then Some (JObj [(''alg'', JStr ''RS256''), (''typ'', JStr IDJAGTypeHeader), (''kid'', JStr ''k'')])
     else Some (JObj [(''iss'', JStr ''i''), (''sub'', JStr ''u1''), (''aud'', JStr ''a''), (''exp'', JNum (of_int x) []),
       (''jti'', JStr ''j''), (''client_id'', JStr ''c'')]), jl_sha256 := take 1\<rparr>"

definition demo_idp_deps :: "int \<Rightarrow> (nat, unit) authn_deps" where
  "demo_idp_deps x = demo_deps\<lparr>dp_cfg := demo_authn_cfg\<lparr>ag_jwt := demo_idp_lib x\<rparr>\<rparr>"

definition demo_idp :: "nat authn_sys" where
  "demo_idp = demo_authn
     \<lparr>ay_store := demo_authn_store\<lparr>at_trustIDPs := [(''d'', \<lparr>ti_ID = ''d'', ti_TenantID = ''t'', ti_Name = [], ti_Issuer = ''i'',
        ti_JWKSURI = ''w'', ti_Scopes = [], ti_Enabled = True, ti_CreatedAt = 0\<rparr>)]\<rparr>,
      ay_idps := [([CHR ''i'', CHR 0x00, CHR ''w''], \<lparr>vf_keys = [(''k'', sk_Public demo_key)], vf_iss = ''i''\<rparr>)]\<rparr>"

definition demo_assertion_form :: grant_form where
  "demo_assertion_form = demo_form\<lparr>gf_grant_type := GrantTypeJWTBearer, gf_client_id := ''c'', gf_client_secret := ''s'',
     gf_assertion := b64_encode ''h'' @ ''.'' @ b64_encode ''p'' @ ''.'' @ b64_encode ''s''\<rparr>"

lemma unblocked:
  assumes "list_all (\<lambda>(k, x). k = j \<longrightarrow> x = expiry) used" "expiry < now"
  shows "tab_get (filter (\<lambda>(k, x). \<not> x < now) used) j = None"
  using assms by (auto simp: tab_get_def map_of_eq_None_iff list_all_iff)

lemma bearer_succeeds:
  assumes "bearer_party cfg e f s = Inr (client, clientID, idp)"
    and "verify_assertion fetch (ag_jwt cfg) (ti_Issuer idp) (ti_JWKSURI idp) (gf_assertion f) (now_at e 0) c = (Some (claims, raw), c')"
    and "assertion_refused cfg clientID claims raw = None"
    and "redeemed_scopes idp (Fields (jc_Scope claims)) (Fields (gf_scope f)) = Some granted"
    and signs: "\<And>claims. Sign (ag_jwt cfg) (ag_Signer cfg) claims [] \<noteq> None" and "\<And>op. \<not> op_fails e op"
    and free: "tab_get (filter (\<lambda>(k, x). \<not> x < now_at e 1) (at_usedJTIs s)) (jc_JTI claims) = None"
  shows "status (fst (handleJWTBearerGrant fetch cfg e f s c)) = 200"
proof -
  have "status (fst (redeem_issue cfg e client clientID claims scope s)) = 200" for scope s
    using assms(6) by (auto simp: signs redeem_issue_def bearer_reply_def status_defs Let_def split: option.split)
  then show ?thesis using assms(1-4,6) free
    by (simp add: handleJWTBearerGrant_def redeem_assertion_def RedeemIDJAGJTI_def split_beta Let_def)
qed

text \<open>
  The single use ends where the verifier's leeway begins: once the clock has passed the assertion's exp
  claim its redemption is no longer remembered, so an assertion that still verifies - for thirty seconds
  more, or for ever when it carries no exp claim - is redeemed again, although the table records its
  id.
\<close>

theorem spent_assertion_is_redeemed_again:
  assumes party: "bearer_party cfg e f s = Inr (client, clientID, idp)"
    and verified: "verify_assertion fetch (ag_jwt cfg) (ti_Issuer idp) (ti_JWKSURI idp) (gf_assertion f) (now_at e 0) c = (Some (claims, raw), c')"
    and checks: "assertion_refused cfg clientID claims raw = None"
      "redeemed_scopes idp (Fields (jc_Scope claims)) (Fields (gf_scope f)) = Some granted"
    and works: "\<And>claims. Sign (ag_jwt cfg) (ag_Signer cfg) claims [] \<noteq> None" "\<And>op. \<not> op_fails e op"
    and recorded: "list_all (\<lambda>(j, x). j = jc_JTI claims \<longrightarrow> x = unix_time (jc_Exp claims)) (at_usedJTIs s)"
    and expired: "unix_time (jc_Exp claims) < now_at e 1"
  shows "status (fst (handleJWTBearerGrant fetch cfg e f s c)) = 200"
  by (rule bearer_succeeds [OF party verified checks works unblocked [OF recorded expired]])

lemma demo_split: "Split CHR ''.'' (gf_assertion demo_assertion_form) = [b64_encode ''h'', b64_encode ''p'', b64_encode ''s'']"
  by code_simp

lemma demo_parts: "b64_decode (b64_encode ''h'') = Some ''h''" "b64_decode (b64_encode ''p'') = Some ''p''" "b64_decode (b64_encode ''s'') = Some ''s''"
  by code_simp+

definition demo_claims :: "int \<Rightarrow> Claims" where
  "demo_claims x = no_claims\<lparr>jc_Iss := ''i'', jc_Sub := ''u1'', jc_Aud := ''a'', jc_Exp := x, jc_JTI := ''j''\<rparr>"

lemma demo_header: "unmarshal_struct (demo_idp_lib x) jwt_header_fields no_header ''h'' = Some \<lparr>jh_Alg = ''RS256'', jh_Typ = IDJAGTypeHeader, jh_Kid = ''k''\<rparr>"
  by code_simp

lemma demo_payload: "unmarshal_struct (demo_idp_lib 1) Claims_fields no_claims ''p'' = Some (demo_claims 1)"
  by code_simp

lemma demo_payload_members: "\<exists>raw. unmarshal_map (demo_idp_lib x) ''p'' = Some raw \<and> obj_str raw ''client_id'' = ''c''"
  by (simp add: unmarshal_map_def demo_idp_lib_def obj_str_def obj_get_def)

lemma demo_accepts: "jl_verify (demo_idp_lib x) key digest sig"
  by (simp add: demo_idp_lib_def demo_authn_lib_def)

lemma demo_unexpired: "now \<le> unix_time 1 + Leeway \<Longrightarrow>
    check_claims \<lparr>vf_keys = ks, vf_iss = ''i''\<rparr> (demo_claims 1) now = None"
  by (simp add: check_claims_def demo_claims_def no_claims_def)

lemma demo_verifies:
  assumes "now \<le> unix_time 1 + Leeway"
  obtains raw where "verify_assertion demo_keys (demo_idp_lib 1) ''i'' ''w'' (gf_assertion demo_assertion_form) now
      \<lparr>id_vers = ay_idps demo_idp, id_world = 0\<rparr> = (Some (demo_claims 1, raw), \<lparr>id_vers = ay_idps demo_idp, id_world = 0\<rparr>)"
    "assertion_refused (dp_cfg (demo_idp_deps 1)) ''c'' (demo_claims 1) raw = None"
proof -
  obtain raw where raw: "unmarshal_map (demo_idp_lib 1) ''p'' = Some raw" "obj_str raw ''client_id'' = ''c''"
    using demo_payload_members by blast
  have "VerifyToken (demo_idp_lib 1) \<lparr>vf_keys = [(''k'', sk_Public demo_key)], vf_iss = ''i''\<rparr> (gf_assertion demo_assertion_form) now =
    Inr (demo_claims 1, raw)"
    using assms
    by (simp add: VerifyToken_def demo_split demo_parts demo_header demo_payload raw tab_get_def demo_accepts demo_unexpired
      del: b64_encode.simps)
  then show thesis
    by (intro that [of raw]) (simp_all add: verify_assertion_def cached_verifier_def demo_idp_def tab_get_def
      assertion_refused_def demo_claims_def no_claims_def raw demo_idp_deps_def demo_authn_cfg_def)
qed

definition demo_provider :: TrustedIDP where
  "demo_provider = \<lparr>ti_ID = ''d'', ti_TenantID = ''t'', ti_Name = [], ti_Issuer = ''i'', ti_JWKSURI = ''w'', ti_Scopes = [],
     ti_Enabled = True, ti_CreatedAt = 0\<rparr>"

lemma demo_party: "bearer_party (dp_cfg (demo_idp_deps 1)) (demo_authn_env now) demo_assertion_form (ay_store demo_idp) =
    Inr (demo_client, ''c'', demo_provider)"
  by code_simp

lemma demo_works:
  "Sign (ag_jwt (dp_cfg (demo_idp_deps x))) (ag_Signer (dp_cfg (demo_idp_deps x))) claims [] \<noteq> None"
  "\<not> op_fails (demo_authn_env now) op"
  by (simp_all add: Sign_def SignTyped_def mergeClaims_def demo_idp_deps_def demo_idp_lib_def demo_authn_defs Let_def)

lemma demo_scopes: "redeemed_scopes demo_provider (Fields (jc_Scope (demo_claims 1))) (Fields (gf_scope demo_assertion_form)) = Some []"
  by code_simp
lemma demo_verified:
  assumes "now \<le> unix_time 1 + Leeway"
  obtains raw where "verify_assertion demo_keys (ag_jwt (dp_cfg (demo_idp_deps 1))) (ti_Issuer demo_provider)
      (ti_JWKSURI demo_provider) (gf_assertion demo_assertion_form) (now_at (demo_authn_env now) 0)
      \<lparr>id_vers = ay_idps demo_idp, id_world = 0\<rparr> = (Some (demo_claims 1, raw), \<lparr>id_vers = ay_idps demo_idp, id_world = 0\<rparr>)"
    "assertion_refused (dp_cfg (demo_idp_deps 1)) ''c'' (demo_claims 1) raw = None"
  by (rule demo_verifies [OF assms]) (simp add: demo_idp_deps_def demo_provider_def demo_authn_env_def)

lemma party_cong:
  assumes "at_clients s' = at_clients s" "at_trustIDPs s' = at_trustIDPs s"
  shows "bearer_party cfg e f s' = bearer_party cfg e f s"
proof -
  have "GetClient i s' = GetClient i s" "trustedIDP e t iss s' = trustedIDP e t iss s" for i t iss
    using assms by (simp_all add: GetClient_def trustedIDP_def ListTrustedIDPs_def)
  then show ?thesis by (simp add: bearer_party_def extractClientCreds_def Let_def split_beta cong: option.case_cong if_cong)
qed

lemma redeem_tables:
  "at_clients (snd (redeem_assertion cfg e f client cid idp claims s)) = at_clients s"
  "at_trustIDPs (snd (redeem_assertion cfg e f client cid idp claims s)) = at_trustIDPs s"
  by (auto simp: redeem_assertion_def RedeemIDJAGJTI_def redeem_issue_def CreateSession_def PutToken_def Let_def
      split: sum.split option.split)

theorem spent_assertion_is_redeemed_again_witness:
  "status (fst (handleJWTBearerGrant demo_keys (dp_cfg (demo_idp_deps 1)) (demo_authn_env (unix_time 1 + 10 * Second))
     demo_assertion_form ((ay_store demo_idp)\<lparr>at_usedJTIs := [(''j'', unix_time 1)]\<rparr>)
     \<lparr>id_vers = ay_idps demo_idp, id_world = 0\<rparr>)) = 200"
proof -
  let ?cfg = "dp_cfg (demo_idp_deps 1)" and ?e = "demo_authn_env (unix_time 1 + 10 * Second)"
  have party: "bearer_party ?cfg ?e demo_assertion_form ((ay_store demo_idp)\<lparr>at_usedJTIs := [(''j'', unix_time 1)]\<rparr>) =
      Inr (demo_client, ''c'', demo_provider)"
    using demo_party by (subst party_cong [of _ "ay_store demo_idp"]) simp_all
  have "unix_time 1 + 10 * Second \<le> unix_time 1 + Leeway" by (simp add: Leeway_def Second_def)
  then obtain raw where verified: "verify_assertion demo_keys (ag_jwt ?cfg) (ti_Issuer demo_provider) (ti_JWKSURI demo_provider)
      (gf_assertion demo_assertion_form) (now_at ?e 0) \<lparr>id_vers = ay_idps demo_idp, id_world = 0\<rparr> =
      (Some (demo_claims 1, raw), \<lparr>id_vers = ay_idps demo_idp, id_world = 0\<rparr>)"
    "assertion_refused ?cfg ''c'' (demo_claims 1) raw = None"
    by (rule demo_verified)
  show ?thesis
    by (rule spent_assertion_is_redeemed_again [OF party verified demo_scopes demo_works])
      (simp_all add: demo_claims_def no_claims_def demo_authn_env_def Second_def)
qed

theorem assertion_is_redeemed_once_while_valid_witness:
  "let first = authn_router (demo_idp_deps 1) demo_keys [] False (demo_authn_env 5) (RToken (Some demo_assertion_form)) demo_idp
   in status (fst first) = 200 \<and>
      status (fst (handleJWTBearerGrant demo_keys (dp_cfg (demo_idp_deps 1)) (demo_authn_env 7) demo_assertion_form
        (ay_store (snd first)) \<lparr>id_vers = ay_idps demo_idp, id_world = 0\<rparr>)) \<noteq> 200"
proof -
  let ?d = "demo_idp_deps 1" and ?e = "demo_authn_env 5" and ?c = "\<lparr>id_vers = ay_idps demo_idp, id_world = 0::nat\<rparr>"
  let ?first = "authn_router ?d demo_keys [] False ?e (RToken (Some demo_assertion_form)) demo_idp"
  have early: "now \<le> 7 \<Longrightarrow> now \<le> unix_time 1 + Leeway" for now
    by (simp add: unix_time_def wrap64_def Leeway_def Second_def)
  have clock: "now_at (demo_authn_env 7) 1 \<le> unix_time (jc_Exp (demo_claims 1))"
    by (simp add: demo_authn_env_def demo_claims_def no_claims_def unix_time_def wrap64_def Second_def)
  obtain raw where first: "verify_assertion demo_keys (ag_jwt (dp_cfg ?d)) (ti_Issuer demo_provider) (ti_JWKSURI demo_provider)
      (gf_assertion demo_assertion_form) (now_at ?e 0) ?c = (Some (demo_claims 1, raw), ?c)"
      "assertion_refused (dp_cfg ?d) ''c'' (demo_claims 1) raw = None"
    by (rule demo_verified [of 5]) (use early [of 5] in simp)
  obtain raw' where second: "verify_assertion demo_keys (ag_jwt (dp_cfg ?d)) (ti_Issuer demo_provider) (ti_JWKSURI demo_provider)
      (gf_assertion demo_assertion_form) (now_at (demo_authn_env 7) 0) ?c = (Some (demo_claims 1, raw'), ?c)"
    by (rule demo_verified [of 7]) (use early [of 7] in simp)
  have granted: "status (fst (handleJWTBearerGrant demo_keys (dp_cfg ?d) ?e demo_assertion_form (ay_store demo_idp) ?c)) = 200"
    by (rule bearer_succeeds [OF demo_party first demo_scopes demo_works]) (simp add: demo_idp_def demo_authn_defs NewAuthnStorage_def tab_get_def)
  note redeemed = bearer_ok(2) [OF demo_party first(1) granted]
  have grant: "gf_grant_type demo_assertion_form = GrantTypeJWTBearer" by (simp add: demo_assertion_form_def)
  have c: "\<lparr>id_vers = ay_idps demo_idp, id_world = ay_world demo_idp\<rparr> = ?c" by (simp add: demo_idp_def demo_authn_def)
  have step: "?first = (fst (redeem_assertion (dp_cfg ?d) ?e demo_assertion_form demo_client ''c'' demo_provider (demo_claims 1) (ay_store demo_idp)),
      demo_idp\<lparr>ay_store := snd (redeem_assertion (dp_cfg ?d) ?e demo_assertion_form demo_client ''c'' demo_provider (demo_claims 1) (ay_store demo_idp))\<rparr>)"
    using redeemed grant c by (simp add: TokenEndpoint_def idjag_consts demo_idp_def demo_authn_def)
  have ok: "status (fst ?first) = 200" using granted redeemed unfolding step by simp
  have party: "bearer_party (dp_cfg ?d) (demo_authn_env 7) demo_assertion_form (ay_store (snd ?first)) = Inr (demo_client, ''c'', demo_provider)"
    unfolding step using demo_party by (subst party_cong [of _ "ay_store demo_idp"]) (simp_all add: redeem_tables)
  have "status (fst (handleJWTBearerGrant demo_keys (dp_cfg ?d) (demo_authn_env 7) demo_assertion_form (ay_store (snd ?first)) ?c)) \<noteq> 200"
    by (rule assertion_is_redeemed_once_while_valid [OF demo_party first(1) [folded c] ok grant _ clock
        authn_run.simps(1) [symmetric] party second refl]) simp
  then show ?thesis using ok by (simp only: Let_def) blast
qed

end
