(* ===== verification/AuthnGaps.thy ===== *)
theory AuthnGaps
  imports AuthnGrantProps
begin

text \<open>
  Where authentication-service's tokens and sessions promise more than they keep: client authentication
  that can be left out, a deny list the caller can step around, and a session that comes back.
\<close>

section \<open>Client authentication\<close>

definition anonymous :: "grant_form \<Rightarrow> grant_form" where
  "anonymous f = f\<lparr>gf_basic := None, gf_client_id := [], gf_client_secret := []\<rparr>"

lemma anonymous_creds: "extractClientCreds cfg e (anonymous f) s = Some []"
  by (simp add: extractClientCreds_def anonymous_def)

lemma anonymous_rest:
  "gf_code (anonymous f) = gf_code f" "gf_redirect_uri (anonymous f) = gf_redirect_uri f"
  "gf_code_verifier (anonymous f) = gf_code_verifier f" "gf_refresh_token (anonymous f) = gf_refresh_token f"
  by (simp_all add: anonymous_def)

lemma refresh_read_Inr:
  "refresh_grant_read cfg e f s = (Inr (hash, cid, tok, sess), s') \<longleftrightarrow>
     gf_refresh_token f \<noteq> [] \<and> extractClientCreds cfg e f s = Some cid \<and> hash = HashToken (ag_jwt cfg) (gf_refresh_token f) \<and>
     \<not> op_fails e AGetToken \<and> GetTokenByHash hash s = Some tok \<and> to_TokenType tok = TokenTypeRefresh \<and>
     to_RevokedAt tok = None \<and> refresh_refused (now_at e 1) cid tok = None \<and> live_session e tok s = Inr sess \<and> s' = s"
  by (auto simp: refresh_grant_read_def Let_def try_op_def split: option.splits if_splits sum.splits)

lemma live_session_err: "live_session e tok s = Inl err \<Longrightarrow> status err \<noteq> 200"
  by (auto simp: live_session_def grant_reply_defs status_defs split: option.splits if_splits)

lemma refresh_refused_err: "refresh_refused now cid tok = Some err \<Longrightarrow> status err \<noteq> 200"
  by (auto simp: refresh_refused_def grant_reply_defs status_defs split: if_splits)

lemma refresh_read_err: "refresh_grant_read cfg e f s = (Inl err, s') \<Longrightarrow> status err \<noteq> 200"
  using live_session_err refresh_refused_err
  by (auto simp: refresh_grant_read_def Let_def grant_reply_defs status_defs split: option.splits if_splits sum.splits)

lemma refresh_grant_ok:
  assumes "status (fst (handleRefreshGrant cfg e f s)) = 200"
  obtains hash cid tok sess where "refresh_grant_read cfg e f s = (Inr (hash, cid, tok, sess), s)"
    "handleRefreshGrant cfg e f s = refresh_grant_write cfg e (hash, cid, tok, sess) s"
proof -
  obtain r s' where read: "refresh_grant_read cfg e f s = (r, s')" by fastforce
  show thesis
  proof (cases r)
    case (Inl err)
    then show thesis using read assms refresh_read_err [of cfg e f s err s'] by (simp add: handleRefreshGrant_def)
  next
    case (Inr p)
    obtain hash cid tok sess where p: "p = (hash, cid, tok, sess)" by (cases p)
    have "s' = s" using read unfolding Inr p by (simp add: refresh_read_Inr)
    then show thesis using that read Inr p by (simp add: handleRefreshGrant_def)
  qed
qed

text \<open>
  C39. A confidential client is not authenticated by the code and refresh grants: whenever a code grant
  succeeds, the same request without any client credentials succeeds with the same reply and the same
  effect, and so does a refresh grant of a token that records its client.
\<close>

theorem client_authentication_can_be_omitted:
  "(status (fst (handleCodeGrant cfg e f s)) = 200 \<longrightarrow> handleCodeGrant cfg e (anonymous f) s = handleCodeGrant cfg e f s) \<and>
   (status (fst (handleRefreshGrant cfg e f s)) = 200 \<and>
      GetTokenByHash (HashToken (ag_jwt cfg) (gf_refresh_token f)) s = Some tok \<and> to_ClientID tok \<noteq> [] \<longrightarrow>
    handleRefreshGrant cfg e (anonymous f) s = handleRefreshGrant cfg e f s)"
proof (intro conjI impI)
  assume ok: "status (fst (handleCodeGrant cfg e f s)) = 200"
  then obtain ac clientID where grant: "tab_get (at_codes s) (gf_code f) = Some ac"
    "code_refused cfg (now_at e 0) clientID f ac = None"
    "handleCodeGrant cfg e f s = code_grant_issue cfg e ac (s\<lparr>at_codes := tab_del (gf_code f) (at_codes s)\<rparr>)"
    by (rule code_grant_ok)
  have "gf_code f \<noteq> [] \<and> gf_code_verifier f \<noteq> [] \<and> \<not> op_fails e AConsumeAuthCode"
    using ok by (auto simp: handleCodeGrant_def try_op_def grant_reply_defs status_defs split: option.splits if_splits)
  then show "handleCodeGrant cfg e (anonymous f) s = handleCodeGrant cfg e f s"
    using grant(1,2)
    by (auto simp: grant(3)) (auto simp: handleCodeGrant_def anonymous_creds anonymous_rest ConsumeAuthCode_def try_op_def code_refused_def
        split: option.splits if_splits)
next
  assume asm: "status (fst (handleRefreshGrant cfg e f s)) = 200 \<and>
       GetTokenByHash (HashToken (ag_jwt cfg) (gf_refresh_token f)) s = Some tok \<and> to_ClientID tok \<noteq> []"
  then obtain hash cid tok' sess where read: "refresh_grant_read cfg e f s = (Inr (hash, cid, tok', sess), s)"
    "handleRefreshGrant cfg e f s = refresh_grant_write cfg e (hash, cid, tok', sess) s"
    using refresh_grant_ok by metis
  have tok: "to_ClientID tok' \<noteq> []" using read(1) asm by (auto simp: refresh_read_Inr)
  have "refresh_grant_read cfg e (anonymous f) s = (Inr (hash, [], tok', sess), s)"
    using read(1) by (auto simp: refresh_read_Inr anonymous_creds anonymous_rest refresh_refused_def split: if_splits)
  then show "handleRefreshGrant cfg e (anonymous f) s = handleRefreshGrant cfg e f s"
    using tok by (simp add: read(2)) (simp add: handleRefreshGrant_def refresh_grant_write_def Let_def)
qed

text \<open>A confidential client's secret is s; the request of the demonstration names no client at all.\<close>

theorem client_authentication_can_be_omitted_witness:
  "let f = demo_code_form\<lparr>gf_client_id := ''c'', gf_client_secret := ''s''\<rparr>
   in status (fst (handleCodeGrant demo_authn_cfg (demo_authn_env 5) f (ay_store demo_coded))) = 200 \<and>
      handleCodeGrant demo_authn_cfg (demo_authn_env 5) (anonymous f) (ay_store demo_coded) =
      handleCodeGrant demo_authn_cfg (demo_authn_env 5) f (ay_store demo_coded)"
proof -
  have "status (fst (handleCodeGrant demo_authn_cfg (demo_authn_env 5)
    (demo_code_form\<lparr>gf_client_id := ''c'', gf_client_secret := ''s''\<rparr>) (ay_store demo_coded))) = 200" by code_simp
  then show ?thesis using client_authentication_can_be_omitted by (simp only: Let_def)
qed

section \<open>Token exchange\<close>

lemma exchange_issue_cong:
  assumes "at_clients s' = at_clients s" "at_mcpSrv s' = at_mcpSrv s"
  shows "exchange_issue cfg e (f\<lparr>gf_subject_token_type := typ\<rparr>) claims s' = exchange_issue cfg e f claims s"
proof -
  have get: "GetClient i s' = GetClient i s" for i using assms by (simp add: GetClient_def)
  have "extractClientCreds cfg e (f\<lparr>gf_subject_token_type := typ\<rparr>) s' = extractClientCreds cfg e f s"
    by (cases "gf_basic f") (simp_all add: extractClientCreds_def get split_beta Let_def cong: option.case_cong if_cong)
  moreover have "authorizedMCPServer e tenant target s' = authorizedMCPServer e tenant target s" for tenant target
    using assms by (simp add: authorizedMCPServer_def ListMCPServers_def)
  ultimately show ?thesis by (simp add: exchange_issue_def exchange_target_def cong: option.case_cong if_cong)
qed

lemma exchange_ok:
  assumes "status (handleTokenExchange cfg e f s) = 200"
  obtains claims where "exchange_malformed cfg f = None" "subject_claims cfg e f s = Inr claims"
    "handleTokenExchange cfg e f s = exchange_issue cfg e f claims s"
proof -
  have "exchange_malformed cfg f = Some err \<Longrightarrow> status err \<noteq> 200" for err
    by (auto simp: exchange_malformed_def grant_reply_defs status_defs split: if_splits)
  moreover have "subject_claims cfg e f s = Inl err \<Longrightarrow> status err \<noteq> 200" for err
    by (auto simp: subject_claims_def subject_denied_def grant_reply_defs status_defs split: if_splits sum.splits option.splits)
  ultimately show thesis using assms that
    by (auto simp: handleTokenExchange_def split: option.splits sum.splits)
qed

text \<open>
  C38. The deny list holds for token exchange only as long as the caller says so: when an exchange of an
  access token succeeds, then after that token is revoked the same request is refused with 400, yet
  the request that declares it an id_token still mints the same assertion.
\<close>

theorem revoked_access_token_still_mints_assertions:
  assumes ok: "gf_subject_token_type f = TokenTypeAccessToken" "status (handleTokenExchange cfg e f s) = 200"
    and revoked: "RevokeTokenByHash now (HashToken (ag_jwt cfg) (gf_subject_token f)) s = Some s'"
  shows "status (handleTokenExchange cfg e f s') = 400 \<and>
    handleTokenExchange cfg e (f\<lparr>gf_subject_token_type := TokenTypeIDToken\<rparr>) s' = handleTokenExchange cfg e f s"
proof -
  let ?f = "f\<lparr>gf_subject_token_type := TokenTypeIDToken\<rparr>"
  from ok(2) obtain claims where claims: "exchange_malformed cfg f = None" "subject_claims cfg e f s = Inr claims"
    "handleTokenExchange cfg e f s = exchange_issue cfg e f claims s" by (rule exchange_ok)
  have kept: "at_clients s' = at_clients s" "at_mcpSrv s' = at_mcpSrv s"
    using revoked by (auto simp: RevokeTokenByHash_def split: option.splits)
  have types: "TokenTypeIDToken \<noteq> TokenTypeAccessToken" by (simp add: idjag_consts)
  have "exchange_malformed cfg ?f = None"
    using claims(1) by (auto simp: exchange_malformed_def exchange_target_def split: if_splits)
  moreover have "subject_claims cfg e ?f s' = Inr claims"
    using claims(2) types by (auto simp: subject_claims_def subject_denied_def split: sum.splits option.splits if_splits)
  ultimately have again: "handleTokenExchange cfg e ?f s' = handleTokenExchange cfg e f s"
    unfolding claims(3) by (simp add: handleTokenExchange_def exchange_issue_cong [OF kept])
  have "subject_claims cfg e f s' = Inl (invalid_grant ''subject_token revoked or expired'')"
    using claims(2) revoked ok(1)
    by (auto simp: subject_claims_def subject_denied_def RevokeTokenByHash_def GetTokenByHash_def try_op_def tab_get_put
        split: sum.splits option.splits if_splits)
  then show ?thesis using claims(1) again by (simp add: handleTokenExchange_def grant_reply_defs status_defs)
qed

text \<open>The access token a, whose claims say that the client c obtained it for the user u1 of the tenant t.\<close>

definition demo_sub_lib :: jwt_lib where
  "demo_sub_lib = demo_authn_lib\<lparr>jl_unmarshal := \<lambda>part.
     if part = ''h'' then Some (JObj [(''alg'', JStr ''RS256''), (''typ'', JStr ''JWT''), (''kid'', JStr ''k'')])
     else Some (JObj [(''sub'', JStr ''u1''), (''aud'', JStr ''c''), (''tenant_id'', JStr ''t'')]), jl_sha256 := take 1\<rparr>"

definition demo_exchange :: authn_store where
  "demo_exchange = demo_authn_store
     \<lparr>at_tokens := [(hex_encode (take 1 (b64_encode ''h'')), demo_token ''61'' TokenTypeAccess None)],
      at_mcpSrv := [(''m'', \<lparr>mc_ID = ''m'', mc_TenantID = ''t'', mc_Name = [], mc_ResourceURI = ''r'', mc_Scopes = [],
        mc_Enabled = True, mc_CreatedAt = 0\<rparr>)]\<rparr>"

definition demo_exchange_form :: grant_form where
  "demo_exchange_form = demo_form\<lparr>gf_grant_type := GrantTypeTokenExchange, gf_requested_token_type := TokenTypeIDJAG,
     gf_subject_token := b64_encode ''h'' @ ''.'' @ b64_encode ''p'' @ ''.'' @ b64_encode ''s'',
     gf_subject_token_type := TokenTypeAccessToken, gf_resource := ''r''\<rparr>"

definition demo_exchange_cfg :: authn_cfg where
  "demo_exchange_cfg = demo_authn_cfg\<lparr>ag_jwt := demo_sub_lib\<rparr>"

definition demo_server :: MCPServer where
  "demo_server = \<lparr>mc_ID = ''m'', mc_TenantID = ''t'', mc_Name = [], mc_ResourceURI = ''r'', mc_Scopes = [], mc_Enabled = True,
     mc_CreatedAt = 0\<rparr>"

definition demo_subject :: Claims where
  "demo_subject = no_claims\<lparr>jc_Sub := ''u1'', jc_Aud := ''c'', jc_TenantID := ''t''\<rparr>"

lemma demo_exchange_steps:
  "exchange_malformed demo_exchange_cfg demo_exchange_form = None"
  "subject_claims demo_exchange_cfg (demo_authn_env 5) demo_exchange_form demo_exchange = Inr demo_subject"
  "extractClientCreds demo_exchange_cfg (demo_authn_env 5) demo_exchange_form demo_exchange = Some []"
  "authorizedMCPServer (demo_authn_env 5) (jc_TenantID demo_subject) (exchange_target demo_exchange_form) demo_exchange = Some demo_server"
  "grantedScopes (mc_Scopes demo_server) (Fields (gf_scope demo_exchange_form)) = Some []"
  "jc_Aud demo_subject = ''c''"
  by code_simp+

lemma demo_exchange_signs:
  "SignTyped (ag_jwt demo_exchange_cfg) (ag_Signer demo_exchange_cfg) claims [(''client_id'', JStr v)] typ \<noteq> None"
  by (simp add: SignTyped_def mergeClaims_def Claims_members_def demo_exchange_cfg_def demo_sub_lib_def demo_authn_defs Let_def
      put_defs omit_strs_def)

lemma demo_exchange_ok:
  "status (handleTokenExchange demo_exchange_cfg (demo_authn_env 5) demo_exchange_form demo_exchange) = 200"
  by (auto simp: handleTokenExchange_def exchange_issue_def demo_exchange_steps demo_exchange_signs status_defs split: option.split)

theorem revoked_access_token_still_mints_assertions_witness:
  "let s' = demo_exchange\<lparr>at_tokens := [(hex_encode (take 1 (b64_encode ''h'')), demo_token ''61'' TokenTypeAccess (Some 6))]\<rparr>
   in status (handleTokenExchange demo_exchange_cfg (demo_authn_env 5) demo_exchange_form s') = 400 \<and>
      status (handleTokenExchange demo_exchange_cfg (demo_authn_env 5)
        (demo_exchange_form\<lparr>gf_subject_token_type := TokenTypeIDToken\<rparr>) s') = 200"
proof -
  have declared: "gf_subject_token_type demo_exchange_form = TokenTypeAccessToken" by (simp add: demo_exchange_form_def)
  have revoked: "RevokeTokenByHash 6 (HashToken (ag_jwt demo_exchange_cfg) (gf_subject_token demo_exchange_form)) demo_exchange =
    Some (demo_exchange\<lparr>at_tokens := [(hex_encode (take 1 (b64_encode ''h'')), demo_token ''61'' TokenTypeAccess (Some 6))]\<rparr>)"
    by (simp add: RevokeTokenByHash_def HashToken_def demo_exchange_def demo_exchange_form_def demo_exchange_cfg_def demo_sub_lib_def
        demo_token_def tab_get_def tab_put_def Let_def)
  show ?thesis
    using revoked_access_token_still_mints_assertions [OF declared demo_exchange_ok revoked] demo_exchange_ok by (simp add: Let_def)
qed

section \<open>Sessions\<close>

lemma get_written: "AuthnModel.GetSession (ss_TenantID x) (ss_ID x) (CreateSession x s) = Some x"
  by (simp add: AuthnModel.GetSession_def own_row_Some CreateSession_def tab_get_put)

lemma update_known:
  assumes "AuthnModel.GetSession (ss_TenantID y) (ss_ID y) s = Some old"
  shows "AuthnModel.UpdateSession now y s = Some (y\<lparr>ss_CreatedAt := ss_CreatedAt old, ss_UpdatedAt := now\<rparr>,
    CreateSession (y\<lparr>ss_CreatedAt := ss_CreatedAt old, ss_UpdatedAt := now\<rparr>) s)"
  using assms by (simp add: AuthnModel.UpdateSession_def AuthnModel.GetSession_def Let_def)

text \<open>
  An invalidated session can come back: a refresh of a session that has read it before the session is
  invalidated writes it back without the invalidation, answers 200, and the session is live again.
\<close>

theorem overlapping_refresh_resurrects_a_session:
  assumes read: "refresh_read e t i s = Inr x" and key: "ss_ID x = i"
    and storage: "\<not> op_fails e' AGetSession" "\<not> op_fails e' AUpdateSession" "\<not> op_fails e AUpdateSession"
    and between: "sessions_invalidate e' (Some t) i s = (reply, s')"
  shows "reply = NoContent \<and> (\<exists>y. AuthnModel.GetSession t i s' = Some y \<and> ss_InvalidatedAt y \<noteq> None) \<and>
    status (fst (refresh_write e x s')) = 200 \<and>
    (\<exists>z. AuthnModel.GetSession t i (snd (refresh_write e x s')) = Some z \<and> ss_InvalidatedAt z = None)"
proof -
  obtain x0 where x0: "AuthnModel.GetSession t i s = Some x0" "ss_InvalidatedAt x0 = None"
      "x = x0\<lparr>ss_ExpiresAt := now_at e 0 + SessionTTLSeconds * Second\<rparr>"
    using read by (auto simp: refresh_read_def read_live_def split: sum.splits option.splits if_splits)
  have ids: "ss_TenantID x0 = t" "ss_ID x0 = i" using x0 key by (auto simp: AuthnModel.GetSession_def own_row_Some)
  let ?y = "x0\<lparr>ss_InvalidatedAt := Some (now_at e' 0), ss_CreatedAt := ss_CreatedAt x0, ss_UpdatedAt := now_at e' 1\<rparr>"
  have done_: "(reply, s') = (NoContent, CreateSession ?y s)"
    using between x0(1,2) storage ids update_known [of "x0\<lparr>ss_InvalidatedAt := Some (now_at e' 0)\<rparr>" s x0 "now_at e' 1"]
    by (simp add: sessions_invalidate_def read_write_def invalidate_read_def invalidate_write_def write_session_def try_op_def)
  have got: "AuthnModel.GetSession t i s' = Some ?y" using done_ get_written [of ?y s] ids by simp
  let ?z = "x\<lparr>ss_CreatedAt := ss_CreatedAt ?y, ss_UpdatedAt := now_at e 1\<rparr>"
  have "refresh_write e x s' = (WriteJSON StatusOK (ASession ?z), CreateSession ?z s')"
    using got x0(3) ids storage update_known [of x s' ?y "now_at e 1"] by (simp add: refresh_write_def write_session_def try_op_def)
  moreover have "AuthnModel.GetSession t i (CreateSession ?z s') = Some ?z" using get_written [of ?z s'] ids x0(3) by simp
  ultimately show ?thesis using done_ got x0 by (simp add: status_defs)
qed

definition demo_session :: Session where
  "demo_session = session_for ''s'' ''t'' ''u1'' RiskLow False 0"

theorem overlapping_refresh_resurrects_a_session_witness:
  "let e = demo_authn_env 5; s' = snd (sessions_invalidate e (Some ''t'') ''s'' demo_authn_store);
       x = demo_session\<lparr>ss_ExpiresAt := 5 + SessionTTLSeconds * Second\<rparr>
   in (\<exists>y. AuthnModel.GetSession ''t'' ''s'' s' = Some y \<and> ss_InvalidatedAt y \<noteq> None) \<and>
      (\<exists>z. AuthnModel.GetSession ''t'' ''s'' (snd (refresh_write e x s')) = Some z \<and> ss_InvalidatedAt z = None)"
proof -
  have read: "refresh_read (demo_authn_env 5) ''t'' ''s'' demo_authn_store =
    Inr (demo_session\<lparr>ss_ExpiresAt := 5 + SessionTTLSeconds * Second\<rparr>)" by code_simp
  have key: "ss_ID (demo_session\<lparr>ss_ExpiresAt := 5 + SessionTTLSeconds * Second\<rparr>) = ''s''"
    by (simp add: demo_session_def session_for_def)
  have storage: "\<not> op_fails (demo_authn_env 5) op" for op by (simp add: demo_authn_env_def)
  show ?thesis
    using overlapping_refresh_resurrects_a_session [OF read key storage storage storage prod.collapse [symmetric]]
    by (simp only: Let_def)
qed

end
