(* ===== verification/AuthnTyped.thy ===== *)
theory AuthnTyped
  imports AuthnKeeps
begin

text \<open>
  What is always true of authentication-service's storage, whatever requests it has served: the rows carry
  their keys, risk levels and token types are the documented ones, and an email names one user of a
  tenant.
\<close>

definition unique_emails :: "User table \<Rightarrow> bool" where
  "unique_emails us \<longleftrightarrow> list_all (\<lambda>(i, u). list_all (\<lambda>(j, v).
     us_Email u \<noteq> [] \<and> us_Email v = us_Email u \<and> us_TenantID v = us_TenantID u \<longrightarrow> j = i) us) us"

definition authn_typed :: "authn_store \<Rightarrow> bool" where
  "authn_typed s \<longleftrightarrow>
     list_all (\<lambda>(i, u). us_ID u = i) (at_users s) \<and> unique_emails (at_users s) \<and>
     list_all (\<lambda>(i, x). ss_ID x = i \<and> ValidRiskLevel (ss_RiskLevel x)) (at_sessions s) \<and>
     list_all (\<lambda>(h, t). to_TokenHash t = h \<and> to_TokenType t \<in> {TokenTypeAccess, TokenTypeRefresh}) (at_tokens s) \<and>
     list_all (\<lambda>(k, c). ac_Code c = k) (at_codes s)"

lemma list_all_put: "list_all P m \<Longrightarrow> P (k, r) \<Longrightarrow> list_all P (tab_put k r m)"
  by (auto simp: list_all_iff dest!: tab_put_member)

lemma list_all_del: "list_all P m \<Longrightarrow> list_all P (tab_del k m)"
  by (auto simp: list_all_iff tab_del_def AList.delete_eq)

lemma list_all_get: "list_all P m \<Longrightarrow> tab_get m k = Some r \<Longrightarrow> P (k, r)"
  by (auto simp: list_all_iff tab_get_def dest!: map_of_SomeD)

lemmas typed_rules = list_all_put list_all_del

lemma unique_emails_iff:
  "unique_emails us \<longleftrightarrow> (\<forall>i u j v. (i, u) \<in> set us \<and> (j, v) \<in> set us \<and> us_Email u \<noteq> [] \<and> us_Email v = us_Email u \<and>
     us_TenantID v = us_TenantID u \<longrightarrow> j = i)"
  unfolding unique_emails_def list_all_iff Ball_def split_paired_All prod.case by blast

lemma unique_put:
  assumes "unique_emails us"
    and fresh: "\<And>j v. (j, v) \<in> set us \<Longrightarrow> us_Email u \<noteq> [] \<Longrightarrow> us_Email v = us_Email u \<Longrightarrow> us_TenantID v = us_TenantID u \<Longrightarrow> j = i"
  shows "unique_emails (tab_put i u us)"
  unfolding unique_emails_iff
proof (intro allI impI, elim conjE)
  fix a x b y
  assume rows: "(a, x) \<in> set (tab_put i u us)" "(b, y) \<in> set (tab_put i u us)"
    and same: "us_Email x \<noteq> []" "us_Email y = us_Email x" "us_TenantID y = us_TenantID x"
  from rows have "a = i \<and> x = u \<or> (a, x) \<in> set us" "b = i \<and> y = u \<or> (b, y) \<in> set us"
    by (auto dest: tab_put_member)
  then show "b = a"
  proof (elim disjE)
    assume "(a, x) \<in> set us" "(b, y) \<in> set us"
    then show ?thesis using same assms(1) unfolding unique_emails_iff by blast
  next
    assume new: "a = i \<and> x = u" and old: "(b, y) \<in> set us"
    show ?thesis using same new by (simp add: fresh [OF old])
  next
    assume old: "(a, x) \<in> set us" and new: "b = i \<and> y = u"
    have "a = i" by (rule fresh [OF old]) (use same new in simp_all)
    then show ?thesis using new by simp
  qed simp
qed

lemma tab_del_member: "(k, r) \<in> set (tab_del i m) \<Longrightarrow> (k, r) \<in> set m"
  by (auto simp: tab_del_def AList.delete_eq)

lemma unique_del: "unique_emails us \<Longrightarrow> unique_emails (tab_del i us)"
  unfolding unique_emails_iff by (blast dest: tab_del_member)

lemma typed_user_put:
  assumes "authn_typed s" and "\<And>j v. (j, v) \<in> set (at_users s) \<Longrightarrow> us_Email u \<noteq> [] \<Longrightarrow> us_Email v = us_Email u \<Longrightarrow>
    us_TenantID v = us_TenantID u \<Longrightarrow> j = us_ID u"
  shows "authn_typed (put_user u s)"
proof -
  have "unique_emails (tab_put (us_ID u) u (at_users s))"
    by (rule unique_put) (use assms(1) in \<open>simp add: authn_typed_def\<close>, fact assms(2))
  then show ?thesis using assms(1) by (simp add: authn_typed_def put_user_def list_all_put)
qed

lemma typed_create_user:
  assumes "authn_typed s" "CreateUser u s = Inr s'"
  shows "authn_typed s'"
proof -
  have s': "s' = put_user u s" and free: "us_Email u = [] \<or> \<not> list_ex (\<lambda>x. us_TenantID x = us_TenantID u \<and> us_Email x = us_Email u) (tab_rows (at_users s))"
    using assms(2) by (auto simp: CreateUser_def split: if_splits)
  show ?thesis unfolding s'
  proof (rule typed_user_put [OF assms(1)])
    fix j v assume row: "(j, v) \<in> set (at_users s)" and same: "us_Email u \<noteq> []" "us_Email v = us_Email u" "us_TenantID v = us_TenantID u"
    have "v \<in> set (tab_rows (at_users s))" using row by (force simp: tab_rows_def)
    then show "j = us_ID u" using free same unfolding list_ex_iff by blast
  qed
qed

lemma typed_update_user:
  assumes "authn_typed s" "UpdateUser now u s = Inr (u', s')"
  shows "authn_typed s'"
proof -
  obtain old where old: "tab_get (at_users s) (us_ID u) = Some old" "us_TenantID old = us_TenantID u"
      "s' = put_user (u\<lparr>us_CreatedAt := us_CreatedAt old, us_UpdatedAt := now\<rparr>) s"
    and free: "us_Email u = us_Email old \<or> (\<forall>(i, x) \<in> set (at_users s). \<not> (i \<noteq> us_ID u \<and> us_TenantID x = us_TenantID u \<and> us_Email x = us_Email u))"
    using assms(2) by (auto simp: UpdateUser_def own_row_Some list_ex_iff Let_def split: option.splits if_splits)
  have here: "(us_ID u, old) \<in> set (at_users s)" using old(1) by (auto simp: tab_get_def dest: map_of_SomeD)
  have unique: "unique_emails (at_users s)" using assms(1) by (simp add: authn_typed_def)
  show ?thesis unfolding old(3)
  proof (rule typed_user_put [OF assms(1)])
    fix j v assume row: "(j, v) \<in> set (at_users s)"
      and "us_Email (u\<lparr>us_CreatedAt := us_CreatedAt old, us_UpdatedAt := now\<rparr>) \<noteq> []"
        "us_Email v = us_Email (u\<lparr>us_CreatedAt := us_CreatedAt old, us_UpdatedAt := now\<rparr>)"
        "us_TenantID v = us_TenantID (u\<lparr>us_CreatedAt := us_CreatedAt old, us_UpdatedAt := now\<rparr>)"
    then have same: "us_Email u \<noteq> []" "us_Email v = us_Email u" "us_TenantID v = us_TenantID u" by simp_all
    from free have "j = us_ID u"
    proof
      assume "us_Email u = us_Email old"
      then have "us_Email old \<noteq> [] \<and> us_Email v = us_Email old \<and> us_TenantID v = us_TenantID old" using same old(2) by simp
      then show ?thesis using unique here row unfolding unique_emails_iff by blast
    qed (use row same in blast)
    then show "j = us_ID (u\<lparr>us_CreatedAt := us_CreatedAt old, us_UpdatedAt := now\<rparr>)" by simp
  qed
qed

lemma typed_delete_user: "authn_typed s \<Longrightarrow> DeleteUser t i s = Some s' \<Longrightarrow> authn_typed s'"
  by (auto simp: DeleteUser_def authn_typed_def list_all_del unique_del split: option.splits)

lemma typed_session: "authn_typed s \<Longrightarrow> ValidRiskLevel (ss_RiskLevel x) \<Longrightarrow> authn_typed (CreateSession x s)"
  by (simp add: authn_typed_def CreateSession_def list_all_put)

lemma typed_got: "authn_typed s \<Longrightarrow> tab_get (at_sessions s) i = Some x \<Longrightarrow> ValidRiskLevel (ss_RiskLevel x)"
  by (auto simp: authn_typed_def dest!: list_all_get)

lemma typed_token: "authn_typed s \<Longrightarrow> to_TokenType t \<in> {TokenTypeAccess, TokenTypeRefresh} \<Longrightarrow> authn_typed (PutToken t s)"
  by (simp add: authn_typed_def PutToken_def list_all_put)

lemma typed_revoke:
  assumes "authn_typed s" "RevokeTokenByHash now h s = Some s'"
  shows "authn_typed s'"
proof -
  obtain t where t: "tab_get (at_tokens s) h = Some t" "s' = s\<lparr>at_tokens := tab_put h (t\<lparr>to_RevokedAt := Some now\<rparr>) (at_tokens s)\<rparr>"
    using assms(2) by (auto simp: RevokeTokenByHash_def split: option.splits)
  have "list_all (\<lambda>(h, t). to_TokenHash t = h \<and> to_TokenType t \<in> {TokenTypeAccess, TokenTypeRefresh}) (at_tokens s)"
    using assms(1) by (simp add: authn_typed_def)
  from list_all_get [OF this t(1)] show ?thesis using assms(1) by (simp add: t(2) authn_typed_def list_all_put)
qed

lemma typed_where: "authn_typed s \<Longrightarrow> authn_typed (snd (revoke_where P now s))"
  by (fastforce simp: authn_typed_def revoke_where_def Let_def list_all_iff)

lemma typed_code: "authn_typed s \<Longrightarrow> authn_typed (PutAuthCode c s)"
  "authn_typed s \<Longrightarrow> ConsumeAuthCode k s = Some (c, s') \<Longrightarrow> authn_typed s'"
  by (auto simp: authn_typed_def PutAuthCode_def ConsumeAuthCode_def list_all_put list_all_del split: option.splits)

lemma typed_other: "authn_typed s \<Longrightarrow> authn_typed (RecordDeviceSignal ds s)" "authn_typed s \<Longrightarrow> authn_typed (RecordAdviceCall av s)"
  "authn_typed s \<Longrightarrow> MarkAdviceCallCompleted t i uid acr now s = Inr s' \<Longrightarrow> authn_typed s'"
  "authn_typed s \<Longrightarrow> RedeemIDJAGJTI now jti expiry s = Inr s' \<Longrightarrow> authn_typed s'"
  by (auto simp: authn_typed_def RecordDeviceSignal_def RecordAdviceCall_def MarkAdviceCallCompleted_def RedeemIDJAGJTI_def Let_def
      split: option.splits if_splits)

interpretation typed: storage_property authn_typed "\<lambda>x. ValidRiskLevel (ss_RiskLevel x)" "\<lambda>f. True" "\<lambda>c. True" "\<lambda>now. True"
  by unfold_locales
    (assumption | erule (1) typed_create_user typed_update_user typed_delete_user typed_session typed_got typed_revoke typed_code(2)
        typed_other(3,4) | rule typed_token typed_where typed_code(1) typed_other(1,2) TrueI | simp add: session_for_def)+

text \<open>
  The storage of authentication-service stays well typed through any history of requests, whatever
  they carry and whichever storage calls fail: every row is stored under the key it carries, risk levels
  are low, medium or high, token records are access or refresh tokens, and no two users of a tenant share
  a non-empty email.
\<close>

theorem requests_keep_the_store_well_typed:
  assumes "authn_typed (ay_store s)"
  shows "authn_typed (ay_store (authn_run d fetch secret only evs s))"
  by (rule typed.runs_keep [OF assms]) (simp add: fits_def list_all_iff split_beta)

lemma demo_typed: "authn_typed demo_authn_store"
  by code_simp

theorem requests_keep_the_store_well_typed_witness:
  "authn_typed (ay_store (authn_run demo_deps (\<lambda>uri w. (None, w)) [] False [(demo_authn_env 5, RAuthorize demo_query)] demo_authn))"
  by (rule requests_keep_the_store_well_typed) (simp add: demo_authn_def demo_typed)

end
