(* ===== verification/AuthnPages.thy ===== *)
theory AuthnPages
  imports RateLimit AuthrAdapters AuthnService
begin

text \<open>
  What the hosted pages of authentication-service share (login_console.go, and the common parts of
  phone_login.go, social.go, signup_console.go): the browser's cookies, the replies, the state that lives
  in a replica beside the one of the flow engine, the rule for redirect URIs, and the sign-in chooser.
\<close>

section \<open>Configuration\<close>

record SocialProviderConfig =
  sg_ClientID :: string
  sg_ClientSecret :: string
  sg_AuthURL :: string
  sg_TokenURL :: string
  sg_UserinfoURL :: string

text \<open>
  \<open>hg_url\<close> is \<open>url.Parse\<close>: the scheme and the host, or \<open>None\<close>; \<open>hg_split_host\<close> is the host of
  \<open>net.SplitHostPort\<close>.  \<open>hg_AllowedEmails\<close> is the staff allowlist, which the code keeps trimmed and in lower case.
\<close>

record hosted_cfg =
  hg_authn :: authn_cfg
  hg_Issuer :: string
  hg_url :: "string \<Rightarrow> (string \<times> string) option"
  hg_split_host :: "string \<Rightarrow> string option"
  hg_Providers :: "SocialProviderConfig table"
  hg_AllowedEmails :: "string list"

definition abs_url :: "hosted_cfg \<Rightarrow> string \<Rightarrow> bool" where
  "abs_url cfg u \<longleftrightarrow> (case hg_url cfg u of None \<Rightarrow> False | Some (scheme, host) \<Rightarrow> scheme \<noteq> [])"

text \<open>An absolute http or https URL with a host.\<close>

definition http_url :: "hosted_cfg \<Rightarrow> string \<Rightarrow> bool" where
  "http_url cfg u \<longleftrightarrow>
     (case hg_url cfg u of None \<Rightarrow> False | Some (scheme, host) \<Rightarrow> scheme \<in> {''https'', ''http''} \<and> host \<noteq> [])"

text \<open>\<open>strings.TrimRight(s, "/")\<close>, and an address of this service.\<close>

definition trim_slashes :: "string \<Rightarrow> string" where
  "trim_slashes s = rev (dropWhile (\<lambda>c. c = CHR ''/'') (rev s))"

definition issuerURL :: "hosted_cfg \<Rightarrow> string \<Rightarrow> string" where
  "issuerURL cfg path = trim_slashes (hg_Issuer cfg) @ path"

section \<open>Cookies and replies\<close>

text \<open>
  The cookies of a request, and the ones a reply sets or deletes.  Path, lifetime and the other attributes
  depend only on the name, but for the expiry of a session cookie, which is the session's.
\<close>

type_synonym cookies = "(string \<times> string) list"

definition cookieValue :: "cookies \<Rightarrow> string \<Rightarrow> string" where
  "cookieValue jar name = (case map_of jar name of None \<Rightarrow> [] | Some v \<Rightarrow> v)"

datatype set_cookie = SetCookie string string | ClearCookie string

definition AuthzSessionCookie :: string where "AuthzSessionCookie = ''xauth_authz_session''"

definition SetAuthzSession :: "Session \<Rightarrow> set_cookie" where
  "SetAuthzSession sess = SetCookie AuthzSessionCookie (ss_ID sess)"

text \<open>What a browser holds after a reply.\<close>

fun keep_cookie :: "set_cookie \<Rightarrow> cookies \<Rightarrow> cookies" where
  "keep_cookie (SetCookie n v) jar = AList.update n v jar"
| "keep_cookie (ClearCookie n) jar = AList.delete n jar"

definition keep_cookies :: "set_cookie list \<Rightarrow> cookies \<Rightarrow> cookies" where
  "keep_cookies cs jar = fold keep_cookie cs jar"

text \<open>
  What the tabs of the owner's dashboard and of the staff console show: the rows they list, a user with
  the phone and the licence anchor, a session with its user's email, its label and whether it can be revoked.
\<close>

type_synonym session_row = "Session \<times> string \<times> string \<times> bool"

datatype owner_tab =
    TOverview Tenant "OIDCClient option" nat
  | TIntegration Tenant "OIDCClient option"
  | TBranding Branding
  | TTransactions "TransactionType list"
  | TFlows "FlowDefinition list" "FlowDefinition option"
  | TMCP "MCPServer list"
  | TIDPs "TrustedIDP list"
  | TUsers "(User \<times> IdentityAnchor option \<times> IdentityAnchor option) list"
  | TSessions "session_row list" "StepUpAttempt list"

datatype staff_tab =
    STenants "TenantSummary list" "OIDCClient list option"
  | STenantsDown
  | SDocuments
  | SMarketing
  | SMonitoring
  | SAdvice "AdviceCall list"

record tenant_detail =
  td_Name :: string
  td_ID :: string
  td_Users :: "User list"
  td_Anchors :: "IdentityAnchor list"
  td_Owner :: string
  td_Sessions :: "session_row list"
  td_StepUps :: "StepUpAttempt list"
  td_Signals :: "DeviceSignal list"

text \<open>What is filled into the starter files, and what a flow is refused for in the editor.\<close>

record quickstartParams =
  qk_Issuer :: string
  qk_ClientID :: string
  qk_TenantID :: string
  qk_Company :: string
  qk_AcrValues :: string

datatype flow_problem = NoSlug | BadStages | Faulty flow_fault

text \<open>
  The pages, by what they show: a message with the link back, the sign-in chooser, the forms of the phone
  leg, the screens of the workspace funnel and of the consoles.
\<close>

datatype hosted_payload =
    HRedirect string
  | HError string string
  | HChooser string string "string option"
  | HPhoneForm string string string string
  | HCodeForm string string string
  | HOfferLink
  | HSignedIn string string
  | HEnroll string string "string option"
  | HEnrollStatus string string
  | HSignup string
  | HWorkspace Tenant OIDCClient "string option"
  | HSecret string string string string
  | HNoWorkspace string
  | HPicker "Tenant list"
  | HLanding
  | HDashboard Tenant string "Tenant list" owner_tab
  | HFile string quickstartParams
  | HFlowEditor string string string bool string flow_problem
  | HFlowRefused string flow_fault
  | HFlowValid string nat
  | HStaffSignIn
  | HStaffHome "string list" "string list" staff_tab
  | HDenied string
  | HTenantDetail tenant_detail
  | HDevHome "(OIDCClient list \<times> string) option"
  | HDevError string string
  | HDevResult string json

type_synonym hosted_reply = "hosted_payload reply"

definition to_page :: "string \<Rightarrow> hosted_reply" where
  "to_page location = WriteJSON 302 (HRedirect location)"

definition error_page :: "nat \<Rightarrow> string \<Rightarrow> string \<Rightarrow> hosted_reply" where
  "error_page st m back = WriteJSON st (HError m back)"

text \<open>The error page of the sign-in pages has no link back.\<close>

definition sign_in_error :: "string \<Rightarrow> hosted_reply" where
  "sign_in_error m = error_page StatusBadRequest m []"

lemmas page_defs = to_page_def error_page_def sign_in_error_def

section \<open>State\<close>

definition signupTenantID :: string where "signupTenantID = ''ten_signup''"
definition adminTenantID :: string where "adminTenantID = ''ten_admin''"
definition devConsoleTenantID :: string where "devConsoleTenantID = ''ten_developer''"

lemmas console_tenants = signupTenantID_def adminTenantID_def devConsoleTenantID_def

record pendingPhoneOTP =
  po_TenantID :: string
  po_Phone :: string
  po_RedirectURI :: string
  po_State :: string
  po_IsNew :: bool
  po_Attempts :: nat
  po_CreatedAt :: time

record pendingPhoneLink =
  pk_ID :: string
  pk_TenantID :: string
  pk_UserID :: string
  pk_SessionID :: string
  pk_RedirectURI :: string
  pk_State :: string
  pk_CSRF :: string
  pk_CreatedAt :: time

record socialPending =
  qn_Provider :: string
  qn_TenantID :: string
  qn_RedirectURI :: string
  qn_State :: string
  qn_CodeVerifier :: string
  qn_DeviceFP :: string
  qn_CreatedAt :: time

record devOIDCFlow =
  df_ClientID :: string
  df_RedirectURI :: string
  df_CodeVerifier :: string
  df_ACR :: string
  df_CreatedAt :: time

text \<open>The replica of AuthnStepUp, with what the hosted pages keep in memory and the limiters of two routes.\<close>

record 'w hosted =
  hs_sys :: "'w authn_sys"
  hs_otps :: "pendingPhoneOTP table"
  hs_links :: "pendingPhoneLink table"
  hs_pending :: "socialPending table"
  hs_mdl_ver :: "Verifier option"
  hs_dev_flows :: "devOIDCFlow table"
  hs_dev_clients :: "OIDCClient table"
  hs_signup_rate :: "limiter option"
  hs_phone_rate :: "limiter option"

definition hs_store :: "'w hosted \<Rightarrow> authn_store" where
  "hs_store h = ay_store (hs_sys h)"

definition with_store :: "authn_store \<Rightarrow> 'w hosted \<Rightarrow> 'w hosted" where
  "with_store s h = h\<lparr>hs_sys := (hs_sys h)\<lparr>ay_store := s\<rparr>\<rparr>"

lemma hs_store_with [simp]: "hs_store (with_store s h) = s"
  by (simp add: hs_store_def with_store_def)

definition ask_world :: "('w \<Rightarrow> 'r \<times> 'w) \<Rightarrow> 'w hosted \<Rightarrow> 'r \<times> 'w hosted" where
  "ask_world f h = (let (r, s) = call_world f (hs_sys h) in (r, h\<lparr>hs_sys := s\<rparr>))"

lemma ask_world_store [simp]: "hs_store (snd (ask_world f h)) = hs_store h"
  by (simp add: ask_world_def call_world_def hs_store_def split_beta Let_def)

type_synonym 'w served = "hosted_reply \<times> set_cookie list \<times> 'w hosted"

section \<open>Redirect URIs\<close>

definition sameOrigin :: "hosted_cfg \<Rightarrow> string \<Rightarrow> string \<Rightarrow> bool" where
  "sameOrigin cfg base candidate \<longleftrightarrow>
     (case (hg_url cfg (trim_slashes base), hg_url cfg candidate) of
        (Some (bs, bh), Some (cs, ch)) \<Rightarrow> bh \<noteq> [] \<and> ch \<noteq> [] \<and> bs = cs \<and> bh = ch
      | _ \<Rightarrow> False)"

definition redirectAllowedForTenant :: "hosted_cfg \<Rightarrow> authn_env \<Rightarrow> string \<Rightarrow> string \<Rightarrow> authn_store \<Rightarrow> bool" where
  "redirectAllowedForTenant cfg e tenantID redirectURI s \<longleftrightarrow>
     sameOrigin cfg (hg_Issuer cfg) redirectURI \<or>
     (\<not> op_fails e AListClients \<and>
      list_ex (\<lambda>c. (oc_TenantID c = [] \<or> oc_TenantID c = tenantID) \<and> redirectURI \<in> set (oc_RedirectURIs c)) (ListClients s))"

text \<open>The hand-over to the application: the session and the user ride on the redirect URI.\<close>

definition hand_over :: "hosted_cfg \<Rightarrow> string \<Rightarrow> string \<Rightarrow> string \<Rightarrow> string \<Rightarrow> string" where
  "hand_over cfg redirectURI sessionID userID st =
     ag_location (hg_authn cfg) redirectURI
       ([(''session_id'', sessionID), (''user_id'', userID)] @ (if st \<noteq> [] then [(''state'', st)] else []))"

section \<open>The sign-in chooser\<close>

definition tenant_row :: "authn_env \<Rightarrow> string \<Rightarrow> authn_store \<Rightarrow> Tenant option" where
  "tenant_row e tenantID s = try_op (op_fails e AGetTenant) (GetTenant tenantID s)"

definition chooser_heading :: "string \<Rightarrow> Tenant option \<Rightarrow> string" where
  "chooser_heading plain t =
     (case t of None \<Rightarrow> plain | Some t \<Rightarrow> if tn_CompanyName t \<noteq> [] then ''Sign in to '' @ tn_CompanyName t else plain)"

record login_query =
  lq_tenant_id :: string
  lq_redirect_uri :: string
  lq_state :: string

definition LoginPage :: "hosted_cfg \<Rightarrow> authn_env \<Rightarrow> login_query \<Rightarrow> authn_store \<Rightarrow> hosted_reply" where
  "LoginPage cfg e q s =
     (let tenantID = TrimSpace (lq_tenant_id q); redirectURI = TrimSpace (lq_redirect_uri q)
      in if tenantID = [] then sign_in_error ''tenant_id is required.''
         else if redirectURI = [] then sign_in_error ''redirect_uri is required.''
         else if \<not> abs_url cfg redirectURI then sign_in_error ''redirect_uri must be an absolute URL.''
         else if \<not> redirectAllowedForTenant cfg e tenantID redirectURI s
         then sign_in_error ''This redirect URL isn't registered for this workspace. Add it on your X-Auth dashboard, then try again.''
         else
           let t = tenant_row e tenantID s;
               params = [(''tenant_id'', tenantID), (''redirect_uri'', redirectURI)] @
                 (if lq_state q \<noteq> [] then [(''state'', lq_state q)] else []);
               mobile = (case t of None \<Rightarrow> False | Some t \<Rightarrow> tn_PhoneLoginEnabled t)
           in WriteJSON StatusOK (HChooser (chooser_heading ''Sign in'' t)
                (ag_location (hg_authn cfg) ''/v1/social/google/authorize'' params)
                (if mobile then Some (ag_location (hg_authn cfg) ''/login/phone'' params) else None)))"

end
