(* ===== verification/AuthnPhone.thy ===== *)
theory AuthnPhone
  imports AuthnPages
begin

text \<open>
  Sign-in by phone number (phone_login.go): the number is texted a code, the code is checked, a known
  number signs its user in, an unknown one makes an account and may be linked with a Google account.
\<close>

section \<open>The verifier\<close>

text \<open>A verifier of one-time codes in the world the provider lives in, such as those of AuthrAdapters.\<close>

record 'w otp_verifier =
  ov_Start :: "string \<Rightarrow> 'w \<Rightarrow> sms_err option \<times> 'w"
  ov_Check :: "string \<Rightarrow> string \<Rightarrow> 'w \<Rightarrow> (sms_err + bool) \<times> 'w"
  ov_Lookup :: "string \<Rightarrow> 'w \<Rightarrow> (sms_err + bool) \<times> 'w"

definition lift_verifier :: "sms_verifier \<Rightarrow> 'w otp_verifier" where
  "lift_verifier v =
     \<lparr>ov_Start = \<lambda>mobile w. (sms_Start v mobile, w), ov_Check = \<lambda>mobile code w. (sms_Check v mobile code, w),
      ov_Lookup = \<lambda>mobile w. (sms_Lookup v mobile, w)\<rparr>"

text \<open>Only a definitive "not a number" is held against a number.\<close>

definition phoneLookupValid :: "'w otp_verifier option \<Rightarrow> string \<Rightarrow> 'w \<Rightarrow> bool \<times> 'w" where
  "phoneLookupValid v mobile w =
     (case v of
        None \<Rightarrow> (True, w)
      | Some v \<Rightarrow> (case ov_Lookup v mobile w of (Inl err, w) \<Rightarrow> (True, w) | (Inr ok, w) \<Rightarrow> (ok, w)))"

section \<open>Numbers\<close>

text \<open>
  The digits of the input; a plus may lead, and blanks, dashes, dots and brackets are skipped.  Any byte
  of a longer UTF-8 sequence is refused, as its rune is.
\<close>

fun phone_digits :: "string \<Rightarrow> string option" where
  "phone_digits [] = Some []"
| "phone_digits (c # s) =
     (if is_digit c then map_option ((#) c) (phone_digits s)
      else if c \<in> set '' -().'' then phone_digits s
      else None)"

definition normalizePhone :: "string \<Rightarrow> string option" where
  "normalizePhone raw =
     (let s = TrimSpace raw
      in case phone_digits (case s of c # rest \<Rightarrow> if c = CHR ''+'' then rest else s | [] \<Rightarrow> s) of
           None \<Rightarrow> None
         | Some digits \<Rightarrow> if length digits < 8 \<or> 15 < length digits then None else Some (CHR ''+'' # digits))"

section \<open>Parked flows\<close>

definition phoneFlowTTL :: duration where "phoneFlowTTL = 10 * Minute"
definition phoneMaxOTP :: nat where "phoneMaxOTP = 5"
definition phoneLinkCookie :: string where "phoneLinkCookie = ''xauth_phone_link''"
definition phoneLinkState :: string where "phoneLinkState = ''xauth_phone_link_state''"

definition gc_phone :: "time \<Rightarrow> 'w hosted \<Rightarrow> 'w hosted" where
  "gc_phone now h =
     h\<lparr>hs_otps := filter (\<lambda>(k, p). \<not> po_CreatedAt p < now - phoneFlowTTL) (hs_otps h),
       hs_links := filter (\<lambda>(k, p). \<not> pk_CreatedAt p < now - phoneFlowTTL) (hs_links h)\<rparr>"

definition putOTP :: "time \<Rightarrow> string \<Rightarrow> pendingPhoneOTP \<Rightarrow> 'w hosted \<Rightarrow> 'w hosted" where
  "putOTP now i p h = (let h = gc_phone now h in h\<lparr>hs_otps := tab_put i p (hs_otps h)\<rparr>)"

definition dropOTP :: "string \<Rightarrow> 'w hosted \<Rightarrow> 'w hosted" where
  "dropOTP i h = h\<lparr>hs_otps := tab_del i (hs_otps h)\<rparr>"

definition getOTP :: "time \<Rightarrow> string \<Rightarrow> 'w hosted \<Rightarrow> pendingPhoneOTP option \<times> 'w hosted" where
  "getOTP now i h =
     (case tab_get (hs_otps h) i of
        None \<Rightarrow> (None, h)
      | Some p \<Rightarrow> if phoneFlowTTL < now - po_CreatedAt p then (None, dropOTP i h) else (Some p, h))"

definition putLink :: "time \<Rightarrow> string \<Rightarrow> pendingPhoneLink \<Rightarrow> 'w hosted \<Rightarrow> 'w hosted" where
  "putLink now i p h = (let h = gc_phone now h in h\<lparr>hs_links := tab_put i p (hs_links h)\<rparr>)"

definition dropLink :: "string \<Rightarrow> 'w hosted \<Rightarrow> 'w hosted" where
  "dropLink i h = h\<lparr>hs_links := tab_del i (hs_links h)\<rparr>"

definition getLink :: "time \<Rightarrow> string \<Rightarrow> 'w hosted \<Rightarrow> pendingPhoneLink option \<times> 'w hosted" where
  "getLink now i h =
     (case tab_get (hs_links h) i of
        None \<Rightarrow> (None, h)
      | Some p \<Rightarrow> if phoneFlowTTL < now - pk_CreatedAt p then (None, dropLink i h) else (Some p, h))"

definition currentLink :: "time \<Rightarrow> cookies \<Rightarrow> 'w hosted \<Rightarrow> pendingPhoneLink option \<times> 'w hosted" where
  "currentLink now jar h =
     (let i = cookieValue jar phoneLinkCookie in if i = [] then (None, h) else getLink now i h)"

section \<open>Starting\<close>

text \<open>The reason why the phone leg may not start, if there is one.\<close>

definition entry_refused :: "hosted_cfg \<Rightarrow> authn_env \<Rightarrow> string \<Rightarrow> string \<Rightarrow> authn_store \<Rightarrow> string option" where
  "entry_refused cfg e tenantID redirectURI s =
     (if tenantID = [] then Some ''tenant_id is required.''
      else if redirectURI = [] \<or> \<not> abs_url cfg redirectURI then Some ''A valid redirect_uri is required.''
      else if \<not> redirectAllowedForTenant cfg e tenantID redirectURI s
      then Some ''This redirect URL isn't registered for this workspace.''
      else (case tenant_row e tenantID s of
              None \<Rightarrow> Some ''Phone sign-in isn't enabled for this workspace.''
            | Some t \<Rightarrow> if tn_PhoneLoginEnabled t then None else Some ''Phone sign-in isn't enabled for this workspace.''))"

definition PhoneStart :: "hosted_cfg \<Rightarrow> authn_env \<Rightarrow> login_query \<Rightarrow> 'w hosted \<Rightarrow> 'w served" where
  "PhoneStart cfg e q h =
     (let tenantID = TrimSpace (lq_tenant_id q); redirectURI = TrimSpace (lq_redirect_uri q)
      in case entry_refused cfg e tenantID redirectURI (hs_store h) of
           Some m \<Rightarrow> (sign_in_error m, [], h)
         | None \<Rightarrow>
             (WriteJSON StatusOK (HPhoneForm (chooser_heading ''Sign in with your phone'' (tenant_row e tenantID (hs_store h)))
                tenantID redirectURI (lq_state q)), [], h))"

definition entryHref :: "hosted_cfg \<Rightarrow> string \<Rightarrow> string \<Rightarrow> string \<Rightarrow> string" where
  "entryHref cfg tenantID redirectURI st =
     ag_location (hg_authn cfg) ''/login/phone''
       ([(''tenant_id'', tenantID), (''redirect_uri'', redirectURI)] @ (if st \<noteq> [] then [(''state'', st)] else []))"

record phone_form =
  pf_tenant_id :: string
  pf_redirect_uri :: string
  pf_state :: string
  pf_phone :: string

definition code_form :: "string \<Rightarrow> string \<Rightarrow> string \<Rightarrow> hosted_reply" where
  "code_form flowID mobile err = WriteJSON StatusOK (HCodeForm flowID mobile err)"

text \<open>From a valid number on: whether it is known, the text message, the parked flow.\<close>

definition submit_number :: "'w otp_verifier \<Rightarrow> hosted_cfg \<Rightarrow> authn_env \<Rightarrow> string \<Rightarrow> string \<Rightarrow> string \<Rightarrow> string \<Rightarrow>
    'w hosted \<Rightarrow> 'w served" where
  "submit_number v cfg e tenantID redirectURI st mobile h =
     (case store_call (op_fails e AGetAnchor) (GetIdentityAnchorByValue tenantID AnchorPhone mobile (hs_store h)) of
        ErrOther \<Rightarrow> (sign_in_error ''Could not start sign-in. Try again.'', [], h)
      | known \<Rightarrow>
          (case ask_world (ov_Start v mobile) h of
             (Some err, h) \<Rightarrow>
               (if err = ErrInvalidNumber
                then error_page StatusBadRequest ''That doesn't look like a valid mobile number. Enter it in full international format.''
                       (entryHref cfg tenantID redirectURI st)
                else sign_in_error ''Could not text your code right now. Try again.'', [], h)
           | (None, h) \<Rightarrow>
               (code_form (new_id e 0) mobile [], [],
                putOTP (now_at e 1) (new_id e 0)
                  \<lparr>po_TenantID = tenantID, po_Phone = mobile, po_RedirectURI = redirectURI, po_State = st,
                   po_IsNew = (known = ErrNotFound), po_Attempts = 0, po_CreatedAt = now_at e 0\<rparr> h)))"

definition PhoneSubmit :: "'w otp_verifier \<Rightarrow> hosted_cfg \<Rightarrow> authn_env \<Rightarrow> phone_form option \<Rightarrow> 'w hosted \<Rightarrow> 'w served" where
  "PhoneSubmit v cfg e form h =
     (case form of
        None \<Rightarrow> (sign_in_error ''Could not read the form.'', [], h)
      | Some f \<Rightarrow>
          let tenantID = TrimSpace (pf_tenant_id f); redirectURI = TrimSpace (pf_redirect_uri f)
          in (case entry_refused cfg e tenantID redirectURI (hs_store h) of
                Some m \<Rightarrow> (sign_in_error m, [], h)
              | None \<Rightarrow>
                  (case normalizePhone (pf_phone f) of
                     None \<Rightarrow>
                       (error_page StatusBadRequest ''Enter a valid mobile number in international format.''
                          (entryHref cfg tenantID redirectURI (pf_state f)), [], h)
                   | Some mobile \<Rightarrow> submit_number v cfg e tenantID redirectURI (pf_state f) mobile h)))"

section \<open>Verifying\<close>

definition new_phone_user :: "authn_env \<Rightarrow> pendingPhoneOTP \<Rightarrow> User" where
  "new_phone_user e flow =
     \<lparr>us_ID = ''usr_'' @ new_id e 0, us_TenantID = po_TenantID flow, us_Email = [], us_Name = po_Phone flow,
      us_CreatedAt = now_at e 1, us_UpdatedAt = now_at e 1\<rparr>"

definition phone_anchor :: "authn_env \<Rightarrow> pendingPhoneOTP \<Rightarrow> string \<Rightarrow> IdentityAnchor" where
  "phone_anchor e flow userID =
     \<lparr>an_ID = ''ian_'' @ new_id e 1, an_UserID = userID, an_TenantID = po_TenantID flow, an_Type = AnchorPhone,
      an_Value = po_Phone flow, an_VerifiedAt = Some (now_at e 1), an_CreatedAt = now_at e 1\<rparr>"

definition known_phone_user :: "authn_env \<Rightarrow> pendingPhoneOTP \<Rightarrow> authn_store \<Rightarrow> string + User" where
  "known_phone_user e flow s =
     (case try_op (op_fails e AGetAnchor) (GetIdentityAnchorByValue (po_TenantID flow) AnchorPhone (po_Phone flow) s) of
        None \<Rightarrow> Inl ''Could not find your account. Start again.''
      | Some a \<Rightarrow>
          (case try_op (op_fails e AGetUser) (GetUser (po_TenantID flow) (an_UserID a) s) of
             None \<Rightarrow> Inl ''Could not load your account. Start again.''
           | Some u \<Rightarrow> Inr u))"

text \<open>The account of an unknown number: the user is deleted again when the number cannot be registered.\<close>

definition create_phone_user :: "authn_env \<Rightarrow> pendingPhoneOTP \<Rightarrow> authn_store \<Rightarrow> (string + User) \<times> authn_store" where
  "create_phone_user e flow s =
     (let u = new_phone_user e flow
      in if op_fails e ACreateUser then (Inl ''Could not create your account. Try again.'', s)
         else (case CreateUser u s of
            Inl err \<Rightarrow> (Inl ''Could not create your account. Try again.'', s)
          | Inr s1 \<Rightarrow>
              (case (if op_fails e ACreateAnchor then Inl Conflict else CreateIdentityAnchor (phone_anchor e flow (us_ID u)) s1) of
                 Inl err \<Rightarrow>
                   (Inl ''Could not register your number. Try again.'',
                    (case try_op (op_fails e ADeleteUser) (DeleteUser (po_TenantID flow) (us_ID u) s1) of None \<Rightarrow> s1 | Some s \<Rightarrow> s))
               | Inr s2 \<Rightarrow> (Inr u, s2))))"

definition resolveUser :: "authn_env \<Rightarrow> pendingPhoneOTP \<Rightarrow> authn_store \<Rightarrow> (string + User) \<times> authn_store" where
  "resolveUser e flow s =
     (if po_IsNew flow then create_phone_user e flow s else (known_phone_user e flow s, s))"

definition login_session :: "string \<Rightarrow> string \<Rightarrow> string \<Rightarrow> time \<Rightarrow> Session" where
  "login_session i tenantID userID now = session_for (''ses_'' @ i) tenantID userID RiskLow False now"

definition finish_login :: "hosted_cfg \<Rightarrow> string \<Rightarrow> string \<Rightarrow> string \<Rightarrow> string \<Rightarrow> hosted_reply" where
  "finish_login cfg redirectURI sessionID userID st =
     (if hg_url cfg redirectURI = None then sign_in_error ''Invalid redirect.''
      else to_page (hand_over cfg redirectURI sessionID userID st))"

text \<open>From the verified code on.\<close>

definition phone_signed_in :: "hosted_cfg \<Rightarrow> authn_env \<Rightarrow> client_seen \<Rightarrow> string \<Rightarrow> pendingPhoneOTP \<Rightarrow> User \<Rightarrow> 'w hosted \<Rightarrow>
    'w served" where
  "phone_signed_in cfg e seen fp flow user h =
     (if op_fails e ACreateSession then (sign_in_error ''Could not start your session. Try again.'', [], h)
      else
        let sess = login_session (new_id e 2) (po_TenantID flow) (us_ID user) (now_at e 2);
            h = with_store (CreateSession sess (hs_store h)) h;
            h = h\<lparr>hs_sys := Observe (hg_authn cfg) e seen (po_TenantID flow) (us_ID user) (ss_ID sess) ''otp'' fp (hs_sys h)\<rparr>;
            link = \<lparr>pk_ID = new_id e 4, pk_TenantID = po_TenantID flow, pk_UserID = us_ID user, pk_SessionID = ss_ID sess,
                    pk_RedirectURI = po_RedirectURI flow, pk_State = po_State flow, pk_CSRF = [], pk_CreatedAt = now_at e 13\<rparr>
        in if po_IsNew flow
           then (WriteJSON StatusOK HOfferLink, [SetAuthzSession sess, SetCookie phoneLinkCookie (new_id e 4)],
                 putLink (now_at e 14) (new_id e 4) link h)
           else (finish_login cfg (po_RedirectURI flow) (ss_ID sess) (us_ID user) (po_State flow), [SetAuthzSession sess], h))"

record code_submission =
  cs_flow :: string
  cs_code :: string
  cs_device_fp :: string

definition wrong_code :: "authn_env \<Rightarrow> string \<Rightarrow> pendingPhoneOTP \<Rightarrow> 'w hosted \<Rightarrow> 'w served" where
  "wrong_code e flowID flow h =
     (let flow = flow\<lparr>po_Attempts := po_Attempts flow + 1\<rparr>
      in if phoneMaxOTP \<le> po_Attempts flow
         then (sign_in_error ''Too many incorrect codes. Start again.'', [], dropOTP flowID h)
         else (code_form flowID (po_Phone flow) ''Incorrect code - try again.'', [], putOTP (now_at e 1) flowID flow h))"

text \<open>
  The handler in two phases, since nothing is locked between them: the flow is read and the code
  checked, and then what follows acts on the flow as it was read.
\<close>

definition phone_check :: "'w otp_verifier \<Rightarrow> authn_env \<Rightarrow> code_submission \<Rightarrow> 'w hosted \<Rightarrow>
    (hosted_reply + pendingPhoneOTP \<times> bool) \<times> 'w hosted" where
  "phone_check v e f h =
     (case getOTP (now_at e 0) (cs_flow f) h of
        (None, h) \<Rightarrow> (Inl (sign_in_error ''Your code expired. Start again.''), h)
      | (Some flow, h) \<Rightarrow>
          (case ask_world (ov_Check v (po_Phone flow) (TrimSpace (cs_code f))) h of
             (Inl err, h) \<Rightarrow>
               (Inl (code_form (cs_flow f) (po_Phone flow) ''Could not verify the code right now. Try again.''), h)
           | (Inr valid, h) \<Rightarrow> (Inr (flow, valid), h)))"

definition phone_conclude :: "hosted_cfg \<Rightarrow> authn_env \<Rightarrow> client_seen \<Rightarrow> code_submission \<Rightarrow> pendingPhoneOTP \<times> bool \<Rightarrow>
    'w hosted \<Rightarrow> 'w served" where
  "phone_conclude cfg e seen f p h =
     (let (flow, valid) = p
      in if \<not> valid then wrong_code e (cs_flow f) flow h
         else
           let h = dropOTP (cs_flow f) h
           in (case resolveUser e flow (hs_store h) of
                 (Inl m, s) \<Rightarrow> (sign_in_error m, [], with_store s h)
               | (Inr user, s) \<Rightarrow> phone_signed_in cfg e seen (cs_device_fp f) flow user (with_store s h)))"

definition PhoneVerify :: "'w otp_verifier \<Rightarrow> hosted_cfg \<Rightarrow> authn_env \<Rightarrow> client_seen \<Rightarrow> code_submission option \<Rightarrow>
    'w hosted \<Rightarrow> 'w served" where
  "PhoneVerify v cfg e seen form h =
     (case form of
        None \<Rightarrow> (sign_in_error ''Could not read the form.'', [], h)
      | Some f \<Rightarrow>
          (case phone_check v e f h of
             (Inl reply, h) \<Rightarrow> (reply, [], h)
           | (Inr p, h) \<Rightarrow> phone_conclude cfg e seen f p h))"

section \<open>Linking\<close>

definition link_cookies_cleared :: "set_cookie list" where
  "link_cookies_cleared = [ClearCookie phoneLinkCookie, ClearCookie phoneLinkState]"

definition link_expired :: hosted_reply where
  "link_expired = sign_in_error ''Your session expired. Start again.''"

definition PhoneLinkStart :: "hosted_cfg \<Rightarrow> authn_env \<Rightarrow> cookies \<Rightarrow> 'w hosted \<Rightarrow> 'w served" where
  "PhoneLinkStart cfg e jar h =
     (case currentLink (now_at e 0) jar h of
        (None, h) \<Rightarrow> (link_expired, [], h)
      | (Some link, h) \<Rightarrow>
          let csrf = new_id e 0
          in (to_page (ag_location (hg_authn cfg) (issuerURL cfg ''/v1/social/google/authorize'')
                [(''tenant_id'', signupTenantID), (''redirect_uri'', issuerURL cfg ''/login/phone/link/callback''),
                 (''state'', csrf)]),
              [SetCookie phoneLinkState csrf],
              putLink (now_at e 1) (cookieValue jar phoneLinkCookie) (link\<lparr>pk_CSRF := csrf\<rparr>) h))"

text \<open>
  The email of a session of the staging tenant, as the code reads it in four places: the session must be
  live, and its user must have an email.
\<close>

definition live_in :: "authn_env \<Rightarrow> nat \<Rightarrow> string \<Rightarrow> string \<Rightarrow> authn_store \<Rightarrow> Session option" where
  "live_in e n tenantID sessionID s =
     (case try_op (op_fails e AGetSession) (AuthnModel.GetSession tenantID sessionID s) of
        None \<Rightarrow> None
      | Some sess \<Rightarrow> if ss_InvalidatedAt sess \<noteq> None \<or> ss_ExpiresAt sess < now_at e n then None else Some sess)"

definition googleEmail :: "authn_env \<Rightarrow> nat \<Rightarrow> string \<Rightarrow> authn_store \<Rightarrow> string option" where
  "googleEmail e n sessionID s =
     (if sessionID = [] then None
      else (case live_in e n signupTenantID sessionID s of
              None \<Rightarrow> None
            | Some sess \<Rightarrow>
                (case try_op (op_fails e AGetUser) (GetUser signupTenantID (ss_UserID sess) s) of
                   None \<Rightarrow> None
                 | Some u \<Rightarrow> if us_Email u = [] then None else Some (us_Email u))))"

definition finishLink :: "hosted_cfg \<Rightarrow> pendingPhoneLink \<Rightarrow> string \<Rightarrow> 'w hosted \<Rightarrow> 'w served" where
  "finishLink cfg link note h =
     (let h = dropLink (pk_ID link) h
      in (if hg_url cfg (pk_RedirectURI link) = None then sign_in_error ''Invalid redirect.''
          else WriteJSON StatusOK (HSignedIn note
            (hand_over cfg (pk_RedirectURI link) (pk_SessionID link) (pk_UserID link) (pk_State link))),
          link_cookies_cleared, h))"

record return_query =
  rq_state :: string
  rq_session_id :: string

text \<open>From the email on.\<close>

definition link_email :: "hosted_cfg \<Rightarrow> authn_env \<Rightarrow> pendingPhoneLink \<Rightarrow> string \<Rightarrow> 'w hosted \<Rightarrow> 'w served" where
  "link_email cfg e link email h =
     (case try_op (op_fails e AGetUser) (GetUser (pk_TenantID link) (pk_UserID link) (hs_store h)) of
        None \<Rightarrow> (sign_in_error ''Could not load your account.'', link_cookies_cleared, h)
      | Some user \<Rightarrow>
          if op_fails e AUpdateUser
          then finishLink cfg link ''We couldn't link your Google account, so you're signed in with your phone for now.'' h
          else (case UpdateUser (now_at e 2) (user\<lparr>us_Email := email\<rparr>) (hs_store h) of
                  Inl err \<Rightarrow>
                    finishLink cfg link
                      (if err = Conflict
                       then ''That Google account is already linked to a different account here, so it wasn't linked. You're still signed in with your phone.''
                       else ''We couldn't link your Google account, so you're signed in with your phone for now.'') h
                | Inr (u, s) \<Rightarrow>
                    (finish_login cfg (pk_RedirectURI link) (pk_SessionID link) (pk_UserID link) (pk_State link),
                     link_cookies_cleared, dropLink (pk_ID link) (with_store s h))))"

definition PhoneLinkCallback :: "hosted_cfg \<Rightarrow> authn_env \<Rightarrow> cookies \<Rightarrow> return_query \<Rightarrow> 'w hosted \<Rightarrow> 'w served" where
  "PhoneLinkCallback cfg e jar q h =
     (case currentLink (now_at e 0) jar h of
        (None, h) \<Rightarrow> (link_expired, [], h)
      | (Some link, h) \<Rightarrow>
          let stateCookie = cookieValue jar phoneLinkState
          in if stateCookie = [] \<or> stateCookie \<noteq> rq_state q \<or> stateCookie \<noteq> pk_CSRF link
             then (sign_in_error ''State mismatch. Start again.'', [], h)
             else (case googleEmail e 1 (rq_session_id q) (hs_store h) of
                     None \<Rightarrow>
                       finishLink cfg link ''We couldn't read your Google account, so it wasn't linked. You're still signed in.'' h
                   | Some email \<Rightarrow> link_email cfg e link email h))"

definition PhoneSkip :: "hosted_cfg \<Rightarrow> authn_env \<Rightarrow> cookies \<Rightarrow> 'w hosted \<Rightarrow> 'w served" where
  "PhoneSkip cfg e jar h =
     (case currentLink (now_at e 0) jar h of
        (None, h) \<Rightarrow> (link_expired, [], h)
      | (Some link, h) \<Rightarrow>
          (finish_login cfg (pk_RedirectURI link) (pk_SessionID link) (pk_UserID link) (pk_State link),
           link_cookies_cleared, dropLink (pk_ID link) h))"

end
