(* ===== verification/AuthnEnroll.thy ===== *)
theory AuthnEnroll
  imports AuthnPhone
begin

text \<open>
  Enrolment of a mobile driving licence by its holder (enroll_mdl.go): the client of id-service
  (id_client.go), the check of its proof tokens (mdl_proof.go), and the parts of the workspace console
  this shares with signup_console.go: the Google leg and the cookies that name a session.
\<close>

section \<open>The client of id-service\<close>

text \<open>\<open>Create\<close> returns the id and the address of a verification, \<open>Get\<close> its status and its proof token.\<close>

record 'w id_client =
  ic_Create :: "string \<Rightarrow> string \<Rightarrow> string list \<Rightarrow> string \<Rightarrow> 'w \<Rightarrow> (string \<times> string) option \<times> 'w"
  ic_Get :: "string \<Rightarrow> string \<Rightarrow> 'w \<Rightarrow> (string \<times> string) option \<times> 'w"

definition id_request :: "string \<Rightarrow> string \<Rightarrow> string \<Rightarrow> json option \<Rightarrow> http_request" where
  "id_request method url tenantID b =
     \<lparr>hq_Method = method, hq_URL = url,
      hq_Gate = \<lparr>peer_certificates = 0, internal_auth_header = [], tenant_header = tenantID\<rparr>, hq_Body = b\<rparr>"

definition id_answer :: "'o field list \<Rightarrow> 'o \<Rightarrow> (string + http_response) \<Rightarrow> 'o option" where
  "id_answer fs zero sent =
     (case sent of
        Inl text \<Rightarrow> None
      | Inr resp \<Rightarrow>
          if hr_Status resp < 200 \<or> 300 \<le> hr_Status resp then None
          else (case hr_Body resp of
                  Body j off \<Rightarrow> (case dec_struct False fs j zero of Inl err \<Rightarrow> None | Inr out \<Rightarrow> Some out)
                | _ \<Rightarrow> None))"

record created_vrf =
  cv_ID :: string
  cv_VerifyURL :: string

definition id_create :: "'w http_clients \<Rightarrow> string \<Rightarrow> string \<Rightarrow> string \<Rightarrow> string list \<Rightarrow> string \<Rightarrow> 'w \<Rightarrow>
    (string \<times> string) option \<times> 'w" where
  "id_create c base tenantID purpose claims channel w =
     (let (sent, w) = ht_send c (id_request ''POST'' (base @ ''/v1/verifications'') tenantID
            (Some (JObj [(''channel'', JStr channel), (''claims'', JArr (map JStr claims)), (''purpose'', JStr purpose)]))) w
      in case id_answer [into dec_string ''id'' cv_ID cv_ID_update, into dec_string ''verifyUrl'' cv_VerifyURL cv_VerifyURL_update]
                \<lparr>cv_ID = [], cv_VerifyURL = []\<rparr> sent of
           None \<Rightarrow> (None, w)
         | Some out \<Rightarrow> (if cv_ID out = [] \<or> cv_VerifyURL out = [] then None else Some (cv_ID out, cv_VerifyURL out), w))"

record vrf_status =
  vz_Status :: string
  vz_ProofToken :: string

definition id_get :: "'w http_clients \<Rightarrow> string \<Rightarrow> string \<Rightarrow> string \<Rightarrow> 'w \<Rightarrow> (string \<times> string) option \<times> 'w" where
  "id_get c base tenantID i w =
     (let (sent, w) = ht_send c (id_request ''GET'' (base @ ''/v1/verifications/'' @ i) tenantID None) w
      in case id_answer [into dec_string ''status'' vz_Status vz_Status_update,
                (''result'', \<lambda>j r. if j = JNull then Inr (r\<lparr>vz_ProofToken := []\<rparr>)
                   else dec_struct False [into dec_string ''proofToken'' vz_ProofToken vz_ProofToken_update] j r)]
                \<lparr>vz_Status = [], vz_ProofToken = []\<rparr> sent of
           None \<Rightarrow> (None, w)
         | Some out \<Rightarrow> (Some (vz_Status out, vz_ProofToken out), w))"

definition HTTPIDClient :: "'w http_clients \<Rightarrow> string \<Rightarrow> 'w id_client option" where
  "HTTPIDClient c baseURL =
     (if baseURL = [] then None
      else Some \<lparr>ic_Create = id_create c (trim_slashes baseURL), ic_Get = id_get c (trim_slashes baseURL)\<rparr>)"

section \<open>Proof tokens\<close>

record MDLProof =
  mp_TrustAnchor :: string
  mp_IssuerCN :: string
  mp_VrfID :: string
  mp_IssuerTrusted :: bool

definition mdlProofACR :: string where "mdlProofACR = ''urn:xauth:mdl''"

text \<open>The keys of id-service: the ones in memory unless a fresh fetch is forced.\<close>

definition mdl_keys :: "'w fetch_keys \<Rightarrow> string \<Rightarrow> string \<Rightarrow> bool \<Rightarrow> 'w hosted \<Rightarrow> Verifier option \<times> 'w hosted" where
  "mdl_keys fetch issuer jwksURL force h =
     (case (if force then None else hs_mdl_ver h) of
        Some v \<Rightarrow> (Some v, h)
      | None \<Rightarrow>
          (case ask_world (fetch jwksURL) h of
             (None, h) \<Rightarrow> (None, h)
           | (Some ks, h) \<Rightarrow>
               (case NewVerifierFromJWKS issuer ks of
                  Inl err \<Rightarrow> (None, h)
                | Inr v \<Rightarrow> (Some v, h\<lparr>hs_mdl_ver := Some v\<rparr>))))"

definition verifyWithRefresh :: "'w fetch_keys \<Rightarrow> jwt_lib \<Rightarrow> string \<Rightarrow> string \<Rightarrow> string \<Rightarrow> time \<Rightarrow> 'w hosted \<Rightarrow>
    (Claims \<times> (string \<times> json) list) option \<times> 'w hosted" where
  "verifyWithRefresh fetch lib issuer jwksURL token now h =
     (case mdl_keys fetch issuer jwksURL False h of
        (None, h) \<Rightarrow> (None, h)
      | (Some v, h) \<Rightarrow>
          (case VerifyToken lib v token now of
             Inr res \<Rightarrow> (Some res, h)
           | Inl err \<Rightarrow>
               (case mdl_keys fetch issuer jwksURL True h of
                  (None, h) \<Rightarrow> (None, h)
                | (Some v, h) \<Rightarrow> (case VerifyToken lib v token now of Inl err \<Rightarrow> (None, h) | Inr res \<Rightarrow> (Some res, h)))))"

definition proof_of :: "string \<Rightarrow> Claims \<times> (string \<times> json) list \<Rightarrow> MDLProof option" where
  "proof_of tenantID p =
     (let (claims, raw) = p
      in if jc_Aud claims \<noteq> tenantID \<or> jc_ACR claims \<noteq> mdlProofACR then None
         else Some \<lparr>mp_TrustAnchor = obj_str raw ''trust_anchor'', mp_IssuerCN = obj_str raw ''issuer_cn'',
                    mp_VrfID = obj_str raw ''vrf_id'', mp_IssuerTrusted = (obj_get raw ''issuer_trusted'' = Some (JBool True))\<rparr>)"

text \<open>Any error is \<open>None\<close>, since every caller treats them alike.\<close>

type_synonym 'w mdl_verifier = "string \<Rightarrow> string \<Rightarrow> time \<Rightarrow> 'w hosted \<Rightarrow> MDLProof option \<times> 'w hosted"

definition HTTPMDLProofVerifier :: "'w fetch_keys \<Rightarrow> jwt_lib \<Rightarrow> string \<Rightarrow> string \<Rightarrow> 'w mdl_verifier option" where
  "HTTPMDLProofVerifier fetch lib issuer jwksURL =
     (if issuer = [] then None
      else Some (\<lambda>token tenantID now h.
        case verifyWithRefresh fetch lib issuer (if jwksURL = [] then issuer @ ''/v1/jwks'' else jwksURL) token now h of
          (None, h) \<Rightarrow> (None, h)
        | (Some p, h) \<Rightarrow> (proof_of tenantID p, h)))"

section \<open>Dependencies of the consoles\<close>

text \<open>
  What the hosted pages depend on.  The client of id-service and the check of its proofs are wired from
  ID_ISSUER and ID_JWKS_URL; without an issuer both are nil interfaces, \<open>None\<close>.
\<close>

record 'w hosted_deps =
  hd_cfg :: hosted_cfg
  hd_sms :: "'w otp_verifier"
  hd_http :: "'w http_clients"
  hd_fetch :: "'w fetch_keys"
  hd_id_issuer :: string
  hd_id_jwks :: string

definition hd_id :: "'w hosted_deps \<Rightarrow> 'w id_client option" where
  "hd_id d = HTTPIDClient (hd_http d) (hd_id_issuer d)"

definition hd_mdl :: "'w hosted_deps \<Rightarrow> 'w mdl_verifier option" where
  "hd_mdl d = HTTPMDLProofVerifier (hd_fetch d) (ag_jwt (hg_authn (hd_cfg d))) (hd_id_issuer d) (hd_id_jwks d)"

section \<open>The Google leg of the consoles\<close>

definition console_error :: "nat \<Rightarrow> string \<Rightarrow> string \<Rightarrow> hosted_reply" where
  "console_error st m back = error_page st m back"

definition startGoogle :: "hosted_cfg \<Rightarrow> string \<Rightarrow> string \<Rightarrow> hosted_reply" where
  "startGoogle cfg st callback =
     to_page (ag_location (hg_authn cfg) (issuerURL cfg ''/v1/social/google/authorize'')
       [(''tenant_id'', signupTenantID), (''redirect_uri'', callback), (''state'', st)])"

text \<open>The email a Google leg came back with; the state cookie is spent once it has matched.\<close>

definition consumeGoogleEmail :: "authn_env \<Rightarrow> cookies \<Rightarrow> string \<Rightarrow> return_query \<Rightarrow> authn_store \<Rightarrow>
    (hosted_reply + string) \<times> set_cookie list" where
  "consumeGoogleEmail e jar stateCookie q s =
     (let c = cookieValue jar stateCookie
      in if c = [] \<or> c \<noteq> rq_state q then (Inl (console_error StatusBadRequest ''State mismatch. Start again.'' ''/admin''), [])
         else
           (if rq_session_id q = []
            then Inl (console_error StatusBadRequest ''The Google callback did not include a session.'' ''/admin'')
            else (case live_in e 0 signupTenantID (rq_session_id q) s of
               None \<Rightarrow> Inl (console_error StatusBadRequest ''The returned session is not valid.'' ''/admin'')
             | Some sess \<Rightarrow>
                 (case try_op (op_fails e AGetUser) (GetUser signupTenantID (ss_UserID sess) s) of
                    None \<Rightarrow> Inl (console_error StatusBadRequest ''Could not resolve your Google account.'' ''/admin'')
                  | Some u \<Rightarrow>
                      if us_Email u = [] then Inl (console_error StatusBadRequest ''Could not resolve your Google account.'' ''/admin'')
                      else Inr (us_Email u))),
            [ClearCookie stateCookie]))"

text \<open>A cookie of the form tenant, bar, session.\<close>

definition bound_session :: "string \<Rightarrow> string \<Rightarrow> string" where
  "bound_session tenantID sessionID = tenantID @ ''|'' @ sessionID"

definition Cut :: "char \<Rightarrow> string \<Rightarrow> (string \<times> string) option" where
  "Cut sep s = (if sep \<in> set s then Some (takeWhile (\<lambda>c. c \<noteq> sep) s, tl (dropWhile (\<lambda>c. c \<noteq> sep) s)) else None)"

text \<open>What a session cookie names: a live session under the tenant it carries, and the session's user.\<close>

definition cookie_session :: "authn_env \<Rightarrow> string \<Rightarrow> authn_store \<Rightarrow> (string \<times> Session) option" where
  "cookie_session e value s =
     (case Cut CHR ''|'' value of
        None \<Rightarrow> None
      | Some (tenantID, sessionID) \<Rightarrow>
          if tenantID = [] \<or> sessionID = [] then None
          else map_option (\<lambda>sess. (tenantID, sess)) (live_in e 0 tenantID sessionID s))"

text \<open>The user of an email in a tenant, made when there is none.\<close>

definition user_for_email :: "authn_env \<Rightarrow> nat \<Rightarrow> nat \<Rightarrow> string \<Rightarrow> string \<Rightarrow> string \<Rightarrow> authn_store \<Rightarrow> User option \<times> bool \<times> authn_store" where
  "user_for_email e i n tenantID email name s =
     (case try_op (op_fails e AGetUserByEmail) (GetUserByEmail tenantID email s) of
        Some u \<Rightarrow> (Some u, False, s)
      | None \<Rightarrow>
          let u = \<lparr>us_ID = ''usr_'' @ new_id e i, us_TenantID = tenantID, us_Email = email, us_Name = name,
                   us_CreatedAt = now_at e n, us_UpdatedAt = now_at e n\<rparr>
          in if op_fails e ACreateUser then (None, False, s)
             else (case CreateUser u s of Inl err \<Rightarrow> (None, False, s) | Inr s' \<Rightarrow> (Some u, True, s')))"

section \<open>Anchors\<close>

text \<open>The user's anchors of a type are deleted one by one; a deletion that fails is skipped.\<close>

definition drop_anchors :: "authn_env \<Rightarrow> string \<Rightarrow> string \<Rightarrow> string \<Rightarrow> authn_store \<Rightarrow> authn_store" where
  "drop_anchors e tenantID userID typ s =
     (if op_fails e AListAnchors then s
      else fold (\<lambda>a s. if an_UserID a = userID \<and> an_Type a = typ
                       then (case try_op (op_fails e ADeleteAnchor) (DeleteIdentityAnchor tenantID (an_ID a) s) of
                               None \<Rightarrow> s | Some s' \<Rightarrow> s')
                       else s)
             (ListIdentityAnchors tenantID s) s)"

definition verified_anchor :: "authn_env \<Rightarrow> nat \<Rightarrow> nat \<Rightarrow> string \<Rightarrow> string \<Rightarrow> string \<Rightarrow> string \<Rightarrow> IdentityAnchor" where
  "verified_anchor e i n tenantID userID typ value =
     \<lparr>an_ID = ''ian_'' @ new_id e i, an_UserID = userID, an_TenantID = tenantID, an_Type = typ, an_Value = value,
      an_VerifiedAt = Some (now_at e n), an_CreatedAt = now_at e n\<rparr>"

definition set_anchor :: "authn_env \<Rightarrow> string \<Rightarrow> string \<Rightarrow> string \<Rightarrow> string \<Rightarrow> authn_store \<Rightarrow> bool \<times> authn_store" where
  "set_anchor e tenantID userID typ value s =
     (let s = drop_anchors e tenantID userID typ s
      in if op_fails e ACreateAnchor then (False, s)
         else (case CreateIdentityAnchor (verified_anchor e 6 6 tenantID userID typ value) s of
                 Inl err \<Rightarrow> (False, s) | Inr s' \<Rightarrow> (True, s')))"

definition mdl_value :: "MDLProof \<Rightarrow> string" where
  "mdl_value p =
     (if mp_TrustAnchor p \<noteq> [] then mp_TrustAnchor p else if mp_IssuerCN p \<noteq> [] then mp_IssuerCN p else ''unknown issuer'')"

definition storeMDLAnchor :: "authn_env \<Rightarrow> string \<Rightarrow> string \<Rightarrow> MDLProof \<Rightarrow> authn_store \<Rightarrow> string option \<times> authn_store" where
  "storeMDLAnchor e tenantID userID p s =
     (let (ok, s) = set_anchor e tenantID userID AnchorMDL (mdl_value p) s
      in (if ok then Some (mdl_value p) else None, s))"

section \<open>Enrolment\<close>

definition enrollSessionCookie :: string where "enrollSessionCookie = ''xauth_enroll_session''"
definition enrollStateCookie :: string where "enrollStateCookie = ''xauth_enroll_state''"
definition enrollTenantCookie :: string where "enrollTenantCookie = ''xauth_enroll_tenant''"
definition enrollVrfCookie :: string where "enrollVrfCookie = ''xauth_enroll_vrf''"

lemmas enroll_cookies = enrollSessionCookie_def enrollStateCookie_def enrollTenantCookie_def enrollVrfCookie_def

definition mdlEnrollClaims :: "string list" where
  "mdlEnrollClaims = [''family_name'', ''given_name'', ''birth_date'', ''document_number'']"

definition EnrollMDLStart :: "hosted_cfg \<Rightarrow> authn_env \<Rightarrow> string \<Rightarrow> 'w hosted \<Rightarrow> 'w served" where
  "EnrollMDLStart cfg e clientID h =
     (case try_op (op_fails e AGetClient) (GetClient (TrimSpace clientID) (hs_store h)) of
        None \<Rightarrow> (console_error StatusBadRequest ''Unknown application. Use the enrollment link your provider gave you.'' ''/'', [], h)
      | Some c \<Rightarrow>
          if oc_TenantID c = []
          then (console_error StatusBadRequest ''Unknown application. Use the enrollment link your provider gave you.'' ''/'', [], h)
          else (startGoogle cfg (new_id e 0) (issuerURL cfg ''/enroll/mdl/callback''),
                [SetCookie enrollStateCookie (new_id e 0), SetCookie enrollTenantCookie (oc_TenantID c)], h))"

text \<open>The tenant comes from the cookie.\<close>

definition EnrollMDLCallback :: "authn_env \<Rightarrow> cookies \<Rightarrow> return_query \<Rightarrow> 'w hosted \<Rightarrow> 'w served" where
  "EnrollMDLCallback e jar q h =
     (case consumeGoogleEmail e jar enrollStateCookie q (hs_store h) of
        (Inl reply, cs) \<Rightarrow> (reply, cs, h)
      | (Inr email, cs) \<Rightarrow>
          let tenantID = cookieValue jar enrollTenantCookie
          in if tenantID = [] then (console_error StatusBadRequest ''Your enrollment link expired. Start again.'' ''/'', cs, h)
             else
               let cs = cs @ [ClearCookie enrollTenantCookie];
                   failed = console_error StatusBadGateway ''Could not start enrollment.'' ''/''
               in (case user_for_email e 0 1 tenantID email [] (hs_store h) of
                     (None, made, s) \<Rightarrow> (failed, cs, with_store s h)
                   | (Some u, made, s) \<Rightarrow>
                       if op_fails e ACreateSession then (failed, cs, with_store s h)
                       else
                         let sess = (login_session (new_id e 1) tenantID (us_ID u) (now_at e 2))
                               \<lparr>ss_ExpiresAt := now_at e 2 + 15 * Minute\<rparr>
                         in (to_page ''/enroll/mdl/page'',
                             cs @ [SetCookie enrollSessionCookie (bound_session tenantID (ss_ID sess))],
                             with_store (CreateSession sess s) h)))"

definition currentEnrollUser :: "authn_env \<Rightarrow> cookies \<Rightarrow> authn_store \<Rightarrow> (string \<times> User) option \<times> set_cookie list" where
  "currentEnrollUser e jar s =
     (let value = cookieValue jar enrollSessionCookie
      in if value = [] then (None, [])
         else (case cookie_session e value s of
                 None \<Rightarrow> (None, [ClearCookie enrollSessionCookie])
               | Some (tenantID, sess) \<Rightarrow>
                   (case try_op (op_fails e AGetUser) (GetUser tenantID (ss_UserID sess) s) of
                      None \<Rightarrow> (None, [ClearCookie enrollSessionCookie])
                    | Some u \<Rightarrow> (Some (tenantID, u), []))))"

definition EnrollMDLPage :: "'w hosted_deps \<Rightarrow> authn_env \<Rightarrow> cookies \<Rightarrow> 'w hosted \<Rightarrow> 'w served" where
  "EnrollMDLPage d e jar h =
     (case currentEnrollUser e jar (hs_store h) of
        (None, cs) \<Rightarrow>
          (console_error StatusForbidden ''Your enrollment session expired. Open your enrollment link again.'' ''/'', cs, h)
      | (Some (tenantID, u), cs) \<Rightarrow>
          (case (hd_id d, hd_mdl d) of
             (Some ids, Some mdl) \<Rightarrow>
               (case ask_world (ic_Create ids tenantID ''Enroll your mobile driving licence'' mdlEnrollClaims ''link'') h of
                  (None, h) \<Rightarrow>
                    (console_error StatusBadGateway ''Could not start the licence check. Please try again.'' ''/enroll/mdl/page'', cs, h)
                | (Some (vrfID, verifyURL), h) \<Rightarrow>
                    (WriteJSON StatusOK (HEnroll (us_Email u) verifyURL None), cs @ [SetCookie enrollVrfCookie vrfID], h))
           | _ \<Rightarrow> (console_error 501 ''mDL enrollment isn't configured for this deployment.'' ''/'', cs, h)))"

text \<open>
  The block the other pages embed for a user who has just signed in: the address of the verification and
  the cookies that bind it, or nothing.
\<close>

definition mdl_offer :: "'w hosted_deps \<Rightarrow> string \<Rightarrow> string \<Rightarrow> 'w hosted \<Rightarrow> (string \<times> set_cookie list) option \<times> 'w hosted" where
  "mdl_offer d tenantID sessionID h =
     (case (hd_id d, hd_mdl d) of
        (Some ids, Some mdl) \<Rightarrow>
          (case ask_world (ic_Create ids tenantID ''Verify your identity'' mdlEnrollClaims ''link'') h of
             (None, h) \<Rightarrow> (None, h)
           | (Some (vrfID, verifyURL), h) \<Rightarrow>
               (Some (verifyURL, [SetCookie enrollSessionCookie (bound_session tenantID sessionID), SetCookie enrollVrfCookie vrfID]), h))
      | _ \<Rightarrow> (None, h))"

definition MDLInterstitial :: "'w hosted_deps \<Rightarrow> string \<Rightarrow> string \<Rightarrow> string \<Rightarrow> string \<Rightarrow> 'w hosted \<Rightarrow>
    (hosted_reply \<times> set_cookie list) option \<times> 'w hosted" where
  "MDLInterstitial d tenantID sessionID email continueURL h =
     (case mdl_offer d tenantID sessionID h of
        (None, h) \<Rightarrow> (None, h)
      | (Some (verifyURL, cs), h) \<Rightarrow> (Some (WriteJSON StatusOK (HEnroll email verifyURL (Some continueURL)), cs), h))"

definition enroll_status :: "nat \<Rightarrow> string \<Rightarrow> string \<Rightarrow> hosted_reply" where
  "enroll_status code st anchor = WriteJSON code (HEnrollStatus st anchor)"

text \<open>The reply of \<open>httpx.Recover\<close>: without id-service the handler calls a method of a nil interface.\<close>

definition recovered :: hosted_reply where
  "recovered = internal ''internal server error''"

definition enroll_verified :: "'w hosted_deps \<Rightarrow> authn_env \<Rightarrow> string \<Rightarrow> User \<Rightarrow> string \<Rightarrow> 'w hosted \<Rightarrow> 'w served" where
  "enroll_verified d e tenantID u proofToken h =
     (case hd_mdl d of
        None \<Rightarrow> (recovered, [], h)
      | Some mdl \<Rightarrow>
          (case mdl proofToken tenantID (now_at e 1) h of
             (None, h) \<Rightarrow> (enroll_status StatusOK ''error'' [], [], h)
           | (Some p, h) \<Rightarrow>
               (case storeMDLAnchor e tenantID (us_ID u) p (hs_store h) of
                  (None, s) \<Rightarrow> (enroll_status StatusOK ''error'' [], [], with_store s h)
                | (Some anchor, s) \<Rightarrow>
                    (enroll_status StatusOK ''done'' anchor, [ClearCookie enrollVrfCookie], with_store s h))))"

definition EnrollMDLStatus :: "'w hosted_deps \<Rightarrow> authn_env \<Rightarrow> cookies \<Rightarrow> 'w hosted \<Rightarrow> 'w served" where
  "EnrollMDLStatus d e jar h =
     (case currentEnrollUser e jar (hs_store h) of
        (None, cs) \<Rightarrow> (enroll_status StatusUnauthorized ''expired'' [], cs, h)
      | (Some (tenantID, u), cs) \<Rightarrow>
          let vrf = cookieValue jar enrollVrfCookie
          in if vrf = [] then (enroll_status StatusOK ''none'' [], cs, h)
             else (case hd_id d of
                None \<Rightarrow> (recovered, cs, h)
              | Some ids \<Rightarrow>
                  (case ask_world (ic_Get ids tenantID vrf) h of
                     (None, h) \<Rightarrow> (enroll_status StatusOK ''error'' [], cs, h)
                   | (Some (st, proofToken), h) \<Rightarrow>
                       if st = ''verified'' then enroll_verified d e tenantID u proofToken h
                       else if st \<in> {''failed'', ''expired''}
                       then (enroll_status StatusOK st [], [ClearCookie enrollVrfCookie], h)
                       else (enroll_status StatusOK ''pending'' [], cs, h))))"

end
