(* ===== verification/AuthnSocial.thy ===== *)
theory AuthnSocial
  imports AuthnEnroll
begin

text \<open>
  Sign-in through a social provider (social.go, social_provider.go): the handshake with a configured
  provider, the stub that stands in for a provider that is not configured, and what both end in, a user of
  the tenant and a session that is handed to the redirect URI.
\<close>

section \<open>Flows under way\<close>

definition pendingTTL :: duration where "pendingTTL = 10 * Minute"

definition storePending :: "time \<Rightarrow> string \<Rightarrow> socialPending \<Rightarrow> 'w hosted \<Rightarrow> 'w hosted" where
  "storePending now key p h =
     h\<lparr>hs_pending := tab_put key p (filter (\<lambda>(k, v). \<not> qn_CreatedAt v < now - pendingTTL) (hs_pending h))\<rparr>"

definition takePending :: "time \<Rightarrow> string \<Rightarrow> 'w hosted \<Rightarrow> socialPending option \<times> 'w hosted" where
  "takePending now key h =
     (case tab_get (hs_pending h) key of
        None \<Rightarrow> (None, h)
      | Some p \<Rightarrow> (if pendingTTL < now - qn_CreatedAt p then None else Some p,
                   h\<lparr>hs_pending := tab_del key (hs_pending h)\<rparr>))"

definition providerConfig :: "hosted_cfg \<Rightarrow> string \<Rightarrow> SocialProviderConfig option" where
  "providerConfig cfg provider =
     (case tab_get (hg_Providers cfg) provider of
        None \<Rightarrow> None
      | Some pc \<Rightarrow> if sg_ClientID pc = [] then None else Some pc)"

definition callbackURL :: "hosted_cfg \<Rightarrow> string \<Rightarrow> string" where
  "callbackURL cfg provider = issuerURL cfg (''/v1/social/'' @ provider @ ''/callback'')"

section \<open>The provider's answers\<close>

text \<open>
  The provider's endpoints, in the world: a form posted to an address, and a GET with a bearer token.  The
  answer is the status and the text of the body, \<open>None\<close> when the exchange failed.
\<close>

record 'w provider_http =
  ph_post :: "string \<Rightarrow> (string \<times> string) list \<Rightarrow> 'w \<Rightarrow> (nat \<times> string) option \<times> 'w"
  ph_get :: "string \<Rightarrow> string \<Rightarrow> 'w \<Rightarrow> (nat \<times> string) option \<times> 'w"

record provider_userinfo =
  ui_Sub :: string
  ui_Email :: string
  ui_EmailVerified :: "bool option"
  ui_Name :: string

definition dec_bool_pointer :: "string \<Rightarrow> json \<Rightarrow> bool option \<Rightarrow> json_err + bool option" where
  "dec_bool_pointer f j old =
     (if j = JNull then Inr None
      else case dec_bool f j False of Inl err \<Rightarrow> Inl err | Inr b \<Rightarrow> Inr (Some b))"

definition userinfo_fields :: "provider_userinfo field list" where
  "userinfo_fields =
     [into dec_string ''sub'' ui_Sub ui_Sub_update, into dec_string ''email'' ui_Email ui_Email_update,
      into dec_bool_pointer ''email_verified'' ui_EmailVerified ui_EmailVerified_update,
      into dec_string ''name'' ui_Name ui_Name_update]"

definition no_userinfo :: provider_userinfo where
  "no_userinfo = \<lparr>ui_Sub = [], ui_Email = [], ui_EmailVerified = None, ui_Name = []\<rparr>"

text \<open>A body of a 200 reply, decoded; \<open>None\<close> is any error.\<close>

definition decoded_200 :: "jwt_lib \<Rightarrow> 'r field list \<Rightarrow> 'r \<Rightarrow> (nat \<times> string) option \<Rightarrow> 'r option" where
  "decoded_200 lib fs zero answer =
     (case answer of None \<Rightarrow> None | Some (st, text) \<Rightarrow> if st \<noteq> StatusOK then None else unmarshal_struct lib fs zero text)"

definition profile_of :: "string \<Rightarrow> provider_userinfo \<Rightarrow> SocialProfile option" where
  "profile_of provider ui =
     (if ui_Email ui = [] \<or> ui_EmailVerified ui = Some False then None
      else Some \<lparr>sp_Provider = provider, sp_ExternalID = ui_Sub ui, sp_Email = ui_Email ui,
                 sp_Name = (if ui_Name ui = [] then ui_Email ui else ui_Name ui)\<rparr>)"

definition fetchProfile :: "'w provider_http \<Rightarrow> hosted_cfg \<Rightarrow> SocialProviderConfig \<Rightarrow> string \<Rightarrow> string \<Rightarrow> string \<Rightarrow> 'w \<Rightarrow>
    SocialProfile option \<times> 'w" where
  "fetchProfile ph cfg pc provider code verifier w =
     (let lib = ag_jwt (hg_authn cfg);
          (answer, w) = ph_post ph (sg_TokenURL pc)
            [(''client_id'', sg_ClientID pc), (''client_secret'', sg_ClientSecret pc), (''code'', code),
             (''code_verifier'', verifier), (''grant_type'', ''authorization_code''),
             (''redirect_uri'', callbackURL cfg provider)] w
      in case decoded_200 lib [(''access_token'', dec_string ''access_token'')] [] answer of
           None \<Rightarrow> (None, w)
         | Some token \<Rightarrow>
             if token = [] then (None, w)
             else
               let (answer, w) = ph_get ph (sg_UserinfoURL pc) token w
               in (Option.bind (decoded_200 lib userinfo_fields no_userinfo answer) (profile_of provider), w))"

section \<open>Authorize\<close>

record social_query =
  oq_tenant_id :: string
  oq_redirect_uri :: string
  oq_state :: string
  oq_device_fp :: string

definition social_refused :: "hosted_cfg \<Rightarrow> authn_env \<Rightarrow> string \<Rightarrow> social_query \<Rightarrow> authn_store \<Rightarrow> hosted_reply option" where
  "social_refused cfg e provider q s =
     (if \<not> ValidSocialProvider provider then Some (bad_request ''invalid_request'' ''unsupported provider'')
      else if oq_tenant_id q = [] then Some (bad_request ''invalid_request'' ''tenant_id is required'')
      else if oq_redirect_uri q = [] then Some (bad_request ''invalid_request'' ''redirect_uri is required'')
      else if \<not> abs_url cfg (oq_redirect_uri q)
      then Some (bad_request ''invalid_redirect_uri'' ''redirect_uri must be an absolute URL'')
      else if \<not> redirectAllowedForTenant cfg e (oq_tenant_id q) (oq_redirect_uri q) s
      then Some (bad_request ''invalid_redirect_uri'' ''redirect_uri is not registered for this tenant'')
      else None)"

definition pending_login :: "string \<Rightarrow> social_query \<Rightarrow> string \<Rightarrow> time \<Rightarrow> socialPending" where
  "pending_login provider q verifier now =
     \<lparr>qn_Provider = provider, qn_TenantID = oq_tenant_id q, qn_RedirectURI = oq_redirect_uri q, qn_State = oq_state q,
      qn_CodeVerifier = verifier, qn_DeviceFP = oq_device_fp q, qn_CreatedAt = now\<rparr>"

text \<open>A configured provider: \<open>new_id e 0\<close> is the nonce, \<open>new_id e 1\<close> the verifier.\<close>

definition authorizeReal :: "hosted_cfg \<Rightarrow> authn_env \<Rightarrow> SocialProviderConfig \<Rightarrow> string \<Rightarrow> social_query \<Rightarrow> 'w hosted \<Rightarrow>
    'w served" where
  "authorizeReal cfg e pc provider q h =
     (let h = storePending (now_at e 1) (new_id e 0) (pending_login provider q (new_id e 1) (now_at e 0)) h
      in (if hg_url cfg (sg_AuthURL pc) = None then internal ''provider misconfigured''
          else to_page (ag_location (hg_authn cfg) (sg_AuthURL pc)
            [(''client_id'', sg_ClientID pc), (''redirect_uri'', callbackURL cfg provider), (''response_type'', ''code''),
             (''scope'', ''openid email profile''), (''state'', new_id e 0),
             (''code_challenge'', b64_encode (jl_sha256 (ag_jwt (hg_authn cfg)) (new_id e 1))),
             (''code_challenge_method'', ''S256''), (''prompt'', ''select_account'')]),
          [], h))"

definition SocialAuthorize :: "hosted_cfg \<Rightarrow> authn_env \<Rightarrow> string \<Rightarrow> social_query \<Rightarrow> 'w hosted \<Rightarrow> 'w served" where
  "SocialAuthorize cfg e provider q h =
     (case social_refused cfg e provider q (hs_store h) of
        Some reply \<Rightarrow> (reply, [], h)
      | None \<Rightarrow>
          (case providerConfig cfg provider of
             Some pc \<Rightarrow> authorizeReal cfg e pc provider q h
           | None \<Rightarrow>
               (to_page (ag_location (hg_authn cfg) (callbackURL cfg provider)
                  ((''code'', new_id e 0) # (if oq_state q \<noteq> [] then [(''state'', oq_state q)] else []))),
                [], storePending (now_at e 1) (new_id e 0) (pending_login provider q [] (now_at e 0)) h)))"

section \<open>Callback\<close>

record callback_query =
  bq_code :: string
  bq_state :: string
  bq_error :: string

definition upper_first :: "string \<Rightarrow> string" where
  "upper_first s =
     (case s of [] \<Rightarrow> [] | c # rest \<Rightarrow> (if CHR ''a'' \<le> c \<and> c \<le> CHR ''z'' then char_of (of_char c - 32 :: int) else c) # rest)"

definition cannedProfile :: "string \<Rightarrow> SocialProfile" where
  "cannedProfile provider =
     \<lparr>sp_Provider = provider, sp_ExternalID = provider @ ''|stub-user'',
      sp_Email = ''stub-'' @ provider @ ''@example.com'', sp_Name = upper_first provider @ '' Stub User''\<rparr>"

definition tenantOffersMDLEnroll :: "authn_env \<Rightarrow> string \<Rightarrow> authn_store \<Rightarrow> bool" where
  "tenantOffersMDLEnroll e tenantID s = (case tenant_row e tenantID s of None \<Rightarrow> False | Some t \<Rightarrow> tn_MDLEnrollEnabled t)"

text \<open>The session of the user, and the answer that hands it over.\<close>

definition social_signed_in :: "'w hosted_deps \<Rightarrow> authn_env \<Rightarrow> client_seen \<Rightarrow> socialPending \<Rightarrow> User \<Rightarrow> bool \<Rightarrow> 'w hosted \<Rightarrow>
    'w served" where
  "social_signed_in d e seen p user justCreated h =
     (if op_fails e ACreateSession then (internal ''failed to create session'', [], h)
      else
        let cfg = hd_cfg d;
            sess = login_session (new_id e 1) (qn_TenantID p) (us_ID user) (now_at e 2);
            h = with_store (CreateSession sess (hs_store h)) h;
            h = h\<lparr>hs_sys := Observe (hg_authn cfg) e seen (qn_TenantID p) (us_ID user) (ss_ID sess) ''social'' (qn_DeviceFP p) (hs_sys h)\<rparr>;
            cs = [SetAuthzSession sess];
            final = hand_over cfg (qn_RedirectURI p) (ss_ID sess) (us_ID user) (qn_State p)
        in if hg_url cfg (qn_RedirectURI p) = None
           then (bad_request ''invalid_redirect_uri'' ''stored redirect_uri is invalid'', cs, h)
           else if justCreated \<and> tenantOffersMDLEnroll e (qn_TenantID p) (hs_store h)
           then (case MDLInterstitial d (qn_TenantID p) (ss_ID sess) (us_Email user) final h of
                   (Some (page, enroll), h) \<Rightarrow> (page, cs @ enroll, h)
                 | (None, h) \<Rightarrow> (to_page final, cs, h))
           else (to_page final, cs, h))"

definition completeLogin :: "'w hosted_deps \<Rightarrow> authn_env \<Rightarrow> client_seen \<Rightarrow> socialPending \<Rightarrow> SocialProfile \<Rightarrow> 'w hosted \<Rightarrow>
    'w served" where
  "completeLogin d e seen p profile h =
     (case user_for_email e 0 1 (qn_TenantID p) (sp_Email profile) (sp_Name profile) (hs_store h) of
        (None, made, s) \<Rightarrow> (internal ''failed to create user'', [], with_store s h)
      | (Some user, made, s) \<Rightarrow> social_signed_in d e seen p user made (with_store s h))"

text \<open>The flow of a callback: it is spent whether or not the provider is the one it was started with.\<close>

definition take_for :: "authn_env \<Rightarrow> string \<Rightarrow> string \<Rightarrow> string \<Rightarrow> 'w hosted \<Rightarrow> (hosted_reply + socialPending) \<times> 'w hosted" where
  "take_for e provider key unknown h =
     (case takePending (now_at e 0) key h of
        (None, h) \<Rightarrow> (Inl (bad_request ''invalid_grant'' unknown), h)
      | (Some p, h) \<Rightarrow>
          (if qn_Provider p \<noteq> provider then Inl (bad_request ''invalid_grant'' ''provider mismatch'') else Inr p, h))"

definition stub_callback :: "'w hosted_deps \<Rightarrow> authn_env \<Rightarrow> client_seen \<Rightarrow> string \<Rightarrow> callback_query \<Rightarrow> 'w hosted \<Rightarrow> 'w served" where
  "stub_callback d e seen provider q h =
     (if bq_code q = [] then (bad_request ''invalid_request'' ''code is required'', [], h)
      else (case take_for e provider (bq_code q) ''code is invalid or already used'' h of
              (Inl reply, h) \<Rightarrow> (reply, [], h)
            | (Inr p, h) \<Rightarrow> completeLogin d e seen p (cannedProfile provider) h))"

definition provider_refusal :: "hosted_cfg \<Rightarrow> string \<Rightarrow> socialPending \<Rightarrow> hosted_reply" where
  "provider_refusal cfg errCode p =
     (if hg_url cfg (qn_RedirectURI p) = None then bad_request ''invalid_redirect_uri'' ''stored redirect_uri is invalid''
      else to_page (ag_location (hg_authn cfg) (qn_RedirectURI p)
        ((''error'', errCode) # (if qn_State p \<noteq> [] then [(''state'', qn_State p)] else []))))"

definition callbackReal :: "'w hosted_deps \<Rightarrow> 'w provider_http \<Rightarrow> authn_env \<Rightarrow> client_seen \<Rightarrow> SocialProviderConfig \<Rightarrow> string \<Rightarrow>
    callback_query \<Rightarrow> 'w hosted \<Rightarrow> 'w served" where
  "callbackReal d ph e seen pc provider q h =
     (if bq_state q = [] then (bad_request ''invalid_request'' ''state is required'', [], h)
      else (case take_for e provider (bq_state q) ''state is invalid, expired, or already used'' h of
         (Inl reply, h) \<Rightarrow> (reply, [], h)
       | (Inr p, h) \<Rightarrow>
           if bq_error q \<noteq> [] then (provider_refusal (hd_cfg d) (bq_error q) p, [], h)
           else if bq_code q = [] then (bad_request ''invalid_request'' ''code is required'', [], h)
           else (case ask_world (fetchProfile ph (hd_cfg d) pc provider (bq_code q) (qn_CodeVerifier p)) h of
                   (None, h) \<Rightarrow>
                     (WriteError StatusBadGateway ''provider_error'' (Lit ''could not complete sign-in with the provider''), [], h)
                 | (Some profile, h) \<Rightarrow> completeLogin d e seen p profile h)))"

definition SocialCallback :: "'w hosted_deps \<Rightarrow> 'w provider_http \<Rightarrow> authn_env \<Rightarrow> client_seen \<Rightarrow> string \<Rightarrow> callback_query \<Rightarrow>
    'w hosted \<Rightarrow> 'w served" where
  "SocialCallback d ph e seen provider q h =
     (if \<not> ValidSocialProvider provider then (bad_request ''invalid_request'' ''unsupported provider'', [], h)
      else (case providerConfig (hd_cfg d) provider of
              Some pc \<Rightarrow> callbackReal d ph e seen pc provider q h
            | None \<Rightarrow> stub_callback d e seen provider q h))"

end
