(* ===== verification/AuthnOwner.thy ===== *)
theory AuthnOwner
  imports AuthnSocial
begin

text \<open>
  The workspace funnel (signup_console.go): a company name becomes a workspace with its owner, a session
  and a public client; the owner signs in again, picks and switches among the workspaces of the account.
\<close>

section \<open>Names and forms\<close>

definition maxSlugLen :: nat where "maxSlugLen = 40"

definition slug_char :: "char \<Rightarrow> bool" where
  "slug_char c \<longleftrightarrow> CHR ''a'' \<le> c \<and> c \<le> CHR ''z'' \<or> is_digit c"

text \<open>
  The loop of \<open>slugify\<close> with the text built so far, reversed, and whether it ends in the hyphen of a run.
  The bytes of a longer UTF-8 sequence are in the run their rune is in.
\<close>

fun slug_loop :: "string \<Rightarrow> bool \<Rightarrow> string \<Rightarrow> string" where
  "slug_loop acc hyphen [] = rev acc"
| "slug_loop acc hyphen (c # s) =
     (if slug_char c then slug_loop (c # acc) False s
      else if \<not> hyphen \<and> acc \<noteq> [] then slug_loop (CHR ''-'' # acc) True s
      else slug_loop acc hyphen s)"

definition trim_hyphens :: "string \<Rightarrow> string" where
  "trim_hyphens s = (let cut = dropWhile (\<lambda>c. c = CHR ''-'') in rev (cut (rev (cut s))))"

definition slugify :: "(string \<Rightarrow> string) \<Rightarrow> string \<Rightarrow> string" where
  "slugify uni s =
     (let out = trim_hyphens (slug_loop [] False (ToLower uni (TrimSpace s)))
      in if maxSlugLen < length out then trim_hyphens (take maxSlugLen out) else out)"

definition redirectAndOrigin :: "hosted_cfg \<Rightarrow> string \<Rightarrow> string list \<times> string list" where
  "redirectAndOrigin cfg raw =
     (let raw = TrimSpace raw
      in case (if raw = [] then None else hg_url cfg raw) of
           None \<Rightarrow> ([], [])
         | Some (scheme, host) \<Rightarrow> if scheme = [] \<or> host = [] then ([], []) else ([raw], [scheme @ ''://'' @ host]))"

text \<open>A posted form: the first value of a key, "" when absent.  \<open>None\<close> is a form that does not parse.\<close>

type_synonym form = "(string \<times> string) list"

definition form_get :: "form \<Rightarrow> string \<Rightarrow> string" where
  "form_get f k = (case map_of f k of None \<Rightarrow> [] | Some v \<Rightarrow> v)"

definition form_trim :: "form \<Rightarrow> string \<Rightarrow> string" where
  "form_trim f k = TrimSpace (form_get f k)"

definition parsed :: "string \<Rightarrow> form option \<Rightarrow> (form \<Rightarrow> 'w hosted \<Rightarrow> 'w served) \<Rightarrow> 'w hosted \<Rightarrow> 'w served" where
  "parsed back form act h =
     (case form of None \<Rightarrow> (console_error StatusBadRequest ''Could not parse the form.'' back, [], h) | Some f \<Rightarrow> act f h)"

section \<open>Cookies\<close>

definition ownerSessionCookie :: string where "ownerSessionCookie = ''xauth_owner_session''"
definition signupStateCookie :: string where "signupStateCookie = ''xauth_signup_state''"
definition signupIntentCookie :: string where "signupIntentCookie = ''xauth_signup_intent''"
definition ownerStateCookie :: string where "ownerStateCookie = ''xauth_owner_state''"
definition ownerPickCookie :: string where "ownerPickCookie = ''xauth_owner_pick''"

lemmas owner_cookies = ownerSessionCookie_def signupStateCookie_def signupIntentCookie_def ownerStateCookie_def
  ownerPickCookie_def

record signupIntent =
  si_Company :: string
  si_Redirect :: string

definition signupIntent_fields :: "signupIntent field list" where
  "signupIntent_fields =
     [into dec_string ''company'' si_Company si_Company_update, into dec_string ''redirect'' si_Redirect si_Redirect_update]"

definition intent_value :: "jwt_lib \<Rightarrow> signupIntent \<Rightarrow> string" where
  "intent_value lib i =
     b64_encode (jl_marshal lib (JObj ((''company'', JStr (si_Company i)) #
       (if si_Redirect i \<noteq> [] then [(''redirect'', JStr (si_Redirect i))] else []))))"

text \<open>
  The error of the decoding is ignored: Go decodes the members that fit and leaves the others as they were.
\<close>

definition dec_fitting :: "'r field list \<Rightarrow> json \<Rightarrow> 'r \<Rightarrow> 'r" where
  "dec_fitting fs j r =
     (case j of
        JObj ms \<Rightarrow>
          fold (\<lambda>(k, v) r. case find_field fs k of
                  None \<Rightarrow> r
                | Some dec \<Rightarrow> (case dec v r of Inl err \<Rightarrow> r | Inr r' \<Rightarrow> r')) ms r
      | _ \<Rightarrow> r)"

definition read_intent :: "jwt_lib \<Rightarrow> string \<Rightarrow> signupIntent" where
  "read_intent lib value =
     (let zero = \<lparr>si_Company = [], si_Redirect = []\<rparr>
      in case Option.bind (b64_decode value) (jl_unmarshal lib) of
           None \<Rightarrow> zero
         | Some j \<Rightarrow> dec_fitting signupIntent_fields j zero)"

section \<open>Owner sessions\<close>

record ownerSession =
  ow_Session :: Session
  ow_User :: User
  ow_Tenant :: Tenant
  ow_Client :: "OIDCClient option"

text \<open>The newest of the clients bound to the tenant.\<close>

definition tenantClient :: "authn_env \<Rightarrow> string \<Rightarrow> authn_store \<Rightarrow> OIDCClient option" where
  "tenantClient e tenantID s =
     (if op_fails e AListClients then None else find (\<lambda>c. oc_TenantID c = tenantID) (ListClients s))"

text \<open>The cookie must name a live session of a user with the email of the tenant's owner.\<close>

definition owner_of_cookie :: "authn_env \<Rightarrow> string \<Rightarrow> authn_store \<Rightarrow> ownerSession option" where
  "owner_of_cookie e value s =
     (case cookie_session e value s of
        None \<Rightarrow> None
      | Some (tenantID, sess) \<Rightarrow>
          (case tenant_row e tenantID s of
             None \<Rightarrow> None
           | Some tenant \<Rightarrow>
               (case try_op (op_fails e AGetUser) (GetUser tenantID (ss_UserID sess) s) of
                  None \<Rightarrow> None
                | Some user \<Rightarrow>
                    if us_Email user \<noteq> tn_OwnerEmail tenant then None
                    else Some \<lparr>ow_Session = sess, ow_User = user, ow_Tenant = tenant, ow_Client = tenantClient e tenantID s\<rparr>)))"

definition currentOwner :: "authn_env \<Rightarrow> cookies \<Rightarrow> authn_store \<Rightarrow> ownerSession option \<times> set_cookie list" where
  "currentOwner e jar s =
     (let value = cookieValue jar ownerSessionCookie
      in if value = [] then (None, [])
         else (case owner_of_cookie e value s of
                 None \<Rightarrow> (None, [ClearCookie ownerSessionCookie])
               | Some ow \<Rightarrow> (Some ow, [])))"

text \<open>Every handler behind the dashboard starts so, with one of two answers for a stranger.\<close>

definition as_owner :: "hosted_reply \<Rightarrow> authn_env \<Rightarrow> cookies \<Rightarrow> (ownerSession \<Rightarrow> 'w hosted \<Rightarrow> 'w served) \<Rightarrow> 'w hosted \<Rightarrow>
    'w served" where
  "as_owner refusal e jar act h =
     (case currentOwner e jar (hs_store h) of
        (None, cs) \<Rightarrow> (refusal, cs, h)
      | (Some ow, cs) \<Rightarrow> act ow h)"

definition to_owner_login :: hosted_reply where
  "to_owner_login = to_page ''/admin/owner/login''"

definition sign_in_first :: hosted_reply where
  "sign_in_first = console_error StatusForbidden ''Sign in to your workspace first.'' ''/admin''"

definition mintOwnerSession :: "authn_env \<Rightarrow> nat \<Rightarrow> string \<Rightarrow> string \<Rightarrow> authn_store \<Rightarrow> Session option \<times> authn_store" where
  "mintOwnerSession e i tenantID email s =
     (case user_for_email e i i tenantID email [] s of
        (None, made, s) \<Rightarrow> (None, s)
      | (Some user, made, s) \<Rightarrow>
          if op_fails e ACreateSession then (None, s)
          else let sess = login_session (new_id e (i + 1)) tenantID (us_ID user) (now_at e (i + 1))
               in (Some sess, CreateSession sess s))"

definition owner_cookie :: "string \<Rightarrow> Session \<Rightarrow> set_cookie" where
  "owner_cookie tenantID sess = SetCookie ownerSessionCookie (bound_session tenantID (ss_ID sess))"

definition finishOwnerLogin :: "authn_env \<Rightarrow> nat \<Rightarrow> string \<Rightarrow> string \<Rightarrow> set_cookie list \<Rightarrow> 'w hosted \<Rightarrow> 'w served" where
  "finishOwnerLogin e i tenantID email cs h =
     (case mintOwnerSession e i tenantID email (hs_store h) of
        (None, s) \<Rightarrow> (console_error StatusBadGateway ''Could not start your session.'' ''/admin/owner/login'', cs, with_store s h)
      | (Some sess, s) \<Rightarrow> (to_page ''/admin'', cs @ [owner_cookie tenantID sess], with_store s h))"

definition ownedTenants :: "authn_env \<Rightarrow> string \<Rightarrow> authn_store \<Rightarrow> Tenant list" where
  "ownedTenants e email s = (if op_fails e AListOwned then [] else ListTenantsByOwnerEmail email s)"

definition isWorkspaceOwner :: "authn_env \<Rightarrow> string \<Rightarrow> string \<Rightarrow> authn_store \<Rightarrow> bool" where
  "isWorkspaceOwner e tenantID email s =
     (case tenant_row e tenantID s of None \<Rightarrow> False | Some t \<Rightarrow> tn_OwnerEmail t = email)"

text \<open>A session is marked invalid and written back; the outcome of the write is ignored.\<close>

definition end_session :: "authn_env \<Rightarrow> nat \<Rightarrow> Session \<Rightarrow> authn_store \<Rightarrow> authn_store" where
  "end_session e n sess s =
     (case try_op (op_fails e AUpdateSession)
             (UpdateSession (now_at e (n + 1)) (sess\<lparr>ss_InvalidatedAt := Some (now_at e n)\<rparr>) s) of
        None \<Rightarrow> s
      | Some (_, s') \<Rightarrow> s')"

section \<open>Signing up\<close>

definition SignupLanding :: "string \<Rightarrow> hosted_reply" where
  "SignupLanding company = WriteJSON StatusOK (HSignup (TrimSpace company))"

definition SignupStart :: "hosted_cfg \<Rightarrow> authn_env \<Rightarrow> string \<Rightarrow> string \<Rightarrow> 'w hosted \<Rightarrow> 'w served" where
  "SignupStart cfg e company redirect h =
     (let company = TrimSpace company
      in if company = [] then (console_error StatusBadRequest ''A company name is required.'' ''/admin/signup'', [], h)
         else if slugify (ag_unicode_lower (hg_authn cfg)) company = []
         then (console_error StatusBadRequest
                 ''That company name has no letters or digits to build a workspace id from. Try another.'' ''/admin/signup'', [], h)
         else (startGoogle cfg (new_id e 0) (issuerURL cfg ''/admin/signup/callback''),
               [SetCookie signupStateCookie (new_id e 0),
                SetCookie signupIntentCookie
                  (intent_value (ag_jwt (hg_authn cfg)) \<lparr>si_Company = company, si_Redirect = TrimSpace redirect\<rparr>)], h))"

text \<open>The workspace of that slug the account already owns, with a session in it, when one can be made.\<close>

fun resume_owned :: "authn_env \<Rightarrow> nat \<Rightarrow> string \<Rightarrow> string \<Rightarrow> Tenant list \<Rightarrow> authn_store \<Rightarrow>
    (string \<times> Session) option \<times> authn_store" where
  "resume_owned e i email slug [] s = (None, s)"
| "resume_owned e i email slug (t # ts) s =
     (if tn_Slug t \<noteq> slug then resume_owned e i email slug ts s
      else (case mintOwnerSession e i (tn_ID t) email s of
              (Some sess, s) \<Rightarrow> (Some (tn_ID t, sess), s)
            | (None, s) \<Rightarrow> resume_owned e (i + 2) email slug ts s))"

definition new_owner :: "authn_env \<Rightarrow> string \<Rightarrow> string \<Rightarrow> User" where
  "new_owner e tenantID email =
     \<lparr>us_ID = ''usr_'' @ new_id e 0, us_TenantID = tenantID, us_Email = email, us_Name = [],
      us_CreatedAt = now_at e 1, us_UpdatedAt = now_at e 1\<rparr>"

definition new_client :: "hosted_cfg \<Rightarrow> authn_env \<Rightarrow> string \<Rightarrow> string \<Rightarrow> OIDCClient" where
  "new_client cfg e tenantID redirect =
     \<lparr>oc_ClientID = ''cli_'' @ new_id e 2, oc_ClientSecretHash = [], oc_TenantID = tenantID,
      oc_RedirectURIs = fst (redirectAndOrigin cfg redirect), oc_WebOrigins = snd (redirectAndOrigin cfg redirect),
      oc_CreatedAt = now_at e 1\<rparr>"

definition new_tenant :: "authn_env \<Rightarrow> string \<Rightarrow> string \<Rightarrow> string \<Rightarrow> string \<Rightarrow> Tenant" where
  "new_tenant e tenantID company slug email =
     \<lparr>tn_ID = tenantID, tn_CompanyName = company, tn_Slug = slug, tn_OwnerEmail = email, tn_CreatedAt = now_at e 1,
      tn_PhoneLoginEnabled = False, tn_MDLEnrollEnabled = False, tn_FidoEnabled = False,
      tn_Branding = \<lparr>br_LogoURL = [], br_Accent = [], br_BG = []\<rparr>\<rparr>"

definition name_taken :: "string \<Rightarrow> hosted_reply" where
  "name_taken company =
     console_error StatusConflict (''The name \"'' @ company @ ''\" is already taken. Please choose another.'') ''/admin/signup''"

text \<open>The workspace is committed in one step, and the screen offers the licence check.\<close>

definition provision :: "'w hosted_deps \<Rightarrow> authn_env \<Rightarrow> signupIntent \<Rightarrow> string \<Rightarrow> string \<Rightarrow> set_cookie list \<Rightarrow> 'w hosted \<Rightarrow>
    'w served" where
  "provision d e intent slug email cs h =
     (let tenantID = ''ten_'' @ slug;
          owner = new_owner e tenantID email;
          sess = login_session (new_id e 1) tenantID (us_ID owner) (now_at e 1);
          client = new_client (hd_cfg d) e tenantID (si_Redirect intent);
          tenant = new_tenant e tenantID (si_Company intent) slug email
      in if op_fails e AProvision
         then (console_error StatusBadGateway ''Could not create your workspace. Try again.'' ''/admin/signup'', cs, h)
         else (case ProvisionTenant tenant owner sess client (hs_store h) of
                 Inl err \<Rightarrow> (name_taken (si_Company intent), cs, h)
               | Inr s \<Rightarrow>
                   (case mdl_offer d tenantID (ss_ID sess) (with_store s h) of
                      (None, h) \<Rightarrow> (WriteJSON StatusOK (HWorkspace tenant client None), cs @ [owner_cookie tenantID sess], h)
                    | (Some (verifyURL, enroll), h) \<Rightarrow>
                        (WriteJSON StatusOK (HWorkspace tenant client (Some verifyURL)),
                         cs @ [owner_cookie tenantID sess] @ enroll, h))))"

definition SignupCallback :: "'w hosted_deps \<Rightarrow> authn_env \<Rightarrow> cookies \<Rightarrow> return_query \<Rightarrow> 'w hosted \<Rightarrow> 'w served" where
  "SignupCallback d e jar q h =
     (case consumeGoogleEmail e jar signupStateCookie q (hs_store h) of
        (Inl reply, cs) \<Rightarrow> (reply, cs, h)
      | (Inr email, cs) \<Rightarrow>
          let value = cookieValue jar signupIntentCookie; cfg = hg_authn (hd_cfg d);
              intent = read_intent (ag_jwt cfg) value;
              slug = slugify (ag_unicode_lower cfg) (si_Company intent)
          in if value = []
             then (console_error StatusBadRequest ''Your signup session expired. Start again.'' ''/admin/signup'', cs, h)
             else
               let cs = cs @ [ClearCookie signupIntentCookie]
               in if slug = []
                  then (console_error StatusBadRequest ''That company name can't be turned into a workspace id. Try another.''
                          ''/admin/signup'', cs, h)
                  else (case resume_owned e 10 email slug (ownedTenants e email (hs_store h)) (hs_store h) of
                          (Some (tenantID, sess), s) \<Rightarrow>
                            (to_page ''/admin'', cs @ [owner_cookie tenantID sess], with_store s h)
                        | (None, s) \<Rightarrow>
                            (case store_call (op_fails e AGetTenantBySlug) (GetTenantBySlug slug s) of
                               Got t \<Rightarrow> (name_taken (si_Company intent), cs, with_store s h)
                             | ErrOther \<Rightarrow>
                                 (console_error StatusBadGateway ''Could not check name availability. Try again.'' ''/admin/signup'',
                                  cs, with_store s h)
                             | ErrNotFound \<Rightarrow> provision d e intent slug email cs (with_store s h))))"

section \<open>Signing in again\<close>

definition OwnerLogin :: "hosted_cfg \<Rightarrow> authn_env \<Rightarrow> 'w hosted \<Rightarrow> 'w served" where
  "OwnerLogin cfg e h =
     (startGoogle cfg (new_id e 0) (issuerURL cfg ''/admin/owner/callback''), [SetCookie ownerStateCookie (new_id e 0)], h)"

definition OwnerCallback :: "authn_env \<Rightarrow> cookies \<Rightarrow> return_query \<Rightarrow> 'w hosted \<Rightarrow> 'w served" where
  "OwnerCallback e jar q h =
     (case consumeGoogleEmail e jar ownerStateCookie q (hs_store h) of
        (Inl reply, cs) \<Rightarrow> (reply, cs, h)
      | (Inr email, cs) \<Rightarrow>
          (case ownedTenants e email (hs_store h) of
             [] \<Rightarrow> (WriteJSON StatusOK (HNoWorkspace email), cs, h)
           | [t] \<Rightarrow> finishOwnerLogin e 1 (tn_ID t) email cs h
           | ts \<Rightarrow> (WriteJSON StatusOK (HPicker ts), cs @ [SetCookie ownerPickCookie (rq_session_id q)], h)))"

definition selection_expired :: hosted_reply where
  "selection_expired = console_error StatusBadRequest ''Your selection expired. Sign in again.'' ''/admin/owner/login''"

definition OwnerSelect :: "authn_env \<Rightarrow> cookies \<Rightarrow> form option \<Rightarrow> 'w hosted \<Rightarrow> 'w served" where
  "OwnerSelect e jar form h =
     (let picked = cookieValue jar ownerPickCookie
      in if picked = [] then (selection_expired, [], h)
         else (case live_in e 0 signupTenantID picked (hs_store h) of
            None \<Rightarrow> (selection_expired, [ClearCookie ownerPickCookie], h)
          | Some sess \<Rightarrow>
              (case try_op (op_fails e AGetUser) (GetUser signupTenantID (ss_UserID sess) (hs_store h)) of
                 None \<Rightarrow> (console_error StatusBadRequest ''Could not resolve your account.'' ''/admin/owner/login'', [], h)
               | Some user \<Rightarrow>
                   if us_Email user = []
                   then (console_error StatusBadRequest ''Could not resolve your account.'' ''/admin/owner/login'', [], h)
                   else parsed ''/admin'' form (\<lambda>f h.
                     let tenantID = form_trim f ''tenant_id''
                     in if tenantID = [] \<or> \<not> isWorkspaceOwner e tenantID (us_Email user) (hs_store h)
                        then (console_error StatusForbidden ''You can't manage that workspace.'' ''/admin/owner/login'', [], h)
                        else finishOwnerLogin e 3 tenantID (us_Email user) [ClearCookie ownerPickCookie]
                               (with_store (end_session e 1 sess (hs_store h)) h)) h)))"

definition OwnerSwitch :: "authn_env \<Rightarrow> cookies \<Rightarrow> form option \<Rightarrow> 'w hosted \<Rightarrow> 'w served" where
  "OwnerSwitch e jar form =
     as_owner to_owner_login e jar (\<lambda>ow. parsed ''/admin'' form (\<lambda>f h.
       let tenantID = form_trim f ''tenant_id''
       in if tenantID = [] \<or> tenantID = tn_ID (ow_Tenant ow) then (to_page ''/admin'', [], h)
          else if \<not> isWorkspaceOwner e tenantID (us_Email (ow_User ow)) (hs_store h)
          then (console_error StatusForbidden ''You can't manage that workspace.'' ''/admin'', [], h)
          else finishOwnerLogin e 3 tenantID (us_Email (ow_User ow)) []
                 (with_store (end_session e 1 (ow_Session ow) (hs_store h)) h)))"

definition OwnerLogout :: "authn_env \<Rightarrow> cookies \<Rightarrow> 'w hosted \<Rightarrow> 'w served" where
  "OwnerLogout e jar h =
     (case currentOwner e jar (hs_store h) of
        (None, cs) \<Rightarrow> (to_page ''/admin'', cs @ [ClearCookie ownerSessionCookie], h)
      | (Some ow, cs) \<Rightarrow>
          (to_page ''/admin'', [ClearCookie ownerSessionCookie], with_store (end_session e 1 (ow_Session ow) (hs_store h)) h))"

end
