(* ===== verification/AuthnOwnerOps.thy ===== *)
theory AuthnOwnerOps
  imports AuthnOwner
begin

text \<open>
  The owner's dashboard (signup_console.go, flows_console.go, quickstart.go, branding.go): what its tabs
  show, and the operations behind its forms, each on the owner's own workspace.
\<close>

section \<open>The dashboard\<close>

definition emailIndex :: "User list \<Rightarrow> string \<Rightarrow> string" where
  "emailIndex us i = (case find (\<lambda>u. us_ID u = i) us of None \<Rightarrow> [] | Some u \<Rightarrow> us_Email u)"

definition sessionStatus :: "Session \<Rightarrow> time \<Rightarrow> string" where
  "sessionStatus sess now =
     (if ss_InvalidatedAt sess \<noteq> None then ''revoked'' else if ss_ExpiresAt sess < now then ''expired'' else ''active'')"

text \<open>A row of the sessions panel; only an active session has a revoke button.\<close>

definition session_row_of :: "User list \<Rightarrow> time \<Rightarrow> Session \<Rightarrow> session_row" where
  "session_row_of us now sess =
     (sess, emailIndex us (ss_UserID sess), sessionStatus sess now, sessionStatus sess now = ''active'')"

definition anchor_of :: "IdentityAnchor list \<Rightarrow> string \<Rightarrow> string \<Rightarrow> IdentityAnchor option" where
  "anchor_of anchors userID typ = find (\<lambda>a. an_UserID a = userID \<and> an_Type a = typ) anchors"

definition shown :: "bool \<Rightarrow> 'a list \<Rightarrow> 'a list" where
  "shown fails rows = (if fails then [] else rows)"

definition ownerOverview :: "authn_env \<Rightarrow> ownerSession \<Rightarrow> authn_store \<Rightarrow> owner_tab" where
  "ownerOverview e ow s =
     TOverview (ow_Tenant ow) (ow_Client ow) (length (shown (op_fails e AListUsers) (ListUsers (tn_ID (ow_Tenant ow)) 0 0 s)))"

definition ownerUsers :: "authn_env \<Rightarrow> ownerSession \<Rightarrow> authn_store \<Rightarrow> owner_tab" where
  "ownerUsers e ow s =
     (let t = tn_ID (ow_Tenant ow); anchors = shown (op_fails e AListAnchors) (ListIdentityAnchors t s)
      in TUsers (map (\<lambda>u. (u, anchor_of anchors (us_ID u) AnchorPhone, anchor_of anchors (us_ID u) AnchorMDL))
           (shown (op_fails e AListUsers) (ListUsers t 0 0 s))))"

definition ownerSessions :: "authn_env \<Rightarrow> ownerSession \<Rightarrow> 'w hosted \<Rightarrow> owner_tab" where
  "ownerSessions e ow h =
     (let t = tn_ID (ow_Tenant ow); s = hs_store h;
          us = shown (op_fails e AListUsers) (ListUsers t 0 0 s)
      in TSessions (map (session_row_of us (now_at e 1)) (shown (op_fails e AListSessions) (ListSessions t 0 s)))
           (ListStepUps (now_at e 2) t (ay_stepups (hs_sys h))))"

definition flowsSection :: "authn_env \<Rightarrow> string \<Rightarrow> string \<Rightarrow> authn_store \<Rightarrow> owner_tab" where
  "flowsSection e tenantID editID s =
     TFlows (shown (op_fails e AListFlows) (ListFlows tenantID s))
       (if editID = [] then None else try_op (op_fails e AGetFlow) (GetFlow tenantID editID s))"

definition dashboard_tab :: "authn_env \<Rightarrow> string \<Rightarrow> string \<Rightarrow> ownerSession \<Rightarrow> 'w hosted \<Rightarrow> owner_tab" where
  "dashboard_tab e tab editID ow h =
     (let t = tn_ID (ow_Tenant ow); s = hs_store h
      in if tab = ''integration'' then TIntegration (ow_Tenant ow) (ow_Client ow)
         else if tab = ''branding'' then TBranding (tn_Branding (ow_Tenant ow))
         else if tab = ''transactions'' then TTransactions (shown (op_fails e AListTxnTypes) (ListTransactionTypes t s))
         else if tab = ''flows'' then flowsSection e t editID s
         else if tab = ''mcp'' then TMCP (shown (op_fails e AListMCP) (ListMCPServers t s))
         else if tab = ''idps'' then TIDPs (shown (op_fails e AListIDPs) (ListTrustedIDPs t s))
         else if tab = ''users'' then ownerUsers e ow s
         else if tab = ''sessions'' then ownerSessions e ow h
         else ownerOverview e ow s)"

text \<open>The other workspaces of the account, to switch to.\<close>

definition workspaceSwitcher :: "authn_env \<Rightarrow> ownerSession \<Rightarrow> authn_store \<Rightarrow> Tenant list" where
  "workspaceSwitcher e ow s =
     (let owned = ownedTenants e (us_Email (ow_User ow)) s in if length owned \<le> 1 then [] else owned)"

definition OwnerHome :: "authn_env \<Rightarrow> cookies \<Rightarrow> string \<Rightarrow> string \<Rightarrow> 'w hosted \<Rightarrow> 'w served" where
  "OwnerHome e jar tab editID =
     as_owner (WriteJSON StatusOK HLanding) e jar (\<lambda>ow h.
       (WriteJSON StatusOK (HDashboard (ow_Tenant ow) (us_Email (ow_User ow)) (workspaceSwitcher e ow (hs_store h))
          (dashboard_tab e tab editID ow h)), [], h))"

section \<open>Outcomes\<close>

text \<open>A write that must succeed, and a write for which a missing row is as good as done.\<close>

definition must :: "string \<Rightarrow> string \<Rightarrow> authn_store option \<Rightarrow> 'w hosted \<Rightarrow> 'w served" where
  "must m back res h =
     (case res of None \<Rightarrow> (console_error StatusBadGateway m back, [], h) | Some s \<Rightarrow> (to_page back, [], with_store s h))"

definition unless_missing :: "string \<Rightarrow> string \<Rightarrow> bool \<Rightarrow> authn_store option \<Rightarrow> 'w hosted \<Rightarrow> 'w served" where
  "unless_missing m back fails res h =
     (if fails then (console_error StatusBadGateway m back, [], h)
      else (to_page back, [], (case res of None \<Rightarrow> h | Some s \<Rightarrow> with_store s h)))"

definition refuse :: "string \<Rightarrow> string \<Rightarrow> 'w hosted \<Rightarrow> 'w served" where
  "refuse m back h = (console_error StatusBadRequest m back, [], h)"

text \<open>A row that may collide with one that is there.\<close>

definition add_row :: "string \<Rightarrow> string \<Rightarrow> string \<Rightarrow> bool \<Rightarrow> (authn_err + authn_store) \<Rightarrow> 'w hosted \<Rightarrow> 'w served" where
  "add_row taken m back fails res h =
     (if fails then (console_error StatusBadGateway m back, [], h)
      else (case res of
              Inl err \<Rightarrow> (console_error StatusConflict taken back, [], h)
            | Inr s \<Rightarrow> (to_page back, [], with_store s h)))"

text \<open>Handlers with a form, of the two kinds of refusal.\<close>

definition owner_form :: "authn_env \<Rightarrow> cookies \<Rightarrow> form option \<Rightarrow> string \<Rightarrow> (ownerSession \<Rightarrow> form \<Rightarrow> 'w hosted \<Rightarrow> 'w served) \<Rightarrow>
    'w hosted \<Rightarrow> 'w served" where
  "owner_form e jar form back act = as_owner to_owner_login e jar (\<lambda>ow. parsed back form (act ow))"

definition owner_only :: "authn_env \<Rightarrow> cookies \<Rightarrow> form option \<Rightarrow> string \<Rightarrow> (ownerSession \<Rightarrow> form \<Rightarrow> 'w hosted \<Rightarrow> 'w served) \<Rightarrow>
    'w hosted \<Rightarrow> 'w served" where
  "owner_only e jar form back act = as_owner sign_in_first e jar (\<lambda>ow. parsed back form (act ow))"

section \<open>Settings of the workspace\<close>

definition ticked :: "form \<Rightarrow> bool" where
  "ticked f \<longleftrightarrow> form_get f ''enabled'' = ''true''"

definition tab_integration :: string where "tab_integration = ''/admin?tab=integration''"
definition tab_branding :: string where "tab_branding = ''/admin?tab=branding''"
definition tab_users :: string where "tab_users = ''/admin?tab=users''"
definition tab_mcp :: string where "tab_mcp = ''/admin?tab=mcp''"
definition tab_idps :: string where "tab_idps = ''/admin?tab=idps''"
definition tab_flows :: string where "tab_flows = ''/admin?tab=flows''"

lemmas tab_defs = tab_integration_def tab_branding_def tab_users_def tab_mcp_def tab_idps_def tab_flows_def

definition SetPhoneLogin :: "authn_env \<Rightarrow> cookies \<Rightarrow> form option \<Rightarrow> 'w hosted \<Rightarrow> 'w served" where
  "SetPhoneLogin e jar form = owner_form e jar form tab_integration (\<lambda>ow f h.
     must ''Could not update sign-in methods.'' tab_integration
       (try_op (op_fails e ASetTenant) (SetTenantPhoneLogin (tn_ID (ow_Tenant ow)) (ticked f) (hs_store h))) h)"

definition SetMDLEnroll :: "authn_env \<Rightarrow> cookies \<Rightarrow> form option \<Rightarrow> 'w hosted \<Rightarrow> 'w served" where
  "SetMDLEnroll e jar form = owner_form e jar form tab_integration (\<lambda>ow f h.
     must ''Could not update sign-in methods.'' tab_integration
       (try_op (op_fails e ASetTenant) (SetTenantMDLEnroll (tn_ID (ow_Tenant ow)) (ticked f) (hs_store h))) h)"

definition SetFido :: "authn_env \<Rightarrow> cookies \<Rightarrow> form option \<Rightarrow> 'w hosted \<Rightarrow> 'w served" where
  "SetFido e jar form = owner_form e jar form tab_integration (\<lambda>ow f h.
     must ''Could not update step-up security.'' tab_integration
       (try_op (op_fails e ASetTenant) (SetTenantFidoEnabled (tn_ID (ow_Tenant ow)) (ticked f) (hs_store h))) h)"

definition hex_digit :: "char \<Rightarrow> bool" where
  "hex_digit c \<longleftrightarrow> is_digit c \<or> CHR ''a'' \<le> c \<and> c \<le> CHR ''f'' \<or> CHR ''A'' \<le> c \<and> c \<le> CHR ''F''"

definition validHexColor :: "string \<Rightarrow> bool" where
  "validHexColor s \<longleftrightarrow>
     (case s of [] \<Rightarrow> False | c # digits \<Rightarrow> c = CHR ''#'' \<and> length digits \<in> {3, 6} \<and> list_all hex_digit digits)"

definition validLogoURL :: "hosted_cfg \<Rightarrow> string \<Rightarrow> bool" where
  "validLogoURL cfg s \<longleftrightarrow> s \<noteq> [] \<and> http_url cfg s"

definition branding_refused :: "hosted_cfg \<Rightarrow> Branding \<Rightarrow> string option" where
  "branding_refused cfg b =
     (if br_LogoURL b \<noteq> [] \<and> \<not> validLogoURL cfg (br_LogoURL b)
      then Some ''The logo URL must be an absolute https:// (or http://) URL.''
      else if br_Accent b \<noteq> [] \<and> \<not> validHexColor (br_Accent b)
      then Some ''The accent colour must be a hex value like #00e096.''
      else if br_BG b \<noteq> [] \<and> \<not> validHexColor (br_BG b)
      then Some ''The background colour must be a hex value like #09090b.''
      else None)"

definition branding_of :: "hosted_cfg \<Rightarrow> form \<Rightarrow> Branding" where
  "branding_of cfg f =
     (let lower = ToLower (ag_unicode_lower (hg_authn cfg))
      in \<lparr>br_LogoURL = form_trim f ''logo_url'', br_Accent = lower (form_trim f ''accent''), br_BG = lower (form_trim f ''bg'')\<rparr>)"

definition SetBranding :: "hosted_cfg \<Rightarrow> authn_env \<Rightarrow> cookies \<Rightarrow> form option \<Rightarrow> 'w hosted \<Rightarrow> 'w served" where
  "SetBranding cfg e jar form = owner_form e jar form tab_branding (\<lambda>ow f h.
     case branding_refused cfg (branding_of cfg f) of
       Some m \<Rightarrow> refuse m tab_branding h
     | None \<Rightarrow>
         must ''Could not save branding.'' tab_branding
           (try_op (op_fails e ASetTenant) (SetTenantBranding (tn_ID (ow_Tenant ow)) (branding_of cfg f) (hs_store h))) h)"

section \<open>Identities\<close>

definition user_missing :: "authn_env \<Rightarrow> string \<Rightarrow> string \<Rightarrow> authn_store \<Rightarrow> bool" where
  "user_missing e tenantID userID s \<longleftrightarrow> try_op (op_fails e AGetUser) (GetUser tenantID userID s) = None"

definition phone_of_another :: "authn_env \<Rightarrow> string \<Rightarrow> string \<Rightarrow> string \<Rightarrow> authn_store \<Rightarrow> bool" where
  "phone_of_another e tenantID userID mobile s \<longleftrightarrow>
     (case try_op (op_fails e AGetAnchor) (GetIdentityAnchorByValue tenantID AnchorPhone mobile s) of
        None \<Rightarrow> False
      | Some a \<Rightarrow> an_UserID a \<noteq> userID)"

definition set_user_phone :: "authn_env \<Rightarrow> string \<Rightarrow> string \<Rightarrow> string \<Rightarrow> 'w hosted \<Rightarrow> 'w served" where
  "set_user_phone e tenantID userID mobile h =
     (if user_missing e tenantID userID (hs_store h) then refuse ''That user isn't in your workspace.'' tab_users h
      else if phone_of_another e tenantID userID mobile (hs_store h)
      then (console_error StatusConflict ''That phone number is already assigned to another user.'' tab_users, [], h)
      else
        let (ok, s) = set_anchor e tenantID userID AnchorPhone mobile (hs_store h)
        in (if ok then to_page tab_users else console_error StatusBadGateway ''Could not set the phone number.'' tab_users,
            [], with_store s h))"

definition SetUserPhone :: "'w otp_verifier option \<Rightarrow> authn_env \<Rightarrow> cookies \<Rightarrow> form option \<Rightarrow> 'w hosted \<Rightarrow> 'w served" where
  "SetUserPhone v e jar form = owner_form e jar form tab_users (\<lambda>ow f h.
     case (form_trim f ''user_id'', normalizePhone (form_get f ''phone'')) of
       (_ # _, Some mobile) \<Rightarrow>
         let (real, h) = ask_world (phoneLookupValid v mobile) h
         in if real then set_user_phone e (tn_ID (ow_Tenant ow)) (form_trim f ''user_id'') mobile h
            else refuse ''That doesn't look like a valid phone number. Use the full international format, e.g. +14155551234.'' tab_users h
     | _ \<Rightarrow> refuse ''Enter a valid mobile number in international format, e.g. +15551234567.'' tab_users h)"

definition RecordUserMDL :: "'w mdl_verifier option \<Rightarrow> authn_env \<Rightarrow> cookies \<Rightarrow> form option \<Rightarrow> 'w hosted \<Rightarrow> 'w served" where
  "RecordUserMDL mdl e jar form = as_owner to_owner_login e jar (\<lambda>ow h.
     case mdl of
       None \<Rightarrow> (console_error 501 ''mDL recording isn't configured for this deployment (id-service issuer unset).'' tab_users, [], h)
     | Some mdl \<Rightarrow> parsed tab_users form (\<lambda>f h.
         let tenantID = tn_ID (ow_Tenant ow); userID = form_trim f ''user_id''; token = form_trim f ''proof_token''
         in if userID = [] \<or> token = [] then refuse ''A user and a proof token are required.'' tab_users h
            else if user_missing e tenantID userID (hs_store h) then refuse ''That user isn't in your workspace.'' tab_users h
            else (case mdl token tenantID (now_at e 1) h of
                    (None, h) \<Rightarrow> refuse ''That mDL proof token is invalid, expired, or was issued for another workspace.'' tab_users h
                  | (Some p, h) \<Rightarrow>
                      (case storeMDLAnchor e tenantID userID p (hs_store h) of
                         (None, s) \<Rightarrow> (console_error StatusBadGateway ''Could not record the mDL.'' tab_users, [], with_store s h)
                       | (Some anchor, s) \<Rightarrow> (to_page tab_users, [], with_store s h)))) h)"

definition RemoveIdentity :: "authn_env \<Rightarrow> cookies \<Rightarrow> form option \<Rightarrow> 'w hosted \<Rightarrow> 'w served" where
  "RemoveIdentity e jar form = owner_form e jar form tab_users (\<lambda>ow f h.
     let anchorID = form_trim f ''anchor_id''
     in if anchorID = [] then refuse ''anchor_id is required.'' tab_users h
        else unless_missing ''Could not remove the identity.'' tab_users (op_fails e ADeleteAnchor)
               (DeleteIdentityAnchor (tn_ID (ow_Tenant ow)) anchorID (hs_store h)) h)"

section \<open>Transaction types, MCP servers, identity providers\<close>

definition CreateTransactionTypeForm :: "authn_env \<Rightarrow> cookies \<Rightarrow> form option \<Rightarrow> 'w hosted \<Rightarrow> 'w served" where
  "CreateTransactionTypeForm e jar form = owner_only e jar form ''/admin'' (\<lambda>ow f h.
     let tt = \<lparr>tt_TenantID = tn_ID (ow_Tenant ow), tt_Name = form_trim f ''name'', tt_ACR = form_trim f ''acr'', tt_CreatedAt = now_at e 1\<rparr>
     in if tt_Name tt = [] then refuse ''A transaction type name is required.'' ''/admin'' h
        else if protectionByACR (tt_ACR tt) = None then refuse ''Choose a valid protection level.'' ''/admin'' h
        else add_row ''A transaction type with that name already exists.'' ''Could not save the transaction type.'' ''/admin''
               (op_fails e ACreateTxnType) (CreateTransactionType tt (hs_store h)) h)"

definition DeleteTransactionTypeForm :: "authn_env \<Rightarrow> cookies \<Rightarrow> form option \<Rightarrow> 'w hosted \<Rightarrow> 'w served" where
  "DeleteTransactionTypeForm e jar form = owner_only e jar form ''/admin'' (\<lambda>ow f h.
     if form_trim f ''name'' = [] then refuse ''name is required.'' ''/admin'' h
     else unless_missing ''Could not delete the transaction type.'' ''/admin'' (op_fails e ADeleteTxnType)
            (DeleteTransactionType (tn_ID (ow_Tenant ow)) (form_trim f ''name'') (hs_store h)) h)"

definition CreateMCPServerForm :: "hosted_cfg \<Rightarrow> authn_env \<Rightarrow> cookies \<Rightarrow> form option \<Rightarrow> 'w hosted \<Rightarrow> 'w served" where
  "CreateMCPServerForm cfg e jar form = owner_only e jar form tab_mcp (\<lambda>ow f h.
     let m = \<lparr>mc_ID = ''mcp_'' @ new_id e 1, mc_TenantID = tn_ID (ow_Tenant ow), mc_Name = form_trim f ''name'',
              mc_ResourceURI = form_trim f ''resource_uri'', mc_Scopes = Fields (form_get f ''scopes''), mc_Enabled = True,
              mc_CreatedAt = now_at e 1\<rparr>
     in if mc_Name m = [] then refuse ''A server name is required.'' tab_mcp h
        else if \<not> http_url cfg (mc_ResourceURI m)
        then refuse ''The resource URI must be an absolute https:// (or http://) URL.'' tab_mcp h
        else add_row ''That resource URI is already authorized.'' ''Could not save the MCP server.'' tab_mcp
               (op_fails e ACreateMCP) (CreateMCPServer m (hs_store h)) h)"

text \<open>The four forms that name a row by its id.\<close>

definition by_id :: "string \<Rightarrow> string \<Rightarrow> bool \<Rightarrow> (string \<Rightarrow> authn_store \<Rightarrow> authn_store option) \<Rightarrow> form \<Rightarrow> 'w hosted \<Rightarrow> 'w served" where
  "by_id m back fails act f h =
     (if form_trim f ''id'' = [] then refuse ''id is required.'' back h
      else unless_missing m back fails (act (form_trim f ''id'') (hs_store h)) h)"

definition ToggleMCPServer :: "authn_env \<Rightarrow> cookies \<Rightarrow> form option \<Rightarrow> 'w hosted \<Rightarrow> 'w served" where
  "ToggleMCPServer e jar form = owner_only e jar form tab_mcp (\<lambda>ow f.
     by_id ''Could not update the MCP server.'' tab_mcp (op_fails e ASetMCP)
       (\<lambda>i. SetMCPServerEnabled (tn_ID (ow_Tenant ow)) i (ticked f)) f)"

definition DeleteMCPServerForm :: "authn_env \<Rightarrow> cookies \<Rightarrow> form option \<Rightarrow> 'w hosted \<Rightarrow> 'w served" where
  "DeleteMCPServerForm e jar form = owner_only e jar form tab_mcp (\<lambda>ow.
     by_id ''Could not delete the MCP server.'' tab_mcp (op_fails e ADeleteMCP) (DeleteMCPServer (tn_ID (ow_Tenant ow))))"

definition default_jwks :: "string \<Rightarrow> string \<Rightarrow> string" where
  "default_jwks issuer jwksURI = (if jwksURI = [] then trim_slashes issuer @ ''/.well-known/jwks.json'' else jwksURI)"

definition CreateTrustedIDPForm :: "hosted_cfg \<Rightarrow> authn_env \<Rightarrow> cookies \<Rightarrow> form option \<Rightarrow> 'w hosted \<Rightarrow> 'w served" where
  "CreateTrustedIDPForm cfg e jar form = owner_only e jar form tab_idps (\<lambda>ow f h.
     let p = \<lparr>ti_ID = ''idp_'' @ new_id e 1, ti_TenantID = tn_ID (ow_Tenant ow), ti_Name = form_trim f ''name'',
              ti_Issuer = form_trim f ''issuer'', ti_JWKSURI = default_jwks (form_trim f ''issuer'') (form_trim f ''jwks_uri''),
              ti_Scopes = Fields (form_get f ''scopes''), ti_Enabled = True, ti_CreatedAt = now_at e 1\<rparr>
     in if ti_Name p = [] then refuse ''A provider name is required.'' tab_idps h
        else if \<not> http_url cfg (ti_Issuer p) then refuse ''The issuer must be an absolute https:// (or http://) URL.'' tab_idps h
        else if \<not> http_url cfg (ti_JWKSURI p) then refuse ''The JWKS URI must be an absolute https:// (or http://) URL.'' tab_idps h
        else add_row ''That issuer is already trusted.'' ''Could not save the identity provider.'' tab_idps
               (op_fails e ACreateIDP) (CreateTrustedIDP p (hs_store h)) h)"

definition ToggleTrustedIDP :: "authn_env \<Rightarrow> cookies \<Rightarrow> form option \<Rightarrow> 'w hosted \<Rightarrow> 'w served" where
  "ToggleTrustedIDP e jar form = owner_only e jar form tab_idps (\<lambda>ow f.
     by_id ''Could not update the identity provider.'' tab_idps (op_fails e ASetIDP)
       (\<lambda>i. SetTrustedIDPEnabled (tn_ID (ow_Tenant ow)) i (ticked f)) f)"

definition DeleteTrustedIDPForm :: "authn_env \<Rightarrow> cookies \<Rightarrow> form option \<Rightarrow> 'w hosted \<Rightarrow> 'w served" where
  "DeleteTrustedIDPForm e jar form = owner_only e jar form tab_idps (\<lambda>ow.
     by_id ''Could not delete the identity provider.'' tab_idps (op_fails e ADeleteIDP) (DeleteTrustedIDP (tn_ID (ow_Tenant ow))))"

section \<open>Sessions and the client\<close>

text \<open>Revoking answers an error when the storage fails, but not when the session is missing or already dead.\<close>

definition revoke_fails :: "authn_env \<Rightarrow> string \<Rightarrow> string \<Rightarrow> authn_store \<Rightarrow> bool" where
  "revoke_fails e tenantID sessionID s \<longleftrightarrow> op_fails e AGetSession \<or>
     (case AuthnModel.GetSession tenantID sessionID s of
        None \<Rightarrow> False
      | Some sess \<Rightarrow> ss_InvalidatedAt sess = None \<and> op_fails e AUpdateSession)"

definition OwnerRevokeSession :: "authn_env \<Rightarrow> cookies \<Rightarrow> form option \<Rightarrow> 'w hosted \<Rightarrow> 'w served" where
  "OwnerRevokeSession e jar form = owner_only e jar form ''/admin'' (\<lambda>ow f h.
     let tenantID = tn_ID (ow_Tenant ow); sessionID = form_trim f ''session_id''; s = hs_store h
     in if sessionID = [] then refuse ''session_id is required.'' ''/admin'' h
        else unless_missing ''Could not revoke the session.'' ''/admin'' (revoke_fails e tenantID sessionID s)
               (Some (revokeSession e tenantID sessionID s)) h)"

definition RegenerateSecret :: "hosted_cfg \<Rightarrow> authn_env \<Rightarrow> cookies \<Rightarrow> 'w hosted \<Rightarrow> 'w served" where
  "RegenerateSecret cfg e jar = as_owner sign_in_first e jar (\<lambda>ow h.
     case ow_Client ow of
       None \<Rightarrow> refuse ''No client to regenerate.'' ''/admin'' h
     | Some c \<Rightarrow>
         if op_fails e APutClient then (console_error StatusBadGateway ''Could not regenerate the secret.'' ''/admin'', [], h)
         else (WriteJSON StatusOK (HSecret (tn_CompanyName (ow_Tenant ow)) (tn_ID (ow_Tenant ow)) (oc_ClientID c) (new_id e 1)), [],
               with_store (PutClient (c\<lparr>oc_ClientSecretHash := HashToken (ag_jwt (hg_authn cfg)) (new_id e 1)\<rparr>) (hs_store h)) h))"

text \<open>The fields of a textarea: cut at line ends, commas and semicolons, trimmed, the first of equal ones kept.\<close>

fun chunks :: "string \<Rightarrow> string list" where
  "chunks [] = [[]]"
| "chunks (c # s) =
     (if c \<in> set [CHR 0x0A, CHR 0x0D, CHR '','', CHR '';''] then [] # chunks s
      else case chunks s of p # ps \<Rightarrow> (c # p) # ps | [] \<Rightarrow> [[c]])"

definition splitLines :: "string \<Rightarrow> string list" where
  "splitLines raw = rev (remdups (rev (filter (\<lambda>f. f \<noteq> []) (map TrimSpace (chunks raw)))))"

definition UpdateClient :: "hosted_cfg \<Rightarrow> authn_env \<Rightarrow> cookies \<Rightarrow> form option \<Rightarrow> 'w hosted \<Rightarrow> 'w served" where
  "UpdateClient cfg e jar form = as_owner sign_in_first e jar (\<lambda>ow h.
     case ow_Client ow of
       None \<Rightarrow> refuse ''No client to update.'' ''/admin'' h
     | Some c \<Rightarrow> parsed ''/admin'' form (\<lambda>f h.
         let redirects = splitLines (form_get f ''redirect_uris''); origins = map trim_slashes (splitLines (form_get f ''web_origins''))
         in case find (\<lambda>u. \<not> abs_url cfg u) redirects of
              Some u \<Rightarrow> refuse (''Redirect URI must be an absolute URL: '' @ u) ''/admin'' h
            | None \<Rightarrow>
                must ''Could not save the client.'' ''/admin''
                  (try_op (op_fails e APutClient)
                    (Some (PutClient (c\<lparr>oc_RedirectURIs := redirects, oc_WebOrigins := origins\<rparr>) (hs_store h)))) h) h)"

definition quickstartParamsFor :: "string \<Rightarrow> Tenant \<Rightarrow> OIDCClient \<Rightarrow> quickstartParams" where
  "quickstartParamsFor issuer t c =
     \<lparr>qk_Issuer = trim_slashes issuer, qk_ClientID = oc_ClientID c, qk_TenantID = tn_ID t, qk_Company = tn_CompanyName t,
      qk_AcrValues = []\<rparr>"

definition quickstartAssets :: "string list" where
  "quickstartAssets = [''auth.js'', ''callback.html'', ''landing.html'']"

definition DownloadQuickstart :: "hosted_cfg \<Rightarrow> authn_env \<Rightarrow> cookies \<Rightarrow> string \<Rightarrow> 'w hosted \<Rightarrow> 'w served" where
  "DownloadQuickstart cfg e jar asset = as_owner sign_in_first e jar (\<lambda>ow h.
     case ow_Client ow of
       None \<Rightarrow> refuse ''This workspace has no OIDC client yet.'' ''/admin'' h
     | Some c \<Rightarrow>
         if oc_ClientSecretHash c \<noteq> []
         then refuse ''The browser starter kit is only available for a public (PKCE) client. Your client is confidential.'' ''/admin'' h
         else if asset \<notin> set quickstartAssets then (console_error StatusNotFound ''Unknown starter file.'' ''/admin'', [], h)
         else (WriteJSON StatusOK (HFile asset (quickstartParamsFor (hg_Issuer cfg) (ow_Tenant ow) c)), [], h))"

section \<open>Flows\<close>

definition PolicyConfig_fields :: "PolicyConfig field list" where
  "PolicyConfig_fields =
     [into dec_string ''name'' pg_Name pg_Name_update, into dec_string ''expression'' pg_Expression pg_Expression_update,
      into dec_bool ''negate'' pg_Negate pg_Negate_update]"

definition no_policy :: PolicyConfig where
  "no_policy = \<lparr>pg_Name = [], pg_Expression = [], pg_Negate = False\<rparr>"

definition StageConfig_fields :: "StageConfig field list" where
  "StageConfig_fields =
     [into dec_string ''type'' sc_Type sc_Type_update, into dec_map ''config'' sc_Config sc_Config_update,
      into (dec_slice False PolicyConfig_fields no_policy) ''policies'' sc_Policies sc_Policies_update]"

definition read_stages :: "jwt_lib \<Rightarrow> string \<Rightarrow> StageConfig list option" where
  "read_stages lib text =
     (case jl_unmarshal lib text of
        None \<Rightarrow> None
      | Some j \<Rightarrow>
          (case dec_slice False StageConfig_fields (stage_config [] [] []) [] j [] of Inl err \<Rightarrow> None | Inr stages \<Rightarrow> Some stages))"

definition foreign_flow :: hosted_reply where
  "foreign_flow = console_error StatusNotFound ''That flow isn't in your workspace.'' tab_flows"

definition put_flow :: "authn_env \<Rightarrow> string \<Rightarrow> FlowDefinition \<Rightarrow> 'w hosted \<Rightarrow> 'w served" where
  "put_flow e m def h = must m tab_flows (try_op (op_fails e AUpsertFlow) (Some (UpsertFlow (now_at e 1) def (hs_store h)))) h"

definition ApplyFlowTemplate :: "'p policy_engine \<Rightarrow> authn_env \<Rightarrow> cookies \<Rightarrow> 'w hosted \<Rightarrow> 'w served" where
  "ApplyFlowTemplate eng e jar = as_owner sign_in_first e jar (\<lambda>ow h.
     let def = RiskAdaptiveFlowDefinition (''flo_'' @ new_id e 1) (tn_ID (ow_Tenant ow)) True
     in case ValidateFlowDefinition eng def of
          Some fault \<Rightarrow> (WriteJSON StatusInternalServerError (HFlowRefused ''Template failed validation: '' fault), [], h)
        | None \<Rightarrow> put_flow e ''Could not apply the flow.'' def h)"

text \<open>The id of the flow that is saved: a new one, or that of a flow of the tenant.\<close>

definition flow_id :: "authn_env \<Rightarrow> string \<Rightarrow> string \<Rightarrow> authn_store \<Rightarrow> string option" where
  "flow_id e tenantID i s =
     (if i = [] then Some (''flo_'' @ new_id e 1)
      else map_option (\<lambda>f. i) (try_op (op_fails e AGetFlow) (GetFlow tenantID i s)))"

definition SaveFlow :: "'p policy_engine \<Rightarrow> hosted_cfg \<Rightarrow> authn_env \<Rightarrow> cookies \<Rightarrow> form option \<Rightarrow> 'w hosted \<Rightarrow> 'w served" where
  "SaveFlow eng cfg e jar form = owner_only e jar form tab_flows (\<lambda>ow f h.
     let tenantID = tn_ID (ow_Tenant ow); slug = form_trim f ''slug''; title = form_trim f ''title'';
         enabled = (form_get f ''enabled'' = ''on''); text = form_get f ''stages'';
         again = (\<lambda>i problem. (WriteJSON StatusBadRequest (HFlowEditor i slug title enabled text problem), [], h))
     in if slug = [] then again (form_trim f ''id'') NoSlug
        else (case read_stages (ag_jwt (hg_authn cfg)) text of
           None \<Rightarrow> again (form_trim f ''id'') BadStages
         | Some stages \<Rightarrow>
             (case flow_id e tenantID (form_trim f ''id'') (hs_store h) of
                None \<Rightarrow> (foreign_flow, [], h)
              | Some i \<Rightarrow>
                  let def = \<lparr>fd_ID = i, fd_TenantID = tenantID, fd_Designation = FlowAuthorizeStepUp, fd_Slug = slug,
                             fd_Title = title, fd_Enabled = enabled, fd_Stages = stages, fd_CreatedAt = 0, fd_UpdatedAt = 0\<rparr>
                  in (case ValidateFlowDefinition eng def of
                        Some fault \<Rightarrow> again i (Faulty fault)
                      | None \<Rightarrow> put_flow e ''Could not save the flow.'' def h))))"

definition SetFlowEnabled :: "'p policy_engine \<Rightarrow> authn_env \<Rightarrow> cookies \<Rightarrow> form option \<Rightarrow> 'w hosted \<Rightarrow> 'w served" where
  "SetFlowEnabled eng e jar form = owner_only e jar form tab_flows (\<lambda>ow f h.
     case try_op (op_fails e AGetFlow) (GetFlow (tn_ID (ow_Tenant ow)) (form_trim f ''id'') (hs_store h)) of
       None \<Rightarrow> (foreign_flow, [], h)
     | Some def \<Rightarrow>
         (case (if ticked f then ValidateFlowDefinition eng def else None) of
            Some fault \<Rightarrow> (WriteJSON StatusBadRequest (HFlowRefused ''Can't enable an invalid flow: '' fault), [], h)
          | None \<Rightarrow> put_flow e ''Could not update the flow.'' (def\<lparr>fd_Enabled := ticked f\<rparr>) h))"

definition ValidateFlow :: "'p policy_engine \<Rightarrow> authn_env \<Rightarrow> cookies \<Rightarrow> form option \<Rightarrow> 'w hosted \<Rightarrow> 'w served" where
  "ValidateFlow eng e jar form = owner_only e jar form tab_flows (\<lambda>ow f h.
     case try_op (op_fails e AGetFlow) (GetFlow (tn_ID (ow_Tenant ow)) (form_trim f ''id'') (hs_store h)) of
       None \<Rightarrow> (foreign_flow, [], h)
     | Some def \<Rightarrow>
         (case ValidateFlowDefinition eng def of
            Some fault \<Rightarrow> (WriteJSON StatusBadRequest (HFlowRefused ''Validation failed: '' fault), [], h)
          | None \<Rightarrow> (WriteJSON StatusOK (HFlowValid (fd_Slug def) (length (fd_Stages def))), [], h)))"

definition DeleteFlowForm :: "authn_env \<Rightarrow> cookies \<Rightarrow> form option \<Rightarrow> 'w hosted \<Rightarrow> 'w served" where
  "DeleteFlowForm e jar form = owner_only e jar form tab_flows (\<lambda>ow f h.
     unless_missing ''Could not delete the flow.'' tab_flows (op_fails e ADeleteFlow)
       (DeleteFlow (tn_ID (ow_Tenant ow)) (form_trim f ''id'') (hs_store h)) h)"

end
