(* ===== verification/AuthnStaff.thy ===== *)
theory AuthnStaff
  imports AuthnOwnerOps
begin

text \<open>
  The staff console (admin_console.go) and the developer console (developer_console.go): who may sign in,
  what a role permits, and the operations behind the forms.
\<close>

section \<open>Staff accounts\<close>

definition staff_email :: "hosted_cfg \<Rightarrow> string \<Rightarrow> string" where
  "staff_email cfg email = ToLower (ag_unicode_lower (hg_authn cfg)) (TrimSpace email)"

definition isAllowed :: "hosted_cfg \<Rightarrow> string \<Rightarrow> bool" where
  "isAllowed cfg email \<longleftrightarrow> staff_email cfg email \<in> set (hg_AllowedEmails cfg)"

definition put_staff :: "authn_env \<Rightarrow> StaffUser \<Rightarrow> authn_store \<Rightarrow> authn_store" where
  "put_staff e u s = (if op_fails e APutStaff then s else PutStaffUser u s)"

definition add_roles :: "authn_env \<Rightarrow> string \<Rightarrow> string list \<Rightarrow> authn_store \<Rightarrow> authn_store" where
  "add_roles e i roles s = (if op_fails e AAddRole then s else fold (AddStaffUserRole i) roles s)"

text \<open>
  At the start of the process: the account exists with the roles, and is active if that is forced; an
  account that was deactivated otherwise stays as it is.  Storage errors are ignored.
\<close>

definition ensureStaff :: "authn_env \<Rightarrow> nat \<Rightarrow> string \<Rightarrow> string list \<Rightarrow> bool \<Rightarrow> authn_store \<Rightarrow> authn_store" where
  "ensureStaff e n email roles forceActive s =
     (case store_call (op_fails e AGetStaff) (GetStaffUserByEmail email s) of
        ErrNotFound \<Rightarrow>
          let i = ''stf_'' @ new_id e n
          in add_roles e i roles
               (put_staff e \<lparr>sf_ID = i, sf_Email = email, sf_DisplayName = [], sf_Active = True,
                             sf_CreatedAt = now_at e n, sf_UpdatedAt = now_at e n\<rparr> s)
      | ErrOther \<Rightarrow> s
      | Got staff \<Rightarrow>
          if \<not> sf_Active staff \<and> \<not> forceActive then s
          else
            let s = (if sf_Active staff then s else put_staff e (staff\<lparr>sf_Active := True, sf_UpdatedAt := now_at e n\<rparr>) s);
                have = (if op_fails e AGetRoles then [] else GetStaffUserRoles (sf_ID staff) s)
            in add_roles e (sf_ID staff) (filter (\<lambda>r. r \<notin> set have) roles) s)"

definition administrator :: string where "administrator = ''administrator''"
definition architect :: string where "architect = ''architect''"
definition executive :: string where "executive = ''executive''"
definition staff_operator :: string where "staff_operator = ''operator''"

lemmas role_defs = administrator_def architect_def executive_def staff_operator_def

definition allStaffRoles :: "string list" where
  "allStaffRoles = [administrator, architect, executive, staff_operator]"

text \<open>The allowlist, and the staff accounts the two lists of emails ask for.\<close>

definition staff_allowlist :: "hosted_cfg \<Rightarrow> string list \<Rightarrow> string list \<Rightarrow> string list" where
  "staff_allowlist cfg emails rootEmails = filter (\<lambda>m. m \<noteq> []) (map (staff_email cfg) (emails @ rootEmails))"

fun ensure_all :: "authn_env \<Rightarrow> nat \<Rightarrow> string list \<Rightarrow> bool \<Rightarrow> string list \<Rightarrow> authn_store \<Rightarrow> authn_store" where
  "ensure_all e n roles forceActive [] s = s"
| "ensure_all e n roles forceActive (m # ms) s =
     ensure_all e (n + 1) roles forceActive ms (if m = [] then s else ensureStaff e n m roles forceActive s)"

definition NewAdminConsoleHandlers :: "hosted_cfg \<Rightarrow> authn_env \<Rightarrow> string list \<Rightarrow> string list \<Rightarrow> authn_store \<Rightarrow>
    hosted_cfg \<times> authn_store" where
  "NewAdminConsoleHandlers cfg e emails rootEmails s =
     (cfg\<lparr>hg_AllowedEmails := staff_allowlist cfg emails rootEmails\<rparr>,
      ensure_all e (length emails) allStaffRoles True (map (staff_email cfg) rootEmails)
        (ensure_all e 0 [administrator] False (map (staff_email cfg) emails) s))"

section \<open>Permissions\<close>

definition rolePermissions :: "string \<Rightarrow> string list" where
  "rolePermissions r =
     (if r = administrator then [''tenants:read'', ''tenants:manage_sessions'', ''tenants:manage_settings'']
      else if r = architect then [''documents:read'', ''documents:write'']
      else if r = executive then [''marketing:read'', ''marketing:view_pipeline'']
      else if r = staff_operator then [''monitoring:read'', ''monitoring:view_logs'']
      else [])"

definition hasPermission :: "string list \<Rightarrow> string \<Rightarrow> bool" where
  "hasPermission roles perm \<longleftrightarrow> list_ex (\<lambda>r. perm \<in> set (rolePermissions r)) roles"

definition allowedDomains :: "string list \<Rightarrow> string list" where
  "allowedDomains roles =
     (if administrator \<in> set roles then [''tenants'', ''advice''] else []) @
     (if architect \<in> set roles then [''documents''] else []) @
     (if executive \<in> set roles then [''marketing''] else []) @
     (if staff_operator \<in> set roles then [''monitoring''] else [])"

section \<open>Staff sessions\<close>

definition adminSessionCookie :: string where "adminSessionCookie = ''xauth_admin_session''"
definition adminStateCookie :: string where "adminStateCookie = ''xauth_admin_state''"

record adminSession =
  ad_Session :: Session
  ad_User :: User
  ad_StaffUser :: StaffUser
  ad_Roles :: "string list"

definition admin_of_cookie :: "hosted_cfg \<Rightarrow> authn_env \<Rightarrow> string \<Rightarrow> authn_store \<Rightarrow> adminSession option" where
  "admin_of_cookie cfg e value s =
     (case live_in e 0 adminTenantID value s of
        None \<Rightarrow> None
      | Some sess \<Rightarrow>
          (case try_op (op_fails e AGetUser) (GetUser adminTenantID (ss_UserID sess) s) of
             None \<Rightarrow> None
           | Some user \<Rightarrow>
               if \<not> isAllowed cfg (us_Email user) then None
               else (case try_op (op_fails e AGetStaff) (GetStaffUserByEmail (us_Email user) s) of
                       None \<Rightarrow> None
                     | Some staff \<Rightarrow>
                         let roles = (if op_fails e AGetRoles then [] else GetStaffUserRoles (sf_ID staff) s)
                         in if \<not> sf_Active staff \<or> roles = [] then None
                            else Some \<lparr>ad_Session = sess, ad_User = user, ad_StaffUser = staff, ad_Roles = roles\<rparr>)))"

definition currentAdmin :: "hosted_cfg \<Rightarrow> authn_env \<Rightarrow> cookies \<Rightarrow> authn_store \<Rightarrow> adminSession option \<times> set_cookie list" where
  "currentAdmin cfg e jar s =
     (let value = cookieValue jar adminSessionCookie
      in if value = [] then (None, [])
         else (case admin_of_cookie cfg e value s of
                 None \<Rightarrow> (None, [ClearCookie adminSessionCookie])
               | Some ad \<Rightarrow> (Some ad, [])))"

definition staff_error :: "nat \<Rightarrow> string \<Rightarrow> hosted_reply" where
  "staff_error st m = error_page st m ''/admin''"

definition AdminLoginGoogle :: "hosted_cfg \<Rightarrow> authn_env \<Rightarrow> 'w hosted \<Rightarrow> 'w served" where
  "AdminLoginGoogle cfg e h =
     (to_page (ag_location (hg_authn cfg) (issuerURL cfg ''/v1/social/google/authorize'')
        [(''tenant_id'', adminTenantID), (''redirect_uri'', issuerURL cfg ''/admin/social/callback''), (''state'', new_id e 0)]),
      [SetCookie adminStateCookie (new_id e 0)], h)"

text \<open>An account that is not on the list has its session ended.\<close>

definition AdminSocialCallback :: "hosted_cfg \<Rightarrow> authn_env \<Rightarrow> cookies \<Rightarrow> return_query \<Rightarrow> 'w hosted \<Rightarrow> 'w served" where
  "AdminSocialCallback cfg e jar q h =
     (let c = cookieValue jar adminStateCookie; cs = [ClearCookie adminStateCookie]; s = hs_store h
      in if c = [] \<or> c \<noteq> rq_state q
         then (staff_error StatusBadRequest ''State mismatch. Start again from the admin console.'', [], h)
         else if rq_session_id q = []
         then (staff_error StatusBadRequest ''The social callback did not include a session_id.'', cs, h)
         else (case live_in e 0 adminTenantID (rq_session_id q) s of
            None \<Rightarrow> (staff_error StatusBadRequest ''The returned session is not valid.'', cs, h)
          | Some sess \<Rightarrow>
              (case try_op (op_fails e AGetUser) (GetUser adminTenantID (ss_UserID sess) s) of
                 None \<Rightarrow> (staff_error StatusBadRequest ''Could not resolve the signed-in user.'', cs, h)
               | Some user \<Rightarrow>
                   if \<not> isAllowed cfg (us_Email user)
                   then (staff_error StatusForbidden (''This account ('' @ us_Email user @ '') is not authorised for administration.''),
                         cs, with_store (end_session e 1 sess s) h)
                   else (to_page ''/admin'', cs @ [SetCookie adminSessionCookie (ss_ID sess)], h))))"

definition console_logout :: "string \<Rightarrow> string \<Rightarrow> string \<Rightarrow> authn_env \<Rightarrow> cookies \<Rightarrow> 'w hosted \<Rightarrow> 'w served" where
  "console_logout tenantID cookie page e jar h =
     (let value = cookieValue jar cookie; s = hs_store h
      in (to_page page, [ClearCookie cookie],
          case (if value = [] then None else try_op (op_fails e AGetSession) (AuthnModel.GetSession tenantID value s)) of
            None \<Rightarrow> h
          | Some sess \<Rightarrow> if ss_InvalidatedAt sess \<noteq> None then h else with_store (end_session e 1 sess s) h))"

definition AdminLogout :: "authn_env \<Rightarrow> cookies \<Rightarrow> 'w hosted \<Rightarrow> 'w served" where
  "AdminLogout = console_logout adminTenantID adminSessionCookie ''/admin''"

section \<open>The staff console\<close>

definition tenants_domain :: "authn_env \<Rightarrow> authn_store \<Rightarrow> staff_tab" where
  "tenants_domain e s =
     (if op_fails e AListTenants then STenantsDown
      else STenants (ListTenants s) (if op_fails e AListClients then None else Some (ListClients s)))"

definition staff_tab_of :: "authn_env \<Rightarrow> string \<Rightarrow> string \<Rightarrow> string \<Rightarrow> authn_store \<Rightarrow> staff_tab" where
  "staff_tab_of e domain tenant user s =
     (if domain = ''tenants'' then tenants_domain e s
      else if domain = ''documents'' then SDocuments
      else if domain = ''marketing'' then SMarketing
      else if domain = ''monitoring'' then SMonitoring
      else SAdvice (shown (op_fails e AListAdvice) (ListAdviceCalls (TrimSpace tenant) (TrimSpace user) 200 s)))"

text \<open>The query of the console: the domain, and the filters of the advice history.\<close>

record home_query =
  hq_domain :: string
  hq_tenant :: string
  hq_user :: string
  hq_tab :: string
  hq_edit :: string

definition admin_page :: "authn_env \<Rightarrow> adminSession \<Rightarrow> home_query \<Rightarrow> authn_store \<Rightarrow> hosted_reply" where
  "admin_page e ad q s =
     (case allowedDomains (ad_Roles ad) of
        [] \<Rightarrow> WriteJSON StatusForbidden (HDenied ''No active roles.'')
      | d # ds \<Rightarrow>
          let domain = (if hq_domain q = [] then d else hq_domain q)
          in if domain \<notin> set (d # ds) then WriteJSON StatusForbidden (HDenied ''You do not have access to this domain.'')
             else WriteJSON StatusOK (HStaffHome (ad_Roles ad) (d # ds) (staff_tab_of e domain (hq_tenant q) (hq_user q) s)))"

text \<open>/admin is the staff console for staff, and the workspace console for everyone else.\<close>

definition adminHome :: "hosted_cfg \<Rightarrow> authn_env \<Rightarrow> cookies \<Rightarrow> home_query \<Rightarrow> 'w hosted \<Rightarrow> 'w served" where
  "adminHome cfg e jar q h =
     (case currentAdmin cfg e jar (hs_store h) of
        (Some ad, cs) \<Rightarrow> (admin_page e ad q (hs_store h), cs, h)
      | (None, cs) \<Rightarrow>
          (case OwnerHome e jar (hq_tab q) (hq_edit q) h of (reply, cs', h) \<Rightarrow> (reply, cs @ cs', h)))"

definition administrator_first :: hosted_reply where
  "administrator_first = staff_error StatusForbidden ''Sign in as an administrator first.''"

text \<open>Every operation asks for a permission; the cookie of a stranger is deleted.\<close>

definition as_staff :: "hosted_cfg \<Rightarrow> string \<Rightarrow> authn_env \<Rightarrow> cookies \<Rightarrow> (adminSession \<Rightarrow> 'w hosted \<Rightarrow> 'w served) \<Rightarrow> 'w hosted \<Rightarrow>
    'w served" where
  "as_staff cfg perm e jar act h =
     (case currentAdmin cfg e jar (hs_store h) of
        (None, cs) \<Rightarrow> (administrator_first, cs, h)
      | (Some ad, cs) \<Rightarrow> if hasPermission (ad_Roles ad) perm then act ad h else (administrator_first, cs, h))"

definition staff_form :: "form option \<Rightarrow> (form \<Rightarrow> 'w hosted \<Rightarrow> 'w served) \<Rightarrow> 'w hosted \<Rightarrow> 'w served" where
  "staff_form = parsed ''/admin''"

definition staff_refuse :: "string \<Rightarrow> 'w hosted \<Rightarrow> 'w served" where
  "staff_refuse m h = (staff_error StatusBadRequest m, [], h)"

text \<open>Where a change of a tenant leads back to, up to the escaping of the id.\<close>

definition tenant_page :: "string \<Rightarrow> hosted_reply" where
  "tenant_page tenantID = to_page (''/admin/tenants/'' @ tenantID)"

definition tenant_detail_of :: "authn_env \<Rightarrow> string \<Rightarrow> 'w hosted \<Rightarrow> tenant_detail" where
  "tenant_detail_of e tenantID h =
     (let s = hs_store h; t = tenant_row e tenantID s; us = ListUsers tenantID 0 0 s
      in \<lparr>td_Name = (case t of None \<Rightarrow> tenantID | Some t \<Rightarrow> tn_CompanyName t), td_ID = tenantID, td_Users = us,
          td_Anchors = ListIdentityAnchors tenantID s, td_Owner = (case t of None \<Rightarrow> [] | Some t \<Rightarrow> tn_OwnerEmail t),
          td_Sessions = map (session_row_of us (now_at e 1)) (shown (op_fails e AListSessions) (ListSessions tenantID 0 s)),
          td_StepUps = ListStepUps (now_at e 2) tenantID (ay_stepups (hs_sys h)),
          td_Signals = shown (op_fails e AListSignals) (ListDeviceSignals tenantID 50 s)\<rparr>)"

definition TenantDetail :: "hosted_cfg \<Rightarrow> authn_env \<Rightarrow> cookies \<Rightarrow> string \<Rightarrow> 'w hosted \<Rightarrow> 'w served" where
  "TenantDetail cfg e jar tenantID = as_staff cfg ''tenants:read'' e jar (\<lambda>ad h.
     if tenantID = [] then staff_refuse ''Missing tenant'' h
     else if op_fails e AListUsers \<or> op_fails e AListAnchors
     then (staff_error StatusBadGateway ''Could not load identities'', [], h)
     else (WriteJSON StatusOK (HTenantDetail (tenant_detail_of e tenantID h)), [], h))"

definition SetWorkspaceOwner :: "hosted_cfg \<Rightarrow> authn_env \<Rightarrow> cookies \<Rightarrow> form option \<Rightarrow> 'w hosted \<Rightarrow> 'w served" where
  "SetWorkspaceOwner cfg e jar form = as_staff cfg ''tenants:manage_settings'' e jar (\<lambda>ad. staff_form form (\<lambda>f h.
     let tenantID = form_trim f ''tenant_id''; email = staff_email cfg (form_get f ''email'')
     in if tenantID = [] \<or> email = [] then staff_refuse ''tenant_id and email are required.'' h
        else if op_fails e ASetOwner then (staff_error StatusBadGateway ''Could not set the owner.'', [], h)
        else (tenant_page tenantID, [], with_store (SetTenantOwner (now_at e 1) tenantID email (hs_store h)) h)))"

definition AdminRevokeSession :: "hosted_cfg \<Rightarrow> authn_env \<Rightarrow> cookies \<Rightarrow> form option \<Rightarrow> 'w hosted \<Rightarrow> 'w served" where
  "AdminRevokeSession cfg e jar form = as_staff cfg ''tenants:manage_sessions'' e jar (\<lambda>ad. staff_form form (\<lambda>f h.
     let tenantID = form_trim f ''tenant_id''; sessionID = form_trim f ''session_id''; s = hs_store h
     in if tenantID = [] \<or> sessionID = [] then staff_refuse ''tenant_id and session_id are required.'' h
        else if revoke_fails e tenantID sessionID s then (staff_error StatusBadGateway ''Could not revoke the session.'', [], h)
        else (tenant_page tenantID, [], with_store (revokeSession e tenantID sessionID s) h)))"

definition staff_client :: "authn_env \<Rightarrow> form \<Rightarrow> OIDCClient" where
  "staff_client e f =
     \<lparr>oc_ClientID = form_trim f ''client_id'', oc_ClientSecretHash = [], oc_TenantID = form_trim f ''tenant_id'',
      oc_RedirectURIs = splitLines (form_get f ''redirect_uris''),
      oc_WebOrigins = map trim_slashes (splitLines (form_get f ''web_origins'')), oc_CreatedAt = now_at e 1\<rparr>"

definition AdminRegisterClient :: "hosted_cfg \<Rightarrow> authn_env \<Rightarrow> cookies \<Rightarrow> form option \<Rightarrow> 'w hosted \<Rightarrow> 'w served" where
  "AdminRegisterClient cfg e jar form = as_staff cfg ''tenants:manage_settings'' e jar (\<lambda>ad. staff_form form (\<lambda>f h.
     let c = staff_client e f
     in if oc_ClientID c = [] then staff_refuse ''client_id is required.'' h
        else if oc_RedirectURIs c = [] then staff_refuse ''At least one redirect URI is required.'' h
        else (case find (\<lambda>u. \<not> abs_url cfg u) (oc_RedirectURIs c) of
           Some u \<Rightarrow> staff_refuse (''Redirect URI must be an absolute URL: '' @ u) h
         | None \<Rightarrow>
             if op_fails e APutClient then (staff_error StatusBadGateway ''Could not register the client.'', [], h)
             else (to_page ''/admin'', [], with_store (PutClient c (hs_store h)) h))))"

definition AdminDeleteClient :: "hosted_cfg \<Rightarrow> authn_env \<Rightarrow> cookies \<Rightarrow> form option \<Rightarrow> 'w hosted \<Rightarrow> 'w served" where
  "AdminDeleteClient cfg e jar form = as_staff cfg ''tenants:manage_settings'' e jar (\<lambda>ad. staff_form form (\<lambda>f h.
     let clientID = form_trim f ''client_id''
     in if clientID = [] then staff_refuse ''client_id is required.'' h
        else if op_fails e ADeleteClient then (staff_error StatusBadGateway ''Could not delete the client.'', [], h)
        else (to_page ''/admin'', [], (case DeleteClient clientID (hs_store h) of None \<Rightarrow> h | Some s \<Rightarrow> with_store s h))))"

section \<open>The developer console\<close>

definition devConsoleSessionCookie :: string where "devConsoleSessionCookie = ''xauth_dev_session''"
definition devConsoleStateCookie :: string where "devConsoleStateCookie = ''xauth_dev_state''"
definition devOIDCFlowTTL :: duration where "devOIDCFlowTTL = 10 * Minute"

record developerSession =
  dv_Session :: Session
  dv_User :: User

definition dev_session :: "authn_env \<Rightarrow> cookies \<Rightarrow> authn_store \<Rightarrow> developerSession option \<times> set_cookie list" where
  "dev_session e jar s =
     (let value = cookieValue jar devConsoleSessionCookie
      in if value = [] then (None, [])
         else (case live_in e 0 devConsoleTenantID value s of
                 None \<Rightarrow> (None, [ClearCookie devConsoleSessionCookie])
               | Some sess \<Rightarrow>
                   (case try_op (op_fails e AGetUser) (GetUser devConsoleTenantID (ss_UserID sess) s) of
                      None \<Rightarrow> (None, [])
                    | Some user \<Rightarrow> (Some \<lparr>dv_Session = sess, dv_User = user\<rparr>, []))))"

definition as_developer :: "hosted_reply \<Rightarrow> authn_env \<Rightarrow> cookies \<Rightarrow> (developerSession \<Rightarrow> 'w hosted \<Rightarrow> 'w served) \<Rightarrow> 'w hosted \<Rightarrow>
    'w served" where
  "as_developer refusal e jar act h =
     (case dev_session e jar (hs_store h) of
        (None, cs) \<Rightarrow> (refusal, cs, h)
      | (Some dv, cs) \<Rightarrow> act dv h)"

definition registeredClients :: "'w hosted \<Rightarrow> OIDCClient list" where
  "registeredClients h = sort_slice (\<lambda>a b. oc_CreatedAt b < oc_CreatedAt a) (tab_rows (hs_dev_clients h))"

definition default_client :: "authn_env \<Rightarrow> string \<Rightarrow> string" where
  "default_client e userID =
     (let suffix = take 8 (if starts_with userID ''usr_'' then drop 4 userID else userID)
      in ''client_'' @ (if suffix = [] then new_id e 0 else suffix))"

definition DevHome :: "authn_env \<Rightarrow> cookies \<Rightarrow> 'w hosted \<Rightarrow> 'w served" where
  "DevHome e jar = as_developer (WriteJSON StatusOK (HDevHome None)) e jar (\<lambda>dv h.
     (WriteJSON StatusOK (HDevHome (Some (registeredClients h, default_client e (us_ID (dv_User dv))))), [], h))"

definition DevLoginGoogle :: "hosted_cfg \<Rightarrow> authn_env \<Rightarrow> 'w hosted \<Rightarrow> 'w served" where
  "DevLoginGoogle cfg e h =
     (to_page (ag_location (hg_authn cfg) (issuerURL cfg ''/v1/social/google/authorize'')
        [(''tenant_id'', devConsoleTenantID), (''redirect_uri'', issuerURL cfg ''/dev/social/callback''), (''state'', new_id e 0)]),
      [SetCookie devConsoleStateCookie (new_id e 0)], h)"

definition dev_error :: "string \<Rightarrow> string \<Rightarrow> hosted_reply" where
  "dev_error title m = WriteJSON StatusOK (HDevError title m)"

definition DevSocialCallback :: "authn_env \<Rightarrow> cookies \<Rightarrow> return_query \<Rightarrow> 'w hosted \<Rightarrow> 'w served" where
  "DevSocialCallback e jar q h =
     (let c = cookieValue jar devConsoleStateCookie
      in if c = [] \<or> c \<noteq> rq_state q
         then (dev_error ''Login failed'' ''State mismatch. Start again from the developer console.'', [], h)
         else if rq_session_id q = [] then (dev_error ''Login failed'' ''The social callback did not include a session_id.'', [], h)
         else (case live_in e 0 devConsoleTenantID (rq_session_id q) (hs_store h) of
            None \<Rightarrow> (dev_error ''Login failed'' ''The returned session is not valid.'', [], h)
          | Some sess \<Rightarrow>
              (to_page ''/dev'', [ClearCookie devConsoleStateCookie, SetCookie devConsoleSessionCookie (ss_ID sess)], h)))"

definition DevLogout :: "authn_env \<Rightarrow> cookies \<Rightarrow> 'w hosted \<Rightarrow> 'w served" where
  "DevLogout = console_logout devConsoleTenantID devConsoleSessionCookie ''/dev''"

definition parseRedirectURIs :: "string \<Rightarrow> string list" where
  "parseRedirectURIs raw = splitLines raw"

definition rememberClient :: "OIDCClient \<Rightarrow> 'w hosted \<Rightarrow> 'w hosted" where
  "rememberClient c h = h\<lparr>hs_dev_clients := tab_put (oc_ClientID c) c (hs_dev_clients h)\<rparr>"

definition dev_client :: "authn_env \<Rightarrow> form \<Rightarrow> OIDCClient" where
  "dev_client e f =
     \<lparr>oc_ClientID = form_trim f ''client_id'', oc_ClientSecretHash = [], oc_TenantID = devConsoleTenantID,
      oc_RedirectURIs = parseRedirectURIs (form_get f ''redirect_uris''), oc_WebOrigins = [], oc_CreatedAt = now_at e 1\<rparr>"

text \<open>A form that does not parse reads as an empty one.\<close>

definition DevRegisterClient :: "hosted_cfg \<Rightarrow> authn_env \<Rightarrow> cookies \<Rightarrow> form \<Rightarrow> 'w hosted \<Rightarrow> 'w served" where
  "DevRegisterClient cfg e jar f = as_developer (to_page ''/dev'') e jar (\<lambda>dv h.
     let c = dev_client e f
     in if oc_ClientID c = [] then (bad_request ''invalid_request'' ''client_id is required'', [], h)
        else if oc_RedirectURIs c = [] then (bad_request ''invalid_request'' ''at least one redirect_uri is required'', [], h)
        else (case find (\<lambda>u. \<not> abs_url cfg u) (oc_RedirectURIs c) of
           Some u \<Rightarrow> (bad_request ''invalid_redirect_uri'' (''redirect_uri must be absolute: '' @ u), [], h)
         | None \<Rightarrow>
             (case store_call (op_fails e AGetClient) (GetClient (oc_ClientID c) (hs_store h)) of
                Got old \<Rightarrow> (WriteError StatusConflict ''client_exists'' (Lit ''client_id already exists''), [], h)
              | ErrOther \<Rightarrow> (internal ''failed to check client_id'', [], h)
              | ErrNotFound \<Rightarrow>
                  if op_fails e APutClient then (internal ''failed to register client'', [], h)
                  else (to_page (ag_location (hg_authn cfg) ''/dev'' [(''client_id'', oc_ClientID c)]), [],
                        rememberClient c (with_store (PutClient c (hs_store h)) h)))))"

definition storeOIDCFlow :: "time \<Rightarrow> string \<Rightarrow> devOIDCFlow \<Rightarrow> 'w hosted \<Rightarrow> 'w hosted" where
  "storeOIDCFlow now st f h =
     h\<lparr>hs_dev_flows := tab_put st f (filter (\<lambda>(k, v). \<not> df_CreatedAt v < now - devOIDCFlowTTL) (hs_dev_flows h))\<rparr>"

definition takeOIDCFlow :: "time \<Rightarrow> string \<Rightarrow> 'w hosted \<Rightarrow> devOIDCFlow option \<times> 'w hosted" where
  "takeOIDCFlow now st h =
     (case tab_get (hs_dev_flows h) st of
        None \<Rightarrow> (None, h)
      | Some f \<Rightarrow> (if devOIDCFlowTTL < now - df_CreatedAt f then None else Some f,
                   h\<lparr>hs_dev_flows := tab_del st (hs_dev_flows h)\<rparr>))"

definition pkceS256 :: "jwt_lib \<Rightarrow> string \<Rightarrow> string" where
  "pkceS256 lib verifier = b64_encode (jl_sha256 lib verifier)"

definition dev_acr :: "string \<Rightarrow> string" where
  "dev_acr a = (if a = ''sms'' then ACRSMSOTP else if a = ''fido2'' then ACRFIDO2 else [])"

text \<open>The console as a relying party: \<open>new_id e 1\<close> is the state, 2 the verifier, 3 the nonce.\<close>

definition StartOIDC :: "hosted_cfg \<Rightarrow> authn_env \<Rightarrow> cookies \<Rightarrow> string \<Rightarrow> string \<Rightarrow> 'w hosted \<Rightarrow> 'w served" where
  "StartOIDC cfg e jar clientID acr = as_developer (to_page ''/dev'') e jar (\<lambda>dv h.
     case try_op (op_fails e AGetClient) (GetClient (TrimSpace clientID) (hs_store h)) of
       None \<Rightarrow> (bad_request ''invalid_client'' ''registered client_id is required'', [], h)
     | Some c \<Rightarrow>
         (case oc_RedirectURIs c of
            [] \<Rightarrow> (bad_request ''invalid_client'' ''registered client_id is required'', [], h)
          | redirectURI # _ \<Rightarrow>
              let sess = dv_Session dv;
                  flow = \<lparr>df_ClientID = oc_ClientID c, df_RedirectURI = redirectURI, df_CodeVerifier = new_id e 2,
                          df_ACR = dev_acr acr, df_CreatedAt = now_at e 1\<rparr>
              in (to_page (ag_location (hg_authn cfg) (issuerURL cfg ''/authorize'')
                    ([(''client_id'', oc_ClientID c), (''redirect_uri'', redirectURI), (''response_type'', ''code''),
                      (''scope'', ''openid profile email''), (''tenant_id'', ss_TenantID sess), (''state'', new_id e 1),
                      (''nonce'', new_id e 3), (''code_challenge'', pkceS256 (ag_jwt (hg_authn cfg)) (new_id e 2)),
                      (''code_challenge_method'', ''S256'')] @
                     (if dev_acr acr \<noteq> [] then [(''acr_values'', dev_acr acr)] else []))),
                  [SetAuthzSession sess], storeOIDCFlow (now_at e 2) (new_id e 1) flow h)))"

definition obj_or_null :: "json option \<Rightarrow> json" where
  "obj_or_null j = (case j of Some (JObj ms) \<Rightarrow> JObj ms | _ \<Rightarrow> JNull)"

definition decodeJWTPayload :: "jwt_lib \<Rightarrow> string \<Rightarrow> json" where
  "decodeJWTPayload lib token =
     (case Split CHR ''.'' token of
        _ # p # _ \<Rightarrow> obj_or_null (Option.bind (b64_decode p) (jl_unmarshal lib))
      | _ \<Rightarrow> JNull)"

definition member_str :: "json \<Rightarrow> string \<Rightarrow> string" where
  "member_str j k = (case j of JObj ms \<Rightarrow> obj_str ms k | _ \<Rightarrow> [])"

definition dev_result :: "jwt_lib \<Rightarrow> string \<Rightarrow> string \<Rightarrow> json" where
  "dev_result lib acr text =
     (let tok = obj_or_null (jl_unmarshal lib text)
      in JObj [(''access_token_claims'', decodeJWTPayload lib (member_str tok ''access_token'')),
               (''id_token_claims'', decodeJWTPayload lib (member_str tok ''id_token'')),
               (''requested_acr'', JStr acr), (''token_response'', tok)])"

definition OIDCCallback :: "'w provider_http \<Rightarrow> hosted_cfg \<Rightarrow> authn_env \<Rightarrow> string \<Rightarrow> string \<Rightarrow> 'w hosted \<Rightarrow> 'w served" where
  "OIDCCallback ph cfg e st code h =
     (let (flow, h) = takeOIDCFlow (now_at e 0) st h
      in case (if code = [] then None else flow) of
           None \<Rightarrow> (dev_error ''OIDC callback failed'' ''Missing or expired state/code.'', [], h)
         | Some f \<Rightarrow>
             (case ask_world (ph_post ph (issuerURL cfg ''/token'')
                     [(''client_id'', df_ClientID f), (''code'', code), (''code_verifier'', df_CodeVerifier f),
                      (''grant_type'', ''authorization_code''), (''redirect_uri'', df_RedirectURI f)]) h of
                (None, h) \<Rightarrow> (dev_error ''Token exchange failed'' ''Could not call the token endpoint.'', [], h)
              | (Some (status', text), h) \<Rightarrow>
                  if status' < 200 \<or> 299 < status' then (dev_error ''Token exchange failed'' text, [], h)
                  else (WriteJSON StatusOK (HDevResult (df_ACR f) (dev_result (ag_jwt (hg_authn cfg)) (df_ACR f) text)), [], h)))"

end
