(* ===== verification/AuthnHosted.thy ===== *)
theory AuthnHosted
  imports AuthnStaff
begin

text \<open>
  The hosted routes of authentication-service's router (handlers.go), next to the ones of AuthnService,
  and histories of requests to the whole service.
\<close>

section \<open>Routes\<close>

text \<open>The operations behind the owner's dashboard, and behind the staff console.\<close>

datatype owner_op =
    OSwitch | OLogout | OPhoneLogin | OMDLEnroll | OFido | OBranding
  | OUserPhone | OUserMDL | ORemoveIdentity
  | OCreateType | ODeleteType | OCreateMCP | OToggleMCP | ODeleteMCP | OCreateIDP | OToggleIDP | ODeleteIDP
  | ORevoke | OSecret | OClient | ODownload string
  | OApplyFlow | OSaveFlow | OEnableFlow | OValidateFlow | ODeleteFlow

datatype staff_op = SDetail string | SOwner | SRevoke | SRegister | SDeleteClient | SLogout

text \<open>What the limited routes read of the client: the X-Forwarded-For header and the address of the peer.\<close>

record client_addr =
  cx_Forwarded :: string
  cx_Remote :: string

definition clientIP :: "hosted_cfg \<Rightarrow> client_addr \<Rightarrow> string" where
  "clientIP cfg a =
     (if cx_Forwarded a \<noteq> [] then TrimSpace (takeWhile (\<lambda>c. c \<noteq> CHR '','') (cx_Forwarded a))
      else (case hg_split_host cfg (cx_Remote a) of Some host \<Rightarrow> host | None \<Rightarrow> cx_Remote a))"

text \<open>A request carries the cookies its handler reads.\<close>

datatype hosted_route =
    WLogin login_query
  | WPhoneStart login_query
  | WPhoneSubmit client_addr "phone_form option"
  | WPhoneVerify client_seen "code_submission option"
  | WPhoneLink cookies
  | WPhoneLinked cookies return_query
  | WPhoneSkip cookies
  | WSocialAuthorize string social_query
  | WSocialCallback client_seen string callback_query
  | WEnrollStart string
  | WEnrolled cookies return_query
  | WEnrollPage cookies
  | WEnrollStatus cookies
  | WSignupPage string
  | WSignupStart client_addr string string
  | WSignedUp cookies return_query
  | WOwnerLogin
  | WOwnerBack cookies return_query
  | WOwnerSelect cookies "form option"
  | WOwner owner_op cookies "form option"
  | WAdminHome cookies home_query
  | WAdminLogin
  | WAdminBack cookies return_query
  | WStaff staff_op cookies "form option"
  | WDevHome cookies
  | WDevLogin
  | WDevBack cookies return_query
  | WDevLogout cookies
  | WDevRegister cookies form
  | WDevStart cookies string string
  | WDevOIDC string string

text \<open>\<open>aw_core\<close> and the three after it are what the routes of AuthnService depend on.\<close>

record ('w, 'p) authn_site =
  aw_core :: "('w, 'p) authn_deps"
  aw_fetch :: "'w fetch_keys"
  aw_secret :: string
  aw_internal_only :: bool
  aw_hosted :: "'w hosted_deps"
  aw_providers :: "'w provider_http"

definition aw_cfg :: "('w, 'p) authn_site \<Rightarrow> hosted_cfg" where
  "aw_cfg d = hd_cfg (aw_hosted d)"

fun owner_handler :: "('w, 'p) authn_site \<Rightarrow> authn_env \<Rightarrow> owner_op \<Rightarrow> cookies \<Rightarrow> form option \<Rightarrow> 'w hosted \<Rightarrow> 'w served" where
  "owner_handler d e OSwitch jar f = OwnerSwitch e jar f"
| "owner_handler d e OLogout jar f = OwnerLogout e jar"
| "owner_handler d e OPhoneLogin jar f = SetPhoneLogin e jar f"
| "owner_handler d e OMDLEnroll jar f = SetMDLEnroll e jar f"
| "owner_handler d e OFido jar f = SetFido e jar f"
| "owner_handler d e OBranding jar f = SetBranding (aw_cfg d) e jar f"
| "owner_handler d e OUserPhone jar f = SetUserPhone (Some (hd_sms (aw_hosted d))) e jar f"
| "owner_handler d e OUserMDL jar f = RecordUserMDL (hd_mdl (aw_hosted d)) e jar f"
| "owner_handler d e ORemoveIdentity jar f = RemoveIdentity e jar f"
| "owner_handler d e OCreateType jar f = CreateTransactionTypeForm e jar f"
| "owner_handler d e ODeleteType jar f = DeleteTransactionTypeForm e jar f"
| "owner_handler d e OCreateMCP jar f = CreateMCPServerForm (aw_cfg d) e jar f"
| "owner_handler d e OToggleMCP jar f = ToggleMCPServer e jar f"
| "owner_handler d e ODeleteMCP jar f = DeleteMCPServerForm e jar f"
| "owner_handler d e OCreateIDP jar f = CreateTrustedIDPForm (aw_cfg d) e jar f"
| "owner_handler d e OToggleIDP jar f = ToggleTrustedIDP e jar f"
| "owner_handler d e ODeleteIDP jar f = DeleteTrustedIDPForm e jar f"
| "owner_handler d e ORevoke jar f = OwnerRevokeSession e jar f"
| "owner_handler d e OSecret jar f = RegenerateSecret (aw_cfg d) e jar"
| "owner_handler d e OClient jar f = UpdateClient (aw_cfg d) e jar f"
| "owner_handler d e (ODownload asset) jar f = DownloadQuickstart (aw_cfg d) e jar asset"
| "owner_handler d e OApplyFlow jar f = ApplyFlowTemplate (dp_engine (aw_core d)) e jar"
| "owner_handler d e OSaveFlow jar f = SaveFlow (dp_engine (aw_core d)) (aw_cfg d) e jar f"
| "owner_handler d e OEnableFlow jar f = SetFlowEnabled (dp_engine (aw_core d)) e jar f"
| "owner_handler d e OValidateFlow jar f = ValidateFlow (dp_engine (aw_core d)) e jar f"
| "owner_handler d e ODeleteFlow jar f = DeleteFlowForm e jar f"

fun staff_handler :: "hosted_cfg \<Rightarrow> authn_env \<Rightarrow> staff_op \<Rightarrow> cookies \<Rightarrow> form option \<Rightarrow> 'w hosted \<Rightarrow> 'w served" where
  "staff_handler cfg e (SDetail t) jar f = TenantDetail cfg e jar t"
| "staff_handler cfg e SOwner jar f = SetWorkspaceOwner cfg e jar f"
| "staff_handler cfg e SRevoke jar f = AdminRevokeSession cfg e jar f"
| "staff_handler cfg e SRegister jar f = AdminRegisterClient cfg e jar f"
| "staff_handler cfg e SDeleteClient jar f = AdminDeleteClient cfg e jar f"
| "staff_handler cfg e SLogout jar f = AdminLogout e jar"

text \<open>The two routes that text a code or lead to a new workspace are limited by the client's address.\<close>

definition limited :: "('w hosted \<Rightarrow> limiter option) \<Rightarrow> (limiter option \<Rightarrow> 'w hosted \<Rightarrow> 'w hosted) \<Rightarrow> time \<Rightarrow> string \<Rightarrow>
    ('w hosted \<Rightarrow> 'w served) \<Rightarrow> 'w hosted \<Rightarrow> 'w served" where
  "limited get put now ip serve h =
     (case Middleware now ip (\<lambda>(cs, h). case serve h of (reply, cs', h') \<Rightarrow> (reply, (cs', h'))) (get h, ([], h)) of
        (reply, l, (cs, h')) \<Rightarrow> (reply, cs, put l h'))"

definition phone_limited :: "time \<Rightarrow> string \<Rightarrow> ('w hosted \<Rightarrow> 'w served) \<Rightarrow> 'w hosted \<Rightarrow> 'w served" where
  "phone_limited = limited hs_phone_rate (\<lambda>l h. h\<lparr>hs_phone_rate := l\<rparr>)"

definition signup_limited :: "time \<Rightarrow> string \<Rightarrow> ('w hosted \<Rightarrow> 'w served) \<Rightarrow> 'w hosted \<Rightarrow> 'w served" where
  "signup_limited = limited hs_signup_rate (\<lambda>l h. h\<lparr>hs_signup_rate := l\<rparr>)"

fun hosted_router :: "('w, 'p) authn_site \<Rightarrow> authn_env \<Rightarrow> hosted_route \<Rightarrow> 'w hosted \<Rightarrow> 'w served" where
  "hosted_router d e (WLogin q) h = (LoginPage (aw_cfg d) e q (hs_store h), [], h)"
| "hosted_router d e (WPhoneStart q) h = PhoneStart (aw_cfg d) e q h"
| "hosted_router d e (WPhoneSubmit a f) h =
     phone_limited (now_at e 20) (clientIP (aw_cfg d) a) (PhoneSubmit (hd_sms (aw_hosted d)) (aw_cfg d) e f) h"
| "hosted_router d e (WPhoneVerify seen f) h = PhoneVerify (hd_sms (aw_hosted d)) (aw_cfg d) e seen f h"
| "hosted_router d e (WPhoneLink jar) h = PhoneLinkStart (aw_cfg d) e jar h"
| "hosted_router d e (WPhoneLinked jar q) h = PhoneLinkCallback (aw_cfg d) e jar q h"
| "hosted_router d e (WPhoneSkip jar) h = PhoneSkip (aw_cfg d) e jar h"
| "hosted_router d e (WSocialAuthorize provider q) h = SocialAuthorize (aw_cfg d) e provider q h"
| "hosted_router d e (WSocialCallback seen provider q) h =
     SocialCallback (aw_hosted d) (aw_providers d) e seen provider q h"
| "hosted_router d e (WEnrollStart cid) h = EnrollMDLStart (aw_cfg d) e cid h"
| "hosted_router d e (WEnrolled jar q) h = EnrollMDLCallback e jar q h"
| "hosted_router d e (WEnrollPage jar) h = EnrollMDLPage (aw_hosted d) e jar h"
| "hosted_router d e (WEnrollStatus jar) h = EnrollMDLStatus (aw_hosted d) e jar h"
| "hosted_router d e (WSignupPage company) h = (SignupLanding company, [], h)"
| "hosted_router d e (WSignupStart a company redirect) h =
     signup_limited (now_at e 20) (clientIP (aw_cfg d) a) (SignupStart (aw_cfg d) e company redirect) h"
| "hosted_router d e (WSignedUp jar q) h = SignupCallback (aw_hosted d) e jar q h"
| "hosted_router d e WOwnerLogin h = OwnerLogin (aw_cfg d) e h"
| "hosted_router d e (WOwnerBack jar q) h = OwnerCallback e jar q h"
| "hosted_router d e (WOwnerSelect jar f) h = OwnerSelect e jar f h"
| "hosted_router d e (WOwner act jar f) h = owner_handler d e act jar f h"
| "hosted_router d e (WAdminHome jar q) h = adminHome (aw_cfg d) e jar q h"
| "hosted_router d e WAdminLogin h = AdminLoginGoogle (aw_cfg d) e h"
| "hosted_router d e (WAdminBack jar q) h = AdminSocialCallback (aw_cfg d) e jar q h"
| "hosted_router d e (WStaff act jar f) h = staff_handler (aw_cfg d) e act jar f h"
| "hosted_router d e (WDevHome jar) h = DevHome e jar h"
| "hosted_router d e WDevLogin h = DevLoginGoogle (aw_cfg d) e h"
| "hosted_router d e (WDevBack jar q) h = DevSocialCallback e jar q h"
| "hosted_router d e (WDevLogout jar) h = DevLogout e jar h"
| "hosted_router d e (WDevRegister jar f) h = DevRegisterClient (aw_cfg d) e jar f h"
| "hosted_router d e (WDevStart jar cid acr) h = StartOIDC (aw_cfg d) e jar cid acr h"
| "hosted_router d e (WDevOIDC st code) h = OIDCCallback (aw_providers d) (aw_cfg d) e st code h"

section \<open>Histories\<close>

datatype site_route = Core authn_route | Hosted hosted_route

fun site_step :: "('w, 'p) authn_site \<Rightarrow> authn_env \<Rightarrow> site_route \<Rightarrow> 'w hosted \<Rightarrow> 'w hosted" where
  "site_step d e (Core r) h =
     h\<lparr>hs_sys := snd (authn_router (aw_core d) (aw_fetch d) (aw_secret d) (aw_internal_only d) e r (hs_sys h))\<rparr>"
| "site_step d e (Hosted r) h = snd (snd (hosted_router d e r h))"

fun site_run :: "('w, 'p) authn_site \<Rightarrow> (authn_env \<times> site_route) list \<Rightarrow> 'w hosted \<Rightarrow> 'w hosted" where
  "site_run d [] h = h"
| "site_run d ((e, r) # evs) h = site_run d evs (site_step d e r h)"

end
