(* ===== verification/AuthnSiteKeeps.thy ===== *)
theory AuthnSiteKeeps
  imports AuthnTyped AuthnHosted
begin

text \<open>
  The contract of AuthnKeeps for the whole service: what a property of the storage must withstand so that
  no hosted page and no console breaks it either.
\<close>

section \<open>Changes outside the storage\<close>

lemma hs_store_upds [simp]:
  "hs_store (h\<lparr>hs_otps := a\<rparr>) = hs_store h" "hs_store (h\<lparr>hs_links := b\<rparr>) = hs_store h"
  "hs_store (h\<lparr>hs_pending := c\<rparr>) = hs_store h" "hs_store (h\<lparr>hs_mdl_ver := v\<rparr>) = hs_store h"
  "hs_store (h\<lparr>hs_dev_flows := g\<rparr>) = hs_store h" "hs_store (h\<lparr>hs_dev_clients := cl\<rparr>) = hs_store h"
  "hs_store (h\<lparr>hs_signup_rate := l\<rparr>) = hs_store h" "hs_store (h\<lparr>hs_phone_rate := l\<rparr>) = hs_store h"
  by (simp_all add: hs_store_def)

lemma ask_world_pair: "ask_world f h = (r, h') \<Longrightarrow> hs_store h' = hs_store h"
  using ask_world_store [of f h] by simp

lemma parked_store [simp]:
  "hs_store (putOTP now i p h) = hs_store h" "hs_store (dropOTP i h) = hs_store h"
  "hs_store (putLink now i k h) = hs_store h" "hs_store (dropLink i h) = hs_store h"
  "hs_store (storePending now i q h) = hs_store h" "hs_store (storeOIDCFlow now i g h) = hs_store h"
  "hs_store (rememberClient c h) = hs_store h"
  by (simp_all add: putOTP_def dropOTP_def putLink_def dropLink_def gc_phone_def storePending_def storeOIDCFlow_def
      rememberClient_def Let_def)

lemma looked_up_store:
  "getOTP now i h = (r, h') \<Longrightarrow> hs_store h' = hs_store h"
  "currentLink now jar h = (l, h') \<Longrightarrow> hs_store h' = hs_store h"
  "takePending now i h = (p, h') \<Longrightarrow> hs_store h' = hs_store h"
  "takeOIDCFlow now i h = (f, h') \<Longrightarrow> hs_store h' = hs_store h"
  by (auto simp: getOTP_def currentLink_def getLink_def takePending_def takeOIDCFlow_def Let_def split: option.splits if_splits)

lemma mdl_keys_store: "mdl_keys fetch issuer url force h = (v, h') \<Longrightarrow> hs_store h' = hs_store h"
  by (auto simp: mdl_keys_def split: option.splits prod.splits sum.splits if_splits dest: ask_world_pair)

lemma hd_mdl_store: "hd_mdl d = Some mdl \<Longrightarrow> mdl token t now h = (p, h') \<Longrightarrow> hs_store h' = hs_store h"
  by (auto simp: hd_mdl_def HTTPMDLProofVerifier_def verifyWithRefresh_def
      split: if_splits option.splits prod.splits sum.splits dest!: mdl_keys_store)

lemma mdl_offer_store: "mdl_offer d t i h = (r, h') \<Longrightarrow> hs_store h' = hs_store h"
  by (auto simp: mdl_offer_def split: option.splits prod.splits dest: ask_world_pair)

lemmas store_pairs = ask_world_pair looked_up_store hd_mdl_store mdl_offer_store

section \<open>The contract\<close>

locale site_property = storage_property I V F K R
  for I :: "authn_store \<Rightarrow> bool" and V :: "Session \<Rightarrow> bool" and F :: "string \<Rightarrow> bool" and K :: "string \<Rightarrow> bool"
    and R :: "time \<Rightarrow> bool" +
  assumes provision: "I s \<Longrightarrow> V x \<Longrightarrow> ProvisionTenant t u x c s = Inr s' \<Longrightarrow> I s'"
    and switch_tenant: "I s \<Longrightarrow> SetTenantPhoneLogin i b s = Some s' \<Longrightarrow> I s'"
      "I s \<Longrightarrow> SetTenantMDLEnroll i b s = Some s' \<Longrightarrow> I s'" "I s \<Longrightarrow> SetTenantFidoEnabled i b s = Some s' \<Longrightarrow> I s'"
      "I s \<Longrightarrow> SetTenantBranding i br s = Some s' \<Longrightarrow> I s'"
    and set_owner: "I s \<Longrightarrow> I (SetTenantOwner now i mail s)"
    and create_anchor: "I s \<Longrightarrow> CreateIdentityAnchor a s = Inr s' \<Longrightarrow> I s'"
    and delete_anchor: "I s \<Longrightarrow> DeleteIdentityAnchor i k s = Some s' \<Longrightarrow> I s'"
    and put_client: "I s \<Longrightarrow> I (PutClient c s)"
    and delete_client: "I s \<Longrightarrow> DeleteClient k s = Some s' \<Longrightarrow> I s'"
    and create_type: "I s \<Longrightarrow> CreateTransactionType tt s = Inr s' \<Longrightarrow> I s'"
    and delete_type: "I s \<Longrightarrow> DeleteTransactionType i n s = Some s' \<Longrightarrow> I s'"
    and create_mcp: "I s \<Longrightarrow> CreateMCPServer mc s = Inr s' \<Longrightarrow> I s'"
    and change_mcp: "I s \<Longrightarrow> SetMCPServerEnabled i k b s = Some s' \<Longrightarrow> I s'"
      "I s \<Longrightarrow> DeleteMCPServer i k s = Some s' \<Longrightarrow> I s'"
    and create_idp: "I s \<Longrightarrow> CreateTrustedIDP ip s = Inr s' \<Longrightarrow> I s'"
    and change_idp: "I s \<Longrightarrow> SetTrustedIDPEnabled i k b s = Some s' \<Longrightarrow> I s'"
      "I s \<Longrightarrow> DeleteTrustedIDP i k s = Some s' \<Longrightarrow> I s'"
    and upsert_flow: "I s \<Longrightarrow> I (UpsertFlow now fl s)"
    and delete_flow: "I s \<Longrightarrow> DeleteFlow i k s = Some s' \<Longrightarrow> I s'"
begin

section \<open>Shared steps\<close>

lemma login_valid: "V (login_session i t u now)"
  by (simp add: login_session_def new_session ValidRiskLevel_def)

lemma login_valid_until: "V ((login_session i t u now)\<lparr>ss_ExpiresAt := n\<rparr>)"
  by (rule session_expiry [OF login_valid])

lemma user_for_email_keeps: "I s \<Longrightarrow> user_for_email e i n t m name s = (u, made, s') \<Longrightarrow> I s'"
  by (auto simp: user_for_email_def Let_def intro: create_user split: option.splits if_splits sum.splits)

lemma drop_anchors_keeps: "I s \<Longrightarrow> I (drop_anchors e t u ty s)"
proof -
  let ?f = "\<lambda>a s. if an_UserID a = u \<and> an_Type a = ty
      then (case try_op (op_fails e ADeleteAnchor) (DeleteIdentityAnchor t (an_ID a) s) of None \<Rightarrow> s | Some s' \<Rightarrow> s') else s"
  have deleted: "I (fold ?f as s)" if "I s" for as s
    using that by (induction as arbitrary: s) (auto intro: delete_anchor split: option.split)
  show "I s \<Longrightarrow> I (drop_anchors e t u ty s)"
    unfolding drop_anchors_def by (cases "op_fails e AListAnchors") (simp_all only: if_True if_False deleted)
qed

lemma set_anchor_keeps: "I s \<Longrightarrow> set_anchor e t u ty v s = (ok, s') \<Longrightarrow> I s'"
  by (auto simp: set_anchor_def Let_def intro: drop_anchors_keeps create_anchor split: if_splits sum.splits)

lemma store_mdl_keeps: "I s \<Longrightarrow> storeMDLAnchor e t u p s = (r, s') \<Longrightarrow> I s'"
  by (auto simp: storeMDLAnchor_def split: prod.splits if_splits intro: set_anchor_keeps)

lemma mdl_checked_keeps:
  assumes "I (hs_store h)" "hd_mdl d = Some mdl" "mdl token t now h = (p, h')"
  shows "I (hs_store h')" "storeMDLAnchor e t' u q (hs_store h') = (r, s') \<Longrightarrow> I s'"
  using assms by (auto simp: hd_mdl_store intro: store_mdl_keeps)

lemma got_live: "I s \<Longrightarrow> live_in e n t i s = Some sess \<Longrightarrow> V sess"
  by (auto simp: live_in_def intro: got_session split: option.splits if_splits)

lemma end_session_keeps: "I s \<Longrightarrow> V sess \<Longrightarrow> I (end_session e n sess s)"
  by (auto simp: end_session_def intro: update_session session_invalidated split: option.split)

lemma mint_owner_keeps: "I s \<Longrightarrow> mintOwnerSession e i t m s = (r, s') \<Longrightarrow> I s'"
  by (auto simp: mintOwnerSession_def Let_def split: prod.splits option.splits if_splits
      intro: put_session login_valid user_for_email_keeps)

lemma resume_keeps: "I s \<Longrightarrow> resume_owned e i m slug ts s = (r, s') \<Longrightarrow> I s'"
  by (induction e i m slug ts s rule: resume_owned.induct)
    (auto split: prod.splits option.splits if_splits dest: mint_owner_keeps)

lemma finish_owner_keeps: "I (hs_store h) \<Longrightarrow> I (hs_store (snd (snd (finishOwnerLogin e i t m cs h))))"
  by (auto simp: finishOwnerLogin_def split: prod.split option.split dest: mint_owner_keeps)

lemma owner_session_valid: "I s \<Longrightarrow> owner_of_cookie e v s = Some ow \<Longrightarrow> V (ow_Session ow)"
  by (auto simp: owner_of_cookie_def cookie_session_def split: option.splits prod.splits if_splits dest: got_live)

lemma current_owner_valid: "I s \<Longrightarrow> currentOwner e jar s = (Some ow, cs) \<Longrightarrow> V (ow_Session ow)"
  by (auto simp: currentOwner_def Let_def split: if_splits option.splits dest: owner_session_valid)

lemma as_owner_keeps:
  assumes "I (hs_store h)" "\<And>ow. V (ow_Session ow) \<Longrightarrow> I (hs_store (snd (snd (act ow h))))"
  shows "I (hs_store (snd (snd (as_owner refusal e jar act h))))"
  using assms by (auto simp: as_owner_def split: prod.split option.split dest: current_owner_valid)

lemma parsed_keeps:
  assumes "I (hs_store h)" "\<And>f. I (hs_store (snd (snd (act f h))))"
  shows "I (hs_store (snd (snd (parsed back form act h))))"
  using assms by (simp add: parsed_def split: option.split)

lemma as_staff_keeps:
  assumes "I (hs_store h)" "\<And>ad. I (hs_store (snd (snd (act ad h))))"
  shows "I (hs_store (snd (snd (as_staff cfg perm e jar act h))))"
  using assms by (simp add: as_staff_def split: prod.split option.split)

lemma as_developer_keeps:
  assumes "I (hs_store h)" "\<And>dv. I (hs_store (snd (snd (act dv h))))"
  shows "I (hs_store (snd (snd (as_developer refusal e jar act h))))"
  using assms by (simp add: as_developer_def split: prod.split option.split)

lemma outcome_keeps:
  "I (hs_store h) \<Longrightarrow> (\<And>s. res = Some s \<Longrightarrow> I s) \<Longrightarrow> I (hs_store (snd (snd (must m back res h))))"
  "I (hs_store h) \<Longrightarrow> (\<And>s. res = Some s \<Longrightarrow> I s) \<Longrightarrow> I (hs_store (snd (snd (unless_missing m back fails res h))))"
  "I (hs_store h) \<Longrightarrow> I (hs_store (snd (snd (refuse m back h))))"
  "I (hs_store h) \<Longrightarrow> (\<And>s. res' = Inr s \<Longrightarrow> I s) \<Longrightarrow> I (hs_store (snd (snd (add_row taken m back fails res' h))))"
  by (auto simp: must_def unless_missing_def refuse_def add_row_def split: option.split sum.split)

lemma put_flow_keeps: "I (hs_store h) \<Longrightarrow> I (hs_store (snd (snd (put_flow e m f h))))"
  unfolding put_flow_def by (rule outcome_keeps) (auto intro: upsert_flow)

lemma by_id_keeps:
  assumes "I (hs_store h)" "\<And>i s'. act i (hs_store h) = Some s' \<Longrightarrow> I s'"
  shows "I (hs_store (snd (snd (by_id m back fails act f h))))"
  using assms by (auto simp: by_id_def intro: outcome_keeps)

section \<open>The owner's dashboard\<close>

lemmas owner_rules = as_owner_keeps parsed_keeps outcome_keeps put_flow_keeps by_id_keeps

lemma tenant_ops_keep:
  assumes "I (hs_store h)"
  shows "I (hs_store (snd (snd (SetPhoneLogin e jar f h))))" "I (hs_store (snd (snd (SetMDLEnroll e jar f h))))"
    "I (hs_store (snd (snd (SetFido e jar f h))))" "I (hs_store (snd (snd (SetBranding cfg e jar f h))))"
proof -
  have switch: "I (hs_store (snd (snd (must msg pg (try_op fails (op i v (hs_store h))) h))))"
    if "\<And>i v s'. op i v (hs_store h) = Some s' \<Longrightarrow> I s'" for msg pg fails i v and op :: "string \<Rightarrow> 'b \<Rightarrow> authn_store \<Rightarrow> authn_store option"
    by (rule outcome_keeps [OF assms]) (auto intro: that)
  have brand: "I (hs_store (snd (snd (must msg pg (try_op fails (SetTenantBranding i v (hs_store h))) h))))" for msg pg fails i v
    by (rule switch) (rule switch_tenant(4) [OF assms])
  note rules = as_owner_keeps parsed_keeps assms switch switch_tenant [OF assms]
  show "I (hs_store (snd (snd (SetPhoneLogin e jar f h))))" unfolding SetPhoneLogin_def owner_form_def by (rule rules | assumption)+
  show "I (hs_store (snd (snd (SetMDLEnroll e jar f h))))" unfolding SetMDLEnroll_def owner_form_def by (rule rules | assumption)+
  show "I (hs_store (snd (snd (SetFido e jar f h))))" unfolding SetFido_def owner_form_def by (rule rules | assumption)+
  show "I (hs_store (snd (snd (SetBranding cfg e jar f h))))" unfolding SetBranding_def owner_form_def
    by (intro as_owner_keeps parsed_keeps assms)
      (auto split: option.split intro!: outcome_keeps(3) assms brand)
qed

lemma set_user_phone_keeps: "I (hs_store h) \<Longrightarrow> I (hs_store (snd (snd (set_user_phone e t u m h))))"
  by (auto simp: set_user_phone_def intro: outcome_keeps set_anchor_keeps split: prod.split)

lemma identity_ops_keep:
  assumes "I (hs_store h)"
  shows "I (hs_store (snd (snd (SetUserPhone v e jar f h))))"
    "I (hs_store (snd (snd (RecordUserMDL (hd_mdl d) e jar f h))))"
    "I (hs_store (snd (snd (RemoveIdentity e jar f h))))"
proof -
  show "I (hs_store (snd (snd (SetUserPhone v e jar f h))))"
    unfolding SetUserPhone_def owner_form_def
    by (rule owner_rules assms)+
      (auto simp: Let_def intro!: set_user_phone_keeps outcome_keeps(3) assms split: list.split option.split prod.split dest: ask_world_pair)
  show "I (hs_store (snd (snd (RecordUserMDL (hd_mdl d) e jar f h))))"
    unfolding RecordUserMDL_def
    by (rule as_owner_keeps, rule assms)
      (auto simp: Let_def intro!: parsed_keeps outcome_keeps(3) assms split: option.split prod.split
        intro: mdl_checked_keeps [OF assms])
  show "I (hs_store (snd (snd (RemoveIdentity e jar f h))))"
    unfolding RemoveIdentity_def owner_form_def
    by (rule owner_rules assms)+ (auto simp: Let_def intro!: outcome_keeps(2,3) assms intro: delete_anchor)
qed

lemma catalogue_ops_keep:
  assumes "I (hs_store h)"
  shows "I (hs_store (snd (snd (CreateTransactionTypeForm e jar f h))))"
    "I (hs_store (snd (snd (DeleteTransactionTypeForm e jar f h))))"
    "I (hs_store (snd (snd (CreateMCPServerForm cfg e jar f h))))" "I (hs_store (snd (snd (ToggleMCPServer e jar f h))))"
    "I (hs_store (snd (snd (DeleteMCPServerForm e jar f h))))" "I (hs_store (snd (snd (CreateTrustedIDPForm cfg e jar f h))))"
    "I (hs_store (snd (snd (ToggleTrustedIDP e jar f h))))" "I (hs_store (snd (snd (DeleteTrustedIDPForm e jar f h))))"
  unfolding CreateTransactionTypeForm_def DeleteTransactionTypeForm_def CreateMCPServerForm_def ToggleMCPServer_def
    DeleteMCPServerForm_def CreateTrustedIDPForm_def ToggleTrustedIDP_def DeleteTrustedIDPForm_def owner_only_def Let_def
  by (auto intro!: as_owner_keeps parsed_keeps assms outcome_keeps by_id_keeps
      intro: create_type [OF assms] delete_type [OF assms] create_mcp [OF assms] change_mcp [OF assms]
        create_idp [OF assms] change_idp [OF assms])

lemma client_ops_keep:
  assumes "I (hs_store h)"
  shows "I (hs_store (snd (snd (OwnerRevokeSession e jar f h))))" "I (hs_store (snd (snd (RegenerateSecret cfg e jar h))))"
    "I (hs_store (snd (snd (UpdateClient cfg e jar f h))))" "I (hs_store (snd (snd (DownloadQuickstart cfg e jar asset h))))"
  unfolding OwnerRevokeSession_def RegenerateSecret_def UpdateClient_def DownloadQuickstart_def owner_only_def Let_def
  by (auto intro!: as_owner_keeps parsed_keeps assms outcome_keeps put_client revokeSession_keeps split: option.split)

lemma flow_ops_keep:
  assumes "I (hs_store h)"
  shows "I (hs_store (snd (snd (ApplyFlowTemplate eng e jar h))))" "I (hs_store (snd (snd (SaveFlow eng cfg e jar f h))))"
    "I (hs_store (snd (snd (SetFlowEnabled eng e jar f h))))" "I (hs_store (snd (snd (ValidateFlow eng e jar f h))))"
    "I (hs_store (snd (snd (DeleteFlowForm e jar f h))))"
  unfolding ApplyFlowTemplate_def SaveFlow_def SetFlowEnabled_def ValidateFlow_def DeleteFlowForm_def owner_only_def Let_def
  by (auto intro!: as_owner_keeps parsed_keeps assms put_flow_keeps outcome_keeps(2) intro: delete_flow [OF assms] split: option.split)

lemma owner_session_ops_keep:
  assumes "I (hs_store h)"
  shows "I (hs_store (snd (snd (OwnerSwitch e jar f h))))" "I (hs_store (snd (snd (OwnerLogout e jar h))))"
    "I (hs_store (snd (snd (OwnerSelect e jar f h))))" "I (hs_store (snd (snd (OwnerCallback e jar q h))))"
proof -
  show "I (hs_store (snd (snd (OwnerSwitch e jar f h))))"
    unfolding OwnerSwitch_def Let_def
    by (rule as_owner_keeps, rule assms)
      (auto intro!: parsed_keeps finish_owner_keeps assms end_session_keeps)
  show "I (hs_store (snd (snd (OwnerLogout e jar h))))"
    using assms by (auto simp: OwnerLogout_def intro: end_session_keeps dest: current_owner_valid split: prod.split option.split)
  show "I (hs_store (snd (snd (OwnerSelect e jar f h))))"
    using assms got_live [OF assms] by (auto simp: OwnerSelect_def Let_def intro!: parsed_keeps finish_owner_keeps end_session_keeps
        split: option.split)
  show "I (hs_store (snd (snd (OwnerCallback e jar q h))))"
    using assms by (auto simp: OwnerCallback_def intro: finish_owner_keeps split: prod.split sum.split list.split)
qed

lemma owner_handler_keeps: "I (hs_store h) \<Longrightarrow> I (hs_store (snd (snd (owner_handler d e act jar f h))))"
  by (cases act)
    (simp_all add: tenant_ops_keep identity_ops_keep catalogue_ops_keep client_ops_keep flow_ops_keep owner_session_ops_keep)

lemma signup_keeps: "I (hs_store h) \<Longrightarrow> I (hs_store (snd (snd (SignupCallback d e jar q h))))"
proof -
  assume h: "I (hs_store h)"
  have prov: "I (hs_store (snd (snd (provision d e intent slug m cs h))))" if "I (hs_store h)" for intent slug m cs and h :: "'a hosted"
    using that by (auto simp: provision_def Let_def split: sum.split prod.split option.split
        dest!: mdl_offer_store intro: provision login_valid)
  show ?thesis using h
    by (auto simp: SignupCallback_def Let_def split: prod.split sum.split option.split got.split
        intro!: prov dest: resume_keeps)
qed

section \<open>The staff and the developer console\<close>

lemma logout_keeps: "I (hs_store h) \<Longrightarrow> I (hs_store (snd (snd (console_logout t c pg e jar h))))"
  by (auto simp: console_logout_def Let_def intro!: end_session_keeps split: option.split if_splits dest: got_session)

lemma staff_handler_keeps: "I (hs_store h) \<Longrightarrow> I (hs_store (snd (snd (staff_handler cfg e act jar f h))))"
  by (cases act)
    (auto simp: TenantDetail_def SetWorkspaceOwner_def AdminRevokeSession_def AdminRegisterClient_def AdminDeleteClient_def
      AdminLogout_def staff_form_def staff_refuse_def Let_def
      intro!: as_staff_keeps parsed_keeps logout_keeps set_owner revokeSession_keeps put_client
      intro: delete_client split: option.split)

lemma developer_keeps:
  assumes "I (hs_store h)"
  shows "I (hs_store (snd (snd (DevRegisterClient cfg e jar fm h))))" "I (hs_store (snd (snd (StartOIDC cfg e jar cid acr h))))"
    "I (hs_store (snd (snd (OIDCCallback ph cfg e st code h))))" "I (hs_store (snd (snd (DevSocialCallback e jar q h))))"
    "I (hs_store (snd (snd (DevHome e jar h))))"
proof -
  show "I (hs_store (snd (snd (DevRegisterClient cfg e jar fm h))))"
    unfolding DevRegisterClient_def Let_def
    by (auto intro!: as_developer_keeps assms put_client split: option.split got.split)
  show "I (hs_store (snd (snd (StartOIDC cfg e jar cid acr h))))"
    unfolding StartOIDC_def Let_def by (auto intro!: as_developer_keeps assms split: option.split list.split)
  show "I (hs_store (snd (snd (OIDCCallback ph cfg e st code h))))"
    using assms by (auto simp: OIDCCallback_def Let_def split: prod.split option.split dest!: store_pairs)
  show "I (hs_store (snd (snd (DevSocialCallback e jar q h))))"
    using assms by (auto simp: DevSocialCallback_def Let_def split: option.split)
  show "I (hs_store (snd (snd (DevHome e jar h))))"
    unfolding DevHome_def by (auto intro!: as_developer_keeps assms)
qed

lemma admin_back_keeps: "I (hs_store h) \<Longrightarrow> I (hs_store (snd (snd (AdminSocialCallback cfg e jar q h))))"
  by (auto simp: AdminSocialCallback_def Let_def intro!: end_session_keeps split: option.split dest: got_live)

lemma admin_home_keeps: "I (hs_store h) \<Longrightarrow> I (hs_store (snd (snd (adminHome cfg e jar q h))))"
  by (simp add: adminHome_def OwnerHome_def as_owner_def split: prod.split option.split)

section \<open>Signing in\<close>

lemma observed_keeps: "I (hs_store h) \<Longrightarrow> I (hs_store (h\<lparr>hs_sys := Observe cfg e seen t u x stage fp (hs_sys h)\<rparr>))"
  unfolding hs_store_def by (simp add: observe_keeps)

lemma social_signed_in_keeps: "I (hs_store h) \<Longrightarrow> I (hs_store (snd (snd (social_signed_in d e seen p u made h))))"
proof -
  assume h: "I (hs_store h)"
  have seen: "I (hs_store (h'\<lparr>hs_sys := Observe cfg e seen t u x stage fp (hs_sys h')\<rparr>))"
    if "h' = with_store (CreateSession (login_session i t' u' now) (hs_store h)) h" for h' cfg t u x stage fp i t' u' now
    by (rule observed_keeps) (simp add: that put_session h login_valid)
  show ?thesis using h
    by (auto simp: social_signed_in_def Let_def MDLInterstitial_def seen split: prod.split option.split dest!: mdl_offer_store)
qed

lemma complete_login_keeps: "I (hs_store h) \<Longrightarrow> I (hs_store (snd (snd (completeLogin d e seen p prof h))))"
  by (auto simp: completeLogin_def split: prod.split option.split intro!: social_signed_in_keeps dest: user_for_email_keeps)

lemma take_for_store: "take_for e provider key unknown h = (r, h') \<Longrightarrow> hs_store h' = hs_store h"
  by (auto simp: take_for_def split: prod.splits option.splits dest: looked_up_store)

lemma social_keeps: "I (hs_store h) \<Longrightarrow> I (hs_store (snd (snd (SocialCallback d ph e seen provider q h))))"
  by (auto simp: SocialCallback_def callbackReal_def stub_callback_def split: option.split prod.split sum.split
      intro!: complete_login_keeps dest!: take_for_store ask_world_pair)

lemma social_start_keeps: "I (hs_store h) \<Longrightarrow> I (hs_store (snd (snd (SocialAuthorize cfg e provider q h))))"
  by (simp add: SocialAuthorize_def authorizeReal_def Let_def split: option.split)

lemma resolve_keeps: "I s \<Longrightarrow> resolveUser e flow s = (r, s') \<Longrightarrow> I s'"
  by (auto simp: resolveUser_def create_phone_user_def Let_def split: if_splits sum.splits option.splits
      intro: create_user create_anchor delete_user)

lemma phone_signed_in_keeps: "I (hs_store h) \<Longrightarrow> I (hs_store (snd (snd (phone_signed_in cfg e seen fp flow u h))))"
  by (auto simp: phone_signed_in_def Let_def intro!: observed_keeps put_session login_valid)

lemma phone_verify_keeps: "I (hs_store h) \<Longrightarrow> I (hs_store (snd (snd (PhoneVerify v cfg e seen form h))))"
proof -
  assume h: "I (hs_store h)"
  have conclude: "I (hs_store (snd (snd (phone_conclude cfg e seen f p h))))" if "I (hs_store h)" for f p and h :: "'a hosted"
    using that resolve_keeps [of "hs_store (dropOTP (cs_flow f) h)"]
    by (auto simp: phone_conclude_def wrong_code_def Let_def split: prod.split sum.split intro!: phone_signed_in_keeps)
  have check: "hs_store h' = hs_store h" if "phone_check v e f h = (r, h')" for f r h'
    using that by (auto simp: phone_check_def split: prod.splits option.splits sum.splits dest!: store_pairs)
  show ?thesis
  proof (cases form)
    case (Some f)
    obtain r h' where c: "phone_check v e f h = (r, h')" by fastforce
    then show ?thesis using h conclude [of h'] check [OF c] by (simp add: PhoneVerify_def Some split: sum.split)
  qed (simp add: PhoneVerify_def h)
qed

lemma phone_submit_store: "hs_store (snd (snd (PhoneSubmit v cfg e f h))) = hs_store h"
  by (auto simp: PhoneSubmit_def submit_number_def Let_def split: option.split got.split prod.split dest!: ask_world_pair)

lemma phone_pages_keep:
  assumes "I (hs_store h)"
  shows "I (hs_store (snd (snd (PhoneStart cfg e q' h))))" "I (hs_store (snd (snd (PhoneLinkStart cfg e jar h))))"
    "I (hs_store (snd (snd (PhoneSkip cfg e jar h))))"
  using assms by (auto simp: PhoneStart_def PhoneLinkStart_def PhoneSkip_def Let_def
      split: option.split prod.split dest!: looked_up_store)

lemma linked_keeps: "I (hs_store h) \<Longrightarrow> I (hs_store (snd (snd (PhoneLinkCallback cfg e jar q h))))"
proof -
  assume h: "I (hs_store h)"
  have finish: "I (hs_store (snd (snd (finishLink cfg l msg h))))" if "I (hs_store h)" for l msg and h :: "'a hosted"
    using that by (simp add: finishLink_def Let_def)
  have link: "I (hs_store (snd (snd (link_email cfg e l m h))))" if "I (hs_store h)" for l m and h :: "'a hosted"
    using that by (auto simp: link_email_def intro!: finish split: option.split sum.split dest: update_user)
  show ?thesis using h
    by (auto simp: PhoneLinkCallback_def Let_def intro!: finish link split: prod.split option.split dest!: looked_up_store)
qed

lemma enroll_keeps:
  assumes "I (hs_store h)"
  shows "I (hs_store (snd (snd (EnrollMDLStart cfg e cid h))))" "I (hs_store (snd (snd (EnrollMDLCallback e jar q h))))"
    "I (hs_store (snd (snd (EnrollMDLPage d e jar h))))" "I (hs_store (snd (snd (EnrollMDLStatus d e jar h))))"
proof -
  have verified: "I (hs_store (snd (snd (enroll_verified d e t u tok h))))" if "I (hs_store h)" for t u tok and h :: "'a hosted"
    using that by (auto simp: enroll_verified_def split: option.split prod.split intro: mdl_checked_keeps [OF that])
  show "I (hs_store (snd (snd (EnrollMDLStart cfg e cid h))))" using assms by (simp add: EnrollMDLStart_def split: option.split)
  show "I (hs_store (snd (snd (EnrollMDLCallback e jar q h))))" using assms
    by (auto simp: EnrollMDLCallback_def Let_def split: prod.split sum.split option.split
        dest: user_for_email_keeps intro!: put_session login_valid_until)
  show "I (hs_store (snd (snd (EnrollMDLPage d e jar h))))" using assms
    by (auto simp: EnrollMDLPage_def split: prod.split option.split dest!: ask_world_pair)
  show "I (hs_store (snd (snd (EnrollMDLStatus d e jar h))))" using assms
    by (auto simp: EnrollMDLStatus_def Let_def split: prod.split option.split dest!: ask_world_pair intro: verified)
qed

section \<open>The router\<close>

lemma limited_keeps:
  assumes "I (hs_store h)" "I (hs_store (snd (snd (serve h))))" "\<And>l h. hs_store (put l h) = hs_store h"
  shows "I (hs_store (snd (snd (limited get put now ip serve h))))"
  using assms by (auto simp: limited_def Middleware_def Let_def split: prod.split)

lemma hosted_router_keeps:
  assumes "I (hs_store h)"
  shows "I (hs_store (snd (snd (hosted_router d e r h))))"
proof (cases r)
  case (WPhoneSubmit a f)
  show ?thesis unfolding WPhoneSubmit hosted_router.simps phone_limited_def
    by (rule limited_keeps) (use assms in \<open>simp_all add: phone_submit_store\<close>)
next
  case (WSignupStart a company redirect)
  show ?thesis unfolding WSignupStart hosted_router.simps signup_limited_def
    by (rule limited_keeps) (use assms in \<open>simp_all add: SignupStart_def Let_def\<close>)
qed (use assms in \<open>simp_all add: phone_verify_keeps phone_pages_keep linked_keeps social_keeps social_start_keeps enroll_keeps
    signup_keeps owner_handler_keeps owner_session_ops_keep staff_handler_keeps developer_keeps admin_back_keeps admin_home_keeps
    logout_keeps OwnerLogin_def AdminLoginGoogle_def DevLoginGoogle_def DevLogout_def\<close>)

lemma site_step_keeps: "I (hs_store h) \<Longrightarrow> fits F K R e \<Longrightarrow> I (hs_store (site_step d e r h))"
  by (cases r) (auto simp: hosted_router_keeps, simp add: hs_store_def router_keeps)

lemma site_runs_keep:
  assumes "I (hs_store h)" "list_all (\<lambda>(e, r). fits F K R e) evs"
  shows "I (hs_store (site_run d evs h))"
  using assms by (induction evs arbitrary: h) (auto simp: site_step_keeps)

end

end
