(* ===== verification/AuthnSiteDemo.thy ===== *)
theory AuthnSiteDemo
  imports AuthnHosted AuthnFlowProps
begin

text \<open>
  A small deployment of authentication-service, at which the properties of the hosted pages are applied:
  two workspaces with their owners, a client, a member of staff, and an account that has just been
  through the Google leg.
\<close>

text \<open>Addresses below https:// have a host, others neither scheme nor host.\<close>

definition demo_url :: "string \<Rightarrow> (string \<times> string) option" where
  "demo_url u =
     (if take 8 u = ''https://'' then Some (''https'', takeWhile (\<lambda>c. c \<noteq> CHR ''/'') (drop 8 u)) else Some ([], []))"

text \<open>Every text of JSON reads as the intent to sign up as "Admin".\<close>

definition demo_site_lib :: jwt_lib where
  "demo_site_lib = demo_authn_lib\<lparr>jl_unmarshal := \<lambda>s. Some (JObj [(''company'', JStr ''Admin'')])\<rparr>"

definition demo_site_cfg :: hosted_cfg where
  "demo_site_cfg =
     \<lparr>hg_authn = demo_authn_cfg\<lparr>ag_jwt := demo_site_lib, ag_location := \<lambda>u ps. u @ concat (map snd ps)\<rparr>,
      hg_Issuer = ''https://a'', hg_url = demo_url, hg_split_host = \<lambda>a. None, hg_Providers = [],
      hg_AllowedEmails = [''s@a'']\<rparr>"

definition demo_sms :: "nat otp_verifier" where
  "demo_sms =
     \<lparr>ov_Start = \<lambda>mobile w. (None, w), ov_Check = \<lambda>mobile code w. (Inr (code = ''1''), w), ov_Lookup = \<lambda>mobile w. (Inr True, w)\<rparr>"

definition demo_http :: "nat http_clients" where
  "demo_http =
     \<lparr>ht_send = \<lambda>q w. (Inl [], w), ht_secret = [], ht_json_text = \<lambda>err. [], ht_float_text = \<lambda>r. [], ht_RiskURL = [],
      ht_AuthenticationURL = [], ht_AuthenticatorURL = []\<rparr>"

definition demo_site_deps :: "nat hosted_deps" where
  "demo_site_deps =
     \<lparr>hd_cfg = demo_site_cfg, hd_sms = demo_sms, hd_http = demo_http, hd_fetch = \<lambda>u w. (None, w), hd_id_issuer = [],
      hd_id_jwks = []\<rparr>"

definition demo_providers :: "nat provider_http" where
  "demo_providers = \<lparr>ph_post = \<lambda>u f w. (None, w), ph_get = \<lambda>u t w. (None, w)\<rparr>"

definition demo_site :: "(nat, unit) authn_site" where
  "demo_site =
     \<lparr>aw_core = demo_deps, aw_fetch = \<lambda>u w. (None, w), aw_secret = [], aw_internal_only = False, aw_hosted = demo_site_deps,
      aw_providers = demo_providers\<rparr>"

definition demo_tenant :: "string \<Rightarrow> string \<Rightarrow> Tenant" where
  "demo_tenant i owner =
     \<lparr>tn_ID = i, tn_CompanyName = i, tn_Slug = i, tn_OwnerEmail = owner, tn_CreatedAt = 0, tn_PhoneLoginEnabled = False,
      tn_MDLEnrollEnabled = False, tn_FidoEnabled = False, tn_Branding = \<lparr>br_LogoURL = [], br_Accent = [], br_BG = []\<rparr>\<rparr>"

definition demo_user :: "string \<Rightarrow> string \<Rightarrow> string \<Rightarrow> User" where
  "demo_user i t email = \<lparr>us_ID = i, us_TenantID = t, us_Email = email, us_Name = [], us_CreatedAt = 0, us_UpdatedAt = 0\<rparr>"

definition demo_staff :: StaffUser where
  "demo_staff = \<lparr>sf_ID = ''f'', sf_Email = ''s@a'', sf_DisplayName = [], sf_Active = True, sf_CreatedAt = 0, sf_UpdatedAt = 0\<rparr>"

definition demo_site_store :: authn_store where
  "demo_site_store = (NewAuthnStorage 0)
     \<lparr>at_tenants := [(''t1'', demo_tenant ''t1'' ''o@x''), (''t2'', demo_tenant ''t2'' ''p@x'')],
      at_clients := [(''c'', demo_client\<lparr>oc_TenantID := ''t1''\<rparr>)],
      at_users := [(''u1'', demo_user ''u1'' ''t1'' ''o@x''), (''u2'', demo_user ''u2'' ''t2'' ''p@x''),
                   (''ug'', demo_user ''ug'' ''ten_signup'' ''g@x''), (''us'', demo_user ''us'' ''ten_admin'' ''s@a'')],
      at_sessions := [(''s1'', session_for ''s1'' ''t1'' ''u1'' RiskLow False 0), (''sg'', session_for ''sg'' ''ten_signup'' ''ug'' RiskLow False 0),
                      (''ss'', session_for ''ss'' ''ten_admin'' ''us'' RiskLow False 0)],
      at_staffUsr := [(''f'', demo_staff)], at_staffRol := [(''f'', [''administrator''])]\<rparr>"

definition demo_hosted :: "nat hosted" where
  "demo_hosted =
     \<lparr>hs_sys = demo_authn\<lparr>ay_store := demo_site_store\<rparr>, hs_otps = [], hs_links = [], hs_pending = [], hs_mdl_ver = None,
      hs_dev_flows = [], hs_dev_clients = [], hs_signup_rate = None, hs_phone_rate = None\<rparr>"

text \<open>The cookies of the owner of the first workspace, and of the member of staff.\<close>

definition demo_owner_jar :: cookies where
  "demo_owner_jar = [(ownerSessionCookie, ''t1|s1'')]"

definition demo_staff_jar :: cookies where
  "demo_staff_jar = [(adminSessionCookie, ''ss'')]"

lemmas demo_site_defs = demo_url_def demo_site_lib_def demo_site_cfg_def demo_sms_def demo_http_def demo_site_deps_def
  demo_providers_def demo_site_def demo_tenant_def demo_user_def demo_staff_def demo_site_store_def demo_hosted_def
  demo_owner_jar_def demo_staff_jar_def

lemma demo_hosted_store: "hs_store demo_hosted = demo_site_store"
  by (simp add: demo_hosted_def hs_store_def)

text \<open>The owner is let in, and so is the member of staff.\<close>

lemma demo_owner_in: "map_option (\<lambda>ow. tn_ID (ow_Tenant ow)) (fst (currentOwner (demo_authn_env 5) demo_owner_jar demo_site_store)) = Some ''t1''"
  by code_simp

lemma demo_staff_in: "map_option ad_Roles (fst (currentAdmin demo_site_cfg (demo_authn_env 5) demo_staff_jar demo_site_store)) =
    Some [''administrator'']"
  by code_simp

end
