(* ===== verification/AuthnRegistry.thy ===== *)
theory AuthnRegistry
  imports AuthnSiteKeeps AuthnSiteDemo
begin

text \<open>
  What is always true of the storage of the whole authentication service: AuthnTyped's typing, and that
  the registry of tenants, clients, anchors, servers, providers and flows is a set of keyed tables in
  which what must be unique is unique.
\<close>

section \<open>Keyed tables with unique rows\<close>

text \<open>The rows that qualify differ in \<open>f\<close>.\<close>

definition unique_rows :: "('r \<Rightarrow> 'v) \<Rightarrow> ('r \<Rightarrow> bool) \<Rightarrow> 'r table \<Rightarrow> bool" where
  "unique_rows f P m \<longleftrightarrow> distinct (map f (filter P (tab_rows m)))"

lemma tab_rows_put: "set (tab_rows (tab_put k r m)) \<subseteq> insert r (set (tab_rows m))"
  by (auto simp: tab_rows_def dest: tab_put_member)

lemma unique_rows_put:
  assumes "unique_rows f P m" "distinct (map fst m)"
    and free: "\<And>j v. (j, v) \<in> set m \<Longrightarrow> P r \<Longrightarrow> P v \<Longrightarrow> f v = f r \<Longrightarrow> j = k"
  shows "unique_rows f P (tab_put k r m)"
  using assms
proof (induction m)
  case (Cons jv m)
  obtain j v where jv: "jv = (j, v)" by (cases jv)
  show ?case
  proof (cases "j = k")
    case True
    have "k \<notin> fst ` set m" using Cons.prems(2) jv True by simp
    then have "f r \<notin> f ` set (filter P (tab_rows m))" if "P r"
      using Cons.prems(3) [OF _ that] by (force simp: tab_rows_def image_iff)
    then show ?thesis using Cons.prems(1) jv True by (auto simp: unique_rows_def tab_rows_def tab_put_def split: if_splits)
  next
    case False
    have IH: "unique_rows f P (tab_put k r m)"
      using Cons.IH Cons.prems by (auto simp: unique_rows_def tab_rows_def split: if_splits)
    have "f v \<notin> f ` set (filter P (tab_rows (tab_put k r m)))" if "P v"
      using Cons.prems(1) Cons.prems(3) [of j v] tab_rows_put [of k r m] jv False that
      by (auto simp: unique_rows_def tab_rows_def)
    then show ?thesis using IH jv False by (simp add: unique_rows_def tab_rows_def tab_put_def)
  qed
qed (simp add: unique_rows_def tab_rows_def tab_put_def)

lemma unique_rows_del: "unique_rows f P m \<Longrightarrow> unique_rows f P (tab_del k m)"
proof (induction m)
  case (Cons jv m)
  have "set (tab_rows (tab_del k m)) \<subseteq> set (tab_rows m)" by (auto simp: tab_rows_def dest: tab_del_member)
  then show ?case using Cons
    by (cases jv) (auto simp: unique_rows_def tab_rows_def tab_del_def split: if_splits)
qed (simp add: tab_del_def)

text \<open>A new row that collides with none, and a row changed in place.\<close>

lemma unique_rows_new:
  assumes "unique_rows f P m" "distinct (map fst m)" "\<And>v. v \<in> set (tab_rows m) \<Longrightarrow> f v = f r \<Longrightarrow> False"
  shows "unique_rows f P (tab_put k r m)"
proof (rule unique_rows_put [OF assms(1,2)])
  fix j v assume "(j, v) \<in> set m" "f v = f r"
  then show "j = k" using assms(3) [of v] by (force simp: tab_rows_def)
qed

lemma unique_rows_same:
  assumes "unique_rows f (\<lambda>r. True) m" "distinct (map fst m)" "tab_get m k = Some old" "f r = f old"
  shows "unique_rows f (\<lambda>r. True) (tab_put k r m)"
proof (rule unique_rows_put [OF assms(1,2)])
  fix j v assume row: "(j, v) \<in> set m" and same: "f v = f r"
  have here: "(k, old) \<in> set m" using assms(3) by (simp add: tab_get_def map_of_SomeD)
  have "inj_on (\<lambda>p. f (snd p)) (set m)" using assms(1) by (simp add: unique_rows_def tab_rows_def o_def distinct_map)
  from inj_onD [OF this _ row here] show "j = k" using same assms(4) by simp
qed

section \<open>The registry\<close>

definition anchor_key :: "IdentityAnchor \<Rightarrow> string \<times> string \<times> string" where
  "anchor_key a = (an_TenantID a, an_Type a, an_Value a)"

definition server_key :: "MCPServer \<Rightarrow> string \<times> string" where
  "server_key m = (mc_TenantID m, mc_ResourceURI m)"

definition issuer_key :: "TrustedIDP \<Rightarrow> string \<times> string" where
  "issuer_key p = (ti_TenantID p, ti_Issuer p)"

definition designation_key :: "FlowDefinition \<Rightarrow> string \<times> string" where
  "designation_key f = (fd_TenantID f, fd_Designation f)"

text \<open>
  The last four: an anchor value belongs to one identity of a tenant, a resource is authorised once, an
  issuer is trusted once, and of the flows for a designation at most one is enabled.
\<close>

definition registry_wf :: "authn_store \<Rightarrow> bool" where
  "registry_wf s \<longleftrightarrow>
     tab_wf us_ID (at_users s) \<and> tab_wf ss_ID (at_sessions s) \<and> tab_wf tn_ID (at_tenants s) \<and>
     tab_wf oc_ClientID (at_clients s) \<and> tab_wf an_ID (at_anchors s) \<and>
     tab_wf (\<lambda>tt. ttKey (tt_TenantID tt) (tt_Name tt)) (at_txnTypes s) \<and> tab_wf mc_ID (at_mcpSrv s) \<and>
     tab_wf ti_ID (at_trustIDPs s) \<and> tab_wf fd_ID (at_flows s) \<and>
     unique_rows anchor_key (\<lambda>a. True) (at_anchors s) \<and> unique_rows server_key (\<lambda>m. True) (at_mcpSrv s) \<and>
     unique_rows issuer_key (\<lambda>p. True) (at_trustIDPs s) \<and> unique_rows designation_key fd_Enabled (at_flows s)"

lemmas wf_rules = tab_wf_put tab_wf_del unique_rows_del

lemma wf_distinct: "tab_wf rid m \<Longrightarrow> distinct (map fst m)"
  by (simp add: tab_wf_def)

lemma wf_got: "tab_wf rid m \<Longrightarrow> tab_get m k = Some r \<Longrightarrow> rid r = k"
  by (simp add: tab_wf_get)

lemma wf_map: "tab_wf rid m \<Longrightarrow> (\<And>r. rid (g r) = rid r) \<Longrightarrow> tab_wf rid (map (\<lambda>(k, r). (k, if Q k r then g r else r)) m)"
  by (auto simp: tab_wf_def split_beta comp_def)

lemma registry_create_anchor: "registry_wf s \<Longrightarrow> CreateIdentityAnchor a s = Inr s' \<Longrightarrow> registry_wf s'"
  by (auto simp: registry_wf_def CreateIdentityAnchor_def anchor_key_def list_ex_iff wf_distinct tab_wf_put
      intro!: unique_rows_new split: if_splits)

lemma registry_create_server: "registry_wf s \<Longrightarrow> CreateMCPServer m s = Inr s' \<Longrightarrow> registry_wf s'"
  by (auto simp: registry_wf_def CreateMCPServer_def server_key_def list_ex_iff wf_distinct tab_wf_put
      intro!: unique_rows_new split: if_splits)

lemma registry_create_provider: "registry_wf s \<Longrightarrow> CreateTrustedIDP p s = Inr s' \<Longrightarrow> registry_wf s'"
  by (auto simp: registry_wf_def CreateTrustedIDP_def issuer_key_def list_ex_iff wf_distinct tab_wf_put
      intro!: unique_rows_new split: if_splits)

lemma registry_switch:
  "registry_wf s \<Longrightarrow> SetMCPServerEnabled t k b s = Some s' \<Longrightarrow> registry_wf s'"
  "registry_wf s \<Longrightarrow> SetTrustedIDPEnabled t k b s = Some s' \<Longrightarrow> registry_wf s'"
  by (auto simp: registry_wf_def SetMCPServerEnabled_def SetTrustedIDPEnabled_def GetMCPServer_def GetTrustedIDP_def own_row_Some
      server_key_def issuer_key_def wf_distinct wf_got tab_wf_put intro!: unique_rows_same split: option.splits)

lemma registry_delete:
  "registry_wf s \<Longrightarrow> DeleteIdentityAnchor t k s = Some s' \<Longrightarrow> registry_wf s'"
  "registry_wf s \<Longrightarrow> DeleteMCPServer t k s = Some s' \<Longrightarrow> registry_wf s'"
  "registry_wf s \<Longrightarrow> DeleteTrustedIDP t k s = Some s' \<Longrightarrow> registry_wf s'"
  "registry_wf s \<Longrightarrow> DeleteTransactionType t n s = Some s' \<Longrightarrow> registry_wf s'"
  "registry_wf s \<Longrightarrow> DeleteFlow t k s = Some s' \<Longrightarrow> registry_wf s'"
  "registry_wf s \<Longrightarrow> DeleteClient k s = Some s' \<Longrightarrow> registry_wf s'"
  "registry_wf s \<Longrightarrow> DeleteUser t k s = Some s' \<Longrightarrow> registry_wf s'"
  by (auto simp: registry_wf_def DeleteIdentityAnchor_def DeleteMCPServer_def DeleteTrustedIDP_def DeleteTransactionType_def
      DeleteFlow_def DeleteClient_def DeleteUser_def intro!: wf_rules split: option.splits)

text \<open>Enabling a flow disables the other flows for its designation first.\<close>

lemma registry_upsert: 
  assumes "registry_wf s"
  shows "registry_wf (UpsertFlow now f s)"
proof -
  define created where "created = (if \<not> IsZero (fd_CreatedAt f) then fd_CreatedAt f
    else case tab_get (at_flows s) (fd_ID f) of Some existing \<Rightarrow> fd_CreatedAt existing | None \<Rightarrow> now)"
  let ?f = "f\<lparr>fd_CreatedAt := created, fd_UpdatedAt := now\<rparr>"
  let ?rival = "\<lambda>k g. k \<noteq> fd_ID f \<and> fd_TenantID g = fd_TenantID f \<and> fd_Designation g = fd_Designation f \<and> fd_Enabled g"
  let ?flows = "if fd_Enabled f then map (\<lambda>(k, g). (k, if ?rival k g then g\<lparr>fd_Enabled := False\<rparr> else g)) (at_flows s) else at_flows s"
  have s': "UpsertFlow now f s = s\<lparr>at_flows := tab_put (fd_ID f) ?f ?flows\<rparr>"
    by (simp add: UpsertFlow_def Let_def created_def)
  have wf: "tab_wf fd_ID (at_flows s)" "unique_rows designation_key fd_Enabled (at_flows s)" using assms by (simp_all add: registry_wf_def)
  have wf': "tab_wf fd_ID ?flows" using wf(1) wf_map [OF wf(1)] by simp
  have rows: "set (filter fd_Enabled (tab_rows ?flows)) \<subseteq> set (filter fd_Enabled (tab_rows (at_flows s)))"
    by (auto simp: tab_rows_def split: if_splits)
  have disabled: "unique_rows designation_key fd_Enabled (map (\<lambda>(k, g). (k, if Q k g then g\<lparr>fd_Enabled := False\<rparr> else g)) m)"
    if "unique_rows designation_key fd_Enabled m" for Q and m :: "FlowDefinition table"
  proof -
    have "filter fd_Enabled (map snd (map (\<lambda>(k, g). (k, if Q k g then g\<lparr>fd_Enabled := False\<rparr> else g)) m)) =
        map snd (filter (\<lambda>(k, g). \<not> Q k g) (filter (\<lambda>p. fd_Enabled (snd p)) m))"
      by (induction m) (auto split: if_splits)
    moreover have "distinct (map (designation_key \<circ> snd) (filter (\<lambda>p. fd_Enabled (snd p)) m))"
      using that by (simp add: unique_rows_def tab_rows_def filter_map o_def)
    ultimately show ?thesis by (simp add: unique_rows_def tab_rows_def distinct_map_filter del: filter_filter)
  qed
  have unique: "unique_rows designation_key fd_Enabled ?flows" using wf(2) disabled [OF wf(2), of ?rival] by simp
  have "unique_rows designation_key fd_Enabled (tab_put (fd_ID f) ?f ?flows)"
    by (rule unique_rows_put [OF unique wf_distinct [OF wf']]) (auto simp: designation_key_def split: if_splits)
  moreover have "tab_wf fd_ID (tab_put (fd_ID f) ?f ?flows)" by (rule tab_wf_put [OF wf']) simp
  ultimately show ?thesis using assms unfolding s' registry_wf_def by simp
qed

lemma registry_tenant: "registry_wf s \<Longrightarrow> tn_ID t = k \<Longrightarrow> registry_wf (s\<lparr>at_tenants := tab_put k t (at_tenants s)\<rparr>)"
  by (simp add: registry_wf_def tab_wf_put)

lemma registry_got_tenant: "registry_wf s \<Longrightarrow> GetTenant k s = Some t \<Longrightarrow> tn_ID t = k"
  by (auto simp: registry_wf_def GetTenant_def dest: wf_got)

lemma registry_set_tenant: "registry_wf s \<Longrightarrow> (\<And>t. tn_ID (g t) = tn_ID t) \<Longrightarrow> set_tenant g k s = Some s' \<Longrightarrow> registry_wf s'"
  by (auto simp: set_tenant_def intro!: registry_tenant dest: registry_got_tenant split: option.splits)

lemma registry_owner: "registry_wf s \<Longrightarrow> registry_wf (SetTenantOwner now k m s)"
  by (auto simp: SetTenantOwner_def put_tenant_def Let_def intro!: registry_tenant dest: registry_got_tenant split: option.split prod.split)

lemma registry_provision: "registry_wf s \<Longrightarrow> ProvisionTenant t u x c s = Inr s' \<Longrightarrow> registry_wf s'"
  by (auto simp: ProvisionTenant_def PutClient_def AuthnModel.CreateSession_def put_user_def put_tenant_def registry_wf_def tab_wf_put
      split: if_splits)

lemma registry_type: "registry_wf s \<Longrightarrow> CreateTransactionType tt s = Inr s' \<Longrightarrow> registry_wf s'"
  by (auto simp: CreateTransactionType_def Let_def registry_wf_def tab_wf_put split: if_splits)

lemma registry_rows: "registry_wf s \<Longrightarrow> registry_wf (put_user u s)" "registry_wf s \<Longrightarrow> registry_wf (AuthnModel.CreateSession x s)"
  "registry_wf s \<Longrightarrow> registry_wf (PutClient c s)"
  by (simp_all add: registry_wf_def put_user_def AuthnModel.CreateSession_def PutClient_def tab_wf_put)

lemma registry_users: "registry_wf s \<Longrightarrow> CreateUser u s = Inr s' \<Longrightarrow> registry_wf s'"
  "registry_wf s \<Longrightarrow> UpdateUser now u s = Inr (u', s') \<Longrightarrow> registry_wf s'"
  by (auto simp: CreateUser_def UpdateUser_def Let_def intro!: registry_rows split: if_splits option.splits)

text \<open>The core's other tables are no part of the registry.\<close>

lemma registry_apart:
  "registry_wf (s\<lparr>at_tokens := a\<rparr>) = registry_wf s" "registry_wf (s\<lparr>at_codes := b\<rparr>) = registry_wf s"
  "registry_wf (s\<lparr>at_devSigs := c\<rparr>) = registry_wf s" "registry_wf (s\<lparr>at_adviceLog := d\<rparr>) = registry_wf s"
  "registry_wf (s\<lparr>at_usedJTIs := g\<rparr>) = registry_wf s"
  by (simp_all add: registry_wf_def)

interpretation registry: site_property registry_wf "\<lambda>x. True" "\<lambda>f. True" "\<lambda>c. True" "\<lambda>now. True"
proof unfold_locales
  fix s s' :: authn_store and now k t i uid acr jti h P tk c ds av expiry
  show "registry_wf s \<Longrightarrow> registry_wf (PutToken tk s)" "registry_wf s \<Longrightarrow> registry_wf (snd (revoke_where P now s))"
    "registry_wf s \<Longrightarrow> registry_wf (PutAuthCode c s)" "registry_wf s \<Longrightarrow> registry_wf (RecordDeviceSignal ds s)"
    "registry_wf s \<Longrightarrow> registry_wf (RecordAdviceCall av s)"
    by (simp_all add: PutToken_def revoke_where_def PutAuthCode_def RecordDeviceSignal_def RecordAdviceCall_def Let_def registry_apart)
  show "registry_wf s \<Longrightarrow> RevokeTokenByHash now h s = Some s' \<Longrightarrow> registry_wf s'"
    "registry_wf s \<Longrightarrow> ConsumeAuthCode k s = Some (c, s') \<Longrightarrow> registry_wf s'"
    "registry_wf s \<Longrightarrow> MarkAdviceCallCompleted t i uid acr now s = Inr s' \<Longrightarrow> registry_wf s'"
    "registry_wf s \<Longrightarrow> RedeemIDJAGJTI now jti expiry s = Inr s' \<Longrightarrow> registry_wf s'"
    by (auto simp: RevokeTokenByHash_def ConsumeAuthCode_def MarkAdviceCallCompleted_def RedeemIDJAGJTI_def Let_def registry_apart
        split: option.splits if_splits)
qed (auto intro: registry_users registry_delete registry_rows registry_provision registry_owner registry_create_anchor
    registry_type registry_create_server registry_switch registry_create_provider registry_upsert
    simp: SetTenantPhoneLogin_def SetTenantMDLEnroll_def SetTenantFidoEnabled_def SetTenantBranding_def
    elim!: registry_set_tenant [rotated 2])

section \<open>Typing\<close>

lemma typed_apart:
  "authn_typed (s\<lparr>at_tenants := a\<rparr>) = authn_typed s" "authn_typed (s\<lparr>at_anchors := b\<rparr>) = authn_typed s"
  "authn_typed (s\<lparr>at_clients := c\<rparr>) = authn_typed s" "authn_typed (s\<lparr>at_txnTypes := d\<rparr>) = authn_typed s"
  "authn_typed (s\<lparr>at_mcpSrv := g\<rparr>) = authn_typed s" "authn_typed (s\<lparr>at_trustIDPs := j\<rparr>) = authn_typed s"
  "authn_typed (s\<lparr>at_flows := l\<rparr>) = authn_typed s"
  by (simp_all add: authn_typed_def)

lemma typed_provision:
  assumes "authn_typed s" "ValidRiskLevel (ss_RiskLevel x)" "ProvisionTenant t u x c s = Inr s'"
  shows "authn_typed s'"
proof -
  let ?s = "put_tenant (t\<lparr>tn_FidoEnabled := True\<rparr>) s"
  have free: "\<not> list_ex (\<lambda>x. us_TenantID x = us_TenantID u \<and> us_Email x = us_Email u) (tab_rows (at_users s))"
    and s': "s' = PutClient c (AuthnModel.CreateSession x (put_user u ?s))"
    using assms(3) by (auto simp: ProvisionTenant_def split: if_splits)
  have "CreateUser u ?s = Inr (put_user u ?s)"
    using free by (simp add: CreateUser_def put_tenant_def)
  then have "authn_typed (put_user u ?s)" by (rule typed_create_user [rotated]) (simp add: put_tenant_def typed_apart assms(1))
  then show ?thesis using typed_session [OF _ assms(2)] by (simp add: s' PutClient_def typed_apart)
qed

interpretation typed_site: site_property authn_typed "\<lambda>x. ValidRiskLevel (ss_RiskLevel x)" "\<lambda>f. True" "\<lambda>c. True" "\<lambda>now. True"
proof unfold_locales
  fix s s' :: authn_store and t u x c
  show "authn_typed s \<Longrightarrow> ValidRiskLevel (ss_RiskLevel x) \<Longrightarrow> ProvisionTenant t u x c s = Inr s' \<Longrightarrow> authn_typed s'"
    by (rule typed_provision)
qed (auto simp: SetTenantPhoneLogin_def SetTenantMDLEnroll_def SetTenantFidoEnabled_def SetTenantBranding_def set_tenant_def
    SetTenantOwner_def put_tenant_def CreateIdentityAnchor_def DeleteIdentityAnchor_def PutClient_def DeleteClient_def
    CreateTransactionType_def DeleteTransactionType_def CreateMCPServer_def SetMCPServerEnabled_def DeleteMCPServer_def
    CreateTrustedIDP_def SetTrustedIDPEnabled_def DeleteTrustedIDP_def UpsertFlow_def DeleteFlow_def Let_def typed_apart
    split: option.splits if_splits prod.splits)

section \<open>Histories\<close>

text \<open>
  C14. Through any history of requests to authentication-service, core routes and hosted pages alike,
  whatever they carry and whichever storage calls fail, the storage stays well typed (rows under their
  keys, valid risk levels and token types, one user per email and tenant) and the registry well formed:
  tables are keyed by their rows, an anchor value identifies one identity of a tenant, a resource is
  authorised and an issuer trusted at most once per tenant, and at most one flow per designation is enabled.
\<close>

theorem service_keeps_its_storage_well_formed:
  assumes "authn_typed (hs_store h)" "registry_wf (hs_store h)"
  shows "authn_typed (hs_store (site_run d evs h)) \<and> registry_wf (hs_store (site_run d evs h))"
  by (intro conjI typed_site.site_runs_keep registry.site_runs_keep assms) (simp_all add: fits_def list_all_iff split_beta)

lemma demo_site_wf: "authn_typed demo_site_store" "registry_wf demo_site_store"
  by code_simp+

theorem service_keeps_its_storage_well_formed_witness:
  "let h = site_run demo_site [(demo_authn_env 5, Hosted (WOwner OPhoneLogin demo_owner_jar (Some [(''enabled'', ''true'')])))] demo_hosted
   in authn_typed (hs_store h) \<and> registry_wf (hs_store h)"
  unfolding Let_def by (rule service_keeps_its_storage_well_formed) (simp_all add: demo_hosted_store demo_site_wf)

end
