(* ===== verification/AuthnOwnerProps.thy ===== *)
theory AuthnOwnerProps
  imports AuthnRegistry
begin

text \<open>
  Who may act on a workspace, and on which rows: the gate of the owner's dashboard, the isolation of the
  other tenants, and the shape of workspace names.
\<close>

section \<open>What belongs to the other tenants\<close>

definition foreign :: "('r \<Rightarrow> string) \<Rightarrow> string \<Rightarrow> 'r table \<Rightarrow> 'r list" where
  "foreign rtenant t m = filter (\<lambda>r. rtenant r \<noteq> t) (tab_rows m)"

record others =
  ot_users :: "User list"
  ot_sessions :: "Session list"
  ot_tenants :: "Tenant list"
  ot_clients :: "OIDCClient list"
  ot_anchors :: "IdentityAnchor list"
  ot_types :: "TransactionType list"
  ot_servers :: "MCPServer list"
  ot_idps :: "TrustedIDP list"
  ot_flows :: "FlowDefinition list"
  ot_tokens :: "Token table"
  ot_codes :: "AuthCode table"
  ot_staff :: "StaffUser table"
  ot_roles :: "string list table"

text \<open>Every row of another tenant, and the tables that belong to no tenant's owner.\<close>

definition others_of :: "string \<Rightarrow> authn_store \<Rightarrow> others" where
  "others_of t s =
     \<lparr>ot_users = foreign us_TenantID t (at_users s), ot_sessions = foreign ss_TenantID t (at_sessions s),
      ot_tenants = foreign tn_ID t (at_tenants s), ot_clients = foreign oc_TenantID t (at_clients s),
      ot_anchors = foreign an_TenantID t (at_anchors s), ot_types = foreign tt_TenantID t (at_txnTypes s),
      ot_servers = foreign mc_TenantID t (at_mcpSrv s), ot_idps = foreign ti_TenantID t (at_trustIDPs s),
      ot_flows = foreign fd_TenantID t (at_flows s), ot_tokens = at_tokens s, ot_codes = at_codes s,
      ot_staff = at_staffUsr s, ot_roles = at_staffRol s\<rparr>"

lemma foreign_put: "rtenant r = t \<Longrightarrow> (\<And>old. tab_get m k = Some old \<Longrightarrow> rtenant old = t) \<Longrightarrow>
    foreign rtenant t (tab_put k r m) = foreign rtenant t m"
  unfolding foreign_def by (rule tab_rows_put_unselected) auto

lemma foreign_del: "tab_wf rid m \<Longrightarrow> tab_get m k = Some old \<Longrightarrow> rtenant old = t \<Longrightarrow>
    foreign rtenant t (tab_del k m) = foreign rtenant t m"
  unfolding foreign_def by (rule tab_rows_del_unselected) (auto simp: tab_wf_def)

lemmas foreign_rules = foreign_put foreign_del

definition spares :: "string \<Rightarrow> authn_store \<Rightarrow> authn_store \<Rightarrow> bool" where
  "spares t s s' \<longleftrightarrow> others_of t s' = others_of t s"

lemma spares_refl [simp]: "spares t s s"
  by (simp add: spares_def)

lemma spares_trans: "spares t s s' \<Longrightarrow> spares t s' s'' \<Longrightarrow> spares t s s''"
  by (simp add: spares_def)

section \<open>Writes under a tenant\<close>

lemma spares_tenant: "registry_wf s \<Longrightarrow> (\<And>r. tn_ID (f r) = tn_ID r) \<Longrightarrow> set_tenant f t s = Some s' \<Longrightarrow> spares t s s'"
  by (auto simp: set_tenant_def GetTenant_def spares_def others_of_def registry_wf_def wf_got intro!: foreign_rules split: option.splits)

lemmas tenant_switch_defs = SetTenantPhoneLogin_def SetTenantMDLEnroll_def SetTenantFidoEnabled_def SetTenantBranding_def

lemma spares_switch:
  "registry_wf s \<Longrightarrow> SetTenantPhoneLogin t b s = Some s' \<Longrightarrow> spares t s s'"
  "registry_wf s \<Longrightarrow> SetTenantMDLEnroll t b s = Some s' \<Longrightarrow> spares t s s'"
  "registry_wf s \<Longrightarrow> SetTenantFidoEnabled t b s = Some s' \<Longrightarrow> spares t s s'"
  "registry_wf s \<Longrightarrow> SetTenantBranding t br s = Some s' \<Longrightarrow> spares t s s'"
  by (auto simp: tenant_switch_defs elim!: spares_tenant [rotated 2])

lemma spares_delete:
  "registry_wf s \<Longrightarrow> DeleteIdentityAnchor t k s = Some s' \<Longrightarrow> spares t s s'"
  "registry_wf s \<Longrightarrow> DeleteMCPServer t k s = Some s' \<Longrightarrow> spares t s s'"
  "registry_wf s \<Longrightarrow> DeleteTrustedIDP t k s = Some s' \<Longrightarrow> spares t s s'"
  "registry_wf s \<Longrightarrow> DeleteFlow t k s = Some s' \<Longrightarrow> spares t s s'"
  by (auto simp: DeleteIdentityAnchor_def DeleteMCPServer_def DeleteTrustedIDP_def DeleteFlow_def GetMCPServer_def GetTrustedIDP_def
      GetFlow_def own_row_Some spares_def others_of_def registry_wf_def intro!: foreign_del split: option.splits)

lemma spares_toggle:
  "registry_wf s \<Longrightarrow> SetMCPServerEnabled t k b s = Some s' \<Longrightarrow> spares t s s'"
  "registry_wf s \<Longrightarrow> SetTrustedIDPEnabled t k b s = Some s' \<Longrightarrow> spares t s s'"
  by (auto simp: SetMCPServerEnabled_def SetTrustedIDPEnabled_def GetMCPServer_def GetTrustedIDP_def
      own_row_Some spares_def others_of_def intro!: foreign_put split: option.splits)

text \<open>A transaction type is stored under its tenant and name, with a zero byte in between.\<close>

lemma ttKey_tenant:
  "CHR 0x00 \<notin> set t \<Longrightarrow> CHR 0x00 \<notin> set t' \<Longrightarrow> ttKey t n = ttKey t' n' \<Longrightarrow> t = t'"
proof (induction t arbitrary: t')
  case Nil
  then show ?case by (cases t') (auto simp: ttKey_def)
next
  case (Cons c t)
  then show ?case by (cases t') (auto simp: ttKey_def)
qed

definition zero_free :: "authn_store \<Rightarrow> bool" where
  "zero_free s \<longleftrightarrow> list_all (\<lambda>tt. CHR 0x00 \<notin> set (tt_TenantID tt)) (tab_rows (at_txnTypes s)) \<and>
     list_all (\<lambda>t. CHR 0x00 \<notin> set (tn_ID t)) (tab_rows (at_tenants s))"

lemma type_row_tenant:
  assumes "registry_wf s" "zero_free s" "CHR 0x00 \<notin> set t" "tab_get (at_txnTypes s) (ttKey t n) = Some tt"
  shows "tt_TenantID tt = t"
proof -
  have wf: "tab_wf (\<lambda>tt. ttKey (tt_TenantID tt) (tt_Name tt)) (at_txnTypes s)" using assms(1) by (simp add: registry_wf_def)
  have "tt \<in> set (tab_rows (at_txnTypes s))" "ttKey (tt_TenantID tt) (tt_Name tt) = ttKey t n"
    using tab_wf_get [OF wf, of "ttKey t n" tt] assms(4) by simp_all
  then show ?thesis using assms(2,3) by (auto simp: zero_free_def list_all_iff intro: ttKey_tenant)
qed

lemma spares_types:
  assumes "registry_wf s" "zero_free s" "CHR 0x00 \<notin> set t"
  shows "CreateTransactionType tt s = Inr s' \<Longrightarrow> spares (tt_TenantID tt) s s'"
    "DeleteTransactionType t n s = Some s' \<Longrightarrow> spares t s s'"
proof -
  show "CreateTransactionType tt s = Inr s' \<Longrightarrow> spares (tt_TenantID tt) s s'"
    by (auto simp: CreateTransactionType_def Let_def spares_def others_of_def intro!: foreign_put split: if_splits)
  have wf: "tab_wf (\<lambda>tt. ttKey (tt_TenantID tt) (tt_Name tt)) (at_txnTypes s)" using assms(1) by (simp add: registry_wf_def)
  show "DeleteTransactionType t n s = Some s' \<Longrightarrow> spares t s s'"
    by (auto simp: DeleteTransactionType_def GetTransactionType_def spares_def others_of_def
        intro!: foreign_del [OF wf] type_row_tenant [OF assms] split: option.splits)
qed

text \<open>Rows with a fresh id.\<close>

lemma spares_create:
  "CreateMCPServer m s = Inr s' \<Longrightarrow> tab_get (at_mcpSrv s) (mc_ID m) = None \<Longrightarrow> spares (mc_TenantID m) s s'"
  "CreateTrustedIDP p s = Inr s' \<Longrightarrow> tab_get (at_trustIDPs s) (ti_ID p) = None \<Longrightarrow> spares (ti_TenantID p) s s'"
  "CreateIdentityAnchor a s = Inr s' \<Longrightarrow> tab_get (at_anchors s) (an_ID a) = None \<Longrightarrow> spares (an_TenantID a) s s'"
  by (auto simp: CreateMCPServer_def CreateTrustedIDP_def CreateIdentityAnchor_def spares_def others_of_def intro!: foreign_put split: if_splits)

lemma spares_flow:
  assumes "fd_TenantID f = t" "\<And>g. tab_get (at_flows s) (fd_ID f) = Some g \<Longrightarrow> fd_TenantID g = t"
  shows "spares t s (UpsertFlow now f s)"
proof -
  let ?g = "\<lambda>Q. map (\<lambda>(k, g). (k, if Q k g then g\<lparr>fd_Enabled := False\<rparr> else g)) (at_flows s)"
  have same: "foreign fd_TenantID t (?g Q) = foreign fd_TenantID t (at_flows s)"
    if "\<And>k g. Q k g \<Longrightarrow> fd_TenantID g = t" for Q
  proof -
    have "filter (\<lambda>r. fd_TenantID r \<noteq> t) (map snd (map (\<lambda>(k, g). (k, if Q k g then g\<lparr>fd_Enabled := False\<rparr> else g)) m)) =
        filter (\<lambda>r. fd_TenantID r \<noteq> t) (map snd m)" for m
      by (induction m) (auto split: if_splits dest: that)
    then show ?thesis by (simp add: foreign_def tab_rows_def)
  qed
  have got: "fd_TenantID g = t" if "tab_get (?g Q) (fd_ID f) = Some g" for Q g
  proof -
    have "map_option fd_TenantID (tab_get (map (\<lambda>(k, g). (k, if Q k g then g\<lparr>fd_Enabled := False\<rparr> else g)) m) i) =
        map_option fd_TenantID (tab_get m i)" for m i
      by (induction m) (auto simp: tab_get_def)
    from this [of "at_flows s" "fd_ID f"] show ?thesis using assms(2) that by (auto simp: map_option_case split: option.splits)
  qed
  let ?rival = "\<lambda>k g. k \<noteq> fd_ID f \<and> fd_TenantID g = fd_TenantID f \<and> fd_Designation g = fd_Designation f \<and> fd_Enabled g"
  have put: "foreign fd_TenantID t (tab_put (fd_ID f) r (?g ?rival)) = foreign fd_TenantID t (at_flows s)"
    "foreign fd_TenantID t (tab_put (fd_ID f) r (at_flows s)) = foreign fd_TenantID t (at_flows s)" if "fd_TenantID r = t" for r
  proof -
    have "foreign fd_TenantID t (?g ?rival) = foreign fd_TenantID t (at_flows s)" by (rule same) (simp add: assms(1))
    moreover have "foreign fd_TenantID t (tab_put (fd_ID f) r (?g ?rival)) = foreign fd_TenantID t (?g ?rival)"
    proof (rule foreign_put)
      show "fd_TenantID old = t" if "tab_get (?g ?rival) (fd_ID f) = Some old" for old by (rule got [OF that])
    qed (rule that)
    ultimately show "foreign fd_TenantID t (tab_put (fd_ID f) r (?g ?rival)) = foreign fd_TenantID t (at_flows s)"
      by (rule trans [rotated])
    show "foreign fd_TenantID t (tab_put (fd_ID f) r (at_flows s)) = foreign fd_TenantID t (at_flows s)"
      by (rule foreign_put [of fd_TenantID r t, OF that assms(2)])
  qed
  define created where "created = (if \<not> IsZero (fd_CreatedAt f) then fd_CreatedAt f
    else case tab_get (at_flows s) (fd_ID f) of Some existing \<Rightarrow> fd_CreatedAt existing | None \<Rightarrow> now)"
  have upsert: "UpsertFlow now f s =
      s\<lparr>at_flows := tab_put (fd_ID f) (f\<lparr>fd_CreatedAt := created, fd_UpdatedAt := now\<rparr>)
        (if fd_Enabled f then ?g ?rival else at_flows s)\<rparr>"
    by (simp add: UpsertFlow_def Let_def flip: created_def)
  show ?thesis
    unfolding spares_def others_of_def upsert by (simp add: put [unfolded assms(1)] assms(1))
qed

lemma spares_session:
  "AuthnModel.UpdateSession now x s = Some (y, s') \<Longrightarrow> ss_TenantID x = t \<Longrightarrow> spares t s s'"
  by (auto simp: AuthnModel.UpdateSession_def AuthnModel.CreateSession_def own_row_Some Let_def spares_def others_of_def
      intro!: foreign_put split: option.splits)

lemma spares_revoke: "spares t s (revokeSession e t i s)"
  by (auto simp: revokeSession_def AuthnModel.GetSession_def own_row_Some intro: spares_session split: option.split)

lemma spares_end: "ss_TenantID x = t \<Longrightarrow> spares t s (end_session e n x s)"
  by (auto simp: end_session_def intro: spares_session split: option.split)

lemma spares_client:
  assumes "registry_wf s" "oc_TenantID c = t" "c \<in> set (tab_rows (at_clients s))" "oc_ClientID c' = oc_ClientID c" "oc_TenantID c' = t"
  shows "spares t s (PutClient c' s)"
proof -
  have wf: "tab_wf oc_ClientID (at_clients s)" using assms(1) by (simp add: registry_wf_def)
  have "tab_get (at_clients s) (oc_ClientID c) = Some c" using tab_wf_get [OF wf] assms(3) by simp
  then show ?thesis using assms(2,4,5) by (auto simp: PutClient_def spares_def others_of_def intro!: foreign_put)
qed

lemma spares_drop: "registry_wf s \<Longrightarrow> spares t s (drop_anchors e t u ty s)"
proof -
  let ?f = "\<lambda>a s. if an_UserID a = u \<and> an_Type a = ty
      then (case try_op (op_fails e ADeleteAnchor) (DeleteIdentityAnchor t (an_ID a) s) of None \<Rightarrow> s | Some s' \<Rightarrow> s') else s"
  have "registry_wf (fold ?f as s) \<and> spares t s (fold ?f as s)" if "registry_wf s" for as s
    using that
  proof (induction as arbitrary: s)
    case (Cons a as)
    have "registry_wf (?f a s) \<and> spares t s (?f a s)"
      using Cons.prems by (auto intro: registry_delete(1) spares_delete(1) split: option.split)
    then show ?case using Cons.IH [of "?f a s"] by (auto intro: spares_trans)
  qed simp
  then show "registry_wf s \<Longrightarrow> spares t s (drop_anchors e t u ty s)" by (auto simp: drop_anchors_def)
qed

lemma dropped_anchors: "tab_get (at_anchors s) i = None \<Longrightarrow> tab_get (at_anchors (drop_anchors e t u ty s)) i = None"
proof -
  let ?f = "\<lambda>a s. if an_UserID a = u \<and> an_Type a = ty
      then (case try_op (op_fails e ADeleteAnchor) (DeleteIdentityAnchor t (an_ID a) s) of None \<Rightarrow> s | Some s' \<Rightarrow> s') else s"
  have "tab_get (at_anchors (fold ?f as s)) i = None" if "tab_get (at_anchors s) i = None" for as s
    using that
    by (induction as arbitrary: s) (auto simp: DeleteIdentityAnchor_def table_simps split: option.splits)
  then show "tab_get (at_anchors s) i = None \<Longrightarrow> tab_get (at_anchors (drop_anchors e t u ty s)) i = None"
    by (auto simp: drop_anchors_def)
qed

lemma spares_anchor:
  assumes "registry_wf s" "tab_get (at_anchors s) (''ian_'' @ new_id e 6) = None" "set_anchor e t u ty v s = (ok, s')"
  shows "spares t s s'"
proof -
  let ?a = "verified_anchor e 6 6 t u ty v" and ?s = "drop_anchors e t u ty s"
  have "tab_get (at_anchors ?s) (an_ID ?a) = None"
    using assms(2) by (simp add: verified_anchor_def dropped_anchors)
  then have "spares t ?s s1" if "CreateIdentityAnchor ?a ?s = Inr s1" for s1
    using spares_create(3) [OF that] by (simp add: verified_anchor_def)
  with spares_drop [OF assms(1), of t e u ty] assms(3) show ?thesis
    by (auto simp: set_anchor_def Let_def split: if_splits sum.splits intro: spares_trans)
qed

section \<open>The gate\<close>

text \<open>What the cookie of an owner proves.\<close>

lemma live_session: "registry_wf s \<Longrightarrow> live_in e n t i s = Some x \<Longrightarrow> ss_TenantID x = t \<and> ss_InvalidatedAt x = None \<and> now_at e n \<le> ss_ExpiresAt x"
  by (auto simp: live_in_def AuthnModel.GetSession_def own_row_Some split: option.splits if_splits)

lemma owner_cookie_facts:
  assumes "registry_wf s" "owner_of_cookie e v s = Some ow"
  shows "ss_TenantID (ow_Session ow) = tn_ID (ow_Tenant ow)" "us_TenantID (ow_User ow) = tn_ID (ow_Tenant ow)"
    "us_Email (ow_User ow) = tn_OwnerEmail (ow_Tenant ow)" "GetTenant (tn_ID (ow_Tenant ow)) s = Some (ow_Tenant ow)"
    "ss_UserID (ow_Session ow) = us_ID (ow_User ow)" "ss_InvalidatedAt (ow_Session ow) = None"
    "now_at e 0 \<le> ss_ExpiresAt (ow_Session ow)" "ow_Client ow = tenantClient e (tn_ID (ow_Tenant ow)) s"
proof -
  obtain t x tn u where got: "cookie_session e v s = Some (t, x)" "tenant_row e t s = Some tn"
      "GetUser t (ss_UserID x) s = Some u" "us_Email u = tn_OwnerEmail tn"
    and ow: "ow = \<lparr>ow_Session = x, ow_User = u, ow_Tenant = tn, ow_Client = tenantClient e t s\<rparr>"
    using assms(2) by (auto simp: owner_of_cookie_def split: option.splits prod.splits if_splits)
  have x: "ss_TenantID x = t \<and> ss_InvalidatedAt x = None \<and> now_at e 0 \<le> ss_ExpiresAt x"
    using got(1) live_session [OF assms(1)] by (auto simp: cookie_session_def split: option.splits prod.splits if_splits)
  have tn: "GetTenant t s = Some tn" using got(2) by (auto simp: tenant_row_def split: if_splits)
  have id: "tn_ID tn = t" using tn assms(1) by (auto simp: GetTenant_def registry_wf_def wf_got)
  have u: "us_TenantID u = t \<and> us_ID u = ss_UserID x"
    using got(3) assms(1) by (auto simp: GetUser_def own_row_Some registry_wf_def wf_got)
  show "ss_TenantID (ow_Session ow) = tn_ID (ow_Tenant ow)" "us_TenantID (ow_User ow) = tn_ID (ow_Tenant ow)"
    "us_Email (ow_User ow) = tn_OwnerEmail (ow_Tenant ow)" "GetTenant (tn_ID (ow_Tenant ow)) s = Some (ow_Tenant ow)"
    "ss_UserID (ow_Session ow) = us_ID (ow_User ow)" "ss_InvalidatedAt (ow_Session ow) = None"
    "now_at e 0 \<le> ss_ExpiresAt (ow_Session ow)" "ow_Client ow = tenantClient e (tn_ID (ow_Tenant ow)) s"
    using x tn id u got(4) by (simp_all add: ow)
qed

lemma owner_via_cookie: "currentOwner e jar s = (Some ow, cs) \<Longrightarrow> \<exists>v. owner_of_cookie e v s = Some ow"
  by (auto simp: currentOwner_def Let_def split: if_splits option.splits)

lemma find_row: "find P xs = Some x \<Longrightarrow> x \<in> set xs \<and> P x"
  by (induction xs) (auto split: if_splits)

lemma tenant_client_row: "tenantClient e t s = Some c \<Longrightarrow> oc_TenantID c = t \<and> c \<in> set (tab_rows (at_clients s))"
  by (auto simp: tenantClient_def ListClients_def dest!: find_row split: if_splits)

section \<open>The operations of the dashboard\<close>

definition mild :: "string \<Rightarrow> authn_store \<Rightarrow> 'w served \<Rightarrow> bool" where
  "mild t s x \<longleftrightarrow> spares t s (hs_store (snd (snd x)))"

lemma mild_reply: "spares t s (hs_store h) \<Longrightarrow> mild t s (reply, cs, h)"
  by (simp add: mild_def)

lemma mild_owner:
  "currentOwner e jar (hs_store h) = (Some ow, cs) \<Longrightarrow> mild t s (act ow h) \<Longrightarrow> mild t s (as_owner refusal e jar act h)"
  by (simp add: as_owner_def)

lemma mild_parsed: "spares t s (hs_store h) \<Longrightarrow> (\<And>f. mild t s (act f h)) \<Longrightarrow> mild t s (parsed back form act h)"
  by (simp add: parsed_def mild_reply split: option.split)

lemma mild_outcome:
  "(\<And>s'. res = Some s' \<Longrightarrow> spares t (hs_store h) s') \<Longrightarrow> mild t (hs_store h) (must m back res h)"
  "(\<And>s'. res = Some s' \<Longrightarrow> spares t (hs_store h) s') \<Longrightarrow> mild t (hs_store h) (unless_missing m back fails res h)"
  "mild t (hs_store h) (refuse m back h)"
  "(\<And>s'. res' = Inr s' \<Longrightarrow> spares t (hs_store h) s') \<Longrightarrow> mild t (hs_store h) (add_row taken m back fails res' h)"
  by (auto simp: must_def unless_missing_def refuse_def add_row_def mild_def split: option.split sum.split)

lemma mild_by_id:
  "(\<And>i s'. act i (hs_store h) = Some s' \<Longrightarrow> spares t (hs_store h) s') \<Longrightarrow> mild t (hs_store h) (by_id m back fails act f h)"
  by (auto simp: by_id_def intro!: mild_outcome)

lemma tried_spares: "(\<And>s'. r = Some s' \<Longrightarrow> spares t s s') \<Longrightarrow> try_op fails r = Some s' \<Longrightarrow> spares t s s'"
  by (simp split: if_splits)

text \<open>The fresh ids of a request are new to the tables they go into.\<close>

definition fresh_rows :: "authn_env \<Rightarrow> authn_store \<Rightarrow> bool" where
  "fresh_rows e s \<longleftrightarrow>
     tab_get (at_mcpSrv s) (''mcp_'' @ new_id e 1) = None \<and> tab_get (at_trustIDPs s) (''idp_'' @ new_id e 1) = None \<and>
     tab_get (at_flows s) (''flo_'' @ new_id e 1) = None \<and> tab_get (at_anchors s) (''ian_'' @ new_id e 6) = None"

lemma mild_settings:
  assumes "registry_wf (hs_store h)" "currentOwner e jar (hs_store h) = (Some ow, cs)" "t = tn_ID (ow_Tenant ow)"
  shows "mild t (hs_store h) (SetPhoneLogin e jar f h)" "mild t (hs_store h) (SetMDLEnroll e jar f h)"
    "mild t (hs_store h) (SetFido e jar f h)" "mild t (hs_store h) (SetBranding cfg e jar f h)"
  unfolding SetPhoneLogin_def SetMDLEnroll_def SetFido_def SetBranding_def owner_form_def
  using spares_switch [OF assms(1), of t]
  by (auto simp: assms(3) intro!: mild_owner [OF assms(2)] mild_parsed mild_outcome split: option.split if_splits)

lemma mild_catalogue:
  assumes "registry_wf (hs_store h)" "zero_free (hs_store h)" "fresh_rows e (hs_store h)" "CHR 0x00 \<notin> set t"
    "currentOwner e jar (hs_store h) = (Some ow, cs)" "t = tn_ID (ow_Tenant ow)"
  shows "mild t (hs_store h) (CreateTransactionTypeForm e jar f h)" "mild t (hs_store h) (DeleteTransactionTypeForm e jar f h)"
    "mild t (hs_store h) (CreateMCPServerForm cfg e jar f h)" "mild t (hs_store h) (ToggleMCPServer e jar f h)"
    "mild t (hs_store h) (DeleteMCPServerForm e jar f h)" "mild t (hs_store h) (CreateTrustedIDPForm cfg e jar f h)"
    "mild t (hs_store h) (ToggleTrustedIDP e jar f h)" "mild t (hs_store h) (DeleteTrustedIDPForm e jar f h)"
proof -
  note enter = mild_owner [OF assms(5)] mild_parsed mild_outcome mild_by_id
  note own = assms(6) [symmetric]
  have typed: "spares t (hs_store h) s'" if "CreateTransactionType tt (hs_store h) = Inr s'" "tt_TenantID tt = t" for tt s'
    using spares_types(1) [OF assms(1,2,4) that(1)] that(2) by simp
  show "mild t (hs_store h) (CreateTransactionTypeForm e jar f h)"
    unfolding CreateTransactionTypeForm_def owner_only_def Let_def
    by (auto simp: own intro!: enter elim!: typed)
  show "mild t (hs_store h) (DeleteTransactionTypeForm e jar f h)"
    unfolding DeleteTransactionTypeForm_def owner_only_def Let_def
    by (auto simp: own intro!: enter intro: spares_types(2) [OF assms(1,2,4)])
  have added: "CreateMCPServer m (hs_store h) = Inr s' \<Longrightarrow> mc_TenantID m = t \<Longrightarrow> mc_ID m = ''mcp_'' @ new_id e 1 \<Longrightarrow>
        spares t (hs_store h) s'"
    "CreateTrustedIDP p (hs_store h) = Inr s' \<Longrightarrow> ti_TenantID p = t \<Longrightarrow> ti_ID p = ''idp_'' @ new_id e 1 \<Longrightarrow>
        spares t (hs_store h) s'" for m p s'
    using assms(3) spares_create(1,2) [of _ "hs_store h" s'] by (auto simp: fresh_rows_def simp del: append.simps)
  show "mild t (hs_store h) (CreateMCPServerForm cfg e jar f h)"
    unfolding CreateMCPServerForm_def owner_only_def Let_def
    by (auto simp: own simp del: append.simps intro!: enter elim!: added)
  show "mild t (hs_store h) (CreateTrustedIDPForm cfg e jar f h)"
    unfolding CreateTrustedIDPForm_def owner_only_def Let_def
    by (auto simp: own simp del: append.simps intro!: enter elim!: added)
  show "mild t (hs_store h) (ToggleMCPServer e jar f h)" "mild t (hs_store h) (DeleteMCPServerForm e jar f h)"
    "mild t (hs_store h) (ToggleTrustedIDP e jar f h)" "mild t (hs_store h) (DeleteTrustedIDPForm e jar f h)"
    unfolding ToggleMCPServer_def DeleteMCPServerForm_def ToggleTrustedIDP_def DeleteTrustedIDPForm_def owner_only_def
    using spares_toggle [OF assms(1), of t] spares_delete [OF assms(1), of t] by (auto simp: own intro!: enter)
qed

lemma mild_identities:
  assumes "registry_wf (hs_store h)" "fresh_rows e (hs_store h)" "currentOwner e jar (hs_store h) = (Some ow, cs)"
    "t = tn_ID (ow_Tenant ow)"
  shows "mild t (hs_store h) (SetUserPhone v e jar f h)" "mild t (hs_store h) (RecordUserMDL (hd_mdl d) e jar f h)"
    "mild t (hs_store h) (RemoveIdentity e jar f h)"
proof -
  note own = assms(4) [symmetric]
  have anchored: "spares t (hs_store h) s'" if "set_anchor e t u ty w (hs_store h) = (ok, s')" for u ty w ok s'
    by (rule spares_anchor [OF assms(1) _ that]) (use assms(2) in \<open>simp add: fresh_rows_def\<close>)
  have phone: "mild t (hs_store h) (set_user_phone e t u m h')" if "hs_store h' = hs_store h" for u m h'
    using that anchored by (auto simp: set_user_phone_def mild_def refuse_def split: prod.split)
  show "mild t (hs_store h) (SetUserPhone v e jar f h)"
    unfolding SetUserPhone_def owner_form_def
    by (rule mild_owner [OF assms(3)], rule mild_parsed)
      (auto simp: own Let_def refuse_def intro!: mild_reply phone dest: ask_world_pair split: list.split option.split prod.split)
  have checked: "spares t (hs_store h) (hs_store h')"
    "storeMDLAnchor e t u q (hs_store h') = (r, s') \<Longrightarrow> spares t (hs_store h) s'"
    if "hd_mdl d = Some mdl" "mdl token t' now h = (p, h')" for mdl token t' now p h' u q r s'
    using hd_mdl_store [OF that] anchored by (auto simp: storeMDLAnchor_def split: prod.splits if_splits)
  show "mild t (hs_store h) (RecordUserMDL (hd_mdl d) e jar f h)"
    unfolding RecordUserMDL_def
    by (rule mild_owner [OF assms(3)])
      (auto simp: own Let_def refuse_def intro!: mild_parsed mild_reply split: option.split prod.split, (rule checked, assumption+)+)
  show "mild t (hs_store h) (RemoveIdentity e jar f h)"
    unfolding RemoveIdentity_def owner_form_def
    by (rule mild_owner [OF assms(3)], rule mild_parsed)
      (auto simp: own Let_def intro!: mild_outcome spares_delete(1) [OF assms(1)])
qed

lemma mild_clients:
  assumes "registry_wf (hs_store h)" "currentOwner e jar (hs_store h) = (Some ow, cs)" "t = tn_ID (ow_Tenant ow)"
  shows "mild t (hs_store h) (OwnerRevokeSession e jar f h)" "mild t (hs_store h) (RegenerateSecret cfg e jar h)"
    "mild t (hs_store h) (UpdateClient cfg e jar f h)" "mild t (hs_store h) (DownloadQuickstart cfg e jar asset h)"
    "mild t (hs_store h) (OwnerLogout e jar h)"
proof -
  obtain v where v: "owner_of_cookie e v (hs_store h) = Some ow" using owner_via_cookie [OF assms(2)] by blast
  note facts = owner_cookie_facts [OF assms(1) v]
  note own = assms(3) [symmetric]
  have client: "spares t (hs_store h) (PutClient c' (hs_store h))"
    if "ow_Client ow = Some c" "oc_ClientID c' = oc_ClientID c" "oc_TenantID c' = oc_TenantID c" for c c'
  proof -
    have "oc_TenantID c = t \<and> c \<in> set (tab_rows (at_clients (hs_store h)))"
      using tenant_client_row facts(8) that(1) assms(3) by simp
    then show ?thesis using spares_client [OF assms(1), of c t c'] that by simp
  qed
  have settings: "spares t (hs_store h) (PutClient (c\<lparr>oc_RedirectURIs := rs, oc_WebOrigins := os\<rparr>) (hs_store h))"
    if "ow_Client ow = Some c" for c rs os
    by (rule client [OF that]) simp_all
  show "mild t (hs_store h) (OwnerRevokeSession e jar f h)"
    unfolding OwnerRevokeSession_def owner_only_def Let_def
    by (auto simp: own intro!: mild_owner [OF assms(2)] mild_parsed mild_outcome spares_revoke)
  show "mild t (hs_store h) (RegenerateSecret cfg e jar h)"
    unfolding RegenerateSecret_def
    by (rule mild_owner [OF assms(2)]) (auto intro!: mild_outcome mild_reply client split: option.split)
  show "mild t (hs_store h) (UpdateClient cfg e jar f h)"
    unfolding UpdateClient_def Let_def
    by (rule mild_owner [OF assms(2)])
      (auto intro!: mild_parsed mild_outcome split: option.split if_splits, rule settings, assumption)
  show "mild t (hs_store h) (DownloadQuickstart cfg e jar asset h)"
    unfolding DownloadQuickstart_def
    by (rule mild_owner [OF assms(2)]) (auto intro!: mild_outcome mild_reply split: option.split)
  show "mild t (hs_store h) (OwnerLogout e jar h)"
    using facts(1) by (simp add: OwnerLogout_def assms(2,3) mild_def spares_end)
qed

lemma mild_flows:
  assumes "registry_wf (hs_store h)" "fresh_rows e (hs_store h)" "currentOwner e jar (hs_store h) = (Some ow, cs)"
    "t = tn_ID (ow_Tenant ow)"
  shows "mild t (hs_store h) (ApplyFlowTemplate eng e jar h)" "mild t (hs_store h) (SaveFlow eng cfg e jar f h)"
    "mild t (hs_store h) (SetFlowEnabled eng e jar f h)" "mild t (hs_store h) (ValidateFlow eng e jar f h)"
    "mild t (hs_store h) (DeleteFlowForm e jar f h)"
proof -
  note own = assms(4) [symmetric]
  have put: "mild t (hs_store h) (put_flow e m fl h)"
    if "fd_TenantID fl = t" "\<And>g. tab_get (at_flows (hs_store h)) (fd_ID fl) = Some g \<Longrightarrow> fd_TenantID g = t" for m fl
    unfolding put_flow_def using spares_flow [OF that] by (auto intro!: mild_outcome(1))
  have fresh: "tab_get (at_flows (hs_store h)) (''flo_'' @ new_id e 1) = None" using assms(2) by (simp add: fresh_rows_def)
  have ours: "fd_TenantID g = t" if "GetFlow t i (hs_store h) = Some fl" "tab_get (at_flows (hs_store h)) i = Some g" for i fl g
    using that by (simp add: GetFlow_def own_row_Some)
  have named: "fd_TenantID g = t" if "flow_id e t i (hs_store h) = Some j" "tab_get (at_flows (hs_store h)) j = Some g" for i j g
    using that fresh ours by (auto simp: flow_id_def split: if_splits)
  show "mild t (hs_store h) (ApplyFlowTemplate eng e jar h)"
    unfolding ApplyFlowTemplate_def Let_def
    by (rule mild_owner [OF assms(3)])
      (use fresh in \<open>auto simp: own RiskAdaptiveFlowDefinition_def intro!: mild_reply put split: option.split\<close>)
  show "mild t (hs_store h) (SaveFlow eng cfg e jar f h)"
    unfolding SaveFlow_def owner_only_def Let_def
    by (rule mild_owner [OF assms(3)], rule mild_parsed)
      (auto simp: own intro!: mild_reply put dest: named split: option.split)
  have stored: "mild t (hs_store h) (put_flow e m (fl\<lparr>fd_Enabled := b\<rparr>) h)" if "GetFlow t i (hs_store h) = Some fl" for m i fl b
  proof (rule put)
    have row: "tab_get (at_flows (hs_store h)) i = Some fl" "fd_TenantID fl = t"
      using that by (auto simp: GetFlow_def own_row_Some)
    have id: "fd_ID fl = i" by (rule wf_got [OF _ row(1)]) (use assms(1) in \<open>simp add: registry_wf_def\<close>)
    show "fd_TenantID (fl\<lparr>fd_Enabled := b\<rparr>) = t" using row(2) by simp
    show "fd_TenantID g = t" if "tab_get (at_flows (hs_store h)) (fd_ID (fl\<lparr>fd_Enabled := b\<rparr>)) = Some g" for g
      using that row id by simp
  qed
  show "mild t (hs_store h) (SetFlowEnabled eng e jar f h)"
    unfolding SetFlowEnabled_def owner_only_def
    by (rule mild_owner [OF assms(3)], rule mild_parsed)
      (auto simp: own intro!: mild_reply intro: stored split: option.split if_splits)
  show "mild t (hs_store h) (ValidateFlow eng e jar f h)"
    unfolding ValidateFlow_def owner_only_def
    by (rule mild_owner [OF assms(3)], rule mild_parsed)
      (auto intro!: mild_reply split: option.split)
  show "mild t (hs_store h) (DeleteFlowForm e jar f h)"
    unfolding DeleteFlowForm_def owner_only_def
    by (rule mild_owner [OF assms(3)], rule mild_parsed)
      (auto simp: own intro!: mild_outcome spares_delete(4) [OF assms(1)])
qed

section \<open>Isolation of the workspaces\<close>

lemma turned_away:
  assumes "currentOwner e jar (hs_store h) = (None, cs)"
  shows "hs_store (snd (snd (owner_handler d e act jar f h))) = hs_store h"
  by (cases act)
    (simp_all add: OwnerSwitch_def OwnerLogout_def SetPhoneLogin_def SetMDLEnroll_def SetFido_def SetBranding_def SetUserPhone_def
      RecordUserMDL_def RemoveIdentity_def CreateTransactionTypeForm_def DeleteTransactionTypeForm_def CreateMCPServerForm_def
      ToggleMCPServer_def DeleteMCPServerForm_def CreateTrustedIDPForm_def ToggleTrustedIDP_def DeleteTrustedIDPForm_def
      OwnerRevokeSession_def RegenerateSecret_def UpdateClient_def DownloadQuickstart_def ApplyFlowTemplate_def SaveFlow_def
      SetFlowEnabled_def ValidateFlow_def DeleteFlowForm_def owner_form_def owner_only_def as_owner_def assms)


lemma demo_fresh: "fresh_rows (demo_authn_env 5) demo_site_store" "zero_free demo_site_store"
  by code_simp+


section \<open>Workspace names\<close>

definition slug_byte :: "char \<Rightarrow> bool" where
  "slug_byte c \<longleftrightarrow> slug_char c \<or> c = CHR ''-''"

definition no_runs :: "string \<Rightarrow> bool" where
  "no_runs s \<longleftrightarrow> successively (\<lambda>a b. \<not> (a = CHR ''-'' \<and> b = CHR ''-'')) s"

lemma slug_loop_clean:
  "list_all slug_byte acc \<Longrightarrow> no_runs (rev acc) \<Longrightarrow> (acc \<noteq> [] \<Longrightarrow> hyphen \<longleftrightarrow> hd acc = CHR ''-'') \<Longrightarrow>
   list_all slug_byte (slug_loop acc hyphen s) \<and> no_runs (slug_loop acc hyphen s)"
proof (induction acc hyphen s rule: slug_loop.induct)
  case (2 acc hyphen c s)
  have "\<not> slug_char CHR ''-''" by (simp add: slug_char_def is_digit_def)
  then show ?case using 2
    by (auto simp: slug_byte_def no_runs_def successively_append_iff last_rev)
qed simp

lemma clean_parts:
  "list_all slug_byte (xs @ ys) \<and> no_runs (xs @ ys) \<Longrightarrow> (list_all slug_byte xs \<and> no_runs xs) \<and> list_all slug_byte ys \<and> no_runs ys"
  by (auto simp: no_runs_def successively_append_iff)

lemma part_clean:
  assumes "list_all slug_byte s \<and> no_runs s"
  shows "list_all slug_byte (take n s) \<and> no_runs (take n s)" "list_all slug_byte (trim_hyphens s) \<and> no_runs (trim_hyphens s)"
proof -
  let ?P = "\<lambda>c. c = CHR ''-''"
  show "list_all slug_byte (take n s) \<and> no_runs (take n s)"
    using clean_parts [of "take n s" "drop n s"] assms by simp
  have "list_all slug_byte (dropWhile ?P s) \<and> no_runs (dropWhile ?P s)"
    using clean_parts [of "takeWhile ?P s" "dropWhile ?P s"] assms by simp
  moreover have "r = rev (dropWhile ?P (rev r)) @ rev (takeWhile ?P (rev r))" for r
    by (metis rev_append rev_rev_ident takeWhile_dropWhile_id)
  ultimately show "list_all slug_byte (trim_hyphens s) \<and> no_runs (trim_hyphens s)"
    unfolding trim_hyphens_def Let_def by (metis clean_parts)
qed

lemma trimmed_ends: "trim_hyphens s = [] \<or> hd (trim_hyphens s) \<noteq> CHR ''-'' \<and> last (trim_hyphens s) \<noteq> CHR ''-''"
proof -
  let ?P = "\<lambda>c. c = CHR ''-''"
  define r where "r = dropWhile ?P s"
  define q where "q = dropWhile ?P (rev r)"
  have out: "trim_hyphens s = rev q" by (simp add: trim_hyphens_def Let_def q_def r_def)
  show ?thesis
  proof (cases "q = []")
    case False
    have "hd q \<noteq> CHR ''-''" using hd_dropWhile [of ?P "rev r"] False by (simp add: q_def)
    moreover have "last q = hd r"
    proof -
      have "rev r = takeWhile ?P (rev r) @ q" by (simp add: q_def)
      then have "last (rev r) = last q" using False by (metis last_appendR)
      then show ?thesis using False by (cases r) (auto simp: q_def last_rev)
    qed
    moreover have "r \<noteq> []" using False by (auto simp: q_def)
    then have "hd r \<noteq> CHR ''-''" using hd_dropWhile [of ?P s] by (simp add: r_def)
    ultimately show ?thesis using False by (simp add: out hd_rev last_rev)
  qed (simp add: out)
qed

lemma trim_shorter: "length (trim_hyphens s) \<le> length s"
  unfolding trim_hyphens_def Let_def by (metis (no_types, lifting) length_dropWhile_le length_rev order_trans)

text \<open>
  The name of a workspace is clean whatever the company is called: lower-case letters, digits and
  single hyphens between them, at most 40 bytes.
\<close>

theorem slugs_are_clean:
  "list_all slug_byte (slugify uni s) \<and> no_runs (slugify uni s) \<and> length (slugify uni s) \<le> 40 \<and>
   (slugify uni s = [] \<or> hd (slugify uni s) \<noteq> CHR ''-'' \<and> last (slugify uni s) \<noteq> CHR ''-'')"
proof -
  define out where "out = trim_hyphens (slug_loop [] False (ToLower uni (TrimSpace s)))"
  have out: "list_all slug_byte out \<and> no_runs out"
    unfolding out_def by (rule part_clean(2), rule slug_loop_clean) (simp_all add: no_runs_def)
  have short: "length (trim_hyphens (take maxSlugLen out)) \<le> 40"
    using trim_shorter [of "take maxSlugLen out"] by (simp add: maxSlugLen_def)
  show ?thesis
    using out part_clean(2) [OF part_clean(1) [OF out, of maxSlugLen]] short trimmed_ends [of "take maxSlugLen out"]
      trimmed_ends [of "slug_loop [] False (ToLower uni (TrimSpace s))"]
    by (auto simp: slugify_def Let_def maxSlugLen_def simp flip: out_def)
qed

end
