(* ===== verification/AuthnStaffProps.thy ===== *)
theory AuthnStaffProps
  imports AuthnRegistry
begin

text \<open>
  Who has access to the staff console: the gate of its operations, and the accounts the two lists of
  emails of the configuration set up when the process starts.
\<close>

section \<open>The gate\<close>

fun staff_perm :: "staff_op \<Rightarrow> string" where
  "staff_perm (SDetail t) = ''tenants:read''"
| "staff_perm SOwner = ''tenants:manage_settings''"
| "staff_perm SRevoke = ''tenants:manage_sessions''"
| "staff_perm SRegister = ''tenants:manage_settings''"
| "staff_perm SDeleteClient = ''tenants:manage_settings''"
| "staff_perm SLogout = []"

lemma live_in_Some: "live_in e n t i s = Some x \<Longrightarrow>
    AuthnModel.GetSession t i s = Some x \<and> ss_InvalidatedAt x = None \<and> now_at e n \<le> ss_ExpiresAt x"
  by (auto simp: live_in_def split: option.splits if_splits)

lemma admin_facts:
  assumes "currentAdmin cfg e jar s = (Some ad, cs)"
  shows "\<exists>x u staff. AuthnModel.GetSession adminTenantID (cookieValue jar adminSessionCookie) s = Some x \<and> ss_InvalidatedAt x = None \<and>
      now_at e 0 \<le> ss_ExpiresAt x \<and> GetUser adminTenantID (ss_UserID x) s = Some u \<and> isAllowed cfg (us_Email u) \<and>
      GetStaffUserByEmail (us_Email u) s = Some staff \<and> sf_Active staff \<and> ad_Roles ad = GetStaffUserRoles (sf_ID staff) s"
proof -
  have "admin_of_cookie cfg e (cookieValue jar adminSessionCookie) s = Some ad"
    using assms by (auto simp: currentAdmin_def Let_def split: if_splits option.splits)
  then obtain x u staff where "live_in e 0 adminTenantID (cookieValue jar adminSessionCookie) s = Some x"
      "GetUser adminTenantID (ss_UserID x) s = Some u" "isAllowed cfg (us_Email u)" "GetStaffUserByEmail (us_Email u) s = Some staff"
      "sf_Active staff" "ad_Roles ad = GetStaffUserRoles (sf_ID staff) s"
    by (auto simp: admin_of_cookie_def Let_def split: option.splits if_splits)
  then show ?thesis using live_in_Some by blast
qed

lemma staff_gate:
  assumes "hs_store (snd (snd (as_staff cfg perm e jar act h))) \<noteq> hs_store h"
  shows "\<exists>ad cs. currentAdmin cfg e jar (hs_store h) = (Some ad, cs) \<and> hasPermission (ad_Roles ad) perm"
  using assms by (auto simp: as_staff_def split: prod.splits option.splits if_splits)

lemma staff_handlers: "act \<noteq> SLogout \<Longrightarrow> \<exists>body. staff_handler cfg e act jar f = as_staff cfg (staff_perm act) e jar body"
  by (cases act) (auto simp: TenantDetail_def SetWorkspaceOwner_def AdminRevokeSession_def AdminRegisterClient_def AdminDeleteClient_def)


definition demo_owner_form :: form where
  "demo_owner_form = [(''tenant_id'', ''t2''), (''email'', ''q@x'')]"


section \<open>Accounts at start-up\<close>

definition staff_wf :: "authn_store \<Rightarrow> bool" where
  "staff_wf s \<longleftrightarrow> tab_wf sf_ID (at_staffUsr s) \<and> inj_on sf_Email (set (tab_rows (at_staffUsr s)))"

definition staff_rows :: "authn_store \<Rightarrow> StaffUser set" where
  "staff_rows s = set (tab_rows (at_staffUsr s))"

lemma find_unique: "inj_on f (set xs) \<Longrightarrow> find (\<lambda>u. f u = m) xs = Some u \<longleftrightarrow> u \<in> set xs \<and> f u = m"
  by (induction xs) (auto simp: inj_on_def)

lemma staff_found: "staff_wf s \<Longrightarrow> GetStaffUserByEmail m s = Some u \<longleftrightarrow> u \<in> staff_rows s \<and> sf_Email u = m"
  by (simp add: GetStaffUserByEmail_def staff_rows_def staff_wf_def find_unique)

lemma staff_missing: "GetStaffUserByEmail m s = None \<longleftrightarrow> (\<forall>u \<in> staff_rows s. sf_Email u \<noteq> m)"
  by (auto simp: GetStaffUserByEmail_def staff_rows_def find_None_iff)

lemma put_rows: "tab_wf rid m \<Longrightarrow> x \<in> set (tab_rows (tab_put (rid r) r m)) \<longleftrightarrow> x = r \<or> x \<in> set (tab_rows m) \<and> rid x \<noteq> rid r"
  using tab_wf_get [of rid m "rid x" x] tab_wf_get [of rid "tab_put (rid r) r m" "rid x" x] tab_wf_put [of rid m r "rid r"]
  by (auto simp: table_simps split: if_splits)

lemma staff_put:
  assumes "staff_wf s" "\<And>v. v \<in> staff_rows s \<Longrightarrow> sf_ID v \<noteq> sf_ID u \<Longrightarrow> sf_Email v \<noteq> sf_Email u"
  shows "staff_wf (PutStaffUser u s)" "v \<in> staff_rows (PutStaffUser u s) \<longleftrightarrow> v = u \<or> v \<in> staff_rows s \<and> sf_ID v \<noteq> sf_ID u"
proof -
  have wf: "tab_wf sf_ID (at_staffUsr s)" using assms(1) by (simp add: staff_wf_def)
  show rows: "v \<in> staff_rows (PutStaffUser u s) \<longleftrightarrow> v = u \<or> v \<in> staff_rows s \<and> sf_ID v \<noteq> sf_ID u" for v
    by (simp add: staff_rows_def PutStaffUser_def put_rows [OF wf])
  have old: "inj_on sf_Email (staff_rows s)" using assms(1) by (simp add: staff_wf_def staff_rows_def)
  have "inj_on sf_Email (staff_rows (PutStaffUser u s))"
  proof (rule inj_onI)
    fix x y assume "x \<in> staff_rows (PutStaffUser u s)" "y \<in> staff_rows (PutStaffUser u s)" "sf_Email x = sf_Email y"
    then show "x = y" using assms(2) [of x] assms(2) [of y] inj_onD [OF old] unfolding rows by metis
  qed
  then show "staff_wf (PutStaffUser u s)" using wf by (simp add: staff_wf_def staff_rows_def PutStaffUser_def tab_wf_put)
qed

lemma role_added [simp]:
  "set (GetStaffUserRoles j (AddStaffUserRole i r s)) = set (GetStaffUserRoles j s) \<union> (if j = i then {r} else {})"
  "j \<noteq> i \<Longrightarrow> GetStaffUserRoles j (AddStaffUserRole i r s) = GetStaffUserRoles j s"
  "at_staffUsr (AddStaffUserRole i r s) = at_staffUsr s"
  by (auto simp: AddStaffUserRole_def Let_def GetStaffUserRoles_def table_simps split: option.splits)

lemma roles_added [simp]:
  "set (GetStaffUserRoles j (fold (AddStaffUserRole i) rs s)) = set (GetStaffUserRoles j s) \<union> (if j = i then set rs else {})"
  "j \<noteq> i \<Longrightarrow> GetStaffUserRoles j (fold (AddStaffUserRole i) rs s) = GetStaffUserRoles j s"
  "at_staffUsr (fold (AddStaffUserRole i) rs s) = at_staffUsr s"
  by (induction rs arbitrary: s) auto

lemma put_keeps_roles [simp]: "GetStaffUserRoles j (PutStaffUser u s) = GetStaffUserRoles j s"
  by (simp add: GetStaffUserRoles_def PutStaffUser_def)

text \<open>No storage call of the start fails, and the ids it draws are new.\<close>

definition calm :: "authn_env \<Rightarrow> bool" where
  "calm e \<longleftrightarrow> \<not> op_fails e AGetStaff \<and> \<not> op_fails e APutStaff \<and> \<not> op_fails e AGetRoles \<and> \<not> op_fails e AAddRole"

definition unused :: "authn_env \<Rightarrow> nat \<Rightarrow> authn_store \<Rightarrow> bool" where
  "unused e n s \<longleftrightarrow> (\<forall>u \<in> staff_rows s. sf_ID u \<noteq> ''stf_'' @ new_id e n)"

definition ready :: "string \<Rightarrow> string list \<Rightarrow> authn_store \<Rightarrow> bool" where
  "ready m roles s \<longleftrightarrow> (\<exists>u \<in> staff_rows s. sf_Email u = m \<and> sf_Active u \<and> set roles \<subseteq> set (GetStaffUserRoles (sf_ID u) s))"

definition asleep :: "StaffUser \<Rightarrow> string list \<Rightarrow> authn_store \<Rightarrow> bool" where
  "asleep u roles s \<longleftrightarrow> u \<in> staff_rows s \<and> \<not> sf_Active u \<and> GetStaffUserRoles (sf_ID u) s = roles"

lemma same_email: "staff_wf s \<Longrightarrow> u \<in> staff_rows s \<Longrightarrow> v \<in> staff_rows s \<Longrightarrow> sf_Email u = sf_Email v \<Longrightarrow> u = v"
  by (auto simp: staff_wf_def staff_rows_def dest: inj_onD)

lemma same_id: "staff_wf s \<Longrightarrow> u \<in> staff_rows s \<Longrightarrow> v \<in> staff_rows s \<Longrightarrow> sf_ID u = sf_ID v \<Longrightarrow> u = v"
  using tab_wf_get [of sf_ID "at_staffUsr s" "sf_ID u" u] tab_wf_get [of sf_ID "at_staffUsr s" "sf_ID v" v]
  by (simp add: staff_wf_def staff_rows_def)

text \<open>What one account costs: a new row, a row that is woken up, or nothing, and roles.\<close>

lemma ensured:
  assumes "calm e" "staff_wf s" "unused e n s"
  obtains u r where "ensureStaff e n m roles force s = fold (AddStaffUserRole (sf_ID u)) r (PutStaffUser u s)"
      "u \<notin> staff_rows s" "GetStaffUserByEmail m s = None" "sf_ID u = ''stf_'' @ new_id e n" "sf_Email u = m" "sf_Active u" "r = roles"
    | u r where "ensureStaff e n m roles force s = fold (AddStaffUserRole (sf_ID u)) r s" "u \<in> staff_rows s" "sf_Email u = m" "sf_Active u"
      "set roles \<subseteq> set (GetStaffUserRoles (sf_ID u) s) \<union> set r"
    | u v r where "ensureStaff e n m roles force s = fold (AddStaffUserRole (sf_ID v)) r (PutStaffUser v s)" "force" "u \<in> staff_rows s"
      "sf_Email u = m" "sf_ID v = sf_ID u" "sf_Email v = m" "sf_Active v" "set roles \<subseteq> set (GetStaffUserRoles (sf_ID u) s) \<union> set r"
    | u where "ensureStaff e n m roles force s = s" "\<not> force" "u \<in> staff_rows s" "sf_Email u = m" "\<not> sf_Active u"
proof (cases "GetStaffUserByEmail m s")
  case None
  let ?u = "\<lparr>sf_ID = ''stf_'' @ new_id e n, sf_Email = m, sf_DisplayName = [], sf_Active = True, sf_CreatedAt = now_at e n,
      sf_UpdatedAt = now_at e n\<rparr>"
  have "?u \<notin> staff_rows s" using assms(3) by (auto simp: unused_def)
  moreover have "ensureStaff e n m roles force s = fold (AddStaffUserRole (sf_ID ?u)) roles (PutStaffUser ?u s)"
    using assms(1) None by (simp add: ensureStaff_def store_call_def calm_def add_roles_def put_staff_def Let_def)
  ultimately show ?thesis using that(1) [of ?u roles] None by simp
next
  case (Some u)
  then have u: "u \<in> staff_rows s" "sf_Email u = m" using staff_found [OF assms(2)] by auto
  let ?have = "\<lambda>s. filter (\<lambda>r. r \<notin> set (GetStaffUserRoles (sf_ID u) s)) roles"
  show ?thesis
  proof (cases "sf_Active u")
    case True
    have "ensureStaff e n m roles force s = fold (AddStaffUserRole (sf_ID u)) (?have s) s"
      using assms(1) Some True by (simp add: ensureStaff_def store_call_def calm_def add_roles_def Let_def)
    then show ?thesis using that(2) [of u "?have s"] u True by auto
  next
    case False
    show ?thesis
    proof (cases force)
      case True
      let ?v = "u\<lparr>sf_Active := True, sf_UpdatedAt := now_at e n\<rparr>"
      have "ensureStaff e n m roles force s = fold (AddStaffUserRole (sf_ID ?v)) (?have s) (PutStaffUser ?v s)"
        using assms(1) Some False True by (simp add: ensureStaff_def store_call_def calm_def add_roles_def put_staff_def Let_def)
      then show ?thesis using that(3) [of ?v "?have s" u] u True by auto
    next
      case force: False
      then have "ensureStaff e n m roles force s = s" using Some False assms(1) by (simp add: ensureStaff_def store_call_def calm_def)
      then show ?thesis using that(4) [of u] u False force by simp
    qed
  qed
qed

lemma rows_of_roles [simp]: "staff_rows (fold (AddStaffUserRole i) rs s) = staff_rows s"
  by (simp add: staff_rows_def)

lemma wf_of_roles [simp]: "staff_wf (fold (AddStaffUserRole i) rs s) = staff_wf s"
  by (simp add: staff_wf_def)

text \<open>Waking a row up replaces it.\<close>

lemma woken:
  assumes "staff_wf s" "u \<in> staff_rows s" "sf_ID v = sf_ID u" "sf_Email v = sf_Email u"
  shows "staff_wf (PutStaffUser v s)" "x \<in> staff_rows (PutStaffUser v s) \<longleftrightarrow> x = v \<or> x \<in> staff_rows s \<and> x \<noteq> u"
proof -
  have "sf_Email x \<noteq> sf_Email v" if "x \<in> staff_rows s" "sf_ID x \<noteq> sf_ID v" for x
    using same_email [OF assms(1) that(1) assms(2)] that(2) assms(3,4) by auto
  note put = staff_put [OF assms(1) this]
  show "staff_wf (PutStaffUser v s)" by (rule put(1))
  show "x \<in> staff_rows (PutStaffUser v s) \<longleftrightarrow> x = v \<or> x \<in> staff_rows s \<and> x \<noteq> u"
    using put(2) [of x] same_id [OF assms(1) _ assms(2), of x] assms(3) by auto
qed

lemma added:
  assumes "staff_wf s" "unused e n s" "GetStaffUserByEmail (sf_Email u) s = None" "sf_ID u = ''stf_'' @ new_id e n"
  shows "staff_wf (PutStaffUser u s)" "x \<in> staff_rows (PutStaffUser u s) \<longleftrightarrow> x = u \<or> x \<in> staff_rows s"
proof -
  have "sf_Email x \<noteq> sf_Email u" if "x \<in> staff_rows s" "sf_ID x \<noteq> sf_ID u" for x
    using assms(3) that(1) by (auto simp: staff_missing)
  note put = staff_put [OF assms(1) this]
  show "staff_wf (PutStaffUser u s)" by (rule put(1))
  show "x \<in> staff_rows (PutStaffUser u s) \<longleftrightarrow> x = u \<or> x \<in> staff_rows s"
    using put(2) [of x] assms(2,4) by (auto simp: unused_def)
qed

lemma ready_mono:
  assumes "ready m rs s" "\<And>x. x \<in> staff_rows s \<Longrightarrow> x \<in> staff_rows t \<and> set (GetStaffUserRoles (sf_ID x) s) \<subseteq> set (GetStaffUserRoles (sf_ID x) t)"
  shows "ready m rs t"
  using assms(1) assms(2) unfolding ready_def by (meson order_trans)

lemma ensure_wf:
  assumes "calm e" "staff_wf s" "unused e n s"
  shows "staff_wf (ensureStaff e n m roles force s)"
    "unused e k s \<Longrightarrow> new_id e k \<noteq> new_id e n \<Longrightarrow> unused e k (ensureStaff e n m roles force s)"
    "force \<Longrightarrow> ready m roles (ensureStaff e n m roles force s)"
    "ready m' roles' s \<Longrightarrow> ready m' roles' (ensureStaff e n m roles force s)"
    "asleep w rs s \<Longrightarrow> (force \<Longrightarrow> sf_Email w \<noteq> m) \<Longrightarrow> asleep w rs (ensureStaff e n m roles force s)"
proof -
  let ?s = "ensureStaff e n m roles force s"
  have "staff_wf ?s \<and> (unused e k s \<longrightarrow> new_id e k \<noteq> new_id e n \<longrightarrow> unused e k ?s) \<and> (force \<longrightarrow> ready m roles ?s) \<and>
      (ready m' roles' s \<longrightarrow> ready m' roles' ?s) \<and> (asleep w rs s \<longrightarrow> (force \<longrightarrow> sf_Email w \<noteq> m) \<longrightarrow> asleep w rs ?s)"
  proof (rule ensured [OF assms, of m roles force])
    fix u r assume c: "?s = fold (AddStaffUserRole (sf_ID u)) r (PutStaffUser u s)" "GetStaffUserByEmail m s = None"
      "sf_ID u = ''stf_'' @ new_id e n" "sf_Email u = m" "sf_Active u" "r = roles"
    note new = added [OF assms(2,3) _ c(3)]
    have other: "sf_ID x \<noteq> sf_ID u" if "x \<in> staff_rows s" for x using assms(3) that c(3) by (simp add: unused_def)
    show ?thesis
      unfolding c(1) using c(2-6) new other by (auto simp: unused_def ready_def asleep_def)
  next
    fix u r assume c: "?s = fold (AddStaffUserRole (sf_ID u)) r s" "u \<in> staff_rows s" "sf_Email u = m" "sf_Active u"
      "set roles \<subseteq> set (GetStaffUserRoles (sf_ID u) s) \<union> set r"
    have other: "sf_ID w \<noteq> sf_ID u" if "w \<in> staff_rows s" "\<not> sf_Active w"
      using same_id [OF assms(2) that(1) c(2)] that(2) c(4) by auto
    have "ready m' roles' (fold (AddStaffUserRole (sf_ID u)) r s)" if "ready m' roles' s"
      by (rule ready_mono [OF that]) simp
    moreover have "ready m roles (fold (AddStaffUserRole (sf_ID u)) r s)" using c(2-5) by (auto simp: ready_def)
    ultimately show ?thesis
      unfolding c(1) using assms(2) other by (auto simp: unused_def asleep_def)
  next
    fix u v r assume c: "?s = fold (AddStaffUserRole (sf_ID v)) r (PutStaffUser v s)" "force" "u \<in> staff_rows s" "sf_Email u = m"
      "sf_ID v = sf_ID u" "sf_Email v = m" "sf_Active v" "set roles \<subseteq> set (GetStaffUserRoles (sf_ID u) s) \<union> set r"
    note woken = woken [OF assms(2) c(3,5)]
    have other: "sf_ID x \<noteq> sf_ID u" if "x \<in> staff_rows s" "x \<noteq> u" for x using same_id [OF assms(2) that(1) c(3)] that(2) by auto
    let ?t = "fold (AddStaffUserRole (sf_ID v)) r (PutStaffUser v s)"
    have rows: "x \<in> staff_rows ?t \<longleftrightarrow> x = v \<or> x \<in> staff_rows s \<and> x \<noteq> u" for x using woken c(4,6) by simp
    have mine: "v \<in> staff_rows ?t" "set (GetStaffUserRoles (sf_ID v) ?t) = set (GetStaffUserRoles (sf_ID u) s) \<union> set r"
      using rows c(5) by auto
    have "staff_wf ?t" using woken(1) c(4,6) by simp
    moreover have "unused e k s \<longrightarrow> unused e k ?t" unfolding unused_def using rows c(3,5) by metis
    moreover have "ready m roles ?t" using mine c(6-8) by (auto simp: ready_def)
    moreover have "ready m' roles' ?t" if old: "ready m' roles' s"
    proof -
      obtain x where x: "x \<in> staff_rows s" "sf_Email x = m'" "sf_Active x" "set roles' \<subseteq> set (GetStaffUserRoles (sf_ID x) s)"
        using old by (auto simp: ready_def)
      show ?thesis
      proof (cases "x = u")
        case True
        then show ?thesis using mine x c(4,6,7) by (auto simp: ready_def)
      next
        case False
        then have "x \<in> staff_rows ?t" "set roles' \<subseteq> set (GetStaffUserRoles (sf_ID x) ?t)" using rows x by auto
        then show ?thesis using x(2,3) unfolding ready_def by blast
      qed
    qed
    moreover have "asleep w rs ?t" if w: "asleep w rs s" "sf_Email w \<noteq> m"
    proof -
      have "w \<in> staff_rows s" "w \<noteq> u" using w c(4) by (auto simp: asleep_def)
      then have "sf_ID w \<noteq> sf_ID v" "w \<in> staff_rows ?t" using other rows c(5) by auto
      then show ?thesis using w(1) by (simp add: asleep_def)
    qed
    ultimately show ?thesis unfolding c(1) using c(2) by simp
  next
    fix u assume "?s = s" "\<not> force"
    then show ?thesis using assms(2) by simp
  qed
  then show "staff_wf ?s" "unused e k s \<Longrightarrow> new_id e k \<noteq> new_id e n \<Longrightarrow> unused e k ?s" "force \<Longrightarrow> ready m roles ?s"
    "ready m' roles' s \<Longrightarrow> ready m' roles' ?s" "asleep w rs s \<Longrightarrow> (force \<Longrightarrow> sf_Email w \<noteq> m) \<Longrightarrow> asleep w rs ?s"
    by simp_all
qed

lemma all_ensured:
  assumes "calm e" "inj (new_id e)" "staff_wf s" "\<And>k. n \<le> k \<Longrightarrow> unused e k s"
  shows "staff_wf (ensure_all e n roles force ms s) \<and> (\<forall>k. n + length ms \<le> k \<longrightarrow> unused e k (ensure_all e n roles force ms s)) \<and>
    (force \<longrightarrow> (\<forall>m \<in> set ms. m \<noteq> [] \<longrightarrow> ready m roles (ensure_all e n roles force ms s))) \<and>
    (ready m' roles' s \<longrightarrow> ready m' roles' (ensure_all e n roles force ms s)) \<and>
    (asleep w rs s \<longrightarrow> (force \<longrightarrow> sf_Email w \<notin> set ms) \<longrightarrow> asleep w rs (ensure_all e n roles force ms s))"
  using assms(3,4)
proof (induction ms arbitrary: n s m' roles')
  case (Cons m ms)
  let ?s = "if m = [] then s else ensureStaff e n m roles force s"
  have un: "unused e n s" using Cons.prems(2) by simp
  note step = ensure_wf [OF assms(1) Cons.prems(1) un]
  have wf: "staff_wf ?s" using step(1) Cons.prems(1) by simp
  have unused: "unused e k ?s" if "n + 1 \<le> k" for k
    using step(2) [of k] Cons.prems(2) [of k] that inj_eq [OF assms(2)] by auto
  note rest = Cons.IH [OF wf unused]
  have "ready m roles ?s" if "force" "m \<noteq> []" using step(3) [of force m roles] that by simp
  moreover have "ready m' roles' ?s" if "ready m' roles' s" using step(4) that by simp
  moreover have "asleep w rs ?s" if "asleep w rs s" "force \<longrightarrow> sf_Email w \<noteq> m" using step(5) that by simp
  ultimately show ?case using rest [of _ m' roles'] rest [of _ m roles] by auto
qed simp

text \<open>
  C40. When the process starts and no storage call fails, every root email of the configuration ends up
  on the allowlist and with an active staff account that has all four roles, whatever happened to the
  account before, so it cannot be locked out; and the account of a member of staff that was deactivated,
  with no root email, stays deactivated with the roles it had, also when the email is still on the list of
  administrators.  (The storage holds one account per email, and the ids drawn are new.)
\<close>

theorem root_accounts_are_never_locked_out:
  assumes "calm e" "inj (new_id e)" "staff_wf s" "\<And>k. unused e k s"
  shows "(\<forall>r \<in> set rootEmails. staff_email cfg r \<noteq> [] \<longrightarrow>
      (case NewAdminConsoleHandlers cfg e emails rootEmails s of (cfg', s') \<Rightarrow>
         isAllowed cfg' r \<and> ready (staff_email cfg r) allStaffRoles s')) \<and>
    (\<forall>u \<in> staff_rows s. \<not> sf_Active u \<longrightarrow> sf_Email u \<notin> staff_email cfg ` set rootEmails \<longrightarrow>
      asleep u (GetStaffUserRoles (sf_ID u) s) (snd (NewAdminConsoleHandlers cfg e emails rootEmails s)))"
proof -
  let ?adm = "map (staff_email cfg) emails" and ?root = "map (staff_email cfg) rootEmails"
  let ?s1 = "ensure_all e 0 [administrator] False ?adm s"
  let ?s2 = "ensure_all e (length emails) allStaffRoles True ?root ?s1"
  have first: "staff_wf ?s1" "\<And>k. length emails \<le> k \<Longrightarrow> unused e k ?s1" "asleep u rs s \<Longrightarrow> asleep u rs ?s1" for u rs
    using all_ensured [OF assms(1-3), of 0 "[administrator]" False ?adm, where w = u and rs = rs] assms(4) by auto
  note second = all_ensured [OF assms(1,2) first(1,2), where roles = allStaffRoles and force = True and ms = ?root]
  have out: "NewAdminConsoleHandlers cfg e emails rootEmails s = (cfg\<lparr>hg_AllowedEmails := staff_allowlist cfg emails rootEmails\<rparr>, ?s2)"
    by (simp add: NewAdminConsoleHandlers_def)
  have "isAllowed (cfg\<lparr>hg_AllowedEmails := staff_allowlist cfg emails rootEmails\<rparr>) r" if "r \<in> set rootEmails" "staff_email cfg r \<noteq> []" for r
    using that by (simp add: isAllowed_def staff_allowlist_def staff_email_def)
  moreover have "ready (staff_email cfg r) allStaffRoles ?s2" if "r \<in> set rootEmails" "staff_email cfg r \<noteq> []" for r
    using second that by auto
  moreover have "asleep u (GetStaffUserRoles (sf_ID u) s) ?s2"
    if "u \<in> staff_rows s" "\<not> sf_Active u" "sf_Email u \<notin> staff_email cfg ` set rootEmails" for u
    using second [where w = u and rs = "GetStaffUserRoles (sf_ID u) s"] first(3) [of u] that by (auto simp: asleep_def)
  ultimately show ?thesis by (simp add: out)
qed

definition demo_boot :: authn_env where
  "demo_boot = (demo_authn_env 5)\<lparr>new_id := \<lambda>n. replicate n CHR ''x''\<rparr>"

lemma demo_staff_wf: "staff_wf demo_site_store"
  by code_simp

theorem root_accounts_are_never_locked_out_witness:
  "case NewAdminConsoleHandlers demo_site_cfg demo_boot [] [''r@a''] demo_site_store of (cfg', s') \<Rightarrow>
     isAllowed cfg' ''r@a'' \<and> ready ''r@a'' allStaffRoles s'"
proof -
  have "calm demo_boot" by code_simp
  moreover have "inj (new_id demo_boot)" by (auto simp: demo_boot_def inj_def dest: arg_cong [of _ _ length])
  moreover have "unused demo_boot k demo_site_store" for k
    by (simp add: unused_def staff_rows_def tab_rows_def demo_site_store_def demo_staff_def)
  moreover have "staff_email demo_site_cfg ''r@a'' = ''r@a''" by code_simp
  ultimately show ?thesis
    using root_accounts_are_never_locked_out [of demo_boot demo_site_store "[''r@a'']" demo_site_cfg "[]"] demo_staff_wf by simp
qed

end
