(* ===== verification/AuthnSignIn.thy ===== *)
theory AuthnSignIn
  imports AuthnRegistry
begin

text \<open>
  The sign-ins that are parked between two requests of a browser: where they may return to, how often a
  text message code can be guessed, and what identities a sign-in accepts.
\<close>

section \<open>Requests that park nothing\<close>

type_synonym parked = "pendingPhoneOTP table \<times> pendingPhoneLink table \<times> socialPending table"

definition parked_flows :: "'w hosted \<Rightarrow> parked" where
  "parked_flows h = (hs_otps h, hs_links h, hs_pending h)"

lemma parked_upds [simp]:
  "parked_flows (with_store s h) = parked_flows h" "parked_flows (h\<lparr>hs_sys := y\<rparr>) = parked_flows h"
  "parked_flows (h\<lparr>hs_mdl_ver := v\<rparr>) = parked_flows h" "parked_flows (h\<lparr>hs_dev_flows := g\<rparr>) = parked_flows h"
  "parked_flows (h\<lparr>hs_dev_clients := cl\<rparr>) = parked_flows h" "parked_flows (h\<lparr>hs_signup_rate := l\<rparr>) = parked_flows h"
  "parked_flows (h\<lparr>hs_phone_rate := l\<rparr>) = parked_flows h"
  by (simp_all add: parked_flows_def with_store_def)

lemma parked_world: "ask_world f h = (r, h') \<Longrightarrow> parked_flows h' = parked_flows h"
  by (auto simp: ask_world_def split: prod.splits)

lemma parked_mdl_keys: "mdl_keys fetch issuer url force h = (v, h') \<Longrightarrow> parked_flows h' = parked_flows h"
  by (auto simp: mdl_keys_def split: option.splits prod.splits sum.splits if_splits dest: parked_world)

lemma parked_mdl: "hd_mdl d = Some mdl \<Longrightarrow> mdl token t now h = (p, h') \<Longrightarrow> parked_flows h' = parked_flows h"
  by (auto simp: hd_mdl_def HTTPMDLProofVerifier_def verifyWithRefresh_def
      split: if_splits option.splits prod.splits sum.splits dest!: parked_mdl_keys)

lemma parked_offer: "mdl_offer d t i h = (r, h') \<Longrightarrow> parked_flows h' = parked_flows h"
  by (auto simp: mdl_offer_def split: option.splits prod.splits dest: parked_world)

definition quiet :: "'w served \<Rightarrow> 'w hosted \<Rightarrow> bool" where
  "quiet x h \<longleftrightarrow> parked_flows (snd (snd x)) = parked_flows h"

lemma quiet_reply [simp]: "quiet (reply, cs, h') h \<longleftrightarrow> parked_flows h' = parked_flows h"
  by (simp add: quiet_def)

lemma quiet_gates:
  "(\<And>ow. quiet (act ow h) h) \<Longrightarrow> quiet (as_owner refusal e jar act h) h"
  "(\<And>ad. quiet (act' ad h) h) \<Longrightarrow> quiet (as_staff cfg perm e jar act' h) h"
  "(\<And>dv. quiet (act'' dv h) h) \<Longrightarrow> quiet (as_developer refusal e jar act'' h) h"
  "(\<And>f. quiet (act3 f h) h) \<Longrightarrow> quiet (parsed back form act3 h) h"
  by (simp_all add: as_owner_def as_staff_def as_developer_def parsed_def split: prod.split option.split)

lemma quiet_outcomes:
  "quiet (must m back res h) h" "quiet (unless_missing m back fails res h) h" "quiet (refuse m back h) h"
  "quiet (add_row taken m back fails res' h) h" "quiet (by_id m back fails act f h) h" "quiet (put_flow e m fl h) h"
  by (simp_all add: must_def unless_missing_def refuse_def add_row_def by_id_def put_flow_def split: option.split sum.split)

lemma quiet_finish: "parked_flows h' = parked_flows h \<Longrightarrow> quiet (finishOwnerLogin e i t m cs h') h"
  by (simp add: finishOwnerLogin_def split: prod.split option.split)

lemma quiet_owner: "quiet (owner_handler d e act jar f h) h"
proof -
  have phone: "quiet (set_user_phone e t u m h') h" if "parked_flows h' = parked_flows h" for t u m h'
    using that by (auto simp: set_user_phone_def refuse_def split: prod.split)
  show ?thesis
    by (cases act)
      (auto simp: OwnerSwitch_def OwnerLogout_def SetPhoneLogin_def SetMDLEnroll_def SetFido_def SetBranding_def SetUserPhone_def
        RecordUserMDL_def RemoveIdentity_def CreateTransactionTypeForm_def DeleteTransactionTypeForm_def CreateMCPServerForm_def
        ToggleMCPServer_def DeleteMCPServerForm_def CreateTrustedIDPForm_def ToggleTrustedIDP_def DeleteTrustedIDPForm_def
        OwnerRevokeSession_def RegenerateSecret_def UpdateClient_def DownloadQuickstart_def ApplyFlowTemplate_def SaveFlow_def
        SetFlowEnabled_def ValidateFlow_def DeleteFlowForm_def owner_form_def owner_only_def Let_def refuse_def
        intro!: quiet_gates quiet_outcomes quiet_finish phone dest: parked_world split: option.split prod.split list.split,
        (rule parked_mdl, assumption+)+)
qed

lemma quiet_staff: "quiet (staff_handler cfg e act jar f h) h"
  by (cases act)
    (auto simp: TenantDetail_def SetWorkspaceOwner_def AdminRevokeSession_def AdminRegisterClient_def AdminDeleteClient_def
      AdminLogout_def console_logout_def staff_form_def staff_refuse_def Let_def intro!: quiet_gates split: option.split)

lemma quiet_funnel:
  "quiet (SignupCallback d e jar q h) h" "quiet (OwnerCallback e jar q h) h" "quiet (OwnerSelect e jar f h) h"
  "quiet (OwnerLogin cfg e h) h" "quiet (SignupStart cfg e company redirect h) h"
proof -
  have prov: "quiet (provision d e intent slug m cs h') h" if "parked_flows h' = parked_flows h" for intent slug m cs h'
    using that by (auto simp: provision_def Let_def split: sum.split prod.split option.split dest: parked_offer)
  show "quiet (SignupCallback d e jar q h) h"
    by (auto simp: SignupCallback_def Let_def intro!: prov split: prod.split sum.split option.split got.split)
  show "quiet (OwnerCallback e jar q h) h"
    by (auto simp: OwnerCallback_def intro!: quiet_finish split: prod.split sum.split list.split)
  show "quiet (OwnerSelect e jar f h) h"
    by (auto simp: OwnerSelect_def Let_def intro!: quiet_gates quiet_finish split: option.split)
  show "quiet (OwnerLogin cfg e h) h" "quiet (SignupStart cfg e company redirect h) h"
    by (simp_all add: OwnerLogin_def SignupStart_def Let_def)
qed

lemma quiet_enrolment:
  "quiet (EnrollMDLStart cfg e cid h) h" "quiet (EnrollMDLCallback e jar q h) h" "quiet (EnrollMDLPage d e jar h) h"
  "quiet (EnrollMDLStatus d e jar h) h"
proof -
  have verified: "quiet (enroll_verified d e t u tok h') h" if "parked_flows h' = parked_flows h" for t u tok h'
    using that by (auto simp: enroll_verified_def split: option.split prod.split dest: parked_mdl)
  show "quiet (EnrollMDLStart cfg e cid h) h" by (simp add: EnrollMDLStart_def split: option.split)
  show "quiet (EnrollMDLCallback e jar q h) h"
    by (auto simp: EnrollMDLCallback_def Let_def split: prod.split sum.split option.split)
  show "quiet (EnrollMDLPage d e jar h) h" by (auto simp: EnrollMDLPage_def split: prod.split option.split dest: parked_world)
  show "quiet (EnrollMDLStatus d e jar h) h"
    by (auto simp: EnrollMDLStatus_def Let_def intro!: verified split: prod.split option.split dest: parked_world)
qed

lemma quiet_consoles:
  "quiet (adminHome cfg e jar hq h) h" "quiet (AdminSocialCallback cfg e jar q h) h" "quiet (AdminLoginGoogle cfg e h) h"
  "quiet (DevHome e jar h) h" "quiet (DevLoginGoogle cfg e h) h" "quiet (DevSocialCallback e jar q h) h" "quiet (DevLogout e jar h) h"
  "quiet (DevRegisterClient cfg e jar fm h) h" "quiet (StartOIDC cfg e jar cid acr h) h" "quiet (OIDCCallback ph cfg e st code h) h"
proof -
  have flows: "parked_flows (storeOIDCFlow now i g h') = parked_flows h'" "parked_flows (rememberClient c h') = parked_flows h'"
      "takeOIDCFlow now st h' = (f, h'') \<Longrightarrow> parked_flows h'' = parked_flows h'" for now i g c f and h' h'' :: "'a hosted"
    by (auto simp: storeOIDCFlow_def rememberClient_def takeOIDCFlow_def split: option.splits)
  show "quiet (adminHome cfg e jar hq h) h" by (simp add: adminHome_def OwnerHome_def as_owner_def split: prod.split option.split)
  show "quiet (AdminSocialCallback cfg e jar q h) h" by (simp add: AdminSocialCallback_def Let_def split: option.split)
  show "quiet (DevHome e jar h) h" unfolding DevHome_def by (rule quiet_gates) simp
  show "quiet (DevSocialCallback e jar q h) h" by (simp add: DevSocialCallback_def Let_def split: option.split)
  show "quiet (DevRegisterClient cfg e jar fm h) h" "quiet (StartOIDC cfg e jar cid acr h) h"
    unfolding DevRegisterClient_def StartOIDC_def Let_def
    by (auto simp: flows intro!: quiet_gates split: option.split got.split list.split)
  show "quiet (OIDCCallback ph cfg e st code h) h"
    by (auto simp: OIDCCallback_def Let_def split: prod.split option.split dest!: flows(3) parked_world)
qed (simp_all add: AdminLoginGoogle_def DevLoginGoogle_def DevLogout_def console_logout_def Let_def split: option.split)

section \<open>Where a sign-in returns to\<close>

text \<open>The tenant and the address of every parked sign-in.\<close>

definition addresses :: "parked \<Rightarrow> (string \<times> string) set" where
  "addresses p = (case p of (otps, links, pending) \<Rightarrow>
     (\<lambda>p. (po_TenantID p, po_RedirectURI p)) ` set (tab_rows otps) \<union> (\<lambda>k. (pk_TenantID k, pk_RedirectURI k)) ` set (tab_rows links) \<union>
     (\<lambda>n. (qn_TenantID n, qn_RedirectURI n)) ` set (tab_rows pending))"

definition return_addresses :: "'w hosted \<Rightarrow> (string \<times> string) set" where
  "return_addresses h = addresses (parked_flows h)"

lemmas address_defs = return_addresses_def addresses_def parked_flows_def

lemma same_addresses: "parked_flows h' = parked_flows h \<Longrightarrow> return_addresses h' = return_addresses h"
  by (simp add: return_addresses_def)

lemma rows_put: "set (tab_rows (tab_put k r m)) \<subseteq> insert r (set (tab_rows m))"
  by (auto simp: tab_rows_def dest: tab_put_member)

lemma rows_del: "set (tab_rows (tab_del k m)) \<subseteq> set (tab_rows m)"
  by (auto simp: tab_rows_def dest: tab_del_member)

lemma rows_filter: "set (tab_rows (filter Q m)) \<subseteq> set (tab_rows m)"
  by (auto simp: tab_rows_def)

lemma rows_got: "tab_get m k = Some r \<Longrightarrow> r \<in> set (tab_rows m)"
  by (force simp: tab_get_def tab_rows_def dest: map_of_SomeD)

lemma addresses_mono:
  "set (tab_rows os) \<subseteq> set (tab_rows os') \<Longrightarrow> set (tab_rows ls) \<subseteq> set (tab_rows ls') \<Longrightarrow> set (tab_rows ns) \<subseteq> set (tab_rows ns') \<Longrightarrow>
   addresses (os, ls, ns) \<subseteq> addresses (os', ls', ns')"
  by (simp add: addresses_def) blast

lemma addresses_put:
  "addresses (tab_put i p os, ls, ns) \<subseteq> insert (po_TenantID p, po_RedirectURI p) (addresses (os, ls, ns))"
  "addresses (os, tab_put i k ls, ns) \<subseteq> insert (pk_TenantID k, pk_RedirectURI k) (addresses (os, ls, ns))"
  "addresses (os, ls, tab_put i n ns) \<subseteq> insert (qn_TenantID n, qn_RedirectURI n) (addresses (os, ls, ns))"
  by (auto simp: addresses_def dest: subsetD [OF rows_put])

lemma parked_addresses:
  "return_addresses (putOTP now i p h) \<subseteq> insert (po_TenantID p, po_RedirectURI p) (return_addresses h)"
  "return_addresses (putLink now i k h) \<subseteq> insert (pk_TenantID k, pk_RedirectURI k) (return_addresses h)"
  "return_addresses (storePending now i n h) \<subseteq> insert (qn_TenantID n, qn_RedirectURI n) (return_addresses h)"
proof -
  note grow = subset_trans [OF addresses_put(1) insert_mono [OF addresses_mono]]
    subset_trans [OF addresses_put(2) insert_mono [OF addresses_mono]] subset_trans [OF addresses_put(3) insert_mono [OF addresses_mono]]
  show "return_addresses (putOTP now i p h) \<subseteq> insert (po_TenantID p, po_RedirectURI p) (return_addresses h)"
    unfolding return_addresses_def parked_flows_def putOTP_def gc_phone_def Let_def by (simp, rule grow) (rule rows_filter subset_refl)+
  show "return_addresses (putLink now i k h) \<subseteq> insert (pk_TenantID k, pk_RedirectURI k) (return_addresses h)"
    unfolding return_addresses_def parked_flows_def putLink_def gc_phone_def Let_def by (simp, rule grow) (rule rows_filter subset_refl)+
  show "return_addresses (storePending now i n h) \<subseteq> insert (qn_TenantID n, qn_RedirectURI n) (return_addresses h)"
    unfolding return_addresses_def parked_flows_def storePending_def Let_def by (simp, rule grow) (rule rows_filter subset_refl)+
qed

lemma dropped_addresses:
  "return_addresses (dropOTP i h) \<subseteq> return_addresses h" "return_addresses (dropLink i h) \<subseteq> return_addresses h"
  "return_addresses (h\<lparr>hs_pending := tab_del i (hs_pending h)\<rparr>) \<subseteq> return_addresses h"
  unfolding return_addresses_def parked_flows_def dropOTP_def dropLink_def by (simp_all add: addresses_mono rows_del)

lemma read_addresses:
  "getOTP now i h = (r, h') \<Longrightarrow> return_addresses h' \<subseteq> return_addresses h"
  "currentLink now jar h = (l, h') \<Longrightarrow> return_addresses h' \<subseteq> return_addresses h"
  "takePending now i h = (q, h') \<Longrightarrow> return_addresses h' \<subseteq> return_addresses h"
  by (auto simp: getOTP_def currentLink_def getLink_def takePending_def Let_def dest: dropped_addresses [THEN subsetD]
      split: option.splits if_splits)

lemma found_addresses:
  "getOTP now i h = (Some p, h') \<Longrightarrow> (po_TenantID p, po_RedirectURI p) \<in> return_addresses h \<and> h' = h"
  "currentLink now jar h = (Some k, h') \<Longrightarrow> (pk_TenantID k, pk_RedirectURI k) \<in> return_addresses h \<and> h' = h"
  by (auto simp: getOTP_def currentLink_def getLink_def Let_def address_defs dest!: rows_got split: option.splits if_splits)

text \<open>What a request adds is an address the tenant may be sent back to.\<close>

definition only_allowed :: "hosted_cfg \<Rightarrow> authn_env \<Rightarrow> 'w hosted \<Rightarrow> 'w hosted \<Rightarrow> bool" where
  "only_allowed cfg e h h' \<longleftrightarrow>
     (\<forall>x \<in> return_addresses h'. x \<in> return_addresses h \<or> redirectAllowedForTenant cfg e (fst x) (snd x) (hs_store h))"

lemma fewer_allowed: "return_addresses h' \<subseteq> return_addresses h \<Longrightarrow> only_allowed cfg e h h'"
  by (auto simp: only_allowed_def)

lemma quiet_allowed: "quiet x h \<Longrightarrow> only_allowed cfg e h (snd (snd x))"
  using same_addresses [of "snd (snd x)" h] by (auto simp: quiet_def intro: fewer_allowed)

lemma added_allowed:
  assumes "return_addresses h' \<subseteq> insert (t, u) (return_addresses h)" "redirectAllowedForTenant cfg e t u (hs_store h)"
  shows "only_allowed cfg e h h'"
  unfolding only_allowed_def using subsetD [OF assms(1)] assms(2) by fastforce

lemma social_start_allowed: "only_allowed cfg e h (snd (snd (SocialAuthorize cfg e provider q h)))"
proof -
  have park: "only_allowed cfg e h (storePending now i (pending_login provider q vf now') h)"
    if "social_refused cfg e provider q (hs_store h) = None" for now i vf now'
  proof (rule added_allowed)
    show "return_addresses (storePending now i (pending_login provider q vf now') h) \<subseteq>
        insert (oq_tenant_id q, oq_redirect_uri q) (return_addresses h)"
      using parked_addresses(3) [of now i "pending_login provider q vf now'" h] by (simp add: pending_login_def)
    show "redirectAllowedForTenant cfg e (oq_tenant_id q) (oq_redirect_uri q) (hs_store h)"
      using that by (simp add: social_refused_def split: if_splits)
  qed
  show ?thesis
    by (auto simp: SocialAuthorize_def authorizeReal_def Let_def fewer_allowed intro!: park split: option.split)
qed

lemma phone_submit_allowed: "only_allowed cfg e h (snd (snd (PhoneSubmit v cfg e f h)))"
proof -
  have submit: "only_allowed cfg e h (snd (snd (submit_number v cfg e t u st m h)))"
    if allowed: "entry_refused cfg e t u (hs_store h) = None" for t u st m
  proof -
    have park: "only_allowed cfg e h (putOTP now i p h')"
      if "ask_world g h = (r, h')" "po_TenantID p = t" "po_RedirectURI p = u" for g :: "'a \<Rightarrow> sms_err option \<times> 'a" and r h' now i p
    proof (rule added_allowed)
      show "return_addresses (putOTP now i p h') \<subseteq> insert (t, u) (return_addresses h)"
        using parked_addresses(1) [of now i p h'] that(2,3) same_addresses [OF parked_world [OF that(1)]] by simp
      show "redirectAllowedForTenant cfg e t u (hs_store h)" using allowed by (simp add: entry_refused_def split: if_splits)
    qed
    show ?thesis
      by (auto simp: submit_number_def fewer_allowed same_addresses [OF parked_world] intro!: park split: got.split prod.split option.split)
  qed
  show ?thesis by (auto simp: PhoneSubmit_def Let_def fewer_allowed intro!: submit split: option.split)
qed


text \<open>The rest of a sign-in goes on with the address it was started with.\<close>

lemma phone_verify_returns: "return_addresses (snd (snd (PhoneVerify v cfg e seen f h))) \<subseteq> return_addresses h"
proof -
  have wrong: "return_addresses (snd (snd (wrong_code e i p h1))) \<subseteq> return_addresses h"
    if "(po_TenantID p, po_RedirectURI p) \<in> return_addresses h" "return_addresses h1 \<subseteq> return_addresses h" for i p h1
  proof -
    have "return_addresses (putOTP (now_at e 1) i (p\<lparr>po_Attempts := po_Attempts p + 1\<rparr>) h1) \<subseteq> return_addresses h"
      using parked_addresses(1) [of "now_at e 1" i "p\<lparr>po_Attempts := po_Attempts p + 1\<rparr>" h1] that by simp blast
    moreover have "return_addresses (dropOTP i h1) \<subseteq> return_addresses h" using dropped_addresses(1) [of i h1] that(2) by blast
    ultimately show ?thesis by (simp add: wrong_code_def Let_def)
  qed
  have signed: "return_addresses (snd (snd (phone_signed_in cfg e seen fp p u h1))) \<subseteq> return_addresses h"
    if "(po_TenantID p, po_RedirectURI p) \<in> return_addresses h" "return_addresses h1 \<subseteq> return_addresses h" for fp p u h1
  proof -
    have sys: "return_addresses (with_store s h1\<lparr>hs_sys := y\<rparr>) = return_addresses h1" for s y
      by (rule same_addresses) simp
    have "return_addresses (putLink now i k (with_store s h1\<lparr>hs_sys := y\<rparr>)) \<subseteq> return_addresses h"
      if "pk_TenantID k = po_TenantID p" "pk_RedirectURI k = po_RedirectURI p" for now i k s y
      using parked_addresses(2) [of now i k "with_store s h1\<lparr>hs_sys := y\<rparr>"] that \<open>_ \<in> return_addresses h\<close> \<open>return_addresses h1 \<subseteq> _\<close>
      by (simp add: sys) blast
    then show ?thesis using that(2) by (simp add: phone_signed_in_def Let_def sys)
  qed
  have conclude: "return_addresses (snd (snd (phone_conclude cfg e seen f (p, ok) h1))) \<subseteq> return_addresses h"
    if "(po_TenantID p, po_RedirectURI p) \<in> return_addresses h" "return_addresses h1 \<subseteq> return_addresses h" for f p ok h1
  proof -
    have drop: "return_addresses (with_store s (dropOTP i h1)) \<subseteq> return_addresses h" for s i
      using dropped_addresses(1) [of i h1] same_addresses [OF parked_upds(1) [of s "dropOTP i h1"]] that(2) by blast
    note go_on = signed [OF that(1) drop]
    show ?thesis
      using wrong [OF that] go_on drop by (simp add: phone_conclude_def Let_def split: prod.split sum.split)
  qed
  show ?thesis
  proof (cases f)
    case form: (Some f)
    obtain r h1 where got: "getOTP (now_at e 0) (cs_flow f) h = (r, h1)" by (cases "getOTP (now_at e 0) (cs_flow f) h")
    show ?thesis
    proof (cases r)
      case None
      then show ?thesis using got read_addresses(1) [OF got] by (simp add: PhoneVerify_def phone_check_def form)
    next
      case (Some p)
      obtain c h2 where check: "ask_world (ov_Check v (po_Phone p) (TrimSpace (cs_code f))) h1 = (c, h2)"
        by (cases "ask_world (ov_Check v (po_Phone p) (TrimSpace (cs_code f))) h1")
      have "return_addresses h2 \<subseteq> return_addresses h"
        using same_addresses [OF parked_world [OF check]] read_addresses(1) [OF got] by simp
      moreover have "(po_TenantID p, po_RedirectURI p) \<in> return_addresses h" using found_addresses(1) got Some by fastforce
      ultimately show ?thesis
        using conclude [of p h2] got check Some by (simp add: PhoneVerify_def phone_check_def form split: sum.split)
    qed
  qed (simp add: PhoneVerify_def)
qed

lemma phone_link_returns:
  "return_addresses (snd (snd (PhoneLinkStart cfg e jar h))) \<subseteq> return_addresses h"
  "return_addresses (snd (snd (PhoneLinkCallback cfg e jar q h))) \<subseteq> return_addresses h"
  "return_addresses (snd (snd (PhoneSkip cfg e jar h))) \<subseteq> return_addresses h"
proof -
  obtain r h1 where got: "currentLink (now_at e 0) jar h = (r, h1)" by (cases "currentLink (now_at e 0) jar h")
  note read = read_addresses(2) [OF got]
  have found: "(pk_TenantID k, pk_RedirectURI k) \<in> return_addresses h" if "r = Some k" for k
    using found_addresses(2) got that by fastforce
  have finish: "return_addresses (snd (snd (finishLink cfg k w h1))) \<subseteq> return_addresses h" for k w
    using dropped_addresses(2) [of "pk_ID k" h1] read by (auto simp: finishLink_def)
  have drop: "return_addresses (dropLink i h1) \<subseteq> return_addresses h" "return_addresses (dropLink i (with_store s h1)) \<subseteq> return_addresses h" for i s
    using dropped_addresses(2) [of i h1] dropped_addresses(2) [of i "with_store s h1"] same_addresses [OF parked_upds(1) [of s h1]] read
    by blast+
  show "return_addresses (snd (snd (PhoneSkip cfg e jar h))) \<subseteq> return_addresses h"
    using read drop(1) by (simp add: PhoneSkip_def got split: option.split)
  show "return_addresses (snd (snd (PhoneLinkStart cfg e jar h))) \<subseteq> return_addresses h"
  proof (cases r)
    case (Some k)
    show ?thesis
      using parked_addresses(2) [of "now_at e 1" "cookieValue jar phoneLinkCookie" "k\<lparr>pk_CSRF := new_id e 0\<rparr>" h1] found [OF Some] read
      by (simp add: PhoneLinkStart_def got Some Let_def) blast
  qed (use read in \<open>simp add: PhoneLinkStart_def got\<close>)
  have email: "return_addresses (snd (snd (link_email cfg e k m h1))) \<subseteq> return_addresses h" for k m
    using read finish drop(2) by (auto simp: link_email_def split: option.split sum.split)
  show "return_addresses (snd (snd (PhoneLinkCallback cfg e jar q h))) \<subseteq> return_addresses h"
    using read finish email by (simp add: PhoneLinkCallback_def got Let_def split: option.split)
qed

lemma login_parks_nothing: "parked_flows (snd (snd (completeLogin d e seen p profile h))) = parked_flows h"
  by (auto simp: completeLogin_def social_signed_in_def MDLInterstitial_def Let_def split: prod.split option.split dest!: parked_offer)

lemma social_callback_returns: "return_addresses (snd (snd (SocialCallback d ph e seen provider q h))) \<subseteq> return_addresses h"
proof -
  have take: "return_addresses h1 \<subseteq> return_addresses h" if "take_for e provider key unknown h = (r, h1)" for key unknown r h1
    using that read_addresses(3) [of "now_at e 0" key h] by (auto simp: take_for_def split: prod.splits option.splits if_splits)
  have real: "return_addresses (snd (snd (callbackReal d ph e seen pc provider q h))) \<subseteq> return_addresses h" for pc
    using take by (auto simp: callbackReal_def same_addresses [OF login_parks_nothing] same_addresses [OF parked_world]
      split: prod.split sum.split option.split)
  have stub: "return_addresses (snd (snd (stub_callback d e seen provider q h))) \<subseteq> return_addresses h"
    using take by (auto simp: stub_callback_def same_addresses [OF login_parks_nothing] split: prod.split sum.split)
  show ?thesis using real stub by (simp add: SocialCallback_def split: option.split)
qed

section \<open>Every request\<close>

lemma limited_allowed:
  assumes "only_allowed cfg e h (snd (snd (serve h)))"
  shows "only_allowed cfg e h (snd (snd (phone_limited now ip serve h)))" "only_allowed cfg e h (snd (snd (signup_limited now ip serve h)))"
proof -
  have put: "return_addresses (h'\<lparr>hs_phone_rate := l\<rparr>) = return_addresses h'" "return_addresses (h'\<lparr>hs_signup_rate := l\<rparr>) = return_addresses h'"
    for h' :: "'a hosted" and l by (rule same_addresses, simp)+
  have same: "only_allowed cfg e h (h\<lparr>hs_phone_rate := l\<rparr>)" "only_allowed cfg e h (h\<lparr>hs_signup_rate := l\<rparr>)" for l
    by (rule fewer_allowed, simp add: put)+
  show "only_allowed cfg e h (snd (snd (phone_limited now ip serve h)))" "only_allowed cfg e h (snd (snd (signup_limited now ip serve h)))"
    using assms same unfolding phone_limited_def signup_limited_def limited_def Middleware_def Let_def only_allowed_def
    by (simp_all add: put split: prod.split)
qed

lemma hosted_only_allowed: "only_allowed (aw_cfg d) e h (snd (snd (hosted_router d e r h)))"
proof -
  have "quiet (LoginPage cfg e q s, [], h) h" "quiet (SignupLanding c, [], h) h" for cfg q s c by simp_all
  note quiet = this [THEN quiet_allowed] quiet_owner [THEN quiet_allowed] quiet_staff [THEN quiet_allowed] quiet_funnel [THEN quiet_allowed]
    quiet_enrolment [THEN quiet_allowed] quiet_consoles [THEN quiet_allowed]
  note keeps = phone_verify_returns [THEN fewer_allowed] phone_link_returns [THEN fewer_allowed] social_callback_returns [THEN fewer_allowed]
  have "quiet (PhoneStart cfg e q h) h" for cfg q by (simp add: PhoneStart_def Let_def split: option.split)
  note start = this [THEN quiet_allowed]
  show ?thesis
    by (cases r; simp only: hosted_router.simps;
        (rule quiet keeps start social_start_allowed | (rule limited_allowed, rule quiet phone_submit_allowed)))
qed

lemma step_only_allowed: "only_allowed (aw_cfg d) e h (site_step d e r h)"
proof (cases r)
  case (Core r)
  have "only_allowed cfg e h (h\<lparr>hs_sys := y\<rparr>)" for cfg y by (rule fewer_allowed, rule equalityD1, rule same_addresses) simp
  then show ?thesis by (simp add: Core)
qed (simp add: hosted_only_allowed)


definition demo_social :: social_query where
  "demo_social = \<lparr>oq_tenant_id = ''t1'', oq_redirect_uri = ''https://a/x'', oq_state = [], oq_device_fp = []\<rparr>"


end
