(* ===== verification/AuthnCodes.thy ===== *)
theory AuthnCodes
  imports AuthnSignIn
begin

text \<open>
  How often the code of a text message can be guessed: five times a flow when the requests come one after
  the other, and as often as requests can be made to overlap otherwise.
\<close>

section \<open>Guesses left\<close>

text \<open>The number of codes a parked flow can still be given.\<close>

definition left :: "string \<Rightarrow> 'w hosted \<Rightarrow> nat" where
  "left i h = (case tab_get (hs_otps h) i of None \<Rightarrow> 0 | Some p \<Rightarrow> 1 + (phoneMaxOTP - 1 - po_Attempts p))"

lemma left_bound: "left i h \<le> 5"
  by (simp add: left_def phoneMaxOTP_def split: option.split)

text \<open>A request that gives no flow another guess, and keeps the table a map.\<close>

definition no_more :: "string \<Rightarrow> nat \<Rightarrow> 'w hosted \<Rightarrow> 'w hosted \<Rightarrow> bool" where
  "no_more i n h h' \<longleftrightarrow> (distinct (map fst (hs_otps h)) \<longrightarrow> distinct (map fst (hs_otps h')) \<and> n + left i h' \<le> left i h)"

lemma no_more_trans: "no_more i m h h1 \<Longrightarrow> no_more i n h1 h2 \<Longrightarrow> no_more i (m + n) h h2"
  by (auto simp: no_more_def)

lemma no_more_then: "no_more i 0 h h1 \<Longrightarrow> no_more i n h1 h2 \<Longrightarrow> no_more i n h h2"
  using no_more_trans [of i 0 h h1 n h2] by simp

lemma same_otps: "hs_otps h' = hs_otps h \<Longrightarrow> no_more i 0 h h'"
  by (simp add: no_more_def left_def)

lemma quiet_no_more: "quiet x h \<Longrightarrow> no_more i 0 h (snd (snd x))"
  by (rule same_otps) (simp add: quiet_def parked_flows_def)

lemma tab_get_filter: "distinct (map fst m) \<Longrightarrow> tab_get (filter Q m) i = Some p \<Longrightarrow> tab_get m i = Some p"
  by (auto simp: tab_get_def dest!: map_of_SomeD intro: map_of_is_SomeI)

lemma filter_no_more: "hs_otps h' = filter Q (hs_otps h) \<Longrightarrow> no_more i 0 h h'"
  unfolding no_more_def left_def
  by (auto simp: distinct_map_filter dest: tab_get_filter split: option.split)

lemma distinct_keys:
  "distinct (map fst m) \<Longrightarrow> distinct (map fst (tab_put k r m))" "distinct (map fst m) \<Longrightarrow> distinct (map fst (tab_del k m))"
  by (simp_all add: tab_put_def distinct_update tab_del_def distinct_delete)

lemma drop_no_more: "no_more i 0 h (dropOTP j h)" and left_dropped: "left i (dropOTP i h) = 0"
  by (auto simp: no_more_def left_def dropOTP_def tab_get_del distinct_keys)

lemma gc_no_more: "no_more i 0 h (gc_phone now h)"
  by (rule filter_no_more [where Q = "\<lambda>(k, p). \<not> po_CreatedAt p < now - phoneFlowTTL"]) (simp add: gc_phone_def)

lemma put_no_more: "j \<noteq> i \<Longrightarrow> no_more i 0 h (putOTP now j p h)"
  by (rule no_more_then [OF gc_no_more [of i h now]]) (simp add: no_more_def left_def putOTP_def Let_def tab_get_put distinct_keys)

lemma left_put: "left i (putOTP now i p h) = 1 + (phoneMaxOTP - 1 - po_Attempts p)"
  by (simp add: left_def putOTP_def Let_def tab_get_put)

lemma put_distinct: "distinct (map fst (hs_otps h)) \<Longrightarrow> distinct (map fst (hs_otps (putOTP now i p h)))"
  by (simp add: putOTP_def gc_phone_def Let_def distinct_keys distinct_map_filter)

lemma link_no_more:
  "no_more i 0 h (putLink now j k h)" "no_more i 0 h (dropLink j h)" "currentLink now jar h = (r, h') \<Longrightarrow> no_more i 0 h h'"
proof -
  show "no_more i 0 h (putLink now j k h)"
    by (rule no_more_then [OF gc_no_more [of i h now]], rule same_otps) (simp add: putLink_def Let_def)
  show "no_more i 0 h (dropLink j h)" by (rule same_otps) (simp add: dropLink_def)
  show "currentLink now jar h = (r, h') \<Longrightarrow> no_more i 0 h h'"
    by (rule same_otps) (auto simp: currentLink_def getLink_def dropLink_def Let_def split: if_splits option.splits)
qed

section \<open>Checking a code\<close>

text \<open>A request has the provider check a code of the flow, and gets a verdict.\<close>

definition code_checked :: "string \<Rightarrow> 'w otp_verifier \<Rightarrow> authn_env \<Rightarrow> code_submission option \<Rightarrow> 'w hosted \<Rightarrow> bool" where
  "code_checked i v e form h \<longleftrightarrow>
     (case form of
        None \<Rightarrow> False
      | Some f \<Rightarrow> cs_flow f = i \<and> (case fst (phone_check v e f h) of Inl reply \<Rightarrow> False | Inr p \<Rightarrow> True))"

lemma checked:
  assumes "phone_check v e f h = (r, h')"
  shows "no_more i 0 h h'" and "r = Inr (p, ok) \<Longrightarrow> tab_get (hs_otps h) (cs_flow f) = Some p \<and> hs_otps h' = hs_otps h"
proof -
  obtain q h1 where got: "getOTP (now_at e 0) (cs_flow f) h = (q, h1)" by (cases "getOTP (now_at e 0) (cs_flow f) h")
  have first: "no_more i 0 h h1"
    using got drop_no_more [of i h "cs_flow f"] same_otps [of h h i] by (auto simp: getOTP_def split: option.splits if_splits)
  have ask: "hs_otps h2 = hs_otps h1" if "ask_world g h1 = (a, h2)" for g :: "'a \<Rightarrow> (sms_err + bool) \<times> 'a" and a h2
    using parked_world [OF that] by (simp add: parked_flows_def)
  show "no_more i 0 h h'"
    using assms got no_more_then [OF first same_otps] ask first
    by (auto simp: phone_check_def split: option.splits prod.splits sum.splits)
  show "r = Inr (p, ok) \<Longrightarrow> tab_get (hs_otps h) (cs_flow f) = Some p \<and> hs_otps h' = hs_otps h"
    using assms got ask by (auto simp: phone_check_def getOTP_def split: option.splits prod.splits sum.splits if_splits)
qed

lemma wrong_no_more:
  assumes "tab_get (hs_otps h) j = Some p"
  shows "no_more i (of_bool (j = i)) h (snd (snd (wrong_code e j p h)))"
proof (cases "j = i")
  case True
  have old: "left i h = 1 + (phoneMaxOTP - 1 - po_Attempts p)" using assms True by (simp add: left_def)
  show ?thesis
    using old drop_no_more [of i h i]
    by (auto simp: wrong_code_def Let_def no_more_def True left_dropped left_put put_distinct)
next
  case False
  then show ?thesis by (simp add: wrong_code_def Let_def drop_no_more put_no_more)
qed

lemma signed_in_no_more: "no_more i 0 h (snd (snd (phone_signed_in cfg e seen fp p u h)))"
proof -
  have sys: "no_more i 0 h (with_store s h\<lparr>hs_sys := y\<rparr>)" for s y by (rule same_otps) (simp add: with_store_def)
  show ?thesis
    using sys no_more_then [OF sys link_no_more(1)] same_otps [of h h i] by (simp add: phone_signed_in_def Let_def)
qed

lemma right_no_more:
  assumes "tab_get (hs_otps h) j = Some p" "cs_flow f = j"
  shows "no_more i (of_bool (j = i)) h (snd (snd (phone_conclude cfg e seen f (p, True) h)))"
proof -
  define n :: nat where "n = of_bool (j = i)"
  have "no_more i n h (dropOTP j h)"
    using assms(1) drop_no_more [of i h j] by (auto simp: n_def no_more_def left_dropped) (simp add: left_def)
  then have drop: "no_more i n h (with_store s (dropOTP j h))" for s
    by (simp add: no_more_def left_def with_store_def)
  show ?thesis
    unfolding n_def [symmetric]
    using drop no_more_trans [OF drop signed_in_no_more] assms(2)
    by (simp add: phone_conclude_def Let_def split: sum.split prod.split)
qed

lemma verify_no_more: "no_more i (of_bool (code_checked i v e form h)) h (snd (snd (PhoneVerify v cfg e seen form h)))"
proof (cases form)
  case None
  then show ?thesis by (simp add: PhoneVerify_def code_checked_def same_otps)
next
  case (Some f)
  obtain r h1 where check: "phone_check v e f h = (r, h1)" by (cases "phone_check v e f h")
  show ?thesis
  proof (cases r)
    case (Inl reply)
    then show ?thesis using checked(1) [OF check] by (simp add: PhoneVerify_def code_checked_def Some check)
  next
    case (Inr x)
    obtain p ok where x: "x = (p, ok)" by (cases x)
    have flow: "tab_get (hs_otps h1) (cs_flow f) = Some p" and same: "hs_otps h1 = hs_otps h"
      using checked(2) [OF check] Inr x by simp_all
    have "no_more i (of_bool (cs_flow f = i)) h1 (snd (snd (phone_conclude cfg e seen f x h1)))"
    proof (cases ok)
      case True
      then show ?thesis using right_no_more [OF flow refl] x by simp
    next
      case False
      then show ?thesis using wrong_no_more [OF flow] x by (simp add: phone_conclude_def)
    qed
    then show ?thesis
      using no_more_then [OF same_otps [OF same]] by (simp add: PhoneVerify_def code_checked_def Some check Inr)
  qed
qed

section \<open>Every request\<close>

lemma phone_link_no_more:
  "no_more i 0 h (snd (snd (PhoneLinkStart cfg e jar h)))" "no_more i 0 h (snd (snd (PhoneLinkCallback cfg e jar q h)))"
  "no_more i 0 h (snd (snd (PhoneSkip cfg e jar h)))"
proof -
  obtain r h1 where got: "currentLink (now_at e 0) jar h = (r, h1)" by (cases "currentLink (now_at e 0) jar h")
  note first = link_no_more(3) [OF got, of i]
  have drop: "no_more i 0 h (dropLink j h1)" "no_more i 0 h (dropLink j (with_store s h1))" for j s
    by (rule no_more_then [OF first], rule same_otps, simp add: dropLink_def with_store_def)+
  have finish: "no_more i 0 h (snd (snd (finishLink cfg k w h1)))" for k w using drop(1) by (simp add: finishLink_def Let_def)
  have email: "no_more i 0 h (snd (snd (link_email cfg e k m h1)))" for k m
    using first finish drop(2) by (auto simp: link_email_def split: option.split sum.split)
  show "no_more i 0 h (snd (snd (PhoneLinkStart cfg e jar h)))"
    using first no_more_then [OF first link_no_more(1)] by (simp add: PhoneLinkStart_def got Let_def split: option.split)
  show "no_more i 0 h (snd (snd (PhoneLinkCallback cfg e jar q h)))"
    using first finish email by (simp add: PhoneLinkCallback_def got Let_def split: option.split)
  show "no_more i 0 h (snd (snd (PhoneSkip cfg e jar h)))"
    using first drop(1) by (simp add: PhoneSkip_def got split: option.split)
qed

lemma social_no_more:
  "no_more i 0 h (snd (snd (SocialAuthorize cfg e provider q h)))" "no_more i 0 h (snd (snd (SocialCallback d ph e seen provider cq h)))"
proof -
  have complete: "hs_otps (snd (snd (completeLogin d e seen p profile h1))) = hs_otps h1" for p profile and h1 :: "'a hosted"
    using login_parks_nothing [of d e seen p profile h1] by (simp add: parked_flows_def)
  have take: "hs_otps h1 = hs_otps h" if "take_for e provider key unknown h = (r, h1)" for key unknown r h1
    using that by (auto simp: take_for_def takePending_def split: prod.splits option.splits if_splits)
  have ask: "hs_otps h2 = hs_otps h1" if "ask_world g h1 = (a, h2)" for g :: "'a \<Rightarrow> SocialProfile option \<times> 'a" and a h1 h2
    using parked_world [OF that] by (simp add: parked_flows_def)
  show "no_more i 0 h (snd (snd (SocialAuthorize cfg e provider q h)))"
    by (rule same_otps) (simp add: SocialAuthorize_def authorizeReal_def storePending_def Let_def split: option.split)
  have "hs_otps (snd (snd (callbackReal d ph e seen pc provider cq h))) = hs_otps h" for pc
    by (auto simp: callbackReal_def complete dest!: take ask split: prod.split sum.split option.split)
  moreover have "hs_otps (snd (snd (stub_callback d e seen provider cq h))) = hs_otps h"
    by (auto simp: stub_callback_def complete dest!: take split: prod.split sum.split)
  ultimately show "no_more i 0 h (snd (snd (SocialCallback d ph e seen provider cq h)))"
    by (intro same_otps) (simp add: SocialCallback_def split: option.split)
qed

lemma submit_no_more:
  assumes "new_id e 0 \<noteq> i"
  shows "no_more i 0 h (snd (snd (PhoneSubmit v cfg e f h)))"
proof -
  have park: "no_more i 0 h (putOTP now (new_id e 0) p h')"
    if "ask_world g h = (r, h')" for g :: "'a \<Rightarrow> sms_err option \<times> 'a" and r h' now p
    by (rule no_more_then [OF same_otps put_no_more [OF assms]]) (use parked_world [OF that] in \<open>simp add: parked_flows_def\<close>)
  have ask: "no_more i 0 h h'" if "ask_world g h = (r, h')" for g :: "'a \<Rightarrow> sms_err option \<times> 'a" and r h'
    by (rule same_otps) (use parked_world [OF that] in \<open>simp add: parked_flows_def\<close>)
  have "no_more i 0 h (snd (snd (submit_number v cfg e t u st m h)))" for t u st m
  proof -
    obtain r h1 where got: "ask_world (ov_Start v m) h = (r, h1)" by (cases "ask_world (ov_Start v m) h")
    show ?thesis using same_otps [of h h i] park [OF got] ask [OF got] by (simp add: submit_number_def got split: got.split option.split)
  qed
  then show ?thesis using same_otps [of h h i] by (simp add: PhoneSubmit_def Let_def split: option.split)
qed

lemma limited_no_more:
  assumes "no_more i 0 h (snd (snd (serve h)))"
  shows "no_more i 0 h (snd (snd (phone_limited now ip serve h)))" "no_more i 0 h (snd (snd (signup_limited now ip serve h)))"
proof -
  have put: "no_more i 0 h (h'\<lparr>hs_phone_rate := l\<rparr>) = no_more i 0 h h'" "no_more i 0 h (h'\<lparr>hs_signup_rate := l\<rparr>) = no_more i 0 h h'"
    for h' l by (simp_all add: no_more_def left_def)
  show "no_more i 0 h (snd (snd (phone_limited now ip serve h)))" "no_more i 0 h (snd (snd (signup_limited now ip serve h)))"
    using assms same_otps [of h h i] unfolding phone_limited_def signup_limited_def limited_def Middleware_def Let_def
    by (cases "serve h"; simp add: put split: prod.split)+
qed

text \<open>The verdict a request of the service gets about a code of the flow.\<close>

fun code_event :: "('w, 'p) authn_site \<Rightarrow> string \<Rightarrow> authn_env \<Rightarrow> site_route \<Rightarrow> 'w hosted \<Rightarrow> bool" where
  "code_event d i e (Hosted (WPhoneVerify seen f)) h = code_checked i (hd_sms (aw_hosted d)) e f h"
| "code_event d i e r h = False"

fun codes_checked :: "('w, 'p) authn_site \<Rightarrow> string \<Rightarrow> (authn_env \<times> site_route) list \<Rightarrow> 'w hosted \<Rightarrow> nat" where
  "codes_checked d i [] h = 0"
| "codes_checked d i ((e, r) # evs) h = of_bool (code_event d i e r h) + codes_checked d i evs (site_step d e r h)"

lemma hosted_no_more:
  assumes "new_id e 0 \<noteq> i"
  shows "no_more i (of_bool (code_event d i e (Hosted r) h)) h (snd (snd (hosted_router d e r h)))"
proof -
  have "quiet (LoginPage cfg e q s, [], h) h" "quiet (SignupLanding c, [], h) h" "quiet (PhoneStart cfg e q h) h" for cfg q s c
    by (simp_all add: PhoneStart_def Let_def split: option.split)
  note quiet = this [THEN quiet_no_more] quiet_owner [THEN quiet_no_more] quiet_staff [THEN quiet_no_more] quiet_funnel [THEN quiet_no_more]
    quiet_enrolment [THEN quiet_no_more] quiet_consoles [THEN quiet_no_more]
  show ?thesis
    by (cases r; simp only: hosted_router.simps code_event.simps of_bool_eq;
        (rule quiet phone_link_no_more social_no_more verify_no_more
         | (rule limited_no_more, rule quiet submit_no_more [OF assms])))
qed

lemma step_no_more: "new_id e 0 \<noteq> i \<Longrightarrow> no_more i (of_bool (code_event d i e r h)) h (site_step d e r h)"
proof (cases r)
  case (Core c)
  have "no_more i 0 h (h\<lparr>hs_sys := y\<rparr>)" for y by (rule same_otps) simp
  then show ?thesis by (simp add: Core)
qed (simp add: hosted_no_more)

text \<open>
  C23. The code of a text message is checked at most five times: whatever requests follow, in whatever order,
  the provider gives at most five verdicts for one flow, provided that no later flow is given its id.
\<close>

theorem codes_are_guessed_five_times:
  assumes "distinct (map fst (hs_otps h))" "\<forall>(e, r) \<in> set evs. new_id e 0 \<noteq> i"
  shows "codes_checked d i evs h \<le> 5"
proof -
  have "codes_checked d i evs h \<le> left i h"
    using assms
  proof (induction evs arbitrary: h)
    case (Cons ev evs)
    obtain e r where ev: "ev = (e, r)" by (cases ev)
    have "no_more i (of_bool (code_event d i e r h)) h (site_step d e r h)" using Cons.prems(2) ev by (intro step_no_more) simp
    then show ?case using Cons.IH [of "site_step d e r h"] Cons.prems ev by (simp add: no_more_def)
  qed simp
  then show ?thesis using left_bound [of i h] by linarith
qed

definition demo_flow :: pendingPhoneOTP where
  "demo_flow =
     \<lparr>po_TenantID = ''t1'', po_Phone = ''+12345678'', po_RedirectURI = ''https://a/x'', po_State = [], po_IsNew = True,
      po_Attempts = 0, po_CreatedAt = 0\<rparr>"

definition demo_code :: "string \<Rightarrow> code_submission" where
  "demo_code c = \<lparr>cs_flow = ''f'', cs_code = c, cs_device_fp = []\<rparr>"

definition demo_seen :: client_seen where
  "demo_seen = \<lparr>sn_IP = [], sn_UserAgent = []\<rparr>"

lemmas demo_code_defs = demo_flow_def demo_code_def demo_seen_def demo_hosted_def demo_site_def demo_site_deps_def demo_sms_def
  demo_authn_env_def

text \<open>Of six wrong codes five are checked.\<close>

lemma codes_are_guessed_five_times_witness:
  "codes_checked demo_site ''f'' (replicate 6 (demo_authn_env 5, Hosted (WPhoneVerify demo_seen (Some (demo_code ''2'')))))
     (demo_hosted\<lparr>hs_otps := [(''f'', demo_flow)]\<rparr>) \<le> 5"
  by (rule codes_are_guessed_five_times) (simp_all add: demo_authn_env_def)

lemma demo_codes_checked:
  "codes_checked demo_site ''f'' (replicate 6 (demo_authn_env 5, Hosted (WPhoneVerify demo_seen (Some (demo_code ''2'')))))
     (demo_hosted\<lparr>hs_otps := [(''f'', demo_flow)]\<rparr>) = 5"
proof -
  have "TrimSpace ''2'' = ''2''" by code_simp
  then show ?thesis
    by (simp add: numeral_eq_Suc code_checked_def phone_check_def PhoneVerify_def phone_conclude_def wrong_code_def getOTP_def putOTP_def
        gc_phone_def dropOTP_def tab_get_def tab_put_def tab_del_def ask_world_def phoneMaxOTP_def phoneFlowTTL_def Minute_def Second_def
        Let_def demo_code_defs)
qed

section \<open>Overlapping checks\<close>

text \<open>
  Nothing is locked between reading a flow and writing its attempts: here every request has had its code
  checked before the first one goes on.
\<close>

fun checks :: "'w otp_verifier \<Rightarrow> authn_env \<Rightarrow> code_submission list \<Rightarrow> 'w hosted \<Rightarrow>
    (hosted_reply + pendingPhoneOTP \<times> bool) list \<times> 'w hosted" where
  "checks v e [] h = ([], h)"
| "checks v e (f # fs) h = (let (r, h) = phone_check v e f h; (rs, h) = checks v e fs h in (r # rs, h))"

fun conclusions :: "hosted_cfg \<Rightarrow> authn_env \<Rightarrow> client_seen \<Rightarrow> (code_submission \<times> (hosted_reply + pendingPhoneOTP \<times> bool)) list \<Rightarrow>
    'w hosted \<Rightarrow> 'w hosted" where
  "conclusions cfg e seen [] h = h"
| "conclusions cfg e seen ((f, Inl reply) # rs) h = conclusions cfg e seen rs h"
| "conclusions cfg e seen ((f, Inr p) # rs) h = conclusions cfg e seen rs (snd (snd (phone_conclude cfg e seen f p h)))"

definition overlapped :: "'w otp_verifier \<Rightarrow> hosted_cfg \<Rightarrow> authn_env \<Rightarrow> client_seen \<Rightarrow> code_submission list \<Rightarrow> 'w hosted \<Rightarrow>
    (hosted_reply + pendingPhoneOTP \<times> bool) list \<times> 'w hosted" where
  "overlapped v cfg e seen fs h = (let (rs, h) = checks v e fs h in (rs, conclusions cfg e seen (zip fs rs) h))"



end
