(* ===== verification/AuthnHostedGaps.thy ===== *)
theory AuthnHostedGaps
  imports AuthnCodes
begin

text \<open>
  What opening a workspace gives away: the id of the new tenant is derived from the name, and only names
  of registered workspaces are refused, not the tenants that the service itself uses without registering
  them.
\<close>

section \<open>Whose tenant it becomes\<close>

definition claimed_slug :: "'w hosted_deps \<Rightarrow> cookies \<Rightarrow> string" where
  "claimed_slug d jar =
     slugify (ag_unicode_lower (hg_authn (hd_cfg d)))
       (si_Company (read_intent (ag_jwt (hg_authn (hd_cfg d))) (cookieValue jar signupIntentCookie)))"

lemma tab_rows_put_new: "tab_get m k = None \<Longrightarrow> tab_rows (tab_put k r m) = tab_rows m @ [r]"
proof -
  have "map snd (AList.update k r m) = map snd m @ [r]" if "map_of m k = None"
    using that by (induction m) (auto split: if_splits)
  then show "tab_get m k = None \<Longrightarrow> tab_rows (tab_put k r m) = tab_rows m @ [r]"
    by (simp add: tab_get_def tab_rows_def tab_put_def)
qed

lemma provisioned:
  assumes "ProvisionTenant t owner sess client s = Inr s'"
  shows "GetTenant (tn_ID t) s' = Some (t\<lparr>tn_FidoEnabled := True\<rparr>)" "at_users s' = tab_put (us_ID owner) owner (at_users s)"
    "at_sessions s' = tab_put (ss_ID sess) sess (at_sessions s)"
  using assms
  by (auto simp: ProvisionTenant_def PutClient_def CreateSession_def put_user_def put_tenant_def GetTenant_def tab_get_put split: if_splits)

lemma provision_effect:
  fixes h :: "'w hosted" and d cs intent
  assumes "\<not> op_fails e AProvision" "\<not> slug_taken slug (hs_store h)"
    "\<not> list_ex (\<lambda>u. us_TenantID u = ''ten_'' @ slug \<and> us_Email u = email) (tab_rows (at_users (hs_store h)))"
    "tab_get (at_users (hs_store h)) (''usr_'' @ new_id e 0) = None"
  defines "s' \<equiv> hs_store (snd (snd (provision d e intent slug email cs h)))"
  shows "map_option tn_OwnerEmail (GetTenant (''ten_'' @ slug) s') = Some email"
    and "tab_rows (at_users s') = tab_rows (at_users (hs_store h)) @ [new_owner e (''ten_'' @ slug) email]"
    and "SetCookie ownerSessionCookie (bound_session (''ten_'' @ slug) (''ses_'' @ new_id e 1))
      \<in> set (fst (snd (provision d e intent slug email cs h)))"
proof -
  let ?t = "''ten_'' @ slug"
  obtain s1 where made: "ProvisionTenant (new_tenant e ?t (si_Company intent) slug email) (new_owner e ?t email)
      (login_session (new_id e 1) ?t (us_ID (new_owner e ?t email)) (now_at e 1)) (new_client (hd_cfg d) e ?t (si_Redirect intent))
      (hs_store h) = Inr s1"
    using assms(2,3) by (simp add: ProvisionTenant_def new_tenant_def new_owner_def del: append.simps)
  obtain r h2 where offer: "mdl_offer d ?t (ss_ID (login_session (new_id e 1) ?t (us_ID (new_owner e ?t email)) (now_at e 1)))
      (with_store s1 h) = (r, h2)" by (cases "mdl_offer d ?t (ss_ID (login_session (new_id e 1) ?t (us_ID (new_owner e ?t email)) (now_at e 1)))
      (with_store s1 h)")
  have s': "s' = s1"
    using mdl_offer_store [OF offer] made offer assms(1)
    by (simp add: s'_def provision_def Let_def del: append.simps split: option.split prod.split)
  show "map_option tn_OwnerEmail (GetTenant ?t s') = Some email"
    using provisioned(1) [OF made] by (simp add: s' new_tenant_def del: append.simps)
  show "tab_rows (at_users s') = tab_rows (at_users (hs_store h)) @ [new_owner e ?t email]"
    using provisioned(2) [OF made] assms(4) by (simp add: s' new_owner_def tab_rows_put_new del: append.simps)
  show "SetCookie ownerSessionCookie (bound_session ?t (''ses_'' @ new_id e 1)) \<in> set (fst (snd (provision d e intent slug email cs h)))"
    using made offer assms(1)
    by (simp add: provision_def Let_def owner_cookie_def login_session_def session_for_def del: append.simps split: option.split prod.split)
qed


section \<open>The staff console\<close>

text \<open>
  An attack: an account without any rights opens the workspace "Admin", allows sign-in by phone there,
  gives the member of staff a number of its own, and signs in with the code it is sent.
\<close>

definition attack_env :: "char \<Rightarrow> authn_env" where
  "attack_env k = (demo_authn_env 5)\<lparr>new_id := \<lambda>n. k # replicate n (CHR ''x'')\<rparr>"

definition attack_signup :: "cookies \<times> return_query" where
  "attack_signup = ([(signupStateCookie, ''x''), (signupIntentCookie, ''YQ'')], \<lparr>rq_state = ''x'', rq_session_id = ''sg''\<rparr>)"

definition attack_owner :: cookies where
  "attack_owner = [(ownerSessionCookie, ''ten_admin|ses_ax'')]"

definition attack :: "(authn_env \<times> site_route) list" where
  "attack =
     [(attack_env (CHR ''a''), Hosted (WSignedUp (fst attack_signup) (snd attack_signup))),
      (attack_env (CHR ''b''), Hosted (WOwner OPhoneLogin attack_owner (Some [(''enabled'', ''true'')]))),
      (attack_env (CHR ''c''), Hosted (WOwner OUserPhone attack_owner (Some [(''user_id'', ''us''), (''phone'', ''+12345678'')]))),
      (attack_env (CHR ''d''), Hosted (WPhoneSubmit \<lparr>cx_Forwarded = [], cx_Remote = ''r''\<rparr>
         (Some \<lparr>pf_tenant_id = ''ten_admin'', pf_redirect_uri = ''https://a/x'', pf_state = [], pf_phone = ''+12345678''\<rparr>))),
      (attack_env (CHR ''e''), Hosted (WPhoneVerify demo_seen (Some \<lparr>cs_flow = ''d'', cs_code = ''1'', cs_device_fp = []\<rparr>)))]"



end
