(* ===== verification/Spec2Isabelle.thy ===== *)
theory Spec2Isabelle
  imports Deployment Delegation AuthnGaps AuthnOwnerProps AuthnStaffProps AuthnHostedGaps
begin

text \<open>
  x-auth: the step-up authentication core and the agent identity broker, as HOL functions with the
  theorems that make them correct.

  The program.  x-auth is a set of Go services that talk over HTTP.  The step-up core is
  transaction-service (decides whether an action may proceed), which asks risk-service (scores the
  request and applies policies), authentication-service (sessions) and authenticator-service (second
  factors and challenges).  authentication-service is also an OpenID Connect provider: /authorize with its
  step-up interlude, /token with four grants, /userinfo.  The agent identity broker is broker-service (OAuth endpoints that bind an
  install to an agent identity), which asks persona-service (what an agent may do), pool-service (the
  identities) and grant-service (tokens and audit).  pkg holds what they share.

  How the code is modelled.  A handler is a function from what the request reads from outside (clock,
  fresh uuids, which storage calls fail: an \<open>env\<close> record), the decoded request and the state to the
  reply and the new state; every early return is a branch.  The state is a record of tables, association
  lists as the in-memory stores' Go maps.  A reply is a status with a payload (type \<open>reply\<close>).  A router
  composes the handlers behind the gates of pkg/httpx and pkg/tenantx.  One request is one step, except
  where the code releases its lock between two accesses: there the two halves are functions of their
  own (\<open>verify_admit\<close> and \<open>verify_commit\<close>, \<open>refresh_with\<close> and \<open>refresh_rotate\<close>,
  \<open>refresh_grant_read\<close> and \<open>refresh_grant_write\<close>) and the theorems
  about interleavings run the halves separately.  Runs are lists of events, folded by a \<open>run\<close> function.
  Calls to a sister service go through a record of functions over a world \<open>'w\<close>, so the client's theorems
  hold for any peer; Deployment and Delegation then take the peers' own models for \<open>'w\<close>.

  Shared theories.
  \<^item> XBase: strings, tables, Go's sort and page cut, and the locales for tables, listings and paging.
  \<^item> XTime: instants and durations in nanoseconds as \<open>int\<close>; XCodec: hex and base64url.
  \<^item> XWire: JSON values, Go's lenient and strict struct decoding, \<open>ReadJSON\<close> with its 1 MiB bound,
    replies, \<open>InternalAuth\<close> and the tenant middleware (src/pkg/httpx, src/pkg/tenantx).
  \<^item> RateLimit: src/pkg/ratex, the sliding-window limiter and the Redis limiter around its script.
  \<^item> Jwt: src/pkg/jwtx, RS256 signing and verification and the key set document.
  \<^item> XService: what the four services of the broker share.

  The step-up core.
  \<^item> AuthrModel, AuthrAbuse, AuthrAdapters, AuthrService: authenticator-service (models.go, storage.go;
    abuse.go; adapters.go, webauthn.go and src/pkg/smsx; the handlers).  AuthrProps: the attempts of a
    challenge are bounded in any interleaving, success needs a pending, unexpired challenge and the
    adapter's consent, the requests refine the abstract challenge lifecycle, tenants are isolated.
  \<^item> RiskModel, RiskEngine, RiskService: risk-service (models.go, storage.go; scorers.go, aggregator.go,
    policy.go; handlers.go, caep.go).  RiskProps: an evaluation is the pipeline's result, the policy
    overlay refines its specification, security events do not depend on their order.
  \<^item> TxnModel, TxnClients, TxnService: transaction-service (models.go, storage.go; clients.go; the
    handlers).  TxnLife: the life of a transaction.  TxnProps: advice and authorize refine their
    specifications, decisions settle, a step-up is satisfied only after a verification.
  \<^item> Deployment: transaction-service's clients over the models of risk-service and authenticator-service;
    the strict decoding of the callees refuses what the clients send.

  The OpenID Connect provider.
  \<^item> AuthnModel: authentication-service's records and in-memory store (models.go, device_signals.go,
    flowmodels.go, storage.go).  AuthnAdmin: users.go and sessions.go.  AuthnTokens: the code and refresh
    grants, revocation and userinfo of oidc.go.  AuthnIDJAG: idjag.go, idjag_redemption.go and /token.
  \<^item> AuthnClients: clients.go, risk_client.go.  AuthnStepUp: protection.go, stepup_tracker.go, caep.go and
    the parked requests of otp.go.  AuthnVerify: device_analyzer.go, sessions_view.go, webauthn_stepup.go
    and the verification page of otp.go.  AuthnFlow: the flow engine (flowexec.go, flowstages.go,
    flow_build.go, flow_examples.go, policy/policy.go).  AuthnService: /authorize, advice.go and the router
    of handlers.go.
  \<^item> AuthnFlowProps: the built-in flow is the branch it replaced, validated flows answer.  AuthnStepProps:
    codes are minted only after a verification or for a session that has earned them.  AuthnKeeps: the
    locale \<open>storage_property\<close>, what a property of the store must withstand, and the theorem that
    every history of requests then keeps it.  AuthnTyped, AuthnTokenProps, AuthnGrantProps: its
    interpretations: well-typed stores, dead token families, spent codes, burnt assertions.
    AuthnGaps: client authentication, the deny list and overlapping session updates.

  The hosted pages of authentication-service, next to its core routes: sign-in by phone or provider,
  workspaces with their owner's dashboard, the staff and the developer console.  A handler takes the
  browser's cookies and returns the reply, the cookies to set or delete, and the new state; a page is
  what it shows (type \<open>hosted_payload\<close>), not its HTML.
  \<^item> AuthnPages: cookies, replies, the parked state, redirect rules, the chooser (login_console.go).
    AuthnPhone: phone_login.go.  AuthnEnroll: id_client.go, mdl_proof.go, enroll_mdl.go.  AuthnSocial:
    social.go, social_provider.go.
  \<^item> AuthnOwner, AuthnOwnerOps: signup_console.go, flows_console.go, quickstart.go, branding.go and the
    rows of sessions_view.go and identities_view.go.  AuthnStaff: admin_console.go, developer_console.go.
    AuthnHosted: the hosted routes of handlers.go and histories of requests to the whole service.
  \<^item> AuthnSiteKeeps: the locale \<open>site_property\<close> extends \<open>storage_property\<close> to the hosted pages.
    AuthnRegistry: its two interpretations, well-typed storage and a well-formed registry.
    AuthnOwnerProps: an owner writes only rows of their own workspace.  AuthnStaffProps: the gate of the
    staff console and the accounts at start-up.  AuthnSignIn: where parked sign-ins return to.
    AuthnCodes: the guesses at a texted code, one after the other and overlapping.  AuthnHostedGaps: what
    opening a workspace gives away.  AuthnSiteDemo: a small deployment at which these properties are applied.

  The agent identity broker.
  \<^item> PersonaService: persona-service.  PoolService, PoolProps: pool-service, the atomic claim and the
    exclusiveness of a claimed identity.  GrantService, GrantProps: grant-service, permanence of a
    revocation, exact introspection and the audit log.
  \<^item> BrokerModel, BrokerService: broker-service (models.go, storage.go, clients.go; oidc.go, install.go,
    dcr.go, handlers.go).  BrokerLife: the abstract moves of the store, that they keep its invariant, and
    what a spent refresh token and a dead install are.  BrokerSteps: every event is made of such moves.
    BrokerProps, BrokerTokens: codes and refresh tokens are single-use, a replay kills the install, a
    revoked token stays dead, and where the code falls short of its comments.
  \<^item> BrokerSaga: the code grant as a saga over the locale \<open>identity_service\<close>, all or nothing.
    Delegation: the broker's clients over the models of its three services, which implement the locale.

  Interfaces.  The locales \<open>tenant_rows\<close> and \<open>tenant_rows_update\<close> (XBase) are interpreted by the tables
  of every service, \<open>keyset_listing\<close> by every listing, \<open>lifecycle\<close> by the life of challenges and
  transactions, \<open>allower\<close> (RateLimit) by the limiters, \<open>storage_property\<close> (AuthnKeeps) by the
  properties above, \<open>site_property\<close> (AuthnSiteKeeps) by typing and the registry, and \<open>identity_service\<close> (BrokerSaga) by the composed
  broker; the properties rest on the interpretations' facts.

  Bounds and termination.  All functions are total; recursion is structural or has a measure, and no fuel
  is used.  Go's int64 durations and counters are \<open>int\<close>: the values the code computes stay far below
  2 ^ 63 for clocks of this century.  Scores are exact rationals; RiskEngine shows that no rounding of the
  size of float64's can change a tier.

  Parameters.  SHA-256, RSA, the text form of JSON, random bytes, Twilio, go-webauthn, Redis and the
  network are arguments of the definitions that use them; the theorems that need a law of them (a
  signature verifies, a digest has 32 bytes) name it as a hypothesis, and the witnesses give instances.

  Not modelled.  The Postgres stores (SQL run by a database: the handlers branch on storage faults
  instead), TLS and configuration, process start, logging and metrics, discovery documents and the mcp.go
  stub, which are constants.  Of authentication-service: the HTML, style sheets and templates of the
  pages, the monitoring tab of the staff console, CORS headers, and the seeding of clients from the
  environment.  fido-service and id-service are not modelled; the client of id-service is, over the
  network parameter.  The policy language of the flow engine is a parameter (\<open>policy_engine\<close>).
\<close>

end
